(* ===== verification/Prelude.thy ===== *)
theory Prelude
  imports Complex_Main "HOL-Library.AList"
begin

text \<open>
  Shared vocabulary of the development.

  \<^item> \<open>exn\<close>: the exceptions the modelled code raises, with their message and, for
    payment and invoice errors, the status the HTTP layer reports.
  \<^item> \<open>py\<close>: a Python coroutine or method that may change a state and may raise. The state
    reached so far survives an exception, as it does in the code (a committed SQL statement is
    not undone by a later \<open>raise\<close>), so the result is a pair of an outcome and a state.
  \<^item> dictionaries are association lists in insertion order (\<open>AList.update\<close> replaces in place or
    appends at the end, as a Python dict does);
  \<^item> the string operations of the standard library that the code uses, on ASCII strings.
\<close>

section \<open>Exceptions and the state-and-exception monad\<close>

datatype exn =
    PaymentError string string
  | InvoiceError string string
  | ValueError string
  | UnsupportedError
  | HTTPException nat string
  | KeyError
  | ZeroDivisionError
  | PermissionError string
  | LnurlError string string
  | OtherError string

type_synonym ('s, 'a) py = "'s \<Rightarrow> (exn + 'a) \<times> 's"

named_theorems py_unfold \<open>definitions of the effect combinators\<close>

definition ret :: "'a \<Rightarrow> ('s, 'a) py" where
  [py_unfold]: "ret x s = (Inr x, s)"

definition throw :: "exn \<Rightarrow> ('s, 'a) py" where
  [py_unfold]: "throw e s = (Inl e, s)"

definition bindP :: "('s, 'a) py \<Rightarrow> ('a \<Rightarrow> ('s, 'b) py) \<Rightarrow> ('s, 'b) py" where
  "bindP m k s = (case m s of (Inl e, s') \<Rightarrow> (Inl e, s') | (Inr x, s') \<Rightarrow> k x s')"

text \<open>\<open>thenP\<close>: sequencing that ignores the value of the first action.\<close>

definition thenP :: "('s, 'a) py \<Rightarrow> ('s, 'b) py \<Rightarrow> ('s, 'b) py" where
  "thenP m k = bindP m (\<lambda>_. k)"

definition gets :: "('s \<Rightarrow> 'a) \<Rightarrow> ('s, 'a) py" where
  [py_unfold]: "gets f s = (Inr (f s), s)"

definition modify :: "('s \<Rightarrow> 's) \<Rightarrow> ('s, unit) py" where
  [py_unfold]: "modify f s = (Inr (), f s)"

text \<open>\<open>failIf b e\<close> is \<open>if b: raise e\<close>.\<close>

definition failIf :: "bool \<Rightarrow> exn \<Rightarrow> ('s, unit) py" where
  [py_unfold]: "failIf b e = (if b then throw e else ret ())"

text \<open>\<open>tryP m h\<close> is \<open>try: m except Exception: h\<close>; the handler starts in the state \<open>m\<close> left.\<close>

definition tryP :: "('s, 'a) py \<Rightarrow> (exn \<Rightarrow> ('s, 'a) py) \<Rightarrow> ('s, 'a) py" where
  "tryP m h s = (case m s of (Inl e, s') \<Rightarrow> h e s' | (Inr x, s') \<Rightarrow> (Inr x, s'))"

text \<open>A pure result lifted into the monad.\<close>

definition liftE :: "exn + 'a \<Rightarrow> ('s, 'a) py" where
  [py_unfold]: "liftE r s = (r, s)"

text \<open>\<open>forP xs f\<close> is \<open>for x in xs: f(x)\<close>, left at the first exception.\<close>

primrec forP :: "'a list \<Rightarrow> ('a \<Rightarrow> ('s, unit) py) \<Rightarrow> ('s, unit) py" where
  "forP [] f = ret ()"
| "forP (x # xs) f = bindP (f x) (\<lambda>_. forP xs f)"

lemma bindP_simps [simp]:
  "bindP (ret x) k = k x"
  "bindP (throw e) k = throw e"
  "bindP (gets f) k s = k (f s) s"
  "bindP (modify g) k' s = k' () (g s)"
  "bindP (liftE (Inl e)) k = throw e"
  "bindP (liftE (Inr x)) k = k x"
  by (auto simp: bindP_def fun_eq_iff py_unfold)

lemma thenP_simps [simp]:
  "thenP (ret x) k = k"
  "thenP (throw e) k = throw e"
  "thenP (gets f) k = k"
  "thenP (modify g) k s = k (g s)"
  "thenP (liftE (Inl e)) k = throw e"
  "thenP (liftE (Inr x)) k = k"
  by (auto simp: thenP_def fun_eq_iff bindP_def py_unfold)

lemma failIf_simps [simp]: "failIf True e = throw e" "failIf False e = ret ()"
  by (simp_all add: failIf_def)

lemma bindP_failIf: "bindP (failIf b e) k s = (if b then (Inl e, s) else k () s)"
  by (simp add: py_unfold bindP_def)

lemma thenP_failIf: "thenP (failIf b e) k s = (if b then (Inl e, s) else k s)"
  by (simp add: thenP_def bindP_failIf)

text \<open>Inversion: how a sequence of two actions can have ended.\<close>

lemma bindP_Inr_iff:
  "bindP m k s = (Inr y, t) \<longleftrightarrow> (\<exists>x s'. m s = (Inr x, s') \<and> k x s' = (Inr y, t))"
  by (auto simp: bindP_def split: prod.splits sum.splits)

lemma bindP_Inl_iff:
  "bindP m k s = (Inl e, t) \<longleftrightarrow>
     m s = (Inl e, t) \<or> (\<exists>x s'. m s = (Inr x, s') \<and> k x s' = (Inl e, t))"
  by (auto simp: bindP_def split: prod.splits sum.splits)

lemma bindP_assoc: "bindP (bindP m k) h = bindP m (\<lambda>x. bindP (k x) h)"
  by (auto simp: bindP_def fun_eq_iff split: prod.splits sum.splits)

lemma bindP_eq_Inr: "m s = (Inr x, s') \<Longrightarrow> bindP m k s = k x s'"
  by (simp add: bindP_def)

lemma bindP_eq_Inl: "m s = (Inl e, s') \<Longrightarrow> bindP m k s = (Inl e, s')"
  by (simp add: bindP_def)

lemma thenP_eq_Inr: "m s = (Inr x, s') \<Longrightarrow> thenP m k s = k s'"
  by (simp add: thenP_def bindP_def)

lemma thenP_eq_Inl: "m s = (Inl e, s') \<Longrightarrow> thenP m k s = (Inl e, s')"
  by (simp add: thenP_def bindP_def)

section \<open>Actions that keep a property of the state\<close>

text \<open>\<open>keeps P m\<close>: whatever the outcome, \<open>m\<close> started in a state with \<open>P\<close> ends in one with \<open>P\<close>.\<close>

definition keeps :: "('s \<Rightarrow> bool) \<Rightarrow> ('s, 'a) py \<Rightarrow> bool" where
  "keeps P m \<longleftrightarrow> (\<forall>s. P s \<longrightarrow> P (snd (m s)))"

named_theorems keeps_intro \<open>composition rules for preserved properties\<close>

lemma keepsD: "keeps P m \<Longrightarrow> P s \<Longrightarrow> P (snd (m s))"
  by (simp add: keeps_def)

lemma keeps_ret [keeps_intro]: "keeps P (ret x)"
  by (simp add: keeps_def py_unfold)

lemma keeps_throw [keeps_intro]: "keeps P (throw e)"
  by (simp add: keeps_def py_unfold)

lemma keeps_gets [keeps_intro]: "keeps P (gets f)"
  by (simp add: keeps_def py_unfold)

lemma keeps_failIf [keeps_intro]: "keeps P (failIf b e)"
  by (simp add: keeps_def py_unfold)

lemma keeps_liftE [keeps_intro]: "keeps P (liftE r)"
  by (simp add: keeps_def py_unfold)

lemma keeps_bindP [keeps_intro]:
  assumes "keeps P m" and "\<And>x. keeps P (k x)"
  shows "keeps P (bindP m k)"
  using assms by (force simp: keeps_def bindP_def split: prod.splits sum.splits)

lemma keeps_thenP [keeps_intro]: "keeps P m \<Longrightarrow> keeps P k \<Longrightarrow> keeps P (thenP m k)"
  by (simp add: thenP_def keeps_bindP)

lemma keeps_tryP [keeps_intro]:
  assumes "keeps P m" and "\<And>e. keeps P (h e)"
  shows "keeps P (tryP m h)"
  using assms by (force simp: keeps_def tryP_def split: prod.splits sum.splits)

lemma keeps_forP [keeps_intro]: "(\<And>x. keeps P (f x)) \<Longrightarrow> keeps P (forP xs f)"
  by (induction xs) (auto intro: keeps_intro)

lemma keeps_modify [keeps_intro]: "(\<And>s. P s \<Longrightarrow> P (f s)) \<Longrightarrow> keeps P (modify f)"
  by (simp add: keeps_def py_unfold)

lemma keeps_if [keeps_intro]: "keeps P m \<Longrightarrow> keeps P n \<Longrightarrow> keeps P (if b then m else n)"
  by simp

lemma keeps_case_prod [keeps_intro]:
  "(\<And>a b. keeps P (f a b)) \<Longrightarrow> keeps P (case x of (a, b) \<Rightarrow> f a b)"
  by (cases x) auto

lemma keeps_case_sum [keeps_intro]:
  "(\<And>a. keeps P (f a)) \<Longrightarrow> (\<And>b. keeps P (g b)) \<Longrightarrow> keeps P (case x of Inl a \<Rightarrow> f a | Inr b \<Rightarrow> g b)"
  by (cases x) auto

lemma keeps_case_option [keeps_intro]:
  "keeps P m \<Longrightarrow> (\<And>x. keeps P (n x)) \<Longrightarrow> keeps P (case v of None \<Rightarrow> m | Some x \<Rightarrow> n x)"
  by (cases v) auto

end
