(* ===== verification/PyStrings.thy ===== *)
theory PyStrings
  imports Prelude
begin

text \<open>
  The string methods of Python's standard library that the modelled code calls, on ASCII strings
  (a \<open>char\<close> is one code point below 256), and the JSON-like values stored in the \<open>extra\<close>
  dictionaries.
\<close>

section \<open>Prefixes, suffixes, splitting and joining\<close>

definition startswith :: "string \<Rightarrow> string \<Rightarrow> bool" where
  "startswith s p \<longleftrightarrow> take (length p) s = p"

definition endswith :: "string \<Rightarrow> string \<Rightarrow> bool" where
  "endswith s p \<longleftrightarrow> length p \<le> length s \<and> drop (length s - length p) s = p"

text \<open>\<open>s.split(c)\<close> for a one-character separator.\<close>

fun split_on :: "char \<Rightarrow> string \<Rightarrow> string list" where
  "split_on c [] = [[]]"
| "split_on c (x # xs) =
     (if x = c then [] # split_on c xs
      else (case split_on c xs of [] \<Rightarrow> [[x]] | y # ys \<Rightarrow> (x # y) # ys))"

text \<open>\<open>sep.join(xs)\<close>.\<close>

fun join :: "string \<Rightarrow> string list \<Rightarrow> string" where
  "join sep [] = []"
| "join sep [x] = x"
| "join sep (x # y # zs) = x @ sep @ join sep (y # zs)"

text \<open>\<open>s.strip(c)\<close> for one character.\<close>

definition strip_char :: "char \<Rightarrow> string \<Rightarrow> string" where
  "strip_char c s = rev (dropWhile (\<lambda>x. x = c) (rev (dropWhile (\<lambda>x. x = c) s)))"

text \<open>\<open>s.strip()\<close>: ASCII white space.\<close>

definition is_space :: "char \<Rightarrow> bool" where
  "is_space c \<longleftrightarrow> (let n = (of_char c :: nat) in n = 32 \<or> (9 \<le> n \<and> n \<le> 13) \<or> (28 \<le> n \<and> n \<le> 31))"

text \<open>The white space of \<open>bytes\<close>.\<close>

definition is_c_space :: "char \<Rightarrow> bool" where
  "is_c_space c \<longleftrightarrow> (let n = (of_char c :: nat) in n = 32 \<or> (9 \<le> n \<and> n \<le> 13))"

definition strip :: "string \<Rightarrow> string" where
  "strip s = rev (dropWhile is_space (rev (dropWhile is_space s)))"

definition lower_char :: "char \<Rightarrow> char" where
  "lower_char c = (let n = (of_char c :: nat) in if 65 \<le> n \<and> n \<le> 90 then char_of (n + 32) else c)"

definition upper_char :: "char \<Rightarrow> char" where
  "upper_char c = (let n = (of_char c :: nat) in if 97 \<le> n \<and> n \<le> 122 then char_of (n - 32) else c)"

definition lower :: "string \<Rightarrow> string" where
  "lower s = List.map lower_char s"

definition upper :: "string \<Rightarrow> string" where
  "upper s = List.map upper_char s"

text \<open>\<open>old in s\<close> for one character, and \<open>s.replace(c, "")\<close>.\<close>

definition remove_char :: "char \<Rightarrow> string \<Rightarrow> string" where
  "remove_char c s = filter (\<lambda>x. x \<noteq> c) s"

lemma split_on_nonempty [simp]: "split_on c s \<noteq> []"
  by (cases s) (auto split: list.splits)

lemma length_split_on_pos [simp]: "0 < length (split_on c s)"
  by simp

lemma join_Cons: "xs \<noteq> [] \<Longrightarrow> join sep (x # xs) = x @ sep @ join sep xs"
  by (cases xs) auto

lemma join_snoc_char: "ys \<noteq> [] \<Longrightarrow> join sep ((x # y) # ys) = x # join sep (y # ys)"
  by (cases ys) auto

text \<open>Splitting and joining at the same separator is the identity.\<close>

lemma join_split_on: "join [c] (split_on c s) = s"
proof (induction s)
  case Nil
  show ?case by simp
next
  case (Cons x s)
  obtain y ys where ys: "split_on c s = y # ys"
    by (cases "split_on c s") auto
  with Cons show ?case
    by (cases ys) auto
qed

lemma split_on_no_sep: "\<forall>y \<in> set (split_on c s). c \<notin> set y"
  by (induction s) (auto split: list.splits)

lemma split_on_single: "c \<notin> set s \<Longrightarrow> split_on c s = [s]"
  by (induction s) auto

lemma split_on_append_sep: "c \<notin> set a \<Longrightarrow> split_on c (a @ c # b) = a # split_on c b"
  by (induction a) auto

lemma split_on_join:
  "xs \<noteq> [] \<Longrightarrow> \<forall>x \<in> set xs. c \<notin> set x \<Longrightarrow> split_on c (join [c] xs) = xs"
proof (induction xs rule: list_nonempty_induct)
  case (single x)
  then show ?case by (simp add: split_on_single)
next
  case (cons x xs)
  then show ?case by (simp add: join_Cons split_on_append_sep)
qed

lemma startswith_append [simp]: "startswith (p @ s) p"
  by (simp add: startswith_def)

lemma startswith_iff: "startswith s p \<longleftrightarrow> (\<exists>r. s = p @ r)"
  unfolding startswith_def by (metis append_take_drop_id append_eq_conv_conj)

lemma endswith_append [simp]: "endswith (s @ p) p"
  by (simp add: endswith_def)

lemma endswith_iff: "endswith s p \<longleftrightarrow> (\<exists>r. s = r @ p)"
  unfolding endswith_def
  by (metis append_take_drop_id append_eq_conv_conj length_append le_add2 diff_add_inverse2)

section \<open>Decimal numbers\<close>

fun digits_of_nat :: "nat \<Rightarrow> string" where
  "digits_of_nat n =
     (if n < 10 then [char_of (48 + n)] else digits_of_nat (n div 10) @ [char_of (48 + n mod 10)])"

declare digits_of_nat.simps [simp del]

text \<open>\<open>str(i)\<close> for an integer.\<close>

definition str_int :: "int \<Rightarrow> string" where
  "str_int i = (if i < 0 then ''-'' @ digits_of_nat (nat (- i)) else digits_of_nat (nat i))"

definition is_digit :: "char \<Rightarrow> bool" where
  "is_digit c \<longleftrightarrow> (let n = (of_char c :: nat) in 48 \<le> n \<and> n \<le> 57)"

fun nat_of_digits :: "nat \<Rightarrow> string \<Rightarrow> nat option" where
  "nat_of_digits acc [] = Some acc"
| "nat_of_digits acc (c # cs) =
     (if is_digit c then nat_of_digits (acc * 10 + (of_char c - 48)) cs else None)"

text \<open>
  \<open>int(s)\<close> on a decimal literal: optional sign, then at least one digit, with surrounding white
  space ignored. (Python also accepts single underscores between digits; no modelled input has
  them, and the model answers \<open>None\<close> there.)
\<close>

definition int_of_str :: "string \<Rightarrow> int option" where
  "int_of_str s =
     (case strip s of
        [] \<Rightarrow> None
      | c # cs \<Rightarrow>
          if c = CHR ''-'' then (if cs = [] then None else map_option (\<lambda>n. - int n) (nat_of_digits 0 cs))
          else if c = CHR ''+'' then (if cs = [] then None else map_option int (nat_of_digits 0 cs))
          else map_option int (nat_of_digits 0 (c # cs)))"

lemma nat_of_digits_append:
  "nat_of_digits a (xs @ ys) = Option.bind (nat_of_digits a xs) (\<lambda>b. nat_of_digits b ys)"
  by (induction xs arbitrary: a) auto

lemma of_char_digit: "n < 10 \<Longrightarrow> (of_char (char_of (48 + n :: nat)) :: nat) = 48 + n"
  by (simp add: of_char_of)

lemma nat_of_digits_inverse: "nat_of_digits 0 (digits_of_nat n) = Some n"
proof (induction n rule: digits_of_nat.induct)
  case (1 n)
  show ?case
  proof (cases "n < 10")
    case True
    then show ?thesis
      by (simp add: digits_of_nat.simps [of n] is_digit_def of_char_digit)
  next
    case False
    with 1 show ?thesis
      by (simp add: digits_of_nat.simps [of n] nat_of_digits_append is_digit_def of_char_digit)
  qed
qed

lemma digits_of_nat_all_digits: "\<forall>c \<in> set (digits_of_nat n). is_digit c"
proof (induction n rule: digits_of_nat.induct)
  case (1 n)
  show ?case
  proof (cases "n < 10")
    case True
    then show ?thesis by (simp add: digits_of_nat.simps [of n] is_digit_def of_char_digit)
  next
    case False
    have "is_digit (char_of (48 + n mod 10))" by (simp add: is_digit_def of_char_digit)
    with False 1 show ?thesis by (simp add: digits_of_nat.simps [of n])
  qed
qed

lemma digits_of_nat_nonempty [simp]: "digits_of_nat n \<noteq> []"
  by (simp add: digits_of_nat.simps [of n])

lemma inj_digits_of_nat: "digits_of_nat m = digits_of_nat n \<Longrightarrow> m = n"
  by (metis nat_of_digits_inverse option.inject)

section \<open>JSON values and dictionaries\<close>

datatype jval =
    JNull
  | JBool bool
  | JInt int
  | JFloat rat
  | JStr string
  | JList "jval list"
  | JObj "(string \<times> jval) list"

lemma keeps_case_JStr [keeps_intro]:
  "keeps P m \<Longrightarrow> (\<And>s. keeps P (n s)) \<Longrightarrow> keeps P (case v of JStr s \<Rightarrow> n s | _ \<Rightarrow> m)"
  by (cases v) auto

type_synonym dict = "(string \<times> jval) list"

definition dget :: "dict \<Rightarrow> string \<Rightarrow> jval option" where
  "dget d k = map_of d k"

definition dset :: "dict \<Rightarrow> string \<Rightarrow> jval \<Rightarrow> dict" where
  "dset d k v = AList.update k v d"

lemma dget_dset [simp]: "dget (dset d k v) k' = (if k = k' then Some v else dget d k')"
  by (simp add: dget_def dset_def update_conv')

text \<open>Python truth value of a JSON value, and of a missing one (\<open>None\<close>).\<close>

definition jtrue :: "jval option \<Rightarrow> bool" where
  "jtrue v = (case v of
      None \<Rightarrow> False | Some JNull \<Rightarrow> False | Some (JBool b) \<Rightarrow> b | Some (JInt i) \<Rightarrow> i \<noteq> 0 | Some (JFloat r) \<Rightarrow> r \<noteq> 0
    | Some (JStr s) \<Rightarrow> s \<noteq> [] | Some (JList l) \<Rightarrow> l \<noteq> [] | Some (JObj d) \<Rightarrow> d \<noteq> [])"

text \<open>Python truth value of an optional string: neither None nor empty.\<close>

definition truthy :: "string option \<Rightarrow> bool" where
  "truthy s \<longleftrightarrow> s \<noteq> None \<and> s \<noteq> Some []"

text \<open>\<open>a or b\<close> for optional strings.\<close>

definition orElse :: "string option \<Rightarrow> string option \<Rightarrow> string option" where
  "orElse a b = (if truthy a then a else b)"

lemma truthy_simps [simp]: "\<not> truthy None" "truthy (Some s) \<longleftrightarrow> s \<noteq> []"
  by (simp_all add: truthy_def)

end
