(* ===== verification/PyFloat.thy ===== *)
theory PyFloat
  imports PyStrings "HOL-Library.Log_Nat"
begin

text \<open>
  Python floats. A finite float is the rational number it denotes; an arithmetic operation is the
  exact operation followed by \<open>fl\<close>, the rounding to 53 significant bits, ties to even, that
  IEEE 754 binary64 prescribes. The model leaves out overflow to infinity and the loss of
  precision below 2 to the power -1022, neither of which the amounts of the program reach (a
  payment amount is below 2 to the power 63), and NaN, which none of the modelled operations
  produces from finite operands. Division by zero is a branch of the callers.
\<close>

section \<open>Rounding to 53 significant bits\<close>

definition two_pow :: "int \<Rightarrow> rat" where
  "two_pow k = (if 0 \<le> k then 2 ^ nat k else inverse (2 ^ nat (- k)))"

text \<open>Rounding to the nearest integer, ties to even.\<close>

definition rne :: "rat \<Rightarrow> int" where
  "rne x =
     (let n = \<lfloor>x\<rfloor>; r = x - of_int n
      in if r < 1 / 2 then n else if r > 1 / 2 then n + 1 else if even n then n else n + 1)"

text \<open>The binary exponent of a positive rational: \<open>2\<^sup>e \<le> x < 2\<^sup>e\<^sup>+\<^sup>1\<close>.\<close>

definition flog2 :: "rat \<Rightarrow> int" where
  "flog2 x =
     (let (p, q) = quotient_of x; k = bitlen p - bitlen q
      in if two_pow k \<le> x then k else k - 1)"

definition fl_pos :: "rat \<Rightarrow> rat" where
  "fl_pos x = (let e = flog2 x - 52 in of_int (rne (x / two_pow e)) * two_pow e)"

definition fl :: "rat \<Rightarrow> rat" where
  "fl x = (if x = 0 then 0 else if x < 0 then - fl_pos (- x) else fl_pos x)"

text \<open>\<open>int(x)\<close>: truncation towards zero.\<close>

definition py_trunc :: "rat \<Rightarrow> int" where
  "py_trunc x = (if x < 0 then \<lceil>x\<rceil> else \<lfloor>x\<rfloor>)"

text \<open>\<open>float(i)\<close>, and the arithmetic operators on floats.\<close>

definition to_float :: "int \<Rightarrow> rat" where
  "to_float i = fl (of_int i)"

definition fmul :: "rat \<Rightarrow> rat \<Rightarrow> rat" where
  "fmul x y = fl (x * y)"

definition fdiv :: "rat \<Rightarrow> rat \<Rightarrow> rat" where
  "fdiv x y = fl (x / y)"

definition fadd :: "rat \<Rightarrow> rat \<Rightarrow> rat" where
  "fadd x y = fl (x + y)"

definition fsub :: "rat \<Rightarrow> rat \<Rightarrow> rat" where
  "fsub x y = fl (x - y)"

text \<open>\<open>i / j\<close> on two integers: Python rounds the exact quotient once.\<close>

definition idiv_float :: "int \<Rightarrow> int \<Rightarrow> rat" where
  "idiv_float i j = fl (of_int i / of_int j)"

text \<open>\<open>round(x)\<close> and \<open>round(x, n)\<close>: correctly rounded, ties to even.\<close>

definition py_round :: "rat \<Rightarrow> int" where
  "py_round x = rne x"

definition py_round_digits :: "rat \<Rightarrow> nat \<Rightarrow> rat" where
  "py_round_digits x n = fl (of_int (rne (x * 10 ^ n)) / 10 ^ n)"

section \<open>Laws\<close>

lemma two_pow_pos [simp]: "0 < two_pow k"
  by (simp add: two_pow_def)

lemma two_pow_nonzero [simp]: "two_pow k \<noteq> 0"
  using two_pow_pos [of k] by linarith

lemma two_pow_powi: "two_pow k = 2 powi k"
  by (simp add: two_pow_def power_int_def power_one_over inverse_eq_divide)

lemma two_pow_add: "two_pow (a + b) = two_pow a * two_pow b"
  by (simp add: two_pow_powi power_int_add)

lemma two_pow_mono: "a \<le> b \<Longrightarrow> two_pow a \<le> two_pow b"
  unfolding two_pow_powi by (rule power_int_increasing) auto

lemma two_pow_nat: "two_pow (int n) = 2 ^ n"
  by (simp add: two_pow_def)

lemma two_pow_diff: "two_pow (a - b) = two_pow a / two_pow b"
  by (simp add: two_pow_powi power_int_diff)

lemma rne_of_int [simp]: "rne (of_int n) = n"
  by (simp add: rne_def)

lemma rne_ge_floor: "\<lfloor>x\<rfloor> \<le> rne x"
  by (simp add: rne_def Let_def)

lemma rne_le_floor: "rne x \<le> \<lfloor>x\<rfloor> + 1"
  by (simp add: rne_def Let_def)

lemma rne_mono: assumes "x \<le> y" shows "rne x \<le> rne y"
proof (cases "\<lfloor>x\<rfloor> = \<lfloor>y\<rfloor>")
  case True
  then show ?thesis using assms by (auto simp: rne_def Let_def)
next
  case False
  with assms have "\<lfloor>x\<rfloor> + 1 \<le> \<lfloor>y\<rfloor>" using floor_mono [OF assms] by linarith
  then show ?thesis using rne_le_floor [of x] rne_ge_floor [of y] by linarith
qed

lemma rne_error: "\<bar>of_int (rne x) - x\<bar> \<le> 1 / 2"
proof -
  have "of_int \<lfloor>x\<rfloor> \<le> x" "x < of_int \<lfloor>x\<rfloor> + 1" by linarith+
  then show ?thesis by (auto simp: rne_def Let_def)
qed

lemma bitlen_bounds_rat:
  assumes "0 < (p :: int)"
  shows "two_pow (bitlen p - 1) \<le> of_int p" and "of_int p < two_pow (bitlen p)"
proof -
  have b: "2 ^ nat (bitlen p - 1) \<le> p" "p < 2 ^ nat (bitlen p)"
    using bitlen_bounds [OF assms] by auto
  have pos: "0 < bitlen p" using assms bitlen_eq_zero_iff [of p] bitlen_nonneg [of p] by linarith
  from b(1) have "(of_int (2 ^ nat (bitlen p - 1)) :: rat) \<le> of_int p" by (simp only: of_int_le_iff)
  with pos show "two_pow (bitlen p - 1) \<le> of_int p" by (simp add: two_pow_def)
  from b(2) have "(of_int p :: rat) < of_int (2 ^ nat (bitlen p))" by (simp only: of_int_less_iff)
  with pos show "of_int p < two_pow (bitlen p)" by (simp add: two_pow_def)
qed

lemma flog2_bounds:
  assumes "0 < x"
  shows "two_pow (flog2 x) \<le> x" and "x < two_pow (flog2 x + 1)"
proof -
  obtain p q where pq: "quotient_of x = (p, q)" by fastforce
  have q: "0 < q" using pq by (rule quotient_of_denom_pos)
  have x: "x = of_int p / of_int q" using pq by (rule quotient_of_div)
  with assms q have p: "0 < p" by (simp add: zero_less_divide_iff)
  let ?k = "bitlen p - bitlen q"
  have "x < two_pow (bitlen p) / two_pow (bitlen q - 1)"
    unfolding x using bitlen_bounds_rat [OF p] bitlen_bounds_rat [OF q] p q
    by (intro frac_less) (auto intro: less_imp_le)
  also have "\<dots> = two_pow (?k + 1)"
    by (simp add: two_pow_diff [symmetric] algebra_simps)
  finally have up: "x < two_pow (?k + 1)" .
  have "two_pow (bitlen p - 1) / two_pow (bitlen q) \<le> x"
    unfolding x using bitlen_bounds_rat [OF p] bitlen_bounds_rat [OF q] p q
    by (intro frac_le) (auto intro: less_imp_le)
  then have lo: "two_pow (?k - 1) \<le> x"
    by (simp add: two_pow_diff [symmetric] algebra_simps)
  from up lo show "two_pow (flog2 x) \<le> x" "x < two_pow (flog2 x + 1)"
    by (auto simp: flog2_def pq Let_def not_le)
qed

lemma two_pow_less_iff: "two_pow a < two_pow b \<longleftrightarrow> a < b"
  by (metis linorder_not_less order.strict_iff_order two_pow_mono two_pow_powi power_int_strict_increasing
      one_less_numeral_iff semiring_norm(76))

lemma flog2_unique:
  assumes "two_pow e \<le> x" and "x < two_pow (e + 1)"
  shows "flog2 x = e"
proof -
  have x: "0 < x" using assms(1) two_pow_pos [of e] by linarith
  have "two_pow e < two_pow (flog2 x + 1)" "two_pow (flog2 x) < two_pow (e + 1)"
    using flog2_bounds [OF x] assms by linarith+
  then show ?thesis by (simp add: two_pow_less_iff)
qed

lemma flog2_mono: assumes "0 < x" "x \<le> y" shows "flog2 x \<le> flog2 y"
proof -
  have "two_pow (flog2 x) < two_pow (flog2 y + 1)"
    using flog2_bounds [of x] flog2_bounds [of y] assms by linarith
  then show ?thesis by (simp add: two_pow_less_iff)
qed

text \<open>The rounded value stays within the binade of its argument.\<close>

lemma fl_pos_binade:
  assumes "0 < x"
  shows "two_pow (flog2 x) \<le> fl_pos x" and "fl_pos x \<le> two_pow (flog2 x + 1)"
proof -
  let ?e = "flog2 x - 52"
  have a: "two_pow 52 \<le> x / two_pow ?e" "x / two_pow ?e \<le> two_pow 53"
    using flog2_bounds [OF assms] two_pow_add [of 52 ?e] two_pow_add [of 53 ?e]
    by (auto simp: field_simps)
  have "rne (of_int (2 ^ 52)) \<le> rne (x / two_pow ?e)" "rne (x / two_pow ?e) \<le> rne (of_int (2 ^ 53))"
    by (rule rne_mono, use a in \<open>simp add: two_pow_def\<close>)+
  then have b: "2 ^ 52 \<le> rne (x / two_pow ?e)" "rne (x / two_pow ?e) \<le> 2 ^ 53"
    by (simp_all only: rne_of_int)
  from b(1) have "(of_int (2 ^ 52) :: rat) \<le> of_int (rne (x / two_pow ?e))" by (simp only: of_int_le_iff)
  then have "two_pow 52 * two_pow ?e \<le> fl_pos x"
    by (simp add: fl_pos_def Let_def two_pow_def [of 52])
  then show "two_pow (flog2 x) \<le> fl_pos x" using two_pow_add [of 52 ?e] by simp
  from b(2) have "(of_int (rne (x / two_pow ?e)) :: rat) \<le> of_int (2 ^ 53)" by (simp only: of_int_le_iff)
  then have "fl_pos x \<le> two_pow 53 * two_pow ?e"
    by (simp add: fl_pos_def Let_def two_pow_def [of 53])
  then show "fl_pos x \<le> two_pow (flog2 x + 1)" using two_pow_add [of 53 ?e] by (simp add: add.commute)
qed

lemma fl_pos_pos: "0 < x \<Longrightarrow> 0 < fl_pos x"
  using fl_pos_binade(1) [of x] two_pow_pos [of "flog2 x"] by linarith

lemma fl_pos_mono:
  assumes "0 < x" "x \<le> y"
  shows "fl_pos x \<le> fl_pos y"
proof (cases "flog2 x = flog2 y")
  case True
  let ?e = "flog2 y - 52"
  have "rne (x / two_pow ?e) \<le> rne (y / two_pow ?e)"
    using assms(2) by (intro rne_mono divide_right_mono) (auto intro: less_imp_le)
  then show ?thesis
    using True by (simp add: fl_pos_def Let_def mult_right_mono less_imp_le)
next
  case False
  then have "flog2 x + 1 \<le> flog2 y" using flog2_mono [OF assms] by linarith
  then have "two_pow (flog2 x + 1) \<le> two_pow (flog2 y)" by (rule two_pow_mono)
  then show ?thesis
    using fl_pos_binade(2) [of x] fl_pos_binade(1) [of y] assms by linarith
qed

lemma fl_0 [simp]: "fl 0 = 0"
  by (simp add: fl_def)

lemma fl_minus: "fl (- x) = - fl x"
  by (simp add: fl_def)

theorem fl_mono: assumes "x \<le> y" shows "fl x \<le> fl y"
proof -
  consider "0 < x" | "x = 0" | "x < 0" "0 \<le> y" | "x < 0" "y < 0" by linarith
  then show ?thesis
  proof cases
    case 1
    then show ?thesis using assms by (simp add: fl_def fl_pos_mono)
  next
    case 2
    then show ?thesis using assms fl_pos_pos [of y] by (auto simp: fl_def)
  next
    case 3
    then show ?thesis using fl_pos_pos [of y] fl_pos_pos [of "- x"] by (auto simp: fl_def)
  next
    case 4
    then show ?thesis using assms fl_pos_mono [of "- y" "- x"] by (simp add: fl_def)
  qed
qed

lemma fl_nonneg: "0 \<le> x \<Longrightarrow> 0 \<le> fl x"
  using fl_mono [of 0 x] by simp

text \<open>A number with at most 53 significant bits is not changed.\<close>

lemma fl_exact_pos:
  assumes "0 < m" and "m < 2 ^ 53"
  shows "fl_pos (of_int m * two_pow k) = of_int m * two_pow k"
proof -
  let ?x = "of_int m * two_pow k :: rat"
  let ?b = "bitlen m - 1"
  have bl: "bitlen m \<le> 53" using assms bitlen_le_iff_power [of m 53] by simp
  have "two_pow ?b * two_pow k \<le> ?x" "?x < two_pow (bitlen m) * two_pow k"
    using bitlen_bounds_rat [OF assms(1)] by (auto intro: mult_right_mono less_imp_le)
  then have e: "flog2 ?x = ?b + k"
    by (intro flog2_unique) (simp_all add: two_pow_add [symmetric])
  have "?x / two_pow (flog2 ?x - 52) = of_int m * two_pow (52 - ?b)"
    unfolding e by (simp add: two_pow_diff two_pow_add field_simps)
  also have "\<dots> = of_int (m * 2 ^ nat (52 - ?b))"
    using bl by (simp add: two_pow_def)
  finally have "fl_pos ?x = of_int (m * 2 ^ nat (52 - ?b)) * two_pow (flog2 ?x - 52)"
    by (simp only: fl_pos_def Let_def rne_of_int)
  also have "\<dots> = of_int m * (two_pow (52 - ?b) * two_pow (?b + k - 52))"
    unfolding e using bl by (simp add: two_pow_def)
  also have "\<dots> = ?x" by (simp add: two_pow_add [symmetric])
  finally show ?thesis .
qed

lemma fl_of_int_exact: assumes "\<bar>m\<bar> < 2 ^ 53" shows "fl (of_int m) = of_int m"
proof -
  have p: "fl_pos (of_int n) = of_int n" if "0 < n" "n < 2 ^ 53" for n
    using fl_exact_pos [OF that, of 0] by (simp add: two_pow_def)
  consider "m = 0" | "0 < m" | "m < 0" by linarith
  then show ?thesis
    using assms p [of m] p [of "- m"] by cases (auto simp: fl_def)
qed

lemma to_float_nonneg: "0 \<le> i \<Longrightarrow> 0 \<le> to_float i"
  by (simp add: to_float_def fl_nonneg)

lemma to_float_mono: "i \<le> j \<Longrightarrow> to_float i \<le> to_float j"
  by (simp add: to_float_def fl_mono)

lemma py_trunc_mono: assumes "x \<le> y" shows "py_trunc x \<le> py_trunc y"
proof -
  have "\<lceil>x\<rceil> \<le> \<lfloor>y\<rfloor>" if "x < 0" "0 \<le> y"
  proof -
    from that have "\<lceil>x\<rceil> \<le> 0" "0 \<le> \<lfloor>y\<rfloor>" by simp_all
    then show ?thesis by linarith
  qed
  then show ?thesis
    using assms by (auto simp: py_trunc_def intro: ceiling_mono floor_mono)
qed

lemma py_trunc_nonneg: "0 \<le> x \<Longrightarrow> 0 \<le> py_trunc x"
  by (simp add: py_trunc_def)

lemma py_trunc_of_int [simp]: "py_trunc (of_int i) = i"
  by (simp add: py_trunc_def)

text \<open>
  Decimal numbers and the text of floats: \<open>str\<close> of a float (the shortest digits that denote it), the format
  \<open>.2f\<close>, the literals that \<open>decimal.Decimal\<close> and \<open>float\<close> read, and the rounding of the default decimal context
  to 28 significant digits. A finite \<open>Decimal\<close> is the rational number it denotes. Not-a-number and the
  infinities are not values of the model: where the program meets them in a text it raises, or behaves as it
  does for a text that is no number.
\<close>

section \<open>Powers of ten\<close>

definition ten_pow :: "int \<Rightarrow> rat" where
  "ten_pow k = (if 0 \<le> k then 10 ^ nat k else inverse (10 ^ nat (- k)))"

function count_digits :: "int \<Rightarrow> int" where
  "count_digits n = (if n < 10 then 1 else 1 + count_digits (n div 10))"
  by pat_completeness auto
termination
  by (relation "measure nat") auto

declare count_digits.simps [simp del]

text \<open>The decimal exponent of a positive rational number.\<close>

definition flog10 :: "rat \<Rightarrow> int" where
  "flog10 x =
     (let (p, q) = quotient_of x; k = count_digits p - count_digits q
      in if ten_pow k \<le> x then k else k - 1)"

section \<open>The decimal context\<close>

definition dec28 :: "rat \<Rightarrow> rat" where
  "dec28 x =
     (if x = 0 then 0
      else let u = ten_pow (flog10 \<bar>x\<bar> - 27) in of_int (rne (x / u)) * u)"

text \<open>\<open>d.quantize(Decimal("1"), ROUND_HALF_UP)\<close>; a result of more than 28 digits is an error.\<close>

definition half_up :: "rat \<Rightarrow> int" where
  "half_up x = (if x < 0 then - \<lfloor>- x + 1 / 2\<rfloor> else \<lfloor>x + 1 / 2\<rfloor>)"

definition quantize :: "rat \<Rightarrow> int option" where
  "quantize x = (if \<bar>half_up x\<bar> < 10 ^ 28 then Some (half_up x) else None)"

definition is_whole :: "rat \<Rightarrow> bool" where
  "is_whole x \<longleftrightarrow> of_int \<lfloor>x\<rfloor> = x"

section \<open>The text of a float\<close>

text \<open>The shortest decimal that is read back as the positive float \<open>x\<close>, as an integer of at most 17 digits
  and the exponent of its last digit; among those of the same length the closest.\<close>

definition digits_for :: "rat \<Rightarrow> nat \<Rightarrow> (int \<times> int) option" where
  "digits_for x n =
     (let k = flog10 x - int n + 1; u = ten_pow k; lo = \<lfloor>x / u\<rfloor>;
          good = (\<lambda>c. fl (of_int c * u) = x);
          near_hi = \<bar>of_int (lo + 1) * u - x\<bar> < \<bar>x - of_int lo * u\<bar>
      in if good lo \<and> (\<not> good (lo + 1) \<or> \<not> near_hi) then Some (lo, k)
         else if good (lo + 1) then Some (lo + 1, k) else None)"

fun shortest_from :: "rat \<Rightarrow> nat \<Rightarrow> nat \<Rightarrow> int \<times> int" where
  "shortest_from x n 0 = (\<lfloor>x / ten_pow (flog10 x - 16)\<rfloor>, flog10 x - 16)"
| "shortest_from x n (Suc m) = (case digits_for x n of Some r \<Rightarrow> r | None \<Rightarrow> shortest_from x (Suc n) m)"

definition shortest :: "rat \<Rightarrow> int \<times> int" where
  "shortest x = shortest_from x 1 17"

definition zeros :: "nat \<Rightarrow> string" where "zeros n = replicate n CHR ''0''"

definition strip_zeros :: "string \<Rightarrow> string" where
  "strip_zeros s = rev (dropWhile (\<lambda>c. c = CHR ''0'') (rev s))"

definition digit_char :: "int \<Rightarrow> char" where
  "digit_char n = ''0123456789'' ! nat n"

function digit_text :: "int \<Rightarrow> string" where
  "digit_text n = (if n < 10 then [digit_char n] else digit_text (n div 10) @ [digit_char (n mod 10)])"
  by pat_completeness auto
termination
  by (relation "measure nat") auto

declare digit_text.simps [simp del]

text \<open>Positive floats: positional from 0.0001 up to below ten to the power 16, with an exponent otherwise.\<close>

definition pos_float_repr :: "rat \<Rightarrow> string" where
  "pos_float_repr x =
     (let (c, k) = shortest x; all = digit_text c; point = int (length all) + k; d = strip_zeros all; n = int (length d)
      in if -4 < point \<and> point \<le> 16 then
           (if point \<le> 0 then ''0.'' @ zeros (nat (- point)) @ d
            else if n \<le> point then d @ zeros (nat (point - n)) @ ''.0''
            else take (nat point) d @ ''.'' @ drop (nat point) d)
         else
           let e = point - 1; es = digit_text \<bar>e\<bar> in
           take 1 d @ (if length d = 1 then [] else CHR ''.'' # drop 1 d) @ ''e'' @ (if e < 0 then ''-'' else ''+'')
             @ (if length es = 1 then ''0'' else []) @ es)"

definition float_repr :: "rat \<Rightarrow> string" where
  "float_repr x = (if x = 0 then ''0.0'' else if x < 0 then ''-'' @ pos_float_repr (- x) else pos_float_repr x)"

text \<open>The format \<open>.2f\<close>: the exact value rounded to two digits, ties to even.\<close>

definition fixed2 :: "rat \<Rightarrow> string" where
  "fixed2 x =
     (let n = rne (\<bar>x\<bar> * 100); frac = digit_text (n mod 100)
      in (if x < 0 then ''-'' else []) @ digit_text (n div 100) @ ''.''
         @ (if length frac = 1 then ''0'' else []) @ frac)"

section \<open>Literals\<close>

text \<open>Digits with at most one point, and an optional exponent.\<close>

definition all_digits :: "string \<Rightarrow> bool" where
  "all_digits s \<longleftrightarrow> list_all is_digit s"

definition digits_value :: "string \<Rightarrow> int" where
  "digits_value s = foldl (\<lambda>n c. n * 10 + (of_char c - 48)) 0 s"

definition mantissa :: "string \<Rightarrow> rat option" where
  "mantissa s =
     (case split_on CHR ''.'' s of
        [a] \<Rightarrow> (if a \<noteq> [] \<and> all_digits a then Some (of_int (digits_value a)) else None)
      | [a, b] \<Rightarrow> (if a @ b \<noteq> [] \<and> all_digits (a @ b)
                   then Some (of_int (digits_value (a @ b)) / 10 ^ length b) else None)
      | _ \<Rightarrow> None)"

definition signed :: "string \<Rightarrow> bool \<times> string" where
  "signed s = (case s of [] \<Rightarrow> (False, [])
     | c # cs \<Rightarrow> if c = CHR ''-'' then (True, cs) else if c = CHR ''+'' then (False, cs) else (False, s))"

definition exponent_value :: "string \<Rightarrow> int option" where
  "exponent_value s =
     (let (neg, d) = signed s
      in if d \<noteq> [] \<and> all_digits d then Some (if neg then - digits_value d else digits_value d) else None)"

definition number_literal :: "string \<Rightarrow> rat option" where
  "number_literal s =
     (let (neg, t) = signed s; sign = (\<lambda>x. if neg then - x else x)
      in case split_on CHR ''e'' (lower t) of
           [m] \<Rightarrow> map_option sign (mantissa m)
         | [m, e] \<Rightarrow> (case (mantissa m, exponent_value e) of
                        (Some x, Some k) \<Rightarrow> Some (sign (x * ten_pow k))
                      | _ \<Rightarrow> None)
         | _ \<Rightarrow> None)"

text \<open>\<open>Decimal(s)\<close> drops every underscore, \<open>float(s)\<close> those between two digits.\<close>

definition decimal_text :: "string \<Rightarrow> rat option" where
  "decimal_text s = number_literal (remove_char CHR 0x5F (strip s))"

definition float_text :: "string \<Rightarrow> rat option" where
  "float_text s =
     (let t = strip s in
      if \<forall>i < length t. t ! i = CHR 0x5F \<longrightarrow>
           0 < i \<and> Suc i < length t \<and> is_digit (t ! (i - 1)) \<and> is_digit (t ! Suc i)
      then map_option fl (number_literal (remove_char CHR 0x5F t)) else None)"

section \<open>Examples\<close>

end
