(* ===== verification/Settings.thy ===== *)
theory Settings
  imports PyFloat
begin

text \<open>
  \<open>lnbits/settings.py\<close>: the part of the settings object that the modelled code reads or
  changes. The Python class \<open>Settings\<close> inherits its fields from one mixin class per topic; the
  model keeps that shape as a chain of record extensions, one record per class, so that an
  operation is typed by the mixin that declares it and works on the whole object.
\<close>

section \<open>The mixin classes\<close>

record users_settings =
  lnbits_admin_users :: "string list"
  lnbits_allowed_users :: "string list"
  lnbits_allow_new_accounts :: bool
  lnbits_ln_address_mode :: string
  lnbits_allow_custom_wallet_lightning_addresses :: bool
  lnbits_charge_wallet_lightning_addresses :: bool
  lnbits_wallet_lightning_address_price_sats :: int
  lnbits_wallet_lightning_address_blacklist :: "string list"
  lnbits_require_user_activation :: bool
  lnbits_user_activation_by_email :: bool
  lnbits_user_activation_by_payment :: bool
  lnbits_user_activation_by_invitation_code :: bool
  lnbits_register_reusable_activation_code :: string
  lnbits_register_one_time_activation_codes :: "string list"

record asset_settings = users_settings +
  lnbits_max_asset_size_mb :: rat
  lnbits_assets_allowed_mime_types :: "string list"
  lnbits_max_assets_per_user :: int
  lnbits_assets_no_limit_users :: "string list"

record fee_settings = asset_settings +
  lnbits_reserve_fee_min :: int
  lnbits_reserve_fee_percent :: rat
  lnbits_service_fee :: rat
  lnbits_service_fee_ignore_internal :: bool
  lnbits_service_fee_max :: int
  lnbits_service_fee_wallet :: "string option"

record security_settings = fee_settings +
  lnbits_callback_url_rules :: "string list"
  lnbits_wallet_limit_max_balance :: int
  lnbits_wallet_limit_daily_max_withdraw :: int
  lnbits_wallet_limit_secs_between_trans :: int
  lnbits_only_allow_incoming_payments :: bool
  lnbits_max_outgoing_payment_amount_sats :: int
  lnbits_max_incoming_payment_amount_sats :: int

text \<open>\<open>FiatProviderLimits\<close> and the four provider classes.\<close>

record fiat_provider_limits =
  allowed_users :: "string list"
  service_max_fee_sats :: int
  service_fee_percent :: rat
  service_fee_wallet_id :: "string option"
  service_min_amount_sats :: int
  service_max_amount_sats :: int
  service_faucet_wallet_id :: "string option"

record fiat_settings = security_settings +
  stripe_enabled :: bool
  stripe_limits :: fiat_provider_limits
  paypal_enabled :: bool
  paypal_limits :: fiat_provider_limits
  square_enabled :: bool
  square_limits :: fiat_provider_limits
  revolut_enabled :: bool
  revolut_limits :: fiat_provider_limits
  lnbits_allow_fiat_wallets :: bool

record auth_settings = fiat_settings +
  auth_allowed_methods :: "string list"
  auth_credetials_update_threshold :: int
  auth_authentication_cache_minutes :: int
  auth_token_expire_minutes :: int
  nostr_absolute_request_urls :: "string list"

record audit_settings = auth_settings +
  lnbits_audit_enabled :: bool
  lnbits_audit_log_path_params :: bool
  lnbits_audit_log_query_params :: bool
  lnbits_audit_log_request_body :: bool
  lnbits_audit_include_paths :: "string list"
  lnbits_audit_exclude_paths :: "string list"
  lnbits_audit_http_methods :: "string list"
  lnbits_audit_http_response_codes :: "string list"

record redirect_path =
  ext_id :: string
  from_path :: string
  redirect_to_path :: string
  header_filters :: "(string \<times> string) list"

record installed_extensions_settings = audit_settings +
  lnbits_deactivated_extensions :: "string set"
  lnbits_extensions_redirects :: "redirect_path list"
  lnbits_installed_extensions_ids :: "string set"

record rate_point =
  hp_timestamp :: int
  hp_rates :: dict

record exchange_history_settings = installed_extensions_settings +
  lnbits_exchange_rate_history :: "rate_point list"

text \<open>The remaining fields, of \<open>ExtensionsSettings\<close>, \<open>EnvSettings\<close>, \<open>BlockExplorerSettings\<close>,
  \<open>LightningSettings\<close>, \<open>FundingSourcesSettings\<close>, \<open>TransientSettings\<close> and
  \<open>ReadOnlySettings\<close>, that the modelled code reads.\<close>

record settings = exchange_history_settings +
  lnbits_admin_extensions :: "string list"
  lnbits_user_default_extensions :: "string list"
  lnbits_extensions_builder_activate_non_admins :: bool
  lnbits_all_extensions_ids :: "string set"
  lnbits_blockexplorer_enabled :: bool
  lnbits_blockexplorer_public_api :: bool
  super_user :: string
  auth_secret_key :: string
  first_install_token :: "string option"
  first_install_token_confirmed :: "string option"
  first_install :: bool
  lnbits_admin_ui :: bool
  lnbits_max_users :: int
  lnbits_site_title :: string
  lnbits_default_wallet_name :: string
  lnbits_default_accounting_currency :: "string option"
  lightning_invoice_expiry :: int
  lnbits_funding_source_pay_invoice_wait_seconds :: int

section \<open>Users and extensions\<close>

definition new_accounts_allowed :: "'a users_settings_scheme \<Rightarrow> bool" where
  "new_accounts_allowed s \<longleftrightarrow> lnbits_allow_new_accounts s \<and> length (lnbits_allowed_users s) = 0"

definition ln_address_creation_allowed :: "'a users_settings_scheme \<Rightarrow> bool" where
  "ln_address_creation_allowed s \<longleftrightarrow> lnbits_ln_address_mode s \<noteq> ''extension_only''"

definition is_super_user :: "'a settings_scheme \<Rightarrow> string \<Rightarrow> bool" where
  "is_super_user s user_id \<longleftrightarrow> user_id = super_user s"

definition is_admin_user :: "'a settings_scheme \<Rightarrow> string \<Rightarrow> bool" where
  "is_admin_user s user_id \<longleftrightarrow> is_super_user s user_id \<or> user_id \<in> set (lnbits_admin_users s)"

definition is_user_allowed :: "'a settings_scheme \<Rightarrow> string \<Rightarrow> bool" where
  "is_user_allowed s user_id \<longleftrightarrow>
     length (lnbits_allowed_users s) = 0
     \<or> user_id \<in> set (lnbits_allowed_users s)
     \<or> user_id \<in> set (lnbits_admin_users s)
     \<or> user_id = super_user s"

definition is_admin_extension :: "'a settings_scheme \<Rightarrow> string \<Rightarrow> bool" where
  "is_admin_extension s e \<longleftrightarrow> e \<in> set (lnbits_admin_extensions s)"

definition is_installed_extension_id :: "'a settings_scheme \<Rightarrow> string \<Rightarrow> bool" where
  "is_installed_extension_id s e \<longleftrightarrow> e \<in> lnbits_installed_extensions_ids s"

definition is_ready_to_install_extension_id :: "'a settings_scheme \<Rightarrow> string \<Rightarrow> bool" where
  "is_ready_to_install_extension_id s e \<longleftrightarrow>
     e \<notin> lnbits_installed_extensions_ids s \<and> e \<in> lnbits_all_extensions_ids s"

definition is_unlimited_assets_user :: "'a settings_scheme \<Rightarrow> string \<Rightarrow> bool" where
  "is_unlimited_assets_user s user_id \<longleftrightarrow>
     is_admin_user s user_id \<or> user_id \<in> set (lnbits_assets_no_limit_users s)"

section \<open>Fees and limits\<close>

text \<open>\<open>FeeSettings.fee_reserve\<close>: the amount to hold back for routing fees.\<close>

definition settings_fee_reserve :: "'a fee_settings_scheme \<Rightarrow> int \<Rightarrow> bool \<Rightarrow> int" where
  "settings_fee_reserve s amount_msat internal =
     (if internal then 0
      else max (lnbits_reserve_fee_min s)
             (py_trunc (fdiv (fmul (to_float \<bar>amount_msat\<bar>) (lnbits_reserve_fee_percent s)) 100)))"

definition is_wallet_max_balance_exceeded :: "'a security_settings_scheme \<Rightarrow> rat \<Rightarrow> bool" where
  "is_wallet_max_balance_exceeded s amount \<longleftrightarrow>
     lnbits_wallet_limit_max_balance s \<noteq> 0
     \<and> lnbits_wallet_limit_max_balance s > 0
     \<and> amount > of_int (lnbits_wallet_limit_max_balance s)"

section \<open>Fiat providers\<close>

definition is_fiat_provider_enabled :: "'a fiat_settings_scheme \<Rightarrow> string option \<Rightarrow> bool" where
  "is_fiat_provider_enabled s provider =
     (if \<not> truthy provider then False
      else if provider = Some ''stripe'' then stripe_enabled s
      else if provider = Some ''paypal'' then paypal_enabled s
      else if provider = Some ''square'' then square_enabled s
      else if provider = Some ''revolut'' then revolut_enabled s
      else False)"

definition user_in_limits :: "fiat_provider_limits \<Rightarrow> string \<Rightarrow> bool" where
  "user_in_limits l user_id \<longleftrightarrow> allowed_users l = [] \<or> user_id \<in> set (allowed_users l)"

definition get_fiat_providers_for_user :: "'a fiat_settings_scheme \<Rightarrow> string \<Rightarrow> string list" where
  "get_fiat_providers_for_user s user_id =
     (if stripe_enabled s \<and> user_in_limits (stripe_limits s) user_id then [''stripe''] else [])
     @ (if paypal_enabled s \<and> user_in_limits (paypal_limits s) user_id then [''paypal''] else [])
     @ (if square_enabled s \<and> user_in_limits (square_limits s) user_id then [''square''] else [])
     @ (if revolut_enabled s \<and> user_in_limits (revolut_limits s) user_id then [''revolut''] else [])"

definition can_create_fiat_wallet :: "'a fiat_settings_scheme \<Rightarrow> string \<Rightarrow> bool" where
  "can_create_fiat_wallet s user_id \<longleftrightarrow>
     lnbits_allow_fiat_wallets s \<or> get_fiat_providers_for_user s user_id \<noteq> []"

text \<open>
  \<open>get_fiat_provider_limits\<close> reads the attribute \<open>provider_name + "_limits"\<close>; the settings
  object has exactly these four attributes whose name ends in \<open>_limits\<close>.
\<close>

definition get_fiat_provider_limits ::
  "'a fiat_settings_scheme \<Rightarrow> string \<Rightarrow> fiat_provider_limits option" where
  "get_fiat_provider_limits s provider_name =
     (if provider_name = ''stripe'' then Some (stripe_limits s)
      else if provider_name = ''paypal'' then Some (paypal_limits s)
      else if provider_name = ''square'' then Some (square_limits s)
      else if provider_name = ''revolut'' then Some (revolut_limits s)
      else None)"

section \<open>Authentication methods\<close>

datatype auth_method =
    user_id_only
  | username_and_password
  | nostr_auth_nip98
  | google_auth
  | github_auth
  | keycloak_auth
  | oidc_auth

fun auth_method_value :: "auth_method \<Rightarrow> string" where
  "auth_method_value user_id_only = ''user-id-only''"
| "auth_method_value username_and_password = ''username-password''"
| "auth_method_value nostr_auth_nip98 = ''nostr-auth-nip98''"
| "auth_method_value google_auth = ''google-auth''"
| "auth_method_value github_auth = ''github-auth''"
| "auth_method_value keycloak_auth = ''keycloak-auth''"
| "auth_method_value oidc_auth = ''oidc-auth''"

definition is_auth_method_allowed :: "'a auth_settings_scheme \<Rightarrow> auth_method \<Rightarrow> bool" where
  "is_auth_method_allowed s m \<longleftrightarrow> auth_method_value m \<in> set (auth_allowed_methods s)"

section \<open>Audit filter\<close>

text \<open>
  \<open>re.fullmatch\<close> on a pattern the administrator typed in: a parameter, \<open>None\<close> where the pattern
  does not compile. \<open>_re_fullmatch_safe\<close> reads an error as no match.
\<close>

type_synonym regex_engine = "string \<Rightarrow> string \<Rightarrow> bool option"

definition re_fullmatch_safe :: "regex_engine \<Rightarrow> string \<Rightarrow> string \<Rightarrow> bool" where
  "re_fullmatch_safe re pattern s = (case re pattern s of Some b \<Rightarrow> b | None \<Rightarrow> False)"

definition is_http_request_path_auditable ::
  "regex_engine \<Rightarrow> 'a audit_settings_scheme \<Rightarrow> string option \<Rightarrow> bool" where
  "is_http_request_path_auditable re s path =
     (if lnbits_audit_exclude_paths s \<noteq> [] \<and> truthy path
         \<and> (\<exists>p \<in> set (lnbits_audit_exclude_paths s). re_fullmatch_safe re p (the path)) then False
      else if lnbits_audit_include_paths s = [] then True
      else if \<not> truthy path then False
      else (\<exists>p \<in> set (lnbits_audit_include_paths s). re_fullmatch_safe re p (the path)))"

definition is_http_response_code_auditable ::
  "regex_engine \<Rightarrow> 'a audit_settings_scheme \<Rightarrow> string option \<Rightarrow> bool" where
  "is_http_response_code_auditable re s code =
     (if \<not> truthy code then True
      else if lnbits_audit_http_response_codes s = [] then True
      else (\<exists>p \<in> set (lnbits_audit_http_response_codes s). re_fullmatch_safe re p (the code)))"

definition audit_http_request_details :: "'a audit_settings_scheme \<Rightarrow> bool" where
  "audit_http_request_details s \<longleftrightarrow>
     lnbits_audit_log_path_params s \<or> lnbits_audit_log_query_params s \<or> lnbits_audit_log_request_body s"

definition audit_http_request ::
  "regex_engine \<Rightarrow> 'a audit_settings_scheme \<Rightarrow> string option \<Rightarrow> string option \<Rightarrow> string option \<Rightarrow> bool" where
  "audit_http_request re s http_method path http_response_code =
     (if \<not> lnbits_audit_enabled s then False
      else if lnbits_audit_http_methods s \<noteq> []
              \<and> (\<not> truthy http_method \<or> the http_method \<notin> set (lnbits_audit_http_methods s)) then False
      else if \<not> is_http_request_path_auditable re s path then False
      else if \<not> is_http_response_code_auditable re s http_response_code then False
      else True)"

section \<open>Redirects of extensions\<close>

definition is_duplicate_well_known :: "redirect_path \<Rightarrow> bool" where
  "is_duplicate_well_known r \<longleftrightarrow> from_path r = ''/.well-known/lnurlp''"

definition has_common_path :: "redirect_path \<Rightarrow> string \<Rightarrow> bool" where
  "has_common_path r req_path =
     (if length (from_path r) > length req_path then False
      else
        let redirect_path_elements = split_on CHR ''/'' (from_path r);
            req_path_elements = split_on CHR ''/'' req_path;
            sub_path = take (length redirect_path_elements) req_path_elements
        in from_path r = join ''/'' sub_path)"

definition has_header :: "(string \<times> string) list \<Rightarrow> string \<times> string \<Rightarrow> bool" where
  "has_header req_headers header =
     list_ex (\<lambda>h. lower (fst h) = lower (fst header) \<and> lower (snd h) = lower (snd header)) req_headers"

definition has_headers :: "redirect_path \<Rightarrow> (string \<times> string) list \<Rightarrow> bool" where
  "has_headers r req_headers = list_all (has_header req_headers) (header_filters r)"

definition redirect_matches :: "redirect_path \<Rightarrow> string \<Rightarrow> (string \<times> string) list \<Rightarrow> bool" where
  "redirect_matches r path req_headers \<longleftrightarrow> has_common_path r path \<and> has_headers r req_headers"

definition in_conflict :: "redirect_path \<Rightarrow> redirect_path \<Rightarrow> bool" where
  "in_conflict self other =
     (if ext_id self = ext_id other then False
      else redirect_matches self (from_path other) (header_filters other)
           \<or> redirect_matches other (from_path self) (header_filters self))"

definition find_in_conflict :: "redirect_path \<Rightarrow> redirect_path list \<Rightarrow> redirect_path option" where
  "find_in_conflict self others = List.find (in_conflict self) others"

definition new_path_from :: "redirect_path \<Rightarrow> string \<Rightarrow> string" where
  "new_path_from self req_path =
     (let from_p = split_on CHR ''/'' (from_path self);
          redirect_to = split_on CHR ''/'' (redirect_to_path self);
          req_tail_path = drop (length from_p) (split_on CHR ''/'' req_path);
          elements = filter (\<lambda>e. e \<noteq> []) ([ext_id self] @ redirect_to @ req_tail_path)
      in ''/'' @ join ''/'' elements)"

definition find_extension_redirect ::
  "'a installed_extensions_settings_scheme \<Rightarrow> string \<Rightarrow> (string \<times> string) list \<Rightarrow> redirect_path option" where
  "find_extension_redirect s path headers =
     List.find (\<lambda>r. redirect_matches r path headers) (lnbits_extensions_redirects s)"

definition remove_extension_redirects ::
  "string \<Rightarrow> 'a installed_extensions_settings_scheme \<Rightarrow> 'a installed_extensions_settings_scheme" where
  "remove_extension_redirects e s =
     s\<lparr>lnbits_extensions_redirects := filter (\<lambda>er. ext_id er \<noteq> e) (lnbits_extensions_redirects s)\<rparr>"

text \<open>
  A redirect description of an extension's manifest: a dictionary that may carry an \<open>ext_id\<close> of
  its own. \<open>RedirectPath(**{"ext_id": ext_id, **er})\<close> lets that entry win over the id of the
  extension being activated.
\<close>

record redirect_spec =
  rs_ext_id :: "string option"
  rs_from_path :: string
  rs_redirect_to_path :: string
  rs_header_filters :: "(string \<times> string) list"

definition redirect_of :: "string \<Rightarrow> redirect_spec \<Rightarrow> redirect_path" where
  "redirect_of e er =
     \<lparr>ext_id = (case rs_ext_id er of None \<Rightarrow> e | Some x \<Rightarrow> x), from_path = rs_from_path er,
      redirect_to_path = rs_redirect_to_path er, header_filters = rs_header_filters er\<rparr>"

definition activate_extension_redirects ::
  "string \<Rightarrow> redirect_spec list \<Rightarrow> ('a installed_extensions_settings_scheme, unit) py" where
  "activate_extension_redirects e ext_redirects =
     bindP (gets lnbits_extensions_redirects) (\<lambda>redirects.
       let ext_redirect_paths = map (redirect_of e) ext_redirects;
           existing_redirects =
             filter (\<lambda>r. find_in_conflict r ext_redirect_paths \<noteq> None) redirects
       in thenP (failIf (existing_redirects \<noteq> [])
            (ValueError (''Cannot redirect for extension '' @ e)))
          (modify (\<lambda>s.
             let s' = remove_extension_redirects e s
             in s'\<lparr>lnbits_extensions_redirects := lnbits_extensions_redirects s' @ ext_redirect_paths\<rparr>)))"

definition activate_extension_paths ::
  "string \<Rightarrow> redirect_spec list \<Rightarrow> ('a installed_extensions_settings_scheme, unit) py" where
  "activate_extension_paths e ext_redirects =
     thenP (modify (\<lambda>s. s\<lparr>lnbits_deactivated_extensions := lnbits_deactivated_extensions s - {e}\<rparr>))
     (thenP (if ext_redirects \<noteq> [] then activate_extension_redirects e ext_redirects else ret ())
      (modify (\<lambda>s. s\<lparr>lnbits_installed_extensions_ids := insert e (lnbits_installed_extensions_ids s)\<rparr>)))"

definition deactivate_extension_paths ::
  "string \<Rightarrow> 'a installed_extensions_settings_scheme \<Rightarrow> 'a installed_extensions_settings_scheme" where
  "deactivate_extension_paths e s =
     remove_extension_redirects e
       (s\<lparr>lnbits_deactivated_extensions := insert e (lnbits_deactivated_extensions s)\<rparr>)"

section \<open>Exchange rate history\<close>

definition append_exchange_rate_datapoint ::
  "int \<Rightarrow> dict \<Rightarrow> int \<Rightarrow> 'a exchange_history_settings_scheme \<Rightarrow> 'a exchange_history_settings_scheme" where
  "append_exchange_rate_datapoint now rates max_size s =
     (let h = lnbits_exchange_rate_history s @ [\<lparr>hp_timestamp = now, hp_rates = rates\<rparr>]
      in s\<lparr>lnbits_exchange_rate_history := (if int (length h) > max_size then tl h else h)\<rparr>)"

record exchange_rate_provider =
  erp_name :: string
  erp_api_url :: string
  erp_path :: string
  erp_exclude_to :: "string list"
  erp_ticker_conversion :: "string list"

text \<open>
  \<open>convert_ticker\<close>: the loop over \<open>ticker_conversion\<close>. An entry that does not split into two
  parts makes the tuple assignment raise, which the \<open>try\<close> around the loop turns into
  \<open>return currency\<close>.
\<close>

fun convert_ticker_loop :: "string \<Rightarrow> string list \<Rightarrow> string" where
  "convert_ticker_loop currency [] = currency"
| "convert_ticker_loop currency (t # ts) =
     (case split_on CHR '':'' t of
        [frm, to] \<Rightarrow> if frm = currency then to else convert_ticker_loop currency ts
      | _ \<Rightarrow> currency)"

definition convert_ticker :: "exchange_rate_provider \<Rightarrow> string \<Rightarrow> string" where
  "convert_ticker p currency = convert_ticker_loop currency (erp_ticker_conversion p)"

end
