(* ===== verification/FundingSource.thy ===== *)
theory FundingSource
  imports Settings
begin

text \<open>
  \<open>lnbits/wallets/base.py\<close> and \<open>lnbits/wallets/fake.py\<close>: what a funding source (the Lightning
  backend) answers, the polling loop of the base class, and the fake wallet that backs internal
  and fiat invoices. The \<open>bolt11\<close> package, \<open>sha256\<close> and the random generator are parameters.
\<close>

section \<open>Answers of a funding source\<close>

definition payment_request_was_rejected :: "nat \<Rightarrow> bool" where
  "payment_request_was_rejected status_code \<longleftrightarrow> status_code \<in> {401, 403, 404, 405}"

record invoice_response =
  ir_ok :: "bool option"
  ir_checking_id :: "string option"
  ir_payment_request :: "string option"
  ir_error_message :: "string option"
  ir_preimage :: "string option"
  ir_fee_msat :: "int option"

record payment_response =
  pr_ok :: "bool option"
  pr_checking_id :: "string option"
  pr_fee_msat :: "int option"
  pr_preimage :: "string option"
  pr_error_message :: "string option"

record payment_status =
  paid :: "bool option"
  ps_fee_msat :: "int option"
  ps_preimage :: "string option"

definition ir_success :: "invoice_response \<Rightarrow> bool" where "ir_success r \<longleftrightarrow> ir_ok r = Some True"
definition ir_pending :: "invoice_response \<Rightarrow> bool" where "ir_pending r \<longleftrightarrow> ir_ok r = None"
definition ir_failed :: "invoice_response \<Rightarrow> bool" where "ir_failed r \<longleftrightarrow> ir_ok r = Some False"

definition pr_success :: "payment_response \<Rightarrow> bool" where "pr_success r \<longleftrightarrow> pr_ok r = Some True"
definition pr_pending :: "payment_response \<Rightarrow> bool" where "pr_pending r \<longleftrightarrow> pr_ok r = None"
definition pr_failed :: "payment_response \<Rightarrow> bool" where "pr_failed r \<longleftrightarrow> pr_ok r = Some False"

definition ps_success :: "payment_status \<Rightarrow> bool" where "ps_success s \<longleftrightarrow> paid s = Some True"
definition ps_pending :: "payment_status \<Rightarrow> bool" where "ps_pending s \<longleftrightarrow> paid s \<noteq> Some True"
definition ps_failed :: "payment_status \<Rightarrow> bool" where "ps_failed s \<longleftrightarrow> paid s = Some False"

definition ps_str :: "payment_status \<Rightarrow> string" where
  "ps_str s = (if ps_success s then ''success'' else if ps_failed s then ''failed'' else ''pending'')"

definition PaymentSuccessStatus :: "int option \<Rightarrow> string option \<Rightarrow> payment_status" where
  "PaymentSuccessStatus fee preimg = \<lparr>paid = Some True, ps_fee_msat = fee, ps_preimage = preimg\<rparr>"

definition PaymentFailedStatus :: payment_status where
  "PaymentFailedStatus = \<lparr>paid = Some False, ps_fee_msat = None, ps_preimage = None\<rparr>"

definition PaymentPendingStatus :: payment_status where
  "PaymentPendingStatus = \<lparr>paid = None, ps_fee_msat = None, ps_preimage = None\<rparr>"

lemmas status_defs =
  ir_success_def ir_pending_def ir_failed_def pr_success_def pr_pending_def pr_failed_def
  ps_success_def ps_pending_def ps_failed_def
  PaymentSuccessStatus_def PaymentFailedStatus_def PaymentPendingStatus_def

section \<open>Features of a funding source\<close>

datatype feature = nodemanager | holdinvoice | descriptionhash

definition has_feature :: "feature list option \<Rightarrow> feature \<Rightarrow> bool" where
  "has_feature features f = (case features of None \<Rightarrow> False | Some fs \<Rightarrow> f \<in> set fs)"

text \<open>The three hold-invoice methods of the base class, which a backend without the feature inherits.\<close>

definition base_create_hold_invoice :: "exn + invoice_response" where
  "base_create_hold_invoice =
     Inl (InvoiceError ''Hold invoices are not supported by this wallet.'' ''failed'')"

definition base_settle_hold_invoice :: "exn + invoice_response" where
  "base_settle_hold_invoice =
     Inl (InvoiceError ''Hold invoices are not supported by this wallet.'' ''failed'')"

definition base_cancel_hold_invoice :: "exn + invoice_response" where
  "base_cancel_hold_invoice =
     Inl (InvoiceError ''Hold invoices are not supported by this wallet.'' ''failed'')"

section \<open>The polling loop \<open>paid_invoices_stream\<close>\<close>

text \<open>
  One round of the \<open>while\<close> loop: \<open>for invoice in self.pending_invoices\<close> walks the list by index
  while the body removes elements from it, so the element that slides into the place of a removed
  one is passed over. \<open>status\<close> is what \<open>get_invoice_status\<close> answers, \<open>None\<close> where it raises. The
  result is the list left and the invoices yielded.
\<close>

function poll_round ::
  "(string \<Rightarrow> payment_status option) \<Rightarrow> nat \<Rightarrow> string list \<Rightarrow> string list \<times> string list" where
  "poll_round status i pending =
     (if i < length pending then
        let invoice = pending ! i in
        case status invoice of
          None \<Rightarrow> poll_round status (Suc i) pending
        | Some st \<Rightarrow>
            if ps_success st then
              let (left, yielded) = poll_round status (Suc i) (remove1 invoice pending)
              in (left, invoice # yielded)
            else if ps_failed st then poll_round status (Suc i) (remove1 invoice pending)
            else poll_round status (Suc i) pending
      else (pending, []))"
  by pat_completeness auto
termination
  by (relation "measure (\<lambda>(_, i, p). length p - i)") (auto simp: length_remove1)

declare poll_round.simps [simp del]

text \<open>\<open>n\<close> rounds, as the \<open>while settings.lnbits_running\<close> loop makes them, the answers unchanged.\<close>

fun poll_rounds :: "(string \<Rightarrow> payment_status option) \<Rightarrow> nat \<Rightarrow> string list \<Rightarrow> string list \<times> string list" where
  "poll_rounds status 0 pending = (pending, [])"
| "poll_rounds status (Suc n) pending =
     (let (left, y) = poll_round status 0 pending;
          (left', y') = poll_rounds status n left
      in (left', y @ y'))"

section \<open>Invoices of the bolt11 package\<close>

record bolt11 =
  b_amount_msat :: "int option"
  b_payment_hash :: string
  b_payment_secret :: "string option"
  b_description :: "string option"
  b_description_hash :: "string option"
  b_expiry :: "int option"
  b_date :: int

section \<open>The fake wallet\<close>

record fake_wallet =
  fw_queue :: "bolt11 list"
  fw_payment_secrets :: "(string \<times> string) list"
  fw_paid_invoices :: "string set"

definition fake_init :: fake_wallet where
  "fake_init = \<lparr>fw_queue = [], fw_payment_secrets = [], fw_paid_invoices = {}\<rparr>"

text \<open>
  \<open>create_invoice\<close>: \<open>sha\<close> is SHA-256 on bytes to a hex digest, \<open>preimage\<close> and \<open>rnd_secret\<close> are
  the two draws of \<open>urandom\<close> in hex, \<open>sha_hex\<close> the digest of the preimage, \<open>enc\<close> the encoder.
\<close>

definition fake_create_invoice ::
  "(bolt11 \<Rightarrow> string) \<Rightarrow> (string \<Rightarrow> string) \<Rightarrow> int \<Rightarrow> string \<Rightarrow> string \<Rightarrow>
   int \<Rightarrow> string option \<Rightarrow> string option \<Rightarrow> string option \<Rightarrow> int option \<Rightarrow> string option \<Rightarrow>
   fake_wallet \<Rightarrow> invoice_response \<times> fake_wallet" where
  "fake_create_invoice enc sha now preimg rnd_secret
     amount memo description_hash unhashed_description expiry payment_secret w =
     (let ph = sha preimg;
          b = \<lparr>b_amount_msat = Some (amount * 1000), b_payment_hash = ph,
               b_payment_secret = Some (if truthy payment_secret then the payment_secret else rnd_secret),
               b_description =
                 (if truthy description_hash \<or> truthy unhashed_description then None
                  else Some (if truthy memo then the memo else [])),
               b_description_hash =
                 (if truthy description_hash then description_hash
                  else if truthy unhashed_description then Some (sha (the unhashed_description))
                  else None),
               b_expiry = (case expiry of Some e \<Rightarrow> if e = 0 then None else Some e | None \<Rightarrow> None),
               b_date = now\<rparr>
      in (\<lparr>ir_ok = Some True, ir_checking_id = Some ph, ir_payment_request = Some (enc b),
           ir_error_message = None, ir_preimage = Some preimg, ir_fee_msat = None\<rparr>,
          w\<lparr>fw_payment_secrets := AList.update ph preimg (fw_payment_secrets w)\<rparr>))"

text \<open>\<open>pay_invoice\<close>: \<open>dec\<close> is the decoder, \<open>Inl\<close> the message of a \<open>Bolt11Exception\<close>.\<close>

definition fake_pay_invoice ::
  "(string \<Rightarrow> string + bolt11) \<Rightarrow> string \<Rightarrow> int \<Rightarrow> fake_wallet \<Rightarrow> payment_response \<times> fake_wallet" where
  "fake_pay_invoice dec pay_req fee_limit_msat w =
     (case dec pay_req of
        Inl msg \<Rightarrow>
          (\<lparr>pr_ok = Some False, pr_checking_id = None, pr_fee_msat = None, pr_preimage = None,
            pr_error_message = Some msg\<rparr>, w)
      | Inr invoice \<Rightarrow>
          if b_payment_hash invoice \<in> fst ` set (fw_payment_secrets w) then
            (\<lparr>pr_ok = Some True, pr_checking_id = Some (b_payment_hash invoice), pr_fee_msat = Some 0,
              pr_preimage =
                Some (let p = map_of (fw_payment_secrets w) (b_payment_hash invoice)
                      in if truthy p then the p else replicate 64 CHR ''0''),
              pr_error_message = None\<rparr>,
             w\<lparr>fw_queue := fw_queue w @ [invoice],
               fw_paid_invoices := insert (b_payment_hash invoice) (fw_paid_invoices w)\<rparr>)
          else
            (\<lparr>pr_ok = Some False, pr_checking_id = None, pr_fee_msat = None, pr_preimage = None,
              pr_error_message = Some ''Only internal invoices can be used!''\<rparr>, w))"

definition fake_get_invoice_status :: "fake_wallet \<Rightarrow> string \<Rightarrow> payment_status" where
  "fake_get_invoice_status w checking_id =
     (if checking_id \<in> fw_paid_invoices w then PaymentSuccessStatus None None
      else if checking_id \<in> fst ` set (fw_payment_secrets w) then PaymentPendingStatus
      else PaymentFailedStatus)"

definition fake_get_payment_status :: "fake_wallet \<Rightarrow> string \<Rightarrow> payment_status" where
  "fake_get_payment_status w checking_id = PaymentPendingStatus"

end
