(* ===== verification/WalletModel.thy ===== *)
theory WalletModel
  imports FundingSource
begin

text \<open>
  \<open>lnbits/core/models/wallets.py\<close>: wallets, the permissions a shared wallet carries, and the
  sharing invitations kept in a wallet's \<open>extra\<close> field. Times are whole seconds since the epoch.
\<close>

section \<open>Enumerations\<close>

datatype wallet_type = LIGHTNING | FIAT | LIGHTNING_SHARED

fun wallet_type_value :: "wallet_type \<Rightarrow> string" where
  "wallet_type_value LIGHTNING = ''lightning''"
| "wallet_type_value FIAT = ''fiat''"
| "wallet_type_value LIGHTNING_SHARED = ''lightning-shared''"

datatype wallet_permission = VIEW_PAYMENTS | RECEIVE_PAYMENTS | SEND_PAYMENTS

datatype wallet_share_status = INVITE_SENT | APPROVED

datatype key_type = AdminKey | InvoiceKey | InvalidKey

section \<open>Shares\<close>

record wallet_share =
  ws_request_id :: "string option"
  ws_username :: string
  ws_shared_with_wallet_id :: "string option"
  ws_permissions :: "wallet_permission list"
  ws_status :: wallet_share_status
  ws_comment :: "string option"

definition ws_approve :: "wallet_permission list option \<Rightarrow> string option \<Rightarrow> wallet_share \<Rightarrow> wallet_share" where
  "ws_approve permissions shared_with_wallet_id ws =
     ws\<lparr>ws_status := APPROVED,
        ws_permissions := (case permissions of None \<Rightarrow> ws_permissions ws | Some p \<Rightarrow> p),
        ws_shared_with_wallet_id :=
          (case shared_with_wallet_id of None \<Rightarrow> ws_shared_with_wallet_id ws | Some w \<Rightarrow> Some w)\<rparr>"

definition ws_is_approved :: "wallet_share \<Rightarrow> bool" where
  "ws_is_approved ws \<longleftrightarrow> ws_status ws = APPROVED"

record wallet_extra =
  we_icon :: string
  we_color :: string
  we_pinned :: bool
  we_shared_with :: "wallet_share list"

definition default_wallet_extra :: wallet_extra where
  "default_wallet_extra =
     \<lparr>we_icon = ''flash_on'', we_color = ''primary'', we_pinned = False, we_shared_with = []\<rparr>"

definition invite_user_to_shared_wallet ::
  "string \<Rightarrow> wallet_share_status \<Rightarrow> string \<Rightarrow> wallet_permission list \<Rightarrow> wallet_extra
   \<Rightarrow> wallet_share \<times> wallet_extra" where
  "invite_user_to_shared_wallet request_id request_type username permissions x =
     (let share = \<lparr>ws_request_id = Some request_id, ws_username = username,
                   ws_shared_with_wallet_id = None, ws_permissions = permissions,
                   ws_status = request_type, ws_comment = None\<rparr>
      in (share, x\<lparr>we_shared_with := we_shared_with x @ [share]\<rparr>))"

definition find_share_by_id :: "string \<Rightarrow> wallet_extra \<Rightarrow> wallet_share option" where
  "find_share_by_id request_id x =
     List.find (\<lambda>s. ws_request_id s = Some request_id) (we_shared_with x)"

definition find_share_for_wallet :: "string \<Rightarrow> wallet_extra \<Rightarrow> wallet_share option" where
  "find_share_for_wallet wid x =
     List.find (\<lambda>s. ws_shared_with_wallet_id s = Some wid) (we_shared_with x)"

definition remove_share_by_id :: "string \<Rightarrow> wallet_extra \<Rightarrow> wallet_extra" where
  "remove_share_by_id request_id x =
     x\<lparr>we_shared_with := filter (\<lambda>s. ws_request_id s \<noteq> Some request_id) (we_shared_with x)\<rparr>"

text \<open>
  Python returns a reference to the share inside the list and changes it in place
  (\<open>share.approve(...)\<close>); the model updates the first element that the finder returned.
\<close>

fun update_first :: "('a \<Rightarrow> bool) \<Rightarrow> ('a \<Rightarrow> 'a) \<Rightarrow> 'a list \<Rightarrow> 'a list" where
  "update_first P f [] = []"
| "update_first P f (x # xs) = (if P x then f x # xs else x # update_first P f xs)"

section \<open>Wallets\<close>

record base_wallet =
  w_id :: string
  w_user :: string
  w_wallet_type :: string
  w_adminkey :: string
  w_inkey :: string

record wallet = base_wallet +
  w_name :: string
  w_shared_wallet_id :: "string option"
  w_deleted :: bool
  w_created_at :: int
  w_updated_at :: int
  w_currency :: "string option"
  w_lightning_address :: "string option"
  w_balance_msat :: int
  w_extra :: wallet_extra
  w_stored_paylinks :: jval
  w_share_permissions :: "wallet_permission list"

definition is_lightning_wallet :: "wallet \<Rightarrow> bool" where
  "is_lightning_wallet w \<longleftrightarrow> w_wallet_type w = wallet_type_value LIGHTNING"

definition is_lightning_shared_wallet :: "wallet \<Rightarrow> bool" where
  "is_lightning_shared_wallet w \<longleftrightarrow> w_wallet_type w = wallet_type_value LIGHTNING_SHARED"

definition is_fiat_wallet :: "wallet \<Rightarrow> bool" where
  "is_fiat_wallet w \<longleftrightarrow> w_wallet_type w = wallet_type_value FIAT"

text \<open>\<open>_validate_data\<close>, run by the constructor.\<close>

definition wallet_validate_data :: "wallet \<Rightarrow> exn + wallet" where
  "wallet_validate_data w =
     (if is_lightning_shared_wallet w \<and> \<not> truthy (w_shared_wallet_id w)
      then Inl (ValueError ''Shared wallet ID must be set for shared wallets.'')
      else Inr w)"

fun share_permissions_in :: "string \<Rightarrow> wallet_share list \<Rightarrow> wallet_permission list" where
  "share_permissions_in wid [] = []"
| "share_permissions_in wid (s # ss) =
     (if ws_shared_with_wallet_id s = Some wid \<and> ws_is_approved s then ws_permissions s
      else share_permissions_in wid ss)"

definition get_share_permissions :: "wallet \<Rightarrow> string \<Rightarrow> wallet_permission list" where
  "get_share_permissions w wid = share_permissions_in wid (we_shared_with (w_extra w))"

definition has_permission :: "wallet \<Rightarrow> wallet_permission \<Rightarrow> bool" where
  "has_permission w permission =
     (if is_fiat_wallet w then permission \<in> {VIEW_PAYMENTS, RECEIVE_PAYMENTS}
      else if is_lightning_wallet w then True
      else if is_lightning_shared_wallet w then permission \<in> set (w_share_permissions w)
      else False)"

definition can_receive_payments :: "wallet \<Rightarrow> bool" where
  "can_receive_payments w \<longleftrightarrow> has_permission w RECEIVE_PAYMENTS"

definition can_send_payments :: "wallet \<Rightarrow> bool" where
  "can_send_payments w \<longleftrightarrow> has_permission w SEND_PAYMENTS"

definition can_view_payments :: "wallet \<Rightarrow> bool" where
  "can_view_payments w \<longleftrightarrow> has_permission w VIEW_PAYMENTS"

definition source_wallet_id :: "wallet \<Rightarrow> string" where
  "source_wallet_id w =
     (if is_lightning_shared_wallet w \<and> w_share_permissions w \<noteq> []
      then (if truthy (w_shared_wallet_id w) then the (w_shared_wallet_id w) else w_id w)
      else w_id w)"

definition wallet_balance :: "wallet \<Rightarrow> int" where
  "wallet_balance w = w_balance_msat w div 1000"

definition withdrawable_balance :: "'a fee_settings_scheme \<Rightarrow> wallet \<Rightarrow> int" where
  "withdrawable_balance cfg w =
     (if is_fiat_wallet w then 0
      else w_balance_msat w - settings_fee_reserve cfg (w_balance_msat w) False)"

definition mirror_shared_wallet :: "wallet \<Rightarrow> wallet \<Rightarrow> wallet" where
  "mirror_shared_wallet self shared =
     (if \<not> is_lightning_wallet shared then self
      else
        let w = self\<lparr>w_wallet_type := wallet_type_value LIGHTNING_SHARED,
                     w_shared_wallet_id := Some (w_id shared),
                     w_name := w_name shared,
                     w_share_permissions := get_share_permissions shared (w_id self)\<rparr>
        in if w_share_permissions w \<noteq> [] then
             w\<lparr>w_currency := w_currency shared,
               w_lightning_address := w_lightning_address shared,
               w_balance_msat := w_balance_msat shared,
               w_stored_paylinks := w_stored_paylinks shared,
               w_extra := (w_extra w)\<lparr>we_icon := we_icon (w_extra shared),
                                      we_color := we_color (w_extra shared)\<rparr>\<rparr>
           else w)"

definition copy_with_keys :: "bool \<Rightarrow> wallet \<Rightarrow> wallet" where
  "copy_with_keys keep w =
     (if \<not> keep then w\<lparr>w_adminkey := replicate 32 CHR ''*'', w_inkey := replicate 32 CHR ''*''\<rparr> else w)"

lemmas wallet_defs =
  is_lightning_wallet_def is_lightning_shared_wallet_def is_fiat_wallet_def has_permission_def
  can_receive_payments_def can_send_payments_def can_view_payments_def

section \<open>Facts shared by the clients\<close>

lemma share_permissions_in_approved:
  "p \<in> set (share_permissions_in wid ss) \<Longrightarrow>
   \<exists>s \<in> set ss. ws_shared_with_wallet_id s = Some wid \<and> ws_is_approved s \<and> p \<in> set (ws_permissions s)"
  by (induction ss) (auto split: if_splits)

lemma mirror_id [simp]: "w_id (mirror_shared_wallet w s) = w_id w"
  by (simp add: mirror_shared_wallet_def Let_def)

lemma mirror_user [simp]: "w_user (mirror_shared_wallet w s) = w_user w"
  by (simp add: mirror_shared_wallet_def Let_def)

lemma mirror_permissions:
  "is_lightning_wallet s \<Longrightarrow>
   w_share_permissions (mirror_shared_wallet w s) = get_share_permissions s (w_id w)"
  by (simp add: mirror_shared_wallet_def Let_def)

lemma mirror_type:
  "is_lightning_wallet s \<Longrightarrow> is_lightning_shared_wallet (mirror_shared_wallet w s)"
  by (simp add: mirror_shared_wallet_def Let_def is_lightning_shared_wallet_def)

lemma mirror_has_permission:
  "is_lightning_wallet s \<Longrightarrow>
   has_permission (mirror_shared_wallet w s) p \<longleftrightarrow> p \<in> set (get_share_permissions s (w_id w))"
  using mirror_type [of s w] mirror_permissions [of s w]
  by (simp add: has_permission_def is_fiat_wallet_def is_lightning_wallet_def
      is_lightning_shared_wallet_def)

end
