(* ===== verification/PaymentModel.thy ===== *)
theory PaymentModel
  imports WalletModel
begin

text \<open>
  \<open>lnbits/core/models/payments.py\<close>: a payment row, the data it is created from, and the request
  data of an invoice. An amount is in millisatoshis, positive for an incoming payment and negative
  for an outgoing one.
\<close>

section \<open>Payments\<close>

datatype payment_state = PENDING | SUCCESS | FAILED

fun payment_state_value :: "payment_state \<Rightarrow> string" where
  "payment_state_value PENDING = ''pending''"
| "payment_state_value SUCCESS = ''success''"
| "payment_state_value FAILED = ''failed''"

record create_payment_data =
  cp_wallet_id :: string
  cp_payment_hash :: string
  cp_bolt11 :: string
  cp_amount_msat :: int
  cp_memo :: string
  cp_extra :: dict
  cp_extension :: "string option"
  cp_preimage :: "string option"
  cp_expiry :: "int option"
  cp_webhook :: "string option"
  cp_fee :: int
  cp_labels :: "string list"
  cp_external_id :: "string option"

record payment =
  p_checking_id :: string
  p_payment_hash :: string
  p_wallet_id :: string
  p_amount :: int
  p_fee :: int
  p_bolt11 :: string
  p_fiat_provider :: "string option"
  p_status :: payment_state
  p_memo :: "string option"
  p_expiry :: "int option"
  p_webhook :: "string option"
  p_webhook_status :: "string option"
  p_preimage :: "string option"
  p_tag :: "jval option"
  p_extension :: "string option"
  p_time :: int
  p_created_at :: int
  p_updated_at :: int
  p_labels :: "string list"
  p_extra :: dict
  p_external_id :: "string option"

definition p_pending :: "payment \<Rightarrow> bool" where "p_pending p \<longleftrightarrow> p_status p = PENDING"
definition p_success :: "payment \<Rightarrow> bool" where "p_success p \<longleftrightarrow> p_status p = SUCCESS"
definition p_failed :: "payment \<Rightarrow> bool" where "p_failed p \<longleftrightarrow> p_status p = FAILED"

definition p_msat :: "payment \<Rightarrow> int" where "p_msat p = p_amount p"
definition p_sat :: "payment \<Rightarrow> int" where "p_sat p = p_amount p div 1000"

definition is_in :: "payment \<Rightarrow> bool" where "is_in p \<longleftrightarrow> p_amount p > 0"
definition is_out :: "payment \<Rightarrow> bool" where "is_out p \<longleftrightarrow> p_amount p < 0"

definition is_expired :: "int \<Rightarrow> payment \<Rightarrow> bool" where
  "is_expired now p = (case p_expiry p of None \<Rightarrow> False | Some e \<Rightarrow> e < now)"

definition is_internal :: "payment \<Rightarrow> bool" where
  "is_internal p \<longleftrightarrow>
     startswith (p_checking_id p) ''internal_'' \<or> startswith (p_checking_id p) ''fiat_''"

text \<open>The \<open>payment_request\<close> attribute that \<open>Payment.__init__\<close> sets; it is not stored.\<close>

definition payment_request_attr :: "payment \<Rightarrow> jval" where
  "payment_request_attr p =
     (case dget (p_extra p) ''fiat_payment_request'' of Some v \<Rightarrow> v | None \<Rightarrow> JStr (p_bolt11 p))"

section \<open>Request data of an invoice\<close>

record create_invoice_data =
  ci_unit :: string
  ci_internal :: bool
  ci_amount :: rat
  ci_memo :: "string option"
  ci_description_hash :: "string option"
  ci_unhashed_description :: "string option"
  ci_payment_hash :: "string option"
  ci_expiry :: "int option"
  ci_extra :: dict
  ci_extension :: "string option"
  ci_webhook :: "string option"
  ci_lnurl_withdraw :: "string option"
  ci_fiat_provider :: "string option"
  ci_labels :: "string list"
  ci_external_id :: "string option"

definition is_fiat_subscription :: "create_invoice_data \<Rightarrow> bool" where
  "is_fiat_subscription d \<longleftrightarrow> dget (ci_extra d) ''fiat_method'' = Some (JStr ''subscription'')"

text \<open>\<open>bytes.fromhex\<close>: pairs of hex digits, white space allowed between pairs.\<close>

definition is_hex_digit :: "char \<Rightarrow> bool" where
  "is_hex_digit c \<longleftrightarrow>
     (let n = (of_char c :: nat) in (48 \<le> n \<and> n \<le> 57) \<or> (65 \<le> n \<and> n \<le> 70) \<or> (97 \<le> n \<and> n \<le> 102))"

fun valid_fromhex :: "string \<Rightarrow> bool" where
  "valid_fromhex [] = True"
| "valid_fromhex [c] = is_c_space c"
| "valid_fromhex (c # d # cs) =
     (if is_c_space c then valid_fromhex (d # cs)
      else is_hex_digit c \<and> is_hex_digit d \<and> valid_fromhex cs)"

definition is_valid_external_id :: "string \<Rightarrow> bool" where
  "is_valid_external_id external_id =
     (if length external_id > 256 then False
      else if CHR '' '' \<in> set external_id \<or> char_of (10 :: nat) \<in> set external_id then False
      else True)"

definition validate_external_id :: "string option \<Rightarrow> exn + string option" where
  "validate_external_id external_id =
     (if truthy external_id \<and> \<not> is_valid_external_id (the external_id)
      then Inl (ValueError ''Invalid external id. Max length is 256 characters. Space and newlines are not allowed.'')
      else Inr external_id)"

lemmas payment_defs =
  p_pending_def p_success_def p_failed_def is_in_def is_out_def p_msat_def p_sat_def

end
