(* ===== verification/UserModel.thy ===== *)
theory UserModel
  imports PaymentModel
begin

text \<open>
  \<open>lnbits/core/models/users.py\<close> and the validators of \<open>lnbits/helpers.py\<close> it uses: accounts,
  invitations to shared wallets, labels, and the access control lists of API tokens. The regular
  expressions are written out as the predicates they denote.
\<close>

section \<open>Validators\<close>

definition is_alpha :: "char \<Rightarrow> bool" where
  "is_alpha c \<longleftrightarrow> (let n = (of_char c :: nat) in (65 \<le> n \<and> n \<le> 90) \<or> (97 \<le> n \<and> n \<le> 122))"

definition is_alnum :: "char \<Rightarrow> bool" where
  "is_alnum c \<longleftrightarrow> is_alpha c \<or> is_digit c"

definition newline :: char where "newline = char_of (10 :: nat)"

text \<open>
  \<open>re.fullmatch(r"[A-Za-z0-9\._%+-]+@[A-Za-z0-9\.-]+\.[A-Za-z]{2,63}", email)\<close>: no character class
  contains \<open>@\<close> and the last one contains no dot, so the split is determined.
\<close>

definition is_valid_email_address :: "string \<Rightarrow> bool" where
  "is_valid_email_address email =
     (case split_on CHR ''@'' email of
        [local_part, domain_part] \<Rightarrow>
          local_part \<noteq> []
          \<and> list_all (\<lambda>c. is_alnum c \<or> c \<in> set ''._%+-'') local_part
          \<and> (let labels = split_on CHR ''.'' domain_part; tld = last labels;
                 host = join ''.'' (butlast labels)
             in 2 \<le> length labels \<and> host \<noteq> []
                \<and> list_all (\<lambda>c. is_alnum c \<or> c \<in> set ''.-'') host
                \<and> list_all is_alpha tld \<and> 2 \<le> length tld \<and> length tld \<le> 63)
      | _ \<Rightarrow> False)"

text \<open>
  \<open>re.fullmatch(r"(?=[a-zA-Z0-9._]{2,20}$)(?!.*[_.]{2})[^_.].*[^_.]", username)\<close>. The dollar sign
  of the first look-ahead also matches before a line break at the end of the string, and the last
  class \<open>[^_.]\<close> accepts that line break; the model keeps this reading.
\<close>

fun no_adjacent :: "(char \<Rightarrow> bool) \<Rightarrow> string \<Rightarrow> bool" where
  "no_adjacent P (a # b # cs) = (\<not> (P a \<and> P b) \<and> no_adjacent P (b # cs))"
| "no_adjacent P _ = True"

definition username_core :: "string \<Rightarrow> string" where
  "username_core s = (if s \<noteq> [] \<and> last s = newline then butlast s else s)"

definition is_valid_username :: "string \<Rightarrow> bool" where
  "is_valid_username s =
     (let core = username_core s
      in list_all (\<lambda>c. is_alnum c \<or> c \<in> set ''._'') core \<and> 2 \<le> length core \<and> length core \<le> 20
         \<and> no_adjacent (\<lambda>c. c \<in> set ''_.'') s
         \<and> hd s \<notin> set ''_.'' \<and> last s \<notin> set ''_.'')"

definition is_valid_label :: "string \<Rightarrow> bool" where
  "is_valid_label s \<longleftrightarrow>
     1 \<le> length s \<and> length s \<le> 100 \<and> list_all (\<lambda>c. is_alnum c \<or> c \<in> set '' ._-'') s"

text \<open>
  \<open>int(s, 16)\<close> succeeds: white space around, a sign, an optional \<open>0x\<close>, hex digits with single
  underscores between them (and one allowed right after the prefix).
\<close>

fun hex_groups :: "string \<Rightarrow> bool" where
  "hex_groups [] = False"
| "hex_groups [c] = is_hex_digit c"
| "hex_groups (c # d # cs) =
     (is_hex_digit c \<and> (if d = CHR ''_'' then hex_groups cs else hex_groups (d # cs)))"

definition int16_ok :: "string \<Rightarrow> bool" where
  "int16_ok s =
     (let t = strip s;
          u = (if t \<noteq> [] \<and> hd t \<in> set ''+-'' then tl t else t)
      in if startswith u ''0x'' \<or> startswith u ''0X''
         then (let v = drop 2 u in hex_groups (if v \<noteq> [] \<and> hd v = CHR ''_'' then tl v else v))
         else hex_groups u)"

definition is_valid_pubkey :: "string \<Rightarrow> bool" where
  "is_valid_pubkey pubkey = (if length pubkey \<noteq> 64 then False else int16_ok pubkey)"

text \<open>
  \<open>UUID(hex=s, version=4).hex = s\<close>: 32 lower case hex digits with the version digit 4 and a
  variant digit of 8, 9, a or b, which are the digits the constructor forces.
\<close>

definition is_lower_hex :: "char \<Rightarrow> bool" where
  "is_lower_hex c \<longleftrightarrow> is_digit c \<or> c \<in> set ''abcdef''"

definition is_uuid4_hex :: "string \<Rightarrow> bool" where
  "is_uuid4_hex s \<longleftrightarrow>
     length s = 32 \<and> list_all is_lower_hex s \<and> s ! 12 = CHR ''4'' \<and> s ! 16 \<in> set ''89ab''"

section \<open>Accounts\<close>

record wallet_invite_request =
  wi_request_id :: string
  wi_from_user_name :: "string option"
  wi_to_wallet_id :: string
  wi_to_wallet_name :: string

record user_label =
  ul_name :: string
  ul_description :: "string option"
  ul_color :: "string option"

record user_notifications =
  un_nostr_identifier :: "string option"
  un_telegram_chat_id :: "string option"
  un_email_address :: "string option"
  un_excluded_wallets :: "string list"
  un_outgoing_payments_sats :: int
  un_incoming_payments_sats :: int

record user_extra =
  ue_email_verified :: "bool option"
  ue_first_name :: "string option"
  ue_last_name :: "string option"
  ue_display_name :: "string option"
  ue_picture :: "string option"
  ue_provider :: "string option"
  ue_visible_wallet_count :: "int option"
  ue_notifications :: user_notifications
  ue_wallet_invite_requests :: "wallet_invite_request list"
  ue_labels :: "user_label list"

definition default_user_extra :: user_extra where
  "default_user_extra =
     \<lparr>ue_email_verified = Some False, ue_first_name = None, ue_last_name = None, ue_display_name = None,
      ue_picture = None, ue_provider = Some ''lnbits'', ue_visible_wallet_count = Some 10,
      ue_notifications = \<lparr>un_nostr_identifier = None, un_telegram_chat_id = None, un_email_address = None,
        un_excluded_wallets = [], un_outgoing_payments_sats = 0, un_incoming_payments_sats = 0\<rparr>,
      ue_wallet_invite_requests = [], ue_labels = []\<rparr>"

definition find_wallet_invite_request :: "string \<Rightarrow> user_extra \<Rightarrow> wallet_invite_request option" where
  "find_wallet_invite_request request_id x =
     List.find (\<lambda>i. wi_request_id i = request_id) (ue_wallet_invite_requests x)"

definition remove_wallet_invite_request :: "string \<Rightarrow> user_extra \<Rightarrow> user_extra" where
  "remove_wallet_invite_request request_id x =
     x\<lparr>ue_wallet_invite_requests :=
         filter (\<lambda>i. wi_request_id i \<noteq> request_id) (ue_wallet_invite_requests x)\<rparr>"

definition add_wallet_invite_request ::
  "string \<Rightarrow> string \<Rightarrow> string \<Rightarrow> string option \<Rightarrow> user_extra \<Rightarrow> user_extra" where
  "add_wallet_invite_request request_id to_wallet_id to_wallet_name from_user_name x =
     (let x' = remove_wallet_invite_request request_id x
      in x'\<lparr>ue_wallet_invite_requests := ue_wallet_invite_requests x' @
             [\<lparr>wi_request_id = request_id, wi_from_user_name = from_user_name,
               wi_to_wallet_id = to_wallet_id, wi_to_wallet_name = to_wallet_name\<rparr>]\<rparr>)"

fun validate_labels_loop :: "string list \<Rightarrow> user_label list \<Rightarrow> exn + unit" where
  "validate_labels_loop seen [] = Inr ()"
| "validate_labels_loop seen (l # ls) =
     (if ul_name l = [] then Inl (ValueError ''Label name cannot be empty.'')
      else if \<not> is_valid_label (ul_name l) then Inl (ValueError (''Invalid label name: '' @ ul_name l))
      else if ul_name l \<in> set seen then Inl (ValueError (''Duplicate label name: '' @ ul_name l))
      else validate_labels_loop (ul_name l # seen) ls)"

definition validate_labels :: "user_extra \<Rightarrow> exn + unit" where
  "validate_labels x = validate_labels_loop [] (ue_labels x)"

record account =
  a_id :: string
  a_activated :: bool
  a_external_id :: "string option"
  a_username :: "string option"
  a_password_hash :: "string option"
  a_pubkey :: "string option"
  a_email :: "string option"
  a_extra :: user_extra
  a_ui_customization :: dict
  a_created_at :: int
  a_updated_at :: int

text \<open>The three fields that the constructor computes from the settings and that are not stored.\<close>

definition account_is_super_user :: "settings \<Rightarrow> account \<Rightarrow> bool" where
  "account_is_super_user cfg a \<longleftrightarrow> is_super_user cfg (a_id a)"

definition account_is_admin :: "settings \<Rightarrow> account \<Rightarrow> bool" where
  "account_is_admin cfg a \<longleftrightarrow> is_admin_user cfg (a_id a)"

definition account_fiat_providers :: "settings \<Rightarrow> account \<Rightarrow> string list" where
  "account_fiat_providers cfg a = get_fiat_providers_for_user cfg (a_id a)"

definition has_password :: "account \<Rightarrow> bool" where
  "has_password a \<longleftrightarrow> a_password_hash a \<noteq> None"

text \<open>\<open>verify_password\<close>: \<open>checkpw\<close> of the bcrypt package is a parameter.\<close>

definition verify_password :: "(string \<Rightarrow> string \<Rightarrow> bool) \<Rightarrow> account \<Rightarrow> string \<Rightarrow> bool" where
  "verify_password checkpw a password =
     (if \<not> truthy (a_password_hash a) then False else checkpw password (the (a_password_hash a)))"

definition validate_fields :: "account \<Rightarrow> exn + unit" where
  "validate_fields a =
     (if truthy (a_username a) \<and> \<not> is_valid_username (the (a_username a))
      then Inl (ValueError ''Invalid username.'')
      else if truthy (a_email a) \<and> \<not> is_valid_email_address (the (a_email a))
      then Inl (ValueError ''Invalid email.'')
      else if truthy (a_pubkey a) \<and> \<not> is_valid_pubkey (the (a_pubkey a))
      then Inl (ValueError ''Invalid pubkey.'')
      else if truthy (a_external_id a) \<and> \<not> is_valid_external_id (the (a_external_id a))
      then Inl (ValueError ''Invalid external id. Max length is 256 characters. Space and newlines are not allowed.'')
      else if \<not> is_uuid4_hex (a_id a)
      then Inl (ValueError ''User ID is not valid UUID4 hex string.'')
      else validate_labels (a_extra a))"

section \<open>Access control lists of API tokens\<close>

record endpoint_access =
  ea_path :: string
  ea_name :: string
  ea_read :: bool
  ea_write :: bool

definition supports_method :: "endpoint_access \<Rightarrow> string \<Rightarrow> bool" where
  "supports_method e method =
     (if method \<in> {''GET'', ''OPTIONS'', ''HEAD''} then ea_read e
      else if method \<in> {''POST'', ''PUT'', ''PATCH'', ''DELETE''} then ea_write e
      else False)"

record simple_item =
  si_id :: string
  si_name :: string
  si_expires_at :: "int option"

record access_control_list =
  acl_id :: string
  acl_name :: string
  acl_endpoints :: "endpoint_access list"
  acl_token_id_list :: "simple_item list"

definition get_endpoint :: "access_control_list \<Rightarrow> string \<Rightarrow> endpoint_access option" where
  "get_endpoint acl path = List.find (\<lambda>e. ea_path e = path) (acl_endpoints acl)"

definition get_token_by_id :: "access_control_list \<Rightarrow> string \<Rightarrow> simple_item option" where
  "get_token_by_id acl token_id = List.find (\<lambda>t. si_id t = token_id) (acl_token_id_list acl)"

definition delete_token_by_id :: "string \<Rightarrow> access_control_list \<Rightarrow> access_control_list" where
  "delete_token_by_id token_id acl =
     acl\<lparr>acl_token_id_list := filter (\<lambda>t. si_id t \<noteq> token_id) (acl_token_id_list acl)\<rparr>"

record user_acls =
  uacl_id :: string
  uacl_access_control_list :: "access_control_list list"
  uacl_updated_at :: int

definition get_acl_by_id :: "user_acls \<Rightarrow> string \<Rightarrow> access_control_list option" where
  "get_acl_by_id u i = List.find (\<lambda>a. acl_id a = i) (uacl_access_control_list u)"

definition delete_acl_by_id :: "string \<Rightarrow> user_acls \<Rightarrow> user_acls" where
  "delete_acl_by_id i u =
     u\<lparr>uacl_access_control_list := filter (\<lambda>a. acl_id a \<noteq> i) (uacl_access_control_list u)\<rparr>"

definition get_acl_by_token_id :: "user_acls \<Rightarrow> string \<Rightarrow> access_control_list option" where
  "get_acl_by_token_id u token_id =
     List.find (\<lambda>a. get_token_by_id a token_id \<noteq> None) (uacl_access_control_list u)"

section \<open>Facts\<close>

lemma find_invite_after_add:
  "find_wallet_invite_request r (add_wallet_invite_request r w n f x) =
     Some \<lparr>wi_request_id = r, wi_from_user_name = f, wi_to_wallet_id = w, wi_to_wallet_name = n\<rparr>"
proof -
  have "List.find (\<lambda>i. wi_request_id i = r) (filter (\<lambda>i. wi_request_id i \<noteq> r) xs @ [y]) = Some y"
    if "wi_request_id y = r" for xs :: "wallet_invite_request list" and y
    using that by (induction xs) auto
  then show ?thesis
    by (simp add: find_wallet_invite_request_def add_wallet_invite_request_def
        remove_wallet_invite_request_def Let_def)
qed

lemma find_invite_after_remove:
  "find_wallet_invite_request r (remove_wallet_invite_request r x) = None"
  by (auto simp: find_wallet_invite_request_def remove_wallet_invite_request_def find_None_iff)

lemma validate_labels_loop_ok:
  "validate_labels_loop seen ls = Inr () \<Longrightarrow>
     distinct (map ul_name ls) \<and> set (map ul_name ls) \<inter> set seen = {}
     \<and> (\<forall>l \<in> set ls. is_valid_label (ul_name l))"
  by (induction seen ls rule: validate_labels_loop.induct) (auto split: if_splits)

lemma deleted_token_has_no_acl:
  "\<forall>a \<in> set (uacl_access_control_list u). get_token_by_id a t = None \<Longrightarrow> get_acl_by_token_id u t = None"
  by (auto simp: get_acl_by_token_id_def find_None_iff)

end
