(* ===== verification/Cache.thy ===== *)
theory Cache
  imports Prelude
begin

text \<open>
  \<open>lnbits/utils/cache.py\<close>: the in-process cache with an expiry time per entry. The dictionary is an
  association list, a time is a rational number of seconds, and \<open>now\<close> is the value \<open>time()\<close> has in
  the call.
\<close>

type_synonym 'v cached = "'v \<times> rat"
type_synonym 'v cache = "(string \<times> 'v cached) list"

definition older_than :: "rat \<Rightarrow> rat \<Rightarrow> 'v cached \<Rightarrow> bool" where
  "older_than now seconds c \<longleftrightarrow> now - snd c > seconds"

definition cache_value :: "'v cache \<Rightarrow> string \<Rightarrow> 'v cached option" where
  "cache_value c key = map_of c key"

text \<open>\<open>get\<close> removes an expired entry.\<close>

definition cache_get :: "rat \<Rightarrow> string \<Rightarrow> 'v cache \<Rightarrow> 'v option \<times> 'v cache" where
  "cache_get now key c =
     (case map_of c key of
        None \<Rightarrow> (None, c)
      | Some (v, expiry) \<Rightarrow> if expiry > now then (Some v, c) else (None, AList.delete key c))"

definition cache_set :: "rat \<Rightarrow> string \<Rightarrow> 'v \<Rightarrow> rat \<Rightarrow> 'v cache \<Rightarrow> 'v cache" where
  "cache_set now key v expiry c = AList.update key (v, now + expiry) c"

definition cache_pop :: "rat \<Rightarrow> string \<Rightarrow> 'v cache \<Rightarrow> 'v option \<times> 'v cache" where
  "cache_pop now key c =
     (case map_of c key of
        None \<Rightarrow> (None, AList.delete key c)
      | Some (v, expiry) \<Rightarrow> (if expiry > now then Some v else None, AList.delete key c))"

text \<open>
  \<open>save_result\<close>: \<open>is_true\<close> is Python's truth value of the cached object, \<open>coro\<close> the value the
  coroutine computes. A cached value that counts as false is computed again.
\<close>

definition cache_save_result ::
  "rat \<Rightarrow> ('v \<Rightarrow> bool) \<Rightarrow> 'v \<Rightarrow> string \<Rightarrow> rat \<Rightarrow> 'v cache \<Rightarrow> 'v \<times> 'v cache" where
  "cache_save_result now is_true coro key expiry c =
     (let (r, c') = cache_get now key c
      in case r of
           Some v \<Rightarrow> if is_true v then (v, c') else (coro, cache_set now key coro expiry c')
         | None \<Rightarrow> (coro, cache_set now key coro expiry c'))"

definition cache_invalidate :: "rat \<Rightarrow> 'v cache \<Rightarrow> 'v cache" where
  "cache_invalidate now c =
     (let expired = map fst (filter (\<lambda>(k, v, expiry). expiry < now) c)
      in fold AList.delete expired c)"

section \<open>The contract of a cache with expiry\<close>

text \<open>
  What the clients of the cache rely on: a read returns the last value set under the key while it
  has not expired, and setting or removing another key does not matter. The view of a cache is the
  partial function from a time and a key to a value.
\<close>

locale ttl_cache =
  fixes view :: "'c \<Rightarrow> rat \<Rightarrow> string \<Rightarrow> 'v option"
    and getc :: "rat \<Rightarrow> string \<Rightarrow> 'c \<Rightarrow> 'v option \<times> 'c"
    and setc :: "rat \<Rightarrow> string \<Rightarrow> 'v \<Rightarrow> rat \<Rightarrow> 'c \<Rightarrow> 'c"
    and popc :: "rat \<Rightarrow> string \<Rightarrow> 'c \<Rightarrow> 'v option \<times> 'c"
  assumes get_view: "fst (getc now k c) = view c now k"
    and get_frame: "now \<le> t \<Longrightarrow> view (snd (getc now k c)) t k' = view c t k'"
    and set_view: "view (setc now k v e c) t k' =
                     (if k' = k then (if t < now + e then Some v else None) else view c t k')"
    and pop_value: "fst (popc now k c) = view c now k"
    and pop_view: "view (snd (popc now k c)) t k' = (if k' = k then None else view c t k')"
begin

lemma read_after_write: "t < now + e \<Longrightarrow> fst (getc t k (setc now k v e c)) = Some v"
  by (simp add: get_view set_view)

lemma read_after_expiry: "now + e \<le> t \<Longrightarrow> fst (getc t k (setc now k v e c)) = None"
  by (simp add: get_view set_view)

lemma read_after_pop: "fst (getc t k (snd (popc now k c))) = None"
  by (simp add: get_view pop_view)

lemma read_other_key: "k' \<noteq> k \<Longrightarrow> fst (getc t k' (setc now k v e c)) = fst (getc t k' c)"
  by (simp add: get_view set_view)

lemma reads_do_not_interfere:
  "now \<le> t \<Longrightarrow> fst (getc t k' (snd (getc now k c))) = fst (getc t k' c)"
  by (simp add: get_view get_frame)

end

definition cache_view :: "'v cache \<Rightarrow> rat \<Rightarrow> string \<Rightarrow> 'v option" where
  "cache_view c now key =
     (case map_of c key of None \<Rightarrow> None | Some (v, expiry) \<Rightarrow> if expiry > now then Some v else None)"

interpretation lc: ttl_cache cache_view cache_get cache_set cache_pop
  by unfold_locales
    (auto simp: cache_view_def cache_get_def cache_set_def cache_pop_def update_conv' delete_conv'
      split: option.splits)

lemma map_of_fold_delete:
  "map_of (fold AList.delete ks c) k = (if k \<in> set ks then None else map_of c k)"
  by (induction ks arbitrary: c) (auto simp: delete_conv')

lemma cache_invalidate_view:
  assumes "now \<le> t" "distinct (map fst c)"
  shows "cache_view (cache_invalidate now c) t k = cache_view c t k"
proof (cases "k \<in> set (map fst (filter (\<lambda>(k, v, expiry). expiry < now) c))")
  case True
  then obtain v e where ve: "(k, v, e) \<in> set c" "e < now" by auto
  then have "map_of c k = Some (v, e)" using assms(2) by simp
  with True ve(2) assms(1) show ?thesis
    unfolding cache_view_def cache_invalidate_def Let_def map_of_fold_delete by simp
next
  case False
  then show ?thesis
    unfolding cache_view_def cache_invalidate_def Let_def map_of_fold_delete by simp
qed

text \<open>
  The interface between the tables and the services: a table is a list of rows with a key column,
  one statement appends a row and one replaces the rows that have the key of the given row. The
  facts that the accounting proofs need (sums over the rows, uniqueness of keys, what a lookup finds)
  are proved once from these two laws.
\<close>

locale keyed_table =
  fixes rows :: "'t \<Rightarrow> 'r list"
    and key :: "'r \<Rightarrow> 'k"
    and ins :: "'r \<Rightarrow> 't \<Rightarrow> 't"
    and upd :: "'r \<Rightarrow> 't \<Rightarrow> 't"
  assumes rows_ins: "rows (ins r t) = rows t @ [r]"
    and rows_upd: "rows (upd r t) = map (\<lambda>q. if key q = key r then r else q) (rows t)"
begin

lemma total_ins: "sum_list (map f (rows (ins r t))) = sum_list (map f (rows t)) + (f r :: int)"
  by (simp add: rows_ins)

lemma keys_ins:
  "distinct (map key (rows t)) \<Longrightarrow> key r \<notin> key ` set (rows t) \<Longrightarrow> distinct (map key (rows (ins r t)))"
  by (simp add: rows_ins)

lemma keys_upd: "map key (rows (upd r t)) = map key (rows t)"
  by (simp add: rows_upd)

lemma upd_absent: "key r \<notin> key ` set (rows t) \<Longrightarrow> rows (upd r t) = rows t"
  unfolding rows_upd
proof (rule map_idI)
  fix y assume a: "key r \<notin> key ` set (rows t)" and "y \<in> set (rows t)"
  then have "key y \<in> key ` set (rows t)" by (intro imageI)
  with a show "(if key y = key r then r else y) = y" by auto
qed

text \<open>Replacing the only row with a key changes a total by the difference of the two rows.\<close>

lemma total_upd_only:
  assumes "filter (\<lambda>x. key x = key r) (rows t) = [q]"
  shows "sum_list (map f (rows (upd r t))) = sum_list (map f (rows t)) - f q + (f r :: int)"
proof -
  have none: "map (\<lambda>x. if key x = key r then r else x) xs = xs"
    if "filter (\<lambda>x. key x = key r) xs = []" for xs
    using that by (induction xs) (auto split: if_splits)
  have "sum_list (map f (map (\<lambda>x. if key x = key r then r else x) xs)) = sum_list (map f xs) - f q + f r"
    if "filter (\<lambda>x. key x = key r) xs = [q]" for xs
    using that
  proof (induction xs)
    case (Cons x xs)
    then show ?case by (cases "key x = key r") (auto simp: none)
  qed simp
  then show ?thesis using assms by (simp add: rows_upd)
qed

lemma only_row:
  assumes "distinct (map key (rows t))" "q \<in> set (rows t)" "key q = k"
  shows "filter (\<lambda>x. key x = k) (rows t) = [q]"
proof -
  have none: "filter (\<lambda>x. key x = k) xs = []" if "k \<notin> key ` set xs" for xs
    using that by (simp add: filter_empty_conv) (metis imageI)
  have "filter (\<lambda>x. key x = k) xs = [q]" if "distinct (map key xs)" "q \<in> set xs" for xs
    using that
  proof (induction xs)
    case (Cons x xs)
    show ?case
    proof (cases "x = q")
      case True
      with Cons.prems assms(3) show ?thesis by (simp add: none)
    next
      case False
      with Cons.prems have q: "q \<in> set xs" by simp
      then have "key q \<in> key ` set xs" by (rule imageI)
      then have "key x \<noteq> k" using Cons.prems assms(3) by auto
      with Cons q show ?thesis by simp
    qed
  qed simp
  then show ?thesis using assms by simp
qed

lemma total_upd:
  "distinct (map key (rows t)) \<Longrightarrow> q \<in> set (rows t) \<Longrightarrow> key q = key r \<Longrightarrow>
   sum_list (map f (rows (upd r t))) = sum_list (map f (rows t)) - f q + (f r :: int)"
  by (simp add: total_upd_only only_row)

lemma only_ins: "key r \<notin> key ` set (rows t) \<Longrightarrow> filter (\<lambda>x. key x = key r) (rows (ins r t)) = [r]"
  by (simp add: rows_ins filter_empty_conv) (metis imageI)

lemma set_ins: "set (rows (ins r t)) = insert r (set (rows t))"
  by (auto simp: rows_ins)

lemma set_upd: "x \<in> set (rows (upd r t)) \<Longrightarrow> x = r \<or> (x \<in> set (rows t) \<and> key x \<noteq> key r)"
  by (auto simp: rows_upd split: if_splits)

lemma upd_member: "key r \<in> key ` set (rows t) \<Longrightarrow> r \<in> set (rows (upd r t))"
  by (force simp: rows_upd)

lemma find_ins:
  "key r \<notin> key ` set (rows t) \<Longrightarrow> List.find (\<lambda>q. key q = key r) (rows (ins r t)) = Some r"
proof -
  have "key r \<notin> key ` set xs \<Longrightarrow> List.find (\<lambda>q. key q = key r) (xs @ [r]) = Some r" for xs
    by (induction xs) auto
  then show "key r \<notin> key ` set (rows t) \<Longrightarrow> ?thesis" by (simp add: rows_ins)
qed

lemma find_upd:
  "key r \<in> key ` set (rows t) \<Longrightarrow> List.find (\<lambda>q. key q = key r) (rows (upd r t)) = Some r"
proof -
  have "key r \<in> key ` set xs \<Longrightarrow>
     List.find (\<lambda>q. key q = key r) (map (\<lambda>q. if key q = key r then r else q) xs) = Some r" for xs
    by (induction xs) auto
  then show "key r \<in> key ` set (rows t) \<Longrightarrow> ?thesis" by (simp add: rows_upd)
qed

end

end
