(* ===== verification/Tables.thy ===== *)
theory Tables
  imports UserModel Cache
begin

text \<open>
  The state of the server and the queries on accounts and wallets (\<open>lnbits/core/crud/users.py\<close>,
  \<open>crud/wallets.py\<close>, \<open>crud/extensions.py\<close>). A table is the list of its rows, in the order the
  database returns rows when a query gives no order (insertion order); a row is the model object.
  \<open>SELECT\<close> of one row is the first match, \<open>UPDATE ... WHERE\<close> maps over the rows, \<open>DELETE\<close> filters.
  Each statement commits on its own (\<open>Connection.insert\<close>, \<open>update\<close> and \<open>execute\<close> call
  \<open>commit\<close>), so a statement that ran is not undone by a later exception.
\<close>

section \<open>State and environment\<close>

record user_extension_info =
  ui_paid_to_enable :: "bool option"
  ui_payment_hash_to_enable :: "string option"

record user_extension =
  ux_user :: string
  ux_extension :: string
  ux_active :: bool
  ux_extra :: "user_extension_info option"
  ux_permissions :: dict

text \<open>What the shared cache stores: an authenticated key, a wallet, an account id, a cache key, and the
  failed logins of an identity with the time it is blocked until.\<close>

datatype cached_value =
    CKeyInfo key_type base_wallet
  | CBaseWallet base_wallet
  | CAccountId string
  | CKey string
  | CLoginFailures nat rat

record world =
  wd_accounts :: "account list"
  wd_acls :: "(string \<times> user_acls) list"
  wd_wallets :: "wallet list"
  wd_payments :: "payment list"
  wd_user_extensions :: "user_extension list"
  wd_cache :: "cached_value cache"
  wd_internal_queue :: "payment list"
  wd_invoice_queue :: "payment list"
  wd_notified :: "(string \<times> payment) list"
  wd_sent :: "(string \<times> int) list"
  wd_fake :: fake_wallet

text \<open>
  What the operations get from outside: the clock, fresh identifiers (the n-th \<open>uuid4().hex\<close> and the
  n-th random user name drawn in the given state), two draws of \<open>urandom\<close> in hex,
  digests, the bolt11 codec, the price of a bitcoin (what the cache or \<open>btc_price\<close> answers) and the
  answers of the funding source and of the fiat providers. \<open>fs_pay\<close> answers a payment request and
  a fee limit; \<open>PayTimeout\<close> is the wait in \<open>asyncio.wait_for\<close> running out first.
\<close>

record decoded_invoice =
  di_amount_msat :: "int option"
  di_payment_hash :: string
  di_description :: "string option"
  di_expiry_date :: "int option"

record fiat_invoice_response =
  fir_ok :: "bool option"
  fir_checking_id :: "string option"
  fir_payment_request :: "string option"
  fir_error_message :: "string option"

datatype pay_outcome = PayTimeout | PayRaised exn | PayResponse payment_response

record env =
  e_now :: int
  e_uuid :: "world \<Rightarrow> nat \<Rightarrow> string"
  e_ln_address :: "world \<Rightarrow> nat \<Rightarrow> string"
  e_sha256s :: "string \<Rightarrow> string"
  e_sha256_hex :: "string \<Rightarrow> string"
  e_secret :: "world \<Rightarrow> string"
  e_preimage :: "world \<Rightarrow> string"
  e_decode :: "string \<Rightarrow> decoded_invoice option"
  e_encode :: "bolt11 \<Rightarrow> string"
  e_btc_price :: "string \<Rightarrow> exn + rat"
  e_callback_ok :: "string \<Rightarrow> bool"
  e_lnurl_withdraw :: "string \<Rightarrow> string \<Rightarrow> exn option"
  fs_pay :: "string \<Rightarrow> int \<Rightarrow> pay_outcome"
  fs_payment_status :: "string \<Rightarrow> exn + payment_status"
  fs_invoice_status :: "string \<Rightarrow> exn + payment_status"
  fs_create_invoice ::
    "int \<Rightarrow> string option \<Rightarrow> string option \<Rightarrow> string option \<Rightarrow> int \<Rightarrow> exn + invoice_response"
  fs_create_hold_invoice ::
    "int \<Rightarrow> string option \<Rightarrow> string \<Rightarrow> string option \<Rightarrow> exn + invoice_response"
  fs_settle_hold_invoice :: "string \<Rightarrow> exn + invoice_response"
  fs_cancel_hold_invoice :: "string \<Rightarrow> exn + invoice_response"
  fiat_provider_status :: "string \<Rightarrow> string \<Rightarrow> payment_status option"
  fiat_create_invoice ::
    "string \<Rightarrow> rat \<Rightarrow> string \<Rightarrow> string \<Rightarrow> string \<Rightarrow> dict \<Rightarrow> (exn + fiat_invoice_response) option"

section \<open>Accounts\<close>

text \<open>\<open>activated = true OR activated = :activated\<close> with \<open>:activated\<close> bound to \<open>active_only\<close>.\<close>

definition activation_ok :: "bool \<Rightarrow> account \<Rightarrow> bool" where
  "activation_ok active_only a \<longleftrightarrow> a_activated a = True \<or> a_activated a = active_only"

definition get_account :: "string \<Rightarrow> bool \<Rightarrow> world \<Rightarrow> account option" where
  "get_account user_id active_only db =
     (if length user_id = 0 then None
      else List.find (\<lambda>a. a_id a = user_id \<and> activation_ok active_only a) (wd_accounts db))"

definition lower_eq :: "string option \<Rightarrow> string \<Rightarrow> bool" where
  "lower_eq col v \<longleftrightarrow> (case col of None \<Rightarrow> False | Some s \<Rightarrow> lower s = lower v)"

definition get_account_by_username :: "string \<Rightarrow> bool \<Rightarrow> world \<Rightarrow> account option" where
  "get_account_by_username username active_only db =
     (if length username = 0 then None
      else List.find (\<lambda>a. lower_eq (a_username a) username \<and> activation_ok active_only a) (wd_accounts db))"

definition get_account_by_pubkey :: "string \<Rightarrow> bool \<Rightarrow> world \<Rightarrow> account option" where
  "get_account_by_pubkey pubkey active_only db =
     List.find (\<lambda>a. lower_eq (a_pubkey a) pubkey \<and> activation_ok active_only a) (wd_accounts db)"

definition get_account_by_email :: "string \<Rightarrow> bool \<Rightarrow> world \<Rightarrow> account option" where
  "get_account_by_email email active_only db =
     (if length email = 0 then None
      else List.find (\<lambda>a. lower_eq (a_email a) email \<and> activation_ok active_only a) (wd_accounts db))"

definition get_account_by_username_or_email :: "string \<Rightarrow> bool \<Rightarrow> world \<Rightarrow> account option" where
  "get_account_by_username_or_email v active_only db =
     List.find (\<lambda>a. (lower_eq (a_email a) v \<or> lower_eq (a_username a) v) \<and> activation_ok active_only a)
       (wd_accounts db)"

definition update_account :: "env \<Rightarrow> account \<Rightarrow> (world, account) py" where
  "update_account ev a =
     (let a' = a\<lparr>a_updated_at := e_now ev\<rparr>
      in thenP (modify (\<lambda>db. db\<lparr>wd_accounts :=
                  map (\<lambda>b. if a_id b = a_id a' then a' else b) (wd_accounts db)\<rparr>))
         (ret a'))"

definition get_user_access_control_lists :: "env \<Rightarrow> string \<Rightarrow> bool \<Rightarrow> world \<Rightarrow> user_acls" where
  "get_user_access_control_lists ev user_id active_only db =
     (case List.find (\<lambda>a. a_id a = user_id \<and> activation_ok active_only a) (wd_accounts db) of
        Some a \<Rightarrow> (case map_of (wd_acls db) user_id of
             Some u \<Rightarrow> u
           | None \<Rightarrow> \<lparr>uacl_id = user_id, uacl_access_control_list = [], uacl_updated_at = e_now ev\<rparr>)
      | None \<Rightarrow> \<lparr>uacl_id = user_id, uacl_access_control_list = [], uacl_updated_at = e_now ev\<rparr>)"

definition get_user_active_extensions_ids :: "string \<Rightarrow> world \<Rightarrow> string list" where
  "get_user_active_extensions_ids user_id db =
     map ux_extension (filter (\<lambda>u. ux_user u = user_id \<and> ux_active u) (wd_user_extensions db))"

section \<open>The cache entries of a wallet\<close>

definition auth_wallet_key :: "string \<Rightarrow> string" where
  "auth_wallet_key wid = ''auth:wallet:'' @ wid"

definition auth_api_key :: "string \<Rightarrow> string" where
  "auth_api_key key = ''auth:x-api-key:'' @ key"

text \<open>\<open>cache.pop\<close> on the shared cache.\<close>

definition pop_cached :: "env \<Rightarrow> string \<Rightarrow> (world, cached_value option) py" where
  "pop_cached ev key db =
     (let (r, c) = cache_pop (of_int (e_now ev)) key (wd_cache db)
      in (Inr r, db\<lparr>wd_cache := c\<rparr>))"

definition clear_wallet_id_cache :: "env \<Rightarrow> string \<Rightarrow> (world, unit) py" where
  "clear_wallet_id_cache ev wid =
     bindP (pop_cached ev (auth_wallet_key wid)) (\<lambda>cached.
       case cached of
         Some (CBaseWallet w) \<Rightarrow>
           thenP (pop_cached ev (auth_api_key (w_adminkey w)))
           (thenP (pop_cached ev (auth_api_key (w_inkey w))) (ret ()))
       | _ \<Rightarrow> ret ())"

definition clear_wallet_cache :: "env \<Rightarrow> wallet \<Rightarrow> (world, unit) py" where
  "clear_wallet_cache ev w =
     thenP (pop_cached ev (auth_wallet_key (w_id w)))
     (thenP (pop_cached ev (auth_api_key (w_adminkey w)))
     (thenP (pop_cached ev (auth_api_key (w_inkey w))) (ret ())))"

section \<open>The balances view\<close>

text \<open>
  The view \<open>balances\<close> (migration m023): rows of wallets that are not deleted, joined with their
  payments that are settled and incoming, or outgoing and not failed, summed as
  \<open>amount - ABS(fee)\<close>.
\<close>

definition counted :: "payment \<Rightarrow> bool" where
  "counted p \<longleftrightarrow>
     (p_status p = SUCCESS \<and> p_amount p > 0) \<or> (p_status p \<in> {SUCCESS, PENDING} \<and> p_amount p < 0)"

definition net :: "payment \<Rightarrow> int" where
  "net p = p_amount p - \<bar>p_fee p\<bar>"

definition ledger_sum :: "string \<Rightarrow> payment list \<Rightarrow> int" where
  "ledger_sum wid ps = sum_list (map net (filter (\<lambda>p. p_wallet_id p = wid \<and> counted p) ps))"

definition balance_of :: "world \<Rightarrow> string \<Rightarrow> int" where
  "balance_of db wid =
     sum_list (map (\<lambda>w. ledger_sum wid (wd_payments db))
       (filter (\<lambda>w. w_id w = wid \<and> \<not> w_deleted w) (wd_wallets db)))"

section \<open>Wallets\<close>

text \<open>Fields declared \<open>no_database\<close> are not stored.\<close>

definition wallet_row :: "wallet \<Rightarrow> wallet" where
  "wallet_row w = w\<lparr>w_balance_msat := 0, w_share_permissions := []\<rparr>"

text \<open>
  The unique index on \<open>lightning_address\<close> (migration m050): a statement that would give a row an address
  another row has fails and changes nothing.
\<close>

definition ln_address_conflict :: "wallet \<Rightarrow> world \<Rightarrow> bool" where
  "ln_address_conflict w db \<longleftrightarrow>
     w_lightning_address w \<noteq> None
     \<and> (\<exists>v \<in> set (wd_wallets db). w_id v \<noteq> w_id w \<and> w_lightning_address v = w_lightning_address w)"

definition update_wallet :: "env \<Rightarrow> wallet \<Rightarrow> (world, wallet) py" where
  "update_wallet ev w =
     (let w' = w\<lparr>w_updated_at := e_now ev\<rparr>
      in bindP (gets (\<lambda>db. (\<exists>v \<in> set (wd_wallets db). w_id v = w_id w') \<and> ln_address_conflict w' db)) (\<lambda>conflict.
         thenP (failIf conflict (OtherError ''IntegrityError''))
         (thenP (modify (\<lambda>db. db\<lparr>wd_wallets :=
                  map (\<lambda>v. if w_id v = w_id w' then wallet_row w' else v) (wd_wallets db)\<rparr>))
         (ret w'))))"

definition get_wallet_id_by_ln_address :: "string \<Rightarrow> world \<Rightarrow> string option" where
  "get_wallet_id_by_ln_address local_part db =
     map_option w_id (List.find (\<lambda>w. w_lightning_address w = Some (lower local_part)) (wd_wallets db))"

fun generate_lightning_address_loop :: "nat \<Rightarrow> (nat \<Rightarrow> string) \<Rightarrow> nat \<Rightarrow> world \<Rightarrow> exn + string" where
  "generate_lightning_address_loop 0 names i db =
     Inl (ValueError ''Could not generate a unique wallet lightning address.'')"
| "generate_lightning_address_loop (Suc n) names i db =
     (let local_part = lower (names i)
      in if get_wallet_id_by_ln_address local_part db \<noteq> None
            \<and> get_wallet_id_by_ln_address local_part db \<noteq> Some []
         then generate_lightning_address_loop n names (Suc i) db
         else Inr local_part)"

definition generate_lightning_address_local_part :: "env \<Rightarrow> (world, string) py" where
  "generate_lightning_address_local_part ev =
     bindP (gets (\<lambda>db. generate_lightning_address_loop 100 (e_ln_address ev db) 0 db)) liftE"

definition create_wallet ::
  "env \<Rightarrow> settings \<Rightarrow> string \<Rightarrow> string option \<Rightarrow> wallet_type \<Rightarrow> string option \<Rightarrow> (world, wallet) py" where
  "create_wallet ev cfg user_id wallet_name wt shared_wallet_id =
     bindP (gets (\<lambda>db. wallet_validate_data
        \<lparr>w_id = e_uuid ev db 0, w_user = user_id, w_wallet_type = wallet_type_value wt,
         w_adminkey = e_uuid ev db 1, w_inkey = e_uuid ev db 2,
         w_name = (if truthy wallet_name then the wallet_name else lnbits_default_wallet_name cfg),
         w_shared_wallet_id = shared_wallet_id, w_deleted = False,
         w_created_at = e_now ev, w_updated_at = e_now ev,
         w_currency = orElse (lnbits_default_accounting_currency cfg) (Some ''USD''),
         w_lightning_address = None, w_balance_msat = 0,
         w_extra = (if wt = FIAT then default_wallet_extra\<lparr>we_icon := ''credit_card''\<rparr>
                    else default_wallet_extra),
         w_stored_paylinks = JList [], w_share_permissions = []\<rparr>)) (\<lambda>r.
     bindP (liftE r) (\<lambda>w.
     bindP (if ln_address_creation_allowed cfg \<and> is_lightning_wallet w
            then bindP (generate_lightning_address_local_part ev)
                   (\<lambda>a. ret (w\<lparr>w_lightning_address := Some a\<rparr>))
            else ret w) (\<lambda>w.
     bindP (gets (\<lambda>db. (\<exists>v \<in> set (wd_wallets db). w_id v = w_id w) \<or> ln_address_conflict w db)) (\<lambda>conflict.
     thenP (failIf conflict (OtherError ''IntegrityError''))
     (thenP (modify (\<lambda>db. db\<lparr>wd_wallets := wd_wallets db @ [wallet_row w]\<rparr>))
     (ret w))))))"

definition delete_wallet :: "env \<Rightarrow> string \<Rightarrow> string \<Rightarrow> bool \<Rightarrow> (world, unit) py" where
  "delete_wallet ev user_id wid deleted =
     thenP (clear_wallet_id_cache ev wid)
     (modify (\<lambda>db. db\<lparr>wd_wallets :=
        map (\<lambda>w. if w_id w = wid \<and> w_user w = user_id
                 then w\<lparr>w_deleted := deleted, w_updated_at := e_now ev\<rparr> else w) (wd_wallets db)\<rparr>))"

definition force_delete_wallet :: "env \<Rightarrow> string \<Rightarrow> (world, unit) py" where
  "force_delete_wallet ev wid =
     thenP (clear_wallet_id_cache ev wid)
     (modify (\<lambda>db. db\<lparr>wd_wallets := filter (\<lambda>w. w_id w \<noteq> wid) (wd_wallets db)\<rparr>))"

definition delete_wallet_by_id :: "env \<Rightarrow> string \<Rightarrow> (world, nat) py" where
  "delete_wallet_by_id ev wid =
     thenP (clear_wallet_id_cache ev wid)
     (bindP (gets (\<lambda>db. length (filter (\<lambda>w. w_id w = wid) (wd_wallets db)))) (\<lambda>n.
      thenP (modify (\<lambda>db. db\<lparr>wd_wallets :=
        map (\<lambda>w. if w_id w = wid then w\<lparr>w_deleted := True, w_updated_at := e_now ev\<rparr> else w)
          (wd_wallets db)\<rparr>))
      (ret n)))"

definition remove_deleted_wallets :: "(world, unit) py" where
  "remove_deleted_wallets =
     modify (\<lambda>db. db\<lparr>wd_wallets := filter (\<lambda>w. \<not> w_deleted w) (wd_wallets db)\<rparr>)"

text \<open>
  \<open>delete_unused_wallets\<close>: every row of the model has an \<open>updated_at\<close>, so the branch for a missing
  one does not apply.
\<close>

definition delete_unused_wallets :: "env \<Rightarrow> int \<Rightarrow> (world, unit) py" where
  "delete_unused_wallets ev time_delta =
     modify (\<lambda>db. db\<lparr>wd_wallets :=
       filter (\<lambda>w. \<not> (filter (\<lambda>p. p_wallet_id p = w_id w) (wd_payments db) = []
                     \<and> w_updated_at w < e_now ev - time_delta)) (wd_wallets db)\<rparr>)"

definition get_standalone_wallet ::
  "env \<Rightarrow> settings \<Rightarrow> string \<Rightarrow> bool option \<Rightarrow> (world, wallet option) py" where
  "get_standalone_wallet ev cfg wid deleted =
     bindP (gets (\<lambda>db. map_option (\<lambda>w. w\<lparr>w_balance_msat := balance_of db wid\<rparr>)
        (List.find (\<lambda>w. w_id w = wid \<and> (case deleted of None \<Rightarrow> True | Some d \<Rightarrow> w_deleted w = d))
          (wd_wallets db)))) (\<lambda>found.
     case found of
       None \<Rightarrow> ret None
     | Some w \<Rightarrow>
         if deleted = Some True then ret (Some w)
         else if is_lightning_wallet w \<and> \<not> truthy (w_lightning_address w)
                 \<and> ln_address_creation_allowed cfg
         then bindP (generate_lightning_address_local_part ev) (\<lambda>a.
              let w' = w\<lparr>w_lightning_address := Some a\<rparr>
              in bindP (update_wallet ev w') (\<lambda>w''. ret (Some w'')))
         else ret (Some w))"

definition get_source_wallet :: "env \<Rightarrow> settings \<Rightarrow> wallet \<Rightarrow> (world, wallet option) py" where
  "get_source_wallet ev cfg w =
     (if \<not> is_lightning_shared_wallet w then ret (Some w)
      else if \<not> truthy (w_shared_wallet_id w) then ret None
      else bindP (get_standalone_wallet ev cfg (the (w_shared_wallet_id w)) (Some False)) (\<lambda>shared.
           case shared of
             None \<Rightarrow> ret None
           | Some s \<Rightarrow> ret (Some (mirror_shared_wallet w s))))"

definition get_wallet :: "env \<Rightarrow> settings \<Rightarrow> string \<Rightarrow> bool option \<Rightarrow> (world, wallet option) py" where
  "get_wallet ev cfg wid deleted =
     bindP (get_standalone_wallet ev cfg wid deleted) (\<lambda>found.
     case found of
       None \<Rightarrow> ret None
     | Some w \<Rightarrow>
         if is_lightning_shared_wallet w then get_source_wallet ev cfg w else ret (Some w))"

fun get_source_wallets :: "env \<Rightarrow> settings \<Rightarrow> wallet list \<Rightarrow> (world, wallet list) py" where
  "get_source_wallets ev cfg [] = ret []"
| "get_source_wallets ev cfg (w # ws) =
     bindP (get_source_wallet ev cfg w) (\<lambda>s.
     bindP (get_source_wallets ev cfg ws) (\<lambda>rest.
       ret (case s of None \<Rightarrow> rest | Some x \<Rightarrow> x # rest)))"

definition get_wallets ::
  "env \<Rightarrow> settings \<Rightarrow> string \<Rightarrow> bool option \<Rightarrow> wallet_type option \<Rightarrow> (world, wallet list) py" where
  "get_wallets ev cfg user_id deleted wt =
     bindP (gets (\<lambda>db. map (\<lambda>w. w\<lparr>w_balance_msat := balance_of db (w_id w)\<rparr>)
        (filter (\<lambda>w. w_user w = user_id
                   \<and> (case deleted of None \<Rightarrow> True | Some d \<Rightarrow> w_deleted w = d)
                   \<and> (case wt of None \<Rightarrow> True | Some t \<Rightarrow> w_wallet_type w = wallet_type_value t))
          (wd_wallets db)))) (get_source_wallets ev cfg)"

definition get_wallets_ids :: "env \<Rightarrow> settings \<Rightarrow> string \<Rightarrow> bool option \<Rightarrow> (world, string list) py" where
  "get_wallets_ids ev cfg user_id deleted =
     bindP (gets (\<lambda>db. filter (\<lambda>w. w_user w = user_id
                   \<and> (case deleted of None \<Rightarrow> True | Some d \<Rightarrow> w_deleted w = d)) (wd_wallets db))) (\<lambda>ws.
     bindP (get_source_wallets ev cfg ws) (\<lambda>ws'.
       ret (map source_wallet_id (filter can_view_payments ws'))))"

text \<open>The join of \<open>wallets\<close> and \<open>accounts\<close> on the owner, for an API key of an active account.\<close>

definition key_row :: "string \<Rightarrow> world \<Rightarrow> wallet option" where
  "key_row key db =
     List.find (\<lambda>w. (w_adminkey w = key \<or> w_inkey w = key) \<and> \<not> w_deleted w
                  \<and> (\<exists>a \<in> set (wd_accounts db). a_id a = w_user w \<and> a_activated a))
       (wd_wallets db)"

definition get_wallet_for_key :: "env \<Rightarrow> settings \<Rightarrow> string \<Rightarrow> (world, wallet option) py" where
  "get_wallet_for_key ev cfg key =
     bindP (gets (\<lambda>db. map_option (\<lambda>w. w\<lparr>w_balance_msat := balance_of db (w_id w)\<rparr>) (key_row key db)))
     (\<lambda>found. case found of
        None \<Rightarrow> ret None
      | Some w \<Rightarrow>
          if is_lightning_shared_wallet w then get_source_wallet ev cfg w else ret (Some w))"

definition get_base_wallet_for_key :: "string \<Rightarrow> world \<Rightarrow> base_wallet option" where
  "get_base_wallet_for_key key db = map_option base_wallet.truncate (key_row key db)"

definition get_total_balance :: "world \<Rightarrow> int" where
  "get_total_balance db =
     sum_list (map (\<lambda>w. balance_of db (w_id w))
       (filter (\<lambda>w. w_wallet_type w \<noteq> ''fiat'') (wd_wallets db)))"

definition get_wallets_count :: "world \<Rightarrow> nat" where
  "get_wallets_count db = length (wd_wallets db)"

section \<open>Reading a wallet does not touch the ledger\<close>

text \<open>
  A read may write: a lightning wallet without an address gets one. \<open>same_books\<close> says that two
  states agree on everything but that.
\<close>

definition wallet_core :: "wallet \<Rightarrow> wallet" where
  "wallet_core w = w\<lparr>w_lightning_address := None, w_updated_at := 0, w_balance_msat := 0,
                    w_share_permissions := []\<rparr>"

definition same_books :: "world \<Rightarrow> world \<Rightarrow> bool" where
  "same_books db db' \<longleftrightarrow>
     db' = db\<lparr>wd_wallets := wd_wallets db'\<rparr>
     \<and> map wallet_core (wd_wallets db') = map wallet_core (wd_wallets db)"

definition wallet_ids_distinct :: "world \<Rightarrow> bool" where
  "wallet_ids_distinct db \<longleftrightarrow> distinct (map w_id (wd_wallets db))"

lemma row_unique:
  "wallet_ids_distinct db \<Longrightarrow> r \<in> set (wd_wallets db) \<Longrightarrow> u \<in> set (wd_wallets db) \<Longrightarrow> w_id r = w_id u \<Longrightarrow> r = u"
  unfolding wallet_ids_distinct_def distinct_map by (blast dest: inj_onD)

lemma wallet_core_sel [simp]:
  "w_id (wallet_core w) = w_id w" "w_deleted (wallet_core w) = w_deleted w"
  "w_user (wallet_core w) = w_user w" "w_wallet_type (wallet_core w) = w_wallet_type w"
  "w_shared_wallet_id (wallet_core w) = w_shared_wallet_id w" "w_extra (wallet_core w) = w_extra w"
  by (simp_all add: wallet_core_def)

lemma same_books_refl [simp]: "same_books db db"
  by (simp add: same_books_def)

lemma same_books_trans: "same_books a b \<Longrightarrow> same_books b c \<Longrightarrow> same_books a c"
  by (cases a; cases b; cases c) (auto simp: same_books_def)

lemma same_books_sel:
  assumes "same_books db db'"
  shows "wd_payments db' = wd_payments db" "wd_accounts db' = wd_accounts db"
    "wd_internal_queue db' = wd_internal_queue db" "wd_invoice_queue db' = wd_invoice_queue db"
    "wd_notified db' = wd_notified db" "wd_sent db' = wd_sent db" "wd_cache db' = wd_cache db"
    "wd_user_extensions db' = wd_user_extensions db"
  using assms by (cases db; cases db'; simp add: same_books_def)+

lemma same_books_map:
  assumes "same_books db db'" and "\<And>w. f (wallet_core w) = f w"
  shows "map f (wd_wallets db') = map f (wd_wallets db)"
proof -
  have "map f (wd_wallets db') = map f (map wallet_core (wd_wallets db'))"
    by (simp add: assms(2))
  also have "\<dots> = map f (map wallet_core (wd_wallets db))"
    using assms(1) by (simp add: same_books_def)
  finally show ?thesis by (simp add: assms(2))
qed

lemma same_books_ids: "same_books db db' \<Longrightarrow> wallet_ids_distinct db' = wallet_ids_distinct db"
  using same_books_map [of db db' w_id] by (simp add: wallet_ids_distinct_def)

text \<open>The number of live rows with an id, which is 0 or 1 when ids are distinct.\<close>

definition live_rows :: "world \<Rightarrow> string \<Rightarrow> nat" where
  "live_rows db wid = length (filter (\<lambda>w. w_id w = wid \<and> \<not> w_deleted w) (wd_wallets db))"

lemma balance_of_live: "balance_of db wid = int (live_rows db wid) * ledger_sum wid (wd_payments db)"
  by (simp add: balance_of_def live_rows_def map_replicate_const sum_list_replicate)

lemma live_rows_map:
  "live_rows db wid = length (filter (\<lambda>x. fst x = wid \<and> \<not> snd x)
     (map (\<lambda>w. (w_id w, w_deleted w)) (wd_wallets db)))"
  by (simp add: live_rows_def filter_map comp_def)

lemma same_books_live: "same_books db db' \<Longrightarrow> live_rows db' wid = live_rows db wid"
  using same_books_map [of db db' "\<lambda>w. (w_id w, w_deleted w)"] by (simp add: live_rows_map)

lemma same_books_balance: "same_books db db' \<Longrightarrow> balance_of db' wid = balance_of db wid"
  by (simp add: balance_of_live same_books_live same_books_sel)

lemma live_rows_le_1:
  assumes "wallet_ids_distinct db" shows "live_rows db wid \<le> 1"
proof -
  have "length (filter (\<lambda>w. w_id w = wid \<and> \<not> w_deleted w) ws) \<le> 1"
    if "distinct (map w_id ws)" for ws :: "wallet list"
    using that
  proof (induction ws)
    case (Cons a ws)
    have "filter (\<lambda>w. w_id w = w_id a \<and> \<not> w_deleted w) ws = []"
    proof (rule filter_False, rule ballI)
      fix x assume "x \<in> set ws"
      then have "w_id x \<in> w_id ` set ws" by (rule imageI)
      moreover have "w_id a \<notin> w_id ` set ws" using Cons.prems by simp
      ultimately have "w_id x \<noteq> w_id a" by metis
      then show "\<not> (w_id x = w_id a \<and> \<not> w_deleted x)" by simp
    qed
    with Cons show ?case by auto
  qed simp
  then show ?thesis using assms by (simp add: live_rows_def wallet_ids_distinct_def)
qed

lemma live_rows_pos: "w \<in> set (wd_wallets db) \<Longrightarrow> \<not> w_deleted w \<Longrightarrow> 0 < live_rows db (w_id w)"
  by (auto simp: live_rows_def filter_empty_conv)

subsection \<open>Actions that only read\<close>

definition reads :: "(world, 'a) py \<Rightarrow> bool" where
  "reads m \<longleftrightarrow> (\<forall>db. wallet_ids_distinct db \<longrightarrow> same_books db (snd (m db)))"

named_theorems reads_intro \<open>actions that leave the books as they are\<close>

lemma readsD: "reads m \<Longrightarrow> wallet_ids_distinct db \<Longrightarrow> same_books db (snd (m db))"
  by (simp add: reads_def)

lemma reads_basic [reads_intro]:
  "reads (ret x)" "reads (throw e)" "reads (gets f)" "reads (liftE r)" "reads (failIf b e)"
  by (simp_all add: reads_def py_unfold)

lemma reads_bindP [reads_intro]:
  assumes m: "reads m" and k: "\<And>x. reads (k x)"
  shows "reads (bindP m k)"
  unfolding reads_def
proof (intro allI impI)
  fix db assume d: "wallet_ids_distinct db"
  obtain r db1 where r: "m db = (r, db1)" by fastforce
  then have s1: "same_books db db1" using readsD [OF m d] by simp
  then have d1: "wallet_ids_distinct db1" using d by (simp add: same_books_ids)
  show "same_books db (snd (bindP m k db))"
    using s1 r readsD [OF k d1]
    by (cases r) (auto simp: bindP_def intro: same_books_trans)
qed

lemma reads_thenP [reads_intro]: "reads m \<Longrightarrow> reads k \<Longrightarrow> reads (thenP m k)"
  by (simp add: thenP_def reads_bindP)

lemma reads_if [reads_intro]: "reads m \<Longrightarrow> reads n \<Longrightarrow> reads (if b then m else n)"
  by simp

lemma reads_option [reads_intro]:
  "reads m \<Longrightarrow> (\<And>x. reads (n x)) \<Longrightarrow> reads (case v of None \<Rightarrow> m | Some x \<Rightarrow> n x)"
  by (cases v) auto

lemma update_wallet_run:
  "update_wallet ev w db =
     (if (\<exists>v \<in> set (wd_wallets db). w_id v = w_id w) \<and> ln_address_conflict w db
      then (Inl (OtherError ''IntegrityError''), db)
      else (Inr (w\<lparr>w_updated_at := e_now ev\<rparr>), db\<lparr>wd_wallets :=
              map (\<lambda>v. if w_id v = w_id w then wallet_row (w\<lparr>w_updated_at := e_now ev\<rparr>) else v) (wd_wallets db)\<rparr>))"
  by (simp add: update_wallet_def Let_def bindP_def thenP_def gets_def failIf_def throw_def ret_def modify_def
      ln_address_conflict_def)

lemma update_wallet_same_books:
  assumes "wallet_ids_distinct db" "v \<in> set (wd_wallets db)" "wallet_core w = wallet_core v"
  shows "same_books db (snd (update_wallet ev w db))"
proof -
  have id: "w_id w = w_id v" using assms(3) wallet_core_sel(1) by metis
  have "wallet_core (wallet_row (w\<lparr>w_updated_at := e_now ev\<rparr>)) = wallet_core w"
    by (simp add: wallet_core_def wallet_row_def)
  moreover have "u = v" if "u \<in> set (wd_wallets db)" "w_id u = w_id w" for u
    using assms(1,2) that id by (auto simp: wallet_ids_distinct_def distinct_map dest: inj_onD)
  ultimately show ?thesis
    using assms(3) by (auto simp: update_wallet_run same_books_def)
qed

lemma find_SomeD: "List.find P xs = Some x \<Longrightarrow> x \<in> set xs \<and> P x"
  by (metis find_Some_iff nth_mem)

lemma generate_reads [reads_intro]: "reads (generate_lightning_address_local_part ev)"
  by (simp add: generate_lightning_address_local_part_def reads_intro)

lemma standalone_cases:
  assumes "get_standalone_wallet ev cfg wid d db = (r, db')" and "wallet_ids_distinct db"
  shows "same_books db db' \<and> (\<forall>w. r = Inr (Some w) \<longrightarrow>
           w_balance_msat w = balance_of db wid
           \<and> (\<exists>v \<in> set (wd_wallets db). wallet_core v = wallet_core w \<and> w_id v = wid
                  \<and> (d = Some False \<longrightarrow> \<not> w_deleted v) \<and> w_share_permissions w = w_share_permissions v))"
proof (cases "List.find (\<lambda>w. w_id w = wid \<and> (case d of None \<Rightarrow> True | Some d \<Rightarrow> w_deleted w = d))
          (wd_wallets db)")
  case None
  then show ?thesis using assms by (auto simp: get_standalone_wallet_def ret_def)
next
  case (Some v)
  let ?w = "v\<lparr>w_balance_msat := balance_of db wid\<rparr>"
  from find_SomeD [OF Some]
  have v: "v \<in> set (wd_wallets db)" "w_id v = wid" "d = Some False \<Longrightarrow> \<not> w_deleted v"
    by (auto split: option.splits)
  have core: "wallet_core ?w = wallet_core v" by (simp add: wallet_core_def)
  show ?thesis
  proof (cases "d \<noteq> Some True \<and> is_lightning_wallet ?w \<and> \<not> truthy (w_lightning_address ?w)
                \<and> ln_address_creation_allowed cfg")
    case False
    then have "r = Inr (Some ?w)" "db' = db"
      using assms(1) Some by (auto simp: get_standalone_wallet_def ret_def split: if_splits)
    then show ?thesis using v core by auto
  next
    case True
    obtain a where a: "generate_lightning_address_loop 100 (e_ln_address ev db) 0 db = a" by simp
    show ?thesis
    proof (cases a)
      case (Inl e)
      then have "r = Inl e" "db' = db"
        using assms(1) Some True a
        by (auto simp: get_standalone_wallet_def generate_lightning_address_local_part_def
            bindP_def gets_def liftE_def Let_def)
      then show ?thesis by simp
    next
      case (Inr addr)
      let ?w2 = "?w\<lparr>w_lightning_address := Some addr\<rparr>"
      have "db' = snd (update_wallet ev ?w2 db)
          \<and> (\<forall>w. r = Inr (Some w) \<longrightarrow> w = ?w2\<lparr>w_updated_at := e_now ev\<rparr>)"
        using assms(1) Some True a Inr
        by (auto simp: get_standalone_wallet_def generate_lightning_address_local_part_def
            update_wallet_run ret_def bindP_def gets_def liftE_def Let_def split: if_splits)
      moreover have "wallet_core ?w2 = wallet_core v" by (simp add: wallet_core_def)
      ultimately show ?thesis
        using v update_wallet_same_books [OF assms(2) v(1)] by (auto simp: wallet_core_def)
    qed
  qed
qed

lemma reads_standalone [reads_intro]: "reads (get_standalone_wallet ev cfg wid d)"
  unfolding reads_def by (metis standalone_cases prod.collapse)

lemma reads_source_wallet [reads_intro]: "reads (get_source_wallet ev cfg w)"
  by (simp add: get_source_wallet_def reads_intro)

lemma reads_get_wallet [reads_intro]: "reads (get_wallet ev cfg wid d)"
  by (simp add: get_wallet_def reads_intro)

lemma reads_source_wallets [reads_intro]: "reads (get_source_wallets ev cfg ws)"
  by (induction ws) (simp_all add: reads_intro)

lemma reads_get_wallets [reads_intro]: "reads (get_wallets ev cfg u d t)"
  by (simp add: get_wallets_def reads_intro)

lemma reads_get_wallets_ids [reads_intro]: "reads (get_wallets_ids ev cfg u d)"
  by (simp add: get_wallets_ids_def reads_intro)

section \<open>What a wallet read returns\<close>

text \<open>Well-formed tables: primary keys are unique and unstored fields have their defaults.\<close>

definition wf_wallets :: "world \<Rightarrow> bool" where
  "wf_wallets db \<longleftrightarrow>
     wallet_ids_distinct db \<and> (\<forall>w \<in> set (wd_wallets db). w_share_permissions w = [])"

text \<open>The balance shown by a wallet read is the balance of the wallet its payments are booked on.\<close>

lemma get_wallet_balance:
  assumes "get_wallet ev cfg wid (Some False) db = (Inr (Some w), db')" and "wf_wallets db"
  shows "w_id w = wid \<and> w_balance_msat w = balance_of db (source_wallet_id w)
         \<and> 0 < live_rows db (source_wallet_id w)"
proof -
  have dist: "wallet_ids_distinct db" using assms(2) by (simp add: wf_wallets_def)
  from assms(1) obtain w1 db1 where
    g1: "get_standalone_wallet ev cfg wid (Some False) db = (Inr (Some w1), db1)"
    and g2: "(if is_lightning_shared_wallet w1 then get_source_wallet ev cfg w1 else ret (Some w1)) db1
              = (Inr (Some w), db')"
    by (auto simp: get_wallet_def bindP_Inr_iff ret_def split: option.splits)
  from standalone_cases [OF g1 dist] obtain v where sb: "same_books db db1"
    and v: "v \<in> set (wd_wallets db)" "wallet_core v = wallet_core w1" "w_id v = wid" "\<not> w_deleted v"
    and bal: "w_balance_msat w1 = balance_of db wid"
    and sp: "w_share_permissions w1 = w_share_permissions v"
    by auto
  have sp1: "w_share_permissions w1 = []" using sp v(1) assms(2) by (simp add: wf_wallets_def)
  have id1: "w_id w1 = wid" using v(2,3) wallet_core_sel(1) by metis
  have live: "0 < live_rows db wid" using live_rows_pos [OF v(1,4)] v(3) by simp
  have self: "source_wallet_id w1 = wid" using sp1 id1 by (simp add: source_wallet_id_def)
  show ?thesis
  proof (cases "is_lightning_shared_wallet w1")
    case False
    then show ?thesis using g2 self bal live id1 by (simp add: ret_def)
  next
    case True
    let ?sid = "the (w_shared_wallet_id w1)"
    from g2 True obtain s db2 where t: "truthy (w_shared_wallet_id w1)"
      and g3: "get_standalone_wallet ev cfg ?sid (Some False) db1 = (Inr (Some s), db2)"
      and w: "w = mirror_shared_wallet w1 s"
      by (auto simp: get_source_wallet_def bindP_Inr_iff ret_def split: option.splits if_splits)
    have dist1: "wallet_ids_distinct db1" using dist sb by (simp add: same_books_ids)
    from standalone_cases [OF g3 dist1] obtain u where
      u: "u \<in> set (wd_wallets db1)" "wallet_core u = wallet_core s" "w_id u = ?sid" "\<not> w_deleted u"
      and bs: "w_balance_msat s = balance_of db1 ?sid"
      by auto
    have ids: "w_id s = ?sid" using u(2,3) wallet_core_sel(1) by metis
    have lives: "0 < live_rows db ?sid"
      using live_rows_pos [OF u(1,4)] u(3) same_books_live [OF sb] by simp
    have tid: "truthy (Some ?sid)" using t by (auto simp: truthy_def)
    show ?thesis
    proof (cases "is_lightning_wallet s \<and> get_share_permissions s wid \<noteq> []")
      case False
      then have "w_share_permissions w = [] \<and> w_balance_msat w = w_balance_msat w1"
        using sp1 id1 by (auto simp: w mirror_shared_wallet_def Let_def)
      then show ?thesis using bal live id1 w by (simp add: source_wallet_id_def)
    next
      case perm: True
      then have "source_wallet_id w = ?sid"
        using ids id1 tid mirror_type [of s w1]
        by (simp add: source_wallet_id_def w) (simp add: mirror_shared_wallet_def Let_def)
      moreover have "w_balance_msat w = balance_of db ?sid"
        using perm id1 bs same_books_balance [OF sb] by (simp add: w mirror_shared_wallet_def Let_def)
      ultimately show ?thesis using lives id1 w by simp
    qed
  qed
qed

end
