(* ===== verification/PaymentTables.thy ===== *)
theory PaymentTables
  imports Tables
begin

text \<open>
  \<open>lnbits/core/crud/payments.py\<close>: the queries and statements on the table \<open>apipayments\<close>. The
  conditions of the SQL are the filter predicates; \<open>ORDER BY\<close> is a stable sort of the rows in table
  order. \<open>LIKE\<close> is SQLite's, the default database: letters compare without case and an underscore
  in the pattern stands for any one character.
\<close>

section \<open>Row statements\<close>

definition insert_payment_row :: "payment \<Rightarrow> world \<Rightarrow> world" where
  "insert_payment_row p db = db\<lparr>wd_payments := wd_payments db @ [p]\<rparr>"

definition update_payment_row :: "payment \<Rightarrow> world \<Rightarrow> world" where
  "update_payment_row p db =
     db\<lparr>wd_payments := map (\<lambda>q. if p_checking_id q = p_checking_id p then p else q) (wd_payments db)\<rparr>"

text \<open>The table has the constraint \<open>UNIQUE (wallet_id, checking_id)\<close>.\<close>

definition update_payment_checking_id :: "env \<Rightarrow> string \<Rightarrow> string \<Rightarrow> (world, unit) py" where
  "update_payment_checking_id ev old new =
     bindP (gets (\<lambda>db. list_ex (\<lambda>q. p_checking_id q = old
                 \<and> list_ex (\<lambda>r. p_checking_id r = new \<and> p_wallet_id r = p_wallet_id q) (wd_payments db))
               (wd_payments db))) (\<lambda>clash.
     thenP (failIf (clash \<and> old \<noteq> new) (OtherError ''UNIQUE constraint failed''))
     (modify (\<lambda>db. db\<lparr>wd_payments :=
        map (\<lambda>q. if p_checking_id q = old then q\<lparr>p_checking_id := new, p_updated_at := e_now ev\<rparr> else q)
          (wd_payments db)\<rparr>)))"

section \<open>Single payments\<close>

definition get_payment :: "string \<Rightarrow> world \<Rightarrow> payment option" where
  "get_payment checking_id db = List.find (\<lambda>p. p_checking_id p = checking_id) (wd_payments db)"

definition standalone_match :: "string \<Rightarrow> bool \<Rightarrow> string option \<Rightarrow> payment \<Rightarrow> bool" where
  "standalone_match x incoming wid p \<longleftrightarrow>
     (p_checking_id p = x \<or> p_payment_hash p = x)
     \<and> (incoming \<longrightarrow> p_amount p > 0)
     \<and> (case wid of None \<Rightarrow> True | Some w \<Rightarrow> p_wallet_id p = w)"

text \<open>\<open>ORDER BY amount LIMIT 1\<close>.\<close>

definition select_standalone :: "string \<Rightarrow> bool \<Rightarrow> string option \<Rightarrow> world \<Rightarrow> payment option" where
  "select_standalone x incoming wid db =
     (case sort_key p_amount (filter (standalone_match x incoming wid) (wd_payments db)) of
        [] \<Rightarrow> None | p # _ \<Rightarrow> Some p)"

definition get_standalone_payment ::
  "env \<Rightarrow> settings \<Rightarrow> string \<Rightarrow> bool \<Rightarrow> string option \<Rightarrow> (world, payment option) py" where
  "get_standalone_payment ev cfg x incoming wallet_id =
     (if truthy wallet_id then
        bindP (get_wallet ev cfg (the wallet_id) (Some False)) (\<lambda>found.
          case found of
            None \<Rightarrow> ret None
          | Some w \<Rightarrow>
              if \<not> can_view_payments w then ret None
              else gets (select_standalone x incoming (Some (source_wallet_id w))))
      else gets (select_standalone x incoming None))"

definition get_wallet_payment ::
  "env \<Rightarrow> settings \<Rightarrow> string \<Rightarrow> string \<Rightarrow> (world, payment option) py" where
  "get_wallet_payment ev cfg wallet_id payment_hash =
     bindP (get_wallet ev cfg wallet_id (Some False)) (\<lambda>found.
       case found of
         None \<Rightarrow> ret None
       | Some w \<Rightarrow>
           if \<not> can_view_payments w then ret None
           else gets (\<lambda>db. List.find (\<lambda>p. p_wallet_id p = source_wallet_id w
                                        \<and> p_payment_hash p = payment_hash) (wd_payments db)))"

definition check_internal :: "string \<Rightarrow> world \<Rightarrow> payment option" where
  "check_internal payment_hash db =
     List.find (\<lambda>p. p_payment_hash p = payment_hash \<and> p_status p = PENDING \<and> p_amount p > 0)
       (wd_payments db)"

definition is_internal_status_success :: "string \<Rightarrow> world \<Rightarrow> bool" where
  "is_internal_status_success payment_hash db =
     (case List.find (\<lambda>p. p_payment_hash p = payment_hash \<and> p_amount p > 0) (wd_payments db) of
        None \<Rightarrow> False | Some p \<Rightarrow> p_status p = SUCCESS)"

section \<open>Lists of payments\<close>

record payment_query =
  q_wallet_id :: "string option"
  q_user_id :: "string option"
  q_complete :: bool
  q_pending :: bool
  q_failed :: bool
  q_outgoing :: bool
  q_incoming :: bool
  q_since :: "int option"
  q_exclude_uncheckable :: bool

definition default_query :: payment_query where
  "default_query =
     \<lparr>q_wallet_id = None, q_user_id = None, q_complete = False, q_pending = False, q_failed = False,
      q_outgoing = False, q_incoming = False, q_since = None, q_exclude_uncheckable = False\<rparr>"

definition like_prefix_any :: "string \<Rightarrow> string \<Rightarrow> bool" where
  "like_prefix_any p s \<longleftrightarrow> lower (take (length p) s) = lower p \<and> length p < length s"

definition status_clause :: "payment_query \<Rightarrow> payment \<Rightarrow> bool" where
  "status_clause q p =
     (if q_complete q \<and> q_pending q then p_status p = SUCCESS \<or> p_status p = PENDING
      else if q_complete q then p_status p = SUCCESS \<or> (p_amount p < 0 \<and> p_status p = PENDING)
      else if q_pending q then p_status p = PENDING
      else if q_failed q then p_status p = FAILED
      else True)"

definition direction_clause :: "payment_query \<Rightarrow> payment \<Rightarrow> bool" where
  "direction_clause q p =
     (if q_outgoing q \<and> q_incoming q then True
      else if q_outgoing q then p_amount p < 0
      else if q_incoming q then p_amount p > 0
      else True)"

definition payment_clause :: "payment_query \<Rightarrow> string list option \<Rightarrow> payment \<Rightarrow> bool" where
  "payment_clause q wallet_ids p \<longleftrightarrow>
     (case q_since q of None \<Rightarrow> True | Some t \<Rightarrow> p_time p > t)
     \<and> (case wallet_ids of None \<Rightarrow> True | Some ids \<Rightarrow> p_wallet_id p \<in> set ids)
     \<and> status_clause q p \<and> direction_clause q p
     \<and> (q_exclude_uncheckable q \<longrightarrow>
          \<not> like_prefix_any ''temp'' (p_checking_id p) \<and> \<not> like_prefix_any ''internal'' (p_checking_id p))"

text \<open>
  The \<open>Filters\<close> object as these queries use it: sorting by one of the integer columns, a limit
  (10 where the caller sets none) and an offset.
\<close>

datatype sort_column = SortTime | SortCreatedAt | SortUpdatedAt | SortAmount | SortFee
datatype sort_direction = Asc | Desc

record page_filters =
  pf_sortby :: "sort_column option"
  pf_direction :: "sort_direction option"
  pf_limit :: "int option"
  pf_offset :: "int option"

definition default_filters :: page_filters where
  "default_filters = \<lparr>pf_sortby = None, pf_direction = None, pf_limit = Some 10, pf_offset = None\<rparr>"

fun sort_value :: "sort_column \<Rightarrow> payment \<Rightarrow> int" where
  "sort_value SortTime p = p_time p"
| "sort_value SortCreatedAt p = p_created_at p"
| "sort_value SortUpdatedAt p = p_updated_at p"
| "sort_value SortAmount p = p_amount p"
| "sort_value SortFee p = p_fee p"

definition order_rows :: "page_filters \<Rightarrow> payment list \<Rightarrow> payment list" where
  "order_rows f ps =
     (case pf_sortby f of
        None \<Rightarrow> ps
      | Some c \<Rightarrow>
          if pf_direction f = Some Desc then sort_key (\<lambda>p. - sort_value c p) ps
          else sort_key (sort_value c) ps)"

text \<open>\<open>pagination\<close>: 0 stands for the maximum of 1000, None for 10.\<close>

definition page_limit :: "page_filters \<Rightarrow> int" where
  "page_limit f =
     min 1000 (case pf_limit f of None \<Rightarrow> 10 | Some l \<Rightarrow> if l = 0 then 1000 else l)"

definition paginate :: "page_filters \<Rightarrow> payment list \<Rightarrow> payment list" where
  "paginate f ps =
     take (nat (page_limit f)) (drop (case pf_offset f of None \<Rightarrow> 0 | Some i \<Rightarrow> nat i) ps)"

record page =
  pg_data :: "payment list"
  pg_total :: nat

definition fetch_payment_page :: "payment_query \<Rightarrow> string list option \<Rightarrow> page_filters \<Rightarrow> world \<Rightarrow> page" where
  "fetch_payment_page q ids f db =
     (let matching = filter (payment_clause q ids) (wd_payments db);
          rows = paginate f (order_rows f matching)
      in \<lparr>pg_data = rows, pg_total = (if rows = [] then 0 else length matching)\<rparr>)"

definition get_payments_paginated ::
  "env \<Rightarrow> settings \<Rightarrow> payment_query \<Rightarrow> page_filters \<Rightarrow> (world, page) py" where
  "get_payments_paginated ev cfg q f =
     (if truthy (q_wallet_id q) then
        bindP (get_wallet ev cfg (the (q_wallet_id q)) (Some False)) (\<lambda>found.
          case found of
            None \<Rightarrow> ret \<lparr>pg_data = [], pg_total = 0\<rparr>
          | Some w \<Rightarrow>
              if \<not> can_view_payments w then ret \<lparr>pg_data = [], pg_total = 0\<rparr>
              else gets (fetch_payment_page q (Some [source_wallet_id w]) f))
      else if truthy (q_user_id q) then
        bindP (get_wallets_ids ev cfg (the (q_user_id q)) (Some False)) (\<lambda>ids.
          gets (fetch_payment_page q (Some (if ids = [] then [''no-wallets-for-user''] else ids)) f))
      else gets (fetch_payment_page q None f))"

definition or_int :: "int option \<Rightarrow> int option \<Rightarrow> int option" where
  "or_int a b = (if a = None \<or> a = Some 0 then b else a)"

definition get_payments ::
  "env \<Rightarrow> settings \<Rightarrow> payment_query \<Rightarrow> page_filters \<Rightarrow> int option \<Rightarrow> int option \<Rightarrow> (world, payment list) py" where
  "get_payments ev cfg q filters limit offset =
     (let f = filters\<lparr>pf_sortby := (if pf_sortby filters = None then Some SortTime else pf_sortby filters),
                      pf_direction := (if pf_direction filters = None then Some Desc else pf_direction filters),
                      pf_limit := or_int limit (pf_limit filters),
                      pf_offset := or_int offset (pf_offset filters)\<rparr>
      in bindP (get_payments_paginated ev cfg q f) (\<lambda>pg. ret (pg_data pg)))"

record payments_status_count =
  sc_incoming :: nat
  sc_outgoing :: nat
  sc_pending :: nat
  sc_failed :: nat

definition get_payments_status_count :: "env \<Rightarrow> settings \<Rightarrow> (world, payments_status_count) py" where
  "get_payments_status_count ev cfg =
     (let f = default_filters\<lparr>pf_limit := Some 0\<rparr> in
      bindP (get_payments_paginated ev cfg (default_query\<lparr>q_incoming := True\<rparr>) f) (\<lambda>i.
      bindP (get_payments_paginated ev cfg (default_query\<lparr>q_outgoing := True\<rparr>) f) (\<lambda>out.
      bindP (get_payments_paginated ev cfg (default_query\<lparr>q_pending := True\<rparr>) f) (\<lambda>pe.
      bindP (get_payments_paginated ev cfg (default_query\<lparr>q_failed := True\<rparr>) f) (\<lambda>fa.
        ret \<lparr>sc_incoming = pg_total i, sc_outgoing = pg_total out,
             sc_pending = pg_total pe, sc_failed = pg_total fa\<rparr>)))))"

section \<open>Creating and updating\<close>

definition new_payment :: "env \<Rightarrow> string \<Rightarrow> create_payment_data \<Rightarrow> payment_state \<Rightarrow> payment" where
  "new_payment ev checking_id data status =
     (let extra = cp_extra data in
      \<lparr>p_checking_id = checking_id, p_payment_hash = cp_payment_hash data,
       p_wallet_id = cp_wallet_id data, p_amount = cp_amount_msat data,
       p_fee = - \<bar>cp_fee data\<bar>, p_bolt11 = cp_bolt11 data, p_fiat_provider = None,
       p_status = status, p_memo = Some (cp_memo data), p_expiry = cp_expiry data,
       p_webhook = cp_webhook data, p_webhook_status = None, p_preimage = cp_preimage data,
       p_tag = dget extra ''tag'', p_extension = cp_extension data,
       p_time = e_now ev, p_created_at = e_now ev, p_updated_at = e_now ev,
       p_labels = cp_labels data, p_extra = extra, p_external_id = cp_external_id data\<rparr>)"

definition create_payment ::
  "env \<Rightarrow> settings \<Rightarrow> string \<Rightarrow> create_payment_data \<Rightarrow> payment_state \<Rightarrow> (world, payment) py" where
  "create_payment ev cfg checking_id data status =
     thenP (if cp_amount_msat data < 0
            then bindP (get_wallet ev cfg (cp_wallet_id data) (Some False)) (\<lambda>found.
                   failIf (case found of None \<Rightarrow> False | Some w \<Rightarrow> \<not> can_send_payments w)
                     (ValueError ''Wallet does not have permission to spend funds.''))
            else ret ())
     (bindP (get_standalone_payment ev cfg checking_id False None) (\<lambda>previous_payment.
      thenP (failIf (previous_payment \<noteq> None) (ValueError ''Payment already exists''))
      (let payment = new_payment ev checking_id data status
       in thenP (modify (insert_payment_row payment)) (ret payment))))"

definition update_payment :: "env \<Rightarrow> payment \<Rightarrow> string option \<Rightarrow> (world, payment) py" where
  "update_payment ev p new_checking_id =
     (let p' = p\<lparr>p_updated_at := e_now ev\<rparr> in
      thenP (modify (update_payment_row p'))
      (if truthy new_checking_id \<and> the new_checking_id \<noteq> p_checking_id p' then
         thenP (update_payment_checking_id ev (p_checking_id p') (the new_checking_id))
         (ret (p'\<lparr>p_checking_id := the new_checking_id\<rparr>))
       else ret p'))"

definition mark_webhook_sent :: "string \<Rightarrow> string \<Rightarrow> (world, unit) py" where
  "mark_webhook_sent payment_hash status =
     modify (\<lambda>db. db\<lparr>wd_payments :=
       map (\<lambda>p. if p_payment_hash p = payment_hash then p\<lparr>p_webhook_status := Some status\<rparr> else p)
         (wd_payments db)\<rparr>)"

text \<open>
  \<open>delete_wallet_payment\<close> names a column \<open>wallet\<close>, which migration m023 renamed to
  \<open>wallet_id\<close>; the statement is rejected by the database.
\<close>

definition delete_wallet_payment :: "string \<Rightarrow> string \<Rightarrow> (world, unit) py" where
  "delete_wallet_payment checking_id wallet_id = throw (OtherError ''no such column: wallet'')"

section \<open>Balance history\<close>

record history_row =
  hr_date :: int
  hr_income :: int
  hr_spending :: int

record history_point =
  h_date :: int
  h_income :: int
  h_spending :: int
  h_balance :: int

text \<open>
  The grouped query; \<open>trunc\<close> is the database's date truncation. The rows come newest first.
\<close>

definition history_rows :: "(int \<Rightarrow> int) \<Rightarrow> string option \<Rightarrow> world \<Rightarrow> history_row list" where
  "history_rows trunc wallet_id db =
     (let ps = filter (\<lambda>p. Some (p_wallet_id p) = wallet_id
                         \<and> (p_status p = SUCCESS \<or> (p_amount p < 0 \<and> p_status p = PENDING)))
                 (wd_payments db);
          dates = rev (sort (remdups (map (\<lambda>p. trunc (p_time p)) ps)))
      in map (\<lambda>d. let g = filter (\<lambda>p. trunc (p_time p) = d) ps in
            \<lparr>hr_date = d,
             hr_income = sum_list (map (\<lambda>p. if p_amount p > 0 then p_amount p else 0) g),
             hr_spending = sum_list (map (\<lambda>p. if p_amount p < 0 then \<bar>p_amount p\<bar> + \<bar>p_fee p\<bar> else 0) g)\<rparr>)
          dates)"

text \<open>The loop that walks back from the current balance and prepends a point per row.\<close>

fun history_walk :: "int \<Rightarrow> history_row list \<Rightarrow> history_point list \<Rightarrow> history_point list" where
  "history_walk balance [] results = results"
| "history_walk balance (r # rs) results =
     history_walk (balance - (hr_income r - hr_spending r)) rs
       (\<lparr>h_date = hr_date r, h_income = hr_income r, h_spending = hr_spending r, h_balance = balance\<rparr>
        # results)"

definition get_payments_history ::
  "env \<Rightarrow> settings \<Rightarrow> (int \<Rightarrow> int) \<Rightarrow> string option \<Rightarrow> (world, history_point list) py" where
  "get_payments_history ev cfg trunc wallet_id =
     bindP (gets (history_rows trunc wallet_id)) (\<lambda>transactions.
       if truthy wallet_id then
         bindP (get_wallet ev cfg (the wallet_id) (Some False)) (\<lambda>found.
           case found of
             None \<Rightarrow> ret []
           | Some w \<Rightarrow>
               if \<not> can_view_payments w then ret []
               else ret (history_walk (w_balance_msat w) transactions []))
       else bindP (gets get_total_balance) (\<lambda>balance. ret (history_walk balance transactions [])))"

end
