(* ===== verification/Ledger.thy ===== *)
theory Ledger
  imports PaymentTables
begin

text \<open>
  What the statements on the payment table do to the balances: the table as an instance of
  \<open>keyed_table\<close>, the balance of a wallet as a sum over the rows, and the cases in which
  \<open>create_payment\<close> and \<open>update_payment\<close> end.
\<close>

section \<open>The payment table is a keyed table\<close>

interpretation pt: keyed_table wd_payments p_checking_id insert_payment_row update_payment_row
  by unfold_locales (auto simp: insert_payment_row_def update_payment_row_def)

section \<open>Balances as sums\<close>

definition booked :: "string \<Rightarrow> payment \<Rightarrow> int" where
  "booked wid p = (if p_wallet_id p = wid \<and> counted p then net p else 0)"

lemma ledger_sum_booked: "ledger_sum wid ps = sum_list (map (booked wid) ps)"
  by (induction ps) (simp_all add: ledger_sum_def booked_def)

lemma insert_payment_row_simps [simp]:
  "wd_payments (insert_payment_row p db) = wd_payments db @ [p]"
  "wd_wallets (insert_payment_row p db) = wd_wallets db"
  "wd_sent (insert_payment_row p db) = wd_sent db"
  "wd_internal_queue (insert_payment_row p db) = wd_internal_queue db"
  "wd_notified (insert_payment_row p db) = wd_notified db"
  "wallet_ids_distinct (insert_payment_row p db) = wallet_ids_distinct db"
  by (simp_all add: insert_payment_row_def wallet_ids_distinct_def)

lemma update_payment_row_simps [simp]:
  "wd_wallets (update_payment_row p db) = wd_wallets db"
  "wd_sent (update_payment_row p db) = wd_sent db"
  "wd_internal_queue (update_payment_row p db) = wd_internal_queue db"
  "wd_notified (update_payment_row p db) = wd_notified db"
  "wallet_ids_distinct (update_payment_row p db) = wallet_ids_distinct db"
  by (simp_all add: update_payment_row_def wallet_ids_distinct_def)

lemma counted_net_other_fields [simp]:
  "counted (p\<lparr>p_updated_at := t\<rparr>) = counted p" "net (p\<lparr>p_updated_at := t\<rparr>) = net p"
  "counted (p\<lparr>p_checking_id := c\<rparr>) = counted p" "net (p\<lparr>p_checking_id := c\<rparr>) = net p"
  by (simp_all add: counted_def net_def)

lemma booked_other_fields [simp]:
  "booked wid (p\<lparr>p_updated_at := t\<rparr>) = booked wid p"
  "booked wid (p\<lparr>p_checking_id := c\<rparr>) = booked wid p"
  by (simp_all add: booked_def)

lemma booked_failed: "p_status p = FAILED \<Longrightarrow> booked wid p = 0"
  by (simp add: booked_def counted_def)

section \<open>Creating a payment\<close>

lemma select_standalone_None:
  "select_standalone x False None db = None \<longleftrightarrow>
   (\<forall>q \<in> set (wd_payments db). p_checking_id q \<noteq> x \<and> p_payment_hash q \<noteq> x)"
proof -
  have "select_standalone x False None db = None \<longleftrightarrow>
     sort_key p_amount (filter (standalone_match x False None) (wd_payments db)) = []"
    by (simp add: select_standalone_def split: list.splits)
  also have "\<dots> \<longleftrightarrow> filter (standalone_match x False None) (wd_payments db) = []"
    by (metis length_sort length_0_conv)
  finally show ?thesis by (auto simp: filter_empty_conv standalone_match_def)
qed

lemma select_standalone_Some:
  assumes "select_standalone x i w db = Some p"
  shows "p \<in> set (wd_payments db) \<and> standalone_match x i w p
         \<and> (\<forall>q \<in> set (wd_payments db). standalone_match x i w q \<longrightarrow> p_amount p \<le> p_amount q)"
proof -
  let ?ps = "filter (standalone_match x i w) (wd_payments db)"
  from assms obtain rest where s: "sort_key p_amount ?ps = p # rest"
    by (auto simp: select_standalone_def split: list.splits)
  have "p \<in> set (sort_key p_amount ?ps)" unfolding s by simp
  then have p: "p \<in> set ?ps" by simp
  have "sorted (map p_amount (p # rest))" using sorted_sort_key [of p_amount ?ps] s by simp
  then have "p_amount p \<le> p_amount q" if "q \<in> set ?ps" for q
  proof -
    have "q \<in> set (sort_key p_amount ?ps)" using that by simp
    then have "q \<in> set (p # rest)" unfolding s .
    with \<open>sorted (map p_amount (p # rest))\<close> show ?thesis by auto
  qed
  with p show ?thesis by auto
qed

lemma standalone_no_wallet [simp]:
  "get_standalone_payment ev cfg x i None db = (Inr (select_standalone x i None db), db)"
  by (simp add: get_standalone_payment_def gets_def)

lemma new_payment_simps [simp]:
  "p_checking_id (new_payment ev c d s) = c" "p_payment_hash (new_payment ev c d s) = cp_payment_hash d"
  "p_wallet_id (new_payment ev c d s) = cp_wallet_id d" "p_amount (new_payment ev c d s) = cp_amount_msat d"
  "p_fee (new_payment ev c d s) = - \<bar>cp_fee d\<bar>" "p_status (new_payment ev c d s) = s"
  "p_bolt11 (new_payment ev c d s) = cp_bolt11 d" "p_preimage (new_payment ev c d s) = cp_preimage d"
  "p_extra (new_payment ev c d s) = cp_extra d" "p_fiat_provider (new_payment ev c d s) = None"
  by (simp_all add: new_payment_def Let_def)

text \<open>
  Either nothing but wallet addresses changed and an error is raised, or the new row is appended;
  then no row had its id as checking id or payment hash, and the wallet of a debit may spend.
\<close>

lemma create_payment_cases:
  assumes "create_payment ev cfg c d s db = (r, db')" and "wallet_ids_distinct db"
  obtains (error) e where "r = Inl e" "same_books db db'"
  | (created) db1 where "r = Inr (new_payment ev c d s)" "same_books db db1"
      "db' = insert_payment_row (new_payment ev c d s) db1"
      "\<forall>q \<in> set (wd_payments db). p_checking_id q \<noteq> c \<and> p_payment_hash q \<noteq> c"
proof -
  let ?guard = "if cp_amount_msat d < 0
            then bindP (get_wallet ev cfg (cp_wallet_id d) (Some False)) (\<lambda>found.
                   failIf (case found of None \<Rightarrow> False | Some w \<Rightarrow> \<not> can_send_payments w)
                     (ValueError ''Wallet does not have permission to spend funds.''))
            else ret ()"
  obtain g db1 where g: "?guard db = (g, db1)" by fastforce
  have "reads ?guard" by (simp add: reads_intro)
  from readsD [OF this assms(2)] g have sb: "same_books db db1" by simp
  show ?thesis
  proof (cases g)
    case (Inl e)
    then have "r = Inl e" "db' = db1"
      using assms(1) g by (simp_all add: create_payment_def thenP_def bindP_def)
    with sb show ?thesis using error by blast
  next
    case (Inr u)
    have *: "create_payment ev cfg c d s db =
        (case select_standalone c False None db1 of
           Some q \<Rightarrow> (Inl (ValueError ''Payment already exists''), db1)
         | None \<Rightarrow> (Inr (new_payment ev c d s), insert_payment_row (new_payment ev c d s) db1))"
      using g Inr unfolding create_payment_def thenP_def
      by (simp add: bindP_def failIf_def throw_def ret_def modify_def Let_def split: option.split)
    show ?thesis
    proof (cases "select_standalone c False None db1")
      case None
      then have "r = Inr (new_payment ev c d s)" "db' = insert_payment_row (new_payment ev c d s) db1"
        using assms(1) * by simp_all
      moreover have "\<forall>q \<in> set (wd_payments db). p_checking_id q \<noteq> c \<and> p_payment_hash q \<noteq> c"
        using None same_books_sel(1) [OF sb] by (simp add: select_standalone_None)
      ultimately show ?thesis using created sb by blast
    next
      case (Some q)
      then have "r = Inl (ValueError ''Payment already exists'')" "db' = db1"
        using assms(1) * by simp_all
      with sb show ?thesis using error by blast
    qed
  qed
qed

section \<open>Updating a payment\<close>

lemma update_payment_same_id:
  "update_payment ev p None db =
     (Inr (p\<lparr>p_updated_at := e_now ev\<rparr>), update_payment_row (p\<lparr>p_updated_at := e_now ev\<rparr>) db)"
  by (simp add: update_payment_def Let_def modify_def ret_def)

text \<open>
  With a new checking id, the row is written first and renamed by a second statement, which the
  database may refuse. In every case the row with the old id is replaced by one that books the same.
\<close>

definition renames :: "string \<Rightarrow> string \<Rightarrow> payment \<Rightarrow> payment \<Rightarrow> bool" where
  "renames old new q q' \<longleftrightarrow>
     q' = q \<or> (p_checking_id q = old \<and> (\<exists>t. q' = q\<lparr>p_checking_id := new, p_updated_at := t\<rparr>))"

lemma update_payment_cases:
  assumes "update_payment ev p n db = (r, db')"
  shows "\<exists>f. wd_payments db' = map f (wd_payments (update_payment_row (p\<lparr>p_updated_at := e_now ev\<rparr>) db))
            \<and> (\<forall>q. renames (p_checking_id p) (the n) q (f q))
            \<and> db' = db\<lparr>wd_payments := wd_payments db'\<rparr>
            \<and> (\<forall>p'. r = Inr p' \<longrightarrow> p' = p\<lparr>p_updated_at := e_now ev\<rparr>
                      \<or> p' = p\<lparr>p_updated_at := e_now ev, p_checking_id := the n\<rparr>)"
proof -
  let ?p = "p\<lparr>p_updated_at := e_now ev\<rparr>"
  let ?db = "update_payment_row ?p db"
  let ?f = "\<lambda>q. if p_checking_id q = p_checking_id p
                then q\<lparr>p_checking_id := the n, p_updated_at := e_now ev\<rparr> else q"
  have row: "?db = db\<lparr>wd_payments := wd_payments ?db\<rparr>" by (simp add: update_payment_row_def)
  have ren: "renames (p_checking_id p) (the n) q (?f q)" for q by (auto simp: renames_def)
  show ?thesis
  proof (cases "truthy n \<and> the n \<noteq> p_checking_id p")
    case False
    then have "r = Inr ?p" "db' = ?db"
      using assms by (auto simp: update_payment_def Let_def modify_def ret_def)
    then show ?thesis using row by (intro exI [of _ "\<lambda>q. q"]) (simp add: renames_def)
  next
    case True
    then have eq: "update_payment ev p n db =
        thenP (update_payment_checking_id ev (p_checking_id p) (the n))
          (ret (?p\<lparr>p_checking_id := the n\<rparr>)) ?db"
      by (simp add: update_payment_def Let_def)
    then consider
        (err) e where "r = Inl e" "db' = ?db"
      | (ok) "r = Inr (?p\<lparr>p_checking_id := the n\<rparr>)" "db' = ?db\<lparr>wd_payments := map ?f (wd_payments ?db)\<rparr>"
      using assms
      by (auto simp: update_payment_checking_id_def thenP_def bindP_def gets_def failIf_def
          throw_def ret_def modify_def split: if_splits)
    then show ?thesis
    proof cases
      case err
      then show ?thesis using row by (intro exI [of _ "\<lambda>q. q"]) (simp add: renames_def)
    next
      case ok
      have "db' = db\<lparr>wd_payments := wd_payments db'\<rparr>"
        using ok(2) row by (cases db) (simp add: update_payment_row_def)
      then show ?thesis using ok ren by (intro exI [of _ ?f]) simp
    qed
  qed
qed

lemma renames_booked: "renames old new q q' \<Longrightarrow> booked wid q' = booked wid q"
  by (auto simp: renames_def)

lemma renames_hash: "renames old new q q' \<Longrightarrow> p_payment_hash q' = p_payment_hash q"
  by (auto simp: renames_def)

text \<open>The effect on balances when the row was the only one with its checking id.\<close>

lemma update_payment_ledger:
  assumes "update_payment ev p n db = (r, db')"
    and "filter (\<lambda>x. p_checking_id x = p_checking_id p) (wd_payments db) = [q]"
  shows "ledger_sum wid (wd_payments db') =
         ledger_sum wid (wd_payments db) - booked wid q + booked wid p"
proof -
  let ?p = "p\<lparr>p_updated_at := e_now ev\<rparr>"
  obtain f where f: "wd_payments db' = map f (wd_payments (update_payment_row ?p db))"
    and r: "\<forall>q. renames (p_checking_id p) (the n) q (f q)"
    using update_payment_cases [OF assms(1)] by blast
  have "map (booked wid) (map f ps) = map (booked wid) ps" for ps
    using renames_booked [OF r [rule_format]] by simp
  then have "ledger_sum wid (wd_payments db') = sum_list (map (booked wid) (wd_payments (update_payment_row ?p db)))"
    by (simp only: ledger_sum_booked f)
  also have "\<dots> = ledger_sum wid (wd_payments db) - booked wid q + booked wid ?p"
    using pt.total_upd_only [of ?p db q "booked wid"] assms(2) by (simp add: ledger_sum_booked)
  finally show ?thesis by simp
qed

lemma update_payment_frame:
  assumes "update_payment ev p n db = (r, db')"
  shows "wd_wallets db' = wd_wallets db" "wd_sent db' = wd_sent db"
    "wallet_ids_distinct db' = wallet_ids_distinct db" "wd_internal_queue db' = wd_internal_queue db"
proof -
  from update_payment_cases [OF assms] have "db' = db\<lparr>wd_payments := wd_payments db'\<rparr>" by blast
  then obtain ps where ps: "db' = db\<lparr>wd_payments := ps\<rparr>" by blast
  show "wd_wallets db' = wd_wallets db" "wd_sent db' = wd_sent db"
    "wallet_ids_distinct db' = wallet_ids_distinct db" "wd_internal_queue db' = wd_internal_queue db"
    unfolding ps by (simp_all add: wallet_ids_distinct_def)
qed

lemma live_rows_wallets: "wd_wallets db' = wd_wallets db \<Longrightarrow> live_rows db' wid = live_rows db wid"
  by (simp add: live_rows_def)

end
