(* ===== verification/AccessControl.thy ===== *)
theory AccessControl
  imports PaymentTables
begin

text \<open>
  The extension part of \<open>lnbits/decorators.py\<close>: which extension a request path belongs to and
  whether a user may use it. Payments made for an extension check it too.
\<close>

record simple_status =
  ss_success :: bool
  ss_message :: string

definition check_user_extension_access :: "settings \<Rightarrow> string \<Rightarrow> string \<Rightarrow> world \<Rightarrow> simple_status" where
  "check_user_extension_access cfg user_id e db =
     (if is_admin_extension cfg e \<and> \<not> is_admin_user cfg user_id
      then \<lparr>ss_success = False, ss_message = ''User not authorized for extension '' @ e\<rparr>
      else if is_installed_extension_id cfg e \<and> e \<notin> set (get_user_active_extensions_ids user_id db)
      then \<lparr>ss_success = False, ss_message = ''Extension '' @ e @ '' not enabled.''\<rparr>
      else \<lparr>ss_success = True, ss_message = ''OK''\<rparr>)"

text \<open>\<open>path_segments\<close> and \<open>normalize_path\<close> of \<open>lnbits/helpers.py\<close>.\<close>

definition path_segments :: "string \<Rightarrow> string list" where
  "path_segments path = split_on CHR ''/'' (strip_char CHR ''/'' path)"

definition normalize_path :: "string option \<Rightarrow> string" where
  "normalize_path path =
     ''/'' @ join ''/'' (path_segments (if truthy path then the path else []))"

definition extension_id_from_request_path :: "string \<Rightarrow> string" where
  "extension_id_from_request_path path =
     (let segments = path_segments path
      in if length segments \<ge> 2 \<and> segments ! 0 = ''ext'' then segments ! 1
         else if length segments \<ge> 4 \<and> take 3 segments = [''api'', ''v1'', ''ext''] then segments ! 3
         else segments ! 0)"

definition check_user_access :: "settings \<Rightarrow> string \<Rightarrow> string \<Rightarrow> (world, unit) py" where
  "check_user_access cfg path user_id =
     thenP (failIf (\<not> is_user_allowed cfg user_id) (HTTPException 403 ''User not allowed.''))
     (bindP (gets (check_user_extension_access cfg user_id (extension_id_from_request_path path))) (\<lambda>status.
        failIf (\<not> ss_success status) (HTTPException 403 (ss_message status))))"

lemma extension_access_iff:
  "ss_success (check_user_extension_access cfg u e db) \<longleftrightarrow>
     (is_admin_extension cfg e \<longrightarrow> is_admin_user cfg u)
     \<and> (is_installed_extension_id cfg e \<longrightarrow> e \<in> set (get_user_active_extensions_ids u db))"
  by (auto simp: check_user_extension_access_def)

lemma path_segments_nonempty [simp]: "path_segments p \<noteq> []"
  by (simp add: path_segments_def)

lemma check_user_access_iff:
  "fst (check_user_access cfg path u db) = Inr () \<longleftrightarrow>
     is_user_allowed cfg u
     \<and> ss_success (check_user_extension_access cfg u (extension_id_from_request_path path) db)"
  by (simp add: check_user_access_def thenP_failIf failIf_def throw_def ret_def)

lemma check_user_access_state: "snd (check_user_access cfg path u db) = db"
  by (simp add: check_user_access_def thenP_failIf failIf_def throw_def ret_def)

text \<open>
  \<open>lnbits/decorators.py\<close>: the dependencies that the endpoints use to find out who calls. A request
  carries a path, a method and possibly an API key; the user that was identified is noted in its scope
  (the audit log reads it), also when the request is refused later. Handlers run on the database and
  the request. \<open>jwt.decode\<close> is a parameter.
\<close>

section \<open>Requests\<close>

record request =
  rq_path :: string
  rq_method :: string
  rq_header_key :: "string option"
  rq_query_key :: "string option"
  rq_user_id :: "string option"

type_synonym http = "world \<times> request"

text \<open>A database operation run from a handler, and a read of the request.\<close>

definition on_db :: "('w, 'a) py \<Rightarrow> ('w \<times> 'r, 'a) py" where
  "on_db m h = (let (r, db) = m (fst h) in (r, (db, snd h)))"

definition set_scope_user :: "string \<Rightarrow> (http, unit) py" where
  "set_scope_user u = modify (\<lambda>h. (fst h, (snd h)\<lparr>rq_user_id := Some u\<rparr>))"

lemma on_db_simp: "on_db m (db, rq) = (fst (m db), (snd (m db), rq))"
  by (simp add: on_db_def split: prod.splits)

section \<open>Reading and writing the shared cache\<close>

definition get_cached :: "env \<Rightarrow> string \<Rightarrow> (world, cached_value option) py" where
  "get_cached ev key db =
     (let (r, c) = cache_get (of_int (e_now ev)) key (wd_cache db) in (Inr r, db\<lparr>wd_cache := c\<rparr>))"

definition set_cached :: "env \<Rightarrow> string \<Rightarrow> cached_value \<Rightarrow> int \<Rightarrow> (world, unit) py" where
  "set_cached ev key v expiry =
     modify (\<lambda>db. db\<lparr>wd_cache := cache_set (of_int (e_now ev)) key v (of_int expiry) (wd_cache db)\<rparr>)"

section \<open>API keys of wallets\<close>

definition extract_key_value :: "string option \<Rightarrow> request \<Rightarrow> exn + string" where
  "extract_key_value api_key rq =
     (let v = (if truthy api_key then api_key else orElse (rq_header_key rq) (rq_query_key rq))
      in if \<not> truthy v then Inl (HTTPException 401 ''No Api Key provided.'') else Inr (the v))"

definition extract_key_type :: "key_type option \<Rightarrow> string \<Rightarrow> 'a base_wallet_scheme \<Rightarrow> exn + key_type" where
  "extract_key_type expected key w =
     (if expected = Some AdminKey \<and> w_adminkey w \<noteq> key
      then Inl (HTTPException 403 ''Invalid adminkey.'')
      else Inr (if w_adminkey w = key then AdminKey else InvoiceKey))"

record wallet_type_info =
  wti_key_type :: key_type
  wti_wallet :: wallet

record base_wallet_type_info =
  bti_key_type :: key_type
  bti_wallet :: base_wallet

definition request_access :: "settings \<Rightarrow> string \<Rightarrow> (http, unit) py" where
  "request_access cfg user_id =
     thenP (set_scope_user user_id)
     (bindP (gets snd) (\<lambda>rq. on_db (check_user_access cfg (rq_path rq) user_id)))"

definition key_checker ::
  "env \<Rightarrow> settings \<Rightarrow> string option \<Rightarrow> key_type option \<Rightarrow> (http, wallet_type_info) py" where
  "key_checker ev cfg api_key expected =
     bindP (gets snd) (\<lambda>rq.
     bindP (liftE (extract_key_value api_key rq)) (\<lambda>key.
     bindP (on_db (get_wallet_for_key ev cfg key)) (\<lambda>found.
     case found of
       None \<Rightarrow> throw (HTTPException 404 ''Wallet not found.'')
     | Some w \<Rightarrow>
         thenP (request_access cfg (w_user w))
         (bindP (liftE (extract_key_type expected key w)) (\<lambda>kt.
            ret \<lparr>wti_key_type = kt, wti_wallet = w\<rparr>)))))"

text \<open>
  \<open>LightKeyChecker\<close>: what an earlier request put into the cache under this key is returned without
  looking at the expected type. Only \<open>CKeyInfo\<close> values have the attribute \<open>wallet\<close>.
\<close>

definition light_key_lookup ::
  "env \<Rightarrow> settings \<Rightarrow> key_type option \<Rightarrow> string \<Rightarrow> int \<Rightarrow> (http, base_wallet_type_info) py" where
  "light_key_lookup ev cfg expected key cache_time =
     bindP (gets (\<lambda>h. get_base_wallet_for_key key (fst h))) (\<lambda>found.
     case found of
       None \<Rightarrow> throw (HTTPException 404 ''Wallet not found.'')
     | Some w \<Rightarrow>
         thenP (request_access cfg (w_user w))
         (bindP (liftE (extract_key_type expected key w)) (\<lambda>kt.
          thenP (if cache_time > 0
                 then thenP (on_db (set_cached ev (auth_api_key key) (CKeyInfo kt w) cache_time))
                      (on_db (set_cached ev (auth_wallet_key (w_id w)) (CBaseWallet w) cache_time))
                 else ret ())
          (ret \<lparr>bti_key_type = kt, bti_wallet = w\<rparr>))))"

definition light_key_checker ::
  "env \<Rightarrow> settings \<Rightarrow> string option \<Rightarrow> key_type option \<Rightarrow> (http, base_wallet_type_info) py" where
  "light_key_checker ev cfg api_key expected =
     bindP (gets snd) (\<lambda>rq.
     bindP (liftE (extract_key_value api_key rq)) (\<lambda>key.
     let cache_time = auth_authentication_cache_minutes cfg * 60 in
     bindP (if cache_time > 0 then on_db (get_cached ev (auth_api_key key)) else ret None) (\<lambda>hit.
     case hit of
       Some (CKeyInfo kt w) \<Rightarrow>
         thenP (request_access cfg (w_user w)) (ret \<lparr>bti_key_type = kt, bti_wallet = w\<rparr>)
     | Some _ \<Rightarrow> throw (OtherError ''AttributeError'')
     | None \<Rightarrow> light_key_lookup ev cfg expected key cache_time)))"

definition security_key :: "request \<Rightarrow> string option" where
  "security_key rq = orElse (rq_header_key rq) (rq_query_key rq)"

definition require_admin_key :: "env \<Rightarrow> settings \<Rightarrow> (http, wallet_type_info) py" where
  "require_admin_key ev cfg =
     bindP (gets snd) (\<lambda>rq. key_checker ev cfg (security_key rq) (Some AdminKey))"

definition require_base_admin_key :: "env \<Rightarrow> settings \<Rightarrow> (http, base_wallet_type_info) py" where
  "require_base_admin_key ev cfg =
     bindP (gets snd) (\<lambda>rq. light_key_checker ev cfg (security_key rq) (Some AdminKey))"

definition require_invoice_key :: "env \<Rightarrow> settings \<Rightarrow> (http, wallet_type_info) py" where
  "require_invoice_key ev cfg =
     bindP (gets snd) (\<lambda>rq. key_checker ev cfg (security_key rq) (Some InvoiceKey))"

definition require_base_invoice_key :: "env \<Rightarrow> settings \<Rightarrow> (http, base_wallet_type_info) py" where
  "require_base_invoice_key ev cfg =
     bindP (gets snd) (\<lambda>rq. light_key_checker ev cfg (security_key rq) (Some InvoiceKey))"

section \<open>Access tokens\<close>

record access_token_payload =
  at_sub :: string
  at_usr :: "string option"
  at_email :: "string option"
  at_auth_time :: "int option"
  at_api_token_id :: "string option"

text \<open>
  What \<open>jwt.decode\<close> with the server's key makes of a token: expired, refused for another reason, a
  payload, or one that the model of the payload does not accept (a validation error).
\<close>

datatype jwt_result = JwtExpired | JwtRefused | JwtMalformed | JwtPayload access_token_payload

type_synonym jwt = "string \<Rightarrow> jwt_result"

definition check_access_token :: "string option \<Rightarrow> string option \<Rightarrow> string option \<Rightarrow> string option" where
  "check_access_token header cookie bearer = orElse (orElse header cookie) bearer"

definition decode_access_token :: "jwt \<Rightarrow> string \<Rightarrow> exn + access_token_payload" where
  "decode_access_token jwt token =
     (case jwt token of
        JwtPayload p \<Rightarrow> Inr p
      | JwtExpired \<Rightarrow> Inl (HTTPException 401 ''Session expired.'')
      | JwtRefused \<Rightarrow> Inl (HTTPException 401 ''Invalid access token.'')
      | JwtMalformed \<Rightarrow> Inl (OtherError ''ValidationError''))"

definition check_account_api_access ::
  "env \<Rightarrow> string \<Rightarrow> string \<Rightarrow> string \<Rightarrow> string \<Rightarrow> world \<Rightarrow> exn + endpoint_access" where
  "check_account_api_access ev user_id token_id path method db =
     (if length (split_on CHR ''/'' path) < 3 then Inl (HTTPException 403 ''Not an API endpoint.'')
      else case get_acl_by_token_id (get_user_access_control_lists ev user_id True db) token_id of
        None \<Rightarrow> Inl (HTTPException 403 ''Invalid token id.'')
      | Some acl \<Rightarrow>
          (case get_endpoint acl (''/'' @ join ''/'' (take 3 (path_segments path))) of
             None \<Rightarrow> Inl (HTTPException 403 ''Path not allowed.'')
           | Some e \<Rightarrow>
               if \<not> supports_method e method then Inl (HTTPException 403 ''Method not allowed.'')
               else Inr e))"

text \<open>A read of the database that may raise.\<close>

definition asks :: "(world \<Rightarrow> exn + 'a) \<Rightarrow> (http, 'a) py" where
  "asks f h = (f (fst h), h)"

definition account_of_payload :: "access_token_payload \<Rightarrow> world \<Rightarrow> account option" where
  "account_of_payload p db =
     (if at_sub p \<noteq> [] then get_account_by_username (at_sub p) True db
      else if truthy (at_usr p) then get_account (the (at_usr p)) True db
      else if truthy (at_email p) then get_account_by_email (the (at_email p)) True db
      else None)"

definition get_account_from_jwt_payload ::
  "env \<Rightarrow> access_token_payload \<Rightarrow> string \<Rightarrow> string \<Rightarrow> world \<Rightarrow> exn + account option" where
  "get_account_from_jwt_payload ev p path method db =
     (case account_of_payload p db of
        None \<Rightarrow> Inr None
      | Some a \<Rightarrow>
          if truthy (at_api_token_id p)
          then (case check_account_api_access ev (a_id a) (the (at_api_token_id p)) path method db of
                  Inl e \<Rightarrow> Inl e
                | Inr _ \<Rightarrow> Inr (Some a))
          else Inr (Some a))"

definition get_account_from_token ::
  "env \<Rightarrow> jwt \<Rightarrow> string \<Rightarrow> string \<Rightarrow> string \<Rightarrow> world \<Rightarrow> exn + account option" where
  "get_account_from_token ev jwt token path method db =
     (case decode_access_token jwt token of
        Inl e \<Rightarrow> Inl e
      | Inr p \<Rightarrow> get_account_from_jwt_payload ev p path method db)"

section \<open>Accounts\<close>

definition find_account ::
  "env \<Rightarrow> settings \<Rightarrow> jwt \<Rightarrow> string option \<Rightarrow> string option \<Rightarrow> request \<Rightarrow> world \<Rightarrow> exn + account" where
  "find_account ev cfg jwt token usr rq db =
     (if truthy token
      then (case get_account_from_token ev jwt (the token) (rq_path rq) (rq_method rq) db of
              Inl e \<Rightarrow> Inl e
            | Inr None \<Rightarrow> Inl (HTTPException 401 ''User not found.'')
            | Inr (Some a) \<Rightarrow> Inr a)
      else if usr \<noteq> None \<and> is_auth_method_allowed cfg user_id_only
      then (case get_account (the usr) True db of
              None \<Rightarrow> Inl (HTTPException 401 ''User not found.'')
            | Some a \<Rightarrow>
                if account_is_admin cfg a
                then Inl (HTTPException 403 ''User id only access for admins is forbidden.'')
                else Inr a)
      else Inl (HTTPException 401 ''Missing user ID or access token.''))"

definition check_account_exists ::
  "env \<Rightarrow> settings \<Rightarrow> jwt \<Rightarrow> string option \<Rightarrow> string option \<Rightarrow> (http, account) py" where
  "check_account_exists ev cfg jwt token usr =
     bindP (gets snd) (\<lambda>rq.
     bindP (asks (find_account ev cfg jwt token usr rq)) (\<lambda>a.
     thenP (request_access cfg (a_id a)) (ret a)))"

definition account_cache_key :: "env \<Rightarrow> string option \<Rightarrow> string option \<Rightarrow> string option" where
  "account_cache_key ev token usr =
     (if truthy token then Some (''auth:access_token:'' @ e_sha256s ev (the token))
      else if usr \<noteq> None then Some (''auth:user_id:'' @ e_sha256s ev (the usr))
      else None)"

text \<open>The check of a cached account: only a token bound to an access control list is looked up again.\<close>

definition check_cached_account ::
  "env \<Rightarrow> jwt \<Rightarrow> string option \<Rightarrow> string \<Rightarrow> (http, unit) py" where
  "check_cached_account ev jwt token uid =
     (if truthy token
      then bindP (liftE (decode_access_token jwt (the token))) (\<lambda>p.
           if truthy (at_api_token_id p)
           then bindP (gets snd) (\<lambda>rq. bindP (asks (check_account_api_access ev uid (the (at_api_token_id p))
                  (rq_path rq) (rq_method rq))) (\<lambda>_. ret ()))
           else ret ())
      else ret ())"

definition check_account_id_exists ::
  "env \<Rightarrow> settings \<Rightarrow> jwt \<Rightarrow> string option \<Rightarrow> string option \<Rightarrow> (http, string) py" where
  "check_account_id_exists ev cfg jwt token usr =
     (let cache_key = account_cache_key ev token usr;
          minutes = auth_authentication_cache_minutes cfg;
          cached = (cache_key \<noteq> None \<and> minutes > 0)
      in bindP (if cached then on_db (get_cached ev (the cache_key)) else ret None) (\<lambda>hit.
         case hit of
           Some (CAccountId uid) \<Rightarrow>
             thenP (check_cached_account ev jwt token uid) (thenP (request_access cfg uid) (ret uid))
         | Some _ \<Rightarrow> throw (OtherError ''AttributeError'')
         | None \<Rightarrow>
             bindP (check_account_exists ev cfg jwt token usr) (\<lambda>a.
             thenP (if cached
                    then thenP (on_db (set_cached ev (the cache_key) (CAccountId (a_id a)) (minutes * 60)))
                         (on_db (set_cached ev (''auth:user:cache_key:'' @ e_sha256s ev (a_id a))
                            (CKey (the cache_key)) 10))
                    else ret ())
             (ret (a_id a)))))"

definition optional_user_id ::
  "env \<Rightarrow> settings \<Rightarrow> jwt \<Rightarrow> string option \<Rightarrow> string option \<Rightarrow> (http, string option) py" where
  "optional_user_id ev cfg jwt token usr =
     bindP (gets snd) (\<lambda>rq.
       if usr \<noteq> None \<and> is_auth_method_allowed cfg user_id_only then ret usr
       else if truthy token
       then bindP (asks (get_account_from_token ev jwt (the token) (rq_path rq) (rq_method rq))) (\<lambda>a.
              ret (map_option a_id a))
       else ret None)"

definition access_token_payload_of :: "jwt \<Rightarrow> string option \<Rightarrow> exn + access_token_payload" where
  "access_token_payload_of jwt token =
     (if \<not> truthy token then Inl (HTTPException 401 ''Missing access token.'')
      else case jwt (the token) of
        JwtPayload p \<Rightarrow> Inr p
      | JwtExpired \<Rightarrow> Inl (OtherError ''ExpiredSignatureError'')
      | JwtRefused \<Rightarrow> Inl (OtherError ''PyJWTError'')
      | JwtMalformed \<Rightarrow> Inl (OtherError ''ValidationError''))"

definition optional_acl_token_payload :: "jwt \<Rightarrow> string option \<Rightarrow> exn + access_token_payload option" where
  "optional_acl_token_payload jwt token =
     (if \<not> truthy token then Inr None
      else case decode_access_token jwt (the token) of
        Inl e \<Rightarrow> Inl e
      | Inr p \<Rightarrow> Inr (if truthy (at_api_token_id p) then Some p else None))"

definition check_api_write_access ::
  "env \<Rightarrow> string \<Rightarrow> access_token_payload option \<Rightarrow> (http, bool) py" where
  "check_api_write_access ev uid acl_token =
     (case acl_token of
        None \<Rightarrow> ret True
      | Some p \<Rightarrow>
          if \<not> truthy (at_api_token_id p) then ret True
          else bindP (gets snd) (\<lambda>rq.
               bindP (asks (check_account_api_access ev uid (the (at_api_token_id p)) (rq_path rq) (rq_method rq)))
                 (\<lambda>e. ret (ea_write e))))"

definition check_admin :: "settings \<Rightarrow> account \<Rightarrow> exn + account" where
  "check_admin cfg a =
     (if a_id a \<noteq> super_user cfg \<and> a_id a \<notin> set (lnbits_admin_users cfg)
      then Inl (HTTPException 403 ''User not authorized. No admin privileges.'')
      else if \<not> has_password a then Inl (HTTPException 403 ''Admin users must have credentials configured.'')
      else Inr a)"

definition check_super_user :: "settings \<Rightarrow> account \<Rightarrow> exn + account" where
  "check_super_user cfg a =
     (case check_admin cfg a of
        Inl e \<Rightarrow> Inl e
      | Inr a \<Rightarrow>
          if a_id a \<noteq> super_user cfg
          then Inl (HTTPException 403 ''User not authorized. No super user privileges.'')
          else if \<not> has_password a
          then Inl (HTTPException 403 ''Super user must have credentials configured.'')
          else Inr a)"

definition check_admin_ui :: "settings \<Rightarrow> exn + unit" where
  "check_admin_ui cfg =
     (if \<not> lnbits_admin_ui cfg then Inl (HTTPException 503 ''Admin UI is disabled.'') else Inr ())"

definition check_extension_builder :: "settings \<Rightarrow> bool \<Rightarrow> exn + unit" where
  "check_extension_builder cfg user_is_admin =
     (if \<not> lnbits_extensions_builder_activate_non_admins cfg \<and> \<not> user_is_admin
      then Inl (HTTPException 403 ''Extension Builder is disabled for non admin users.'') else Inr ())"

definition check_first_install :: "settings \<Rightarrow> exn + unit" where
  "check_first_install cfg =
     (if \<not> first_install cfg
      then Inl (HTTPException 400 ''Super user account has already been configured.'') else Inr ())"

definition check_blockexplorer_public :: "settings \<Rightarrow> exn + unit" where
  "check_blockexplorer_public cfg =
     (if \<not> lnbits_blockexplorer_enabled cfg \<or> \<not> lnbits_blockexplorer_public_api cfg
      then Inl (HTTPException 404 ''Public block explorer is disabled.'') else Inr ())"

end
