(* ===== verification/FiatService.thy ===== *)
theory FiatService
  imports AccessControl
begin

text \<open>
  \<open>lnbits/core/services/fiat_providers.py\<close>: settlement of invoices paid through a fiat provider
  (service fee and faucet bookings) and the checks of webhook signatures. Keyed hashes are parameters;
  \<open>hmac.compare_digest\<close> is equality of strings.
\<close>

section \<open>Bookings that follow a fiat payment\<close>

definition credit_fiat_service_fee_wallet :: "env \<Rightarrow> settings \<Rightarrow> payment \<Rightarrow> (world, unit) py" where
  "credit_fiat_service_fee_wallet ev cfg payment =
     (case p_fiat_provider payment of
        None \<Rightarrow> ret ()
      | Some name \<Rightarrow>
          if name = [] then ret ()
          else if p_fee payment = 0 then ret ()
          else (case get_fiat_provider_limits cfg name of
                  None \<Rightarrow> ret ()
                | Some limits \<Rightarrow>
                    if \<not> truthy (service_fee_wallet_id limits) then ret ()
                    else
                      bindP (create_payment ev cfg (''service_fee_'' @ p_payment_hash payment)
                         \<lparr>cp_wallet_id = the (service_fee_wallet_id limits),
                          cp_payment_hash = p_payment_hash payment, cp_bolt11 = p_bolt11 payment,
                          cp_amount_msat = \<bar>p_fee payment\<bar>,
                          cp_memo = ''Service fee for fiat payment of '' @ str_int \<bar>p_sat payment\<bar> @ '' sats. ''
                            @ ''Provider: '' @ name @ ''. '' @ ''Wallet: '' @ [CHR 0x27] @ p_wallet_id payment @ [CHR 0x27] @ ''.'',
                          cp_extra = [], cp_extension = None, cp_preimage = None, cp_expiry = None,
                          cp_webhook = None, cp_fee = 0, cp_labels = [], cp_external_id = None\<rparr> SUCCESS)
                      (\<lambda>_. ret ())))"

definition debit_fiat_service_faucet_wallet :: "env \<Rightarrow> settings \<Rightarrow> payment \<Rightarrow> (world, unit) py" where
  "debit_fiat_service_faucet_wallet ev cfg payment =
     (case p_fiat_provider payment of
        None \<Rightarrow> ret ()
      | Some name \<Rightarrow>
          if name = [] then ret ()
          else (case get_fiat_provider_limits cfg name of
                  None \<Rightarrow> ret ()
                | Some limits \<Rightarrow>
                    if \<not> truthy (service_faucet_wallet_id limits) then ret ()
                    else
                      bindP (get_wallet ev cfg (the (service_faucet_wallet_id limits)) (Some False)) (\<lambda>w.
                      thenP (failIf (w = None) (ValueError (''Fiat provider '' @ name @ '' faucet wallet not found.'')))
                      (bindP (create_payment ev cfg
                           (''internal_fiat_'' @ name @ ''_faucet_'' @ p_payment_hash payment)
                         \<lparr>cp_wallet_id = the (service_faucet_wallet_id limits),
                          cp_payment_hash = p_payment_hash payment, cp_bolt11 = p_bolt11 payment,
                          cp_amount_msat = - \<bar>p_amount payment\<bar>,
                          cp_memo = ''Faucet payment of '' @ str_int \<bar>p_sat payment\<bar> @ '' sats. ''
                            @ ''Provider: '' @ name @ ''. '' @ ''Wallet: '' @ [CHR 0x27] @ p_wallet_id payment @ [CHR 0x27] @ ''.'',
                          cp_extra = p_extra payment, cp_extension = None, cp_preimage = None,
                          cp_expiry = None, cp_webhook = None, cp_fee = 0, cp_labels = [],
                          cp_external_id = None\<rparr> SUCCESS)
                      (\<lambda>_. ret ())))))"

definition handle_fiat_payment_confirmation :: "env \<Rightarrow> settings \<Rightarrow> payment \<Rightarrow> (world, unit) py" where
  "handle_fiat_payment_confirmation ev cfg payment =
     thenP (tryP (credit_fiat_service_fee_wallet ev cfg payment) (\<lambda>e. ret ()))
           (tryP (debit_fiat_service_faucet_wallet ev cfg payment) (\<lambda>e. ret ()))"

text \<open>The members of \<open>FiatProviderType\<close>; \<open>get_fiat_provider\<close> rejects any other name.\<close>

definition fiat_provider_types :: "string list" where
  "fiat_provider_types = [''stripe'', ''paypal'', ''square'', ''revolut'']"

text \<open>
  \<open>check_fiat_status\<close> changes the payment object it is given; the model returns the object with the
  status. \<open>fiat_provider_status\<close> is the provider's answer for a checking id, \<open>None\<close> where no such
  provider is configured.
\<close>

definition check_fiat_status ::
  "env \<Rightarrow> settings \<Rightarrow> payment \<Rightarrow> (world, payment_status \<times> payment) py" where
  "check_fiat_status ev cfg payment =
     (if \<not> is_internal payment then ret (PaymentPendingStatus, payment)
      else if p_success payment then ret (PaymentSuccessStatus None None, payment)
      else if p_failed payment then ret (PaymentFailedStatus, payment)
      else if \<not> truthy (p_fiat_provider payment) then ret (PaymentPendingStatus, payment)
      else (case dget (p_extra payment) ''fiat_checking_id'' of
              Some (JStr checking_id) \<Rightarrow>
                if checking_id = [] then ret (PaymentPendingStatus, payment)
                else if the (p_fiat_provider payment) \<notin> set fiat_provider_types
                then throw (ValueError (''Fiat provider '' @ the (p_fiat_provider payment) @ '' is not supported.''))
                else (case fiat_provider_status ev (the (p_fiat_provider payment)) checking_id of
                        None \<Rightarrow> ret (PaymentPendingStatus, payment)
                      | Some fiat_status \<Rightarrow>
                          if ps_success fiat_status then
                            bindP (update_payment ev (payment\<lparr>p_status := SUCCESS\<rparr>) None) (\<lambda>payment'.
                            thenP (handle_fiat_payment_confirmation ev cfg payment')
                            (thenP (modify (\<lambda>db. db\<lparr>wd_internal_queue := wd_internal_queue db @ [payment']\<rparr>))
                            (ret (fiat_status, payment'))))
                          else ret (fiat_status, payment))
            | _ \<Rightarrow> ret (PaymentPendingStatus, payment)))"

section \<open>Webhook signatures\<close>

text \<open>\<open>dict(i.split("=") for i in header.split(","))\<close>.\<close>

fun header_items :: "string list \<Rightarrow> exn + (string \<times> string) list" where
  "header_items [] = Inr []"
| "header_items (i # is) =
     (case split_on CHR ''='' i of
        [k, v] \<Rightarrow> (case header_items is of Inl e \<Rightarrow> Inl e | Inr d \<Rightarrow> Inr ((k, v) # d))
      | _ \<Rightarrow> Inl (ValueError ''dictionary update sequence element has the wrong length''))"

text \<open>The dictionary keeps the last value of a key.\<close>

definition last_item :: "(string \<times> string) list \<Rightarrow> string \<Rightarrow> string option" where
  "last_item d k = map_of (rev d) k"

definition check_stripe_signature ::
  "(string \<Rightarrow> string \<Rightarrow> string) \<Rightarrow> rat \<Rightarrow> string \<Rightarrow> string option \<Rightarrow> string option \<Rightarrow> rat \<Rightarrow> exn + unit" where
  "check_stripe_signature hmac_hex now payload sig_header secret tolerance_seconds =
     (if \<not> truthy sig_header then Inl (ValueError ''Stripe-Signature header is missing.'')
      else if \<not> truthy secret then Inl (ValueError ''Stripe webhook cannot be verified.'')
      else (case header_items (split_on CHR '','' (the sig_header)) of
              Inl e \<Rightarrow> Inl e
            | Inr items \<Rightarrow>
                (case last_item items ''t'' of
                   None \<Rightarrow> Inl KeyError
                 | Some ts \<Rightarrow>
                     (case int_of_str ts of
                        None \<Rightarrow> Inl (ValueError ''invalid literal for int()'')
                      | Some timestamp \<Rightarrow>
                          (case last_item items ''v1'' of
                             None \<Rightarrow> Inl KeyError
                           | Some signature \<Rightarrow>
                               if \<bar>fsub now (of_int timestamp)\<bar> > tolerance_seconds
                               then Inl (ValueError ''Timestamp outside tolerance.'')
                               else if hmac_hex (the secret) (str_int timestamp @ ''.'' @ payload) \<noteq> signature
                               then Inl (ValueError ''Stripe signature verification failed.'')
                               else Inr ())))))"

definition check_square_signature ::
  "(string \<Rightarrow> string \<Rightarrow> string) \<Rightarrow> string \<Rightarrow> string option \<Rightarrow> string option \<Rightarrow> string option \<Rightarrow> exn + unit" where
  "check_square_signature hmac_b64 payload sig_header secret notification_url =
     (if \<not> truthy sig_header then Inl (ValueError ''Square signature header is missing.'')
      else if \<not> truthy secret then Inl (ValueError ''Square webhook cannot be verified.'')
      else if \<not> truthy notification_url then Inl (ValueError ''Square webhook cannot be verified.'')
      else if hmac_b64 (the secret) (the notification_url @ payload) \<noteq> the sig_header
      then Inl (ValueError ''Square signature verification failed.'')
      else Inr ())"

definition check_revolut_signature ::
  "(string \<Rightarrow> string \<Rightarrow> string) \<Rightarrow> rat \<Rightarrow> string \<Rightarrow> string option \<Rightarrow> string option \<Rightarrow> string option \<Rightarrow> rat
   \<Rightarrow> exn + unit" where
  "check_revolut_signature hmac_hex now payload sig_header timestamp_header secret tolerance_seconds =
     (if \<not> truthy sig_header then Inl (ValueError ''Revolut signature header is missing.'')
      else if \<not> truthy timestamp_header then Inl (ValueError ''Revolut timestamp header is missing.'')
      else if \<not> truthy secret then Inl (ValueError ''Revolut webhook cannot be verified.'')
      else (case int_of_str (the timestamp_header) of
              None \<Rightarrow> Inl (ValueError ''Invalid Revolut timestamp.'')
            | Some timestamp \<Rightarrow>
                let timestamp_seconds =
                      (if timestamp > 9999999999 then idiv_float timestamp 1000 else of_int timestamp)
                in if \<bar>fsub now timestamp_seconds\<bar> > tolerance_seconds
                   then Inl (ValueError ''Timestamp outside tolerance.'')
                   else
                     let expected = ''v1='' @ hmac_hex (the secret) (''v1.'' @ the timestamp_header @ ''.'' @ payload);
                         provided = filter (\<lambda>s. s \<noteq> []) (map strip (split_on CHR '','' (the sig_header)))
                     in if \<not> list_ex (\<lambda>s. expected = s) provided
                        then Inl (ValueError ''Revolut signature verification failed.'')
                        else Inr ()))"

text \<open>\<open>test_connection\<close>: \<open>provider_status\<close> is the provider's answer, an error message or a balance.\<close>

definition test_connection :: "(string \<Rightarrow> (string option \<times> string) option) \<Rightarrow> string \<Rightarrow> simple_status" where
  "test_connection provider_status provider =
     (case provider_status provider of
        None \<Rightarrow> \<lparr>ss_success = False, ss_message = ''Fiat provider '' @ provider @ '' not found.''\<rparr>
      | Some (err, balance) \<Rightarrow>
          if truthy err
          then \<lparr>ss_success = False, ss_message = ''Cconnection test failed: '' @ the err\<rparr>
          else \<lparr>ss_success = True, ss_message = ''Connection test successful. Balance: '' @ balance @ ''.''\<rparr>)"

end
