(* ===== verification/PaymentFees.thy ===== *)
theory PaymentFees
  imports PaymentTables FiatService
begin

text \<open>
  \<open>lnbits/utils/exchange_rates.py\<close>: the filter that removes outliers from the prices the providers
  answer, the price it leads to, and the conversions between satoshis and a currency. What the HTTP
  requests to the providers return is a parameter.
\<close>

section \<open>The trimmed mean\<close>

type_synonym rate = "string \<times> rat"

text \<open>\<open>statistics.median\<close> on a list that is not empty.\<close>

definition median :: "rat list \<Rightarrow> rat" where
  "median xs =
     (let s = sort xs; n = length xs
      in if odd n then s ! (n div 2) else fdiv (fadd (s ! (n div 2 - 1)) (s ! (n div 2))) 2)"

definition deviation :: "rat \<Rightarrow> rat \<Rightarrow> rat" where
  "deviation m v = fdiv \<bar>fsub v m\<bar> m"

text \<open>\<open>min(rates, key=...)\<close>: the first of the elements with the smallest key.\<close>

fun min_by :: "('a \<Rightarrow> rat) \<Rightarrow> 'a \<Rightarrow> 'a list \<Rightarrow> 'a" where
  "min_by f best [] = best"
| "min_by f best (x # xs) = min_by f (if f x < f best then x else best) xs"

definition keep_or_closest :: "rat \<Rightarrow> rat \<Rightarrow> rate list \<Rightarrow> rate list" where
  "keep_or_closest m threshold rates =
     (let kept = filter (\<lambda>r. deviation m (snd r) \<le> threshold) rates
      in if length kept \<ge> 2 then kept
         else [min_by (\<lambda>r. \<bar>fsub (snd r) m\<bar>) (hd rates) (tl rates)])"

definition apply_trimmed_mean_filter :: "rate list \<Rightarrow> rat \<Rightarrow> exn + rate list" where
  "apply_trimmed_mean_filter rates threshold =
     (if length rates < 3 then Inr rates
      else
        let m = median (map snd rates)
        in if m = 0 then Inl ZeroDivisionError
           else Inr (keep_or_closest m threshold rates))"

text \<open>\<open>threshold_percentage: float = 0.01\<close>.\<close>

definition default_threshold :: rat where
  "default_threshold = fl (1 / 100)"

section \<open>The price\<close>

text \<open>
  \<open>btc_price\<close>: \<open>aggregator\<close> is the aggregator's answer where it is enabled, \<open>results\<close> the answers
  of the providers (\<open>None\<close> where the request failed), in the order of the settings. The sum adds
  from the left, as Python does before version 3.12.
\<close>

definition btc_rates :: "string list \<Rightarrow> rate option list \<Rightarrow> string \<Rightarrow> exn + rate list" where
  "btc_rates allowed results currency =
     (if upper currency \<notin> set allowed
      then Inl (ValueError (''Currency '' @ [CHR 0x27] @ currency @ [CHR 0x27] @ '' not allowed.''))
      else apply_trimmed_mean_filter (map the (filter (\<lambda>r. r \<noteq> None) results)) default_threshold)"

definition mean_price :: "rate list \<Rightarrow> rat" where
  "mean_price rates = fdiv (foldl fadd 0 (map snd rates)) (of_nat (length rates))"

definition btc_price :: "rat option \<Rightarrow> string list \<Rightarrow> rate option list \<Rightarrow> string \<Rightarrow> exn + rat" where
  "btc_price aggregator allowed results currency =
     (case aggregator of
        Some price \<Rightarrow> if price \<noteq> 0 then Inr price
          else (case btc_rates allowed results currency of
                  Inl e \<Rightarrow> Inl e
                | Inr rates \<Rightarrow> Inr (if rates = [] then 0 else mean_price rates))
      | None \<Rightarrow>
          (case btc_rates allowed results currency of
             Inl e \<Rightarrow> Inl e
           | Inr rates \<Rightarrow> Inr (if rates = [] then 0 else mean_price rates)))"

section \<open>Conversions\<close>

definition get_fiat_rate_satoshis :: "env \<Rightarrow> string \<Rightarrow> exn + rat" where
  "get_fiat_rate_satoshis ev currency =
     (case e_btc_price ev currency of
        Inl e \<Rightarrow> Inl e
      | Inr price \<Rightarrow> Inr (if price > 0 then fdiv 100000000 price else 0))"

definition fiat_amount_as_satoshis :: "env \<Rightarrow> rat \<Rightarrow> string \<Rightarrow> exn + int" where
  "fiat_amount_as_satoshis ev amount currency =
     (case get_fiat_rate_satoshis ev currency of
        Inl e \<Rightarrow> Inl e
      | Inr rate \<Rightarrow>
          if rate > 0 then Inr (py_trunc (fmul amount rate))
          else Inl (ValueError (''Could not get exchange rate for '' @ currency @ ''.'')))"

definition satoshis_amount_as_fiat :: "env \<Rightarrow> int \<Rightarrow> string \<Rightarrow> exn + rat" where
  "satoshis_amount_as_fiat ev amount currency =
     (case get_fiat_rate_satoshis ev currency of
        Inl e \<Rightarrow> Inl e
      | Inr rate \<Rightarrow>
          if rate > 0 then Inr (fdiv (to_float amount) rate)
          else Inl (ValueError (''Could not get exchange rate for '' @ currency @ ''.'')))"

section \<open>Laws\<close>

lemma min_by_member: "min_by f b xs \<in> insert b (set xs)"
proof (induction xs arbitrary: b)
  case (Cons x xs)
  show ?case using Cons.IH [of x] Cons.IH [of b] by auto
qed simp

lemma min_by_least:
  "f (min_by f b xs) \<le> f b \<and> (\<forall>x \<in> set xs. f (min_by f b xs) \<le> f x)"
proof (induction xs arbitrary: b)
  case (Cons x xs)
  let ?b = "if f x < f b then x else b"
  have "f (min_by f ?b xs) \<le> f ?b" "\<forall>y \<in> set xs. f (min_by f ?b xs) \<le> f y"
    using Cons.IH [of ?b] by blast+
  moreover have "f ?b \<le> f b" "f ?b \<le> f x" by auto
  ultimately show ?case by (auto simp del: if_split)
qed simp

lemma trimmed_cases:
  assumes "apply_trimmed_mean_filter rates t = Inr out"
  obtains (few) "length rates < 3" "out = rates"
  | (kept) "3 \<le> length rates" "2 \<le> length out"
      "out = filter (\<lambda>r. deviation (median (map snd rates)) (snd r) \<le> t) rates"
  | (closest) r where "3 \<le> length rates" "out = [r]" "r \<in> set rates"
      "\<forall>q \<in> set rates. \<bar>fsub (snd r) (median (map snd rates))\<bar> \<le> \<bar>fsub (snd q) (median (map snd rates))\<bar>"
proof (cases "length rates < 3")
  case True
  then have "out = rates" using assms by (simp add: apply_trimmed_mean_filter_def)
  with True show ?thesis by (rule few)
next
  case False
  let ?m = "median (map snd rates)"
  let ?kept = "filter (\<lambda>r. deviation ?m (snd r) \<le> t) rates"
  let ?f = "\<lambda>r. \<bar>fsub (snd r) ?m\<bar>"
  obtain r rs where r: "rates = r # rs" using False by (cases rates) auto
  have nz: "?m \<noteq> 0" using assms False by (cases "?m = 0") (simp_all add: apply_trimmed_mean_filter_def)
  have out: "out = (if length ?kept \<ge> 2 then ?kept else [min_by ?f (hd rates) (tl rates)])"
  proof -
    have "apply_trimmed_mean_filter rates t = Inr (keep_or_closest ?m t rates)"
      unfolding apply_trimmed_mean_filter_def Let_def using False nz by (simp only: if_False)
    then have "out = keep_or_closest ?m t rates" using assms by (simp only: sum.inject)
    then show ?thesis unfolding keep_or_closest_def Let_def .
  qed
  show ?thesis
  proof (cases "length ?kept \<ge> 2")
    case True
    with out have "out = ?kept" by simp
    with True False show ?thesis by (intro kept) simp_all
  next
    case few2: False
    with out have out1: "out = [min_by ?f r rs]" by (simp only: r list.sel if_False)
    have "min_by ?f r rs \<in> set rates" using min_by_member [of ?f r rs] r by simp
    moreover have "\<forall>q \<in> set rates. ?f (min_by ?f r rs) \<le> ?f q"
      using min_by_least [of ?f r rs] unfolding r by simp
    ultimately show ?thesis using False by (intro closest [OF _ out1]) simp_all
  qed
qed

lemma get_fiat_rate_nonneg:
  assumes "get_fiat_rate_satoshis ev c = Inr r" shows "0 \<le> r"
proof (cases "e_btc_price ev c")
  case (Inr p)
  then show ?thesis
    using assms fl_nonneg [of "100000000 / p"]
    by (auto simp: get_fiat_rate_satoshis_def fdiv_def split: if_splits)
qed (use assms in \<open>simp add: get_fiat_rate_satoshis_def\<close>)

lemma fiat_amount_nonneg:
  assumes "fiat_amount_as_satoshis ev a c = Inr n" and "0 \<le> a"
  shows "0 \<le> n"
proof -
  from assms(1) obtain r where "get_fiat_rate_satoshis ev c = Inr r" "0 < r" "n = py_trunc (fmul a r)"
    by (auto simp: fiat_amount_as_satoshis_def split: sum.splits if_splits)
  then show ?thesis using assms(2) by (simp add: fmul_def fl_nonneg py_trunc_nonneg)
qed

text \<open>
  The computations of \<open>lnbits/core/services/payments.py\<close> on which both directions of a payment rest:
  what is reserved for routing, what the service charges, what an amount is worth in the wallet's
  currency, and the limits a wallet is subject to.
\<close>

section \<open>Fees\<close>

definition fee_reserve :: "settings \<Rightarrow> int \<Rightarrow> bool \<Rightarrow> int" where
  "fee_reserve cfg amount_msat internal = settings_fee_reserve cfg \<bar>amount_msat\<bar> internal"

definition service_fee :: "settings \<Rightarrow> int \<Rightarrow> bool \<Rightarrow> int" where
  "service_fee cfg amount_msat internal =
     (let amount_msat = \<bar>amount_msat\<bar>;
          service_fee_percent = lnbits_service_fee cfg;
          fee_max = lnbits_service_fee_max cfg * 1000
      in if truthy (lnbits_service_fee_wallet cfg) then
           if internal \<and> lnbits_service_fee_ignore_internal cfg then 0
           else let fee_percentage = py_trunc (fmul (idiv_float amount_msat 100) service_fee_percent)
                in if fee_max > 0 \<and> fee_percentage > fee_max then fee_max else fee_percentage
         else 0)"

definition fee_reserve_total :: "settings \<Rightarrow> int \<Rightarrow> bool \<Rightarrow> int" where
  "fee_reserve_total cfg amount_msat internal =
     fee_reserve cfg amount_msat internal + service_fee cfg amount_msat internal"

definition service_fee_fiat :: "settings \<Rightarrow> int \<Rightarrow> string \<Rightarrow> int" where
  "service_fee_fiat cfg amount_msat fiat_provider_name =
     (case get_fiat_provider_limits cfg fiat_provider_name of
        None \<Rightarrow> 0
      | Some limits \<Rightarrow>
          let amount_msat = \<bar>amount_msat\<bar>;
              fee_max = service_max_fee_sats limits * 1000
          in if \<not> truthy (service_fee_wallet_id limits) then 0
             else let fee_percentage = py_trunc (fmul (idiv_float amount_msat 100) (service_fee_percent limits))
                  in if fee_max > 0 \<and> fee_percentage > fee_max then fee_max else fee_percentage)"

section \<open>Fiat amounts\<close>

text \<open>
  The two parts of \<open>calculate_fiat_amounts\<close>. The entries that the second part wrote before an
  exception stay in the dictionary, since it is changed in place and the exception is swallowed.
\<close>

definition requested_amount ::
  "env \<Rightarrow> rat \<Rightarrow> string option \<Rightarrow> string option \<Rightarrow> dict \<Rightarrow> exn + (int \<times> dict)" where
  "requested_amount ev amount wallet_currency currency d =
     (if truthy currency \<and> currency \<noteq> Some ''sat'' then
        (case fiat_amount_as_satoshis ev amount (the currency) of
           Inl e \<Rightarrow> Inl e
         | Inr amount_sat \<Rightarrow>
             if currency \<noteq> wallet_currency then
               if amount = 0 \<or> amount_sat = 0 then Inl ZeroDivisionError
               else Inr (amount_sat,
                 dset (dset (dset (dset d ''fiat_currency'' (JStr (the currency)))
                   ''fiat_amount'' (JFloat (py_round_digits amount 3)))
                   ''fiat_rate'' (JFloat (fdiv (to_float amount_sat) amount)))
                   ''btc_rate'' (JFloat (fmul (fdiv amount (to_float amount_sat)) 100000000)))
             else Inr (amount_sat, d))
      else Inr (py_trunc amount, d))"

definition wallet_amount ::
  "env \<Rightarrow> rat \<Rightarrow> int \<Rightarrow> string option \<Rightarrow> string option \<Rightarrow> dict \<Rightarrow> dict" where
  "wallet_amount ev amount amount_sat wallet_currency currency d =
     (if truthy wallet_currency then
        (case (if wallet_currency = currency then Inr amount
               else satoshis_amount_as_fiat ev amount_sat (the wallet_currency)) of
           Inl e \<Rightarrow> d
         | Inr fiat_amount \<Rightarrow>
             let d1 = dset (dset d ''wallet_fiat_currency'' (JStr (the wallet_currency)))
                        ''wallet_fiat_amount'' (JFloat (py_round_digits fiat_amount 3))
             in if fiat_amount = 0 then d1
                else let d2 = dset d1 ''wallet_fiat_rate'' (JFloat (fdiv (to_float amount_sat) fiat_amount))
                     in if amount_sat = 0 then d2
                        else dset d2 ''wallet_btc_rate''
                               (JFloat (fmul (fdiv fiat_amount (to_float amount_sat)) 100000000)))
      else d)"

definition calculate_fiat_amounts ::
  "env \<Rightarrow> settings \<Rightarrow> rat \<Rightarrow> wallet \<Rightarrow> string option \<Rightarrow> dict \<Rightarrow> exn + (int \<times> dict)" where
  "calculate_fiat_amounts ev cfg amount wallet currency extra =
     (let wallet_currency = orElse (w_currency wallet) (lnbits_default_accounting_currency cfg)
      in case requested_amount ev amount wallet_currency currency extra of
           Inl e \<Rightarrow> Inl e
         | Inr (amount_sat, d) \<Rightarrow>
             Inr (amount_sat, wallet_amount ev amount amount_sat wallet_currency currency d))"

section \<open>Limits\<close>

definition daystart_timestamp :: "env \<Rightarrow> int" where
  "daystart_timestamp ev = e_now ev - e_now ev mod 86400"

definition check_time_limit_between_transactions :: "env \<Rightarrow> settings \<Rightarrow> string \<Rightarrow> (world, unit) py" where
  "check_time_limit_between_transactions ev cfg wallet_id =
     (let limit = lnbits_wallet_limit_secs_between_trans cfg in
      if limit \<le> 0 then ret ()
      else bindP (get_payments ev cfg
             (default_query\<lparr>q_since := Some (e_now ev - limit), q_wallet_id := Some wallet_id\<rparr>)
             default_filters (Some 1) None) (\<lambda>payments.
           if length payments = 0 then ret ()
           else throw (PaymentError (''The time limit of '' @ str_int limit
                   @ '' seconds between payments has been reached.'') ''failed'')))"

definition check_wallet_daily_withdraw_limit ::
  "env \<Rightarrow> settings \<Rightarrow> string \<Rightarrow> int \<Rightarrow> (world, unit) py" where
  "check_wallet_daily_withdraw_limit ev cfg wallet_id amount_msat =
     (let limit = lnbits_wallet_limit_daily_max_withdraw cfg in
      if limit = 0 then ret ()
      else if limit < 0 then throw (ValueError ''It is not allowed to spend funds from this server.'')
      else bindP (get_payments ev cfg
             (default_query\<lparr>q_since := Some (daystart_timestamp ev), q_outgoing := True,
                             q_wallet_id := Some wallet_id\<rparr>) default_filters None None) (\<lambda>payments.
           if length payments = 0 then ret ()
           else let total = sum_list (map p_amount payments) - amount_msat
                in if limit * 1000 + total < 0
                   then throw (ValueError (''Daily withdrawal limit of '' @ str_int limit @ '' sats reached.''))
                   else ret ()))"

definition check_wallet_limits :: "env \<Rightarrow> settings \<Rightarrow> string \<Rightarrow> int \<Rightarrow> (world, unit) py" where
  "check_wallet_limits ev cfg wallet_id amount_msat =
     thenP (check_time_limit_between_transactions ev cfg wallet_id)
       (check_wallet_daily_withdraw_limit ev cfg wallet_id amount_msat)"

definition check_fiat_invoice_limits :: "env \<Rightarrow> settings \<Rightarrow> int \<Rightarrow> string \<Rightarrow> (world, unit) py" where
  "check_fiat_invoice_limits ev cfg amount_sat name =
     (case get_fiat_provider_limits cfg name of
        None \<Rightarrow> throw (ValueError (''Fiat provider '' @ name @ '' does not have limits configured.''))
      | Some limits \<Rightarrow>
          thenP (failIf (service_min_amount_sats limits \<noteq> 0 \<and> amount_sat < service_min_amount_sats limits)
                   (ValueError (''Minimum amount is '' @ str_int (service_min_amount_sats limits) @ '' sats.'')))
          (thenP (failIf (service_max_amount_sats limits \<noteq> 0 \<and> amount_sat > service_max_amount_sats limits)
                   (ValueError (''Maximum amount is '' @ str_int (service_max_amount_sats limits) @ '' sats.'')))
          (thenP (if service_max_fee_sats limits > 0 \<or> service_fee_percent limits > 0 then
                    thenP (failIf (\<not> truthy (service_fee_wallet_id limits))
                             (ValueError ''service fee wallet missing.''))
                    (bindP (get_wallet ev cfg (the (service_fee_wallet_id limits)) (Some False)) (\<lambda>w.
                       failIf (w = None) (ValueError ''service fee wallet not found.'')))
                  else ret ())
          (if truthy (service_faucet_wallet_id limits) then
             bindP (get_wallet ev cfg (the (service_faucet_wallet_id limits)) (Some False)) (\<lambda>found.
               case found of
                 None \<Rightarrow> throw (ValueError ''faucet wallet not found.'')
               | Some w \<Rightarrow> failIf (wallet_balance w < amount_sat)
                              (ValueError ''The amount exceeds the faucet wallet balance.''))
           else ret ()))))"

section \<open>Laws of the fees\<close>

lemma fmul_mono: "0 \<le> c \<Longrightarrow> x \<le> y \<Longrightarrow> fmul x c \<le> fmul y c"
  by (simp add: fmul_def fl_mono mult_right_mono)

lemma idiv_float_mono: "0 < c \<Longrightarrow> i \<le> j \<Longrightarrow> idiv_float i c \<le> idiv_float j c"
  by (simp add: idiv_float_def fl_mono divide_right_mono)

lemma percentage_mono:
  "0 \<le> c \<Longrightarrow> i \<le> j \<Longrightarrow> py_trunc (fmul (idiv_float i 100) c) \<le> py_trunc (fmul (idiv_float j 100) c)"
  by (intro py_trunc_mono fmul_mono idiv_float_mono) auto

lemma percentage_nonneg:
  "0 \<le> c \<Longrightarrow> 0 \<le> i \<Longrightarrow> 0 \<le> py_trunc (fmul (idiv_float i 100) c)"
  by (intro py_trunc_nonneg) (simp add: fmul_def idiv_float_def fl_nonneg)

lemma service_fee_nonneg:
  "0 \<le> lnbits_service_fee cfg \<Longrightarrow> 0 \<le> service_fee cfg a i"
  using percentage_nonneg [of "lnbits_service_fee cfg" "\<bar>a\<bar>"]
  by (simp add: service_fee_def Let_def)

lemma settings_fee_reserve_ge_min:
  "lnbits_reserve_fee_min cfg \<le> settings_fee_reserve cfg a False"
  by (simp add: settings_fee_reserve_def)

lemma fee_reserve_nonneg: "0 \<le> lnbits_reserve_fee_min cfg \<Longrightarrow> 0 \<le> fee_reserve cfg a i"
  using settings_fee_reserve_ge_min [of cfg "\<bar>a\<bar>"]
  by (cases i) (simp_all add: fee_reserve_def settings_fee_reserve_def)

lemma fee_reserve_internal [simp]: "fee_reserve cfg a True = 0"
  by (simp add: fee_reserve_def settings_fee_reserve_def)

lemma fee_reserve_minus [simp]: "fee_reserve cfg (- a) i = fee_reserve cfg a i"
  by (simp add: fee_reserve_def)

lemma service_fee_minus [simp]: "service_fee cfg (- a) i = service_fee cfg a i"
  by (simp add: service_fee_def)

lemma fee_reserve_total_minus [simp]: "fee_reserve_total cfg (- a) i = fee_reserve_total cfg a i"
  by (simp add: fee_reserve_total_def)

section \<open>The checks leave the books as they are\<close>

lemma reads_get_payments_paginated [reads_intro]: "reads (get_payments_paginated ev cfg q f)"
  by (simp add: get_payments_paginated_def reads_intro)

lemma reads_get_payments [reads_intro]: "reads (get_payments ev cfg q f l off)"
  by (simp add: get_payments_def Let_def reads_intro)

lemma reads_check_limits [reads_intro]: "reads (check_wallet_limits ev cfg wid a)"
  by (simp add: check_wallet_limits_def check_time_limit_between_transactions_def
      check_wallet_daily_withdraw_limit_def Let_def reads_intro)

lemma reads_check_fiat_limits [reads_intro]: "reads (check_fiat_invoice_limits ev cfg a n)"
  by (simp add: check_fiat_invoice_limits_def reads_intro)

end
