(* ===== verification/PayService.thy ===== *)
theory PayService
  imports PaymentFees
begin

text \<open>
  Paying an invoice: \<open>pay_invoice\<close> of \<open>lnbits/core/services/payments.py\<close> and everything it calls.
  The part under the wallet lock, \<open>_pay_invoice\<close>, runs as one action: the lock keeps the payments of
  a wallet apart. A payment object that the code changes in place and keeps using is returned
  changed.
\<close>

section \<open>The status of a payment\<close>

definition check_payment_status ::
  "env \<Rightarrow> settings \<Rightarrow> payment \<Rightarrow> (world, payment_status \<times> payment) py" where
  "check_payment_status ev cfg payment =
     (if is_internal payment then
        if p_success payment then ret (PaymentSuccessStatus (Some (p_fee payment)) (p_preimage payment), payment)
        else if p_failed payment then ret (PaymentFailedStatus, payment)
        else if is_in payment \<and> truthy (p_fiat_provider payment) then
          bindP (check_fiat_status ev cfg payment) (\<lambda>(fiat_status, payment').
            ret (\<lparr>paid = paid fiat_status, ps_fee_msat = None, ps_preimage = None\<rparr>, payment'))
        else ret (PaymentPendingStatus, payment)
      else if is_out payment
      then bindP (liftE (fs_payment_status ev (p_checking_id payment))) (\<lambda>st. ret (st, payment))
      else bindP (liftE (fs_invoice_status ev (p_checking_id payment))) (\<lambda>st. ret (st, payment)))"

text \<open>What \<open>update_payment_success_status\<close> stores before it writes the row.\<close>

definition success_row :: "settings \<Rightarrow> payment \<Rightarrow> payment_status \<Rightarrow> payment" where
  "success_row cfg payment status =
     payment\<lparr>p_status := SUCCESS,
             p_fee := - (\<bar>case ps_fee_msat status of None \<Rightarrow> 0 | Some f \<Rightarrow> f\<bar>
                         + \<bar>service_fee cfg (p_amount payment) False\<bar>),
             p_preimage := orElse (p_preimage payment) (ps_preimage status)\<rparr>"

definition update_payment_success_status ::
  "env \<Rightarrow> settings \<Rightarrow> payment \<Rightarrow> payment_status \<Rightarrow> string option \<Rightarrow> (world, payment) py" where
  "update_payment_success_status ev cfg payment status new_checking_id =
     (if ps_success status then update_payment ev (success_row cfg payment status) new_checking_id
      else ret payment)"

section \<open>Checks before a payment\<close>

definition validate_payment_request ::
  "env \<Rightarrow> settings \<Rightarrow> string \<Rightarrow> int option \<Rightarrow> exn + decoded_invoice" where
  "validate_payment_request ev cfg payment_request max_sat =
     (case e_decode ev payment_request of
        None \<Rightarrow> Inl (PaymentError ''Bolt11 decoding failed.'' ''failed'')
      | Some invoice \<Rightarrow>
          (case di_amount_msat invoice of
             None \<Rightarrow> Inl (PaymentError ''Amountless invoices not supported.'' ''failed'')
           | Some amount \<Rightarrow>
               if \<not> amount > 0 then Inl (PaymentError ''Amountless invoices not supported.'' ''failed'')
               else
                 let limit = lnbits_max_outgoing_payment_amount_sats cfg;
                     max_sat = min (the (or_int max_sat (Some limit))) limit
                 in if amount > max_sat * 1000
                    then Inl (PaymentError (''Invoice amount '' @ str_int (amount div 1000)
                           @ '' sats is too high. Max allowed: '' @ str_int max_sat @ '' sats.'') ''failed'')
                    else Inr invoice))"

definition check_wallet_for_payment ::
  "env \<Rightarrow> settings \<Rightarrow> string \<Rightarrow> string \<Rightarrow> int \<Rightarrow> (world, wallet) py" where
  "check_wallet_for_payment ev cfg wallet_id tag amount_msat =
     bindP (get_wallet ev cfg wallet_id (Some False)) (\<lambda>found.
       case found of
         None \<Rightarrow> throw (PaymentError (''Could not fetch wallet '' @ [CHR 0x27] @ wallet_id @ [CHR 0x27] @ ''.'') ''failed'')
       | Some w \<Rightarrow>
           bindP (gets (check_user_extension_access cfg (w_user w) tag)) (\<lambda>status.
           thenP (failIf (\<not> ss_success status) (PaymentError (ss_message status) ''pending''))
           (thenP (check_wallet_limits ev cfg wallet_id amount_msat) (ret w))))"

section \<open>Notifications\<close>

definition send_payment_notification_bg ::
  "env \<Rightarrow> settings \<Rightarrow> string \<Rightarrow> payment \<Rightarrow> (world, unit) py" where
  "send_payment_notification_bg ev cfg wallet_id payment =
     bindP (get_wallet ev cfg wallet_id (Some False)) (\<lambda>found.
       case found of
         None \<Rightarrow> throw (PaymentError (''Could not fetch wallet '' @ [CHR 0x27] @ wallet_id @ [CHR 0x27] @ ''.'') ''failed'')
       | Some w \<Rightarrow> modify (\<lambda>db. db\<lparr>wd_notified := wd_notified db @ [(w_id w, payment)]\<rparr>))"

section \<open>Internal payments\<close>

definition pay_internal_invoice ::
  "env \<Rightarrow> settings \<Rightarrow> wallet \<Rightarrow> create_payment_data \<Rightarrow> (world, payment option) py" where
  "pay_internal_invoice ev cfg wallet model =
     bindP (gets (check_internal (cp_payment_hash model))) (\<lambda>found.
     case found of
       None \<Rightarrow> ret None
     | Some internal_payment \<Rightarrow>
         bindP (get_standalone_payment ev cfg (p_checking_id internal_payment) True None) (\<lambda>found2.
         case found2 of
           None \<Rightarrow> throw (PaymentError ''Internal payment not found.'' ''failed'')
         | Some internal_invoice \<Rightarrow>
             let amount_msat = cp_amount_msat model;
                 fee_total = fee_reserve_total cfg amount_msat True
             in
             thenP (failIf (p_amount internal_invoice \<noteq> \<bar>amount_msat\<bar>
                            \<or> p_bolt11 internal_invoice \<noteq> lower (cp_bolt11 model))
                      (PaymentError ''Invalid invoice. Bolt11 changed.'' ''failed''))
             (thenP (failIf (w_balance_msat wallet < \<bar>amount_msat\<bar> + fee_total)
                      (PaymentError ''Insufficient balance.'' ''failed''))
             (bindP (create_payment ev cfg (''internal_'' @ cp_payment_hash model)
                       (model\<lparr>cp_fee := \<bar>fee_total\<bar>, cp_preimage := p_preimage internal_invoice\<rparr>) SUCCESS)
              (\<lambda>payment.
              bindP (update_payment ev (internal_payment\<lparr>p_status := SUCCESS\<rparr>) None) (\<lambda>internal_payment'.
              thenP (send_payment_notification_bg ev cfg (w_id wallet) payment)
              (thenP (modify (\<lambda>db. db\<lparr>wd_internal_queue := wd_internal_queue db @ [internal_payment']\<rparr>))
              (ret (Some payment)))))))))"

section \<open>External payments\<close>

definition verify_external_payment :: "env \<Rightarrow> settings \<Rightarrow> payment \<Rightarrow> (world, payment) py" where
  "verify_external_payment ev cfg payment =
     thenP (failIf (p_pending payment) (PaymentError ''Payment is still pending.'' ''pending''))
     (thenP (failIf (p_success payment) (PaymentError ''Payment already paid.'' ''success''))
     (bindP (check_payment_status ev cfg payment) (\<lambda>(status, payment').
        if ps_failed status
        then throw (PaymentError ''Payment is failed node, retrying is not possible.'' ''failed'')
        else if ps_success status then
          bindP (update_payment_success_status ev cfg payment' status None) (\<lambda>_.
            throw (PaymentError ''Failed payment was already paid on the fundingsource.'' ''success''))
        else ret payment')))"

definition response_status :: "payment_response \<Rightarrow> payment_status" where
  "response_status r = \<lparr>paid = pr_ok r, ps_fee_msat = pr_fee_msat r, ps_preimage = pr_preimage r\<rparr>"

text \<open>
  What the code does with the answer of the funding source. \<open>PayTimeout\<close> is the branch of
  \<open>asyncio.TimeoutError\<close>; an exception of the backend is not caught.
\<close>

definition handle_pay_outcome ::
  "env \<Rightarrow> settings \<Rightarrow> wallet \<Rightarrow> payment \<Rightarrow> pay_outcome \<Rightarrow> (world, payment) py" where
  "handle_pay_outcome ev cfg wallet payment outcome =
     (case outcome of
        PayTimeout \<Rightarrow> ret payment
      | PayRaised e \<Rightarrow> throw e
      | PayResponse r \<Rightarrow>
          if pr_failed r then
            bindP (update_payment ev (payment\<lparr>p_status := FAILED\<rparr>) None) (\<lambda>_.
              throw (PaymentError (''Payment failed: ''
                @ the (orElse (pr_error_message r) (Some ''without an error message.''))) ''failed''))
          else if pr_success r then
            bindP (update_payment_success_status ev cfg payment (response_status r) (pr_checking_id r)) (\<lambda>payment'.
            thenP (send_payment_notification_bg ev cfg (w_id wallet) payment') (ret payment'))
          else if truthy (pr_checking_id r) \<and> pr_checking_id r \<noteq> Some (p_checking_id payment)
          then update_payment ev payment (pr_checking_id r)
          else ret payment)"

text \<open>\<open>_fundingsource_pay_invoice\<close>: the request to the backend, recorded in \<open>wd_sent\<close>.\<close>

definition fundingsource_pay_invoice :: "env \<Rightarrow> string \<Rightarrow> int \<Rightarrow> (world, pay_outcome) py" where
  "fundingsource_pay_invoice ev bolt fee_reserve_msat =
     thenP (modify (\<lambda>db. db\<lparr>wd_sent := wd_sent db @ [(bolt, fee_reserve_msat)]\<rparr>))
       (ret (fs_pay ev bolt fee_reserve_msat))"

definition pay_external_invoice ::
  "env \<Rightarrow> settings \<Rightarrow> wallet \<Rightarrow> create_payment_data \<Rightarrow> (world, payment) py" where
  "pay_external_invoice ev cfg wallet model =
     (let checking_id = cp_payment_hash model;
          amount_msat = cp_amount_msat model;
          fee_total = fee_reserve_total cfg amount_msat False
      in
      thenP (failIf (w_balance_msat wallet < \<bar>amount_msat\<bar>) (PaymentError ''Insufficient balance.'' ''failed''))
      (thenP (failIf (w_balance_msat wallet < \<bar>amount_msat\<bar> + fee_total)
               (PaymentError (''You must reserve at least (''
                  @ str_int (py_round (idiv_float fee_total 1000))
                  @ ''  sat) to cover potential routing fees.'') ''failed''))
      (bindP (get_standalone_payment ev cfg checking_id False None) (\<lambda>old_payment.
       case old_payment of
         Some old \<Rightarrow> verify_external_payment ev cfg old
       | None \<Rightarrow>
           bindP (create_payment ev cfg checking_id (model\<lparr>cp_fee := - \<bar>fee_total\<bar>\<rparr>) PENDING) (\<lambda>payment.
           bindP (fundingsource_pay_invoice ev (p_bolt11 payment) (fee_reserve cfg amount_msat False))
             (handle_pay_outcome ev cfg wallet payment))))))"

section \<open>The whole operation\<close>

definition pay_invoice_locked :: "env \<Rightarrow> settings \<Rightarrow> string \<Rightarrow> create_payment_data \<Rightarrow> (world, payment) py" where
  "pay_invoice_locked ev cfg wallet_id model =
     bindP (get_wallet ev cfg wallet_id (Some False)) (\<lambda>found.
       case found of
         None \<Rightarrow> throw (PaymentError (''Could not fetch wallet '' @ [CHR 0x27] @ wallet_id @ [CHR 0x27] @ ''.'') ''failed'')
       | Some wallet \<Rightarrow>
           bindP (pay_internal_invoice ev cfg wallet model) (\<lambda>payment.
             case payment of
               Some p \<Rightarrow> ret p
             | None \<Rightarrow> pay_external_invoice ev cfg wallet model))"

definition credit_service_fee_wallet :: "env \<Rightarrow> settings \<Rightarrow> wallet \<Rightarrow> payment \<Rightarrow> (world, unit) py" where
  "credit_service_fee_wallet ev cfg wallet payment =
     (let fee = service_fee cfg (p_amount payment) (is_internal payment)
      in if \<not> truthy (lnbits_service_fee_wallet cfg) \<or> fee = 0 then ret ()
         else bindP (create_payment ev cfg (''service_fee_'' @ p_payment_hash payment)
                \<lparr>cp_wallet_id = the (lnbits_service_fee_wallet cfg),
                 cp_payment_hash = p_payment_hash payment, cp_bolt11 = p_bolt11 payment,
                 cp_amount_msat = \<bar>fee\<bar>,
                 cp_memo = newline # ''        Service fee for payment of '' @ str_int \<bar>p_sat payment\<bar>
                   @ '' sats.'' @ newline # ''        Wallet: '' @ [CHR 0x27] @ w_name wallet @ [CHR 0x27] @ '' (''
                   @ source_wallet_id wallet @ '').'',
                 cp_extra = [], cp_extension = None, cp_preimage = None, cp_expiry = None,
                 cp_webhook = None, cp_fee = 0, cp_labels = [], cp_external_id = None\<rparr> SUCCESS)
              (\<lambda>_. ret ()))"

definition pay_invoice ::
  "env \<Rightarrow> settings \<Rightarrow> string \<Rightarrow> string \<Rightarrow> int option \<Rightarrow> dict \<Rightarrow> string \<Rightarrow> string \<Rightarrow> string list
   \<Rightarrow> string option \<Rightarrow> (world, payment) py" where
  "pay_invoice ev cfg wallet_id payment_request max_sat extra description tag labels external_id =
     thenP (failIf (lnbits_only_allow_incoming_payments cfg)
              (PaymentError ''Only incoming payments allowed.'' ''failed''))
     (bindP (liftE (validate_payment_request ev cfg payment_request max_sat)) (\<lambda>invoice.
      thenP (failIf (di_amount_msat invoice = None \<or> di_amount_msat invoice = Some 0)
               (ValueError ''Missig invoice amount.''))
      (let amount_msat = the (di_amount_msat invoice) in
       bindP (check_wallet_for_payment ev cfg wallet_id tag amount_msat) (\<lambda>wallet.
       thenP (failIf (\<not> can_send_payments wallet)
                (PaymentError ''Wallet does not have permission to pay invoices.'' ''failed''))
       (bindP (gets (is_internal_status_success (di_payment_hash invoice))) (\<lambda>already_paid.
       thenP (failIf already_paid (PaymentError ''Internal invoice already paid.'' ''failed''))
       (bindP (liftE (calculate_fiat_amounts ev cfg (idiv_float amount_msat 1000) wallet None extra)) (\<lambda>(_, extra').
        bindP (liftE (validate_external_id external_id)) (\<lambda>_.
        let model =
              \<lparr>cp_wallet_id = source_wallet_id wallet, cp_payment_hash = di_payment_hash invoice,
               cp_bolt11 = payment_request, cp_amount_msat = - amount_msat,
               cp_memo = the (orElse (Some description) (orElse (di_description invoice) (Some []))),
               cp_extra = extra', cp_extension = None, cp_preimage = None,
               cp_expiry = di_expiry_date invoice, cp_webhook = None, cp_fee = 0,
               cp_labels = labels, cp_external_id = external_id\<rparr>
        in bindP (pay_invoice_locked ev cfg (source_wallet_id wallet) model) (\<lambda>payment.
           thenP (credit_service_fee_wallet ev cfg wallet payment) (ret payment)))))))))))"

end
