(* ===== verification/PaymentAccounting.thy ===== *)
theory PaymentAccounting
  imports Ledger PayService
begin

text \<open>
  The accounting of \<open>pay_invoice\<close>: in which states the two branches can end, what each does to the
  balances, that the reserve covers whatever the funding source charges, and that a payment that
  was handed to the funding source once is not handed over again.
\<close>

section \<open>The wallet that pays\<close>

definition lightning_id :: "world \<Rightarrow> string \<Rightarrow> bool" where
  "lightning_id db wid \<longleftrightarrow> (\<forall>v \<in> set (wd_wallets db). w_id v = wid \<longrightarrow> is_lightning_wallet v)"

lemma same_books_lightning_id:
  assumes "same_books db db'" shows "lightning_id db' wid = lightning_id db wid"
proof -
  have "set (map (\<lambda>w. (w_id w, w_wallet_type w)) (wd_wallets db')) =
        set (map (\<lambda>w. (w_id w, w_wallet_type w)) (wd_wallets db))"
    using same_books_map [OF assms, of "\<lambda>w. (w_id w, w_wallet_type w)"] by simp
  moreover have "lightning_id d wid \<longleftrightarrow>
      (\<forall>x \<in> set (map (\<lambda>w. (w_id w, w_wallet_type w)) (wd_wallets d)).
         fst x = wid \<longrightarrow> snd x = wallet_type_value LIGHTNING)" for d
    by (simp add: lightning_id_def is_lightning_wallet_def)
  ultimately show ?thesis by metis
qed

lemma get_wallet_lightning:
  assumes "get_wallet ev cfg wid (Some False) db = (Inr (Some w), db')"
    and "wf_wallets db" "lightning_id db wid"
  shows "source_wallet_id w = wid \<and> w_id w = wid \<and> w_balance_msat w = balance_of db wid
         \<and> 0 < live_rows db wid \<and> same_books db db'"
proof -
  have dist: "wallet_ids_distinct db" using assms(2) by (simp add: wf_wallets_def)
  from assms(1) obtain w1 db1 where
    g1: "get_standalone_wallet ev cfg wid (Some False) db = (Inr (Some w1), db1)"
    and g2: "(if is_lightning_shared_wallet w1 then get_source_wallet ev cfg w1 else ret (Some w1)) db1
              = (Inr (Some w), db')"
    by (auto simp: get_wallet_def bindP_Inr_iff ret_def split: option.splits)
  from standalone_cases [OF g1 dist] obtain v where
    v: "v \<in> set (wd_wallets db)" "wallet_core v = wallet_core w1" "w_id v = wid" by auto
  then have "is_lightning_wallet w1"
    using assms(3) unfolding lightning_id_def is_lightning_wallet_def by (metis wallet_core_sel(4))
  then have "\<not> is_lightning_shared_wallet w1"
    by (simp add: is_lightning_wallet_def is_lightning_shared_wallet_def)
  then have "w = w1" "\<not> is_lightning_shared_wallet w" using g2 by (auto simp: ret_def)
  then have "source_wallet_id w = w_id w" by (simp add: source_wallet_id_def)
  moreover have "same_books db db'"
    using readsD [OF reads_get_wallet [of ev cfg wid "Some False"] dist] assms(1) by simp
  ultimately show ?thesis using get_wallet_balance [OF assms(1,2)] by simp
qed

lemma reads_notify_books:
  assumes "send_payment_notification_bg ev cfg wid p db = (r, db')" "wallet_ids_distinct db"
  shows "wd_payments db' = wd_payments db" "live_rows db' x = live_rows db x"
    "wd_sent db' = wd_sent db" "r = Inr () \<or> (\<exists>e. r = Inl e)"
    "wallet_ids_distinct db' = wallet_ids_distinct db"
    "wd_internal_queue db' = wd_internal_queue db"
proof -
  obtain g db1 where g: "get_wallet ev cfg wid (Some False) db = (g, db1)" by fastforce
  have sb: "same_books db db1" using readsD [OF reads_get_wallet assms(2)] g by (metis snd_conv)
  have c: "db' = db1 \<or> (\<exists>n. db' = db1\<lparr>wd_notified := n\<rparr>)"
    using assms(1) g
    by (auto simp: send_payment_notification_bg_def bindP_def throw_def modify_def
        split: sum.splits option.splits)
  show "wd_payments db' = wd_payments db" "wd_sent db' = wd_sent db"
    "wd_internal_queue db' = wd_internal_queue db"
    using c same_books_sel [OF sb] by auto
  show "live_rows db' x = live_rows db x" using c same_books_live [OF sb] by (auto simp: live_rows_def)
  show "r = Inr () \<or> (\<exists>e. r = Inl e)" by (cases r) auto
  show "wallet_ids_distinct db' = wallet_ids_distinct db"
    using c same_books_ids [OF sb] by (auto simp: wallet_ids_distinct_def)
qed

section \<open>Internal payments\<close>

lemma check_internal_Some:
  "check_internal h db = Some p \<Longrightarrow>
   p \<in> set (wd_payments db) \<and> p_payment_hash p = h \<and> p_status p = PENDING \<and> p_amount p > 0"
  using find_SomeD [of _ "wd_payments db" p] by (auto simp: check_internal_def)

definition internal_row :: "env \<Rightarrow> settings \<Rightarrow> create_payment_data \<Rightarrow> string option \<Rightarrow> payment" where
  "internal_row ev cfg m pre =
     new_payment ev (''internal_'' @ cp_payment_hash m)
       (m\<lparr>cp_fee := \<bar>fee_reserve_total cfg (cp_amount_msat m) True\<bar>, cp_preimage := pre\<rparr>) SUCCESS"

lemma pay_internal_cases:
  assumes "pay_internal_invoice ev cfg w m db = (r, db')" and "wallet_ids_distinct db"
  obtains (not_internal) "r = Inr None" "db' = db" "check_internal (cp_payment_hash m) db = None"
  | (error) e where "r = Inl e" "same_books db db'"
  | (paid) ip inv where
      "check_internal (cp_payment_hash m) db = Some ip"
      "select_standalone (p_checking_id ip) True None db = Some inv"
      "p_amount inv = \<bar>cp_amount_msat m\<bar>"
      "\<bar>cp_amount_msat m\<bar> + fee_reserve_total cfg (cp_amount_msat m) True \<le> w_balance_msat w"
      "\<forall>q \<in> set (wd_payments db). p_checking_id q \<noteq> ''internal_'' @ cp_payment_hash m"
      "wd_payments db' = wd_payments (update_payment_row (ip\<lparr>p_status := SUCCESS, p_updated_at := e_now ev\<rparr>)
           (insert_payment_row (internal_row ev cfg m (p_preimage inv)) db))"
      "\<forall>x. live_rows db' x = live_rows db x" "wd_sent db' = wd_sent db \<and> wallet_ids_distinct db'"
      "r = Inr (Some (internal_row ev cfg m (p_preimage inv)))
         \<and> wd_internal_queue db' = wd_internal_queue db @ [ip\<lparr>p_status := SUCCESS, p_updated_at := e_now ev\<rparr>]
       \<or> (\<exists>e. r = Inl e)"
proof (cases "check_internal (cp_payment_hash m) db")
  case None
  then show ?thesis
    using assms not_internal by (auto simp: pay_internal_invoice_def bindP_def gets_def ret_def)
next
  case (Some ip)
  show ?thesis
  proof (cases "select_standalone (p_checking_id ip) True None db")
    case None
    then have "r = Inl (PaymentError ''Internal payment not found.'' ''failed'')" "db' = db"
      using assms(1) Some by (auto simp: pay_internal_invoice_def bindP_def gets_def throw_def)
    then show ?thesis using error by simp
  next
    case inv: (Some inv)
    let ?fee = "fee_reserve_total cfg (cp_amount_msat m) True"
    let ?bad = "p_amount inv \<noteq> \<bar>cp_amount_msat m\<bar> \<or> p_bolt11 inv \<noteq> lower (cp_bolt11 m)"
    let ?poor = "w_balance_msat w < \<bar>cp_amount_msat m\<bar> + ?fee"
    let ?p = "internal_row ev cfg m (p_preimage inv)"
    let ?ip = "ip\<lparr>p_status := SUCCESS, p_updated_at := e_now ev\<rparr>"
    let ?rest = "\<lambda>p. bindP (update_payment ev (ip\<lparr>p_status := SUCCESS\<rparr>) None) (\<lambda>ip'.
        thenP (send_payment_notification_bg ev cfg (w_id w) p)
        (thenP (modify (\<lambda>db. db\<lparr>wd_internal_queue := wd_internal_queue db @ [ip']\<rparr>)) (ret (Some p))))"
    let ?data = "m\<lparr>cp_fee := \<bar>?fee\<bar>, cp_preimage := p_preimage inv\<rparr>"
    have step: "pay_internal_invoice ev cfg w m db =
        (if ?bad then (Inl (PaymentError ''Invalid invoice. Bolt11 changed.'' ''failed''), db)
         else if ?poor then (Inl (PaymentError ''Insufficient balance.'' ''failed''), db)
         else bindP (create_payment ev cfg (''internal_'' @ cp_payment_hash m) ?data SUCCESS) ?rest db)"
      using Some inv by (simp add: pay_internal_invoice_def bindP_def [of "gets _"] gets_def
          bindP_def [of "get_standalone_payment _ _ _ _ _"] thenP_failIf Let_def)
    show ?thesis
    proof (cases "?bad \<or> ?poor")
      case True
      then have "\<exists>e. r = Inl e" "db' = db" using assms(1) step by (auto split: if_splits)
      then show ?thesis using error by auto
    next
      case ok: False
      then have run: "bindP (create_payment ev cfg (''internal_'' @ cp_payment_hash m) ?data SUCCESS) ?rest db
                      = (r, db')"
        using step assms(1) by simp
      obtain c db1 where c: "create_payment ev cfg (''internal_'' @ cp_payment_hash m) ?data SUCCESS db = (c, db1)"
        by fastforce
      from c assms(2) show ?thesis
      proof (cases rule: create_payment_cases)
        case (error e)
        then have "r = Inl e" "db' = db1" using run c by (simp_all add: bindP_def)
        with error(2) show ?thesis using that(2) by blast
      next
        case (created db0)
        let ?db2 = "update_payment_row ?ip db1"
        have p: "c = Inr ?p" "db1 = insert_payment_row ?p db0"
          using created by (simp_all add: internal_row_def)
        have run2: "thenP (send_payment_notification_bg ev cfg (w_id w) ?p)
             (thenP (modify (\<lambda>db. db\<lparr>wd_internal_queue := wd_internal_queue db @ [?ip]\<rparr>)) (ret (Some ?p))) ?db2
             = (r, db')"
          using run c p(1) by (simp add: bindP_def [of "create_payment _ _ _ _ _"]
              bindP_def [of "update_payment _ _ _"] update_payment_same_id)
        obtain n db3 where n: "send_payment_notification_bg ev cfg (w_id w) ?p ?db2 = (n, db3)" by fastforce
        have d2: "wallet_ids_distinct ?db2"
          using p(2) same_books_ids [OF created(2)] assms(2) by simp
        note f = reads_notify_books [OF n d2]
        have out: "wd_payments db' = wd_payments db3" "wd_wallets db' = wd_wallets db3" "wd_sent db' = wd_sent db3"
          "r = Inr (Some ?p) \<and> wd_internal_queue db' = wd_internal_queue db3 @ [?ip] \<or> (\<exists>e. r = Inl e)"
          using run2 n by (auto simp: thenP_def bindP_def modify_def ret_def split: sum.splits)
        have base: "wd_payments db0 = wd_payments db" "wd_sent db0 = wd_sent db"
          "wd_internal_queue db0 = wd_internal_queue db"
          using same_books_sel [OF created(2)] by simp_all
        have live: "live_rows db' x = live_rows db x" for x
        proof -
          have "live_rows db' x = live_rows ?db2 x" using f(2) live_rows_wallets [OF out(2)] by simp
          also have "\<dots> = live_rows db0 x" by (rule live_rows_wallets) (simp add: p(2))
          finally show ?thesis by (simp add: same_books_live [OF created(2)])
        qed
        have pay: "wd_payments db' = wd_payments (update_payment_row ?ip (insert_payment_row ?p db))"
          using out(1) f(1) p(2) base(1) by (simp add: pt.rows_upd)
        show ?thesis
        proof (rule paid [OF Some inv _ _ _ pay])
          show "p_amount inv = \<bar>cp_amount_msat m\<bar>"
            "\<bar>cp_amount_msat m\<bar> + ?fee \<le> w_balance_msat w" using ok by auto
          show "\<forall>q \<in> set (wd_payments db). p_checking_id q \<noteq> ''internal_'' @ cp_payment_hash m"
            using created(4) by blast
          show "\<forall>x. live_rows db' x = live_rows db x" using live by blast
          show "wd_sent db' = wd_sent db \<and> wallet_ids_distinct db'"
            using out(2,3) f(3,5) p(2) base(2) d2 by (simp add: wallet_ids_distinct_def)
          show "r = Inr (Some ?p) \<and> wd_internal_queue db' = wd_internal_queue db @ [?ip] \<or> (\<exists>e. r = Inl e)"
            using out(4) f(6) p(2) base(3) by simp
        qed
      qed
    qed
  qed
qed

text \<open>Exactly the payer is charged and exactly the receiver is credited.\<close>

lemma internal_ledger:
  assumes pay: "wd_payments db' = wd_payments (update_payment_row (ip\<lparr>p_status := SUCCESS, p_updated_at := t\<rparr>)
           (insert_payment_row (internal_row ev cfg m pre) db))"
    and ip: "check_internal (cp_payment_hash m) db = Some ip"
    and ids: "distinct (map p_checking_id (wd_payments db))"
    and fresh: "\<forall>q \<in> set (wd_payments db). p_checking_id q \<noteq> ''internal_'' @ cp_payment_hash m"
    and out: "cp_amount_msat m < 0"
  shows "ledger_sum x (wd_payments db') = ledger_sum x (wd_payments db)
     - (if x = cp_wallet_id m then \<bar>cp_amount_msat m\<bar> + \<bar>fee_reserve_total cfg (cp_amount_msat m) True\<bar> else 0)
     + (if x = p_wallet_id ip then p_amount ip - \<bar>p_fee ip\<bar> else 0)"
proof -
  let ?p = "internal_row ev cfg m pre"
  let ?ip = "ip\<lparr>p_status := SUCCESS, p_updated_at := t\<rparr>"
  note ci = check_internal_Some [OF ip]
  have id: "p_checking_id ?p = ''internal_'' @ cp_payment_hash m" by (simp add: internal_row_def)
  have ne: "p_checking_id ?p \<noteq> p_checking_id ip" using ci fresh id by metis
  have "filter (\<lambda>q. p_checking_id q = p_checking_id ?ip) (wd_payments db) = [ip]"
    using pt.only_row [OF ids, of ip "p_checking_id ip"] ci by simp
  then have only: "filter (\<lambda>q. p_checking_id q = p_checking_id ?ip) (wd_payments (insert_payment_row ?p db)) = [ip]"
    using ne by simp
  have "ledger_sum x (wd_payments db') =
      sum_list (map (booked x) (wd_payments db @ [?p])) - booked x ip + booked x ?ip"
    using pt.total_upd_only [OF only] pay by (simp add: ledger_sum_booked)
  moreover have "booked x ip = 0" using ci by (simp add: booked_def counted_def)
  moreover have "booked x ?ip = (if x = p_wallet_id ip then p_amount ip - \<bar>p_fee ip\<bar> else 0)"
    using ci by (simp add: booked_def counted_def net_def)
  moreover have "booked x ?p = - (if x = cp_wallet_id m then \<bar>cp_amount_msat m\<bar>
      + \<bar>fee_reserve_total cfg (cp_amount_msat m) True\<bar> else 0)"
    using out by (simp add: booked_def counted_def net_def internal_row_def)
  ultimately show ?thesis by (simp add: ledger_sum_booked)
qed

section \<open>External payments\<close>

text \<open>
  What an external payment costs in the end: nothing when the funding source says it failed, the
  reported fee and the service fee when it succeeded, the reserve as long as the outcome is open.
\<close>

fun settled_amount :: "settings \<Rightarrow> payment \<Rightarrow> pay_outcome \<Rightarrow> int" where
  "settled_amount cfg p (PayResponse r) =
     (if pr_failed r then 0
      else if pr_success r then
        p_amount p - (\<bar>case pr_fee_msat r of None \<Rightarrow> 0 | Some f \<Rightarrow> f\<bar> + \<bar>service_fee cfg (p_amount p) False\<bar>)
      else net p)"
| "settled_amount cfg p outcome = net p"

text \<open>The state in which the funding source left the payment.\<close>

fun outcome_state :: "pay_outcome \<Rightarrow> payment_state" where
  "outcome_state (PayResponse r) =
     (if pr_failed r then FAILED else if pr_success r then SUCCESS else PENDING)"
| "outcome_state outcome = PENDING"

lemma update_payment_result_state:
  assumes "update_payment ev p n db = (Inr p', db')"
  shows "p_status p' = p_status p" "p_amount p' = p_amount p" "p_wallet_id p' = p_wallet_id p"
    "p_payment_hash p' = p_payment_hash p"
  using update_payment_cases [OF assms] by auto

lemma handle_outcome_cases:
  assumes "handle_pay_outcome ev cfg w p outcome db = (r, db')"
    and only: "filter (\<lambda>x. p_checking_id x = p_checking_id p) (wd_payments db) = [p]"
    and dist: "wallet_ids_distinct db"
    and p: "p_status p = PENDING" "p_amount p < 0"
  shows "ledger_sum x (wd_payments db') = ledger_sum x (wd_payments db)
           - (if p_wallet_id p = x then net p - settled_amount cfg p outcome else 0)
         \<and> wd_sent db' = wd_sent db \<and> live_rows db' y = live_rows db y
         \<and> (\<forall>p'. r = Inr p' \<longrightarrow> p_status p' = outcome_state outcome \<and> p_status p' \<noteq> FAILED)"
proof -
  have bp: "booked x p = (if p_wallet_id p = x then net p else 0)"
    using p by (simp add: booked_def counted_def)
  have upd: "ledger_sum x (wd_payments d) = ledger_sum x (wd_payments db) - booked x p + booked x q
        \<and> wd_sent d = wd_sent db \<and> live_rows d y = live_rows db y
        \<and> wallet_ids_distinct d"
    if "update_payment ev q n db = (r', d)" "p_checking_id q = p_checking_id p" for q n r' d
    using update_payment_ledger [OF that(1), of p x] only that(2) update_payment_frame [OF that(1)] dist
    by (simp add: live_rows_def)
  show ?thesis
  proof (cases outcome)
    case PayTimeout
    then show ?thesis using assms(1) p by (auto simp: handle_pay_outcome_def ret_def)
  next
    case (PayRaised e)
    then show ?thesis using assms(1) by (auto simp: handle_pay_outcome_def throw_def)
  next
    case (PayResponse a)
    consider (failed) "pr_failed a" | (success) "\<not> pr_failed a" "pr_success a"
      | (pending) "\<not> pr_failed a" "\<not> pr_success a" by blast
    then show ?thesis
    proof cases
      case failed
      obtain r' d where u: "update_payment ev (p\<lparr>p_status := FAILED\<rparr>) None db = (r', d)" by fastforce
      have "booked x (p\<lparr>p_status := FAILED\<rparr>) = 0" by (simp add: booked_failed)
      moreover have "db' = d" "\<exists>e. r = Inl e"
        using assms(1) PayResponse failed u
        by (auto simp: handle_pay_outcome_def bindP_def throw_def split: sum.splits)
      ultimately show ?thesis using upd [OF u] PayResponse failed bp by auto
    next
      case success
      let ?q = "success_row cfg p (response_status a)"
      obtain r' d where u: "update_payment ev ?q (pr_checking_id a) db = (r', d)" by fastforce
      have cid: "p_checking_id ?q = p_checking_id p" by (simp add: success_row_def)
      have fee: "\<bar>- (\<bar>f\<bar> + \<bar>g\<bar>)\<bar> = \<bar>f\<bar> + \<bar>g\<bar>" for f g :: int by simp
      have bq: "booked x ?q = (if p_wallet_id p = x then settled_amount cfg p outcome else 0)"
        using p success PayResponse
        by (simp add: booked_def counted_def net_def success_row_def response_status_def fee
              del: abs_minus_cancel)
      have run: "(case r' of Inl e \<Rightarrow> (Inl e, d)
          | Inr p' \<Rightarrow> thenP (send_payment_notification_bg ev cfg (w_id w) p') (ret p') d) = (r, db')"
        using assms(1) PayResponse success u
        by (simp add: handle_pay_outcome_def update_payment_success_status_def bindP_def
            response_status_def pr_success_def ps_success_def split: sum.splits)
      note facts = upd [OF u cid]
      show ?thesis
      proof (cases r')
        case (Inl e)
        then show ?thesis using run facts bp bq by auto
      next
        case (Inr p')
        obtain n d2 where n: "send_payment_notification_bg ev cfg (w_id w) p' d = (n, d2)" by fastforce
        have o: "db' = d2" "r = Inr p' \<or> (\<exists>e. r = Inl e)"
          using run Inr n by (auto simp: thenP_def bindP_def ret_def split: sum.splits)
        have st: "p_status p' = SUCCESS"
          using update_payment_result_state(1) [OF u [unfolded Inr]] by (simp add: success_row_def)
        have d: "wallet_ids_distinct d" using facts by blast
        show ?thesis using o facts bp bq reads_notify_books [OF n d] st PayResponse success by auto
      qed
    next
      case pending
      then show ?thesis
      proof (cases "truthy (pr_checking_id a) \<and> pr_checking_id a \<noteq> Some (p_checking_id p)")
        case True
        then have u: "update_payment ev p (pr_checking_id a) db = (r, db')"
          using assms(1) PayResponse pending by (simp add: handle_pay_outcome_def)
        have "\<forall>p'. r = Inr p' \<longrightarrow> p_status p' = PENDING"
          using update_payment_result_state(1) u p(1) by metis
        then show ?thesis using upd [OF u] PayResponse pending by simp
      next
        case False
        then show ?thesis using assms(1) PayResponse pending p(1) by (auto simp: handle_pay_outcome_def ret_def)
      qed
    qed
  qed
qed

definition external_row :: "env \<Rightarrow> settings \<Rightarrow> create_payment_data \<Rightarrow> payment" where
  "external_row ev cfg m =
     new_payment ev (cp_payment_hash m)
       (m\<lparr>cp_fee := - \<bar>fee_reserve_total cfg (cp_amount_msat m) False\<bar>\<rparr>) PENDING"

definition known_hash :: "world \<Rightarrow> string \<Rightarrow> bool" where
  "known_hash db h \<longleftrightarrow> (\<exists>q \<in> set (wd_payments db). p_checking_id q = h \<or> p_payment_hash q = h)"

lemma pay_external_cases:
  assumes run: "pay_external_invoice ev cfg w m db = (r, db')" and dist: "wallet_ids_distinct db"
  obtains (refused) e where "r = Inl e" "same_books db db'"
  | (repeated) old where "select_standalone (cp_payment_hash m) False None db = Some old"
      "verify_external_payment ev cfg old db = (r, db')"
  | (sent) db1 where "\<not> known_hash db (cp_payment_hash m)" "same_books db db1"
      "\<bar>cp_amount_msat m\<bar> + fee_reserve_total cfg (cp_amount_msat m) False \<le> w_balance_msat w"
      "handle_pay_outcome ev cfg w (external_row ev cfg m)
         (fs_pay ev (cp_bolt11 m) (fee_reserve cfg (cp_amount_msat m) False))
         (insert_payment_row (external_row ev cfg m)
            (db1\<lparr>wd_sent := wd_sent db1 @ [(cp_bolt11 m, fee_reserve cfg (cp_amount_msat m) False)]\<rparr>)) = (r, db')"
proof -
  let ?h = "cp_payment_hash m"
  let ?fee = "fee_reserve_total cfg (cp_amount_msat m) False"
  let ?data = "m\<lparr>cp_fee := - \<bar>?fee\<bar>\<rparr>"
  let ?p = "external_row ev cfg m"
  let ?lim = "fee_reserve cfg (cp_amount_msat m) False"
  let ?k = "\<lambda>p. bindP (fundingsource_pay_invoice ev (p_bolt11 p) ?lim) (handle_pay_outcome ev cfg w p)"
  show ?thesis
  proof (cases "w_balance_msat w < \<bar>cp_amount_msat m\<bar> \<or> w_balance_msat w < \<bar>cp_amount_msat m\<bar> + ?fee")
    case True
    then have "(\<exists>e. r = Inl e) \<and> db' = db"
      using run by (auto simp: pay_external_invoice_def Let_def thenP_failIf throw_def split: if_splits)
    then show ?thesis using refused by auto
  next
    case rich: False
    then have step: "(case select_standalone ?h False None db of
        Some old \<Rightarrow> verify_external_payment ev cfg old
      | None \<Rightarrow> bindP (create_payment ev cfg ?h ?data PENDING) ?k) db = (r, db')"
      using run by (simp add: pay_external_invoice_def Let_def thenP_failIf
          bindP_def [of "get_standalone_payment _ _ _ _ _"])
    show ?thesis
    proof (cases "select_standalone ?h False None db")
      case (Some old)
      then show ?thesis using step repeated by simp
    next
      case None
      then have fresh: "\<not> known_hash db ?h" by (auto simp: select_standalone_None known_hash_def)
      obtain c db1 where c: "create_payment ev cfg ?h ?data PENDING db = (c, db1)" by fastforce
      from c dist show ?thesis
      proof (cases rule: create_payment_cases)
        case (error e)
        then have "r = Inl e" "db' = db1" using step None c by (simp_all add: bindP_def)
        with error(2) show ?thesis using refused by blast
      next
        case (created db0)
        have p: "c = Inr ?p" "db1 = insert_payment_row ?p db0" using created by (simp_all add: external_row_def)
        have "handle_pay_outcome ev cfg w ?p (fs_pay ev (cp_bolt11 m) ?lim)
            (db1\<lparr>wd_sent := wd_sent db1 @ [(cp_bolt11 m, ?lim)]\<rparr>) = (r, db')"
          using step None c p(1)
          by (simp add: bindP_def [of "create_payment _ _ _ _ _"] fundingsource_pay_invoice_def
              thenP_def bindP_def modify_def ret_def external_row_def)
        moreover have "db1\<lparr>wd_sent := wd_sent db1 @ [(cp_bolt11 m, ?lim)]\<rparr> =
            insert_payment_row ?p (db0\<lparr>wd_sent := wd_sent db0 @ [(cp_bolt11 m, ?lim)]\<rparr>)"
          by (simp add: p(2) insert_payment_row_def)
        ultimately show ?thesis
          using sent [OF fresh created(2)] rich by simp
      qed
    qed
  qed
qed

text \<open>The ledger after an external payment that reached the funding source.\<close>

lemma external_ledger:
  assumes h: "handle_pay_outcome ev cfg w (external_row ev cfg m) outcome
         (insert_payment_row (external_row ev cfg m) (db1\<lparr>wd_sent := s\<rparr>)) = (r, db')"
    and sb: "same_books db db1" and dist: "wallet_ids_distinct db"
    and fresh: "\<not> known_hash db (cp_payment_hash m)" and out: "cp_amount_msat m < 0"
  shows "ledger_sum x (wd_payments db') = ledger_sum x (wd_payments db)
           + (if cp_wallet_id m = x then settled_amount cfg (external_row ev cfg m) outcome else 0)
         \<and> wd_sent db' = s \<and> live_rows db' y = live_rows db y
         \<and> (\<forall>p'. r = Inr p' \<longrightarrow> p_status p' = outcome_state outcome \<and> p_status p' \<noteq> FAILED)"
proof -
  let ?p = "external_row ev cfg m"
  let ?d = "insert_payment_row ?p (db1\<lparr>wd_sent := s\<rparr>)"
  have p: "p_status ?p = PENDING" "p_amount ?p < 0" "p_wallet_id ?p = cp_wallet_id m"
    "p_checking_id ?p = cp_payment_hash m"
    using out by (simp_all add: external_row_def)
  have ps: "wd_payments ?d = wd_payments db @ [?p]" using same_books_sel(1) [OF sb] by simp
  have "filter (\<lambda>x. p_checking_id x = p_checking_id ?p) (wd_payments db) = []"
    using fresh p(4) by (auto simp: filter_empty_conv known_hash_def)
  then have only: "filter (\<lambda>x. p_checking_id x = p_checking_id ?p) (wd_payments ?d) = [?p]"
    by (simp only: ps filter_append append_Nil) simp
  have d: "wallet_ids_distinct ?d" "live_rows ?d y = live_rows db y"
    using same_books_ids [OF sb] same_books_live [OF sb] dist
    by (simp_all add: wallet_ids_distinct_def live_rows_def)
  have "ledger_sum x (wd_payments ?d) = ledger_sum x (wd_payments db) + booked x ?p"
    unfolding ps by (simp add: ledger_sum_booked)
  moreover have "booked x ?p = (if cp_wallet_id m = x then net ?p else 0)"
    using p by (simp add: booked_def counted_def)
  ultimately show ?thesis
    using handle_outcome_cases [OF h only d(1) p(1,2), of x y] p(3) d(2) by auto
qed

section \<open>The reserve covers the charge\<close>

text \<open>
  What the funding source promises: it does not report a routing fee above the limit it was given
  (the fake wallet reports 0).
\<close>

definition fee_within_limit :: "(string \<Rightarrow> int \<Rightarrow> pay_outcome) \<Rightarrow> bool" where
  "fee_within_limit pay \<longleftrightarrow>
     (\<forall>b l r f. 0 \<le> l \<longrightarrow> pay b l = PayResponse r \<longrightarrow> pr_fee_msat r = Some f \<longrightarrow> \<bar>f\<bar> \<le> l)"

locale fee_limited =
  fixes pay :: "string \<Rightarrow> int \<Rightarrow> pay_outcome"
  assumes within_limit: "fee_within_limit pay"
begin

lemma reported_fee:
  "0 \<le> l \<Longrightarrow> pay b l = PayResponse r \<Longrightarrow> \<bar>case pr_fee_msat r of None \<Rightarrow> 0 | Some f \<Rightarrow> f\<bar> \<le> l"
  using within_limit unfolding fee_within_limit_def by (cases "pr_fee_msat r") auto

lemma settled_within_reserve:
  assumes fees: "0 \<le> lnbits_service_fee cfg" "0 \<le> lnbits_reserve_fee_min cfg"
    and out: "cp_amount_msat m < 0"
  shows "settled_amount cfg (external_row ev cfg m) (pay b (fee_reserve cfg (cp_amount_msat m) False))
         \<ge> - (\<bar>cp_amount_msat m\<bar> + fee_reserve_total cfg (cp_amount_msat m) False)"
proof -
  let ?a = "cp_amount_msat m"
  let ?p = "external_row ev cfg m"
  let ?o = "pay b (fee_reserve cfg ?a False)"
  have nn: "0 \<le> fee_reserve cfg ?a False" "0 \<le> service_fee cfg ?a False"
    using fees by (simp_all add: fee_reserve_nonneg service_fee_nonneg)
  then have net: "net ?p = - (\<bar>?a\<bar> + fee_reserve_total cfg ?a False)"
    using out by (simp add: net_def external_row_def fee_reserve_total_def)
  show ?thesis
  proof (cases ?o)
    case (PayResponse r)
    note f = reported_fee [OF nn(1) PayResponse]
    have amt: "p_amount ?p = ?a" by (simp add: external_row_def)
    have tot: "fee_reserve_total cfg ?a False = fee_reserve cfg ?a False + service_fee cfg ?a False"
      by (simp add: fee_reserve_total_def)
    show ?thesis
    proof (cases "pr_success r \<and> \<not> pr_failed r")
      case True
      then show ?thesis using f nn out amt tot PayResponse by simp
    next
      case False
      then show ?thesis using net nn tot PayResponse by auto
    qed
  qed (use net in simp_all)
qed

end

text \<open>The fake wallet of the repository keeps the promise, whatever it was asked before.\<close>

interpretation fake_pays: fee_limited "\<lambda>b l. PayResponse (fst (fake_pay_invoice dec b l w))" for dec w
  by unfold_locales (auto simp: fee_within_limit_def fake_pay_invoice_def split: sum.splits if_splits)

section \<open>Paying under the lock\<close>

lemma pay_locked_cases:
  assumes run: "pay_invoice_locked ev cfg wid m db = (r, db')" and dist: "wallet_ids_distinct db"
  obtains (no_wallet) e where "r = Inl e" "same_books db db'"
  | (internal) w db1 x where "get_wallet ev cfg wid (Some False) db = (Inr (Some w), db1)" "same_books db db1"
      "pay_internal_invoice ev cfg w m db1 = (x, db')" "x \<noteq> Inr None"
      "r = (case x of Inl e \<Rightarrow> Inl e | Inr p \<Rightarrow> Inr (the p))"
  | (external) w db1 where "get_wallet ev cfg wid (Some False) db = (Inr (Some w), db1)" "same_books db db1"
      "check_internal (cp_payment_hash m) db1 = None" "pay_external_invoice ev cfg w m db1 = (r, db')"
proof -
  obtain g db1 where g: "get_wallet ev cfg wid (Some False) db = (g, db1)" by fastforce
  have sb: "same_books db db1" using readsD [OF reads_get_wallet dist] g by (metis snd_conv)
  have d1: "wallet_ids_distinct db1" using sb dist by (simp add: same_books_ids)
  show ?thesis
  proof (cases "\<exists>w. g = Inr (Some w)")
    case False
    then have "\<exists>e. r = Inl e" "db' = db1"
      using run g by (auto simp: pay_invoice_locked_def bindP_def throw_def split: sum.splits option.splits)
    then show ?thesis using no_wallet sb by blast
  next
    case True
    then obtain w where w: "g = Inr (Some w)" by blast
    obtain x db2 where x: "pay_internal_invoice ev cfg w m db1 = (x, db2)" by fastforce
    show ?thesis
    proof (cases "x = Inr None")
      case False
      then have "db' = db2" "r = (case x of Inl e \<Rightarrow> Inl e | Inr p \<Rightarrow> Inr (the p))"
        using run g w x by (auto simp: pay_invoice_locked_def bindP_def ret_def split: sum.splits option.splits)
      then show ?thesis using internal [OF _ sb] g w x False by blast
    next
      case None: True
      from x d1 have "db2 = db1 \<and> check_internal (cp_payment_hash m) db1 = None"
        by (cases rule: pay_internal_cases) (use None in auto)
      moreover from this have "pay_external_invoice ev cfg w m db1 = (r, db')"
        using run g w x None by (auto simp: pay_invoice_locked_def bindP_def)
      ultimately show ?thesis using external [OF _ sb] g w by blast
    qed
  qed
qed

lemma verify_not_failed:
  assumes "verify_external_payment ev cfg old db = (r, db')" "p_status old \<noteq> FAILED"
  shows "(\<exists>e. r = Inl e) \<and> db' = db"
  using assms by (cases "p_status old")
    (auto simp: verify_external_payment_def thenP_failIf p_pending_def p_success_def throw_def)

text \<open>Bookings of incoming payments do not lower a balance.\<close>

definition credits_covered :: "world \<Rightarrow> bool" where
  "credits_covered db \<longleftrightarrow> (\<forall>q \<in> set (wd_payments db). 0 < p_amount q \<longrightarrow> \<bar>p_fee q\<bar> \<le> p_amount q)"

definition never_failed :: "world \<Rightarrow> string \<Rightarrow> bool" where
  "never_failed db h \<longleftrightarrow>
     (\<forall>q \<in> set (wd_payments db). p_checking_id q = h \<or> p_payment_hash q = h \<longrightarrow> p_status q \<noteq> FAILED)"

text \<open>
  What a payment can cost: the payer at most the amount and the total reserve, nobody else anything,
  and a charge is made only when the payer's balance covered it.
\<close>

lemma pay_locked_ledger:
  assumes run: "pay_invoice_locked ev cfg wid m db = (r, db')"
    and wf: "wf_wallets db" "lightning_id db wid" "distinct (map p_checking_id (wd_payments db))"
      "credits_covered db" "never_failed db (cp_payment_hash m)"
    and m: "cp_wallet_id m = wid" "cp_amount_msat m < 0"
    and fees: "0 \<le> lnbits_service_fee cfg" "0 \<le> lnbits_reserve_fee_min cfg"
      "fee_within_limit (fs_pay ev)"
  shows "live_rows db' y = live_rows db y
    \<and> (ledger_sum x (wd_payments db') \<ge> ledger_sum x (wd_payments db)
       \<or> (x = wid \<and> 0 \<le> balance_of db wid + (ledger_sum x (wd_payments db') - ledger_sum x (wd_payments db))
          \<and> 0 < live_rows db wid))"
proof -
  have dist: "wallet_ids_distinct db" using wf(1) by (simp add: wf_wallets_def)
  from run dist show ?thesis
  proof (cases rule: pay_locked_cases)
    case (no_wallet e)
    then show ?thesis by (simp add: same_books_live same_books_sel)
  next
    case (internal w db1 z)
    note g = get_wallet_lightning [OF internal(1) wf(1,2)]
    have d1: "wallet_ids_distinct db1" using internal(2) dist by (simp add: same_books_ids)
    from internal(3) d1 show ?thesis
    proof (cases rule: pay_internal_cases)
      case not_internal
      then show ?thesis using internal(4) by simp
    next
      case (error e)
      then show ?thesis
        using internal(2) by (metis same_books_live same_books_sel(1) order_refl)
    next
      case (paid ip inv)
      note sel = same_books_sel [OF internal(2)]
      have ip: "p_amount ip - \<bar>p_fee ip\<bar> \<ge> 0"
        using check_internal_Some [OF paid(1)] wf(4) sel by (auto simp: credits_covered_def)
      have nn: "0 \<le> fee_reserve_total cfg (cp_amount_msat m) True"
        using fees(1) by (simp add: fee_reserve_total_def service_fee_nonneg)
      have L: "ledger_sum x (wd_payments db') = ledger_sum x (wd_payments db)
         - (if x = wid then \<bar>cp_amount_msat m\<bar> + fee_reserve_total cfg (cp_amount_msat m) True else 0)
         + (if x = p_wallet_id ip then p_amount ip - \<bar>p_fee ip\<bar> else 0)"
        using internal_ledger [OF paid(6) paid(1) _ paid(5) m(2), of x] wf(3) nn m(1) by (simp add: sel)
      have "live_rows db' y = live_rows db y" using paid(7) same_books_live [OF internal(2)] by simp
      moreover have "\<bar>cp_amount_msat m\<bar> + fee_reserve_total cfg (cp_amount_msat m) True \<le> balance_of db wid"
        using paid(4) g by simp
      ultimately show ?thesis using L ip nn g by auto
    qed
  next
    case (external w db1)
    note g = get_wallet_lightning [OF external(1) wf(1,2)]
    note sel = same_books_sel [OF external(2)]
    have d1: "wallet_ids_distinct db1" using external(2) dist by (simp add: same_books_ids)
    from external(4) d1 show ?thesis
    proof (cases rule: pay_external_cases)
      case (refused e)
      then show ?thesis
        using external(2) by (metis same_books_live same_books_sel(1) order_refl)
    next
      case (repeated old)
      have "p_status old \<noteq> FAILED"
        using select_standalone_Some [OF repeated(1)] wf(5) sel
        by (auto simp: standalone_match_def never_failed_def)
      then have "db' = db1" using verify_not_failed [OF repeated(2)] by simp
      then show ?thesis using external(2) by (simp add: same_books_live same_books_sel)
    next
      case (sent db2)
      have fresh: "\<not> known_hash db1 (cp_payment_hash m)" using sent(1) .
      note L = external_ledger [OF sent(4) sent(2) d1 fresh m(2), of x y]
      note S = fee_limited.settled_within_reserve [OF fee_limited.intro [OF fees(3)] fees(1,2) m(2),
          of ev "cp_bolt11 m"]
      have live: "live_rows db' y = live_rows db y" using L same_books_live [OF external(2)] by simp
      show ?thesis
      proof (cases "x = wid")
        case True
        then have "0 \<le> balance_of db wid + (ledger_sum x (wd_payments db') - ledger_sum x (wd_payments db))"
          using L S sent(3) g sel m(1) by simp
        then show ?thesis using live g True by simp
      next
        case False
        then show ?thesis using L live sel m(1) by simp
      qed
    qed
  qed
qed

section \<open>Repeated payments\<close>

text \<open>\<open>sends_same db db'\<close>: nothing was handed to the funding source in between.\<close>

definition same_sent :: "(string \<times> int) list \<Rightarrow> world \<Rightarrow> bool" where
  "same_sent s db \<longleftrightarrow> wallet_ids_distinct db \<and> wd_sent db = s"

lemma reads_keeps_sent: "reads m \<Longrightarrow> keeps (same_sent s) m"
  by (simp add: keeps_def same_sent_def) (metis readsD same_books_ids same_books_sel(6))

lemmas get_wallet_keeps_sent [keeps_intro] = reads_keeps_sent [OF reads_get_wallet]

lemma update_keeps_sent [keeps_intro]: "keeps (same_sent s) (update_payment ev p n)"
  unfolding keeps_def same_sent_def by (metis update_payment_frame(2,3) prod.collapse)

lemma create_keeps_sent [keeps_intro]: "keeps (same_sent s) (create_payment ev cfg c d st)"
  unfolding keeps_def
proof (intro allI impI)
  fix db assume s: "same_sent s db"
  obtain r db' where c: "create_payment ev cfg c d st db = (r, db')" by fastforce
  have dist: "wallet_ids_distinct db" using s by (simp add: same_sent_def)
  from c dist have "same_sent s db'"
    by (cases rule: create_payment_cases)
      (use s in \<open>auto simp: same_sent_def same_books_ids same_books_sel\<close>)
  then show "same_sent s (snd (create_payment ev cfg c d st db))" by (simp add: c)
qed

lemma fiat_confirmation_keeps_sent [keeps_intro]:
  "keeps (same_sent s) (handle_fiat_payment_confirmation ev cfg p)"
  unfolding handle_fiat_payment_confirmation_def credit_fiat_service_fee_wallet_def
    debit_fiat_service_faucet_wallet_def
  by (intro keeps_intro)

lemma queue_keeps_sent [keeps_intro]:
  "keeps (same_sent s) (modify (\<lambda>db. db\<lparr>wd_internal_queue := f db\<rparr>))"
  by (rule keeps_modify) (simp add: same_sent_def wallet_ids_distinct_def)

lemma check_fiat_keeps_sent [keeps_intro]: "keeps (same_sent s) (check_fiat_status ev cfg p)"
  unfolding check_fiat_status_def by (intro keeps_intro)

lemma check_status_keeps_sent [keeps_intro]: "keeps (same_sent s) (check_payment_status ev cfg p)"
  unfolding check_payment_status_def by (intro keeps_intro)

lemma verify_keeps_sent [keeps_intro]: "keeps (same_sent s) (verify_external_payment ev cfg p)"
  unfolding verify_external_payment_def update_payment_success_status_def by (intro keeps_intro)

lemma pay_locked_sent:
  assumes run: "pay_invoice_locked ev cfg wid m db = (r, db')" and dist: "wallet_ids_distinct db"
    and out: "cp_amount_msat m < 0"
  shows "wd_sent db' = wd_sent db \<or>
     (\<not> known_hash db (cp_payment_hash m) \<and> check_internal (cp_payment_hash m) db = None
      \<and> wd_sent db' = wd_sent db @ [(cp_bolt11 m, fee_reserve cfg (cp_amount_msat m) False)])"
proof -
  from run dist show ?thesis
  proof (cases rule: pay_locked_cases)
    case (no_wallet e)
    then show ?thesis by (simp add: same_books_sel)
  next
    case (internal w db1 z)
    have d1: "wallet_ids_distinct db1" using internal(2) dist by (simp add: same_books_ids)
    from internal(3) d1 have "wd_sent db' = wd_sent db1"
      by (cases rule: pay_internal_cases) (simp_all add: same_books_sel)
    then show ?thesis using internal(2) by (simp add: same_books_sel)
  next
    case (external w db1)
    note sel = same_books_sel [OF external(2)]
    have d1: "wallet_ids_distinct db1" using external(2) dist by (simp add: same_books_ids)
    from external(4) d1 show ?thesis
    proof (cases rule: pay_external_cases)
      case (refused e)
      then show ?thesis using sel by (simp add: same_books_sel)
    next
      case (repeated old)
      have "same_sent (wd_sent db) db1" using d1 sel by (simp add: same_sent_def)
      then show ?thesis
        using keepsD [OF verify_keeps_sent, of "wd_sent db" db1 ev cfg old] repeated(2)
        by (simp add: same_sent_def)
    next
      case (sent db2)
      have "\<not> known_hash db (cp_payment_hash m)" using sent(1) sel by (simp add: known_hash_def)
      moreover have "check_internal (cp_payment_hash m) db = None"
        using external(3) sel by (simp add: check_internal_def)
      ultimately show ?thesis
        using external_ledger [OF sent(4) sent(2) d1 sent(1) out] sel same_books_sel(6) [OF sent(2)] by simp
    qed
  qed
qed

end
