(* ===== verification/InvoiceService.thy ===== *)
theory InvoiceService
  imports PayService
begin

text \<open>
  Creating invoices and following pending payments: the remaining operations of
  \<open>lnbits/core/services/payments.py\<close>.
\<close>

section \<open>Creating an invoice\<close>

record invoice_kwargs =
  ik_amount :: rat
  ik_currency :: "string option"
  ik_memo :: string
  ik_description_hash :: "string option"
  ik_unhashed_description :: "string option"
  ik_expiry :: "int option"
  ik_extra :: dict
  ik_webhook :: "string option"
  ik_internal :: bool
  ik_payment_hash :: "string option"
  ik_extension :: "string option"
  ik_labels :: "string list"
  ik_external_id :: "string option"

text \<open>\<open>fake_wallet.create_invoice\<close> on the fake wallet of the process.\<close>

definition fake_invoice ::
  "env \<Rightarrow> int \<Rightarrow> string option \<Rightarrow> string option \<Rightarrow> string option \<Rightarrow> int \<Rightarrow> (world, invoice_response) py" where
  "fake_invoice ev amount memo dh ud expiry db =
     (let (r, fw) = fake_create_invoice (e_encode ev) (e_sha256_hex ev) (e_now ev)
            (e_preimage ev db) (e_secret ev db) amount memo dh ud (Some expiry) None (wd_fake db)
      in (Inr r, db\<lparr>wd_fake := fw\<rparr>))"

definition request_invoice ::
  "env \<Rightarrow> settings \<Rightarrow> invoice_kwargs \<Rightarrow> int \<Rightarrow> string option \<Rightarrow> (world, invoice_response) py" where
  "request_invoice ev cfg k amount_sat invoice_memo =
     (if truthy (ik_payment_hash k) then
        (case (if ik_internal k then base_create_hold_invoice
               else fs_create_hold_invoice ev amount_sat invoice_memo (the (ik_payment_hash k))
                      (ik_description_hash k)) of
           Inl UnsupportedError \<Rightarrow>
             throw (InvoiceError ''Hold invoices are not supported by the funding source.'' ''failed'')
         | Inl e \<Rightarrow> throw e
         | Inr r \<Rightarrow> ret r)
      else
        let expiry = the (or_int (ik_expiry k) (Some (lightning_invoice_expiry cfg)))
        in if ik_internal k
           then fake_invoice ev amount_sat invoice_memo (ik_description_hash k) (ik_unhashed_description k) expiry
           else liftE (fs_create_invoice ev amount_sat invoice_memo (ik_description_hash k)
                         (ik_unhashed_description k) expiry))"

definition create_invoice :: "env \<Rightarrow> settings \<Rightarrow> string \<Rightarrow> invoice_kwargs \<Rightarrow> (world, payment) py" where
  "create_invoice ev cfg wallet_id k =
     thenP (failIf (\<not> ik_amount k > 0) (InvoiceError ''Amountless invoices not supported.'' ''failed''))
     (bindP (get_wallet ev cfg wallet_id (Some False)) (\<lambda>found.
      case found of
        None \<Rightarrow> throw (InvoiceError (''Could not fetch wallet '' @ [CHR 0x27] @ wallet_id @ [CHR 0x27] @ ''.'') ''failed'')
      | Some w \<Rightarrow>
          thenP (failIf (\<not> can_receive_payments w)
                   (InvoiceError ''Wallet does not have permission to create invoices.'' ''failed''))
          (thenP (failIf (is_fiat_wallet w \<and> \<not> ik_internal k)
                   (InvoiceError ''Fiat wallets only accept cash or fiat provider payments.'' ''failed''))
          (let invoice_memo = (if truthy (ik_description_hash k) then None else Some (take 640 (ik_memo k))) in
           bindP (liftE (calculate_fiat_amounts ev cfg (ik_amount k) w (ik_currency k) (ik_extra k)))
             (\<lambda>(amount_sat, extra).
           thenP (failIf (amount_sat > lnbits_max_incoming_payment_amount_sats cfg)
                    (InvoiceError (''Invoice amount '' @ str_int amount_sat @ '' sats is too high. Max allowed: ''
                       @ str_int (lnbits_max_incoming_payment_amount_sats cfg) @ '' sats.'') ''failed''))
           (thenP (failIf (is_wallet_max_balance_exceeded cfg
                             (fadd (idiv_float (w_balance_msat w) 1000) (to_float amount_sat)))
                    (InvoiceError (''Wallet balance cannot exceed ''
                       @ str_int (lnbits_wallet_limit_max_balance cfg) @ '' sats.'') ''failed''))
           (bindP (request_invoice ev cfg k amount_sat invoice_memo) (\<lambda>r.
            let extra = (if truthy (ik_payment_hash k) then dset extra ''hold_invoice'' (JBool True) else extra) in
            thenP (failIf (ir_ok r \<noteq> Some True \<or> \<not> truthy (ir_payment_request r) \<or> \<not> truthy (ir_checking_id r))
                     (InvoiceError (the (orElse (ir_error_message r) (Some ''unexpected backend error.''))) ''pending''))
            (case e_decode ev (the (ir_payment_request r)) of
               None \<Rightarrow> throw (OtherError ''Bolt11Exception'')
             | Some invoice \<Rightarrow>
                 bindP (liftE (validate_external_id (ik_external_id k))) (\<lambda>_.
                 create_payment ev cfg (the (ir_checking_id r))
                   \<lparr>cp_wallet_id = source_wallet_id w, cp_payment_hash = di_payment_hash invoice,
                    cp_bolt11 = the (ir_payment_request r), cp_amount_msat = amount_sat * 1000,
                    cp_memo = ik_memo k, cp_extra = extra, cp_extension = ik_extension k,
                    cp_preimage = ir_preimage r, cp_expiry = di_expiry_date invoice,
                    cp_webhook = ik_webhook k, cp_fee = (case ir_fee_msat r of None \<Rightarrow> 0 | Some f \<Rightarrow> f),
                    cp_labels = ik_labels k, cp_external_id = ik_external_id k\<rparr> PENDING))))))))))"

text \<open>\<open>bytes.fromhex\<close>; the bytes are kept as their hex digits.\<close>

definition bytes_fromhex :: "string \<Rightarrow> string option" where
  "bytes_fromhex s = (if valid_fromhex s then Some (filter (\<lambda>c. \<not> is_c_space c) s) else None)"

text \<open>\<open>str(exc)\<close> of the exceptions that carry a message.\<close>

fun exn_message :: "exn \<Rightarrow> string" where
  "exn_message (PaymentError m s) = m"
| "exn_message (InvoiceError m s) = m"
| "exn_message (ValueError m) = m"
| "exn_message (HTTPException n m) = str_int (int n) @ '': '' @ m"
| "exn_message (PermissionError m) = m"
| "exn_message (LnurlError c m) = m"
| "exn_message (OtherError m) = m"
| "exn_message e = []"

definition check_callback_url :: "env \<Rightarrow> string \<Rightarrow> exn + unit" where
  "check_callback_url ev url =
     (if e_callback_ok ev url then Inr () else Inl (ValueError ''Callback URL is not allowed.''))"

definition create_wallet_invoice ::
  "env \<Rightarrow> settings \<Rightarrow> string \<Rightarrow> create_invoice_data \<Rightarrow> (world, payment) py" where
  "create_wallet_invoice ev cfg wallet_id d =
     thenP (if truthy (ci_webhook d) then liftE (check_callback_url ev (the (ci_webhook d))) else ret ())
     (let dh = (if truthy (ci_description_hash d) then bytes_fromhex (the (ci_description_hash d)) else None);
          ud = (if truthy (ci_unhashed_description d) then bytes_fromhex (the (ci_unhashed_description d)) else None);
          hashed = truthy (ci_description_hash d) \<or> truthy (ci_unhashed_description d);
          memo = (if hashed then [] else the (orElse (ci_memo d) (Some (lnbits_site_title cfg))))
      in
      thenP (failIf (truthy (ci_description_hash d) \<and> dh = None)
               (ValueError ([CHR 0x27] @ ''description_hash'' @ [CHR 0x27] @ '' must be a valid hex string'')))
      (thenP (failIf (truthy (ci_unhashed_description d) \<and> ud = None)
               (ValueError ([CHR 0x27] @ ''unhashed_description'' @ [CHR 0x27] @ '' must be a valid hex string'')))
      (bindP (create_invoice ev cfg wallet_id
          \<lparr>ik_amount = ci_amount d, ik_currency = Some (ci_unit d), ik_memo = memo,
           ik_description_hash = dh, ik_unhashed_description = ud, ik_expiry = ci_expiry d,
           ik_extra = ci_extra d, ik_webhook = ci_webhook d, ik_internal = ci_internal d,
           ik_payment_hash = ci_payment_hash d, ik_extension = ci_extension d,
           ik_labels = ci_labels d, ik_external_id = ci_external_id d\<rparr>) (\<lambda>payment.
       if ci_lnurl_withdraw d = None then ret payment
       else (let callback = the (ci_lnurl_withdraw d)
             in case (if e_callback_ok ev callback then e_lnurl_withdraw ev callback (p_bolt11 payment)
                      else Some (ValueError ''Callback URL is not allowed.'')) of
                  None \<Rightarrow> ret (payment\<lparr>p_extra := dset (p_extra payment) ''lnurl_response'' (JBool True)\<rparr>)
                | Some e \<Rightarrow> ret (payment\<lparr>p_extra := dset (p_extra payment) ''lnurl_response'' (JStr (exn_message e)),
                                       p_status := FAILED\<rparr>))))))"

definition fiat_row :: "settings \<Rightarrow> string \<Rightarrow> fiat_invoice_response \<Rightarrow> payment \<Rightarrow> payment" where
  "fiat_row cfg name fi payment =
     (let js = (\<lambda>v. case v of None \<Rightarrow> JNull | Some s \<Rightarrow> JStr s)
      in payment\<lparr>p_fee := - \<bar>service_fee_fiat cfg (p_msat payment) name\<bar>,
                 p_fiat_provider := Some name,
                 p_extra := dset (dset (p_extra payment) ''fiat_checking_id'' (js (fir_checking_id fi)))
                              ''fiat_payment_request'' (js (fir_payment_request fi))\<rparr>)"

definition create_fiat_invoice ::
  "env \<Rightarrow> settings \<Rightarrow> string \<Rightarrow> create_invoice_data \<Rightarrow> (world, payment) py" where
  "create_fiat_invoice ev cfg wallet_id d =
     thenP (failIf (\<not> truthy (ci_fiat_provider d)) (ValueError ''Fiat provider is required for fiat invoices.''))
     (thenP (failIf (ci_lnurl_withdraw d \<noteq> None)
               (ValueError ''Fiat provider cannot be combined with LNURL withdraw.''))
     (let name = the (ci_fiat_provider d) in
      thenP (failIf (\<not> is_fiat_provider_enabled cfg (Some name))
               (ValueError (''Fiat provider '' @ [CHR 0x27] @ name @ [CHR 0x27] @ '' is not enabled.'')))
      (bindP (get_wallet ev cfg wallet_id (Some False)) (\<lambda>found.
       thenP (failIf (case found of None \<Rightarrow> False
                      | Some w \<Rightarrow> is_fiat_wallet w \<and> name \<notin> set (get_fiat_providers_for_user cfg (w_user w)))
                (ValueError ''Fiat provider is not available for this user.''))
       (thenP (failIf (ci_unit d = ''sat'') (ValueError ''Fiat provider cannot be used with satoshis.''))
       (bindP (liftE (fiat_amount_as_satoshis ev (ci_amount d) (ci_unit d))) (\<lambda>amount_sat.
        thenP (check_fiat_invoice_limits ev cfg amount_sat name)
        (let memo = the (orElse (ci_memo d) (Some (lnbits_site_title cfg @ '' ('' @ name @ '')'')));
             d' = d\<lparr>ci_internal := True, ci_memo := Some memo\<rparr> in
         bindP (create_wallet_invoice ev cfg wallet_id d') (\<lambda>payment.
         case fiat_create_invoice ev name (ci_amount d) (p_payment_hash payment) (ci_unit d) memo (ci_extra d) of
           None \<Rightarrow> throw (InvoiceError ''No fiat provider found.'' ''failed'')
         | Some (Inl e) \<Rightarrow> throw e
         | Some (Inr fi) \<Rightarrow>
             if fir_ok fi = Some False then
               bindP (update_payment ev (payment\<lparr>p_status := FAILED\<rparr>) None) (\<lambda>_.
                 throw (ValueError (''Cannot create payment request for '' @ [CHR 0x27] @ name @ [CHR 0x27] @ ''.'')))
             else update_payment ev (fiat_row cfg name fi payment)
                    (Some (''fiat_'' @ name @ ''_''
                       @ the (orElse (fir_checking_id fi) (Some (p_checking_id payment))))))))))))))"

definition create_payment_request ::
  "env \<Rightarrow> settings \<Rightarrow> string \<Rightarrow> create_invoice_data \<Rightarrow> (world, payment) py" where
  "create_payment_request ev cfg wallet_id d =
     (if truthy (ci_fiat_provider d) then
        thenP (failIf (is_fiat_subscription d) (ValueError ''Cannot create direct fiat subscription payments.''))
          (create_fiat_invoice ev cfg wallet_id d)
      else create_wallet_invoice ev cfg wallet_id d)"

section \<open>Administrative balance changes\<close>

definition update_wallet_balance ::
  "env \<Rightarrow> settings \<Rightarrow> wallet \<Rightarrow> int \<Rightarrow> string option \<Rightarrow> (world, unit) py" where
  "update_wallet_balance ev cfg w amount memo0 =
     thenP (failIf (amount = 0) (ValueError ''Amount cannot be 0.''))
     (let m = strip (the (orElse memo0 (Some [])));
          memo = (if m \<noteq> [] then m else if amount > 0 then ''Credit'' else ''Debit'')
      in if amount < 0 then
           thenP (failIf (wallet_balance w + amount < 0)
                    (ValueError ''Balance change failed, can not go into negative balance.''))
           (bindP (gets (e_preimage ev)) (\<lambda>secret.
            let payment_hash = e_sha256_hex ev secret in
            bindP (create_payment ev cfg (''internal_'' @ payment_hash)
              \<lparr>cp_wallet_id = source_wallet_id w, cp_payment_hash = payment_hash,
               cp_bolt11 = e_encode ev
                 \<lparr>b_amount_msat = Some (\<bar>amount\<bar> * 1000), b_payment_hash = payment_hash,
                  b_payment_secret = Some secret, b_description = Some memo, b_description_hash = None,
                  b_expiry = None, b_date = e_now ev\<rparr>,
               cp_amount_msat = amount * 1000, cp_memo = memo, cp_extra = [(''tag'', JStr ''admin'')],
               cp_extension = None, cp_preimage = None, cp_expiry = None, cp_webhook = None, cp_fee = 0,
               cp_labels = [], cp_external_id = None\<rparr> SUCCESS) (\<lambda>_. ret ())))
         else
           thenP (failIf (lnbits_wallet_limit_max_balance cfg > 0
                          \<and> wallet_balance w + amount > lnbits_wallet_limit_max_balance cfg)
                    (ValueError ''Balance change failed, amount exceeds maximum balance.''))
           (bindP (create_invoice ev cfg (source_wallet_id w)
              \<lparr>ik_amount = of_int amount, ik_currency = Some ''sat'', ik_memo = memo,
               ik_description_hash = None, ik_unhashed_description = None, ik_expiry = None,
               ik_extra = [(''tag'', JStr ''admin'')], ik_webhook = None, ik_internal = True,
               ik_payment_hash = None, ik_extension = None, ik_labels = [], ik_external_id = None\<rparr>) (\<lambda>payment.
            bindP (update_payment ev (payment\<lparr>p_status := SUCCESS\<rparr>) None) (\<lambda>payment'.
            modify (\<lambda>db. db\<lparr>wd_internal_queue := wd_internal_queue db @ [payment']\<rparr>)))))"

section \<open>Pending payments\<close>

definition update_pending_payment :: "env \<Rightarrow> settings \<Rightarrow> payment \<Rightarrow> (world, payment) py" where
  "update_pending_payment ev cfg payment =
     (if is_in payment \<and> is_expired (e_now ev) payment then
        update_payment ev (payment\<lparr>p_status := FAILED, p_labels := p_labels payment @ [''expired'']\<rparr>) None
      else bindP (check_payment_status ev cfg payment) (\<lambda>(status, payment').
        if ps_failed status then update_payment ev (payment'\<lparr>p_status := FAILED\<rparr>) None
        else if ps_success status then update_payment_success_status ev cfg payment' status None
        else ret payment'))"

definition update_pending_payments :: "env \<Rightarrow> settings \<Rightarrow> string \<Rightarrow> (world, unit) py" where
  "update_pending_payments ev cfg wallet_id =
     bindP (get_payments ev cfg
        (default_query\<lparr>q_wallet_id := Some wallet_id, q_pending := True, q_exclude_uncheckable := True\<rparr>)
        default_filters None None) (\<lambda>pending.
       forP pending (\<lambda>payment. bindP (update_pending_payment ev cfg payment) (\<lambda>_. ret ())))"

text \<open>\<open>void\<close> tells that the funding source is the \<open>VoidWallet\<close>.\<close>

definition check_pending_payments :: "env \<Rightarrow> settings \<Rightarrow> bool \<Rightarrow> (world, unit) py" where
  "check_pending_payments ev cfg void =
     (if void then ret ()
      else bindP (get_payments ev cfg
             (default_query\<lparr>q_since := Some (e_now ev - 60 * 60 * 24 * 15), q_pending := True,
                             q_exclude_uncheckable := True\<rparr>) default_filters None None) (\<lambda>pending.
             forP pending (\<lambda>payment. bindP (update_pending_payment ev cfg payment) (\<lambda>_. ret ()))))"

definition check_transaction_status ::
  "env \<Rightarrow> settings \<Rightarrow> string \<Rightarrow> string \<Rightarrow> (world, payment_status) py" where
  "check_transaction_status ev cfg wallet_id payment_hash =
     bindP (get_wallet_payment ev cfg wallet_id payment_hash) (\<lambda>found.
       case found of
         None \<Rightarrow> ret PaymentPendingStatus
       | Some payment \<Rightarrow>
           if p_status payment = SUCCESS
           then ret (PaymentSuccessStatus (Some (p_fee payment)) (p_preimage payment))
           else bindP (check_payment_status ev cfg payment) (\<lambda>(st, _). ret st))"

definition update_invoice_from_paid_invoices_stream ::
  "env \<Rightarrow> settings \<Rightarrow> string \<Rightarrow> (world, payment option) py" where
  "update_invoice_from_paid_invoices_stream ev cfg checking_id =
     bindP (get_standalone_payment ev cfg checking_id True None) (\<lambda>found.
       case found of
         None \<Rightarrow> ret None
       | Some payment \<Rightarrow>
           bindP (check_payment_status ev cfg payment) (\<lambda>(status, payment').
             if \<not> ps_success status then ret None
             else bindP (update_payment ev
                (payment'\<lparr>p_fee := the (or_int (ps_fee_msat status) (Some (p_fee payment'))),
                          p_preimage := orElse (ps_preimage status) (p_preimage payment'),
                          p_status := SUCCESS\<rparr>) None) (\<lambda>p. ret (Some p))))"

text \<open>One turn of the loop of \<open>fundingsource_invoice_producer\<close>.\<close>

definition fundingsource_invoice_producer_turn :: "env \<Rightarrow> settings \<Rightarrow> string \<Rightarrow> (world, unit) py" where
  "fundingsource_invoice_producer_turn ev cfg checking_id =
     bindP (update_invoice_from_paid_invoices_stream ev cfg checking_id) (\<lambda>found.
       case found of
         None \<Rightarrow> ret ()
       | Some p \<Rightarrow> modify (\<lambda>db. db\<lparr>wd_invoice_queue := wd_invoice_queue db @ [p]\<rparr>))"

section \<open>Hold invoices\<close>

definition verify_preimage :: "env \<Rightarrow> string \<Rightarrow> string \<Rightarrow> exn + bool" where
  "verify_preimage ev preimg payment_hash =
     (case bytes_fromhex preimg of
        None \<Rightarrow> Inl (ValueError ''non-hexadecimal number found in fromhex() arg'')
      | Some b \<Rightarrow> Inr (e_sha256_hex ev b = payment_hash))"

definition settle_hold_invoice :: "env \<Rightarrow> payment \<Rightarrow> string \<Rightarrow> (world, invoice_response) py" where
  "settle_hold_invoice ev payment preimg =
     bindP (liftE (verify_preimage ev preimg (p_payment_hash payment))) (\<lambda>ok.
     thenP (failIf (\<not> ok) (InvoiceError ''Invalid preimage.'' ''failed''))
     (bindP (liftE (fs_settle_hold_invoice ev preimg)) (\<lambda>r.
      thenP (failIf (ir_ok r \<noteq> Some True)
               (InvoiceError (the (orElse (ir_error_message r) (Some ''Unexpected backend error.''))) ''failed''))
      (bindP (update_payment ev (payment\<lparr>p_preimage := Some preimg,
                 p_extra := dset (p_extra payment) ''hold_invoice_settled'' (JBool True)\<rparr>) None) (\<lambda>_.
       ret r)))))"

definition cancel_hold_invoice :: "env \<Rightarrow> payment \<Rightarrow> (world, invoice_response) py" where
  "cancel_hold_invoice ev payment =
     bindP (liftE (fs_cancel_hold_invoice ev (p_payment_hash payment))) (\<lambda>r.
     thenP (failIf (ir_ok r \<noteq> Some True)
              (InvoiceError (the (orElse (ir_error_message r) (Some ''Unexpected backend error.''))) ''failed''))
     (bindP (update_payment ev (payment\<lparr>p_status := FAILED,
                p_extra := dset (p_extra payment) ''hold_invoice_cancelled'' (JBool True)\<rparr>) None) (\<lambda>_.
      ret r)))"

section \<open>Daily statistics\<close>

record daily_stats =
  ds_date :: int
  ds_balance :: rat
  ds_balance_in :: rat
  ds_balance_out :: rat
  ds_payments_count :: int
  ds_count_in :: int
  ds_count_out :: int
  ds_fee :: rat

definition no_stats :: "int \<Rightarrow> daily_stats" where
  "no_stats now =
     \<lparr>ds_date = now, ds_balance = 0, ds_balance_in = 0, ds_balance_out = 0, ds_payments_count = 0,
      ds_count_in = 0, ds_count_out = 0, ds_fee = 0\<rparr>"

text \<open>\<open>x // 1000\<close> on a float.\<close>

definition floor_1000 :: "rat \<Rightarrow> rat" where
  "floor_1000 x = fl (of_int \<lfloor>x / 1000\<rfloor>)"

definition stats_at :: "int \<Rightarrow> daily_stats list \<Rightarrow> daily_stats \<Rightarrow> daily_stats" where
  "stats_at d data none = (case List.find (\<lambda>x. ds_date x = d) data of Some x \<Rightarrow> x | None \<Rightarrow> none)"

text \<open>The \<open>while\<close> loop: a day per turn, the running balance in \<open>total\<close>.\<close>

function daily_stats_loop ::
  "daily_stats list \<Rightarrow> daily_stats list \<Rightarrow> daily_stats \<Rightarrow> int \<Rightarrow> rat \<Rightarrow> int \<Rightarrow> daily_stats list" where
  "daily_stats_loop data_in data_out none end_date balance_total d =
     (if d \<le> end_date then
        let i = stats_at d data_in none; out = stats_at d data_out none;
            balance_total = fadd balance_total (fadd (ds_balance i) (ds_balance out))
        in \<lparr>ds_date = d, ds_balance = floor_1000 balance_total, ds_balance_in = floor_1000 (ds_balance i),
            ds_balance_out = floor_1000 (ds_balance out),
            ds_payments_count = ds_payments_count i + ds_payments_count out,
            ds_count_in = ds_payments_count i, ds_count_out = ds_payments_count out,
            ds_fee = floor_1000 (fadd (ds_fee i) (ds_fee out))\<rparr>
           # daily_stats_loop data_in data_out none end_date balance_total (d + 86400)
      else [])"
  by pat_completeness auto
termination
  by (relation "measure (\<lambda>(_, _, _, e, _, d). nat (e - d + 86400))") auto

declare daily_stats_loop.simps [simp del]

definition get_payments_daily_stats :: "int \<Rightarrow> daily_stats list \<Rightarrow> daily_stats list \<Rightarrow> daily_stats list" where
  "get_payments_daily_stats now data_in data_out =
     (if data_in = [] \<and> data_out = [] then []
      else
        let none = no_stats now;
            data_in = (if data_in = [] then [none] else data_in);
            data_out = (if data_out = [] then [none] else data_out);
            start_date = min (ds_date (hd data_in)) (ds_date (hd data_out));
            end_date = max (ds_date (last data_in)) (ds_date (last data_out))
        in daily_stats_loop data_in data_out none end_date 0 start_date)"

section \<open>What a request for an invoice leaves alone\<close>

lemma fake_invoice_books:
  "wd_payments (snd (fake_invoice ev a m dh ud x db)) = wd_payments db"
  "wd_wallets (snd (fake_invoice ev a m dh ud x db)) = wd_wallets db"
  "wd_sent (snd (fake_invoice ev a m dh ud x db)) = wd_sent db"
  by (simp_all add: fake_invoice_def fake_create_invoice_def Let_def)

lemma request_invoice_books:
  assumes "request_invoice ev cfg k a m db = (r, db')"
  shows "wd_payments db' = wd_payments db \<and> wd_wallets db' = wd_wallets db \<and> wd_sent db' = wd_sent db"
proof (cases "truthy (ik_payment_hash k)")
  case True
  then have "db' = db"
    using assms by (auto simp: request_invoice_def ret_def throw_def split: if_splits sum.splits exn.splits)
  then show ?thesis by simp
next
  case False
  then show ?thesis
    using assms fake_invoice_books [of ev a m "ik_description_hash k" "ik_unhashed_description k" _ db]
    by (auto simp: request_invoice_def Let_def liftE_def split: if_splits) (metis snd_conv)+
qed

end
