(* ===== verification/ServerSteps.thy ===== *)
theory ServerSteps
  imports PaymentAccounting InvoiceService
begin

text \<open>
  The server as a state machine: a step is one of the payment operations, run to its end with
  whatever outcome. The invariant says that checking ids stay unique, that a settled payment stays
  settled, and that the rows a payment hash has are never lost; with it, no payment hash is handed to
  the funding source twice in any run of the server.
\<close>

section \<open>Evolution of the payment table\<close>

definition same_payment :: "payment \<Rightarrow> payment \<Rightarrow> bool" where
  "same_payment p q \<longleftrightarrow> p_checking_id p = p_checking_id q \<and> p_payment_hash p = p_payment_hash q
     \<and> p_wallet_id p = p_wallet_id q \<and> p_amount p = p_amount q"

definition row_evolves :: "payment \<Rightarrow> payment \<Rightarrow> bool" where
  "row_evolves q q' \<longleftrightarrow> same_payment q' q \<and> (p_status q = SUCCESS \<longrightarrow> p_status q' = SUCCESS)"

definition tables_ok :: "world \<Rightarrow> bool" where
  "tables_ok db \<longleftrightarrow> wallet_ids_distinct db \<and> distinct (map p_checking_id (wd_payments db))"

definition evolves :: "world \<Rightarrow> world \<Rightarrow> bool" where
  "evolves db db' \<longleftrightarrow> tables_ok db'
     \<and> (\<exists>f new. wd_payments db' = map f (wd_payments db) @ new \<and> (\<forall>q \<in> set (wd_payments db). row_evolves q (f q)))"

lemma row_evolves_refl [simp]: "row_evolves q q"
  by (simp add: row_evolves_def same_payment_def)

lemma row_evolves_trans: "row_evolves a b \<Longrightarrow> row_evolves b c \<Longrightarrow> row_evolves a c"
  by (simp add: row_evolves_def same_payment_def)

lemma evolves_refl: "tables_ok db \<Longrightarrow> evolves db db"
  unfolding evolves_def by (intro conjI exI [of _ "\<lambda>q. q"] exI [of _ "[]"]) simp_all

lemma evolves_trans:
  assumes "evolves a b" "evolves b c" shows "evolves a c"
proof -
  from assms(1) obtain f n where b: "wd_payments b = map f (wd_payments a) @ n"
    and f: "\<forall>q \<in> set (wd_payments a). row_evolves q (f q)" unfolding evolves_def by blast
  from assms(2) obtain g k where c: "wd_payments c = map g (wd_payments b) @ k"
    and g: "\<forall>q \<in> set (wd_payments b). row_evolves q (g q)" and ok: "tables_ok c"
    unfolding evolves_def by blast
  have "wd_payments c = map (g \<circ> f) (wd_payments a) @ (map g n @ k)" by (simp add: b c)
  moreover have "\<forall>q \<in> set (wd_payments a). row_evolves q ((g \<circ> f) q)"
    using f g b by (auto intro: row_evolves_trans)
  ultimately show ?thesis unfolding evolves_def using ok by blast
qed

lemma evolves_ok: "evolves db db' \<Longrightarrow> tables_ok db'"
  by (simp add: evolves_def)

lemma evolves_row:
  assumes "evolves db db'" "q \<in> set (wd_payments db)"
  shows "\<exists>q' \<in> set (wd_payments db'). row_evolves q q'"
  using assms unfolding evolves_def by fastforce

lemma evolves_same_payments:
  "tables_ok db \<Longrightarrow> wd_payments db' = wd_payments db \<Longrightarrow> wallet_ids_distinct db' \<Longrightarrow> evolves db db'"
  unfolding evolves_def
  by (intro conjI exI [of _ "\<lambda>q. q"] exI [of _ "[]"]) (simp_all add: tables_ok_def)

lemma evolves_books: "tables_ok db \<Longrightarrow> same_books db db' \<Longrightarrow> evolves db db'"
  by (rule evolves_same_payments) (simp_all add: same_books_sel same_books_ids tables_ok_def)

lemma evolves_insert:
  assumes "tables_ok db" "\<forall>q \<in> set (wd_payments db). p_checking_id q \<noteq> p_checking_id p"
  shows "evolves db (insert_payment_row p db)"
  unfolding evolves_def
  by (intro conjI exI [of _ "\<lambda>q. q"] exI [of _ "[p]"]) (use assms in \<open>auto simp: tables_ok_def\<close>)

lemma evolves_create:
  assumes "create_payment ev cfg c d s db = (r, db')" "tables_ok db"
  shows "evolves db db' \<and> wd_sent db' = wd_sent db
         \<and> (\<forall>p. r = Inr p \<longrightarrow> p \<in> set (wd_payments db') \<and> p_status p = s)"
proof -
  have d: "wallet_ids_distinct db" using assms(2) by (simp add: tables_ok_def)
  from assms(1) d show ?thesis
  proof (cases rule: create_payment_cases)
    case (error e)
    then show ?thesis using evolves_books [OF assms(2)] by (simp add: same_books_sel)
  next
    case (created db1)
    have e: "evolves db db1" using evolves_books [OF assms(2) created(2)] .
    have "evolves db1 db'"
      unfolding created(3)
      by (rule evolves_insert [OF evolves_ok [OF e]])
        (use created(4) same_books_sel(1) [OF created(2)] in auto)
    then show ?thesis using e created(1,3) same_books_sel(6) [OF created(2)] by (auto intro: evolves_trans)
  qed
qed

text \<open>Writing a payment back over the row it was read from.\<close>

lemma evolves_update:
  assumes u: "update_payment ev p None db = (r, db')" and ok: "tables_ok db"
    and q: "q \<in> set (wd_payments db)" "same_payment p q" "p_status q = SUCCESS \<Longrightarrow> p_status p = SUCCESS"
  shows "evolves db db' \<and> wd_sent db' = wd_sent db \<and> r = Inr (p\<lparr>p_updated_at := e_now ev\<rparr>)
         \<and> p\<lparr>p_updated_at := e_now ev\<rparr> \<in> set (wd_payments db')"
proof -
  let ?p = "p\<lparr>p_updated_at := e_now ev\<rparr>"
  let ?f = "\<lambda>x. if p_checking_id x = p_checking_id ?p then ?p else x"
  have r: "r = Inr ?p" "db' = update_payment_row ?p db" using u by (simp_all add: update_payment_same_id)
  have ps: "wd_payments db' = map ?f (wd_payments db)" by (simp add: r(2) pt.rows_upd)
  have id: "p_checking_id ?p = p_checking_id q" using q(2) by (simp add: same_payment_def)
  have only: "x = q" if "x \<in> set (wd_payments db)" "p_checking_id x = p_checking_id ?p" for x
    using ok that q(1) id by (auto simp: tables_ok_def distinct_map dest: inj_onD)
  have "\<forall>x \<in> set (wd_payments db). row_evolves x (?f x)"
    using only q(2,3) by (auto simp: row_evolves_def same_payment_def)
  moreover have "tables_ok db'"
    using ok pt.keys_upd [of ?p db] by (simp add: tables_ok_def r(2))
  ultimately have "evolves db db'"
    unfolding evolves_def using ps by (intro conjI exI [of _ ?f] exI [of _ "[]"]) auto
  moreover have "?p \<in> set (wd_payments db')"
    unfolding r(2) by (rule pt.upd_member) (use q(1) id in \<open>simp add: rev_image_eqI\<close>)
  ultimately show ?thesis using r by simp
qed

section \<open>Actions under which the table evolves\<close>

definition safe :: "(world, 'a) py \<Rightarrow> bool" where
  "safe m \<longleftrightarrow> (\<forall>db. tables_ok db \<longrightarrow> evolves db (snd (m db)) \<and> wd_sent (snd (m db)) = wd_sent db)"

named_theorems safe_intro \<open>actions that let the payment table evolve\<close>

lemma safeD: "safe m \<Longrightarrow> m db = (r, db') \<Longrightarrow> tables_ok db \<Longrightarrow> evolves db db' \<and> wd_sent db' = wd_sent db"
  by (metis safe_def snd_conv)

lemma safe_reads: "reads m \<Longrightarrow> safe m"
  unfolding safe_def by (metis evolves_books readsD same_books_sel(6) tables_ok_def)

lemma safe_basic [safe_intro]:
  "safe (ret x)" "safe (throw e)" "safe (gets f)" "safe (liftE y)" "safe (failIf b e)"
  by (auto intro: safe_reads reads_intro)

lemma safe_bindP [safe_intro]:
  assumes m: "safe m" and k: "\<And>x. safe (k x)" shows "safe (bindP m k)"
  unfolding safe_def
proof (intro allI impI)
  fix db assume ok: "tables_ok db"
  obtain r db1 where r: "m db = (r, db1)" by fastforce
  note e = safeD [OF m r ok]
  show "evolves db (snd (bindP m k db)) \<and> wd_sent (snd (bindP m k db)) = wd_sent db"
  proof (cases r)
    case (Inl x)
    then show ?thesis using r e by (simp add: bindP_def)
  next
    case (Inr x)
    have "evolves db1 (snd (k x db1)) \<and> wd_sent (snd (k x db1)) = wd_sent db1"
      using k [of x] evolves_ok e unfolding safe_def by blast
    then show ?thesis using r Inr e by (auto simp: bindP_def intro: evolves_trans)
  qed
qed

lemma safe_thenP [safe_intro]: "safe m \<Longrightarrow> safe k \<Longrightarrow> safe (thenP m k)"
  by (simp add: thenP_def safe_bindP)

lemma safe_tryP [safe_intro]:
  assumes m: "safe m" and k: "\<And>x. safe (k x)" shows "safe (tryP m k)"
  unfolding safe_def
proof (intro allI impI)
  fix db assume ok: "tables_ok db"
  obtain r db1 where r: "m db = (r, db1)" by fastforce
  note e = safeD [OF m r ok]
  show "evolves db (snd (tryP m k db)) \<and> wd_sent (snd (tryP m k db)) = wd_sent db"
  proof (cases r)
    case (Inr x)
    then show ?thesis using r e by (simp add: tryP_def)
  next
    case (Inl x)
    have "evolves db1 (snd (k x db1)) \<and> wd_sent (snd (k x db1)) = wd_sent db1"
      using k [of x] evolves_ok e unfolding safe_def by blast
    then show ?thesis using r Inl e by (auto simp: tryP_def intro: evolves_trans)
  qed
qed

lemma safe_if [safe_intro]: "safe m \<Longrightarrow> safe n \<Longrightarrow> safe (if b then m else n)"
  by simp

lemma safe_case_option [safe_intro]:
  "safe m \<Longrightarrow> (\<And>x. safe (n x)) \<Longrightarrow> safe (case v of None \<Rightarrow> m | Some x \<Rightarrow> n x)"
  by (cases v) auto

lemma safe_case_prod [safe_intro]: "(\<And>a b. safe (f a b)) \<Longrightarrow> safe (case x of (a, b) \<Rightarrow> f a b)"
  by (cases x) auto

lemma safe_modify: "(\<And>db. wd_payments (f db) = wd_payments db \<and> wd_wallets (f db) = wd_wallets db
    \<and> wd_sent (f db) = wd_sent db) \<Longrightarrow> safe (modify f)"
  unfolding safe_def modify_def
  by (auto intro!: evolves_same_payments simp: tables_ok_def wallet_ids_distinct_def)

lemma safe_queue [safe_intro]:
  "safe (modify (\<lambda>db. db\<lparr>wd_internal_queue := f db\<rparr>))" "safe (modify (\<lambda>db. db\<lparr>wd_invoice_queue := g db\<rparr>))"
  "safe (modify (\<lambda>db. db\<lparr>wd_notified := h db\<rparr>))"
  by (auto intro: safe_modify)

lemma safe_create [safe_intro]: "safe (create_payment ev cfg c d s)"
  unfolding safe_def by (metis evolves_create prod.collapse)

lemma safe_get_wallet [safe_intro]: "safe (get_wallet ev cfg wid d)"
  by (rule safe_reads [OF reads_get_wallet])

lemma safe_notify [safe_intro]: "safe (send_payment_notification_bg ev cfg wid p)"
  unfolding send_payment_notification_bg_def by (intro safe_intro)

lemma safe_fiat_confirmation [safe_intro]: "safe (handle_fiat_payment_confirmation ev cfg p)"
  unfolding handle_fiat_payment_confirmation_def credit_fiat_service_fee_wallet_def
    debit_fiat_service_faucet_wallet_def
  by (intro safe_intro)

lemma safe_service_fee [safe_intro]: "safe (credit_service_fee_wallet ev cfg w p)"
  unfolding credit_service_fee_wallet_def Let_def by (intro safe_intro)

section \<open>The status of a payment\<close>

text \<open>
  Asking for the status of a row either changes nothing, or a fiat provider confirmed it: then the
  row is settled and the object that is returned is the row.
\<close>

lemma check_fiat_cases:
  assumes "check_fiat_status ev cfg p db = (r, db')" and ok: "tables_ok db"
    and p: "p \<in> set (wd_payments db)"
  shows "evolves db db' \<and> wd_sent db' = wd_sent db
     \<and> (\<forall>st p'. r = Inr (st, p') \<longrightarrow>
          (p' = p \<and> db' = db \<and> (ps_success st \<longrightarrow> p_status p = SUCCESS))
          \<or> (ps_success st \<and> p_status p' = SUCCESS \<and> same_payment p' p))"
proof (cases "\<exists>c st. dget (p_extra p) ''fiat_checking_id'' = Some (JStr c) \<and> c \<noteq> []
      \<and> is_internal p \<and> \<not> p_success p \<and> \<not> p_failed p \<and> truthy (p_fiat_provider p)
      \<and> the (p_fiat_provider p) \<in> set fiat_provider_types
      \<and> fiat_provider_status ev (the (p_fiat_provider p)) c = Some st \<and> ps_success st")
  case False
  then have "db' = db \<and> (\<forall>st p'. r = Inr (st, p') \<longrightarrow> p' = p \<and> (ps_success st \<longrightarrow> p_status p = SUCCESS))"
    using assms(1)
    by (auto simp: check_fiat_status_def ret_def throw_def ps_success_def PaymentPendingStatus_def
        PaymentFailedStatus_def p_success_def split: if_splits option.splits jval.splits)
  then show ?thesis using evolves_refl [OF ok] by auto
next
  case True
  then obtain c st where c: "dget (p_extra p) ''fiat_checking_id'' = Some (JStr c)" "c \<noteq> []"
    "is_internal p" "\<not> p_success p" "\<not> p_failed p" "truthy (p_fiat_provider p)"
    "the (p_fiat_provider p) \<in> set fiat_provider_types"
    "fiat_provider_status ev (the (p_fiat_provider p)) c = Some st" "ps_success st" by blast
  let ?k = "\<lambda>payment'. thenP (handle_fiat_payment_confirmation ev cfg payment')
      (thenP (modify (\<lambda>db. db\<lparr>wd_internal_queue := wd_internal_queue db @ [payment']\<rparr>))
      (ret (st, payment')))"
  let ?p = "p\<lparr>p_status := SUCCESS, p_updated_at := e_now ev\<rparr>"
  obtain u db1 where u: "update_payment ev (p\<lparr>p_status := SUCCESS\<rparr>) None db = (u, db1)" by fastforce
  have e: "evolves db db1 \<and> wd_sent db1 = wd_sent db \<and> u = Inr ?p"
    using evolves_update [OF u ok p] by (simp add: same_payment_def)
  have run: "?k ?p db1 = (r, db')"
    using assms(1) c u e by (simp add: check_fiat_status_def bindP_def)
  have "safe (?k ?p)" by (intro safe_intro)
  from safeD [OF this run] e have "evolves db db' \<and> wd_sent db' = wd_sent db"
    using evolves_ok evolves_trans by metis
  moreover have "\<forall>x y. r = Inr (x, y) \<longrightarrow> x = st \<and> y = ?p"
    using run by (auto simp: thenP_def bindP_def modify_def ret_def split: sum.splits prod.splits)
  ultimately show ?thesis using c(9) by (auto simp: same_payment_def)
qed

lemma check_status_cases:
  assumes "check_payment_status ev cfg p db = (r, db')" and ok: "tables_ok db"
    and p: "p \<in> set (wd_payments db)"
  shows "evolves db db' \<and> wd_sent db' = wd_sent db
     \<and> (\<forall>st p'. r = Inr (st, p') \<longrightarrow>
          (p' = p \<and> db' = db) \<or> (ps_success st \<and> p_status p' = SUCCESS \<and> same_payment p' p))"
proof (cases "is_internal p \<and> \<not> p_success p \<and> \<not> p_failed p \<and> is_in p \<and> truthy (p_fiat_provider p)")
  case True
  obtain u db1 where u: "check_fiat_status ev cfg p db = (u, db1)" by fastforce
  have "db' = db1" "(\<exists>e. r = Inl e) \<or> (\<exists>st p'. u = Inr (st, p')
      \<and> r = Inr (\<lparr>paid = paid st, ps_fee_msat = None, ps_preimage = None\<rparr>, p'))"
    using assms(1) True u
    by (auto simp: check_payment_status_def bindP_def ret_def split: sum.splits prod.splits)
  then show ?thesis using check_fiat_cases [OF u ok p] by (auto simp: ps_success_def)
next
  case False
  then have "db' = db \<and> (\<forall>st p'. r = Inr (st, p') \<longrightarrow> p' = p)"
    using assms(1)
    by (auto simp: check_payment_status_def ret_def bindP_def liftE_def split: if_splits sum.splits)
  then show ?thesis using evolves_refl [OF ok] by auto
qed

text \<open>Writing a payment back in a later state than the one it was read in.\<close>

lemma update_later:
  assumes e: "evolves db db1" and p: "p \<in> set (wd_payments db)"
    and u: "update_payment ev q None db1 = (r, db')" and q: "same_payment q p" "p_status q = SUCCESS"
  shows "evolves db db' \<and> wd_sent db' = wd_sent db1"
proof -
  from evolves_row [OF e p] obtain p1 where p1: "p1 \<in> set (wd_payments db1)" "same_payment p1 p"
    by (auto simp: row_evolves_def)
  have "same_payment q p1" using p1(2) q(1) by (simp add: same_payment_def)
  with evolves_update [OF u evolves_ok [OF e] p1(1)] q(2) show ?thesis
    using evolves_trans [OF e] by blast
qed

lemma success_row_same: "same_payment (success_row cfg p st) p" "p_status (success_row cfg p st) = SUCCESS"
  by (simp_all add: success_row_def same_payment_def)

lemma same_payment_trans: "same_payment a b \<Longrightarrow> same_payment b c \<Longrightarrow> same_payment a c"
  by (simp add: same_payment_def)

lemma evolves_update_pending:
  assumes "update_pending_payment ev cfg p db = (r, db')" and ok: "tables_ok db"
    and p: "p \<in> set (wd_payments db)" "p_status p \<noteq> SUCCESS"
  shows "evolves db db' \<and> wd_sent db' = wd_sent db"
proof (cases "is_in p \<and> is_expired (e_now ev) p")
  case True
  then have "update_payment ev (p\<lparr>p_status := FAILED, p_labels := p_labels p @ [''expired'']\<rparr>) None db = (r, db')"
    using assms(1) by (simp add: update_pending_payment_def)
  from evolves_update [OF this ok p(1)] p(2) show ?thesis by (simp add: same_payment_def)
next
  case False
  obtain u db1 where u: "check_payment_status ev cfg p db = (u, db1)" by fastforce
  note c = check_status_cases [OF u ok p(1)]
  have run: "(case u of Inl e \<Rightarrow> (Inl e, db1) | Inr (st, p') \<Rightarrow>
      (if ps_failed st then update_payment ev (p'\<lparr>p_status := FAILED\<rparr>) None db1
       else if ps_success st then update_payment_success_status ev cfg p' st None db1
       else (Inr p', db1))) = (r, db')"
    using assms(1) False u
    by (auto simp: update_pending_payment_def bindP_def ret_def split: sum.splits prod.splits)
  show ?thesis
  proof (cases u)
    case (Inl e)
    then show ?thesis using run c by simp
  next
    case (Inr x)
    obtain st p' where x: "x = (st, p')" by fastforce
    have cc: "(p' = p \<and> db1 = db) \<or> (ps_success st \<and> p_status p' = SUCCESS \<and> same_payment p' p)"
      using c Inr x by blast
    consider (failed) "ps_failed st" | (success) "\<not> ps_failed st" "ps_success st"
      | (unclear) "\<not> ps_failed st" "\<not> ps_success st" by blast
    then show ?thesis
    proof cases
      case failed
      then have "p' = p" "db1 = db" using cc by (auto simp: ps_success_def ps_failed_def)
      then have "update_payment ev (p\<lparr>p_status := FAILED\<rparr>) None db = (r, db')"
        using run Inr x failed by simp
      from evolves_update [OF this ok p(1)] p(2) show ?thesis by (simp add: same_payment_def)
    next
      case success
      then have up: "update_payment ev (success_row cfg p' st) None db1 = (r, db')"
        using run Inr x by (simp add: update_payment_success_status_def)
      have "same_payment p' p" using cc by (auto simp: same_payment_def)
      then have "same_payment (success_row cfg p' st) p"
        using success_row_same(1) same_payment_trans by metis
      from update_later [OF _ p(1) up this success_row_same(2)] c show ?thesis by simp
    next
      case unclear
      then have "db' = db" using run Inr x cc by auto
      then show ?thesis using evolves_refl [OF ok] by simp
    qed
  qed
qed

section \<open>Paying\<close>

lemma evolves_verify:
  assumes "verify_external_payment ev cfg p db = (r, db')" and ok: "tables_ok db"
    and p: "p \<in> set (wd_payments db)"
  shows "evolves db db' \<and> wd_sent db' = wd_sent db"
proof (cases "p_status p = FAILED")
  case False
  then have "db' = db" using verify_not_failed [OF assms(1)] by blast
  then show ?thesis using evolves_refl [OF ok] by simp
next
  case True
  obtain u db1 where u: "check_payment_status ev cfg p db = (u, db1)" by fastforce
  note c = check_status_cases [OF u ok p]
  have run: "(case u of Inl e \<Rightarrow> (Inl e, db1) | Inr (st, p') \<Rightarrow>
      (if ps_failed st then (Inl (PaymentError ''Payment is failed node, retrying is not possible.'' ''failed''), db1)
       else if ps_success st then
         bindP (update_payment_success_status ev cfg p' st None)
           (\<lambda>_. throw (PaymentError ''Failed payment was already paid on the fundingsource.'' ''success'')) db1
       else (Inr p', db1))) = (r, db')"
    using assms(1) True u
    by (auto simp: verify_external_payment_def thenP_failIf p_pending_def p_success_def
        bindP_def [of "check_payment_status _ _ _"] ret_def throw_def split: sum.splits prod.splits)
  show ?thesis
  proof (cases "\<exists>st p'. u = Inr (st, p') \<and> \<not> ps_failed st \<and> ps_success st")
    case False
    then have "db' = db1" using run by (auto split: sum.splits prod.splits if_splits)
    then show ?thesis using c by simp
  next
    case True
    then obtain st p' where x: "u = Inr (st, p')" "\<not> ps_failed st" "ps_success st" by blast
    obtain v db2 where up: "update_payment ev (success_row cfg p' st) None db1 = (v, db2)" by fastforce
    have "db' = db2" using run x up
      by (auto simp: update_payment_success_status_def bindP_def throw_def split: sum.splits)
    moreover have "same_payment p' p" using c x by (auto simp: same_payment_def)
    then have "same_payment (success_row cfg p' st) p"
      using success_row_same(1) same_payment_trans by metis
    ultimately show ?thesis using update_later [OF _ p up _ success_row_same(2)] c by simp
  qed
qed

text \<open>The funding source gives a payment the payment hash as its id, or no id.\<close>

definition ids_are_hashes :: "env \<Rightarrow> bool" where
  "ids_are_hashes ev \<longleftrightarrow> (\<forall>b l r c. fs_pay ev b l = PayResponse r \<longrightarrow> pr_checking_id r = Some c \<longrightarrow>
     (\<exists>d. e_decode ev b = Some d \<and> di_payment_hash d = c))"

lemma update_payment_own_id:
  "n = None \<or> n = Some (p_checking_id p) \<Longrightarrow> update_payment ev p n = update_payment ev p None"
  by (auto simp: update_payment_def Let_def)

lemma evolves_handle_outcome:
  assumes run: "handle_pay_outcome ev cfg w p outcome db = (r, db')" and ok: "tables_ok db"
    and p: "p \<in> set (wd_payments db)" "p_status p = PENDING"
    and own: "\<And>a. outcome = PayResponse a \<Longrightarrow> pr_checking_id a = None \<or> pr_checking_id a = Some (p_checking_id p)"
  shows "evolves db db' \<and> wd_sent db' = wd_sent db"
proof (cases outcome)
  case PayTimeout
  then show ?thesis using run evolves_refl [OF ok] by (simp add: handle_pay_outcome_def ret_def)
next
  case (PayRaised e)
  then show ?thesis using run evolves_refl [OF ok] by (simp add: handle_pay_outcome_def throw_def)
next
  case (PayResponse a)
  consider (failed) "pr_failed a" | (success) "\<not> pr_failed a" "pr_success a"
    | (unclear) "\<not> pr_failed a" "\<not> pr_success a" by blast
  then show ?thesis
  proof cases
    case failed
    obtain u db1 where u: "update_payment ev (p\<lparr>p_status := FAILED\<rparr>) None db = (u, db1)" by fastforce
    have "db' = db1" using run PayResponse failed u
      by (auto simp: handle_pay_outcome_def bindP_def throw_def split: sum.splits)
    then show ?thesis using evolves_update [OF u ok p(1)] p(2) by (simp add: same_payment_def)
  next
    case success
    let ?q = "success_row cfg p (response_status a)"
    let ?k = "\<lambda>p'. thenP (send_payment_notification_bg ev cfg (w_id w) p') (ret p')"
    have "p_checking_id ?q = p_checking_id p" by (simp add: success_row_def)
    then have own': "update_payment ev ?q (pr_checking_id a) = update_payment ev ?q None"
      using own [OF PayResponse] by (intro update_payment_own_id) auto
    obtain u db1 where u: "update_payment ev ?q None db = (u, db1)" by fastforce
    note e = evolves_update [OF u ok p(1) success_row_same]
    have "ps_success (response_status a)"
      using success by (simp add: response_status_def pr_success_def ps_success_def)
    then have "bindP (update_payment ev ?q None) ?k db = (r, db')"
      using run PayResponse success own' by (simp add: handle_pay_outcome_def update_payment_success_status_def)
    then have "?k (?q\<lparr>p_updated_at := e_now ev\<rparr>) db1 = (r, db')"
      using u e by (simp add: bindP_def)
    moreover have "safe (?k (?q\<lparr>p_updated_at := e_now ev\<rparr>))" by (intro safe_intro)
    ultimately have "evolves db1 db' \<and> wd_sent db' = wd_sent db1"
      using safeD evolves_ok e by blast
    then show ?thesis using e evolves_trans by metis
  next
    case unclear
    have "\<not> (truthy (pr_checking_id a) \<and> pr_checking_id a \<noteq> Some (p_checking_id p))"
      using own [OF PayResponse] by auto
    then have "db' = db"
      using run PayResponse unclear by (auto simp: handle_pay_outcome_def ret_def split: if_splits)
    then show ?thesis using evolves_refl [OF ok] by simp
  qed
qed

lemma evolves_pay_locked:
  assumes run: "pay_invoice_locked ev cfg wid m db = (r, db')" and ok: "tables_ok db"
    and ids: "ids_are_hashes ev" "e_decode ev (cp_bolt11 m) = Some d" "di_payment_hash d = cp_payment_hash m"
  shows "evolves db db'
     \<and> (wd_sent db' = wd_sent db
        \<or> (\<not> known_hash db (cp_payment_hash m) \<and> (\<exists>l. wd_sent db' = wd_sent db @ [(cp_bolt11 m, l)])
           \<and> (\<exists>q \<in> set (wd_payments db'). p_payment_hash q = cp_payment_hash m)))"
proof -
  have dist: "wallet_ids_distinct db" using ok by (simp add: tables_ok_def)
  from run dist show ?thesis
  proof (cases rule: pay_locked_cases)
    case (no_wallet e)
    then show ?thesis using evolves_books [OF ok] by (simp add: same_books_sel)
  next
    case (internal w db1 z)
    note e1 = evolves_books [OF ok internal(2)]
    have d1: "wallet_ids_distinct db1" using internal(2) dist by (simp add: same_books_ids)
    note sel = same_books_sel [OF internal(2)]
    from internal(3) d1 show ?thesis
    proof (cases rule: pay_internal_cases)
      case not_internal
      then show ?thesis using internal(4) by simp
    next
      case (error e)
      then show ?thesis
        using evolves_trans [OF e1 evolves_books [OF evolves_ok [OF e1] error(2)]] sel
        by (simp add: same_books_sel)
    next
      case (paid ip inv)
      let ?p = "internal_row ev cfg m (p_preimage inv)"
      let ?d = "insert_payment_row ?p db1"
      have id: "p_checking_id ?p = ''internal_'' @ cp_payment_hash m" by (simp add: internal_row_def)
      have e2: "evolves db1 ?d"
        by (rule evolves_insert [OF evolves_ok [OF e1]]) (use paid(5) id in auto)
      have mem: "ip \<in> set (wd_payments ?d)" using check_internal_Some [OF paid(1)] by simp
      obtain u db2 where u: "update_payment ev (ip\<lparr>p_status := SUCCESS\<rparr>) None ?d = (u, db2)" by fastforce
      have "evolves ?d db2"
        using evolves_update [OF u evolves_ok [OF e2] mem] by (simp add: same_payment_def)
      then have e3: "evolves db1 db2" by (rule evolves_trans [OF e2])
      have "wd_payments db' = wd_payments db2"
        using u paid(6) by (simp add: update_payment_same_id)
      then have "evolves db2 db'"
        using evolves_same_payments [OF evolves_ok [OF e3]] paid(8) by blast
      then have "evolves db1 db'" by (rule evolves_trans [OF e3])
      then show ?thesis using evolves_trans [OF e1] paid(8) sel by metis
    qed
  next
    case (external w db1)
    note e1 = evolves_books [OF ok external(2)]
    note sel = same_books_sel [OF external(2)]
    have d1: "wallet_ids_distinct db1" using external(2) dist by (simp add: same_books_ids)
    from external(4) d1 show ?thesis
    proof (cases rule: pay_external_cases)
      case (refused e)
      then show ?thesis
        using evolves_trans [OF e1 evolves_books [OF evolves_ok [OF e1] refused(2)]] sel
        by (simp add: same_books_sel)
    next
      case (repeated old)
      have "old \<in> set (wd_payments db1)" using select_standalone_Some [OF repeated(1)] by blast
      from evolves_verify [OF repeated(2) evolves_ok [OF e1] this] show ?thesis
        using evolves_trans [OF e1] sel by metis
    next
      case (sent db2)
      let ?p = "external_row ev cfg m"
      let ?l = "fee_reserve cfg (cp_amount_msat m) False"
      let ?s = "db2\<lparr>wd_sent := wd_sent db2 @ [(cp_bolt11 m, ?l)]\<rparr>"
      let ?d = "insert_payment_row ?p ?s"
      have p: "p_checking_id ?p = cp_payment_hash m" "p_payment_hash ?p = cp_payment_hash m" "p_status ?p = PENDING"
        by (simp_all add: external_row_def)
      note e2 = evolves_books [OF evolves_ok [OF e1] sent(2)]
      note sel2 = same_books_sel [OF sent(2)]
      have e3: "evolves db2 ?s"
        by (rule evolves_same_payments [OF evolves_ok [OF e2]])
          (use evolves_ok [OF e2] in \<open>simp_all add: tables_ok_def wallet_ids_distinct_def\<close>)
      have e4: "evolves ?s ?d"
        by (rule evolves_insert [OF evolves_ok [OF e3]]) (use sent(1) p(1) sel2 in \<open>auto simp: known_hash_def\<close>)
      have own: "pr_checking_id a = None \<or> pr_checking_id a = Some (p_checking_id ?p)"
        if fp: "fs_pay ev (cp_bolt11 m) ?l = PayResponse a" for a
      proof (cases "pr_checking_id a")
        case (Some c)
        then obtain d' where "e_decode ev (cp_bolt11 m) = Some d'" "di_payment_hash d' = c"
          using ids(1) fp unfolding ids_are_hashes_def by blast
        then show ?thesis using Some ids(2,3) p(1) by simp
      qed simp
      have h: "evolves ?d db' \<and> wd_sent db' = wd_sent ?d"
        by (rule evolves_handle_outcome [OF sent(4) evolves_ok [OF e4] _ p(3) own]) simp_all
      have "evolves db ?d" using e1 e2 e3 e4 evolves_trans by blast
      moreover have "\<exists>q \<in> set (wd_payments db'). p_payment_hash q = cp_payment_hash m"
        using evolves_row [of ?d db' ?p] h p(2) by (auto simp: row_evolves_def same_payment_def)
      moreover have "\<not> known_hash db (cp_payment_hash m)" using sent(1) sel by (simp add: known_hash_def)
      ultimately show ?thesis using h sel sel2 evolves_trans by auto
    qed
  qed
qed

text \<open>The whole of \<open>pay_invoice\<close>: the checks read, the service fee is one more row.\<close>

lemma pay_invoice_run:
  assumes "\<not> lnbits_only_allow_incoming_payments cfg" "validate_payment_request ev cfg pr ms = Inr d"
    "di_amount_msat d = Some a" "0 < a"
    "check_wallet_for_payment ev cfg wid tag a db = (Inr w, db1)" "can_send_payments w"
    "\<not> is_internal_status_success (di_payment_hash d) db1"
    "calculate_fiat_amounts ev cfg (idiv_float a 1000) w None x = Inr (n, x')" "validate_external_id eid = Inr z"
  shows "pay_invoice ev cfg wid pr ms x de tag ls eid db =
     bindP (pay_invoice_locked ev cfg (source_wallet_id w)
        \<lparr>cp_wallet_id = source_wallet_id w, cp_payment_hash = di_payment_hash d,
         cp_bolt11 = pr, cp_amount_msat = - a,
         cp_memo = the (orElse (Some de) (orElse (di_description d) (Some []))),
         cp_extra = x', cp_extension = None, cp_preimage = None,
         cp_expiry = di_expiry_date d, cp_webhook = None, cp_fee = 0,
         cp_labels = ls, cp_external_id = eid\<rparr>)
       (\<lambda>p. thenP (credit_service_fee_wallet ev cfg w p) (ret p)) db1"
  using assms
  by (simp add: pay_invoice_def bindP_def [of "check_wallet_for_payment _ _ _ _ _"] thenP_failIf Let_def)

lemma pay_invoice_cases:
  assumes run: "pay_invoice ev cfg wid pr ms x de tag ls eid db = (r, db')" and dist: "wallet_ids_distinct db"
  obtains (refused) e where "r = Inl e" "same_books db db'"
  | (locked) d w m db1 y db2 where "e_decode ev pr = Some d" "same_books db db1"
      "can_send_payments w" "cp_wallet_id m = source_wallet_id w" "cp_bolt11 m = pr"
      "cp_payment_hash m = di_payment_hash d" "\<exists>a > 0. di_amount_msat d = Some a \<and> cp_amount_msat m = - a"
      "\<not> is_internal_status_success (di_payment_hash d) db"
      "pay_invoice_locked ev cfg (source_wallet_id w) m db1 = (y, db2)"
      "(case y of Inl e \<Rightarrow> (Inl e, db2)
        | Inr p \<Rightarrow> thenP (credit_service_fee_wallet ev cfg w p) (ret p) db2) = (r, db')"
proof (cases "lnbits_only_allow_incoming_payments cfg")
  case True
  then have "r = Inl (PaymentError ''Only incoming payments allowed.'' ''failed'')" "db' = db"
    using run by (simp_all add: pay_invoice_def throw_def)
  then show ?thesis using refused by simp
next
  case allowed: False
  show ?thesis
  proof (cases "validate_payment_request ev cfg pr ms")
    case (Inl e)
    then have "r = Inl e" "db' = db" using run allowed by (simp_all add: pay_invoice_def throw_def)
    then show ?thesis using refused by simp
  next
    case (Inr d)
    then have d: "e_decode ev pr = Some d" and pos: "\<exists>a > 0. di_amount_msat d = Some a"
      by (auto simp: validate_payment_request_def Let_def split: option.splits if_splits)
    then obtain a where a: "di_amount_msat d = Some a" "0 < a" by blast
    obtain c db1 where c: "check_wallet_for_payment ev cfg wid tag a db = (c, db1)" by fastforce
    have rd: "reads (check_wallet_for_payment ev cfg wid tag a)"
      unfolding check_wallet_for_payment_def by (intro reads_intro)
    have sb: "same_books db db1" using readsD [OF rd dist] c by simp
    show ?thesis
    proof (cases c)
      case (Inl e)
      then have "r = Inl e" "db' = db1"
        using run allowed Inr a c by (simp_all add: pay_invoice_def bindP_def [of "check_wallet_for_payment _ _ _ _ _"])
      then show ?thesis using refused sb by blast
    next
      case w: (Inr w)
      let ?paid = "is_internal_status_success (di_payment_hash d) db1"
      show ?thesis
      proof (cases "can_send_payments w \<and> \<not> ?paid \<and> (\<exists>z. calculate_fiat_amounts ev cfg (idiv_float a 1000) w None x = Inr z)
          \<and> (\<exists>z. validate_external_id eid = Inr z)")
        case False
        then have "(\<exists>e. r = Inl e) \<and> db' = db1"
          using run allowed Inr a c w
          by (cases "calculate_fiat_amounts ev cfg (idiv_float a 1000) w None x"; cases "validate_external_id eid")
            (auto simp: pay_invoice_def bindP_def [of "check_wallet_for_payment _ _ _ _ _"] thenP_failIf
              throw_def split: if_splits)
        then show ?thesis using refused sb by blast
      next
        case True
        then obtain n x' z where ok: "calculate_fiat_amounts ev cfg (idiv_float a 1000) w None x = Inr (n, x')"
          "validate_external_id eid = Inr z" by auto
        let ?m = "\<lparr>cp_wallet_id = source_wallet_id w, cp_payment_hash = di_payment_hash d,
               cp_bolt11 = pr, cp_amount_msat = - a,
               cp_memo = the (orElse (Some de) (orElse (di_description d) (Some []))),
               cp_extra = x', cp_extension = None, cp_preimage = None,
               cp_expiry = di_expiry_date d, cp_webhook = None, cp_fee = 0,
               cp_labels = ls, cp_external_id = eid\<rparr>"
        obtain y db2 where y: "pay_invoice_locked ev cfg (source_wallet_id w) ?m db1 = (y, db2)" by fastforce
        have "bindP (pay_invoice_locked ev cfg (source_wallet_id w) ?m)
            (\<lambda>p. thenP (credit_service_fee_wallet ev cfg w p) (ret p)) db1 = (r, db')"
          using run pay_invoice_run [OF allowed Inr a c [unfolded w] _ _ ok] True by simp
        then have "(case y of Inl e \<Rightarrow> (Inl e, db2)
            | Inr p \<Rightarrow> thenP (credit_service_fee_wallet ev cfg w p) (ret p) db2) = (r, db')"
          by (simp only: bindP_def y prod.case)
        moreover have "\<not> is_internal_status_success (di_payment_hash d) db"
          using True same_books_sel(1) [OF sb] by (simp add: is_internal_status_success_def)
        ultimately show ?thesis
          using locked [OF d sb _ _ _ _ _ _ y] True a by simp
      qed
    qed
  qed
qed

lemma evolves_pay_invoice:
  assumes run: "pay_invoice ev cfg wid pr ms x de tag ls eid db = (r, db')" and ok: "tables_ok db"
    and ids: "ids_are_hashes ev"
  shows "evolves db db'
     \<and> (wd_sent db' = wd_sent db
        \<or> (\<exists>d l. e_decode ev pr = Some d \<and> \<not> known_hash db (di_payment_hash d)
             \<and> wd_sent db' = wd_sent db @ [(pr, l)]
             \<and> (\<exists>q \<in> set (wd_payments db'). p_payment_hash q = di_payment_hash d)))"
proof -
  have dist: "wallet_ids_distinct db" using ok by (simp add: tables_ok_def)
  from run dist show ?thesis
  proof (cases rule: pay_invoice_cases)
    case (refused e)
    then show ?thesis using evolves_books [OF ok] by (simp add: same_books_sel)
  next
    case (locked d w m db1 y db2)
    note e1 = evolves_books [OF ok locked(2)]
    note sel = same_books_sel [OF locked(2)]
    have "e_decode ev (cp_bolt11 m) = Some d" using locked(1,5) by simp
    from evolves_pay_locked [OF locked(9) evolves_ok [OF e1] ids this] locked(5,6)
    have e2: "evolves db1 db2" and s2: "wd_sent db2 = wd_sent db1
        \<or> (\<not> known_hash db1 (di_payment_hash d) \<and> (\<exists>l. wd_sent db2 = wd_sent db1 @ [(pr, l)])
           \<and> (\<exists>q \<in> set (wd_payments db2). p_payment_hash q = di_payment_hash d))" by simp_all
    have e3: "evolves db2 db' \<and> wd_sent db' = wd_sent db2"
    proof (cases y)
      case (Inl e)
      then show ?thesis using locked(10) evolves_refl [OF evolves_ok [OF e2]] by simp
    next
      case (Inr p)
      have "safe (thenP (credit_service_fee_wallet ev cfg w p) (ret p))" by (intro safe_intro)
      from safeD [OF this _ evolves_ok [OF e2]] Inr locked(10) show ?thesis by simp
    qed
    have known: "known_hash db1 h = known_hash db h" for h using sel by (simp add: known_hash_def)
    show ?thesis
    proof (cases "wd_sent db2 = wd_sent db1")
      case True
      then show ?thesis using e1 e2 e3 sel evolves_trans by metis
    next
      case False
      with s2 obtain l q where q: "\<not> known_hash db1 (di_payment_hash d)" "wd_sent db2 = wd_sent db1 @ [(pr, l)]"
        "q \<in> set (wd_payments db2)" "p_payment_hash q = di_payment_hash d" by blast
      from evolves_row [OF _ q(3)] e3 obtain q' where "q' \<in> set (wd_payments db')" "row_evolves q q'" by blast
      then have "\<exists>q \<in> set (wd_payments db'). p_payment_hash q = di_payment_hash d"
        using q(4) by (auto simp: row_evolves_def same_payment_def)
      moreover have "evolves db db'" using e1 e2 e3 evolves_trans by blast
      ultimately show ?thesis using q(1,2) e3 sel known locked(1) by auto
    qed
  qed
qed

end
