(* ===== verification/ServerRuns.thy ===== *)
theory ServerRuns
  imports ServerSteps
begin

text \<open>
  Runs of the server: the step relation over the payment operations and what every reachable state
  satisfies.
\<close>

section \<open>Invoices\<close>

lemma safe_case_sum [safe_intro]:
  "(\<And>a. safe (f a)) \<Longrightarrow> (\<And>b. safe (g b)) \<Longrightarrow> safe (case x of Inl a \<Rightarrow> f a | Inr b \<Rightarrow> g b)"
  by (cases x) auto

lemma safe_fake_invoice [safe_intro]: "safe (fake_invoice ev a m dh ud x)"
  unfolding safe_def fake_invoice_def
  by (auto intro!: evolves_same_payments simp: tables_ok_def wallet_ids_distinct_def
      fake_create_invoice_def Let_def)

lemma safe_request_invoice [safe_intro]: "safe (request_invoice ev cfg k a m)"
  unfolding request_invoice_def Let_def
  by (intro safe_intro) (simp add: safe_intro split: exn.split)

lemma safe_create_invoice [safe_intro]: "safe (create_invoice ev cfg wid k)"
  unfolding create_invoice_def Let_def by (intro safe_intro)

lemma safe_create_wallet_invoice [safe_intro]: "safe (create_wallet_invoice ev cfg wid d)"
  unfolding create_wallet_invoice_def Let_def by (intro safe_intro)

text \<open>A result of \<open>create_invoice\<close> is a new pending row.\<close>

definition yields :: "(world, 'a) py \<Rightarrow> (world \<Rightarrow> 'a \<Rightarrow> world \<Rightarrow> bool) \<Rightarrow> bool" where
  "yields m Q \<longleftrightarrow> (\<forall>db x db'. tables_ok db \<longrightarrow> m db = (Inr x, db') \<longrightarrow> Q db x db')"

lemma yields_bindP:
  assumes "safe m" and "\<And>x. yields (k x) (\<lambda>_. Q)" shows "yields (bindP m k) (\<lambda>_. Q)"
  using assms unfolding yields_def
  by (metis bindP_Inr_iff evolves_ok safeD)

lemma yields_thenP: "safe m \<Longrightarrow> yields k (\<lambda>_. Q) \<Longrightarrow> yields (thenP m k) (\<lambda>_. Q)"
  by (simp add: thenP_def yields_bindP)

lemma yields_throw: "yields (throw e) Q"
  by (simp add: yields_def throw_def)

lemma yields_option:
  "yields m Q \<Longrightarrow> (\<And>x. yields (n x) Q) \<Longrightarrow> yields (case v of None \<Rightarrow> m | Some x \<Rightarrow> n x) Q"
  by (cases v) auto

lemma yields_prod: "(\<And>a b. yields (f a b) Q) \<Longrightarrow> yields (case x of (a, b) \<Rightarrow> f a b) Q"
  by (cases x) auto

lemma yields_create:
  "yields (create_payment ev cfg c d s) (\<lambda>_ p db'. p \<in> set (wd_payments db') \<and> p_status p = s)"
  unfolding yields_def by (metis evolves_create)

lemmas yields_intro = yields_bindP yields_thenP yields_throw yields_option yields_prod yields_create

lemma create_invoice_row:
  "yields (create_invoice ev cfg wid k) (\<lambda>_ p db'. p \<in> set (wd_payments db') \<and> p_status p = PENDING)"
  unfolding create_invoice_def Let_def by (intro yields_intro safe_intro)

lemma evolves_update_balance:
  assumes run: "update_wallet_balance ev cfg w a memo db = (r, db')" and ok: "tables_ok db"
  shows "evolves db db' \<and> wd_sent db' = wd_sent db"
proof -
  let ?neg = "update_wallet_balance ev cfg w a memo"
  let ?k = "\<lambda>payment. bindP (update_payment ev (payment\<lparr>p_status := SUCCESS\<rparr>) None) (\<lambda>payment'.
            modify (\<lambda>db. db\<lparr>wd_internal_queue := wd_internal_queue db @ [payment']\<rparr>))"
  consider (zero) "a = 0" | (neg) "a < 0" | (pos) "a > 0" by linarith
  then show ?thesis
  proof cases
    case zero
    then have "db' = db" using run by (simp add: update_wallet_balance_def throw_def)
    then show ?thesis using evolves_refl [OF ok] by simp
  next
    case neg
    have "safe ?neg"
      unfolding update_wallet_balance_def Let_def if_P [OF neg] by (intro safe_intro)
    from safeD [OF this run ok] show ?thesis .
  next
    case pos
    have "\<exists>c. safe c \<and> yields c (\<lambda>_ p db'. p \<in> set (wd_payments db') \<and> p_status p = PENDING)
        \<and> (\<exists>b e. thenP (failIf b e) (bindP c ?k) db = (r, db'))"
      using run pos unfolding update_wallet_balance_def Let_def
      by (intro exI conjI) (rule safe_create_invoice, rule create_invoice_row, simp)
    then obtain c b e where c: "safe c" "yields c (\<lambda>_ p db'. p \<in> set (wd_payments db') \<and> p_status p = PENDING)"
      "thenP (failIf b e) (bindP c ?k) db = (r, db')" by blast
    show ?thesis
    proof (cases b)
      case True
      then have "db' = db" using c(3) by (simp add: throw_def)
      then show ?thesis using evolves_refl [OF ok] by simp
    next
      case False
      obtain x db1 where x: "c db = (x, db1)" by fastforce
      note e1 = safeD [OF c(1) x ok]
      show ?thesis
      proof (cases x)
        case (Inl err)
        then show ?thesis using c(3) False x e1 by (simp add: bindP_def)
      next
        case (Inr p)
        have p: "p \<in> set (wd_payments db1)" "p_status p = PENDING"
          using c(2) x Inr ok unfolding yields_def by blast+
        obtain u db2 where u: "update_payment ev (p\<lparr>p_status := SUCCESS\<rparr>) None db1 = (u, db2)" by fastforce
        have e2: "evolves db1 db2 \<and> wd_sent db2 = wd_sent db1 \<and> u = Inr (p\<lparr>p_status := SUCCESS, p_updated_at := e_now ev\<rparr>)"
          using evolves_update [OF u evolves_ok [OF conjunct1 [OF e1]] p(1)] by (simp add: same_payment_def)
        let ?q = "modify (\<lambda>db. db\<lparr>wd_internal_queue := wd_internal_queue db @ [p\<lparr>p_status := SUCCESS, p_updated_at := e_now ev\<rparr>]\<rparr>)
            :: (world, unit) py"
        have "?q db2 = (r, db')" using c(3) False x Inr u e2 by (simp add: bindP_def)
        moreover have "safe ?q" by (intro safe_intro)
        ultimately have "evolves db2 db' \<and> wd_sent db' = wd_sent db2" using safeD evolves_ok e2 by blast
        then show ?thesis using e1 e2 evolves_trans by metis
      qed
    qed
  qed
qed

section \<open>Other ways a payment settles\<close>

lemma evolves_stream:
  assumes run: "update_invoice_from_paid_invoices_stream ev cfg c db = (r, db')" and ok: "tables_ok db"
  shows "evolves db db' \<and> wd_sent db' = wd_sent db"
proof (cases "select_standalone c True None db")
  case None
  then have "db' = db" using run by (simp add: update_invoice_from_paid_invoices_stream_def bindP_def ret_def)
  then show ?thesis using evolves_refl [OF ok] by simp
next
  case (Some p)
  have p: "p \<in> set (wd_payments db)" using select_standalone_Some [OF Some] by blast
  obtain u db1 where u: "check_payment_status ev cfg p db = (u, db1)" by fastforce
  note c = check_status_cases [OF u ok p]
  show ?thesis
  proof (cases "\<exists>st p'. u = Inr (st, p') \<and> ps_success st")
    case False
    then have "db' = db1" using run Some u
      by (auto simp: update_invoice_from_paid_invoices_stream_def bindP_def ret_def split: sum.splits)
    then show ?thesis using c by simp
  next
    case True
    then obtain st p' where x: "u = Inr (st, p')" "ps_success st" by blast
    let ?q = "p'\<lparr>p_fee := the (or_int (ps_fee_msat st) (Some (p_fee p'))),
                 p_preimage := orElse (ps_preimage st) (p_preimage p'), p_status := SUCCESS\<rparr>"
    obtain v db2 where v: "update_payment ev ?q None db1 = (v, db2)" by fastforce
    have "db' = db2" using run Some u x v
      by (auto simp: update_invoice_from_paid_invoices_stream_def bindP_def ret_def split: sum.splits)
    moreover have "same_payment ?q p" using c x(1) by (auto simp: same_payment_def)
    ultimately show ?thesis using update_later [OF _ p v] c by simp
  qed
qed

lemma evolves_producer:
  assumes run: "fundingsource_invoice_producer_turn ev cfg c db = (r, db')" and ok: "tables_ok db"
  shows "evolves db db' \<and> wd_sent db' = wd_sent db"
proof -
  have "safe (update_invoice_from_paid_invoices_stream ev cfg c)"
    unfolding safe_def by (metis evolves_stream prod.collapse)
  then have "safe (fundingsource_invoice_producer_turn ev cfg c)"
    unfolding fundingsource_invoice_producer_turn_def by (intro safe_intro)
  from safeD [OF this run ok] show ?thesis .
qed

lemma evolves_settle:
  assumes run: "settle_hold_invoice ev p pre db = (r, db')"
    and ok: "tables_ok db" and p: "p \<in> set (wd_payments db)"
  shows "evolves db db' \<and> wd_sent db' = wd_sent db"
proof -
  let ?q = "p\<lparr>p_preimage := Some pre, p_extra := dset (p_extra p) ''hold_invoice_settled'' (JBool True)\<rparr>"
  obtain u db1 where u: "update_payment ev ?q None db = (u, db1)" by fastforce
  have "db' = db \<or> db' = db1"
    using run u
    by (auto simp: settle_hold_invoice_def bindP_def liftE_def thenP_failIf ret_def split: sum.splits if_splits)
  then show ?thesis
    using evolves_update [OF u ok p] evolves_refl [OF ok] by (auto simp: same_payment_def)
qed

lemma evolves_cancel:
  assumes run: "cancel_hold_invoice ev p db = (r, db')" "p_status p \<noteq> SUCCESS"
    and ok: "tables_ok db" and p: "p \<in> set (wd_payments db)"
  shows "evolves db db' \<and> wd_sent db' = wd_sent db"
proof -
  let ?q = "p\<lparr>p_status := FAILED, p_extra := dset (p_extra p) ''hold_invoice_cancelled'' (JBool True)\<rparr>"
  obtain u db1 where u: "update_payment ev ?q None db = (u, db1)" by fastforce
  have "db' = db \<or> db' = db1"
    using run(1) u
    by (auto simp: cancel_hold_invoice_def bindP_def liftE_def thenP_failIf ret_def split: sum.splits if_splits)
  then show ?thesis
    using evolves_update [OF u ok p] evolves_refl [OF ok] run(2) by (auto simp: same_payment_def)
qed

section \<open>The step relation\<close>

definition step_env :: "(string \<Rightarrow> decoded_invoice option) \<Rightarrow> env \<Rightarrow> bool" where
  "step_env dec ev \<longleftrightarrow> e_decode ev = dec \<and> ids_are_hashes ev"

inductive server_step ::
  "(string \<Rightarrow> decoded_invoice option) \<Rightarrow> settings \<Rightarrow> world \<Rightarrow> world \<Rightarrow> bool"
  for dec :: "string \<Rightarrow> decoded_invoice option" and cfg :: settings where
  pay: "step_env dec ev \<Longrightarrow> pay_invoice ev cfg wid pr ms x de tag ls eid db = (r, db')
        \<Longrightarrow> server_step dec cfg db db'"
| invoice: "step_env dec ev \<Longrightarrow> create_wallet_invoice ev cfg wid d db = (r, db')
        \<Longrightarrow> server_step dec cfg db db'"
| balance: "step_env dec ev \<Longrightarrow> update_wallet_balance ev cfg w a memo db = (r2, db')
        \<Longrightarrow> server_step dec cfg db db'"
| pending: "step_env dec ev \<Longrightarrow> p \<in> set (wd_payments db) \<Longrightarrow> p_status p = PENDING
        \<Longrightarrow> update_pending_payment ev cfg p db = (r, db') \<Longrightarrow> server_step dec cfg db db'"
| stream: "step_env dec ev \<Longrightarrow> fundingsource_invoice_producer_turn ev cfg c db = (r2, db')
        \<Longrightarrow> server_step dec cfg db db'"
| settle: "step_env dec ev \<Longrightarrow> p \<in> set (wd_payments db)
        \<Longrightarrow> settle_hold_invoice ev p pre db = (r3, db') \<Longrightarrow> server_step dec cfg db db'"
| cancel: "step_env dec ev \<Longrightarrow> p \<in> set (wd_payments db) \<Longrightarrow> p_status p \<noteq> SUCCESS
        \<Longrightarrow> cancel_hold_invoice ev p db = (r3, db') \<Longrightarrow> server_step dec cfg db db'"

inductive_cases server_stepE: "server_step dec cfg db db'"

inductive reachable ::
  "(string \<Rightarrow> decoded_invoice option) \<Rightarrow> settings \<Rightarrow> world \<Rightarrow> world \<Rightarrow> bool"
  for dec :: "string \<Rightarrow> decoded_invoice option" and cfg :: settings and db0 :: world where
  start: "reachable dec cfg db0 db0"
| more: "reachable dec cfg db0 db \<Longrightarrow> server_step dec cfg db db' \<Longrightarrow> reachable dec cfg db0 db'"

definition pay_hash :: "(string \<Rightarrow> decoded_invoice option) \<Rightarrow> string \<Rightarrow> string option" where
  "pay_hash dec b = map_option di_payment_hash (dec b)"

text \<open>Every invoice that was handed over has a row with its payment hash, and no two have the same hash.\<close>

definition sent_inv :: "(string \<Rightarrow> decoded_invoice option) \<Rightarrow> world \<Rightarrow> bool" where
  "sent_inv dec db \<longleftrightarrow>
     distinct (map (pay_hash dec \<circ> fst) (wd_sent db))
     \<and> (\<forall>b \<in> fst ` set (wd_sent db). \<exists>q \<in> set (wd_payments db). pay_hash dec b = Some (p_payment_hash q))"

lemma step_evolves:
  assumes "server_step dec cfg db db'" and ok: "tables_ok db"
  shows "evolves db db' \<and> (wd_sent db' = wd_sent db
     \<or> (\<exists>pr d l. dec pr = Some d \<and> \<not> known_hash db (di_payment_hash d) \<and> wd_sent db' = wd_sent db @ [(pr, l)]
         \<and> (\<exists>q \<in> set (wd_payments db'). p_payment_hash q = di_payment_hash d)))"
  using assms(1)
proof cases
  case (pay ev wid pr ms x de tag ls eid r)
  then show ?thesis using evolves_pay_invoice [OF pay(2) ok] by (auto simp: step_env_def)
next
  case (invoice ev wid d r)
  then show ?thesis using safeD [OF safe_create_wallet_invoice _ ok] by blast
next
  case (balance ev w a memo r)
  then show ?thesis using evolves_update_balance [OF _ ok] by blast
next
  case (pending ev p r)
  then show ?thesis using evolves_update_pending [OF _ ok] by auto
next
  case (stream ev c r)
  then show ?thesis using evolves_producer [OF _ ok] by blast
next
  case (settle ev p pre r)
  then show ?thesis using evolves_settle [OF _ ok] by blast
next
  case (cancel ev p r)
  then show ?thesis using evolves_cancel [OF _ _ ok] by blast
qed

lemma sent_inv_step:
  assumes "server_step dec cfg db db'" "tables_ok db" "sent_inv dec db"
  shows "sent_inv dec db'"
proof -
  from step_evolves [OF assms(1,2)] have e: "evolves db db'" and
    s: "wd_sent db' = wd_sent db
     \<or> (\<exists>pr d l. dec pr = Some d \<and> \<not> known_hash db (di_payment_hash d) \<and> wd_sent db' = wd_sent db @ [(pr, l)]
         \<and> (\<exists>q \<in> set (wd_payments db'). p_payment_hash q = di_payment_hash d))" by blast+
  have keep: "\<exists>q \<in> set (wd_payments db'). pay_hash dec b = Some (p_payment_hash q)"
    if b: "b \<in> fst ` set (wd_sent db)" for b
  proof -
    obtain q where q: "q \<in> set (wd_payments db)" "pay_hash dec b = Some (p_payment_hash q)"
      using assms(3) b unfolding sent_inv_def by blast
    then obtain q' where "q' \<in> set (wd_payments db')" "row_evolves q q'" using evolves_row [OF e] by blast
    with q(2) show ?thesis unfolding row_evolves_def same_payment_def by metis
  qed
  from s show ?thesis
  proof (elim disjE exE conjE)
    assume "wd_sent db' = wd_sent db"
    then show ?thesis using assms(3) keep by (simp add: sent_inv_def)
  next
    fix pr d l
    assume d: "dec pr = Some d" "\<not> known_hash db (di_payment_hash d)" "wd_sent db' = wd_sent db @ [(pr, l)]"
      and row: "\<exists>q \<in> set (wd_payments db'). p_payment_hash q = di_payment_hash d"
    have h: "pay_hash dec pr = Some (di_payment_hash d)" by (simp add: pay_hash_def d(1))
    have "pay_hash dec (fst x) \<noteq> pay_hash dec pr" if x: "x \<in> set (wd_sent db)" for x
    proof
      assume "pay_hash dec (fst x) = pay_hash dec pr"
      moreover have "fst x \<in> fst ` set (wd_sent db)" using x by (rule imageI)
      then obtain q where "q \<in> set (wd_payments db)" "pay_hash dec (fst x) = Some (p_payment_hash q)"
        using assms(3) unfolding sent_inv_def by blast
      ultimately show False using d(2) h by (auto simp: known_hash_def)
    qed
    then have "pay_hash dec pr \<notin> (pay_hash dec \<circ> fst) ` set (wd_sent db)" by force
    then have "distinct (map (pay_hash dec \<circ> fst) (wd_sent db'))"
      using assms(3) d(3) by (simp add: sent_inv_def)
    moreover have "\<exists>q \<in> set (wd_payments db'). pay_hash dec pr = Some (p_payment_hash q)"
      using row h by metis
    ultimately show ?thesis using keep d(3) unfolding sent_inv_def by auto
  qed
qed

lemma reachable_evolves:
  assumes "reachable dec cfg db0 db" "tables_ok db0"
  shows "evolves db0 db"
  using assms
proof (induction rule: reachable.induct)
  case start
  then show ?case by (rule evolves_refl)
next
  case (more db db')
  have e: "evolves db0 db" using more by blast
  show ?case using e step_evolves [OF more(2) evolves_ok [OF e]] evolves_trans by blast
qed

lemma reachable_sent_inv:
  assumes "reachable dec cfg db0 db" "tables_ok db0" "sent_inv dec db0"
  shows "sent_inv dec db"
  using assms
proof (induction rule: reachable.induct)
  case start
  then show ?case by simp
next
  case (more db db')
  then show ?case using sent_inv_step evolves_ok reachable_evolves by metis
qed

end
