(* ===== verification/Demo.thy ===== *)
theory Demo
  imports ServerRuns
begin

text \<open>
  A small concrete server on which the properties are exercised: two lightning wallets of one user,
  a third wallet that shares the first, a pending invoice of the second wallet, a funding source
  that pays everything but two invoices, and a codec that knows four invoices.
\<close>

definition demo_limits :: fiat_provider_limits where
  "demo_limits = \<lparr>allowed_users = [], service_max_fee_sats = 0, service_fee_percent = 0,
     service_fee_wallet_id = None, service_min_amount_sats = 0, service_max_amount_sats = 0,
     service_faucet_wallet_id = None\<rparr>"

definition demo_settings :: settings where
  "demo_settings =
    \<lparr>lnbits_admin_users = [], lnbits_allowed_users = [], lnbits_allow_new_accounts = True,
     lnbits_ln_address_mode = ''extension_only'',
     lnbits_allow_custom_wallet_lightning_addresses = True, lnbits_charge_wallet_lightning_addresses = False,
     lnbits_wallet_lightning_address_price_sats = 1000, lnbits_wallet_lightning_address_blacklist = [''admin''], lnbits_require_user_activation = False,
     lnbits_user_activation_by_email = False, lnbits_user_activation_by_payment = False,
     lnbits_user_activation_by_invitation_code = False, lnbits_register_reusable_activation_code = [],
     lnbits_register_one_time_activation_codes = [],
     lnbits_max_asset_size_mb = 2, lnbits_assets_allowed_mime_types = [], lnbits_max_assets_per_user = 1,
     lnbits_assets_no_limit_users = [],
     lnbits_reserve_fee_min = 2000, lnbits_reserve_fee_percent = 1, lnbits_service_fee = 2,
     lnbits_service_fee_ignore_internal = True, lnbits_service_fee_max = 0, lnbits_service_fee_wallet = Some ''fees'',
     lnbits_callback_url_rules = [], lnbits_wallet_limit_max_balance = 0,
     lnbits_wallet_limit_daily_max_withdraw = 0, lnbits_wallet_limit_secs_between_trans = 0,
     lnbits_only_allow_incoming_payments = False, lnbits_max_outgoing_payment_amount_sats = 10000000,
     lnbits_max_incoming_payment_amount_sats = 10000000,
     stripe_enabled = False, stripe_limits = demo_limits, paypal_enabled = False, paypal_limits = demo_limits,
     square_enabled = False, square_limits = demo_limits, revolut_enabled = False, revolut_limits = demo_limits,
     lnbits_allow_fiat_wallets = False,
     auth_allowed_methods = [''user-id-only'', ''username-password''], auth_credetials_update_threshold = 120, auth_authentication_cache_minutes = 10,
     auth_token_expire_minutes = 525600, nostr_absolute_request_urls = [''http://127.0.0.1:5000''],
     lnbits_audit_enabled = True, lnbits_audit_log_path_params = False, lnbits_audit_log_query_params = False,
     lnbits_audit_log_request_body = False, lnbits_audit_include_paths = [], lnbits_audit_exclude_paths = [],
     lnbits_audit_http_methods = [], lnbits_audit_http_response_codes = [],
     lnbits_deactivated_extensions = {}, lnbits_extensions_redirects = [], lnbits_installed_extensions_ids = {},
     lnbits_exchange_rate_history = [],
     lnbits_admin_extensions = [], lnbits_user_default_extensions = [],
     lnbits_extensions_builder_activate_non_admins = False, lnbits_all_extensions_ids = {},
     lnbits_blockexplorer_enabled = False, lnbits_blockexplorer_public_api = False, super_user = ''root'',
     auth_secret_key = ''secret'', first_install_token = None, first_install_token_confirmed = None,
     first_install = False, lnbits_admin_ui = True, lnbits_max_users = 0, lnbits_site_title = ''LNbits'',
     lnbits_default_wallet_name = ''LNbits wallet'', lnbits_default_accounting_currency = None,
     lightning_invoice_expiry = 3600, lnbits_funding_source_pay_invoice_wait_seconds = 5\<rparr>"

definition demo_row :: "string \<Rightarrow> string \<Rightarrow> string \<Rightarrow> wallet" where
  "demo_row wid t addr = \<lparr>w_id = wid, w_user = ''u'', w_wallet_type = t, w_adminkey = wid @ ''-admin'',
     w_inkey = wid @ ''-in'', w_name = wid, w_shared_wallet_id = None, w_deleted = False, w_created_at = 0,
     w_updated_at = 0, w_currency = None, w_lightning_address = Some addr, w_balance_msat = 0,
     w_extra = default_wallet_extra, w_stored_paylinks = JNull, w_share_permissions = []\<rparr>"

definition demo_share :: wallet_share where
  "demo_share = \<lparr>ws_request_id = Some ''r1'', ws_username = ''bob'', ws_shared_with_wallet_id = Some ''carol'',
     ws_permissions = [VIEW_PAYMENTS, SEND_PAYMENTS], ws_status = APPROVED, ws_comment = None\<rparr>"

definition demo_payment :: "string \<Rightarrow> string \<Rightarrow> int \<Rightarrow> payment_state \<Rightarrow> payment" where
  "demo_payment c wid amount st =
     \<lparr>p_checking_id = c, p_payment_hash = c, p_wallet_id = wid, p_amount = amount, p_fee = 0,
      p_bolt11 = ''ln'' @ c, p_fiat_provider = None, p_status = st, p_memo = None, p_expiry = None,
      p_webhook = None, p_webhook_status = None, p_preimage = Some ''00'', p_tag = None,
      p_extension = None, p_time = 1000, p_created_at = 1000, p_updated_at = 1000, p_labels = [],
      p_extra = [], p_external_id = None\<rparr>"

definition demo_world :: world where
  "demo_world =
    \<lparr>wd_accounts = [], wd_acls = [],
     wd_wallets = [(demo_row ''alice'' ''lightning'' ''a1'')\<lparr>w_extra := default_wallet_extra\<lparr>we_shared_with := [demo_share]\<rparr>\<rparr>,
                   demo_row ''bob'' ''lightning'' ''b1'',
                   (demo_row ''carol'' ''lightning-shared'' ''c1'')\<lparr>w_shared_wallet_id := Some ''alice''\<rparr>],
     wd_payments = [demo_payment ''h0'' ''alice'' 1000000 SUCCESS, demo_payment ''h1'' ''bob'' 300000 PENDING],
     wd_user_extensions = [], wd_cache = [], wd_internal_queue = [], wd_invoice_queue = [],
     wd_notified = [], wd_sent = [], wd_fake = fake_init\<rparr>"

definition demo_decode :: "string \<Rightarrow> decoded_invoice option" where
  "demo_decode b =
     (if b \<in> {''lnh1'', ''lnh2'', ''lnh3'', ''lnh4''}
      then Some \<lparr>di_amount_msat = Some 300000, di_payment_hash = drop 2 b, di_description = None,
                 di_expiry_date = Some 5000\<rparr>
      else None)"

definition demo_pay :: "string \<Rightarrow> int \<Rightarrow> pay_outcome" where
  "demo_pay b l =
     (if b = ''lnh3'' then PayTimeout
      else if b = ''lnh4'' then
        PayResponse \<lparr>pr_ok = Some False, pr_checking_id = None, pr_fee_msat = None, pr_preimage = None,
                     pr_error_message = Some ''no route''\<rparr>
      else PayResponse \<lparr>pr_ok = Some True, pr_checking_id = map_option di_payment_hash (demo_decode b),
                        pr_fee_msat = Some 0, pr_preimage = Some ''00'', pr_error_message = None\<rparr>)"

definition demo_env :: env where
  "demo_env =
    \<lparr>e_now = 2000, e_uuid = (\<lambda>db n. replicate n CHR ''u''), e_ln_address = (\<lambda>db n. replicate (Suc n) CHR ''x''),
     e_sha256s = (\<lambda>s. s), e_sha256_hex = (\<lambda>s. s), e_secret = (\<lambda>db. ''aa''),
     e_preimage = (\<lambda>db. ''bb''), e_decode = demo_decode, e_encode = (\<lambda>b. ''lnh2''),
     e_btc_price = (\<lambda>c. Inr 100000), e_callback_ok = (\<lambda>u. True), e_lnurl_withdraw = (\<lambda>u p. None),
     fs_pay = demo_pay, fs_payment_status = (\<lambda>c. Inr PaymentPendingStatus),
     fs_invoice_status = (\<lambda>c. Inr (PaymentSuccessStatus None None)),
     fs_create_invoice = (\<lambda>a m dh ud x. Inr \<lparr>ir_ok = Some True, ir_checking_id = Some ''h2'',
        ir_payment_request = Some ''lnh2'', ir_error_message = None, ir_preimage = None, ir_fee_msat = None\<rparr>),
     fs_create_hold_invoice = (\<lambda>a m h dh. Inl UnsupportedError),
     fs_settle_hold_invoice = (\<lambda>p. Inl UnsupportedError),
     fs_cancel_hold_invoice = (\<lambda>p. Inl UnsupportedError),
     fiat_provider_status = (\<lambda>n c. None), fiat_create_invoice = (\<lambda>n a h c m x. None)\<rparr>"

definition demo_model :: "string \<Rightarrow> create_payment_data" where
  "demo_model h =
     \<lparr>cp_wallet_id = ''alice'', cp_payment_hash = h, cp_bolt11 = ''ln'' @ h, cp_amount_msat = - 300000,
      cp_memo = [], cp_extra = [], cp_extension = None, cp_preimage = None, cp_expiry = Some 5000,
      cp_webhook = None, cp_fee = 0, cp_labels = [], cp_external_id = None\<rparr>"

definition alice :: wallet where
  "alice = ((wd_wallets demo_world ! 0)\<lparr>w_balance_msat := 1000000\<rparr>)"

text \<open>An invoice of 300 satoshis.\<close>

definition demo_kwargs :: invoice_kwargs where
  "demo_kwargs = \<lparr>ik_amount = 300, ik_currency = Some ''sat'', ik_memo = ''tea'', ik_description_hash = None,
     ik_unhashed_description = None, ik_expiry = None, ik_extra = [], ik_webhook = None, ik_internal = False,
     ik_payment_hash = None, ik_extension = None, ik_labels = [], ik_external_id = None\<rparr>"

definition is_ok :: "(exn + 'a) \<times> 's \<Rightarrow> bool" where
  "is_ok r = (case fst r of Inl e \<Rightarrow> False | Inr x \<Rightarrow> True)"

lemma is_okD: "is_ok r \<Longrightarrow> \<exists>x s. r = (Inr x, s)"
  by (cases r) (auto simp: is_ok_def split: sum.splits)

end
