(* ===== verification/PaymentProperties.thy ===== *)
theory PaymentProperties
  imports Demo
begin

text \<open>
  What the payment operations guarantee, each property with its evaluation on the demo server where
  it has hypotheses.
\<close>

section \<open>Internal payments\<close>

text \<open>C1: A completed internal payment moves money between exactly two wallets: the payer loses the
  amount and the total fee, the owner of the invoice gains the amount less the fee booked on the invoice,
  no other ledger changes, the funding source is not asked, and the receiver is queued for notification
  with a settled invoice. The payer's balance covered the charge.\<close>

theorem internal_payment_books:
  assumes "pay_internal_invoice ev cfg w m db = (Inr (Some p), db')"
    and "tables_ok db" "cp_amount_msat m < 0" "0 \<le> lnbits_service_fee cfg"
  shows "\<exists>ip. check_internal (cp_payment_hash m) db = Some ip
    \<and> (\<forall>x. ledger_sum x (wd_payments db') = ledger_sum x (wd_payments db)
         - (if x = cp_wallet_id m then \<bar>cp_amount_msat m\<bar> + service_fee cfg (cp_amount_msat m) True else 0)
         + (if x = p_wallet_id ip then p_amount ip - \<bar>p_fee ip\<bar> else 0))
    \<and> \<bar>cp_amount_msat m\<bar> + service_fee cfg (cp_amount_msat m) True \<le> w_balance_msat w
    \<and> p_status p = SUCCESS \<and> p_checking_id p = ''internal_'' @ cp_payment_hash m
    \<and> wd_sent db' = wd_sent db
    \<and> wd_internal_queue db' = wd_internal_queue db @ [ip\<lparr>p_status := SUCCESS, p_updated_at := e_now ev\<rparr>]"
proof -
  have d: "wallet_ids_distinct db" and ids: "distinct (map p_checking_id (wd_payments db))"
    using assms(2) by (simp_all add: tables_ok_def)
  have fee: "fee_reserve_total cfg (cp_amount_msat m) True = service_fee cfg (cp_amount_msat m) True"
    "0 \<le> service_fee cfg (cp_amount_msat m) True"
    using assms(4) by (simp_all add: fee_reserve_total_def service_fee_nonneg)
  from assms(1) d show ?thesis
  proof (cases rule: pay_internal_cases)
    case (paid ip inv)
    have "p = internal_row ev cfg m (p_preimage inv)" using paid(9) by simp
    then show ?thesis
      using paid internal_ledger [OF paid(6) paid(1) ids paid(5) assms(3)] fee
      by (intro exI [of _ ip]) (simp add: internal_row_def)
  qed simp_all
qed

theorem internal_payment_books_witness:
  "\<exists>p db'. pay_internal_invoice demo_env demo_settings alice (demo_model ''h1'') demo_world = (Inr (Some p), db')
     \<and> ledger_sum ''alice'' (wd_payments db') = ledger_sum ''alice'' (wd_payments demo_world) - 300000
     \<and> ledger_sum ''bob'' (wd_payments db') = ledger_sum ''bob'' (wd_payments demo_world) + 300000"
proof -
  have ok: "case pay_internal_invoice demo_env demo_settings alice (demo_model ''h1'') demo_world of
      (Inr (Some p), db') \<Rightarrow> True | _ \<Rightarrow> False" by code_simp
  then obtain p db' where
    run: "pay_internal_invoice demo_env demo_settings alice (demo_model ''h1'') demo_world = (Inr (Some p), db')"
    by (auto split: prod.splits sum.splits option.splits)
  have tables: "tables_ok demo_world" by code_simp
  have m: "cp_amount_msat (demo_model ''h1'') < 0" "cp_amount_msat (demo_model ''h1'') = - 300000"
    "cp_wallet_id (demo_model ''h1'') = ''alice''" "cp_payment_hash (demo_model ''h1'') = ''h1''"
    by (simp_all add: demo_model_def)
  have fee: "0 \<le> lnbits_service_fee demo_settings" "service_fee demo_settings (- 300000) True = 0"
    by code_simp+
  have ip: "check_internal ''h1'' demo_world = Some (demo_payment ''h1'' ''bob'' 300000 PENDING)"
    by code_simp
  have f: "p_wallet_id (demo_payment ''h1'' ''bob'' 300000 PENDING) = ''bob''"
    "p_amount (demo_payment ''h1'' ''bob'' 300000 PENDING) = 300000"
    "p_fee (demo_payment ''h1'' ''bob'' 300000 PENDING) = 0" by (simp_all add: demo_payment_def)
  from internal_payment_books [OF run tables m(1) fee(1)] show ?thesis
    using run m(2-) fee(2) ip f by auto
qed

section \<open>External payments\<close>

text \<open>C2: A first payment to an outside invoice either fails before anything is booked, or hands the invoice
  to the funding source once, with the routing reserve as fee limit. Then the payer's ledger changes by
  nothing if the funding source answers a definite failure, by the amount, the reported fee and the
  service fee if it answers success, and by the amount and the whole reserve as long as the outcome
  is open (timeout, exception or an unclear answer); no other ledger changes. A payment that is returned is
  never a failed one and is settled only on a definite success.\<close>

theorem external_payment_books:
  assumes "pay_external_invoice ev cfg w m db = (r, db')"
    and "wallet_ids_distinct db" "cp_amount_msat m < 0" "\<not> known_hash db (cp_payment_hash m)"
  shows "(same_books db db' \<and> (\<exists>e. r = Inl e))
    \<or> (let limit = fee_reserve cfg (cp_amount_msat m) False;
           outcome = fs_pay ev (cp_bolt11 m) limit
       in \<bar>cp_amount_msat m\<bar> + fee_reserve_total cfg (cp_amount_msat m) False \<le> w_balance_msat w
          \<and> wd_sent db' = wd_sent db @ [(cp_bolt11 m, limit)]
          \<and> (\<forall>x. ledger_sum x (wd_payments db') = ledger_sum x (wd_payments db)
               + (if x = cp_wallet_id m then settled_amount cfg (external_row ev cfg m) outcome else 0))
          \<and> (\<forall>p. r = Inr p \<longrightarrow> p_status p = outcome_state outcome \<and> p_status p \<noteq> FAILED))"
proof -
  from assms(1,2) show ?thesis
  proof (cases rule: pay_external_cases)
    case (repeated old)
    then show ?thesis using select_standalone_Some [OF repeated(1)] assms(4)
      by (auto simp: known_hash_def standalone_match_def)
  next
    case (sent db1)
    show ?thesis
      using sent(3) external_ledger [OF sent(4) sent(2) assms(2) sent(1) assms(3)] same_books_sel(6) [OF sent(2)]
      by (intro disjI2) (auto simp: Let_def)
  qed simp
qed

theorem external_payment_books_witness:
  "ledger_sum ''alice'' (wd_payments (snd (pay_external_invoice demo_env demo_settings alice (demo_model ''h4'') demo_world)))
     = ledger_sum ''alice'' (wd_payments demo_world)
   \<and> wd_sent (snd (pay_external_invoice demo_env demo_settings alice (demo_model ''h4'') demo_world)) = [(''lnh4'', 3000)]"
proof -
  obtain r db' where run: "pay_external_invoice demo_env demo_settings alice (demo_model ''h4'') demo_world = (r, db')"
    by fastforce
  have h: "wallet_ids_distinct demo_world" "cp_amount_msat (demo_model ''h4'') < 0"
    "\<not> known_hash demo_world (cp_payment_hash (demo_model ''h4''))" by code_simp+
  have v: "fee_reserve demo_settings (cp_amount_msat (demo_model ''h4'')) False = 3000"
    "cp_bolt11 (demo_model ''h4'') = ''lnh4''" "wd_sent demo_world = []" by code_simp+
  have s: "settled_amount demo_settings (external_row demo_env demo_settings (demo_model ''h4''))
       (fs_pay demo_env ''lnh4'' 3000) = 0" by code_simp
  have "wd_sent (snd (pay_external_invoice demo_env demo_settings alice (demo_model ''h4'') demo_world)) \<noteq> []"
    by code_simp
  then have "\<not> same_books demo_world db'" using run v(3) same_books_sel(6) by force
  with external_payment_books [OF run h] show ?thesis using run v s by (auto simp: Let_def)
qed

section \<open>Paying under the wallet lock\<close>




lemma demo_fee_within_limit: "fee_within_limit (fs_pay demo_env)"
  unfolding fee_within_limit_def by (auto simp: demo_env_def demo_pay_def split: if_splits)


text \<open>A payment hash that the payment table already knows, in any state, is not handed to the funding
  source again, whoever pays.\<close>

theorem known_hash_is_not_resent:
  assumes "pay_invoice_locked ev cfg wid m db = (r, db')" "wallet_ids_distinct db" "cp_amount_msat m < 0"
    and "known_hash db (cp_payment_hash m)"
  shows "wd_sent db' = wd_sent db"
  using pay_locked_sent [OF assms(1-3)] assms(4) by blast

theorem known_hash_is_not_resent_witness:
  "wd_sent (snd (pay_invoice_locked demo_env demo_settings ''alice'' (demo_model ''h0'') demo_world)) = []"
proof -
  obtain r db' where run: "pay_invoice_locked demo_env demo_settings ''alice'' (demo_model ''h0'') demo_world = (r, db')"
    by fastforce
  have h: "wallet_ids_distinct demo_world" "cp_amount_msat (demo_model ''h0'') < 0"
    "known_hash demo_world (cp_payment_hash (demo_model ''h0''))" by code_simp+
  have "wd_sent demo_world = []" by (simp add: demo_world_def)
  then show ?thesis using known_hash_is_not_resent [OF run h] run by simp
qed

text \<open>C5: A call of \<open>pay_invoice\<close> that succeeds was allowed on every count: the server pays, the invoice
  decodes to a positive amount within the server's and the caller's maximum, and the invoice
  was not an internal one that is paid already.\<close>

theorem pay_invoice_checks:
  assumes "pay_invoice ev cfg wid pr ms x de tag ls eid db = (Inr p, db')" "wallet_ids_distinct db"
  shows "\<not> lnbits_only_allow_incoming_payments cfg
    \<and> (\<exists>d a. e_decode ev pr = Some d \<and> di_amount_msat d = Some a \<and> 0 < a
         \<and> a \<le> lnbits_max_outgoing_payment_amount_sats cfg * 1000
         \<and> (\<forall>n. ms = Some n \<longrightarrow> n \<noteq> 0 \<longrightarrow> a \<le> n * 1000)
         \<and> \<not> is_internal_status_success (di_payment_hash d) db)"
proof -
  have only: "\<not> lnbits_only_allow_incoming_payments cfg"
    using assms(1) by (auto simp: pay_invoice_def throw_def)
  obtain d where v: "validate_payment_request ev cfg pr ms = Inr d"
    using assms(1) only by (cases "validate_payment_request ev cfg pr ms") (auto simp: pay_invoice_def throw_def)
  then obtain a where a: "e_decode ev pr = Some d" "di_amount_msat d = Some a" "0 < a"
    "a \<le> min (the (or_int ms (Some (lnbits_max_outgoing_payment_amount_sats cfg))))
           (lnbits_max_outgoing_payment_amount_sats cfg) * 1000"
    by (auto simp: validate_payment_request_def Let_def split: option.splits if_splits)
  from assms have "\<not> is_internal_status_success (di_payment_hash d) db"
    by (cases rule: pay_invoice_cases) (use a(1) in auto)
  moreover have "a \<le> lnbits_max_outgoing_payment_amount_sats cfg * 1000" using a(4) by linarith
  moreover have "a \<le> n * 1000" if "ms = Some n" "n \<noteq> 0" for n
    using a(4) that by (simp add: or_int_def)
  ultimately show ?thesis using only a(1-3) by blast
qed

theorem pay_invoice_checks_witness:
  "\<exists>p db'. pay_invoice demo_env (demo_settings\<lparr>lnbits_service_fee_wallet := None\<rparr>) ''alice'' ''lnh2'' (Some 400)
        [] [] [] [] None demo_world = (Inr p, db')
     \<and> \<not> lnbits_only_allow_incoming_payments (demo_settings\<lparr>lnbits_service_fee_wallet := None\<rparr>)"
proof -
  let ?cfg = "demo_settings\<lparr>lnbits_service_fee_wallet := None\<rparr>"
  let ?d = "the (demo_decode ''lnh2'')"
  have v: "\<not> lnbits_only_allow_incoming_payments ?cfg"
    "validate_payment_request demo_env ?cfg ''lnh2'' (Some 400) = Inr ?d"
    "di_amount_msat ?d = Some 300000" "(0::int) < 300000"
    "check_wallet_for_payment demo_env ?cfg ''alice'' [] 300000 demo_world = (Inr alice, demo_world)"
    "can_send_payments alice" "\<not> is_internal_status_success (di_payment_hash ?d) demo_world"
    "calculate_fiat_amounts demo_env ?cfg (idiv_float 300000 1000) alice None [] = Inr (300, [])"
    "validate_external_id None = Inr None"
    by code_simp+
  have "is_ok (pay_invoice demo_env ?cfg ''alice'' ''lnh2'' (Some 400) [] [] [] [] None demo_world)"
    unfolding pay_invoice_run [OF v] by code_simp
  then obtain p db' where run:
    "pay_invoice demo_env ?cfg ''alice'' ''lnh2'' (Some 400) [] [] [] [] None demo_world = (Inr p, db')"
    using is_okD by blast
  have "wallet_ids_distinct demo_world" by code_simp
  from pay_invoice_checks [OF run this] run show ?thesis by blast
qed

section \<open>Runs of the server\<close>



lemma demo_ids_are_hashes: "ids_are_hashes demo_env"
  unfolding ids_are_hashes_def by (auto simp: demo_env_def demo_pay_def split: if_splits)

text \<open>A run of the demo server that pays one invoice.\<close>

lemma demo_run:
  "reachable demo_decode demo_settings demo_world
     (snd (pay_invoice demo_env demo_settings ''alice'' ''lnh2'' None [] [] [] [] None demo_world))"
proof (rule reachable.more [OF reachable.start])
  have "step_env demo_decode demo_env"
    using demo_ids_are_hashes by (simp add: step_env_def demo_env_def)
  then show "server_step demo_decode demo_settings demo_world
     (snd (pay_invoice demo_env demo_settings ''alice'' ''lnh2'' None [] [] [] [] None demo_world))"
    by (rule server_step.pay) (rule prod.collapse [symmetric])
qed



section \<open>Pending payments\<close>



end
