(* ===== verification/InvoiceProperties.thy ===== *)
theory InvoiceProperties
  imports Demo
begin

text \<open>
  Properties of fees, of creating invoices and rows, of administrative balance changes and of the
  queries the limits rest on.
\<close>

section \<open>Fees\<close>

text \<open>C13: The service fee is never negative, is at most the configured maximum where there is one, and does
  not decrease when the amount grows; the routing reserve is at least the configured minimum and grows with the
  amount. An internal payment reserves nothing for routing.\<close>

theorem fee_bounds:
  assumes "0 \<le> lnbits_service_fee cfg" "0 \<le> lnbits_reserve_fee_percent cfg" "\<bar>a\<bar> \<le> \<bar>b\<bar>"
  shows "0 \<le> service_fee cfg a i
    \<and> (0 < lnbits_service_fee_max cfg \<longrightarrow> service_fee cfg a i \<le> lnbits_service_fee_max cfg * 1000)
    \<and> service_fee cfg a i \<le> service_fee cfg b i
    \<and> lnbits_reserve_fee_min cfg \<le> fee_reserve cfg a False
    \<and> fee_reserve cfg a False \<le> fee_reserve cfg b False
    \<and> fee_reserve_total cfg a True = service_fee cfg a True"
proof (intro conjI impI)
  let ?f = "\<lambda>x. py_trunc (fmul (idiv_float \<bar>x\<bar> 100) (lnbits_service_fee cfg))"
  have m: "?f a \<le> ?f b" using percentage_mono [OF assms(1,3)] .
  show "0 \<le> service_fee cfg a i" by (rule service_fee_nonneg [OF assms(1)])
  show "service_fee cfg a i \<le> lnbits_service_fee_max cfg * 1000" if "0 < lnbits_service_fee_max cfg"
    using that by (simp add: service_fee_def Let_def)
  show "service_fee cfg a i \<le> service_fee cfg b i" using m by (auto simp: service_fee_def Let_def)
  show "lnbits_reserve_fee_min cfg \<le> fee_reserve cfg a False"
    by (simp add: fee_reserve_def settings_fee_reserve_ge_min)
  have "fmul (to_float \<bar>a\<bar>) (lnbits_reserve_fee_percent cfg) \<le> fmul (to_float \<bar>b\<bar>) (lnbits_reserve_fee_percent cfg)"
    by (intro fmul_mono to_float_mono assms)
  then have "fdiv (fmul (to_float \<bar>a\<bar>) (lnbits_reserve_fee_percent cfg)) 100
      \<le> fdiv (fmul (to_float \<bar>b\<bar>) (lnbits_reserve_fee_percent cfg)) 100"
    by (simp add: fdiv_def fl_mono divide_right_mono)
  from py_trunc_mono [OF this] show "fee_reserve cfg a False \<le> fee_reserve cfg b False"
    by (simp add: fee_reserve_def settings_fee_reserve_def)
  show "fee_reserve_total cfg a True = service_fee cfg a True" by (simp add: fee_reserve_total_def)
qed

theorem fee_bounds_witness:
  "service_fee demo_settings 300000 False \<le> service_fee demo_settings (- 400000) False
   \<and> fee_reserve demo_settings 300000 False \<le> fee_reserve demo_settings (- 400000) False"
proof -
  have h: "0 \<le> lnbits_service_fee demo_settings" "0 \<le> lnbits_reserve_fee_percent demo_settings"
    "\<bar>300000 :: int\<bar> \<le> \<bar>- 400000\<bar>" by code_simp+
  show ?thesis using fee_bounds [OF h] by simp
qed

text \<open>The amount of a lightning payment is computed without rounding errors: the satoshis of a whole number
  of satoshis given in millisatoshis, divided as floats and truncated, are that number, up to 2 to the 53.\<close>

theorem sat_amount_exact:
  assumes "0 \<le> n" "n < 2 ^ 53" "calculate_fiat_amounts ev cfg (idiv_float (n * 1000) 1000) w None x = Inr (s, d)"
  shows "s = n"
proof -
  have "idiv_float (n * 1000) 1000 = of_int n"
    using fl_of_int_exact [of n] assms(1,2) by (simp add: idiv_float_def)
  then show ?thesis
    using assms(3) by (auto simp: calculate_fiat_amounts_def requested_amount_def Let_def)
qed

theorem sat_amount_exact_witness:
  "\<exists>s d. calculate_fiat_amounts demo_env demo_settings (idiv_float (300 * 1000) 1000) alice None [] = Inr (s, d)
     \<and> s = 300"
proof -
  have run: "calculate_fiat_amounts demo_env demo_settings (idiv_float (300 * 1000) 1000) alice None [] = Inr (300, [])"
    by code_simp
  have "(300 :: int) = 300" using sat_amount_exact [OF _ _ run] by simp
  then show ?thesis using run by blast
qed

section \<open>Rows\<close>

text \<open>A created payment is found again under its checking id, with the values it was created from and its
  fee stored as a non-positive number, and no second payment can be created under the same id or with that
  id as payment hash.\<close>

theorem created_payment_is_found:
  assumes "create_payment ev cfg c d s db = (Inr p, db')" "wallet_ids_distinct db"
  shows "get_payment c db' = Some p \<and> p_amount p = cp_amount_msat d \<and> p_wallet_id p = cp_wallet_id d
     \<and> p_payment_hash p = cp_payment_hash d \<and> p_status p = s \<and> p_fee p = - \<bar>cp_fee d\<bar>
     \<and> (\<exists>e. fst (create_payment ev2 cfg2 c d2 s2 db') = Inl e)"
  using assms
proof (cases rule: create_payment_cases)
  case (created db1)
  have "p = new_payment ev c d s" using created(1) by simp
  moreover have "get_payment c db' = Some p"
    using created(4) same_books_sel(1) [OF created(2)] pt.find_ins [of p db1]
    by (auto simp: get_payment_def created(3) calculation)
  moreover have "\<exists>e. fst (create_payment ev2 cfg2 c d2 s2 db') = Inl e"
  proof -
    obtain r2 db2 where run: "create_payment ev2 cfg2 c d2 s2 db' = (r2, db2)" by fastforce
    have "wallet_ids_distinct db'" using created(3) same_books_ids [OF created(2)] assms(2) by simp
    from run this show ?thesis
    proof (cases rule: create_payment_cases)
      case (created db3)
      then show ?thesis using \<open>db' = insert_payment_row _ _\<close> by simp
    qed (use run in simp)
  qed
  ultimately show ?thesis by simp
qed simp

theorem created_payment_is_found_witness:
  "\<exists>p db'. create_payment demo_env demo_settings ''x'' (demo_model ''x'') PENDING demo_world = (Inr p, db')
     \<and> get_payment ''x'' db' = Some p"
proof -
  have "is_ok (create_payment demo_env demo_settings ''x'' (demo_model ''x'') PENDING demo_world)" by code_simp
  then obtain p db' where run: "create_payment demo_env demo_settings ''x'' (demo_model ''x'') PENDING demo_world = (Inr p, db')"
    using is_okD by blast
  have "wallet_ids_distinct demo_world" by code_simp
  from created_payment_is_found [OF run this] run show ?thesis by blast
qed

section \<open>Invoices\<close>

lemma amount_nonneg:
  assumes "calculate_fiat_amounts ev cfg a w c x = Inr (n, d)" "0 < a"
  shows "0 \<le> n"
proof -
  have "requested_amount ev a wc c x = Inr (n, d2) \<Longrightarrow> 0 \<le> n" for wc d2
    using assms(2) fiat_amount_nonneg [of ev a "the c"] py_trunc_nonneg [of a]
    by (auto simp: requested_amount_def split: if_splits sum.splits)
  then show ?thesis using assms(1)
    by (auto simp: calculate_fiat_amounts_def Let_def split: sum.splits)
qed

text \<open>The actions of \<open>create_invoice\<close> in the order they ran, when it returned.\<close>

lemma create_invoice_inv:
  assumes "create_invoice ev cfg wid k db = (Inr p, db')"
  obtains w db1 n x r db2 c d where "0 < ik_amount k"
    "get_wallet ev cfg wid (Some False) db = (Inr (Some w), db1)" "can_receive_payments w"
    "is_fiat_wallet w \<longrightarrow> ik_internal k"
    "calculate_fiat_amounts ev cfg (ik_amount k) w (ik_currency k) (ik_extra k) = Inr (n, x)"
    "n \<le> lnbits_max_incoming_payment_amount_sats cfg"
    "request_invoice ev cfg k n (if truthy (ik_description_hash k) then None else Some (take 640 (ik_memo k))) db1
       = (Inr r, db2)"
    "create_payment ev cfg c d PENDING db2 = (Inr p, db')"
    "cp_amount_msat d = n * 1000" "cp_wallet_id d = source_wallet_id w" "ir_checking_id r = Some c"
proof -
  from assms obtain w db1 where a: "0 < ik_amount k"
    and w: "get_wallet ev cfg wid (Some False) db = (Inr (Some w), db1)"
    by (auto simp: create_invoice_def thenP_failIf bindP_Inr_iff throw_def split: if_splits option.splits)
  have b: "can_receive_payments w" "is_fiat_wallet w \<longrightarrow> ik_internal k"
    using assms a w by (auto simp: create_invoice_def thenP_failIf bindP_def [of "get_wallet _ _ _ _"]
        Let_def split: if_splits)
  obtain n x where n: "calculate_fiat_amounts ev cfg (ik_amount k) w (ik_currency k) (ik_extra k) = Inr (n, x)"
    using assms a w b
    by (cases "calculate_fiat_amounts ev cfg (ik_amount k) w (ik_currency k) (ik_extra k)")
      (auto simp: create_invoice_def thenP_failIf bindP_def [of "get_wallet _ _ _ _"] Let_def throw_def)
  have m: "n \<le> lnbits_max_incoming_payment_amount_sats cfg"
    using assms a w b n by (auto simp: create_invoice_def thenP_failIf bindP_def [of "get_wallet _ _ _ _"]
        Let_def split: if_splits)
  let ?memo = "if truthy (ik_description_hash k) then None else Some (take 640 (ik_memo k))"
  obtain r db2 where r: "request_invoice ev cfg k n ?memo db1 = (Inr r, db2)"
    using assms a w b n m
    by (cases "request_invoice ev cfg k n ?memo db1"; cases "fst (request_invoice ev cfg k n ?memo db1)")
      (auto simp: create_invoice_def thenP_failIf bindP_def [of "get_wallet _ _ _ _"] Let_def
        bindP_def [of "request_invoice _ _ _ _ _"] split: if_splits)
  obtain i where i: "e_decode ev (the (ir_payment_request r)) = Some i"
    and ok: "truthy (ir_checking_id r)"
    using assms a w b n m r
    by (auto simp: create_invoice_def thenP_failIf bindP_def [of "get_wallet _ _ _ _"] Let_def throw_def
        bindP_def [of "request_invoice _ _ _ _ _"] split: if_splits option.splits)
  show ?thesis
    using assms a w b n m r i ok that [OF a w b n m r]
    by (cases "validate_external_id (ik_external_id k)"; cases "ir_checking_id r")
      (auto simp: create_invoice_def thenP_failIf bindP_def [of "get_wallet _ _ _ _"] Let_def throw_def
        bindP_def [of "request_invoice _ _ _ _ _"] split: if_splits)
qed

text \<open>C12: Creating an invoice books nothing: it adds one pending row of a whole, non-negative number of satoshis
  within the server's maximum, on the wallet whose balance the caller's wallet shows, and every ledger stays
  as it was. It needs a positive amount and the permission to receive.\<close>

theorem invoice_books_nothing:
  assumes "create_invoice ev cfg wid k db = (Inr p, db')" "tables_ok db"
  shows "(\<forall>x. ledger_sum x (wd_payments db') = ledger_sum x (wd_payments db))
    \<and> wd_payments db' = wd_payments db @ [p] \<and> p_status p = PENDING \<and> 0 < ik_amount k
    \<and> (\<exists>n. p_amount p = n * 1000 \<and> 0 \<le> n \<and> n \<le> lnbits_max_incoming_payment_amount_sats cfg)
    \<and> (\<exists>w db1. get_wallet ev cfg wid (Some False) db = (Inr (Some w), db1)
         \<and> can_receive_payments w \<and> p_wallet_id p = source_wallet_id w)"
proof -
  have dist: "wallet_ids_distinct db" using assms(2) by (simp add: tables_ok_def)
  from create_invoice_inv [OF assms(1)] obtain w db1 n x r db2 c d where
    a: "0 < ik_amount k" and w: "get_wallet ev cfg wid (Some False) db = (Inr (Some w), db1)"
      "can_receive_payments w"
    and n: "calculate_fiat_amounts ev cfg (ik_amount k) w (ik_currency k) (ik_extra k) = Inr (n, x)"
      "n \<le> lnbits_max_incoming_payment_amount_sats cfg"
    and r: "request_invoice ev cfg k n (if truthy (ik_description_hash k) then None else Some (take 640 (ik_memo k))) db1
       = (Inr r, db2)"
    and c: "create_payment ev cfg c d PENDING db2 = (Inr p, db')"
      "cp_amount_msat d = n * 1000" "cp_wallet_id d = source_wallet_id w" by metis
  have nn: "0 \<le> n" using amount_nonneg [OF n(1) a] .
  have sb: "same_books db db1" using readsD [OF reads_get_wallet dist] w(1) by (metis snd_conv)
  note q = request_invoice_books [OF r]
  have d2: "wallet_ids_distinct db2" using q sb dist by (simp add: wallet_ids_distinct_def same_books_ids [unfolded wallet_ids_distinct_def])
  from c(1) d2 show ?thesis
  proof (cases rule: create_payment_cases)
    case (created db3)
    have p: "p = new_payment ev c d PENDING" using created(1) by simp
    have ps: "wd_payments db' = wd_payments db @ [p]"
      using created(3) p same_books_sel(1) [OF created(2)] q same_books_sel(1) [OF sb] by simp
    have "booked y p = 0" for y using p c(2) nn by (simp add: booked_def counted_def)
    then have "\<forall>y. ledger_sum y (wd_payments db') = ledger_sum y (wd_payments db)"
      by (simp add: ledger_sum_booked ps)
    then show ?thesis using ps p a w n(2) nn c(2,3) by auto
  qed simp
qed

theorem invoice_books_nothing_witness:
  "\<exists>p db'. create_invoice demo_env demo_settings ''bob'' demo_kwargs demo_world = (Inr p, db')
     \<and> ledger_sum ''bob'' (wd_payments db') = ledger_sum ''bob'' (wd_payments demo_world)"
proof -
  have gw: "get_wallet demo_env demo_settings ''bob'' (Some False) demo_world
      = (Inr (Some (wd_wallets demo_world ! 1)), demo_world)" by code_simp
  have step: "bindP (get_wallet demo_env demo_settings ''bob'' (Some False)) k demo_world
      = k (Some (wd_wallets demo_world ! 1)) demo_world" for k :: "wallet option \<Rightarrow> (world, payment) py"
    by (simp add: bindP_def gw)
  have "is_ok (create_invoice demo_env demo_settings ''bob'' demo_kwargs demo_world)"
    unfolding create_invoice_def thenP_failIf step option.case by code_simp
  then obtain p db' where run: "create_invoice demo_env demo_settings ''bob'' demo_kwargs demo_world = (Inr p, db')"
    using is_okD by blast
  have "tables_ok demo_world" by code_simp
  from invoice_books_nothing [OF run this] run show ?thesis by blast
qed

end
