(* ===== verification/Users.thy ===== *)
theory Users
  imports AccessControl
begin

text \<open>
  The life of an account: the remaining queries of \<open>lnbits/core/crud/users.py\<close>, the extension rows of
  \<open>crud/extensions.py\<close>, and \<open>lnbits/core/services/users.py\<close> (creating, updating, invitation codes).
\<close>

section \<open>Rows of accounts and of user extensions\<close>

text \<open>The key column of \<open>accounts\<close> is the id; inserting an id twice fails.\<close>

definition insert_account :: "account \<Rightarrow> (world, unit) py" where
  "insert_account a =
     bindP (gets (\<lambda>db. a_id a \<in> a_id ` set (wd_accounts db))) (\<lambda>dup.
     thenP (failIf dup (OtherError ''IntegrityError''))
     (modify (\<lambda>db. db\<lparr>wd_accounts := wd_accounts db @ [a]\<rparr>)))"

definition new_account :: "string \<Rightarrow> int \<Rightarrow> account" where
  "new_account i now =
     \<lparr>a_id = i, a_activated = True, a_external_id = None, a_username = None, a_password_hash = None,
      a_pubkey = None, a_email = None, a_extra = default_user_extra, a_ui_customization = [],
      a_created_at = now, a_updated_at = now\<rparr>"

definition create_account :: "env \<Rightarrow> account option \<Rightarrow> (world, account) py" where
  "create_account ev acc =
     (case acc of
        Some a \<Rightarrow> thenP (liftE (validate_fields a)) (thenP (insert_account a) (ret a))
      | None \<Rightarrow>
          bindP (gets (\<lambda>db. new_account (e_uuid ev db 0) (e_now ev))) (\<lambda>a.
          thenP (insert_account a) (ret a)))"

definition get_accounts_count :: "world \<Rightarrow> nat" where
  "get_accounts_count db = length (wd_accounts db)"

definition delete_accounts_no_wallets :: "env \<Rightarrow> int \<Rightarrow> (world, unit) py" where
  "delete_accounts_no_wallets ev time_delta =
     modify (\<lambda>db. db\<lparr>wd_accounts := filter (\<lambda>a.
        \<not> (filter (\<lambda>w. w_user w = a_id a) (wd_wallets db) = [] \<and> a_updated_at a < e_now ev - time_delta))
        (wd_accounts db)\<rparr>)"

definition update_user_access_control_list :: "env \<Rightarrow> user_acls \<Rightarrow> (world, unit) py" where
  "update_user_access_control_list ev u =
     modify (\<lambda>db. if uacl_id u \<in> a_id ` set (wd_accounts db)
                  then db\<lparr>wd_acls := AList.update (uacl_id u) (u\<lparr>uacl_updated_at := e_now ev\<rparr>) (wd_acls db)\<rparr>
                  else db)"

definition get_user_extensions :: "string \<Rightarrow> world \<Rightarrow> user_extension list" where
  "get_user_extensions user_id db = filter (\<lambda>u. ux_user u = user_id) (wd_user_extensions db)"

definition get_user_extension :: "string \<Rightarrow> string \<Rightarrow> world \<Rightarrow> user_extension option" where
  "get_user_extension user_id ext db =
     List.find (\<lambda>u. ux_user u = user_id \<and> ux_extension u = ext) (wd_user_extensions db)"

text \<open>\<open>UNIQUE ("user", extension)\<close>.\<close>

definition create_user_extension :: "user_extension \<Rightarrow> (world, unit) py" where
  "create_user_extension u =
     bindP (gets (get_user_extension (ux_user u) (ux_extension u))) (\<lambda>dup.
     thenP (failIf (dup \<noteq> None) (OtherError ''IntegrityError''))
     (modify (\<lambda>db. db\<lparr>wd_user_extensions := wd_user_extensions db @ [u]\<rparr>)))"

definition update_user_extension :: "user_extension \<Rightarrow> (world, unit) py" where
  "update_user_extension u =
     modify (\<lambda>db. db\<lparr>wd_user_extensions :=
        map (\<lambda>v. if ux_extension v = ux_extension u \<and> ux_user v = ux_user u then u else v)
          (wd_user_extensions db)\<rparr>)"

definition new_user_extension :: "string \<Rightarrow> string \<Rightarrow> user_extension" where
  "new_user_extension user_id ext =
     \<lparr>ux_user = user_id, ux_extension = ext, ux_active = True, ux_extra = None, ux_permissions = []\<rparr>"

section \<open>The user object\<close>

record user =
  u_id :: string
  u_activated :: bool
  u_created_at :: int
  u_updated_at :: int
  u_email :: "string option"
  u_username :: "string option"
  u_pubkey :: "string option"
  u_external_id :: "string option"
  u_extensions :: "string list"
  u_wallets :: "wallet list"
  u_admin :: bool
  u_super_user :: bool
  u_fiat_providers :: "string list"
  u_can_create_fiat_wallet :: bool
  u_has_password :: bool
  u_extra :: user_extra
  u_ui_customization :: dict

definition wallet_ids :: "user \<Rightarrow> string list" where
  "wallet_ids u = map w_id (u_wallets u)"

definition user_get_wallet :: "user \<Rightarrow> string \<Rightarrow> wallet option" where
  "user_get_wallet u wid =
     (case filter (\<lambda>w. w_id w = wid) (u_wallets u) of [] \<Rightarrow> None | w # _ \<Rightarrow> Some w)"

definition is_extension_for_user :: "settings \<Rightarrow> string \<Rightarrow> string \<Rightarrow> bool" where
  "is_extension_for_user cfg ext user =
     (if ext \<notin> set (lnbits_admin_extensions cfg) then True
      else if user = super_user cfg then True
      else user \<in> set (lnbits_admin_users cfg))"

definition get_user_from_account :: "env \<Rightarrow> settings \<Rightarrow> account \<Rightarrow> (world, user) py" where
  "get_user_from_account ev cfg a =
     bindP (gets (get_user_active_extensions_ids (a_id a))) (\<lambda>exts.
     bindP (get_wallets ev cfg (a_id a) (Some False) None) (\<lambda>ws.
     bindP (if ws = [] then bindP (create_wallet ev cfg (a_id a) None LIGHTNING None) (\<lambda>w. ret [w])
            else ret ws) (\<lambda>ws.
     ret \<lparr>u_id = a_id a, u_activated = a_activated a, u_created_at = a_created_at a,
          u_updated_at = a_updated_at a, u_email = a_email a, u_username = a_username a,
          u_pubkey = a_pubkey a, u_external_id = a_external_id a, u_extensions = exts, u_wallets = ws,
          u_admin = account_is_admin cfg a, u_super_user = account_is_super_user cfg a,
          u_fiat_providers = account_fiat_providers cfg a,
          u_can_create_fiat_wallet = can_create_fiat_wallet cfg (a_id a),
          u_has_password = (a_password_hash a \<noteq> None), u_extra = a_extra a,
          u_ui_customization = a_ui_customization a\<rparr>)))"

definition get_user :: "env \<Rightarrow> settings \<Rightarrow> string \<Rightarrow> bool \<Rightarrow> (world, user option) py" where
  "get_user ev cfg user_id active_only =
     bindP (gets (get_account user_id active_only)) (\<lambda>found.
     case found of
       None \<Rightarrow> ret None
     | Some a \<Rightarrow> bindP (get_user_from_account ev cfg a) (\<lambda>u. ret (Some u)))"

definition check_user_exists ::
  "env \<Rightarrow> settings \<Rightarrow> jwt \<Rightarrow> string option \<Rightarrow> string option \<Rightarrow> (http, user) py" where
  "check_user_exists ev cfg jwt token usr =
     bindP (check_account_exists ev cfg jwt token usr) (\<lambda>a. on_db (get_user_from_account ev cfg a))"

definition check_blockexplorer_access ::
  "env \<Rightarrow> settings \<Rightarrow> jwt \<Rightarrow> string option \<Rightarrow> string option \<Rightarrow> (http, user) py" where
  "check_blockexplorer_access ev cfg jwt token usr =
     thenP (failIf (\<not> lnbits_blockexplorer_enabled cfg) (HTTPException 404 ''Block explorer is disabled.''))
     (check_user_exists ev cfg jwt token usr)"

section \<open>The cache entries of a user\<close>

definition user_cache_key :: "env \<Rightarrow> string \<Rightarrow> string" where
  "user_cache_key ev uid = ''auth:user:cache_key:'' @ e_sha256s ev uid"

definition clear_user_cache :: "env \<Rightarrow> user \<Rightarrow> (world, unit) py" where
  "clear_user_cache ev u =
     bindP (pop_cached ev (user_cache_key ev (u_id u))) (\<lambda>k.
     thenP (case k of Some (CKey key) \<Rightarrow> if key \<noteq> [] then thenP (pop_cached ev key) (ret ()) else ret ()
                    | _ \<Rightarrow> ret ())
     (forP (u_wallets u) (clear_wallet_cache ev)))"

text \<open>The user is read again and only an active account is found.\<close>

definition clear_user_id_cache :: "env \<Rightarrow> settings \<Rightarrow> string \<Rightarrow> (world, unit) py" where
  "clear_user_id_cache ev cfg user_id =
     bindP (get_user ev cfg user_id True) (\<lambda>found.
     case found of None \<Rightarrow> ret () | Some u \<Rightarrow> clear_user_cache ev u)"

definition delete_account :: "env \<Rightarrow> settings \<Rightarrow> string \<Rightarrow> (world, unit) py" where
  "delete_account ev cfg user_id =
     thenP (modify (\<lambda>db. db\<lparr>wd_accounts := filter (\<lambda>a. a_id a \<noteq> user_id) (wd_accounts db),
                          wd_acls := filter (\<lambda>e. fst e \<noteq> user_id) (wd_acls db)\<rparr>))
     (clear_user_id_cache ev cfg user_id)"

section \<open>Creating accounts\<close>

definition check_users_limit :: "settings \<Rightarrow> (world, unit) py" where
  "check_users_limit cfg =
     bindP (gets get_accounts_count) (\<lambda>n.
     failIf (lnbits_max_users cfg \<noteq> 0 \<and> int n \<ge> lnbits_max_users cfg)
       (ValueError ''Max amount of users have been created''))"

text \<open>The checks on a given account, and the id it gets when it has none.\<close>

definition check_new_account :: "env \<Rightarrow> account \<Rightarrow> (world, account) py" where
  "check_new_account ev a =
     thenP (liftE (validate_fields a))
     (bindP (gets (\<lambda>db. truthy (a_username a) \<and> get_account_by_username (the (a_username a)) True db \<noteq> None)) (\<lambda>dup.
      thenP (failIf dup (ValueError ''Username already exists.''))
     (bindP (gets (\<lambda>db. truthy (a_email a) \<and> get_account_by_email (the (a_email a)) True db \<noteq> None)) (\<lambda>dup.
      thenP (failIf dup (ValueError ''Email already exists.''))
     (bindP (gets (\<lambda>db. truthy (a_pubkey a) \<and> get_account_by_pubkey (the (a_pubkey a)) True db \<noteq> None)) (\<lambda>dup.
      thenP (failIf dup (ValueError ''Pubkey already exists.''))
     (gets (\<lambda>db. if a_id a = [] then a\<lparr>a_id := e_uuid ev db 0\<rparr> else a))))))))"

definition create_user_account_no_ckeck ::
  "env \<Rightarrow> settings \<Rightarrow> account option \<Rightarrow> string option \<Rightarrow> string list option \<Rightarrow> (world, user) py" where
  "create_user_account_no_ckeck ev cfg acc wallet_name default_exts =
     thenP (check_users_limit cfg)
     (bindP (case acc of
               Some a \<Rightarrow> bindP (check_new_account ev a) (\<lambda>a. ret (Some a))
             | None \<Rightarrow> ret None) (\<lambda>acc.
      bindP (create_account ev acc) (\<lambda>a.
      thenP (create_wallet ev cfg (a_id a)
               (if truthy wallet_name then wallet_name else Some (lnbits_default_wallet_name cfg)) LIGHTNING None)
     (thenP (forP ((case default_exts of None \<Rightarrow> [] | Some es \<Rightarrow> es) @ lnbits_user_default_extensions cfg)
               (\<lambda>e. tryP (create_user_extension (new_user_extension (a_id a) e)) (\<lambda>_. ret ())))
     (get_user_from_account ev cfg a)))))"

definition create_user_account ::
  "env \<Rightarrow> settings \<Rightarrow> account option \<Rightarrow> string option \<Rightarrow> (world, user) py" where
  "create_user_account ev cfg acc wallet_name =
     thenP (failIf (\<not> new_accounts_allowed cfg) (ValueError ''Account creation is disabled.''))
     (create_user_account_no_ckeck ev cfg acc wallet_name None)"

section \<open>Updating accounts\<close>

definition taken_by_other :: "account option \<Rightarrow> account \<Rightarrow> bool" where
  "taken_by_other found a \<longleftrightarrow> (case found of None \<Rightarrow> False | Some b \<Rightarrow> a_id b \<noteq> a_id a)"

definition update_user_account :: "env \<Rightarrow> account \<Rightarrow> (world, account) py" where
  "update_user_account ev a =
     thenP (liftE (validate_fields a))
     (bindP (gets (get_account (a_id a) True)) (\<lambda>found.
      case found of
        None \<Rightarrow> throw (ValueError ''User does not exist.'')
      | Some old \<Rightarrow>
          let a = a\<lparr>a_password_hash := a_password_hash old\<rparr> in
          thenP (failIf (truthy (a_username old) \<and> \<not> truthy (a_username a)) (ValueError ''Cannot remove username.''))
         (bindP (gets (\<lambda>db. truthy (a_username a) \<and>
              taken_by_other (get_account_by_username (the (a_username a)) True db) a)) (\<lambda>dup.
          thenP (failIf dup (ValueError ''Username already exists.''))
         (bindP (gets (\<lambda>db. truthy (a_email a) \<and>
              taken_by_other (get_account_by_email (the (a_email a)) True db) a)) (\<lambda>dup.
          thenP (failIf dup (ValueError ''Email already exists.''))
         (bindP (gets (\<lambda>db. truthy (a_pubkey a) \<and>
              taken_by_other (get_account_by_pubkey (the (a_pubkey a)) True db) a)) (\<lambda>dup.
          thenP (failIf dup (ValueError ''Pubkey already exists.''))
         (update_account ev a)))))))))"

text \<open>\<open>update_user_extensions\<close>: first the rows that exist, then the new ones.\<close>

definition update_user_extensions :: "string \<Rightarrow> string list \<Rightarrow> (world, unit) py" where
  "update_user_extensions user_id extensions =
     bindP (gets (get_user_extensions user_id)) (\<lambda>rows.
     thenP (forP rows (\<lambda>u.
        if ux_active u
        then (if ux_extension u \<notin> set extensions then update_user_extension (u\<lparr>ux_active := False\<rparr>) else ret ())
        else (if ux_extension u \<in> set extensions then update_user_extension (u\<lparr>ux_active := True\<rparr>) else ret ())))
     (forP extensions (\<lambda>e.
        if e \<in> set (map ux_extension rows) then ret ()
        else create_user_extension (new_user_extension user_id e))))"

section \<open>Invitation codes\<close>

text \<open>
  Only the code of the registration form is read. A one-time code is taken out of the settings (and the
  list stored in the settings table).
\<close>

definition check_register_activation_settings :: "string option \<Rightarrow> (settings, unit) py" where
  "check_register_activation_settings invitation_code =
     bindP (gets id) (\<lambda>cfg.
     if \<not> lnbits_require_user_activation cfg then ret ()
     else if lnbits_user_activation_by_invitation_code cfg then
       (let code = (if truthy invitation_code then strip (the invitation_code) else [])
        in thenP (failIf (code = []) (ValueError ''Invitation code cannot be empty.''))
          (if code = lnbits_register_reusable_activation_code cfg then ret ()
           else if code \<in> set (lnbits_register_one_time_activation_codes cfg)
           then modify (\<lambda>c. c\<lparr>lnbits_register_one_time_activation_codes :=
                   remove1 code (lnbits_register_one_time_activation_codes c)\<rparr>)
           else throw (ValueError ''Invalid invitation code.'')))
     else throw (ValueError ''No activation method provided.''))"

end
