(* ===== verification/WalletSharing.thy ===== *)
theory WalletSharing
  imports Users InvoiceService
begin

text \<open>
  Sharing a wallet: \<open>lnbits/core/services/wallets.py\<close>. The owner invites an account, which finds the
  invitation among its requests and accepts it by creating a mirror wallet; the share kept in the
  owner's wallet then names the mirror and the permissions it has. A share found in a list is changed
  in place, so the model updates the first element the search found.
\<close>

definition share_request_id :: "env \<Rightarrow> account \<Rightarrow> 'a base_wallet_scheme \<Rightarrow> string" where
  "share_request_id ev invited source = e_sha256s ev (a_id invited @ w_id source)"

definition approve_share ::
  "(wallet_share \<Rightarrow> bool) \<Rightarrow> wallet_permission list option \<Rightarrow> string option \<Rightarrow> wallet \<Rightarrow> wallet" where
  "approve_share P permissions wid w =
     w\<lparr>w_extra := (w_extra w)\<lparr>we_shared_with :=
         update_first P (ws_approve permissions wid) (we_shared_with (w_extra w))\<rparr>\<rparr>"

definition invite_to_wallet :: "env \<Rightarrow> wallet \<Rightarrow> wallet_share \<Rightarrow> (world, wallet_share) py" where
  "invite_to_wallet ev source d =
     thenP (failIf (\<not> is_lightning_wallet source) (ValueError ''Only lightning wallets can be shared.''))
     (thenP (failIf (ws_username d = []) (ValueError ''Username or email missing.''))
     (bindP (gets (get_account_by_username_or_email (ws_username d) True)) (\<lambda>found.
      case found of
        None \<Rightarrow> throw (ValueError ''Invited user not found.'')
      | Some invited \<Rightarrow>
          let request_id = share_request_id ev invited source in
          thenP (failIf (find_share_by_id request_id (w_extra source) \<noteq> None)
                   (ValueError ''User already invited to this wallet.''))
         (let (share, x) = invite_user_to_shared_wallet request_id INVITE_SENT (ws_username d)
                             (ws_permissions d) (w_extra source)
          in thenP (update_wallet ev (source\<lparr>w_extra := x\<rparr>))
            (bindP (gets (get_account (w_user source) True)) (\<lambda>owner.
             case owner of
               None \<Rightarrow> throw (ValueError ''Cannot find wallet owner.'')
             | Some o' \<Rightarrow>
                 thenP (update_account ev (invited\<lparr>a_extra :=
                    add_wallet_invite_request request_id (w_id source) (w_name source)
                      (orElse (a_username o') (a_email o')) (a_extra invited)\<rparr>))
                 (ret share)))))))"

definition reject_wallet_invitation :: "env \<Rightarrow> string \<Rightarrow> string \<Rightarrow> (world, unit) py" where
  "reject_wallet_invitation ev invited_user_id request_id =
     bindP (gets (get_account invited_user_id True)) (\<lambda>found.
     case found of
       None \<Rightarrow> throw (ValueError ''Invited user not found.'')
     | Some a \<Rightarrow>
         thenP (failIf (find_wallet_invite_request request_id (a_extra a) = None)
                  (ValueError ''Invitation not found.''))
        (thenP (update_account ev (a\<lparr>a_extra := remove_wallet_invite_request request_id (a_extra a)\<rparr>))
         (ret ())))"

definition update_wallet_share_permissions ::
  "env \<Rightarrow> settings \<Rightarrow> wallet \<Rightarrow> wallet_share \<Rightarrow> (world, wallet_share) py" where
  "update_wallet_share_permissions ev cfg source d =
     thenP (failIf (\<not> is_lightning_wallet source) (ValueError ''Only lightning wallets can be shared.''))
     (thenP (failIf (\<not> truthy (ws_shared_with_wallet_id d)) (ValueError ''Wallet ID missing.''))
     (let wid = the (ws_shared_with_wallet_id d) in
      case find_share_for_wallet wid (w_extra source) of
        None \<Rightarrow> throw (ValueError ''Share not found'')
      | Some share \<Rightarrow>
          bindP (get_wallet ev cfg wid (Some False)) (\<lambda>mirror.
          case mirror of
            None \<Rightarrow> throw (ValueError ''Target wallet not found'')
          | Some m \<Rightarrow>
              thenP (failIf (\<not> is_lightning_shared_wallet m) (ValueError ''Target wallet is not a shared wallet.''))
             (thenP (failIf (w_shared_wallet_id m \<noteq> Some (w_id source))
                       (ValueError ''Not the owner of the shared wallet.''))
             (thenP (update_wallet ev (approve_share (\<lambda>s. ws_shared_with_wallet_id s = Some wid)
                        (Some (ws_permissions d)) None source))
              (ret (ws_approve (Some (ws_permissions d)) None share)))))))"

definition delete_wallet_share ::
  "env \<Rightarrow> settings \<Rightarrow> wallet \<Rightarrow> string \<Rightarrow> (world, simple_status) py" where
  "delete_wallet_share ev cfg source request_id =
     thenP (failIf (\<not> is_lightning_wallet source) (ValueError ''Source wallet is not a lightning wallet.''))
     (case find_share_by_id request_id (w_extra source) of
        None \<Rightarrow> throw (ValueError ''Wallet share not found.'')
      | Some share \<Rightarrow>
          let source' = source\<lparr>w_extra := remove_share_by_id request_id (w_extra source)\<rparr> in
          bindP (gets (get_account_by_username_or_email (ws_username share) True)) (\<lambda>found.
          case found of
            None \<Rightarrow>
              thenP (update_wallet ev source')
              (ret \<lparr>ss_success = True, ss_message = ''Permission removed. Invited user not found.''\<rparr>)
          | Some a \<Rightarrow>
              thenP (if find_wallet_invite_request request_id (a_extra a) \<noteq> None
                     then thenP (update_account ev (a\<lparr>a_extra := remove_wallet_invite_request request_id (a_extra a)\<rparr>))
                          (ret ())
                     else ret ())
             (bindP (get_wallets ev cfg (a_id a) (Some False) (Some LIGHTNING_SHARED)) (\<lambda>mirrors.
              case List.find (\<lambda>w. w_shared_wallet_id w = Some (w_id source)) mirrors of
                None \<Rightarrow>
                  thenP (update_wallet ev source')
                  (ret \<lparr>ss_success = True, ss_message = ''Permission removed. Target wallet not found.''\<rparr>)
              | Some m \<Rightarrow>
                  thenP (failIf (\<not> is_lightning_shared_wallet m)
                           (ValueError ''Target wallet is not a shared lightning wallet.''))
                 (thenP (force_delete_wallet ev (w_id m))
                 (thenP (update_wallet ev source')
                  (ret \<lparr>ss_success = True, ss_message = ''Permission removed.''\<rparr>)))))))"

definition accept_invitation_to_shared_wallet ::
  "env \<Rightarrow> settings \<Rightarrow> account \<Rightarrow> wallet \<Rightarrow> (world, wallet) py" where
  "accept_invitation_to_shared_wallet ev cfg invited source =
     (let request_id = share_request_id ev invited source in
      case find_share_by_id request_id (w_extra source) of
        None \<Rightarrow> throw (ValueError ''No invitation found for this invited user.'')
      | Some share \<Rightarrow>
          thenP (failIf (ws_status share = APPROVED) (ValueError ''This wallet is already shared with you.''))
         (thenP (failIf (ws_status share \<noteq> INVITE_SENT) (ValueError ''Unknown request type.''))
         (thenP (update_account ev (invited\<lparr>a_extra := remove_wallet_invite_request request_id (a_extra invited)\<rparr>))
         (bindP (create_wallet ev cfg (a_id invited) (Some (w_name source)) LIGHTNING_SHARED (Some (w_id source))) (\<lambda>m.
          let source' = approve_share (\<lambda>s. ws_request_id s = Some request_id) None (Some (w_id m)) source
          in thenP (update_wallet ev source') (ret (mirror_shared_wallet m source')))))))"

definition create_lightning_shared_wallet ::
  "env \<Rightarrow> settings \<Rightarrow> string \<Rightarrow> string \<Rightarrow> (world, wallet) py" where
  "create_lightning_shared_wallet ev cfg user_id wid =
     bindP (get_standalone_wallet ev cfg wid (Some False)) (\<lambda>found.
     case found of
       None \<Rightarrow> throw (ValueError ''Shared wallet does not exist.'')
     | Some source \<Rightarrow>
         thenP (failIf (\<not> is_lightning_wallet source) (ValueError ''Shared wallet is not a lightning wallet.''))
        (thenP (failIf (w_user source = user_id) (ValueError ''Cannot mirror your own wallet.''))
        (bindP (gets (get_account user_id True)) (\<lambda>acc.
         case acc of
           None \<Rightarrow> throw (ValueError ''Cannot find invited user.'')
         | Some invited \<Rightarrow> accept_invitation_to_shared_wallet ev cfg invited source))))"

end
