(* ===== verification/LightningAddress.thy ===== *)
theory LightningAddress
  imports Users PayService InvoiceService
begin

text \<open>
  \<open>lnbits/core/services/lightning_address.py\<close>: the lightning address of a wallet, how it is claimed and
  paid for, and how a payer resolves it to an invoice. Regular expressions are written out as the
  predicates they denote; the JSON text of the metadata is the one \<open>json.dumps\<close> writes for ASCII strings.
\<close>

definition MAX_SENDABLE_MSAT :: int where "MAX_SENDABLE_MSAT = 2100000000000000000"
definition COMMENT_ALLOWED :: nat where "COMMENT_ALLOWED = 799"

section \<open>Names\<close>

definition ln_address_char :: "char \<Rightarrow> bool" where
  "ln_address_char c \<longleftrightarrow> (97 \<le> (of_char c :: nat) \<and> (of_char c :: nat) \<le> 122) \<or> is_digit c \<or> c \<in> set ''_.-''"

definition ln_address_regex :: "string \<Rightarrow> bool" where
  "ln_address_regex s \<longleftrightarrow> list_all ln_address_char s \<and> 1 \<le> length s \<and> length s \<le> 210"

definition blacklist_words :: "settings \<Rightarrow> string set" where
  "blacklist_words cfg =
     set (map (\<lambda>w. lower (strip w)) (filter (\<lambda>w. strip w \<noteq> []) (lnbits_wallet_lightning_address_blacklist cfg)))"

text \<open>\<open>re.split(r"[._-]+", s)\<close> without its empty parts.\<close>

fun name_segments :: "string \<Rightarrow> string \<Rightarrow> string list" where
  "name_segments acc [] = (if acc = [] then [] else [rev acc])"
| "name_segments acc (c # cs) =
     (if c \<in> set ''._-'' then (if acc = [] then name_segments [] cs else rev acc # name_segments [] cs)
      else name_segments (c # acc) cs)"

definition uses_blacklisted_word :: "settings \<Rightarrow> string \<Rightarrow> bool" where
  "uses_blacklisted_word cfg local_part =
     (let words = blacklist_words cfg
      in if words = {} then False
         else local_part \<in> words \<or> (\<exists>s \<in> set (name_segments [] local_part). s \<in> words))"

definition validate_local_part ::
  "settings \<Rightarrow> string \<Rightarrow> string \<Rightarrow> bool \<Rightarrow> world \<Rightarrow> exn + string" where
  "validate_local_part cfg name wallet_id allow_blacklisted db =
     (let p = lower (strip name); taken = get_wallet_id_by_ln_address p db
      in if p = [] then Inl (ValueError ''Lightning Address is required.'')
         else if CHR ''+'' \<in> set p then Inl (ValueError ''Lightning Address cannot include tags.'')
         else if CHR ''@'' \<in> set p then Inl (ValueError ''Enter only the Lightning Address name before @.'')
         else if \<not> ln_address_regex p
         then Inl (ValueError ''Lightning Address can only contain lowercase letters, numbers, dash, underscore, and dot.'')
         else if \<not> allow_blacklisted \<and> uses_blacklisted_word cfg p
         then Inl (ValueError ''Lightning Address contains a reserved word.'')
         else if truthy taken \<and> taken \<noteq> Some wallet_id
         then Inl (ValueError ''Lightning Address is already taken.'')
         else Inr p)"

section \<open>Claiming an address\<close>

definition charge_for_lightning_address :: "env \<Rightarrow> settings \<Rightarrow> wallet \<Rightarrow> (world, unit) py" where
  "charge_for_lightning_address ev cfg w =
     (let price = lnbits_wallet_lightning_address_price_sats cfg; fee_wallet = lnbits_service_fee_wallet cfg
      in if \<not> lnbits_charge_wallet_lightning_addresses cfg \<or> price \<le> 0 then ret ()
         else
           thenP (failIf (\<not> truthy fee_wallet) (ValueError ''Lightning Address fee wallet is not configured.''))
          (thenP (failIf (fee_wallet = Some (source_wallet_id w))
                    (ValueError ''Lightning Address fee wallet cannot be the same wallet.''))
          (bindP (get_wallet ev cfg (the fee_wallet) (Some False)) (\<lambda>found.
           thenP (failIf (found = None) (ValueError ''Lightning Address fee wallet is not configured.''))
          (bindP (create_wallet_invoice ev cfg (the fee_wallet)
             \<lparr>ci_unit = ''sat'', ci_internal = True, ci_amount = of_int price,
              ci_memo = Some ''Lightning Address fee'', ci_description_hash = None,
              ci_unhashed_description = None, ci_payment_hash = None, ci_expiry = None,
              ci_extra = [(''tag'', JStr ''wallet_lightning_address_fee''), (''wallet'', JStr (source_wallet_id w))],
              ci_extension = None, ci_webhook = None, ci_lnurl_withdraw = None, ci_fiat_provider = None,
              ci_labels = [], ci_external_id = None\<rparr>) (\<lambda>invoice.
           tryP (bindP (pay_invoice ev cfg (source_wallet_id w) (p_bolt11 invoice) None
               [(''tag'', JStr ''wallet_lightning_address_fee''), (''fee_wallet'', JStr (the fee_wallet))]
               ''Lightning Address fee'' ''wallet_lightning_address_fee'' [] None) (\<lambda>_. ret ()))
             (\<lambda>e. case e of PaymentError m s \<Rightarrow> throw (ValueError m) | _ \<Rightarrow> throw e)))))))"

definition set_wallet_lightning_address ::
  "env \<Rightarrow> settings \<Rightarrow> wallet \<Rightarrow> string \<Rightarrow> bool \<Rightarrow> bool \<Rightarrow> (world, wallet) py" where
  "set_wallet_lightning_address ev cfg w name allow_blacklisted charge =
     thenP (failIf (\<not> ln_address_creation_allowed cfg) (ValueError ''Wallet Lightning Addresses are disabled.''))
     (thenP (failIf (\<not> is_lightning_wallet w \<or> w_deleted w)
               (ValueError ''Lightning Address can only be set for active wallets.''))
     (bindP (gets (validate_local_part cfg name (w_id w) allow_blacklisted)) (\<lambda>r.
      bindP (liftE r) (\<lambda>p.
      if w_lightning_address w = Some p then ret w
      else thenP (if charge then charge_for_lightning_address ev cfg w else ret ())
           (update_wallet ev (w\<lparr>w_lightning_address := Some p\<rparr>))))))"

section \<open>Paying to an address\<close>

text \<open>\<open>local_part.partition("+")\<close>.\<close>

definition split_tagged_local_part :: "string \<Rightarrow> string \<times> string option" where
  "split_tagged_local_part s =
     (let username = takeWhile (\<lambda>c. c \<noteq> CHR ''+'') s; rest = drop (length username) s; tag = drop 1 rest
      in (lower username, if rest = [] \<or> tag = [] then None else Some tag))"

definition tagged_local_part :: "string \<Rightarrow> string option \<Rightarrow> string" where
  "tagged_local_part p tag = (case tag of None \<Rightarrow> p | Some t \<Rightarrow> p @ ''+'' @ t)"

definition ln_metadata :: "string \<Rightarrow> string option \<Rightarrow> string list list" where
  "ln_metadata identifier tag =
     [[''text/plain'', ''Payment to '' @ identifier], [''text/identifier'', identifier]]
     @ (case tag of None \<Rightarrow> [] | Some t \<Rightarrow> [[''text/tag'', t]])"

definition hex_digit :: "nat \<Rightarrow> char" where
  "hex_digit n = (if n < 10 then char_of (48 + n) else char_of (87 + n))"

definition json_char :: "char \<Rightarrow> string" where
  "json_char c =
     (let n = (of_char c :: nat); bs = char_of (92 :: nat)
      in if n = 34 then [bs, CHR 0x22] else if n = 92 then [bs, bs]
         else if n = 8 then [bs, CHR ''b''] else if n = 9 then [bs, CHR ''t'']
         else if n = 10 then [bs, CHR ''n''] else if n = 12 then [bs, CHR ''f'']
         else if n = 13 then [bs, CHR ''r'']
         else if n < 32 then bs # ''u00'' @ [hex_digit (n div 16), hex_digit (n mod 16)]
         else [c])"

definition json_string :: "string \<Rightarrow> string" where
  "json_string s = [CHR 0x22] @ concat (map json_char s) @ [CHR 0x22]"

definition json_string_lists :: "string list list \<Rightarrow> string" where
  "json_string_lists xss =
     ''['' @ join '', '' (map (\<lambda>xs. ''['' @ join '', '' (map json_string xs) @ '']'') xss) @ '']''"

datatype lnurl_response =
    LnurlErrorResponse string
  | LnurlPayResponse string int int string nat
  | LnurlPayActionResponse string

text \<open>\<open>url_for\<close> and \<open>netloc\<close> are the address of the callback route and the host of the request.\<close>

definition wallet_lightning_address_response ::
  "(string \<Rightarrow> string) \<Rightarrow> string \<Rightarrow> string \<Rightarrow> world \<Rightarrow> lnurl_response" where
  "wallet_lightning_address_response url_for netloc username db =
     (let (p, tag) = split_tagged_local_part username
      in if \<not> truthy (get_wallet_id_by_ln_address p db) then LnurlErrorResponse ''Lightning address not found.''
         else let tagged = tagged_local_part p tag
              in LnurlPayResponse (url_for tagged) 1000 MAX_SENDABLE_MSAT
                   (json_string_lists (ln_metadata (tagged @ ''@'' @ netloc) tag)) COMMENT_ALLOWED)"

definition wallet_lightning_address_callback ::
  "env \<Rightarrow> settings \<Rightarrow> string \<Rightarrow> string \<Rightarrow> int \<Rightarrow> string option \<Rightarrow> (world, lnurl_response) py" where
  "wallet_lightning_address_callback ev cfg netloc username amount comment =
     (let (p, tag) = split_tagged_local_part username; c = (case comment of None \<Rightarrow> [] | Some x \<Rightarrow> x)
      in bindP (gets (get_wallet_id_by_ln_address p)) (\<lambda>wid.
         if \<not> truthy wid then ret (LnurlErrorResponse ''Lightning address not found.'')
         else if amount < 1000 then ret (LnurlErrorResponse ''Amount is smaller than minimum 1000.'')
         else if amount > MAX_SENDABLE_MSAT
         then ret (LnurlErrorResponse (''Amount is greater than maximum '' @ str_int MAX_SENDABLE_MSAT @ ''.''))
         else if length c > COMMENT_ALLOWED
         then ret (LnurlErrorResponse (''Got a comment with '' @ str_int (int (length c))
                @ '' characters, but can only accept '' @ str_int (int COMMENT_ALLOWED)))
         else
           (let identifier = tagged_local_part p tag @ ''@'' @ netloc;
                extra = [(''tag'', JStr ''wallet_lightning_address''), (''lnaddress'', JStr identifier)]
                  @ (case tag of None \<Rightarrow> [] | Some t \<Rightarrow> [(''lnaddress_tag'', JStr t)])
                  @ (if c = [] then [] else [(''comment'', JStr c)])
            in bindP (create_invoice ev cfg (the wid)
                 \<lparr>ik_amount = of_int (py_trunc (idiv_float amount 1000)), ik_currency = Some ''sat'',
                  ik_memo = ''Payment to '' @ identifier, ik_description_hash = None,
                  ik_unhashed_description = Some (json_string_lists (ln_metadata identifier tag)),
                  ik_expiry = None, ik_extra = extra, ik_webhook = None, ik_internal = False,
                  ik_payment_hash = None, ik_extension = None, ik_labels = [], ik_external_id = None\<rparr>) (\<lambda>payment.
               ret (LnurlPayActionResponse (p_bolt11 payment))))))"

end
