(* ===== verification/AuthApi.thy ===== *)
theory AuthApi
  imports Users "HOL-Library.List_Lexorder" "HOL-Library.Char_ord"
begin

text \<open>
  \<open>lnbits/core/views/auth_api.py\<close>: login, registration, credentials and the access control lists of
  API tokens. A handler gets the results of its dependencies as arguments (the account that
  \<open>check_account_exists\<close> identified, the payload of the token). The answer to a login is the payload of
  the session token and its life time; signing it and the cookies are left out. Password hashing (bcrypt)
  and the decoding of a bech32 key are parameters, as are the signature check of a nostr event and the
  decryption of a reset key.
\<close>

section \<open>Failed logins\<close>

definition LOGIN_FAILURE_LIMIT :: nat where "LOGIN_FAILURE_LIMIT = 5"
definition LOGIN_FAILURE_WINDOW_SECONDS :: int where "LOGIN_FAILURE_WINDOW_SECONDS = 15 * 60"
definition LOGIN_INITIAL_COOLDOWN_SECONDS :: int where "LOGIN_INITIAL_COOLDOWN_SECONDS = 60"
definition LOGIN_MAX_COOLDOWN_SECONDS :: int where "LOGIN_MAX_COOLDOWN_SECONDS = 15 * 60"

definition login_failure_cache_key :: "env \<Rightarrow> settings \<Rightarrow> string \<Rightarrow> string option \<Rightarrow> string" where
  "login_failure_cache_key ev cfg identifier account_id =
     (let bucket = take 2 (e_sha256s ev (auth_secret_key cfg @ '':'' @ lower identifier))
      in ''auth:login_failures:'' @
         (if truthy account_id then the account_id else ''unknown:'' @ bucket))"

definition check_login_throttle :: "env \<Rightarrow> string \<Rightarrow> (world, unit) py" where
  "check_login_throttle ev key =
     bindP (get_cached ev key) (\<lambda>state.
     case state of
       None \<Rightarrow> ret ()
     | Some (CLoginFailures failures blocked_until) \<Rightarrow>
         if blocked_until \<le> of_int (e_now ev) then ret ()
         else throw (HTTPException 429 ''Too many login attempts. Try again later.'')
     | Some _ \<Rightarrow> throw (OtherError ''AttributeError''))"

definition cooldown :: "nat \<Rightarrow> int" where
  "cooldown failures =
     min (LOGIN_INITIAL_COOLDOWN_SECONDS * 2 ^ (failures - LOGIN_FAILURE_LIMIT)) LOGIN_MAX_COOLDOWN_SECONDS"

definition record_login_failure :: "env \<Rightarrow> string \<Rightarrow> (world, unit) py" where
  "record_login_failure ev key =
     bindP (get_cached ev key) (\<lambda>previous.
     let failures = (case previous of Some (CLoginFailures n b) \<Rightarrow> n | _ \<Rightarrow> 0) + 1;
         blocked_until = (if failures \<ge> LOGIN_FAILURE_LIMIT then of_int (e_now ev + cooldown failures) else 0)
     in set_cached ev key (CLoginFailures failures blocked_until) LOGIN_FAILURE_WINDOW_SECONDS)"

section \<open>Session tokens\<close>

record auth_response =
  ar_payload :: access_token_payload
  ar_minutes :: int

definition auth_success_response ::
  "env \<Rightarrow> settings \<Rightarrow> string option \<Rightarrow> string option \<Rightarrow> string option \<Rightarrow> auth_response" where
  "auth_success_response ev cfg username user_id email =
     \<lparr>ar_payload = \<lparr>at_sub = (case username of None \<Rightarrow> [] | Some u \<Rightarrow> u), at_usr = user_id, at_email = email,
        at_auth_time = Some (e_now ev), at_api_token_id = None\<rparr>,
      ar_minutes = auth_token_expire_minutes cfg\<rparr>"

definition auth_api_token_response :: "env \<Rightarrow> string \<Rightarrow> string \<Rightarrow> int \<Rightarrow> auth_response" where
  "auth_api_token_response ev username token_id minutes =
     \<lparr>ar_payload = \<lparr>at_sub = username, at_usr = None, at_email = None, at_auth_time = Some (e_now ev),
        at_api_token_id = Some token_id\<rparr>, ar_minutes = minutes\<rparr>"

definition validate_auth_timeout :: "env \<Rightarrow> settings \<Rightarrow> int option \<Rightarrow> exn + unit" where
  "validate_auth_timeout ev cfg auth_time =
     (if \<bar>e_now ev - (case auth_time of None \<Rightarrow> 0 | Some t \<Rightarrow> t)\<bar> > auth_credetials_update_threshold cfg
      then Inl (HTTPException 400 ''You can only update your credentials in the first seconds.'')
      else Inr ())"

section \<open>Login\<close>

record bcrypt =
  bc_hashpw :: "string \<Rightarrow> string"
  bc_checkpw :: "string \<Rightarrow> string \<Rightarrow> bool"

definition hash_password :: "bcrypt \<Rightarrow> string \<Rightarrow> account \<Rightarrow> exn + account" where
  "hash_password bc password a =
     (let h = bc_hashpw bc password
      in if h = [] then Inl (ValueError ''Password hashing failed.'') else Inr (a\<lparr>a_password_hash := Some h\<rparr>))"

definition login ::
  "env \<Rightarrow> settings \<Rightarrow> bcrypt \<Rightarrow> string \<Rightarrow> string \<Rightarrow> (world, auth_response) py" where
  "login ev cfg bc username password =
     thenP (failIf (\<not> is_auth_method_allowed cfg username_and_password)
              (HTTPException 403 ''Login by Username and Password not allowed.''))
     (bindP (gets (get_account_by_username_or_email username True)) (\<lambda>acc.
      let key = login_failure_cache_key ev cfg username (map_option a_id acc) in
      thenP (check_login_throttle ev key)
      (case acc of
         None \<Rightarrow> thenP (record_login_failure ev key) (throw (HTTPException 401 ''Invalid credentials.''))
       | Some a \<Rightarrow>
           if \<not> verify_password (bc_checkpw bc) a password
           then thenP (record_login_failure ev key) (throw (HTTPException 401 ''Invalid credentials.''))
           else thenP (pop_cached ev key)
                (ret (auth_success_response ev cfg (a_username a) (Some (a_id a)) (a_email a))))))"

definition login_usr :: "env \<Rightarrow> settings \<Rightarrow> string \<Rightarrow> world \<Rightarrow> exn + auth_response" where
  "login_usr ev cfg usr db =
     (if \<not> is_auth_method_allowed cfg user_id_only then Inl (HTTPException 403 ''Login by User ID not allowed.'')
      else case get_account usr True db of
        None \<Rightarrow> Inl (HTTPException 401 ''User ID does not exist.'')
      | Some a \<Rightarrow>
          if account_is_admin cfg a then Inl (HTTPException 403 ''Admin users cannot login with user id only.'')
          else Inr (auth_success_response ev cfg (a_username a) (Some (a_id a)) (a_email a)))"

record nostr_event =
  ne_pubkey :: string
  ne_kind :: int
  ne_created_at :: int
  ne_tags :: "(string \<times> string) list"

definition first_tag :: "string \<Rightarrow> nostr_event \<Rightarrow> string option" where
  "first_tag k e = map_option snd (List.find (\<lambda>t. fst t = k) (ne_tags e))"

definition check_nostr_event_tags :: "settings \<Rightarrow> nostr_event \<Rightarrow> exn + unit" where
  "check_nostr_event_tags cfg e =
     (if \<not> truthy (first_tag ''method'' e) then Inl (ValueError ''Tag method is missing.'')
      else if upper (the (first_tag ''method'' e)) \<noteq> ''POST'' then Inl (ValueError ''Invalid value for tag method.'')
      else if \<not> truthy (first_tag ''u'' e) then Inl (ValueError ''Tag u for URL is missing.'')
      else if the (first_tag ''u'' e) \<notin> set (map (\<lambda>u. u @ ''/nostr'') (nostr_absolute_request_urls cfg))
      then Inl (ValueError ''Invalid value for tag u.'')
      else Inr ())"

text \<open>
  The event of the \<open>Authorization\<close> header: \<open>parse\<close> stands for base64 and JSON, \<open>verify\<close> for
  \<open>verify_event\<close>. A header that does not have two words makes the assignment of \<open>split()\<close> fail.
\<close>

definition nostr_nip98_event ::
  "env \<Rightarrow> settings \<Rightarrow> (string \<Rightarrow> nostr_event option) \<Rightarrow> (nostr_event \<Rightarrow> bool) \<Rightarrow> string option \<Rightarrow> exn + nostr_event" where
  "nostr_nip98_event ev cfg parse verify header =
     (if \<not> truthy header then Inl (HTTPException 400 ''Nostr Auth header missing.'')
      else case filter (\<lambda>w. w \<noteq> [])
          (split_on CHR '' '' (map (\<lambda>c. if is_space c then CHR '' '' else c) (the header))) of
        [scheme, token] \<Rightarrow>
          if lower scheme \<noteq> ''nostr'' then Inl (HTTPException 400 ''Invalid Authorization scheme.'')
          else (case parse token of
             None \<Rightarrow> Inl (ValueError ''Nostr login event cannot be parsed.'')
           | Some e \<Rightarrow>
               if \<not> verify e then Inl (HTTPException 400 ''Nostr login event is not valid.'')
               else if ne_kind e \<noteq> 27235 then Inl (ValueError ''Invalid event kind.'')
               else if \<not> \<bar>e_now ev - ne_created_at e\<bar> < auth_credetials_update_threshold cfg
               then Inl (ValueError ''More seconds have passed since the event was signed.'')
               else (case check_nostr_event_tags cfg e of Inl x \<Rightarrow> Inl x | Inr _ \<Rightarrow> Inr e))
      | _ \<Rightarrow> Inl (ValueError ''not enough values to unpack''))"

definition nostr_login ::
  "env \<Rightarrow> settings \<Rightarrow> (exn + nostr_event) \<Rightarrow> (world, auth_response) py" where
  "nostr_login ev cfg event =
     thenP (failIf (\<not> is_auth_method_allowed cfg nostr_auth_nip98)
              (HTTPException 403 ''Login with Nostr Auth not allowed.''))
     (bindP (liftE event) (\<lambda>e.
      bindP (gets (get_account_by_pubkey (ne_pubkey e) False)) (\<lambda>found.
      bindP (case found of
          Some a \<Rightarrow> ret a
        | None \<Rightarrow>
            bindP (gets (\<lambda>db. (new_account (e_uuid ev db 0) (e_now ev))\<lparr>a_pubkey := Some (ne_pubkey e),
                 a_extra := default_user_extra\<lparr>ue_provider := Some ''nostr''\<rparr>\<rparr>)) (\<lambda>a.
            thenP (create_user_account ev cfg (Some a) None) (ret a))) (\<lambda>a.
      thenP (failIf (\<not> a_activated a) (HTTPException 401 ''User is not activated.''))
      (ret (auth_success_response ev cfg (Some (case a_username a of None \<Rightarrow> [] | Some u \<Rightarrow> u))
              (Some (a_id a)) (a_email a)))))))"

definition impersonate_user ::
  "env \<Rightarrow> settings \<Rightarrow> string \<Rightarrow> account \<Rightarrow> string option \<Rightarrow> world \<Rightarrow> exn + auth_response" where
  "impersonate_user ev cfg usr admin cookie db =
     (if \<not> truthy cookie then Inl (HTTPException 401 ''Only cookie based impersonation is allowed.'')
      else if usr = a_id admin then Inl (HTTPException 403 ''You cannot impersonate yourself.'')
      else if is_admin_user cfg usr then Inl (HTTPException 403 ''You cannot impersonate another admin user.'')
      else case get_account usr True db of
        None \<Rightarrow> Inl (HTTPException 401 ''User ID does not exist.'')
      | Some a \<Rightarrow> Inr (auth_success_response ev cfg (a_username a) (Some (a_id a)) (a_email a)))"

section \<open>Registration\<close>

record register_user =
  ru_email :: "string option"
  ru_username :: string
  ru_password :: string
  ru_password_repeat :: string
  ru_invitation_code :: "string option"

definition on_settings :: "(settings, 'a) py \<Rightarrow> (world \<times> settings, 'a) py" where
  "on_settings m h = (let (r, cfg) = m (snd h) in (r, (fst h, cfg)))"

definition register ::
  "env \<Rightarrow> bcrypt \<Rightarrow> register_user \<Rightarrow> (world \<times> settings, auth_response) py" where
  "register ev bc d =
     bindP (gets snd) (\<lambda>cfg.
     thenP (failIf (\<not> is_auth_method_allowed cfg username_and_password)
              (HTTPException 403 ''Register by Username and Password not allowed.''))
     (thenP (failIf (ru_password d \<noteq> ru_password_repeat d) (HTTPException 400 ''Passwords do not match.''))
     (thenP (failIf (ru_username d = []) (HTTPException 400 ''Missing username.''))
     (thenP (failIf (\<not> is_valid_username (ru_username d)) (HTTPException 400 ''Invalid username.''))
     (bindP (gets (\<lambda>h. get_account_by_username (ru_username d) False (fst h))) (\<lambda>dup.
      thenP (failIf (dup \<noteq> None) (HTTPException 400 ''Username already exists.''))
     (thenP (failIf (truthy (ru_email d) \<and> \<not> is_valid_email_address (the (ru_email d)))
              (HTTPException 400 ''Invalid email.''))
     (thenP (on_settings (check_register_activation_settings (ru_invitation_code d)))
     (bindP (gets (\<lambda>h. (new_account (e_uuid ev (fst h) 0) (e_now ev))\<lparr>a_email := ru_email d,
                    a_username := Some (ru_username d)\<rparr>)) (\<lambda>a.
      bindP (liftE (hash_password bc (ru_password d) a)) (\<lambda>a.
      bindP (gets snd) (\<lambda>cfg.
      thenP (on_db (create_user_account ev cfg (Some a) None))
      (ret (auth_success_response ev cfg (a_username a) (Some (a_id a)) (a_email a)))))))))))))))"

section \<open>Credentials\<close>

text \<open>
  \<open>normalize_bech32_key\<close> of \<open>lnbits/utils/nostr.py\<close>: \<open>decode\<close> stands for \<open>bech32_decode\<close> and \<open>convertbits\<close>
  with the bytes written in hex, and is \<open>None\<close> where one of them gives nothing.
\<close>

definition normalize_bech32_key :: "(string \<Rightarrow> string option) \<Rightarrow> string \<Rightarrow> string \<Rightarrow> exn + string" where
  "normalize_bech32_key decode hrp key =
     (if startswith key hrp
      then (case decode key of None \<Rightarrow> Inl (ValueError (''Key is not valid '' @ hrp)) | Some k \<Rightarrow> Inr k)
      else if length key \<noteq> 64 then Inl (ValueError ''Key has wrong length.'')
      else if \<not> int16_ok key then Inl (ValueError ''Key is not valid hex.'')
      else Inr key)"

definition normalize_public_key :: "(string \<Rightarrow> string option) \<Rightarrow> string \<Rightarrow> exn + string" where
  "normalize_public_key decode key = normalize_bech32_key decode ''npub1'' key"

definition normalize_private_key :: "(string \<Rightarrow> string option) \<Rightarrow> string \<Rightarrow> exn + string" where
  "normalize_private_key decode key = normalize_bech32_key decode ''nsec1'' key"

definition update_pubkey ::
  "env \<Rightarrow> settings \<Rightarrow> (string \<Rightarrow> string option) \<Rightarrow> string \<Rightarrow> string \<Rightarrow> account \<Rightarrow> access_token_payload
   \<Rightarrow> (world, user) py" where
  "update_pubkey ev cfg decode user_id pubkey a payload =
     thenP (failIf (user_id \<noteq> a_id a) (ValueError ''Invalid user ID.''))
     (thenP (liftE (validate_auth_timeout ev cfg (at_auth_time payload)))
     (bindP (gets (\<lambda>db. pubkey \<noteq> [] \<and> Some pubkey \<noteq> a_pubkey a \<and> get_account_by_pubkey pubkey True db \<noteq> None)) (\<lambda>dup.
      thenP (failIf dup (ValueError ''Public key already in use.''))
     (bindP (liftE (normalize_public_key decode pubkey)) (\<lambda>k.
      bindP (update_account ev (a\<lparr>a_pubkey := Some k\<rparr>)) (get_user_from_account ev cfg))))))"

record update_user_password =
  up_user_id :: string
  up_password_old :: "string option"
  up_password :: string
  up_password_repeat :: string
  up_username :: string

definition update_password ::
  "env \<Rightarrow> settings \<Rightarrow> bcrypt \<Rightarrow> update_user_password \<Rightarrow> account \<Rightarrow> access_token_payload \<Rightarrow> (world, user) py" where
  "update_password ev cfg bc d a payload =
     thenP (liftE (validate_auth_timeout ev cfg (at_auth_time payload)))
     (thenP (failIf (up_user_id d \<noteq> a_id a) (ValueError ''Invalid user ID.''))
     (thenP (failIf (up_password d \<noteq> up_password_repeat d) (HTTPException 400 ''Passwords do not match.''))
     (bindP (gets (\<lambda>db. get_account_by_username (up_username d) True db \<noteq> None)) (\<lambda>taken.
      thenP (failIf (a_username a \<noteq> Some (up_username d) \<and> \<not> is_valid_username (up_username d))
               (HTTPException 400 ''Invalid username.''))
     (thenP (failIf (a_username a \<noteq> Some (up_username d) \<and> taken) (HTTPException 400 ''Username already exists.''))
     (thenP (failIf (truthy (a_password_hash a) \<and> \<not> truthy (up_password_old d)) (ValueError ''Missing old password.''))
     (thenP (failIf (truthy (a_password_hash a) \<and> \<not> verify_password (bc_checkpw bc) a (the (up_password_old d)))
               (ValueError ''Invalid old password.''))
     (bindP (liftE (hash_password bc (up_password d) (a\<lparr>a_username := Some (up_username d)\<rparr>))) (\<lambda>a.
      bindP (update_account ev a) (get_user_from_account ev cfg))))))))))"

text \<open>
  A reset key is \<open>reset_key_\<close> followed by the base64 text of an encrypted list of an action, a user id
  and a time; \<open>decrypt\<close> stands for the decoding and decryption: an exception is \<open>None\<close>, an empty result
  \<open>Some None\<close>.
\<close>

record reset_user_password =
  rp_reset_key :: string
  rp_password :: string
  rp_password_repeat :: string

type_synonym reset_key_codec = "string \<Rightarrow> (string \<times> string \<times> int) option option"

definition reset_password ::
  "env \<Rightarrow> settings \<Rightarrow> bcrypt \<Rightarrow> reset_key_codec \<Rightarrow> reset_user_password \<Rightarrow> (world, auth_response) py" where
  "reset_password ev cfg bc decrypt d =
     thenP (failIf (\<not> is_auth_method_allowed cfg username_and_password)
              (HTTPException 403 ''Auth by Username and Password not allowed.''))
     (thenP (failIf (rp_password d \<noteq> rp_password_repeat d) (ValueError ''Passwords do not match.''))
     (thenP (failIf (\<not> startswith (take 10 (rp_reset_key d)) ''reset_key_'') (ValueError ''This is not a reset key.''))
     (case decrypt (drop 10 (rp_reset_key d)) of
        None \<Rightarrow> throw (ValueError ''Invalid reset key.'')
      | Some None \<Rightarrow> throw (ValueError ''Cannot process reset key.'')
      | Some (Some (action, user_id, request_time)) \<Rightarrow>
          thenP (failIf (action = []) (ValueError ''Missing action.''))
         (thenP (failIf (user_id = []) (ValueError ''Missing user ID.''))
         (thenP (failIf (request_time = 0) (ValueError ''Missing reset time.''))
         (thenP (liftE (validate_auth_timeout ev cfg (Some request_time)))
         (bindP (gets (get_account user_id True)) (\<lambda>found.
          case found of
            None \<Rightarrow> throw (HTTPException 404 ''User not found.'')
          | Some a \<Rightarrow>
              bindP (liftE (hash_password bc (rp_password d) a)) (\<lambda>a.
              bindP (update_account ev a) (\<lambda>a.
              ret (auth_success_response ev cfg (a_username a) (Some user_id) (a_email a))))))))))))"

definition update ::
  "env \<Rightarrow> settings \<Rightarrow> string \<Rightarrow> string option \<Rightarrow> user_extra option \<Rightarrow> account \<Rightarrow> (world, user) py" where
  "update ev cfg user_id username extra a =
     thenP (failIf (user_id \<noteq> a_id a) (HTTPException 400 ''Invalid user ID.''))
     (let a1 = (if truthy username then a\<lparr>a_username := username\<rparr> else a);
          a2 = (case extra of None \<Rightarrow> a1 | Some x \<Rightarrow> a1\<lparr>a_extra := x\<rparr>)
      in bindP (update_user_account ev a2) (get_user_from_account ev cfg))"

definition update_ui_customization :: "env \<Rightarrow> dict \<Rightarrow> account \<Rightarrow> (world, account) py" where
  "update_ui_customization ev ui a =
     (let a' = a\<lparr>a_ui_customization := fold (\<lambda>(k, v) d. dset d k v) ui (a_ui_customization a)\<rparr>
      in thenP (failIf (length (a_ui_customization a') > 1000 * 1024)
                  (HTTPException 400 ''UI customization too large. Drop some fields.''))
         (thenP (update_user_account ev a') (ret a')))"

record update_superuser_password =
  us_username :: string
  us_password :: string
  us_password_repeat :: string
  us_first_install_token :: "string option"

definition first_install_handler ::
  "env \<Rightarrow> bcrypt \<Rightarrow> update_superuser_password \<Rightarrow> (world \<times> settings, auth_response) py" where
  "first_install_handler ev bc d =
     bindP (gets snd) (\<lambda>cfg.
     thenP (failIf (\<not> first_install cfg) (HTTPException 403 ''This is not your first install''))
     (thenP (failIf (truthy (first_install_token cfg) \<and> \<not> truthy (us_first_install_token d))
               (HTTPException 401 ''Missing first_install_token.''))
     (thenP (failIf (truthy (first_install_token cfg) \<and> first_install_token cfg \<noteq> us_first_install_token d)
               (HTTPException 401 ''Invalid first_install_token.''))
     (thenP (failIf (us_password d \<noteq> us_password_repeat d) (HTTPException 400 ''Passwords do not match.''))
     (thenP (failIf (\<not> is_valid_username (us_username d)) (HTTPException 400 ''Invalid username.''))
     (bindP (gets (\<lambda>h. get_account_by_username (us_username d) False (fst h))) (\<lambda>dup.
      thenP (failIf (dup \<noteq> None) (HTTPException 400 ''Username already exists.''))
     (bindP (gets (\<lambda>h. get_account (super_user cfg) True (fst h))) (\<lambda>found.
      case found of
        None \<Rightarrow> throw (HTTPException 500 ''Superuser not found.'')
      | Some a \<Rightarrow>
          bindP (liftE (hash_password bc (us_password d) (a\<lparr>a_username := Some (us_username d),
                   a_extra := (a_extra a)\<lparr>ue_provider := Some ''lnbits''\<rparr>\<rparr>))) (\<lambda>a.
          bindP (on_db (update_account ev a)) (\<lambda>a.
          thenP (on_settings (modify (\<lambda>c. c\<lparr>first_install := False\<rparr>)))
         (thenP (if truthy (first_install_token cfg)
                 then on_settings (modify (\<lambda>c. c\<lparr>first_install_token_confirmed := us_first_install_token d\<rparr>))
                 else ret ())
          (ret (auth_success_response ev cfg (a_username a) (Some (a_id a)) (a_email a)))))))))))))))"

text \<open>The end of a single sign on: \<open>verified_user_id\<close> is the user who asked to link an address.\<close>

definition handle_sso_login ::
  "env \<Rightarrow> settings \<Rightarrow> string option \<Rightarrow> string option \<Rightarrow> (world, string \<times> access_token_payload) py" where
  "handle_sso_login ev cfg email verified_user_id =
     thenP (failIf (\<not> truthy email \<or> \<not> is_valid_email_address (the email)) (HTTPException 400 ''Invalid email.''))
     (bindP (gets (get_account_by_email (the email) False)) (\<lambda>found.
      thenP (failIf (truthy verified_user_id \<and> found \<noteq> None) (HTTPException 403 ''Email already used.''))
     (bindP (if truthy verified_user_id
             then bindP (gets (get_account (the verified_user_id) True)) (\<lambda>u.
                  case u of None \<Rightarrow> throw (HTTPException 403 ''Cannot verify user email.'') | Some a \<Rightarrow> ret (Some a))
             else ret found) (\<lambda>acc.
      bindP (case acc of
          Some a \<Rightarrow> update_account ev (a\<lparr>a_extra := (a_extra a)\<lparr>ue_email_verified := Some True\<rparr>\<rparr>)
        | None \<Rightarrow>
            bindP (gets (\<lambda>db. (new_account (e_uuid ev db 0) (e_now ev))\<lparr>a_email := email,
                 a_extra := default_user_extra\<lparr>ue_email_verified := Some True\<rparr>\<rparr>)) (\<lambda>a.
            thenP (create_user_account ev cfg (Some a) None) (ret a))) (\<lambda>a.
      ret (if truthy verified_user_id then ''/account'' else ''/wallet'',
           \<lparr>at_sub = [], at_usr = Some (a_id a), at_email = email, at_auth_time = Some (e_now ev),
            at_api_token_id = None\<rparr>))))))"

section \<open>Access control lists\<close>

definition capitalize :: "string \<Rightarrow> string" where
  "capitalize s = (case s of [] \<Rightarrow> [] | c # cs \<Rightarrow> upper_char c # lower cs)"

text \<open>\<open>get_api_routes\<close> of \<open>lnbits/helpers.py\<close>, on the paths of the API routes.\<close>

definition api_route :: "string \<Rightarrow> (string \<times> string) option" where
  "api_route path =
     (let segments = split_on CHR ''/'' path
      in if length segments < 3 then None
         else if join ''/'' (take 2 (drop 1 segments)) = ''api/v1''
         then (if length segments < 4 then None else Some (join ''/'' (take 4 segments), capitalize (segments ! 3)))
         else if join ''/'' (take 2 (drop 2 segments)) = ''api/v1''
         then Some (join ''/'' (take 4 segments), capitalize (segments ! 1))
         else None)"

definition get_api_routes :: "string list \<Rightarrow> (string \<times> string) list" where
  "get_api_routes routes =
     fold (\<lambda>r d. case api_route r of None \<Rightarrow> d | Some (k, v) \<Rightarrow> AList.update k v d) routes []"

definition new_endpoint :: "string \<times> string \<Rightarrow> endpoint_access" where
  "new_endpoint r = \<lparr>ea_path = fst r, ea_name = snd r, ea_read = False, ea_write = False\<rparr>"

definition by_name :: "endpoint_access list \<Rightarrow> endpoint_access list" where
  "by_name es = sort_key (\<lambda>e. lower (ea_name e)) es"

definition complete_acl :: "(string \<times> string) list \<Rightarrow> access_control_list \<Rightarrow> access_control_list" where
  "complete_acl routes acl =
     acl\<lparr>acl_endpoints := by_name (acl_endpoints acl
            @ map new_endpoint (filter (\<lambda>r. get_endpoint acl (fst r) = None) routes))\<rparr>"

definition api_get_user_acls :: "env \<Rightarrow> (string \<times> string) list \<Rightarrow> account \<Rightarrow> world \<Rightarrow> user_acls" where
  "api_get_user_acls ev routes a db =
     (let u = get_user_access_control_lists ev (a_id a) True db
      in \<lparr>uacl_id = a_id a, uacl_access_control_list = map (complete_acl routes) (uacl_access_control_list u),
          uacl_updated_at = e_now ev\<rparr>)"

definition check_password :: "bcrypt \<Rightarrow> account \<Rightarrow> string \<Rightarrow> (world, unit) py" where
  "check_password bc a password =
     failIf (\<not> verify_password (bc_checkpw bc) a password) (HTTPException 401 ''Invalid credentials.'')"

definition api_update_user_acl ::
  "env \<Rightarrow> bcrypt \<Rightarrow> (string \<times> string) list \<Rightarrow> access_control_list \<Rightarrow> string \<Rightarrow> account \<Rightarrow> (world, user_acls) py" where
  "api_update_user_acl ev bc routes d password a =
     thenP (check_password bc a password)
     (bindP (gets (\<lambda>db. (get_user_access_control_lists ev (a_id a) True db, e_uuid ev db 0))) (\<lambda>(u, fresh).
      let (acls, d1) = (case get_acl_by_id u (acl_id d) of
              Some old \<Rightarrow> (remove1 old (uacl_access_control_list u), d)
            | None \<Rightarrow> (uacl_access_control_list u, d\<lparr>acl_id := fresh, acl_endpoints := map new_endpoint routes\<rparr>));
          d2 = d1\<lparr>acl_endpoints := by_name (filter (\<lambda>e. ea_path e \<in> fst ` set routes) (acl_endpoints d1))\<rparr>;
          u' = u\<lparr>uacl_access_control_list := sort_key (\<lambda>t. lower (acl_name t)) (acls @ [d2])\<rparr>
      in thenP (update_user_access_control_list ev u') (ret (u'\<lparr>uacl_updated_at := e_now ev\<rparr>))))"

definition api_delete_user_acl :: "env \<Rightarrow> bcrypt \<Rightarrow> string \<Rightarrow> string \<Rightarrow> account \<Rightarrow> (world, unit) py" where
  "api_delete_user_acl ev bc i password a =
     thenP (check_password bc a password)
     (bindP (gets (get_user_access_control_lists ev (a_id a) True)) (\<lambda>u.
      update_user_access_control_list ev (delete_acl_by_id i u)))"

definition change_acl :: "string \<Rightarrow> (access_control_list \<Rightarrow> access_control_list) \<Rightarrow> user_acls \<Rightarrow> user_acls" where
  "change_acl i f u =
     u\<lparr>uacl_access_control_list := update_first (\<lambda>a. acl_id a = i) f (uacl_access_control_list u)\<rparr>"

definition api_create_user_api_token ::
  "env \<Rightarrow> bcrypt \<Rightarrow> string \<Rightarrow> string \<Rightarrow> string \<Rightarrow> int \<Rightarrow> account \<Rightarrow> (world, string \<times> auth_response) py" where
  "api_create_user_api_token ev bc i token_name password minutes a =
     thenP (failIf (\<not> minutes > 0) (ValueError ''Expiration time must be in the future.''))
     (thenP (check_password bc a password)
     (thenP (failIf (\<not> truthy (a_username a)) (ValueError ''Username must be configured.''))
     (bindP (gets (\<lambda>db. (get_user_access_control_lists ev (a_id a) True db, e_uuid ev db 0))) (\<lambda>(u, token_id).
      thenP (failIf (get_acl_by_id u i = None) (HTTPException 401 ''Invalid ACL id.''))
     (thenP (update_user_access_control_list ev (change_acl i (\<lambda>acl. acl\<lparr>acl_token_id_list :=
          acl_token_id_list acl @ [\<lparr>si_id = token_id, si_name = token_name,
             si_expires_at = Some (e_now ev + minutes * 60)\<rparr>]\<rparr>) u))
      (ret (token_id, auth_api_token_response ev (the (a_username a)) token_id minutes)))))))"

definition api_delete_user_api_token ::
  "env \<Rightarrow> bcrypt \<Rightarrow> string \<Rightarrow> string \<Rightarrow> string \<Rightarrow> account \<Rightarrow> (world, unit) py" where
  "api_delete_user_api_token ev bc token_id i password a =
     thenP (check_password bc a password)
     (thenP (failIf (\<not> truthy (a_username a)) (ValueError ''Username must be configured.''))
     (bindP (gets (get_user_access_control_lists ev (a_id a) True)) (\<lambda>u.
      thenP (failIf (get_acl_by_id u i = None) (HTTPException 401 ''Invalid ACL id.''))
      (update_user_access_control_list ev (change_acl i (delete_token_by_id token_id) u)))))"

section \<open>The authenticated user\<close>

definition get_auth_user :: "user \<Rightarrow> bool \<Rightarrow> user" where
  "get_auth_user u can_write = u\<lparr>u_wallets := map (copy_with_keys can_write) (u_wallets u)\<rparr>"

end
