(* ===== verification/UserApi.thy ===== *)
theory UserApi
  imports WalletSharing LightningAddress AuthApi
begin

text \<open>
  The handlers of \<open>lnbits/core/views/wallet_api.py\<close> that change or show wallets. They get the wallet that
  \<open>require_admin_key\<close> found or the account id of \<open>check_account_id_exists\<close>.
\<close>

definition wallet_not_found :: exn where
  "wallet_not_found = HTTPException 404 ''Wallet not found''"

definition api_wallet :: "wallet_type_info \<Rightarrow> string \<times> int \<times> string option" where
  "api_wallet k =
     (w_name (wti_wallet k), w_balance_msat (wti_wallet k),
      if wti_key_type k = AdminKey then Some (w_id (wti_wallet k)) else None)"

definition api_invite_wallet_share ::
  "env \<Rightarrow> wallet_type_info \<Rightarrow> wallet_share \<Rightarrow> (world, wallet_share) py" where
  "api_invite_wallet_share ev k d = invite_to_wallet ev (wti_wallet k) d"

definition api_reject_wallet_invitation ::
  "env \<Rightarrow> account \<Rightarrow> string \<Rightarrow> (world, simple_status) py" where
  "api_reject_wallet_invitation ev invited request_id =
     thenP (reject_wallet_invitation ev (a_id invited) request_id)
     (ret \<lparr>ss_success = True, ss_message = ''Invitation rejected.''\<rparr>)"

definition api_accept_wallet_share_request ::
  "env \<Rightarrow> settings \<Rightarrow> wallet_type_info \<Rightarrow> wallet_share \<Rightarrow> (world, wallet_share) py" where
  "api_accept_wallet_share_request ev cfg k d = update_wallet_share_permissions ev cfg (wti_wallet k) d"

definition api_delete_wallet_share_permissions ::
  "env \<Rightarrow> settings \<Rightarrow> wallet_type_info \<Rightarrow> string \<Rightarrow> (world, simple_status) py" where
  "api_delete_wallet_share_permissions ev cfg k request_id = delete_wallet_share ev cfg (wti_wallet k) request_id"

definition api_update_wallet_name ::
  "env \<Rightarrow> settings \<Rightarrow> wallet_type_info \<Rightarrow> string \<Rightarrow> (world, string \<times> string \<times> int) py" where
  "api_update_wallet_name ev cfg k new_name =
     bindP (get_wallet ev cfg (w_id (wti_wallet k)) (Some False)) (\<lambda>found.
     case found of
       None \<Rightarrow> throw wallet_not_found
     | Some w \<Rightarrow>
         thenP (update_wallet ev (w\<lparr>w_name := new_name\<rparr>)) (ret (w_id w, new_name, w_balance_msat w)))"

text \<open>The two new keys are two draws of \<open>uuid4().hex\<close>.\<close>

definition api_reset_wallet_keys :: "env \<Rightarrow> settings \<Rightarrow> string \<Rightarrow> string \<Rightarrow> (world, wallet) py" where
  "api_reset_wallet_keys ev cfg wid uid =
     bindP (get_wallet ev cfg wid (Some False)) (\<lambda>found.
     case found of
       None \<Rightarrow> throw wallet_not_found
     | Some w \<Rightarrow>
         thenP (failIf (w_user w \<noteq> uid) wallet_not_found)
        (thenP (clear_wallet_cache ev w)
        (bindP (gets (\<lambda>db. w\<lparr>w_adminkey := e_uuid ev db 0, w_inkey := e_uuid ev db 1\<rparr>)) (\<lambda>w'.
         thenP (update_wallet ev w') (ret (w'\<lparr>w_updated_at := e_now ev\<rparr>))))))"

definition api_put_stored_paylinks ::
  "env \<Rightarrow> wallet_type_info \<Rightarrow> string \<Rightarrow> jval \<Rightarrow> (world, jval) py" where
  "api_put_stored_paylinks ev k wid links =
     thenP (failIf (w_id (wti_wallet k) \<noteq> wid) (HTTPException 403 ''You cannot modify this wallet''))
     (bindP (update_wallet ev ((wti_wallet k)\<lparr>w_stored_paylinks := links\<rparr>)) (\<lambda>w. ret (w_stored_paylinks w)))"

record wallet_patch =
  wp_name :: "string option"
  wp_icon :: "string option"
  wp_color :: "string option"
  wp_currency :: "string option"
  wp_pinned :: "bool option"
  wp_lightning_address :: "string option"

definition patch_wallet :: "wallet_patch \<Rightarrow> wallet \<Rightarrow> wallet" where
  "patch_wallet d w =
     (let x = w_extra w
      in w\<lparr>w_name := (if truthy (wp_name d) then the (wp_name d) else w_name w),
           w_extra := x\<lparr>we_icon := (if truthy (wp_icon d) then the (wp_icon d) else we_icon x),
                        we_color := (if truthy (wp_color d) then the (wp_color d) else we_color x),
                        we_pinned := (case wp_pinned d of None \<Rightarrow> we_pinned x | Some b \<Rightarrow> b)\<rparr>,
           w_currency := (case wp_currency d of None \<Rightarrow> w_currency w | Some c \<Rightarrow> Some c)\<rparr>)"

definition api_update_wallet ::
  "env \<Rightarrow> settings \<Rightarrow> wallet_type_info \<Rightarrow> wallet_patch \<Rightarrow> (world, wallet) py" where
  "api_update_wallet ev cfg k d =
     bindP (get_wallet ev cfg (w_id (wti_wallet k)) (Some False)) (\<lambda>found.
     case found of
       None \<Rightarrow> throw wallet_not_found
     | Some w0 \<Rightarrow>
         (let w = patch_wallet d w0
          in if truthy (wp_lightning_address d) \<and> wp_lightning_address d \<noteq> w_lightning_address w
             then thenP (failIf (\<not> lnbits_allow_custom_wallet_lightning_addresses cfg)
                            (HTTPException 403 ''Users cannot specify Lightning Addresses.''))
                  (set_wallet_lightning_address ev cfg w (the (wp_lightning_address d)) False True)
             else update_wallet ev w))"

definition api_delete_wallet :: "env \<Rightarrow> settings \<Rightarrow> string \<Rightarrow> string \<Rightarrow> (world, unit) py" where
  "api_delete_wallet ev cfg wid uid =
     bindP (get_wallet ev cfg wid (Some False)) (\<lambda>found.
     case found of
       None \<Rightarrow> throw wallet_not_found
     | Some w \<Rightarrow> thenP (failIf (w_user w \<noteq> uid) wallet_not_found) (delete_wallet ev (w_user w) (w_id w) True))"

text \<open>\<open>CreateWallet\<close> accepts only the values of the enumeration, so the first check of the handler never fails.\<close>

definition api_create_wallet ::
  "env \<Rightarrow> settings \<Rightarrow> string option \<Rightarrow> wallet_type \<Rightarrow> string option \<Rightarrow> string \<Rightarrow> (world, wallet) py" where
  "api_create_wallet ev cfg name t shared uid =
     (if t = LIGHTNING_SHARED then
        thenP (failIf (\<not> truthy shared) (HTTPException 400 ''Shared wallet ID is required for shared wallets.''))
        (create_lightning_shared_wallet ev cfg uid (the shared))
      else
        thenP (failIf (t = FIAT \<and> \<not> can_create_fiat_wallet cfg uid)
                 (HTTPException 403 ''Fiat wallets are not enabled for this user.''))
        (create_wallet ev cfg uid name t None))"

text \<open>
  \<open>lnbits/core/views/user_api.py\<close>: what administrators do with accounts and their wallets. The router
  requires \<open>check_admin\<close>, some routes \<open>check_super_user\<close>; the handlers get the account it found.
\<close>

record create_user =
  cu_id :: "string option"
  cu_email :: "string option"
  cu_username :: "string option"
  cu_password :: "string option"
  cu_password_repeat :: "string option"
  cu_pubkey :: "string option"
  cu_external_id :: "string option"
  cu_extensions :: "string list option"
  cu_extra :: "user_extra option"

definition api_get_user :: "env \<Rightarrow> settings \<Rightarrow> string \<Rightarrow> bool \<Rightarrow> (world, user) py" where
  "api_get_user ev cfg user_id can_write =
     bindP (get_user ev cfg user_id False) (\<lambda>found.
     case found of
       None \<Rightarrow> throw (HTTPException 404 ''User not found.'')
     | Some u \<Rightarrow> ret (get_auth_user u can_write))"

definition normalized_pubkey :: "(string \<Rightarrow> string option) \<Rightarrow> string option \<Rightarrow> exn + string option" where
  "normalized_pubkey decode k =
     (if \<not> truthy k then Inr k
      else case normalize_public_key decode (the k) of Inl e \<Rightarrow> Inl e | Inr x \<Rightarrow> Inr (Some x))"

text \<open>\<open>random_password\<close> is the draw of \<open>shortuuid.uuid()\<close>.\<close>

definition api_create_user ::
  "env \<Rightarrow> settings \<Rightarrow> bcrypt \<Rightarrow> (string \<Rightarrow> string option) \<Rightarrow> string \<Rightarrow> create_user \<Rightarrow> (world, string) py" where
  "api_create_user ev cfg bc decode random_password d =
     thenP (failIf (\<not> truthy (cu_username d) \<and> truthy (cu_password d))
              (HTTPException 400 ''Username required when password provided.''))
     (thenP (failIf (cu_password d \<noteq> cu_password_repeat d) (HTTPException 400 ''Passwords do not match.''))
     (let password = (if truthy (cu_password d) then the (cu_password d) else random_password);
          x = (case cu_extra d of None \<Rightarrow> default_user_extra | Some x \<Rightarrow> x);
          extra = x\<lparr>ue_provider := orElse (ue_provider x) (Some ''lnbits'')\<rparr>
      in bindP (liftE (normalized_pubkey decode (cu_pubkey d))) (\<lambda>k.
         bindP (gets (\<lambda>db. (new_account (e_uuid ev db 0) (e_now ev))\<lparr>a_username := cu_username d,
              a_email := cu_email d, a_pubkey := k, a_external_id := cu_external_id d, a_extra := extra\<rparr>)) (\<lambda>a.
         thenP (liftE (validate_fields a))
        (bindP (liftE (hash_password bc password a)) (\<lambda>a.
         bindP (create_user_account_no_ckeck ev cfg (Some a) None (cu_extensions d)) (\<lambda>u. ret (u_id u))))))))"

definition api_update_user ::
  "env \<Rightarrow> settings \<Rightarrow> (string \<Rightarrow> string option) \<Rightarrow> string \<Rightarrow> create_user \<Rightarrow> account \<Rightarrow> (world, unit) py" where
  "api_update_user ev cfg decode user_id d admin =
     thenP (failIf (Some user_id \<noteq> cu_id d) (HTTPException 400 ''User Id missmatch.''))
     (thenP (failIf (user_id = super_user cfg \<and> a_id admin \<noteq> super_user cfg)
               (HTTPException 400 ''Action only allowed for super user.''))
     (thenP (failIf (truthy (cu_password d) \<or> truthy (cu_password_repeat d))
               (HTTPException 400 ''Use reset password functionality.''))
     (bindP (liftE (normalized_pubkey decode (cu_pubkey d))) (\<lambda>k.
      thenP (update_user_account ev ((new_account user_id (e_now ev))\<lparr>a_username := cu_username d,
               a_email := cu_email d, a_pubkey := k, a_external_id := cu_external_id d,
               a_extra := (case cu_extra d of None \<Rightarrow> default_user_extra | Some x \<Rightarrow> x)\<rparr>))
     (update_user_extensions user_id (case cu_extensions d of None \<Rightarrow> [] | Some es \<Rightarrow> es))))))"

definition api_users_delete_user ::
  "env \<Rightarrow> settings \<Rightarrow> string \<Rightarrow> account \<Rightarrow> (world, simple_status) py" where
  "api_users_delete_user ev cfg user_id admin =
     thenP (failIf (user_id = super_user cfg) (HTTPException 400 ''Cannot delete super user.''))
     (thenP (failIf (user_id \<in> set (lnbits_admin_users cfg) \<and> \<not> account_is_super_user cfg admin)
               (HTTPException 400 ''Only super_user can delete admin user.''))
     (bindP (get_wallets ev cfg user_id (Some False) None) (\<lambda>ws.
      thenP (forP ws (\<lambda>w. thenP (delete_wallet_by_id ev (w_id w)) (ret ())))
     (thenP (delete_account ev cfg user_id)
      (ret \<lparr>ss_success = True, ss_message = ''User deleted.''\<rparr>)))))"

text \<open>The reset key is returned as the list it encrypts.\<close>

definition api_users_reset_password :: "env \<Rightarrow> settings \<Rightarrow> string \<Rightarrow> exn + (string \<times> string \<times> int)" where
  "api_users_reset_password ev cfg user_id =
     (if user_id = super_user cfg then Inl (HTTPException 403 ''Cannot change superuser password.'')
      else Inr (''reset'', user_id, e_now ev))"

definition api_users_toggle_admin :: "string \<Rightarrow> (settings, simple_status) py" where
  "api_users_toggle_admin user_id =
     bindP (gets id) (\<lambda>cfg.
     thenP (failIf (user_id = super_user cfg) (HTTPException 400 ''Cannot change super user.''))
     (thenP (modify (\<lambda>c. c\<lparr>lnbits_admin_users :=
         (if is_admin_user c user_id then remove1 user_id (lnbits_admin_users c)
          else lnbits_admin_users c @ [user_id])\<rparr>))
     (bindP (gets (\<lambda>c. is_admin_user c user_id)) (\<lambda>b.
      ret \<lparr>ss_success = True, ss_message = ''User admin: '' @ (if b then ''True'' else ''False'') @ ''.''\<rparr>))))"

definition api_users_toggle_activated ::
  "env \<Rightarrow> string \<Rightarrow> account \<Rightarrow> (world \<times> settings, simple_status) py" where
  "api_users_toggle_activated ev user_id admin =
     bindP (gets snd) (\<lambda>cfg.
     thenP (failIf (user_id = super_user cfg) (HTTPException 400 ''Cannot deactivate super user.''))
     (thenP (failIf (user_id = a_id admin) (HTTPException 400 ''You cannot deactivate yourself.''))
     (thenP (on_settings (modify (\<lambda>c. if is_admin_user c user_id
               then c\<lparr>lnbits_admin_users := remove1 user_id (lnbits_admin_users c)\<rparr> else c)))
     (bindP (gets (\<lambda>h. get_account user_id False (fst h))) (\<lambda>found.
      case found of
        None \<Rightarrow> throw (HTTPException 404 ''User not found.'')
      | Some a \<Rightarrow>
          bindP (gets snd) (\<lambda>cfg.
          thenP (on_db (update_account ev (a\<lparr>a_activated := \<not> a_activated a\<rparr>)))
         (thenP (on_db (clear_user_id_cache ev cfg user_id))
          (ret \<lparr>ss_success = True,
                ss_message = (if a_activated a then ''User deactivated.'' else ''User activated.'')\<rparr>))))))))"

definition api_users_get_user_wallet :: "env \<Rightarrow> settings \<Rightarrow> string \<Rightarrow> bool \<Rightarrow> (world, wallet list) py" where
  "api_users_get_user_wallet ev cfg user_id can_write =
     bindP (get_wallets ev cfg user_id None None) (\<lambda>ws. ret (map (copy_with_keys can_write) ws))"

definition api_users_create_user_wallet ::
  "env \<Rightarrow> settings \<Rightarrow> string list \<Rightarrow> string \<Rightarrow> string option \<Rightarrow> string option \<Rightarrow> (world, wallet) py" where
  "api_users_create_user_wallet ev cfg allowed user_id name currency =
     thenP (failIf (truthy currency \<and> the currency \<notin> set allowed) (ValueError ''Currency not allowed.''))
     (bindP (create_wallet ev cfg user_id name LIGHTNING None) (\<lambda>w.
      if truthy currency then update_wallet ev (w\<lparr>w_currency := currency\<rparr>) else ret w))"

definition api_users_set_wallet_lightning_address ::
  "env \<Rightarrow> settings \<Rightarrow> string \<Rightarrow> string \<Rightarrow> string \<Rightarrow> (world, wallet) py" where
  "api_users_set_wallet_lightning_address ev cfg user_id wid name =
     bindP (get_wallet ev cfg wid (Some False)) (\<lambda>found.
     case found of
       None \<Rightarrow> throw (HTTPException 404 ''Wallet does not exist.'')
     | Some w \<Rightarrow>
         thenP (failIf (user_id \<noteq> w_user w) (HTTPException 403 ''Wallet does not belong to user.''))
         (set_wallet_lightning_address ev cfg w name True False))"

definition api_users_undelete_user_wallet ::
  "env \<Rightarrow> settings \<Rightarrow> string \<Rightarrow> string \<Rightarrow> (world, simple_status) py" where
  "api_users_undelete_user_wallet ev cfg user_id wid =
     bindP (get_wallet ev cfg wid (Some True)) (\<lambda>found.
     case found of
       None \<Rightarrow> throw (HTTPException 404 ''Wallet does not exist.'')
     | Some w \<Rightarrow>
         thenP (failIf (user_id \<noteq> w_user w) (HTTPException 403 ''Wallet does not belong to user.''))
         (if w_deleted w
          then thenP (delete_wallet ev user_id wid False)
               (ret \<lparr>ss_success = True, ss_message = ''Wallet undeleted.''\<rparr>)
          else ret \<lparr>ss_success = True, ss_message = ''Wallet is already active.''\<rparr>))"

definition api_users_delete_all_user_wallet ::
  "env \<Rightarrow> settings \<Rightarrow> string \<Rightarrow> (world, simple_status) py" where
  "api_users_delete_all_user_wallet ev cfg user_id =
     thenP (failIf (user_id = super_user cfg) (HTTPException 400 ''Action not allowed.''))
     (bindP (get_wallets ev cfg user_id (Some False) None) (\<lambda>ws.
      thenP (forP ws (\<lambda>w. delete_wallet ev user_id (w_id w) True))
      (ret \<lparr>ss_success = True, ss_message = ''Deleted '' @ str_int (int (length ws)) @ '' wallets. ''\<rparr>)))"

definition api_users_delete_user_wallet ::
  "env \<Rightarrow> settings \<Rightarrow> string \<Rightarrow> string \<Rightarrow> account \<Rightarrow> (world, simple_status) py" where
  "api_users_delete_user_wallet ev cfg user_id wid admin =
     bindP (get_wallet ev cfg wid None) (\<lambda>found.
     case found of
       None \<Rightarrow> throw (HTTPException 404 ''Wallet does not exist.'')
     | Some w \<Rightarrow>
         thenP (failIf (user_id = super_user cfg \<and> a_id admin \<noteq> super_user cfg)
                  (HTTPException 400 ''Action only allowed for super user.''))
        (thenP (if w_deleted w then force_delete_wallet ev wid else ret ())
        (thenP (delete_wallet ev user_id wid True)
         (ret \<lparr>ss_success = True, ss_message = ''Wallet deleted.''\<rparr>))))"

definition api_update_balance ::
  "env \<Rightarrow> settings \<Rightarrow> string \<Rightarrow> int \<Rightarrow> string option \<Rightarrow> (world, simple_status) py" where
  "api_update_balance ev cfg wid amount memo0 =
     bindP (get_wallet ev cfg wid (Some False)) (\<lambda>found.
     case found of
       None \<Rightarrow> throw (HTTPException 404 ''Wallet not found.'')
     | Some w \<Rightarrow>
         (let m = strip (case memo0 of None \<Rightarrow> [] | Some x \<Rightarrow> x);
              memo = (if m \<noteq> [] then m else if amount > 0 then ''Credit'' else ''Debit'')
          in thenP (update_wallet_balance ev cfg w amount (Some memo))
             (ret \<lparr>ss_success = True, ss_message = ''Balance updated.''\<rparr>)))"

end
