(* ===== verification/PaymentApi.thy ===== *)
theory PaymentApi
  imports AccessControl PayService InvoiceService Users
begin

text \<open>
  The handlers of \<open>lnbits/core/views/payment_api.py\<close> that create, pay, change or show a single payment.
  \<open>ci_out\<close> and \<open>ci_bolt11\<close> of \<open>CreateInvoice\<close> are arguments of their own.
\<close>

text \<open>\<open>invoice_data.out\<close> is a Boolean, so \<open>out is True\<close> and the later \<open>if invoice_data.out\<close> agree.\<close>

definition api_payments_create ::
  "env \<Rightarrow> settings \<Rightarrow> base_wallet_type_info \<Rightarrow> bool \<Rightarrow> string option \<Rightarrow> create_invoice_data \<Rightarrow> (world, payment) py" where
  "api_payments_create ev cfg k out bolt11 d =
     (let wallet_id = w_id (bti_wallet k)
      in if out \<and> bti_key_type k = AdminKey then
           thenP (failIf (\<not> truthy bolt11) (HTTPException 400 ''Missing BOLT11 invoice''))
           (pay_invoice ev cfg wallet_id (the bolt11) None (ci_extra d) [] [] (ci_labels d) (ci_external_id d))
         else if out then throw (HTTPException 403 ''Invoice (or Admin) key required.'')
         else create_payment_request ev cfg wallet_id d)"

text \<open>The labels that are new to the account get a random colour: \<open>colour i\<close> is the i-th draw.\<close>

fun add_labels :: "(nat \<Rightarrow> string) \<Rightarrow> nat \<Rightarrow> string list \<Rightarrow> user_label list \<Rightarrow> exn + user_label list" where
  "add_labels colour i [] known = Inr known"
| "add_labels colour i (l # ls) known =
     (if l \<in> ul_name ` set known then add_labels colour i ls known
      else if \<not> is_valid_label l then Inl (HTTPException 400 (''Invalid label name: '' @ l))
      else add_labels colour (Suc i) ls
             (known @ [\<lparr>ul_name = l, ul_description = None, ul_color = Some (''#'' @ colour i)\<rparr>]))"

definition api_update_payment_labels ::
  "env \<Rightarrow> settings \<Rightarrow> (nat \<Rightarrow> string) \<Rightarrow> base_wallet_type_info \<Rightarrow> string \<Rightarrow> string list \<Rightarrow> (world, simple_status) py" where
  "api_update_payment_labels ev cfg colour k payment_hash labels =
     bindP (get_standalone_payment ev cfg payment_hash False (Some (w_id (bti_wallet k)))) (\<lambda>found.
     case found of
       None \<Rightarrow> throw (HTTPException 404 ''Payment does not exist.'')
     | Some p \<Rightarrow>
         bindP (gets (get_account (w_user (bti_wallet k)) True)) (\<lambda>acc.
         case acc of
           None \<Rightarrow> throw (HTTPException 404 ''Account does not exist.'')
         | Some a \<Rightarrow>
             bindP (liftE (add_labels colour 0 labels (ue_labels (a_extra a)))) (\<lambda>ls.
             thenP (if length ls \<noteq> length (ue_labels (a_extra a))
                    then thenP (update_user_account ev (a\<lparr>a_extra := (a_extra a)\<lparr>ue_labels := ls\<rparr>\<rparr>)) (ret ())
                    else ret ())
            (thenP (update_payment ev (p\<lparr>p_labels := labels\<rparr>) None)
             (ret \<lparr>ss_success = True, ss_message = ''Payment labels updated.''\<rparr>)))))"

definition api_update_payment_extra ::
  "env \<Rightarrow> settings \<Rightarrow> wallet_type_info \<Rightarrow> string \<Rightarrow> dict \<Rightarrow> (world, payment) py" where
  "api_update_payment_extra ev cfg k payment_hash extra =
     bindP (get_standalone_payment ev cfg payment_hash False (Some (w_id (wti_wallet k)))) (\<lambda>found.
     case found of
       None \<Rightarrow> throw (HTTPException 404 ''Payment does not exist.'')
     | Some p \<Rightarrow>
         thenP (failIf (p_status p \<noteq> SUCCESS) (HTTPException 400 ''Payment extra can only be updated after success.''))
        (thenP (failIf (\<exists>key \<in> fst ` set extra. key \<in> fst ` set (p_extra p)) (HTTPException 400 ''Extra keys already exist''))
        (let p' = p\<lparr>p_extra := fold (\<lambda>(key, v) d. dset d key v) extra (p_extra p)\<rparr>
         in thenP (update_payment ev p' None) (ret p'))))"

definition api_payments_fee_reserve :: "env \<Rightarrow> settings \<Rightarrow> string \<Rightarrow> exn + int" where
  "api_payments_fee_reserve ev cfg invoice =
     (case e_decode ev invoice of
        None \<Rightarrow> Inl (OtherError ''Bolt11Exception'')
      | Some i \<Rightarrow>
          if di_amount_msat i \<noteq> None \<and> di_amount_msat i \<noteq> Some 0
          then Inr (fee_reserve_total cfg (the (di_amount_msat i)) False)
          else Inl (HTTPException 400 ''Invoice has no amount.''))"

text \<open>The answer to a status request; a field that the answer does not have is \<open>None\<close>.\<close>

record payment_answer =
  pa_paid :: bool
  pa_status :: "payment_state option"
  pa_preimage :: "string option"
  pa_details :: "payment option"

definition api_payment ::
  "env \<Rightarrow> settings \<Rightarrow> string \<Rightarrow> string option \<Rightarrow> (world, payment_answer) py" where
  "api_payment ev cfg payment_hash api_key =
     bindP (case api_key of None \<Rightarrow> ret None | Some key \<Rightarrow> get_wallet_for_key ev cfg key) (\<lambda>wallet.
     bindP (get_standalone_payment ev cfg payment_hash False (map_option w_id wallet)) (\<lambda>found.
     case found of
       None \<Rightarrow> throw (HTTPException 404 ''Payment does not exist.'')
     | Some p \<Rightarrow>
         (let own = (\<lambda>p. case wallet of None \<Rightarrow> False | Some w \<Rightarrow> w_id w = p_wallet_id p)
          in if p_status p = SUCCESS then
               ret \<lparr>pa_paid = True, pa_status = None, pa_preimage = p_preimage p,
                    pa_details = (if own p then Some p else None)\<rparr>
             else if p_status p = FAILED then
               ret \<lparr>pa_paid = False, pa_status = Some FAILED, pa_preimage = None,
                    pa_details = (if own p then Some p else None)\<rparr>
             else
               bindP (tryP (bindP (update_pending_payment ev cfg p) (\<lambda>q. ret (Some q))) (\<lambda>_. ret None)) (\<lambda>checked.
               case checked of
                 None \<Rightarrow> ret \<lparr>pa_paid = False, pa_status = None, pa_preimage = None,
                             pa_details = (if own p then Some (p\<lparr>p_preimage := None\<rparr>) else None)\<rparr>
               | Some q \<Rightarrow>
                   ret \<lparr>pa_paid = (p_status q = SUCCESS),
                        pa_status = (if own q then Some (p_status q) else None),
                        pa_preimage = (if p_status q = SUCCESS then p_preimage q else None),
                        pa_details = (if own q then Some q else None)\<rparr>))))"

definition api_payments_settle ::
  "env \<Rightarrow> settings \<Rightarrow> wallet_type_info \<Rightarrow> string \<Rightarrow> (world, invoice_response) py" where
  "api_payments_settle ev cfg k preimg =
     bindP (get_standalone_payment ev cfg (e_sha256_hex ev preimg) True (Some (w_id (wti_wallet k)))) (\<lambda>found.
     case found of
       None \<Rightarrow> throw (HTTPException 404 ''Payment does not exist or does not belong to this wallet.'')
     | Some p \<Rightarrow> settle_hold_invoice ev p preimg)"

definition api_payments_cancel ::
  "env \<Rightarrow> settings \<Rightarrow> wallet_type_info \<Rightarrow> string \<Rightarrow> (world, invoice_response) py" where
  "api_payments_cancel ev cfg k payment_hash =
     bindP (get_standalone_payment ev cfg payment_hash True (Some (w_id (wti_wallet k)))) (\<lambda>found.
     case found of
       None \<Rightarrow> throw (HTTPException 404 ''Payment does not exist or does not belong to this wallet.'')
     | Some p \<Rightarrow> cancel_hold_invoice ev p)"

end
