(* ===== verification/AccessProperties.thy ===== *)
theory AccessProperties
  imports Demo UserApi PaymentApi
begin

text \<open>
  Who may call: API keys, access tokens, cached authentication, and the throttle on failed logins.
\<close>

definition demo_accounts :: "account list" where
  "demo_accounts = [(new_account ''u'' 0)\<lparr>a_username := Some ''ann'', a_password_hash := Some ''pw''\<rparr>,
                    (new_account ''v'' 0)\<lparr>a_username := Some ''bob''\<rparr>]"

definition demo_request :: "string \<Rightarrow> request" where
  "demo_request key =
     \<lparr>rq_path = ''/api/v1/payments'', rq_method = ''PUT'', rq_header_key = Some key, rq_query_key = None,
      rq_user_id = None\<rparr>"

definition demo_db :: world where
  "demo_db = demo_world\<lparr>wd_accounts := demo_accounts\<rparr>"

definition demo_acl :: access_control_list where
  "demo_acl = \<lparr>acl_id = ''l1'', acl_name = ''reader'',
     acl_endpoints = [\<lparr>ea_path = ''/api/v1/payments'', ea_name = ''Payments'', ea_read = True, ea_write = False\<rparr>],
     acl_token_id_list = [\<lparr>si_id = ''t1'', si_name = ''bot'', si_expires_at = None\<rparr>]\<rparr>"

definition demo_tokens :: world where
  "demo_tokens = demo_db\<lparr>wd_acls := [(''u'', \<lparr>uacl_id = ''u'', uacl_access_control_list = [demo_acl], uacl_updated_at = 0\<rparr>)]\<rparr>"

text \<open>A token of the user \<open>u\<close> that is bound to the list, and one that is not.\<close>

definition demo_token :: jwt where
  "demo_token t = JwtPayload \<lparr>at_sub = [], at_usr = Some ''u'', at_email = None, at_auth_time = Some 2000,
     at_api_token_id = (if t = ''bot'' then Some ''t1'' else None)\<rparr>"

section \<open>Inversion of the checks\<close>

lemma request_access_iff:
  "request_access cfg u (db, rq) = (Inr (), h) \<longleftrightarrow>
     h = (db, rq\<lparr>rq_user_id := Some u\<rparr>) \<and> is_user_allowed cfg u
     \<and> ss_success (check_user_extension_access cfg u (extension_id_from_request_path (rq_path rq)) db)"
  by (auto simp: request_access_def set_scope_user_def on_db_def check_user_access_def thenP_failIf
      failIf_def throw_def ret_def Let_def split: if_splits)

lemma get_cached_run: "get_cached ev key db =
    (Inr (cache_view (wd_cache db) (of_int (e_now ev)) key), snd (get_cached ev key db))"
  using lc.get_view [of "of_int (e_now ev)" key "wd_cache db"]
  by (auto simp: get_cached_def Let_def split: prod.splits)

lemma get_cached_fst: "fst (get_cached ev key db) = Inr (cache_view (wd_cache db) (of_int (e_now ev)) key)"
  by (subst get_cached_run) simp

lemma get_cached_frame:
  "snd (get_cached ev key db) = db\<lparr>wd_cache := snd (cache_get (of_int (e_now ev)) key (wd_cache db))\<rparr>"
  by (auto simp: get_cached_def Let_def split: prod.splits)

lemma acls_ignore_cache [simp]:
  "get_user_access_control_lists ev u b (db\<lparr>wd_cache := c\<rparr>) = get_user_access_control_lists ev u b db"
  by (auto simp: get_user_access_control_lists_def split: option.splits)

lemma extension_access_ignores_cache [simp]:
  "check_user_extension_access cfg u e (db\<lparr>wd_cache := c\<rparr>) = check_user_extension_access cfg u e db"
  by (simp add: check_user_extension_access_def get_user_active_extensions_ids_def)

lemma api_access_ignores_cache [simp]:
  "check_account_api_access ev u t path method (db\<lparr>wd_cache := c\<rparr>) = check_account_api_access ev u t path method db"
  by (simp add: check_account_api_access_def cong: option.case_cong if_cong)

lemma api_access_Inr:
  assumes "check_account_api_access ev u t path method db = Inr e"
  shows "\<exists>acl \<in> set (uacl_access_control_list (get_user_access_control_lists ev u True db)).
     t \<in> si_id ` set (acl_token_id_list acl) \<and> e \<in> set (acl_endpoints acl)
     \<and> ea_path e = ''/'' @ join ''/'' (take 3 (path_segments path)) \<and> supports_method e method"
proof -
  from assms obtain acl where
    a: "get_acl_by_token_id (get_user_access_control_lists ev u True db) t = Some acl"
    and e: "get_endpoint acl (''/'' @ join ''/'' (take 3 (path_segments path))) = Some e" "supports_method e method"
    by (auto simp: check_account_api_access_def split: if_splits option.splits)
  have "acl \<in> set (uacl_access_control_list (get_user_access_control_lists ev u True db))"
    and "get_token_by_id acl t \<noteq> None"
    using find_SomeD [OF a [unfolded get_acl_by_token_id_def]] by auto
  moreover from this(2) obtain s where "get_token_by_id acl t = Some s" by blast
  then have "t \<in> si_id ` set (acl_token_id_list acl)"
    using find_SomeD by (fastforce simp: get_token_by_id_def)
  moreover have "e \<in> set (acl_endpoints acl) \<and> ea_path e = ''/'' @ join ''/'' (take 3 (path_segments path))"
    using find_SomeD [OF e(1) [unfolded get_endpoint_def]] by simp
  ultimately show ?thesis using e(2) by blast
qed

text \<open>How the check of an account id can succeed: from the cache or from the tables.\<close>

lemma same_cache_world [simp]: "db\<lparr>wd_cache := wd_cache db\<rparr> = db"
  by simp

lemma account_id_cases:
  assumes "check_account_id_exists ev cfg jwt token usr (db, rq) = (Inr uid, (db', rq'))"
  obtains (cached) c where
      "check_cached_account ev jwt token uid (db\<lparr>wd_cache := c\<rparr>, rq) = (Inr (), (db\<lparr>wd_cache := c\<rparr>, rq))"
      "request_access cfg uid (db\<lparr>wd_cache := c\<rparr>, rq) = (Inr (), (db', rq'))"
  | (found) a c db1 where "find_account ev cfg jwt token usr rq (db\<lparr>wd_cache := c\<rparr>) = Inr a" "a_id a = uid"
      "request_access cfg uid (db\<lparr>wd_cache := c\<rparr>, rq) = (Inr (), (db1, rq'))"
proof -
  have state: "snd (check_cached_account ev jwt token u h) = h" for u h
    by (auto simp: check_cached_account_def bindP_def liftE_def asks_def ret_def throw_def gets_def
        split: sum.splits prod.splits)
  let ?key = "account_cache_key ev token usr" and ?on = "account_cache_key ev token usr \<noteq> None \<and> auth_authentication_cache_minutes cfg > 0"
  obtain hit c where run: "(if ?on then on_db (get_cached ev (the ?key)) else ret None) (db, rq) = (Inr hit, (db\<lparr>wd_cache := c\<rparr>, rq))"
  proof (cases ?on)
    case True
    then show ?thesis using that get_cached_run [of ev "the ?key" db] get_cached_frame [of ev "the ?key" db]
      by (simp add: on_db_simp)
  next
    case False
    have "(if ?on then on_db (get_cached ev (the ?key)) else ret None) (db, rq)
        = (Inr None, (db\<lparr>wd_cache := wd_cache db\<rparr>, rq))"
      unfolding if_not_P [OF False] by (simp add: ret_def)
    then show ?thesis by (rule that)
  qed
  let ?s = "(db\<lparr>wd_cache := c\<rparr>, rq)"
  consider u where "hit = Some (CAccountId u)"
    "thenP (check_cached_account ev jwt token u) (thenP (request_access cfg u) (ret u)) ?s = (Inr uid, (db', rq'))"
  | "hit = None" "bindP (check_account_exists ev cfg jwt token usr) (\<lambda>a.
             thenP (if ?on
                    then thenP (on_db (set_cached ev (the ?key) (CAccountId (a_id a)) (auth_authentication_cache_minutes cfg * 60)))
                         (on_db (set_cached ev (''auth:user:cache_key:'' @ e_sha256s ev (a_id a))
                            (CKey (the ?key)) 10))
                    else ret ())
             (ret (a_id a))) ?s = (Inr uid, (db', rq'))"
    using assms run unfolding check_account_id_exists_def Let_def
    by (auto simp: bindP_eq_Inr [of _ _ hit] throw_def split: option.splits cached_value.splits)
  then show ?thesis
  proof cases
    case 1
    then show ?thesis
      using cached [of c] state [of uid ?s]
      by (auto simp: thenP_def bindP_Inr_iff ret_def)
  next
    case 2
    then obtain a db1 rq1 where f: "find_account ev cfg jwt token usr rq (db\<lparr>wd_cache := c\<rparr>) = Inr a" "a_id a = uid"
      and r: "request_access cfg uid ?s = (Inr (), (db1, rq1))" and e: "rq1 = rq'"
      by (auto simp: check_account_exists_def thenP_def bindP_Inr_iff ret_def gets_def asks_def on_db_simp
          set_cached_def modify_def split: if_splits)
    then show ?thesis using found by blast
  qed
qed

section \<open>Access tokens\<close>

text \<open>C32: A token that is bound to an access control list identifies its user only on an endpoint that a list of
  this user with the token's id allows for the method of the request, whether the identification comes from
  the cache or not.\<close>

theorem restricted_token_needs_endpoint:
  assumes ok: "check_account_id_exists ev cfg jwt (Some token) usr (db, rq) = (Inr uid, (db', rq'))"
    and token: "token \<noteq> []" "jwt token = JwtPayload p" "truthy (at_api_token_id p)"
  shows "\<exists>acl \<in> set (uacl_access_control_list (get_user_access_control_lists ev uid True db)).
     the (at_api_token_id p) \<in> si_id ` set (acl_token_id_list acl)
     \<and> (\<exists>e \<in> set (acl_endpoints acl). ea_path e = ''/'' @ join ''/'' (take 3 (path_segments (rq_path rq)))
          \<and> supports_method e (rq_method rq))"
proof -
  have "\<exists>e. check_account_api_access ev uid (the (at_api_token_id p)) (rq_path rq) (rq_method rq) db = Inr e"
    using ok
  proof (cases rule: account_id_cases)
    case (cached c)
    from cached(1) token show ?thesis
      by (auto simp: check_cached_account_def decode_access_token_def bindP_Inr_iff liftE_def gets_def asks_def)
  next
    case (found a c db1)
    from found(1,2) token show ?thesis
      by (auto simp: find_account_def get_account_from_token_def decode_access_token_def
          get_account_from_jwt_payload_def split: sum.splits option.splits if_splits)
  qed
  then show ?thesis using api_access_Inr by meson
qed

theorem restricted_token_needs_endpoint_witness:
  "let h = (demo_tokens, (demo_request ''key'')\<lparr>rq_method := ''GET''\<rparr>) in
     \<exists>h'. check_account_id_exists demo_env demo_settings demo_token (Some ''bot'') None h = (Inr ''u'', h')
       \<and> (\<exists>acl \<in> set (uacl_access_control_list (get_user_access_control_lists demo_env ''u'' True demo_tokens)).
            \<exists>e \<in> set (acl_endpoints acl). supports_method e ''GET'')"
proof -
  let ?rq = "(demo_request ''key'')\<lparr>rq_method := ''GET''\<rparr>"
  let ?run = "check_account_id_exists demo_env demo_settings demo_token (Some ''bot'') None (demo_tokens, ?rq)"
  have "fst ?run = Inr ''u''" by code_simp
  then obtain db' rq' where run: "?run = (Inr ''u'', (db', rq'))" by (metis prod.collapse)
  have tok: "demo_token ''bot'' = JwtPayload \<lparr>at_sub = [], at_usr = Some ''u'', at_email = None, at_auth_time = Some 2000,
     at_api_token_id = Some ''t1''\<rparr>" by (simp add: demo_token_def)
  show ?thesis
    using run restricted_token_needs_endpoint [OF run _ tok] by (auto simp: Let_def truthy_def)
qed

lemma key_checker_Inr:
  assumes "key_checker ev cfg api_key expected (db, rq) = (Inr k, (db', rq'))"
  shows "\<exists>key w db1. extract_key_value api_key rq = Inr key \<and> get_wallet_for_key ev cfg key db = (Inr (Some w), db1)
     \<and> request_access cfg (w_user w) (db1, rq) = (Inr (), (db', rq'))
     \<and> extract_key_type expected key w = Inr (wti_key_type k) \<and> wti_wallet k = w"
proof -
  from assms obtain key w t where "extract_key_value api_key rq = Inr key"
    "fst (get_wallet_for_key ev cfg key db) = Inr (Some w)"
    "request_access cfg (w_user w) (snd (get_wallet_for_key ev cfg key db), rq) = (Inr (), (db', rq'))"
    "extract_key_type expected key w = Inr t" "k = \<lparr>wti_key_type = t, wti_wallet = w\<rparr>"
    by (auto simp: key_checker_def thenP_def bindP_Inr_iff gets_def liftE_def on_db_simp ret_def throw_def
        split: option.splits prod.splits)
  then show ?thesis by (auto intro!: exI [of _ key] exI [of _ w] simp: prod_eq_iff)
qed

text \<open>What the light checker stores.\<close>

definition remember_key :: "env \<Rightarrow> int \<Rightarrow> string \<Rightarrow> base_wallet_type_info \<Rightarrow> world \<Rightarrow> world" where
  "remember_key ev n key k db =
     snd (set_cached ev (auth_wallet_key (w_id (bti_wallet k))) (CBaseWallet (bti_wallet k)) n
       (snd (set_cached ev (auth_api_key key) (CKeyInfo (bti_key_type k) (bti_wallet k)) n db)))"

lemma set_cached_run: "set_cached ev key v n db = (Inr (), snd (set_cached ev key v n db))"
  by (simp add: set_cached_def modify_def)

lemma light_key_lookup_Inr:
  assumes "light_key_lookup ev cfg expected key n (db, rq) = (Inr k, (db', rq'))"
  shows "get_base_wallet_for_key key db = Some (bti_wallet k)
     \<and> request_access cfg (w_user (bti_wallet k)) (db, rq) = (Inr (), (db, rq'))
     \<and> extract_key_type expected key (bti_wallet k) = Inr (bti_key_type k)
     \<and> db' = (if n > 0 then remember_key ev n key k db else db)"
proof -
  from assms obtain w where w: "get_base_wallet_for_key key db = Some w"
    by (auto simp: light_key_lookup_def bindP_Inr_iff gets_def throw_def split: option.splits)
  with assms obtain rq1 where r: "request_access cfg (w_user w) (db, rq) = (Inr (), (db, rq1))"
    and rest: "bindP (liftE (extract_key_type expected key w)) (\<lambda>kt.
          thenP (if n > 0
                 then thenP (on_db (set_cached ev (auth_api_key key) (CKeyInfo kt w) n))
                      (on_db (set_cached ev (auth_wallet_key (w_id w)) (CBaseWallet w) n))
                 else ret ())
          (ret \<lparr>bti_key_type = kt, bti_wallet = w\<rparr>)) (db, rq1) = (Inr k, (db', rq'))"
    by (auto simp: light_key_lookup_def thenP_def [of "request_access cfg (w_user w)"] bindP_Inr_iff gets_def
        request_access_iff)
  from rest obtain kt where t: "extract_key_type expected key w = Inr kt"
    by (cases "extract_key_type expected key w") (auto simp: throw_def)
  show ?thesis
  proof (cases "n > 0")
    case True
    then show ?thesis using rest t w r set_cached_run
      by (auto simp: thenP_def bindP_def on_db_simp ret_def remember_key_def set_cached_def modify_def)
  next
    case False
    then show ?thesis using rest t w r by (auto simp: ret_def)
  qed
qed

text \<open>The light checker succeeds with what the cache holds or with what the table holds.\<close>

lemma light_key_cases:
  assumes "light_key_checker ev cfg api_key expected (db, rq) = (Inr k, (db', rq'))"
  obtains (cached) key where "extract_key_value api_key rq = Inr key" "auth_authentication_cache_minutes cfg > 0"
      "cache_view (wd_cache db) (of_int (e_now ev)) (auth_api_key key) = Some (CKeyInfo (bti_key_type k) (bti_wallet k))"
      "request_access cfg (w_user (bti_wallet k)) (snd (get_cached ev (auth_api_key key) db), rq) = (Inr (), (db', rq'))"
  | (found) key db1 where "extract_key_value api_key rq = Inr key"
      "db1 = (if auth_authentication_cache_minutes cfg > 0 then snd (get_cached ev (auth_api_key key) db) else db)"
      "auth_authentication_cache_minutes cfg > 0 \<Longrightarrow> cache_view (wd_cache db) (of_int (e_now ev)) (auth_api_key key) = None"
      "get_base_wallet_for_key key db = Some (bti_wallet k)"
      "request_access cfg (w_user (bti_wallet k)) (db1, rq) = (Inr (), (db1, rq'))"
      "extract_key_type expected key (bti_wallet k) = Inr (bti_key_type k)"
      "db' = (if auth_authentication_cache_minutes cfg > 0
              then remember_key ev (auth_authentication_cache_minutes cfg * 60) key k db1 else db1)"
proof -
  let ?on = "auth_authentication_cache_minutes cfg > 0"
  from assms obtain key where key: "extract_key_value api_key rq = Inr key"
    by (auto simp: light_key_checker_def bindP_Inr_iff gets_def liftE_def)
  let ?db1 = "if ?on then snd (get_cached ev (auth_api_key key) db) else db"
  let ?hit = "if ?on then cache_view (wd_cache db) (of_int (e_now ev)) (auth_api_key key) else None"
  have same: "get_base_wallet_for_key key ?db1 = get_base_wallet_for_key key db"
    by (simp add: get_cached_frame get_base_wallet_for_key_def key_row_def)
  have run: "(case ?hit of
       Some (CKeyInfo kt w) \<Rightarrow> thenP (request_access cfg (w_user w)) (ret \<lparr>bti_key_type = kt, bti_wallet = w\<rparr>)
     | Some _ \<Rightarrow> throw (OtherError ''AttributeError'')
     | None \<Rightarrow> light_key_lookup ev cfg expected key (auth_authentication_cache_minutes cfg * 60)) (?db1, rq)
      = (Inr k, (db', rq'))"
  proof (cases ?on)
    case True
    then show ?thesis
      using assms key
      by (simp add: light_key_checker_def bindP_def gets_def liftE_def on_db_simp get_cached_fst)
  next
    case False
    then show ?thesis using assms key
      by (simp add: light_key_checker_def bindP_def gets_def liftE_def ret_def)
  qed
  show ?thesis
  proof (cases ?hit)
    case None
    have none: "?on \<Longrightarrow> cache_view (wd_cache db) (of_int (e_now ev)) (auth_api_key key) = None"
      using None by (simp only: if_True)
    have "light_key_lookup ev cfg expected key (auth_authentication_cache_minutes cfg * 60) (?db1, rq) = (Inr k, (db', rq'))"
      using run None by (simp only: option.case)
    from light_key_lookup_Inr [OF this]
    show ?thesis using found [OF key refl none] same by (simp add: zero_less_mult_iff)
  next
    case (Some v)
    then show ?thesis using run cached [OF key]
      by (auto simp: thenP_def bindP_Inr_iff ret_def throw_def split: cached_value.splits if_splits)
  qed
qed



section \<open>API keys\<close>

lemma mirror_keys [simp]:
  "w_adminkey (mirror_shared_wallet w s) = w_adminkey w" "w_inkey (mirror_shared_wallet w s) = w_inkey w"
  by (simp_all add: mirror_shared_wallet_def Let_def)

lemma key_row_Some:
  assumes "key_row key db = Some r"
  shows "r \<in> set (wd_wallets db) \<and> key \<in> {w_adminkey r, w_inkey r} \<and> \<not> w_deleted r
     \<and> (\<exists>a \<in> set (wd_accounts db). a_id a = w_user r \<and> a_activated a)"
  using find_SomeD [OF assms [unfolded key_row_def]] by auto

lemma get_wallet_for_key_row:
  assumes "get_wallet_for_key ev cfg key db = (Inr (Some w), db')"
  shows "\<exists>r. key_row key db = Some r \<and> w_id w = w_id r \<and> w_adminkey w = w_adminkey r \<and> w_inkey w = w_inkey r
            \<and> w_user w = w_user r"
  using assms
  by (auto simp: get_wallet_for_key_def get_source_wallet_def bindP_Inr_iff gets_def ret_def
      split: option.splits if_splits)

lemma extract_key_value_Inr:
  "extract_key_value (security_key rq) rq = Inr key \<longleftrightarrow> security_key rq = Some key \<and> key \<noteq> []"
  by (auto simp: extract_key_value_def security_key_def orElse_def Let_def truthy_def split: if_splits)

text \<open>A caller passes the check for an admin key only with the admin key of the wallet it is given, a wallet
  that is not deleted and whose owner's account is active. With the light check this holds when the key is
  not in the cache.\<close>

theorem admin_key_is_required:
  "(require_admin_key ev cfg (db, rq) = (Inr k, h) \<longrightarrow>
      wti_key_type k = AdminKey
      \<and> (\<exists>r \<in> set (wd_wallets db). security_key rq = Some (w_adminkey r) \<and> w_id (wti_wallet k) = w_id r
            \<and> \<not> w_deleted r \<and> (\<exists>a \<in> set (wd_accounts db). a_id a = w_user r \<and> a_activated a)))
   \<and> (require_base_admin_key ev cfg (db, rq) = (Inr b, h)
        \<and> cache_view (wd_cache db) (of_int (e_now ev)) (auth_api_key (the (security_key rq))) = None \<longrightarrow>
      bti_key_type b = AdminKey
      \<and> (\<exists>r \<in> set (wd_wallets db). security_key rq = Some (w_adminkey r) \<and> bti_wallet b = base_wallet.truncate r
            \<and> \<not> w_deleted r \<and> (\<exists>a \<in> set (wd_accounts db). a_id a = w_user r \<and> a_activated a)))"
proof (intro conjI impI)
  assume a: "require_admin_key ev cfg (db, rq) = (Inr k, h)"
  obtain db' rq' where h: "h = (db', rq')" by (cases h)
  from a h have "key_checker ev cfg (security_key rq) (Some AdminKey) (db, rq) = (Inr k, (db', rq'))"
    by (simp add: require_admin_key_def)
  from key_checker_Inr [OF this] obtain key w db1 where
    k: "security_key rq = Some key" and g: "get_wallet_for_key ev cfg key db = (Inr (Some w), db1)"
    and t: "extract_key_type (Some AdminKey) key w = Inr (wti_key_type k)" and w: "wti_wallet k = w"
    by (auto simp: extract_key_value_Inr)
  from get_wallet_for_key_row [OF g] obtain r where r: "key_row key db = Some r" "w_id w = w_id r" "w_adminkey w = w_adminkey r"
    by blast
  have kt: "w_adminkey w = key" "wti_key_type k = AdminKey" using t by (auto simp: extract_key_type_def split: if_splits)
  then show "wti_key_type k = AdminKey" by simp
  show "\<exists>r \<in> set (wd_wallets db). security_key rq = Some (w_adminkey r) \<and> w_id (wti_wallet k) = w_id r
            \<and> \<not> w_deleted r \<and> (\<exists>a \<in> set (wd_accounts db). a_id a = w_user r \<and> a_activated a)"
    using key_row_Some [OF r(1)] r kt k w by (intro bexI [of _ r]) auto
next
  assume a: "require_base_admin_key ev cfg (db, rq) = (Inr b, h)
        \<and> cache_view (wd_cache db) (of_int (e_now ev)) (auth_api_key (the (security_key rq))) = None"
  obtain db' rq' where h: "h = (db', rq')" by (cases h)
  from a h have "light_key_checker ev cfg (security_key rq) (Some AdminKey) (db, rq) = (Inr b, (db', rq'))"
    by (simp add: require_base_admin_key_def)
  then obtain key where k: "security_key rq = Some key" and g: "get_base_wallet_for_key key db = Some (bti_wallet b)"
    and t: "extract_key_type (Some AdminKey) key (bti_wallet b) = Inr (bti_key_type b)"
  proof (cases rule: light_key_cases)
    case (cached key)
    then show ?thesis using a by (simp add: extract_key_value_Inr)
  next
    case (found key db1)
    then show ?thesis using that by (simp add: extract_key_value_Inr)
  qed
  from g obtain r where r: "key_row key db = Some r" "bti_wallet b = base_wallet.truncate r"
    by (auto simp: get_base_wallet_for_key_def)
  have kt: "w_adminkey (bti_wallet b) = key" "bti_key_type b = AdminKey"
    using t by (auto simp: extract_key_type_def split: if_splits)
  then show "bti_key_type b = AdminKey" by simp
  show "\<exists>r \<in> set (wd_wallets db). security_key rq = Some (w_adminkey r) \<and> bti_wallet b = base_wallet.truncate r
            \<and> \<not> w_deleted r \<and> (\<exists>a \<in> set (wd_accounts db). a_id a = w_user r \<and> a_activated a)"
    using key_row_Some [OF r(1)] r kt k by (intro bexI [of _ r]) (auto simp: base_wallet.truncate_def)
qed

theorem admin_key_is_required_witness:
  "(\<exists>k h. require_admin_key demo_env demo_settings (demo_db, demo_request ''alice-admin'') = (Inr k, h)
        \<and> wti_key_type k = AdminKey)
   \<and> (\<exists>b h. require_base_admin_key demo_env demo_settings (demo_db, demo_request ''alice-admin'') = (Inr b, h)
        \<and> bti_key_type b = AdminKey)"
proof -
  let ?k = "require_admin_key demo_env demo_settings (demo_db, demo_request ''alice-admin'')"
  let ?b = "require_base_admin_key demo_env demo_settings (demo_db, demo_request ''alice-admin'')"
  have "is_ok ?k" "is_ok ?b" by code_simp+
  then obtain k h b g where runs: "?k = (Inr k, h)" "?b = (Inr b, g)" using is_okD [of ?k] is_okD [of ?b] by blast
  have cold: "cache_view (wd_cache demo_db) (of_int (e_now demo_env))
      (auth_api_key (the (security_key (demo_request ''alice-admin'')))) = None" by code_simp
  show ?thesis
    using runs admin_key_is_required [THEN conjunct1, rule_format, OF runs(1)]
      admin_key_is_required [THEN conjunct2, rule_format, OF conjI [OF runs(2) cold]] by blast
qed

text \<open>The light check does not look at the expected type of a cached key: an invoice key that was used before
  passes the check for an admin key.
\<close>

theorem cached_invoice_key_passes_admin_check:
  "fst (require_base_admin_key demo_env demo_settings (demo_db, demo_request ''alice-in''))
     = Inl (HTTPException 403 ''Invalid adminkey.'')
   \<and> map_sum id bti_key_type (fst (require_base_admin_key demo_env demo_settings
       (snd (require_base_invoice_key demo_env demo_settings (demo_db, demo_request ''alice-in''))))) = Inr InvoiceKey"
  by code_simp

end
