(* ===== verification/SharingProperties.thy ===== *)
theory SharingProperties
  imports AccessProperties
begin

text \<open>
  Shared wallets, the balance a wallet shows, and lightning addresses.
\<close>

section \<open>What a wallet read shows\<close>

text \<open>C14: The balance that a wallet shows is the balance of the ledger its payments are booked on: its own, or that of
  the wallet it mirrors when the owner of that wallet gave it any permission.\<close>

theorem shown_balance_is_ledger_balance:
  assumes "get_wallet ev cfg wid (Some False) db = (Inr (Some w), db')" and "wf_wallets db"
  shows "w_id w = wid \<and> w_balance_msat w = balance_of db (source_wallet_id w)
     \<and> w_balance_msat w = ledger_sum (source_wallet_id w) (wd_payments db)"
proof -
  have b: "w_id w = wid" "w_balance_msat w = balance_of db (source_wallet_id w)" "0 < live_rows db (source_wallet_id w)"
    using get_wallet_balance [OF assms] by simp_all
  have "live_rows db (source_wallet_id w) = 1"
    using b(3) live_rows_le_1 [of db "source_wallet_id w"] assms(2) by (simp add: wf_wallets_def)
  then show ?thesis using b by (simp add: balance_of_live)
qed

lemma demo_wf: "wf_wallets demo_world"
  by (simp add: wf_wallets_def wallet_ids_distinct_def demo_world_def demo_row_def)

theorem shown_balance_is_ledger_balance_witness:
  "\<exists>w db'. get_wallet demo_env demo_settings ''carol'' (Some False) demo_world = (Inr (Some w), db')
     \<and> w_balance_msat w = ledger_sum ''alice'' (wd_payments demo_world)"
proof -
  have "(case fst (get_wallet demo_env demo_settings ''carol'' (Some False) demo_world) of
      Inr (Some w) \<Rightarrow> source_wallet_id w = ''alice'' | _ \<Rightarrow> False)" by code_simp
  then obtain w where w: "fst (get_wallet demo_env demo_settings ''carol'' (Some False) demo_world) = Inr (Some w)"
    "source_wallet_id w = ''alice''" by (auto split: sum.splits option.splits)
  then have "get_wallet demo_env demo_settings ''carol'' (Some False) demo_world
      = (Inr (Some w), snd (get_wallet demo_env demo_settings ''carol'' (Some False) demo_world))"
    by (metis prod.collapse)
  from this shown_balance_is_ledger_balance [OF this demo_wf] show ?thesis using w(2) by auto
qed

text \<open>What the stored row of a wallet grants to another wallet.\<close>

definition grants :: "world \<Rightarrow> string \<Rightarrow> string \<Rightarrow> wallet_permission list" where
  "grants db sid wid =
     (case List.find (\<lambda>r. w_id r = sid) (wd_wallets db) of None \<Rightarrow> [] | Some r \<Rightarrow> get_share_permissions r wid)"

lemma find_row:
  assumes "distinct (map w_id ws)" "r \<in> set ws" "w_id r = i"
  shows "List.find (\<lambda>r. w_id r = i) ws = Some r"
  using assms by (induction ws) (auto simp: image_iff)

lemma core_share: "wallet_core v = wallet_core w \<Longrightarrow> get_share_permissions v = get_share_permissions w"
  using wallet_core_sel(6) [of v] wallet_core_sel(6) [of w] by (auto simp: get_share_permissions_def fun_eq_iff)

text \<open>C15: A wallet that mirrors another one can do exactly what an approved share in the stored row of the other
  wallet, which exists and is not deleted, says about it; without such a share it can do nothing.\<close>

theorem mirror_acts_within_its_share:
  assumes run: "get_wallet ev cfg wid (Some False) db = (Inr (Some w), db')" and wf: "wf_wallets db"
    and mirror: "is_lightning_shared_wallet w"
  shows "has_permission w p \<longleftrightarrow>
     (\<exists>sid. w_shared_wallet_id w = Some sid \<and> p \<in> set (grants db sid wid)
        \<and> (\<exists>r \<in> set (wd_wallets db). w_id r = sid \<and> is_lightning_wallet r \<and> \<not> w_deleted r
             \<and> (\<exists>s \<in> set (we_shared_with (w_extra r)). ws_shared_with_wallet_id s = Some wid \<and> ws_is_approved s
                   \<and> p \<in> set (ws_permissions s))))"
proof -
  have dist: "wallet_ids_distinct db" using wf by (simp add: wf_wallets_def)
  from run obtain w1 db1 where
    g1: "get_standalone_wallet ev cfg wid (Some False) db = (Inr (Some w1), db1)"
    and g2: "(if is_lightning_shared_wallet w1 then get_source_wallet ev cfg w1 else ret (Some w1)) db1 = (Inr (Some w), db')"
    by (auto simp: get_wallet_def bindP_Inr_iff ret_def split: option.splits)
  from standalone_cases [OF g1 dist] obtain v where sb: "same_books db db1"
    and v: "v \<in> set (wd_wallets db)" "wallet_core v = wallet_core w1" "w_id v = wid" "w_share_permissions w1 = w_share_permissions v"
    by auto
  have w1: "w_id w1 = wid" "w_share_permissions w1 = []"
    using v wf wallet_core_sel(1) by (metis, simp add: wf_wallets_def)
  have sh: "is_lightning_shared_wallet w1" using g2 mirror by (auto simp: ret_def split: if_splits)
  with g2 obtain s db2 where t: "truthy (w_shared_wallet_id w1)"
    and g3: "get_standalone_wallet ev cfg (the (w_shared_wallet_id w1)) (Some False) db1 = (Inr (Some s), db2)"
    and w: "w = mirror_shared_wallet w1 s"
    by (auto simp: get_source_wallet_def bindP_Inr_iff ret_def split: option.splits if_splits)
  have dist1: "wallet_ids_distinct db1" using dist sb by (simp add: same_books_ids)
  from standalone_cases [OF g3 dist1] obtain u1 where
    u1: "u1 \<in> set (wd_wallets db1)" "wallet_core u1 = wallet_core s" "w_id u1 = the (w_shared_wallet_id w1)" "\<not> w_deleted u1"
    by auto
  have "map wallet_core (wd_wallets db1) = map wallet_core (wd_wallets db)" using sb by (simp add: same_books_def)
  with u1(1) obtain u where u: "u \<in> set (wd_wallets db)" "wallet_core u = wallet_core u1"
    by (metis (no_types, lifting) image_iff list.set_map)
  have core: "wallet_core u = wallet_core s" using u(2) u1(2) by simp
  have us: "w_id u = w_id s" "w_extra u = w_extra s" "w_wallet_type u = w_wallet_type s" "w_deleted u = w_deleted s"
    using core wallet_core_sel by metis+
  have sid: "w_id s = the (w_shared_wallet_id w1)" "\<not> w_deleted s" using u1 wallet_core_sel by metis+
  have "List.find (\<lambda>r. w_id r = w_id s) (wd_wallets db) = Some u"
    using find_row [of "wd_wallets db" u] dist u(1) us(1) by (simp add: wallet_ids_distinct_def)
  then have gr: "grants db (w_id s) wid = get_share_permissions s wid"
    using us(2) by (simp add: grants_def get_share_permissions_def)
  show ?thesis
  proof (cases "is_lightning_wallet s")
    case True
    have ws: "w_shared_wallet_id w = Some (w_id s)" using True by (simp add: w mirror_shared_wallet_def Let_def)
    have "has_permission w p \<longleftrightarrow> p \<in> set (get_share_permissions s wid)"
      using mirror_has_permission [OF True, of w1 p] w1(1) w by simp
    moreover have "\<exists>x \<in> set (we_shared_with (w_extra u)). ws_shared_with_wallet_id x = Some wid \<and> ws_is_approved x
        \<and> p \<in> set (ws_permissions x)" if "p \<in> set (get_share_permissions s wid)"
      using share_permissions_in_approved that us(2) by (auto simp: get_share_permissions_def)
    ultimately show ?thesis
      using ws gr u(1) us sid True by (auto simp: is_lightning_wallet_def)
  next
    case False
    then have "w = w1" by (simp add: w mirror_shared_wallet_def)
    then have no: "\<not> has_permission w p"
      using w1 sh by (simp add: has_permission_def is_fiat_wallet_def is_lightning_wallet_def is_lightning_shared_wallet_def)
    have "\<not> is_lightning_wallet r" if "r \<in> set (wd_wallets db)" "w_id r = the (w_shared_wallet_id w1)" for r
    proof -
      have "r = u" using that us(1) sid(1) by (intro row_unique [OF dist _ u(1)]) simp_all
      then show ?thesis using False us(3) by (simp add: is_lightning_wallet_def)
    qed
    then show ?thesis using no \<open>w = w1\<close> by auto
  qed
qed

theorem mirror_acts_within_its_share_witness:
  "\<exists>w db'. get_wallet demo_env demo_settings ''carol'' (Some False) demo_world = (Inr (Some w), db')
     \<and> has_permission w SEND_PAYMENTS \<and> \<not> has_permission w RECEIVE_PAYMENTS"
proof -
  have "(case fst (get_wallet demo_env demo_settings ''carol'' (Some False) demo_world) of
      Inr (Some w) \<Rightarrow> is_lightning_shared_wallet w \<and> w_shared_wallet_id w = Some ''alice'' | _ \<Rightarrow> False)" by code_simp
  then obtain w where w: "fst (get_wallet demo_env demo_settings ''carol'' (Some False) demo_world) = Inr (Some w)"
    "is_lightning_shared_wallet w" "w_shared_wallet_id w = Some ''alice''" by (auto split: sum.splits option.splits)
  then have run: "get_wallet demo_env demo_settings ''carol'' (Some False) demo_world
      = (Inr (Some w), snd (get_wallet demo_env demo_settings ''carol'' (Some False) demo_world))"
    by (metis prod.collapse)
  have g: "grants demo_world ''alice'' ''carol'' = [VIEW_PAYMENTS, SEND_PAYMENTS]" by code_simp
  have "\<exists>r \<in> set (wd_wallets demo_world). w_id r = ''alice'' \<and> is_lightning_wallet r \<and> \<not> w_deleted r
             \<and> (\<exists>s \<in> set (we_shared_with (w_extra r)). ws_shared_with_wallet_id s = Some ''carol'' \<and> ws_is_approved s
                   \<and> SEND_PAYMENTS \<in> set (ws_permissions s))" by code_simp
  then have "has_permission w SEND_PAYMENTS" "\<not> has_permission w RECEIVE_PAYMENTS"
    using mirror_acts_within_its_share [OF run demo_wf w(2)] w(3) g by auto
  then show ?thesis using run by blast
qed

section \<open>Inviting, accepting, revoking\<close>

lemma find_row_update:
  "List.find (\<lambda>r. w_id r = i) (map (\<lambda>v. if w_id v = w_id w then w else v) ws) =
     (if i = w_id w then (if w_id w \<in> w_id ` set ws then Some w else None) else List.find (\<lambda>r. w_id r = i) ws)"
  by (induction ws) auto

lemma grants_update_wallet:
  assumes "update_wallet ev w db = (r, db')"
  shows "(\<exists>e. r = Inl e \<and> db' = db)
    \<or> (r = Inr (w\<lparr>w_updated_at := e_now ev\<rparr>)
       \<and> (\<forall>sid wid. grants db' sid wid =
            (if sid = w_id w \<and> w_id w \<in> w_id ` set (wd_wallets db) then get_share_permissions w wid else grants db sid wid)))"
proof -
  let ?w = "wallet_row (w\<lparr>w_updated_at := e_now ev\<rparr>)"
  have id: "w_id ?w = w_id w" "get_share_permissions ?w = get_share_permissions w"
    by (simp_all add: wallet_row_def get_share_permissions_def fun_eq_iff)
  have none: "List.find (\<lambda>r. w_id r = w_id w) (wd_wallets db) = None" if "w_id w \<notin> w_id ` set (wd_wallets db)"
    using that by (auto simp: find_None_iff) (metis imageI)
  show ?thesis
    using assms find_row_update [of _ ?w "wd_wallets db"] none
    by (auto simp: update_wallet_run grants_def id split: if_splits)
qed

lemma grants_same_wallets: "wd_wallets db' = wd_wallets db \<Longrightarrow> grants db' sid wid = grants db sid wid"
  by (simp add: grants_def)

lemma update_account_wallets: "wd_wallets (snd (update_account ev a db)) = wd_wallets db"
  by (simp add: update_account_def Let_def modify_def ret_def thenP_def bindP_def)

lemma create_wallet_fields:
  assumes "create_wallet ev cfg u n t shared db = (Inr m, db')"
  shows "w_user m = u \<and> w_shared_wallet_id m = shared \<and> w_wallet_type m = wallet_type_value t"
  using assms
  by (auto simp: create_wallet_def bindP_Inr_iff gets_def liftE_def wallet_validate_data_def Let_def thenP_failIf
      modify_def ret_def generate_lightning_address_local_part_def split: if_splits)

lemma accepted_permissions:
  "List.find P ss = Some s \<Longrightarrow> \<forall>x \<in> set ss. ws_shared_with_wallet_id x \<noteq> Some wid \<Longrightarrow>
   share_permissions_in wid (update_first P (ws_approve None (Some wid)) ss) = ws_permissions s"
  by (induction ss) (auto simp: ws_approve_def ws_is_approved_def split: if_splits)

lemma invited_share_is_silent:
  "share_permissions_in wid (ss @ [s]) = share_permissions_in wid ss" if "ws_shared_with_wallet_id s = None"
  using that by (induction ss) auto

text \<open>An invitation to a stored wallet gives nobody a permission: whatever its outcome, every wallet grants every
  other wallet what it granted before.\<close>

theorem invitation_grants_nothing:
  assumes "invite_to_wallet ev source d db = (res, db')" and "wallet_ids_distinct db"
    and "r \<in> set (wd_wallets db)" "w_id r = w_id source" "w_extra r = w_extra source"
  shows "grants db' sid wid = grants db sid wid"
proof -
  note a = assms(1) and r = assms(3,4,5)
  have "List.find (\<lambda>r. w_id r = w_id source) (wd_wallets db) = Some r"
    using find_row [OF _ r(1,2)] assms(2) by (simp add: wallet_ids_distinct_def)
  then have g: "grants db (w_id source) wid = get_share_permissions source wid"
    using r(3) by (simp add: grants_def get_share_permissions_def)
  define share where "share inv = \<lparr>ws_request_id = Some (share_request_id ev inv source), ws_username = ws_username d,
        ws_shared_with_wallet_id = None, ws_permissions = ws_permissions d, ws_status = INVITE_SENT, ws_comment = None\<rparr>" for inv
  define src where "src inv = source\<lparr>w_extra := (w_extra source)\<lparr>we_shared_with := we_shared_with (w_extra source) @ [share inv]\<rparr>\<rparr>" for inv
  have same: "get_share_permissions (src inv) wid = get_share_permissions source wid" "w_id (src inv) = w_id source" for inv
    using invited_share_is_silent [of "share inv"] by (simp_all add: src_def share_def get_share_permissions_def)
  have upd: "grants (snd (update_wallet ev (src inv) db)) sid wid = grants db sid wid" for inv
    using grants_update_wallet [of ev "src inv" db, OF prod.collapse [symmetric]] same [of inv] g by auto
  have "wd_wallets db' = wd_wallets db \<or> (\<exists>inv. wd_wallets db' = wd_wallets (snd (update_wallet ev (src inv) db)))"
  proof (cases "get_account_by_username_or_email (ws_username d) True db")
    case None
    then show ?thesis using a by (auto simp: invite_to_wallet_def thenP_failIf throw_def split: if_splits)
  next
    case (Some inv)
    let ?rest = "bindP (gets (get_account (w_user source) True)) (\<lambda>owner.
             case owner of
               None \<Rightarrow> throw (ValueError ''Cannot find wallet owner.'')
             | Some o' \<Rightarrow>
                 thenP (update_account ev (inv\<lparr>a_extra :=
                    add_wallet_invite_request (share_request_id ev inv source) (w_id source) (w_name source)
                      (orElse (a_username o') (a_email o')) (a_extra inv)\<rparr>))
                 (ret (share inv)))"
    have "keeps (\<lambda>x. wd_wallets x = ws) ?rest" for ws
      by (intro keeps_intro) (simp add: keeps_def update_account_wallets)
    then have W: "wd_wallets (snd (thenP (update_wallet ev (src inv)) ?rest db)) = wd_wallets (snd (update_wallet ev (src inv) db))"
      by (auto simp: thenP_def bindP_def keeps_def split: prod.splits sum.splits) (metis snd_conv)?
    have "(\<exists>e. invite_to_wallet ev source d db = (Inl e, db))
        \<or> invite_to_wallet ev source d db = thenP (update_wallet ev (src inv)) ?rest db"
      unfolding share_def src_def
      by (simp add: invite_to_wallet_def thenP_failIf Some Let_def invite_user_to_shared_wallet_def)
    then show ?thesis
    proof (elim disjE exE)
      fix e assume "invite_to_wallet ev source d db = (Inl e, db)"
      then show ?thesis using a by simp
    next
      assume e: "invite_to_wallet ev source d db = thenP (update_wallet ev (src inv)) ?rest db"
      have "db' = snd (invite_to_wallet ev source d db)" using a by simp
      then have "wd_wallets db' = wd_wallets (snd (update_wallet ev (src inv) db))"
        by (simp only: e W)
      then show ?thesis by blast
    qed
  qed
  then show "grants db' sid wid = grants db sid wid"
    using upd grants_same_wallets by metis
qed

definition demo_invitation :: wallet_share where
  "demo_invitation = demo_share\<lparr>ws_username := ''bob'', ws_shared_with_wallet_id := None, ws_permissions := [SEND_PAYMENTS]\<rparr>"

theorem invitation_grants_nothing_witness:
  "\<exists>s db'. invite_to_wallet demo_env alice demo_invitation demo_db = (Inr s, db')
     \<and> (\<forall>sid wid. grants db' sid wid = grants demo_db sid wid)"
proof -
  have "is_ok (invite_to_wallet demo_env alice demo_invitation demo_db)" by code_simp
  then obtain s db' where run: "invite_to_wallet demo_env alice demo_invitation demo_db = (Inr s, db')"
    using is_okD by blast
  have d: "wallet_ids_distinct demo_db" by code_simp
  have r: "hd (wd_wallets demo_db) \<in> set (wd_wallets demo_db)" "w_id (hd (wd_wallets demo_db)) = w_id alice"
    "w_extra (hd (wd_wallets demo_db)) = w_extra alice" by code_simp+
  show ?thesis using run invitation_grants_nothing [OF run d r] by blast
qed

text \<open>C16: Accepting needs an invitation for this very account and wallet that is stored with the wallet and was not
  accepted before; the new mirror wallet belongs to the invited account and gets exactly the permissions of
  that invitation.\<close>

theorem acceptance_needs_invitation:
  assumes a: "accept_invitation_to_shared_wallet ev cfg invited source db1 = (Inr m, db2)"
    and light: "is_lightning_wallet source"
    and fresh: "\<forall>s \<in> set (we_shared_with (w_extra source)). ws_shared_with_wallet_id s \<noteq> Some (w_id m)"
  shows "\<exists>s \<in> set (we_shared_with (w_extra source)). ws_request_id s = Some (share_request_id ev invited source)
      \<and> ws_status s = INVITE_SENT \<and> w_share_permissions m = ws_permissions s
      \<and> w_user m = a_id invited \<and> w_shared_wallet_id m = Some (w_id source)"
proof -
  let ?id = "share_request_id ev invited source"
  from a obtain s where s: "find_share_by_id ?id (w_extra source) = Some s" "ws_status s = INVITE_SENT"
    by (auto simp: accept_invitation_to_shared_wallet_def Let_def throw_def thenP_failIf split: option.splits if_splits)
  from a s obtain m0 dbx dby where c: "create_wallet ev cfg (a_id invited) (Some (w_name source)) LIGHTNING_SHARED (Some (w_id source)) dbx = (Inr m0, dby)"
    and m: "m = mirror_shared_wallet m0 (approve_share (\<lambda>s. ws_request_id s = Some ?id) None (Some (w_id m0)) source)"
    by (auto simp: accept_invitation_to_shared_wallet_def Let_def thenP_failIf thenP_def [of "update_account _ _"]
        thenP_def [of "update_wallet _ _"] bindP_Inr_iff ret_def)
  have f: "List.find (\<lambda>s. ws_request_id s = Some ?id) (we_shared_with (w_extra source)) = Some s"
    using s(1) by (simp add: find_share_by_id_def)
  have light': "is_lightning_wallet (approve_share P None w source)" for P w
    using light by (simp add: approve_share_def is_lightning_wallet_def)
  have mf: "w_id m = w_id m0" "w_user m = w_user m0" by (simp_all add: m)
  have "w_share_permissions m = ws_permissions s"
    using mirror_permissions [OF light', of m0] accepted_permissions [OF f, of "w_id m0"] fresh mf
    by (simp add: m get_share_permissions_def approve_share_def)
  moreover have "w_shared_wallet_id m = Some (w_id source)"
    using light' by (simp add: m mirror_shared_wallet_def Let_def) (simp add: approve_share_def)
  ultimately show ?thesis
    using find_SomeD [OF f] s(2) create_wallet_fields [OF c] mf(2)
    by (intro bexI [of _ s]) simp_all
qed

theorem acceptance_needs_invitation_witness:
  "\<exists>source m db'. accept_invitation_to_shared_wallet demo_env demo_settings (demo_accounts ! 1) source demo_db = (Inr m, db')
     \<and> w_share_permissions m = [SEND_PAYMENTS] \<and> w_user m = ''v''"
proof -
  let ?source = "alice\<lparr>w_extra := snd (invite_user_to_shared_wallet (share_request_id demo_env (demo_accounts ! 1) alice)
      INVITE_SENT ''bob'' [SEND_PAYMENTS] (w_extra alice))\<rparr>"
  let ?run = "accept_invitation_to_shared_wallet demo_env demo_settings (demo_accounts ! 1) ?source demo_db"
  have "is_ok ?run \<and> (\<forall>s \<in> set (we_shared_with (w_extra ?source)). ws_shared_with_wallet_id s \<noteq> map_option w_id (case fst ?run of Inr m \<Rightarrow> Some m | _ \<Rightarrow> None))"
    by code_simp
  then obtain m db' where run: "?run = (Inr m, db')"
    and fresh: "\<forall>s \<in> set (we_shared_with (w_extra ?source)). ws_shared_with_wallet_id s \<noteq> Some (w_id m)"
    using is_okD [of ?run] by fastforce
  have shares: "we_shared_with (w_extra ?source) = [demo_share, \<lparr>ws_request_id = Some ''valice'', ws_username = ''bob'',
        ws_shared_with_wallet_id = None, ws_permissions = [SEND_PAYMENTS], ws_status = INVITE_SENT, ws_comment = None\<rparr>]"
    "is_lightning_wallet ?source" "share_request_id demo_env (demo_accounts ! 1) ?source = ''valice''" "a_id (demo_accounts ! 1) = ''v''"
    by code_simp+
  have "w_share_permissions m = [SEND_PAYMENTS] \<and> w_user m = ''v''"
    using acceptance_needs_invitation [OF run shares(2) fresh] unfolding shares
    by (auto simp: demo_share_def)
  then show ?thesis using run by blast
qed

end
