(* ===== verification/KeyCacheProperties.thy ===== *)
theory KeyCacheProperties
  imports AccessProperties
begin

text \<open>
  The cache of API keys stays in step with the table of wallets: a cached key belongs to a wallet of the
  table, and the entry of the wallet, from which a deletion learns the keys to forget, outlives it.
\<close>

section \<open>The two kinds of entries\<close>

lemma cache_key_eq [simp]:
  "auth_api_key k = auth_api_key k' \<longleftrightarrow> k = k'" "auth_wallet_key i = auth_wallet_key j \<longleftrightarrow> i = j"
  "auth_api_key k \<noteq> auth_wallet_key i" "auth_wallet_key i \<noteq> auth_api_key k"
  by (simp_all add: auth_api_key_def auth_wallet_key_def)

text \<open>An entry that has not expired; the duration \<open>n\<close> is what the settings give.\<close>

definition live_entry :: "rat \<Rightarrow> cached_value cache \<Rightarrow> string \<Rightarrow> cached_value \<Rightarrow> rat \<Rightarrow> bool" where
  "live_entry now c key v e \<longleftrightarrow> map_of c key = Some (v, e) \<and> now < e"

definition key_cache_ok :: "rat \<Rightarrow> rat \<Rightarrow> world \<Rightarrow> bool" where
  "key_cache_ok now n db \<longleftrightarrow>
     (\<forall>key v e. live_entry now (wd_cache db) (auth_api_key key) v e \<longrightarrow> e \<le> now + n \<and>
        (\<exists>kt w e'. v = CKeyInfo kt w \<and> key \<in> {w_adminkey w, w_inkey w}
           \<and> live_entry now (wd_cache db) (auth_wallet_key (w_id w)) (CBaseWallet w) e' \<and> e \<le> e'))
     \<and> (\<forall>i v e. live_entry now (wd_cache db) (auth_wallet_key i) v e \<longrightarrow> e \<le> now + n \<and>
        (\<exists>r \<in> set (wd_wallets db). w_id r = i \<and> v = CBaseWallet (base_wallet.truncate r)))"

lemma live_get:
  "live_entry t (snd (cache_get now k c)) k' v e \<longleftrightarrow> live_entry t c k' v e"
  if "now \<le> t"
  using that by (auto simp: live_entry_def cache_get_def delete_conv' split: option.splits)

lemma live_set:
  "live_entry t (cache_set now k v0 n c) k' v e \<longleftrightarrow>
     (if k' = k then v = v0 \<and> e = now + n \<and> t < e else live_entry t c k' v e)"
  by (auto simp: live_entry_def cache_set_def update_conv')

lemma live_pop:
  "live_entry t (snd (cache_pop now k c)) k' v e \<longleftrightarrow> k' \<noteq> k \<and> live_entry t c k' v e"
  by (auto simp: live_entry_def cache_pop_def delete_conv' split: option.splits)

lemma view_live: "cache_view c now k = Some v \<longleftrightarrow> (\<exists>e. live_entry now c k v e)"
  by (auto simp: cache_view_def live_entry_def split: option.splits)

lemma truncate_sel [simp]:
  "w_id (base_wallet.truncate r) = w_id r" "w_adminkey (base_wallet.truncate r) = w_adminkey r"
  "w_inkey (base_wallet.truncate r) = w_inkey r" "w_user (base_wallet.truncate r) = w_user r"
  by (simp_all add: base_wallet.truncate_def)

lemma key_cache_api:
  assumes "key_cache_ok now n db" "live_entry now (wd_cache db) (auth_api_key key) v e"
  obtains kt w e' where "v = CKeyInfo kt w" "key \<in> {w_adminkey w, w_inkey w}"
    "live_entry now (wd_cache db) (auth_wallet_key (w_id w)) (CBaseWallet w) e'" "e \<le> e'" "e \<le> now + n"
  using assms unfolding key_cache_ok_def by blast

lemma key_cache_wallet:
  assumes "key_cache_ok now n db" "live_entry now (wd_cache db) (auth_wallet_key i) v e"
  obtains r where "r \<in> set (wd_wallets db)" "w_id r = i" "v = CBaseWallet (base_wallet.truncate r)" "e \<le> now + n"
  using assms unfolding key_cache_ok_def by blast

lemma key_cache_later:
  assumes "key_cache_ok now n db" "now \<le> t" shows "key_cache_ok t n db"
proof -
  have l: "live_entry t c k v e \<Longrightarrow> live_entry now c k v e" for c k v e
    using assms(2) by (auto simp: live_entry_def)
  have up: "live_entry now c k v e \<Longrightarrow> t < e \<Longrightarrow> live_entry t c k v e" for c k v e
    by (auto simp: live_entry_def)
  show ?thesis
    unfolding key_cache_ok_def
  proof (intro conjI allI impI)
    fix key v e assume a: "live_entry t (wd_cache db) (auth_api_key key) v e"
    then have te: "t < e" by (simp add: live_entry_def)
    obtain kt w e' where k: "v = CKeyInfo kt w" "key \<in> {w_adminkey w, w_inkey w}"
      "live_entry now (wd_cache db) (auth_wallet_key (w_id w)) (CBaseWallet w) e'" "e \<le> e'" "e \<le> now + n"
      by (rule key_cache_api [OF assms(1) l [OF a]])
    have "t < e'" using te k(4) by simp
    from up [OF k(3) this] k
    show "\<exists>kt w e'. v = CKeyInfo kt w \<and> key \<in> {w_adminkey w, w_inkey w}
           \<and> live_entry t (wd_cache db) (auth_wallet_key (w_id w)) (CBaseWallet w) e' \<and> e \<le> e'"
      by blast
    show "e \<le> t + n" using k(5) assms(2) by simp
  next
    fix i v e assume a: "live_entry t (wd_cache db) (auth_wallet_key i) v e"
    obtain r where r: "r \<in> set (wd_wallets db)" "w_id r = i" "v = CBaseWallet (base_wallet.truncate r)" "e \<le> now + n"
      by (rule key_cache_wallet [OF assms(1) l [OF a]])
    then show "\<exists>r \<in> set (wd_wallets db). w_id r = i \<and> v = CBaseWallet (base_wallet.truncate r)" by blast
    show "e \<le> t + n" using r(4) assms(2) by simp
  qed
qed

lemma key_cache_get:
  assumes "key_cache_ok (of_int (e_now ev)) n db"
  shows "key_cache_ok (of_int (e_now ev)) n (snd (get_cached ev k db))"
  using assms by (simp add: key_cache_ok_def get_cached_frame live_get)

lemma key_cache_remember:
  assumes ok: "key_cache_ok (of_int (e_now ev)) (of_int n) db" and ids: "wallet_ids_distinct db" and n: "0 < n"
    and w: "get_base_wallet_for_key key db = Some (bti_wallet k)"
  shows "key_cache_ok (of_int (e_now ev)) (of_int n) (remember_key ev n key k db)"
proof -
  let ?now = "of_int (e_now ev) :: rat" and ?w = "bti_wallet k"
  let ?c = "cache_set ?now (auth_wallet_key (w_id ?w)) (CBaseWallet ?w) (of_int n)
       (cache_set ?now (auth_api_key key) (CKeyInfo (bti_key_type k) ?w) (of_int n) (wd_cache db))"
  have r: "remember_key ev n key k db = db\<lparr>wd_cache := ?c\<rparr>"
    by (simp add: remember_key_def set_cached_def modify_def)
  from w obtain row where "key_row key db = Some row" and row2: "?w = base_wallet.truncate row"
    by (auto simp: get_base_wallet_for_key_def)
  with key_row_Some have row: "row \<in> set (wd_wallets db)" "key \<in> {w_adminkey row, w_inkey row}" by blast+
  have same: "u = ?w" if "live_entry ?now (wd_cache db) (auth_wallet_key (w_id u)) (CBaseWallet u) e" (is ?l) "w_id u = w_id ?w" (is ?i) for u e
  proof -
    obtain r' where r': "r' \<in> set (wd_wallets db)" "w_id r' = w_id u" "CBaseWallet u = CBaseWallet (base_wallet.truncate r')"
      by (rule key_cache_wallet [OF ok \<open>?l\<close>])
    then have "w_id r' = w_id row" using row2 \<open>?i\<close> by simp
    then have "r' = row" using ids row(1) r'(1)
      by (auto simp: wallet_ids_distinct_def distinct_map dest: inj_onD)
    then show ?thesis using row2 r'(3) by simp
  qed
  have np: "?now < ?now + of_int n" using n by simp
  have api: "live_entry ?now ?c (auth_api_key key') v e \<longleftrightarrow>
      (if key' = key then v = CKeyInfo (bti_key_type k) ?w \<and> e = ?now + of_int n
       else live_entry ?now (wd_cache db) (auth_api_key key') v e)" for key' v e
    using np by (auto simp: live_set)
  have wal: "live_entry ?now ?c (auth_wallet_key i) v e \<longleftrightarrow>
      (if i = w_id ?w then v = CBaseWallet ?w \<and> e = ?now + of_int n
       else live_entry ?now (wd_cache db) (auth_wallet_key i) v e)" for i v e
    using np by (auto simp: live_set)
  have sel: "wd_cache (remember_key ev n key k db) = ?c" "wd_wallets (remember_key ev n key k db) = wd_wallets db"
    by (simp_all add: r)
  show ?thesis
    unfolding key_cache_ok_def sel api wal
  proof (intro conjI allI impI)
    fix key' v e assume a: "if key' = key then v = CKeyInfo (bti_key_type k) ?w \<and> e = ?now + of_int n
       else live_entry ?now (wd_cache db) (auth_api_key key') v e"
    have old: "e \<le> ?now + of_int n \<and> (\<exists>kt w e'. v = CKeyInfo kt w \<and> key' \<in> {w_adminkey w, w_inkey w}
          \<and> live_entry ?now (wd_cache db) (auth_wallet_key (w_id w)) (CBaseWallet w) e' \<and> e \<le> e')" if "key' \<noteq> key"
      using a that ok unfolding key_cache_ok_def by simp
    then show "e \<le> ?now + of_int n" using a by (cases "key' = key") auto
    show "\<exists>kt w e'. v = CKeyInfo kt w \<and> key' \<in> {w_adminkey w, w_inkey w}
        \<and> (if w_id w = w_id ?w then CBaseWallet w = CBaseWallet ?w \<and> e' = ?now + of_int n
           else live_entry ?now (wd_cache db) (auth_wallet_key (w_id w)) (CBaseWallet w) e') \<and> e \<le> e'"
    proof (cases "key' = key")
      case True
      then show ?thesis using a row row2 by auto
    next
      case False
      with old obtain kt w e' where o: "e \<le> ?now + of_int n" "v = CKeyInfo kt w" "key' \<in> {w_adminkey w, w_inkey w}"
        "live_entry ?now (wd_cache db) (auth_wallet_key (w_id w)) (CBaseWallet w) e'" "e \<le> e'" by blast
      then show ?thesis using same [of w e']
        by (cases "w_id w = w_id ?w") (auto intro!: exI [of _ kt] exI [of _ w])
    qed
  next
    fix i v e assume a: "if i = w_id ?w then v = CBaseWallet ?w \<and> e = ?now + of_int n
       else live_entry ?now (wd_cache db) (auth_wallet_key i) v e"
    have old: "e \<le> ?now + of_int n \<and> (\<exists>r \<in> set (wd_wallets db). w_id r = i \<and> v = CBaseWallet (base_wallet.truncate r))"
      if "i \<noteq> w_id ?w" using a that ok unfolding key_cache_ok_def by simp
    then show "e \<le> ?now + of_int n" using a by (cases "i = w_id ?w") auto
    show "\<exists>r \<in> set (wd_wallets db). w_id r = i \<and> v = CBaseWallet (base_wallet.truncate r)"
      using old a row row2 by (cases "i = w_id ?w") auto
  qed
qed

section \<open>The light checker keeps the cache in step\<close>

definition key_minutes :: "settings \<Rightarrow> int" where
  "key_minutes cfg = auth_authentication_cache_minutes cfg * 60"

lemma key_cache_same_tables:
  "key_cache_ok now n db \<Longrightarrow> wd_cache db' = wd_cache db \<Longrightarrow> wd_wallets db' = wd_wallets db \<Longrightarrow> key_cache_ok now n db'"
  by (simp add: key_cache_ok_def)

lemma request_access_world: "fst (snd (request_access cfg u (db, rq))) = db"
  by (simp add: request_access_def set_scope_user_def thenP_def bindP_def modify_def gets_def on_db_simp
      check_user_access_state)

lemma light_key_lookup_world:
  "fst (snd (light_key_lookup ev cfg expected key n (db, rq))) = db
   \<or> (\<exists>k rq'. light_key_lookup ev cfg expected key n (db, rq) = (Inr k, (remember_key ev n key k db, rq'))
        \<and> 0 < n \<and> get_base_wallet_for_key key db = Some (bti_wallet k))"
proof -
  obtain r db' rq' where run: "light_key_lookup ev cfg expected key n (db, rq) = (r, (db', rq'))" by (metis prod.exhaust)
  show ?thesis
  proof (cases r)
    case (Inr k)
    from light_key_lookup_Inr [OF run [unfolded Inr]] run Inr show ?thesis by (auto split: if_splits)
  next
    case (Inl e)
    have "db' = db"
      using run unfolding Inl
      by (auto simp: light_key_lookup_def thenP_def bindP_Inl_iff gets_def throw_def liftE_def ret_def on_db_simp
          set_cached_def modify_def request_access_iff split: option.splits if_splits
          dest: arg_cong [where f = "\<lambda>x. fst (snd x)"] simp: request_access_world)
    then show ?thesis using run by simp
  qed
qed

lemma light_checker_keeps:
  assumes "key_cache_ok (of_int (e_now ev)) (of_int (key_minutes cfg)) db" "wallet_ids_distinct db"
  shows "key_cache_ok (of_int (e_now ev)) (of_int (key_minutes cfg))
           (fst (snd (light_key_checker ev cfg api_key expected (db, rq))))"
proof -
  let ?P = "\<lambda>h. key_cache_ok (of_int (e_now ev)) (of_int (key_minutes cfg)) (fst h) \<and> wallet_ids_distinct (fst h)"
  have get: "keeps ?P (on_db (get_cached ev k))" for k
    by (auto simp: keeps_def on_db_simp key_cache_get get_cached_frame wallet_ids_distinct_def)
      (simp add: key_cache_get flip: get_cached_frame)
  have acc: "keeps ?P (request_access cfg u)" for u
    by (auto simp: keeps_def request_access_world)
  have look: "keeps ?P (light_key_lookup ev cfg expected key (key_minutes cfg))" for key
    unfolding keeps_def
  proof (intro allI impI)
    fix h :: http assume a: "?P h"
    obtain db rq where h: "h = (db, rq)" by (cases h)
    have ids: "wallet_ids_distinct (remember_key ev n key k db) = wallet_ids_distinct db" for n k
      by (simp add: remember_key_def set_cached_def modify_def wallet_ids_distinct_def)
    from light_key_lookup_world [of ev cfg expected key "key_minutes cfg" db rq]
    show "?P (snd (light_key_lookup ev cfg expected key (key_minutes cfg) h))"
      using a unfolding h by (elim disjE exE conjE) (simp_all add: key_cache_remember ids)
  qed
  have "keeps ?P (light_key_checker ev cfg api_key expected)"
    unfolding light_key_checker_def Let_def key_minutes_def [symmetric]
    by (intro keeps_intro get acc look) (auto split: cached_value.splits intro!: keeps_intro acc)
  from keepsD [OF this, of "(db, rq)"] assms show ?thesis by simp
qed

text \<open>The cache of API keys stays in step with the table of wallets: whatever the light check answers, every
  unexpired entry of a key names a wallet of the table that has this key, and the entry of that wallet
  lives at least as long.\<close>

theorem light_checker_keeps_cache:
  assumes "key_cache_ok (of_int (e_now ev)) (of_int (key_minutes cfg)) db" "wallet_ids_distinct db"
  shows "key_cache_ok (of_int (e_now ev)) (of_int (key_minutes cfg))
           (fst (snd (light_key_checker ev cfg api_key expected (db, rq))))"
  using light_checker_keeps [OF assms] .

lemma demo_db_cache_ok: "key_cache_ok t n demo_db" "wallet_ids_distinct demo_db"
  by (simp_all add: key_cache_ok_def live_entry_def demo_db_def demo_world_def wallet_ids_distinct_def demo_row_def)

theorem light_checker_keeps_cache_witness:
  "key_cache_ok 2000 600 (fst (snd (require_base_invoice_key demo_env demo_settings (demo_db, demo_request ''alice-in''))))"
  using light_checker_keeps_cache [of demo_env demo_settings demo_db "security_key (demo_request ''alice-in'')"
    "Some InvoiceKey" "demo_request ''alice-in''"] demo_db_cache_ok
  by (simp add: require_base_invoice_key_def demo_env_def key_minutes_def demo_settings_def)

section \<open>Deleting a wallet\<close>

lemma pop_cached_run:
  "pop_cached ev k db = (Inr (cache_view (wd_cache db) (of_int (e_now ev)) k),
     db\<lparr>wd_cache := snd (cache_pop (of_int (e_now ev)) k (wd_cache db))\<rparr>)"
  using lc.pop_value [of "of_int (e_now ev)" k "wd_cache db"]
  by (auto simp: pop_cached_def Let_def split: prod.splits)

lemma clear_wallet_id_cache_live:
  assumes ok: "key_cache_ok (of_int (e_now ev)) n db" and t: "of_int (e_now ev) \<le> t" and ids: "wallet_ids_distinct db"
    and row: "row \<in> set (wd_wallets db)" "key \<in> {w_adminkey row, w_inkey row}"
    and uniq: "\<forall>r \<in> set (wd_wallets db). key \<in> {w_adminkey r, w_inkey r} \<longrightarrow> w_id r = w_id row"
  shows "\<exists>c. clear_wallet_id_cache ev (w_id row) db = (Inr (), db\<lparr>wd_cache := c\<rparr>)
           \<and> cache_view c t (auth_api_key key) = None"
proof -
  let ?now = "of_int (e_now ev) :: rat" and ?k = "auth_wallet_key (w_id row)"
  let ?c = "snd (cache_pop ?now ?k (wd_cache db))"
  show ?thesis
  proof (cases "\<exists>w. cache_view (wd_cache db) ?now ?k = Some (CBaseWallet w)")
    case True
    then obtain w e where v: "cache_view (wd_cache db) ?now ?k = Some (CBaseWallet w)"
      and "live_entry ?now (wd_cache db) ?k (CBaseWallet w) e" by (auto simp: view_live)
    then obtain r where r: "r \<in> set (wd_wallets db)" "w_id r = w_id row" "CBaseWallet w = CBaseWallet (base_wallet.truncate r)"
      using key_cache_wallet [OF ok] by metis
    then have "r = row" using ids row(1) by (auto simp: wallet_ids_distinct_def distinct_map dest: inj_onD)
    then have w: "w_adminkey w = w_adminkey row" "w_inkey w = w_inkey row" using r(3) by simp_all
    let ?c' = "snd (cache_pop ?now (auth_api_key (w_inkey w)) (snd (cache_pop ?now (auth_api_key (w_adminkey w)) ?c)))"
    have "clear_wallet_id_cache ev (w_id row) db = (Inr (), db\<lparr>wd_cache := ?c'\<rparr>)"
      by (simp add: clear_wallet_id_cache_def bindP_def thenP_def pop_cached_run v ret_def)
    moreover have "cache_view ?c' t (auth_api_key key) = None"
      using row(2) w by (auto simp: lc.pop_view)
    ultimately show ?thesis by blast
  next
    case False
    then have "clear_wallet_id_cache ev (w_id row) db = (Inr (), db\<lparr>wd_cache := ?c\<rparr>)"
      by (auto simp: clear_wallet_id_cache_def bindP_def pop_cached_run ret_def split: option.splits cached_value.splits)
    moreover have "cache_view ?c t (auth_api_key key) = None"
    proof (rule ccontr)
      assume "cache_view ?c t (auth_api_key key) \<noteq> None"
      then obtain v e where "live_entry t (wd_cache db) (auth_api_key key) v e"
        by (auto simp: view_live lc.pop_view) 
      then have "live_entry ?now (wd_cache db) (auth_api_key key) v e" using t by (simp add: live_entry_def)
      then obtain kt w e' where w: "key \<in> {w_adminkey w, w_inkey w}"
        "live_entry ?now (wd_cache db) (auth_wallet_key (w_id w)) (CBaseWallet w) e'"
        using key_cache_api [OF ok] by metis
      from w(2) obtain r where r: "r \<in> set (wd_wallets db)" "w_id r = w_id w" "CBaseWallet w = CBaseWallet (base_wallet.truncate r)"
        using key_cache_wallet [OF ok] by metis
      then have "w_id w = w_id row" using uniq w(1) by auto
      then show False using False w(2) by (auto simp: view_live)
    qed
    ultimately show ?thesis by blast
  qed
qed

lemma no_key_row:
  assumes "\<forall>r \<in> set (wd_wallets db). key \<in> {w_adminkey r, w_inkey r} \<longrightarrow> w_deleted r"
  shows "key_row key db = None"
  using assms by (auto simp: key_row_def find_None_iff)

text \<open>C34: Deleting a wallet revokes its keys at once, also where they were cached: from then on both the full and the
  light check answer that the wallet does not exist.\<close>

theorem deleted_wallet_key_is_revoked:
  assumes ok: "key_cache_ok (of_int (e_now ev)) n db" "wallet_ids_distinct db" "e_now ev \<le> e_now ev'"
    and row: "row \<in> set (wd_wallets db)" "key \<in> {w_adminkey row, w_inkey row}" "key \<noteq> []"
    and uniq: "\<forall>r \<in> set (wd_wallets db). key \<in> {w_adminkey r, w_inkey r} \<longrightarrow> w_id r = w_id row"
    and del: "delete_wallet ev (w_user row) (w_id row) True db = (res, db')"
  shows "res = Inr ()
    \<and> fst (light_key_checker ev' cfg (Some key) expected (db', rq)) = Inl (HTTPException 404 ''Wallet not found.'')
    \<and> fst (key_checker ev' cfg (Some key) expected (db', rq)) = Inl (HTTPException 404 ''Wallet not found.'')"
proof -
  have "of_int (e_now ev) \<le> (of_int (e_now ev') :: rat)" using ok(3) by simp
  from clear_wallet_id_cache_live [OF ok(1) this ok(2) row(1,2) uniq] obtain c where
    c: "clear_wallet_id_cache ev (w_id row) db = (Inr (), db\<lparr>wd_cache := c\<rparr>)"
    and none: "cache_view c (of_int (e_now ev')) (auth_api_key key) = None" by blast
  have db': "res = Inr ()" "db' = db\<lparr>wd_cache := c, wd_wallets :=
        map (\<lambda>w. if w_id w = w_id row \<and> w_user w = w_user row
                 then w\<lparr>w_deleted := True, w_updated_at := e_now ev\<rparr> else w) (wd_wallets db)\<rparr>"
    using del by (auto simp: delete_wallet_def thenP_def bindP_def c modify_def)
  have "w_user r = w_user row" if "r \<in> set (wd_wallets db)" "w_id r = w_id row" for r
    using that ok(2) row(1) by (auto simp: wallet_ids_distinct_def distinct_map dest: inj_onD)
  then have gone: "key_row key db' = None"
    using uniq by (intro no_key_row) (auto simp: db')
  have gone': "key_row key (snd (get_cached ev' k db')) = None" for k
    using gone by (simp add: get_cached_frame key_row_def)
  show ?thesis
    using row(3) none gone gone'
    by (simp add: db'(1) light_key_checker_def key_checker_def extract_key_value_def bindP_def gets_def liftE_def
        on_db_simp get_cached_fst light_key_lookup_def get_base_wallet_for_key_def get_wallet_for_key_def
        ret_def throw_def Let_def) (simp add: db' throw_def)
qed

theorem deleted_wallet_key_is_revoked_witness:
  "fst (require_base_invoice_key demo_env demo_settings
     (snd (delete_wallet demo_env ''u'' ''alice'' True demo_db), demo_request ''alice-in''))
   = Inl (HTTPException 404 ''Wallet not found.'')"
proof -
  let ?row = "wd_wallets demo_db ! 0"
  have row: "?row \<in> set (wd_wallets demo_db)" "''alice-in'' \<in> {w_adminkey ?row, w_inkey ?row}" "w_user ?row = ''u''"
    "w_id ?row = ''alice''" "''alice-in'' \<noteq> []"
    by (simp_all add: demo_db_def demo_world_def demo_row_def)
  have uniq: "\<forall>r \<in> set (wd_wallets demo_db). ''alice-in'' \<in> {w_adminkey r, w_inkey r} \<longrightarrow> w_id r = w_id ?row"
    by (simp add: demo_db_def demo_world_def demo_row_def)
  have del: "delete_wallet demo_env (w_user ?row) (w_id ?row) True demo_db
      = (fst (delete_wallet demo_env ''u'' ''alice'' True demo_db), snd (delete_wallet demo_env ''u'' ''alice'' True demo_db))"
    by (simp add: row)
  have key: "security_key (demo_request ''alice-in'') = Some ''alice-in''"
    by (simp add: security_key_def demo_request_def orElse_def)
  show ?thesis
    using deleted_wallet_key_is_revoked [OF demo_db_cache_ok order_refl row(1,2,5) uniq del]
    by (simp add: require_base_invoice_key_def key)
qed

end
