(* ===== verification/AccountProperties.thy ===== *)
theory AccountProperties
  imports AccessProperties
begin

text \<open>
  Accounts: the throttle on failed logins, unique user names, invitation codes, API tokens, and what
  becomes of a session when an account is switched off.
\<close>

section \<open>Failed logins\<close>

definition failures_at :: "env \<Rightarrow> string \<Rightarrow> world \<Rightarrow> nat" where
  "failures_at ev key db =
     (case cache_view (wd_cache db) (of_int (e_now ev)) key of Some (CLoginFailures n b) \<Rightarrow> n | _ \<Rightarrow> 0)"

lemma cooldown_bounds: "60 \<le> cooldown n" "cooldown n \<le> 900"
proof -
  have "(1::int) \<le> 2 ^ (n - 5)" by simp
  then show "60 \<le> cooldown n" "cooldown n \<le> 900"
    by (simp_all add: cooldown_def LOGIN_INITIAL_COOLDOWN_SECONDS_def LOGIN_MAX_COOLDOWN_SECONDS_def
        LOGIN_FAILURE_LIMIT_def)
qed

lemma cache_view_get:
  "now \<le> t \<Longrightarrow> cache_view (snd (cache_get now k c)) t k' = cache_view c t k'"
  by (rule lc.get_frame)

definition recorded :: "env \<Rightarrow> string \<Rightarrow> world \<Rightarrow> cached_value" where
  "recorded ev key db =
     (let n = failures_at ev key db + 1
      in CLoginFailures n (if n \<ge> 5 then of_int (e_now ev + cooldown n) else 0))"

lemma record_login_failure_run:
  "\<exists>c. record_login_failure ev key db = (Inr (), db\<lparr>wd_cache := c\<rparr>)
     \<and> (\<forall>t. cache_view c t key = (if t < of_int (e_now ev) + 900 then Some (recorded ev key db) else None))"
proof -
  let ?c = "cache_set (of_int (e_now ev)) key (recorded ev key db) 900
              (snd (cache_get (of_int (e_now ev)) key (wd_cache db)))"
  have "record_login_failure ev key db = (Inr (), db\<lparr>wd_cache := ?c\<rparr>)"
    using get_cached_run [of ev key db]
    by (simp add: record_login_failure_def bindP_eq_Inr [of "get_cached ev key", OF get_cached_run] get_cached_frame set_cached_def modify_def
        Let_def recorded_def failures_at_def LOGIN_FAILURE_LIMIT_def LOGIN_FAILURE_WINDOW_SECONDS_def
        split: option.splits cached_value.splits)
  moreover have "cache_view ?c t key = (if t < of_int (e_now ev) + 900 then Some (recorded ev key db) else None)" for t
    by (simp add: lc.set_view)
  ultimately show ?thesis by blast
qed

lemma check_login_throttle_run:
  "check_login_throttle ev key db =
     (case cache_view (wd_cache db) (of_int (e_now ev)) key of
        None \<Rightarrow> Inr ()
      | Some (CLoginFailures n b) \<Rightarrow>
          if b \<le> of_int (e_now ev) then Inr () else Inl (HTTPException 429 ''Too many login attempts. Try again later.'')
      | Some _ \<Rightarrow> Inl (OtherError ''AttributeError''), snd (get_cached ev key db))"
  by (simp add: check_login_throttle_def bindP_eq_Inr [of "get_cached ev key", OF get_cached_run] ret_def throw_def
      split: option.splits cached_value.splits)

lemma find_account_ignores_cache [simp]:
  "get_account_by_username_or_email v b (db\<lparr>wd_cache := c\<rparr>) = get_account_by_username_or_email v b db"
  by (simp add: get_account_by_username_or_email_def)

lemma login_run:
  assumes "is_auth_method_allowed cfg username_and_password"
  shows "login ev cfg bc name pw db =
     (let acc = get_account_by_username_or_email name True db;
          key = login_failure_cache_key ev cfg name (map_option a_id acc)
      in thenP (check_login_throttle ev key)
           (case acc of
              None \<Rightarrow> thenP (record_login_failure ev key) (throw (HTTPException 401 ''Invalid credentials.''))
            | Some a \<Rightarrow>
                if \<not> verify_password (bc_checkpw bc) a pw
                then thenP (record_login_failure ev key) (throw (HTTPException 401 ''Invalid credentials.''))
                else thenP (pop_cached ev key)
                     (ret (auth_success_response ev cfg (a_username a) (Some (a_id a)) (a_email a)))) db)"
  using assms by (simp add: login_def thenP_failIf Let_def)


definition demo_bcrypt :: bcrypt where
  "demo_bcrypt = \<lparr>bc_hashpw = (\<lambda>p. ''#'' @ p), bc_checkpw = (\<lambda>p h. h = p)\<rparr>"

text \<open>The state after four failed logins.\<close>

definition demo_failed :: world where
  "demo_failed = demo_db\<lparr>wd_cache := [(''auth:login_failures:u'', (CLoginFailures 4 0, 2900))]\<rparr>"


section \<open>User names\<close>

text \<open>
  No two active accounts have the same user name up to case, and account ids are keys. A name is looked
  up among the active accounts only, so an inactive account does not keep its name.
\<close>

definition names_unique :: "account list \<Rightarrow> bool" where
  "names_unique as \<longleftrightarrow> distinct (map a_id as)
     \<and> (\<forall>a \<in> set as. \<forall>b \<in> set as. a_activated a \<and> a_activated b \<and> truthy (a_username a)
           \<and> lower_eq (a_username b) (the (a_username a)) \<longrightarrow> a_id a = a_id b)"

text \<open>Operations on wallets and extensions do not touch the accounts.\<close>

abbreviation keeps_accounts :: "account list \<Rightarrow> (world, 'a) py \<Rightarrow> bool" where
  "keeps_accounts as m \<equiv> keeps (\<lambda>db. wd_accounts db = as) m"

lemma accounts_update_wallet [keeps_intro]: "keeps_accounts as (update_wallet ev w)"
  by (simp add: keeps_def update_wallet_run)

lemma accounts_generate [keeps_intro]: "keeps_accounts as (generate_lightning_address_local_part ev)"
  by (auto simp: generate_lightning_address_local_part_def intro: keeps_intro)

lemma accounts_standalone [keeps_intro]: "keeps_accounts as (get_standalone_wallet ev cfg wid d)"
  unfolding get_standalone_wallet_def Let_def by (intro keeps_intro)

lemma accounts_source [keeps_intro]: "keeps_accounts as (get_source_wallet ev cfg w)"
  unfolding get_source_wallet_def by (intro keeps_intro)

lemma accounts_sources [keeps_intro]: "keeps_accounts as (get_source_wallets ev cfg ws)"
  by (induction ws) (auto intro!: keeps_intro)

lemma accounts_wallets [keeps_intro]: "keeps_accounts as (get_wallets ev cfg u d t)"
  unfolding get_wallets_def by (intro keeps_intro)

lemma accounts_create_wallet [keeps_intro]: "keeps_accounts as (create_wallet ev cfg u n t s)"
  unfolding create_wallet_def by (intro keeps_intro) simp

lemma accounts_from_account [keeps_intro]: "keeps_accounts as (get_user_from_account ev cfg a)"
  unfolding get_user_from_account_def by (intro keeps_intro)

lemma accounts_create_extension [keeps_intro]: "keeps_accounts as (create_user_extension u)"
  unfolding create_user_extension_def by (intro keeps_intro) simp

lemma find_None_name:
  assumes "get_account_by_username name True db = None" "name \<noteq> []" "b \<in> set (wd_accounts db)" "a_activated b"
  shows "\<not> lower_eq (a_username b) name"
  using assms by (auto simp: get_account_by_username_def find_None_iff activation_ok_def)

lemma lower_eq_sym: "lower_eq (Some a) b = lower_eq (Some b) a"
  by (auto simp: lower_eq_def)

lemma names_unique_snoc:
  assumes u: "names_unique as" "a_id a \<notin> a_id ` set as"
    and new: "\<forall>b \<in> set as. a_activated b \<longrightarrow> truthy (a_username a) \<longrightarrow> \<not> lower_eq (a_username b) (the (a_username a))"
  shows "names_unique (as @ [a])"
proof -
  have "\<not> lower_eq (a_username a) (the (a_username b))" if "b \<in> set as" "a_activated b" "truthy (a_username b)" for b
  proof
    assume l: "lower_eq (a_username a) (the (a_username b))"
    from l that(3) obtain x y where "a_username a = Some x" "a_username b = Some y"
      by (cases "a_username a"; cases "a_username b") (auto simp: lower_eq_def)
    moreover from this have "x \<noteq> []" using l that(3) by (auto simp: lower_eq_def lower_def)
    ultimately show False using new [rule_format, OF that(1,2)] l lower_eq_sym [of x y] by simp
  qed
  with u new show ?thesis by (auto simp: names_unique_def)
qed

lemma check_new_account_Inr:
  assumes "check_new_account ev a db = (Inr a', db')"
  shows "db' = db \<and> a_username a' = a_username a
     \<and> (truthy (a_username a) \<longrightarrow> get_account_by_username (the (a_username a)) True db = None)"
  using assms
  by (auto simp: check_new_account_def thenP_def bindP_Inr_iff liftE_def gets_def failIf_def throw_def ret_def
      split: if_splits)

lemma check_new_account_state: "snd (check_new_account ev a db) = db"
  using keepsD [of "\<lambda>d. d = db" "check_new_account ev a" db]
  unfolding check_new_account_def by (auto intro!: keeps_intro)

lemma create_account_accounts:
  assumes "create_account ev acc db = (r, db')"
  shows "wd_accounts db' = wd_accounts db
    \<or> (\<exists>a. wd_accounts db' = wd_accounts db @ [a] \<and> a_id a \<notin> a_id ` set (wd_accounts db)
          \<and> (acc = Some a \<or> acc = None \<and> a_username a = None))"
proof -
  have ins: "wd_accounts (snd (insert_account a d)) = wd_accounts d
      \<or> wd_accounts (snd (insert_account a d)) = wd_accounts d @ [a] \<and> a_id a \<notin> a_id ` set (wd_accounts d)" for a d
    by (auto simp: insert_account_def bindP_def gets_def thenP_failIf modify_def)
  show ?thesis
  proof (cases acc)
    case None
    let ?a = "new_account (e_uuid ev db 0) (e_now ev)"
    have "db' = snd (insert_account ?a db)" "a_username ?a = None"
      using assms None by (auto simp: create_account_def gets_def bindP_def thenP_def ret_def new_account_def
          split: prod.splits sum.splits)
    then show ?thesis using ins [of ?a db] None by auto
  next
    case (Some a)
    have "db' = db \<or> db' = snd (insert_account a db)"
      using assms Some by (auto simp: create_account_def bindP_def thenP_def liftE_def ret_def split: prod.splits sum.splits)
    then show ?thesis using ins [of a db] Some by auto
  qed
qed

lemma create_user_accounts:
  assumes "create_user_account_no_ckeck ev cfg acc name exts db = (r, db')"
  shows "wd_accounts db' = wd_accounts db
    \<or> (\<exists>a. wd_accounts db' = wd_accounts db @ [a] \<and> a_id a \<notin> a_id ` set (wd_accounts db)
          \<and> (truthy (a_username a) \<longrightarrow> get_account_by_username (the (a_username a)) True db = None))"
proof -
  define rest where "rest a = thenP (create_wallet ev cfg (a_id a)
               (if truthy name then name else Some (lnbits_default_wallet_name cfg)) LIGHTNING None)
     (thenP (forP ((case exts of None \<Rightarrow> [] | Some es \<Rightarrow> es) @ lnbits_user_default_extensions cfg)
               (\<lambda>e. tryP (create_user_extension (new_user_extension (a_id a) e)) (\<lambda>_. ret ())))
     (get_user_from_account ev cfg a))" for a
  have keep: "keeps_accounts as (rest a)" for as a
    unfolding rest_def by (intro keeps_intro)
  define chk where "chk = (case acc of Some a \<Rightarrow> bindP (check_new_account ev a) (\<lambda>a. ret (Some a)) | None \<Rightarrow> ret None)"
  have state: "snd (check_users_limit cfg db) = db"
    by (simp add: check_users_limit_def bindP_def gets_def failIf_def throw_def ret_def)
  have chk_state: "snd (chk db) = db"
    by (auto simp: chk_def bindP_def ret_def split: option.splits prod.splits sum.splits)
      (metis check_new_account_state snd_conv)+
  have run: "thenP (check_users_limit cfg) (bindP chk (\<lambda>acc. bindP (create_account ev acc) rest)) db = (r, db')"
    using assms unfolding create_user_account_no_ckeck_def chk_def rest_def by simp
  show ?thesis
  proof (cases "\<exists>acc'. chk db = (Inr acc', db) \<and> bindP (create_account ev acc') rest db = (r, db')")
    case False
    then have "db' = db" using run state chk_state
      by (auto simp: thenP_def bindP_def split: prod.splits sum.splits)
    then show ?thesis by simp
  next
    case True
    then obtain acc' where c: "chk db = (Inr acc', db)" and b: "bindP (create_account ev acc') rest db = (r, db')" by blast
    obtain x db1 where x: "create_account ev acc' db = (x, db1)" by (cases "create_account ev acc' db")
    have db1: "wd_accounts db' = wd_accounts db1"
      using b x keepsD [OF keep] by (auto simp: bindP_def split: sum.splits) (metis snd_conv)
    have name: "truthy (a_username a) \<longrightarrow> get_account_by_username (the (a_username a)) True db = None" if "acc' = Some a" for a
      using c that by (auto simp: chk_def bindP_Inr_iff ret_def split: option.splits dest!: check_new_account_Inr)
    show ?thesis using create_account_accounts [OF x] name unfolding db1 by auto
  qed
qed

lemma taken_by_other_password [simp]: "taken_by_other f (a\<lparr>a_password_hash := h\<rparr>) = taken_by_other f a"
  by (cases f) (simp_all add: taken_by_other_def)

lemma update_user_account_cases:
  assumes "update_user_account ev a db = (r, db')"
  obtains (fails) e where "r = Inl e" "db' = db"
  | (updated) old where "get_account (a_id a) True db = Some old"
      "truthy (a_username a) \<longrightarrow> \<not> taken_by_other (get_account_by_username (the (a_username a)) True db) a"
      "r = Inr (a\<lparr>a_password_hash := a_password_hash old, a_updated_at := e_now ev\<rparr>)"
      "wd_accounts db' = map (\<lambda>b. if a_id b = a_id a then a\<lparr>a_password_hash := a_password_hash old, a_updated_at := e_now ev\<rparr> else b)
         (wd_accounts db)"
      "truthy (a_username old) \<longrightarrow> truthy (a_username a)"
proof (cases "\<exists>e. r = Inl e \<and> db' = db")
  case True
  then show ?thesis using fails by blast
next
  case False
  obtain old where old: "get_account (a_id a) True db = Some old"
    using assms False by (cases "validate_fields a"; cases "get_account (a_id a) True db")
      (auto simp: update_user_account_def thenP_def bindP_def liftE_def gets_def throw_def)
  let ?a = "a\<lparr>a_password_hash := a_password_hash old, a_updated_at := e_now ev\<rparr>"
  have "r = Inr ?a \<and> \<not> (truthy (a_username a) \<and> taken_by_other (get_account_by_username (the (a_username a)) True db) a)
      \<and> \<not> (truthy (a_username old) \<and> \<not> truthy (a_username a))
      \<and> wd_accounts db' = map (\<lambda>b. if a_id b = a_id a then ?a else b) (wd_accounts db)"
    using assms False
    by (cases "validate_fields a")
      (auto simp: update_user_account_def old thenP_failIf Let_def update_account_def ret_def modify_def throw_def
        split: if_splits)
  then show ?thesis using updated [OF old] by blast
qed

lemma names_uniqueD:
  "names_unique as \<Longrightarrow> a \<in> set as \<Longrightarrow> b \<in> set as \<Longrightarrow> a_activated a \<Longrightarrow> a_activated b \<Longrightarrow>
   truthy (a_username a) \<Longrightarrow> lower_eq (a_username b) (the (a_username a)) \<Longrightarrow> a_id a = a_id b"
  unfolding names_unique_def by blast

lemma names_unique_lookup:
  assumes "names_unique (wd_accounts db)" "\<not> taken_by_other (get_account_by_username name True db) a" "name \<noteq> []"
    and b: "b \<in> set (wd_accounts db)" "a_activated b" "lower_eq (a_username b) name"
  shows "a_id b = a_id a"
proof -
  obtain c where c: "get_account_by_username name True db = Some c"
    using find_None_name [OF _ assms(3) b(1,2)] b(3) by fastforce
  have l: "List.find (\<lambda>a. lower_eq (a_username a) name \<and> activation_ok True a) (wd_accounts db) = Some c"
    using c assms(3) by (simp add: get_account_by_username_def split: if_splits)
  from find_SomeD [OF l] have c': "c \<in> set (wd_accounts db)" "lower_eq (a_username c) name" "a_activated c"
    by (auto simp: activation_ok_def)
  then obtain x y where xy: "a_username c = Some x" "a_username b = Some y" "lower x = lower name" "lower y = lower name"
    using b(3) by (cases "a_username c"; cases "a_username b") (auto simp: lower_eq_def)
  have "x \<noteq> []" using xy(3) assms(3) by (auto simp: lower_def)
  then have "a_id c = a_id b"
    using names_uniqueD [OF assms(1) c'(1) b(1) c'(3) b(2)] xy by (simp add: lower_eq_def)
  then show ?thesis using assms(2) c by (simp add: taken_by_other_def)
qed

lemma names_unique_update:
  assumes u: "names_unique as" and old: "old \<in> set as" "a_id old = a_id a"
    and free: "\<And>b. b \<in> set as \<Longrightarrow> a_activated b \<Longrightarrow> truthy (a_username a) \<Longrightarrow>
                 lower_eq (a_username b) (the (a_username a)) \<Longrightarrow> a_id b = a_id a"
  shows "names_unique (map (\<lambda>b. if a_id b = a_id a then a else b) as)"
proof -
  have ids: "map a_id (map (\<lambda>b. if a_id b = a_id a then a else b) as) = map a_id as" by auto
  have "a_id b = a_id a" if "b \<in> set as" "a_activated b" "truthy (a_username b)"
    "lower_eq (a_username a) (the (a_username b))" for b
  proof -
    from that(3,4) obtain x y where xy: "a_username a = Some x" "a_username b = Some y" "lower x = lower y"
      by (cases "a_username a"; cases "a_username b") (auto simp: lower_eq_def)
    then have "x \<noteq> []" using that(3) by (auto simp: lower_def)
    then show ?thesis using free [OF that(1,2)] xy by (simp add: lower_eq_def)
  qed
  then show ?thesis using u free unfolding names_unique_def ids by (auto simp del: map_map)
qed

text \<open>Creating an account and updating one, whatever the outcome, leave the ids of accounts distinct and the user
  names of active accounts distinct up to case; an update keeps the stored password and cannot take a user
  name away.\<close>

theorem usernames_stay_unique:
  assumes "names_unique (wd_accounts db)"
  shows "(create_user_account_no_ckeck ev cfg acc name exts db = (r, db') \<longrightarrow> names_unique (wd_accounts db'))
    \<and> (update_user_account ev a db = (r', db') \<longrightarrow> names_unique (wd_accounts db')
        \<and> (\<forall>a'. r' = Inr a' \<longrightarrow> (\<exists>old. get_account (a_id a) True db = Some old
              \<and> a_password_hash a' = a_password_hash old \<and> (truthy (a_username old) \<longrightarrow> truthy (a_username a'))
              \<and> a' \<in> set (wd_accounts db'))))"
proof (intro conjI impI)
  assume run: "create_user_account_no_ckeck ev cfg acc name exts db = (r, db')"
  from create_user_accounts [OF run] consider "wd_accounts db' = wd_accounts db"
    | a where "wd_accounts db' = wd_accounts db @ [a]" "a_id a \<notin> a_id ` set (wd_accounts db)"
      "truthy (a_username a) \<longrightarrow> get_account_by_username (the (a_username a)) True db = None" by blast
  then show "names_unique (wd_accounts db')"
  proof cases
    case 2
    have "\<not> lower_eq (a_username b) (the (a_username a))"
      if "b \<in> set (wd_accounts db)" "a_activated b" "truthy (a_username a)" for b
      using find_None_name [of "the (a_username a)" db b] 2(3) that by (cases "a_username a") auto
    then show ?thesis unfolding 2(1) using names_unique_snoc [OF assms 2(2)] by blast
  qed (simp add: assms)
next
  assume run: "update_user_account ev a db = (r', db')"
  have "names_unique (wd_accounts db') \<and> (\<forall>a'. r' = Inr a' \<longrightarrow> (\<exists>old. get_account (a_id a) True db = Some old
              \<and> a_password_hash a' = a_password_hash old \<and> (truthy (a_username old) \<longrightarrow> truthy (a_username a'))
              \<and> a' \<in> set (wd_accounts db')))"
    using run
  proof (cases rule: update_user_account_cases)
    case fails
    then show ?thesis using assms by simp
  next
    case (updated old)
    let ?a = "a\<lparr>a_password_hash := a_password_hash old, a_updated_at := e_now ev\<rparr>"
    have old: "old \<in> set (wd_accounts db)" "a_id old = a_id ?a"
      using updated(1) find_SomeD [of _ "wd_accounts db" old] by (auto simp: get_account_def split: if_splits)
    have "names_unique (map (\<lambda>b. if a_id b = a_id ?a then ?a else b) (wd_accounts db))"
      using names_unique_update [OF assms old] names_unique_lookup [OF assms] updated(2)
      by (cases "a_username a") auto
    moreover have "?a \<in> set (map (\<lambda>b. if a_id b = a_id ?a then ?a else b) (wd_accounts db))"
      using old by force
    ultimately show ?thesis using updated by simp
  qed
  then show "names_unique (wd_accounts db')" and
    "\<forall>a'. r' = Inr a' \<longrightarrow> (\<exists>old. get_account (a_id a) True db = Some old
              \<and> a_password_hash a' = a_password_hash old \<and> (truthy (a_username old) \<longrightarrow> truthy (a_username a'))
              \<and> a' \<in> set (wd_accounts db'))" by blast+
qed

lemma demo_names: "names_unique (wd_accounts demo_db)"
  by (auto simp: names_unique_def demo_db_def demo_accounts_def new_account_def lower_eq_def lower_def
      lower_char_def truthy_def)

theorem usernames_stay_unique_witness:
  "names_unique (wd_accounts (snd (update_user_account demo_env ((demo_accounts ! 1)\<lparr>a_username := Some ''Ann''\<rparr>) demo_db)))"
  using usernames_stay_unique [OF demo_names] by (metis prod.collapse)

section \<open>Invitation codes\<close>

lemma invitation_run:
  assumes "lnbits_require_user_activation cfg"
  shows "check_register_activation_settings c cfg =
     (if lnbits_user_activation_by_invitation_code cfg then
        (let code = (if truthy c then strip (the c) else [])
         in if code = [] then (Inl (ValueError ''Invitation code cannot be empty.''), cfg)
            else if code = lnbits_register_reusable_activation_code cfg then (Inr (), cfg)
            else if code \<in> set (lnbits_register_one_time_activation_codes cfg)
            then (Inr (), cfg\<lparr>lnbits_register_one_time_activation_codes :=
                     remove1 code (lnbits_register_one_time_activation_codes cfg)\<rparr>)
            else (Inl (ValueError ''Invalid invitation code.''), cfg))
      else (Inl (ValueError ''No activation method provided.''), cfg))"
  using assms by (simp add: check_register_activation_settings_def ret_def throw_def modify_def thenP_failIf Let_def)

text \<open>When registrations need an activation, a registration passes only with the reusable code or with a one-time
  code, which it uses up: when no code is listed twice, the same code does not pass a second time.\<close>

theorem invitation_code_is_used_once:
  assumes "lnbits_require_user_activation cfg"
    and "check_register_activation_settings c cfg = (Inr (), cfg')"
  shows "lnbits_user_activation_by_invitation_code cfg \<and> truthy c
    \<and> (let code = strip (the c) in
         code = lnbits_register_reusable_activation_code cfg \<and> cfg' = cfg
         \<or> code \<in> set (lnbits_register_one_time_activation_codes cfg)
           \<and> lnbits_register_one_time_activation_codes cfg' = remove1 code (lnbits_register_one_time_activation_codes cfg)
           \<and> (distinct (lnbits_register_one_time_activation_codes cfg) \<longrightarrow>
                fst (check_register_activation_settings c cfg') = Inl (ValueError ''Invalid invitation code.'')))"
proof -
  define code where "code = (if truthy c then strip (the c) else [])"
  let ?one = "lnbits_register_one_time_activation_codes cfg"
  from assms(2) have by_code: "lnbits_user_activation_by_invitation_code cfg" and ne: "code \<noteq> []"
    and cases: "code = lnbits_register_reusable_activation_code cfg \<and> cfg' = cfg
      \<or> code \<noteq> lnbits_register_reusable_activation_code cfg \<and> code \<in> set ?one
        \<and> cfg' = cfg\<lparr>lnbits_register_one_time_activation_codes := remove1 code ?one\<rparr>"
    unfolding invitation_run [OF assms(1)] Let_def code_def [symmetric] by (auto split: if_splits)
  have c: "truthy c" "code = strip (the c)" using ne by (auto simp: code_def split: if_splits)
  have again: "fst (check_register_activation_settings c cfg') = Inl (ValueError ''Invalid invitation code.'')"
    if "distinct ?one" "code \<noteq> lnbits_register_reusable_activation_code cfg"
      "cfg' = cfg\<lparr>lnbits_register_one_time_activation_codes := remove1 code ?one\<rparr>"
  proof -
    have req: "lnbits_require_user_activation cfg'" using assms(1) that(3) by simp
    show ?thesis
      unfolding invitation_run [OF req] Let_def code_def [symmetric] using that by_code ne by simp
  qed
  show ?thesis using by_code c cases again by (auto simp: Let_def)
qed

definition demo_invited :: settings where
  "demo_invited = demo_settings\<lparr>lnbits_require_user_activation := True,
     lnbits_user_activation_by_invitation_code := True, lnbits_register_one_time_activation_codes := [''aaa'', ''bbb'']\<rparr>"

theorem invitation_code_is_used_once_witness:
  "fst (check_register_activation_settings (Some ''aaa'') (snd (check_register_activation_settings (Some ''aaa'') demo_invited)))
     = Inl (ValueError ''Invalid invitation code.'')"
proof -
  have r: "lnbits_require_user_activation demo_invited" "lnbits_register_one_time_activation_codes demo_invited = [''aaa'', ''bbb'']"
    "lnbits_register_reusable_activation_code demo_invited = []" "strip ''aaa'' = ''aaa''" by code_simp+
  have "fst (check_register_activation_settings (Some ''aaa'') demo_invited) = Inr ()" by code_simp
  then have "check_register_activation_settings (Some ''aaa'') demo_invited
      = (Inr (), snd (check_register_activation_settings (Some ''aaa'') demo_invited))" by (metis prod.collapse)
  from invitation_code_is_used_once [OF r(1) this] show ?thesis using r by (simp add: Let_def)
qed

section \<open>API tokens\<close>

lemma update_first_keyed:
  "distinct (map key xs) \<Longrightarrow> y \<in> set (update_first (\<lambda>x. key x = i) f xs) \<Longrightarrow>
     (\<exists>x \<in> set xs. key x = i \<and> y = f x) \<or> (y \<in> set xs \<and> key y \<noteq> i)"
proof (induction xs)
  case (Cons a xs)
  have other: "key y \<noteq> key a" if "y \<in> set xs"
    using Cons.prems(1) imageI [OF that, of key] by auto
  show ?case
  proof (cases "key a = i")
    case True
    then show ?thesis using Cons.prems(2) other by auto
  next
    case False
    then show ?thesis using Cons by auto
  qed
qed simp

lemma deleted_token_gone: "get_token_by_id (delete_token_by_id t acl) t = None"
  by (auto simp: get_token_by_id_def delete_token_by_id_def find_None_iff)

text \<open>A deleted API token is refused on every endpoint from then on, when its id is in no other list of the user.\<close>

theorem deleted_token_is_refused:
  assumes del: "api_delete_user_api_token ev bc token_id i password a db = (Inr (), db')"
    and one: "\<forall>acl \<in> set (uacl_access_control_list (get_user_access_control_lists ev (a_id a) True db)).
       acl_id acl \<noteq> i \<longrightarrow> get_token_by_id acl token_id = None"
    and ids: "distinct (map acl_id (uacl_access_control_list (get_user_access_control_lists ev (a_id a) True db)))"
    and active: "get_account (a_id a) True db \<noteq> None"
    and own: "\<forall>u. map_of (wd_acls db) (a_id a) = Some u \<longrightarrow> uacl_id u = a_id a"
  shows "\<exists>e. check_account_api_access ev' (a_id a) token_id path method db' = Inl e"
proof -
  define u where "u = get_user_access_control_lists ev (a_id a) True db"
  obtain acc where acc: "List.find (\<lambda>b. a_id b = a_id a \<and> activation_ok True b) (wd_accounts db) = Some acc"
    using active by (auto simp: get_account_def split: if_splits)
  then have "acc \<in> set (wd_accounts db)" "a_id acc = a_id a" using find_SomeD [OF acc] by auto
  then have id: "a_id a \<in> a_id ` set (wd_accounts db)" by (metis imageI)
  have uid: "uacl_id u = a_id a"
    using own by (auto simp: u_def get_user_access_control_lists_def split: option.splits)
  let ?u = "(change_acl i (delete_token_by_id token_id) u)\<lparr>uacl_updated_at := e_now ev\<rparr>"
  have db': "db' = db\<lparr>wd_acls := AList.update (a_id a) ?u (wd_acls db)\<rparr>"
    using del id uid
    by (auto simp: api_delete_user_api_token_def check_password_def thenP_failIf u_def [symmetric]
        update_user_access_control_list_def modify_def change_acl_def split: if_splits)
  have new: "get_user_access_control_lists ev' (a_id a) True db' = ?u"
    using acc by (simp add: get_user_access_control_lists_def db' update_conv')
  have "get_token_by_id acl token_id = None" if "acl \<in> set (uacl_access_control_list ?u)" for acl
  proof -
    have "acl \<in> set (update_first (\<lambda>a. acl_id a = i) (delete_token_by_id token_id) (uacl_access_control_list u))"
      using that by (simp add: change_acl_def)
    from update_first_keyed [OF ids [folded u_def] this] show ?thesis
      using one deleted_token_gone by (auto simp: u_def)
  qed
  then have "get_acl_by_token_id ?u token_id = None" by (intro deleted_token_has_no_acl) blast
  then show ?thesis unfolding check_account_api_access_def new by (simp only: option.case) auto
qed


theorem deleted_token_is_refused_witness:
  "map_sum id ea_name (check_account_api_access demo_env ''u'' ''t1'' ''/api/v1/payments/x'' ''GET'' demo_tokens) = Inr ''Payments''
   \<and> (\<exists>e. check_account_api_access demo_env ''u'' ''t1'' ''/api/v1/payments/x'' ''GET''
        (snd (api_delete_user_api_token demo_env demo_bcrypt ''t1'' ''l1'' ''pw'' (demo_accounts ! 0) demo_tokens)) = Inl e)"
proof -
  let ?a = "demo_accounts ! 0"
  have before: "map_sum id ea_name (check_account_api_access demo_env ''u'' ''t1'' ''/api/v1/payments/x'' ''GET'' demo_tokens)
      = Inr ''Payments''" by code_simp
  have id: "a_id ?a = ''u''" by (simp add: demo_accounts_def new_account_def)
  have acls: "get_user_access_control_lists demo_env (a_id ?a) True demo_tokens =
      \<lparr>uacl_id = ''u'', uacl_access_control_list = [demo_acl], uacl_updated_at = 0\<rparr>" by code_simp
  have "fst (api_delete_user_api_token demo_env demo_bcrypt ''t1'' ''l1'' ''pw'' ?a demo_tokens) = Inr ()" by code_simp
  then have del: "api_delete_user_api_token demo_env demo_bcrypt ''t1'' ''l1'' ''pw'' ?a demo_tokens
      = (Inr (), snd (api_delete_user_api_token demo_env demo_bcrypt ''t1'' ''l1'' ''pw'' ?a demo_tokens))"
    by (metis prod.collapse)
  have one: "\<forall>acl \<in> set (uacl_access_control_list (get_user_access_control_lists demo_env (a_id ?a) True demo_tokens)).
       acl_id acl \<noteq> ''l1'' \<longrightarrow> get_token_by_id acl ''t1'' = None"
    unfolding acls by (simp add: demo_acl_def)
  have ids: "distinct (map acl_id (uacl_access_control_list (get_user_access_control_lists demo_env (a_id ?a) True demo_tokens)))"
    unfolding acls by simp
  have active: "get_account (a_id ?a) True demo_tokens \<noteq> None" by code_simp
  have own: "\<forall>u. map_of (wd_acls demo_tokens) (a_id ?a) = Some u \<longrightarrow> uacl_id u = a_id ?a"
    unfolding id by (simp add: demo_tokens_def)
  show ?thesis using before deleted_token_is_refused [OF del one ids active own, of demo_env "''/api/v1/payments/x''" "''GET''"]
    unfolding id by blast
qed

section \<open>Switching an account off\<close>

text \<open>
  The cached identification of a token outlives the account: the key under which it is cached is found
  through a second entry that lives ten seconds, and the user is looked up among the active accounts, where
  an account that was just switched off (or deleted) is no longer found. Here the session of \<open>v\<close>, identified
  before, is still accepted after an administrator switched the account off.
\<close>

definition demo_jwt :: jwt where
  "demo_jwt t = JwtPayload \<lparr>at_sub = [], at_usr = Some ''v'', at_email = None, at_auth_time = Some 2000,
                            at_api_token_id = None\<rparr>"

theorem deactivated_user_keeps_session:
  "let identify = (\<lambda>db. check_account_id_exists demo_env demo_settings demo_jwt (Some ''token'') None
                          (db, demo_request ''key''));
       db1 = fst (snd (identify demo_db));
       db2 = fst (snd (api_users_toggle_activated demo_env ''v'' (demo_accounts ! 0) (db1, demo_settings)))
   in get_account ''v'' True db2 = None
      \<and> fst (identify db2) = Inr ''v''
      \<and> fst (check_account_exists demo_env demo_settings demo_jwt (Some ''token'') None (db2, demo_request ''key''))
          = Inl (HTTPException 401 ''User not found.'')"
  by code_simp

section \<open>Public keys\<close>

text \<open>
  The check for a key in use compares the text that was sent, which may be the bech32 form, while the key is
  stored in hex: two accounts can end up with one key.
\<close>

theorem bech32_evades_pubkey_check:
  "let k = replicate 64 CHR ''a'';
       db = demo_db\<lparr>wd_accounts := [(demo_accounts ! 0)\<lparr>a_pubkey := Some k\<rparr>, demo_accounts ! 1]\<rparr>;
       pay = \<lparr>at_sub = [], at_usr = Some ''v'', at_email = None, at_auth_time = Some 2000, at_api_token_id = None\<rparr>
   in map a_pubkey (wd_accounts (snd (update_pubkey demo_env demo_settings (\<lambda>x. Some k) ''v'' ''npub1x''
        (demo_accounts ! 1) pay db))) = [Some k, Some k]"
  by code_simp

section \<open>Administration\<close>

text \<open>
  Editing a user builds the account anew, so its date of creation and its customisation of the interface are
  lost.
\<close>

lemma admin_edit_resets_account:
  assumes "update_user_account ev ((new_account uid (e_now ev))\<lparr>a_username := n, a_email := m, a_pubkey := k,
             a_external_id := x, a_extra := e\<rparr>) db = (Inr a, db')"
  shows "a_created_at a = e_now ev \<and> a_ui_customization a = []"
  using assms by (cases rule: update_user_account_cases) (auto simp: new_account_def)

end
