(* ===== verification/SettingsProperties.thy ===== *)
theory SettingsProperties
  imports Demo
begin

text \<open>
  Properties of the settings object (redirects of extensions, audit filter, exchange rate history), of
  the cache.
\<close>

section \<open>Redirects\<close>

text \<open>A redirect covers a request path exactly when the segments of its path are the first segments of the
  request path; a redirect for \<open>/a/b\<close> does not cover \<open>/a/bc\<close>.\<close>

theorem common_path_is_segment_prefix:
  "has_common_path r p \<longleftrightarrow>
     (\<exists>rest. split_on CHR ''/'' p = split_on CHR ''/'' (from_path r) @ rest)"
proof
  let ?f = "split_on CHR ''/'' (from_path r)"
  let ?p = "split_on CHR ''/'' p"
  assume h: "has_common_path r p"
  then have j: "from_path r = join ''/'' (take (length ?f) ?p)"
    by (simp add: has_common_path_def Let_def split: if_splits)
  have "take (length ?f) ?p \<noteq> []" by simp
  moreover have "\<forall>x \<in> set (take (length ?f) ?p). CHR ''/'' \<notin> set x"
    using split_on_no_sep [of "CHR ''/''" p] in_set_takeD by fast
  ultimately have "?f = take (length ?f) ?p"
    using split_on_join [of "take (length ?f) ?p" "CHR ''/''"] j by metis
  then have "?p = ?f @ drop (length ?f) ?p" by (metis append_take_drop_id)
  then show "\<exists>rest. ?p = ?f @ rest" ..
next
  let ?f = "split_on CHR ''/'' (from_path r)"
  assume "\<exists>rest. split_on CHR ''/'' p = ?f @ rest"
  then obtain rest where r: "split_on CHR ''/'' p = ?f @ rest" by blast
  have "length (from_path r) \<le> length p"
  proof -
    have p: "p = join ''/'' (?f @ rest)" using join_split_on [of "CHR ''/''" p] r by simp
    have f: "from_path r = join ''/'' ?f" using join_split_on [of "CHR ''/''" "from_path r"] by simp
    have "length (join ''/'' xs) \<le> length (join ''/'' (xs @ rest))" for xs
    proof (induction xs)
      case (Cons x xs)
      then show ?case by (cases "xs = []"; cases "rest = []") (simp_all add: join_Cons)
    qed simp
    then show ?thesis using p f by metis
  qed
  then show "has_common_path r p"
    using join_split_on [of "CHR ''/''" "from_path r"] by (simp add: has_common_path_def Let_def r)
qed

definition redirects_consistent :: "'a installed_extensions_settings_scheme \<Rightarrow> bool" where
  "redirects_consistent s \<longleftrightarrow>
     (\<forall>r \<in> set (lnbits_extensions_redirects s). \<forall>q \<in> set (lnbits_extensions_redirects s). \<not> in_conflict r q)"

lemma in_conflict_sym: "in_conflict r q = in_conflict q r"
  by (auto simp: in_conflict_def)

lemma find_in_conflict_None: "find_in_conflict r qs = None \<longleftrightarrow> (\<forall>q \<in> set qs. \<not> in_conflict r q)"
  by (auto simp: find_in_conflict_def find_None_iff)

lemma activate_cases:
  "activate_extension_paths e specs s =
     (let s0 = s\<lparr>lnbits_deactivated_extensions := lnbits_deactivated_extensions s - {e}\<rparr>
      in if specs = [] then (Inr (), s0\<lparr>lnbits_installed_extensions_ids := insert e (lnbits_installed_extensions_ids s)\<rparr>)
         else if \<exists>r \<in> set (lnbits_extensions_redirects s). \<exists>q \<in> set specs. in_conflict r (redirect_of e q)
         then (Inl (ValueError (''Cannot redirect for extension '' @ e)), s0)
         else (Inr (), s0\<lparr>lnbits_extensions_redirects :=
                 filter (\<lambda>r. ext_id r \<noteq> e) (lnbits_extensions_redirects s) @ map (redirect_of e) specs,
               lnbits_installed_extensions_ids := insert e (lnbits_installed_extensions_ids s)\<rparr>))"
  by (auto simp: activate_extension_paths_def activate_extension_redirects_def thenP_def bindP_def gets_def
      modify_def ret_def failIf_def throw_def Let_def remove_extension_redirects_def filter_empty_conv
      find_in_conflict_None)

text \<open>The redirects of different extensions never conflict: activating or deactivating an extension,
  successfully or not, keeps the list free of conflicts, when the descriptions in a manifest do not claim an
  extension id of their own. An activation that fails changes no redirect.\<close>

theorem redirects_stay_consistent:
  assumes "redirects_consistent s" "\<forall>q \<in> set specs. rs_ext_id q = None"
  shows "redirects_consistent (snd (activate_extension_paths e specs s))
    \<and> redirects_consistent (deactivate_extension_paths e s)
    \<and> (fst (activate_extension_paths e specs s) \<noteq> Inr () \<longrightarrow>
        lnbits_extensions_redirects (snd (activate_extension_paths e specs s)) = lnbits_extensions_redirects s)"
proof -
  have own: "ext_id (redirect_of e q) = e" if "q \<in> set specs" for q
    using assms(2) that by (simp add: redirect_of_def)
  have same: "\<not> in_conflict (redirect_of e q) (redirect_of e q')" if "q \<in> set specs" "q' \<in> set specs" for q q'
    using own that by (simp add: in_conflict_def)
  have "redirects_consistent (snd (activate_extension_paths e specs s))"
    using assms(1) same unfolding activate_cases Let_def redirects_consistent_def
    by (auto simp: in_conflict_sym)
  moreover have "redirects_consistent (deactivate_extension_paths e s)"
    using assms(1) by (simp add: deactivate_extension_paths_def remove_extension_redirects_def redirects_consistent_def)
  ultimately show ?thesis by (simp add: activate_cases Let_def)
qed

definition demo_redirect :: "string option \<Rightarrow> redirect_spec" where
  "demo_redirect e = \<lparr>rs_ext_id = e, rs_from_path = ''/.well-known'', rs_redirect_to_path = ''/api'',
                      rs_header_filters = []\<rparr>"

theorem redirects_stay_consistent_witness:
  "redirects_consistent (snd (activate_extension_paths ''lnurlp'' [demo_redirect None] demo_settings))
   \<and> lnbits_extensions_redirects (snd (activate_extension_paths ''lnurlp'' [demo_redirect None] demo_settings))
       = [redirect_of ''lnurlp'' (demo_redirect None)]"
proof -
  have h: "redirects_consistent demo_settings" by (simp add: redirects_consistent_def demo_settings_def)
  have q: "\<forall>q \<in> set [demo_redirect None]. rs_ext_id q = None" by (simp add: demo_redirect_def)
  show ?thesis
    using redirects_stay_consistent [OF h q] by (simp add: activate_cases Let_def demo_settings_def)
qed

text \<open>
  The hypothesis on the manifest is needed: a description that names the id of an installed extension
  is accepted although its path is taken, and the extension that ships it is not the one it is filed under.
\<close>

theorem manifest_id_evades_conflict_check:
  "fst (activate_extension_paths ''evil'' [demo_redirect (Some ''lnurlp'')]
          (demo_settings\<lparr>lnbits_extensions_redirects := [redirect_of ''lnurlp'' (demo_redirect None)]\<rparr>)) = Inr ()
   \<and> in_conflict (redirect_of ''evil'' (demo_redirect None)) (redirect_of ''lnurlp'' (demo_redirect None))"
  by code_simp

section \<open>Audit filter\<close>

text \<open>An excluded path is never audited, whatever the include list says, and neither is any request while
  auditing is off; with auditing on and no filter configured everything is.\<close>

theorem audit_precedence:
  "(\<not> lnbits_audit_enabled s \<longrightarrow> \<not> audit_http_request re s m p c)
   \<and> (p = Some path \<and> path \<noteq> [] \<and> x \<in> set (lnbits_audit_exclude_paths s) \<and> re x path = Some True
       \<longrightarrow> \<not> audit_http_request re s m p c)
   \<and> (lnbits_audit_enabled s \<and> lnbits_audit_http_methods s = [] \<and> lnbits_audit_include_paths s = []
       \<and> lnbits_audit_exclude_paths s = [] \<and> lnbits_audit_http_response_codes s = []
       \<longrightarrow> audit_http_request re s m p c)"
  by (auto simp: audit_http_request_def is_http_request_path_auditable_def re_fullmatch_safe_def
      is_http_response_code_auditable_def)

theorem audit_precedence_witness:
  "audit_http_request (\<lambda>x s. Some (x = s)) demo_settings (Some ''GET'') (Some ''/api'') None
   \<and> \<not> audit_http_request (\<lambda>x s. Some (x = s)) (demo_settings\<lparr>lnbits_audit_exclude_paths := [''/api'']\<rparr>)
        (Some ''GET'') (Some ''/api'') None"
  using audit_precedence [of demo_settings "\<lambda>x s. Some (x = s)" "Some ''GET''" "Some ''/api''" None]
    audit_precedence [of "demo_settings\<lparr>lnbits_audit_exclude_paths := [''/api'']\<rparr>" "\<lambda>x s. Some (x = s)"
      "Some ''GET''" "Some ''/api''" None "''/api''" "''/api''"]
  by (simp add: demo_settings_def)

section \<open>Exchange rate history\<close>

text \<open>The history of exchange rates stays within its maximal size, ends with the newest point and keeps the
  order of the others.\<close>

theorem rate_history_bounded:
  assumes "0 < n" "int (length (lnbits_exchange_rate_history s)) \<le> n"
  shows "int (length (lnbits_exchange_rate_history (append_exchange_rate_datapoint now rates n s))) \<le> n
    \<and> last (lnbits_exchange_rate_history (append_exchange_rate_datapoint now rates n s))
        = \<lparr>hp_timestamp = now, hp_rates = rates\<rparr>
    \<and> (\<exists>k \<le> 1. butlast (lnbits_exchange_rate_history (append_exchange_rate_datapoint now rates n s))
        = drop k (lnbits_exchange_rate_history s))"
proof (cases "int (length (lnbits_exchange_rate_history s)) + 1 > n")
  case True
  then obtain x xs where h: "lnbits_exchange_rate_history s = x # xs"
    using assms by (cases "lnbits_exchange_rate_history s") auto
  show ?thesis using True assms
    by (auto simp: append_exchange_rate_datapoint_def Let_def h intro!: exI [of _ 1])
next
  case False
  then show ?thesis
    by (auto simp: append_exchange_rate_datapoint_def Let_def intro!: exI [of _ 0])
qed

theorem rate_history_bounded_witness:
  "int (length (lnbits_exchange_rate_history (append_exchange_rate_datapoint 5 [] 1
      (append_exchange_rate_datapoint 4 [] 1 demo_settings)))) \<le> 1"
proof -
  have "int (length (lnbits_exchange_rate_history (append_exchange_rate_datapoint 4 [] 1 demo_settings))) \<le> 1"
    by code_simp
  then show ?thesis using rate_history_bounded [of 1 "append_exchange_rate_datapoint 4 [] 1 demo_settings"] by simp
qed

section \<open>The cache\<close>

text \<open>A value put into the cache is returned until its time is over and never afterwards, reading or
  storing other keys in between does not matter, and the periodic cleaning changes no later read.\<close>

theorem cache_ttl:
  assumes "now \<le> t" "distinct (map fst c)" "k' \<noteq> k"
  shows "fst (cache_get t k (cache_set now k v e c)) = (if t < now + e then Some v else None)
    \<and> fst (cache_get t k' (cache_set now k v e c)) = fst (cache_get t k' c)
    \<and> fst (cache_get t k (snd (cache_get now k' c))) = fst (cache_get t k c)
    \<and> fst (cache_get t k (cache_invalidate now c)) = fst (cache_get t k c)
    \<and> fst (cache_get t k (snd (cache_pop now k c))) = None"
proof -
  have clean: "fst (cache_get t k (cache_invalidate now c)) = fst (cache_get t k c)"
    by (simp only: lc.get_view cache_invalidate_view [OF assms(1,2)])
  have "fst (cache_get t k (cache_set now k v e c)) = (if t < now + e then Some v else None)"
    by (simp only: lc.get_view lc.set_view if_True refl)
  then show ?thesis
    using clean lc.read_other_key [OF assms(3)] lc.reads_do_not_interfere [OF assms(1)] lc.read_after_pop
    by (intro conjI)
qed

theorem cache_ttl_witness:
  "fst (cache_get 5 ''a'' (cache_set 1 ''a'' (7::nat) 10 [])) = Some 7
   \<and> fst (cache_get 11 ''a'' (cache_set 1 ''a'' (7::nat) 10 [])) = None"
  using cache_ttl [of 1 5 "[]" "''b''" "''a''" "7::nat" 10] cache_ttl [of 1 11 "[]" "''b''" "''a''" "7::nat" 10]
  by simp

end
