(* ===== verification/PollingProperties.thy ===== *)
theory PollingProperties
  imports FundingSource "HOL-Library.Multiset"
begin

text \<open>
  Properties of the polling loop \<open>Wallet.paid_invoices_stream\<close>, which removes invoices from the list
  it iterates over: nothing is lost, nothing is reported twice, and although one round can step over an
  invoice, enough rounds report every paid one.
\<close>

definition settled :: "(string \<Rightarrow> payment_status option) \<Rightarrow> string \<Rightarrow> bool" where
  "settled status i \<longleftrightarrow> (\<exists>st. status i = Some st \<and> (ps_success st \<or> ps_failed st))"

definition paid_now :: "(string \<Rightarrow> payment_status option) \<Rightarrow> string \<Rightarrow> bool" where
  "paid_now status i \<longleftrightarrow> (\<exists>st. status i = Some st \<and> ps_success st)"

lemma paid_settled: "paid_now status i \<Longrightarrow> settled status i"
  by (auto simp: paid_now_def settled_def)

section \<open>One round\<close>

lemma poll_round_end: "\<not> i < length ps \<Longrightarrow> poll_round status i ps = (ps, [])"
  by (subst poll_round.simps) simp

lemma poll_round_waiting:
  "i < length ps \<Longrightarrow> \<not> settled status (ps ! i) \<Longrightarrow>
   poll_round status i ps = poll_round status (Suc i) ps"
  by (subst poll_round.simps) (auto simp: Let_def settled_def split: option.splits)

lemma poll_round_settled:
  "i < length ps \<Longrightarrow> settled status (ps ! i) \<Longrightarrow>
   poll_round status i ps =
     (fst (poll_round status (Suc i) (remove1 (ps ! i) ps)),
      (if paid_now status (ps ! i) then [ps ! i] else [])
        @ snd (poll_round status (Suc i) (remove1 (ps ! i) ps)))"
  by (subst poll_round.simps)
    (auto simp: Let_def settled_def paid_now_def split: option.splits prod.splits)

text \<open>Induction over a round, by what happens to the invoice at the index.\<close>

lemma poll_round_cases [case_names stop waiting settled]:
  assumes "\<And>i ps. \<not> i < length ps \<Longrightarrow> P i ps (ps, [])"
    and "\<And>i ps. i < length ps \<Longrightarrow> \<not> settled status (ps ! i) \<Longrightarrow>
           P (Suc i) ps (poll_round status (Suc i) ps) \<Longrightarrow> P i ps (poll_round status (Suc i) ps)"
    and "\<And>i ps l y. i < length ps \<Longrightarrow> settled status (ps ! i) \<Longrightarrow>
           P (Suc i) (remove1 (ps ! i) ps) (l, y) \<Longrightarrow>
           P i ps (l, (if paid_now status (ps ! i) then [ps ! i] else []) @ y)"
  shows "P i ps (poll_round status i ps)"
proof (induction "length ps - i" arbitrary: i ps rule: less_induct)
  case less
  show ?case
  proof (cases "i < length ps")
    case True
    show ?thesis
    proof (cases "settled status (ps ! i)")
      case set: True
      have "length (remove1 (ps ! i) ps) - Suc i < length ps - i" using True by (simp add: length_remove1)
      then have "P (Suc i) (remove1 (ps ! i) ps) (poll_round status (Suc i) (remove1 (ps ! i) ps))"
        by (rule less)
      then show ?thesis
        using assms(3) [OF True set] poll_round_settled [OF True set] by (metis prod.collapse)
    next
      case wait: False
      then show ?thesis using less [of ps "Suc i"] assms(2) [OF True] True
        by (simp add: poll_round_waiting)
    qed
  next
    case False
    then show ?thesis by (simp add: poll_round_end assms(1))
  qed
qed

lemma poll_round_split:
  "(\<forall>x \<in> set (snd (poll_round status i ps)). paid_now status x)
   \<and> (\<exists>F. (\<forall>x \<in># F. settled status x \<and> \<not> paid_now status x)
        \<and> mset ps = mset (fst (poll_round status i ps)) + mset (snd (poll_round status i ps)) + F)"
proof (induction rule: poll_round_cases [where P = "\<lambda>i ps r. (\<forall>x \<in> set (snd r). paid_now status x)
    \<and> (\<exists>F. (\<forall>x \<in># F. settled status x \<and> \<not> paid_now status x) \<and> mset ps = mset (fst r) + mset (snd r) + F)"])
  case (settled i ps l y)
  then obtain F where F: "\<forall>x \<in># F. settled status x \<and> \<not> paid_now status x"
    "mset ps - {#ps ! i#} = mset l + mset y + F" by auto
  have "ps ! i \<in># mset ps" using settled by simp
  then have m: "mset ps = add_mset (ps ! i) (mset l + mset y + F)" using F(2) by (metis insert_DiffM)
  show ?case
  proof (cases "paid_now status (ps ! i)")
    case True
    then show ?thesis using settled F(1) m by auto
  next
    case False
    then show ?thesis using settled F(1) m
      by (auto intro!: exI [of _ "add_mset (ps ! i) F"])
  qed
qed auto

text \<open>A round that has a settled invoice before it takes one out of the list.\<close>

lemma poll_round_progress:
  "length (fst (poll_round status i ps)) \<le> length ps
   \<and> ((\<exists>j \<ge> i. j < length ps \<and> settled status (ps ! j)) \<longrightarrow> length (fst (poll_round status i ps)) < length ps)"
proof (induction rule: poll_round_cases [where P = "\<lambda>i ps r. length (fst r) \<le> length ps
    \<and> ((\<exists>j \<ge> i. j < length ps \<and> settled status (ps ! j)) \<longrightarrow> length (fst r) < length ps)"])
  case (waiting i ps)
  have "j \<ge> Suc i" if "j \<ge> i" "settled status (ps ! j)" for j
    using that waiting by (metis Suc_leI le_neq_implies_less)
  then show ?case using waiting by blast
next
  case (settled i ps l y)
  have "length (remove1 (ps ! i) ps) < length ps" using settled by (simp add: length_remove1)
  then show ?case using settled by auto
qed auto

lemma poll_round_idle:
  "\<forall>x \<in> set ps. \<not> settled status x \<Longrightarrow> poll_round status 0 ps = (ps, [])"
proof -
  have "(\<forall>x \<in> set ps. \<not> settled status x) \<longrightarrow> poll_round status i ps = (ps, [])" for i
    by (induction rule: poll_round_cases [where P = "\<lambda>i ps r. (\<forall>x \<in> set ps. \<not> settled status x) \<longrightarrow> r = (ps, [])"])
      auto
  then show "\<forall>x \<in> set ps. \<not> settled status x \<Longrightarrow> poll_round status 0 ps = (ps, [])" by blast
qed

section \<open>Several rounds\<close>

lemma poll_rounds_split:
  "(\<forall>x \<in> set (snd (poll_rounds status n ps)). paid_now status x)
   \<and> (\<exists>F. (\<forall>x \<in># F. settled status x \<and> \<not> paid_now status x)
        \<and> mset ps = mset (fst (poll_rounds status n ps)) + mset (snd (poll_rounds status n ps)) + F)"
proof (induction n arbitrary: ps)
  case (Suc n)
  obtain l y where r: "poll_round status 0 ps = (l, y)" by (cases "poll_round status 0 ps")
  obtain l' y' where r': "poll_rounds status n l = (l', y')" by (cases "poll_rounds status n l")
  obtain F where F: "\<forall>x \<in># F. settled status x \<and> \<not> paid_now status x" "mset ps = mset l + mset y + F"
    "\<forall>x \<in> set y. paid_now status x" using poll_round_split [of status 0 ps] r by auto
  obtain F' where F': "\<forall>x \<in># F'. settled status x \<and> \<not> paid_now status x" "mset l = mset l' + mset y' + F'"
    "\<forall>x \<in> set y'. paid_now status x" using Suc [of l] r' by auto
  have "\<exists>F. (\<forall>x \<in># F. settled status x \<and> \<not> paid_now status x) \<and> mset ps = mset l' + (mset y + mset y') + F"
    using F F' by (intro exI [of _ "F + F'"]) auto
  then show ?case using F(3) F'(3) r r' by auto
qed simp

lemma poll_rounds_finish:
  "length (filter (settled status) ps) \<le> n \<Longrightarrow>
   \<forall>x \<in> set (fst (poll_rounds status n ps)). \<not> settled status x"
proof (induction n arbitrary: ps)
  case 0
  then show ?case by (simp add: filter_empty_conv)
next
  case (Suc n)
  obtain l y where r: "poll_round status 0 ps = (l, y)" by (cases "poll_round status 0 ps")
  obtain F where F: "\<forall>x \<in># F. settled status x" "mset ps = mset l + mset y + F"
    "\<forall>x \<in> set y. paid_now status x" using poll_round_split [of status 0 ps] r by auto
  have "length (filter (settled status) l) \<le> n"
  proof (cases "\<exists>x \<in> set ps. settled status x")
    case True
    then have "length l < length ps" using poll_round_progress [of status 0 ps] r
      by (auto simp: in_set_conv_nth)
    moreover have "length ps = length l + size (mset y + F)"
      using arg_cong [OF F(2), of size] by simp
    ultimately have pos: "0 < size (mset y + F)" by linarith
    have "filter_mset (settled status) (mset y + F) = mset y + F"
      using F(1,3) paid_settled by (intro filter_mset_eq_conv [THEN iffD2]) auto
    moreover have "size (filter_mset (settled status) (mset ps)) =
        size (filter_mset (settled status) (mset l)) + size (filter_mset (settled status) (mset y + F))"
      using F(2) by (simp add: add.assoc)
    ultimately have "length (filter (settled status) ps) =
        length (filter (settled status) l) + size (mset y + F)" by (simp flip: mset_filter)
    with pos show ?thesis using Suc.prems by linarith
  next
    case False
    then show ?thesis using poll_round_idle [of ps status] r by (simp add: filter_empty_conv)
  qed
  from Suc.IH [OF this] show ?case using r by (auto split: prod.splits)
qed

text \<open>The polling loop loses no invoice and reports only paid ones; when the answers of the node do not
  change, after as many rounds as there are pending invoices it has reported exactly the paid ones, each once
  per entry, and is left with exactly those that are neither paid nor failed.\<close>

theorem polling_reports_paid_invoices:
  "set (snd (poll_rounds status n ps)) \<subseteq> {x. paid_now status x}
   \<and> mset (snd (poll_rounds status n ps)) \<subseteq># mset ps
   \<and> (length ps \<le> n \<longrightarrow>
        mset (snd (poll_rounds status n ps)) = filter_mset (paid_now status) (mset ps)
      \<and> mset (fst (poll_rounds status n ps)) = filter_mset (\<lambda>x. \<not> settled status x) (mset ps))"
proof -
  obtain l y where r: "poll_rounds status n ps = (l, y)" by (cases "poll_rounds status n ps")
  obtain F where F: "\<forall>x \<in># F. settled status x \<and> \<not> paid_now status x" "mset ps = mset l + mset y + F"
    "\<forall>x \<in> set y. paid_now status x" using poll_rounds_split [of status n ps] r by auto
  have "mset y = filter_mset (paid_now status) (mset ps) \<and> mset l = filter_mset (\<lambda>x. \<not> settled status x) (mset ps)"
    if "length ps \<le> n"
  proof -
    have l: "\<forall>x \<in> set l. \<not> settled status x"
      using poll_rounds_finish [of status ps n] r that le_trans [OF length_filter_le [of "settled status" ps] that]
      by simp
    have "filter_mset (paid_now status) (mset l) = {#}" "filter_mset (\<lambda>x. \<not> settled status x) (mset y) = {#}"
      "filter_mset (paid_now status) F = {#}" "filter_mset (\<lambda>x. \<not> settled status x) F = {#}"
      "filter_mset (paid_now status) (mset y) = mset y" "filter_mset (\<lambda>x. \<not> settled status x) (mset l) = mset l"
      using l F(1,3) paid_settled
      by (auto simp: filter_mset_eq_conv filter_mset_eq_mempty_iff)
    then show ?thesis using F(2) by simp
  qed
  then show ?thesis using r F by (auto simp: subseteq_mset_def)
qed

theorem polling_reports_paid_invoices_witness:
  "mset (snd (poll_rounds (\<lambda>i. Some (PaymentSuccessStatus None None)) 2 [''a'', ''b'']))
     = {#''a'', ''b''#}"
  using polling_reports_paid_invoices [of "\<lambda>i. Some (PaymentSuccessStatus None None)" 2 "[''a'', ''b'']"]
  by (simp add: paid_now_def ps_success_def PaymentSuccessStatus_def)

text \<open>One round is not enough: the second of two paid invoices is stepped over.\<close>

lemma one_round_steps_over:
  "poll_round (\<lambda>i. Some (PaymentSuccessStatus None None)) 0 [''a'', ''b''] = ([''b''], [''a''])"
  by code_simp

end
