(* ===== verification/PaymentApiProperties.thy ===== *)
theory PaymentApiProperties
  imports AccessProperties LightningAddress PaymentAccounting
begin

text \<open>
  What the payment API lets a caller do and see, and how a lightning address finds its wallet.
\<close>

definition demo_invoice :: create_invoice_data where
  "demo_invoice = \<lparr>ci_unit = ''sat'', ci_internal = False, ci_amount = 300, ci_memo = Some ''tea'', ci_description_hash = None,
     ci_unhashed_description = None, ci_payment_hash = None, ci_expiry = None, ci_extra = [], ci_extension = None,
     ci_webhook = None, ci_lnurl_withdraw = None, ci_fiat_provider = None, ci_labels = [], ci_external_id = None\<rparr>"

section \<open>Sending needs the admin key\<close>

lemma request_keeps_sent [keeps_intro]: "keeps (same_sent s) (request_invoice ev cfg k a m)"
  unfolding keeps_def same_sent_def wallet_ids_distinct_def
  by (metis request_invoice_books prod.collapse)

lemma limits_keep_sent [keeps_intro]: "keeps (same_sent s) (check_fiat_invoice_limits ev cfg n name)"
  unfolding check_fiat_invoice_limits_def by (intro keeps_intro)

lemma create_invoice_keeps_sent [keeps_intro]: "keeps (same_sent s) (create_invoice ev cfg wid k)"
  unfolding create_invoice_def Let_def by (intro keeps_intro)

lemma wallet_invoice_keeps_sent [keeps_intro]: "keeps (same_sent s) (create_wallet_invoice ev cfg wid d)"
  unfolding create_wallet_invoice_def Let_def by (intro keeps_intro)

lemma fiat_invoice_keeps_sent [keeps_intro]: "keeps (same_sent s) (create_fiat_invoice ev cfg wid d)"
  unfolding create_fiat_invoice_def Let_def by (intro keeps_intro)

text \<open>C36: A caller that was identified with an invoice key cannot spend: a request to pay is refused and changes
  nothing, and no other request to this endpoint hands a payment to the funding source.\<close>

theorem invoice_key_cannot_send:
  assumes run: "api_payments_create ev cfg k out bolt11 d db = (r, db')" and "bti_key_type k \<noteq> AdminKey"
    and "wallet_ids_distinct db"
  shows "(out \<longrightarrow> r = Inl (HTTPException 403 ''Invoice (or Admin) key required.'') \<and> db' = db)
     \<and> wd_sent db' = wd_sent db"
proof -
  have "keeps (same_sent s) (create_payment_request ev cfg wid d)" for s wid
    unfolding create_payment_request_def by (intro keeps_intro)
  then have "wd_sent (snd (create_payment_request ev cfg wid d db)) = wd_sent db" for wid
    using assms(3) by (simp add: keeps_def same_sent_def)
  then show ?thesis
    using run assms(2) by (auto simp: api_payments_create_def Let_def throw_def split: if_splits) (metis snd_conv)
qed

theorem invoice_key_cannot_send_witness:
  "api_payments_create demo_env demo_settings \<lparr>bti_key_type = InvoiceKey, bti_wallet = base_wallet.truncate alice\<rparr> True
     (Some ''lnh1'') demo_invoice demo_db = (Inl (HTTPException 403 ''Invoice (or Admin) key required.''), demo_db)
   \<and> wd_sent (snd (api_payments_create demo_env demo_settings
       \<lparr>bti_key_type = InvoiceKey, bti_wallet = base_wallet.truncate alice\<rparr> False None demo_invoice demo_db)) = []"
proof -
  let ?k = "\<lparr>bti_key_type = InvoiceKey, bti_wallet = base_wallet.truncate alice\<rparr>"
  have h: "bti_key_type ?k \<noteq> AdminKey" "wallet_ids_distinct demo_db" "wd_sent demo_db = []" by code_simp+
  show ?thesis
    using invoice_key_cannot_send [of demo_env demo_settings ?k True "Some ''lnh1''" demo_invoice demo_db, OF prod.collapse [symmetric] h(1,2)]
      invoice_key_cannot_send [of demo_env demo_settings ?k False None demo_invoice demo_db, OF prod.collapse [symmetric] h(1,2)] h(3)
    by (simp add: prod_eq_iff)
qed

section \<open>What a status request discloses\<close>

text \<open>The answer to a status request shows a preimage of its own only for a payment it reports as paid, and shows
  the record of a payment only to a caller whose key belongs to the wallet the payment is booked on.\<close>

theorem status_discloses_to_owner:
  assumes "api_payment ev cfg payment_hash api_key db = (Inr ans, db')"
  shows "(pa_preimage ans \<noteq> None \<longrightarrow> pa_paid ans)
     \<and> (\<forall>p. pa_details ans = Some p \<longrightarrow>
          (\<exists>key w db1. api_key = Some key \<and> get_wallet_for_key ev cfg key db = (Inr (Some w), db1) \<and> w_id w = p_wallet_id p))"
proof -
  let ?m = "case api_key of None \<Rightarrow> ret None | Some key \<Rightarrow> get_wallet_for_key ev cfg key"
  let ?own = "\<lambda>wallet i. case wallet of None \<Rightarrow> False | Some v \<Rightarrow> w_id v = i"
  from assms obtain wallet db1 where
    w: "(case api_key of None \<Rightarrow> ret None | Some key \<Rightarrow> get_wallet_for_key ev cfg key) db = (Inr wallet, db1)"
    by (auto simp: api_payment_def bindP_Inr_iff)
  have owner: "\<exists>key v db1. api_key = Some key \<and> get_wallet_for_key ev cfg key db = (Inr (Some v), db1) \<and> w_id v = i"
    if "?own wallet i" for i
    using w that by (auto simp: ret_def split: option.splits)
  note run = assms [unfolded api_payment_def bindP_eq_Inr [of ?m, OF w]]
  obtain found db2 where g: "get_standalone_payment ev cfg payment_hash False (map_option w_id wallet) db1 = (Inr found, db2)"
    using run by (auto simp: bindP_Inr_iff)
  note run2 = run [unfolded bindP_eq_Inr [of "get_standalone_payment ev cfg payment_hash False (map_option w_id wallet)", OF g]]
  then obtain p where p: "found = Some p" by (cases found) (simp_all add: throw_def)
  note run3 = run2 [unfolded p option.case Let_def]
  have "(pa_preimage ans \<noteq> None \<longrightarrow> pa_paid ans) \<and> (\<forall>q. pa_details ans = Some q \<longrightarrow> ?own wallet (p_wallet_id q))"
  proof (cases "p_status p = SUCCESS \<or> p_status p = FAILED")
    case True
    then show ?thesis using run3 by (auto simp: ret_def split: if_splits)
  next
    case False
    let ?checking = "tryP (bindP (update_pending_payment ev cfg p) (\<lambda>q. ret (Some q))) (\<lambda>_. ret None)"
    obtain checked db3 where c: "?checking db2 = (Inr checked, db3)"
      using run3 False by (auto simp: bindP_Inr_iff)
    show ?thesis
      using run3 False unfolding bindP_eq_Inr [of ?checking, OF c]
      by (cases checked) (auto simp: ret_def bindP_eq_Inr [of ?checking, OF c] split: if_splits option.splits)
  qed
  then show ?thesis using owner by blast
qed

theorem status_discloses_to_owner_witness:
  "\<exists>ans db'. api_payment demo_env demo_settings ''h0'' (Some ''alice-in'') demo_db = (Inr ans, db') \<and> pa_paid ans"
proof -
  let ?r = "api_payment demo_env demo_settings ''h0'' (Some ''alice-in'') demo_db"
  have "map_sum id pa_preimage (fst ?r) = Inr (Some ''00'')" by code_simp
  then obtain ans where a: "fst ?r = Inr ans" "pa_preimage ans \<noteq> None" by (cases "fst ?r") auto
  then have r: "?r = (Inr ans, snd ?r)" by (simp add: prod_eq_iff)
  then show ?thesis using status_discloses_to_owner [OF r] a(2) r by blast
qed

text \<open>
  The record that the owner sees of a payment that failed still has the preimage, which the answer itself
  keeps back.
\<close>

lemma failed_payment_shows_preimage:
  "let db = demo_db\<lparr>wd_payments := [demo_payment ''h9'' ''alice'' 1000 FAILED]\<rparr>
   in map_sum id (\<lambda>a. (pa_paid a, pa_preimage a, map_option p_preimage (pa_details a)))
        (fst (api_payment demo_env demo_settings ''h9'' (Some ''alice-in'') db)) = Inr (False, None, Some (Some ''00''))"
  by code_simp

section \<open>Lightning addresses\<close>

lemma lower_char_idem [simp]: "lower_char (lower_char c) = lower_char c"
proof -
  have "(of_char (lower_char c) :: nat) < 65 \<or> 90 < (of_char (lower_char c) :: nat)"
    by (auto simp: lower_char_def Let_def)
  then show ?thesis by (auto simp: lower_char_def [of "lower_char c"] Let_def)
qed

lemma lower_idem [simp]: "lower (lower s) = lower s"
  by (simp add: lower_def)

lemma validate_local_part_Inr:
  assumes "validate_local_part cfg name wid allow db = Inr p"
  shows "p = lower (strip name) \<and> p \<noteq> [] \<and> CHR ''+'' \<notin> set p \<and> ln_address_regex p
     \<and> (allow \<or> \<not> uses_blacklisted_word cfg p)
     \<and> (\<not> truthy (get_wallet_id_by_ln_address p db) \<or> get_wallet_id_by_ln_address p db = Some wid)"
  using assms by (auto simp: validate_local_part_def Let_def split: if_splits)

lemma find_after_update:
  assumes "\<exists>v \<in> set ws. w_id v = i" "\<forall>v \<in> set ws. w_id v \<noteq> i \<longrightarrow> w_lightning_address v \<noteq> Some a"
    "w_id w = i" "w_lightning_address w = Some a"
  shows "List.find (\<lambda>v. w_lightning_address v = Some a) (map (\<lambda>v. if w_id v = i then w else v) ws) = Some w"
  using assms(1,2)
proof (induction ws)
  case (Cons v ws)
  then show ?case using assms(3,4) by (cases "w_id v = i") auto
qed simp

text \<open>A wallet that claimed a name is found under it, with and without a tag and in any case, and no blank, reserved
  or malformed name can be claimed.\<close>

theorem claimed_address_resolves:
  assumes run: "set_wallet_lightning_address ev cfg w name allow charge db = (Inr w', db')"
    and row: "w_id w \<in> w_id ` set (wd_wallets db')"
      "\<exists>r \<in> set (wd_wallets db). w_id r = w_id w \<and> w_lightning_address r = w_lightning_address w"
    and ids: "[] \<notin> w_id ` set (wd_wallets db)"
    and tag: "CHR ''+'' \<notin> set who" "lower who = lower (strip name)"
  shows "w_lightning_address w' = Some (lower who) \<and> ln_address_regex (lower who)
     \<and> (allow \<or> \<not> uses_blacklisted_word cfg (lower who))
     \<and> get_wallet_id_by_ln_address who db' = Some (w_id w)
     \<and> get_wallet_id_by_ln_address (fst (split_tagged_local_part (who @ ''+'' @ t))) db' = Some (w_id w)
     \<and> snd (split_tagged_local_part (who @ ''+'' @ t)) = (if t = [] then None else Some t)"
proof -
  from run obtain p where v: "validate_local_part cfg name (w_id w) allow db = Inr p"
    and rest: "(if w_lightning_address w = Some p then ret w
      else thenP (if charge then charge_for_lightning_address ev cfg w else ret ())
           (update_wallet ev (w\<lparr>w_lightning_address := Some p\<rparr>))) db = (Inr w', db')"
    by (auto simp: set_wallet_lightning_address_def thenP_failIf bindP_Inr_iff gets_def liftE_def throw_def split: if_splits)
  note p = validate_local_part_Inr [OF v]
  have who: "lower who = p" using p tag(2) by simp
  have found: "w_lightning_address w' = Some p \<and> get_wallet_id_by_ln_address p db' = Some (w_id w)"
  proof (cases "w_lightning_address w = Some p")
    case True
    then have same: "w' = w" "db' = db" using rest by (simp_all add: ret_def)
    obtain r where r: "r \<in> set (wd_wallets db)" "w_lightning_address r = Some p" using row(2) True by auto
    have "get_wallet_id_by_ln_address p db \<noteq> None"
      using r p by (auto simp: get_wallet_id_by_ln_address_def find_None_iff)
    then obtain i where i: "get_wallet_id_by_ln_address p db = Some i" by blast
    then have "i \<in> w_id ` set (wd_wallets db)"
      using find_SomeD by (fastforce simp: get_wallet_id_by_ln_address_def)
    then have "i \<noteq> []" using ids by blast
    then show ?thesis using i p same True by simp
  next
    case False
    let ?w = "w\<lparr>w_lightning_address := Some p\<rparr>"
    obtain db1 where u: "update_wallet ev ?w db1 = (Inr w', db')"
      using rest False by (auto simp: thenP_def bindP_Inr_iff ret_def split: if_splits)
    let ?r = "wallet_row (?w\<lparr>w_updated_at := e_now ev\<rparr>)"
    have db': "wd_wallets db' = map (\<lambda>v. if w_id v = w_id w then ?r else v) (wd_wallets db1)"
      and w': "w_lightning_address w' = Some p"
      and c: "\<not> ((\<exists>v \<in> set (wd_wallets db1). w_id v = w_id w) \<and> ln_address_conflict ?w db1)"
      using u by (auto simp: update_wallet_run split: if_splits)
    have rid: "w_id ?r = w_id w" "w_lightning_address ?r = Some p" by (simp_all add: wallet_row_def)
    have e: "\<exists>v \<in> set (wd_wallets db1). w_id v = w_id w" using row(1) rid(1) by (auto simp: db' split: if_splits)
    then have "\<forall>v \<in> set (wd_wallets db1). w_id v \<noteq> w_id w \<longrightarrow> w_lightning_address v \<noteq> Some p"
      using c by (auto simp: ln_address_conflict_def)
    from find_after_update [OF e this rid] show ?thesis
      using w' p rid by (simp add: get_wallet_id_by_ln_address_def db')
  qed
  have same: "get_wallet_id_by_ln_address who db' = get_wallet_id_by_ln_address p db'"
    using who p by (simp add: get_wallet_id_by_ln_address_def)
  have "takeWhile (\<lambda>c. c \<noteq> CHR ''+'') (who @ ''+'' @ t) = who"
    using tag(1) by (subst takeWhile_append2) auto
  then have "split_tagged_local_part (who @ ''+'' @ t) = (p, if t = [] then None else Some t)"
    using who by (simp add: split_tagged_local_part_def Let_def)
  then show ?thesis using found same who p by auto
qed

theorem claimed_address_resolves_witness:
  "let cfg = demo_settings\<lparr>lnbits_ln_address_mode := ''all''\<rparr>;
       r = set_wallet_lightning_address demo_env cfg alice '' Satoshi '' False False demo_db
   in is_ok r \<and> get_wallet_id_by_ln_address (fst (split_tagged_local_part ''satoshi+tea'')) (snd r) = Some ''alice''"
proof -
  let ?cfg = "demo_settings\<lparr>lnbits_ln_address_mode := ''all''\<rparr>"
  let ?r = "set_wallet_lightning_address demo_env ?cfg alice '' Satoshi '' False False demo_db"
  have ok: "is_ok ?r" by code_simp
  then obtain w' db' where r: "?r = (Inr w', db')" using is_okD by blast
  have h: "w_id alice \<in> w_id ` set (wd_wallets (snd ?r))"
    "\<exists>r \<in> set (wd_wallets demo_db). w_id r = w_id alice \<and> w_lightning_address r = w_lightning_address alice"
    "[] \<notin> w_id ` set (wd_wallets demo_db)" "CHR ''+'' \<notin> set ''satoshi''" "lower ''satoshi'' = lower (strip '' Satoshi '')"
    "w_id alice = ''alice''"
    by code_simp+
  have h1: "w_id alice \<in> w_id ` set (wd_wallets db')" using h(1) r by simp
  show ?thesis
    using ok claimed_address_resolves [OF r h1 h(2-5), of "''tea''"] r h(6) by (simp add: Let_def)
qed

end
