(* ===== verification/PyBytes.thy ===== *)
theory PyBytes
  imports PyStrings "HOL-Library.Word"
begin

text \<open>
  Byte strings of the standard library: hexadecimal and base64 text, UTF-8, and the little endian
  integers of \<open>struct\<close>. A byte is an \<open>8 word\<close>; a Unicode string, where the code can meet one that is
  not ASCII, is the list of its code points.
\<close>

type_synonym byte = "8 word"

named_theorems byte_arith \<open>bounds and recombination of bytes\<close>

lemma unat_byte [byte_arith]: "unat (b :: byte) < 256"
  using unsigned_less [of b] by simp

lemma of_nat_unat_byte [byte_arith]: "of_nat (unat (b :: byte)) = b"
  by simp

section \<open>Hexadecimal text\<close>

definition hex_char :: "nat \<Rightarrow> char" where
  "hex_char n = (if n < 10 then char_of (48 + n) else char_of (87 + n))"

definition hex_val :: "char \<Rightarrow> nat option" where
  "hex_val c =
     (let n = (of_char c :: nat) in
      if 48 \<le> n \<and> n \<le> 57 then Some (n - 48)
      else if 97 \<le> n \<and> n \<le> 102 then Some (n - 87)
      else if 65 \<le> n \<and> n \<le> 70 then Some (n - 55)
      else None)"

text \<open>\<open>b.hex()\<close>.\<close>

definition bytes_hex :: "byte list \<Rightarrow> string" where
  "bytes_hex bs = concat (map (\<lambda>b. [hex_char (unat b div 16), hex_char (unat b mod 16)]) bs)"

text \<open>\<open>bytes.fromhex(s)\<close>: white space may stand between the bytes, not inside one.\<close>

fun fromhex :: "string \<Rightarrow> byte list option" where
  "fromhex [] = Some []"
| "fromhex [c] = (if is_c_space c then Some [] else None)"
| "fromhex (c # d # s) =
     (if is_c_space c then fromhex (d # s)
      else case (hex_val c, hex_val d) of
        (Some a, Some b) \<Rightarrow> map_option ((#) (of_nat (16 * a + b))) (fromhex s)
      | _ \<Rightarrow> None)"

lemma hex_val_hex_char [simp]: "n < 16 \<Longrightarrow> hex_val (hex_char n) = Some n"
  by (simp add: hex_val_def hex_char_def Let_def)

lemma hex_char_not_space [simp]: "n < 16 \<Longrightarrow> \<not> is_c_space (hex_char n)"
  by (simp add: is_c_space_def hex_char_def Let_def)

lemma fromhex_hex [simp]: "fromhex (bytes_hex bs) = Some bs"
proof (induction bs)
  case (Cons b bs)
  have "unat b div 16 < 16" "unat b mod 16 < 16" using unat_byte [of b] by auto
  then show ?case using Cons by (simp add: bytes_hex_def)
qed (simp add: bytes_hex_def)

lemma bytes_hex_inj: "bytes_hex a = bytes_hex b \<longleftrightarrow> a = b"
  by (metis fromhex_hex option.inject)

lemma length_bytes_hex [simp]: "length (bytes_hex bs) = 2 * length bs"
  by (induction bs) (simp_all add: bytes_hex_def)

section \<open>Base64 text\<close>

definition b64_char :: "nat \<Rightarrow> char" where
  "b64_char n =
     char_of (if n < 26 then 65 + n else if n < 52 then 71 + n else if n < 62 then n - 4
              else if n = 62 then 43 else 47)"

definition b64_val :: "char \<Rightarrow> nat option" where
  "b64_val c =
     (let n = (of_char c :: nat) in
      if 65 \<le> n \<and> n \<le> 90 then Some (n - 65)
      else if 97 \<le> n \<and> n \<le> 122 then Some (n - 71)
      else if 48 \<le> n \<and> n \<le> 57 then Some (n + 4)
      else if n = 43 then Some 62
      else if n = 47 then Some 63
      else None)"

fun b64encode :: "byte list \<Rightarrow> string" where
  "b64encode [] = []"
| "b64encode [a] = [b64_char (unat a div 4), b64_char (unat a mod 4 * 16), CHR ''='', CHR ''='']"
| "b64encode [a, b] =
     [b64_char (unat a div 4), b64_char (unat a mod 4 * 16 + unat b div 16), b64_char (unat b mod 16 * 4), CHR ''='']"
| "b64encode (a # b # c # bs) =
     b64_char (unat a div 4) # b64_char (unat a mod 4 * 16 + unat b div 16)
     # b64_char (unat b mod 16 * 4 + unat c div 64) # b64_char (unat c mod 64) # b64encode bs"

text \<open>
  The decoder of \<open>binascii\<close>: characters outside the alphabet are skipped, a complete padding ends the
  input, and input that ends inside a group of four is an error. Its state is the position in the group,
  the bits left over and the number of padding characters seen.
\<close>

fun b64_loop :: "string \<Rightarrow> nat \<Rightarrow> nat \<Rightarrow> nat \<Rightarrow> byte list option" where
  "b64_loop [] q left pads = (if q = 0 then Some [] else None)"
| "b64_loop (c # s) q left pads =
     (if c = CHR ''='' then
        (if q \<ge> 2 \<and> q + (pads + 1) \<ge> 4 then Some []
         else b64_loop s q left (if q \<ge> 2 then pads + 1 else pads))
      else case b64_val c of
        None \<Rightarrow> b64_loop s q left pads
      | Some v \<Rightarrow>
          if q = 0 then b64_loop s 1 v 0
          else if q = 1 then map_option ((#) (of_nat (left * 4 + v div 16))) (b64_loop s 2 (v mod 16) 0)
          else if q = 2 then map_option ((#) (of_nat (left * 16 + v div 4))) (b64_loop s 3 (v mod 4) 0)
          else map_option ((#) (of_nat (left * 64 + v))) (b64_loop s 0 0 0))"

definition is_ascii :: "string \<Rightarrow> bool" where
  "is_ascii s \<longleftrightarrow> (\<forall>c \<in> set s. (of_char c :: nat) < 128)"

definition b64decode :: "string \<Rightarrow> byte list option" where
  "b64decode s = (if is_ascii s then b64_loop s 0 0 0 else None)"

definition urlsafe_b64encode :: "byte list \<Rightarrow> string" where
  "urlsafe_b64encode bs =
     map (\<lambda>c. if c = CHR ''+'' then CHR ''-'' else if c = CHR ''/'' then CHR ''_'' else c) (b64encode bs)"

definition urlsafe_b64decode :: "string \<Rightarrow> byte list option" where
  "urlsafe_b64decode s =
     b64decode (map (\<lambda>c. if c = CHR ''-'' then CHR ''+'' else if c = CHR ''_'' then CHR ''/'' else c) s)"

lemma char_code_neq: "(of_char c :: nat) \<noteq> of_char d \<Longrightarrow> c \<noteq> d"
  by auto

lemma b64_char_code:
  "n < 64 \<Longrightarrow> (of_char (b64_char n) :: nat) = (if n < 26 then 65 + n else if n < 52 then 71 + n else if n < 62 then n - 4
              else if n = 62 then 43 else 47)"
  by (simp add: b64_char_def)

lemma b64_char_facts [simp]:
  assumes "n < 64"
  shows "b64_val (b64_char n) = Some n" "(of_char (b64_char n) :: nat) < 128"
    "b64_char n \<noteq> CHR ''=''" "b64_char n \<noteq> CHR ''-''" "b64_char n \<noteq> CHR ''_''"
proof -
  show "b64_val (b64_char n) = Some n" using assms by (auto simp: b64_val_def b64_char_code Let_def)
  show "(of_char (b64_char n) :: nat) < 128" using assms by (auto simp: b64_char_code)
  show "b64_char n \<noteq> CHR ''=''" "b64_char n \<noteq> CHR ''-''" "b64_char n \<noteq> CHR ''_''"
    using assms by (intro char_code_neq; auto simp: b64_char_code)+
qed

text \<open>The six-bit groups are in the table, and the bytes come back from them.\<close>

lemma nat_groups:
  fixes a b c :: nat
  assumes "a < 256" "b < 256" "c < 256"
  shows "a div 4 < 64" "a mod 4 * 16 < 64" "a mod 4 * 16 + b div 16 < 64"
    "b mod 16 * 4 < 64" "b mod 16 * 4 + c div 64 < 64"
    "a div 4 * 4 + (a mod 4 * 16) div 16 = a"
    "a div 4 * 4 + (a mod 4 * 16 + b div 16) div 16 = a"
    "(a mod 4 * 16 + b div 16) mod 16 * 16 + (b mod 16 * 4) div 4 = b"
    "(a mod 4 * 16 + b div 16) mod 16 * 16 + (b mod 16 * 4 + c div 64) div 4 = b"
    "(b mod 16 * 4 + c div 64) mod 4 * 64 + c mod 64 = c"
proof -
  have b: "b div 16 < 16" "c div 64 < 4" "a mod 4 < 4" "b mod 16 < 16" using assms by auto
  show "a div 4 < 64" using assms by auto
  show "a mod 4 * 16 < 64" "a mod 4 * 16 + b div 16 < 64" "b mod 16 * 4 < 64" "b mod 16 * 4 + c div 64 < 64"
    using b by linarith+
  have e: "(a mod 4 * 16 + b div 16) div 16 = a mod 4" "(a mod 4 * 16 + b div 16) mod 16 = b div 16"
    "(b mod 16 * 4 + c div 64) div 4 = b mod 16" "(b mod 16 * 4 + c div 64) mod 4 = c div 64"
    using b by simp_all
  show "a div 4 * 4 + (a mod 4 * 16) div 16 = a" by simp
  show "a div 4 * 4 + (a mod 4 * 16 + b div 16) div 16 = a" unfolding e by simp
  show "(a mod 4 * 16 + b div 16) mod 16 * 16 + (b mod 16 * 4) div 4 = b" unfolding e by simp
  show "(a mod 4 * 16 + b div 16) mod 16 * 16 + (b mod 16 * 4 + c div 64) div 4 = b" unfolding e by simp
  show "(b mod 16 * 4 + c div 64) mod 4 * 64 + c mod 64 = c" unfolding e by simp
qed

lemma b64_quad:
  assumes "n0 < 64" "n1 < 64" "n2 < 64" "n3 < 64"
  shows "b64_loop (b64_char n0 # b64_char n1 # b64_char n2 # b64_char n3 # s) 0 0 0
    = map_option (\<lambda>r. of_nat (n0 * 4 + n1 div 16) # of_nat (n1 mod 16 * 16 + n2 div 4) # of_nat (n2 mod 4 * 64 + n3) # r)
        (b64_loop s 0 0 0)"
  using assms by (simp add: option.map_comp comp_def del: of_nat_add of_nat_mult)

lemma b64_pair:
  assumes "n0 < 64" "n1 < 64" "n2 < 64"
  shows "b64_loop [b64_char n0, b64_char n1, CHR ''='', CHR ''=''] 0 0 0 = Some [of_nat (n0 * 4 + n1 div 16)]"
    and "b64_loop [b64_char n0, b64_char n1, b64_char n2, CHR ''=''] 0 0 0
      = Some [of_nat (n0 * 4 + n1 div 16), of_nat (n1 mod 16 * 16 + n2 div 4)]"
  using assms by (simp_all del: of_nat_add of_nat_mult)

lemma b64_loop_encode: "b64_loop (b64encode bs) 0 0 0 = Some bs"
proof (induction bs rule: b64encode.induct)
  case (2 a)
  note g = nat_groups [OF unat_byte [of a] unat_byte [of a] unat_byte [of a]]
  show ?case using b64_pair(1) [OF g(1,2,1)] by (simp only: b64encode.simps g of_nat_unat_byte)
next
  case (3 a b)
  note g = nat_groups [OF unat_byte [of a] unat_byte [of b] unat_byte [of b]]
  show ?case using b64_pair(2) [OF g(1,3,4)] by (simp only: b64encode.simps g of_nat_unat_byte)
next
  case (4 a b c bs)
  note g = nat_groups [OF unat_byte [of a] unat_byte [of b] unat_byte [of c]]
  have h: "unat c mod 64 < 64" by simp
  show ?case using b64_quad [OF g(1,3,5) h] 4 by (simp only: b64encode.simps g of_nat_unat_byte option.map)
qed simp

lemma b64encode_chars: "c \<in> set (b64encode bs) \<Longrightarrow> c = CHR ''='' \<or> (\<exists>n < 64. c = b64_char n)"
proof (induction bs rule: b64encode.induct)
  case (2 a)
  note g = nat_groups [OF unat_byte [of a] unat_byte [of a] unat_byte [of a]]
  from 2 have "c \<in> {CHR ''='', b64_char (unat a div 4), b64_char (unat a mod 4 * 16)}" by auto
  then show ?case using g(1,2) by blast
next
  case (3 a b)
  note g = nat_groups [OF unat_byte [of a] unat_byte [of b] unat_byte [of b]]
  from 3 have "c \<in> {CHR ''='', b64_char (unat a div 4), b64_char (unat a mod 4 * 16 + unat b div 16),
      b64_char (unat b mod 16 * 4)}" by auto
  then show ?case using g(1,3,4) by blast
next
  case (4 a b c' bs)
  note g = nat_groups [OF unat_byte [of a] unat_byte [of b] unat_byte [of c']]
  have h: "unat c' mod 64 < 64" by simp
  from 4(2) have "c \<in> {b64_char (unat a div 4), b64_char (unat a mod 4 * 16 + unat b div 16),
      b64_char (unat b mod 16 * 4 + unat c' div 64), b64_char (unat c' mod 64)} \<or> c \<in> set (b64encode bs)" by auto
  then show ?case using 4(1) g(1,3,5) h by blast
qed simp

lemma b64encode_ascii: "is_ascii (b64encode bs)"
  by (auto simp: is_ascii_def dest!: b64encode_chars)

lemma b64decode_encode [simp]: "b64decode (b64encode bs) = Some bs"
  by (simp add: b64decode_def b64encode_ascii b64_loop_encode)

lemma urlsafe_b64decode_encode [simp]: "urlsafe_b64decode (urlsafe_b64encode bs) = Some bs"
proof -
  have "map (\<lambda>c. if c = CHR ''-'' then CHR ''+'' else if c = CHR ''_'' then CHR ''/'' else c)
      (urlsafe_b64encode bs) = b64encode bs"
    unfolding urlsafe_b64encode_def map_map o_def
    by (intro map_idI) (fastforce dest: b64encode_chars)
  then show ?thesis by (simp add: urlsafe_b64decode_def)
qed

section \<open>UTF-8\<close>

text \<open>\<open>s.encode()\<close> for a string of characters below 256, and \<open>b.decode()\<close>: \<open>None\<close> is a
  \<open>UnicodeDecodeError\<close> (overlong forms, surrogates, values above the last plane, broken sequences).\<close>

definition utf8_encode :: "string \<Rightarrow> byte list" where
  "utf8_encode s =
     concat (map (\<lambda>c. let n = (of_char c :: nat) in
        if n < 128 then [of_nat n] else [of_nat (192 + n div 64), of_nat (128 + n mod 64)]) s)"

definition is_cont :: "byte \<Rightarrow> bool" where
  "is_cont b \<longleftrightarrow> 128 \<le> unat b \<and> unat b < 192"

fun utf8_decode :: "byte list \<Rightarrow> nat list option" where
  "utf8_decode [] = Some []"
| "utf8_decode (a # bs) =
     (let n = unat a in
      if n < 128 then map_option ((#) n) (utf8_decode bs)
      else if 194 \<le> n \<and> n < 224 then
        (case bs of
           b # r \<Rightarrow> if is_cont b then map_option ((#) ((n - 192) * 64 + (unat b - 128))) (utf8_decode r) else None
         | _ \<Rightarrow> None)
      else if 224 \<le> n \<and> n < 240 then
        (case bs of
           b # c # r \<Rightarrow>
             let v = (n - 224) * 4096 + (unat b - 128) * 64 + (unat c - 128) in
             if is_cont b \<and> is_cont c \<and> 2048 \<le> v \<and> \<not> (55296 \<le> v \<and> v < 57344)
             then map_option ((#) v) (utf8_decode r) else None
         | _ \<Rightarrow> None)
      else if 240 \<le> n \<and> n < 245 then
        (case bs of
           b # c # d # r \<Rightarrow>
             let v = (n - 240) * 262144 + (unat b - 128) * 4096 + (unat c - 128) * 64 + (unat d - 128) in
             if is_cont b \<and> is_cont c \<and> is_cont d \<and> 65536 \<le> v \<and> v < 1114112
             then map_option ((#) v) (utf8_decode r) else None
         | _ \<Rightarrow> None)
      else None)"

section \<open>Integers of \<open>struct\<close>\<close>

text \<open>\<open>struct.unpack_from("<I", data, k)\<close>: \<open>None\<close> is a \<open>struct.error\<close> of a buffer that is too short.\<close>

definition unpack_u32 :: "byte list \<Rightarrow> nat \<Rightarrow> 32 word option" where
  "unpack_u32 data k =
     (if k + 4 \<le> length data then
        Some (of_nat (unat (data ! k) + 256 * unat (data ! (k + 1)) + 65536 * unat (data ! (k + 2))
              + 16777216 * unat (data ! (k + 3))))
      else None)"

text \<open>\<open>struct.pack("<I", w)\<close>.\<close>

definition pack_u32 :: "32 word \<Rightarrow> byte list" where
  "pack_u32 w = [of_nat (unat w mod 256), of_nat (unat w div 256 mod 256), of_nat (unat w div 65536 mod 256),
                 of_nat (unat w div 16777216)]"

lemma unat_of_nat_byte: "n < 256 \<Longrightarrow> unat (of_nat n :: byte) = n"
  by (simp add: unat_of_nat take_bit_nat_eq_self)

lemma unpack_pack_u32:
  assumes "length xs = k"
  shows "unpack_u32 (xs @ pack_u32 w @ ys) k = Some w"
proof -
  let ?w = "unat w"
  have w: "?w < 4294967296" using unsigned_less [of w] by simp
  have d: "?w div 65536 = ?w div 256 div 256" "?w div 16777216 = ?w div 256 div 256 div 256"
    by (simp_all flip: div_mult2_eq)
  have "?w mod 256 + 256 * (?w div 256 mod 256) + 65536 * (?w div 65536 mod 256) + 16777216 * (?w div 16777216)
      = ?w mod 256 + 256 * (?w div 256 mod 256 + 256 * (?w div 256 div 256 mod 256 + 256 * (?w div 256 div 256 div 256)))"
    unfolding d by (simp only: distrib_left mult.assoc [symmetric] add.assoc [symmetric])
  also have "\<dots> = ?w" unfolding mod_mult_div_eq [of "?w div 256 div 256" 256] mod_mult_div_eq [of "?w div 256" 256]
    mod_mult_div_eq [of ?w 256] ..
  finally have sum: "?w mod 256 + 256 * (?w div 256 mod 256) + 65536 * (?w div 65536 mod 256)
      + 16777216 * (?w div 16777216) = ?w" .
  have top: "?w div 16777216 < 256" using w by (simp add: less_mult_imp_div_less)
  have "unpack_u32 (xs @ pack_u32 w @ ys) k = Some (of_nat (?w mod 256 + 256 * (?w div 256 mod 256)
      + 65536 * (?w div 65536 mod 256) + 16777216 * (?w div 16777216)))"
    using assms top unfolding unpack_u32_def pack_u32_def
    by (simp add: nth_append unat_of_nat_byte del: of_nat_add of_nat_mult)
  then show ?thesis by (simp add: sum del: of_nat_add of_nat_mult)
qed

end
