(* ===== verification/Backend.thy ===== *)
theory Backend
  imports FundingSource PyBytes PyFloat Prelude PyStrings
begin

text \<open>
  What the classes under \<open>lnbits/wallets\<close> that talk HTTP to an external node share: the requests of the
  \<open>httpx\<close> client, its answers and exceptions, the operations of Python on values that came out of a JSON
  text, and the responses of \<open>wallets/base.py\<close> before anyone has looked at the types of their fields (they are
  named tuples, so whatever the node put into its answer ends up in them). The node is the sequence of its
  answers, \<open>bk_answers\<close>; what was sent to it, with what became of it, is recorded in \<open>bk_sent\<close>.
\<close>

section \<open>Requests and answers\<close>

record request =
  rq_verb :: string
  rq_url :: string
  rq_body :: jval

record reply =
  rp_status :: nat
  rp_json :: "jval option"
  rp_text :: string

text \<open>What becomes of a request: an answer, whose text may or may not be JSON, a time-out, or any other
  \<open>httpx.RequestError\<close>. The last two say nothing about whether the node received the request.\<close>

datatype answer = Answer reply | NoAnswerInTime | NoConnection

text \<open>The state of a back end: \<open>bk_response\<close> is the attribute \<open>response\<close> of the \<open>HTTPStatusError\<close> raised last,
  \<open>bk_pending\<close> the list \<open>pending_invoices\<close> of the base class.\<close>

record backend =
  bk_sent :: "(request \<times> answer) list"
  bk_answers :: "nat \<Rightarrow> answer"
  bk_response :: reply
  bk_pending :: "jval list"

abbreviation "TypeError \<equiv> OtherError ''TypeError''"
abbreviation "AttributeError \<equiv> OtherError ''AttributeError''"
abbreviation "IndexError \<equiv> OtherError ''IndexError''"
abbreviation "JSONDecodeError \<equiv> OtherError ''JSONDecodeError''"
abbreviation "HTTPStatusError \<equiv> OtherError ''HTTPStatusError''"
abbreviation "TimeoutException \<equiv> OtherError ''TimeoutException''"
abbreviation "RequestError \<equiv> OtherError ''RequestError''"

definition is_error :: "reply \<Rightarrow> bool" where
  "is_error r \<longleftrightarrow> 400 \<le> rp_status r \<and> rp_status r \<le> 599"

definition is_success :: "reply \<Rightarrow> bool" where
  "is_success r \<longleftrightarrow> 200 \<le> rp_status r \<and> rp_status r \<le> 299"

text \<open>\<open>except (httpx.ConnectError, httpx.RequestError)\<close>; a time-out is a request error.\<close>

definition request_error :: "exn \<Rightarrow> bool" where
  "request_error e \<longleftrightarrow> e = RequestError \<or> e = TimeoutException"

definition send :: "string \<Rightarrow> string \<Rightarrow> jval \<Rightarrow> (backend, reply) py" where
  "send verb url body s =
     (let x = bk_answers s (length (bk_sent s));
          s' = s\<lparr>bk_sent := bk_sent s @ [(\<lparr>rq_verb = verb, rq_url = url, rq_body = body\<rparr>, x)]\<rparr>
      in case x of
           Answer r \<Rightarrow> (Inr r, s')
         | NoAnswerInTime \<Rightarrow> (Inl TimeoutException, s')
         | NoConnection \<Rightarrow> (Inl RequestError, s'))"

definition http_get :: "string \<Rightarrow> (backend, reply) py" where
  "http_get url = send ''GET'' url JNull"

definition http_post :: "string \<Rightarrow> (string \<times> jval) list \<Rightarrow> (backend, reply) py" where
  "http_post url body = send ''POST'' url (JObj body)"

definition raise_for_status :: "reply \<Rightarrow> (backend, unit) py" where
  "raise_for_status r =
     (if is_success r then ret ()
      else thenP (modify (\<lambda>s. s\<lparr>bk_response := r\<rparr>)) (throw HTTPStatusError))"

text \<open>\<open>r.json()\<close>\<close>

definition json_of :: "reply \<Rightarrow> exn + jval" where
  "json_of r = (case rp_json r of None \<Rightarrow> Inl JSONDecodeError | Some v \<Rightarrow> Inr v)"

section \<open>Python on JSON values\<close>

abbreviation truth :: "jval \<Rightarrow> bool" where "truth v \<equiv> jtrue (Some v)"

text \<open>\<open>v[k]\<close> with a string \<open>k\<close>, \<open>v.get(k)\<close> and \<open>v.get(k, d)\<close>, \<open>k in v\<close>, \<open>len(v)\<close>.\<close>

definition item :: "jval \<Rightarrow> string \<Rightarrow> exn + jval" where
  "item v k = (case v of
      JObj d \<Rightarrow> (case dget d k of None \<Rightarrow> Inl KeyError | Some x \<Rightarrow> Inr x)
    | _ \<Rightarrow> Inl TypeError)"

definition get_or :: "jval \<Rightarrow> string \<Rightarrow> jval \<Rightarrow> exn + jval" where
  "get_or v k d = (case v of
      JObj m \<Rightarrow> Inr (case dget m k of None \<Rightarrow> d | Some x \<Rightarrow> x)
    | _ \<Rightarrow> Inl AttributeError)"

definition get :: "jval \<Rightarrow> string \<Rightarrow> exn + jval" where
  "get v k = get_or v k JNull"

definition substring :: "string \<Rightarrow> string \<Rightarrow> bool" where
  "substring k s \<longleftrightarrow> (\<exists>i < Suc (length s). startswith (drop i s) k)"

definition contains :: "jval \<Rightarrow> string \<Rightarrow> exn + bool" where
  "contains v k = (case v of
      JObj d \<Rightarrow> Inr (dget d k \<noteq> None)
    | JList l \<Rightarrow> Inr (JStr k \<in> set l)
    | JStr s \<Rightarrow> Inr (substring k s)
    | _ \<Rightarrow> Inl TypeError)"

definition len_of :: "jval \<Rightarrow> exn + nat" where
  "len_of v = (case v of
      JObj d \<Rightarrow> Inr (length d) | JList l \<Rightarrow> Inr (length l) | JStr s \<Rightarrow> Inr (length s) | _ \<Rightarrow> Inl TypeError)"

text \<open>\<open>v[0]\<close> and \<open>v[-1]\<close>. A JSON object has no numbers as keys.\<close>

definition first_item :: "jval \<Rightarrow> exn + jval" where
  "first_item v = (case v of
      JList l \<Rightarrow> (if l = [] then Inl IndexError else Inr (hd l))
    | JStr s \<Rightarrow> (if s = [] then Inl IndexError else Inr (JStr [hd s]))
    | JObj d \<Rightarrow> Inl KeyError
    | _ \<Rightarrow> Inl TypeError)"

definition final_item :: "jval \<Rightarrow> exn + jval" where
  "final_item v = (case v of
      JList l \<Rightarrow> (if l = [] then Inl IndexError else Inr (last l))
    | JStr s \<Rightarrow> (if s = [] then Inl IndexError else Inr (JStr [last s]))
    | JObj d \<Rightarrow> Inl KeyError
    | _ \<Rightarrow> Inl TypeError)"

text \<open>\<open>v[:-4]\<close>\<close>

definition cut_suffix4 :: "jval \<Rightarrow> exn + jval" where
  "cut_suffix4 v = (case v of
      JStr s \<Rightarrow> Inr (JStr (take (length s - 4) s))
    | JList l \<Rightarrow> Inr (JList (take (length l - 4) l))
    | _ \<Rightarrow> Inl TypeError)"

text \<open>Numbers: \<open>bool\<close> is a subclass of \<open>int\<close>.\<close>

definition as_int :: "jval \<Rightarrow> int option" where
  "as_int v = (case v of JInt i \<Rightarrow> Some i | JBool b \<Rightarrow> Some (if b then 1 else 0) | _ \<Rightarrow> None)"

definition as_float :: "jval \<Rightarrow> rat option" where
  "as_float v = (case v of JFloat r \<Rightarrow> Some r | _ \<Rightarrow> map_option to_float (as_int v))"

text \<open>\<open>v == i\<close>\<close>

definition equals_int :: "jval \<Rightarrow> int \<Rightarrow> bool" where
  "equals_int v i \<longleftrightarrow> (case v of JFloat r \<Rightarrow> r = of_int i | _ \<Rightarrow> as_int v = Some i)"

text \<open>\<open>int(s)\<close> also reads single underscores between digits.\<close>

definition int_text :: "string \<Rightarrow> int option" where
  "int_text s =
     (let t = strip s in
      if \<forall>i < length t. t ! i = CHR 0x5F \<longrightarrow>
           0 < i \<and> Suc i < length t \<and> is_digit (t ! (i - 1)) \<and> is_digit (t ! Suc i)
      then int_of_str (remove_char (CHR 0x5F) t) else None)"

definition int_of :: "jval \<Rightarrow> exn + int" where
  "int_of v = (case v of
      JFloat r \<Rightarrow> Inr (py_trunc r)
    | JStr s \<Rightarrow> (case int_text s of None \<Rightarrow> Inl (ValueError ''int'') | Some i \<Rightarrow> Inr i)
    | _ \<Rightarrow> (case as_int v of None \<Rightarrow> Inl TypeError | Some i \<Rightarrow> Inr i))"

definition neg_of :: "jval \<Rightarrow> exn + jval" where
  "neg_of v = (case v of
      JFloat r \<Rightarrow> Inr (JFloat (- r))
    | _ \<Rightarrow> (case as_int v of None \<Rightarrow> Inl TypeError | Some i \<Rightarrow> Inr (JInt (- i))))"

definition times :: "jval \<Rightarrow> int \<Rightarrow> exn + jval" where
  "times v n = (case v of
      JFloat r \<Rightarrow> Inr (JFloat (fmul r (to_float n)))
    | JStr s \<Rightarrow> Inr (JStr (concat (replicate (nat n) s)))
    | JList l \<Rightarrow> Inr (JList (concat (replicate (nat n) l)))
    | _ \<Rightarrow> (case as_int v of None \<Rightarrow> Inl TypeError | Some i \<Rightarrow> Inr (JInt (i * n))))"

definition difference :: "jval \<Rightarrow> jval \<Rightarrow> exn + jval" where
  "difference v w = (case (as_int v, as_int w) of
      (Some i, Some j) \<Rightarrow> Inr (JInt (i - j))
    | _ \<Rightarrow> (case (as_float v, as_float w) of
              (Some x, Some y) \<Rightarrow> Inr (JFloat (fsub x y))
            | _ \<Rightarrow> Inl TypeError))"

definition add_of :: "jval \<Rightarrow> jval \<Rightarrow> exn + jval" where
  "add_of v w = (case (as_int v, as_int w) of
      (Some i, Some j) \<Rightarrow> Inr (JInt (i + j))
    | _ \<Rightarrow> (case (as_float v, as_float w) of
              (Some x, Some y) \<Rightarrow> Inr (JFloat (fadd x y))
            | _ \<Rightarrow> Inl TypeError))"

text \<open>\<open>sum(vs)\<close>, and what a \<open>for\<close> loop over a value visits.\<close>

fun sum_values :: "jval \<Rightarrow> jval list \<Rightarrow> exn + jval" where
  "sum_values acc [] = Inr acc"
| "sum_values acc (v # vs) = (case add_of acc v of Inl e \<Rightarrow> Inl e | Inr a \<Rightarrow> sum_values a vs)"

definition elements :: "jval \<Rightarrow> exn + jval list" where
  "elements v = (case v of
      JList l \<Rightarrow> Inr l | JStr s \<Rightarrow> Inr (map (\<lambda>c. JStr [c]) s) | JObj d \<Rightarrow> Inr (map (\<lambda>(k, x). JStr k) d)
    | _ \<Rightarrow> Inl TypeError)"

text \<open>\<open>str(v)\<close>; \<open>show\<close> writes floats, lists and dictionaries.\<close>

definition py_str :: "(jval \<Rightarrow> string) \<Rightarrow> jval \<Rightarrow> string" where
  "py_str show v = (case v of
      JStr s \<Rightarrow> s | JNull \<Rightarrow> ''None'' | JBool b \<Rightarrow> (if b then ''True'' else ''False'') | JInt i \<Rightarrow> str_int i
    | _ \<Rightarrow> show v)"

text \<open>\<open>{\<dots>}.get(v)\<close> and \<open>{\<dots>}[v]\<close> for a literal dictionary with string keys: a list or an object cannot be a key.\<close>

definition hashable :: "jval \<Rightarrow> bool" where
  "hashable v \<longleftrightarrow> (case v of JList l \<Rightarrow> False | JObj d \<Rightarrow> False | _ \<Rightarrow> True)"

definition table_find :: "(string \<times> bool option) list \<Rightarrow> jval \<Rightarrow> bool option option" where
  "table_find t v = (case v of JStr s \<Rightarrow> map_of t s | _ \<Rightarrow> None)"

definition table_get :: "(string \<times> bool option) list \<Rightarrow> jval \<Rightarrow> exn + bool option" where
  "table_get t v =
     (if hashable v then Inr (case table_find t v of None \<Rightarrow> None | Some b \<Rightarrow> b) else Inl TypeError)"

definition table_item :: "(string \<times> bool option) list \<Rightarrow> jval \<Rightarrow> exn + bool option" where
  "table_item t v =
     (if hashable v then (case table_find t v of None \<Rightarrow> Inl KeyError | Some b \<Rightarrow> Inr b) else Inl TypeError)"

section \<open>Responses\<close>

text \<open>An error message is kept as the text with its arguments, \<open>Formatted\<close>, or as the value it was taken from.\<close>

datatype message = NoMessage | Said jval | Formatted string "jval list"

record pay_answer =
  an_ok :: "bool option"
  an_checking_id :: jval
  an_fee_msat :: jval
  an_preimage :: jval
  an_error :: message

record status_answer =
  sa_paid :: jval
  sa_fee_msat :: jval
  sa_preimage :: jval

record invoice_answer =
  ia_ok :: bool
  ia_checking_id :: jval
  ia_payment_request :: jval
  ia_preimage :: jval
  ia_error :: message

record source_status =
  ss_error :: message
  ss_balance :: jval

definition pay_error :: "bool option \<Rightarrow> message \<Rightarrow> pay_answer" where
  "pay_error ok m = \<lparr>an_ok = ok, an_checking_id = JNull, an_fee_msat = JNull, an_preimage = JNull, an_error = m\<rparr>"

definition pay_result :: "bool option \<Rightarrow> jval \<Rightarrow> jval \<Rightarrow> jval \<Rightarrow> pay_answer" where
  "pay_result ok cid fee pre =
     \<lparr>an_ok = ok, an_checking_id = cid, an_fee_msat = fee, an_preimage = pre, an_error = NoMessage\<rparr>"

definition jbool :: "bool option \<Rightarrow> jval" where
  "jbool b = (case b of None \<Rightarrow> JNull | Some x \<Rightarrow> JBool x)"

definition status_of :: "bool option \<Rightarrow> jval \<Rightarrow> jval \<Rightarrow> status_answer" where
  "status_of b fee pre = \<lparr>sa_paid = jbool b, sa_fee_msat = fee, sa_preimage = pre\<rparr>"

definition pending_status :: status_answer where "pending_status = status_of None JNull JNull"
definition failed_status :: status_answer where "failed_status = status_of (Some False) JNull JNull"

definition invoice_error :: "message \<Rightarrow> invoice_answer" where
  "invoice_error m =
     \<lparr>ia_ok = False, ia_checking_id = JNull, ia_payment_request = JNull, ia_preimage = JNull, ia_error = m\<rparr>"

definition invoice_result :: "jval \<Rightarrow> jval \<Rightarrow> jval \<Rightarrow> invoice_answer" where
  "invoice_result cid req pre =
     \<lparr>ia_ok = True, ia_checking_id = cid, ia_payment_request = req, ia_preimage = pre, ia_error = NoMessage\<rparr>"

definition source_error :: "message \<Rightarrow> source_status" where
  "source_error m = \<lparr>ss_error = m, ss_balance = JInt 0\<rparr>"

definition source_balance :: "jval \<Rightarrow> source_status" where
  "source_balance v = \<lparr>ss_error = NoMessage, ss_balance = v\<rparr>"

text \<open>What a configured client knows: its address, the key some paths contain, \<open>str\<close> of composite values, the
  hash function and the text of an \<open>HTTPStatusError\<close>.\<close>

record client =
  cl_endpoint :: string
  cl_key :: string
  cl_show :: "jval \<Rightarrow> string"
  cl_sha256 :: "byte list \<Rightarrow> byte list"
  cl_status_text :: "reply \<Rightarrow> string"

definition unable_to_connect :: "client \<Rightarrow> message" where
  "unable_to_connect cl = Formatted ''Unable to connect to {}.'' [JStr (cl_endpoint cl)]"

abbreviation "invalid_json \<equiv> Formatted ''Server error: invalid json response'' []"
abbreviation "missing_fields \<equiv> Formatted ''Server error: missing required fields'' []"

definition normalize_endpoint :: "string \<Rightarrow> bool \<Rightarrow> string" where
  "normalize_endpoint endpoint add_proto =
     (let e = (if endswith endpoint ''/'' then butlast endpoint else endpoint)
      in if \<not> add_proto then e
         else if startswith e ''ws://'' \<or> startswith e ''wss://'' then e
         else if startswith e ''http'' then e else ''https://'' @ e)"

text \<open>\<open>b.decode()\<close>; the characters of a string are below 256 in the model.\<close>

definition bytes_text :: "byte list \<Rightarrow> exn + string" where
  "bytes_text bs = (case utf8_decode bs of
      None \<Rightarrow> Inl (OtherError ''UnicodeDecodeError'') | Some ns \<Rightarrow> Inr (map char_of ns))"

text \<open>A falsy \<open>bytes | None\<close>: absent or empty.\<close>

definition given :: "byte list option \<Rightarrow> bool" where
  "given b \<longleftrightarrow> (case b of None \<Rightarrow> False | Some bs \<Rightarrow> bs \<noteq> [])"

text \<open>\<open>data["message"] if "message" in data else r.text\<close>\<close>

definition message_or_text :: "jval \<Rightarrow> reply \<Rightarrow> (backend, jval) py" where
  "message_or_text data r =
     bindP (liftE (contains data ''message'')) (\<lambda>m.
     if m then liftE (item data ''message'') else ret (JStr (rp_text r)))"

text \<open>\<open>exc.response.json().get("message", exc.response.text)\<close>, or the text when that raises.\<close>

definition response_message :: "reply \<Rightarrow> (backend, jval) py" where
  "response_message r =
     tryP (bindP (liftE (json_of r)) (\<lambda>data. liftE (get_or data ''message'' (JStr (rp_text r)))))
       (\<lambda>e. ret (JStr (rp_text r)))"

text \<open>The constructors of the classes: an endpoint and the first key that is set.\<close>

definition init_client :: "string \<Rightarrow> string option \<Rightarrow> string \<Rightarrow> string option \<Rightarrow> exn + string \<times> string" where
  "init_client no_endpoint endpoint no_key key =
     (if \<not> truthy endpoint then Inl (ValueError no_endpoint)
      else if \<not> truthy key then Inl (ValueError no_key)
      else Inr (normalize_endpoint (the endpoint) True, the key))"

text \<open>
  Web addresses as the guards of outgoing requests see them: what \<open>urlparse\<close> finds in one, and
  \<open>check_callback_url\<close> of \<open>lnbits/helpers.py\<close>. \<open>urlparse\<close> and \<open>re.fullmatch\<close> are parameters.
\<close>

text \<open>What \<open>urlparse\<close> finds; \<open>None\<close> in place of the port is its \<open>ValueError\<close>.\<close>

record parsed_url =
  pu_scheme :: string
  pu_username :: "string option"
  pu_password :: "string option"
  pu_hostname :: "string option"
  pu_port :: "int option option"

type_synonym url_parser = "string \<Rightarrow> parsed_url option"

text \<open>\<open>re.fullmatch(rule, text)\<close>; \<open>None\<close> is \<open>re.error\<close>.\<close>

type_synonym full_matcher = "string \<Rightarrow> string \<Rightarrow> bool option"

text \<open>The loops over the rules: a rule that is no regular expression is skipped.\<close>

definition some_rule_matches :: "full_matcher \<Rightarrow> string list \<Rightarrow> string \<Rightarrow> bool" where
  "some_rule_matches fullmatch rules origin \<longleftrightarrow> list_ex (\<lambda>rule. fullmatch rule origin = Some True) rules"

definition callback_origin :: "url_parser \<Rightarrow> string \<Rightarrow> exn + string" where
  "callback_origin urlparse url = (case urlparse url of
      None \<Rightarrow> Inl (ValueError ''Invalid URL'')
    | Some u \<Rightarrow> (case pu_port u of
        None \<Rightarrow> Inl (ValueError ''Callback URL is not allowed.'')
      | Some port \<Rightarrow>
          if pu_scheme u \<notin> {''http'', ''https''} \<or> \<not> truthy (pu_hostname u)
             \<or> pu_username u \<noteq> None \<or> pu_password u \<noteq> None
          then Inl (ValueError ''Callback URL is not allowed.'')
          else
            (let h = lower (the (pu_hostname u));
                 host = (if CHR '':'' \<in> set h then ''['' @ h @ '']'' else h)
             in Inr (pu_scheme u @ ''://'' @ host
                  @ (case port of None \<Rightarrow> [] | Some p \<Rightarrow> CHR '':'' # str_int p)))))"

definition check_callback_rules :: "url_parser \<Rightarrow> full_matcher \<Rightarrow> string list \<Rightarrow> string \<Rightarrow> exn + unit" where
  "check_callback_rules urlparse fullmatch rules url = (case callback_origin urlparse url of
      Inl e \<Rightarrow> Inl e
    | Inr origin \<Rightarrow>
        if rules = [] \<or> some_rule_matches fullmatch rules origin then Inr ()
        else Inl (ValueError ''Callback URL origin is not allowed. Please check your admin settings.''))"

end
