(* ===== verification/BackendContract.thy ===== *)
theory BackendContract
  imports Backend
begin

text \<open>
  What the accounting relies on when it talks to a node, as a contract that every back end is shown to keep:
  a payment is reported as failed only if it was not handed to the node or the node said so, as paid only if
  the node said so, and a payment is handed over at most once per call. The rules \<open>wp\<close> compute from a
  program of the state monad what must hold before it for a property of its outcome to hold after it.
\<close>

section \<open>Weakest preconditions\<close>

definition wp :: "('s, 'a) py \<Rightarrow> ('a \<Rightarrow> 's \<Rightarrow> bool) \<Rightarrow> (exn \<Rightarrow> 's \<Rightarrow> bool) \<Rightarrow> 's \<Rightarrow> bool" where
  "wp m Q E s = (case m s of (Inr a, t) \<Rightarrow> Q a t | (Inl e, t) \<Rightarrow> E e t)"

named_theorems wp_rule \<open>how the weakest precondition of a program is computed\<close>

lemma wp_ret [wp_rule]: "wp (ret a) Q E s \<longleftrightarrow> Q a s"
  by (simp add: wp_def ret_def)

lemma wp_throw [wp_rule]: "wp (throw e) Q E s \<longleftrightarrow> E e s"
  by (simp add: wp_def throw_def)

lemma wp_bindP [wp_rule]: "wp (bindP m k) Q E s \<longleftrightarrow> wp m (\<lambda>a. wp (k a) Q E) E s"
  by (auto simp: wp_def bindP_def split: prod.splits sum.splits)

lemma wp_thenP [wp_rule]: "wp (thenP m k) Q E s \<longleftrightarrow> wp m (\<lambda>_. wp k Q E) E s"
  by (simp add: thenP_def wp_bindP)

lemma wp_tryP [wp_rule]: "wp (tryP m h) Q E s \<longleftrightarrow> wp m Q (\<lambda>e. wp (h e) Q E) s"
  by (auto simp: wp_def tryP_def split: prod.splits sum.splits)

lemma wp_gets [wp_rule]: "wp (gets f) Q E s \<longleftrightarrow> Q (f s) s"
  by (simp add: wp_def gets_def)

lemma wp_modify [wp_rule]: "wp (modify f) Q E s \<longleftrightarrow> Q () (f s)"
  by (simp add: wp_def modify_def)

lemma wp_failIf [wp_rule]: "wp (failIf b e) Q E s \<longleftrightarrow> (if b then E e s else Q () s)"
  by (simp add: failIf_def wp_ret wp_throw)

lemma wp_liftE [wp_rule]: "wp (liftE x) Q E s \<longleftrightarrow> (\<forall>a. x = Inr a \<longrightarrow> Q a s) \<and> (\<forall>e. x = Inl e \<longrightarrow> E e s)"
  by (cases x) (simp_all add: wp_def liftE_def)

lemma wp_if [wp_rule]: "wp (if b then m else n) Q E s \<longleftrightarrow> (b \<longrightarrow> wp m Q E s) \<and> (\<not> b \<longrightarrow> wp n Q E s)"
  by simp

lemma wp_case_option [wp_rule]:
  "wp (case x of None \<Rightarrow> m | Some y \<Rightarrow> n y) Q E s \<longleftrightarrow>
     (x = None \<longrightarrow> wp m Q E s) \<and> (\<forall>y. x = Some y \<longrightarrow> wp (n y) Q E s)"
  by (cases x) simp_all

lemma wp_case_sum [wp_rule]:
  "wp (case x of Inl a \<Rightarrow> m a | Inr b \<Rightarrow> n b) Q E s \<longleftrightarrow>
     (\<forall>a. x = Inl a \<longrightarrow> wp (m a) Q E s) \<and> (\<forall>b. x = Inr b \<longrightarrow> wp (n b) Q E s)"
  by (cases x) simp_all

lemma wp_case_prod [wp_rule]: "wp (case x of (a, b) \<Rightarrow> m a b) Q E s \<longleftrightarrow> wp (m (fst x) (snd x)) Q E s"
  by (cases x) simp

lemma wp_case_object [wp_rule]:
  "wp (case v of JObj d \<Rightarrow> m d | _ \<Rightarrow> n) Q E s \<longleftrightarrow>
     (\<forall>d. v = JObj d \<longrightarrow> wp (m d) Q E s) \<and> ((\<forall>d. v \<noteq> JObj d) \<longrightarrow> wp n Q E s)"
  by (cases v) simp_all

lemma wp_case_list [wp_rule]:
  "wp (case v of JList l \<Rightarrow> m l | _ \<Rightarrow> n) Q E s \<longleftrightarrow>
     (\<forall>l. v = JList l \<longrightarrow> wp (m l) Q E s) \<and> ((\<forall>l. v \<noteq> JList l) \<longrightarrow> wp n Q E s)"
  by (cases v) simp_all

lemma wp_send [wp_rule]:
  "wp (send v u b) Q E s \<longleftrightarrow>
     (\<forall>x t. x = bk_answers s (length (bk_sent s)) \<and>
        t = s\<lparr>bk_sent := bk_sent s @ [(\<lparr>rq_verb = v, rq_url = u, rq_body = b\<rparr>, x)]\<rparr> \<longrightarrow>
        (\<forall>r. x = Answer r \<longrightarrow> Q r t)
        \<and> (x = NoAnswerInTime \<longrightarrow> E TimeoutException t)
        \<and> (x = NoConnection \<longrightarrow> E RequestError t))"
  by (auto simp: wp_def send_def Let_def split: answer.split)

lemma wp_raise_for_status [wp_rule]:
  "wp (raise_for_status r) Q E s \<longleftrightarrow>
     (is_success r \<longrightarrow> Q () s) \<and> (\<not> is_success r \<longrightarrow> E HTTPStatusError (s\<lparr>bk_response := r\<rparr>))"
  by (auto simp: raise_for_status_def wp_rule)

lemmas wp_http = http_get_def http_post_def

text \<open>A weaker postcondition is enough.\<close>

lemma wp_weaken:
  assumes "wp m Q E s" and "\<And>a t. Q a t \<Longrightarrow> Q' a t" and "\<And>e t. E e t \<Longrightarrow> E' e t"
  shows "wp m Q' E' s"
  using assms by (auto simp: wp_def split: prod.splits sum.splits)

lemma wpD: "wp m Q E s \<Longrightarrow> m s = (Inr a, t) \<Longrightarrow> Q a t"
  by (simp add: wp_def)

lemma wpE: "wp m Q E s \<Longrightarrow> m s = (Inl e, t) \<Longrightarrow> E e t"
  by (simp add: wp_def)

section \<open>What an operation on JSON values can answer\<close>

text \<open>The value at a path of keys in the body of an answer.\<close>

fun path :: "jval \<Rightarrow> string list \<Rightarrow> jval option" where
  "path v [] = Some v"
| "path v (k # ks) = (case v of JObj d \<Rightarrow> (case dget d k of None \<Rightarrow> None | Some x \<Rightarrow> path x ks) | _ \<Rightarrow> None)"

definition body :: "reply \<Rightarrow> string list \<Rightarrow> jval option" where
  "body r ks = (case rp_json r of None \<Rightarrow> None | Some v \<Rightarrow> path v ks)"

named_theorems json \<open>what is known of a value that an operation returned\<close>

lemma path_two [simp]: "path v (k # l # ks) = (case path v [k] of None \<Rightarrow> None | Some x \<Rightarrow> path x (l # ks))"
  by (auto split: jval.splits option.splits)

lemma path_object [simp]: "path (JObj d) [k] = dget d k"
  by (simp split: option.splits)

lemma path_one: "path v [k] = (case v of JObj d \<Rightarrow> dget d k | _ \<Rightarrow> None)"
  by (auto split: jval.splits option.splits)

declare path.simps(2) [simp del]

lemma json_of_Inr [json]: "json_of r = Inr v \<longleftrightarrow> rp_json r = Some v"
  by (auto simp: json_of_def split: option.splits)

lemma json_of_Inl [json]: "json_of r = Inl e \<longleftrightarrow> rp_json r = None \<and> e = JSONDecodeError"
  by (auto simp: json_of_def split: option.splits)

lemma item_Inr [json]: "item v k = Inr x \<longleftrightarrow> path v [k] = Some x"
  by (auto simp: item_def path_one split: jval.splits option.splits)

lemma item_Inl [json]: "item v k = Inl e \<longleftrightarrow> path v [k] = None \<and> e = (case v of JObj d \<Rightarrow> KeyError | _ \<Rightarrow> TypeError)"
  by (auto simp: item_def path_one split: jval.splits option.splits)

lemma get_or_Inr [json]:
  "get_or v k d = Inr x \<longleftrightarrow> (\<exists>m. v = JObj m) \<and> x = (case path v [k] of None \<Rightarrow> d | Some y \<Rightarrow> y)"
  by (auto simp: get_or_def path_one split: jval.splits option.splits)

lemma get_or_Inl [json]: "get_or v k d = Inl e \<longleftrightarrow> (\<forall>m. v \<noteq> JObj m) \<and> e = AttributeError"
  by (auto simp: get_or_def split: jval.splits)

lemma get_Inr [json]:
  "get v k = Inr x \<longleftrightarrow> (\<exists>m. v = JObj m) \<and> x = (case path v [k] of None \<Rightarrow> JNull | Some y \<Rightarrow> y)"
  by (simp add: get_def get_or_Inr)

lemma get_Inl [json]: "get v k = Inl e \<longleftrightarrow> (\<forall>m. v \<noteq> JObj m) \<and> e = AttributeError"
  by (simp add: get_def get_or_Inl)

lemma truth_simps [simp]:
  "\<not> truth JNull" "truth (JBool b) \<longleftrightarrow> b" "truth (JInt i) \<longleftrightarrow> i \<noteq> 0" "truth (JStr s) \<longleftrightarrow> s \<noteq> []"
  "truth (JList l) \<longleftrightarrow> l \<noteq> []" "truth (JObj d) \<longleftrightarrow> d \<noteq> []"
  by (simp_all add: jtrue_def)

text \<open>No operation on values raises an exception of the HTTP client.\<close>

definition http_exn :: "exn \<Rightarrow> bool" where
  "http_exn e \<longleftrightarrow> e \<in> {HTTPStatusError, TimeoutException, RequestError}"

lemma http_exn_simps [simp]:
  "http_exn HTTPStatusError" "http_exn TimeoutException" "http_exn RequestError"
  "\<not> http_exn KeyError" "\<not> http_exn TypeError" "\<not> http_exn AttributeError" "\<not> http_exn IndexError"
  "\<not> http_exn JSONDecodeError" "\<not> http_exn (ValueError m)" "\<not> http_exn UnsupportedError"
  by (simp_all add: http_exn_def)

lemma item_exn [simp]: "\<not> http_exn (case v of JObj d \<Rightarrow> KeyError | _ \<Rightarrow> TypeError)"
  by (cases v) simp_all

lemma value_exns:
  "contains v k = Inl e \<Longrightarrow> \<not> http_exn e"
  "len_of v = Inl e \<Longrightarrow> \<not> http_exn e"
  "first_item v = Inl e \<Longrightarrow> \<not> http_exn e"
  "final_item v = Inl e \<Longrightarrow> \<not> http_exn e"
  "cut_suffix4 v = Inl e \<Longrightarrow> \<not> http_exn e"
  "int_of v = Inl e \<Longrightarrow> \<not> http_exn e"
  "neg_of v = Inl e \<Longrightarrow> \<not> http_exn e"
  "times v n = Inl e \<Longrightarrow> \<not> http_exn e"
  "difference v w = Inl e \<Longrightarrow> \<not> http_exn e"
  "table_get t v = Inl e \<Longrightarrow> \<not> http_exn e"
  "table_item t v = Inl e \<Longrightarrow> \<not> http_exn e"
  by (auto simp: contains_def len_of_def first_item_def final_item_def cut_suffix4_def int_of_def neg_of_def
      times_def difference_def table_get_def table_item_def split: jval.splits option.splits if_splits)

lemma value_no_http [json]:
  "http_exn e \<Longrightarrow> contains v k \<noteq> Inl e"
  "http_exn e \<Longrightarrow> len_of v \<noteq> Inl e"
  "http_exn e \<Longrightarrow> first_item v \<noteq> Inl e"
  "http_exn e \<Longrightarrow> final_item v \<noteq> Inl e"
  "http_exn e \<Longrightarrow> cut_suffix4 v \<noteq> Inl e"
  "http_exn e \<Longrightarrow> int_of v \<noteq> Inl e"
  "http_exn e \<Longrightarrow> neg_of v \<noteq> Inl e"
  "http_exn e \<Longrightarrow> times v n \<noteq> Inl e"
  "http_exn e \<Longrightarrow> difference v w \<noteq> Inl e"
  "http_exn e \<Longrightarrow> table_get t v \<noteq> Inl e"
  "http_exn e \<Longrightarrow> table_item t v \<noteq> Inl e"
  using value_exns by metis+

lemma item_no_http [json]: "http_exn e \<Longrightarrow> e \<noteq> (case v of JObj d \<Rightarrow> KeyError | _ \<Rightarrow> TypeError)"
  "http_exn e \<Longrightarrow> (case v of JObj d \<Rightarrow> KeyError | _ \<Rightarrow> TypeError) \<noteq> e"
  by (auto split: jval.splits)

text \<open>The words a table maps to \<open>b\<close>.\<close>

definition table_words :: "(string \<times> bool option) list \<Rightarrow> bool \<Rightarrow> string list" where
  "table_words t b = filter (\<lambda>k. map_of t k = Some (Some b)) (map fst t)"

lemma table_find_Some: "table_find t v = Some (Some b) \<longleftrightarrow> (\<exists>k \<in> set (table_words t b). v = JStr k)"
  by (cases v) (auto simp: table_find_def table_words_def, force dest: map_of_SomeD)

lemma table_get_Some [json]: "table_get t v = Inr (Some b) \<longleftrightarrow> (\<exists>k \<in> set (table_words t b). v = JStr k)"
  unfolding table_find_Some [symmetric]
  by (auto simp: table_get_def hashable_def table_find_def split: jval.splits option.splits)

lemma table_item_Some [json]: "table_item t v = Inr (Some b) \<longleftrightarrow> (\<exists>k \<in> set (table_words t b). v = JStr k)"
  unfolding table_find_Some [symmetric]
  by (auto simp: table_item_def hashable_def table_find_def split: jval.splits option.splits)

declare table_words_def [json]

lemma answer_simps [simp]:
  "an_ok (pay_error ok m) = ok" "an_ok (pay_result ok' c f p) = ok'"
  "an_checking_id (pay_error ok m) = JNull" "an_checking_id (pay_result ok' c f p) = c"
  "an_fee_msat (pay_error ok m) = JNull" "an_fee_msat (pay_result ok' c f p) = f"
  "an_preimage (pay_error ok m) = JNull" "an_preimage (pay_result ok' c f p) = p"
  by (simp_all add: pay_error_def pay_result_def)

lemma jbool_simps [simp]: "jbool None = JNull" "jbool (Some x) = JBool x"
  by (simp_all add: jbool_def)

lemma jbool_eq_JBool [simp]: "jbool b = JBool x \<longleftrightarrow> b = Some x"
  by (cases b) simp_all

lemma status_simps [simp]:
  "sa_paid (status_of b f p) = jbool b" "sa_paid pending_status = JNull" "sa_paid failed_status = JBool False"
  by (simp_all add: status_of_def pending_status_def failed_status_def)

section \<open>The contract\<close>

text \<open>What was exchanged between two states.\<close>

definition exchanged :: "backend \<Rightarrow> backend \<Rightarrow> (request \<times> answer) list" where
  "exchanged s t = drop (length (bk_sent s)) (bk_sent t)"

text \<open>An operation of which it is known what it exchanged, as a step of a larger one.\<close>

lemma wp_step:
  assumes "wp m (\<lambda>a t. P a (exchanged s t) \<and> bk_sent t = bk_sent s @ exchanged s t)
             (\<lambda>e t. R e (exchanged s t) \<and> bk_sent t = bk_sent s @ exchanged s t) s"
    and "\<And>a t xs. P a xs \<Longrightarrow> bk_sent t = bk_sent s @ xs \<Longrightarrow> Q a t"
    and "\<And>e t xs. R e xs \<Longrightarrow> bk_sent t = bk_sent s @ xs \<Longrightarrow> E e t"
  shows "wp m Q E s"
proof (cases "m s")
  case (Pair r t)
  then show ?thesis
    using assms(1) assms(2) [of _ "exchanged s t" t] assms(3) [of _ "exchanged s t" t]
    by (cases r) (simp_all add: wp_def)
qed

definition answered :: "(reply \<Rightarrow> bool) \<Rightarrow> (request \<times> answer) list \<Rightarrow> bool" where
  "answered P xs \<longleftrightarrow> (\<exists>r. P r \<and> Answer r \<in> snd ` set xs)"

lemma answered_simps [simp]:
  "\<not> answered P []"
  "answered P ((q, Answer r) # xs) \<longleftrightarrow> P r \<or> answered P xs"
  "answered P ((q, NoAnswerInTime) # xs) \<longleftrightarrow> answered P xs"
  "answered P ((q, NoConnection) # xs) \<longleftrightarrow> answered P xs"
  by (auto simp: answered_def)

lemma answered_Cons: "answered P (x # xs) \<longleftrightarrow> (\<exists>r. P r \<and> snd x = Answer r) \<or> answered P xs"
  by (auto simp: answered_def)

lemma answered_mono: "answered P xs \<Longrightarrow> (\<And>r. P r \<Longrightarrow> Q r) \<Longrightarrow> answered Q xs"
  by (auto simp: answered_def)

text \<open>The contract of \<open>pay_invoice\<close>: \<open>dispatch\<close> tells the request that makes the node pay, \<open>refusal\<close> and
  \<open>receipt\<close> the answers from which the class concludes that a payment failed or was made.\<close>

definition honest ::
  "(request \<Rightarrow> bool) \<Rightarrow> (reply \<Rightarrow> bool) \<Rightarrow> (reply \<Rightarrow> bool) \<Rightarrow> (request \<times> answer) list \<Rightarrow> bool option \<Rightarrow> bool" where
  "honest dispatch refusal receipt xs ok \<longleftrightarrow>
     (ok = Some False \<longrightarrow> filter (dispatch \<circ> fst) xs = [] \<or> answered refusal xs)
   \<and> (ok = Some True \<longrightarrow> answered receipt xs)"

definition dispatches_once :: "(request \<Rightarrow> bool) \<Rightarrow> (request \<times> answer) list \<Rightarrow> bool" where
  "dispatches_once dispatch xs \<longleftrightarrow> length (filter (dispatch \<circ> fst) xs) \<le> 1"

text \<open>A status that rejects the request before anything was done with it.\<close>

definition rejection :: "reply \<Rightarrow> bool" where
  "rejection r \<longleftrightarrow> payment_request_was_rejected (rp_status r)"

text \<open>The word under \<open>data.status\<close> of an answer that is not an error.\<close>

definition data_status :: "(jval \<Rightarrow> string) \<Rightarrow> reply \<Rightarrow> string" where
  "data_status show r = (case body r [''data'', ''status''] of None \<Rightarrow> [] | Some v \<Rightarrow> lower (py_str show v))"

definition says :: "string list \<Rightarrow> string set \<Rightarrow> reply \<Rightarrow> bool" where
  "says keys words r \<longleftrightarrow>
     \<not> is_error r \<and> (case body r keys of Some (JStr w) \<Rightarrow> w \<in> words | _ \<Rightarrow> False)"

lemma lower_empty_word [simp]: "lower (py_str show (JStr [])) = []"
  by (simp add: lower_def py_str_def)

text \<open>What an answer with a list under \<open>k\<close> says: it is empty, or the first or last entry has a status of \<open>W\<close>.\<close>

definition list_empty :: "string \<Rightarrow> reply \<Rightarrow> bool" where
  "list_empty k r \<longleftrightarrow> is_success r \<and> (case body r [k] of None \<Rightarrow> False | Some v \<Rightarrow> \<not> truth v)"

definition status_in :: "string set \<Rightarrow> exn + jval \<Rightarrow> bool" where
  "status_in W x \<longleftrightarrow> (case x of Inl e \<Rightarrow> False
     | Inr v \<Rightarrow> (case path v [''status''] of Some (JStr w) \<Rightarrow> w \<in> W | _ \<Rightarrow> False))"

definition first_says :: "string \<Rightarrow> string set \<Rightarrow> reply \<Rightarrow> bool" where
  "first_says k W r \<longleftrightarrow>
     is_success r \<and> (case body r [k] of None \<Rightarrow> False | Some v \<Rightarrow> status_in W (first_item v))"

definition last_says :: "string \<Rightarrow> string set \<Rightarrow> reply \<Rightarrow> bool" where
  "last_says k W r \<longleftrightarrow>
     is_success r \<and> (case body r [k] of None \<Rightarrow> False | Some v \<Rightarrow> status_in W (final_item v))"

lemma status_in_simps [simp]:
  "path v [''status''] = Some (JStr w) \<Longrightarrow> status_in W (Inr v) \<longleftrightarrow> w \<in> W"
  by (simp add: status_in_def)

lemma value_simps [simp]: "dget [] k = None" "int_of (JInt i) = Inr i" "\<not> status_in W (Inl e)"
  by (simp_all add: dget_def int_of_def as_int_def status_in_def)

lemma equals_int_null [simp]: "\<not> equals_int JNull i"
  by (simp add: equals_int_def as_int_def)

locale paying_backend =
  fixes pay :: "string \<Rightarrow> int \<Rightarrow> (backend, pay_answer) py"
    and dispatch :: "request \<Rightarrow> bool"
    and refusal receipt :: "reply \<Rightarrow> bool"
  assumes contract:
    "wp (pay bolt11 fee)
       (\<lambda>a t. honest dispatch refusal receipt (exchanged s t) (an_ok a) \<and> dispatches_once dispatch (exchanged s t))
       (\<lambda>e t. dispatches_once dispatch (exchanged s t)) s"
begin

lemma failed_was_refused:
  assumes "pay bolt11 fee s = (Inr a, t)" and "an_ok a = Some False"
  shows "filter (dispatch \<circ> fst) (exchanged s t) = [] \<or> answered refusal (exchanged s t)"
  using wpD [OF contract assms(1)] assms(2) by (simp add: honest_def)

lemma success_was_confirmed:
  assumes "pay bolt11 fee s = (Inr a, t)" and "an_ok a = Some True"
  shows "answered receipt (exchanged s t)"
  using wpD [OF contract assms(1)] assms(2) by (simp add: honest_def)

lemma one_dispatch:
  assumes "pay bolt11 fee s = (r, t)"
  shows "dispatches_once dispatch (exchanged s t)"
  using assms wpD [OF contract [of bolt11 fee s]] wpE [OF contract [of bolt11 fee s]] by (cases r) auto

text \<open>Silence is not an answer: a payment that was handed over and not answered stays open.\<close>

lemma unanswered_stays_open:
  assumes run: "pay bolt11 fee s = (Inr a, t)" and silent: "\<And>r. Answer r \<notin> snd ` set (exchanged s t)"
    and sent: "filter (dispatch \<circ> fst) (exchanged s t) \<noteq> []"
  shows "an_ok a = None"
proof (cases "an_ok a")
  case (Some b)
  then show ?thesis
    using failed_was_refused [OF run] success_was_confirmed [OF run] silent sent by (cases b) (auto simp: answered_def)
qed

end

text \<open>The contract of \<open>get_payment_status\<close> and \<open>get_invoice_status\<close>: a query pays nothing and is answered
  definitely only on a definite answer of the node.\<close>

locale status_backend =
  fixes query :: "string \<Rightarrow> (backend, status_answer) py"
    and dispatch :: "request \<Rightarrow> bool"
    and says_paid says_failed :: "reply \<Rightarrow> bool"
  assumes contract:
    "wp (query checking_id)
       (\<lambda>a t. (sa_paid a = JBool True \<longrightarrow> answered says_paid (exchanged s t))
          \<and> (sa_paid a = JBool False \<longrightarrow> answered says_failed (exchanged s t))
          \<and> filter (dispatch \<circ> fst) (exchanged s t) = [] \<and> bk_sent t = bk_sent s @ exchanged s t)
       (\<lambda>e t. filter (dispatch \<circ> fst) (exchanged s t) = [] \<and> bk_sent t = bk_sent s @ exchanged s t) s"
begin

text \<open>A query as a step of a larger operation.\<close>

lemma wp_query:
  assumes "\<And>a t xs. sa_paid a = JBool True \<longrightarrow> answered says_paid xs \<Longrightarrow> filter (dispatch \<circ> fst) xs = [] \<Longrightarrow>
      bk_sent t = bk_sent s @ xs \<Longrightarrow> Q a t"
    and "\<And>e t xs. filter (dispatch \<circ> fst) xs = [] \<Longrightarrow> bk_sent t = bk_sent s @ xs \<Longrightarrow> E e t"
  shows "wp (query c) Q E s"
proof (cases "query c s")
  case (Pair r t)
  then show ?thesis
    using assms(1) [of _ "exchanged s t" t] assms(2) [of "exchanged s t" t]
      wpD [OF contract, of c s _ t] wpE [OF contract, of c s _ t]
    by (cases r) (simp_all add: wp_def)
qed

lemma paid_was_said:
  "query c s = (Inr a, t) \<Longrightarrow> sa_paid a = JBool True \<Longrightarrow> answered says_paid (exchanged s t)"
  using wpD [OF contract] by blast

lemma failed_was_said:
  "query c s = (Inr a, t) \<Longrightarrow> sa_paid a = JBool False \<Longrightarrow> answered says_failed (exchanged s t)"
  using wpD [OF contract] by blast

lemma query_pays_nothing: "query c s = (r, t) \<Longrightarrow> filter (dispatch \<circ> fst) (exchanged s t) = []"
  using wpD [OF contract [of c s], of _ t] wpE [OF contract [of c s], of _ t] by (cases r) blast+

end

lemma exchanged_simps [simp]: "exchanged s s = []" "exchanged s (t\<lparr>bk_response := r\<rparr>) = exchanged s t"
  "exchanged s (t\<lparr>bk_pending := p\<rparr>) = exchanged s t"
  "exchanged s (t\<lparr>bk_sent := bk_sent s @ xs\<rparr>) = xs"
  by (simp_all add: exchanged_def)

end
