(* ===== verification/FiatBase.thy ===== *)
theory FiatBase
  imports BackendContract PyFloat
begin

text \<open>
  \<open>lnbits/fiat/base.py\<close> and what the classes of \<open>lnbits/fiat\<close> share: their responses, the options of an
  invoice and of a subscription as pydantic reads them from JSON values, the JSON text of a value, and the
  conversion of amounts. The HTTP client is the one of \<open>Backend\<close>; the fields of a form are the body of its
  request. \<open>json.loads\<close> is a parameter.
\<close>

section \<open>Responses\<close>

record fiat_status_response =
  fs_error :: message
  fs_balance :: jval

record fiat_invoice =
  fi_ok :: bool
  fi_checking_id :: jval
  fi_payment_request :: jval
  fi_error :: message

record fiat_payment_status =
  fp_paid :: "bool option"
  fp_fee :: "rat option"

record fiat_subscription =
  sb_ok :: bool
  sb_request_id :: jval
  sb_url :: jval
  sb_error :: message

definition fiat_paid :: fiat_payment_status where "fiat_paid = \<lparr>fp_paid = Some True, fp_fee = None\<rparr>"
definition fiat_failed :: fiat_payment_status where "fiat_failed = \<lparr>fp_paid = Some False, fp_fee = None\<rparr>"
definition fiat_pending :: fiat_payment_status where "fiat_pending = \<lparr>fp_paid = None, fp_fee = None\<rparr>"

definition fiat_success :: "fiat_payment_status \<Rightarrow> bool" where
  "fiat_success st \<longleftrightarrow> fp_paid st = Some True"

definition fiat_is_failed :: "fiat_payment_status \<Rightarrow> bool" where
  "fiat_is_failed st \<longleftrightarrow> fp_paid st = Some False"

definition fiat_text :: "fiat_payment_status \<Rightarrow> string" where
  "fiat_text st = (if fiat_success st then ''success'' else if fiat_is_failed st then ''failed'' else ''pending'')"

definition no_invoice :: "message \<Rightarrow> fiat_invoice" where
  "no_invoice m = \<lparr>fi_ok = False, fi_checking_id = JNull, fi_payment_request = JNull, fi_error = m\<rparr>"

definition an_invoice :: "jval \<Rightarrow> jval \<Rightarrow> fiat_invoice" where
  "an_invoice cid req = \<lparr>fi_ok = True, fi_checking_id = cid, fi_payment_request = req, fi_error = NoMessage\<rparr>"

definition no_subscription :: "message \<Rightarrow> fiat_subscription" where
  "no_subscription m = \<lparr>sb_ok = False, sb_request_id = JNull, sb_url = JNull, sb_error = m\<rparr>"

definition a_subscription :: "jval \<Rightarrow> jval \<Rightarrow> fiat_subscription" where
  "a_subscription url i = \<lparr>sb_ok = True, sb_request_id = i, sb_url = url, sb_error = NoMessage\<rparr>"

lemma fiat_simps [simp]:
  "fp_paid fiat_paid = Some True" "fp_paid fiat_failed = Some False" "fp_paid fiat_pending = None"
  "fiat_success fiat_paid" "\<not> fiat_success fiat_failed" "\<not> fiat_success fiat_pending"
  "fiat_pending \<noteq> fiat_paid" "fiat_failed \<noteq> fiat_paid" "fiat_paid \<noteq> fiat_pending" "fiat_paid \<noteq> fiat_failed"
  "fi_ok (an_invoice c r)" "\<not> fi_ok (no_invoice m)"
  "fi_checking_id (an_invoice c r) = c" "fi_payment_request (an_invoice c r) = r"
  by (simp_all add: fiat_paid_def fiat_failed_def fiat_pending_def fiat_success_def an_invoice_def no_invoice_def)

text \<open>What a provider knows: its address, the page shown after a payment, \<open>str\<close> of composite values, the time,
  a fresh identifier and \<open>json.loads\<close>.\<close>

record fiat_client =
  fc_endpoint :: string
  fc_success_url :: "string option"
  fc_location :: string
  fc_show :: "jval \<Rightarrow> string"
  fc_now :: rat
  fc_fresh :: string
  fc_loads :: "string \<Rightarrow> jval option"

abbreviation "plain s \<equiv> Formatted s []"

definition fiat_unreachable :: "fiat_client \<Rightarrow> message" where
  "fiat_unreachable cl = Formatted ''Unable to connect to {}.'' [JStr (fc_endpoint cl)]"

text \<open>\<open>json.loads(s)\<close>; a value that is no text is a \<open>TypeError\<close>.\<close>

definition loads :: "fiat_client \<Rightarrow> jval \<Rightarrow> exn + jval" where
  "loads cl v = (case v of
      JStr s \<Rightarrow> (case fc_loads cl s of None \<Rightarrow> Inl JSONDecodeError | Some x \<Rightarrow> Inr x)
    | _ \<Rightarrow> Inl TypeError)"

section \<open>Values\<close>

text \<open>\<open>v or d\<close>, \<open>v.upper()\<close> and \<open>str(v)\<close>.\<close>

definition or_else :: "jval \<Rightarrow> jval \<Rightarrow> jval" where
  "or_else v d = (if truth v then v else d)"

definition upper_of :: "jval \<Rightarrow> exn + string" where
  "upper_of v = (case v of JStr s \<Rightarrow> Inr (upper s) | _ \<Rightarrow> Inl AttributeError)"

text \<open>\<open>(d.get(k) or "").upper()\<close>\<close>

definition get_upper :: "jval \<Rightarrow> string \<Rightarrow> exn + string" where
  "get_upper d k = (case get d k of Inl e \<Rightarrow> Inl e | Inr v \<Rightarrow> upper_of (or_else v (JStr [])))"

definition str_of :: "fiat_client \<Rightarrow> jval \<Rightarrow> string" where
  "str_of cl v = (case v of JFloat r \<Rightarrow> float_repr r | _ \<Rightarrow> py_str (fc_show cl) v)"

definition float_of :: "jval \<Rightarrow> exn + rat" where
  "float_of v = (case v of
      JStr s \<Rightarrow> (case float_text s of None \<Rightarrow> Inl (ValueError ''float'') | Some r \<Rightarrow> Inr r)
    | _ \<Rightarrow> (case as_float v of None \<Rightarrow> Inl TypeError | Some r \<Rightarrow> Inr r))"

definition jopt :: "string option \<Rightarrow> jval" where
  "jopt s = (case s of None \<Rightarrow> JNull | Some t \<Rightarrow> JStr t)"

text \<open>\<open>s.replace(p, "", 1) if s.startswith(p) else s\<close>\<close>

definition drop_prefix :: "string \<Rightarrow> string \<Rightarrow> string" where
  "drop_prefix p s = (if startswith s p then drop (length p) s else s)"

section \<open>JSON texts\<close>

definition escape_char :: "char \<Rightarrow> string" where
  "escape_char c =
     (let n = (of_char c :: nat) in
      if n = 34 \<or> n = 92 then [CHR 0x5C, c]
      else if n = 10 then [CHR 0x5C, CHR ''n''] else if n = 13 then [CHR 0x5C, CHR ''r'']
      else if n = 9 then [CHR 0x5C, CHR ''t''] else if n = 8 then [CHR 0x5C, CHR ''b'']
      else if n = 12 then [CHR 0x5C, CHR ''f'']
      else if n < 32 \<or> 126 < n then [CHR 0x5C, CHR ''u'', CHR ''0'', CHR ''0'', hex_char (n div 16), hex_char (n mod 16)]
      else [c])"

definition json_string :: "string \<Rightarrow> string" where
  "json_string s = CHR 0x22 # concat (map escape_char s) @ [CHR 0x22]"

text \<open>\<open>json.dumps(v, separators=(sep, colon))\<close>\<close>

fun dumps :: "string \<Rightarrow> string \<Rightarrow> jval \<Rightarrow> string" where
  "dumps sep colon JNull = ''null''"
| "dumps sep colon (JBool b) = (if b then ''true'' else ''false'')"
| "dumps sep colon (JInt i) = str_int i"
| "dumps sep colon (JFloat r) = float_repr r"
| "dumps sep colon (JStr s) = json_string s"
| "dumps sep colon (JList l) = ''['' @ join sep (map (dumps sep colon) l) @ '']''"
| "dumps sep colon (JObj d) =
     CHR 0x7B # join sep (map (\<lambda>kv. json_string (fst kv) @ colon @ dumps sep colon (snd kv)) d) @ [CHR 0x7D]"

definition json_dumps :: "jval \<Rightarrow> string" where "json_dumps = dumps '', '' '': ''"
definition json_compact :: "jval \<Rightarrow> string" where "json_compact = dumps '','' '':''"

section \<open>What pydantic accepts\<close>

abbreviation "ValidationError \<equiv> OtherError ''ValidationError''"

text \<open>\<open>dict(v)\<close>, for the fields that are a model or a dictionary: also a list of pairs is one.\<close>

definition pair_of :: "jval \<Rightarrow> (jval \<times> jval) option" where
  "pair_of v = (case v of
      JList [a, b] \<Rightarrow> (if hashable a then Some (a, b) else None)
    | JStr [a, b] \<Rightarrow> Some (JStr [a], JStr [b])
    | JObj [a, b] \<Rightarrow> Some (JStr (fst a), JStr (fst b))
    | _ \<Rightarrow> None)"

definition dict_of :: "jval \<Rightarrow> (jval \<times> jval) list option" where
  "dict_of v = (case v of
      JObj d \<Rightarrow> Some (map (\<lambda>(k, x). (JStr k, x)) d)
    | JList l \<Rightarrow> those (map pair_of l)
    | JStr s \<Rightarrow> (if s = [] then Some [] else None)
    | _ \<Rightarrow> None)"

text \<open>The value of a model: \<open>cls(**dict(v))\<close> needs strings as keys; a later pair replaces an earlier one.\<close>

definition text_key :: "jval \<times> jval \<Rightarrow> (string \<times> jval) option" where
  "text_key p = (case fst p of JStr k \<Rightarrow> Some (k, snd p) | _ \<Rightarrow> None)"

definition collect :: "(string \<times> jval) list \<Rightarrow> dict" where
  "collect ps = foldl (\<lambda>d (k, x). dset d k x) [] ps"

definition model_dict :: "jval \<Rightarrow> exn + dict" where
  "model_dict v = (case dict_of v of
      None \<Rightarrow> Inl ValidationError
    | Some ps \<Rightarrow> (case those (map text_key ps) of None \<Rightarrow> Inl ValidationError | Some qs \<Rightarrow> Inr (collect qs)))"

text \<open>\<open>str\<close> accepts numbers; \<open>str | None\<close> also \<open>None\<close>.\<close>

definition accept_str :: "fiat_client \<Rightarrow> jval \<Rightarrow> exn + string" where
  "accept_str cl v = (case v of
      JStr s \<Rightarrow> Inr s | JBool b \<Rightarrow> Inr (str_of cl v) | JInt i \<Rightarrow> Inr (str_of cl v) | JFloat r \<Rightarrow> Inr (str_of cl v)
    | _ \<Rightarrow> Inl ValidationError)"

definition str_field :: "fiat_client \<Rightarrow> dict \<Rightarrow> string \<Rightarrow> exn + string option" where
  "str_field cl d k = (case dget d k of
      None \<Rightarrow> Inr None
    | Some JNull \<Rightarrow> Inr None
    | Some v \<Rightarrow> (case accept_str cl v of Inl e \<Rightarrow> Inl e | Inr s \<Rightarrow> Inr (Some s)))"

text \<open>\<open>dict[str, str]\<close> and \<open>dict[str, Any]\<close>, empty when missing.\<close>

fun accept_items :: "fiat_client \<Rightarrow> (jval \<Rightarrow> exn + jval) \<Rightarrow> (jval \<times> jval) list \<Rightarrow> exn + (string \<times> jval) list" where
  "accept_items cl f [] = Inr []"
| "accept_items cl f ((k, v) # ps) =
     (case (accept_str cl k, f v, accept_items cl f ps) of
        (Inr k', Inr v', Inr ps') \<Rightarrow> Inr ((k', v') # ps')
      | _ \<Rightarrow> Inl ValidationError)"

definition dict_field ::
  "fiat_client \<Rightarrow> (jval \<Rightarrow> exn + jval) \<Rightarrow> dict \<Rightarrow> string \<Rightarrow> exn + dict" where
  "dict_field cl f d k = (case dget d k of
      None \<Rightarrow> Inr []
    | Some v \<Rightarrow> (case dict_of v of
        None \<Rightarrow> Inl ValidationError
      | Some ps \<Rightarrow> (case accept_items cl f ps of Inl e \<Rightarrow> Inl e | Inr qs \<Rightarrow> Inr (collect qs))))"

definition text_value :: "fiat_client \<Rightarrow> jval \<Rightarrow> exn + jval" where
  "text_value cl v = (case accept_str cl v of Inl e \<Rightarrow> Inl e | Inr s \<Rightarrow> Inr (JStr s))"

text \<open>A field with a model or \<open>None\<close>; a \<open>Literal\<close> with a default.\<close>

definition model_field :: "(dict \<Rightarrow> exn + 'a) \<Rightarrow> dict \<Rightarrow> string \<Rightarrow> exn + 'a option" where
  "model_field parse d k = (case dget d k of
      None \<Rightarrow> Inr None
    | Some JNull \<Rightarrow> Inr None
    | Some v \<Rightarrow> (case model_dict v of
        Inl e \<Rightarrow> Inl e
      | Inr m \<Rightarrow> (case parse m of Inl e \<Rightarrow> Inl e | Inr x \<Rightarrow> Inr (Some x))))"

definition literal_field :: "string list \<Rightarrow> string \<Rightarrow> dict \<Rightarrow> string \<Rightarrow> exn + string" where
  "literal_field allowed dflt d k = (case dget d k of
      None \<Rightarrow> Inr dflt
    | Some (JStr s) \<Rightarrow> (if s \<in> set allowed then Inr s else Inl ValidationError)
    | Some v \<Rightarrow> Inl ValidationError)"

definition and_then :: "exn + 'a \<Rightarrow> ('a \<Rightarrow> exn + 'b) \<Rightarrow> exn + 'b" where
  "and_then x f = (case x of Inl e \<Rightarrow> Inl e | Inr a \<Rightarrow> f a)"

section \<open>Subscriptions\<close>

record payment_options =
  po_memo :: "string option"
  po_wallet_id :: "string option"
  po_request_id :: "string option"
  po_customer_email :: "string option"
  po_tag :: "string option"
  po_extra :: "dict option"
  po_success_url :: "string option"

definition no_options :: payment_options where
  "no_options =
     \<lparr>po_memo = None, po_wallet_id = None, po_request_id = None, po_customer_email = None, po_tag = None,
      po_extra = None, po_success_url = Some ''https://my.lnbits.com''\<rparr>"

text \<open>\<open>FiatSubscriptionPaymentOptions(**d)\<close>\<close>

definition payment_options_of :: "fiat_client \<Rightarrow> dict \<Rightarrow> exn + payment_options" where
  "payment_options_of cl d =
     and_then (str_field cl d ''memo'') (\<lambda>memo.
     and_then (str_field cl d ''wallet_id'') (\<lambda>wallet_id.
     and_then (str_field cl d ''subscription_request_id'') (\<lambda>i.
     and_then (str_field cl d ''customer_email'') (\<lambda>email.
     and_then (str_field cl d ''tag'') (\<lambda>tag.
     and_then (if dget d ''extra'' = None \<or> dget d ''extra'' = Some JNull then Inr None
               else and_then (dict_field cl Inr d ''extra'') (\<lambda>x. Inr (Some x))) (\<lambda>extra.
     and_then (if dget d ''success_url'' = None then Inr (po_success_url no_options)
               else str_field cl d ''success_url'') (\<lambda>url.
     Inr \<lparr>po_memo = memo, po_wallet_id = wallet_id, po_request_id = i, po_customer_email = email, po_tag = tag,
          po_extra = extra, po_success_url = url\<rparr>)))))))"

text \<open>\<open>payment_options.extra or {}\<close>, and the start of every \<open>create_subscription\<close>: a request id is drawn where
  there is none and noted in the extra data.\<close>

definition extra_or_empty :: "payment_options \<Rightarrow> dict" where
  "extra_or_empty p = (case po_extra p of None \<Rightarrow> [] | Some d \<Rightarrow> d)"

definition with_request_id :: "fiat_client \<Rightarrow> payment_options \<Rightarrow> payment_options" where
  "with_request_id cl p =
     (let i = (if truthy (po_request_id p) then po_request_id p else Some (fc_fresh cl))
      in p\<lparr>po_request_id := i, po_extra := Some (dset (extra_or_empty p) ''subscription_request_id'' (jopt i))\<rparr>)"

definition success_page :: "fiat_client \<Rightarrow> string option \<Rightarrow> string" where
  "success_page cl url = the (orElse (orElse url (fc_success_url cl)) (Some ''https://lnbits.com''))"

section \<open>Amounts\<close>

abbreviation "InvalidOperation \<equiv> OtherError ''InvalidOperation''"

text \<open>\<open>Decimal(str(v))\<close> and \<open>Decimal(v)\<close>\<close>

definition decimal_of_str :: "fiat_client \<Rightarrow> jval \<Rightarrow> exn + rat" where
  "decimal_of_str cl v =
     (case decimal_text (str_of cl v) of None \<Rightarrow> Inl InvalidOperation | Some x \<Rightarrow> Inr x)"

definition decimal_of :: "jval \<Rightarrow> exn + rat" where
  "decimal_of v = (case v of
      JFloat r \<Rightarrow> Inr r
    | JStr s \<Rightarrow> (case decimal_text s of None \<Rightarrow> Inl InvalidOperation | Some x \<Rightarrow> Inr x)
    | _ \<Rightarrow> (case as_int v of None \<Rightarrow> Inl TypeError | Some i \<Rightarrow> Inr (of_int i)))"

text \<open>\<open>float(Decimal(amount) / 10 ** exponent)\<close>\<close>

definition from_minor :: "nat \<Rightarrow> jval \<Rightarrow> exn + rat" where
  "from_minor exponent v = and_then (decimal_of v) (\<lambda>x. Inr (fl (dec28 (x / 10 ^ exponent))))"

text \<open>\<open>FiatSubscriptionResponse\<close> is a model: its fields are texts or \<open>None\<close>.\<close>

definition accept_opt :: "fiat_client \<Rightarrow> jval \<Rightarrow> exn + jval" where
  "accept_opt cl v = (if v = JNull then Inr JNull else text_value cl v)"

definition made_subscription :: "fiat_client \<Rightarrow> jval \<Rightarrow> jval \<Rightarrow> exn + fiat_subscription" where
  "made_subscription cl url i =
     and_then (accept_opt cl i) (\<lambda>i'. and_then (accept_opt cl url) (\<lambda>url'. Inr (a_subscription url' i')))"

text \<open>The constructors: every setting they need must be there. The connection settings are compared as one text.\<close>

fun provider_init :: "(string \<times> string option) list \<Rightarrow> string \<Rightarrow> exn + string" where
  "provider_init [] endpoint = Inr (normalize_endpoint endpoint True)"
| "provider_init ((missing, v) # vs) endpoint =
     (if truthy v then provider_init vs endpoint else Inl (ValueError missing))"

definition connection_fields :: "string option list \<Rightarrow> string" where
  "connection_fields vs = join ''-'' (map (\<lambda>v. case v of None \<Rightarrow> ''None'' | Some s \<Rightarrow> s) vs)"

text \<open>\<open>json.JSONDecodeError\<close> has its own message in most handlers.\<close>

definition json_or_unreachable :: "fiat_client \<Rightarrow> string \<Rightarrow> exn \<Rightarrow> message" where
  "json_or_unreachable cl text e = (if e = JSONDecodeError then plain text else fiat_unreachable cl)"

lemma and_then_simps [simp]: "and_then (Inr a) f = f a" "and_then (Inl e) f = Inl e"
  by (simp_all add: and_then_def)

lemma jopt_simps [simp]: "jopt None = JNull" "jopt (Some s) = JStr s"
  by (simp_all add: jopt_def)

lemma and_then_Inr [json]: "and_then x f = Inr b \<longleftrightarrow> (\<exists>a. x = Inr a \<and> f a = Inr b)"
  by (cases x) simp_all

section \<open>What a status is based on\<close>

text \<open>A successful answer to a request of this kind with \<open>P\<close> is among those exchanged.\<close>

definition got :: "(request \<times> answer) list \<Rightarrow> string \<Rightarrow> string \<Rightarrow> (reply \<Rightarrow> bool) \<Rightarrow> bool" where
  "got xs verb url P \<longleftrightarrow>
     (\<exists>q r. (q, Answer r) \<in> set xs \<and> rq_verb q = verb \<and> rq_url q = url \<and> is_success r \<and> P r)"

lemma got_mono: "got xs verb url P \<Longrightarrow> set xs \<subseteq> set ys \<Longrightarrow> got ys verb url P"
  by (auto simp: got_def)

lemma got_weaken: "got xs verb url P \<Longrightarrow> (\<And>r. P r \<Longrightarrow> Q r) \<Longrightarrow> got xs verb url Q"
  by (auto simp: got_def)

lemma got_Cons [simp]:
  "got ((q, Answer r) # xs) verb url P \<longleftrightarrow>
     rq_verb q = verb \<and> rq_url q = url \<and> is_success r \<and> P r \<or> got xs verb url P"
  by (simp add: got_def) blast

text \<open>The contract of \<open>get_invoice_status\<close>: it always returns, keeps what was exchanged before, and reports an
  invoice as paid only on \<open>evidence\<close> among what it exchanged itself.\<close>

locale fiat_queries =
  fixes query :: "string \<Rightarrow> ('s, fiat_payment_status) py"
    and net_of :: "'s \<Rightarrow> backend"
    and evidence :: "string \<Rightarrow> (request \<times> answer) list \<Rightarrow> bool"
  assumes contract:
    "wp (query c)
       (\<lambda>st t. (fiat_success st \<longrightarrow> evidence c (exchanged (net_of s) (net_of t)))
          \<and> bk_sent (net_of t) = bk_sent (net_of s) @ exchanged (net_of s) (net_of t))
       (\<lambda>e t. False) s"
    and evidence_grows: "evidence c xs \<Longrightarrow> set xs \<subseteq> set ys \<Longrightarrow> evidence c ys"
begin

lemma query_returns: "\<exists>st t. query c s = (Inr st, t)"
  using contract [of c s] by (cases "query c s"; cases "fst (query c s)") (auto simp: wp_def)

lemma paid_was_said:
  assumes "query c s = (Inr st, t)" "fiat_success st"
  shows "evidence c (exchanged (net_of s) (net_of t))"
  using wpD [OF contract assms(1)] assms(2) by blast

lemma query_appends:
  assumes "query c s = (r, t)"
  shows "bk_sent (net_of t) = bk_sent (net_of s) @ exchanged (net_of s) (net_of t)"
  using assms wpD [OF contract [of c s], of _ t] wpE [OF contract [of c s], of _ t] by (cases r) blast+

end

end
