(* ===== verification/StripeProvider.thy ===== *)
theory StripeProvider
  imports FiatBase
begin

text \<open>\<open>lnbits/fiat/stripe.py\<close>: checkout sessions, terminal payments, subscriptions and the status of an invoice.\<close>

section \<open>Options\<close>

record stripe_terminal_options =
  to_capture_method :: string
  to_metadata :: dict
  to_reader_id :: "string option"

record stripe_checkout_options =
  so_success_url :: "string option"
  so_metadata :: dict
  so_line_item_name :: "string option"

record subscription_options =
  uo_checking_id :: "string option"
  uo_payment_request :: "string option"

record stripe_options =
  st_fiat_method :: string
  st_terminal :: "stripe_terminal_options option"
  st_checkout :: "stripe_checkout_options option"
  st_subscription :: "subscription_options option"

definition stripe_terminal_of :: "fiat_client \<Rightarrow> dict \<Rightarrow> exn + stripe_terminal_options" where
  "stripe_terminal_of cl d =
     and_then (literal_field [''automatic'', ''manual''] ''automatic'' d ''capture_method'') (\<lambda>m.
     and_then (dict_field cl (text_value cl) d ''metadata'') (\<lambda>md.
     and_then (str_field cl d ''reader_id'') (\<lambda>r.
     Inr \<lparr>to_capture_method = m, to_metadata = md, to_reader_id = r\<rparr>)))"

definition stripe_checkout_of :: "fiat_client \<Rightarrow> dict \<Rightarrow> exn + stripe_checkout_options" where
  "stripe_checkout_of cl d =
     and_then (str_field cl d ''success_url'') (\<lambda>u.
     and_then (dict_field cl (text_value cl) d ''metadata'') (\<lambda>md.
     and_then (str_field cl d ''line_item_name'') (\<lambda>n.
     Inr \<lparr>so_success_url = u, so_metadata = md, so_line_item_name = n\<rparr>)))"

definition subscription_options_of :: "fiat_client \<Rightarrow> dict \<Rightarrow> exn + subscription_options" where
  "subscription_options_of cl d =
     and_then (str_field cl d ''checking_id'') (\<lambda>c.
     and_then (str_field cl d ''payment_request'') (\<lambda>r.
     Inr \<lparr>uo_checking_id = c, uo_payment_request = r\<rparr>))"

definition stripe_parse_create_opts :: "fiat_client \<Rightarrow> dict \<Rightarrow> stripe_options option" where
  "stripe_parse_create_opts cl d =
     (case and_then (literal_field [''checkout'', ''terminal'', ''subscription''] ''checkout'' d ''fiat_method'') (\<lambda>m.
           and_then (model_field (stripe_terminal_of cl) d ''terminal'') (\<lambda>t.
           and_then (model_field (stripe_checkout_of cl) d ''checkout'') (\<lambda>c.
           and_then (model_field (subscription_options_of cl) d ''subscription'') (\<lambda>s.
           Inr \<lparr>st_fiat_method = m, st_terminal = t, st_checkout = c, st_subscription = s\<rparr>)))) of
        Inl e \<Rightarrow> None
      | Inr opts \<Rightarrow> Some opts)"

section \<open>Amounts\<close>

definition stripe_zero_decimal_currencies :: "string list" where
  "stripe_zero_decimal_currencies =
     [''BIF'', ''CLP'', ''DJF'', ''GNF'', ''JPY'', ''KMF'', ''KRW'', ''MGA'', ''PYG'', ''RWF'', ''VND'', ''VUV'',
      ''XAF'', ''XOF'', ''XPF'']"

definition stripe_three_decimal_currencies :: "string list" where
  "stripe_three_decimal_currencies = [''BHD'', ''JOD'', ''KWD'', ''OMR'', ''TND'']"

definition stripe_whole_unit_currencies :: "string list" where
  "stripe_whole_unit_currencies = [''ISK'', ''UGX'']"

definition stripe_currency_exponent :: "string \<Rightarrow> nat" where
  "stripe_currency_exponent currency =
     (if upper currency \<in> set stripe_zero_decimal_currencies then 0
      else if upper currency \<in> set stripe_three_decimal_currencies then 3 else 2)"

definition stripe_to_minor :: "fiat_client \<Rightarrow> jval \<Rightarrow> string \<Rightarrow> exn + int" where
  "stripe_to_minor cl amount currency =
     and_then (decimal_of_str cl amount) (\<lambda>d.
     if d \<le> 0 then Inl (ValueError ''Stripe amount must be a positive finite number.'')
     else if upper currency \<in> set stripe_whole_unit_currencies \<and> \<not> is_whole d
     then Inl (ValueError (''Stripe does not support fractional '' @ upper currency @ '' amounts.''))
     else
       let exponent = stripe_currency_exponent (upper currency); minor = dec28 (d * 10 ^ exponent) in
       if \<not> is_whole minor
       then Inl (ValueError (''Stripe '' @ upper currency @ '' amounts support at most '' @ str_int (int exponent)
                  @ '' decimal places.''))
       else Inr \<lfloor>minor\<rfloor>)"

definition stripe_from_minor :: "jval \<Rightarrow> string \<Rightarrow> exn + rat" where
  "stripe_from_minor amount currency = from_minor (stripe_currency_exponent currency) amount"

section \<open>The account\<close>

definition stripe_init :: "string option \<Rightarrow> string option \<Rightarrow> exn + string" where
  "stripe_init endpoint key =
     provider_init [(''Cannot initialize StripeWallet: missing endpoint.'', endpoint),
       (''Cannot initialize StripeWallet: missing API secret key.'', key)] (the endpoint)"

definition stripe_connection_fields :: "string option \<Rightarrow> string option \<Rightarrow> string" where
  "stripe_connection_fields endpoint key = connection_fields [endpoint, key]"

text \<open>\<open>status\<close>; \<open>changed\<close> tells that the connection settings are not those of the construction.\<close>

definition stripe_status :: "fiat_client \<Rightarrow> bool \<Rightarrow> bool \<Rightarrow> (backend, fiat_status_response) py" where
  "stripe_status cl only_check_settings changed =
     (if only_check_settings then
        ret (if changed then \<lparr>fs_error = plain ''Connection settings have changed.'', fs_balance = JInt 0\<rparr>
             else \<lparr>fs_error = NoMessage, fs_balance = JInt 0\<rparr>)
      else tryP
        (bindP (http_get ''/v1/balance'') (\<lambda>r.
         thenP (raise_for_status r)
         (bindP (liftE (json_of r)) (\<lambda>data.
          bindP (liftE (get data ''available'')) (\<lambda>a.
          case or_else a (JList []) of
            JList l \<Rightarrow>
              (if l = [] then ret \<lparr>fs_error = NoMessage, fs_balance = JInt 0\<rparr>
               else bindP (liftE (get_or (hd l) ''amount'' (JInt 0))) (\<lambda>v.
                    bindP (liftE (int_of v)) (\<lambda>i. ret \<lparr>fs_error = NoMessage, fs_balance = JInt i\<rparr>)))
          | _ \<Rightarrow> ret \<lparr>fs_error = NoMessage, fs_balance = JInt 0\<rparr>)))))
        (\<lambda>e. ret \<lparr>fs_error = json_or_unreachable cl ''Server error: invalid json response'' e,
                  fs_balance = JInt 0\<rparr>))"

section \<open>Creating invoices\<close>

definition stripe_encode_metadata :: "fiat_client \<Rightarrow> string \<Rightarrow> dict \<Rightarrow> (string \<times> jval) list" where
  "stripe_encode_metadata cl prefix md =
     map (\<lambda>(k, v). (prefix @ ''['' @ k @ '']'', JStr (str_of cl (or_else v (JStr []))))) md"

text \<open>The metadata by which a payment is recognised: its hash, the amount and the currency.\<close>

definition stripe_metadata :: "fiat_client \<Rightarrow> dict \<Rightarrow> string \<Rightarrow> string \<Rightarrow> string \<Rightarrow> rat \<Rightarrow> string \<Rightarrow> dict" where
  "stripe_metadata cl md payment_hash k v amount currency =
     dset (dset (dset (dset md ''payment_hash'' (JStr payment_hash)) k (JStr v))
       ''lnbits_amount'' (JStr (str_of cl (JFloat amount)))) ''lnbits_currency'' (JStr (upper currency))"

definition stripe_checkout_form ::
  "fiat_client \<Rightarrow> int \<Rightarrow> rat \<Rightarrow> string \<Rightarrow> string \<Rightarrow> string option \<Rightarrow> stripe_checkout_options \<Rightarrow> (string \<times> jval) list" where
  "stripe_checkout_form cl amount_minor amount currency payment_hash memo co =
     [(''mode'', JStr ''payment''),
      (''success_url'', JStr (success_page cl (so_success_url co))),
      (''line_items[0][price_data][currency]'', JStr (lower currency)),
      (''line_items[0][price_data][product_data][name]'',
         JStr (the (orElse (orElse (so_line_item_name co) memo) (Some ''LNbits Invoice'')))),
      (''line_items[0][price_data][unit_amount]'', JStr (str_int amount_minor)),
      (''line_items[0][quantity]'', JStr ''1'')]
     @ stripe_encode_metadata cl ''metadata''
         (stripe_metadata cl (so_metadata co) payment_hash ''alan_action'' ''invoice'' amount currency)"

definition no_checkout :: stripe_checkout_options where
  "no_checkout = \<lparr>so_success_url = None, so_metadata = [], so_line_item_name = None\<rparr>"

definition no_terminal :: stripe_terminal_options where
  "no_terminal = \<lparr>to_capture_method = ''automatic'', to_metadata = [], to_reader_id = None\<rparr>"

definition stripe_create_checkout_invoice ::
  "fiat_client \<Rightarrow> int \<Rightarrow> rat \<Rightarrow> string \<Rightarrow> string \<Rightarrow> string option \<Rightarrow> stripe_checkout_options option
   \<Rightarrow> (backend, fiat_invoice) py" where
  "stripe_create_checkout_invoice cl amount_minor amount currency payment_hash memo opts =
     (let co = (case opts of None \<Rightarrow> no_checkout | Some o' \<Rightarrow> o') in
      tryP
        (bindP (http_post ''/v1/checkout/sessions''
                  (stripe_checkout_form cl amount_minor amount currency payment_hash memo co)) (\<lambda>r.
         thenP (raise_for_status r)
         (bindP (liftE (json_of r)) (\<lambda>data.
          bindP (liftE (get data ''id'')) (\<lambda>session_id.
          bindP (liftE (get data ''url'')) (\<lambda>url.
          ret (if \<not> truth session_id \<or> \<not> truth url then no_invoice (plain ''Server error: missing id or url'')
               else an_invoice session_id url)))))))
        (\<lambda>e. ret (no_invoice (json_or_unreachable cl ''Server error: invalid json response'' e))))"

definition stripe_process_terminal_payment_intent :: "fiat_client \<Rightarrow> string \<Rightarrow> jval \<Rightarrow> (backend, unit) py" where
  "stripe_process_terminal_payment_intent cl reader_id payment_intent_id =
     bindP (http_post (''/v1/terminal/readers/'' @ reader_id @ ''/process_payment_intent'')
              [(''payment_intent'', payment_intent_id)]) raise_for_status"

definition stripe_terminal_form ::
  "fiat_client \<Rightarrow> int \<Rightarrow> rat \<Rightarrow> string \<Rightarrow> string \<Rightarrow> stripe_terminal_options \<Rightarrow> (string \<times> jval) list" where
  "stripe_terminal_form cl amount_minor amount currency payment_hash term =
     foldl (\<lambda>d (k, v). dset d (''metadata['' @ k @ '']'') (JStr (str_of cl v)))
       [(''amount'', JStr (str_int amount_minor)), (''currency'', JStr (lower currency)),
        (''payment_method_types[]'', JStr ''card_present''), (''capture_method'', JStr (to_capture_method term))]
       (stripe_metadata cl (to_metadata term) payment_hash ''source'' ''lnbits'' amount currency)"

definition stripe_create_terminal_invoice ::
  "fiat_client \<Rightarrow> int \<Rightarrow> rat \<Rightarrow> string \<Rightarrow> string \<Rightarrow> stripe_terminal_options option \<Rightarrow> (backend, fiat_invoice) py" where
  "stripe_create_terminal_invoice cl amount_minor amount currency payment_hash opts =
     (let term = (case opts of None \<Rightarrow> no_terminal | Some o' \<Rightarrow> o') in
      tryP
        (bindP (http_post ''/v1/payment_intents''
                  (stripe_terminal_form cl amount_minor amount currency payment_hash term)) (\<lambda>r.
         thenP (raise_for_status r)
         (bindP (liftE (json_of r)) (\<lambda>data.
          bindP (liftE (get data ''id'')) (\<lambda>pi_id.
          bindP (liftE (get data ''client_secret'')) (\<lambda>client_secret.
          if \<not> truth pi_id \<or> \<not> truth client_secret
          then ret (no_invoice (plain ''Error: missing PaymentIntent or client_secret''))
          else
            let done = ret (an_invoice pi_id client_secret) in
            if truthy (to_reader_id term) then
              tryP (thenP (stripe_process_terminal_payment_intent cl (the (to_reader_id term)) pi_id) done)
                (\<lambda>e. ret (no_invoice (plain ''Error: unable to process PaymentIntent on reader'')))
            else done))))))
        (\<lambda>e. ret (no_invoice (json_or_unreachable cl ''Error: invalid json response'' e))))"

definition no_subscription_options :: subscription_options where
  "no_subscription_options = \<lparr>uo_checking_id = None, uo_payment_request = None\<rparr>"

definition stripe_create_subscription_invoice :: "fiat_client \<Rightarrow> subscription_options option \<Rightarrow> fiat_invoice" where
  "stripe_create_subscription_invoice cl opts =
     (let term = (case opts of None \<Rightarrow> no_subscription_options | Some o' \<Rightarrow> o') in
      an_invoice (JStr (the (orElse (uo_checking_id term) (Some (fc_fresh cl)))))
        (JStr (the (orElse (uo_payment_request term) (Some [])))))"

definition stripe_create_invoice ::
  "fiat_client \<Rightarrow> rat \<Rightarrow> string \<Rightarrow> string \<Rightarrow> string option \<Rightarrow> dict \<Rightarrow> (backend, fiat_invoice) py" where
  "stripe_create_invoice cl amount payment_hash currency memo extra =
     (case stripe_parse_create_opts cl extra of
        None \<Rightarrow> ret (no_invoice (plain ''Invalid Stripe options''))
      | Some opts \<Rightarrow>
          (case stripe_to_minor cl (JFloat amount) currency of
             Inl (ValueError m) \<Rightarrow> ret (no_invoice (plain m))
           | Inl e \<Rightarrow> throw e
           | Inr amount_minor \<Rightarrow>
               if st_fiat_method opts = ''checkout''
               then stripe_create_checkout_invoice cl amount_minor amount currency payment_hash memo (st_checkout opts)
               else if st_fiat_method opts = ''terminal''
               then stripe_create_terminal_invoice cl amount_minor amount currency payment_hash (st_terminal opts)
               else if st_fiat_method opts = ''subscription''
               then ret (stripe_create_subscription_invoice cl (st_subscription opts))
               else ret (no_invoice (Formatted ''Unsupported fiat_method: {}'' [JStr (st_fiat_method opts)]))))"

section \<open>Subscriptions\<close>

text \<open>\<open>payment_options.dict()\<close>: the fields in the order of the class.\<close>

definition options_dict :: "payment_options \<Rightarrow> dict" where
  "options_dict p =
     [(''memo'', jopt (po_memo p)), (''wallet_id'', jopt (po_wallet_id p)),
      (''subscription_request_id'', jopt (po_request_id p)), (''customer_email'', jopt (po_customer_email p)),
      (''tag'', jopt (po_tag p)), (''extra'', case po_extra p of None \<Rightarrow> JNull | Some d \<Rightarrow> JObj d),
      (''success_url'', jopt (po_success_url p))]"

definition stripe_subscription_form :: "fiat_client \<Rightarrow> string \<Rightarrow> int \<Rightarrow> payment_options \<Rightarrow> (string \<times> jval) list" where
  "stripe_subscription_form cl subscription_id quantity p =
     [(''mode'', JStr ''subscription''),
      (''success_url'', JStr (success_page cl (po_success_url p))),
      (''line_items[0][price]'', JStr subscription_id),
      (''line_items[0][quantity]'', JStr (str_int quantity))]
     @ stripe_encode_metadata cl ''subscription_data[metadata]''
         (dset (dset (options_dict p) ''alan_action'' (JStr ''subscription''))
            ''extra'' (JStr (json_dumps (JObj (extra_or_empty p)))))"

definition stripe_create_subscription ::
  "fiat_client \<Rightarrow> string \<Rightarrow> int \<Rightarrow> payment_options \<Rightarrow> (backend, fiat_subscription) py" where
  "stripe_create_subscription cl subscription_id quantity p0 =
     (let p = with_request_id cl p0 in
      tryP
        (bindP (http_post ''/v1/checkout/sessions'' (stripe_subscription_form cl subscription_id quantity p)) (\<lambda>r.
         thenP (raise_for_status r)
         (bindP (liftE (json_of r)) (\<lambda>data.
          bindP (liftE (get data ''url'')) (\<lambda>url.
          if \<not> truth url then ret (no_subscription (plain ''Server error: missing url''))
          else liftE (made_subscription cl url (jopt (po_request_id p))))))))
        (\<lambda>e. ret (no_subscription (json_or_unreachable cl ''Server error: invalid json response'' e))))"

text \<open>The parameters of the search are part of its address; \<open>client.delete\<close>.\<close>

definition stripe_search :: "string \<Rightarrow> string \<Rightarrow> string" where
  "stripe_search correlation_id subscription_id =
     ''metadata['' @ [CHR 0x27] @ ''wallet_id'' @ [CHR 0x27] @ '']:'' @ [CHR 0x27] @ correlation_id @ [CHR 0x27]
       @ '' AND metadata['' @ [CHR 0x27] @ ''subscription_request_id'' @ [CHR 0x27] @ '']:'' @ [CHR 0x27]
       @ subscription_id @ [CHR 0x27]"

definition stripe_cancel_subscription :: "fiat_client \<Rightarrow> string \<Rightarrow> string \<Rightarrow> (backend, fiat_subscription) py" where
  "stripe_cancel_subscription cl subscription_id correlation_id =
     tryP
       (bindP (send ''GET'' ''/v1/subscriptions/search''
                 (JObj [(''query'', JStr (stripe_search correlation_id subscription_id))])) (\<lambda>r.
        thenP (raise_for_status r)
        (bindP (liftE (json_of r)) (\<lambda>result.
         bindP (liftE (get result ''data'')) (\<lambda>d0.
         let data = or_else d0 (JList []) in
         if \<not> truth data then ret (no_subscription (plain ''Subscription not found.''))
         else
           bindP (liftE (first_item data)) (\<lambda>subscription.
           bindP (liftE (get subscription ''id'')) (\<lambda>i.
           if \<not> truth i then ret (no_subscription (plain ''Subscription ID not found.''))
           else bindP (send ''DELETE'' (''/v1/subscriptions/'' @ str_of cl i) JNull) (\<lambda>r2.
                thenP (raise_for_status r2) (ret (a_subscription JNull JNull))))))))))
       (\<lambda>e. ret (no_subscription (plain ''Unable to un subscribe.'')))"

definition stripe_create_terminal_connection_token :: "(backend, jval) py" where
  "stripe_create_terminal_connection_token =
     bindP (send ''POST'' ''/v1/terminal/connection_tokens'' JNull) (\<lambda>r.
     thenP (raise_for_status r) (liftE (json_of r)))"

section \<open>The status of an invoice\<close>

definition stripe_status_from_checkout_session :: "fiat_client \<Rightarrow> jval \<Rightarrow> exn + fiat_payment_status" where
  "stripe_status_from_checkout_session cl data =
     and_then (get data ''payment_status'') (\<lambda>st.
     if st = JStr ''paid'' then Inr fiat_paid
     else
       and_then (get data ''expires_at'') (\<lambda>x.
       if \<not> truth x then Inr fiat_pending
       else and_then (float_of x) (\<lambda>expires_at.
            Inr (if expires_at < fsub (fc_now cl) 86400 then fiat_failed else fiat_pending))))"

definition stripe_status_from_payment_intent :: "fiat_client \<Rightarrow> jval \<Rightarrow> exn + fiat_payment_status" where
  "stripe_status_from_payment_intent cl data =
     and_then (get data ''status'') (\<lambda>st.
     if st = JStr ''succeeded'' then Inr fiat_paid
     else if st \<in> {JStr ''canceled'', JStr ''payment_failed''} then Inr fiat_failed
     else if st = JStr ''requires_payment_method'' then
       and_then (get data ''last_payment_error'') (\<lambda>err.
       if truth err then Inr fiat_failed
       else and_then (get data ''created'') (\<lambda>c.
            and_then (float_of (or_else c (JFloat (fc_now cl)))) (\<lambda>created.
            Inr (if fsub (fc_now cl) created > 300 then fiat_failed else fiat_pending))))
     else Inr fiat_pending)"

definition stripe_status_from_invoice :: "jval \<Rightarrow> exn + fiat_payment_status" where
  "stripe_status_from_invoice data =
     and_then (get data ''status'') (\<lambda>st.
     Inr (if st = JStr ''paid'' then fiat_paid
          else if st \<in> {JStr ''uncollectible'', JStr ''void''} then fiat_failed else fiat_pending))"

text \<open>\<open>expected_currency.upper()\<close> is reached only with a text: \<open>amount_to_minor_units\<close> has applied \<open>upper\<close> before.\<close>

definition stripe_amount_matches :: "fiat_client \<Rightarrow> jval \<Rightarrow> string \<Rightarrow> exn + bool" where
  "stripe_amount_matches cl data amount_field =
     and_then (get data ''metadata'') (\<lambda>m.
     let metadata = or_else m (JObj []) in
     and_then (get metadata ''lnbits_amount'') (\<lambda>expected_amount.
     and_then (get metadata ''lnbits_currency'') (\<lambda>expected_currency.
     if expected_amount = JNull \<or> \<not> truth expected_currency then Inr False
     else
       and_then (get data amount_field) (\<lambda>actual_amount.
       and_then (get data ''currency'') (\<lambda>actual_currency.
       if actual_amount = JNull \<or> \<not> truth actual_currency then Inr False
       else
         (case expected_currency of
            JStr currency \<Rightarrow>
              and_then (stripe_to_minor cl expected_amount currency) (\<lambda>expected_minor.
              and_then (int_of actual_amount) (\<lambda>actual.
              Inr (actual = expected_minor \<and> upper (str_of cl actual_currency) = upper currency)))
          | _ \<Rightarrow> Inl AttributeError))))))"

text \<open>One branch of the function per kind of object: its address, its reading, the field that holds the amount
  and whether that is compared.\<close>

definition stripe_object ::
  "fiat_client \<Rightarrow> string \<Rightarrow> (string \<times> (jval \<Rightarrow> exn + fiat_payment_status) \<times> string \<times> bool) option" where
  "stripe_object cl stripe_id =
     (if startswith stripe_id ''cs_'' then
        Some (''/v1/checkout/sessions/'' @ stripe_id, stripe_status_from_checkout_session cl, ''amount_total'', True)
      else if startswith stripe_id ''pi_'' then
        Some (''/v1/payment_intents/'' @ stripe_id, stripe_status_from_payment_intent cl, ''amount_received'', True)
      else if startswith stripe_id ''in_'' then
        Some (''/v1/invoices/'' @ stripe_id, stripe_status_from_invoice, ''amount_paid'', False)
      else None)"

definition stripe_get_invoice_status :: "fiat_client \<Rightarrow> string \<Rightarrow> (backend, fiat_payment_status) py" where
  "stripe_get_invoice_status cl checking_id =
     (case stripe_object cl (drop_prefix ''fiat_stripe_'' checking_id) of
        None \<Rightarrow> ret fiat_pending
      | Some (url, reading, amount_field, verify_amount) \<Rightarrow>
          tryP
            (bindP (http_get url) (\<lambda>r.
             thenP (raise_for_status r)
             (bindP (liftE (json_of r)) (\<lambda>data.
              bindP (liftE (reading data)) (\<lambda>st.
              if fiat_success st \<and> verify_amount then
                bindP (liftE (stripe_amount_matches cl data amount_field)) (\<lambda>ok.
                ret (if ok then st else fiat_pending))
              else ret st)))))
            (\<lambda>e. ret fiat_pending))"

section \<open>What a Stripe status is based on\<close>

definition stripe_word :: "string \<Rightarrow> string \<times> string" where
  "stripe_word stripe_id =
     (if startswith stripe_id ''cs_'' then (''payment_status'', ''paid'')
      else if startswith stripe_id ''pi_'' then (''status'', ''succeeded'') else (''status'', ''paid''))"

definition stripe_receipt :: "fiat_client \<Rightarrow> string \<Rightarrow> string \<Rightarrow> bool \<Rightarrow> reply \<Rightarrow> bool" where
  "stripe_receipt cl stripe_id amount_field verify_amount r \<longleftrightarrow>
     (case rp_json r of None \<Rightarrow> False
      | Some data \<Rightarrow> path data [fst (stripe_word stripe_id)] = Some (JStr (snd (stripe_word stripe_id)))
          \<and> (verify_amount \<longrightarrow> stripe_amount_matches cl data amount_field = Inr True))"

definition stripe_evidence :: "fiat_client \<Rightarrow> string \<Rightarrow> (request \<times> answer) list \<Rightarrow> bool" where
  "stripe_evidence cl checking_id xs \<longleftrightarrow>
     (let i = drop_prefix ''fiat_stripe_'' checking_id in
      case stripe_object cl i of None \<Rightarrow> False
      | Some (url, reading, amount_field, verify_amount) \<Rightarrow>
          got xs ''GET'' url (stripe_receipt cl i amount_field verify_amount))"

lemma stripe_reading:
  assumes "stripe_object cl i = Some (url, reading, amount_field, verify_amount)"
    and "reading data = Inr st" "fiat_success st"
  shows "path data [fst (stripe_word i)] = Some (JStr (snd (stripe_word i)))"
  using assms
  by (auto simp: stripe_object_def stripe_word_def stripe_status_from_checkout_session_def
      stripe_status_from_payment_intent_def stripe_status_from_invoice_def json
      split: if_splits option.splits)

interpretation stripe_queries: fiat_queries "stripe_get_invoice_status cl" "\<lambda>s. s" "stripe_evidence cl" for cl
proof
  fix c s
  show "wp (stripe_get_invoice_status cl c)
      (\<lambda>st t. (fiat_success st \<longrightarrow> stripe_evidence cl c (exchanged s t)) \<and> bk_sent t = bk_sent s @ exchanged s t)
      (\<lambda>e t. False) s"
    by (auto simp: stripe_get_invoice_status_def stripe_evidence_def Let_def exchanged_def stripe_receipt_def
        wp_rule wp_http json stripe_reading split: option.splits)
next
  show "stripe_evidence cl c xs \<Longrightarrow> set xs \<subseteq> set ys \<Longrightarrow> stripe_evidence cl c ys" for c xs ys
    by (auto simp: stripe_evidence_def Let_def got_mono split: option.splits)
qed

text \<open>What the comparison of amounts compares.\<close>

lemma stripe_amount_matches_True:
  assumes "stripe_amount_matches cl data amount_field = Inr True"
  shows "\<exists>m amount currency n actual unit.
        path data [''metadata''] = Some m
        \<and> path m [''lnbits_amount''] = Some amount \<and> path m [''lnbits_currency''] = Some (JStr currency)
        \<and> path data [amount_field] = Some actual \<and> path data [''currency''] = Some unit
        \<and> stripe_to_minor cl amount currency = Inr n \<and> int_of actual = Inr n
        \<and> upper (str_of cl unit) = upper currency"
  using assms
  by (auto simp: stripe_amount_matches_def Let_def json or_else_def dget_def path_one
      split: option.splits if_splits jval.splits)

end
