(* ===== verification/PayPalProvider.thy ===== *)
theory PayPalProvider
  imports StripeProvider
begin

text \<open>
  \<open>lnbits/fiat/paypal.py\<close>: orders, subscriptions, captures and the access token. The token and its expiry are
  attributes of the provider; with the HTTP client they make up the state \<open>network\<close>, on which the operations
  of the other providers act through \<open>on_http\<close>.
\<close>

section \<open>State\<close>

record network =
  nw_http :: backend
  nw_token :: jval
  nw_expires :: rat

definition on_http :: "(backend, 'a) py \<Rightarrow> (network, 'a) py" where
  "on_http m s = (case m (nw_http s) of (r, b) \<Rightarrow> (r, s\<lparr>nw_http := b\<rparr>))"

section \<open>Options\<close>

record paypal_checkout_options =
  pc_success_url :: "string option"
  pc_cancel_url :: "string option"
  pc_metadata :: dict

record paypal_options =
  pl_fiat_method :: string
  pl_checkout :: "paypal_checkout_options option"
  pl_subscription :: "subscription_options option"

definition paypal_checkout_of :: "fiat_client \<Rightarrow> dict \<Rightarrow> exn + paypal_checkout_options" where
  "paypal_checkout_of cl d =
     and_then (str_field cl d ''success_url'') (\<lambda>u.
     and_then (str_field cl d ''cancel_url'') (\<lambda>c.
     and_then (dict_field cl Inr d ''metadata'') (\<lambda>md.
     Inr \<lparr>pc_success_url = u, pc_cancel_url = c, pc_metadata = md\<rparr>)))"

definition no_paypal_checkout :: paypal_checkout_options where
  "no_paypal_checkout = \<lparr>pc_success_url = None, pc_cancel_url = None, pc_metadata = []\<rparr>"

definition paypal_parse_create_opts :: "fiat_client \<Rightarrow> dict \<Rightarrow> paypal_options option" where
  "paypal_parse_create_opts cl d =
     (case and_then (literal_field [''checkout'', ''subscription''] ''checkout'' d ''fiat_method'') (\<lambda>m.
           and_then (model_field (paypal_checkout_of cl) d ''checkout'') (\<lambda>c.
           and_then (model_field (subscription_options_of cl) d ''subscription'') (\<lambda>s.
           Inr \<lparr>pl_fiat_method = m, pl_checkout = c, pl_subscription = s\<rparr>))) of
        Inl e \<Rightarrow> None
      | Inr opts \<Rightarrow> Some opts)"

section \<open>The access token\<close>

definition paypal_init :: "string option \<Rightarrow> string option \<Rightarrow> string option \<Rightarrow> exn + string" where
  "paypal_init endpoint client_id client_secret =
     provider_init [(''Cannot initialize PayPalWallet: missing endpoint.'', endpoint),
       (''Cannot initialize PayPalWallet: missing client id.'', client_id),
       (''Cannot initialize PayPalWallet: missing client secret.'', client_secret)] (the endpoint)"

definition paypal_connection_fields ::
  "string option \<Rightarrow> string option \<Rightarrow> string option \<Rightarrow> string option \<Rightarrow> string" where
  "paypal_connection_fields endpoint client_id client_secret webhook_id =
     connection_fields [endpoint, client_id, client_secret, webhook_id]"

definition paypal_ensure_access_token :: "fiat_client \<Rightarrow> (network, unit) py" where
  "paypal_ensure_access_token cl =
     bindP (gets (\<lambda>s. truth (nw_token s) \<and> fc_now cl < nw_expires s)) (\<lambda>valid.
     if valid then ret ()
     else
       bindP (on_http (http_post ''/v1/oauth2/token'' [(''grant_type'', JStr ''client_credentials'')])) (\<lambda>r.
       thenP (on_http (raise_for_status r))
       (bindP (liftE (json_of r)) (\<lambda>data.
        bindP (liftE (get data ''access_token'')) (\<lambda>token.
        bindP (liftE (get data ''expires_in'')) (\<lambda>x.
        bindP (liftE (int_of (or_else x (JInt 300)))) (\<lambda>expires_in.
        thenP (failIf (\<not> truth token) (ValueError ''Unable to retrieve PayPal access token.''))
        (modify (\<lambda>s. s\<lparr>nw_token := token,
           nw_expires := fsub (fadd (fc_now cl) (to_float expires_in)) 30\<rparr>)))))))))"

definition paypal_status :: "fiat_client \<Rightarrow> bool \<Rightarrow> bool \<Rightarrow> (network, fiat_status_response) py" where
  "paypal_status cl only_check_settings changed =
     (if only_check_settings then
        ret (if changed then \<lparr>fs_error = plain ''Connection settings have changed.'', fs_balance = JInt 0\<rparr>
             else \<lparr>fs_error = NoMessage, fs_balance = JInt 0\<rparr>)
      else tryP (thenP (paypal_ensure_access_token cl) (ret \<lparr>fs_error = NoMessage, fs_balance = JInt 0\<rparr>))
             (\<lambda>e. ret \<lparr>fs_error = fiat_unreachable cl, fs_balance = JInt 0\<rparr>))"

section \<open>Orders\<close>

text \<open>The loop over the links of an answer.\<close>

fun approval_url :: "jval list \<Rightarrow> exn + jval" where
  "approval_url [] = Inr JNull"
| "approval_url (l # ls) =
     and_then (get l ''rel'') (\<lambda>rel. if rel = JStr ''approve'' then get l ''href'' else approval_url ls)"

definition paypal_get_approval_url :: "jval \<Rightarrow> exn + jval" where
  "paypal_get_approval_url data =
     and_then (get data ''links'') (\<lambda>links. and_then (elements (or_else links (JList []))) approval_url)"

definition paypal_order :: "fiat_client \<Rightarrow> rat \<Rightarrow> string \<Rightarrow> string \<Rightarrow> string option \<Rightarrow> paypal_checkout_options \<Rightarrow> dict" where
  "paypal_order cl amount payment_hash currency memo co =
     (let success_url = success_page cl (pc_success_url co);
          cancel_url = the (orElse (pc_cancel_url co) (Some success_url)) in
      [(''intent'', JStr ''CAPTURE''),
       (''purchase_units'', JList [JObj
          [(''amount'', JObj [(''currency_code'', JStr (upper currency)), (''value'', JStr (fixed2 amount))]),
           (''custom_id'', JStr (take 127 payment_hash)), (''invoice_id'', JStr (take 127 payment_hash)),
           (''description'', JStr (the (orElse memo (Some ''LNbits Invoice''))))]]),
       (''application_context'', JObj
          [(''return_url'', JStr success_url), (''cancel_url'', JStr cancel_url),
           (''shipping_preference'', JStr ''NO_SHIPPING''), (''user_action'', JStr ''PAY_NOW'')])])"

definition paypal_create_invoice ::
  "fiat_client \<Rightarrow> rat \<Rightarrow> string \<Rightarrow> string \<Rightarrow> string option \<Rightarrow> dict \<Rightarrow> (network, fiat_invoice) py" where
  "paypal_create_invoice cl amount payment_hash currency memo extra =
     (case paypal_parse_create_opts cl extra of
        None \<Rightarrow> ret (no_invoice (plain ''Invalid PayPal options''))
      | Some opts \<Rightarrow>
          if pl_fiat_method opts = ''subscription'' then
            let term = (case pl_subscription opts of None \<Rightarrow> no_subscription_options | Some o' \<Rightarrow> o') in
            ret (an_invoice (JStr (''subscription_'' @ the (orElse (uo_checking_id term) (Some (fc_fresh cl)))))
                   (JStr (the (orElse (uo_payment_request term) (Some [])))))
          else
            bindP (tryP (thenP (paypal_ensure_access_token cl) (ret True)) (\<lambda>e. ret False)) (\<lambda>ok.
            if \<not> ok then ret (no_invoice (plain ''Unable to authenticate.''))
            else
              let co = (case pl_checkout opts of None \<Rightarrow> no_paypal_checkout | Some o' \<Rightarrow> o') in
              tryP
                (bindP (on_http (http_post ''/v2/checkout/orders''
                          (paypal_order cl amount payment_hash currency memo co))) (\<lambda>r.
                 thenP (on_http (raise_for_status r))
                 (bindP (liftE (json_of r)) (\<lambda>data.
                  bindP (liftE (get data ''id'')) (\<lambda>order_id.
                  bindP (liftE (paypal_get_approval_url data)) (\<lambda>url.
                  ret (if \<not> truth order_id \<or> \<not> truth url
                       then no_invoice (plain ''Server error: missing id or approval url'')
                       else an_invoice (JStr (''fiat_paypal_'' @ str_of cl order_id)) url)))))))
                (\<lambda>e. ret (no_invoice (fiat_unreachable cl)))))"

section \<open>The status of an invoice\<close>

text \<open>The captures of all purchase units, and \<open>all\<close> and \<open>any\<close> over their states: both stop at the first answer
  they find and pass an exception on.\<close>

fun unit_captures :: "jval list \<Rightarrow> exn + jval list" where
  "unit_captures [] = Inr []"
| "unit_captures (u # us) =
     and_then (get u ''payments'') (\<lambda>p.
     and_then (get (or_else p (JObj [])) ''captures'') (\<lambda>c.
     and_then (elements (or_else c (JList []))) (\<lambda>cs.
     and_then (unit_captures us) (\<lambda>rest. Inr (cs @ rest)))))"

fun all_upper :: "string set \<Rightarrow> jval list \<Rightarrow> exn + bool" where
  "all_upper W [] = Inr True"
| "all_upper W (c # cs) = and_then (get_upper c ''status'') (\<lambda>s. if s \<in> W then all_upper W cs else Inr False)"

fun any_upper :: "string set \<Rightarrow> jval list \<Rightarrow> exn + bool" where
  "any_upper W [] = Inr False"
| "any_upper W (c # cs) = and_then (get_upper c ''status'') (\<lambda>s. if s \<in> W then Inr True else any_upper W cs)"

definition paypal_status_from_order :: "jval \<Rightarrow> exn + fiat_payment_status" where
  "paypal_status_from_order order =
     and_then (get_upper order ''status'') (\<lambda>st.
     if st \<in> {''VOIDED'', ''CANCELLED'', ''CANCELED''} then Inr fiat_failed
     else if st \<noteq> ''COMPLETED'' then Inr fiat_pending
     else
       and_then (get order ''purchase_units'') (\<lambda>u.
       and_then (elements (or_else u (JList []))) (\<lambda>units.
       and_then (unit_captures units) (\<lambda>captures.
       and_then (if captures = [] then Inr False else all_upper {''COMPLETED''} captures) (\<lambda>paid.
       if paid then Inr fiat_paid
       else and_then (any_upper {''DECLINED'', ''FAILED''} captures) (\<lambda>failed.
            Inr (if failed then fiat_failed else fiat_pending)))))))"

definition paypal_status_from_capture :: "jval \<Rightarrow> exn + fiat_payment_status" where
  "paypal_status_from_capture order =
     and_then (get_upper order ''status'') (\<lambda>st.
     Inr (if st = ''COMPLETED'' then fiat_paid
          else if st \<in> {''DECLINED'', ''FAILED'', ''CANCELLED'', ''CANCELED''} then fiat_failed else fiat_pending))"

text \<open>An approved order is captured by the query itself.\<close>

definition paypal_get_invoice_status :: "fiat_client \<Rightarrow> string \<Rightarrow> (network, fiat_payment_status) py" where
  "paypal_get_invoice_status cl checking_id =
     tryP
       (thenP (paypal_ensure_access_token cl)
        (let paypal_id = drop_prefix ''fiat_paypal_'' checking_id in
         if startswith paypal_id ''subscription_'' then
           bindP (on_http (http_get (''v2/payments/captures/'' @ drop_prefix ''subscription_'' paypal_id))) (\<lambda>r.
           thenP (on_http (raise_for_status r))
           (bindP (liftE (json_of r)) (\<lambda>v. liftE (paypal_status_from_capture v))))
         else
           bindP (on_http (http_get (''/v2/checkout/orders/'' @ paypal_id))) (\<lambda>r.
           thenP (on_http (raise_for_status r))
           (bindP (liftE (json_of r)) (\<lambda>order.
            bindP (liftE (get_upper order ''status'')) (\<lambda>st.
            if st = ''APPROVED'' then
              bindP (on_http (http_post (''/v2/checkout/orders/'' @ paypal_id @ ''/capture'') [])) (\<lambda>r2.
              thenP (on_http (raise_for_status r2))
              (bindP (liftE (json_of r2)) (\<lambda>order2. liftE (paypal_status_from_order order2))))
            else liftE (paypal_status_from_order order)))))))
       (\<lambda>e. ret fiat_pending)"

section \<open>Subscriptions\<close>

text \<open>The metadata of a subscription is kept in the \<open>custom_id\<close>, which PayPal limits to 127 characters.\<close>

definition paypal_serialize_metadata :: "payment_options \<Rightarrow> string" where
  "paypal_serialize_metadata p =
     (let meta = [jopt (po_wallet_id p), jopt (po_tag p), jopt (po_request_id p)]
                 @ (if extra_or_empty p = [] then []
                    else [case dget (extra_or_empty p) ''link'' of None \<Rightarrow> JNull | Some v \<Rightarrow> v]);
          memo_limit = 120 - int (length (json_dumps (JList meta)));
          meta = (if memo_limit > 0 \<and> truthy (po_memo p)
                  then meta @ [JStr (take (nat memo_limit) (the (po_memo p)))] else meta)
      in json_dumps (JList meta))"

definition paypal_create_subscription ::
  "fiat_client \<Rightarrow> string \<Rightarrow> int \<Rightarrow> payment_options \<Rightarrow> (network, fiat_subscription) py" where
  "paypal_create_subscription cl subscription_id quantity p0 =
     (let success_url = success_page cl (po_success_url p0); p = with_request_id cl p0 in
      tryP
        (thenP (paypal_ensure_access_token cl)
         (bindP (on_http (http_post ''/v1/billing/subscriptions''
            [(''plan_id'', JStr subscription_id), (''custom_id'', JStr (paypal_serialize_metadata p)),
             (''application_context'', JObj [(''return_url'', JStr success_url), (''cancel_url'', JStr success_url)])])) (\<lambda>r.
          thenP (on_http (raise_for_status r))
          (bindP (liftE (json_of r)) (\<lambda>data.
           bindP (liftE (paypal_get_approval_url data)) (\<lambda>url.
           if \<not> truth url then ret (no_subscription (plain ''Server error: missing approval url''))
           else bindP (liftE (get data ''id'')) (\<lambda>i. liftE (made_subscription cl url i))))))))
        (\<lambda>e. ret (no_subscription (fiat_unreachable cl))))"

definition paypal_cancel_subscription :: "fiat_client \<Rightarrow> string \<Rightarrow> string \<Rightarrow> (network, fiat_subscription) py" where
  "paypal_cancel_subscription cl subscription_id correlation_id =
     tryP
       (thenP (paypal_ensure_access_token cl)
        (bindP (on_http (http_post (''/v1/billing/subscriptions/'' @ subscription_id @ ''/cancel'')
                  [(''reason'', JStr (''Cancelled by '' @ correlation_id))])) (\<lambda>r.
         thenP (on_http (raise_for_status r)) (ret (a_subscription JNull JNull)))))
       (\<lambda>e. ret (no_subscription (plain ''Unable to cancel subscription.'')))"

section \<open>What a PayPal status is based on\<close>

lemma wp_on_http [wp_rule]:
  "wp (on_http m) Q E s \<longleftrightarrow> wp m (\<lambda>a b. Q a (s\<lparr>nw_http := b\<rparr>)) (\<lambda>e b. E e (s\<lparr>nw_http := b\<rparr>)) (nw_http s)"
  by (simp add: wp_def on_http_def split: prod.split sum.split)

text \<open>A completed order has captures, and all of them are completed.\<close>

definition paypal_order_paid :: "reply \<Rightarrow> bool" where
  "paypal_order_paid r \<longleftrightarrow>
     (\<exists>order units captures. rp_json r = Some order \<and> get_upper order ''status'' = Inr ''COMPLETED''
        \<and> unit_captures units = Inr captures \<and> captures \<noteq> []
        \<and> (\<exists>u. get order ''purchase_units'' = Inr u \<and> elements (or_else u (JList [])) = Inr units)
        \<and> (\<forall>c \<in> set captures. get_upper c ''status'' = Inr ''COMPLETED''))"

definition paypal_capture_paid :: "reply \<Rightarrow> bool" where
  "paypal_capture_paid r \<longleftrightarrow> (\<exists>v. rp_json r = Some v \<and> get_upper v ''status'' = Inr ''COMPLETED'')"

definition paypal_evidence :: "string \<Rightarrow> (request \<times> answer) list \<Rightarrow> bool" where
  "paypal_evidence checking_id xs \<longleftrightarrow>
     (let i = drop_prefix ''fiat_paypal_'' checking_id in
      if startswith i ''subscription_''
      then got xs ''GET'' (''v2/payments/captures/'' @ drop_prefix ''subscription_'' i) paypal_capture_paid
      else got xs ''GET'' (''/v2/checkout/orders/'' @ i) paypal_order_paid
         \<or> got xs ''POST'' (''/v2/checkout/orders/'' @ i @ ''/capture'') paypal_order_paid)"

lemma all_upper_True: "all_upper W cs = Inr True \<longleftrightarrow> (\<forall>c \<in> set cs. \<exists>s \<in> W. get_upper c ''status'' = Inr s)"
  by (induction cs) (auto simp: json)

lemma paypal_order_success:
  "paypal_status_from_order order = Inr st \<Longrightarrow> fiat_success st \<Longrightarrow> rp_json r = Some order \<Longrightarrow> paypal_order_paid r"
  by (auto simp: paypal_status_from_order_def paypal_order_paid_def json all_upper_True split: if_splits)

lemma paypal_capture_success:
  "paypal_status_from_capture v = Inr st \<Longrightarrow> fiat_success st \<Longrightarrow> rp_json r = Some v \<Longrightarrow> paypal_capture_paid r"
  by (auto simp: paypal_status_from_capture_def paypal_capture_paid_def json split: if_splits)

interpretation paypal_queries: fiat_queries "paypal_get_invoice_status cl" nw_http paypal_evidence for cl
proof
  fix c s
  show "wp (paypal_get_invoice_status cl c)
      (\<lambda>st t. (fiat_success st \<longrightarrow> paypal_evidence c (exchanged (nw_http s) (nw_http t)))
         \<and> bk_sent (nw_http t) = bk_sent (nw_http s) @ exchanged (nw_http s) (nw_http t))
      (\<lambda>e t. False) s"
    by (auto simp: paypal_get_invoice_status_def paypal_ensure_access_token_def paypal_evidence_def Let_def
        exchanged_def wp_rule wp_http json paypal_order_success paypal_capture_success)
next
  show "paypal_evidence c xs \<Longrightarrow> set xs \<subseteq> set ys \<Longrightarrow> paypal_evidence c ys" for c xs ys
    by (auto simp: paypal_evidence_def Let_def split: if_splits intro: got_mono)
qed

end
