(* ===== verification/SquareProvider.thy ===== *)
theory SquareProvider
  imports PayPalProvider
begin

text \<open>\<open>lnbits/fiat/square.py\<close>: payment links, orders, payments and the price of a subscription plan.\<close>

section \<open>Options\<close>

record square_checkout_options =
  qo_success_url :: "string option"
  qo_metadata :: dict
  qo_line_item_name :: "string option"

record square_options =
  sq_fiat_method :: string
  sq_checkout :: "square_checkout_options option"
  sq_subscription :: "subscription_options option"

definition square_checkout_of :: "fiat_client \<Rightarrow> dict \<Rightarrow> exn + square_checkout_options" where
  "square_checkout_of cl d =
     and_then (str_field cl d ''success_url'') (\<lambda>u.
     and_then (dict_field cl (text_value cl) d ''metadata'') (\<lambda>md.
     and_then (str_field cl d ''line_item_name'') (\<lambda>n.
     Inr \<lparr>qo_success_url = u, qo_metadata = md, qo_line_item_name = n\<rparr>)))"

definition no_square_checkout :: square_checkout_options where
  "no_square_checkout = \<lparr>qo_success_url = None, qo_metadata = [], qo_line_item_name = None\<rparr>"

definition square_parse_create_opts :: "fiat_client \<Rightarrow> dict \<Rightarrow> square_options option" where
  "square_parse_create_opts cl d =
     (case and_then (literal_field [''checkout'', ''subscription''] ''checkout'' d ''fiat_method'') (\<lambda>m.
           and_then (model_field (square_checkout_of cl) d ''checkout'') (\<lambda>c.
           and_then (model_field (subscription_options_of cl) d ''subscription'') (\<lambda>s.
           Inr \<lparr>sq_fiat_method = m, sq_checkout = c, sq_subscription = s\<rparr>))) of
        Inl e \<Rightarrow> None
      | Inr opts \<Rightarrow> Some opts)"

section \<open>The account\<close>

definition square_init :: "string option \<Rightarrow> string option \<Rightarrow> string option \<Rightarrow> exn + string" where
  "square_init endpoint access_token location_id =
     provider_init [(''Cannot initialize SquareWallet: missing endpoint.'', endpoint),
       (''Cannot initialize SquareWallet: missing access token.'', access_token),
       (''Cannot initialize SquareWallet: missing location ID.'', location_id)] (the endpoint)"

definition square_connection_fields ::
  "string option \<Rightarrow> string option \<Rightarrow> string option \<Rightarrow> string option \<Rightarrow> string" where
  "square_connection_fields endpoint access_token location_id api_version =
     connection_fields [endpoint, access_token, location_id, api_version]"

definition square_status :: "fiat_client \<Rightarrow> bool \<Rightarrow> bool \<Rightarrow> (backend, fiat_status_response) py" where
  "square_status cl only_check_settings changed =
     (if only_check_settings then
        ret (if changed then \<lparr>fs_error = plain ''Connection settings have changed.'', fs_balance = JInt 0\<rparr>
             else \<lparr>fs_error = NoMessage, fs_balance = JInt 0\<rparr>)
      else tryP
        (bindP (http_get (''/v2/locations/'' @ fc_location cl)) (\<lambda>r.
         thenP (raise_for_status r)
         (bindP (liftE (json_of r)) (\<lambda>v. ret \<lparr>fs_error = NoMessage, fs_balance = JInt 0\<rparr>))))
        (\<lambda>e. ret \<lparr>fs_error = json_or_unreachable cl ''Server error: invalid json response'' e,
                  fs_balance = JInt 0\<rparr>))"

section \<open>Creating invoices\<close>

definition square_cents :: "rat \<Rightarrow> int" where
  "square_cents amount = py_trunc (fmul amount 100)"

definition square_link ::
  "fiat_client \<Rightarrow> rat \<Rightarrow> string \<Rightarrow> string \<Rightarrow> string option \<Rightarrow> square_checkout_options \<Rightarrow> dict" where
  "square_link cl amount payment_hash currency memo co =
     [(''idempotency_key'', JStr payment_hash),
      (''order'', JObj
         [(''location_id'', JStr (fc_location cl)),
          (''metadata'', JObj (dset (dset (qo_metadata co) ''payment_hash'' (JStr payment_hash))
                                 ''alan_action'' (JStr ''invoice''))),
          (''line_items'', JList [JObj
             [(''name'', JStr (take 255 (the (orElse (orElse (qo_line_item_name co) memo) (Some ''LNbits Invoice''))))),
              (''quantity'', JStr ''1''),
              (''base_price_money'', JObj
                 [(''amount'', JInt (square_cents amount)), (''currency'', JStr (upper currency))])]])]),
      (''checkout_options'', JObj [(''redirect_url'', JStr (success_page cl (qo_success_url co)))])]
     @ (if truthy memo then [(''payment_note'', JStr (take 500 (the memo)))] else [])"

definition square_create_checkout_invoice ::
  "fiat_client \<Rightarrow> rat \<Rightarrow> string \<Rightarrow> string \<Rightarrow> square_options \<Rightarrow> string option \<Rightarrow> (backend, fiat_invoice) py" where
  "square_create_checkout_invoice cl amount payment_hash currency opts memo =
     (let co = (case sq_checkout opts of None \<Rightarrow> no_square_checkout | Some o' \<Rightarrow> o') in
      tryP
        (bindP (http_post ''/v2/online-checkout/payment-links''
                  (square_link cl amount payment_hash currency memo co)) (\<lambda>r.
         thenP (raise_for_status r)
         (bindP (liftE (json_of r)) (\<lambda>data.
          bindP (liftE (get data ''payment_link'')) (\<lambda>l.
          let payment_link = or_else l (JObj []) in
          bindP (liftE (get payment_link ''order_id'')) (\<lambda>order_id.
          bindP (liftE (get payment_link ''url'')) (\<lambda>url.
          ret (if \<not> truth order_id \<or> \<not> truth url
               then no_invoice (plain ''Server error: missing order id or url'')
               else an_invoice (JStr (''order_'' @ str_of cl order_id)) url))))))))
        (\<lambda>e. ret (no_invoice (json_or_unreachable cl ''Server error: invalid json response'' e))))"

definition square_create_subscription_invoice :: "fiat_client \<Rightarrow> subscription_options option \<Rightarrow> fiat_invoice" where
  "square_create_subscription_invoice cl opts =
     (let term = (case opts of None \<Rightarrow> no_subscription_options | Some o' \<Rightarrow> o') in
      an_invoice (JStr (the (orElse (uo_checking_id term) (Some (''payment_'' @ fc_fresh cl)))))
        (JStr (the (orElse (uo_payment_request term) (Some [])))))"

definition square_create_invoice ::
  "fiat_client \<Rightarrow> rat \<Rightarrow> string \<Rightarrow> string \<Rightarrow> string option \<Rightarrow> dict \<Rightarrow> (backend, fiat_invoice) py" where
  "square_create_invoice cl amount payment_hash currency memo extra =
     (case square_parse_create_opts cl extra of
        None \<Rightarrow> ret (no_invoice (plain ''Invalid Square options''))
      | Some opts \<Rightarrow>
          if sq_fiat_method opts = ''subscription''
          then ret (square_create_subscription_invoice cl (sq_subscription opts))
          else square_create_checkout_invoice cl amount payment_hash currency opts memo)"

section \<open>Orders and payments\<close>

definition square_fetch :: "string \<Rightarrow> string \<Rightarrow> (backend, jval) py" where
  "square_fetch url k =
     bindP (http_get url) (\<lambda>r.
     thenP (raise_for_status r)
     (bindP (liftE (json_of r)) (\<lambda>v. bindP (liftE (get v k)) (\<lambda>x. ret (or_else x (JObj []))))))"

definition square_get_order :: "fiat_client \<Rightarrow> jval \<Rightarrow> (backend, jval) py" where
  "square_get_order cl order_id = square_fetch (''/v2/orders/'' @ str_of cl order_id) ''order''"

definition square_get_payment :: "fiat_client \<Rightarrow> jval \<Rightarrow> (backend, jval) py" where
  "square_get_payment cl payment_id = square_fetch (''/v2/payments/'' @ str_of cl payment_id) ''payment''"

definition square_get_catalog_object :: "fiat_client \<Rightarrow> jval \<Rightarrow> (backend, jval) py" where
  "square_get_catalog_object cl object_id = square_fetch (''/v2/catalog/object/'' @ str_of cl object_id) ''object''"

fun tender_payment_id :: "jval list \<Rightarrow> exn + jval" where
  "tender_payment_id [] = Inr JNull"
| "tender_payment_id (t # ts) =
     and_then (get t ''payment_id'') (\<lambda>i. if truth i then Inr i else tender_payment_id ts)"

definition square_payment_id_from_order :: "jval \<Rightarrow> exn + jval" where
  "square_payment_id_from_order order =
     and_then (get order ''tenders'') (\<lambda>t. and_then (elements (or_else t (JList []))) tender_payment_id)"

definition square_get_payment_for_order :: "fiat_client \<Rightarrow> jval \<Rightarrow> (backend, jval) py" where
  "square_get_payment_for_order cl order_id =
     bindP (square_get_order cl order_id) (\<lambda>order.
     bindP (liftE (square_payment_id_from_order order)) (\<lambda>payment_id.
     if \<not> truth payment_id then ret JNull else square_get_payment cl payment_id))"

definition square_status_from_payment :: "jval \<Rightarrow> exn + fiat_payment_status" where
  "square_status_from_payment payment =
     and_then (get_upper payment ''status'') (\<lambda>st.
     Inr (if st = ''COMPLETED'' then fiat_paid
          else if st \<in> {''CANCELED'', ''FAILED''} then fiat_failed else fiat_pending))"

definition square_get_payment_status :: "fiat_client \<Rightarrow> jval \<Rightarrow> (backend, fiat_payment_status) py" where
  "square_get_payment_status cl payment_id =
     bindP (square_get_payment cl payment_id) (\<lambda>p. liftE (square_status_from_payment p))"

definition square_get_order_status :: "fiat_client \<Rightarrow> string \<Rightarrow> (backend, fiat_payment_status) py" where
  "square_get_order_status cl order_id =
     bindP (square_get_order cl (JStr order_id)) (\<lambda>order.
     bindP (liftE (square_payment_id_from_order order)) (\<lambda>payment_id.
     if truth payment_id then square_get_payment_status cl payment_id
     else bindP (liftE (get_upper order ''state'')) (\<lambda>st.
          ret (if st = ''CANCELED'' then fiat_failed else fiat_pending))))"

definition square_get_invoice_status :: "fiat_client \<Rightarrow> string \<Rightarrow> (backend, fiat_payment_status) py" where
  "square_get_invoice_status cl checking_id =
     (let square_id = drop_prefix ''fiat_square_'' checking_id in
      tryP
        (if startswith square_id ''payment_''
         then square_get_payment_status cl (JStr (drop_prefix ''payment_'' square_id))
         else square_get_order_status cl (drop_prefix ''order_'' square_id))
        (\<lambda>e. ret fiat_pending))"

section \<open>The price of a subscription\<close>

text \<open>\<open>next((v for v in variations if not v.get("is_deleted")), None)\<close>\<close>

fun first_not_deleted :: "jval list \<Rightarrow> exn + jval" where
  "first_not_deleted [] = Inr JNull"
| "first_not_deleted (v # vs) =
     and_then (get v ''is_deleted'') (\<lambda>x. if truth x then first_not_deleted vs else Inr v)"

definition square_parse_price_money :: "jval \<Rightarrow> exn + jval" where
  "square_parse_price_money price_money =
     (if \<not> truth price_money then Inr JNull
      else
        and_then (get price_money ''amount'') (\<lambda>a.
        if a = JNull then Inr JNull
        else
          and_then (get price_money ''currency'') (\<lambda>c.
          if \<not> truth c then Inr JNull
          else
            and_then (int_of a) (\<lambda>i.
            and_then (upper_of c) (\<lambda>u. Inr (JObj [(''amount'', JInt i), (''currency'', JStr u)]))))))"

definition square_get_relative_subscription_price_money :: "fiat_client \<Rightarrow> jval \<Rightarrow> (backend, jval) py" where
  "square_get_relative_subscription_price_money cl eligible_item_ids =
     bindP (liftE (len_of eligible_item_ids)) (\<lambda>n.
     thenP (failIf (n \<noteq> 1) (ValueError ''Square relative subscription plan must have exactly one item.''))
     (bindP (liftE (first_item eligible_item_ids)) (\<lambda>i.
      bindP (square_get_catalog_object cl i) (\<lambda>it.
      bindP (liftE (get it ''type'')) (\<lambda>ty.
      bindP (liftE (if ty = JStr ''ITEM'' then
               and_then (get it ''item_data'') (\<lambda>d.
               and_then (get (or_else d (JObj [])) ''variations'') (\<lambda>v. elements (or_else v (JList []))))
             else if ty = JStr ''ITEM_VARIATION'' then Inr [it] else Inr [])) (\<lambda>item_variations.
      bindP (liftE (first_not_deleted item_variations)) (\<lambda>item_variation.
      thenP (failIf (\<not> truth item_variation) (ValueError ''Square subscription item is missing a variation.''))
      (bindP (liftE (get item_variation ''item_variation_data'')) (\<lambda>d.
       bindP (liftE (get (or_else d (JObj [])) ''price_money'')) (\<lambda>m.
       bindP (liftE (square_parse_price_money m)) (\<lambda>price_money.
       if truth price_money then ret price_money
       else throw (ValueError ''Square subscription item variation is missing price_money.''))))))))))))"

fun square_phase_price :: "fiat_client \<Rightarrow> jval \<Rightarrow> jval list \<Rightarrow> (backend, jval) py" where
  "square_phase_price cl ids [] = throw (ValueError ''Square subscription plan variation is missing price_money.'')"
| "square_phase_price cl ids (phase # phases) =
     bindP (liftE (get phase ''pricing'')) (\<lambda>x.
     let pricing = or_else x (JObj []) in
     bindP (liftE (get pricing ''price_money'')) (\<lambda>m.
     bindP (if truth m then ret m else liftE (get phase ''recurring_price_money'')) (\<lambda>price_money.
     bindP (liftE (square_parse_price_money price_money)) (\<lambda>parsed.
     if truth parsed then ret parsed
     else
       bindP (liftE (get pricing ''type'')) (\<lambda>ty.
       if ty = JStr ''RELATIVE'' then square_get_relative_subscription_price_money cl ids
       else square_phase_price cl ids phases)))))"

definition square_get_subscription_price_money :: "fiat_client \<Rightarrow> jval \<Rightarrow> jval \<Rightarrow> (backend, jval) py" where
  "square_get_subscription_price_money cl plan_variation eligible_item_ids =
     bindP (liftE (get plan_variation ''subscription_plan_variation_data'')) (\<lambda>d.
     bindP (liftE (get (or_else d (JObj [])) ''phases'')) (\<lambda>p.
     bindP (liftE (elements (or_else p (JList [])))) (\<lambda>phases.
     square_phase_price cl (or_else eligible_item_ids (JList [])) phases)))"

text \<open>\<open>SquareSubscriptionCheckoutInfo(plan_variation_id, price_money)\<close>\<close>

definition square_checkout_info :: "fiat_client \<Rightarrow> jval \<Rightarrow> jval \<Rightarrow> (backend, string \<times> jval) py" where
  "square_checkout_info cl plan price_money =
     bindP (liftE (get plan ''id'')) (\<lambda>i.
     thenP (failIf (\<not> truth i) (ValueError ''Square subscription plan variation is missing an ID.''))
     (bindP (liftE (accept_str cl i)) (\<lambda>s. ret (s, price_money))))"

definition square_get_plan_checkout_info :: "fiat_client \<Rightarrow> jval \<Rightarrow> (backend, string \<times> jval) py" where
  "square_get_plan_checkout_info cl catalog_object =
     bindP (liftE (get catalog_object ''subscription_plan_data'')) (\<lambda>d.
     let plan_data = or_else d (JObj []) in
     bindP (liftE (get plan_data ''subscription_plan_variations'')) (\<lambda>v.
     bindP (liftE (get plan_data ''eligible_item_ids'')) (\<lambda>ids.
     bindP (liftE (elements (or_else v (JList [])))) (\<lambda>plan_variations.
     bindP (liftE (first_not_deleted plan_variations)) (\<lambda>plan_variation.
     thenP (failIf (\<not> truth plan_variation) (ValueError ''Square subscription plan is missing a variation.''))
     (bindP (square_get_subscription_price_money cl plan_variation (or_else ids (JList []))) (\<lambda>price_money.
      square_checkout_info cl plan_variation price_money)))))))"

definition square_get_subscription_checkout_info :: "fiat_client \<Rightarrow> string \<Rightarrow> (backend, string \<times> jval) py" where
  "square_get_subscription_checkout_info cl subscription_plan_id =
     bindP (square_get_catalog_object cl (JStr subscription_plan_id)) (\<lambda>catalog_object.
     bindP (liftE (get catalog_object ''type'')) (\<lambda>ty.
     if ty = JStr ''SUBSCRIPTION_PLAN'' then square_get_plan_checkout_info cl catalog_object
     else if ty = JStr ''SUBSCRIPTION_PLAN_VARIATION'' then
       bindP (square_get_subscription_price_money cl catalog_object (JList [])) (\<lambda>price_money.
       square_checkout_info cl catalog_object price_money)
     else throw (ValueError ''Square subscription ID must be a plan ID or plan variation ID.'')))"

section \<open>Subscriptions\<close>

text \<open>\<open>str(raw_link)[:200] if raw_link else None\<close>\<close>

definition square_link_text :: "fiat_client \<Rightarrow> payment_options \<Rightarrow> jval" where
  "square_link_text cl p =
     (case dget (extra_or_empty p) ''link'' of
        None \<Rightarrow> JNull
      | Some v \<Rightarrow> if truth v then JStr (take 200 (str_of cl v)) else JNull)"

definition square_serialize_metadata :: "fiat_client \<Rightarrow> payment_options \<Rightarrow> exn + string" where
  "square_serialize_metadata cl p =
     (let meta = [jopt (po_wallet_id p), jopt (po_tag p), jopt (po_request_id p), square_link_text cl p];
          memo_limit = 493 - int (length (json_compact (JList meta)));
          memo = (if memo_limit > 0 \<and> truthy (po_memo p) then JStr (take (nat memo_limit) (the (po_memo p))) else JNull);
          metadata = json_compact (JList (meta @ [memo]))
      in if length metadata > 500 then Inl (ValueError ''Square subscription metadata is too long.'')
         else Inr metadata)"

text \<open>Subscriptions are refused as long as the server runs, \<open>running\<close>.\<close>

definition square_create_subscription ::
  "fiat_client \<Rightarrow> bool \<Rightarrow> string \<Rightarrow> int \<Rightarrow> payment_options \<Rightarrow> (backend, fiat_subscription) py" where
  "square_create_subscription cl running subscription_id quantity p0 =
     (if running then ret (no_subscription (plain ''Subscription not supported for Square.''))
      else
        let success_url = success_page cl (po_success_url p0); p = with_request_id cl p0 in
        tryP
          (bindP (square_get_subscription_checkout_info cl subscription_id) (\<lambda>(plan_variation_id, price_money).
           bindP (liftE (square_serialize_metadata cl p)) (\<lambda>metadata.
           bindP (http_post ''/v2/online-checkout/payment-links''
             [(''idempotency_key'', jopt (po_request_id p)), (''description'', JStr metadata),
              (''quick_pay'', JObj
                 [(''name'', JStr (take 255 (the (orElse (po_memo p) (Some ''LNbits Subscription''))))),
                  (''price_money'', price_money), (''location_id'', JStr (fc_location cl))]),
              (''checkout_options'', JObj
                 [(''redirect_url'', JStr success_url), (''subscription_plan_id'', JStr plan_variation_id)]),
              (''payment_note'', JStr metadata)]) (\<lambda>r.
           thenP (raise_for_status r)
           (bindP (liftE (json_of r)) (\<lambda>data.
            bindP (liftE (get data ''payment_link'')) (\<lambda>l.
            bindP (liftE (get (or_else l (JObj [])) ''url'')) (\<lambda>url.
            if \<not> truth url then ret (no_subscription (plain ''Server error: missing url''))
            else liftE (made_subscription cl url (jopt (po_request_id p)))))))))))
          (\<lambda>e. ret (no_subscription (json_or_unreachable cl ''Server error: invalid json response'' e))))"

definition square_cancel_subscription :: "fiat_client \<Rightarrow> string \<Rightarrow> (backend, fiat_subscription) py" where
  "square_cancel_subscription cl square_subscription_id =
     tryP
       (bindP (send ''POST'' (''/v2/subscriptions/'' @ square_subscription_id @ ''/cancel'') JNull) (\<lambda>r.
        thenP (raise_for_status r) (ret (a_subscription JNull JNull))))
       (\<lambda>e. ret (no_subscription (plain ''Unable to cancel subscription.'')))"

section \<open>What a Square status is based on\<close>

definition square_paid :: "reply \<Rightarrow> bool" where
  "square_paid r \<longleftrightarrow>
     (\<exists>v p. rp_json r = Some v \<and> get v ''payment'' = Inr p
        \<and> get_upper (or_else p (JObj [])) ''status'' = Inr ''COMPLETED'')"

definition square_order_names :: "jval \<Rightarrow> reply \<Rightarrow> bool" where
  "square_order_names payment_id r \<longleftrightarrow>
     (\<exists>v p. rp_json r = Some v \<and> get v ''order'' = Inr p
        \<and> square_payment_id_from_order (or_else p (JObj [])) = Inr payment_id)"

definition square_evidence :: "fiat_client \<Rightarrow> string \<Rightarrow> (request \<times> answer) list \<Rightarrow> bool" where
  "square_evidence cl checking_id xs \<longleftrightarrow>
     (let i = drop_prefix ''fiat_square_'' checking_id in
      if startswith i ''payment_'' then got xs ''GET'' (''/v2/payments/'' @ drop_prefix ''payment_'' i) square_paid
      else (\<exists>payment_id.
        got xs ''GET'' (''/v2/orders/'' @ drop_prefix ''order_'' i) (square_order_names payment_id)
        \<and> got xs ''GET'' (''/v2/payments/'' @ str_of cl payment_id) square_paid))"

lemma str_of_text [simp]: "str_of cl (JStr s) = s"
  by (simp add: str_of_def py_str_def)

lemma square_status_success:
  "square_status_from_payment p = Inr st \<Longrightarrow> fiat_success st \<Longrightarrow> get_upper p ''status'' = Inr ''COMPLETED''"
  by (auto simp: square_status_from_payment_def json split: if_splits)

interpretation square_queries: fiat_queries "square_get_invoice_status cl" "\<lambda>s. s" "square_evidence cl" for cl
proof
  fix c s
  show "wp (square_get_invoice_status cl c)
      (\<lambda>st t. (fiat_success st \<longrightarrow> square_evidence cl c (exchanged s t)) \<and> bk_sent t = bk_sent s @ exchanged s t)
      (\<lambda>e t. False) s"
    by (auto simp: square_get_invoice_status_def square_get_payment_status_def square_get_order_status_def
        square_get_payment_def square_get_order_def square_fetch_def square_evidence_def Let_def exchanged_def
        square_paid_def square_order_names_def wp_rule wp_http json square_status_success)
next
  show "square_evidence cl c xs \<Longrightarrow> set xs \<subseteq> set ys \<Longrightarrow> square_evidence cl c ys" for c xs ys
    by (auto simp: square_evidence_def Let_def split: if_splits intro: got_mono)
qed

end
