(* ===== verification/RevolutProvider.thy ===== *)
theory RevolutProvider
  imports SquareProvider
begin

text \<open>\<open>lnbits/fiat/revolut.py\<close>: orders, subscriptions, customers and the registration of the webhook.\<close>

section \<open>Options\<close>

record revolut_checkout_options =
  rc_success_url :: "string option"
  rc_metadata :: dict
  rc_description :: "string option"

record subscription_reference =
  sr_wallet_id :: string
  sr_tag :: "string option"
  sr_request_id :: "string option"
  sr_extra :: "dict option"
  sr_memo :: "string option"

definition revolut_checkout_of :: "fiat_client \<Rightarrow> dict \<Rightarrow> exn + revolut_checkout_options" where
  "revolut_checkout_of cl d =
     and_then (str_field cl d ''success_url'') (\<lambda>u.
     and_then (dict_field cl Inr d ''metadata'') (\<lambda>md.
     and_then (str_field cl d ''description'') (\<lambda>t.
     Inr \<lparr>rc_success_url = u, rc_metadata = md, rc_description = t\<rparr>)))"

definition no_revolut_checkout :: revolut_checkout_options where
  "no_revolut_checkout = \<lparr>rc_success_url = None, rc_metadata = [], rc_description = None\<rparr>"

text \<open>\<open>RevolutCreateInvoiceOptions\<close> has the one field \<open>checkout\<close>.\<close>

definition revolut_parse_create_opts :: "fiat_client \<Rightarrow> dict \<Rightarrow> revolut_checkout_options option option" where
  "revolut_parse_create_opts cl d =
     (case model_field (revolut_checkout_of cl) d ''checkout'' of Inl e \<Rightarrow> None | Inr c \<Rightarrow> Some c)"

section \<open>Amounts\<close>

definition zero_decimal_currencies :: "string list" where
  "zero_decimal_currencies =
     [''BIF'', ''CLP'', ''DJF'', ''GNF'', ''ISK'', ''JPY'', ''KMF'', ''KRW'', ''PYG'', ''RWF'', ''UGX'', ''VND'',
      ''VUV'', ''XAF'', ''XOF'', ''XPF'']"

definition three_decimal_currencies :: "string list" where
  "three_decimal_currencies = [''BHD'', ''IQD'', ''JOD'', ''KWD'', ''LYD'', ''OMR'', ''TND'']"

definition revolut_currency_exponent :: "string \<Rightarrow> nat" where
  "revolut_currency_exponent currency =
     (if upper currency \<in> set zero_decimal_currencies then 0
      else if upper currency \<in> set three_decimal_currencies then 3 else 2)"

definition revolut_to_minor :: "fiat_client \<Rightarrow> rat \<Rightarrow> string \<Rightarrow> exn + int" where
  "revolut_to_minor cl amount currency =
     and_then (decimal_of_str cl (JFloat amount)) (\<lambda>d.
     case quantize (dec28 (d * 10 ^ revolut_currency_exponent currency)) of
       None \<Rightarrow> Inl InvalidOperation
     | Some n \<Rightarrow> Inr n)"

definition revolut_from_minor :: "jval \<Rightarrow> string \<Rightarrow> exn + rat" where
  "revolut_from_minor amount currency = from_minor (revolut_currency_exponent currency) amount"

section \<open>The account\<close>

definition revolut_init :: "string option \<Rightarrow> string option \<Rightarrow> exn + string" where
  "revolut_init endpoint key =
     provider_init [(''Cannot initialize RevolutWallet: missing endpoint.'', endpoint),
       (''Cannot initialize RevolutWallet: missing API secret key.'', key)] (the endpoint)"

definition revolut_connection_fields ::
  "string option \<Rightarrow> string option \<Rightarrow> string option \<Rightarrow> string option \<Rightarrow> string" where
  "revolut_connection_fields endpoint key api_version signing_secret =
     connection_fields [endpoint, key, api_version, signing_secret]"

definition revolut_status :: "fiat_client \<Rightarrow> bool \<Rightarrow> bool \<Rightarrow> (backend, fiat_status_response) py" where
  "revolut_status cl only_check_settings changed =
     (if only_check_settings then
        ret (if changed then \<lparr>fs_error = plain ''Connection settings have changed.'', fs_balance = JInt 0\<rparr>
             else \<lparr>fs_error = NoMessage, fs_balance = JInt 0\<rparr>)
      else tryP
        (bindP (send ''GET'' ''/api/orders'' (JObj [(''limit'', JInt 1)])) (\<lambda>r.
         thenP (raise_for_status r)
         (bindP (liftE (json_of r)) (\<lambda>v. ret \<lparr>fs_error = NoMessage, fs_balance = JInt 0\<rparr>))))
        (\<lambda>e. ret \<lparr>fs_error = json_or_unreachable cl ''Server error: invalid json response'' e,
                  fs_balance = JInt 0\<rparr>))"

section \<open>Orders\<close>

definition revolut_order ::
  "fiat_client \<Rightarrow> int \<Rightarrow> string \<Rightarrow> string \<Rightarrow> string option \<Rightarrow> revolut_checkout_options \<Rightarrow> dict" where
  "revolut_order cl amount_minor payment_hash currency memo co =
     [(''amount'', JInt amount_minor), (''currency'', JStr (upper currency)),
      (''description'', JStr (the (orElse (orElse (rc_description co) memo) (Some ''LNbits Invoice'')))),
      (''redirect_url'', JStr (success_page cl (rc_success_url co))),
      (''metadata'', JObj (dset (dset (rc_metadata co) ''payment_hash'' (JStr payment_hash))
                             ''alan_action'' (JStr ''invoice'')))]"

definition revolut_create_invoice ::
  "fiat_client \<Rightarrow> rat \<Rightarrow> string \<Rightarrow> string \<Rightarrow> string option \<Rightarrow> dict \<Rightarrow> (backend, fiat_invoice) py" where
  "revolut_create_invoice cl amount payment_hash currency memo extra =
     (case revolut_parse_create_opts cl extra of
        None \<Rightarrow> ret (no_invoice (plain ''Invalid Revolut options''))
      | Some opts \<Rightarrow>
          bindP (liftE (revolut_to_minor cl amount currency)) (\<lambda>amount_minor.
          let co = (case opts of None \<Rightarrow> no_revolut_checkout | Some o' \<Rightarrow> o') in
          tryP
            (bindP (http_post ''/api/orders'' (revolut_order cl amount_minor payment_hash currency memo co)) (\<lambda>r.
             thenP (raise_for_status r)
             (bindP (liftE (json_of r)) (\<lambda>data.
              bindP (liftE (get data ''id'')) (\<lambda>order_id.
              bindP (liftE (get data ''checkout_url'')) (\<lambda>url.
              ret (if \<not> truth order_id \<or> \<not> truth url
                   then no_invoice (plain ''Server error: missing order id or url'')
                   else an_invoice (JStr (''order_'' @ str_of cl order_id)) url)))))))
            (\<lambda>e. ret (no_invoice (json_or_unreachable cl ''Server error: invalid json response'' e)))))"

definition revolut_fetch :: "string \<Rightarrow> (backend, jval) py" where
  "revolut_fetch url = bindP (http_get url) (\<lambda>r. thenP (raise_for_status r) (liftE (json_of r)))"

definition revolut_get_order :: "fiat_client \<Rightarrow> jval \<Rightarrow> (backend, jval) py" where
  "revolut_get_order cl order_id = revolut_fetch (''/api/orders/'' @ str_of cl order_id)"

definition revolut_get_subscription :: "fiat_client \<Rightarrow> jval \<Rightarrow> (backend, jval) py" where
  "revolut_get_subscription cl subscription_id = revolut_fetch (''/api/subscriptions/'' @ str_of cl subscription_id)"

definition revolut_get_subscription_cycle :: "fiat_client \<Rightarrow> jval \<Rightarrow> jval \<Rightarrow> (backend, jval) py" where
  "revolut_get_subscription_cycle cl subscription_id cycle_id =
     revolut_fetch (''/api/subscriptions/'' @ str_of cl subscription_id @ ''/cycles/'' @ str_of cl cycle_id)"

definition revolut_status_from_order :: "jval \<Rightarrow> exn + fiat_payment_status" where
  "revolut_status_from_order order =
     and_then (get_upper order ''state'') (\<lambda>st.
     Inr (if st = ''COMPLETED'' then fiat_paid
          else if st \<in> {''CANCELLED'', ''FAILED''} then fiat_failed else fiat_pending))"

definition revolut_normalize_id :: "string \<Rightarrow> string" where
  "revolut_normalize_id checking_id = drop_prefix ''order_'' (drop_prefix ''fiat_revolut_'' checking_id)"

definition revolut_get_invoice_status :: "fiat_client \<Rightarrow> string \<Rightarrow> (backend, fiat_payment_status) py" where
  "revolut_get_invoice_status cl checking_id =
     tryP
       (bindP (revolut_get_order cl (JStr (revolut_normalize_id checking_id))) (\<lambda>order.
        liftE (revolut_status_from_order order)))
       (\<lambda>e. ret fiat_pending)"

section \<open>Subscription references\<close>

text \<open>\<open>reference.dict(exclude_none=True)\<close> and \<open>RevolutSubscriptionReference.parse_obj\<close>.\<close>

definition reference_dict :: "subscription_reference \<Rightarrow> dict" where
  "reference_dict r =
     (let opt = (\<lambda>k s. case s of None \<Rightarrow> [] | Some t \<Rightarrow> [(k, JStr t)]) in
      (''wallet_id'', JStr (sr_wallet_id r)) # opt ''tag'' (sr_tag r)
        @ opt ''subscription_request_id'' (sr_request_id r)
        @ (case sr_extra r of None \<Rightarrow> [] | Some d \<Rightarrow> [(''extra'', JObj d)])
        @ opt ''memo'' (sr_memo r))"

definition parse_reference :: "fiat_client \<Rightarrow> jval \<Rightarrow> exn + subscription_reference" where
  "parse_reference cl v =
     (case dict_of v of
        None \<Rightarrow> Inl ValidationError
      | Some ps \<Rightarrow>
          (case those (map text_key ps) of
             None \<Rightarrow> Inl TypeError
           | Some qs \<Rightarrow>
               let d = collect qs in
               and_then (str_field cl d ''wallet_id'') (\<lambda>w.
               and_then (str_field cl d ''tag'') (\<lambda>tag.
               and_then (str_field cl d ''subscription_request_id'') (\<lambda>i.
               and_then (if dget d ''extra'' = None \<or> dget d ''extra'' = Some JNull then Inr None
                         else and_then (dict_field cl Inr d ''extra'') (\<lambda>x. Inr (Some x))) (\<lambda>extra.
               and_then (str_field cl d ''memo'') (\<lambda>memo.
               case w of
                 None \<Rightarrow> Inl ValidationError
               | Some wallet_id \<Rightarrow>
                   Inr \<lparr>sr_wallet_id = wallet_id, sr_tag = tag, sr_request_id = i, sr_extra = extra,
                        sr_memo = memo\<rparr>)))))))"

definition revolut_serialize_reference :: "subscription_reference \<Rightarrow> exn + string" where
  "revolut_serialize_reference r =
     (let serialized = json_compact (JObj (reference_dict r))
      in if length serialized > 1024
         then Inl (ValueError ''Revolut subscription external_reference is too long.'') else Inr serialized)"

definition revolut_deserialize_reference :: "fiat_client \<Rightarrow> jval \<Rightarrow> exn + subscription_reference option" where
  "revolut_deserialize_reference cl external_reference =
     (if \<not> truth external_reference then Inr None
      else
        (case and_then (loads cl external_reference) (parse_reference cl) of
           Inr r \<Rightarrow> Inr (Some r)
         | Inl e \<Rightarrow> if e = JSONDecodeError \<or> e = ValidationError then Inr None else Inl e))"

section \<open>Customers\<close>

definition filter_customer_list :: "jval list \<Rightarrow> jval list" where
  "filter_customer_list l = filter (\<lambda>v. case v of JObj d \<Rightarrow> True | _ \<Rightarrow> False) l"

text \<open>The customers of a page and the token of the next one.\<close>

fun list_field :: "string list \<Rightarrow> dict \<Rightarrow> jval list option" where
  "list_field [] d = None"
| "list_field (k # ks) d = (case dget d k of Some (JList l) \<Rightarrow> Some l | _ \<Rightarrow> list_field ks d)"

definition extract_customer_page :: "jval \<Rightarrow> jval list \<times> jval" where
  "extract_customer_page data = (case data of
      JList l \<Rightarrow> (filter_customer_list l, JNull)
    | JObj d \<Rightarrow> (case list_field [''customers'', ''data'', ''items''] d of
                  None \<Rightarrow> ([], JNull)
                | Some l \<Rightarrow> (filter_customer_list l, case dget d ''next_page_token'' of None \<Rightarrow> JNull | Some t \<Rightarrow> t))
    | _ \<Rightarrow> ([], JNull))"

text \<open>\<open>casefold\<close>, on ASCII.\<close>

fun find_customer_by_email :: "fiat_client \<Rightarrow> jval list \<Rightarrow> string \<Rightarrow> exn + jval" where
  "find_customer_by_email cl [] email = Inr JNull"
| "find_customer_by_email cl (c # cs) email =
     and_then (get c ''email'') (\<lambda>e.
     if lower (str_of cl (or_else e (JStr []))) = lower email then Inr c else find_customer_by_email cl cs email)"

definition revolut_list_customers :: "fiat_client \<Rightarrow> jval \<Rightarrow> (backend, jval list \<times> jval) py" where
  "revolut_list_customers cl page_token =
     bindP (send ''GET'' ''/api/customers''
       (JObj ((''limit'', JInt 500) # (if truth page_token then [(''page_token'', page_token)] else [])))) (\<lambda>r.
     thenP (raise_for_status r) (bindP (liftE (json_of r)) (\<lambda>v. ret (extract_customer_page v))))"

text \<open>At most \<open>pages\<close> pages are read.\<close>

primrec customer_by_email_loop :: "fiat_client \<Rightarrow> string \<Rightarrow> nat \<Rightarrow> jval \<Rightarrow> (backend, jval) py" where
  "customer_by_email_loop cl email 0 page_token = ret JNull"
| "customer_by_email_loop cl email (Suc pages) page_token =
     bindP (revolut_list_customers cl page_token) (\<lambda>(customers, next_token).
     bindP (liftE (find_customer_by_email cl customers email)) (\<lambda>customer.
     if truth customer then ret customer
     else if \<not> truth next_token then ret JNull
     else customer_by_email_loop cl email pages next_token))"

definition revolut_customer_max_pages :: nat where "revolut_customer_max_pages = 20"

definition revolut_get_customer_by_email :: "fiat_client \<Rightarrow> string \<Rightarrow> (backend, jval) py" where
  "revolut_get_customer_by_email cl email = customer_by_email_loop cl email revolut_customer_max_pages JNull"

definition revolut_create_customer :: "fiat_client \<Rightarrow> string \<Rightarrow> (backend, jval) py" where
  "revolut_create_customer cl email =
     bindP (http_post ''/api/customers'' [(''email'', JStr email)]) (\<lambda>r. thenP (raise_for_status r) (liftE (json_of r)))"

text \<open>The id of the customer, or \<open>None\<close> and a message.\<close>

definition revolut_get_subscription_customer_id ::
  "fiat_client \<Rightarrow> payment_options \<Rightarrow> (backend, jval \<times> message) py" where
  "revolut_get_subscription_customer_id cl p =
     (if \<not> truthy (po_customer_email p)
      then ret (JNull, plain ''Revolut subscriptions require customer_email.'')
      else
        bindP (revolut_get_customer_by_email cl (the (po_customer_email p))) (\<lambda>customer.
        bindP (if truth customer then liftE (get customer ''id'') else ret JNull) (\<lambda>customer_id.
        if truth customer_id then ret (customer_id, NoMessage)
        else
          bindP (revolut_create_customer cl (the (po_customer_email p))) (\<lambda>customer2.
          bindP (liftE (get customer2 ''id'')) (\<lambda>customer_id2.
          ret (if truth customer_id2 then (customer_id2, NoMessage)
               else (JNull, plain ''Server error: missing customer id'')))))))"

section \<open>Subscriptions\<close>

definition revolut_create_subscription ::
  "fiat_client \<Rightarrow> string \<Rightarrow> int \<Rightarrow> payment_options \<Rightarrow> (backend, fiat_subscription) py" where
  "revolut_create_subscription cl subscription_id quantity p0 =
     (if quantity \<noteq> 1 then ret (no_subscription (plain ''Revolut subscriptions do not support quantity.''))
      else if \<not> truthy (po_wallet_id p0) then ret (no_subscription (plain ''Wallet ID is required.''))
      else
        let extra = extra_or_empty p0;
            p = p0\<lparr>po_request_id := (if truthy (po_request_id p0) then po_request_id p0 else Some (fc_fresh cl))\<rparr>;
            reference = \<lparr>sr_wallet_id = the (po_wallet_id p0), sr_tag = po_tag p0, sr_request_id = po_request_id p,
                         sr_extra = Some extra, sr_memo = po_memo p0\<rparr>;
            trial = (case dget extra ''trial_duration'' of None \<Rightarrow> JNull | Some v \<Rightarrow> v) in
        bindP (liftE (revolut_serialize_reference reference)) (\<lambda>external_reference.
        tryP
          (bindP (revolut_get_subscription_customer_id cl p) (\<lambda>(customer_id, customer_error).
           if \<not> truth customer_id then ret (no_subscription customer_error)
           else
             bindP (http_post ''/api/subscriptions''
               ([(''plan_variation_id'', JStr subscription_id), (''external_reference'', JStr external_reference),
                 (''setup_order_redirect_url'', JStr (success_page cl (po_success_url p0)))]
                @ (if truth trial then [(''trial_duration'', trial)] else [])
                @ [(''customer_id'', customer_id)])) (\<lambda>r.
             thenP (raise_for_status r)
             (bindP (liftE (json_of r)) (\<lambda>data.
              bindP (liftE (get data ''id'')) (\<lambda>i.
              bindP (liftE (get data ''setup_order_id'')) (\<lambda>setup_order_id.
              if \<not> truth i \<or> \<not> truth setup_order_id
              then ret (no_subscription (plain ''Server error: missing subscription id or setup order id''))
              else
                bindP (revolut_get_order cl setup_order_id) (\<lambda>setup_order.
                bindP (liftE (get setup_order ''checkout_url'')) (\<lambda>url.
                if \<not> truth url
                then ret (no_subscription (plain ''Server error: missing setup checkout url''))
                else liftE (made_subscription cl url i))))))))))
          (\<lambda>e. ret (no_subscription (json_or_unreachable cl ''Server error: invalid json response'' e)))))"

definition revolut_cancel_subscription :: "fiat_client \<Rightarrow> string \<Rightarrow> string \<Rightarrow> (backend, fiat_subscription) py" where
  "revolut_cancel_subscription cl subscription_id correlation_id =
     tryP
       (bindP (revolut_get_subscription cl (JStr subscription_id)) (\<lambda>subscription.
        bindP (liftE (get subscription ''external_reference'')) (\<lambda>x.
        bindP (liftE (revolut_deserialize_reference cl x)) (\<lambda>reference.
        if (case reference of None \<Rightarrow> True | Some r \<Rightarrow> sr_wallet_id r \<noteq> correlation_id)
        then ret (no_subscription (plain ''Subscription not found.''))
        else
          bindP (send ''POST'' (''/api/subscriptions/'' @ subscription_id @ ''/cancel'') JNull) (\<lambda>r.
          thenP (raise_for_status r) (ret (a_subscription JNull JNull)))))))
       (\<lambda>e. ret (no_subscription (plain ''Unable to cancel subscription.'')))"

section \<open>The webhook\<close>

definition revolut_webhook_events :: "string list" where
  "revolut_webhook_events = [''ORDER_AUTHORISED'', ''ORDER_COMPLETED'', ''SUBSCRIPTION_INITIATED'']"

definition rstrip_char :: "char \<Rightarrow> string \<Rightarrow> string" where
  "rstrip_char c s = rev (dropWhile (\<lambda>x. x = c) (rev s))"

definition revolut_normalize_webhook_url :: "jval \<Rightarrow> exn + string" where
  "revolut_normalize_webhook_url url =
     (case or_else url (JStr []) of JStr s \<Rightarrow> Inr (rstrip_char CHR ''/'' (strip s)) | _ \<Rightarrow> Inl AttributeError)"

text \<open>\<open>urlparse\<close> and \<open>ipaddress.ip_address\<close> are parameters: the scheme and the host of an address, and for a host
  that is the text of an IP address whether it is a loop-back, private, link-local, reserved or unspecified one.\<close>

definition revolut_validate_webhook_url ::
  "(string \<Rightarrow> string \<times> string option) \<Rightarrow> (string \<Rightarrow> bool option) \<Rightarrow> string \<Rightarrow> exn + unit" where
  "revolut_validate_webhook_url urlparse local_ip url =
     (let (scheme, hostname) = urlparse url;
          refuse = Inl (ValueError ''Revolut webhook URL must be a clearnet URL.'') in
      if scheme \<notin> {''http'', ''https''} \<or> \<not> truthy hostname then refuse
      else
        let host = lower (the hostname) in
        if host = ''localhost'' \<or> endswith host ''.localhost'' then refuse
        else if endswith host ''.local'' \<or> endswith host ''.onion'' then refuse
        else if local_ip host = Some True then refuse
        else Inr ())"

definition revolut_list_webhooks :: "(backend, jval list) py" where
  "revolut_list_webhooks =
     bindP (http_get ''/api/webhooks'') (\<lambda>r.
     thenP (raise_for_status r)
     (bindP (liftE (json_of r)) (\<lambda>data.
      ret (case data of
             JList l \<Rightarrow> l
           | JObj d \<Rightarrow> (case list_field [''webhooks'', ''data'', ''items''] d of None \<Rightarrow> [] | Some l \<Rightarrow> l)
           | _ \<Rightarrow> []))))"

fun revolut_get_existing_webhook :: "fiat_client \<Rightarrow> jval list \<Rightarrow> string \<Rightarrow> (backend, jval) py" where
  "revolut_get_existing_webhook cl [] url = ret JNull"
| "revolut_get_existing_webhook cl (webhook # webhooks) url =
     bindP (liftE (get webhook ''url'')) (\<lambda>u.
     bindP (liftE (revolut_normalize_webhook_url u)) (\<lambda>a.
     bindP (liftE (revolut_normalize_webhook_url (JStr url))) (\<lambda>b.
     if a \<noteq> b then revolut_get_existing_webhook cl webhooks url
     else
       bindP (liftE (get webhook ''id'')) (\<lambda>webhook_id.
       bindP (liftE (get webhook ''events'')) (\<lambda>ev0.
       bindP (liftE (get webhook ''signing_secret'')) (\<lambda>secret0.
       bindP (if truth webhook_id \<and> (\<not> truth ev0 \<or> \<not> truth secret0)
              then revolut_fetch (''/api/webhooks/'' @ str_of cl webhook_id) else ret webhook) (\<lambda>webhook'.
       bindP (liftE (get webhook' ''events'')) (\<lambda>e.
       bindP (liftE (elements (or_else e (JList [])))) (\<lambda>events.
       thenP (failIf (\<not> list_all hashable events) TypeError)
       (thenP (failIf (\<not> list_all (\<lambda>w. JStr w \<in> set events) revolut_webhook_events)
                 (ValueError ''A Revolut webhook already exists for this URL, but it is missing required events.''))
       (bindP (liftE (get webhook' ''signing_secret'')) (\<lambda>secret.
        thenP (failIf (\<not> truth secret)
                 (ValueError ''A Revolut webhook already exists for this URL, but it has no signing secret.''))
          (ret webhook')))))))))))))"

text \<open>\<open>endpoint\<close> and \<open>key\<close> are the arguments or, without them, the settings.\<close>

definition revolut_create_webhook ::
  "fiat_client \<Rightarrow> (string \<Rightarrow> string \<times> string option) \<Rightarrow> (string \<Rightarrow> bool option)
   \<Rightarrow> string option \<Rightarrow> string option \<Rightarrow> string \<Rightarrow> (backend, jval) py" where
  "revolut_create_webhook cl urlparse local_ip endpoint key url =
     thenP (failIf (url = []) (ValueError ''Missing Revolut webhook URL.''))
     (thenP (liftE (revolut_validate_webhook_url urlparse local_ip url))
     (thenP (failIf (\<not> truthy endpoint) (ValueError ''Missing Revolut API endpoint.''))
     (thenP (failIf (\<not> truthy key) (ValueError ''Missing Revolut API secret key.''))
     (bindP revolut_list_webhooks (\<lambda>webhooks.
      bindP (revolut_get_existing_webhook cl webhooks url) (\<lambda>existing.
      if truth existing then
        (case existing of JObj d \<Rightarrow> ret (JObj (dset d ''already_exists'' (JBool True))) | _ \<Rightarrow> throw TypeError)
      else
        bindP (http_post ''/api/webhooks''
          [(''url'', JStr url), (''events'', JList (map JStr revolut_webhook_events))]) (\<lambda>r.
        thenP (raise_for_status r) (liftE (json_of r)))))))))"

section \<open>What a Revolut status is based on\<close>

definition revolut_paid :: "reply \<Rightarrow> bool" where
  "revolut_paid r \<longleftrightarrow> (\<exists>v. rp_json r = Some v \<and> get_upper v ''state'' = Inr ''COMPLETED'')"

definition revolut_evidence :: "string \<Rightarrow> (request \<times> answer) list \<Rightarrow> bool" where
  "revolut_evidence checking_id xs \<longleftrightarrow>
     got xs ''GET'' (''/api/orders/'' @ revolut_normalize_id checking_id) revolut_paid"

interpretation revolut_queries: fiat_queries "revolut_get_invoice_status cl" "\<lambda>s. s" revolut_evidence for cl
proof
  fix c s
  show "wp (revolut_get_invoice_status cl c)
      (\<lambda>st t. (fiat_success st \<longrightarrow> revolut_evidence c (exchanged s t)) \<and> bk_sent t = bk_sent s @ exchanged s t)
      (\<lambda>e t. False) s"
    by (auto simp: revolut_get_invoice_status_def revolut_get_order_def revolut_fetch_def revolut_evidence_def
        revolut_status_from_order_def revolut_paid_def exchanged_def wp_rule wp_http json split: if_splits)
next
  show "revolut_evidence c xs \<Longrightarrow> set xs \<subseteq> set ys \<Longrightarrow> revolut_evidence c ys" for c xs ys
    by (auto simp: revolut_evidence_def intro: got_mono)
qed

end
