(* ===== verification/Webhooks.thy ===== *)
theory Webhooks
  imports RevolutProvider InvoiceService
begin

text \<open>
  \<open>lnbits/fiat/__init__.py\<close>, the parts of \<open>core/services/fiat_providers.py\<close> that talk to a provider, and
  \<open>core/views/callback_api.py\<close>: the choice of a provider, the check of a fiat payment with the provider's own
  answer, and the webhooks the four providers call.

  The state is the database, the network with the answers of the providers, and the dictionary of the
  providers made so far, which holds for each the settings it was made with. Creating an invoice with the
  method \<open>subscription\<close> sends nothing, so the answer of a provider to it is computed and no state kept.
\<close>

section \<open>State\<close>

record site =
  si_db :: world
  si_net :: network
  si_providers :: "string \<Rightarrow> string option"

definition in_db :: "(world, 'a) py \<Rightarrow> (site, 'a) py" where
  "in_db m s = (case m (si_db s) of (r, w) \<Rightarrow> (r, s\<lparr>si_db := w\<rparr>))"

definition in_net :: "(network, 'a) py \<Rightarrow> (site, 'a) py" where
  "in_net m s = (case m (si_net s) of (r, n) \<Rightarrow> (r, s\<lparr>si_net := n\<rparr>))"

section \<open>Settings of the providers\<close>

record stripe_settings =
  stripe_api_endpoint :: string
  stripe_api_secret_key :: "string option"
  stripe_payment_success_url :: string
  stripe_webhook_signing_secret :: "string option"

record paypal_settings =
  paypal_api_endpoint :: string
  paypal_client_id :: "string option"
  paypal_client_secret :: "string option"
  paypal_payment_success_url :: string
  paypal_webhook_id :: "string option"

record square_settings =
  square_api_endpoint :: string
  square_access_token :: "string option"
  square_location_id :: "string option"
  square_api_version :: string
  square_payment_success_url :: string
  square_payment_webhook_url :: string
  square_webhook_signature_key :: "string option"

record revolut_settings =
  revolut_api_endpoint :: string
  revolut_api_secret_key :: "string option"
  revolut_api_version :: string
  revolut_payment_success_url :: string
  revolut_webhook_signing_secret :: "string option"

text \<open>What the handlers get from outside: the settings above and the allowed currencies, the client data that do
  not depend on the provider, and the keyed hashes in hex and in base 64.\<close>

record fiat_env =
  fe_stripe :: stripe_settings
  fe_paypal :: paypal_settings
  fe_square :: square_settings
  fe_revolut :: revolut_settings
  fe_allowed_currencies :: "string list"
  fe_client :: fiat_client
  fe_hmac_hex :: "string \<Rightarrow> string \<Rightarrow> string"
  fe_hmac_b64 :: "string \<Rightarrow> string \<Rightarrow> string"

section \<open>Currencies\<close>

definition currencies :: "string list" where
  "currencies =
    [''AED'', ''AFN'', ''ALL'', ''AMD'', ''ANG'', ''AOA'', ''ARS'', ''AUD'', ''AWG'', ''AZN'', ''BAM'',
     ''BBD'', ''BDT'', ''BGN'', ''BHD'', ''BIF'', ''BMD'', ''BND'', ''BOB'', ''BRL'', ''BSD'', ''BTN'',
     ''BWP'', ''BYN'', ''BYR'', ''BZD'', ''CAD'', ''CDF'', ''CHF'', ''CLF'', ''CLP'', ''CNH'', ''CNY'',
     ''COP'', ''CRC'', ''CUC'', ''CVE'', ''CZK'', ''DJF'', ''DKK'', ''DOP'', ''DZD'', ''EGP'', ''ERN'',
     ''ETB'', ''EUR'', ''FJD'', ''FKP'', ''GBP'', ''GEL'', ''GGP'', ''GHS'', ''GIP'', ''GMD'', ''GNF'',
     ''GTQ'', ''GYD'', ''HKD'', ''HNL'', ''HRK'', ''HTG'', ''HUF'', ''IDR'', ''ILS'', ''IMP'', ''INR'',
     ''IQD'', ''IRT'', ''ISK'', ''JEP'', ''JMD'', ''JOD'', ''JPY'', ''KES'', ''KGS'', ''KHR'', ''KMF'',
     ''KRW'', ''KWD'', ''KYD'', ''KZT'', ''LAK'', ''LBP'', ''LKR'', ''LRD'', ''LSL'', ''LYD'', ''MAD'',
     ''MDL'', ''MGA'', ''MKD'', ''MMK'', ''MNT'', ''MOP'', ''MRO'', ''MUR'', ''MVR'', ''MWK'', ''MXN'',
     ''MYR'', ''MZN'', ''NAD'', ''NGN'', ''NIO'', ''NOK'', ''NPR'', ''NZD'', ''OMR'', ''PAB'', ''PEN'',
     ''PGK'', ''PHP'', ''PKR'', ''PLN'', ''PYG'', ''QAR'', ''RON'', ''RSD'', ''RUB'', ''RWF'', ''SAR'',
     ''SBD'', ''SCR'', ''SEK'', ''SGD'', ''SHP'', ''SLL'', ''SOS'', ''SRD'', ''SSP'', ''STD'', ''SVC'',
     ''SZL'', ''THB'', ''TJS'', ''TMT'', ''TND'', ''TOP'', ''TRY'', ''TTD'', ''TWD'', ''TZS'', ''UAH'',
     ''UGX'', ''USD'', ''UYU'', ''UZS'', ''VEF'', ''VES'', ''VND'', ''VUV'', ''WST'', ''XAF'', ''XAG'',
     ''XAU'', ''XCD'', ''XDR'', ''XOF'', ''XPD'', ''XPF'', ''XPT'', ''YER'', ''ZAR'', ''ZMW'', ''ZWL'']"

definition allowed_currencies :: "string list \<Rightarrow> string list" where
  "allowed_currencies allowed =
     (if length allowed > 0 then filter (\<lambda>c. upper c \<in> set allowed) currencies else currencies)"

section \<open>The choice of a provider\<close>

text \<open>The connection settings, the construction and the client of each provider.\<close>

definition provider_fields :: "fiat_env \<Rightarrow> string \<Rightarrow> string" where
  "provider_fields fe name =
     (if name = ''stripe'' then
        stripe_connection_fields (Some (stripe_api_endpoint (fe_stripe fe))) (stripe_api_secret_key (fe_stripe fe))
      else if name = ''paypal'' then
        paypal_connection_fields (Some (paypal_api_endpoint (fe_paypal fe))) (paypal_client_id (fe_paypal fe))
          (paypal_client_secret (fe_paypal fe)) (paypal_webhook_id (fe_paypal fe))
      else if name = ''square'' then
        square_connection_fields (Some (square_api_endpoint (fe_square fe))) (square_access_token (fe_square fe))
          (square_location_id (fe_square fe)) (Some (square_api_version (fe_square fe)))
      else
        revolut_connection_fields (Some (revolut_api_endpoint (fe_revolut fe)))
          (revolut_api_secret_key (fe_revolut fe)) (Some (revolut_api_version (fe_revolut fe)))
          (revolut_webhook_signing_secret (fe_revolut fe)))"

definition provider_endpoint :: "fiat_env \<Rightarrow> string \<Rightarrow> exn + string" where
  "provider_endpoint fe name =
     (if name = ''stripe'' then
        stripe_init (Some (stripe_api_endpoint (fe_stripe fe))) (stripe_api_secret_key (fe_stripe fe))
      else if name = ''paypal'' then
        paypal_init (Some (paypal_api_endpoint (fe_paypal fe))) (paypal_client_id (fe_paypal fe))
          (paypal_client_secret (fe_paypal fe))
      else if name = ''square'' then
        square_init (Some (square_api_endpoint (fe_square fe))) (square_access_token (fe_square fe))
          (square_location_id (fe_square fe))
      else
        revolut_init (Some (revolut_api_endpoint (fe_revolut fe))) (revolut_api_secret_key (fe_revolut fe)))"

definition provider_client :: "fiat_env \<Rightarrow> string \<Rightarrow> fiat_client" where
  "provider_client fe name =
     (fe_client fe)\<lparr>
        fc_endpoint := (case provider_endpoint fe name of Inl e \<Rightarrow> [] | Inr u \<Rightarrow> u),
        fc_success_url := Some
          (if name = ''stripe'' then stripe_payment_success_url (fe_stripe fe)
           else if name = ''paypal'' then paypal_payment_success_url (fe_paypal fe)
           else if name = ''square'' then square_payment_success_url (fe_square fe)
           else revolut_payment_success_url (fe_revolut fe)),
        fc_location := (case square_location_id (fe_square fe) of None \<Rightarrow> [] | Some l \<Rightarrow> l)\<rparr>"

text \<open>\<open>_init_fiat_provider\<close>: no provider when it is not enabled; the construction may raise.\<close>

definition init_fiat_provider :: "settings \<Rightarrow> fiat_env \<Rightarrow> string \<Rightarrow> exn + fiat_client option" where
  "init_fiat_provider cfg fe name =
     (if \<not> is_fiat_provider_enabled cfg (Some name) then Inr None
      else and_then (provider_endpoint fe name) (\<lambda>u. Inr (Some (provider_client fe name))))"

text \<open>A provider made with the settings of now is used again; another one is dropped and made anew, and a new
  PayPal provider has no access token.\<close>

definition get_fiat_provider :: "settings \<Rightarrow> fiat_env \<Rightarrow> string \<Rightarrow> (site, fiat_client option) py" where
  "get_fiat_provider cfg fe name =
     thenP (failIf (name \<notin> set fiat_provider_types) (ValueError (''Fiat provider '' @ name @ '' is not supported.'')))
     (bindP (gets (\<lambda>s. si_providers s name)) (\<lambda>cached.
      if cached = Some (provider_fields fe name) then ret (Some (provider_client fe name))
      else
        thenP (modify (\<lambda>s. s\<lparr>si_providers := (si_providers s)(name := None)\<rparr>))
        (bindP (liftE (init_fiat_provider cfg fe name)) (\<lambda>provider.
         case provider of
           None \<Rightarrow> ret None
         | Some cl \<Rightarrow>
             thenP (modify (\<lambda>s. s\<lparr>si_providers := (si_providers s)(name := Some (provider_fields fe name)),
                si_net := (if name = ''paypal'' then (si_net s)\<lparr>nw_token := JNull, nw_expires := 0\<rparr> else si_net s)\<rparr>))
             (ret (Some cl))))))"

definition provider_invoice_status :: "string \<Rightarrow> fiat_client \<Rightarrow> string \<Rightarrow> (network, fiat_payment_status) py" where
  "provider_invoice_status name cl checking_id =
     (if name = ''stripe'' then on_http (stripe_get_invoice_status cl checking_id)
      else if name = ''paypal'' then paypal_get_invoice_status cl checking_id
      else if name = ''square'' then on_http (square_get_invoice_status cl checking_id)
      else on_http (revolut_get_invoice_status cl checking_id))"

definition provider_create_invoice ::
  "string \<Rightarrow> fiat_client \<Rightarrow> rat \<Rightarrow> string \<Rightarrow> string \<Rightarrow> string option \<Rightarrow> dict \<Rightarrow> (network, fiat_invoice) py" where
  "provider_create_invoice name cl amount payment_hash currency memo extra =
     (if name = ''stripe'' then on_http (stripe_create_invoice cl amount payment_hash currency memo extra)
      else if name = ''paypal'' then paypal_create_invoice cl amount payment_hash currency memo extra
      else if name = ''square'' then on_http (square_create_invoice cl amount payment_hash currency memo extra)
      else on_http (revolut_create_invoice cl amount payment_hash currency memo extra))"

section \<open>Checking a fiat payment\<close>

text \<open>The checking id for which \<open>check_fiat_status\<close> asks a provider, when it asks.\<close>

definition asked_id :: "payment \<Rightarrow> string option" where
  "asked_id p =
     (if \<not> is_internal p \<or> p_success p \<or> p_failed p \<or> \<not> truthy (p_fiat_provider p) then None
      else (case dget (p_extra p) ''fiat_checking_id'' of
              Some (JStr c) \<Rightarrow> if c = [] then None else Some c
            | _ \<Rightarrow> None))"

definition status_of_fiat :: "fiat_payment_status \<Rightarrow> payment_status" where
  "status_of_fiat st =
     (if fiat_success st then PaymentSuccessStatus None None
      else if fiat_is_failed st then PaymentFailedStatus else PaymentPendingStatus)"

text \<open>\<open>check_fiat_status\<close> with the answer of the provider, which is asked only where the function asks.\<close>

definition check_fiat :: "env \<Rightarrow> settings \<Rightarrow> fiat_env \<Rightarrow> payment \<Rightarrow> (site, payment) py" where
  "check_fiat ev cfg fe p =
     bindP (case asked_id p of
         None \<Rightarrow> ret None
       | Some c \<Rightarrow>
           bindP (get_fiat_provider cfg fe (the (p_fiat_provider p))) (\<lambda>provider.
           case provider of
             None \<Rightarrow> ret None
           | Some cl \<Rightarrow> bindP (in_net (provider_invoice_status (the (p_fiat_provider p)) cl c)) (\<lambda>st. ret (Some st)))) (\<lambda>answer.
     bindP (in_db (check_fiat_status (ev\<lparr>fiat_provider_status := (\<lambda>_ _. map_option status_of_fiat answer)\<rparr>) cfg p))
       (\<lambda>(st, p'). ret p'))"

section \<open>Creating the payment of a subscription\<close>

text \<open>\<open>CreateInvoice(unit, amount, memo, extra, fiat_provider, external_id)\<close>\<close>

definition invoice_model ::
  "fiat_env \<Rightarrow> string \<Rightarrow> rat \<Rightarrow> string \<Rightarrow> dict \<Rightarrow> string option \<Rightarrow> string option \<Rightarrow> bool \<Rightarrow> exn + create_invoice_data" where
  "invoice_model fe currency amount memo extra fiat_provider external_id inner =
     (if currency \<noteq> ''sat'' \<and> currency \<notin> set (allowed_currencies (fe_allowed_currencies fe)) then Inl ValidationError
      else if amount < 0 then Inl ValidationError
      else if length memo > 640 then Inl ValidationError
      else if truthy external_id \<and> \<not> is_valid_external_id (the external_id) then Inl ValidationError
      else Inr \<lparr>ci_unit = currency, ci_internal = inner, ci_amount = amount, ci_memo = Some memo,
                ci_description_hash = None, ci_unhashed_description = None, ci_payment_hash = None,
                ci_expiry = None, ci_extra = extra, ci_extension = None, ci_webhook = None,
                ci_lnurl_withdraw = None, ci_fiat_provider = fiat_provider, ci_labels = [],
                ci_external_id = external_id\<rparr>)"

definition text_opt :: "fiat_client \<Rightarrow> jval \<Rightarrow> string option" where
  "text_opt cl v = (if v = JNull then None else Some (str_of cl v))"

text \<open>The provider \<open>create_fiat_invoice\<close> finds and its answer, computed from the state at the start.\<close>

definition answering :: "settings \<Rightarrow> fiat_env \<Rightarrow> site \<Rightarrow> env \<Rightarrow> env" where
  "answering cfg fe s ev = ev\<lparr>fiat_create_invoice := (\<lambda>name amount payment_hash currency memo extra.
     case get_fiat_provider cfg fe name s of
       (Inl e, t) \<Rightarrow> Some (Inl e)
     | (Inr None, t) \<Rightarrow> None
     | (Inr (Some cl), t) \<Rightarrow>
         Some (case fst (provider_create_invoice name cl amount payment_hash currency (Some memo) extra (si_net t)) of
                 Inl e \<Rightarrow> Inl e
               | Inr i \<Rightarrow> Inr \<lparr>fir_ok = Some (fi_ok i), fir_checking_id = text_opt cl (fi_checking_id i),
                    fir_payment_request = text_opt cl (fi_payment_request i), fir_error_message = None\<rparr>))\<rparr>"

definition subscription_invoice ::
  "env \<Rightarrow> settings \<Rightarrow> fiat_env \<Rightarrow> string \<Rightarrow> create_invoice_data \<Rightarrow> (site, payment) py" where
  "subscription_invoice ev cfg fe wallet_id d =
     bindP (gets (\<lambda>s. answering cfg fe s ev)) (\<lambda>ev'. in_db (create_fiat_invoice ev' cfg wallet_id d))"

end
