(* ===== verification/CallbackApi.thy ===== *)
theory CallbackApi
  imports Webhooks FiatService
begin

text \<open>
  \<open>core/views/callback_api.py\<close>: the endpoint the providers call and the handlers of their events. An event is a
  JSON value, read with the operations of Python on it; log lines are left out.
\<close>

section \<open>Reading events\<close>

text \<open>\<open>event.get("data", {}).get("object", {})\<close>\<close>

definition event_object :: "jval \<Rightarrow> exn + jval" where
  "event_object event =
     and_then (get_or event ''data'' (JObj [])) (\<lambda>d. get_or d ''object'' (JObj []))"

text \<open>A payment is looked up by a text; SQLite compares a number with a text column by its digits and takes no
  lists or objects as arguments.\<close>

definition find_payment :: "env \<Rightarrow> settings \<Rightarrow> jval \<Rightarrow> (site, payment option) py" where
  "find_payment ev cfg v =
     (let look = (\<lambda>s. in_db (get_standalone_payment ev cfg s False None)) in
      case v of
        JStr s \<Rightarrow> look s
      | JInt i \<Rightarrow> look (str_int i)
      | JBool b \<Rightarrow> look (if b then ''1'' else ''0'')
      | JFloat r \<Rightarrow> look (float_repr r)
      | JNull \<Rightarrow> ret None
      | _ \<Rightarrow> throw (OtherError ''InterfaceError''))"

definition check_payment :: "env \<Rightarrow> settings \<Rightarrow> fiat_env \<Rightarrow> payment \<Rightarrow> (site, unit) py" where
  "check_payment ev cfg fe p = bindP (check_fiat ev cfg fe p) (\<lambda>_. ret ())"

section \<open>Stripe\<close>

definition handle_stripe_intent_session_completed ::
  "env \<Rightarrow> settings \<Rightarrow> fiat_env \<Rightarrow> jval \<Rightarrow> (site, unit) py" where
  "handle_stripe_intent_session_completed ev cfg fe event =
     bindP (liftE (event_object event)) (\<lambda>event_object.
     bindP (liftE (get event_object ''object'')) (\<lambda>object_type.
     bindP (liftE (get_or event_object ''metadata'' (JObj []))) (\<lambda>metadata.
     bindP (liftE (get metadata ''payment_hash'')) (\<lambda>payment_hash.
     if \<not> truth payment_hash then ret ()
     else
       bindP (find_payment ev cfg payment_hash) (\<lambda>found.
       case found of None \<Rightarrow> ret () | Some payment \<Rightarrow> check_payment ev cfg fe payment)))))"

definition handle_stripe_checkout_session_completed ::
  "env \<Rightarrow> settings \<Rightarrow> fiat_env \<Rightarrow> jval \<Rightarrow> (site, unit) py" where
  "handle_stripe_checkout_session_completed ev cfg fe event =
     bindP (liftE (event_object event)) (\<lambda>event_object.
     bindP (liftE (get event_object ''object'')) (\<lambda>object_type.
     bindP (liftE (get_or event_object ''metadata'' (JObj []))) (\<lambda>metadata.
     bindP (liftE (get metadata ''payment_hash'')) (\<lambda>payment_hash.
     bindP (liftE (get metadata ''alan_action'')) (\<lambda>alan_action.
     if alan_action \<noteq> JStr ''invoice'' then ret ()
     else
       thenP (failIf (\<not> truth payment_hash) (ValueError ''Stripe event does not contain a payment hash.''))
       (bindP (find_payment ev cfg payment_hash) (\<lambda>found.
        case found of
          None \<Rightarrow> throw (ValueError ''No payment found for hash.'')
        | Some payment \<Rightarrow> check_payment ev cfg fe payment)))))))"

definition stripe_subscription_payment_options :: "fiat_client \<Rightarrow> jval \<Rightarrow> exn + payment_options" where
  "stripe_subscription_payment_options cl parent =
     and_then (if truth parent then get parent ''type'' else Inr JNull) (\<lambda>ty.
     if ty \<noteq> JStr ''subscription_details''
     then Inl (ValueError ''Stripe invoice.paid event does not contain a subscription.'')
     else
       and_then (get_or parent ''subscription_details'' (JObj [])) (\<lambda>details.
       and_then (get_or details ''metadata'' (JObj [])) (\<lambda>metadata.
       and_then (get metadata ''alan_action'') (\<lambda>action.
       if action \<noteq> JStr ''subscription''
       then Inl (ValueError ''Stripe invoice.paid metadata action is not subscription.'')
       else
         (case metadata of
            JObj d \<Rightarrow>
              (case dget d ''extra'' of
                 None \<Rightarrow> payment_options_of cl d
               | Some x \<Rightarrow>
                   (case loads cl x of
                      Inr v \<Rightarrow> payment_options_of cl (dset d ''extra'' v)
                    | Inl e \<Rightarrow> if e = JSONDecodeError then payment_options_of cl (dset d ''extra'' (JObj []))
                              else Inl e))
          | _ \<Rightarrow> Inl TypeError)))))"

text \<open>\<open>" | ".join(...)\<close> needs texts.\<close>

fun descriptions :: "jval list \<Rightarrow> exn + jval list" where
  "descriptions [] = Inr []"
| "descriptions (i # is) =
     and_then (get_or i ''description'' (JStr [])) (\<lambda>d. and_then (descriptions is) (\<lambda>ds. Inr (d # ds)))"

fun join_texts :: "jval list \<Rightarrow> exn + string list" where
  "join_texts [] = Inr []"
| "join_texts (v # vs) = (case v of JStr s \<Rightarrow> and_then (join_texts vs) (\<lambda>ts. Inr (s # ts)) | _ \<Rightarrow> Inl TypeError)"

definition stripe_subscription_memo :: "jval \<Rightarrow> payment_options \<Rightarrow> exn + string" where
  "stripe_subscription_memo invoice p =
     and_then (get_or invoice ''lines'' (JObj [])) (\<lambda>lines.
     and_then (get_or lines ''data'' (JList [])) (\<lambda>data.
     and_then (elements data) (\<lambda>items.
     and_then (descriptions items) (\<lambda>ds.
     and_then (get_or invoice ''customer_email'' (JStr [])) (\<lambda>email.
     and_then (join_texts (ds @ [JStr (the (orElse (po_memo p) (Some []))), email])) (\<lambda>texts.
     Inr (join '' | '' texts)))))))"

text \<open>The extra data of a subscription payment; a key given twice keeps the later value.\<close>

definition subscription_extra :: "dict \<Rightarrow> (string \<times> jval) list \<Rightarrow> string option \<Rightarrow> jval \<Rightarrow> jval \<Rightarrow> dict" where
  "subscription_extra extra others tag checking_id payment_request =
     collect (extra @ others @ [(''fiat_method'', JStr ''subscription''), (''tag'', jopt tag),
       (''subscription'', JObj [(''checking_id'', checking_id), (''payment_request'', payment_request)])])"

definition handle_stripe_subscription_invoice_paid ::
  "env \<Rightarrow> settings \<Rightarrow> fiat_env \<Rightarrow> jval \<Rightarrow> (site, unit) py" where
  "handle_stripe_subscription_invoice_paid ev cfg fe event =
     bindP (liftE (event_object event)) (\<lambda>invoice.
     bindP (liftE (get_or invoice ''parent'' (JObj []))) (\<lambda>parent.
     bindP (liftE (and_then (get_or invoice ''currency'' (JStr [])) upper_of)) (\<lambda>currency.
     thenP (failIf (currency = []) (ValueError ''Stripe invoice.paid event missing currency.''))
     (bindP (liftE (get invoice ''amount_paid'')) (\<lambda>amount_paid.
      thenP (failIf (\<not> truth amount_paid) (ValueError ''Stripe invoice.paid event missing amount_paid.''))
      (bindP (liftE (stripe_subscription_payment_options (fe_client fe) parent)) (\<lambda>p.
       thenP (failIf (\<not> truthy (po_wallet_id p))
                (ValueError ''Stripe invoice.paid event missing wallet_id in metadata.''))
       (bindP (liftE (stripe_subscription_memo invoice p)) (\<lambda>memo.
        bindP (liftE (get invoice ''id'')) (\<lambda>i.
        bindP (liftE (get invoice ''hosted_invoice_url'')) (\<lambda>url.
        bindP (liftE (stripe_from_minor amount_paid currency)) (\<lambda>amount.
        bindP (liftE (invoice_model fe currency amount memo
                 (subscription_extra (extra_or_empty p) [] (po_tag p) i url) (Some ''stripe'') None False)) (\<lambda>d.
        bindP (subscription_invoice ev cfg fe (the (po_wallet_id p)) d) (\<lambda>payment.
        check_payment ev cfg fe payment))))))))))))))"

definition handle_stripe_event :: "env \<Rightarrow> settings \<Rightarrow> fiat_env \<Rightarrow> jval \<Rightarrow> (site, unit) py" where
  "handle_stripe_event ev cfg fe event =
     bindP (liftE (get event ''id'')) (\<lambda>event_id.
     bindP (liftE (get event ''type'')) (\<lambda>event_type.
     if event_type = JStr ''checkout.session.completed'' then
       handle_stripe_checkout_session_completed ev cfg fe event
     else if event_type = JStr ''payment_intent.succeeded'' then
       handle_stripe_intent_session_completed ev cfg fe event
     else if event_type = JStr ''invoice.paid'' then
       handle_stripe_subscription_invoice_paid ev cfg fe event
     else ret ()))"

section \<open>PayPal\<close>

fun purchase_unit_hash :: "jval list \<Rightarrow> exn + jval" where
  "purchase_unit_hash [] = Inr JNull"
| "purchase_unit_hash (pu # pus) =
     and_then (get pu ''invoice_id'') (\<lambda>i.
     if truth i then Inr i
     else and_then (get pu ''custom_id'') (\<lambda>c. if truth c then Inr c else purchase_unit_hash pus))"

definition paypal_extract_payment_hash :: "jval \<Rightarrow> exn + jval" where
  "paypal_extract_payment_hash resource =
     and_then (get resource ''purchase_units'') (\<lambda>u.
     and_then (elements (or_else u (JList []))) purchase_unit_hash)"

text \<open>\<open>meta[i] if len(meta) > i else None\<close>: a JSON object has no integer keys, a number no length.\<close>

definition meta_item :: "jval \<Rightarrow> nat \<Rightarrow> exn + jval" where
  "meta_item meta i = (case meta of
      JList l \<Rightarrow> Inr (if i < length l then l ! i else JNull)
    | JStr s \<Rightarrow> Inr (if i < length s then JStr [s ! i] else JNull)
    | JObj d \<Rightarrow> (if i < length d then Inl KeyError else Inr JNull)
    | _ \<Rightarrow> Inl TypeError)"

definition options_from_meta :: "fiat_client \<Rightarrow> jval \<Rightarrow> exn + payment_options" where
  "options_from_meta cl meta =
     and_then (meta_item meta 0) (\<lambda>wallet_id.
     and_then (meta_item meta 1) (\<lambda>tag.
     and_then (meta_item meta 2) (\<lambda>i.
     and_then (meta_item meta 3) (\<lambda>link.
     and_then (meta_item meta 4) (\<lambda>memo.
     payment_options_of cl
       [(''wallet_id'', wallet_id), (''tag'', tag), (''subscription_request_id'', i),
        (''extra'', JObj [(''link'', link), (''subscription_request_id'', i)]), (''memo'', memo)])))))"

definition deserialize_paypal_metadata :: "fiat_client \<Rightarrow> jval \<Rightarrow> exn + payment_options" where
  "deserialize_paypal_metadata cl custom_id =
     (case and_then (loads cl custom_id) (options_from_meta cl) of
        Inr p \<Rightarrow> Inr p
      | Inl e \<Rightarrow> if e = JSONDecodeError \<or> e = IndexError then Inr no_options else Inl e)"

definition handle_paypal_subscription_payment ::
  "env \<Rightarrow> settings \<Rightarrow> fiat_env \<Rightarrow> jval \<Rightarrow> (site, unit) py" where
  "handle_paypal_subscription_payment ev cfg fe resource =
     bindP (liftE (get resource ''amount'')) (\<lambda>a.
     let amount_info = or_else a (JObj []) in
     bindP (liftE (get_upper amount_info ''currency'')) (\<lambda>currency.
     bindP (liftE (get amount_info ''total'')) (\<lambda>total_amount.
     thenP (failIf (currency = [] \<or> total_amount = JNull) (ValueError ''PayPal subscription event missing amount.''))
     (bindP (liftE (get resource ''custom_id'')) (\<lambda>c1.
      bindP (liftE (get resource ''custom'')) (\<lambda>c2.
      let custom_id = or_else c1 c2 in
      thenP (failIf (\<not> truth custom_id) (ValueError ''PayPal subscription event missing custom metadata.''))
      (bindP (liftE (deserialize_paypal_metadata (fe_client fe) custom_id)) (\<lambda>p.
       thenP (failIf (\<not> truthy (po_wallet_id p)) (ValueError ''PayPal subscription event missing wallet_id.''))
       (bindP (liftE (get resource ''billing_agreement_id'')) (\<lambda>agreement.
        bindP (liftE (get resource ''id'')) (\<lambda>i.
        bindP (liftE (float_of total_amount)) (\<lambda>amount.
        bindP (liftE (invoice_model fe currency amount (the (orElse (po_memo p) (Some [])))
                 (subscription_extra (extra_or_empty p) [(''subscription_request_id'', agreement)] (po_tag p)
                    (or_else i agreement) (JStr [])) (Some ''paypal'') None False)) (\<lambda>d.
        bindP (subscription_invoice ev cfg fe (the (po_wallet_id p)) d) (\<lambda>payment.
        check_payment ev cfg fe payment))))))))))))))"

text \<open>\<open>event_type in ("PAYMENT.SALE.COMPLETED")\<close>: the parentheses make no tuple, so this asks for a substring.\<close>

definition in_sale_completed :: "jval \<Rightarrow> exn + bool" where
  "in_sale_completed event_type = (case event_type of
      JStr s \<Rightarrow> Inr (substring s ''PAYMENT.SALE.COMPLETED'') | _ \<Rightarrow> Inl TypeError)"

definition handle_paypal_event :: "env \<Rightarrow> settings \<Rightarrow> fiat_env \<Rightarrow> jval \<Rightarrow> (site, unit) py" where
  "handle_paypal_event ev cfg fe event =
     bindP (liftE (get_or event ''event_type'' (JStr []))) (\<lambda>event_type.
     bindP (liftE (get_or event ''resource'' (JObj []))) (\<lambda>resource.
     if event_type \<in> {JStr ''CHECKOUT.ORDER.APPROVED'', JStr ''PAYMENT.CAPTURE.COMPLETED''} then
       bindP (liftE (paypal_extract_payment_hash resource)) (\<lambda>payment_hash.
       if \<not> truth payment_hash then ret ()
       else
         bindP (find_payment ev cfg payment_hash) (\<lambda>found.
         case found of None \<Rightarrow> ret () | Some payment \<Rightarrow> check_payment ev cfg fe payment))
     else
       bindP (liftE (in_sale_completed event_type)) (\<lambda>sale.
       if sale then handle_paypal_subscription_payment ev cfg fe resource else ret ())))"

text \<open>
  The rest of \<open>core/views/callback_api.py\<close>: the events of Square and Revolut, the verification of PayPal's
  webhooks and the endpoint itself; and the lookup of the subscription a Square cancellation is about.
\<close>

section \<open>Payments noted under another id\<close>

text \<open>\<open>existing.external_id = i; await update_payment(existing)\<close>, when it differs.\<close>

definition note_external_id :: "env \<Rightarrow> fiat_client \<Rightarrow> bool \<Rightarrow> jval \<Rightarrow> payment \<Rightarrow> (site, payment) py" where
  "note_external_id ev cl wanted i p =
     (if wanted \<and> jopt (p_external_id p) \<noteq> i
      then in_db (update_payment ev (p\<lparr>p_external_id := text_opt cl i\<rparr>) None) else ret p)"

section \<open>Revolut\<close>

definition create_revolut_subscription_payment ::
  "env \<Rightarrow> settings \<Rightarrow> fiat_env \<Rightarrow> string \<Rightarrow> jval \<Rightarrow> string \<Rightarrow> string \<Rightarrow> dict \<Rightarrow> string \<Rightarrow> jval \<Rightarrow> jval
   \<Rightarrow> (site, payment) py" where
  "create_revolut_subscription_payment ev cfg fe wallet_id amount_minor currency memo extra order_id payment_request
     subscription_id =
     bindP (liftE (revolut_from_minor amount_minor currency)) (\<lambda>amount.
     bindP (liftE (accept_str (fe_client fe) subscription_id)) (\<lambda>external_id.
     bindP (liftE (invoice_model fe currency amount memo extra None (Some external_id) True)) (\<lambda>d.
     bindP (in_db (create_wallet_invoice ev cfg wallet_id d)) (\<lambda>payment.
     let checking_id = ''fiat_revolut_order_'' @ order_id;
         payment' = payment\<lparr>p_fee := - \<bar>service_fee_fiat cfg (p_msat payment) ''revolut''\<bar>,
           p_fiat_provider := Some ''revolut'',
           p_extra := dset (dset (p_extra payment) ''fiat_checking_id'' (JStr (''order_'' @ order_id)))
                        ''fiat_payment_request'' payment_request\<rparr> in
     bindP (in_db (update_payment ev payment' (Some checking_id))) (\<lambda>_.
     ret (payment'\<lparr>p_checking_id := checking_id\<rparr>))))))"

text \<open>\<open>order_id\<close> and \<open>order\<close> are \<open>None\<close>, here \<open>JNull\<close>, when the caller has none.\<close>

definition handle_revolut_subscription ::
  "env \<Rightarrow> settings \<Rightarrow> fiat_env \<Rightarrow> fiat_client \<Rightarrow> jval \<Rightarrow> jval \<Rightarrow> jval \<Rightarrow> (site, unit) py" where
  "handle_revolut_subscription ev cfg fe cl subscription order_id0 order0 =
     bindP (liftE (get subscription ''id'')) (\<lambda>subscription_id.
     if \<not> truth subscription_id then ret ()
     else
       bindP (liftE (get subscription ''external_reference'')) (\<lambda>x.
       bindP (liftE (revolut_deserialize_reference cl x)) (\<lambda>found.
       case found of
         None \<Rightarrow> ret ()
       | Some reference \<Rightarrow>
           bindP (if truth order_id0 then ret order_id0
                  else
                    bindP (liftE (get subscription ''current_cycle_id'')) (\<lambda>cycle_id.
                    if \<not> truth cycle_id then ret JNull
                    else
                      bindP (in_net (on_http (revolut_get_subscription_cycle cl subscription_id cycle_id))) (\<lambda>cycle.
                      liftE (get cycle ''order_id'')))) (\<lambda>oid.
           if \<not> truth oid then ret ()
           else
             let order_id = str_of cl oid in
             bindP (in_db (get_standalone_payment ev cfg (''fiat_revolut_order_'' @ order_id) False None)) (\<lambda>existing.
             case existing of
               Some p \<Rightarrow>
                 bindP (note_external_id ev cl True subscription_id p) (\<lambda>p'. check_payment ev cfg fe p')
             | None \<Rightarrow>
                 bindP (if truth order0 then ret order0 else in_net (on_http (revolut_get_order cl oid))) (\<lambda>order.
                 bindP (liftE (get order ''amount'')) (\<lambda>amount_minor.
                 bindP (liftE (get_upper order ''currency'')) (\<lambda>currency.
                 thenP (failIf (amount_minor = JNull \<or> currency = [])
                          (ValueError ''Revolut subscription order missing amount or currency.''))
                 (bindP (liftE (get order ''checkout_url'')) (\<lambda>url.
                  bindP (create_revolut_subscription_payment ev cfg fe (sr_wallet_id reference) amount_minor currency
                    (the (orElse (sr_memo reference) (Some [])))
                    (subscription_extra (case sr_extra reference of None \<Rightarrow> [] | Some d \<Rightarrow> d)
                       [(''subscription_request_id'', subscription_id)] (sr_tag reference)
                       (JStr (''order_'' @ order_id)) (or_else url (JStr [])))
                    order_id (or_else url (JStr [])) subscription_id) (\<lambda>payment.
                  check_payment ev cfg fe payment)))))))))))"

definition handle_revolut_subscription_order_paid ::
  "env \<Rightarrow> settings \<Rightarrow> fiat_env \<Rightarrow> jval \<Rightarrow> (site, unit) py" where
  "handle_revolut_subscription_order_paid ev cfg fe order_id =
     bindP (get_fiat_provider cfg fe ''revolut'') (\<lambda>provider.
     case provider of
       None \<Rightarrow> ret ()
     | Some cl \<Rightarrow>
         bindP (in_net (on_http (revolut_get_order cl order_id))) (\<lambda>order.
         bindP (liftE (and_then (get order ''type'') (\<lambda>v. and_then (upper_of (or_else v (JStr []))) (\<lambda>u. Inr (lower u))))) (\<lambda>order_type.
         bindP (liftE (get_upper order ''state'')) (\<lambda>order_state.
         if order_type \<noteq> ''payment'' \<or> order_state \<noteq> ''COMPLETED'' then ret ()
         else
           bindP (liftE (get order ''channel_data'')) (\<lambda>c.
           bindP (liftE (get (or_else c (JObj [])) ''subscription_id'')) (\<lambda>subscription_id.
           if \<not> truth subscription_id then ret ()
           else
             bindP (in_net (on_http (revolut_get_subscription cl subscription_id))) (\<lambda>subscription.
             bindP (liftE (get subscription ''state'')) (\<lambda>st.
             if st \<noteq> JStr ''active'' then ret ()
             else handle_revolut_subscription ev cfg fe cl subscription order_id order))))))))"

definition handle_revolut_event :: "env \<Rightarrow> settings \<Rightarrow> fiat_env \<Rightarrow> jval \<Rightarrow> (site, unit) py" where
  "handle_revolut_event ev cfg fe event =
     bindP (liftE (get_or event ''event'' (JStr []))) (\<lambda>event_type.
     bindP (liftE (get event ''order_id'')) (\<lambda>order_id.
     if event_type \<in> {JStr ''ORDER_AUTHORISED'', JStr ''ORDER_COMPLETED''} then
       (if \<not> truth order_id then ret ()
        else
          bindP (in_db (get_standalone_payment ev cfg
                   (''fiat_revolut_order_'' @ str_of (fe_client fe) order_id) False None)) (\<lambda>found.
          case found of
            Some payment \<Rightarrow> check_payment ev cfg fe payment
          | None \<Rightarrow>
              if event_type = JStr ''ORDER_COMPLETED''
              then handle_revolut_subscription_order_paid ev cfg fe order_id else ret ()))
     else ret ()))"

section \<open>Square\<close>

definition square_extract_payment :: "jval \<Rightarrow> exn + jval" where
  "square_extract_payment event =
     and_then (event_object event) (\<lambda>x. and_then (get x ''payment'') (\<lambda>p. Inr (or_else p x)))"

definition square_payment_is_completed :: "jval \<Rightarrow> exn + bool" where
  "square_payment_is_completed payment = and_then (get_upper payment ''status'') (\<lambda>s. Inr (s = ''COMPLETED''))"

definition square_payment_note :: "jval \<Rightarrow> exn + jval" where
  "square_payment_note payment =
     and_then (get payment ''note'') (\<lambda>a. and_then (get payment ''payment_note'') (\<lambda>b.
     Inr (or_else (or_else a b) (JStr []))))"

definition deserialize_square_metadata :: "fiat_client \<Rightarrow> jval \<Rightarrow> exn + payment_options" where
  "deserialize_square_metadata cl note =
     (case and_then (loads cl note) (\<lambda>meta.
        case meta of JList l \<Rightarrow> options_from_meta cl meta | _ \<Rightarrow> Inr no_options) of
        Inr p \<Rightarrow> Inr p
      | Inl e \<Rightarrow> if e = JSONDecodeError \<or> e = IndexError \<or> e = TypeError then Inr no_options else Inl e)"

definition square_payment_options_from_payment :: "fiat_client \<Rightarrow> payment \<Rightarrow> exn + payment_options" where
  "square_payment_options_from_payment cl p =
     (let value = (\<lambda>k. case dget (p_extra p) k of None \<Rightarrow> JNull | Some v \<Rightarrow> v);
          tag = (case p_tag p of None \<Rightarrow> JNull | Some v \<Rightarrow> v) in
      payment_options_of cl
        [(''wallet_id'', JStr (p_wallet_id p)), (''tag'', or_else (value ''tag'') tag),
         (''subscription_request_id'', value ''subscription_request_id''), (''extra'', JObj (p_extra p)),
         (''memo'', jopt (p_memo p))])"

text \<open>\<open>amount / 100\<close>\<close>

definition hundredth :: "jval \<Rightarrow> exn + rat" where
  "hundredth v = (case v of
      JFloat r \<Rightarrow> Inr (fdiv r 100)
    | _ \<Rightarrow> (case as_int v of None \<Rightarrow> Inl TypeError | Some i \<Rightarrow> Inr (idiv_float i 100)))"

definition handle_square_subscription_payment ::
  "env \<Rightarrow> settings \<Rightarrow> fiat_env \<Rightarrow> jval \<Rightarrow> payment_options \<Rightarrow> jval \<Rightarrow> jval \<Rightarrow> (site, unit) py" where
  "handle_square_subscription_payment ev cfg fe payment p payment_request subscription_id0 =
     (let cl = fe_client fe in
     bindP (liftE (get payment ''amount_money'')) (\<lambda>m.
     let amount_money = or_else m (JObj []) in
     bindP (liftE (get amount_money ''amount'')) (\<lambda>amount.
     bindP (liftE (get_upper amount_money ''currency'')) (\<lambda>currency.
     bindP (liftE (get payment ''id'')) (\<lambda>payment_id.
     thenP (failIf (amount = JNull \<or> currency = [] \<or> \<not> truth payment_id)
              (ValueError ''Square subscription payment event missing payment amount.''))
     (thenP (failIf (\<not> truthy (po_wallet_id p))
               (ValueError ''Square subscription payment event missing wallet_id.''))
     (let checking_id = ''payment_'' @ str_of cl payment_id in
      bindP (in_db (get_standalone_payment ev cfg (''fiat_square_'' @ checking_id) False None)) (\<lambda>existing.
      case existing of
        Some q \<Rightarrow>
          bindP (note_external_id ev cl (truth subscription_id0) subscription_id0 q) (\<lambda>q'. check_payment ev cfg fe q')
      | None \<Rightarrow>
          let subscription_id = or_else subscription_id0
                (case dget (extra_or_empty p) ''square_subscription_id'' of None \<Rightarrow> JNull | Some v \<Rightarrow> v) in
          bindP (liftE (hundredth amount)) (\<lambda>a.
          bindP (liftE (if subscription_id = JNull then Inr None
                        else and_then (accept_str cl subscription_id) (\<lambda>s. Inr (Some s)))) (\<lambda>external_id.
          bindP (liftE (invoice_model fe currency a (the (orElse (po_memo p) (Some [])))
                   (subscription_extra (extra_or_empty p) [(''subscription_request_id'', jopt (po_request_id p))]
                      (po_tag p) (JStr checking_id) payment_request) (Some ''square'') external_id False)) (\<lambda>d.
          bindP (subscription_invoice ev cfg fe (the (po_wallet_id p)) d) (\<lambda>created.
          check_payment ev cfg fe created))))))))))))"

definition handle_square_payment_event :: "env \<Rightarrow> settings \<Rightarrow> fiat_env \<Rightarrow> jval \<Rightarrow> (site, unit) py" where
  "handle_square_payment_event ev cfg fe event =
     bindP (liftE (square_extract_payment event)) (\<lambda>payment.
     bindP (liftE (square_payment_note payment)) (\<lambda>note.
     bindP (liftE (deserialize_square_metadata (fe_client fe) note)) (\<lambda>p.
     if truthy (po_wallet_id p) then
       bindP (liftE (square_payment_is_completed payment)) (\<lambda>completed.
       if \<not> completed then ret ()
       else handle_square_subscription_payment ev cfg fe payment p (JStr []) JNull)
     else
       bindP (liftE (get payment ''order_id'')) (\<lambda>order_id.
       if \<not> truth order_id then ret ()
       else
         bindP (in_db (get_standalone_payment ev cfg
                  (''fiat_square_order_'' @ str_of (fe_client fe) order_id) False None)) (\<lambda>found.
         case found of None \<Rightarrow> ret () | Some q \<Rightarrow> check_payment ev cfg fe q)))))"

text \<open>\<open>get_payments\<close> with a filter on \<open>external_id\<close>, newest first; of all wallets or of one.\<close>

definition by_external_id :: "string option \<Rightarrow> string \<Rightarrow> world \<Rightarrow> payment list" where
  "by_external_id wid i w =
     (let f = default_filters\<lparr>pf_sortby := Some SortCreatedAt, pf_direction := Some Desc, pf_limit := Some 1\<rparr> in
      paginate f (order_rows f (filter (\<lambda>p. p_external_id p = Some i \<and> (wid = None \<or> wid = Some (p_wallet_id p)))
        (wd_payments w))))"

definition stored_options :: "env \<Rightarrow> settings \<Rightarrow> fiat_client \<Rightarrow> jval \<Rightarrow> jval \<Rightarrow> (site, payment option) py" where
  "stored_options ev cfg cl payment_id subscription_id =
     bindP (if truth payment_id
            then in_db (get_standalone_payment ev cfg (''fiat_square_payment_'' @ str_of cl payment_id) False None)
            else ret None) (\<lambda>stored.
     if stored = None \<and> truth subscription_id then
       in_db (gets (\<lambda>w. case by_external_id None (str_of cl subscription_id) w of [] \<Rightarrow> None | q # _ \<Rightarrow> Some q))
     else ret stored)"

definition handle_square_invoice_payment_made :: "env \<Rightarrow> settings \<Rightarrow> fiat_env \<Rightarrow> jval \<Rightarrow> (site, unit) py" where
  "handle_square_invoice_payment_made ev cfg fe event =
     bindP (liftE (event_object event)) (\<lambda>x.
     bindP (liftE (get x ''invoice'')) (\<lambda>v.
     let invoice = or_else v (JObj []) in
     bindP (liftE (get invoice ''order_id'')) (\<lambda>order_id.
     if \<not> truth order_id then ret ()
     else
       bindP (liftE (get invoice ''subscription_id'')) (\<lambda>subscription_id.
       bindP (get_fiat_provider cfg fe ''square'') (\<lambda>provider.
       case provider of
         None \<Rightarrow> ret ()
       | Some cl \<Rightarrow>
           bindP (in_net (on_http (square_get_payment_for_order cl order_id))) (\<lambda>payment.
           if \<not> truth payment then ret ()
           else
             bindP (liftE (square_payment_note payment)) (\<lambda>note.
             bindP (liftE (deserialize_square_metadata cl note)) (\<lambda>p.
             bindP (liftE (get invoice ''public_url'')) (\<lambda>url.
             let finish = (\<lambda>q. handle_square_subscription_payment ev cfg fe payment q (or_else url (JStr []))
                                  subscription_id) in
             if truthy (po_wallet_id p) then finish p
             else
               bindP (liftE (get payment ''id'')) (\<lambda>payment_id.
               bindP (stored_options ev cfg cl payment_id subscription_id) (\<lambda>stored.
               case stored of
                 None \<Rightarrow> ret ()
               | Some q \<Rightarrow> bindP (liftE (square_payment_options_from_payment cl q)) finish)))))))))))"

definition handle_square_event :: "env \<Rightarrow> settings \<Rightarrow> fiat_env \<Rightarrow> jval \<Rightarrow> (site, unit) py" where
  "handle_square_event ev cfg fe event =
     bindP (liftE (get_or event ''type'' (JStr []))) (\<lambda>event_type.
     if event_type = JStr ''payment.updated'' then handle_square_payment_event ev cfg fe event
     else if event_type = JStr ''invoice.payment_made'' then handle_square_invoice_payment_made ev cfg fe event
     else ret ())"

text \<open>\<open>_get_square_subscription_id\<close>: by the external id, by the request id noted in the extra data of one of the
  ten newest incoming payments of the wallet, or the id itself.\<close>

definition is_square_payment :: "payment \<Rightarrow> bool" where
  "is_square_payment p \<longleftrightarrow> truthy (p_external_id p) \<and> p_fiat_provider p = Some ''square''"

definition get_square_subscription_id :: "env \<Rightarrow> settings \<Rightarrow> string \<Rightarrow> string \<Rightarrow> (world, string) py" where
  "get_square_subscription_id ev cfg subscription_id wallet_id =
     tryP
       (bindP (get_wallet ev cfg wallet_id (Some False)) (\<lambda>w.
        let rows = (\<lambda>db. case w of None \<Rightarrow> []
              | Some x \<Rightarrow> if \<not> can_view_payments x then [] else by_external_id (Some (source_wallet_id x)) subscription_id db) in
        bindP (gets (\<lambda>db. List.find is_square_payment (rows db))) (\<lambda>found.
        case found of
          Some p \<Rightarrow> ret (the (p_external_id p))
        | None \<Rightarrow>
            bindP (get_payments ev cfg (default_query\<lparr>q_wallet_id := Some wallet_id, q_incoming := True\<rparr>)
                     (default_filters\<lparr>pf_sortby := Some SortCreatedAt, pf_direction := Some Desc, pf_limit := None\<rparr>)
                     None None) (\<lambda>payments.
            case List.find (\<lambda>p. is_square_payment p
                   \<and> dget (p_extra p) ''subscription_request_id'' = Some (JStr subscription_id)) payments of
              Some p \<Rightarrow> ret (the (p_external_id p))
            | None \<Rightarrow> ret subscription_id))))
       (\<lambda>e. ret subscription_id)"

section \<open>The endpoint\<close>

text \<open>\<open>verify_paypal_webhook\<close>; \<open>headers\<close> looks a header up.\<close>

definition paypal_headers :: "string list" where
  "paypal_headers = [''PAYPAL-TRANSMISSION-ID'', ''PAYPAL-TRANSMISSION-TIME'', ''PAYPAL-TRANSMISSION-SIG'',
     ''PAYPAL-CERT-URL'', ''PAYPAL-AUTH-ALGO'']"

definition verify_paypal_webhook ::
  "fiat_client \<Rightarrow> string option \<Rightarrow> (string \<Rightarrow> string option) \<Rightarrow> string \<Rightarrow> (backend, unit) py" where
  "verify_paypal_webhook cl webhook_id headers payload =
     thenP (failIf (\<not> truthy webhook_id) (ValueError ''PayPal webhook cannot be verified. Missing webhook ID.''))
     (thenP (failIf (\<not> list_all (\<lambda>h. truthy (headers h)) paypal_headers)
               (ValueError ''PayPal webhook cannot be verified. Missing headers.''))
     (tryP
        (bindP (http_post ''/v1/oauth2/token'' [(''grant_type'', JStr ''client_credentials'')]) (\<lambda>token_resp.
         thenP (raise_for_status token_resp)
         (bindP (liftE (json_of token_resp)) (\<lambda>t.
          bindP (liftE (get t ''access_token'')) (\<lambda>access_token.
          thenP (failIf (\<not> truth access_token) (ValueError ''PayPal token missing in verification flow.''))
          (bindP (liftE (loads cl (JStr payload))) (\<lambda>event.
           bindP (http_post ''/v1/notifications/verify-webhook-signature''
             [(''auth_algo'', jopt (headers ''PAYPAL-AUTH-ALGO'')), (''cert_url'', jopt (headers ''PAYPAL-CERT-URL'')),
              (''transmission_id'', jopt (headers ''PAYPAL-TRANSMISSION-ID'')),
              (''transmission_sig'', jopt (headers ''PAYPAL-TRANSMISSION-SIG'')),
              (''transmission_time'', jopt (headers ''PAYPAL-TRANSMISSION-TIME'')),
              (''webhook_id'', jopt webhook_id), (''webhook_event'', event)]) (\<lambda>verify_resp.
           thenP (raise_for_status verify_resp)
           (bindP (liftE (json_of verify_resp)) (\<lambda>v.
            bindP (liftE (get v ''verification_status'')) (\<lambda>st.
            failIf (st \<noteq> JStr ''SUCCESS'') (ValueError ''PayPal webhook verification failed.''))))))))))))
        (\<lambda>e. throw (ValueError ''PayPal webhook cannot be verified.''))))"

record webhook_request =
  wr_provider :: string
  wr_headers :: "string \<Rightarrow> string option"
  wr_payload :: string

definition request_event :: "fiat_env \<Rightarrow> webhook_request \<Rightarrow> (site, jval) py" where
  "request_event fe q = liftE (loads (fe_client fe) (JStr (wr_payload q)))"

definition received :: "webhook_request \<Rightarrow> simple_status" where
  "received q = \<lparr>ss_success = True, ss_message = ''Callback received successfully from '' @ wr_provider q @ ''.''\<rparr>"

definition check_webhook :: "fiat_env \<Rightarrow> webhook_request \<Rightarrow> (site, unit) py" where
  "check_webhook fe q =
     (let provider = lower (wr_provider q); headers = wr_headers q; now = fc_now (fe_client fe) in
      if provider = ''stripe'' then
        liftE (check_stripe_signature (fe_hmac_hex fe) now (wr_payload q) (headers ''Stripe-Signature'')
                 (stripe_webhook_signing_secret (fe_stripe fe)) 300)
      else if provider = ''paypal'' then
        in_net (on_http (verify_paypal_webhook (fe_client fe) (paypal_webhook_id (fe_paypal fe)) headers (wr_payload q)))
      else if provider = ''square'' then
        liftE (check_square_signature (fe_hmac_b64 fe) (wr_payload q) (headers ''x-square-hmacsha256-signature'')
                 (square_webhook_signature_key (fe_square fe)) (Some (square_payment_webhook_url (fe_square fe))))
      else
        liftE (check_revolut_signature (fe_hmac_hex fe) now (wr_payload q) (headers ''Revolut-Signature'')
                 (headers ''Revolut-Request-Timestamp'') (revolut_webhook_signing_secret (fe_revolut fe)) 300))"

definition handle_event :: "env \<Rightarrow> settings \<Rightarrow> fiat_env \<Rightarrow> string \<Rightarrow> jval \<Rightarrow> (site, unit) py" where
  "handle_event ev cfg fe provider event =
     (if provider = ''stripe'' then handle_stripe_event ev cfg fe event
      else if provider = ''paypal'' then handle_paypal_event ev cfg fe event
      else if provider = ''square'' then handle_square_event ev cfg fe event
      else handle_revolut_event ev cfg fe event)"

definition api_generic_webhook_handler ::
  "env \<Rightarrow> settings \<Rightarrow> fiat_env \<Rightarrow> webhook_request \<Rightarrow> (site, simple_status) py" where
  "api_generic_webhook_handler ev cfg fe q =
     (if lower (wr_provider q) \<in> set fiat_provider_types then
        thenP (check_webhook fe q)
        (bindP (request_event fe q) (\<lambda>event.
         thenP (handle_event ev cfg fe (lower (wr_provider q)) event) (ret (received q))))
      else ret \<lparr>ss_success = False, ss_message = ''Unknown fiat provider '' @ wr_provider q @ ''.''\<rparr>)"

end
