(* ===== verification/CallbackSafety.thy ===== *)
theory CallbackSafety
  imports CallbackApi PaymentAccounting
begin

text \<open>
  What the parts of the webhook handlers can do to the settled payments. A settled payment is known by wallet,
  hash, amount and fee. Creating and renaming pending rows settles nothing; checking a fiat payment settles only
  with evidence from the provider; everything else neither touches the payments nor loses what was exchanged.
\<close>

section \<open>Settled payments\<close>

definition settled_key :: "payment \<Rightarrow> string \<times> string \<times> int \<times> int" where
  "settled_key p = (p_wallet_id p, p_payment_hash p, p_amount p, p_fee p)"

definition settled :: "world \<Rightarrow> (string \<times> string \<times> int \<times> int) set" where
  "settled w = settled_key ` set (filter p_success (wd_payments w))"

definition settled_in :: "(string \<times> string \<times> int \<times> int) set \<Rightarrow> world \<Rightarrow> bool" where
  "settled_in S w \<longleftrightarrow> wallet_ids_distinct w \<and> settled w \<subseteq> S"

text \<open>A payment that may be written: it is not settled, or was.\<close>

definition harmless :: "(string \<times> string \<times> int \<times> int) set \<Rightarrow> payment \<Rightarrow> bool" where
  "harmless S p \<longleftrightarrow> (p_success p \<longrightarrow> settled_key p \<in> S)"

lemma settled_key_other [simp]:
  "settled_key (p\<lparr>p_checking_id := c\<rparr>) = settled_key p" "settled_key (p\<lparr>p_updated_at := t\<rparr>) = settled_key p"
  "settled_key (p\<lparr>p_external_id := x\<rparr>) = settled_key p" "settled_key (p\<lparr>p_status := s\<rparr>) = settled_key p"
  by (simp_all add: settled_key_def)

lemma success_other [simp]:
  "p_success (p\<lparr>p_checking_id := c\<rparr>) = p_success p" "p_success (p\<lparr>p_updated_at := t\<rparr>) = p_success p"
  "p_success (p\<lparr>p_external_id := x\<rparr>) = p_success p" "p_success (p\<lparr>p_status := s\<rparr>) \<longleftrightarrow> s = SUCCESS"
  by (simp_all add: p_success_def)

lemma harmless_other [simp]:
  "harmless S (p\<lparr>p_updated_at := t\<rparr>) = harmless S p" "harmless S (p\<lparr>p_external_id := x\<rparr>) = harmless S p"
  "harmless S (p\<lparr>p_checking_id := c\<rparr>) = harmless S p"
  by (simp_all add: harmless_def)

lemma pending_is_harmless: "p_status p \<noteq> SUCCESS \<Longrightarrow> harmless S p"
  by (simp add: harmless_def p_success_def)

lemma settled_iff: "settled w \<subseteq> S \<longleftrightarrow> (\<forall>q \<in> set (wd_payments w). harmless S q)"
  by (auto simp: settled_def harmless_def)

lemma within_member: "settled_in S w \<Longrightarrow> q \<in> set (wd_payments w) \<Longrightarrow> harmless S q"
  by (auto simp: settled_in_def settled_iff)

lemma within_same: "settled_in S w \<Longrightarrow> wd_payments v = wd_payments w \<Longrightarrow> wd_wallets v = wd_wallets w \<Longrightarrow> settled_in S v"
  by (simp add: settled_in_def settled_def wallet_ids_distinct_def)

section \<open>Actions on the database\<close>

definition returns :: "('a \<Rightarrow> bool) \<Rightarrow> ('s, 'a) py \<Rightarrow> bool" where
  "returns Q m \<longleftrightarrow> (\<forall>s a t. m s = (Inr a, t) \<longrightarrow> Q a)"

named_theorems returns_intro \<open>what an action returns\<close>

lemma returnsD: "returns Q m \<Longrightarrow> m s = (Inr a, t) \<Longrightarrow> Q a"
  by (auto simp: returns_def)

lemma returns_basic [returns_intro]: "returns Q (throw e)" "Q a \<Longrightarrow> returns Q (ret a)"
  by (simp_all add: returns_def py_unfold)

lemma returns_liftE: "(\<And>a. x = Inr a \<Longrightarrow> Q a) \<Longrightarrow> returns Q (liftE x)"
  by (simp add: returns_def py_unfold)

lemma returns_bindP [returns_intro]: "(\<And>x. returns Q (k x)) \<Longrightarrow> returns Q (bindP m k)"
  by (auto simp: returns_def bindP_Inr_iff)

lemma returns_thenP [returns_intro]: "returns Q k \<Longrightarrow> returns Q (thenP m k)"
  by (simp add: thenP_def returns_bindP)

lemma returns_if [returns_intro]: "returns Q m \<Longrightarrow> returns Q n \<Longrightarrow> returns Q (if b then m else n)"
  by simp

lemma returns_option [returns_intro]:
  "returns Q m \<Longrightarrow> (\<And>x. returns Q (n x)) \<Longrightarrow> returns Q (case v of None \<Rightarrow> m | Some x \<Rightarrow> n x)"
  by (cases v) auto

lemma returns_prod [returns_intro]: "(\<And>a b. returns Q (f a b)) \<Longrightarrow> returns Q (case x of (a, b) \<Rightarrow> f a b)"
  by (cases x) auto

lemma keeps_returns:
  assumes m: "keeps P m" "returns Q m" and k: "\<And>x. Q x \<Longrightarrow> keeps P (k x)"
  shows "keeps P (bindP m k)"
  unfolding keeps_def
proof (intro allI impI)
  fix s assume s: "P s"
  obtain r t where r: "m s = (r, t)" by fastforce
  then have t: "P t" using keepsD [OF m(1) s] by simp
  show "P (snd (bindP m k s))"
  proof (cases r)
    case (Inr x)
    then show ?thesis using r t keepsD [OF k [of x] t] returnsD [OF m(2)] by (simp add: bindP_def)
  qed (use r t in \<open>simp add: bindP_def\<close>)
qed

lemma reads_settled: "reads m \<Longrightarrow> keeps (settled_in S) m"
  unfolding keeps_def settled_in_def settled_def by (metis readsD same_books_ids same_books_sel(1))

lemmas get_wallet_settled [keeps_intro] = reads_settled [OF reads_get_wallet]

lemma find_settled [keeps_intro]: "keeps (settled_in S) (get_standalone_payment ev cfg x i wid)"
  unfolding get_standalone_payment_def by (intro keeps_intro)

lemma limits_settled [keeps_intro]: "keeps (settled_in S) (check_fiat_invoice_limits ev cfg a n)"
  unfolding check_fiat_invoice_limits_def Let_def by (intro keeps_intro)

lemma create_settled [keeps_intro]: "keeps (settled_in S) (create_payment ev cfg c d PENDING)"
  unfolding create_payment_def Let_def
  by (intro keeps_intro) (auto simp: settled_in_def settled_def wallet_ids_distinct_def insert_payment_row_def p_success_def)

lemma update_settled: "harmless S p \<Longrightarrow> keeps (settled_in S) (update_payment ev p n)"
  unfolding update_payment_def update_payment_checking_id_def Let_def
  by (intro keeps_intro)
    (auto simp: settled_in_def settled_iff wallet_ids_distinct_def update_payment_row_def)

lemma request_settled [keeps_intro]: "keeps (settled_in S) (request_invoice ev cfg k a m)"
  unfolding keeps_def by (metis prod.collapse request_invoice_books within_same)

lemma create_invoice_settled [keeps_intro]: "keeps (settled_in S) (create_invoice ev cfg wid k)"
  unfolding create_invoice_def Let_def by (intro keeps_intro)

abbreviation unsettled :: "payment \<Rightarrow> bool" where "unsettled p \<equiv> p_status p \<noteq> SUCCESS"

lemma returns_known:
  assumes "returns Q m" "\<And>x. Q x \<Longrightarrow> returns R (k x)" shows "returns R (bindP m k)"
  using assms unfolding returns_def bindP_Inr_iff by blast

lemma create_payment_returns [returns_intro]: "s \<noteq> SUCCESS \<Longrightarrow> returns unsettled (create_payment ev cfg c d s)"
  unfolding create_payment_def Let_def by (intro returns_intro) simp

lemma create_invoice_returns: "returns unsettled (create_invoice ev cfg wid k)"
  unfolding create_invoice_def Let_def by (intro returns_intro) simp_all

lemma create_wallet_invoice_settled [keeps_intro]: "keeps (settled_in S) (create_wallet_invoice ev cfg wid d)"
  unfolding create_wallet_invoice_def Let_def by (intro keeps_intro)

lemma create_wallet_invoice_returns: "returns unsettled (create_wallet_invoice ev cfg wid d)"
  unfolding create_wallet_invoice_def Let_def
  by (intro returns_thenP returns_known [OF create_invoice_returns] returns_intro) (simp_all split: option.split)

lemma fiat_row_status [simp]: "p_status (fiat_row cfg n fi p) = p_status p"
  by (simp add: fiat_row_def Let_def)

lemma create_fiat_invoice_settled [keeps_intro]: "keeps (settled_in S) (create_fiat_invoice ev cfg wid d)"
  unfolding create_fiat_invoice_def Let_def
  by (intro keeps_thenP keeps_bindP keeps_returns [OF create_wallet_invoice_settled create_wallet_invoice_returns]
      keeps_intro update_settled pending_is_harmless) simp_all

section \<open>Actions on the site\<close>

definition talked :: "site \<Rightarrow> (Backend.request \<times> answer) list" where
  "talked s = bk_sent (nw_http (si_net s))"

definition since :: "site \<Rightarrow> site \<Rightarrow> (Backend.request \<times> answer) list" where
  "since s t = exchanged (nw_http (si_net s)) (nw_http (si_net t))"

text \<open>What is evidence for a provider and a checking id.\<close>

definition provider_evidence :: "fiat_env \<Rightarrow> string \<Rightarrow> string \<Rightarrow> (Backend.request \<times> answer) list \<Rightarrow> bool" where
  "provider_evidence fe name checking_id xs \<longleftrightarrow>
     (if name = ''stripe'' then stripe_evidence (provider_client fe name) checking_id xs
      else if name = ''paypal'' then paypal_evidence checking_id xs
      else if name = ''square'' then square_evidence (provider_client fe name) checking_id xs
      else revolut_evidence checking_id xs)"

lemma evidence_grows: "provider_evidence fe name c xs \<Longrightarrow> set xs \<subseteq> set ys \<Longrightarrow> provider_evidence fe name c ys"
  unfolding provider_evidence_def
  using stripe_queries.evidence_grows paypal_queries.evidence_grows square_queries.evidence_grows
    revolut_queries.evidence_grows by (simp split: if_splits)

text \<open>What was exchanged only grows.\<close>

definition talks :: "site \<Rightarrow> site \<Rightarrow> bool" where
  "talks s t \<longleftrightarrow> (\<exists>xs. talked t = talked s @ xs)"

abbreviation adds :: "(site, 'a) py \<Rightarrow> bool" where "adds m \<equiv> (\<forall>s. keeps (talks s) m)"

lemma talks_refl [simp]: "talks s s"
  by (simp add: talks_def)

lemma talks_since: "talks s t \<Longrightarrow> talked t = talked s @ since s t"
  by (auto simp: talks_def since_def exchanged_def talked_def)

text \<open>A run that settled something has evidence for a fiat payment it checked.\<close>

definition proven :: "fiat_env \<Rightarrow> (Backend.request \<times> answer) list \<Rightarrow> bool" where
  "proven fe xs \<longleftrightarrow> (\<exists>p c. asked_id p = Some c \<and> provider_evidence fe (the (p_fiat_provider p)) c xs)"

definition calm :: "fiat_env \<Rightarrow> site \<Rightarrow> site \<Rightarrow> bool" where
  "calm fe s t \<longleftrightarrow> talks s t \<and> wallet_ids_distinct (si_db t)
     \<and> (settled (si_db t) \<subseteq> settled (si_db s) \<or> proven fe (since s t))"

lemma in_db_adds [keeps_intro]: "keeps (talks s) (in_db m)"
  by (auto simp: keeps_def in_db_def talks_def talked_def split: prod.splits)

definition extends :: "(Backend.request \<times> answer) list \<Rightarrow> backend \<Rightarrow> bool" where
  "extends B b \<longleftrightarrow> (\<exists>xs. bk_sent b = B @ xs)"

lemma send_extends [keeps_intro]: "keeps (extends B) (send v u b)"
  by (auto simp: keeps_def send_def extends_def Let_def split: answer.split)

lemma http_extends [keeps_intro]: "keeps (extends B) (http_get u)" "keeps (extends B) (http_post u b)"
  unfolding http_get_def http_post_def by (intro keeps_intro)+

lemma raise_extends [keeps_intro]: "keeps (extends B) (raise_for_status r)"
  unfolding raise_for_status_def by (intro keeps_intro) (simp add: extends_def)

lemma on_http_extends:
  assumes "\<And>B. keeps (extends B) m"
  shows "keeps (\<lambda>n. extends B (nw_http n)) (on_http m)"
  unfolding keeps_def
proof (intro allI impI)
  fix n :: network assume "extends B (nw_http n)"
  from keepsD [OF assms this] show "extends B (nw_http (snd (on_http m n)))"
    by (cases "m (nw_http n)") (simp add: on_http_def)
qed

lemma in_net_adds:
  assumes "\<And>B. keeps (\<lambda>n. extends B (nw_http n)) m"
  shows "keeps (talks s) (in_net m)"
  unfolding keeps_def
proof (intro allI impI)
  fix t assume "talks s t"
  then have "extends (talked s) (nw_http (si_net t))" by (simp add: talks_def extends_def talked_def)
  from keepsD [OF assms this] show "talks s (snd (in_net m t))"
    by (cases "m (si_net t)") (simp add: in_net_def talks_def extends_def talked_def)
qed

text \<open>The fetches of the handlers.\<close>

lemma fetch_extends [keeps_intro]:
  "keeps (extends B) (revolut_get_order cl i)" "keeps (extends B) (revolut_get_subscription cl i)"
  "keeps (extends B) (revolut_get_subscription_cycle cl i j)" "keeps (extends B) (square_get_payment_for_order cl i)"
  "keeps (extends B) (verify_paypal_webhook cl w h pl)"
  unfolding revolut_get_order_def revolut_get_subscription_def revolut_get_subscription_cycle_def revolut_fetch_def
    square_get_payment_for_order_def square_get_order_def square_get_payment_def square_fetch_def
    verify_paypal_webhook_def
  by (intro keeps_intro)+

lemma in_net_fetch_adds [keeps_intro]:
  "keeps (talks s) (in_net (on_http (revolut_get_order cl i)))"
  "keeps (talks s) (in_net (on_http (revolut_get_subscription cl i)))"
  "keeps (talks s) (in_net (on_http (revolut_get_subscription_cycle cl i j)))"
  "keeps (talks s) (in_net (on_http (square_get_payment_for_order cl i)))"
  "keeps (talks s) (in_net (on_http (verify_paypal_webhook cl w h pl)))"
  by (intro in_net_adds on_http_extends fetch_extends)+

lemma provider_adds [keeps_intro]: "keeps (talks s) (get_fiat_provider cfg fe name)"
  unfolding get_fiat_provider_def by (intro keeps_intro) (simp_all add: talks_def talked_def)

lemma on_http_result: "on_http m n = (r, n') \<Longrightarrow> m (nw_http n) = (r, nw_http n')"
  by (auto simp: on_http_def split: prod.splits)

lemma status_appends:
  assumes "provider_invoice_status name cl c n = (r, n')"
  shows "bk_sent (nw_http n') = bk_sent (nw_http n) @ exchanged (nw_http n) (nw_http n')"
proof -
  consider "stripe_get_invoice_status cl c (nw_http n) = (r, nw_http n')" | "paypal_get_invoice_status cl c n = (r, n')"
    | "square_get_invoice_status cl c (nw_http n) = (r, nw_http n')"
    | "revolut_get_invoice_status cl c (nw_http n) = (r, nw_http n')"
    using assms by (auto simp: provider_invoice_status_def dest: on_http_result split: if_splits)
  then show ?thesis
    by cases (erule stripe_queries.query_appends paypal_queries.query_appends square_queries.query_appends
        revolut_queries.query_appends)+
qed

lemma status_says:
  assumes run: "provider_invoice_status name (provider_client fe name) c n = (Inr st, n')" and paid: "fiat_success st"
  shows "provider_evidence fe name c (exchanged (nw_http n) (nw_http n'))"
  using run on_http_result [of _ n "Inr st" n']
    stripe_queries.paid_was_said [OF _ paid, of "provider_client fe name" c "nw_http n" "nw_http n'"]
    paypal_queries.paid_was_said [OF _ paid, of "provider_client fe name" c n n']
    square_queries.paid_was_said [OF _ paid, of "provider_client fe name" c "nw_http n" "nw_http n'"]
    revolut_queries.paid_was_said [OF _ paid, of "provider_client fe name" c "nw_http n" "nw_http n'"]
  unfolding provider_invoice_status_def provider_evidence_def
  by (simp split: if_splits)

lemma status_adds [keeps_intro]: "keeps (talks s) (in_net (provider_invoice_status name cl c))"
  unfolding keeps_def
proof (intro allI impI)
  fix t assume t: "talks s t"
  obtain r n where r: "provider_invoice_status name cl c (si_net t) = (r, n)" by fastforce
  show "talks s (snd (in_net (provider_invoice_status name cl c) t))"
    using t status_appends [OF r] by (auto simp: in_net_def r talks_def talked_def)
qed

lemma check_fiat_adds [keeps_intro]: "keeps (talks s) (check_fiat ev cfg fe p)"
  unfolding check_fiat_def by (intro keeps_intro)

section \<open>Calm actions\<close>

lemma calm_refl: "wallet_ids_distinct (si_db s) \<Longrightarrow> calm fe s s"
  by (simp add: calm_def)

lemma since_grows: "talks s t \<Longrightarrow> talks t u \<Longrightarrow> set (since s t) \<subseteq> set (since s u)"
  by (auto simp: since_def exchanged_def talks_def talked_def)

lemma since_later: "talks s t \<Longrightarrow> talks t u \<Longrightarrow> set (since t u) \<subseteq> set (since s u)"
  by (auto simp: since_def exchanged_def talks_def talked_def)

lemma talks_trans: "talks s t \<Longrightarrow> talks t u \<Longrightarrow> talks s u"
  by (auto simp: talks_def)

lemma proven_grows: "proven fe xs \<Longrightarrow> set xs \<subseteq> set ys \<Longrightarrow> proven fe ys"
  unfolding proven_def using evidence_grows by blast

text \<open>A step that only talks or changes the database without settling.\<close>

lemma calm_step:
  assumes s: "calm fe s t" and tu: "talks t u" and d: "wallet_ids_distinct (si_db u)"
    and quiet: "settled (si_db u) \<subseteq> settled (si_db t) \<or> proven fe (since t u)"
  shows "calm fe s u"
proof -
  have su: "talks s u" using s tu talks_trans by (auto simp: calm_def)
  have st: "talks s t" using s by (simp add: calm_def)
  show ?thesis
    using s d su quiet proven_grows [OF _ since_grows [OF st tu]] proven_grows [OF _ since_later [OF st tu]]
    unfolding calm_def by blast
qed

lemma calm_in_net [keeps_intro]:
  assumes "\<And>s. keeps (talks s) (in_net m)"
  shows "keeps (calm fe s) (in_net m)"
  unfolding keeps_def
proof (intro allI impI)
  fix t assume t: "calm fe s t"
  have u: "talks t (snd (in_net m t))" by (rule keepsD [OF assms]) simp
  have d: "si_db (snd (in_net m t)) = si_db t" by (simp add: in_net_def split: prod.splits)
  show "calm fe s (snd (in_net m t))" by (rule calm_step [OF t u]) (use t d in \<open>simp_all add: calm_def\<close>)
qed

lemma in_db_step:
  assumes "\<And>S. keeps (settled_in S) m" and t: "calm fe s t"
  shows "calm fe s (snd (in_db m t))"
proof -
  have u: "talks t (snd (in_db m t))" by (rule keepsD [OF in_db_adds]) simp
  have "settled_in (settled (si_db t)) (si_db t)" using t by (simp add: settled_in_def calm_def)
  from keepsD [OF assms(1) this] u show ?thesis
    by (cases "m (si_db t)") (auto intro!: calm_step [OF t] simp: settled_in_def in_db_def)
qed

lemma calm_in_db:
  assumes "\<And>S. keeps (settled_in S) m" shows "keeps (calm fe s) (in_db m)"
  unfolding keeps_def using in_db_step [OF assms] by blast

lemma calm_provider [keeps_intro]: "keeps (calm fe s) (get_fiat_provider cfg fe name)"
  unfolding keeps_def
proof (intro allI impI)
  fix t assume t: "calm fe s t"
  have u: "talks t (snd (get_fiat_provider cfg fe name t))" by (rule keepsD [OF provider_adds]) simp
  have "keeps (\<lambda>x. si_db x = si_db t) (get_fiat_provider cfg fe name)"
    unfolding get_fiat_provider_def by (intro keeps_intro) simp_all
  from keepsD [OF this refl] have d: "si_db (snd (get_fiat_provider cfg fe name t)) = si_db t" .
  show "calm fe s (snd (get_fiat_provider cfg fe name t))"
    by (rule calm_step [OF t u]) (use t d in \<open>simp_all add: calm_def\<close>)
qed

section \<open>Checking a fiat payment\<close>

lemma init_found: "init_fiat_provider cfg fe name = Inr (Some cl) \<Longrightarrow> cl = provider_client fe name"
  by (auto simp: init_fiat_provider_def and_then_def split: if_splits sum.splits)

lemma provider_found:
  assumes "get_fiat_provider cfg fe name s = (Inr (Some cl), t)" shows "cl = provider_client fe name"
proof (cases "si_providers s name = Some (provider_fields fe name)")
  case True
  then show ?thesis using assms by (simp add: get_fiat_provider_def thenP_failIf split: if_splits) (simp add: py_unfold)
next
  case False
  then show ?thesis
    using assms init_found [of cfg fe name cl]
    by (cases "init_fiat_provider cfg fe name")
      (auto simp: get_fiat_provider_def thenP_failIf py_unfold bindP_def thenP_def split: if_splits option.splits)
qed

lemma not_asked: "asked_id p = None \<Longrightarrow> snd (check_fiat_status ev cfg p w) = w"
  by (auto simp: asked_id_def check_fiat_status_def py_unfold split: if_splits option.splits jval.splits)

lemma not_paid:
  assumes "\<And>n c st. fiat_provider_status ev n c = Some st \<Longrightarrow> \<not> ps_success st"
  shows "snd (check_fiat_status ev cfg p w) = w"
  using assms by (auto simp: check_fiat_status_def py_unfold split: if_splits option.splits jval.splits)

lemma status_of_fiat_success: "ps_success (status_of_fiat st) \<longleftrightarrow> fiat_success st"
  by (simp add: status_of_fiat_def ps_success_def PaymentSuccessStatus_def PaymentFailedStatus_def
      PaymentPendingStatus_def)

text \<open>
  The handlers of the webhooks settle nothing without evidence: \<open>calm\<close> is kept by the check of a fiat payment,
  by the creation of the payments of subscriptions, and by every handler.
\<close>

section \<open>The check of a fiat payment\<close>

lemma distinct_create [keeps_intro]: "keeps wallet_ids_distinct (create_payment ev cfg c d s)"
proof -
  have g: "keeps wallet_ids_distinct (get_wallet ev cfg w x)" for w x
    using reads_get_wallet [of ev cfg w x] unfolding reads_def keeps_def by (metis same_books_ids)
  show ?thesis
    unfolding create_payment_def get_standalone_payment_def Let_def
    by (intro keeps_intro g) (simp add: wallet_ids_distinct_def insert_payment_row_def)
qed

lemma distinct_wallet [keeps_intro]: "keeps wallet_ids_distinct (get_wallet ev cfg w x)"
  using reads_get_wallet [of ev cfg w x] unfolding reads_def keeps_def by (metis same_books_ids)

lemma distinct_update [keeps_intro]: "keeps wallet_ids_distinct (update_payment ev p n)"
  unfolding update_payment_def update_payment_checking_id_def Let_def
  by (intro keeps_intro) (auto simp: wallet_ids_distinct_def update_payment_row_def)

lemma distinct_queue [keeps_intro]: "keeps wallet_ids_distinct (modify (\<lambda>db. db\<lparr>wd_internal_queue := f db\<rparr>))"
  by (intro keeps_intro) (simp add: wallet_ids_distinct_def)

lemma distinct_check [keeps_intro]: "keeps wallet_ids_distinct (check_fiat_status ev cfg p)"
  unfolding check_fiat_status_def handle_fiat_payment_confirmation_def credit_fiat_service_fee_wallet_def
    debit_fiat_service_faucet_wallet_def Let_def
  by (intro keeps_intro)

text \<open>What is written to the database after the provider was asked, with its answer.\<close>

definition concluded :: "env \<Rightarrow> settings \<Rightarrow> payment \<Rightarrow> fiat_payment_status option \<Rightarrow> (site, payment) py" where
  "concluded ev cfg p answer =
     bindP (in_db (check_fiat_status (ev\<lparr>fiat_provider_status := (\<lambda>_ _. map_option status_of_fiat answer)\<rparr>) cfg p))
       (\<lambda>(st, p'). ret p')"

lemma concluded_state:
  "snd (concluded ev cfg p answer t)
     = t\<lparr>si_db := snd (check_fiat_status (ev\<lparr>fiat_provider_status := (\<lambda>_ _. map_option status_of_fiat answer)\<rparr>) cfg p (si_db t))\<rparr>"
  by (simp add: concluded_def in_db_def bindP_def py_unfold split: prod.split sum.split)

lemma concluded_inert:
  assumes "asked_id p = None \<or> answer = None \<or> \<not> fiat_success (the answer)"
  shows "snd (concluded ev cfg p answer t) = t"
proof -
  have "snd (check_fiat_status (ev\<lparr>fiat_provider_status := (\<lambda>_ _. map_option status_of_fiat answer)\<rparr>) cfg p (si_db t)) = si_db t"
    using assms by (cases "asked_id p = None") (simp add: not_asked, auto intro!: not_paid simp: status_of_fiat_success)
  then show ?thesis by (simp add: concluded_state)
qed

lemma concluded_calm:
  assumes "calm fe s t" "\<And>st. answer = Some st \<Longrightarrow> fiat_success st \<Longrightarrow> asked_id p \<noteq> None \<Longrightarrow> proven fe (since s t)"
  shows "calm fe s (snd (concluded ev cfg p answer t))"
proof (cases "asked_id p = None \<or> answer = None \<or> \<not> fiat_success (the answer)")
  case True
  then show ?thesis using assms(1) concluded_inert by metis
next
  case False
  then have pr: "proven fe (since s t)" using assms(2) by auto
  let ?w = "snd (check_fiat_status (ev\<lparr>fiat_provider_status := (\<lambda>_ _. map_option status_of_fiat answer)\<rparr>) cfg p (si_db t))"
  have "wallet_ids_distinct ?w" using assms(1) by (intro keepsD [OF distinct_check]) (simp add: calm_def)
  then show ?thesis
    using assms(1) pr by (simp add: concluded_state calm_def talks_def talked_def since_def)
qed

lemma check_fiat_none: "asked_id p = None \<Longrightarrow> check_fiat ev cfg fe p = concluded ev cfg p None"
  by (simp add: check_fiat_def concluded_def)

lemma check_fiat_asked:
  "asked_id p = Some c \<Longrightarrow> check_fiat ev cfg fe p =
     bindP (get_fiat_provider cfg fe (the (p_fiat_provider p))) (\<lambda>provider.
       case provider of
         None \<Rightarrow> concluded ev cfg p None
       | Some cl \<Rightarrow> bindP (in_net (provider_invoice_status (the (p_fiat_provider p)) cl c)) (\<lambda>st.
           concluded ev cfg p (Some st)))"
  by (auto simp: check_fiat_def concluded_def bindP_def fun_eq_iff py_unfold split: prod.split sum.split option.split)

lemma asked_calm:
  assumes t: "calm fe s t" and c: "asked_id p = Some c"
  shows "calm fe s (snd (bindP (in_net (provider_invoice_status (the (p_fiat_provider p))
           (provider_client fe (the (p_fiat_provider p))) c)) (\<lambda>st. concluded ev cfg p (Some st)) t))"
proof -
  let ?name = "the (p_fiat_provider p)"
  let ?q = "provider_invoice_status ?name (provider_client fe ?name) c"
  obtain r n where r: "?q (si_net t) = (r, n)" by fastforce
  let ?u = "t\<lparr>si_net := n\<rparr>"
  have u: "in_net ?q t = (r, ?u)" by (simp add: in_net_def r)
  have k: "keeps (calm fe s) (in_net ?q)" by (intro calm_in_net status_adds)
  have k': "keeps (talks t) (in_net ?q)" by (rule status_adds)
  have calm_u: "calm fe s ?u"
    using keepsD [OF k t] u by simp
  show ?thesis
  proof (cases r)
    case (Inr st)
    have "proven fe (since s ?u)" if "fiat_success st"
    proof -
      have e: "provider_evidence fe ?name c (since t ?u)"
        using status_says [OF r [unfolded Inr] that] by (simp add: since_def)
      have st: "talks s t" using t by (simp add: calm_def)
      have tu: "talks t ?u" using keepsD [OF k' talks_refl] u by simp
      from evidence_grows [OF e since_later [OF st tu]] c show ?thesis unfolding proven_def by blast
    qed
    then show ?thesis using concluded_calm [OF calm_u, of "Some st" p] u Inr by (simp add: bindP_def)
  qed (use u calm_u in \<open>simp add: bindP_def\<close>)
qed

lemma check_fiat_calm [keeps_intro]: "keeps (calm fe s) (check_fiat ev cfg fe p)"
proof (cases "asked_id p")
  case None
  then show ?thesis using concluded_calm [of fe s _ None p] by (simp add: check_fiat_none keeps_def)
next
  case (Some c)
  show ?thesis
    unfolding keeps_def check_fiat_asked [OF Some]
  proof (intro allI impI)
    fix t assume t: "calm fe s t"
    let ?g = "get_fiat_provider cfg fe (the (p_fiat_provider p))"
    obtain r u where r: "?g t = (r, u)" by fastforce
    have u: "calm fe s u" using keepsD [OF calm_provider t, of cfg "the (p_fiat_provider p)"] r by simp
    show "calm fe s (snd (bindP ?g (\<lambda>provider.
       case provider of
         None \<Rightarrow> concluded ev cfg p None
       | Some cl \<Rightarrow> bindP (in_net (provider_invoice_status (the (p_fiat_provider p)) cl c)) (\<lambda>st.
           concluded ev cfg p (Some st))) t))"
    proof (cases r)
      case (Inr x)
      show ?thesis
      proof (cases x)
        case None
        then show ?thesis using r Inr concluded_calm [OF u, of None p] by (simp add: bindP_eq_Inr)
      next
        case (Some cl)
        then show ?thesis using r Inr asked_calm [OF u \<open>asked_id p = Some c\<close>] provider_found [of cfg fe _ t cl u]
          by (simp add: bindP_eq_Inr)
      qed
    qed (use r u in \<open>simp add: bindP_eq_Inl\<close>)
  qed
qed

lemma check_payment_calm [keeps_intro]: "keeps (calm fe s) (check_payment ev cfg fe p)"
  unfolding check_payment_def by (intro keeps_intro)

lemma check_payment_adds [keeps_intro]: "keeps (talks s) (check_payment ev cfg fe p)"
  unfolding check_payment_def by (intro keeps_intro)

text \<open>A check that settles a pending payment has evidence for the id it asked for.\<close>

lemma unpaid_result:
  assumes "check_fiat_status ev cfg p w = (Inr (st, p'), w')"
    and "\<And>n c st. fiat_provider_status ev n c = Some st \<Longrightarrow> \<not> ps_success st" and "asked_id p = Some c"
  shows "p_status p' \<noteq> SUCCESS"
  using assms
  by (auto simp: check_fiat_status_def asked_id_def p_success_def py_unfold split: if_splits option.splits jval.splits)

lemma concluded_result:
  assumes "concluded ev cfg p answer u = (Inr p', t)" "p_status p' = SUCCESS" "asked_id p = Some c"
  shows "\<exists>st. answer = Some st \<and> fiat_success st"
proof (rule ccontr)
  assume no: "\<not> ?thesis"
  let ?ev = "ev\<lparr>fiat_provider_status := (\<lambda>_ _. map_option status_of_fiat answer)\<rparr>"
  from assms(1) obtain st w where "check_fiat_status ?ev cfg p (si_db u) = (Inr (st, p'), w)"
    by (auto simp: concluded_def in_db_def bindP_def py_unfold split: prod.splits sum.splits)
  then have "p_status p' \<noteq> SUCCESS"
    by (rule unpaid_result [OF _ _ assms(3)]) (use no in \<open>auto simp: status_of_fiat_success\<close>)
  then show False using assms(2) by simp
qed

lemma check_fiat_settled:
  assumes run: "check_fiat ev cfg fe p s = (Inr p', t)" and ok: "p_status p' = SUCCESS" and c: "asked_id p = Some c"
  shows "provider_evidence fe (the (p_fiat_provider p)) c (since s t)"
proof -
  let ?name = "the (p_fiat_provider p)"
  from run [unfolded check_fiat_asked [OF c] bindP_Inr_iff] obtain x u where g: "get_fiat_provider cfg fe ?name s = (Inr x, u)"
    and rest: "(case x of None \<Rightarrow> concluded ev cfg p None
       | Some cl \<Rightarrow> bindP (in_net (provider_invoice_status ?name cl c)) (\<lambda>st. concluded ev cfg p (Some st))) u = (Inr p', t)"
    by blast
  from rest obtain cl where x: "x = Some cl"
    using concluded_result [OF _ ok c, of ev cfg None u t] by (cases x) auto
  have cl: "cl = provider_client fe ?name" using g x provider_found by blast
  from rest x obtain st v where q: "in_net (provider_invoice_status ?name cl c) u = (Inr st, v)"
    and fin: "concluded ev cfg p (Some st) v = (Inr p', t)" by (auto simp: bindP_Inr_iff)
  have st: "fiat_success st" using concluded_result [OF fin ok c] by simp
  obtain n where n: "provider_invoice_status ?name cl c (si_net u) = (Inr st, n)" and v: "v = u\<lparr>si_net := n\<rparr>"
    using q by (auto simp: in_net_def split: prod.splits)
  have e: "provider_evidence fe ?name c (since u v)"
    using status_says [OF n [unfolded cl] st] by (simp add: since_def v)
  have su: "talks s u" using keepsD [OF provider_adds [of s cfg fe ?name] talks_refl] g by simp
  have uv: "talks u v" using status_appends [OF n] by (auto simp: talks_def talked_def v)
  have "since s t = since s v"
    using concluded_state [of ev cfg p "Some st" v] fin by (simp add: since_def)
  then show ?thesis using evidence_grows [OF e since_later [OF su uv]] by simp
qed

section \<open>Subscription payments\<close>

lemma answering_settled: "keeps (settled_in S) (create_fiat_invoice (answering cfg fe s ev) cfg' wid d)"
  by (rule create_fiat_invoice_settled)

lemma subscription_calm [keeps_intro]: "keeps (calm fe s) (subscription_invoice ev cfg fe wid d)"
  unfolding subscription_invoice_def by (intro keeps_intro calm_in_db create_fiat_invoice_settled)

lemma subscription_adds [keeps_intro]: "keeps (talks s) (subscription_invoice ev cfg fe wid d)"
  unfolding subscription_invoice_def by (intro keeps_intro)

lemma find_payment_calm [keeps_intro]: "keeps (calm fe s) (find_payment ev cfg v)"
proof -
  have "keeps (calm fe s) (in_db (get_standalone_payment ev cfg x False None))" for x
    by (intro calm_in_db find_settled)
  then show ?thesis
    by (cases v) (auto simp: find_payment_def Let_def intro: keeps_intro)
qed

lemma lookup_calm [keeps_intro]: "keeps (calm fe s) (in_db (get_standalone_payment ev cfg x False None))"
  by (intro calm_in_db find_settled)

lemma find_payment_adds [keeps_intro]: "keeps (talks s) (find_payment ev cfg v)"
  by (cases v) (auto simp: find_payment_def Let_def intro: keeps_intro)

section \<open>The events of Stripe and PayPal\<close>

lemma stripe_event_calm [keeps_intro]: "keeps (calm fe s) (handle_stripe_event ev cfg fe event)"
  unfolding handle_stripe_event_def handle_stripe_checkout_session_completed_def
    handle_stripe_intent_session_completed_def handle_stripe_subscription_invoice_paid_def
  by (intro keeps_intro)

lemma paypal_event_calm [keeps_intro]: "keeps (calm fe s) (handle_paypal_event ev cfg fe event)"
  unfolding handle_paypal_event_def handle_paypal_subscription_payment_def Let_def by (intro keeps_intro)

section \<open>The events of Revolut and Square\<close>

text \<open>A payment that was read from the table may be written back, unless something is proven already.\<close>

lemma lookup_result:
  assumes "in_db (get_standalone_payment ev cfg x False None) t = (r, u)"
  shows "u = t \<and> r = Inr (select_standalone x False None (si_db t))"
  using assms by (auto simp: in_db_def get_standalone_payment_def py_unfold)

lemma select_member: "select_standalone x i w db = Some p \<Longrightarrow> p \<in> set (wd_payments db)"
  by (auto simp: select_standalone_def split: list.splits) (metis filter_is_subset list.set_intros(1) set_sort subsetD)

lemma found_harmless:
  assumes "calm fe s t" "p \<in> set (wd_payments (si_db t))"
  shows "harmless (settled (si_db s)) p \<or> proven fe (since s t)"
  using assms by (auto simp: calm_def settled_iff)

lemma note_calm:
  assumes t: "calm fe s t" and p: "harmless (settled (si_db s)) p \<or> proven fe (since s t)"
  shows "calm fe s (snd (note_external_id ev cl b i p t))"
proof (cases "b \<and> jopt (p_external_id p) \<noteq> i")
  case True
  let ?m = "update_payment ev (p\<lparr>p_external_id := text_opt cl i\<rparr>) None"
  obtain r w where r: "?m (si_db t) = (r, w)" by fastforce
  have d: "wallet_ids_distinct (si_db t)" using t by (simp add: calm_def)
  have w: "wallet_ids_distinct w" using keepsD [OF distinct_update d] r by (metis snd_conv)
  have q: "settled w \<subseteq> settled (si_db s)" if "settled (si_db t) \<subseteq> settled (si_db s)" "harmless (settled (si_db s)) p"
    using keepsD [OF update_settled, of "settled (si_db s)" "p\<lparr>p_external_id := text_opt cl i\<rparr>" "si_db t" ev None] that d r
    by (simp add: settled_in_def)
  have same: "since s (t\<lparr>si_db := w\<rparr>) = since s t" "talks s (t\<lparr>si_db := w\<rparr>) = talks s t"
    by (simp_all add: since_def talks_def talked_def)
  show ?thesis
    using True t p q w by (auto simp: note_external_id_def in_db_def r calm_def same)
next
  case False
  then have "note_external_id ev cl b i p = ret p" unfolding note_external_id_def by (rule if_not_P)
  then show ?thesis using t by (simp add: ret_def)
qed

lemma note_adds [keeps_intro]: "keeps (talks s) (note_external_id ev cl b i p)"
  unfolding note_external_id_def by (intro keeps_intro)

text \<open>A payment noted under its external id if it is there, and another action if not.\<close>

lemma existing_calm:
  assumes none: "keeps (calm fe s) k"
  shows "keeps (calm fe s) (bindP (in_db (get_standalone_payment ev cfg x False None)) (\<lambda>existing.
     case existing of None \<Rightarrow> k
     | Some p \<Rightarrow> bindP (note_external_id ev' cl b i p) (\<lambda>p'. check_payment ev' cfg' fe p')))"
  unfolding keeps_def
proof (intro allI impI)
  fix t assume t: "calm fe s t"
  let ?c = "\<lambda>p. bindP (note_external_id ev' cl b i p) (\<lambda>p'. check_payment ev' cfg' fe p')"
  have some: "calm fe s (snd (?c p t))" if p: "p \<in> set (wd_payments (si_db t))" for p
  proof -
    obtain r u where r: "note_external_id ev' cl b i p t = (r, u)" by fastforce
    have u: "calm fe s u" using note_calm [OF t found_harmless [OF t p], of ev' cl b i] r by simp
    then show ?thesis
      using r keepsD [OF check_payment_calm u] by (cases r) (simp_all add: bindP_def)
  qed
  obtain r u where r: "in_db (get_standalone_payment ev cfg x False None) t = (r, u)" by fastforce
  from lookup_result [OF r] have u: "u = t" "r = Inr (select_standalone x False None (si_db t))" by simp_all
  show "calm fe s (snd (bindP (in_db (get_standalone_payment ev cfg x False None)) (\<lambda>existing.
     case existing of None \<Rightarrow> k | Some p \<Rightarrow> ?c p) t))"
    using r u keepsD [OF none t] some select_member
    by (cases "select_standalone x False None (si_db t)") (auto simp: bindP_def)
qed

lemma in_db_returns: "returns Q m \<Longrightarrow> returns Q (in_db m)"
  by (auto simp: returns_def in_db_def split: prod.splits)

lemma revolut_payment_calm [keeps_intro]:
  "keeps (calm fe s) (create_revolut_subscription_payment ev cfg fe w a c m x o' r i)"
  unfolding create_revolut_subscription_payment_def Let_def
  by (intro keeps_bindP keeps_liftE keeps_ret calm_in_db update_settled pending_is_harmless create_wallet_invoice_settled
      keeps_returns [OF _ in_db_returns [OF create_wallet_invoice_returns]]) simp

lemma revolut_subscription_calm [keeps_intro]:
  "keeps (calm fe s) (handle_revolut_subscription ev cfg fe cl sub oid order)"
  unfolding handle_revolut_subscription_def Let_def by (intro existing_calm keeps_intro)

lemma revolut_event_calm [keeps_intro]: "keeps (calm fe s) (handle_revolut_event ev cfg fe event)"
  unfolding handle_revolut_event_def handle_revolut_subscription_order_paid_def Let_def by (intro keeps_intro)

lemma stored_calm [keeps_intro]: "keeps (calm fe s) (stored_options ev cfg cl i j)"
  unfolding stored_options_def by (intro keeps_intro calm_in_db)

lemma square_payment_calm [keeps_intro]:
  "keeps (calm fe s) (handle_square_subscription_payment ev cfg fe payment p r i)"
  unfolding handle_square_subscription_payment_def Let_def by (intro existing_calm keeps_intro)

lemma square_event_calm [keeps_intro]: "keeps (calm fe s) (handle_square_event ev cfg fe event)"
  unfolding handle_square_event_def handle_square_payment_event_def handle_square_invoice_payment_made_def Let_def
  by (intro keeps_intro)

lemma handle_event_calm: "keeps (calm fe s) (handle_event ev cfg fe name event)"
  unfolding handle_event_def by (intro keeps_intro)

section \<open>No handler loses what was exchanged\<close>

lemma revolut_payment_adds [keeps_intro]:
  "keeps (talks s) (create_revolut_subscription_payment ev cfg fe w a c m x o' r i)"
  unfolding create_revolut_subscription_payment_def Let_def by (intro keeps_intro)

lemma revolut_subscription_adds [keeps_intro]:
  "keeps (talks s) (handle_revolut_subscription ev cfg fe cl sub oid order)"
  unfolding handle_revolut_subscription_def Let_def by (intro keeps_intro)

lemma stored_adds [keeps_intro]: "keeps (talks s) (stored_options ev cfg cl i j)"
  unfolding stored_options_def by (intro keeps_intro)

lemma square_payment_adds [keeps_intro]:
  "keeps (talks s) (handle_square_subscription_payment ev cfg fe payment p r i)"
  unfolding handle_square_subscription_payment_def Let_def by (intro keeps_intro)

lemma handle_event_adds: "keeps (talks s) (handle_event ev cfg fe name event)"
proof -
  have "keeps (talks s) (handle_stripe_event ev cfg fe event)"
    unfolding handle_stripe_event_def handle_stripe_checkout_session_completed_def
      handle_stripe_intent_session_completed_def handle_stripe_subscription_invoice_paid_def
    by (intro keeps_intro)
  moreover have "keeps (talks s) (handle_paypal_event ev cfg fe event)"
    unfolding handle_paypal_event_def handle_paypal_subscription_payment_def Let_def by (intro keeps_intro)
  moreover have "keeps (talks s) (handle_revolut_event ev cfg fe event)"
    unfolding handle_revolut_event_def handle_revolut_subscription_order_paid_def Let_def by (intro keeps_intro)
  moreover have "keeps (talks s) (handle_square_event ev cfg fe event)"
    unfolding handle_square_event_def handle_square_payment_event_def handle_square_invoice_payment_made_def Let_def
    by (intro keeps_intro)
  ultimately show ?thesis unfolding handle_event_def by (intro keeps_if)
qed

end
