(* ===== verification/CallbackProperties.thy ===== *)
theory CallbackProperties
  imports CallbackSafety Demo
begin

text \<open>Properties of the webhooks and of the fiat providers.\<close>

section \<open>Who may call\<close>

text \<open>What a genuine webhook is, per provider: a keyed hash of the payload with the configured secret, within
  five minutes where the signature is dated, or PayPal's word on this very event.\<close>

definition vouched :: "fiat_env \<Rightarrow> webhook_request \<Rightarrow> Backend.request \<Rightarrow> reply \<Rightarrow> bool" where
  "vouched fe q x r \<longleftrightarrow>
     is_success r \<and> body r [''verification_status''] = Some (JStr ''SUCCESS'')
     \<and> (\<exists>d event. rq_body x = JObj d \<and> dget d ''webhook_event'' = Some event
           \<and> loads (fe_client fe) (JStr (wr_payload q)) = Inr event)"

definition vouching :: "fiat_env \<Rightarrow> webhook_request \<Rightarrow> Backend.request \<times> answer \<Rightarrow> bool" where
  "vouching fe q x \<longleftrightarrow> rq_url (fst x) = ''/v1/notifications/verify-webhook-signature''
     \<and> (case snd x of Answer r \<Rightarrow> vouched fe q (fst x) r | _ \<Rightarrow> False)"

definition authentic :: "fiat_env \<Rightarrow> webhook_request \<Rightarrow> (Backend.request \<times> answer) list \<Rightarrow> bool" where
  "authentic fe q xs \<longleftrightarrow>
     (let name = lower (wr_provider q); h = wr_headers q; now = fc_now (fe_client fe) in
      if name = ''stripe'' then
        (\<exists>secret signature ts. stripe_webhook_signing_secret (fe_stripe fe) = Some secret \<and> secret \<noteq> []
           \<and> fe_hmac_hex fe secret (str_int ts @ ''.'' @ wr_payload q) = signature
           \<and> \<bar>fsub now (of_int ts)\<bar> \<le> 300
           \<and> (\<exists>hdr items. h ''Stripe-Signature'' = Some hdr \<and> header_items (split_on CHR '','' hdr) = Inr items
                \<and> last_item items ''v1'' = Some signature))
      else if name = ''paypal'' then
        list_ex (vouching fe q) xs
      else if name = ''square'' then
        (\<exists>secret. square_webhook_signature_key (fe_square fe) = Some secret \<and> secret \<noteq> []
           \<and> h ''x-square-hmacsha256-signature''
               = Some (fe_hmac_b64 fe secret (square_payment_webhook_url (fe_square fe) @ wr_payload q)))
      else name = ''revolut''
        \<and> (\<exists>secret stamp hdr. revolut_webhook_signing_secret (fe_revolut fe) = Some secret \<and> secret \<noteq> []
             \<and> h ''Revolut-Request-Timestamp'' = Some stamp \<and> h ''Revolut-Signature'' = Some hdr
             \<and> ''v1='' @ fe_hmac_hex fe secret (''v1.'' @ stamp @ ''.'' @ wr_payload q)
                 \<in> set (map strip (split_on CHR '','' hdr))))"

lemma verify_wp:
  "wp (verify_paypal_webhook (fe_client fe) (paypal_webhook_id (fe_paypal fe)) (wr_headers q) (wr_payload q))
     (\<lambda>_ t. list_ex (vouching fe q) (exchanged s t))
     (\<lambda>e t. True) s"
  by (auto simp: verify_paypal_webhook_def vouching_def vouched_def body_def exchanged_def wp_rule wp_http json dget_def
      split: option.splits)

lemma verified:
  assumes "check_webhook fe q s = (Inr u, t)" "lower (wr_provider q) \<in> set fiat_provider_types"
  shows "authentic fe q (since s t)"
proof -
  let ?n = "lower (wr_provider q)"
  from assms(2) consider "?n = ''stripe''" | "?n = ''paypal''" | "?n = ''square''" | "?n = ''revolut''"
    by (auto simp: fiat_provider_types_def)
  then show ?thesis
  proof cases
    case 1
    with assms(1) show ?thesis
      by (auto simp: check_webhook_def authentic_def check_stripe_signature_def py_unfold truthy_def Let_def not_less
          split: if_splits sum.splits option.splits)
  next
    case 2
    with assms(1) verify_wp [of fe q "nw_http (si_net s)"] show ?thesis
      by (auto simp: check_webhook_def authentic_def since_def in_net_def on_http_def wp_def Let_def split: prod.splits)
  next
    case 3
    with assms(1) show ?thesis
      by (auto simp: check_webhook_def authentic_def check_square_signature_def py_unfold truthy_def Let_def
          split: if_splits)
  next
    case 4
    with assms(1) show ?thesis
      by (auto simp: check_webhook_def authentic_def check_revolut_signature_def py_unfold truthy_def Let_def list_ex_iff
          split: if_splits sum.splits option.splits)
  qed
qed

lemma authentic_grows: "authentic fe q xs \<Longrightarrow> set xs \<subseteq> set ys \<Longrightarrow> authentic fe q ys"
  by (auto simp: authentic_def Let_def list_ex_iff split: if_splits)

lemma check_webhook_database: "si_db (snd (check_webhook fe q s)) = si_db s"
  by (auto simp: check_webhook_def Let_def in_net_def py_unfold split: prod.splits)

lemma check_webhook_adds [keeps_intro]: "keeps (talks s) (check_webhook fe q)"
  unfolding check_webhook_def Let_def by (intro keeps_intro)

lemma check_webhook_calm [keeps_intro]: "keeps (calm fe s) (check_webhook fe' q)"
  unfolding check_webhook_def Let_def by (intro keeps_intro)

lemma handler_calm: "keeps (calm fe s) (api_generic_webhook_handler ev cfg fe q)"
  unfolding api_generic_webhook_handler_def request_event_def by (intro keeps_intro handle_event_calm)

section \<open>A site with one pending card payment\<close>

definition shop_payment :: payment where
  "shop_payment = (demo_payment ''h9'' ''bob'' 20000000 PENDING)\<lparr>p_checking_id := ''fiat_stripe_cs_1'',
     p_fiat_provider := Some ''stripe'', p_extra := [(''fiat_checking_id'', JStr ''cs_1'')]\<rparr>"

definition shop_session :: jval where
  "shop_session = JObj [(''payment_status'', JStr ''paid''), (''amount_total'', JInt 1999), (''currency'', JStr ''usd''),
     (''metadata'', JObj [(''payment_hash'', JStr ''h9''), (''lnbits_amount'', JStr ''19.99''),
        (''lnbits_currency'', JStr ''USD'')])]"

definition shop_event :: jval where
  "shop_event = JObj [(''type'', JStr ''checkout.session.completed''), (''data'', JObj [(''object'',
     JObj [(''metadata'', JObj [(''payment_hash'', JStr ''h9''), (''alan_action'', JStr ''invoice'')])])])]"

definition shop_client :: fiat_client where
  "shop_client = \<lparr>fc_endpoint = [], fc_success_url = None, fc_location = [], fc_show = (\<lambda>v. []), fc_now = 2000,
     fc_fresh = ''f'', fc_loads = (\<lambda>s. if s = ''event'' then Some shop_event else None)\<rparr>"

definition shop_fiat :: fiat_env where
  "shop_fiat =
     \<lparr>fe_stripe = \<lparr>stripe_api_endpoint = ''https://api.stripe.com'', stripe_api_secret_key = Some ''sk'',
        stripe_payment_success_url = [], stripe_webhook_signing_secret = Some ''whsec''\<rparr>,
      fe_paypal = \<lparr>paypal_api_endpoint = [], paypal_client_id = None, paypal_client_secret = None,
        paypal_payment_success_url = [], paypal_webhook_id = None\<rparr>,
      fe_square = \<lparr>square_api_endpoint = [], square_access_token = None, square_location_id = None,
        square_api_version = [], square_payment_success_url = [], square_payment_webhook_url = [],
        square_webhook_signature_key = None\<rparr>,
      fe_revolut = \<lparr>revolut_api_endpoint = [], revolut_api_secret_key = None, revolut_api_version = [],
        revolut_payment_success_url = [], revolut_webhook_signing_secret = None\<rparr>,
      fe_allowed_currencies = [], fe_client = shop_client,
      fe_hmac_hex = (\<lambda>k m. if k = ''whsec'' then m else []), fe_hmac_b64 = (\<lambda>k m. m)\<rparr>"

definition shop_settings :: settings where
  "shop_settings = demo_settings\<lparr>stripe_enabled := True\<rparr>"

definition shop_site :: site where
  "shop_site =
     \<lparr>si_db = demo_world\<lparr>wd_payments := wd_payments demo_world @ [shop_payment]\<rparr>,
      si_net = \<lparr>nw_http = \<lparr>bk_sent = [], bk_answers = (\<lambda>n. Answer \<lparr>rp_status = 200, rp_json = Some shop_session, rp_text = []\<rparr>),
           bk_response = \<lparr>rp_status = 200, rp_json = None, rp_text = []\<rparr>, bk_pending = []\<rparr>,
        nw_token = JNull, nw_expires = 0\<rparr>,
      si_providers = (\<lambda>n. None)\<rparr>"

definition shop_request :: webhook_request where
  "shop_request = \<lparr>wr_provider = ''stripe'',
     wr_headers = (\<lambda>h. if h = ''Stripe-Signature'' then Some ''t=1990,v1=1990.event'' else None), wr_payload = ''event''\<rparr>"

abbreviation "shop_run \<equiv> api_generic_webhook_handler demo_env shop_settings shop_fiat shop_request shop_site"

lemma shop_accepted: "map_sum (\<lambda>e. ()) ss_success (fst shop_run) = Inr True"
  by code_simp

lemma shop_settled: "(''bob'', ''h9'', 20000000, 0) \<in> settled (si_db (snd shop_run))"
  "(''bob'', ''h9'', 20000000, 0) \<notin> settled (si_db shop_site)"
  by code_simp+

lemma shop_rows: "wallet_ids_distinct (si_db shop_site)"
  by code_simp

section \<open>What the code does that its documents do not say\<close>

text \<open>\<open>int(amount * 100)\<close> cuts off: an invoice over 0.29 asks for 28 cents.\<close>

lemma square_charges_a_cent_less: "square_cents (fl (29 / 100)) = 28"
  by code_simp

text \<open>A PayPal event with an empty type is handled as a completed sale.\<close>

lemma empty_event_type_is_a_sale: "in_sale_completed (JStr []) = Inr True"
  by code_simp

section \<open>The properties\<close>

text \<open>C29: A webhook that is not signed by its provider does nothing: whenever a call of the endpoint changes the
  database or is confirmed, the payload carried a keyed hash made with the configured secret (Stripe and Revolut
  also a time within five minutes) or PayPal's server vouched for this very event during the call.\<close>

theorem webhook_needs_signature:
  assumes run: "api_generic_webhook_handler ev cfg fe q s = (r, t)"
    and acted: "si_db t \<noteq> si_db s \<or> (\<exists>x. r = Inr x \<and> ss_success x)"
  shows "authentic fe q (since s t)"
proof (cases "lower (wr_provider q) \<in> set fiat_provider_types")
  case True
  obtain c u where c: "check_webhook fe q s = (c, u)" by fastforce
  show ?thesis
  proof (cases c)
    case (Inl e)
    then have "t = u" "r = Inl e" using run c True by (simp_all add: api_generic_webhook_handler_def thenP_eq_Inl)
    then show ?thesis using acted c check_webhook_database [of fe q s] by simp
  next
    case (Inr x)
    have run': "bindP (request_event fe q) (\<lambda>event.
        thenP (handle_event ev cfg fe (lower (wr_provider q)) event) (ret (received q))) u = (r, t)"
      using run c Inr True by (simp add: api_generic_webhook_handler_def thenP_eq_Inr)
    have su: "talks s u" using keepsD [OF check_webhook_adds [of s fe q] talks_refl] c by simp
    have "keeps (talks u) (bindP (request_event fe q) (\<lambda>event.
        thenP (handle_event ev cfg fe (lower (wr_provider q)) event) (ret (received q))))"
      unfolding request_event_def by (intro keeps_intro handle_event_adds)
    from keepsD [OF this talks_refl] have ut: "talks u t" using run' by simp
    have "authentic fe q (since s u)" by (rule verified [OF c [unfolded Inr] True])
    then show ?thesis by (rule authentic_grows) (rule since_grows [OF su ut])
  qed
next
  case False
  then show ?thesis using run acted by (auto simp: api_generic_webhook_handler_def py_unfold)
qed

theorem webhook_needs_signature_witness: "authentic shop_fiat shop_request (since shop_site (snd shop_run))"
proof -
  have "\<exists>x. fst shop_run = Inr x \<and> ss_success x"
    using shop_accepted by (cases "fst shop_run") simp_all
  then show ?thesis
    using webhook_needs_signature [of demo_env shop_settings shop_fiat shop_request shop_site "fst shop_run" "snd shop_run"]
    by simp
qed




lemma shop_check: "p_status (projr (fst (check_fiat demo_env shop_settings shop_fiat shop_payment shop_site))) = SUCCESS"
  "isl (fst (check_fiat demo_env shop_settings shop_fiat shop_payment shop_site)) = False"
  by code_simp+


end
