(* ===== verification/Electrum.thy ===== *)
theory Electrum
  imports PyBytes Prelude
begin

text \<open>
  \<open>lnbits/utils/electrum.py\<close>: the client of an Electrum server (correlation of requests and answers,
  framing of the byte stream, notifications), block headers, and the trackers of addresses, transactions
  and blocks. The JSON parser, the hash function, the \<open>embit\<close> package (addresses, raw transactions) and the
  server's answers are arguments. Queues and callbacks are numbers; what the code puts into a queue or hands
  to a callback is returned as a list of actions, in order.
\<close>

section \<open>Block headers\<close>

record block_info =
  bi_height :: int
  bi_hash :: string
  bi_timestamp :: "32 word"
  bi_version :: "32 word"
  bi_bits :: string
  bi_nonce :: "32 word"
  bi_prev_hash :: string
  bi_merkle_root :: string

text \<open>\<open>format(w, "08x")\<close> of a 32 bit number: its bytes, the highest first.\<close>

definition hex_u32 :: "32 word \<Rightarrow> string" where
  "hex_u32 w = bytes_hex (rev (pack_u32 w))"

definition slice :: "nat \<Rightarrow> nat \<Rightarrow> 'a list \<Rightarrow> 'a list" where
  "slice i j xs = take (j - i) (drop i xs)"

definition parse_block_header :: "(byte list \<Rightarrow> byte list) \<Rightarrow> string \<Rightarrow> int \<Rightarrow> exn + block_info" where
  "parse_block_header sha256 header_hex height =
     (case fromhex header_hex of
        None \<Rightarrow> Inl (ValueError ''non-hexadecimal number found in fromhex() arg'')
      | Some data \<Rightarrow>
          (case (unpack_u32 data 0, unpack_u32 data 68, unpack_u32 data 72, unpack_u32 data 76) of
             (Some version, Some timestamp, Some bits, Some nonce) \<Rightarrow>
               Inr \<lparr>bi_height = height, bi_hash = bytes_hex (rev (sha256 (sha256 data))), bi_timestamp = timestamp,
                    bi_version = version, bi_bits = hex_u32 bits, bi_nonce = nonce,
                    bi_prev_hash = bytes_hex (rev (slice 4 36 data)),
                    bi_merkle_root = bytes_hex (rev (slice 36 68 data))\<rparr>
           | _ \<Rightarrow> Inl (OtherError ''struct.error'')))"

section \<open>The client\<close>

datatype electrum_result =
    Result "jval option"
  | ServerError jval
  | ConnectionClosed
  | TimedOut

record electrum_client =
  ec_counter :: nat
  ec_pending :: "(nat \<times> string) list"
  ec_resolved :: "(nat \<times> electrum_result) list"
  ec_subscriptions :: "(string \<times> nat list) list"
  ec_buf :: "byte list"
  ec_closed :: bool

definition new_client :: electrum_client where
  "new_client = \<lparr>ec_counter = 1, ec_pending = [], ec_resolved = [], ec_subscriptions = [], ec_buf = [], ec_closed = False\<rparr>"

text \<open>\<open>_call\<close> up to the point where it waits, and the ways in which the wait ends.\<close>

definition client_call :: "string \<Rightarrow> electrum_client \<Rightarrow> nat \<times> electrum_client" where
  "client_call method c =
     (let req_id = ec_counter c
      in (req_id, c\<lparr>ec_counter := Suc req_id, ec_pending := AList.update req_id method (ec_pending c)\<rparr>))"

definition resolve :: "nat \<Rightarrow> electrum_result \<Rightarrow> electrum_client \<Rightarrow> electrum_client" where
  "resolve i r c =
     (case map_of (ec_pending c) i of
        None \<Rightarrow> c
      | Some m \<Rightarrow> c\<lparr>ec_pending := AList.delete i (ec_pending c), ec_resolved := ec_resolved c @ [(i, r)]\<rparr>)"

definition client_timeout :: "nat \<Rightarrow> electrum_client \<Rightarrow> electrum_client" where
  "client_timeout i c = resolve i TimedOut c"

text \<open>The request a JSON value names when it is used as a key of \<open>_pending\<close> (Python compares numbers across
  types); a list or an object cannot be a key.\<close>

definition pending_key :: "jval \<Rightarrow> exn + nat option" where
  "pending_key v = (case v of
      JInt i \<Rightarrow> Inr (if i \<ge> 0 then Some (nat i) else None)
    | JBool b \<Rightarrow> Inr (Some (if b then 1 else 0))
    | JFloat r \<Rightarrow> Inr (if r \<ge> 0 \<and> r = of_int \<lfloor>r\<rfloor> then Some (nat \<lfloor>r\<rfloor>) else None)
    | JList l \<Rightarrow> Inl (OtherError ''TypeError'')
    | JObj d \<Rightarrow> Inl (OtherError ''TypeError'')
    | _ \<Rightarrow> Inr None)"

text \<open>\<open>_dispatch\<close>: the new state and the callbacks to call, with their argument.\<close>

definition client_dispatch :: "jval \<Rightarrow> electrum_client \<Rightarrow> exn + electrum_client \<times> (nat \<times> jval) list" where
  "client_dispatch msg c =
     (case msg of
        JObj d \<Rightarrow>
          (let msg_id = (case dget d ''id'' of Some JNull \<Rightarrow> None | v \<Rightarrow> v) in
           case msg_id of
             Some v \<Rightarrow>
               (case pending_key v of
                  Inl e \<Rightarrow> Inl e
                | Inr None \<Rightarrow> Inr (c, [])
                | Inr (Some i) \<Rightarrow>
                    let err = dget d ''error'' in
                    Inr (resolve i (if jtrue err then ServerError (the err) else Result (dget d ''result'')) c, []))
           | None \<Rightarrow>
               (let method = (case dget d ''method'' of None \<Rightarrow> JStr [] | Some v \<Rightarrow> v);
                    params = (case dget d ''params'' of None \<Rightarrow> JList [] | Some v \<Rightarrow> v)
                in case method of
                     JStr m \<Rightarrow> Inr (c, map (\<lambda>cb. (cb, params)) (case map_of (ec_subscriptions c) m of None \<Rightarrow> [] | Some l \<Rightarrow> l))
                   | JList l \<Rightarrow> Inl (OtherError ''TypeError'')
                   | JObj l \<Rightarrow> Inl (OtherError ''TypeError'')
                   | _ \<Rightarrow> Inr (c, [])))
      | _ \<Rightarrow> Inl (OtherError ''AttributeError''))"

definition newline :: byte where
  "newline = 10"

text \<open>\<open>while b"\n" in buf: line, buf = buf.split(b"\n", 1)\<close>: the complete lines and the rest.\<close>

fun take_lines :: "byte list \<Rightarrow> byte list \<Rightarrow> byte list list \<times> byte list" where
  "take_lines line [] = ([], line)"
| "take_lines line (b # bs) =
     (if b = newline then (let (ls, rest) = take_lines [] bs in (line # ls, rest))
      else take_lines (line @ [b]) bs)"

definition is_byte_space :: "byte \<Rightarrow> bool" where
  "is_byte_space b \<longleftrightarrow> unat b = 32 \<or> (9 \<le> unat b \<and> unat b \<le> 13)"

text \<open>One line: blank lines and lines that are not JSON are skipped.\<close>

definition recv_line ::
  "(byte list \<Rightarrow> jval option) \<Rightarrow> byte list \<Rightarrow> electrum_client \<Rightarrow> exn + electrum_client \<times> (nat \<times> jval) list" where
  "recv_line json_loads line c =
     (if \<forall>b \<in> set line. is_byte_space b then Inr (c, [])
      else case json_loads line of
        None \<Rightarrow> Inr (c, [])
      | Some msg \<Rightarrow> client_dispatch msg c)"

text \<open>The end of the loop: everything that waits is told that the connection is closed, and what was not yet a
  complete line is forgotten.\<close>

definition client_close :: "electrum_client \<Rightarrow> electrum_client" where
  "client_close c =
     c\<lparr>ec_closed := True, ec_resolved := ec_resolved c @ map (\<lambda>(i, m). (i, ConnectionClosed)) (ec_pending c),
       ec_pending := [], ec_buf := []\<rparr>"

fun recv_lines ::
  "(byte list \<Rightarrow> jval option) \<Rightarrow> byte list list \<Rightarrow> electrum_client \<Rightarrow> electrum_client \<times> (nat \<times> jval) list" where
  "recv_lines json_loads [] c = (c, [])"
| "recv_lines json_loads (l # ls) c =
     (case recv_line json_loads l c of
        Inl e \<Rightarrow> (client_close c, [])
      | Inr (c', calls) \<Rightarrow> let (c'', calls') = recv_lines json_loads ls c' in (c'', calls @ calls'))"

text \<open>One turn of \<open>_recv_loop\<close>; an empty chunk is the end of the stream.\<close>

definition recv_chunk ::
  "(byte list \<Rightarrow> jval option) \<Rightarrow> byte list \<Rightarrow> electrum_client \<Rightarrow> electrum_client \<times> (nat \<times> jval) list" where
  "recv_chunk json_loads chunk c =
     (if ec_closed c then (c, [])
      else if chunk = [] then (client_close c, [])
      else let (lines, rest) = take_lines [] (ec_buf c @ chunk)
           in recv_lines json_loads lines (c\<lparr>ec_buf := rest\<rparr>))"

definition client_on :: "string \<Rightarrow> nat \<Rightarrow> electrum_client \<Rightarrow> electrum_client" where
  "client_on method cb c =
     c\<lparr>ec_subscriptions := AList.update method
         ((case map_of (ec_subscriptions c) method of None \<Rightarrow> [] | Some l \<Rightarrow> l) @ [cb]) (ec_subscriptions c)\<rparr>"

definition client_off :: "string \<Rightarrow> nat \<Rightarrow> electrum_client \<Rightarrow> electrum_client" where
  "client_off method cb c =
     (case map_of (ec_subscriptions c) method of
        Some l \<Rightarrow> if cb \<in> set l then c\<lparr>ec_subscriptions := AList.update method (remove1 cb l) (ec_subscriptions c)\<rparr> else c
      | None \<Rightarrow> c)"

section \<open>Tracking addresses\<close>

record balance =
  bal_confirmed :: int
  bal_unconfirmed :: int

record history_entry =
  he_tx_hash :: string
  he_height :: int
  he_fee :: "int option"

record onchain_address_event =
  oa_address :: string
  oa_confirmed :: int
  oa_unconfirmed :: int
  oa_history :: "history_entry list"
  oa_history_error :: "string option"

text \<open>What the server answers for a script hash; an entry of its memory pool always has a fee. \<open>Inl\<close> is the text
  of an \<open>ElectrumError\<close>.\<close>

record electrum_server =
  es_balance :: "string \<Rightarrow> string + balance"
  es_history :: "string \<Rightarrow> string + history_entry list"
  es_mempool :: "string \<Rightarrow> string + (string \<times> int) list"

record address_tracker =
  tr_ref_counts :: "(string \<times> int) list"
  tr_queues :: "(string \<times> nat list) list"
  tr_updated :: bool

definition new_address_tracker :: address_tracker where
  "new_address_tracker = \<lparr>tr_ref_counts = [], tr_queues = [], tr_updated = False\<rparr>"

definition ref_count :: "string \<Rightarrow> address_tracker \<Rightarrow> int" where
  "ref_count address t = (case map_of (tr_ref_counts t) address of None \<Rightarrow> 0 | Some n \<Rightarrow> n)"

definition queues_of :: "string \<Rightarrow> address_tracker \<Rightarrow> nat list" where
  "queues_of address t = (case map_of (tr_queues t) address of None \<Rightarrow> [] | Some qs \<Rightarrow> qs)"

definition tracker_add :: "string \<Rightarrow> address_tracker \<Rightarrow> address_tracker" where
  "tracker_add address t =
     (let count = ref_count address t;
          t' = t\<lparr>tr_ref_counts := AList.update address (count + 1) (tr_ref_counts t)\<rparr>
      in if count = 0 then t'\<lparr>tr_updated := True\<rparr> else t')"

definition tracker_remove :: "string \<Rightarrow> address_tracker \<Rightarrow> address_tracker" where
  "tracker_remove address t =
     (let count = ref_count address t in
      if count \<le> 1 then t\<lparr>tr_ref_counts := AList.delete address (tr_ref_counts t), tr_updated := True\<rparr>
      else t\<lparr>tr_ref_counts := AList.update address (count - 1) (tr_ref_counts t)\<rparr>)"

definition register_queue :: "string \<Rightarrow> nat \<Rightarrow> address_tracker \<Rightarrow> address_tracker" where
  "register_queue address q t =
     tracker_add address (t\<lparr>tr_queues := AList.update address (queues_of address t @ [q]) (tr_queues t)\<rparr>)"

definition unregister_queue :: "string \<Rightarrow> nat \<Rightarrow> address_tracker \<Rightarrow> address_tracker" where
  "unregister_queue address q t =
     (let queues = remove1 q (queues_of address t)
      in tracker_remove address
           (t\<lparr>tr_queues := (if queues = [] then AList.delete address (tr_queues t)
                            else AList.update address queues (tr_queues t))\<rparr>))"

datatype 'e action =
    Subscribe string
  | Unsubscribe string
  | Enqueue nat 'e
  | Callback 'e

text \<open>\<open>_fetch_and_dispatch\<close>: the answer for the balance is needed, the others may fail.\<close>

definition address_event :: "electrum_server \<Rightarrow> string \<Rightarrow> string \<Rightarrow> exn + onchain_address_event" where
  "address_event srv address scripthash =
     (case es_balance srv scripthash of
        Inl e \<Rightarrow> Inl (OtherError e)
      | Inr bal \<Rightarrow>
          let history = (case es_history srv scripthash of Inl e \<Rightarrow> [] | Inr h \<Rightarrow> h);
              history_error = (case es_history srv scripthash of Inl e \<Rightarrow> Some e | Inr h \<Rightarrow> None);
              seen = he_tx_hash ` set history;
              unseen = (case es_mempool srv scripthash of Inl e \<Rightarrow> [] | Inr ms \<Rightarrow>
                          map (\<lambda>(h, fee). \<lparr>he_tx_hash = h, he_height = 0, he_fee = Some fee\<rparr>)
                            (filter (\<lambda>(h, fee). h \<notin> seen) ms))
          in Inr \<lparr>oa_address = address, oa_confirmed = bal_confirmed bal, oa_unconfirmed = bal_unconfirmed bal,
                  oa_history = history @ unseen, oa_history_error = history_error\<rparr>)"

definition fetch_and_dispatch ::
  "electrum_server \<Rightarrow> address_tracker \<Rightarrow> string \<Rightarrow> string \<Rightarrow> exn + onchain_address_event action list" where
  "fetch_and_dispatch srv t address scripthash =
     map_sum id (\<lambda>ev. map (\<lambda>q. Enqueue q ev) (queues_of address t) @ [Callback ev])
       (address_event srv address scripthash)"

text \<open>\<open>_sync_subscriptions\<close>: its state is the dictionary of subscribed script hashes; a failing fetch ends it
  with what was done so far.\<close>

fun wanted_addresses :: "(string \<Rightarrow> string option) \<Rightarrow> string list \<Rightarrow> exn + (string \<times> string) list" where
  "wanted_addresses scripthash_from_address [] = Inr []"
| "wanted_addresses scripthash_from_address (a # as) =
     (case scripthash_from_address a of
        None \<Rightarrow> Inl (ValueError (''Invalid address: '' @ a))
      | Some sh \<Rightarrow> map_sum id ((#) (a, sh)) (wanted_addresses scripthash_from_address as))"

fun subscribe_wanted ::
  "electrum_server \<Rightarrow> address_tracker \<Rightarrow> (string \<times> string) list
   \<Rightarrow> ((string \<times> string) list \<times> onchain_address_event action list, unit) py" where
  "subscribe_wanted srv t [] = ret ()"
| "subscribe_wanted srv t ((address, scripthash) # ws) =
     bindP (gets id) (\<lambda>(subscribed, acts).
     thenP (if scripthash \<notin> fst ` set subscribed then
              (thenP (modify (\<lambda>_. (AList.update scripthash address subscribed, acts @ [Subscribe scripthash])))
               (bindP (liftE (fetch_and_dispatch srv t address scripthash)) (\<lambda>out.
                modify (\<lambda>(sub, a). (sub, a @ out)))))
            else ret ())
     (subscribe_wanted srv t ws))"

fun drop_unwanted ::
  "string list \<Rightarrow> (string \<times> string) list \<Rightarrow> ((string \<times> string) list \<times> 'e action list) \<Rightarrow> (string \<times> string) list \<times> 'e action list" where
  "drop_unwanted still_wanted [] st = st"
| "drop_unwanted still_wanted ((scripthash, address) # ss) (subscribed, acts) =
     drop_unwanted still_wanted ss
       (if address \<notin> set still_wanted
        then (AList.delete scripthash subscribed, acts @ [Unsubscribe scripthash]) else (subscribed, acts))"

definition sync_subscriptions ::
  "(string \<Rightarrow> string option) \<Rightarrow> electrum_server \<Rightarrow> address_tracker
   \<Rightarrow> ((string \<times> string) list \<times> onchain_address_event action list, unit) py" where
  "sync_subscriptions scripthash_from_address srv t =
     bindP (liftE (wanted_addresses scripthash_from_address (map fst (tr_ref_counts t)))) (\<lambda>wanted.
     thenP (subscribe_wanted srv t wanted)
     (let still_wanted = map snd wanted
      in modify (\<lambda>(subscribed, acts). drop_unwanted still_wanted subscribed (subscribed, acts))))"

text \<open>\<open>on_status_change\<close>, the callback for notifications of the server.\<close>

definition on_status_change ::
  "electrum_server \<Rightarrow> address_tracker \<Rightarrow> (string \<times> string) list \<Rightarrow> string list \<Rightarrow> exn + onchain_address_event action list" where
  "on_status_change srv t subscribed params =
     (case params of
        [] \<Rightarrow> Inr []
      | p # ps \<Rightarrow>
          (if truthy (map_of subscribed p)
           then fetch_and_dispatch srv t (the (map_of subscribed p)) p else Inr []))"

section \<open>Tracking transactions and blocks\<close>

record onchain_tx_event =
  ot_txid :: string
  ot_confirmed :: bool
  ot_height :: "int option"
  ot_fee :: "int option"

text \<open>The first output that is not a data output; an output is its type and its script.\<close>

definition tx_watch_scripthash :: "(byte list \<Rightarrow> byte list) \<Rightarrow> (string \<times> byte list) list \<Rightarrow> string option" where
  "tx_watch_scripthash sha256 vout =
     map_option (\<lambda>out. bytes_hex (rev (sha256 (snd out)))) (List.find (\<lambda>out. fst out \<noteq> ''nulldata'') vout)"

definition fetch_status :: "electrum_server \<Rightarrow> string \<Rightarrow> string option \<Rightarrow> onchain_tx_event" where
  "fetch_status srv txid scripthash =
     (let unknown = \<lparr>ot_txid = txid, ot_confirmed = False, ot_height = None, ot_fee = None\<rparr> in
      if \<not> truthy scripthash then unknown
      else case es_history srv (the scripthash) of
        Inr h \<Rightarrow>
          (case List.find (\<lambda>e. he_tx_hash e = txid) h of
             Some e \<Rightarrow> \<lparr>ot_txid = txid, ot_confirmed = he_height e > 0,
                        ot_height = (if he_height e > 0 then Some (he_height e) else None), ot_fee = he_fee e\<rparr>
           | None \<Rightarrow> unknown)
      | Inl _ \<Rightarrow>
          (case es_mempool srv (the scripthash) of
             Inr ms \<Rightarrow>
               (case List.find (\<lambda>m. fst m = txid) ms of
                  Some m \<Rightarrow> unknown\<lparr>ot_fee := Some (snd m)\<rparr>
                | None \<Rightarrow> unknown\<lparr>ot_confirmed := True\<rparr>)
           | Inl _ \<Rightarrow> unknown))"

text \<open>The queues of a transaction or block tracker.\<close>

definition queue_register :: "nat \<Rightarrow> nat list \<Rightarrow> nat list" where
  "queue_register q qs = qs @ [q]"

definition queue_unregister :: "nat \<Rightarrow> nat list \<Rightarrow> nat list" where
  "queue_unregister q qs = (if q \<in> set qs then remove1 q qs else qs)"

definition has_queues :: "nat list \<Rightarrow> bool" where
  "has_queues qs \<longleftrightarrow> qs \<noteq> []"

definition dispatch_event :: "nat list \<Rightarrow> 'e \<Rightarrow> 'e action list" where
  "dispatch_event qs ev = map (\<lambda>q. Enqueue q ev) qs @ [Callback ev]"

section \<open>The block explorer\<close>

text \<open>\<open>core/services/blockexplorer.py\<close>: what it makes of the answers.\<close>

fun parse_headers :: "(byte list \<Rightarrow> byte list) \<Rightarrow> byte list \<Rightarrow> int \<Rightarrow> nat \<Rightarrow> nat \<Rightarrow> exn + block_info list" where
  "parse_headers sha256 raw start i 0 = Inr []"
| "parse_headers sha256 raw start i (Suc n) =
     (case parse_block_header sha256 (bytes_hex (slice (i * 80) ((i + 1) * 80) raw)) (start + int i) of
        Inl e \<Rightarrow> Inl e
      | Inr b \<Rightarrow> map_sum id ((#) b) (parse_headers sha256 raw start (i + 1) n))"

text \<open>The headers the server sends for a first height and a number of blocks: how many, and their bytes in hex.\<close>

definition fetch_recent_blocks ::
  "(byte list \<Rightarrow> byte list) \<Rightarrow> int \<Rightarrow> (int \<Rightarrow> int \<Rightarrow> nat \<times> string) \<Rightarrow> int \<Rightarrow> exn + block_info list" where
  "fetch_recent_blocks sha256 tip_height get_block_headers count =
     (let start = max 0 (tip_height - count + 1);
          (n, h) = get_block_headers start (tip_height - start + 1)
      in case fromhex h of
           None \<Rightarrow> Inl (ValueError ''non-hexadecimal number found in fromhex() arg'')
         | Some raw \<Rightarrow> map_sum id rev (parse_headers sha256 raw start 0 n))"

text \<open>\<open>fetch_block_transactions\<close>: the ids the server gives for the positions, up to the first that is missing.\<close>

definition fetch_block_transactions ::
  "(int \<Rightarrow> exn + string option) \<Rightarrow> int \<Rightarrow> nat \<Rightarrow> exn + (int \<times> string) list \<times> bool" where
  "fetch_block_transactions tx_id_from_pos offset limit =
     (let positions = map (\<lambda>k. offset + int k) [0..<limit + 1];
          found = takeWhile (\<lambda>p. case tx_id_from_pos p of Inr (Some t) \<Rightarrow> True | _ \<Rightarrow> False) positions;
          transactions = map (\<lambda>p. (p, case tx_id_from_pos p of Inr (Some t) \<Rightarrow> t | _ \<Rightarrow> [])) found
      in case tx_id_from_pos offset of
           Inl e \<Rightarrow> Inl e
         | Inr _ \<Rightarrow> Inr (take limit transactions, length transactions > limit))"

definition fetch_onchain_balance ::
  "(string \<Rightarrow> string option) \<Rightarrow> electrum_server \<Rightarrow> string \<Rightarrow> exn + balance \<times> history_entry list \<times> string option" where
  "fetch_onchain_balance scripthash_from_address srv address =
     (case scripthash_from_address address of
        None \<Rightarrow> Inl (ValueError (''Invalid address: '' @ address))
      | Some scripthash \<Rightarrow>
          (case es_balance srv scripthash of
             Inl e \<Rightarrow> Inl (OtherError e)
           | Inr bal \<Rightarrow>
               Inr (bal, case es_history srv scripthash of Inl e \<Rightarrow> ([], Some e) | Inr h \<Rightarrow> (h, None))))"

end
