(* ===== verification/TaskManager.thy ===== *)
theory TaskManager
  imports PaymentModel Electrum
begin

text \<open>
  \<open>lnbits/task_manager.py\<close>: the background tasks, the listeners that are told about paid invoices and
  events of the chain, and the reference counted trackers behind the web sockets. A coroutine is not
  modelled, only its task: its name, whether it is done, and the queue it reads. Queues are lists; objects
  compared by identity carry a number. A turn of a permanent task is one operation.
\<close>

record task =
  tk_id :: nat
  tk_name :: string
  tk_created_at :: int
  tk_done :: bool
  tk_invoice_queue :: "payment list option"
  tk_address_queue :: "onchain_address_event list option"
  tk_tx_queue :: "onchain_tx_event list option"
  tk_block_queue :: "block_info list option"

record task_manager =
  tm_tasks :: "task list"
  tm_next_id :: nat
  tm_invoice_queue :: "payment list"
  tm_internal_invoice_queue :: "payment list"
  tm_address_tracker :: "address_tracker option"
  tm_block_tracker :: "nat list option"
  tm_tx_trackers :: "(string \<times> nat list) list"
  tm_tracked :: "(string \<times> string list) list"

definition new_task_manager :: task_manager where
  "new_task_manager = \<lparr>tm_tasks = [], tm_next_id = 0, tm_invoice_queue = [], tm_internal_invoice_queue = [],
     tm_address_tracker = None, tm_block_tracker = None, tm_tx_trackers = [], tm_tracked = []\<rparr>"

definition get_task :: "string \<Rightarrow> task_manager \<Rightarrow> task option" where
  "get_task name tm = List.find (\<lambda>t. tk_name t = name) (tm_tasks tm)"

definition get_public_tasks :: "task_manager \<Rightarrow> (string \<times> int) list" where
  "get_public_tasks tm = map (\<lambda>t. (tk_name t, tk_created_at t)) (tm_tasks tm)"

text \<open>\<open>self.tasks.remove(task)\<close> raises when the task is not in the list.\<close>

fun remove_task :: "nat \<Rightarrow> task list \<Rightarrow> task list" where
  "remove_task i [] = []"
| "remove_task i (t # ts) = (if tk_id t = i then ts else t # remove_task i ts)"

definition cancel_task :: "nat \<Rightarrow> (task_manager, unit) py" where
  "cancel_task i =
     bindP (gets (\<lambda>tm. i \<in> tk_id ` set (tm_tasks tm))) (\<lambda>found.
     thenP (failIf (\<not> found) (ValueError ''list.remove(x): x not in list''))
     (modify (\<lambda>tm. tm\<lparr>tm_tasks := remove_task i (tm_tasks tm)\<rparr>)))"

definition cancel_all_tasks :: "(task_manager, unit) py" where
  "cancel_all_tasks = bindP (gets tm_tasks) (\<lambda>ts. forP ts (\<lambda>t. cancel_task (tk_id t)))"

text \<open>The four queues a task may be given: invoices, addresses, transactions, blocks.\<close>

type_synonym task_queues =
  "payment list option \<times> onchain_address_event list option \<times> onchain_tx_event list option \<times> block_info list option"

definition no_queues :: task_queues where
  "no_queues = (None, None, None, None)"

definition new_task :: "nat \<Rightarrow> string \<Rightarrow> int \<Rightarrow> task_queues \<Rightarrow> task" where
  "new_task i name now qs =
     (case qs of (iq, aq, tq, bq) \<Rightarrow>
        \<lparr>tk_id = i, tk_name = name, tk_created_at = now, tk_done = False, tk_invoice_queue = iq,
         tk_address_queue = aq, tk_tx_queue = tq, tk_block_queue = bq\<rparr>)"

text \<open>A task without a name is called after a fresh uuid, the argument \<open>uuid\<close>.\<close>

definition create_task :: "int \<Rightarrow> string \<Rightarrow> string option \<Rightarrow> task_queues \<Rightarrow> (task_manager, task) py" where
  "create_task now uuid name qs =
     thenP (if truthy name then
              bindP (gets (get_task (the name))) (\<lambda>found.
                case found of None \<Rightarrow> ret () | Some t \<Rightarrow> cancel_task (tk_id t))
            else ret ())
     (bindP (gets tm_next_id) (\<lambda>i.
      let t = new_task i (if truthy name then the name else ''task_'' @ uuid) now qs
      in thenP (modify (\<lambda>tm. tm\<lparr>tm_tasks := tm_tasks tm @ [t], tm_next_id := Suc i\<rparr>)) (ret t)))"

definition create_permanent_task ::
  "int \<Rightarrow> string \<Rightarrow> string \<Rightarrow> task_queues \<Rightarrow> string option \<Rightarrow> (task_manager, task) py" where
  "create_permanent_task now uuid func_name qs name =
     create_task now uuid (Some (if truthy name then the name else func_name)) qs"

definition tm_init :: "int \<Rightarrow> string \<Rightarrow> (task_manager, unit) py" where
  "tm_init now uuid =
     thenP (create_permanent_task now uuid ''_heart_beat'' no_queues None)
     (thenP (create_permanent_task now uuid ''_invoice_listener_consumer'' no_queues None)
     (thenP (create_permanent_task now uuid ''_internal_invoice_listener_consumer'' no_queues None) (ret ())))"

section \<open>Listeners\<close>

definition register_invoice_listener :: "int \<Rightarrow> string \<Rightarrow> string option \<Rightarrow> (task_manager, task) py" where
  "register_invoice_listener now uuid name =
     create_permanent_task now uuid ''wrapper'' (Some [], None, None, None)
       (Some ((if truthy name then the name else uuid) @ ''_invoice_listener''))"

definition ONCHAIN_ADDRESS_LISTENER_SUFFIX :: string where
  "ONCHAIN_ADDRESS_LISTENER_SUFFIX = ''_onchain_address_listener''"

definition register_onchain_listener :: "int \<Rightarrow> string \<Rightarrow> string option \<Rightarrow> (task_manager, task) py" where
  "register_onchain_listener now uuid name =
     create_permanent_task now uuid ''wrapper'' (None, Some [], None, None)
       (Some ((if truthy name then the name else ''core'') @ ONCHAIN_ADDRESS_LISTENER_SUFFIX))"

definition register_onchain_tx_listener :: "int \<Rightarrow> string \<Rightarrow> string option \<Rightarrow> (task_manager, task) py" where
  "register_onchain_tx_listener now uuid name =
     create_permanent_task now uuid ''wrapper'' (None, None, Some [], None)
       (Some ((if truthy name then the name else uuid) @ ''_onchain_tx_listener''))"

definition register_block_listener :: "int \<Rightarrow> string \<Rightarrow> string option \<Rightarrow> (task_manager, task) py" where
  "register_block_listener now uuid name =
     create_permanent_task now uuid ''wrapper'' (None, None, None, Some [])
       (Some ((if truthy name then the name else uuid) @ ''_block_listener''))"

section \<open>Addresses\<close>

text \<open>\<open>_get_address_tracker\<close> makes the tracker and its task when they are missing.\<close>

definition ensure_task :: "int \<Rightarrow> string \<Rightarrow> (task_manager, unit) py" where
  "ensure_task now name =
     bindP (gets (get_task name)) (\<lambda>found.
     if found = None then thenP (create_task now [] (Some name) no_queues) (ret ()) else ret ())"

definition get_address_tracker :: "int \<Rightarrow> (task_manager, address_tracker) py" where
  "get_address_tracker now =
     thenP (modify (\<lambda>tm. if tm_address_tracker tm = None then tm\<lparr>tm_address_tracker := Some new_address_tracker\<rparr> else tm))
     (thenP (ensure_task now ''address_tracker'') (gets (\<lambda>tm. the (tm_address_tracker tm))))"

definition tracked_by :: "string \<Rightarrow> task_manager \<Rightarrow> string list" where
  "tracked_by name tm = (case map_of (tm_tracked tm) name of None \<Rightarrow> [] | Some l \<Rightarrow> l)"

definition track_address :: "int \<Rightarrow> string \<Rightarrow> string \<Rightarrow> (task_manager, unit) py" where
  "track_address now address name =
     bindP (get_address_tracker now) (\<lambda>tr.
     modify (\<lambda>tm. tm\<lparr>tm_address_tracker := Some (tracker_add address tr),
                       tm_tracked := AList.update name (List.insert address (tracked_by name tm)) (tm_tracked tm)\<rparr>))"

definition untrack_address :: "string \<Rightarrow> string \<Rightarrow> task_manager \<Rightarrow> task_manager" where
  "untrack_address address name tm =
     (let tm' = tm\<lparr>tm_address_tracker := map_option (tracker_remove address) (tm_address_tracker tm)\<rparr>;
          tracked = tracked_by name tm
      in if tracked = [] then tm'
         else let rest = filter (\<lambda>a. a \<noteq> address) tracked in
           tm'\<lparr>tm_tracked := (if rest = [] then AList.delete name (tm_tracked tm)
                              else AList.update name rest (tm_tracked tm))\<rparr>)"

definition register_ws_address_queue ::
  "(string \<Rightarrow> string option) \<Rightarrow> int \<Rightarrow> string \<Rightarrow> nat \<Rightarrow> (task_manager, unit) py" where
  "register_ws_address_queue scripthash_from_address now address q =
     thenP (failIf (scripthash_from_address address = None) (ValueError (''Invalid address: '' @ address)))
     (bindP (get_address_tracker now) (\<lambda>tr.
      modify (\<lambda>tm. tm\<lparr>tm_address_tracker := Some (register_queue address q tr)\<rparr>)))"

definition unregister_ws_address_queue :: "string \<Rightarrow> nat \<Rightarrow> task_manager \<Rightarrow> task_manager" where
  "unregister_ws_address_queue address q tm =
     tm\<lparr>tm_address_tracker := map_option (unregister_queue address q) (tm_address_tracker tm)\<rparr>"

section \<open>Transactions and blocks\<close>

definition register_ws_tx_queue :: "int \<Rightarrow> string \<Rightarrow> nat \<Rightarrow> (task_manager, unit) py" where
  "register_ws_tx_queue now txid q =
     thenP (modify (\<lambda>tm. if map_of (tm_tx_trackers tm) txid = None
                         then tm\<lparr>tm_tx_trackers := AList.update txid [] (tm_tx_trackers tm)\<rparr> else tm))
     (thenP (ensure_task now (''ws_tx_'' @ txid))
      (modify (\<lambda>tm. tm\<lparr>tm_tx_trackers := AList.update txid
          (queue_register q (the (map_of (tm_tx_trackers tm) txid))) (tm_tx_trackers tm)\<rparr>)))"

definition cancel_named :: "string \<Rightarrow> (task_manager, unit) py" where
  "cancel_named name =
     bindP (gets (get_task name)) (\<lambda>found. case found of None \<Rightarrow> ret () | Some t \<Rightarrow> cancel_task (tk_id t))"

definition unregister_ws_tx_queue :: "string \<Rightarrow> nat \<Rightarrow> (task_manager, unit) py" where
  "unregister_ws_tx_queue txid q =
     bindP (gets (\<lambda>tm. map_of (tm_tx_trackers tm) txid)) (\<lambda>tracker.
     case tracker of
       None \<Rightarrow> ret ()
     | Some qs \<Rightarrow>
         let qs' = queue_unregister q qs in
         if has_queues qs' then modify (\<lambda>tm. tm\<lparr>tm_tx_trackers := AList.update txid qs' (tm_tx_trackers tm)\<rparr>)
         else thenP (modify (\<lambda>tm. tm\<lparr>tm_tx_trackers := AList.delete txid (tm_tx_trackers tm)\<rparr>))
                (cancel_named (''ws_tx_'' @ txid)))"

definition register_ws_block_queue :: "int \<Rightarrow> nat \<Rightarrow> (task_manager, unit) py" where
  "register_ws_block_queue now q =
     thenP (modify (\<lambda>tm. if tm_block_tracker tm = None then tm\<lparr>tm_block_tracker := Some []\<rparr> else tm))
     (bindP (gets (\<lambda>tm. the (tm_block_tracker tm))) (\<lambda>tracker.
      thenP (modify (\<lambda>tm. tm\<lparr>tm_block_tracker := Some (queue_register q tracker)\<rparr>))
      (if \<not> has_queues tracker then thenP (create_task now [] (Some ''block_tracker'') no_queues) (ret ())
       else ret ())))"

definition unregister_ws_block_queue :: "nat \<Rightarrow> (task_manager, unit) py" where
  "unregister_ws_block_queue q =
     bindP (gets tm_block_tracker) (\<lambda>tracker.
     case tracker of
       None \<Rightarrow> ret ()
     | Some qs \<Rightarrow>
         thenP (modify (\<lambda>tm. tm\<lparr>tm_block_tracker := Some (queue_unregister q qs)\<rparr>))
         (if \<not> has_queues (queue_unregister q qs) then cancel_named ''block_tracker'' else ret ()))"

definition track_transaction :: "int \<Rightarrow> string \<Rightarrow> (task_manager, task) py" where
  "track_transaction now txid = create_task now [] (Some (''onchain_tx_'' @ txid)) no_queues"

section \<open>Turns of the permanent tasks\<close>

text \<open>\<open>_heart_beat\<close> removes from the list it iterates over; \<open>k\<close> is the position of the iterator.\<close>

lemma length_remove_task: "length (remove_task i ts) \<le> length ts"
  by (induction ts) auto

function heart_beat :: "nat \<Rightarrow> task list \<Rightarrow> task list" where
  "heart_beat k ts =
     (if k < length ts then
        (if tk_done (ts ! k) then heart_beat (Suc k) (remove_task (tk_id (ts ! k)) ts)
         else heart_beat (Suc k) ts)
      else ts)"
  by auto

termination
  by (relation "measure (\<lambda>(k, ts). length ts - k)")
    (auto intro!: diff_less_mono2 le_less_trans [OF diff_le_mono [OF length_remove_task]] diff_less_mono2)

declare heart_beat.simps [simp del]

definition invoice_dispatcher :: "payment \<Rightarrow> task_manager \<Rightarrow> task_manager" where
  "invoice_dispatcher p tm =
     tm\<lparr>tm_tasks := map (\<lambda>t. t\<lparr>tk_invoice_queue := map_option (\<lambda>q. q @ [p]) (tk_invoice_queue t)\<rparr>) (tm_tasks tm)\<rparr>"

definition dispatch_onchain_event :: "onchain_address_event \<Rightarrow> task_manager \<Rightarrow> task_manager" where
  "dispatch_onchain_event ev tm =
     tm\<lparr>tm_tasks := map (\<lambda>t.
        if tk_address_queue t = None then t
        else if \<not> endswith (tk_name t) ONCHAIN_ADDRESS_LISTENER_SUFFIX then t
        else let name = take (length (tk_name t) - length ONCHAIN_ADDRESS_LISTENER_SUFFIX) (tk_name t) in
          if oa_address ev \<in> set (tracked_by name tm)
          then t\<lparr>tk_address_queue := map_option (\<lambda>q. q @ [ev]) (tk_address_queue t)\<rparr> else t) (tm_tasks tm)\<rparr>"

definition dispatch_onchain_tx_event :: "onchain_tx_event \<Rightarrow> task_manager \<Rightarrow> task_manager" where
  "dispatch_onchain_tx_event ev tm =
     tm\<lparr>tm_tasks := map (\<lambda>t. t\<lparr>tk_tx_queue := map_option (\<lambda>q. q @ [ev]) (tk_tx_queue t)\<rparr>) (tm_tasks tm)\<rparr>"

definition dispatch_block_event :: "block_info \<Rightarrow> task_manager \<Rightarrow> task_manager" where
  "dispatch_block_event ev tm =
     tm\<lparr>tm_tasks := map (\<lambda>t. t\<lparr>tk_block_queue := map_option (\<lambda>q. q @ [ev]) (tk_block_queue t)\<rparr>) (tm_tasks tm)\<rparr>"

text \<open>The consumers wait while their queue is empty; the payment they dispatched is the result.\<close>

definition invoice_listener_consumer :: "task_manager \<Rightarrow> payment option \<times> task_manager" where
  "invoice_listener_consumer tm =
     (case tm_invoice_queue tm of
        [] \<Rightarrow> (None, tm)
      | p # ps \<Rightarrow> (Some p, invoice_dispatcher p (tm\<lparr>tm_invoice_queue := ps\<rparr>)))"

definition internal_invoice_listener_consumer :: "task_manager \<Rightarrow> payment option \<times> task_manager" where
  "internal_invoice_listener_consumer tm =
     (case tm_internal_invoice_queue tm of
        [] \<Rightarrow> (None, tm)
      | p # ps \<Rightarrow> (Some p, invoice_dispatcher p (tm\<lparr>tm_internal_invoice_queue := ps\<rparr>)))"

text \<open>A turn of the worker of a listener: the payment it hands to its function.\<close>

fun take_payment :: "nat \<Rightarrow> task list \<Rightarrow> payment option \<times> task list" where
  "take_payment i [] = (None, [])"
| "take_payment i (t # ts) =
     (if tk_id t = i then
        (case tk_invoice_queue t of
           Some (p # ps) \<Rightarrow> (Some p, t\<lparr>tk_invoice_queue := Some ps\<rparr> # ts)
         | _ \<Rightarrow> (None, t # ts))
      else (let (r, ts') = take_payment i ts in (r, t # ts')))"

definition invoice_listener_worker :: "nat \<Rightarrow> task_manager \<Rightarrow> payment option \<times> task_manager" where
  "invoice_listener_worker i tm =
     (let (r, ts) = take_payment i (tm_tasks tm) in (r, tm\<lparr>tm_tasks := ts\<rparr>))"

text \<open>\<open>_catch_everything_and_restart\<close> on the outcomes its function has in turn: whether the loop goes on, what
  the call did, and whether the server still runs then. The result is how it ended and how often it slept;
  \<open>None\<close>: it goes on beyond the given outcomes.\<close>

datatype outcome = Returned | Cancelled | Raised

fun catch_everything_and_restart :: "(bool \<times> outcome \<times> bool) list \<Rightarrow> nat \<Rightarrow> ((bool, unit) sum \<times> nat) option" where
  "catch_everything_and_restart [] n = None"
| "catch_everything_and_restart ((running, r, running') # rs) n =
     (if \<not> running then Some (Inr (), n)
      else case r of
        Returned \<Rightarrow> Some (Inr (), n)
      | Cancelled \<Rightarrow> Some (Inl True, n)
      | Raised \<Rightarrow> if \<not> running' then Some (Inr (), n) else catch_everything_and_restart rs (Suc n))"

text \<open>\<open>relay_ws_queue\<close>: each round is what the web socket received, if it did, the event taken from the queue, if
  there was one, and whether sending it works. The result is what was sent.\<close>

fun relay_ws_queue :: "('e \<Rightarrow> bool) \<Rightarrow> (bool \<times> string option \<times> 'e option \<times> bool) list \<Rightarrow> 'e list" where
  "relay_ws_queue stop_after [] = []"
| "relay_ws_queue stop_after ((running, received, event, send_ok) # rs) =
     (if \<not> running then []
      else if received = Some ''websocket.disconnect'' then []
      else case event of
        None \<Rightarrow> relay_ws_queue stop_after rs
      | Some e \<Rightarrow>
          if \<not> send_ok then []
          else if stop_after e then [e] else e # relay_ws_queue stop_after rs)"

end
