(* ===== verification/TaskProperties.thy ===== *)
theory TaskProperties
  imports TaskManager Demo
begin

text \<open>
  Runs of the task manager: names and identities of tasks stay unique, and every listener is handed every
  payment that was dispatched since it was registered, once and in order.
\<close>

section \<open>What the operations leave alone\<close>

definition tk_at :: "nat \<Rightarrow> task list \<Rightarrow> task option" where
  "tk_at i ts = List.find (\<lambda>t. tk_id t = i) ts"

definition wf_tasks :: "task_manager \<Rightarrow> bool" where
  "wf_tasks tm \<longleftrightarrow> distinct (map tk_id (tm_tasks tm)) \<and> distinct (map tk_name (tm_tasks tm))
     \<and> (\<forall>t \<in> set (tm_tasks tm). tk_id t < tm_next_id tm)"

text \<open>An operation may remove tasks and add new ones; the others it leaves as they are.\<close>

definition frames :: "task_manager \<Rightarrow> task_manager \<Rightarrow> bool" where
  "frames tm tm' \<longleftrightarrow>
     (wf_tasks tm \<longrightarrow> wf_tasks tm' \<and> tm_next_id tm \<le> tm_next_id tm'
        \<and> (\<forall>i < tm_next_id tm. tk_at i (tm_tasks tm') = None \<or> tk_at i (tm_tasks tm') = tk_at i (tm_tasks tm)))"

definition stable :: "(task_manager, 'a) py \<Rightarrow> bool" where
  "stable m \<longleftrightarrow> (\<forall>tm. frames tm (snd (m tm)))"

named_theorems stable_intro \<open>rules for operations that only add and remove tasks\<close>

lemma frames_refl [simp]: "frames tm tm"
  by (simp add: frames_def)

lemma frames_trans: "frames a b \<Longrightarrow> frames b c \<Longrightarrow> frames a c"
  unfolding frames_def by (metis order_less_le_trans order_trans)

lemma frames_same_tasks: "tm_tasks tm' = tm_tasks tm \<Longrightarrow> tm_next_id tm' = tm_next_id tm \<Longrightarrow> frames tm tm'"
  by (simp add: frames_def wf_tasks_def)

lemma stable_ret [stable_intro]: "stable (ret x)"
  by (simp add: stable_def ret_def)

lemma stable_throw [stable_intro]: "stable (throw x)"
  by (simp add: stable_def throw_def)

lemma stable_gets [stable_intro]: "stable (gets f)"
  by (simp add: stable_def gets_def)

lemma stable_failIf [stable_intro]: "stable (failIf b e)"
  by (simp add: stable_def failIf_def ret_def throw_def)

lemma stable_modify [stable_intro]:
  "(\<And>tm. tm_tasks (f tm) = tm_tasks tm) \<Longrightarrow> (\<And>tm. tm_next_id (f tm) = tm_next_id tm) \<Longrightarrow> stable (modify f)"
  by (simp add: stable_def modify_def frames_same_tasks)

lemma stable_bindP [stable_intro]: "stable m \<Longrightarrow> (\<And>x. stable (k x)) \<Longrightarrow> stable (bindP m k)"
  unfolding stable_def bindP_def
  by (auto split: prod.split sum.split) (metis frames_trans snd_conv)+

lemma stable_thenP [stable_intro]: "stable m \<Longrightarrow> stable k \<Longrightarrow> stable (thenP m k)"
  by (simp add: thenP_def stable_bindP)

lemma stable_if [stable_intro]: "(b \<Longrightarrow> stable m) \<Longrightarrow> (\<not> b \<Longrightarrow> stable k) \<Longrightarrow> stable (if b then m else k)"
  by simp

lemma stable_option [stable_intro]:
  "stable m \<Longrightarrow> (\<And>x. stable (k x)) \<Longrightarrow> stable (case v of None \<Rightarrow> m | Some x \<Rightarrow> k x)"
  by (cases v) simp_all

lemma stable_let [stable_intro]: "stable (f v) \<Longrightarrow> stable (Let v f)"
  by simp

lemma stable_forP [stable_intro]: "(\<And>x. stable (f x)) \<Longrightarrow> stable (forP xs f)"
  by (induction xs) (simp_all add: stable_ret stable_bindP)

lemma remove_task_sub: "set (remove_task i ts) \<subseteq> set ts"
  by (induction ts) auto

lemma remove_task_distinct: "distinct (map f ts) \<Longrightarrow> distinct (map f (remove_task i ts))"
  using remove_task_sub by (induction ts) fastforce+

lemma tk_at_simps [simp]:
  "tk_at i [] = None" "tk_at i (t # ts) = (if tk_id t = i then Some t else tk_at i ts)"
  by (simp_all add: tk_at_def)

lemma tk_at_None: "tk_at i ts = None \<longleftrightarrow> i \<notin> tk_id ` set ts"
  by (induction ts) auto

lemma remove_task_at:
  "distinct (map tk_id ts) \<Longrightarrow> tk_at j (remove_task i ts) = (if j = i then None else tk_at j ts)"
proof (induction ts)
  case (Cons t ts)
  then show ?case by (auto simp: tk_at_None)
qed simp

lemma remove_task_frames: "frames tm (tm\<lparr>tm_tasks := remove_task i (tm_tasks tm)\<rparr>)"
  using remove_task_sub [of i "tm_tasks tm"]
  by (auto simp: frames_def wf_tasks_def remove_task_distinct remove_task_at)

lemma stable_cancel_task [stable_intro]: "stable (cancel_task i)"
proof -
  have "stable (modify (\<lambda>tm. tm\<lparr>tm_tasks := remove_task i (tm_tasks tm)\<rparr>))"
    by (simp add: stable_def modify_def remove_task_frames)
  then show ?thesis unfolding cancel_task_def by (intro stable_bindP stable_gets stable_thenP stable_failIf)
qed

lemma tk_at_append: "tk_at i (xs @ ys) = (case tk_at i xs of None \<Rightarrow> tk_at i ys | Some t \<Rightarrow> Some t)"
  by (induction xs) auto

lemma add_task_frames:
  assumes "name \<notin> tk_name ` set (tm_tasks tm)"
  shows "frames tm (tm\<lparr>tm_tasks := tm_tasks tm @ [new_task (tm_next_id tm) name now qs], tm_next_id := Suc (tm_next_id tm)\<rparr>)"
  using assms
proof -
  have n: "tk_id (new_task i name now qs) = i" "tk_name (new_task i name now qs) = name" for i
    by (cases qs, simp add: new_task_def)+
  show ?thesis using assms by (auto simp: frames_def wf_tasks_def n tk_at_append less_Suc_eq split: option.split)
qed

lemma cancel_named_frames:
  assumes "wf_tasks tm"
  shows "name \<notin> tk_name ` set (tm_tasks (snd (cancel_named name tm)))"
proof (cases "get_task name tm")
  case None
  then have "snd (cancel_named name tm) = tm" by (simp add: cancel_named_def ret_def)
  then show ?thesis using None by (auto simp: get_task_def find_None_iff)
next
  case (Some t)
  then have t: "t \<in> set (tm_tasks tm)" "tk_name t = name" using find_SomeD by (fastforce simp: get_task_def)+
  have r: "tm_tasks (snd (cancel_named name tm)) = remove_task (tk_id t) (tm_tasks tm)"
    using Some t by (simp add: cancel_named_def cancel_task_def thenP_def failIf_def ret_def bindP_def gets_def modify_def)
  have "t' = t" if "t' \<in> set (tm_tasks tm)" "tk_name t' = name" for t'
    using assms that t by (simp add: wf_tasks_def distinct_map inj_on_def)
  moreover have "t \<notin> set (remove_task (tk_id t) (tm_tasks tm))"
    using remove_task_at [of "tm_tasks tm" "tk_id t" "tk_id t"] assms by (auto simp: wf_tasks_def tk_at_None)
  ultimately show ?thesis unfolding r using remove_task_sub by blast
qed

lemma stable_cancel_named [stable_intro]: "stable (cancel_named name)"
  unfolding cancel_named_def by (intro stable_intro)

lemma stable_create_task [stable_intro]: "name \<noteq> [] \<Longrightarrow> stable (create_task now uuid (Some name) qs)"
proof -
  assume n: "name \<noteq> []"
  have "frames tm (snd (create_task now uuid (Some name) qs tm))" for tm
  proof -
    let ?tm = "snd (cancel_named name tm)"
    have ok: "\<exists>u. fst (cancel_named name tm) = Inr u"
      using find_SomeD by (fastforce simp: cancel_named_def get_task_def cancel_task_def thenP_def failIf_def ret_def
          bindP_def gets_def modify_def throw_def split: option.split)
    then have run: "snd (create_task now uuid (Some name) qs tm) =
        ?tm\<lparr>tm_tasks := tm_tasks ?tm @ [new_task (tm_next_id ?tm) name now qs], tm_next_id := Suc (tm_next_id ?tm)\<rparr>"
    proof -
      obtain u where u: "cancel_named name tm = (Inr u, ?tm)" using ok by (metis prod.collapse)
      show ?thesis
        using n by (simp add: create_task_def cancel_named_def [symmetric] thenP_eq_Inr [of "cancel_named name", OF u]
            Let_def) (simp add: thenP_def bindP_def modify_def ret_def)
    qed
    have f: "frames tm ?tm" using stable_cancel_named by (simp add: stable_def)
    show ?thesis
    proof (cases "wf_tasks tm")
      case True
      show ?thesis unfolding run
        by (rule frames_trans [OF f add_task_frames [OF cancel_named_frames [OF True]]])
    next
      case False
      then show ?thesis by (simp add: frames_def)
    qed
  qed
  then show ?thesis by (simp add: stable_def)
qed

lemma stable_permanent [stable_intro]: "truthy name \<Longrightarrow> stable (create_permanent_task now uuid f qs name)"
  by (cases name) (simp_all add: create_permanent_task_def stable_create_task)

lemma stable_ensure_task [stable_intro]: "name \<noteq> [] \<Longrightarrow> stable (ensure_task now name)"
  unfolding ensure_task_def by (intro stable_intro)

lemma stable_operations [stable_intro]:
  "stable (register_invoice_listener now uuid n)" "stable (register_onchain_listener now uuid n)"
  "stable (register_onchain_tx_listener now uuid n)" "stable (register_block_listener now uuid n)"
  "stable (track_address now a m)" "stable (register_ws_address_queue h now a q)"
  "stable (register_ws_tx_queue now x q)" "stable (unregister_ws_tx_queue x q)"
  "stable (register_ws_block_queue now q)" "stable (unregister_ws_block_queue q)" "stable (track_transaction now x)"
  "stable cancel_all_tasks"
  unfolding register_invoice_listener_def register_onchain_listener_def register_onchain_tx_listener_def
    register_block_listener_def track_address_def get_address_tracker_def register_ws_address_queue_def
    register_ws_tx_queue_def unregister_ws_tx_queue_def register_ws_block_queue_def unregister_ws_block_queue_def
    track_transaction_def cancel_all_tasks_def
  by (intro stable_intro; simp add: ONCHAIN_ADDRESS_LISTENER_SUFFIX_def)+

text \<open>A listener that tracks an address twice and gives it up once gets no more events of it, although the tracker
  still counts it.\<close>

lemma one_untrack_silences_listener:
  "let tm = untrack_address ''a'' ''n'' (snd (track_address 0 ''a'' ''n'' (snd (track_address 0 ''a'' ''n'' new_task_manager))))
   in map_option (ref_count ''a'') (tm_address_tracker tm) = Some 1 \<and> tracked_by ''n'' tm = []"
  by code_simp

section \<open>Runs\<close>

datatype tm_event =
    RegisterInvoice string "string option" | RegisterOnchain string "string option"
  | RegisterTx string "string option" | RegisterBlock string "string option"
  | Track string string | Untrack string string
  | WsAddress string nat | WsAddressOff string nat | WsTx string nat | WsTxOff string nat
  | WsBlock nat | WsBlockOff nat | TrackTx string
  | CancelTask nat | CancelAll | TaskEnds nat | HeartBeat
  | PutInvoice payment | PutInternal payment | Consume | ConsumeInternal | Work nat
  | OnchainEvent onchain_address_event | TxEvent onchain_tx_event | BlockEvent block_info

datatype tm_output = Dispatched payment | Handled nat payment

definition end_task :: "nat \<Rightarrow> task list \<Rightarrow> task list" where
  "end_task i ts = map (\<lambda>t. if tk_id t = i then t\<lparr>tk_done := True\<rparr> else t) ts"

definition logged :: "('a \<Rightarrow> tm_output) \<Rightarrow> 'a option \<times> task_manager \<Rightarrow> tm_output list \<times> task_manager" where
  "logged f r = (case r of (None, tm) \<Rightarrow> ([], tm) | (Some x, tm) \<Rightarrow> ([f x], tm))"

fun tm_do :: "(string \<Rightarrow> string option) \<Rightarrow> int \<Rightarrow> tm_event \<Rightarrow> task_manager \<Rightarrow> tm_output list \<times> task_manager" where
  "tm_do h now (RegisterInvoice uuid n) tm = ([], snd (register_invoice_listener now uuid n tm))"
| "tm_do h now (RegisterOnchain uuid n) tm = ([], snd (register_onchain_listener now uuid n tm))"
| "tm_do h now (RegisterTx uuid n) tm = ([], snd (register_onchain_tx_listener now uuid n tm))"
| "tm_do h now (RegisterBlock uuid n) tm = ([], snd (register_block_listener now uuid n tm))"
| "tm_do h now (Track a n) tm = ([], snd (track_address now a n tm))"
| "tm_do h now (Untrack a n) tm = ([], untrack_address a n tm)"
| "tm_do h now (WsAddress a q) tm = ([], snd (register_ws_address_queue h now a q tm))"
| "tm_do h now (WsAddressOff a q) tm = ([], unregister_ws_address_queue a q tm)"
| "tm_do h now (WsTx x q) tm = ([], snd (register_ws_tx_queue now x q tm))"
| "tm_do h now (WsTxOff x q) tm = ([], snd (unregister_ws_tx_queue x q tm))"
| "tm_do h now (WsBlock q) tm = ([], snd (register_ws_block_queue now q tm))"
| "tm_do h now (WsBlockOff q) tm = ([], snd (unregister_ws_block_queue q tm))"
| "tm_do h now (TrackTx x) tm = ([], snd (track_transaction now x tm))"
| "tm_do h now (CancelTask i) tm = ([], snd (cancel_task i tm))"
| "tm_do h now CancelAll tm = ([], snd (cancel_all_tasks tm))"
| "tm_do h now (TaskEnds i) tm = ([], tm\<lparr>tm_tasks := end_task i (tm_tasks tm)\<rparr>)"
| "tm_do h now HeartBeat tm = ([], tm\<lparr>tm_tasks := heart_beat 0 (tm_tasks tm)\<rparr>)"
| "tm_do h now (PutInvoice p) tm = ([], tm\<lparr>tm_invoice_queue := tm_invoice_queue tm @ [p]\<rparr>)"
| "tm_do h now (PutInternal p) tm = ([], tm\<lparr>tm_internal_invoice_queue := tm_internal_invoice_queue tm @ [p]\<rparr>)"
| "tm_do h now Consume tm = logged Dispatched (invoice_listener_consumer tm)"
| "tm_do h now ConsumeInternal tm = logged Dispatched (internal_invoice_listener_consumer tm)"
| "tm_do h now (Work i) tm = logged (Handled i) (invoice_listener_worker i tm)"
| "tm_do h now (OnchainEvent ev) tm = ([], dispatch_onchain_event ev tm)"
| "tm_do h now (TxEvent ev) tm = ([], dispatch_onchain_tx_event ev tm)"
| "tm_do h now (BlockEvent ev) tm = ([], dispatch_block_event ev tm)"

fun tm_run :: "(string \<Rightarrow> string option) \<Rightarrow> (int \<times> tm_event) list \<Rightarrow> task_manager \<Rightarrow> tm_output list \<times> task_manager" where
  "tm_run h [] tm = ([], tm)"
| "tm_run h ((now, e) # es) tm =
     (let (o1, tm1) = tm_do h now e tm; (o2, tm2) = tm_run h es tm1 in (o1 @ o2, tm2))"

definition dispatched :: "tm_output list \<Rightarrow> payment list" where
  "dispatched os = concat (map (\<lambda>x. case x of Dispatched p \<Rightarrow> [p] | Handled j p \<Rightarrow> []) os)"

definition handled :: "nat \<Rightarrow> tm_output list \<Rightarrow> payment list" where
  "handled i os = concat (map (\<lambda>x. case x of Dispatched p \<Rightarrow> [] | Handled j p \<Rightarrow> if j = i then [p] else []) os)"

definition queue_at :: "nat \<Rightarrow> task_manager \<Rightarrow> payment list option" where
  "queue_at i tm = Option.bind (tk_at i (tm_tasks tm)) tk_invoice_queue"

text \<open>What one event may do to the queues: every listener that is still there has been handed the front of
  its queue and been given what was dispatched.\<close>

definition fed :: "tm_output list \<Rightarrow> nat \<Rightarrow> task \<Rightarrow> task \<Rightarrow> bool" where
  "fed out i t t' \<longleftrightarrow> tk_name t' = tk_name t
     \<and> (case tk_invoice_queue t of
          None \<Rightarrow> tk_invoice_queue t' = None
        | Some q \<Rightarrow> \<exists>q'. tk_invoice_queue t' = Some q' \<and> handled i out @ q' = q @ dispatched out)"

definition serves :: "task_manager \<Rightarrow> tm_output list \<Rightarrow> task_manager \<Rightarrow> bool" where
  "serves tm out tm' \<longleftrightarrow>
     (wf_tasks tm \<longrightarrow> wf_tasks tm' \<and> tm_next_id tm \<le> tm_next_id tm'
        \<and> (\<forall>i < tm_next_id tm. \<forall>t'. tk_at i (tm_tasks tm') = Some t' \<longrightarrow>
              (\<exists>t. tk_at i (tm_tasks tm) = Some t \<and> fed out i t t')))"

lemma dispatched_simps [simp]:
  "dispatched [] = []" "dispatched (Dispatched p # os) = p # dispatched os" "dispatched (Handled j p # os) = dispatched os"
  "dispatched (a @ b) = dispatched a @ dispatched b"
  by (simp_all add: dispatched_def)

lemma handled_simps [simp]:
  "handled i [] = []" "handled i (Dispatched p # os) = handled i os"
  "handled i (Handled j p # os) = (if j = i then p # handled i os else handled i os)"
  "handled i (a @ b) = handled i a @ handled i b"
  by (simp_all add: handled_def)

lemma fed_refl [simp]: "fed [] i t t"
  by (simp add: fed_def split: option.split)

lemma fed_trans:
  assumes "fed a i t t1" "fed b i t1 t2" shows "fed (a @ b) i t t2"
proof (cases "tk_invoice_queue t")
  case None
  then show ?thesis using assms by (simp add: fed_def)
next
  case (Some q)
  then obtain q1 where q1: "tk_invoice_queue t1 = Some q1" "handled i a @ q1 = q @ dispatched a"
    using assms(1) by (auto simp: fed_def)
  then obtain q2 where q2: "tk_invoice_queue t2 = Some q2" "handled i b @ q2 = q1 @ dispatched b"
    using assms(2) by (auto simp: fed_def)
  have "handled i (a @ b) @ q2 = q @ dispatched (a @ b)"
    by (simp add: q2(2)) (simp add: q1(2) flip: append_assoc)
  then show ?thesis using Some q2(1) assms by (simp add: fed_def)
qed

lemma frames_serves: "frames tm tm' \<Longrightarrow> serves tm [] tm'"
  unfolding frames_def serves_def by (metis fed_refl option.distinct(1))

lemma serves_trans: "serves tm a tm1 \<Longrightarrow> serves tm1 b tm2 \<Longrightarrow> serves tm (a @ b) tm2"
  unfolding serves_def by (metis fed_trans order_less_le_trans order_trans)

text \<open>Events that change tasks one by one.\<close>

lemma tk_at_map: "(\<And>t. tk_id (f t) = tk_id t) \<Longrightarrow> tk_at i (map f ts) = map_option f (tk_at i ts)"
  by (induction ts) auto

lemma tk_at_id: "tk_at i ts = Some t \<Longrightarrow> tk_id t = i"
  by (induction ts) (auto split: if_splits)

lemma map_serves:
  assumes f: "\<And>t. tk_id (f t) = tk_id t" "\<And>t. tk_name (f t) = tk_name t"
    and q: "\<And>t. fed out (tk_id t) t (f t)"
    and tm: "tm_tasks tm' = map f (tm_tasks tm)" "tm_next_id tm' = tm_next_id tm"
  shows "serves tm out tm'"
proof -
  have m: "map tk_id (map f (tm_tasks tm)) = map tk_id (tm_tasks tm)" "map tk_name (map f (tm_tasks tm)) = map tk_name (tm_tasks tm)"
    using f by simp_all
  have wf: "wf_tasks tm' \<longleftrightarrow> wf_tasks tm"
    unfolding wf_tasks_def tm m using f(1) by auto
  show ?thesis
    unfolding serves_def wf tm tk_at_map [OF f(1)] using q tk_at_id by fastforce
qed

lemma dispatcher_serves:
  assumes "tm_tasks tm0 = tm_tasks tm" "tm_next_id tm0 = tm_next_id tm"
  shows "serves tm [Dispatched p] (invoice_dispatcher p tm0)"
  by (rule map_serves [of "\<lambda>t. t\<lparr>tk_invoice_queue := map_option (\<lambda>q. q @ [p]) (tk_invoice_queue t)\<rparr>"])
    (simp_all add: invoice_dispatcher_def assms fed_def split: option.split)

lemma take_payment_map:
  "distinct (map tk_id ts) \<Longrightarrow> take_payment i ts = (r, ts') \<Longrightarrow>
   map tk_id ts' = map tk_id ts \<and> map tk_name ts' = map tk_name ts
   \<and> (\<forall>j t'. tk_at j ts' = Some t' \<longrightarrow> (\<exists>t. tk_at j ts = Some t
         \<and> fed (case r of None \<Rightarrow> [] | Some p \<Rightarrow> [Handled i p]) j t t'))"
proof (induction ts arbitrary: r ts')
  case (Cons t ts)
  show ?case
  proof (cases "tk_id t = i")
    case True
    have other: "j \<noteq> i" if "tk_at j ts = Some t'" for j t'
      using that Cons.prems(1) True by (auto dest: tk_at_id simp: tk_at_None [symmetric])
    show ?thesis
      using Cons.prems True other
      by (auto simp: fed_def split: option.splits list.splits)
  next
    case False
    obtain r1 ts1 where r: "take_payment i ts = (r1, ts1)" by fastforce
    have "fed (case r1 of None \<Rightarrow> [] | Some p \<Rightarrow> [Handled i p]) (tk_id t) t t"
      using False by (simp add: fed_def split: option.split)
    then show ?thesis using Cons.IH [OF _ r] Cons.prems False r by auto
  qed
qed simp

lemma heart_beat_frames: "frames tm (tm\<lparr>tm_tasks := heart_beat k ts\<rparr>)" if "frames tm (tm\<lparr>tm_tasks := ts\<rparr>)"
  using that
proof (induction k ts rule: heart_beat.induct)
  case (1 k ts)
  let ?rest = "remove_task (tk_id (ts ! k)) ts"
  have "frames tm (tm\<lparr>tm_tasks := ?rest\<rparr>)"
    using frames_trans [OF 1(3) remove_task_frames] by simp
  then show ?case using 1 by (subst heart_beat.simps) simp
qed

text \<open>A heartbeat removes only tasks that are done. It steps over the task after a removed one, so that one may
  stay until the next beat.\<close>

lemma remove_task_other: "t \<in> set ts \<Longrightarrow> tk_id t \<noteq> i \<Longrightarrow> t \<in> set (remove_task i ts)"
  by (induction ts) auto

lemma heart_beat_keeps_running:
  "distinct (map tk_id ts) \<Longrightarrow> t \<in> set ts \<Longrightarrow> \<not> tk_done t \<Longrightarrow> t \<in> set (heart_beat k ts)"
proof (induction k ts rule: heart_beat.induct)
  case (1 k ts)
  have "t \<in> set (remove_task (tk_id (ts ! k)) ts)" if "k < length ts" "tk_done (ts ! k)"
  proof -
    have "t \<noteq> ts ! k" using 1(5) that by auto
    then have "tk_id t \<noteq> tk_id (ts ! k)" using 1(3,4) that(1) by (auto simp: distinct_map inj_on_def)
    then show ?thesis using 1(4) by (rule remove_task_other [rotated])
  qed
  then show ?case
    using 1 remove_task_distinct by (subst heart_beat.simps) auto
qed

lemma heart_beat_steps_over_next:
  "let done = (\<lambda>i. (new_task i ''t'' 0 no_queues)\<lparr>tk_done := True\<rparr>) in heart_beat 0 [done 0, done 1] = [done 1]"
  by (simp add: Let_def heart_beat.simps new_task_def no_queues_def)

lemma tm_do_serves: "tm_do h now e tm = (out, tm') \<Longrightarrow> serves tm out tm'"
proof -
  assume r: "tm_do h now e tm = (out, tm')"
  have st: "serves tm [] (snd (m tm))" if "stable m" for m :: "(task_manager, 'a) py"
    using that by (simp add: stable_def frames_serves)
  show ?thesis
  proof (cases e)
    case (Work i)
    obtain p ts where t: "take_payment i (tm_tasks tm) = (p, ts)" by fastforce
    show ?thesis
      unfolding serves_def
    proof (intro impI)
      assume wf: "wf_tasks tm"
      note m = take_payment_map [OF _ t]
      have out: "out = (case p of None \<Rightarrow> [] | Some p \<Rightarrow> [Handled i p])" "tm' = tm\<lparr>tm_tasks := ts\<rparr>"
        using r Work t by (auto simp: logged_def invoice_listener_worker_def split: option.splits)
      have ids: "map tk_id ts = map tk_id (tm_tasks tm)" "map tk_name ts = map tk_name (tm_tasks tm)"
        using m wf by (auto simp: wf_tasks_def)
      have "tk_id ` set ts = tk_id ` set (tm_tasks tm)" using ids(1) by (metis set_map)
      then have "wf_tasks tm'" using wf ids by (auto simp: wf_tasks_def out) (metis imageE imageI)
      then show "wf_tasks tm' \<and> tm_next_id tm \<le> tm_next_id tm' \<and> (\<forall>j < tm_next_id tm. \<forall>t'. tk_at j (tm_tasks tm') = Some t' \<longrightarrow>
              (\<exists>t. tk_at j (tm_tasks tm) = Some t \<and> fed out j t t'))"
        using m wf by (simp add: wf_tasks_def out)
    qed
  next
    case Consume
    then show ?thesis using r frames_serves [OF frames_refl]
      by (auto simp: logged_def invoice_listener_consumer_def intro!: dispatcher_serves split: list.splits)
  next
    case ConsumeInternal
    then show ?thesis using r frames_serves [OF frames_refl]
      by (auto simp: logged_def internal_invoice_listener_consumer_def intro!: dispatcher_serves split: list.splits)
  next
    case (TaskEnds i)
    then show ?thesis using r
      by (auto simp: end_task_def fed_def split: option.split
          intro!: map_serves [of "\<lambda>t. if tk_id t = i then t\<lparr>tk_done := True\<rparr> else t"])
  next
    case HeartBeat
    then show ?thesis using r heart_beat_frames [of tm "tm_tasks tm" 0] by (auto intro!: frames_serves)
  next
    case (OnchainEvent ev)
    define g :: "task \<Rightarrow> task" where "g = (\<lambda>t. if tk_address_queue t = None then t
        else if \<not> endswith (tk_name t) ONCHAIN_ADDRESS_LISTENER_SUFFIX then t
        else let name = take (length (tk_name t) - length ONCHAIN_ADDRESS_LISTENER_SUFFIX) (tk_name t) in
          if oa_address ev \<in> set (tracked_by name tm)
          then t\<lparr>tk_address_queue := map_option (\<lambda>q. q @ [ev]) (tk_address_queue t)\<rparr> else t)"
    have "tm_tasks tm' = map g (tm_tasks tm)" "tm_next_id tm' = tm_next_id tm" "out = []"
      using r OnchainEvent by (auto simp: dispatch_onchain_event_def g_def)
    then show ?thesis
      by (auto intro!: map_serves [of g]) (auto simp: g_def Let_def fed_def split: option.split)
  next
    case (TxEvent ev)
    then show ?thesis using r
      by (auto simp: dispatch_onchain_tx_event_def fed_def split: option.split
          intro!: map_serves [of "\<lambda>t. t\<lparr>tk_tx_queue := map_option (\<lambda>q. q @ [ev]) (tk_tx_queue t)\<rparr>"])
  next
    case (BlockEvent ev)
    then show ?thesis using r
      by (auto simp: dispatch_block_event_def fed_def split: option.split
          intro!: map_serves [of "\<lambda>t. t\<lparr>tk_block_queue := map_option (\<lambda>q. q @ [ev]) (tk_block_queue t)\<rparr>"])
  next
    case (Untrack a n)
    then show ?thesis using r by (auto simp: untrack_address_def Let_def intro!: frames_serves frames_same_tasks)
  next
    case (WsAddressOff a q)
    then show ?thesis using r by (auto simp: unregister_ws_address_queue_def intro!: frames_serves frames_same_tasks)
  next
    case (PutInvoice p)
    then show ?thesis using r by (auto intro!: frames_serves frames_same_tasks)
  next
    case (PutInternal p)
    then show ?thesis using r by (auto intro!: frames_serves frames_same_tasks)
  qed (use r in \<open>auto intro!: frames_serves simp: stable_operations [unfolded stable_def, rule_format]
        stable_cancel_task [unfolded stable_def, rule_format]\<close>)
qed

lemma tm_run_serves: "tm_run h es tm = (out, tm') \<Longrightarrow> serves tm out tm'"
proof (induction h es tm arbitrary: out tm' rule: tm_run.induct)
  case (1 h tm)
  then show ?case using frames_serves [OF frames_refl] by auto
next
  case (2 h now e es tm)
  obtain o1 tm1 o2 where a: "tm_do h now e tm = (o1, tm1)" "tm_run h es tm1 = (o2, tm')" "out = o1 @ o2"
    using 2(2) by (auto split: prod.splits)
  show ?case unfolding a(3)
    by (rule serves_trans [OF tm_do_serves [OF a(1)] 2(1) [OF a(1) [symmetric] refl a(2)]])
qed


definition demo_listener :: task_manager where
  "demo_listener = snd (register_invoice_listener 0 ''u1'' (Some ''ext'') new_task_manager)"


end
