(* ===== verification/ElectrumProperties.thy ===== *)
theory ElectrumProperties
  imports Electrum "HOL-Library.Multiset"
begin

text \<open>
  The Electrum client: block headers, framing, correlation of requests and answers, and what becomes of
  the subscriptions of the address tracker.
\<close>

section \<open>Block headers\<close>

definition header_bytes ::
  "32 word \<Rightarrow> byte list \<Rightarrow> byte list \<Rightarrow> 32 word \<Rightarrow> 32 word \<Rightarrow> 32 word \<Rightarrow> byte list" where
  "header_bytes version prev mroot time bits nonce =
     pack_u32 version @ rev prev @ rev mroot @ pack_u32 time @ pack_u32 bits @ pack_u32 nonce"

lemma length_pack [simp]: "length (pack_u32 w) = 4"
  by (simp add: pack_u32_def)

lemma unpack_short: "length data < k + 4 \<Longrightarrow> unpack_u32 data k = None"
  by (simp add: unpack_u32_def)

text \<open>Parsing the serialised form of a block header gives back its fields, with the hashes in display order, and
  a text of less than eighty bytes is an error.\<close>

theorem block_header_roundtrip:
  "(length prev = 32 \<and> length mroot = 32 \<longrightarrow>
     parse_block_header sha256 (bytes_hex (header_bytes version prev mroot time bits nonce)) h
       = Inr \<lparr>bi_height = h,
              bi_hash = bytes_hex (rev (sha256 (sha256 (header_bytes version prev mroot time bits nonce)))),
              bi_timestamp = time, bi_version = version, bi_bits = hex_u32 bits, bi_nonce = nonce,
              bi_prev_hash = bytes_hex prev, bi_merkle_root = bytes_hex mroot\<rparr>)
   \<and> (length data < 80 \<longrightarrow> parse_block_header sha256 (bytes_hex data) h = Inl (OtherError ''struct.error''))"
proof (intro conjI impI)
  assume l: "length prev = 32 \<and> length mroot = 32"
  let ?d = "header_bytes version prev mroot time bits nonce"
  have u: "unpack_u32 ?d 0 = Some version" "unpack_u32 ?d 68 = Some time" "unpack_u32 ?d 72 = Some bits"
    "unpack_u32 ?d 76 = Some nonce"
    using unpack_pack_u32 [of "[]" 0 version "rev prev @ rev mroot @ pack_u32 time @ pack_u32 bits @ pack_u32 nonce"]
      unpack_pack_u32 [of "pack_u32 version @ rev prev @ rev mroot" 68 time "pack_u32 bits @ pack_u32 nonce"]
      unpack_pack_u32 [of "pack_u32 version @ rev prev @ rev mroot @ pack_u32 time" 72 bits "pack_u32 nonce"]
      unpack_pack_u32 [of "pack_u32 version @ rev prev @ rev mroot @ pack_u32 time @ pack_u32 bits" 76 nonce "[]"] l
    by (simp_all add: header_bytes_def)
  have s: "slice 4 36 ?d = rev prev" "slice 36 68 ?d = rev mroot"
    using l by (simp_all add: slice_def header_bytes_def)
  show "parse_block_header sha256 (bytes_hex ?d) h
       = Inr \<lparr>bi_height = h, bi_hash = bytes_hex (rev (sha256 (sha256 ?d))),
              bi_timestamp = time, bi_version = version, bi_bits = hex_u32 bits, bi_nonce = nonce,
              bi_prev_hash = bytes_hex prev, bi_merkle_root = bytes_hex mroot\<rparr>"
    by (simp add: parse_block_header_def u s)
next
  assume "length data < 80"
  then have "unpack_u32 data 76 = None" by (simp add: unpack_short)
  then show "parse_block_header sha256 (bytes_hex data) h = Inl (OtherError ''struct.error'')"
    by (simp add: parse_block_header_def split: option.split)
qed

theorem block_header_roundtrip_witness:
  "map_sum id bi_bits (parse_block_header id (bytes_hex (header_bytes 1 (replicate 32 0) (replicate 32 1) 7 486604799 9)) 0)
     = Inr ''1d00ffff''
   \<and> parse_block_header id (bytes_hex [1, 2, 3]) 0 = Inl (OtherError ''struct.error'')"
proof -
  have "hex_u32 486604799 = ''1d00ffff''"
    by (simp add: hex_u32_def pack_u32_def bytes_hex_def hex_char_def char_of_def unat_of_nat take_bit_nat_def bit_0)
  then show ?thesis
    using block_header_roundtrip [of "replicate 32 0" "replicate 32 1" id 1 7 486604799 9 0 "[1, 2, 3]"] by simp
qed

section \<open>Framing\<close>

lemma take_lines_append:
  "take_lines line (xs @ ys) =
     (let (ls, r) = take_lines line xs; (ls', r') = take_lines r ys in (ls @ ls', r'))"
  by (induction line xs rule: take_lines.induct) (auto simp: Let_def split: prod.splits)

lemma take_lines_none: "newline \<notin> set xs \<Longrightarrow> take_lines line xs = ([], line @ xs)"
  by (induction line xs rule: take_lines.induct) auto

lemma take_lines_rest: "newline \<notin> set line \<Longrightarrow> newline \<notin> set (snd (take_lines line xs))"
  by (induction line xs rule: take_lines.induct) (auto split: prod.splits)

lemma resolve_frame [simp]: "ec_buf (resolve i r c) = ec_buf c" "ec_closed (resolve i r c) = ec_closed c"
  by (simp_all add: resolve_def split: option.split)

text \<open>What a message can do, independently of the state.\<close>

lemma client_dispatch_cases:
  obtains (raise) e where "\<And>c. client_dispatch msg c = Inl e"
  | (answer) i r where "\<And>c. client_dispatch msg c = Inr (resolve i r c, [])"
  | (notify) m p where "\<And>c. client_dispatch msg c =
       Inr (c, map (\<lambda>cb. (cb, p)) (case map_of (ec_subscriptions c) m of None \<Rightarrow> [] | Some l \<Rightarrow> l))"
  | (ignore) "\<And>c. client_dispatch msg c = Inr (c, [])"
proof (cases "\<exists>d. msg = JObj d")
  case False
  then show ?thesis using raise by (cases msg) (auto simp: client_dispatch_def)
next
  case True
  then obtain d where d: "msg = JObj d" by blast
  define i where "i = (case dget d ''id'' of Some JNull \<Rightarrow> None | v \<Rightarrow> v)"
  define meth where "meth = (case dget d ''method'' of None \<Rightarrow> JStr [] | Some v \<Rightarrow> v)"
  note disp = client_dispatch_def [of msg, unfolded d jval.case Let_def, folded i_def meth_def]
  show ?thesis
  proof (cases i)
    case None
    then show ?thesis using raise ignore notify d by (cases meth) (auto simp: disp)
  next
    case (Some v)
    show ?thesis
    proof (cases "pending_key v")
      case (Inl e)
      then show ?thesis using raise d Some by (simp add: disp)
    next
      case (Inr k)
      then show ?thesis using ignore answer d Some by (cases k) (auto simp: disp)
    qed
  qed
qed

lemma recv_line_frame:
  "recv_line js l c = Inr (c', calls) \<Longrightarrow> ec_buf c' = ec_buf c \<and> ec_closed c' = ec_closed c"
proof (cases "js l")
  case (Some msg)
  assume "recv_line js l c = Inr (c', calls)"
  then show ?thesis
    using Some by (cases rule: client_dispatch_cases [of msg]) (auto simp: recv_line_def split: if_splits)
qed (auto simp: recv_line_def split: if_splits)

lemma resolve_set_buf: "resolve i r (c\<lparr>ec_buf := b\<rparr>) = (resolve i r c)\<lparr>ec_buf := b\<rparr>"
  by (simp add: resolve_def split: option.split)

lemma recv_line_set_buf:
  "recv_line js l (c\<lparr>ec_buf := b\<rparr>) = map_sum id (\<lambda>(c', calls). (c'\<lparr>ec_buf := b\<rparr>, calls)) (recv_line js l c)"
proof (cases "js l")
  case (Some msg)
  then show ?thesis
    by (cases rule: client_dispatch_cases [of msg]) (auto simp: recv_line_def resolve_set_buf)
qed (simp add: recv_line_def)

lemma client_close_set_buf [simp]: "client_close (c\<lparr>ec_buf := b\<rparr>) = client_close c"
  by (simp add: client_close_def)

lemma client_close_closed [simp]: "ec_closed (client_close c)"
  by (simp add: client_close_def)

lemma recv_lines_set_buf:
  "\<not> ec_closed c \<Longrightarrow> recv_lines js ls (c\<lparr>ec_buf := b\<rparr>) =
     (let (c', calls) = recv_lines js ls c in (if ec_closed c' then c' else c'\<lparr>ec_buf := b\<rparr>, calls))"
proof (induction ls arbitrary: c)
  case (Cons l ls)
  show ?case
  proof (cases "recv_line js l c")
    case (Inr r)
    obtain c1 calls where r: "r = (c1, calls)" by (cases r)
    have "\<not> ec_closed c1" using recv_line_frame [of js l c c1 calls] Inr r Cons.prems by simp
    from Cons.IH [OF this] show ?thesis
      using Inr r by (simp add: recv_line_set_buf Let_def split: prod.splits)
  qed (simp add: recv_line_set_buf)
qed simp

lemma recv_lines_append:
  "\<not> ec_closed c \<Longrightarrow> recv_lines js (a @ b) c =
     (let (c1, o1) = recv_lines js a c in
      if ec_closed c1 then (c1, o1) else let (c2, o2) = recv_lines js b c1 in (c2, o1 @ o2))"
proof (induction a arbitrary: c)
  case (Cons l a)
  show ?case
  proof (cases "recv_line js l c")
    case (Inr r)
    obtain c1 calls where r: "r = (c1, calls)" by (cases r)
    have "\<not> ec_closed c1" using recv_line_frame [of js l c c1 calls] Inr r Cons.prems by simp
    from Cons.IH [OF this] show ?thesis
      using Inr r by (auto simp: Let_def split: prod.splits if_splits)
  qed simp
qed simp

lemma recv_lines_buf: "\<not> ec_closed (fst (recv_lines js ls c)) \<Longrightarrow> ec_buf (fst (recv_lines js ls c)) = ec_buf c"
proof (induction ls arbitrary: c)
  case (Cons l ls)
  show ?case
  proof (cases "recv_line js l c")
    case (Inr r)
    obtain c1 calls where r: "r = (c1, calls)" by (cases r)
    show ?thesis using Cons.IH [of c1] Cons.prems recv_line_frame [of js l c c1 calls] Inr r
      by (simp add: case_prod_beta Let_def)
  next
    case (Inl e)
    then show ?thesis using Cons.prems by simp
  qed
qed simp

lemma recv_chunk_append:
  assumes "\<not> ec_closed c" "newline \<notin> set (ec_buf c)" "x \<noteq> []" "y \<noteq> []"
  shows "recv_chunk js (x @ y) c =
     (let (c1, o1) = recv_chunk js x c; (c2, o2) = recv_chunk js y c1 in (c2, o1 @ o2))"
proof -
  obtain ls1 r1 where t1: "take_lines [] (ec_buf c @ x) = (ls1, r1)" by fastforce
  have n1: "newline \<notin> set r1" using take_lines_rest [of "[]" "ec_buf c @ x"] t1 by simp
  obtain ls2 r2 where t2: "take_lines r1 y = (ls2, r2)" by fastforce
  have t2': "take_lines [] (r1 @ y) = (ls2, r2)"
    using take_lines_append [of "[]" r1 y] take_lines_none [OF n1, of "[]"] t2 by simp
  have t: "take_lines [] (ec_buf c @ x @ y) = (ls1 @ ls2, r2)"
    using take_lines_append [of "[]" "ec_buf c @ x" y] t1 t2 by simp
  obtain c1 o1 where r1c: "recv_lines js ls1 (c\<lparr>ec_buf := r1\<rparr>) = (c1, o1)" by fastforce
  obtain c0 where c0: "recv_lines js ls1 c = (c0, o1)" "c1 = (if ec_closed c0 then c0 else c0\<lparr>ec_buf := r1\<rparr>)"
    using recv_lines_set_buf [OF assms(1), of js ls1 r1] r1c by (auto simp: Let_def split: prod.splits)
  have "recv_lines js ls1 (c\<lparr>ec_buf := r2\<rparr>) = (if ec_closed c0 then c0 else c0\<lparr>ec_buf := r2\<rparr>, o1)"
    using recv_lines_set_buf [OF assms(1), of js ls1 r2] c0(1) by simp
  then have whole: "recv_chunk js (x @ y) c =
     (if ec_closed c0 then (c0, o1)
      else let (c2, o2) = recv_lines js ls2 (c0\<lparr>ec_buf := r2\<rparr>) in (c2, o1 @ o2))"
    using assms t recv_lines_append [of "c\<lparr>ec_buf := r2\<rparr>" js ls1 ls2] by (simp add: recv_chunk_def)
  have first: "recv_chunk js x c = (c1, o1)" using assms t1 r1c by (simp add: recv_chunk_def)
  have second: "recv_chunk js y c1 = (if ec_closed c0 then (c0, []) else recv_lines js ls2 (c0\<lparr>ec_buf := r2\<rparr>))"
    using assms(4) c0(2) t2' by (simp add: recv_chunk_def)
  show ?thesis by (simp add: whole first second case_prod_beta Let_def)
qed

text \<open>How a client is driven by the chunks that arrive.\<close>

fun recv_chunks ::
  "(byte list \<Rightarrow> jval option) \<Rightarrow> byte list list \<Rightarrow> electrum_client \<Rightarrow> electrum_client \<times> (nat \<times> jval) list" where
  "recv_chunks js [] c = (c, [])"
| "recv_chunks js (x # xs) c =
     (let (c1, o1) = recv_chunk js x c; (c2, o2) = recv_chunks js xs c1 in (c2, o1 @ o2))"

lemma recv_chunk_buf:
  assumes "\<not> ec_closed (fst (recv_chunk js x c))" "newline \<notin> set (ec_buf c)"
  shows "newline \<notin> set (ec_buf (fst (recv_chunk js x c)))"
  using assms recv_lines_buf [of js "fst (take_lines [] (ec_buf c @ x))" "c\<lparr>ec_buf := snd (take_lines [] (ec_buf c @ x))\<rparr>"]
    take_lines_rest [of "[]" "ec_buf c @ x"]
  by (auto simp: recv_chunk_def split: prod.splits if_splits)

lemma recv_chunk_closed: "ec_closed c \<Longrightarrow> recv_chunk js x c = (c, [])"
  by (simp add: recv_chunk_def)

text \<open>C39: However the stream is cut into chunks, the client ends in the same state and calls the same callbacks with
  the same arguments, in the same order, as if it had arrived in one piece.\<close>

theorem chunking_does_not_matter:
  assumes "\<not> ec_closed c" "newline \<notin> set (ec_buf c)" "xs \<noteq> []" "[] \<notin> set xs"
  shows "recv_chunks js xs c = recv_chunk js (concat xs) c"
  using assms
proof (induction xs arbitrary: c)
  case (Cons x xs)
  show ?case
  proof (cases "xs = []")
    case True
    then show ?thesis by (simp split: prod.split)
  next
    case False
    have x: "x \<noteq> []" using Cons.prems(4) by auto
    have ne: "concat xs \<noteq> []" using False Cons.prems(4) by (cases xs) auto
    obtain c1 o1 where r: "recv_chunk js x c = (c1, o1)" by fastforce
    have "recv_chunks js xs c1 = recv_chunk js (concat xs) c1"
    proof (cases "ec_closed c1")
      case True
      have "recv_chunks js ys c1 = (c1, [])" for ys
        by (induction ys) (simp_all add: recv_chunk_closed [OF True])
      then show ?thesis by (simp add: recv_chunk_closed [OF True])
    next
      case still: False
      show ?thesis
        using Cons.IH [OF still] recv_chunk_buf [of js x c] still r Cons.prems False by simp
    qed
    then show ?thesis
      using recv_chunk_append [OF Cons.prems(1,2) x ne, of js] r by simp
  qed
qed simp

theorem chunking_does_not_matter_witness:
  "\<exists>c. recv_chunks (\<lambda>l. Some (JObj [(''id'', JInt 1)])) [[65], [66, newline, 67]] (snd (client_call ''m'' new_client)) = (c, [])
     \<and> ec_resolved c = [(1, Result None)] \<and> ec_buf c = [67]"
proof -
  let ?js = "\<lambda>l :: byte list. Some (JObj [(''id'', JInt 1)])" and ?c = "snd (client_call ''m'' new_client)"
  have h: "\<not> ec_closed ?c" "newline \<notin> set (ec_buf ?c)" "[[65 :: byte], [66, newline, 67]] \<noteq> []"
    "[] \<notin> set [[65 :: byte], [66, newline, 67]]"
    by (simp_all add: client_call_def new_client_def Let_def)
  have "recv_chunk ?js (concat [[65], [66, newline, 67]]) ?c
      = (\<lparr>ec_counter = 2, ec_pending = [], ec_resolved = [(1, Result None)], ec_subscriptions = [], ec_buf = [67],
          ec_closed = False\<rparr>, [])"
    by (simp add: recv_chunk_def newline_def client_call_def new_client_def Let_def recv_line_def is_byte_space_def
        client_dispatch_def dget_def pending_key_def resolve_def jtrue_def)
  then show ?thesis using chunking_does_not_matter [OF h, of ?js] by simp
qed

section \<open>Requests and answers\<close>

datatype client_step = Call string | Timeout nat | Chunk "byte list" | On string nat | Off string nat

definition client_do :: "(byte list \<Rightarrow> jval option) \<Rightarrow> client_step \<Rightarrow> electrum_client \<Rightarrow> electrum_client" where
  "client_do js s c = (case s of
      Call m \<Rightarrow> snd (client_call m c)
    | Timeout i \<Rightarrow> client_timeout i c
    | Chunk b \<Rightarrow> fst (recv_chunk js b c)
    | On m cb \<Rightarrow> client_on m cb c
    | Off m cb \<Rightarrow> client_off m cb c)"

inductive client_reachable :: "(byte list \<Rightarrow> jval option) \<Rightarrow> electrum_client \<Rightarrow> bool" for js where
  start: "client_reachable js new_client"
| step: "client_reachable js c \<Longrightarrow> client_reachable js (client_do js s c)"

text \<open>Every number given out is waiting or resolved, and only once.\<close>

definition correlated :: "electrum_client \<Rightarrow> bool" where
  "correlated c \<longleftrightarrow> 1 \<le> ec_counter c \<and>
     mset (map fst (ec_pending c)) + mset (map fst (ec_resolved c)) = mset [1..<ec_counter c]"

lemma correlated_distinct:
  assumes "correlated c"
  shows "distinct (map fst (ec_pending c) @ map fst (ec_resolved c))"
    and "i \<in> fst ` set (ec_pending c) \<Longrightarrow> i < ec_counter c"
proof -
  have m: "mset (map fst (ec_pending c) @ map fst (ec_resolved c)) = mset [1..<ec_counter c]"
    using assms by (simp add: correlated_def)
  show "distinct (map fst (ec_pending c) @ map fst (ec_resolved c))"
    using mset_eq_imp_distinct_iff [OF m] by simp
  show "i < ec_counter c" if "i \<in> fst ` set (ec_pending c)"
    using mset_eq_setD [OF m] that by auto
qed

lemma delete_mset:
  "distinct (map fst xs) \<Longrightarrow> map_of xs i = Some m \<Longrightarrow>
   add_mset i (mset (map fst (AList.delete i xs))) = mset (map fst xs)"
proof (induction xs)
  case (Cons x xs)
  then show ?case
    by (cases x) (auto simp: delete_idem)
qed simp

lemma update_fresh: "k \<notin> fst ` set xs \<Longrightarrow> AList.update k v xs = xs @ [(k, v)]"
  by (induction xs) auto

lemma resolve_correlated: "correlated c \<Longrightarrow> correlated (resolve i r c)"
proof (cases "map_of (ec_pending c) i")
  case (Some m)
  assume c: "correlated c"
  then have e: "mset (map fst (ec_pending c)) = add_mset i (mset (map fst (AList.delete i (ec_pending c))))"
    using delete_mset [OF _ Some] correlated_distinct(1) [OF c] by simp
  show ?thesis using c Some unfolding correlated_def e by (simp add: resolve_def)
qed (simp add: resolve_def)

lemma close_correlated: "correlated c \<Longrightarrow> correlated (client_close c)"
  by (simp add: correlated_def client_close_def case_prod_beta' comp_def add.commute)

lemma recv_line_correlated:
  "recv_line js l c = Inr (c', calls) \<Longrightarrow> correlated c \<Longrightarrow> correlated c'"
proof (cases "js l")
  case (Some msg)
  assume "recv_line js l c = Inr (c', calls)" "correlated c"
  then show ?thesis
    using Some by (cases rule: client_dispatch_cases [of msg]) (auto simp: recv_line_def resolve_correlated split: if_splits)
qed (auto simp: recv_line_def split: if_splits)

lemma recv_lines_correlated: "correlated c \<Longrightarrow> correlated (fst (recv_lines js ls c))"
proof (induction ls arbitrary: c)
  case (Cons l ls)
  show ?case
  proof (cases "recv_line js l c")
    case (Inr r)
    then show ?thesis
      using Cons recv_line_correlated [of js l c "fst r" "snd r"] by (simp add: case_prod_beta Let_def)
  qed (simp add: close_correlated Cons.prems)
qed simp

lemma recv_chunk_correlated:
  assumes "correlated c" shows "correlated (fst (recv_chunk js b c))"
proof -
  have "correlated (c\<lparr>ec_buf := r\<rparr>)" for r using assms by (simp add: correlated_def)
  then show ?thesis
    using assms by (simp add: recv_chunk_def close_correlated recv_lines_correlated case_prod_beta Let_def)
qed

lemma client_do_correlated: "correlated c \<Longrightarrow> correlated (client_do js s c)"
proof (cases s)
  case (Call m)
  assume c: "correlated c"
  then have "ec_counter c \<notin> fst ` set (ec_pending c)" using correlated_distinct(2) by blast
  moreover have "1 \<le> ec_counter c" using c by (simp add: correlated_def)
  ultimately show ?thesis using c Call by (simp add: client_do_def client_call_def Let_def correlated_def update_fresh)
qed (simp_all add: client_do_def resolve_correlated client_timeout_def recv_chunk_correlated,
     auto simp: correlated_def client_on_def client_off_def split: option.split)

lemma client_do_resolved: "\<exists>rest. ec_resolved (client_do js s c) = ec_resolved c @ rest"
proof -
  have res: "\<exists>rest. ec_resolved (resolve i r c) = ec_resolved c @ rest" for i r c
    by (simp add: resolve_def split: option.split)
  have line: "\<exists>rest. ec_resolved c' = ec_resolved c @ rest" if "recv_line js l c = Inr (c', calls)" for l c c' calls
  proof (cases "js l")
    case (Some msg)
    then show ?thesis
      using that res by (cases rule: client_dispatch_cases [of msg]) (auto simp: recv_line_def split: if_splits)
  qed (use that in \<open>auto simp: recv_line_def split: if_splits\<close>)
  have lines: "\<exists>rest. ec_resolved (fst (recv_lines js ls c)) = ec_resolved c @ rest" for ls c
  proof (induction ls arbitrary: c)
    case (Cons l ls)
    show ?case
    proof (cases "recv_line js l c")
      case (Inr r)
      obtain x y where "ec_resolved (fst r) = ec_resolved c @ x" "ec_resolved (fst (recv_lines js ls (fst r))) = ec_resolved (fst r) @ y"
        using line [of l c "fst r" "snd r"] Inr Cons.IH [of "fst r"] by auto
      then show ?thesis using Inr by (simp add: case_prod_beta Let_def)
    qed (simp add: client_close_def)
  qed simp
  show ?thesis
  proof (cases s)
    case (Chunk b)
    then show ?thesis
      using lines [of _ "c\<lparr>ec_buf := snd (take_lines [] (ec_buf c @ b))\<rparr>"]
      by (simp add: client_do_def recv_chunk_def case_prod_beta Let_def client_close_def)
  qed (simp_all add: client_do_def client_call_def Let_def client_timeout_def res client_on_def client_off_def
      split: option.split)
qed

text \<open>C38: In every run of the client, with any answers of the server, each request number ever given out is either
  still waiting or was resolved, never both and never twice, and no later event changes how it was resolved;
  answers to other numbers resolve nothing.\<close>

theorem every_request_is_resolved_once:
  assumes "client_reachable js c"
  shows "distinct (map fst (ec_pending c) @ map fst (ec_resolved c))
     \<and> fst ` set (ec_pending c) \<union> fst ` set (ec_resolved c) = {1..<ec_counter c}
     \<and> (\<exists>rest. ec_resolved (client_do js s c) = ec_resolved c @ rest)"
proof -
  have c: "correlated c"
    using assms
  proof induction
    case start
    show ?case by (simp add: correlated_def new_client_def)
  next
    case (step c s)
    then show ?case by (simp add: client_do_correlated)
  qed
  then have "mset (map fst (ec_pending c) @ map fst (ec_resolved c)) = mset [1..<ec_counter c]"
    by (simp add: correlated_def)
  from mset_eq_setD [OF this] show ?thesis
    using correlated_distinct(1) [OF c] client_do_resolved by auto
qed

theorem every_request_is_resolved_once_witness:
  "\<exists>c. client_reachable (\<lambda>l. None) c \<and> fst ` set (ec_pending c) \<union> fst ` set (ec_resolved c) = {1..<3}"
proof -
  let ?js = "\<lambda>l :: byte list. None :: jval option"
  let ?c = "client_do ?js (Timeout 1) (client_do ?js (Call ''b'') (client_do ?js (Call ''a'') new_client))"
  have r: "client_reachable ?js ?c" by (intro client_reachable.intros)
  have "ec_counter ?c = 3"
    by (simp add: client_do_def client_call_def client_timeout_def resolve_def new_client_def Let_def)
  then have "fst ` set (ec_pending ?c) \<union> fst ` set (ec_resolved ?c) = {1..<3}"
    using every_request_is_resolved_once [OF r] by metis
  then show ?thesis using r by blast
qed

section \<open>The address tracker\<close>

lemma drop_unwanted_fst:
  "(\<forall>(h, a) \<in> set ss. a \<notin> set wanted) \<Longrightarrow>
   fst (drop_unwanted wanted ss (sub, acts)) = filter (\<lambda>(k, v). k \<notin> fst ` set ss) sub"
proof (induction ss arbitrary: sub acts)
  case (Cons s ss)
  then show ?case
    by (cases s) (auto simp: AList.delete_eq intro!: filter_cong)
qed (simp add: filter_True)

lemma update_values: "snd ` set (AList.update k v xs) \<subseteq> insert v (snd ` set xs)"
  by (induction xs) auto

lemma subscribe_wanted_values:
  "snd ` set (fst (snd (subscribe_wanted srv t ws st))) \<subseteq> snd ` set (fst st) \<union> fst ` set ws"
proof (induction ws arbitrary: st)
  case (Cons w ws)
  obtain address scripthash where w: "w = (address, scripthash)" by (cases w)
  obtain sub acts where st: "st = (sub, acts)" by (cases st)
  show ?case
  proof (cases "scripthash \<in> fst ` set sub")
    case True
    then show ?thesis using Cons.IH [of st] by (auto simp: w st thenP_def bindP_def gets_def ret_def)
  next
    case False
    let ?st = "(AList.update scripthash address sub, acts @ [Subscribe scripthash])"
    have v: "snd ` set (fst ?st) \<subseteq> insert address (snd ` set sub)" using update_values by simp
    show ?thesis
    proof (cases "fetch_and_dispatch srv t address scripthash")
      case (Inl e)
      then show ?thesis using False v
        by (auto simp: w st thenP_def bindP_def gets_def modify_def liftE_def throw_def)
    next
      case (Inr out)
      have "subscribe_wanted srv t (w # ws) st = subscribe_wanted srv t ws (fst ?st, snd ?st @ out)"
        using Inr False by (simp add: w st thenP_def bindP_def gets_def modify_def liftE_def)
      then show ?thesis using Cons.IH [of "(fst ?st, snd ?st @ out)"] v by (auto simp: w st)
    qed
  qed
qed (simp add: ret_def)

lemma wanted_addresses_Inr:
  "wanted_addresses f as = Inr ws \<Longrightarrow> map fst ws = as \<and> (\<forall>(a, h) \<in> set ws. f a = Some h)"
proof (induction as arbitrary: ws)
  case (Cons a as)
  then show ?case by (cases "wanted_addresses f as") (auto split: option.splits)
qed simp

text \<open>Bringing the subscriptions up to date forgets all of them: it compares the address of each with the script
  hashes that are wanted, so that, as no address is the script hash of a tracked address, every subscription is
  dropped again, and each later notification of the server is ignored.\<close>

theorem sync_forgets_every_subscription:
  assumes run: "sync_subscriptions hash_of srv t (sub, acts) = (Inr (), (sub', acts'))"
    and clash: "\<forall>a \<in> fst ` set (tr_ref_counts t) \<union> snd ` set sub. \<forall>b \<in> fst ` set (tr_ref_counts t). hash_of b \<noteq> Some a"
  shows "sub' = [] \<and> on_status_change srv t sub' params = Inr []"
proof -
  from run obtain ws sub1 acts1 where ws: "wanted_addresses hash_of (map fst (tr_ref_counts t)) = Inr ws"
    and s: "subscribe_wanted srv t ws (sub, acts) = (Inr (), (sub1, acts1))"
    and d: "(sub', acts') = drop_unwanted (map snd ws) sub1 (sub1, acts1)"
    by (auto simp: sync_subscriptions_def bindP_Inr_iff thenP_def liftE_def modify_def Let_def)
  have keys: "map fst ws = map fst (tr_ref_counts t)" "\<forall>(a, h) \<in> set ws. hash_of a = Some h"
    using wanted_addresses_Inr [OF ws] by simp_all
  have k: "fst ` set ws = fst ` set (tr_ref_counts t)" using keys(1) by (metis set_map)
  have "snd ` set sub1 \<subseteq> snd ` set sub \<union> fst ` set (tr_ref_counts t)"
    using subscribe_wanted_values [of srv t ws "(sub, acts)"] s k by simp
  then have "\<forall>(h, a) \<in> set sub1. a \<notin> set (map snd ws)"
    using clash keys(2) k by (fastforce simp: image_iff)
  from drop_unwanted_fst [OF this, of sub1 acts1] have "sub' = filter (\<lambda>(k, v). k \<notin> fst ` set sub1) sub1"
    by (simp flip: d)
  then have "sub' = []" by (force simp: filter_empty_conv)
  then show ?thesis by (simp add: on_status_change_def split: list.split)
qed

definition demo_electrum :: electrum_server where
  "demo_electrum = \<lparr>es_balance = (\<lambda>h. Inr \<lparr>bal_confirmed = 5, bal_unconfirmed = 0\<rparr>), es_history = (\<lambda>h. Inr []),
     es_mempool = (\<lambda>h. Inr [])\<rparr>"

theorem sync_forgets_every_subscription_witness:
  "\<exists>acts. sync_subscriptions (\<lambda>a. Some (a @ ''hash'')) demo_electrum (tracker_add ''bc1'' new_address_tracker) ([], [])
       = (Inr (), ([], acts)) \<and> Subscribe ''bc1hash'' \<in> set acts \<and> Unsubscribe ''bc1hash'' \<in> set acts"
proof -
  let ?f = "\<lambda>a. Some (a @ ''hash'')" and ?t = "tracker_add ''bc1'' new_address_tracker"
  let ?r = "sync_subscriptions ?f demo_electrum ?t ([], [])"
  have "fst ?r = Inr () \<and> Subscribe ''bc1hash'' \<in> set (snd (snd ?r)) \<and> Unsubscribe ''bc1hash'' \<in> set (snd (snd ?r))
      \<and> fst ` set (tr_ref_counts ?t) = {''bc1''}" by code_simp
  then obtain sub acts where r: "?r = (Inr (), (sub, acts))" "Subscribe ''bc1hash'' \<in> set acts"
    "Unsubscribe ''bc1hash'' \<in> set acts" "fst ` set (tr_ref_counts ?t) = {''bc1''}"
    by (metis prod.collapse)
  then show ?thesis using sync_forgets_every_subscription [OF r(1)] by auto
qed

end
