(* ===== verification/Crypto.thy ===== *)
theory Crypto
  imports PyBytes Prelude "HOL-Library.While_Combinator"
begin

text \<open>
  \<open>lnbits/utils/crypto.py\<close> and the loading of encrypted macaroons (\<open>wallets/macaroon/macaroon.py\<close>,
  \<open>helpers.py\<close>). The block cipher of the \<open>Cryptodome\<close> package and the hash functions are arguments; padding,
  key derivation, framing and text encodings are the code's.
\<close>

text \<open>\<open>AES.new(key, AES.MODE_CBC, iv)\<close>: \<open>None\<close> is an exception of the package.\<close>

record aes_package =
  aes_encrypt :: "byte list \<Rightarrow> byte list \<Rightarrow> byte list \<Rightarrow> byte list option"
  aes_decrypt :: "byte list \<Rightarrow> byte list \<Rightarrow> byte list \<Rightarrow> byte list option"

record aes_cipher =
  ac_key :: "byte list"
  ac_block_size :: nat

definition random_secret_and_hash :: "(nat \<Rightarrow> byte list) \<Rightarrow> (byte list \<Rightarrow> byte list) \<Rightarrow> nat \<Rightarrow> string \<times> string" where
  "random_secret_and_hash random sha256 n =
     (let secret = random n in (bytes_hex secret, bytes_hex (sha256 secret)))"

definition fake_privkey :: "(byte list \<Rightarrow> byte list \<Rightarrow> nat \<Rightarrow> nat \<Rightarrow> byte list) \<Rightarrow> string \<Rightarrow> string" where
  "fake_privkey pbkdf2_hmac_sha256 secret =
     bytes_hex (pbkdf2_hmac_sha256 (utf8_encode secret) (utf8_encode ''FakeWallet'') 2048 32)"

text \<open>The key is given as bytes or as text; the text is never read as hexadecimal, because the last
  assignment of the constructor overwrites the key it found.\<close>

definition new_cipher :: "byte list + string \<Rightarrow> nat \<Rightarrow> aes_cipher" where
  "new_cipher key block_size =
     (case key of
        Inl b \<Rightarrow> \<lparr>ac_key = b, ac_block_size = block_size\<rparr>
      | Inr s \<Rightarrow>
          let self = (case fromhex s of None \<Rightarrow> \<lparr>ac_key = [], ac_block_size = block_size\<rparr>
                      | Some b \<Rightarrow> \<lparr>ac_key = b, ac_block_size = block_size\<rparr>)
          in self\<lparr>ac_key := utf8_encode s\<rparr>)"

definition pad :: "aes_cipher \<Rightarrow> byte list \<Rightarrow> byte list" where
  "pad self data =
     (let n = ac_block_size self - length data mod ac_block_size self
      in data @ utf8_encode (replicate n (char_of n)))"

definition unpad :: "aes_cipher \<Rightarrow> byte list \<Rightarrow> exn + byte list" where
  "unpad self data =
     (if data = [] then Inl (OtherError ''IndexError'')
      else let padding = unat (last data) in
        if padding = 0 \<or> padding \<ge> ac_block_size self then Inr data
        else Inr (take (length data - padding) data))"

definition derive_loop :: "(byte list \<Rightarrow> byte list) \<Rightarrow> byte list \<Rightarrow> nat \<Rightarrow> (byte list \<times> byte list) option" where
  "derive_loop md5 data n =
     while_option (\<lambda>(k, final_key). length final_key < n)
       (\<lambda>(k, final_key). let k' = md5 (k @ data) in (k', final_key @ k'))
       (md5 data, md5 data)"

text \<open>\<open>None\<close>: the loop does not end.\<close>

definition derive_iv_and_key ::
  "(byte list \<Rightarrow> byte list) \<Rightarrow> aes_cipher \<Rightarrow> byte list \<Rightarrow> nat \<Rightarrow> (exn + byte list \<times> byte list) option" where
  "derive_iv_and_key md5 self salt output_len =
     (if length salt \<noteq> 8 then Some (Inl (ValueError ''Salt must be 8 bytes''))
      else map_option (\<lambda>(k, final_key).
             let iv_key = take output_len final_key in Inr (drop 32 iv_key, take 32 iv_key))
           (derive_loop md5 (ac_key self @ salt) output_len))"

definition salted_magic :: "byte list" where
  "salted_magic = utf8_encode ''Salted__''"

definition decrypt ::
  "aes_package \<Rightarrow> (byte list \<Rightarrow> byte list) \<Rightarrow> aes_cipher \<Rightarrow> bool \<Rightarrow> string \<Rightarrow> (exn + nat list) option" where
  "decrypt aes md5 self urlsafe encrypted =
     (case (if urlsafe then urlsafe_b64decode encrypted else b64decode encrypted) of
        None \<Rightarrow> Some (Inl (ValueError ''binascii.Error''))
      | Some decoded \<Rightarrow>
          if take 8 decoded \<noteq> salted_magic then Some (Inl (ValueError ''Invalid salt.''))
          else let salt = take 8 (drop 8 decoded); encrypted_bytes = drop 16 decoded in
            case derive_iv_and_key md5 self salt (32 + 16) of
              None \<Rightarrow> None
            | Some (Inl e) \<Rightarrow> Some (Inl e)
            | Some (Inr (iv, key)) \<Rightarrow>
                (case aes_decrypt aes key iv encrypted_bytes of
                   None \<Rightarrow> Some (Inl (ValueError ''Could not decrypt payload''))
                 | Some decrypted_bytes \<Rightarrow>
                     (case unpad self decrypted_bytes of
                        Inl e \<Rightarrow> Some (Inl e)
                      | Inr unpadded \<Rightarrow>
                          if unpadded = [] then Some (Inl (ValueError ''Unpadding resulted in empty data.''))
                          else (case utf8_decode unpadded of
                             None \<Rightarrow> Some (Inl (ValueError ''Decryption resulted in invalid UTF-8 data.''))
                           | Some t \<Rightarrow> Some (Inr t)))))"

text \<open>The salt is drawn by the caller of the model.\<close>

definition encrypt ::
  "aes_package \<Rightarrow> (byte list \<Rightarrow> byte list) \<Rightarrow> aes_cipher \<Rightarrow> bool \<Rightarrow> byte list \<Rightarrow> byte list \<Rightarrow> (exn + string) option" where
  "encrypt aes md5 self urlsafe salt message =
     (case derive_iv_and_key md5 self salt (32 + 16) of
        None \<Rightarrow> None
      | Some (Inl e) \<Rightarrow> Some (Inl e)
      | Some (Inr (iv, key)) \<Rightarrow>
          (case aes_encrypt aes key iv (pad self message) of
             None \<Rightarrow> Some (Inl (ValueError ''AES''))
           | Some c \<Rightarrow>
               let salted = salted_magic @ salt @ c
               in Some (Inr (if urlsafe then urlsafe_b64encode salted else b64encode salted))))"

definition encrypt_internal_message ::
  "aes_package \<Rightarrow> (byte list \<Rightarrow> byte list) \<Rightarrow> string \<Rightarrow> byte list \<Rightarrow> string option \<Rightarrow> bool \<Rightarrow> (exn + string option) option" where
  "encrypt_internal_message aes md5 auth_secret_key salt m urlsafe =
     (if \<not> truthy m then Some (Inr None)
      else map_option (map_sum id Some)
             (encrypt aes md5 (new_cipher (Inr auth_secret_key) 16) urlsafe salt (utf8_encode (the m))))"

definition decrypt_internal_message ::
  "aes_package \<Rightarrow> (byte list \<Rightarrow> byte list) \<Rightarrow> string \<Rightarrow> string option \<Rightarrow> bool \<Rightarrow> (exn + nat list option) option" where
  "decrypt_internal_message aes md5 auth_secret_key m urlsafe =
     (if \<not> truthy m then Some (Inr None)
      else map_option (map_sum id Some)
             (decrypt aes md5 (new_cipher (Inr auth_secret_key) 16) urlsafe (the m)))"

text \<open>\<open>wallets/macaroon/macaroon.py\<close>: the content of a file and the password typed in are arguments; text is
  given as code points.\<close>

definition load_macaroon ::
  "aes_package \<Rightarrow> (byte list \<Rightarrow> byte list) \<Rightarrow> (string \<Rightarrow> byte list option) \<Rightarrow> string \<Rightarrow> string option \<Rightarrow> string option
   \<Rightarrow> (exn + nat list) option" where
  "load_macaroon aes md5 read_file password macaroon encrypted_macaroon =
     (let text = map of_char in
      if macaroon = None \<and> encrypted_macaroon = None then
        Some (Inl (ValueError ''Either macaroon or encrypted_macaroon must be provided.''))
      else if truthy encrypted_macaroon then
        decrypt aes md5 (new_cipher (Inl (utf8_encode password)) 16) False (the encrypted_macaroon)
      else if \<not> truthy macaroon then Some (Inl (ValueError ''macaroon must be set here''))
      else let m = the macaroon in
        if last (split_on CHR ''.'' m) = ''macaroon'' then
          (case read_file m of
             None \<Rightarrow> Some (Inl (OtherError ''OSError''))
           | Some bs \<Rightarrow> Some (Inr (text (bytes_hex bs))))
        else case fromhex m of
          Some _ \<Rightarrow> Some (Inr (text m))
        | None \<Rightarrow>
            (case b64decode m of
               Some bs \<Rightarrow> Some (Inr (text (bytes_hex bs)))
             | None \<Rightarrow> Some (Inr (text m))))"

section \<open>Padding\<close>

lemma utf8_encode_ascii: "is_ascii s \<Longrightarrow> utf8_encode s = map (\<lambda>c. of_nat (of_char c)) s"
  by (induction s) (simp_all add: utf8_encode_def is_ascii_def Let_def)

lemma pad_16: "ac_block_size self = 16 \<Longrightarrow>
    pad self m = m @ replicate (16 - length m mod 16) (of_nat (16 - length m mod 16))"
  by (simp add: pad_def Let_def utf8_encode_ascii is_ascii_def)

lemma length_pad: "ac_block_size self = 16 \<Longrightarrow> length (pad self m) mod 16 = 0"
proof -
  assume a: "ac_block_size self = 16"
  have "length m mod 16 \<le> 16" by (meson less_imp_le mod_less_divisor zero_less_numeral)
  then have "length m + (16 - length m mod 16) = 16 * (length m div 16 + 1)"
    using mult_div_mod_eq [of 16 "length m"] by (simp only: distrib_left)
  then show ?thesis using a by (simp add: pad_16)
qed

lemma unpad_pad:
  assumes "ac_block_size self = 16"
  shows "unpad self (pad self m) = Inr (if length m mod 16 = 0 then m @ replicate 16 16 else m)"
proof -
  let ?n = "16 - length m mod 16"
  have n: "0 < ?n" "?n \<le> 16" by simp_all
  have l: "last (pad self m) = of_nat ?n" "pad self m \<noteq> []" "unat (of_nat ?n :: byte) = ?n"
    using n assms by (simp_all add: pad_16 unat_of_nat_byte del: of_nat_diff)
  show ?thesis
    unfolding unpad_def Let_def l(1,3) using l(2) n assms
    by (auto simp: pad_16 assms)
qed

section \<open>Key derivation\<close>

lemma derive_loop_run:
  assumes "\<forall>x. length (md5 x) = 16"
  shows "\<exists>k f. derive_loop md5 data 48 = Some (k, f) \<and> length f = 48"
proof -
  define k1 where "k1 = md5 (md5 data @ data)"
  define k2 where "k2 = md5 (k1 @ data)"
  have "derive_loop md5 data 48 = Some (k2, (md5 data @ k1) @ k2)"
    unfolding derive_loop_def
    by (subst while_option_unfold, simp add: assms Let_def, subst while_option_unfold, simp add: assms Let_def k1_def,
        subst while_option_unfold, simp add: assms Let_def k1_def k2_def)
  then show ?thesis using assms by (simp add: k1_def k2_def)
qed

lemma derive_iv_and_key_run:
  assumes "\<forall>x. length (md5 x) = 16" "length salt = 8"
  shows "\<exists>iv key. derive_iv_and_key md5 self salt (32 + 16) = Some (Inr (iv, key)) \<and> length key = 32 \<and> length iv = 16"
  using derive_loop_run [of md5 "ac_key self @ salt"] assms
  by (auto simp: derive_iv_and_key_def Let_def)

section \<open>What comes back\<close>

text \<open>The documented behaviour of the package: decryption inverts encryption of whole blocks under a 32 byte
  key and a 16 byte vector.\<close>

definition cbc_inverts :: "aes_package \<Rightarrow> bool" where
  "cbc_inverts aes \<longleftrightarrow>
     (\<forall>key iv x. length key = 32 \<and> length iv = 16 \<and> length x mod 16 = 0 \<longrightarrow>
        (\<exists>c. aes_encrypt aes key iv x = Some c \<and> aes_decrypt aes key iv c = Some x))"

definition decoded :: "byte list \<Rightarrow> exn + nat list" where
  "decoded bs =
     (if bs = [] then Inl (ValueError ''Unpadding resulted in empty data.'')
      else case utf8_decode bs of
        None \<Rightarrow> Inl (ValueError ''Decryption resulted in invalid UTF-8 data.'')
      | Some t \<Rightarrow> Inr t)"

lemma salted_magic_length [simp]: "length salted_magic = 8"
  by (simp add: salted_magic_def utf8_encode_ascii is_ascii_def)


text \<open>A cipher that changes nothing and a hash that is constant, for the witness: sixteen letters come back with
  sixteen more characters, five come back as they were.\<close>

definition plain_package :: aes_package where
  "plain_package = \<lparr>aes_encrypt = (\<lambda>k v x. Some x), aes_decrypt = (\<lambda>k v x. Some x)\<rparr>"


end
