(* ===== verification/LnbitsBackends.thy ===== *)
theory LnbitsBackends
  imports BackendContract
begin

text \<open>\<open>lnbits/wallets/lnbits.py\<close>: another LNbits server as the funding source.\<close>

fun replace_once :: "string \<Rightarrow> string \<Rightarrow> string \<Rightarrow> string" where
  "replace_once old new [] = (if old = [] then new else [])"
| "replace_once old new (c # cs) =
     (if startswith (c # cs) old then new @ drop (length old) (c # cs) else c # replace_once old new cs)"

text \<open>The constructor: the endpoint, the address of the web socket and the key.\<close>

definition lnbits_init ::
  "string option \<Rightarrow> string option \<Rightarrow> string option \<Rightarrow> string option \<Rightarrow> exn + string \<times> string \<times> string" where
  "lnbits_init endpoint key admin_key invoice_key =
     (case init_client ''cannot initialize LNbitsWallet: missing lnbits_endpoint'' endpoint
             ''cannot initialize LNbitsWallet: missing lnbits_key or lnbits_admin_key or lnbits_invoice_key''
             (orElse (orElse key admin_key) invoice_key) of
        Inl e \<Rightarrow> Inl e
      | Inr (url, k) \<Rightarrow> Inr (url, replace_once ''http'' ''ws'' url @ ''/api/v1/ws/'' @ k, k))"

definition lnbits_status :: "client \<Rightarrow> (backend, source_status) py" where
  "lnbits_status cl =
     tryP
       (bindP (http_get ''/api/v1/wallet'') (\<lambda>r.
        thenP (raise_for_status r)
        (bindP (liftE (json_of r)) (\<lambda>data.
         bindP (liftE (len_of data)) (\<lambda>n.
         if n = 0 then ret (source_error (Formatted ''no data'' []))
         else bindP (if is_error r then ret True else bindP (liftE (contains data ''balance'')) (\<lambda>b. ret (\<not> b))) (\<lambda>bad.
           if bad then ret (source_error (Formatted ''Server error: {}'' [JStr (rp_text r)]))
           else bindP (liftE (item data ''balance'')) (\<lambda>v. ret (source_balance v))))))))
       (\<lambda>e. if e = JSONDecodeError then ret (source_error invalid_json)
            else ret (source_error (unable_to_connect cl)))"

definition lnbits_invoice_data ::
  "int \<Rightarrow> string option \<Rightarrow> byte list option \<Rightarrow> byte list option \<Rightarrow> int option \<Rightarrow> (string \<times> jval) list" where
  "lnbits_invoice_data amount memo description_hash unhashed_description expiry =
     [(''out'', JBool False), (''amount'', JInt amount), (''memo'', JStr (the (orElse memo (Some []))))]
     @ (if expiry \<notin> {None, Some 0} then [(''expiry'', JInt (the expiry))] else [])
     @ (if given description_hash then [(''description_hash'', JStr (bytes_hex (the description_hash)))] else [])
     @ (if given unhashed_description
        then [(''unhashed_description'', JStr (bytes_hex (the unhashed_description)))] else [])"

definition lnbits_create_invoice ::
  "client \<Rightarrow> int \<Rightarrow> string option \<Rightarrow> byte list option \<Rightarrow> byte list option \<Rightarrow> int option
     \<Rightarrow> (backend, invoice_answer) py" where
  "lnbits_create_invoice cl amount memo description_hash unhashed_description expiry =
     tryP
       (bindP (http_post ''/api/v1/payments''
          (lnbits_invoice_data amount memo description_hash unhashed_description expiry)) (\<lambda>r.
        thenP (raise_for_status r)
        (bindP (liftE (json_of r)) (\<lambda>data.
         bindP (liftE (get data ''bolt11'')) (\<lambda>b.
         bindP (if truth b then ret b else liftE (get data ''payment_request'')) (\<lambda>payment_str.
         if is_error r \<or> \<not> truth payment_str
         then bindP (liftE (contains data ''detail'')) (\<lambda>d.
              bindP (if d then liftE (item data ''detail'') else ret (JStr (rp_text r))) (\<lambda>m.
              ret (invoice_error (Formatted ''Server error: {}'' [m]))))
         else bindP (liftE (item data ''checking_id'')) (\<lambda>cid.
              bindP (liftE (get data ''preimage'')) (\<lambda>pre. ret (invoice_result cid payment_str pre)))))))))
       (\<lambda>e. if e = JSONDecodeError then ret (invoice_error invalid_json)
            else if e = KeyError then ret (invoice_error missing_fields)
            else ret (invoice_error (unable_to_connect cl)))"

definition lnbits_get_payment_status :: "client \<Rightarrow> string \<Rightarrow> (backend, status_answer) py" where
  "lnbits_get_payment_status cl checking_id =
     tryP
       (bindP (http_get (''/api/v1/payments/'' @ checking_id)) (\<lambda>r.
        if is_error r then ret pending_status
        else bindP (liftE (json_of r)) (\<lambda>data.
             bindP (liftE (get data ''status'')) (\<lambda>st.
             if st = JStr ''failed'' then ret failed_status
             else bindP (liftE (contains data ''paid'')) (\<lambda>has_paid.
             bindP (if has_paid then bindP (liftE (item data ''paid'')) (\<lambda>p. ret (truth p)) else ret False) (\<lambda>paid.
             if \<not> paid then ret pending_status
             else bindP (liftE (contains data ''details'')) (\<lambda>has_details.
             if \<not> has_details then ret pending_status
             else bindP (liftE (item data ''details'')) (\<lambda>details.
                  bindP (liftE (item details ''fee'')) (\<lambda>fee.
                  bindP (liftE (item data ''preimage'')) (\<lambda>pre.
                  ret (status_of (Some True) fee pre)))))))))))
       (\<lambda>e. ret pending_status)"

definition lnbits_get_invoice_status :: "client \<Rightarrow> string \<Rightarrow> (backend, status_answer) py" where
  "lnbits_get_invoice_status cl checking_id =
     tryP
       (bindP (http_get (''/api/v1/payments/'' @ checking_id)) (\<lambda>r.
        thenP (raise_for_status r)
        (bindP (liftE (json_of r)) (\<lambda>data.
         bindP (liftE (get_or data ''paid'' (JBool False))) (\<lambda>p.
         if p = JBool True then ret (status_of (Some True) JNull JNull) else ret pending_status)))))
       (\<lambda>e. ret pending_status)"

text \<open>The handler of an error status of the payment request; whatever goes wrong in it is caught again.\<close>

definition lnbits_pay_refused :: "client \<Rightarrow> (backend, pay_answer) py" where
  "lnbits_pay_refused cl =
     tryP
       (bindP (gets bk_response) (\<lambda>r.
        bindP (liftE (json_of r)) (\<lambda>data.
        bindP (liftE (item data ''status'')) (\<lambda>st.
        bindP (liftE (item data ''detail'')) (\<lambda>detail.
        let m = Formatted ''Payment {}: {}.'' [st, detail] in
        if st = JStr ''failed'' then ret (pay_error (Some False) m) else ret (pay_error None m))))))
       (\<lambda>e. ret (pay_error None (unable_to_connect cl)))"

definition lnbits_pay_invoice :: "client \<Rightarrow> string \<Rightarrow> int \<Rightarrow> (backend, pay_answer) py" where
  "lnbits_pay_invoice cl bolt11 fee_limit_msat =
     tryP
       (bindP (http_post ''/api/v1/payments'' [(''out'', JBool True), (''bolt11'', JStr bolt11)]) (\<lambda>r.
        thenP (raise_for_status r)
        (bindP (liftE (json_of r)) (\<lambda>data.
         bindP (liftE (item data ''payment_hash'')) (\<lambda>checking_id.
         bindP (lnbits_get_payment_status cl (py_str (cl_show cl) checking_id)) (\<lambda>payment.
         let success = (if sa_paid payment = JBool True then Some True else None) in
         ret (pay_result success checking_id (sa_fee_msat payment) (sa_preimage payment))))))))
       (\<lambda>e. if e = HTTPStatusError then lnbits_pay_refused cl
            else if e = JSONDecodeError then ret (pay_error None invalid_json)
            else if e = KeyError then ret (pay_error None missing_fields)
            else ret (pay_error None (unable_to_connect cl)))"

text \<open>What the stream of paid invoices yields for one message of the web socket.\<close>

definition lnbits_stream_message :: "jval \<Rightarrow> exn + jval option" where
  "lnbits_stream_message message =
     (if \<not> truth message then Inr None
      else case get message ''payment'' of
        Inl e \<Rightarrow> Inl e
      | Inr payment \<Rightarrow>
          if \<not> truth payment then Inr None
          else case get payment ''payment_hash'' of
            Inl e \<Rightarrow> Inl e
          | Inr h \<Rightarrow> if truth h then Inr (Some h) else Inr None)"

section \<open>The contract\<close>

definition lnbits_dispatch :: "request \<Rightarrow> bool" where
  "lnbits_dispatch q \<longleftrightarrow> rq_verb q = ''POST'' \<and> path (rq_body q) [''out''] = Some (JBool True)"

text \<open>A refusal is an error status whose body says \<open>failed\<close>; a payment is made when the node's record of it is
  paid and not failed.\<close>

definition lnbits_refusal :: "reply \<Rightarrow> bool" where
  "lnbits_refusal r \<longleftrightarrow> \<not> is_success r \<and> body r [''status''] = Some (JStr ''failed'')"

definition lnbits_receipt :: "reply \<Rightarrow> bool" where
  "lnbits_receipt r \<longleftrightarrow> \<not> is_error r \<and> body r [''status''] \<noteq> Some (JStr ''failed'')
     \<and> (case body r [''paid''] of None \<Rightarrow> False | Some p \<Rightarrow> truth p)"

definition lnbits_failed :: "reply \<Rightarrow> bool" where
  "lnbits_failed r \<longleftrightarrow> \<not> is_error r \<and> body r [''status''] = Some (JStr ''failed'')"

definition lnbits_settled :: "reply \<Rightarrow> bool" where
  "lnbits_settled r \<longleftrightarrow> is_success r \<and> body r [''paid''] = Some (JBool True)"

lemmas lnbits_evidence =
  lnbits_dispatch_def lnbits_refusal_def lnbits_receipt_def lnbits_failed_def lnbits_settled_def body_def

interpretation lnbits_payments:
  status_backend "lnbits_get_payment_status cl" lnbits_dispatch lnbits_receipt lnbits_failed for cl
  by unfold_locales
    (auto simp: lnbits_get_payment_status_def lnbits_evidence contains_def exchanged_def wp_rule wp_http json
       split: option.splits)

interpretation lnbits_invoices:
  status_backend "lnbits_get_invoice_status cl" lnbits_dispatch lnbits_settled "\<lambda>r. False" for cl
  by unfold_locales
    (auto simp: lnbits_get_invoice_status_def lnbits_evidence exchanged_def wp_rule wp_http json
       split: option.splits if_splits)

interpretation lnbits: paying_backend "lnbits_pay_invoice cl" lnbits_dispatch lnbits_refusal lnbits_receipt for cl
  by unfold_locales
    (auto simp: lnbits_pay_invoice_def lnbits_pay_refused_def lnbits_get_payment_status_def lnbits_evidence
       honest_def dispatches_once_def contains_def exchanged_def wp_rule wp_http json Let_def
       split: option.splits)

text \<open>\<open>lnbits/wallets/lntips.py\<close>: the hosted wallets of LnTips.\<close>

definition lntips_init ::
  "string option \<Rightarrow> string option \<Rightarrow> string option \<Rightarrow> string option \<Rightarrow> exn + string \<times> string" where
  "lntips_init endpoint api_key admin_key invoice_key =
     init_client ''cannot initialize LnTipsWallet: missing lntips_api_endpoint'' endpoint
       ''cannot initialize LnTipsWallet: missing lntips_api_key or lntips_admin_key or lntips_invoice_key''
       (orElse (orElse api_key admin_key) invoice_key)"

definition lntips_status :: "client \<Rightarrow> (backend, source_status) py" where
  "lntips_status cl =
     bindP (http_get ''/api/v1/balance'') (\<lambda>r.
     bindP (tryP (bindP (liftE (json_of r)) (\<lambda>v. ret (Some v))) (\<lambda>e. ret None)) (\<lambda>parsed.
     case parsed of
       None \<Rightarrow> ret (source_error (Formatted ''Failed to connect to {}, got: {}...''
                 [JStr (cl_endpoint cl), JStr (take 200 (rp_text r))]))
     | Some data \<Rightarrow>
         bindP (liftE (get data ''error'')) (\<lambda>err.
         if truth err then bindP (liftE (item data ''error'')) (\<lambda>m. ret (source_error (Said m)))
         else bindP (liftE (item data ''balance'')) (\<lambda>b.
              bindP (liftE (times b 1000)) (\<lambda>v. ret (source_balance v))))))"

definition lntips_create_invoice ::
  "client \<Rightarrow> int \<Rightarrow> string option \<Rightarrow> byte list option \<Rightarrow> byte list option \<Rightarrow> (backend, invoice_answer) py" where
  "lntips_create_invoice cl amount memo description_hash unhashed_description =
     bindP (http_post ''/api/v1/createinvoice''
       [(''amount'', JInt amount),
        (''description_hash'', JStr (
           if given description_hash then bytes_hex (the description_hash)
           else if given unhashed_description then bytes_hex (cl_sha256 cl (the unhashed_description)) else [])),
        (''memo'', JStr (the (orElse memo (Some []))))]) (\<lambda>r.
     if is_error r then
       bindP (tryP (bindP (liftE (json_of r)) (\<lambda>data. liftE (item data ''message''))) (\<lambda>e. ret (JStr (rp_text r)))) (\<lambda>m.
       ret (invoice_error (Said m)))
     else
       bindP (liftE (json_of r)) (\<lambda>data.
       bindP (liftE (item data ''payment_hash'')) (\<lambda>checking_id.
       bindP (liftE (item data ''payment_request'')) (\<lambda>payment_request.
       bindP (liftE (get data ''preimage'')) (\<lambda>preimage.
       ret (invoice_result checking_id payment_request preimage))))))"

definition lntips_pay_invoice :: "client \<Rightarrow> string \<Rightarrow> int \<Rightarrow> (backend, pay_answer) py" where
  "lntips_pay_invoice cl bolt11 fee_limit_msat =
     bindP (tryP (bindP (http_post ''/api/v1/payinvoice'' [(''pay_req'', JStr bolt11)]) (\<lambda>r. ret (Some r)))
              (\<lambda>e. ret None)) (\<lambda>reply.
     case reply of
       None \<Rightarrow> ret (pay_error None (unable_to_connect cl))
     | Some r \<Rightarrow>
         if is_error r then
           ret (pay_error (if payment_request_was_rejected (rp_status r) then Some False else None)
                  (Said (JStr (rp_text r))))
         else
           bindP (tryP (bindP (liftE (json_of r)) (\<lambda>v. ret (Some v)))
                    (\<lambda>e. if e = JSONDecodeError then ret None else throw e)) (\<lambda>parsed.
           case parsed of
             None \<Rightarrow> ret (pay_error None invalid_json)
           | Some response \<Rightarrow>
               bindP (liftE (contains response ''error'')) (\<lambda>failed.
               if failed then
                 bindP (liftE (get response ''error'')) (\<lambda>m.
                 ret (pay_error None (Said (if truth m then m else JStr (rp_text r)))))
               else
                 tryP
                   (bindP (liftE (item response ''details'')) (\<lambda>data.
                    bindP (liftE (item data ''payment_hash'')) (\<lambda>checking_id.
                    bindP (liftE (item data ''fee'')) (\<lambda>fee.
                    bindP (liftE (neg_of fee)) (\<lambda>fee_msat.
                    bindP (liftE (item data ''preimage'')) (\<lambda>preimage.
                    ret (pay_result (Some True) checking_id fee_msat preimage)))))))
                   (\<lambda>e. if e = KeyError \<or> e = TypeError then ret (pay_error None missing_fields) else throw e))))"

text \<open>\<open>PaymentStatus(data["paid"])\<close>: whatever the node wrote becomes the status.\<close>

definition lntips_get_invoice_status :: "client \<Rightarrow> string \<Rightarrow> (backend, status_answer) py" where
  "lntips_get_invoice_status cl checking_id =
     tryP
       (bindP (http_post (''/api/v1/invoicestatus/'' @ checking_id) []) (\<lambda>r.
        thenP (failIf (is_error r \<or> rp_text r = []) (OtherError ''Exception''))
        (bindP (liftE (json_of r)) (\<lambda>data.
         bindP (liftE (item data ''paid'')) (\<lambda>v.
         ret \<lparr>sa_paid = v, sa_fee_msat = JNull, sa_preimage = JNull\<rparr>)))))
       (\<lambda>e. ret pending_status)"

text \<open>\<open>{False: None, True: True}[v]\<close>\<close>

definition lntips_paid_word :: "jval \<Rightarrow> exn + bool option" where
  "lntips_paid_word v =
     (if \<not> hashable v then Inl TypeError
      else if equals_int v 0 then Inr None else if equals_int v 1 then Inr (Some True) else Inl KeyError)"

definition lntips_get_payment_status :: "client \<Rightarrow> string \<Rightarrow> (backend, status_answer) py" where
  "lntips_get_payment_status cl checking_id =
     tryP
       (bindP (http_post (''/api/v1/paymentstatus/'' @ checking_id) []) (\<lambda>r.
        thenP (failIf (is_error r) (OtherError ''Exception''))
        (bindP (liftE (json_of r)) (\<lambda>data.
         bindP (liftE (get data ''paid'')) (\<lambda>v.
         bindP (liftE (lntips_paid_word v)) (\<lambda>paid.
         ret (status_of paid JNull JNull)))))))
       (\<lambda>e. ret pending_status)"

text \<open>What the stream yields for one line of the event stream; every exception skips the line.\<close>

definition lntips_stream_line :: "(string \<Rightarrow> jval option) \<Rightarrow> string \<Rightarrow> jval option" where
  "lntips_stream_line json_loads line =
     (if \<not> startswith line ''data: '' then None
      else case json_loads (drop 6 line) of
        None \<Rightarrow> None
      | Some invoice \<Rightarrow>
          (case get invoice ''payment_hash'' of
             Inl e \<Rightarrow> None
           | Inr h \<Rightarrow> if truth h then Some h else None))"

section \<open>The contract\<close>

definition lntips_dispatch :: "request \<Rightarrow> bool" where
  "lntips_dispatch q \<longleftrightarrow> rq_verb q = ''POST'' \<and> rq_url q = ''/api/v1/payinvoice''"

definition lntips_receipt :: "reply \<Rightarrow> bool" where
  "lntips_receipt r \<longleftrightarrow>
     \<not> is_error r \<and> body r [''details'', ''payment_hash''] \<noteq> None \<and> body r [''details'', ''preimage''] \<noteq> None"

definition lntips_word :: "int \<Rightarrow> reply \<Rightarrow> bool" where
  "lntips_word i r \<longleftrightarrow> \<not> is_error r \<and> (case body r [''paid''] of None \<Rightarrow> False | Some v \<Rightarrow> equals_int v i)"

lemmas lntips_evidence = lntips_dispatch_def lntips_receipt_def lntips_word_def rejection_def body_def

lemma lntips_paid_word_Some [json]: "lntips_paid_word v = Inr (Some b) \<longleftrightarrow> b \<and> hashable v \<and> equals_int v 1"
proof -
  have "equals_int v 0 \<Longrightarrow> \<not> equals_int v 1" by (auto simp: equals_int_def split: jval.splits)
  then show ?thesis by (auto simp: lntips_paid_word_def)
qed

interpretation lntips: paying_backend "lntips_pay_invoice cl" lntips_dispatch rejection lntips_receipt for cl
  by unfold_locales
    (auto simp: lntips_pay_invoice_def lntips_evidence honest_def dispatches_once_def exchanged_def
       wp_rule wp_http json Let_def split: option.splits)

interpretation lntips_payments:
  status_backend "lntips_get_payment_status cl" lntips_dispatch "lntips_word 1" "\<lambda>r. False" for cl
  by unfold_locales
    (auto simp: lntips_get_payment_status_def lntips_evidence equals_int_def as_int_def exchanged_def wp_rule wp_http json
       split: option.splits if_splits)

interpretation lntips_invoices:
  status_backend "lntips_get_invoice_status cl" lntips_dispatch "lntips_word 1" "lntips_word 0" for cl
  by unfold_locales
    (auto simp: lntips_get_invoice_status_def lntips_evidence equals_int_def as_int_def exchanged_def wp_rule wp_http json
       split: option.splits if_splits)

text \<open>An invoice that is not paid yet, \<open>{"paid": false}\<close>, is reported as failed, unlike a payment.\<close>

lemma lntips_unpaid_invoice_fails:
  assumes "bk_answers s (length (bk_sent s)) = Answer r" and "\<not> is_error r" and "rp_text r \<noteq> []"
    and "body r [''paid''] = Some (JBool False)"
  shows "fst (lntips_get_invoice_status cl c s) = Inr failed_status"
    and "fst (lntips_get_payment_status cl c s) = Inr pending_status"
  using assms
  by (auto simp: lntips_get_invoice_status_def lntips_get_payment_status_def http_post_def send_def tryP_def bindP_def
      thenP_def failIf_def json_of_def item_def get_def get_or_def path_one body_def liftE_def lntips_paid_word_def
      hashable_def equals_int_def as_int_def ret_def failed_status_def pending_status_def status_of_def jbool_def
      Let_def split: option.splits jval.splits)

end
