(* ===== verification/HostedBackends.thy ===== *)
theory HostedBackends
  imports BackendContract
begin

text \<open>\<open>lnbits/wallets/alby.py\<close> and \<open>lnbits/wallets/void.py\<close>: the hosted wallets of Alby, and the placeholder.\<close>

definition alby_init :: "string option \<Rightarrow> string option \<Rightarrow> exn + string \<times> string" where
  "alby_init endpoint access_token =
     init_client ''cannot initialize AlbyWallet: missing alby_api_endpoint'' endpoint
       ''cannot initialize AlbyWallet: missing alby_access_token'' access_token"

definition alby_status :: "client \<Rightarrow> (backend, source_status) py" where
  "alby_status cl =
     tryP
       (bindP (http_get ''/balance'') (\<lambda>r.
        thenP (raise_for_status r)
        (bindP (liftE (json_of r)) (\<lambda>data.
         bindP (liftE (len_of data)) (\<lambda>n.
         if n = 0 then ret (source_error (Formatted ''no data'' []))
         else bindP (if is_error r then ret True
                     else bindP (liftE (item data ''unit'')) (\<lambda>u. ret (u \<noteq> JStr ''sat''))) (\<lambda>bad.
           if bad then bindP (message_or_text data r) (\<lambda>m. ret (source_error (Formatted ''Server error: {}'' [m])))
           else bindP (liftE (item data ''balance'')) (\<lambda>b.
                bindP (liftE (times b 1000)) (\<lambda>v. ret (source_balance v)))))))))
       (\<lambda>e. if e = KeyError then ret (source_error missing_fields)
            else if e = JSONDecodeError then ret (source_error invalid_json)
            else ret (source_error (unable_to_connect cl)))"

definition alby_invoice_data ::
  "client \<Rightarrow> int \<Rightarrow> string option \<Rightarrow> byte list option \<Rightarrow> byte list option \<Rightarrow> (string \<times> jval) list" where
  "alby_invoice_data cl amount memo description_hash unhashed_description =
     [(''amount'', JStr (str_int amount)),
      (if given description_hash then (''description_hash'', JStr (bytes_hex (the description_hash)))
       else if given unhashed_description
       then (''description_hash'', JStr (bytes_hex (cl_sha256 cl (the unhashed_description))))
       else (''memo'', JStr (the (orElse memo (Some [])))))]"

definition alby_create_invoice ::
  "client \<Rightarrow> int \<Rightarrow> string option \<Rightarrow> byte list option \<Rightarrow> byte list option \<Rightarrow> (backend, invoice_answer) py" where
  "alby_create_invoice cl amount memo description_hash unhashed_description =
     tryP
       (bindP (http_post ''/invoices'' (alby_invoice_data cl amount memo description_hash unhashed_description)) (\<lambda>r.
        thenP (raise_for_status r)
        (bindP (liftE (json_of r)) (\<lambda>data.
         if is_error r then bindP (message_or_text data r) (\<lambda>m. ret (invoice_error (Said m)))
         else bindP (liftE (item data ''payment_hash'')) (\<lambda>checking_id.
              bindP (liftE (item data ''payment_request'')) (\<lambda>payment_request.
              bindP (liftE (get data ''payment_preimage'')) (\<lambda>preimage.
              ret (invoice_result checking_id payment_request preimage))))))))
       (\<lambda>e. if e = KeyError then ret (invoice_error missing_fields)
            else if e = JSONDecodeError then ret (invoice_error invalid_json)
            else ret (invoice_error (unable_to_connect cl)))"

definition alby_pay_invoice :: "client \<Rightarrow> string \<Rightarrow> int \<Rightarrow> (backend, pay_answer) py" where
  "alby_pay_invoice cl bolt11 fee_limit_msat =
     tryP
       (bindP (http_post ''/payments/bolt11'' [(''invoice'', JStr bolt11)]) (\<lambda>r.
        thenP (raise_for_status r)
        (bindP (liftE (json_of r)) (\<lambda>data.
         if is_error r then bindP (message_or_text data r) (\<lambda>m. ret (pay_error None (Said m)))
         else bindP (liftE (item data ''payment_hash'')) (\<lambda>checking_id.
              bindP (liftE (item data ''fee'')) (\<lambda>fee.
              bindP (liftE (neg_of fee)) (\<lambda>fee_msat.
              bindP (liftE (item data ''payment_preimage'')) (\<lambda>preimage.
              ret (pay_result (Some True) checking_id fee_msat preimage)))))))))
       (\<lambda>e. if e = HTTPStatusError then
              bindP (gets bk_response) (\<lambda>r.
              let rejected = payment_request_was_rejected (rp_status r) in
              bindP (response_message r) (\<lambda>m.
              ret (pay_error (if rejected then Some False else None)
                     (if rejected then Said m else unable_to_connect cl))))
            else if e = KeyError then ret (pay_error None missing_fields)
            else if e = JSONDecodeError then ret (pay_error None invalid_json)
            else ret (pay_error None (unable_to_connect cl)))"

definition alby_get_payment_status :: "client \<Rightarrow> string \<Rightarrow> (backend, status_answer) py" where
  "alby_get_payment_status cl checking_id =
     tryP
       (bindP (http_get (''/invoices/'' @ checking_id)) (\<lambda>r.
        if is_error r then ret pending_status
        else bindP (liftE (json_of r)) (\<lambda>data.
             bindP (liftE (get data ''state'')) (\<lambda>st.
             bindP (liftE (table_get [(''CREATED'', None), (''SETTLED'', Some True)] st)) (\<lambda>paid.
             ret (status_of paid JNull JNull))))))
       (\<lambda>e. ret pending_status)"

definition alby_get_invoice_status :: "client \<Rightarrow> string \<Rightarrow> (backend, status_answer) py" where
  "alby_get_invoice_status cl checking_id = alby_get_payment_status cl checking_id"

section \<open>The contract\<close>

definition alby_dispatch :: "request \<Rightarrow> bool" where
  "alby_dispatch q \<longleftrightarrow> rq_verb q = ''POST'' \<and> rq_url q = ''/payments/bolt11''"

definition alby_receipt :: "reply \<Rightarrow> bool" where
  "alby_receipt r \<longleftrightarrow> is_success r \<and> body r [''payment_hash''] \<noteq> None \<and> body r [''payment_preimage''] \<noteq> None"

definition alby_settled :: "reply \<Rightarrow> bool" where
  "alby_settled r \<longleftrightarrow> \<not> is_error r \<and> body r [''state''] = Some (JStr ''SETTLED'')"

lemmas alby_evidence = alby_dispatch_def rejection_def alby_receipt_def alby_settled_def body_def

interpretation alby_payments:
  status_backend "alby_get_payment_status cl" alby_dispatch alby_settled "\<lambda>r. False" for cl
  by unfold_locales
    (auto simp: alby_get_payment_status_def alby_evidence exchanged_def wp_rule wp_http json
       split: option.splits if_splits)

interpretation alby: paying_backend "alby_pay_invoice cl" alby_dispatch rejection alby_receipt for cl
  by unfold_locales
    (auto simp: alby_pay_invoice_def message_or_text_def response_message_def alby_evidence honest_def
       dispatches_once_def exchanged_def wp_rule wp_http json Let_def split: option.splits)

section \<open>The placeholder\<close>

definition void_create_invoice :: "(backend, invoice_answer) py" where
  "void_create_invoice = ret (invoice_error (Formatted ''VoidWallet cannot create invoices.'' []))"

definition void_status :: "(backend, source_status) py" where
  "void_status = ret (source_balance (JInt 0))"

definition void_pay_invoice :: "string \<Rightarrow> int \<Rightarrow> (backend, pay_answer) py" where
  "void_pay_invoice bolt11 fee_limit_msat = ret (pay_error (Some False) (Formatted ''VoidWallet cannot pay invoices.'' []))"

definition void_get_invoice_status :: "string \<Rightarrow> (backend, status_answer) py" where
  "void_get_invoice_status checking_id = ret pending_status"

definition void_get_payment_status :: "string \<Rightarrow> (backend, status_answer) py" where
  "void_get_payment_status checking_id = ret pending_status"

interpretation void: paying_backend void_pay_invoice "\<lambda>q. True" "\<lambda>r. False" "\<lambda>r. False"
  by unfold_locales (simp add: void_pay_invoice_def wp_rule honest_def dispatches_once_def)

text \<open>\<open>lnbits/wallets/zbd.py\<close>: the hosted wallets of ZBD, which name the outcome of a payment by a word.\<close>

definition zbd_init :: "string option \<Rightarrow> string option \<Rightarrow> exn + string \<times> string" where
  "zbd_init endpoint api_key =
     init_client ''cannot initialize ZBDWallet: missing zbd_api_endpoint'' endpoint
       ''cannot initialize ZBDWallet: missing zbd_api_key'' api_key"

definition zbd_status :: "client \<Rightarrow> (backend, source_status) py" where
  "zbd_status cl =
     bindP (tryP (bindP (http_get ''wallet'') (\<lambda>r. ret (Some r)))
              (\<lambda>e. if request_error e then ret None else throw e)) (\<lambda>reply.
     case reply of
       None \<Rightarrow> ret (source_error (Formatted ''Unable to connect to {}'' [JStr (cl_endpoint cl)]))
     | Some r \<Rightarrow>
         if is_error r then bindP (liftE (json_of r)) (\<lambda>v. bindP (liftE (item v ''message'')) (\<lambda>m. ret (source_error (Said m))))
         else bindP (liftE (json_of r)) (\<lambda>v.
              bindP (liftE (item v ''data'')) (\<lambda>d.
              bindP (liftE (item d ''balance'')) (\<lambda>b.
              bindP (liftE (int_of b)) (\<lambda>i. ret (source_balance (JInt i)))))))"

definition zbd_invoice_data ::
  "client \<Rightarrow> int \<Rightarrow> string option \<Rightarrow> byte list option \<Rightarrow> byte list option \<Rightarrow> (string \<times> jval) list" where
  "zbd_invoice_data cl amount memo description_hash unhashed_description =
     [(''amount'', JStr (str_int (amount * 1000))), (''expiresIn'', JInt 3600), (''callbackUrl'', JStr []),
      (''internalId'', JStr []),
      (''description'', JStr (
         if given description_hash then bytes_hex (the description_hash)
         else if given unhashed_description then bytes_hex (cl_sha256 cl (the unhashed_description))
         else the (orElse memo (Some []))))]"

definition zbd_create_invoice ::
  "client \<Rightarrow> int \<Rightarrow> string option \<Rightarrow> byte list option \<Rightarrow> byte list option \<Rightarrow> (backend, invoice_answer) py" where
  "zbd_create_invoice cl amount memo description_hash unhashed_description =
     bindP (http_post ''charges'' (zbd_invoice_data cl amount memo description_hash unhashed_description)) (\<lambda>r.
     if is_error r then bindP (liftE (json_of r)) (\<lambda>v. bindP (liftE (item v ''message'')) (\<lambda>m. ret (invoice_error (Said m))))
     else bindP (liftE (json_of r)) (\<lambda>v.
          bindP (liftE (item v ''data'')) (\<lambda>data.
          bindP (liftE (item data ''id'')) (\<lambda>checking_id.
          bindP (liftE (item data ''invoice'')) (\<lambda>invoice.
          bindP (liftE (item invoice ''request'')) (\<lambda>payment_request.
          bindP (liftE (get invoice ''preimage'')) (\<lambda>preimage.
          ret (invoice_result checking_id payment_request preimage))))))))"

text \<open>The fields of the answer to a payment: \<open>data\<close>, id, fee, preimage and the status in lower case.\<close>

definition zbd_pay_fields :: "client \<Rightarrow> reply \<Rightarrow> (backend, jval \<times> jval \<times> jval \<times> jval \<times> string) py" where
  "zbd_pay_fields cl r =
     bindP (liftE (json_of r)) (\<lambda>v.
     bindP (liftE (item v ''data'')) (\<lambda>data.
     bindP (liftE (get data ''id'')) (\<lambda>checking_id.
     bindP (liftE (get data ''fee'')) (\<lambda>fee.
     bindP (if fee = JNull then ret JNull else bindP (liftE (int_of fee)) (\<lambda>i. ret (JInt (- i)))) (\<lambda>fee_msat.
     bindP (liftE (get data ''preimage'')) (\<lambda>preimage.
     bindP (liftE (get_or data ''status'' (JStr []))) (\<lambda>st.
     ret (data, checking_id, fee_msat, preimage, lower (py_str (cl_show cl) st)))))))))"

definition zbd_pay_invoice :: "client \<Rightarrow> string \<Rightarrow> int \<Rightarrow> (backend, pay_answer) py" where
  "zbd_pay_invoice cl bolt11 fee_limit_msat =
     bindP (tryP (bindP (http_post ''payments''
              [(''invoice'', JStr bolt11), (''description'', JStr []), (''amount'', JStr []), (''internalId'', JStr []),
               (''callbackUrl'', JStr [])]) (\<lambda>r. ret (Some r)))
              (\<lambda>e. ret None)) (\<lambda>reply.
     case reply of
       None \<Rightarrow> ret (pay_error None (Formatted ''Unable to query ZBD.'' []))
     | Some r \<Rightarrow>
         if is_error r then
           bindP (response_message r) (\<lambda>m.
           ret (pay_error (if payment_request_was_rejected (rp_status r) then Some False else None) (Said m)))
         else
           bindP (tryP (bindP (zbd_pay_fields cl r) (\<lambda>f. ret (Some f))) (\<lambda>e. ret None)) (\<lambda>fields.
           case fields of
             None \<Rightarrow> ret (pay_error None (Formatted ''Invalid ZBD payment response.'' []))
           | Some (data, checking_id, fee_msat, preimage, st) \<Rightarrow>
               if st = ''completed'' then ret (pay_result (Some True) checking_id fee_msat preimage)
               else bindP (liftE (get data ''errorMessage'')) (\<lambda>m.
                    ret ((pay_result (if st \<in> {''failed'', ''expired''} then Some False else None)
                            checking_id fee_msat JNull)\<lparr>an_error := Said m\<rparr>))))"

text \<open>The status of an invoice is looked up with \<open>statuses[\<dots>]\<close>, outside of any \<open>try\<close>.\<close>

definition zbd_get_invoice_status :: "client \<Rightarrow> string \<Rightarrow> (backend, status_answer) py" where
  "zbd_get_invoice_status cl checking_id =
     bindP (http_get (''charges/'' @ checking_id)) (\<lambda>r.
     if is_error r then ret pending_status
     else bindP (liftE (json_of r)) (\<lambda>v.
          bindP (liftE (item v ''data'')) (\<lambda>data.
          bindP (liftE (get data ''status'')) (\<lambda>st.
          bindP (liftE (table_item [(''pending'', None), (''paid'', Some True), (''unpaid'', None),
                   (''expired'', Some False), (''completed'', Some True)] st)) (\<lambda>paid.
          ret (status_of paid JNull JNull))))))"

definition zbd_get_payment_status :: "client \<Rightarrow> string \<Rightarrow> (backend, status_answer) py" where
  "zbd_get_payment_status cl checking_id =
     bindP (tryP (bindP (http_get (''payments/'' @ checking_id)) (\<lambda>r. ret (Some r))) (\<lambda>e. ret None)) (\<lambda>reply.
     case reply of
       None \<Rightarrow> ret pending_status
     | Some r \<Rightarrow>
         if is_error r then ret pending_status
         else bindP (tryP (bindP (liftE (json_of r)) (\<lambda>v. bindP (liftE (item v ''data'')) (\<lambda>d. ret (Some d))))
                       (\<lambda>e. ret None)) (\<lambda>found.
           case found of
             None \<Rightarrow> ret pending_status
           | Some data \<Rightarrow>
               bindP (liftE (get data ''status'')) (\<lambda>st.
               bindP (liftE (table_get [(''initial'', None), (''pending'', None), (''completed'', Some True),
                        (''error'', None), (''expired'', Some False), (''failed'', Some False)] st)) (\<lambda>paid.
               ret (status_of paid JNull JNull)))))"

definition zbd_dispatch :: "request \<Rightarrow> bool" where
  "zbd_dispatch q \<longleftrightarrow> rq_verb q = ''POST'' \<and> rq_url q = ''payments''"

definition zbd_refusal :: "client \<Rightarrow> reply \<Rightarrow> bool" where
  "zbd_refusal cl r \<longleftrightarrow> rejection r \<or> (\<not> is_error r \<and> data_status (cl_show cl) r \<in> {''failed'', ''expired''})"

definition zbd_receipt :: "client \<Rightarrow> reply \<Rightarrow> bool" where
  "zbd_receipt cl r \<longleftrightarrow> \<not> is_error r \<and> data_status (cl_show cl) r = ''completed''"

lemmas zbd_evidence =
  zbd_dispatch_def data_status_def says_def zbd_refusal_def zbd_receipt_def rejection_def body_def

interpretation zbd: paying_backend "zbd_pay_invoice cl" zbd_dispatch "zbd_refusal cl" "zbd_receipt cl" for cl
  by unfold_locales
    (auto simp: zbd_pay_invoice_def zbd_pay_fields_def response_message_def zbd_evidence honest_def
       dispatches_once_def exchanged_def wp_rule wp_http json Let_def split: option.splits)

interpretation zbd_invoices:
  status_backend "zbd_get_invoice_status cl" zbd_dispatch "says [''data'', ''status''] {''paid'', ''completed''}"
    "says [''data'', ''status''] {''expired''}" for cl
  by unfold_locales
    (auto simp: zbd_get_invoice_status_def zbd_evidence exchanged_def wp_rule wp_http json
       split: option.splits if_splits)

interpretation zbd_payments:
  status_backend "zbd_get_payment_status cl" zbd_dispatch "says [''data'', ''status''] {''completed''}"
    "says [''data'', ''status''] {''failed'', ''expired''}" for cl
  by unfold_locales
    (auto simp: zbd_get_payment_status_def zbd_evidence exchanged_def wp_rule wp_http json
       split: option.splits if_splits)

text \<open>\<open>lnbits/wallets/opennode.py\<close>, \<open>lnbits/wallets/lnpay.py\<close> and \<open>lnbits/wallets/lntips.py\<close>: hosted wallets.\<close>

section \<open>OpenNode\<close>

definition opennode_init ::
  "string option \<Rightarrow> string option \<Rightarrow> string option \<Rightarrow> string option \<Rightarrow> exn + string \<times> string" where
  "opennode_init endpoint key admin_key invoice_key =
     init_client ''cannot initialize OpenNodeWallet: missing opennode_api_endpoint'' endpoint
       ''cannot initialize OpenNodeWallet: missing opennode_key or opennode_admin_key or opennode_invoice_key''
       (orElse (orElse key admin_key) invoice_key)"

definition opennode_status :: "client \<Rightarrow> (backend, source_status) py" where
  "opennode_status cl =
     bindP (tryP (bindP (http_get ''/v1/account/balance'') (\<lambda>r. ret (Some r)))
              (\<lambda>e. if request_error e then ret None else throw e)) (\<lambda>reply.
     case reply of
       None \<Rightarrow> ret (source_error (Formatted ''Unable to connect to {}'' [JStr (cl_endpoint cl)]))
     | Some r \<Rightarrow>
         if is_error r then bindP (liftE (json_of r)) (\<lambda>v. bindP (liftE (item v ''message'')) (\<lambda>m. ret (source_error (Said m))))
         else bindP (liftE (json_of r)) (\<lambda>v.
              bindP (liftE (item v ''data'')) (\<lambda>d.
              bindP (liftE (item d ''balance'')) (\<lambda>b.
              bindP (liftE (item b ''BTC'')) (\<lambda>x.
              bindP (liftE (times x 1000)) (\<lambda>i. ret (source_balance i)))))))"

definition opennode_create_invoice ::
  "client \<Rightarrow> int \<Rightarrow> string option \<Rightarrow> byte list option \<Rightarrow> byte list option \<Rightarrow> (backend, invoice_answer) py" where
  "opennode_create_invoice cl amount memo description_hash unhashed_description =
     thenP (failIf (given description_hash \<or> given unhashed_description) UnsupportedError)
     (bindP (http_post ''/v1/charges''
        [(''amount'', JInt amount), (''description'', JStr (the (orElse memo (Some []))))]) (\<lambda>r.
      if is_error r then bindP (liftE (json_of r)) (\<lambda>v. bindP (liftE (item v ''message'')) (\<lambda>m. ret (invoice_error (Said m))))
      else bindP (liftE (json_of r)) (\<lambda>v.
           bindP (liftE (item v ''data'')) (\<lambda>data.
           bindP (liftE (item data ''id'')) (\<lambda>checking_id.
           bindP (liftE (item data ''lightning_invoice'')) (\<lambda>invoice.
           bindP (liftE (item invoice ''payreq'')) (\<lambda>payment_request.
           thenP (modify (\<lambda>s. s\<lparr>bk_pending := bk_pending s @ [checking_id]\<rparr>))
             (ret (invoice_result checking_id payment_request JNull)))))))))"

text \<open>\<open>-fee * 1000 if fee is not None else None\<close>\<close>

definition opennode_fee :: "jval \<Rightarrow> exn + jval" where
  "opennode_fee fee =
     (if fee = JNull then Inr JNull else case neg_of fee of Inl e \<Rightarrow> Inl e | Inr f \<Rightarrow> times f 1000)"

definition opennode_pay_invoice :: "client \<Rightarrow> string \<Rightarrow> int \<Rightarrow> (backend, pay_answer) py" where
  "opennode_pay_invoice cl bolt11 fee_limit_msat =
     tryP
       (bindP (http_post ''/v2/withdrawals'' [(''type'', JStr ''ln''), (''address'', JStr bolt11)]) (\<lambda>r.
        if is_error r then
          bindP (liftE (json_of r)) (\<lambda>v.
          bindP (liftE (get_or v ''message'' (JStr (rp_text r)))) (\<lambda>m.
          ret (pay_error (if payment_request_was_rejected (rp_status r) then Some False else None) (Said m))))
        else
          bindP (liftE (json_of r)) (\<lambda>v.
          bindP (liftE (item v ''data'')) (\<lambda>data.
          bindP (liftE (get data ''id'')) (\<lambda>checking_id.
          bindP (liftE (get data ''fee'')) (\<lambda>fee.
          bindP (liftE (opennode_fee fee)) (\<lambda>fee_msat.
          bindP (liftE (get_or data ''status'' (JStr []))) (\<lambda>st.
          let word = lower (py_str (cl_show cl) st) in
          ret (pay_result
                 (if word \<in> {''paid'', ''confirmed''} then Some True
                  else if word \<in> {''error'', ''failed''} then Some False else None)
                 checking_id fee_msat JNull)))))))))
       (\<lambda>e. ret (pay_error None (Formatted ''Invalid OpenNode payment response.'' [])))"

definition opennode_get_invoice_status :: "client \<Rightarrow> string \<Rightarrow> (backend, status_answer) py" where
  "opennode_get_invoice_status cl checking_id =
     bindP (http_get (''/v1/charge/'' @ checking_id)) (\<lambda>r.
     if is_error r then ret pending_status
     else bindP (liftE (json_of r)) (\<lambda>v.
          bindP (liftE (item v ''data'')) (\<lambda>data.
          bindP (liftE (get data ''status'')) (\<lambda>st.
          bindP (liftE (table_item [(''processing'', None), (''paid'', Some True), (''unpaid'', None),
                   (''expired'', Some False)] st)) (\<lambda>paid.
          ret (status_of paid JNull JNull))))))"

definition opennode_get_payment_status :: "client \<Rightarrow> string \<Rightarrow> (backend, status_answer) py" where
  "opennode_get_payment_status cl checking_id =
     tryP
       (bindP (http_get (''/v1/withdrawal/'' @ checking_id)) (\<lambda>r.
        if is_error r then ret pending_status
        else bindP (liftE (json_of r)) (\<lambda>v.
             bindP (liftE (item v ''data'')) (\<lambda>data.
             bindP (liftE (get data ''fee'')) (\<lambda>fee.
             bindP (liftE (opennode_fee fee)) (\<lambda>fee_msat.
             bindP (liftE (get data ''status'')) (\<lambda>st.
             bindP (liftE (table_get [(''initial'', None), (''pending'', None), (''confirmed'', Some True),
                      (''error'', Some False), (''failed'', Some False)] st)) (\<lambda>paid.
             ret (status_of paid fee_msat JNull)))))))))
       (\<lambda>e. ret pending_status)"

definition opennode_dispatch :: "request \<Rightarrow> bool" where
  "opennode_dispatch q \<longleftrightarrow> rq_verb q = ''POST'' \<and> rq_url q = ''/v2/withdrawals''"

definition opennode_refusal :: "client \<Rightarrow> reply \<Rightarrow> bool" where
  "opennode_refusal cl r \<longleftrightarrow> rejection r \<or> (\<not> is_error r \<and> data_status (cl_show cl) r \<in> {''error'', ''failed''})"

definition opennode_receipt :: "client \<Rightarrow> reply \<Rightarrow> bool" where
  "opennode_receipt cl r \<longleftrightarrow> \<not> is_error r \<and> data_status (cl_show cl) r \<in> {''paid'', ''confirmed''}"

lemmas opennode_evidence =
  opennode_dispatch_def opennode_refusal_def opennode_receipt_def data_status_def says_def rejection_def body_def

interpretation opennode:
  paying_backend "opennode_pay_invoice cl" opennode_dispatch "opennode_refusal cl" "opennode_receipt cl" for cl
  by unfold_locales
    (auto simp: opennode_pay_invoice_def opennode_evidence honest_def dispatches_once_def exchanged_def
       wp_rule wp_http json Let_def split: option.splits)

interpretation opennode_invoices:
  status_backend "opennode_get_invoice_status cl" opennode_dispatch "says [''data'', ''status''] {''paid''}"
    "says [''data'', ''status''] {''expired''}" for cl
  by unfold_locales
    (auto simp: opennode_get_invoice_status_def opennode_evidence exchanged_def wp_rule wp_http json
       split: option.splits if_splits)

interpretation opennode_payments:
  status_backend "opennode_get_payment_status cl" opennode_dispatch "says [''data'', ''status''] {''confirmed''}"
    "says [''data'', ''status''] {''error'', ''failed''}" for cl
  by unfold_locales
    (auto simp: opennode_get_payment_status_def opennode_evidence exchanged_def wp_rule wp_http json
       split: option.splits if_splits)

section \<open>LNPay\<close>

definition lnpay_init ::
  "string option \<Rightarrow> string option \<Rightarrow> string option \<Rightarrow> string option \<Rightarrow> exn + string \<times> string" where
  "lnpay_init endpoint api_key wallet_key admin_key =
     (if \<not> truthy endpoint then Inl (ValueError ''cannot initialize LNPayWallet: missing lnpay_api_endpoint'')
      else if \<not> truthy api_key then Inl (ValueError ''cannot initialize LNPayWallet: missing lnpay_api_key'')
      else init_client ''cannot initialize LNPayWallet: missing lnpay_api_endpoint'' endpoint
             ''cannot initialize LNPayWallet: missing lnpay_wallet_key or lnpay_admin_key''
             (orElse wallet_key admin_key))"

definition lnpay_status :: "client \<Rightarrow> (backend, source_status) py" where
  "lnpay_status cl =
     (let url = ''/wallet/'' @ cl_key cl in
     bindP (tryP (bindP (http_get url) (\<lambda>r. ret (Some r)))
              (\<lambda>e. if request_error e then ret None else throw e)) (\<lambda>reply.
     case reply of
       None \<Rightarrow> ret (source_error (Formatted ''Unable to connect to {}'' [JStr url]))
     | Some r \<Rightarrow>
         if is_error r then ret (source_error (Said (JStr (take 250 (rp_text r)))))
         else bindP (liftE (json_of r)) (\<lambda>data.
              bindP (liftE (item data ''statusType'')) (\<lambda>t.
              bindP (liftE (item t ''name'')) (\<lambda>name.
              if name \<noteq> JStr ''active''
              then bindP (liftE (item data ''user_label'')) (\<lambda>lab.
                   ret (source_error (Formatted ''Wallet {} (data[id]) not active, but {}'' [lab, name])))
              else bindP (liftE (item data ''balance'')) (\<lambda>b.
                   bindP (liftE (times b 1000)) (\<lambda>v. ret (source_balance v))))))))"

definition lnpay_create_invoice ::
  "client \<Rightarrow> int \<Rightarrow> string option \<Rightarrow> byte list option \<Rightarrow> byte list option \<Rightarrow> (backend, invoice_answer) py" where
  "lnpay_create_invoice cl amount memo description_hash unhashed_description =
     bindP (http_post (''/wallet/'' @ cl_key cl @ ''/invoice'')
       [(''num_satoshis'', JStr (str_int amount)),
        (if given description_hash then (''description_hash'', JStr (bytes_hex (the description_hash)))
         else if given unhashed_description
         then (''description_hash'', JStr (bytes_hex (cl_sha256 cl (the unhashed_description))))
         else (''memo'', JStr (the (orElse memo (Some [])))))]) (\<lambda>r.
     if rp_status r = 201 then
       bindP (liftE (json_of r)) (\<lambda>data.
       bindP (liftE (item data ''id'')) (\<lambda>i.
       thenP (modify (\<lambda>s. s\<lparr>bk_pending := bk_pending s @ [i]\<rparr>))
       (bindP (liftE (item data ''payment_request'')) (\<lambda>payment_request.
        ret (invoice_result JNull payment_request JNull)))))
     else ret (invoice_error (Said (JStr (rp_text r)))))"

definition lnpay_pay_invoice :: "client \<Rightarrow> string \<Rightarrow> int \<Rightarrow> (backend, pay_answer) py" where
  "lnpay_pay_invoice cl bolt11 fee_limit_msat =
     bindP (tryP (bindP (http_post (''/wallet/'' @ cl_key cl @ ''/withdraw'') [(''payment_request'', JStr bolt11)])
              (\<lambda>r. ret (Some r))) (\<lambda>e. ret None)) (\<lambda>reply.
     case reply of
       None \<Rightarrow> ret (pay_error None (Formatted ''Unable to connect to LNPay.'' []))
     | Some r \<Rightarrow>
         bindP (tryP (bindP (liftE (json_of r)) (\<lambda>v. ret (Some v))) (\<lambda>e. ret None)) (\<lambda>parsed.
         case parsed of
           None \<Rightarrow> ret (pay_error None (Formatted ''Got invalid JSON.'' []))
         | Some data \<Rightarrow>
             if is_error r then
               bindP (liftE (get_or data ''message'' (JStr (rp_text r)))) (\<lambda>m.
               ret (pay_error (if payment_request_was_rejected (rp_status r) then Some False else None) (Said m)))
             else
               tryP
                 (bindP (liftE (item data ''lnTx'')) (\<lambda>tx.
                  bindP (liftE (item tx ''id'')) (\<lambda>checking_id.
                  bindP (liftE (item tx ''payment_preimage'')) (\<lambda>preimage.
                  ret (pay_result (Some True) checking_id (JInt 0) preimage)))))
                 (\<lambda>e. if e = KeyError \<or> e = TypeError
                      then ret (pay_error None (Formatted ''LNPay response is missing required payment fields.'' []))
                      else throw e)))"

text \<open>\<open>{0: None, 1: True, -1: False}.get(v)\<close>; Python compares numbers and truth values across types.\<close>

definition settled_word :: "jval \<Rightarrow> exn + bool option" where
  "settled_word v =
     (if \<not> hashable v then Inl TypeError
      else Inr (if equals_int v 1 then Some True else if equals_int v (- 1) then Some False else None))"

definition lnpay_get_payment_status :: "client \<Rightarrow> string \<Rightarrow> (backend, status_answer) py" where
  "lnpay_get_payment_status cl checking_id =
     tryP
       (bindP (http_get (''/lntx/'' @ checking_id)) (\<lambda>r.
        if is_error r then ret pending_status
        else bindP (liftE (json_of r)) (\<lambda>data.
             bindP (liftE (get data ''settled'')) (\<lambda>v.
             bindP (liftE (settled_word v)) (\<lambda>paid.
             bindP (liftE (get data ''fee_msat'')) (\<lambda>fee.
             bindP (liftE (get data ''payment_preimage'')) (\<lambda>pre.
             ret (status_of paid fee pre))))))))
       (\<lambda>e. ret pending_status)"

definition lnpay_get_invoice_status :: "client \<Rightarrow> string \<Rightarrow> (backend, status_answer) py" where
  "lnpay_get_invoice_status cl checking_id = lnpay_get_payment_status cl checking_id"

definition lnpay_dispatch :: "client \<Rightarrow> request \<Rightarrow> bool" where
  "lnpay_dispatch cl q \<longleftrightarrow> rq_verb q = ''POST'' \<and> rq_url q = ''/wallet/'' @ cl_key cl @ ''/withdraw''"

definition lnpay_receipt :: "reply \<Rightarrow> bool" where
  "lnpay_receipt r \<longleftrightarrow> \<not> is_error r \<and> body r [''lnTx'', ''id''] \<noteq> None \<and> body r [''lnTx'', ''payment_preimage''] \<noteq> None"

definition lnpay_word :: "int \<Rightarrow> reply \<Rightarrow> bool" where
  "lnpay_word i r \<longleftrightarrow> \<not> is_error r \<and> (case body r [''settled''] of None \<Rightarrow> False | Some v \<Rightarrow> equals_int v i)"

lemmas lnpay_evidence = lnpay_dispatch_def lnpay_receipt_def lnpay_word_def rejection_def body_def

lemma settled_word_Some [json]:
  "settled_word v = Inr (Some b) \<longleftrightarrow>
     hashable v \<and> (if equals_int v 1 then b else equals_int v (- 1) \<and> \<not> b)"
  by (auto simp: settled_word_def)

interpretation lnpay: paying_backend "lnpay_pay_invoice cl" "lnpay_dispatch cl" rejection lnpay_receipt for cl
  by unfold_locales
    (auto simp: lnpay_pay_invoice_def lnpay_evidence honest_def dispatches_once_def exchanged_def
       wp_rule wp_http json Let_def split: option.splits)

interpretation lnpay_payments:
  status_backend "lnpay_get_payment_status cl" "lnpay_dispatch cl" "lnpay_word 1" "lnpay_word (- 1)" for cl
  by unfold_locales
    (auto simp: lnpay_get_payment_status_def lnpay_evidence exchanged_def wp_rule wp_http json
       split: option.splits if_splits)

end
