(* ===== verification/AcinqBackends.thy ===== *)
theory AcinqBackends
  imports BackendContract
begin

text \<open>\<open>lnbits/wallets/phoenixd.py\<close>: a Phoenix server. The seed file it may read at start-up is not modelled.\<close>

definition phoenixd_status :: "client \<Rightarrow> (backend, source_status) py" where
  "phoenixd_status cl =
     tryP
       (bindP (http_get ''/getinfo'') (\<lambda>r.
        thenP (raise_for_status r)
        (bindP (liftE (json_of r)) (\<lambda>data.
         bindP (liftE (len_of data)) (\<lambda>n.
         if n = 0 then ret (source_error (Formatted ''no data'' []))
         else bindP (if is_error r then ret True
                     else bindP (liftE (contains data ''channels'')) (\<lambda>c. ret (\<not> c))) (\<lambda>bad.
           if bad then bindP (message_or_text data r) (\<lambda>m. ret (source_error (Formatted ''Server error: {}'' [m])))
           else bindP (liftE (item data ''channels'')) (\<lambda>channels.
                bindP (liftE (len_of channels)) (\<lambda>k.
                if k = 0 then ret (source_balance (JInt 0))
                else bindP (liftE (first_item channels)) (\<lambda>channel.
                     bindP (liftE (item channel ''balanceSat'')) (\<lambda>b.
                     bindP (liftE (int_of b)) (\<lambda>i. ret (source_balance (JInt (i * 1000))))))))))))))
       (\<lambda>e. if e = JSONDecodeError then ret (source_error invalid_json)
            else ret (source_error (unable_to_connect cl)))"

definition phoenixd_incoming_preimage :: "client \<Rightarrow> jval \<Rightarrow> (backend, jval) py" where
  "phoenixd_incoming_preimage cl payment_hash =
     tryP
       (bindP (http_get (''/payments/incoming/'' @ py_str (cl_show cl) payment_hash)) (\<lambda>r.
        if is_error r then ret JNull
        else bindP (liftE (json_of r)) (\<lambda>v.
             bindP (liftE (get v ''preimage'')) (\<lambda>p. ret (if truth p then p else JNull)))))
       (\<lambda>e. ret JNull)"

definition phoenixd_invoice_data ::
  "client \<Rightarrow> int \<Rightarrow> string option \<Rightarrow> byte list option \<Rightarrow> byte list option \<Rightarrow> int \<Rightarrow> (string \<times> jval) list" where
  "phoenixd_invoice_data cl amount memo description_hash unhashed_description expiry =
     (let desc = the (orElse memo (Some [])) in
      [(''amountSat'', JStr (str_int amount)), (''externalId'', JStr []),
       (if given description_hash then (''descriptionHash'', JStr (bytes_hex (the description_hash)))
        else if given unhashed_description
        then (''descriptionHash'', JStr (bytes_hex (cl_sha256 cl (the unhashed_description))))
        else if length desc > 128 then (''descriptionHash'', JStr (bytes_hex (cl_sha256 cl (utf8_encode desc))))
        else (''description'', JStr desc)),
       (''expirySeconds'', JInt expiry)])"

definition phoenixd_create_invoice ::
  "client \<Rightarrow> int \<Rightarrow> string option \<Rightarrow> byte list option \<Rightarrow> byte list option \<Rightarrow> int \<Rightarrow> (backend, invoice_answer) py" where
  "phoenixd_create_invoice cl amount memo description_hash unhashed_description expiry =
     tryP
       (bindP (http_post ''/createinvoice''
          (phoenixd_invoice_data cl amount memo description_hash unhashed_description expiry)) (\<lambda>r.
        thenP (raise_for_status r)
        (bindP (liftE (json_of r)) (\<lambda>data.
         bindP (if is_error r then ret True
                else bindP (liftE (contains data ''paymentHash'')) (\<lambda>c. ret (\<not> c))) (\<lambda>bad.
         if bad then bindP (liftE (item data ''message'')) (\<lambda>m. ret (invoice_error (Formatted ''Server error: {}'' [m])))
         else bindP (liftE (item data ''paymentHash'')) (\<lambda>checking_id.
              bindP (liftE (item data ''serialized'')) (\<lambda>payment_request.
              bindP (liftE (get data ''paymentPreimage'')) (\<lambda>p.
              bindP (if truth p then ret p else phoenixd_incoming_preimage cl checking_id) (\<lambda>preimage.
              ret (invoice_result checking_id payment_request preimage))))))))))
       (\<lambda>e. if e = JSONDecodeError then ret (invoice_error invalid_json)
            else if e = KeyError then ret (invoice_error missing_fields)
            else ret (invoice_error (unable_to_connect cl)))"

text \<open>The answer to a payment. A reason without a routing fee leaves the payment open.\<close>

definition phoenixd_pay_answer :: "client \<Rightarrow> reply \<Rightarrow> (backend, pay_answer) py" where
  "phoenixd_pay_answer cl r =
     tryP
       (bindP (liftE (json_of r)) (\<lambda>data.
        bindP (liftE (contains data ''routingFeeSat'')) (\<lambda>has_fee.
        bindP (if has_fee then ret False
               else bindP (liftE (contains data ''reason'')) (\<lambda>a.
                    if a then ret True else liftE (contains data ''message''))) (\<lambda>explained.
        if explained then
          bindP (liftE (get_or data ''message'' (JStr ''Unknown error''))) (\<lambda>m.
          bindP (liftE (get_or data ''reason'' m)) (\<lambda>why.
          ret (pay_error None (Said why))))
        else
          bindP (liftE (item data ''paymentHash'')) (\<lambda>checking_id.
          bindP (liftE (item data ''routingFeeSat'')) (\<lambda>fee.
          bindP (liftE (int_of fee)) (\<lambda>i.
          bindP (liftE (item data ''paymentPreimage'')) (\<lambda>preimage.
          ret (pay_result (Some True) checking_id (JInt (- i * 1000)) preimage)))))))))
       (\<lambda>e. if e = JSONDecodeError then ret (pay_error None invalid_json)
            else if e = KeyError then ret (pay_error None missing_fields)
            else ret (pay_error None (unable_to_connect cl)))"

definition phoenixd_pay_invoice :: "client \<Rightarrow> string \<Rightarrow> int \<Rightarrow> (backend, pay_answer) py" where
  "phoenixd_pay_invoice cl bolt11 fee_limit_msat =
     bindP (tryP (bindP (http_post ''/payinvoice'' [(''invoice'', JStr bolt11)]) (\<lambda>r.
              thenP (raise_for_status r) (ret (Inr r))))
              (\<lambda>e. if e = TimeoutException
                   then ret (Inl (Formatted ''Timeout connecting to {}. keep pending...'' [JStr (cl_endpoint cl)]))
                   else ret (Inl (unable_to_connect cl)))) (\<lambda>reply.
     case reply of
       Inl m \<Rightarrow> ret (pay_error None m)
     | Inr r \<Rightarrow> phoenixd_pay_answer cl r)"

text \<open>The two status queries differ in their address only.\<close>

definition phoenixd_query :: "string \<Rightarrow> (backend, status_answer) py" where
  "phoenixd_query url =
     bindP (http_get url) (\<lambda>r.
     if is_error r then (if rp_status r = 404 then ret failed_status else ret pending_status)
     else
       bindP (tryP (bindP (liftE (json_of r)) (\<lambda>v. ret (Some v)))
                (\<lambda>e. if e = JSONDecodeError then ret None else throw e)) (\<lambda>parsed.
       case parsed of
         None \<Rightarrow> ret pending_status
       | Some data \<Rightarrow>
           bindP (liftE (contains data ''isPaid'')) (\<lambda>a.
           bindP (if a then liftE (contains data ''fees'') else ret False) (\<lambda>b.
           bindP (if b then liftE (contains data ''preimage'') else ret False) (\<lambda>c.
           if \<not> c then ret pending_status
           else bindP (liftE (item data ''isPaid'')) (\<lambda>p.
                if p = JBool True then
                  bindP (liftE (item data ''fees'')) (\<lambda>fee_msat.
                  bindP (liftE (item data ''preimage'')) (\<lambda>preimage.
                  ret (status_of (Some True) fee_msat preimage)))
                else ret pending_status))))))"

definition phoenixd_get_invoice_status :: "client \<Rightarrow> string \<Rightarrow> (backend, status_answer) py" where
  "phoenixd_get_invoice_status cl checking_id = phoenixd_query (''/payments/incoming/'' @ checking_id)"

definition phoenixd_get_payment_status :: "client \<Rightarrow> string \<Rightarrow> (backend, status_answer) py" where
  "phoenixd_get_payment_status cl checking_id = phoenixd_query (''/payments/outgoingbyhash/'' @ checking_id)"

definition phoenixd_stream_message :: "jval \<Rightarrow> exn + jval option" where
  "phoenixd_stream_message message =
     (if \<not> truth message then Inr None
      else case get message ''type'' of
        Inl e \<Rightarrow> Inl e
      | Inr t \<Rightarrow> if t = JStr ''payment_received'' then map_sum id Some (item message ''paymentHash'') else Inr None)"

section \<open>The contract\<close>

definition phoenixd_dispatch :: "request \<Rightarrow> bool" where
  "phoenixd_dispatch q \<longleftrightarrow> rq_verb q = ''POST'' \<and> rq_url q = ''/payinvoice''"

definition phoenixd_receipt :: "reply \<Rightarrow> bool" where
  "phoenixd_receipt r \<longleftrightarrow> is_success r \<and> body r [''paymentHash''] \<noteq> None \<and> body r [''paymentPreimage''] \<noteq> None"

definition phoenixd_settled :: "reply \<Rightarrow> bool" where
  "phoenixd_settled r \<longleftrightarrow> \<not> is_error r \<and> body r [''isPaid''] = Some (JBool True)"

definition phoenixd_unknown :: "reply \<Rightarrow> bool" where
  "phoenixd_unknown r \<longleftrightarrow> rp_status r = 404"

lemmas phoenixd_evidence =
  phoenixd_dispatch_def phoenixd_receipt_def phoenixd_settled_def phoenixd_unknown_def body_def

interpretation phoenixd:
  paying_backend "phoenixd_pay_invoice cl" phoenixd_dispatch "\<lambda>r. False" phoenixd_receipt for cl
  by unfold_locales
    (auto simp: phoenixd_pay_invoice_def phoenixd_pay_answer_def phoenixd_evidence honest_def dispatches_once_def
       exchanged_def wp_rule wp_http json Let_def split: option.splits)

interpretation phoenixd_invoices:
  status_backend "phoenixd_get_invoice_status cl" phoenixd_dispatch phoenixd_settled phoenixd_unknown for cl
  by unfold_locales
    (auto simp: phoenixd_get_invoice_status_def phoenixd_query_def phoenixd_evidence exchanged_def wp_rule wp_http json
       split: option.splits if_splits)

interpretation phoenixd_payments:
  status_backend "phoenixd_get_payment_status cl" phoenixd_dispatch phoenixd_settled phoenixd_unknown for cl
  by unfold_locales
    (auto simp: phoenixd_get_payment_status_def phoenixd_query_def phoenixd_evidence exchanged_def wp_rule wp_http json
       split: option.splits if_splits)

text \<open>
  \<open>lnbits/wallets/eclair.py\<close>: an Eclair node. \<open>decimal\<close> reads the decimal number that the node writes as a
  string, \<open>None\<close> where \<open>Decimal\<close> raises; the constructor's web socket address is not modelled.
\<close>

text \<open>\<open>int(round(Decimal(v), 8) * 100_000_000_000)\<close>; a quotient of more than 28 digits raises.\<close>

definition eclair_total :: "(jval \<Rightarrow> rat option) \<Rightarrow> jval \<Rightarrow> exn + int" where
  "eclair_total decimal v =
     (case (case v of JFloat r \<Rightarrow> Some r | JStr s \<Rightarrow> decimal v | JList l \<Rightarrow> decimal v
            | _ \<Rightarrow> map_option of_int (as_int v)) of
        None \<Rightarrow> Inl (OtherError ''InvalidOperation'')
      | Some x \<Rightarrow>
          let k = rne (x * 10 ^ 8) in
          if \<bar>k\<bar> \<ge> 10 ^ 28 then Inl (OtherError ''InvalidOperation'') else Inr (k * 1000))"

definition eclair_status :: "(jval \<Rightarrow> rat option) \<Rightarrow> client \<Rightarrow> (backend, source_status) py" where
  "eclair_status decimal cl =
     tryP
       (bindP (http_post ''/globalbalance'' []) (\<lambda>r.
        thenP (raise_for_status r)
        (bindP (liftE (json_of r)) (\<lambda>data.
         bindP (liftE (len_of data)) (\<lambda>n.
         if n = 0 then ret (source_error (Formatted ''no data'' []))
         else bindP (liftE (contains data ''error'')) (\<lambda>failed.
           if failed then bindP (liftE (item data ''error'')) (\<lambda>m. ret (source_error (Formatted ''Server error: {}'' [m])))
           else bindP (if is_error r then ret True else bindP (liftE (contains data ''total'')) (\<lambda>c. ret (\<not> c))) (\<lambda>bad.
             if bad then ret (source_error (Formatted ''Server error: {}'' [JStr (rp_text r)]))
             else bindP (liftE (get data ''total'')) (\<lambda>v.
                  bindP (liftE (eclair_total decimal v)) (\<lambda>t. ret (source_balance (JInt t)))))))))))
       (\<lambda>e. if e = JSONDecodeError then ret (source_error invalid_json)
            else ret (source_error (unable_to_connect cl)))"

definition eclair_invoice_data ::
  "client \<Rightarrow> string \<Rightarrow> int \<Rightarrow> string option \<Rightarrow> byte list option \<Rightarrow> byte list option \<Rightarrow> int option
     \<Rightarrow> (string \<times> jval) list" where
  "eclair_invoice_data cl preimage amount memo description_hash unhashed_description expiry =
     [(''amountMsat'', JInt (amount * 1000))]
     @ (if expiry \<notin> {None, Some 0} then [(''expireIn'', JInt (the expiry))] else [])
     @ [(if given description_hash then (''descriptionHash'', JStr (bytes_hex (the description_hash)))
         else if given unhashed_description
         then (''descriptionHash'', JStr (bytes_hex (cl_sha256 cl (the unhashed_description))))
         else (''description'', (case memo of None \<Rightarrow> JNull | Some m \<Rightarrow> JStr m))),
        (''paymentPreimage'', JStr preimage)]"

text \<open>\<open>preimage\<close> is the secret that \<open>random_secret_and_hash\<close> made.\<close>

definition eclair_create_invoice ::
  "client \<Rightarrow> string \<Rightarrow> int \<Rightarrow> string option \<Rightarrow> byte list option \<Rightarrow> byte list option \<Rightarrow> int option
     \<Rightarrow> (backend, invoice_answer) py" where
  "eclair_create_invoice cl preimage amount memo description_hash unhashed_description expiry =
     tryP
       (bindP (http_post ''/createinvoice''
          (eclair_invoice_data cl preimage amount memo description_hash unhashed_description expiry)) (\<lambda>r.
        thenP (raise_for_status r)
        (bindP (liftE (json_of r)) (\<lambda>data.
         bindP (liftE (len_of data)) (\<lambda>n.
         if n = 0 then ret (invoice_error (Formatted ''no data'' []))
         else bindP (liftE (contains data ''error'')) (\<lambda>failed.
           if failed then bindP (liftE (item data ''error'')) (\<lambda>m. ret (invoice_error (Formatted ''Server error: {}'' [m])))
           else if is_error r then ret (invoice_error (Formatted ''Server error: {}'' [JStr (rp_text r)]))
           else bindP (liftE (item data ''paymentHash'')) (\<lambda>checking_id.
                bindP (liftE (item data ''serialized'')) (\<lambda>payment_request.
                ret (invoice_result checking_id payment_request (JStr preimage))))))))))
       (\<lambda>e. if e = JSONDecodeError then ret (invoice_error invalid_json)
            else if e = KeyError then ret (invoice_error missing_fields)
            else ret (invoice_error (unable_to_connect cl)))"

definition eclair_get_payment_status :: "client \<Rightarrow> string \<Rightarrow> (backend, status_answer) py" where
  "eclair_get_payment_status cl checking_id =
     tryP
       (bindP (http_post ''/getsentinfo'' [(''paymentHash'', JStr checking_id)]) (\<lambda>r.
        thenP (raise_for_status r)
        (bindP (liftE (json_of r)) (\<lambda>v.
         bindP (liftE (final_item v)) (\<lambda>data.
         bindP (if is_error r then ret True else liftE (contains data ''error'')) (\<lambda>failed.
         bindP (if failed then ret True else bindP (liftE (get data ''status'')) (\<lambda>s. ret (s = JNull))) (\<lambda>bad.
         thenP (failIf bad (OtherError ''error in eclair response''))
         (bindP (liftE (item data ''status'')) (\<lambda>st.
          bindP (liftE (item st ''type'')) (\<lambda>t.
          bindP (if t = JStr ''sent'' then
                   bindP (liftE (item st ''feesPaid'')) (\<lambda>fee.
                   bindP (liftE (neg_of fee)) (\<lambda>fee_msat.
                   bindP (liftE (item st ''paymentPreimage'')) (\<lambda>preimage. ret (fee_msat, preimage))))
                 else ret (JNull, JNull)) (\<lambda>(fee_msat, preimage).
          bindP (liftE (table_get [(''sent'', Some True), (''failed'', Some False), (''pending'', None)] t)) (\<lambda>paid.
          ret (status_of paid fee_msat preimage)))))))))))))
       (\<lambda>e. ret pending_status)"

definition eclair_get_invoice_status :: "client \<Rightarrow> string \<Rightarrow> (backend, status_answer) py" where
  "eclair_get_invoice_status cl checking_id =
     tryP
       (bindP (http_post ''/getreceivedinfo'' [(''paymentHash'', JStr checking_id)]) (\<lambda>r.
        thenP (raise_for_status r)
        (bindP (liftE (json_of r)) (\<lambda>data.
         bindP (if is_error r then ret True else liftE (contains data ''error'')) (\<lambda>failed.
         bindP (if failed then ret True else bindP (liftE (get data ''status'')) (\<lambda>s. ret (s = JNull))) (\<lambda>bad.
         thenP (failIf bad (OtherError ''error in eclair response''))
         (bindP (liftE (item data ''status'')) (\<lambda>st.
          bindP (liftE (item st ''type'')) (\<lambda>t.
          bindP (liftE (table_get [(''received'', Some True), (''expired'', Some False), (''pending'', None)] t)) (\<lambda>paid.
          ret (status_of paid JNull JNull)))))))))))
       (\<lambda>e. ret pending_status)"

text \<open>The handler of an error status. Eclair answers 400 when it did not accept the invoice.\<close>

definition eclair_pay_refused :: "client \<Rightarrow> (backend, pay_answer) py" where
  "eclair_pay_refused cl =
     bindP (gets bk_response) (\<lambda>r.
     bindP (tryP (bindP (liftE (json_of r)) (\<lambda>v.
               case v of
                 JObj d \<Rightarrow> (case dget d ''error'' of
                     None \<Rightarrow> ret (unable_to_connect cl)
                   | Some m \<Rightarrow> if truth m then ret (Said (JStr (py_str (cl_show cl) m))) else ret (unable_to_connect cl))
               | _ \<Rightarrow> ret (unable_to_connect cl)))
              (\<lambda>e. if e = JSONDecodeError then ret (unable_to_connect cl) else throw e)) (\<lambda>m.
     ret (pay_error (if rp_status r = 400 \<or> payment_request_was_rejected (rp_status r) then Some False else None) m)))"

text \<open>The \<open>try\<close> block: either an answer or the checking id and preimage of a payment under way.\<close>

definition eclair_pay_request :: "client \<Rightarrow> string \<Rightarrow> (backend, pay_answer + (jval \<times> jval)) py" where
  "eclair_pay_request cl bolt11 =
     tryP
       (bindP (http_post ''/payinvoice'' [(''invoice'', JStr bolt11), (''blocking'', JBool True)]) (\<lambda>r.
        thenP (raise_for_status r)
        (bindP (liftE (json_of r)) (\<lambda>data.
         bindP (liftE (contains data ''error'')) (\<lambda>failed.
         if failed then bindP (liftE (item data ''error'')) (\<lambda>m. ret (Inl (pay_error None (Said m))))
         else if is_error r then ret (Inl (pay_error None (Said (JStr (rp_text r)))))
         else bindP (liftE (item data ''type'')) (\<lambda>t.
              if t = JStr ''payment-failed'' then ret (Inl (pay_error (Some False) (Formatted ''payment failed'' [])))
              else bindP (liftE (item data ''paymentHash'')) (\<lambda>checking_id.
                   bindP (liftE (item data ''paymentPreimage'')) (\<lambda>preimage.
                   ret (Inr (checking_id, preimage))))))))))
       (\<lambda>e. if e = HTTPStatusError then bindP (eclair_pay_refused cl) (\<lambda>a. ret (Inl a))
            else if e = JSONDecodeError then ret (Inl (pay_error None invalid_json))
            else if e = KeyError then ret (Inl (pay_error None missing_fields))
            else ret (Inl (pay_error None (unable_to_connect cl))))"

definition eclair_pay_invoice :: "client \<Rightarrow> string \<Rightarrow> int \<Rightarrow> (backend, pay_answer) py" where
  "eclair_pay_invoice cl bolt11 fee_limit_msat =
     bindP (eclair_pay_request cl bolt11) (\<lambda>x.
     case x of
       Inl a \<Rightarrow> ret a
     | Inr (checking_id, preimage) \<Rightarrow>
         bindP (eclair_get_payment_status cl (py_str (cl_show cl) checking_id)) (\<lambda>st.
         ret (pay_result (if sa_paid st = JBool True then Some True else None) checking_id (sa_fee_msat st) preimage)))"

definition eclair_stream_message :: "jval \<Rightarrow> exn + jval option" where
  "eclair_stream_message message =
     (if \<not> truth message then Inr None
      else case item message ''type'' of
        Inl e \<Rightarrow> Inl e
      | Inr t \<Rightarrow> if t = JStr ''payment-received'' then map_sum id Some (item message ''paymentHash'') else Inr None)"

section \<open>The contract\<close>

definition eclair_dispatch :: "request \<Rightarrow> bool" where
  "eclair_dispatch q \<longleftrightarrow> rq_verb q = ''POST'' \<and> rq_url q = ''/payinvoice''"

definition eclair_refusal :: "reply \<Rightarrow> bool" where
  "eclair_refusal r \<longleftrightarrow>
     rp_status r = 400 \<or> rejection r \<or> (is_success r \<and> body r [''type''] = Some (JStr ''payment-failed''))"

text \<open>What the last entry of the list of parts of a payment says.\<close>

definition eclair_sent :: "string \<Rightarrow> reply \<Rightarrow> bool" where
  "eclair_sent w r \<longleftrightarrow>
     is_success r \<and> (case rp_json r of
        Some (JList l) \<Rightarrow> l \<noteq> [] \<and> path (last l) [''status'', ''type''] = Some (JStr w) | _ \<Rightarrow> False)"

lemmas eclair_evidence = eclair_dispatch_def eclair_refusal_def eclair_sent_def rejection_def says_def body_def

lemma final_item_object [json]: "final_item v = Inr (JObj d) \<longleftrightarrow> (\<exists>l. v = JList l \<and> l \<noteq> [] \<and> last l = JObj d)"
  by (auto simp: final_item_def split: jval.splits)

lemma error_not_success: "is_success r \<Longrightarrow> \<not> is_error r"
  by (simp add: is_success_def is_error_def)

interpretation eclair_payments:
  status_backend "eclair_get_payment_status cl" eclair_dispatch "eclair_sent ''sent''" "eclair_sent ''failed''" for cl
  by unfold_locales
    (auto simp: eclair_get_payment_status_def eclair_evidence exchanged_def wp_rule wp_http json error_not_success
       split: option.splits prod.splits)

interpretation eclair_invoices:
  status_backend "eclair_get_invoice_status cl" eclair_dispatch "says [''status'', ''type''] {''received''}"
    "says [''status'', ''type''] {''expired''}" for cl
  by unfold_locales
    (auto simp: eclair_get_invoice_status_def eclair_evidence exchanged_def wp_rule wp_http json error_not_success
       split: option.splits)

text \<open>After the request either the answer is known, or the node took the payment and the query decides.\<close>

lemma eclair_pay_request:
  "wp (eclair_pay_request cl b)
     (\<lambda>x t. \<exists>q y. bk_sent t = bk_sent s @ [(q, y)] \<and>
        (case x of Inl a \<Rightarrow> honest eclair_dispatch eclair_refusal (eclair_sent ''sent'') [(q, y)] (an_ok a)
         | Inr p \<Rightarrow> True))
     (\<lambda>e t. \<exists>q y. bk_sent t = bk_sent s @ [(q, y)]) s"
  by (auto simp: eclair_pay_request_def eclair_pay_refused_def eclair_evidence honest_def wp_rule wp_http json)

interpretation eclair: paying_backend "eclair_pay_invoice cl" eclair_dispatch eclair_refusal "eclair_sent ''sent''" for cl
proof
  fix b fee s
  show "wp (eclair_pay_invoice cl b fee)
       (\<lambda>a t. honest eclair_dispatch eclair_refusal (eclair_sent ''sent'') (exchanged s t) (an_ok a)
          \<and> dispatches_once eclair_dispatch (exchanged s t))
       (\<lambda>e t. dispatches_once eclair_dispatch (exchanged s t)) s"
    unfolding eclair_pay_invoice_def wp_bindP
    by (rule wp_weaken [OF eclair_pay_request])
      (auto simp: wp_rule exchanged_def dispatches_once_def honest_def answered_Cons split: sum.splits
        intro!: eclair_payments.wp_query)
qed

end
