(* ===== verification/SparkBackend.thy ===== *)
theory SparkBackend
  imports BackendContract UserModel
begin

text \<open>
  \<open>lnbits/wallets/spark.py\<close>: a Spark server in front of a Core Lightning node. The two exceptions of the module
  are \<open>UnknownError\<close> and \<open>SparkError\<close>; what they say is not told apart in error messages.
\<close>

abbreviation "UnknownError \<equiv> OtherError ''UnknownError''"
abbreviation "SparkError \<equiv> OtherError ''SparkError''"
abbreviation "spark_message \<equiv> Formatted ''{exc}'' []"

text \<open>\<open>s.replace(old, "")\<close>; the number counts the characters of an occurrence still to be dropped.\<close>

fun remove_text :: "string \<Rightarrow> nat \<Rightarrow> string \<Rightarrow> string" where
  "remove_text old n [] = []"
| "remove_text old (Suc n) (c # cs) = remove_text old n cs"
| "remove_text old 0 (c # cs) =
     (if old \<noteq> [] \<and> startswith (c # cs) old then remove_text old (length old - 1) cs
      else c # remove_text old 0 cs)"

definition spark_init :: "string option \<Rightarrow> string option \<Rightarrow> exn + string \<times> string" where
  "spark_init url token =
     (case init_client ''cannot initialize SparkWallet: missing spark_url'' url
             ''cannot initialize SparkWallet: missing spark_token'' token of
        Inl e \<Rightarrow> Inl e
      | Inr (u, t) \<Rightarrow> Inr (remove_text ''/rpc'' 0 u, t))"

text \<open>A call of the server, \<open>self.<key>(\<dots>)\<close>. Every exception of the request is turned into an \<open>UnknownError\<close>.\<close>

definition spark_call :: "string \<Rightarrow> jval \<Rightarrow> (backend, jval) py" where
  "spark_call key params =
     bindP (tryP (bindP (http_post ''/rpc'' [(''method'', JStr key), (''params'', params)]) (\<lambda>r.
              thenP (raise_for_status r) (ret r)))
              (\<lambda>e. throw UnknownError)) (\<lambda>r.
     bindP (tryP (liftE (json_of r)) (\<lambda>e. throw UnknownError)) (\<lambda>data.
     if is_error r then
       thenP (failIf (rp_status r = 401) SparkError)
       (bindP (liftE (item data ''message'')) (\<lambda>m. throw SparkError))
     else ret data))"

definition spark_error :: "exn \<Rightarrow> bool" where
  "spark_error e \<longleftrightarrow> e = UnknownError \<or> e = SparkError"

text \<open>\<open>[ch["channel_sat"] * 1000 for ch in \<dots>]\<close>\<close>

fun spark_channels :: "jval list \<Rightarrow> exn + jval list" where
  "spark_channels [] = Inr []"
| "spark_channels (c # cs) =
     (case item c ''channel_sat'' of Inl e \<Rightarrow> Inl e
      | Inr x \<Rightarrow> (case times x 1000 of Inl e \<Rightarrow> Inl e
          | Inr v \<Rightarrow> (case spark_channels cs of Inl e \<Rightarrow> Inl e | Inr vs \<Rightarrow> Inr (v # vs))))"

definition spark_status :: "(backend, source_status) py" where
  "spark_status =
     bindP (tryP (bindP (spark_call ''listfunds'' (JObj [])) (\<lambda>f. ret (Some f)))
              (\<lambda>e. if spark_error e then ret None else throw e)) (\<lambda>found.
     case found of
       None \<Rightarrow> ret (source_error spark_message)
     | Some funds \<Rightarrow>
         bindP (liftE (item funds ''channels'')) (\<lambda>v.
         bindP (liftE (elements v)) (\<lambda>cs.
         bindP (liftE (spark_channels cs)) (\<lambda>vs.
         bindP (liftE (sum_values (JInt 0) vs)) (\<lambda>total. ret (source_balance total))))))"

text \<open>\<open>label\<close> is \<open>lbs\<close> with a random token.\<close>

definition spark_create_invoice ::
  "client \<Rightarrow> string \<Rightarrow> int \<Rightarrow> string option \<Rightarrow> byte list option \<Rightarrow> byte list option \<Rightarrow> int option
     \<Rightarrow> (backend, invoice_answer) py" where
  "spark_create_invoice cl label amount memo description_hash unhashed_description expiry =
     tryP
       (bindP (if given description_hash \<or> given unhashed_description
               then spark_call ''invoicewithdescriptionhash''
                 (JObj [(''msatoshi'', JInt (amount * 1000)), (''label'', JStr label),
                    (''description_hash'', JStr (bytes_hex (
                       if given description_hash then the description_hash
                       else cl_sha256 cl (the unhashed_description))))])
               else spark_call ''invoice''
                 (JObj [(''msatoshi'', JInt (amount * 1000)), (''label'', JStr label),
                    (''description'', JStr (the (orElse memo (Some [])))), (''exposeprivatechannels'', JBool True),
                    (''expiry'', (case expiry of None \<Rightarrow> JNull | Some x \<Rightarrow> JInt x))])) (\<lambda>r.
        bindP (liftE (item r ''bolt11'')) (\<lambda>payment_request.
        bindP (liftE (get r ''preimage'')) (\<lambda>preimage.
        ret (invoice_result (JStr label) payment_request preimage)))))
       (\<lambda>e. if spark_error e then ret (invoice_error spark_message) else throw e)"

text \<open>\<open>-int(sent - amount)\<close>\<close>

definition spark_fee :: "jval \<Rightarrow> jval \<Rightarrow> exn + jval" where
  "spark_fee sent amount =
     (case difference sent amount of Inl e \<Rightarrow> Inl e
      | Inr d \<Rightarrow> (case int_of d of Inl e \<Rightarrow> Inl e | Inr i \<Rightarrow> Inr (JInt (- i))))"

text \<open>\<open>int(v[0:-4])\<close>: the number before the unit \<open>msat\<close>.\<close>

definition msat_number :: "jval \<Rightarrow> exn + int" where
  "msat_number v = (case cut_suffix4 v of Inl e \<Rightarrow> Inl e | Inr w \<Rightarrow> int_of w)"

text \<open>After an error the node is asked what it knows of the payment.\<close>

definition spark_recover :: "client \<Rightarrow> string \<Rightarrow> (backend, pay_answer) py" where
  "spark_recover cl bolt11 =
     bindP (tryP (bindP (spark_call ''listpays'' (JList [JStr bolt11])) (\<lambda>v. ret (Some v)))
              (\<lambda>e. if spark_error e then ret None else throw e)) (\<lambda>found.
     case found of
       None \<Rightarrow> ret (pay_error None spark_message)
     | Some listpays \<Rightarrow>
         if \<not> truth listpays then ret (pay_error None spark_message)
         else bindP (liftE (get listpays ''pays'')) (\<lambda>pays.
           case pays of
             JList l \<Rightarrow>
               (if l = [] then ret (pay_error (Some False) spark_message)
                else let pay = hd l in
                  bindP (liftE (item pay ''payment_hash'')) (\<lambda>payment_hash.
                  if length l > 1
                  then ret (pay_error None (Formatted ''listpays({}) returned an unexpected response: {}'' [payment_hash, listpays]))
                  else
                    bindP (liftE (item pay ''status'')) (\<lambda>st.
                    if st = JStr ''failed'' then ret (pay_error (Some False) spark_message)
                    else if st = JStr ''pending'' then ret (pay_result None payment_hash JNull JNull)
                    else if st = JStr ''complete'' then
                      bindP (liftE (item pay ''preimage'')) (\<lambda>preimage.
                      bindP (liftE (item pay ''amount_msat'')) (\<lambda>a.
                      bindP (liftE (msat_number a)) (\<lambda>msatoshi.
                      bindP (liftE (item pay ''amount_sent_msat'')) (\<lambda>b.
                      bindP (liftE (msat_number b)) (\<lambda>msatoshi_sent.
                      ret (pay_result (Some True) payment_hash (JInt (- (msatoshi_sent - msatoshi))) preimage))))))
                    else ret (pay_error None spark_message))))
           | _ \<Rightarrow> ret (pay_error None spark_message)))"

definition spark_pay_invoice :: "client \<Rightarrow> string \<Rightarrow> int \<Rightarrow> (backend, pay_answer) py" where
  "spark_pay_invoice cl bolt11 fee_limit_msat =
     tryP
       (bindP (spark_call ''pay'' (JObj [(''bolt11'', JStr bolt11), (''maxfee'', JInt fee_limit_msat)])) (\<lambda>r.
        bindP (liftE (item r ''msatoshi_sent'')) (\<lambda>sent.
        bindP (liftE (item r ''msatoshi'')) (\<lambda>amount.
        bindP (liftE (spark_fee sent amount)) (\<lambda>fee_msat.
        bindP (liftE (item r ''payment_preimage'')) (\<lambda>preimage.
        bindP (liftE (item r ''payment_hash'')) (\<lambda>checking_id.
        ret (pay_result (Some True) checking_id fee_msat preimage))))))))
       (\<lambda>e. if spark_error e then spark_recover cl bolt11 else throw e)"

definition spark_get_invoice_status :: "client \<Rightarrow> string \<Rightarrow> (backend, status_answer) py" where
  "spark_get_invoice_status cl checking_id =
     bindP (tryP (bindP (spark_call ''listinvoices'' (JObj [(''label'', JStr checking_id)])) (\<lambda>v. ret (Some v)))
              (\<lambda>e. if spark_error e then ret None else throw e)) (\<lambda>found.
     case found of
       None \<Rightarrow> ret pending_status
     | Some r \<Rightarrow>
         if \<not> truth r then ret pending_status
         else bindP (liftE (get r ''invoices'')) (\<lambda>invoices.
           if \<not> truth invoices then ret pending_status
           else bindP (liftE (first_item invoices)) (\<lambda>invoice.
                bindP (liftE (item invoice ''status'')) (\<lambda>st.
                if st = JStr ''paid'' then ret (status_of (Some True) JNull JNull)
                else if st = JStr ''expired'' then ret failed_status
                else ret pending_status))))"

definition spark_get_payment_status :: "client \<Rightarrow> string \<Rightarrow> (backend, status_answer) py" where
  "spark_get_payment_status cl checking_id =
     (if length checking_id \<noteq> 64 \<or> \<not> int16_ok checking_id then ret pending_status
      else
        bindP (tryP (bindP (spark_call ''listpays'' (JObj [(''payment_hash'', JStr checking_id)])) (\<lambda>v. ret (Some v)))
                 (\<lambda>e. if spark_error e then ret None else throw e)) (\<lambda>found.
        case found of
          None \<Rightarrow> ret pending_status
        | Some r \<Rightarrow>
            bindP (liftE (item r ''pays'')) (\<lambda>pays.
            if \<not> truth pays then ret failed_status
            else
              bindP (liftE (first_item pays)) (\<lambda>pay.
              bindP (liftE (item pay ''payment_hash'')) (\<lambda>h.
              if h = JStr checking_id then
                bindP (liftE (item pay ''status'')) (\<lambda>st.
                if st = JStr ''complete'' then
                  bindP (liftE (item pay ''amount_sent_msat'')) (\<lambda>b.
                  bindP (liftE (msat_number b)) (\<lambda>sent.
                  bindP (liftE (item pay ''amount_msat'')) (\<lambda>a.
                  bindP (liftE (msat_number a)) (\<lambda>amount.
                  bindP (liftE (item pay ''preimage'')) (\<lambda>preimage.
                  ret (status_of (Some True) (JInt (- (sent - amount))) preimage))))))
                else if st = JStr ''failed'' then ret failed_status
                else ret pending_status)
              else ret pending_status)))))"

text \<open>One line of the event stream: \<open>None\<close> outside where the JSON text is broken or the access raises.\<close>

definition spark_stream_line :: "(string \<Rightarrow> jval option) \<Rightarrow> string \<Rightarrow> exn + jval option" where
  "spark_stream_line json_loads line =
     (if \<not> startswith line ''data:'' then Inr None
      else case json_loads (drop 5 line) of
        None \<Rightarrow> Inl JSONDecodeError
      | Some data \<Rightarrow>
          (case contains data ''pay_index'' of
             Inl e \<Rightarrow> Inl e
           | Inr False \<Rightarrow> Inr None
           | Inr True \<Rightarrow>
               (case get data ''status'' of
                  Inl e \<Rightarrow> Inl e
                | Inr st \<Rightarrow> if st = JStr ''paid'' then map_sum id Some (item data ''label'') else Inr None)))"

section \<open>The contract\<close>

definition spark_dispatch :: "request \<Rightarrow> bool" where
  "spark_dispatch q \<longleftrightarrow> rq_url q = ''/rpc'' \<and> path (rq_body q) [''method''] = Some (JStr ''pay'')"

definition spark_refusal :: "reply \<Rightarrow> bool" where
  "spark_refusal r \<longleftrightarrow> list_empty ''pays'' r \<or> first_says ''pays'' {''failed''} r"

definition spark_receipt :: "reply \<Rightarrow> bool" where
  "spark_receipt r \<longleftrightarrow> is_success r \<and>
     (body r [''payment_preimage''] \<noteq> None \<and> body r [''payment_hash''] \<noteq> None \<or> first_says ''pays'' {''complete''} r)"

lemmas spark_evidence =
  spark_dispatch_def list_empty_def first_says_def spark_refusal_def spark_receipt_def body_def

lemma spark_dispatch_call:
  "spark_dispatch \<lparr>rq_verb = v, rq_url = u, rq_body = JObj ((''method'', JStr k) # ps)\<rparr> \<longleftrightarrow> u = ''/rpc'' \<and> k = ''pay''"
  by (simp add: spark_dispatch_def dget_def)

text \<open>One request per call, and a result only from a success.\<close>

lemma wp_spark_call:
  assumes "\<And>r v t. is_success r \<Longrightarrow> rp_json r = Some v \<Longrightarrow>
      bk_sent t = bk_sent s @ [(\<lparr>rq_verb = ''POST'', rq_url = ''/rpc'', rq_body = JObj [(''method'', JStr key), (''params'', p)]\<rparr>, Answer r)] \<Longrightarrow> Q v t"
    and "\<And>x t. bk_sent t = bk_sent s @ [(\<lparr>rq_verb = ''POST'', rq_url = ''/rpc'', rq_body = JObj [(''method'', JStr key), (''params'', p)]\<rparr>, x)] \<Longrightarrow> E UnknownError t"
  shows "wp (spark_call key p) Q E s"
  using assms by (auto simp: spark_call_def wp_rule wp_http json is_success_def is_error_def)

lemma spark_errors [simp]: "spark_error UnknownError" "spark_error SparkError"
  "\<not> spark_error KeyError" "\<not> spark_error TypeError" "\<not> spark_error AttributeError"
  by (simp_all add: spark_error_def)

lemma spark_error_case [simp]: "\<not> spark_error (case v of JObj d \<Rightarrow> KeyError | _ \<Rightarrow> TypeError)"
  by (simp split: jval.split)

lemma spark_fee_error: "spark_fee a b = Inl e \<Longrightarrow> \<not> spark_error e"
  by (auto simp: spark_fee_def difference_def int_of_def spark_error_def
      split: sum.splits option.splits jval.splits)

interpretation spark_invoices:
  status_backend "spark_get_invoice_status cl" spark_dispatch "first_says ''invoices'' {''paid''}"
    "first_says ''invoices'' {''expired''}" for cl
  by unfold_locales
    (auto simp: spark_get_invoice_status_def spark_evidence exchanged_def wp_rule json dget_def split: option.splits
       intro!: wp_spark_call)

interpretation spark_payments:
  status_backend "spark_get_payment_status cl" spark_dispatch "first_says ''pays'' {''complete''}" spark_refusal for cl
  by unfold_locales
    (auto simp: spark_get_payment_status_def spark_evidence exchanged_def wp_rule json dget_def split: option.splits
       intro!: wp_spark_call)

text \<open>Looking a payment up settles it by what the list says.\<close>

lemma spark_recover:
  "wp (spark_recover cl b)
     (\<lambda>a t. (filter (spark_dispatch \<circ> fst) (exchanged s t) = []
        \<and> (an_ok a = Some False \<longrightarrow> answered spark_refusal (exchanged s t))
        \<and> (an_ok a = Some True \<longrightarrow> answered spark_receipt (exchanged s t))) \<and> bk_sent t = bk_sent s @ exchanged s t)
     (\<lambda>e t. filter (spark_dispatch \<circ> fst) (exchanged s t) = [] \<and> bk_sent t = bk_sent s @ exchanged s t) s"
  by (auto simp: spark_recover_def spark_evidence wp_rule json dget_def Let_def first_item_def exchanged_def
      split: option.splits intro!: wp_spark_call)

lemmas wp_spark_recover = wp_step [OF spark_recover]

interpretation spark: paying_backend "spark_pay_invoice cl" spark_dispatch spark_refusal spark_receipt for cl
proof
  fix b fee s
  show "wp (spark_pay_invoice cl b fee)
       (\<lambda>a t. honest spark_dispatch spark_refusal spark_receipt (exchanged s t) (an_ok a)
          \<and> dispatches_once spark_dispatch (exchanged s t))
       (\<lambda>e t. dispatches_once spark_dispatch (exchanged s t)) s"
    unfolding spark_pay_invoice_def wp_tryP wp_bindP
  proof (rule wp_spark_call, goal_cases)
    case (1 r v t)
    then show ?case
      by (auto simp: spark_receipt_def body_def wp_rule json exchanged_def honest_def dispatches_once_def
          dest: spark_fee_error split: if_splits)
  next
    case (2 x t)
    show ?case
      unfolding if_P [OF spark_errors(1)]
      by (rule wp_spark_recover)
        (use 2 in \<open>auto simp: exchanged_def honest_def dispatches_once_def answered_Cons spark_dispatch_call comp_def\<close>)
  qed
qed

end
