(* ===== verification/ClnRestBackends.thy ===== *)
theory ClnRestBackends
  imports BackendContract
begin

text \<open>
  \<open>lnbits/wallets/corelightningrest.py\<close> and \<open>lnbits/wallets/clnrest.py\<close>: two REST servers in front of a Core
  Lightning node. \<open>decode\<close> is \<open>bolt11.decode\<close>, \<open>None\<close> where it raises a \<open>Bolt11Exception\<close>; labels and preimages
  are the random values the code generates. Certificates and headers are not modelled.
\<close>

definition cln_statuses :: "(string \<times> bool option) list" where
  "cln_statuses = [(''paid'', Some True), (''complete'', Some True), (''failed'', Some False), (''pending'', None)]"

text \<open>What \<open>pay_invoice\<close> of both classes asks of the invoice before anything is sent.\<close>

definition cln_payable :: "(string \<Rightarrow> bolt11 option) \<Rightarrow> string \<Rightarrow> pay_answer + bolt11" where
  "cln_payable decode bolt =
     (case decode bolt of
        None \<Rightarrow> Inl (pay_error (Some False) (Formatted ''{exc}'' []))
      | Some invoice \<Rightarrow>
          (case b_amount_msat invoice of
             None \<Rightarrow> Inl (pay_error (Some False) (Formatted ''0 amount invoices are not allowed'' []))
           | Some a \<Rightarrow>
               if a \<le> 0 then Inl (pay_error (Some False) (Formatted ''0 amount invoices are not allowed'' []))
               else Inr invoice))"

text \<open>The label, description and optional fields of an invoice. A hash of a description is refused.\<close>

definition cln_invoice_data ::
  "string \<Rightarrow> string \<Rightarrow> string \<Rightarrow> int \<Rightarrow> string option \<Rightarrow> byte list option \<Rightarrow> byte list option \<Rightarrow> int option
     \<Rightarrow> exn + (string \<times> jval) list" where
  "cln_invoice_data amount_key label preimage amount memo description_hash unhashed_description expiry =
     (if given description_hash \<and> \<not> given unhashed_description then Inl UnsupportedError
      else case (if given unhashed_description then map_sum id JStr (bytes_text (the unhashed_description))
                 else Inr (case memo of None \<Rightarrow> JNull | Some m \<Rightarrow> JStr m)) of
        Inl e \<Rightarrow> Inl e
      | Inr description \<Rightarrow> Inr (
          [(amount_key, JInt (amount * 1000)), (''description'', description), (''label'', JStr label)]
          @ (if expiry \<notin> {None, Some 0} then [(''expiry'', JInt (the expiry))] else [])
          @ [(''preimage'', JStr preimage)]))"

section \<open>CoreLightningRestWallet\<close>

definition corelightningrest_status :: "client \<Rightarrow> (backend, source_status) py" where
  "corelightningrest_status cl =
     tryP
       (bindP (http_get (cl_endpoint cl @ ''/v1/channel/localremotebal'')) (\<lambda>r.
        thenP (raise_for_status r)
        (bindP (liftE (json_of r)) (\<lambda>data.
         bindP (liftE (len_of data)) (\<lambda>n.
         if n = 0 then ret (source_error (Formatted ''no data'' []))
         else bindP (liftE (contains data ''error'')) (\<lambda>failed.
           if failed then bindP (liftE (item data ''error'')) (\<lambda>m. ret (source_error (Formatted ''Server error: {}'' [m])))
           else bindP (if is_error r then ret True
                       else bindP (liftE (contains data ''localBalance'')) (\<lambda>c. ret (\<not> c))) (\<lambda>bad.
             if bad then ret (source_error (Formatted ''Server error: {}'' [JStr (rp_text r)]))
             else bindP (liftE (get data ''localBalance'')) (\<lambda>b.
                  bindP (liftE (times b 1000)) (\<lambda>v.
                  bindP (liftE (int_of v)) (\<lambda>i. ret (source_balance (JInt i))))))))))))
       (\<lambda>e. if e = JSONDecodeError then ret (source_error invalid_json)
            else ret (source_error (unable_to_connect cl)))"

definition corelightningrest_create_invoice ::
  "client \<Rightarrow> string \<Rightarrow> string \<Rightarrow> int \<Rightarrow> string option \<Rightarrow> byte list option \<Rightarrow> byte list option \<Rightarrow> int option
     \<Rightarrow> (backend, invoice_answer) py" where
  "corelightningrest_create_invoice cl label preimage amount memo description_hash unhashed_description expiry =
     bindP (liftE (cln_invoice_data ''amount'' label preimage amount memo description_hash unhashed_description expiry)) (\<lambda>d.
     tryP
       (bindP (http_post (cl_endpoint cl @ ''/v1/invoice/genInvoice'') d) (\<lambda>r.
        thenP (raise_for_status r)
        (bindP (liftE (json_of r)) (\<lambda>data.
         bindP (liftE (len_of data)) (\<lambda>n.
         if n = 0 then ret (invoice_error (Formatted ''no data'' []))
         else bindP (liftE (contains data ''error'')) (\<lambda>failed.
           if failed then bindP (liftE (item data ''error'')) (\<lambda>m. ret (invoice_error (Formatted ''Server error: {}'' [m])))
           else if is_error r then ret (invoice_error (Formatted ''Server error: {}'' [JStr (rp_text r)]))
           else bindP (liftE (contains data ''payment_hash'')) (\<lambda>a.
                bindP (if a then liftE (contains data ''bolt11'') else ret False) (\<lambda>b.
                if \<not> b then ret (invoice_error missing_fields)
                else bindP (liftE (item data ''payment_hash'')) (\<lambda>checking_id.
                     bindP (liftE (item data ''bolt11'')) (\<lambda>payment_request.
                     ret (invoice_result checking_id payment_request (JStr preimage))))))))))))
       (\<lambda>e. if e = JSONDecodeError then ret (invoice_error invalid_json)
            else ret (invoice_error (unable_to_connect cl))))"

definition corelightningrest_failure_codes :: "int set" where
  "corelightningrest_failure_codes = {-32602, 201, 203, 205, 206, 207, 210}"

text \<open>The handler of an error status of the payment request.\<close>

definition corelightningrest_refused :: "client \<Rightarrow> (backend, pay_answer) py" where
  "corelightningrest_refused cl =
     tryP
       (bindP (gets bk_response) (\<lambda>r.
        bindP (liftE (json_of r)) (\<lambda>data.
        bindP (liftE (item data ''error'')) (\<lambda>err.
        bindP (liftE (item err ''code'')) (\<lambda>c.
        bindP (liftE (int_of c)) (\<lambda>code.
        bindP (liftE (item err ''message'')) (\<lambda>m.
        if code \<in> corelightningrest_failure_codes then ret (pay_error (Some False) (Said m))
        else ret (pay_error None (Formatted ''REST failed with {}.'' [m])))))))))
       (\<lambda>e. ret (pay_error None (unable_to_connect cl)))"

definition corelightningrest_pay_invoice ::
  "(string \<Rightarrow> bolt11 option) \<Rightarrow> client \<Rightarrow> string \<Rightarrow> int \<Rightarrow> (backend, pay_answer) py" where
  "corelightningrest_pay_invoice decode cl bolt fee_limit_msat =
     (case cln_payable decode bolt of
        Inl a \<Rightarrow> ret a
      | Inr invoice \<Rightarrow>
          tryP
            (bindP (http_post (cl_endpoint cl @ ''/v1/pay'')
                      [(''invoice'', JStr bolt), (''maxfee'', JInt fee_limit_msat)]) (\<lambda>r.
             thenP (raise_for_status r)
             (bindP (liftE (json_of r)) (\<lambda>data.
              bindP (liftE (item data ''status'')) (\<lambda>st.
              bindP (liftE (table_get cln_statuses st)) (\<lambda>ok.
              bindP (liftE (contains data ''payment_preimage'')) (\<lambda>has_preimage.
              if \<not> has_preimage then
                bindP (liftE (get data ''error'')) (\<lambda>m.
                ret (pay_error ok (Said (if truth m then m else JStr ''unknown error''))))
              else
                bindP (liftE (item data ''payment_hash'')) (\<lambda>checking_id.
                bindP (liftE (item data ''payment_preimage'')) (\<lambda>preimage.
                bindP (liftE (item data ''msatoshi_sent'')) (\<lambda>sent.
                bindP (liftE (item data ''msatoshi'')) (\<lambda>amount.
                bindP (liftE (difference sent amount)) (\<lambda>fee_msat.
                ret (pay_result ok checking_id fee_msat preimage)))))))))))))
            (\<lambda>e. if e = HTTPStatusError then corelightningrest_refused cl
                 else if e = JSONDecodeError then ret (pay_error None invalid_json)
                 else if e = KeyError then ret (pay_error None missing_fields)
                 else ret (pay_error None (unable_to_connect cl))))"

text \<open>The requests of the two queries stand before the \<open>try\<close>.\<close>

definition corelightningrest_get_invoice_status :: "client \<Rightarrow> string \<Rightarrow> (backend, status_answer) py" where
  "corelightningrest_get_invoice_status cl checking_id =
     bindP (send ''GET'' (cl_endpoint cl @ ''/v1/invoice/listInvoices'') (JObj [(''payment_hash'', JStr checking_id)])) (\<lambda>r.
     tryP
       (thenP (raise_for_status r)
        (bindP (liftE (json_of r)) (\<lambda>data.
         bindP (if is_error r then ret True else liftE (contains data ''error'')) (\<lambda>failed.
         bindP (if failed then ret True else bindP (liftE (get data ''invoices'')) (\<lambda>l. ret (l = JNull))) (\<lambda>bad.
         thenP (failIf bad (OtherError ''error in cln response''))
         (bindP (liftE (item data ''invoices'')) (\<lambda>l.
          bindP (liftE (first_item l)) (\<lambda>invoice.
          bindP (liftE (item invoice ''status'')) (\<lambda>st.
          bindP (liftE (table_get cln_statuses st)) (\<lambda>paid.
          ret (status_of paid JNull JNull)))))))))))
       (\<lambda>e. ret pending_status))"

definition corelightningrest_get_payment_status :: "client \<Rightarrow> string \<Rightarrow> (backend, status_answer) py" where
  "corelightningrest_get_payment_status cl checking_id =
     bindP (send ''GET'' (cl_endpoint cl @ ''/v1/pay/listPays'') (JObj [(''payment_hash'', JStr checking_id)])) (\<lambda>r.
     tryP
       (thenP (raise_for_status r)
        (bindP (liftE (json_of r)) (\<lambda>data.
         bindP (if is_error r then ret True else liftE (contains data ''error'')) (\<lambda>failed.
         bindP (if failed then ret True else bindP (liftE (get data ''pays'')) (\<lambda>l. ret (\<not> truth l))) (\<lambda>bad.
         thenP (failIf bad (OtherError ''error in corelightning-rest response''))
         (bindP (liftE (item data ''pays'')) (\<lambda>l.
          bindP (liftE (first_item l)) (\<lambda>pay.
          bindP (liftE (item pay ''status'')) (\<lambda>st.
          bindP (liftE (table_item cln_statuses st)) (\<lambda>paid.
          if paid = Some True then
            bindP (liftE (item pay ''amount_sent_msat'')) (\<lambda>b.
            bindP (liftE (cut_suffix4 b)) (\<lambda>b'.
            bindP (liftE (int_of b')) (\<lambda>sent.
            bindP (liftE (item pay ''amount_msat'')) (\<lambda>a.
            bindP (liftE (cut_suffix4 a)) (\<lambda>a'.
            bindP (liftE (int_of a')) (\<lambda>amount.
            bindP (liftE (item pay ''preimage'')) (\<lambda>preimage.
            ret (status_of paid (JInt (- sent - amount)) preimage))))))))
          else ret (status_of paid JNull JNull)))))))))))
       (\<lambda>e. ret pending_status))"

text \<open>\<open>"error" in inv and "message" in inv["error"]\<close> for a line of a stream.\<close>

definition stream_failed :: "jval \<Rightarrow> exn + bool" where
  "stream_failed line =
     (case contains line ''error'' of
        Inl e \<Rightarrow> Inl e
      | Inr failed \<Rightarrow>
          if failed then (case item line ''error'' of Inl e \<Rightarrow> Inl e | Inr x \<Rightarrow> contains x ''message'') else Inr False)"

text \<open>One line of the stream: the index to continue from and what is yielded. The invoice is looked up by its
  label, and the connection is given up when it is not paid.\<close>

definition corelightningrest_stream_line :: "client \<Rightarrow> jval \<Rightarrow> jval \<Rightarrow> (backend, jval \<times> jval option) py" where
  "corelightningrest_stream_line cl last_pay_index line =
     bindP (liftE (stream_failed line)) (\<lambda>failed.
     thenP (failIf failed (OtherError ''Exception''))
     (case (item line ''status'', item line ''pay_index'') of
        (Inr st, Inr i) \<Rightarrow>
          if st \<noteq> JStr ''paid'' then ret (i, None)
          else
            bindP (liftE (item line ''label'')) (\<lambda>lab.
            bindP (send ''GET'' (cl_endpoint cl @ ''/v1/invoice/listInvoices'') (JObj [(''label'', lab)])) (\<lambda>r.
            bindP (liftE (json_of r)) (\<lambda>data.
            bindP (liftE (item data ''invoices'')) (\<lambda>l.
            bindP (liftE (first_item l)) (\<lambda>invoice.
            bindP (liftE (item invoice ''status'')) (\<lambda>w.
            bindP (liftE (table_item cln_statuses w)) (\<lambda>paid.
            thenP (failIf (paid \<noteq> Some True) (ValueError ''streamed invoice not paid''))
            (bindP (liftE (item invoice ''payment_hash'')) (\<lambda>h. ret (i, Some h))))))))))
      | _ \<Rightarrow> ret (last_pay_index, None)))"

section \<open>CLNRestWallet\<close>

text \<open>\<open>channel.get("our_amount_msat", 0) for channel in channels\<close>\<close>

fun clnrest_amounts :: "jval list \<Rightarrow> exn + jval list" where
  "clnrest_amounts [] = Inr []"
| "clnrest_amounts (c # cs) =
     (case get_or c ''our_amount_msat'' (JInt 0) of Inl e \<Rightarrow> Inl e
      | Inr v \<Rightarrow> (case clnrest_amounts cs of Inl e \<Rightarrow> Inl e | Inr vs \<Rightarrow> Inr (v # vs)))"

definition clnrest_status :: "client \<Rightarrow> (backend, source_status) py" where
  "clnrest_status cl =
     tryP
       (bindP (http_post ''/v1/listfunds'' []) (\<lambda>r.
        thenP (raise_for_status r)
        (bindP (liftE (json_of r)) (\<lambda>data.
         if \<not> truth data then ret (source_error (Formatted ''no data'' []))
         else bindP (liftE (get_or data ''channels'' (JList []))) (\<lambda>channels.
              bindP (liftE (elements channels)) (\<lambda>cs.
              bindP (liftE (clnrest_amounts cs)) (\<lambda>vs.
              bindP (liftE (sum_values (JInt 0) vs)) (\<lambda>total. ret (source_balance total)))))))))
       (\<lambda>e. if e = JSONDecodeError then ret (source_error (Formatted ''Failed to decode JSON response from {}'' [JStr (cl_endpoint cl)]))
            else if e = TimeoutException then ret (source_error (Formatted ''Unable to connect due to timeout'' []))
            else if e = RequestError then ret (source_error (Formatted ''Unable to connect'' []))
            else if e = HTTPStatusError then
              bindP (gets bk_response) (\<lambda>r. ret (source_error (Formatted ''Failed with HTTP {}'' [JInt (int (rp_status r))])))
            else ret (source_error (unable_to_connect cl)))"

definition clnrest_create_invoice ::
  "string option \<Rightarrow> client \<Rightarrow> string \<Rightarrow> string \<Rightarrow> int \<Rightarrow> string option \<Rightarrow> byte list option \<Rightarrow> byte list option
     \<Rightarrow> int option \<Rightarrow> (backend, invoice_answer) py" where
  "clnrest_create_invoice invoice_rune cl label preimage amount memo description_hash unhashed_description expiry =
     (if \<not> truthy invoice_rune then ret (invoice_error (Formatted ''Unable to invoice without an invoice rune'' []))
      else
        bindP (liftE (cln_invoice_data ''amount_msat'' label preimage amount memo description_hash unhashed_description expiry)) (\<lambda>d.
        tryP
          (bindP (http_post ''/v1/invoice'' d) (\<lambda>r.
           thenP (raise_for_status r)
           (bindP (liftE (json_of r)) (\<lambda>data.
            bindP (liftE (contains data ''error'')) (\<lambda>failed.
            if failed then bindP (liftE (item data ''error'')) (\<lambda>m. ret (invoice_error (Said m)))
            else bindP (liftE (contains data ''payment_hash'')) (\<lambda>a.
                 bindP (if a then liftE (contains data ''bolt11'') else ret False) (\<lambda>b.
                 if \<not> b then ret (invoice_error missing_fields)
                 else bindP (liftE (item data ''payment_hash'')) (\<lambda>checking_id.
                      bindP (liftE (item data ''bolt11'')) (\<lambda>payment_request.
                      ret (invoice_result checking_id payment_request (JStr preimage)))))))))))
          (\<lambda>e. if e = JSONDecodeError then ret (invoice_error invalid_json)
               else ret (invoice_error (unable_to_connect cl)))))"

definition clnrest_failure_codes :: "int set" where
  "clnrest_failure_codes = {-32602, 203, 205, 206, 207, 210, 401}"

definition clnrest_refused :: "client \<Rightarrow> (backend, pay_answer) py" where
  "clnrest_refused cl =
     tryP
       (bindP (gets bk_response) (\<lambda>r.
        bindP (liftE (json_of r)) (\<lambda>data.
        bindP (liftE (get_or data ''error'' (JObj []))) (\<lambda>err.
        bindP (liftE (get_or err ''code'' (JInt 0))) (\<lambda>c.
        bindP (liftE (int_of c)) (\<lambda>code.
        bindP (liftE (get_or err ''message'' (JStr ''Unknown error''))) (\<lambda>m.
        ret (pay_error (if code \<in> clnrest_failure_codes then Some False else None) (Said m)))))))))
       (\<lambda>e. ret (pay_error None (Formatted ''Error parsing response from {}'' [JStr (cl_endpoint cl)])))"

text \<open>The runes decide whether and by which call a payment is made.\<close>

definition clnrest_pay_invoice ::
  "(string \<Rightarrow> bolt11 option) \<Rightarrow> string option \<Rightarrow> string option \<Rightarrow> string \<Rightarrow> client \<Rightarrow> string \<Rightarrow> int
     \<Rightarrow> (backend, pay_answer) py" where
  "clnrest_pay_invoice decode pay_rune renepay_rune label cl bolt fee_limit_msat =
     (case cln_payable decode bolt of
        Inl a \<Rightarrow> ret a
      | Inr invoice \<Rightarrow>
          if \<not> truthy pay_rune \<and> \<not> truthy renepay_rune
          then ret (pay_error (Some False) (Formatted ''Unable to pay invoice without a pay or renepay rune'' []))
          else
            tryP
              (bindP (http_post (if truthy renepay_rune then ''/v1/renepay'' else ''/v1/pay'')
                 [(''label'', JStr label),
                  (''description'', (case b_description invoice of None \<Rightarrow> JNull | Some d \<Rightarrow> JStr d)),
                  (''maxfee'', JInt fee_limit_msat),
                  (if truthy renepay_rune then ''invstring'' else ''bolt11'', JStr bolt)]) (\<lambda>r.
               thenP (raise_for_status r)
               (bindP (liftE (json_of r)) (\<lambda>data.
                bindP (liftE (contains data ''payment_preimage'')) (\<lambda>has_preimage.
                if \<not> has_preimage then
                  bindP (liftE (get_or data ''error'' (JStr ''No payment preimage in response''))) (\<lambda>m.
                  ret (pay_error None (Said m)))
                else
                  bindP (liftE (item data ''status'')) (\<lambda>st.
                  bindP (liftE (table_get cln_statuses st)) (\<lambda>ok.
                  bindP (liftE (item data ''payment_hash'')) (\<lambda>checking_id.
                  bindP (liftE (item data ''amount_sent_msat'')) (\<lambda>sent.
                  bindP (liftE (item data ''amount_msat'')) (\<lambda>amount.
                  bindP (liftE (difference sent amount)) (\<lambda>fee_msat.
                  bindP (liftE (item data ''payment_preimage'')) (\<lambda>preimage.
                  ret (pay_result ok checking_id fee_msat preimage)))))))))))))
              (\<lambda>e. if e = HTTPStatusError then clnrest_refused cl
                   else ret (pay_error None (unable_to_connect cl))))"

definition clnrest_get_invoice_status :: "client \<Rightarrow> string \<Rightarrow> (backend, status_answer) py" where
  "clnrest_get_invoice_status cl checking_id =
     tryP
       (bindP (http_post ''/v1/listinvoices'' [(''payment_hash'', JStr checking_id)]) (\<lambda>r.
        thenP (raise_for_status r)
        (bindP (liftE (json_of r)) (\<lambda>data.
         bindP (if is_error r then ret True else liftE (contains data ''error'')) (\<lambda>failed.
         bindP (if failed then ret True else bindP (liftE (get data ''invoices'')) (\<lambda>l. ret (l = JNull))) (\<lambda>bad.
         if bad then ret pending_status
         else
           bindP (liftE (item data ''invoices'')) (\<lambda>l.
           bindP (liftE (first_item l)) (\<lambda>invoice.
           bindP (liftE (item invoice ''status'')) (\<lambda>st.
           bindP (liftE (table_get cln_statuses st)) (\<lambda>paid.
           bindP (liftE (get_or invoice ''amount_received_msat'' (JInt 0))) (\<lambda>received.
           bindP (liftE (get_or invoice ''amount_msat'' (JInt 0))) (\<lambda>amount.
           bindP (liftE (difference received amount)) (\<lambda>fee_msat.
           bindP (liftE (get invoice ''preimage'')) (\<lambda>preimage.
           ret (status_of paid fee_msat preimage)))))))))))))))
       (\<lambda>e. ret pending_status)"

definition clnrest_get_payment_status :: "client \<Rightarrow> string \<Rightarrow> (backend, status_answer) py" where
  "clnrest_get_payment_status cl checking_id =
     tryP
       (bindP (http_post ''/v1/listpays'' [(''payment_hash'', JStr checking_id)]) (\<lambda>r.
        thenP (raise_for_status r)
        (bindP (liftE (json_of r)) (\<lambda>data.
         bindP (if is_error r then ret True else liftE (contains data ''error'')) (\<lambda>failed.
         if failed then ret pending_status
         else
           bindP (liftE (get_or data ''pays'' (JList []))) (\<lambda>pays.
           if \<not> truth pays then ret pending_status
           else
             bindP (liftE (len_of pays)) (\<lambda>n.
             if n \<noteq> 1 then ret pending_status
             else
               bindP (liftE (final_item pays)) (\<lambda>pay.
               bindP (liftE (get pay ''status'')) (\<lambda>st.
               if st = JStr ''complete'' then
                 bindP (liftE (item pay ''amount_sent_msat'')) (\<lambda>sent.
                 bindP (liftE (item pay ''amount_msat'')) (\<lambda>amount.
                 bindP (liftE (difference sent amount)) (\<lambda>fee_msat.
                 bindP (liftE (item pay ''preimage'')) (\<lambda>preimage.
                 ret (status_of (Some True) fee_msat preimage)))))
               else if st = JStr ''failed'' then ret failed_status
               else ret pending_status)))))))))
       (\<lambda>e. ret pending_status)"

text \<open>One line of the stream: the index to continue from and what is yielded. \<open>None\<close> is a line that is skipped
  after the index may have moved on.\<close>

definition clnrest_stream_line :: "jval \<Rightarrow> jval \<Rightarrow> exn + jval \<times> jval option" where
  "clnrest_stream_line last_pay_index line =
     (case stream_failed line of
        Inl e \<Rightarrow> Inl e
      | Inr True \<Rightarrow> Inl (OtherError ''Exception'')
      | Inr False \<Rightarrow>
          (case item line ''status'' of
             Inl e \<Rightarrow> Inr (last_pay_index, None)
           | Inr st \<Rightarrow>
               (case item line ''pay_index'' of
                  Inl e \<Rightarrow> Inr (last_pay_index, None)
                | Inr i \<Rightarrow>
                    if st \<noteq> JStr ''paid'' then Inr (i, None)
                    else (case item line ''payment_hash'' of Inl e \<Rightarrow> Inr (i, None) | Inr h \<Rightarrow> Inr (i, Some h)))))"

section \<open>The contract\<close>

definition cln_dispatch :: "string set \<Rightarrow> request \<Rightarrow> bool" where
  "cln_dispatch urls q \<longleftrightarrow> rq_verb q = ''POST'' \<and> rq_url q \<in> urls"

text \<open>An error status with a code of the list, or a status word of the payment itself.\<close>

definition cln_code :: "int set \<Rightarrow> reply \<Rightarrow> bool" where
  "cln_code codes r \<longleftrightarrow> \<not> is_success r \<and>
     (case body r [''error'', ''code''] of None \<Rightarrow> False | Some c \<Rightarrow>
        (case int_of c of Inl e \<Rightarrow> False | Inr i \<Rightarrow> i \<in> codes))"

definition cln_word :: "string set \<Rightarrow> reply \<Rightarrow> bool" where
  "cln_word words r \<longleftrightarrow> is_success r \<and> (case body r [''status''] of Some (JStr w) \<Rightarrow> w \<in> words | _ \<Rightarrow> False)"

definition cln_refusal :: "int set \<Rightarrow> reply \<Rightarrow> bool" where
  "cln_refusal codes r \<longleftrightarrow> cln_code codes r \<or> cln_word {''failed''} r"

lemmas cln_evidence =
  cln_dispatch_def cln_code_def cln_word_def cln_refusal_def cln_payable_def cln_statuses_def body_def

interpretation corelightningrest:
  paying_backend "corelightningrest_pay_invoice decode cl" "cln_dispatch {cl_endpoint cl @ ''/v1/pay''}"
    "cln_refusal corelightningrest_failure_codes" "cln_word {''paid'', ''complete''}" for decode cl
  by unfold_locales
    (auto simp: corelightningrest_pay_invoice_def corelightningrest_refused_def cln_evidence honest_def
       dispatches_once_def exchanged_def wp_rule wp_http json split: option.splits sum.splits if_splits)

interpretation clnrest:
  paying_backend "clnrest_pay_invoice decode pay_rune renepay_rune label cl" "cln_dispatch {''/v1/pay'', ''/v1/renepay''}"
    "cln_refusal clnrest_failure_codes" "cln_word {''paid'', ''complete''}" for decode pay_rune renepay_rune label cl
  by unfold_locales
    (auto simp: clnrest_pay_invoice_def clnrest_refused_def cln_evidence clnrest_failure_codes_def honest_def
       dispatches_once_def exchanged_def wp_rule wp_http json split: option.splits sum.splits if_splits)

interpretation corelightningrest_invoices:
  status_backend "corelightningrest_get_invoice_status cl" "cln_dispatch urls" "first_says ''invoices'' {''paid'', ''complete''}"
    "first_says ''invoices'' {''failed''}" for cl urls
  by unfold_locales
    (auto simp: corelightningrest_get_invoice_status_def cln_evidence first_says_def exchanged_def wp_rule wp_http json
       split: option.splits if_splits)

interpretation corelightningrest_payments:
  status_backend "corelightningrest_get_payment_status cl" "cln_dispatch urls" "first_says ''pays'' {''paid'', ''complete''}"
    "first_says ''pays'' {''failed''}" for cl urls
  by unfold_locales
    (auto simp: corelightningrest_get_payment_status_def cln_evidence first_says_def exchanged_def wp_rule wp_http json
       split: option.splits if_splits)

interpretation clnrest_invoices:
  status_backend "clnrest_get_invoice_status cl" "cln_dispatch {''/v1/pay'', ''/v1/renepay''}"
    "first_says ''invoices'' {''paid'', ''complete''}" "first_says ''invoices'' {''failed''}" for cl
  by unfold_locales
    (auto simp: clnrest_get_invoice_status_def cln_evidence first_says_def exchanged_def wp_rule wp_http json
       split: option.splits if_splits)

interpretation clnrest_payments:
  status_backend "clnrest_get_payment_status cl" "cln_dispatch {''/v1/pay'', ''/v1/renepay''}"
    "last_says ''pays'' {''complete''}" "last_says ''pays'' {''failed''}" for cl
  by unfold_locales
    (auto simp: clnrest_get_payment_status_def cln_evidence last_says_def exchanged_def wp_rule wp_http json
       split: option.splits if_splits)

end
