(* ===== verification/LndRestBackend.thy ===== *)
theory LndRestBackend
  imports BackendContract
begin

text \<open>
  \<open>lnbits/wallets/lndrest.py\<close>: the REST gateway of an LND node. The lines of a streamed answer are \<open>lines\<close> of
  its text and \<open>loads\<close> is \<open>json.loads\<close>; macaroon and certificate are not modelled.
\<close>

definition pre_dispatch_error_codes :: "int set" where
  "pre_dispatch_error_codes = {3, 7, 16}"

definition pre_dispatch_error_messages :: "string list" where
  "pre_dispatch_error_messages = [''invoice not for current active network'', ''invoice expired'']"

text \<open>\<open>code in {3, 7, 16}\<close> compares numbers across types and raises for a value that cannot be in a set.\<close>

definition is_pre_dispatch_payment_error :: "jval \<Rightarrow> string \<Rightarrow> exn + bool" where
  "is_pre_dispatch_payment_error code message =
     (if \<not> hashable code then Inl TypeError
      else Inr ((\<exists>i \<in> pre_dispatch_error_codes. equals_int code i)
                \<or> (\<exists>m \<in> set pre_dispatch_error_messages. substring m (lower message))))"

text \<open>The handler of an error status of the payment request.\<close>

definition payment_response_from_http_error :: "client \<Rightarrow> (backend, pay_answer) py" where
  "payment_response_from_http_error cl =
     bindP (gets bk_response) (\<lambda>r.
     bindP (tryP
       (bindP (liftE (json_of r)) (\<lambda>v.
        bindP (liftE (item v ''error'')) (\<lambda>err.
        bindP (liftE (get err ''code'')) (\<lambda>code.
        bindP (liftE (get err ''message'')) (\<lambda>m.
        ret (code, if truth m then py_str (cl_show cl) m else cl_status_text cl r))))))
       (\<lambda>e. ret (JNull, ''Unable to connect to '' @ cl_endpoint cl @ ''.''))) (\<lambda>(code, m).
     bindP (liftE (is_pre_dispatch_payment_error code m)) (\<lambda>rejected.
     ret (pay_error (if rejected then Some False else None) (Said (JStr m))))))"

definition lndrest_status :: "client \<Rightarrow> (backend, source_status) py" where
  "lndrest_status cl =
     bindP (tryP
       (bindP (http_get ''/v1/balance/channels'') (\<lambda>r.
        thenP (raise_for_status r)
        (bindP (liftE (json_of r)) (\<lambda>data.
         bindP (liftE (len_of data)) (\<lambda>n.
         if n = 0 then ret (Inl (source_error (Formatted ''no data'' [])))
         else bindP (if is_error r then ret True else bindP (liftE (contains data ''balance'')) (\<lambda>c. ret (\<not> c))) (\<lambda>bad.
           if bad then ret (Inl (source_error (Formatted ''Server error: {}'' [JStr (rp_text r)])))
           else ret (Inr data)))))))
       (\<lambda>e. if e = JSONDecodeError then ret (Inl (source_error invalid_json))
            else ret (Inl (source_error (unable_to_connect cl))))) (\<lambda>x.
     case x of
       Inl a \<Rightarrow> ret a
     | Inr data \<Rightarrow>
         bindP (liftE (item data ''balance'')) (\<lambda>b.
         bindP (liftE (int_of b)) (\<lambda>i. ret (source_balance (JInt (i * 1000))))))"

definition lndrest_parse_create_invoice :: "reply \<Rightarrow> jval \<Rightarrow> string \<Rightarrow> (backend, invoice_answer) py" where
  "lndrest_parse_create_invoice r data preimage =
     (if \<not> truth data then ret (invoice_error (Formatted ''no data'' []))
      else bindP (liftE (contains data ''error'')) (\<lambda>failed.
        if failed then bindP (liftE (item data ''error'')) (\<lambda>m. ret (invoice_error (Formatted ''Server error: {}'' [m])))
        else if is_error r then ret (invoice_error (Formatted ''Server error: {}'' [JStr (rp_text r)]))
        else bindP (liftE (contains data ''payment_request'')) (\<lambda>a.
             bindP (if a then liftE (contains data ''r_hash'') else ret False) (\<lambda>b.
             if \<not> b then ret (invoice_error missing_fields)
             else bindP (liftE (item data ''r_hash'')) (\<lambda>h.
                  case (case h of JStr t \<Rightarrow> b64decode t | _ \<Rightarrow> None) of
                    None \<Rightarrow> ret (invoice_error (Formatted ''Unable to b64decode to {}.'' [h]))
                  | Some bs \<Rightarrow>
                      bindP (liftE (item data ''payment_request'')) (\<lambda>payment_request.
                      ret (invoice_result (JStr (bytes_hex bs)) payment_request (JStr preimage))))))))"

text \<open>\<open>secret\<close> and \<open>secret_hash\<close> are the random preimage and its hash.\<close>

definition lndrest_invoice_data ::
  "client \<Rightarrow> bool \<Rightarrow> byte list \<Rightarrow> byte list \<Rightarrow> int \<Rightarrow> string option \<Rightarrow> byte list option \<Rightarrow> byte list option
     \<Rightarrow> int option \<Rightarrow> (string \<times> jval) list" where
  "lndrest_invoice_data cl route_hints secret secret_hash amount memo description_hash unhashed_description expiry =
     [(''value'', JInt amount), (''private'', JBool route_hints), (''memo'', JStr (the (orElse memo (Some []))))]
     @ (if expiry \<notin> {None, Some 0} then [(''expiry'', JInt (the expiry))] else [])
     @ (if given description_hash then [(''description_hash'', JStr (b64encode (the description_hash)))]
        else if given unhashed_description
        then [(''description_hash'', JStr (b64encode (cl_sha256 cl (the unhashed_description))))] else [])
     @ [(''r_hash'', JStr (b64encode secret_hash)), (''r_preimage'', JStr (b64encode secret))]"

definition lndrest_create_invoice ::
  "client \<Rightarrow> bool \<Rightarrow> byte list \<Rightarrow> byte list \<Rightarrow> int \<Rightarrow> string option \<Rightarrow> byte list option \<Rightarrow> byte list option
     \<Rightarrow> int option \<Rightarrow> (backend, invoice_answer) py" where
  "lndrest_create_invoice cl route_hints secret secret_hash amount memo description_hash unhashed_description expiry =
     tryP
       (bindP (http_post ''/v1/invoices''
          (lndrest_invoice_data cl route_hints secret secret_hash amount memo description_hash unhashed_description expiry)) (\<lambda>r.
        thenP (raise_for_status r)
        (bindP (liftE (json_of r)) (\<lambda>data. lndrest_parse_create_invoice r data (bytes_hex secret)))))
       (\<lambda>e. if e = JSONDecodeError then ret (invoice_error invalid_json)
            else ret (invoice_error (unable_to_connect cl)))"

text \<open>The answer to a payment; only a missing field is caught.\<close>

definition lndrest_pay_answer :: "jval \<Rightarrow> (backend, pay_answer) py" where
  "lndrest_pay_answer data =
     bindP (liftE (get data ''payment_error'')) (\<lambda>failed.
     if truth failed then ret (pay_error (Some False) (Said failed))
     else
       bindP (tryP
         (bindP (liftE (item data ''result'')) (\<lambda>payment.
          bindP (liftE (item payment ''status'')) (\<lambda>st.
          bindP (liftE (item payment ''payment_hash'')) (\<lambda>checking_id.
          bindP (liftE (item payment ''payment_preimage'')) (\<lambda>preimage.
          bindP (liftE (item payment ''fee_msat'')) (\<lambda>fee.
          bindP (liftE (int_of fee)) (\<lambda>i.
          ret (Some (payment, st, checking_id, preimage, JInt \<bar>i\<bar>)))))))))
         (\<lambda>e. if e = KeyError then ret None else throw e)) (\<lambda>fields.
       case fields of
         None \<Rightarrow> ret (pay_error None missing_fields)
       | Some (payment, st, checking_id, preimage, fee_msat) \<Rightarrow>
           if st = JStr ''SUCCEEDED'' then ret (pay_result (Some True) checking_id fee_msat preimage)
           else if st = JStr ''FAILED'' then
             bindP (liftE (get_or payment ''failure_reason'' (JStr ''unknown reason''))) (\<lambda>reason.
             ret ((pay_result (Some False) checking_id JNull JNull)\<lparr>an_error := Said reason\<rparr>))
           else if st = JStr ''IN_FLIGHT'' then ret (pay_result None checking_id JNull JNull)
           else ret ((pay_result None checking_id JNull JNull)\<lparr>an_error :=
                       Formatted ''Server error: unknown payment status returned'' []\<rparr>)))"

definition lndrest_pay_invoice :: "bool \<Rightarrow> client \<Rightarrow> string \<Rightarrow> int \<Rightarrow> (backend, pay_answer) py" where
  "lndrest_pay_invoice allow_self_payment cl bolt11 fee_limit_msat =
     bindP (tryP
       (bindP (http_post ''/v2/router/send''
          ([(''payment_request'', JStr bolt11), (''fee_limit_msat'', JInt fee_limit_msat), (''timeout_seconds'', JInt 30),
            (''no_inflight_updates'', JBool True)]
           @ (if allow_self_payment then [(''allow_self_payment'', JBool True)] else []))) (\<lambda>r.
        thenP (raise_for_status r)
        (bindP (liftE (json_of r)) (\<lambda>data. ret (Inr data)))))
       (\<lambda>e. if e = HTTPStatusError then bindP (payment_response_from_http_error cl) (\<lambda>a. ret (Inl a))
            else if e = JSONDecodeError then ret (Inl (pay_error None invalid_json))
            else ret (Inl (pay_error None (unable_to_connect cl))))) (\<lambda>x.
     case x of
       Inl a \<Rightarrow> ret a
     | Inr data \<Rightarrow> lndrest_pay_answer data)"

definition lndrest_get_invoice_status :: "client \<Rightarrow> string \<Rightarrow> (backend, status_answer) py" where
  "lndrest_get_invoice_status cl checking_id =
     bindP (http_get (''/v1/invoice/'' @ checking_id)) (\<lambda>r.
     bindP (tryP (thenP (raise_for_status r) (bindP (liftE (json_of r)) (\<lambda>v. ret (Some v)))) (\<lambda>e. ret None)) (\<lambda>parsed.
     case parsed of
       None \<Rightarrow> ret pending_status
     | Some data \<Rightarrow>
         bindP (if is_error r then ret JNull else liftE (get data ''state'')) (\<lambda>st.
         if st = JStr ''SETTLED'' then ret (status_of (Some True) JNull JNull)
         else if st = JStr ''CANCELED'' then ret failed_status
         else ret pending_status)))"

text \<open>The lines of the tracking stream, until one of them decides.\<close>

fun lndrest_track :: "(string \<Rightarrow> jval option) \<Rightarrow> string list \<Rightarrow> exn + status_answer" where
  "lndrest_track loads [] = Inr pending_status"
| "lndrest_track loads (json_line # rest) =
     (case loads json_line of
        None \<Rightarrow> Inr pending_status
      | Some line \<Rightarrow>
          (case get line ''error'' of
             Inl e \<Rightarrow> Inr pending_status
           | Inr failed \<Rightarrow>
               if truth failed then Inr pending_status
               else case get line ''result'' of
                 Inl e \<Rightarrow> Inl e
               | Inr payment \<Rightarrow>
                   if \<not> truth payment then lndrest_track loads rest
                   else case get payment ''status'' of
                     Inl e \<Rightarrow> Inl e
                   | Inr st \<Rightarrow>
                       if st = JStr ''SUCCEEDED'' then
                         (case get_or payment ''fee_msat'' (JInt 0) of
                            Inl e \<Rightarrow> Inl e
                          | Inr fee \<Rightarrow> (case int_of fee of
                               Inl e \<Rightarrow> Inl e
                             | Inr i \<Rightarrow> (case get payment ''payment_preimage'' of
                                  Inl e \<Rightarrow> Inl e
                                | Inr preimage \<Rightarrow> Inr (status_of (Some True) (JInt \<bar>i\<bar>) preimage))))
                       else if st = JStr ''FAILED'' then Inr failed_status
                       else lndrest_track loads rest))"

definition lndrest_get_payment_status ::
  "(string \<Rightarrow> jval option) \<Rightarrow> (string \<Rightarrow> string list) \<Rightarrow> client \<Rightarrow> string \<Rightarrow> (backend, status_answer) py" where
  "lndrest_get_payment_status loads lines cl checking_id =
     (case fromhex checking_id of
        None \<Rightarrow> ret pending_status
      | Some bs \<Rightarrow>
          bindP (http_get (''/v2/router/track/'' @ urlsafe_b64encode bs)) (\<lambda>r.
          liftE (lndrest_track loads (lines (rp_text r)))))"

text \<open>One line of the invoice stream; every exception skips the line.\<close>

definition lndrest_stream_line :: "(string \<Rightarrow> jval option) \<Rightarrow> string \<Rightarrow> string option" where
  "lndrest_stream_line loads line =
     (case loads line of
        None \<Rightarrow> None
      | Some v \<Rightarrow>
          (case item v ''result'' of
             Inl e \<Rightarrow> None
           | Inr invoice \<Rightarrow>
               (case (get invoice ''state'', get invoice ''r_hash'') of
                  (Inr st, Inr (JStr h)) \<Rightarrow>
                    if st = JStr ''SETTLED'' then map_option bytes_hex (b64decode h) else None
                | _ \<Rightarrow> None)))"

section \<open>Hold invoices\<close>

definition lndrest_hold_error :: "exn \<Rightarrow> (backend, invoice_answer) py" where
  "lndrest_hold_error e =
     (if e = HTTPStatusError then bindP (gets bk_response) (\<lambda>r. ret (invoice_error (Said (JStr (rp_text r)))))
      else ret (invoice_error (Formatted ''{exc}'' [])))"

definition lndrest_create_hold_invoice ::
  "client \<Rightarrow> int \<Rightarrow> string \<Rightarrow> string option \<Rightarrow> byte list option \<Rightarrow> byte list option \<Rightarrow> (backend, invoice_answer) py" where
  "lndrest_create_hold_invoice cl amount payment_hash memo description_hash unhashed_description =
     (case fromhex payment_hash of
        None \<Rightarrow> throw (ValueError ''non-hexadecimal number found in fromhex() arg'')
      | Some bs \<Rightarrow>
          bindP (tryP
            (bindP (http_post ''/v2/invoices/hodl''
               [(''value'', JInt amount), (''private'', JBool True), (''hash'', JStr (b64encode bs)),
                (if given description_hash then (''description_hash'', JStr (b64encode (the description_hash)))
                 else if given unhashed_description
                 then (''description_hash'', JStr (b64encode (cl_sha256 cl (the unhashed_description))))
                 else (''memo'', JStr (the (orElse memo (Some [])))))]) (\<lambda>r.
             thenP (raise_for_status r) (bindP (liftE (json_of r)) (\<lambda>data. ret (Inr data)))))
            (\<lambda>e. bindP (lndrest_hold_error e) (\<lambda>a. ret (Inl a)))) (\<lambda>x.
          case x of
            Inl a \<Rightarrow> ret a
          | Inr data \<Rightarrow>
              bindP (liftE (item data ''payment_request'')) (\<lambda>payment_request.
              ret (invoice_result (JStr payment_hash) payment_request JNull))))"

definition lndrest_settle_hold_invoice :: "string \<Rightarrow> (backend, invoice_answer) py" where
  "lndrest_settle_hold_invoice preimage =
     (case fromhex preimage of
        None \<Rightarrow> throw (ValueError ''non-hexadecimal number found in fromhex() arg'')
      | Some bs \<Rightarrow>
          tryP (bindP (http_post ''/v2/invoices/settle'' [(''preimage'', JStr (b64encode bs))]) (\<lambda>r.
                thenP (raise_for_status r) (ret (invoice_result JNull JNull (JStr preimage)))))
            lndrest_hold_error)"

definition lndrest_cancel_hold_invoice :: "string \<Rightarrow> (backend, invoice_answer) py" where
  "lndrest_cancel_hold_invoice payment_hash =
     (case fromhex payment_hash of
        None \<Rightarrow> throw (ValueError ''non-hexadecimal number found in fromhex() arg'')
      | Some bs \<Rightarrow>
          tryP (bindP (http_post ''/v2/invoices/cancel'' [(''payment_hash'', JStr (b64encode bs))]) (\<lambda>r.
                thenP (raise_for_status r) (ret (invoice_result (JStr payment_hash) JNull JNull))))
            lndrest_hold_error)"

section \<open>The contract\<close>

definition lndrest_dispatch :: "request \<Rightarrow> bool" where
  "lndrest_dispatch q \<longleftrightarrow> rq_verb q = ''POST'' \<and> rq_url q = ''/v2/router/send''"

text \<open>An error status that names a code or a message of a request LND did not act on.\<close>

definition lndrest_rejection :: "client \<Rightarrow> reply \<Rightarrow> bool" where
  "lndrest_rejection cl r \<longleftrightarrow> \<not> is_success r \<and>
     ((case body r [''error'', ''code''] of None \<Rightarrow> False | Some c \<Rightarrow> \<exists>i \<in> pre_dispatch_error_codes. equals_int c i)
      \<or> (\<exists>m \<in> set pre_dispatch_error_messages.
            substring m (lower (cl_status_text cl r)) \<or> substring m (lower (''Unable to connect to '' @ cl_endpoint cl @ ''.''))
            \<or> (case body r [''error'', ''message''] of None \<Rightarrow> False | Some v \<Rightarrow> substring m (lower (py_str (cl_show cl) v)))))"

definition lndrest_result :: "string \<Rightarrow> reply \<Rightarrow> bool" where
  "lndrest_result w r \<longleftrightarrow> is_success r \<and> body r [''result'', ''status''] = Some (JStr w)"

definition lndrest_refusal :: "client \<Rightarrow> reply \<Rightarrow> bool" where
  "lndrest_refusal cl r \<longleftrightarrow> lndrest_rejection cl r \<or> lndrest_result ''FAILED'' r
     \<or> (is_success r \<and> (case body r [''payment_error''] of None \<Rightarrow> False | Some v \<Rightarrow> truth v))"

text \<open>What the stream that tracks a payment says.\<close>

definition line_says :: "(string \<Rightarrow> jval option) \<Rightarrow> string \<Rightarrow> string \<Rightarrow> bool" where
  "line_says loads w l \<longleftrightarrow>
     (case loads l of None \<Rightarrow> False | Some v \<Rightarrow> path v [''result'', ''status''] = Some (JStr w))"

definition track_says :: "(string \<Rightarrow> jval option) \<Rightarrow> (string \<Rightarrow> string list) \<Rightarrow> string \<Rightarrow> reply \<Rightarrow> bool" where
  "track_says loads lines w r \<longleftrightarrow> (\<exists>l \<in> set (lines (rp_text r)). line_says loads w l)"

lemmas lndrest_evidence =
  lndrest_dispatch_def lndrest_rejection_def lndrest_result_def lndrest_refusal_def body_def

lemma pre_dispatch_Inr [json]:
  "is_pre_dispatch_payment_error code m = Inr b \<longleftrightarrow> hashable code \<and>
     b = ((\<exists>i \<in> pre_dispatch_error_codes. equals_int code i)
          \<or> (\<exists>k \<in> set pre_dispatch_error_messages. substring k (lower m)))"
  by (auto simp: is_pre_dispatch_payment_error_def)

text \<open>A line decides the status by what it says, or the next lines do.\<close>

lemma lndrest_track_Cons:
  assumes "lndrest_track loads (l # ls) = Inr a"
  shows "a = pending_status \<or> (line_says loads ''SUCCEEDED'' l \<and> sa_paid a = JBool True)
    \<or> (line_says loads ''FAILED'' l \<and> a = failed_status) \<or> lndrest_track loads ls = Inr a"
proof (cases "loads l")
  case (Some v)
  show ?thesis
  proof (cases v)
    case (JObj d)
    then show ?thesis
      using assms Some
      by (auto simp: get_def get_or_def line_says_def path_one split: option.splits sum.splits if_splits jval.splits)
  qed (use assms Some in \<open>simp_all add: get_def get_or_def\<close>)
qed (use assms in simp)

lemma lndrest_track_says:
  "lndrest_track loads ls = Inr a \<Longrightarrow>
     (sa_paid a = JBool True \<longrightarrow> (\<exists>l \<in> set ls. line_says loads ''SUCCEEDED'' l))
   \<and> (sa_paid a = JBool False \<longrightarrow> (\<exists>l \<in> set ls. line_says loads ''FAILED'' l))"
proof (induction ls)
  case (Cons l ls)
  from lndrest_track_Cons [OF Cons.prems] Cons.IH show ?case by fastforce
qed simp

declare lndrest_track.simps [simp del]

interpretation lndrest_payments:
  status_backend "lndrest_get_payment_status loads lines cl" lndrest_dispatch "track_says loads lines ''SUCCEEDED''"
    "track_says loads lines ''FAILED''" for loads lines cl
  by unfold_locales
    (auto simp: lndrest_get_payment_status_def track_says_def lndrest_dispatch_def exchanged_def wp_rule wp_http
       dest: lndrest_track_says split: option.splits)

interpretation lndrest_invoices:
  status_backend "lndrest_get_invoice_status cl" lndrest_dispatch "says [''state''] {''SETTLED''}"
    "says [''state''] {''CANCELED''}" for cl
  by unfold_locales
    (auto simp: lndrest_get_invoice_status_def lndrest_dispatch_def says_def body_def is_success_def is_error_def
       exchanged_def wp_rule wp_http json split: option.splits if_splits)

interpretation lndrest:
  paying_backend "lndrest_pay_invoice allow cl" lndrest_dispatch "lndrest_refusal cl" "lndrest_result ''SUCCEEDED''"
  for allow cl
  by unfold_locales
    (auto simp: lndrest_pay_invoice_def lndrest_pay_answer_def payment_response_from_http_error_def lndrest_evidence
       honest_def dispatches_once_def exchanged_def wp_rule wp_http json split: option.splits if_splits)

end
