(* ===== verification/FundingSources.thy ===== *)
theory FundingSources
  imports LnbitsBackends HostedBackends AcinqBackends SparkBackend ClnRestBackends LndRestBackend
begin

text \<open>
  \<open>lnbits/wallets/__init__.py\<close>: the classes together, the choice of the funding source by the name of its class,
  and the proof that every one of them keeps the contract.
\<close>

section \<open>The choice of the funding source\<close>

datatype wallet_class =
    LNbitsWallet | AlbyWallet | ZBDWallet | OpenNodeWallet | LNPayWallet | LnTipsWallet | PhoenixdWallet
  | EclairWallet | SparkWallet | CoreLightningRestWallet | CLNRestWallet | LndRestWallet | VoidWallet

text \<open>\<open>getattr(wallets_module, class_name)\<close>, for the classes of the model.\<close>

definition wallet_class_named :: "string \<Rightarrow> wallet_class option" where
  "wallet_class_named name = map_of
     [(''LNbitsWallet'', LNbitsWallet), (''AlbyWallet'', AlbyWallet), (''ZBDWallet'', ZBDWallet),
      (''OpenNodeWallet'', OpenNodeWallet), (''LNPayWallet'', LNPayWallet), (''LnTipsWallet'', LnTipsWallet),
      (''PhoenixdWallet'', PhoenixdWallet), (''EclairWallet'', EclairWallet), (''SparkWallet'', SparkWallet),
      (''CoreLightningRestWallet'', CoreLightningRestWallet), (''CLNRestWallet'', CLNRestWallet),
      (''LndRestWallet'', LndRestWallet), (''VoidWallet'', VoidWallet)] name"

text \<open>What a configured funding source knows beside its client.\<close>

record node_config =
  nc_client :: client
  nc_decode :: "string \<Rightarrow> bolt11 option"
  nc_pay_rune :: "string option"
  nc_renepay_rune :: "string option"
  nc_label :: string
  nc_allow_self_payment :: bool
  nc_loads :: "string \<Rightarrow> jval option"
  nc_lines :: "string \<Rightarrow> string list"

fun backend_pay :: "node_config \<Rightarrow> wallet_class \<Rightarrow> string \<Rightarrow> int \<Rightarrow> (backend, pay_answer) py" where
  "backend_pay n LNbitsWallet = lnbits_pay_invoice (nc_client n)"
| "backend_pay n AlbyWallet = alby_pay_invoice (nc_client n)"
| "backend_pay n ZBDWallet = zbd_pay_invoice (nc_client n)"
| "backend_pay n OpenNodeWallet = opennode_pay_invoice (nc_client n)"
| "backend_pay n LNPayWallet = lnpay_pay_invoice (nc_client n)"
| "backend_pay n LnTipsWallet = lntips_pay_invoice (nc_client n)"
| "backend_pay n PhoenixdWallet = phoenixd_pay_invoice (nc_client n)"
| "backend_pay n EclairWallet = eclair_pay_invoice (nc_client n)"
| "backend_pay n SparkWallet = spark_pay_invoice (nc_client n)"
| "backend_pay n CoreLightningRestWallet = corelightningrest_pay_invoice (nc_decode n) (nc_client n)"
| "backend_pay n CLNRestWallet =
     clnrest_pay_invoice (nc_decode n) (nc_pay_rune n) (nc_renepay_rune n) (nc_label n) (nc_client n)"
| "backend_pay n LndRestWallet = lndrest_pay_invoice (nc_allow_self_payment n) (nc_client n)"
| "backend_pay n VoidWallet = void_pay_invoice"

fun backend_payment_status :: "node_config \<Rightarrow> wallet_class \<Rightarrow> string \<Rightarrow> (backend, status_answer) py" where
  "backend_payment_status n LNbitsWallet = lnbits_get_payment_status (nc_client n)"
| "backend_payment_status n AlbyWallet = alby_get_payment_status (nc_client n)"
| "backend_payment_status n ZBDWallet = zbd_get_payment_status (nc_client n)"
| "backend_payment_status n OpenNodeWallet = opennode_get_payment_status (nc_client n)"
| "backend_payment_status n LNPayWallet = lnpay_get_payment_status (nc_client n)"
| "backend_payment_status n LnTipsWallet = lntips_get_payment_status (nc_client n)"
| "backend_payment_status n PhoenixdWallet = phoenixd_get_payment_status (nc_client n)"
| "backend_payment_status n EclairWallet = eclair_get_payment_status (nc_client n)"
| "backend_payment_status n SparkWallet = spark_get_payment_status (nc_client n)"
| "backend_payment_status n CoreLightningRestWallet = corelightningrest_get_payment_status (nc_client n)"
| "backend_payment_status n CLNRestWallet = clnrest_get_payment_status (nc_client n)"
| "backend_payment_status n LndRestWallet = lndrest_get_payment_status (nc_loads n) (nc_lines n) (nc_client n)"
| "backend_payment_status n VoidWallet = void_get_payment_status"

section \<open>What the contract names, per class\<close>

text \<open>The request that makes the node pay.\<close>

fun pays :: "node_config \<Rightarrow> wallet_class \<Rightarrow> request \<Rightarrow> bool" where
  "pays n LNbitsWallet = lnbits_dispatch"
| "pays n AlbyWallet = alby_dispatch"
| "pays n ZBDWallet = zbd_dispatch"
| "pays n OpenNodeWallet = opennode_dispatch"
| "pays n LNPayWallet = lnpay_dispatch (nc_client n)"
| "pays n LnTipsWallet = lntips_dispatch"
| "pays n PhoenixdWallet = phoenixd_dispatch"
| "pays n EclairWallet = eclair_dispatch"
| "pays n SparkWallet = spark_dispatch"
| "pays n CoreLightningRestWallet = cln_dispatch {cl_endpoint (nc_client n) @ ''/v1/pay''}"
| "pays n CLNRestWallet = cln_dispatch {''/v1/pay'', ''/v1/renepay''}"
| "pays n LndRestWallet = lndrest_dispatch"
| "pays n VoidWallet = (\<lambda>q. True)"

text \<open>The answers that refuse a payment, and those that confirm one.\<close>

fun refuses :: "node_config \<Rightarrow> wallet_class \<Rightarrow> reply \<Rightarrow> bool" where
  "refuses n LNbitsWallet = lnbits_refusal"
| "refuses n AlbyWallet = rejection"
| "refuses n ZBDWallet = zbd_refusal (nc_client n)"
| "refuses n OpenNodeWallet = opennode_refusal (nc_client n)"
| "refuses n LNPayWallet = rejection"
| "refuses n LnTipsWallet = rejection"
| "refuses n PhoenixdWallet = (\<lambda>r. False)"
| "refuses n EclairWallet = eclair_refusal"
| "refuses n SparkWallet = spark_refusal"
| "refuses n CoreLightningRestWallet = cln_refusal corelightningrest_failure_codes"
| "refuses n CLNRestWallet = cln_refusal clnrest_failure_codes"
| "refuses n LndRestWallet = lndrest_refusal (nc_client n)"
| "refuses n VoidWallet = (\<lambda>r. False)"

fun confirms :: "node_config \<Rightarrow> wallet_class \<Rightarrow> reply \<Rightarrow> bool" where
  "confirms n LNbitsWallet = lnbits_receipt"
| "confirms n AlbyWallet = alby_receipt"
| "confirms n ZBDWallet = zbd_receipt (nc_client n)"
| "confirms n OpenNodeWallet = opennode_receipt (nc_client n)"
| "confirms n LNPayWallet = lnpay_receipt"
| "confirms n LnTipsWallet = lntips_receipt"
| "confirms n PhoenixdWallet = phoenixd_receipt"
| "confirms n EclairWallet = eclair_sent ''sent''"
| "confirms n SparkWallet = spark_receipt"
| "confirms n CoreLightningRestWallet = cln_word {''paid'', ''complete''}"
| "confirms n CLNRestWallet = cln_word {''paid'', ''complete''}"
| "confirms n LndRestWallet = lndrest_result ''SUCCEEDED''"
| "confirms n VoidWallet = (\<lambda>r. False)"

text \<open>The answers on which a query reports a payment as made or failed.\<close>

fun says_made :: "node_config \<Rightarrow> wallet_class \<Rightarrow> reply \<Rightarrow> bool" where
  "says_made n LNbitsWallet = lnbits_receipt"
| "says_made n AlbyWallet = alby_settled"
| "says_made n ZBDWallet = says [''data'', ''status''] {''completed''}"
| "says_made n OpenNodeWallet = says [''data'', ''status''] {''confirmed''}"
| "says_made n LNPayWallet = lnpay_word 1"
| "says_made n LnTipsWallet = lntips_word 1"
| "says_made n PhoenixdWallet = phoenixd_settled"
| "says_made n EclairWallet = eclair_sent ''sent''"
| "says_made n SparkWallet = first_says ''pays'' {''complete''}"
| "says_made n CoreLightningRestWallet = first_says ''pays'' {''paid'', ''complete''}"
| "says_made n CLNRestWallet = last_says ''pays'' {''complete''}"
| "says_made n LndRestWallet = track_says (nc_loads n) (nc_lines n) ''SUCCEEDED''"
| "says_made n VoidWallet = (\<lambda>r. False)"

fun says_lost :: "node_config \<Rightarrow> wallet_class \<Rightarrow> reply \<Rightarrow> bool" where
  "says_lost n LNbitsWallet = lnbits_failed"
| "says_lost n AlbyWallet = (\<lambda>r. False)"
| "says_lost n ZBDWallet = says [''data'', ''status''] {''failed'', ''expired''}"
| "says_lost n OpenNodeWallet = says [''data'', ''status''] {''error'', ''failed''}"
| "says_lost n LNPayWallet = lnpay_word (- 1)"
| "says_lost n LnTipsWallet = (\<lambda>r. False)"
| "says_lost n PhoenixdWallet = phoenixd_unknown"
| "says_lost n EclairWallet = eclair_sent ''failed''"
| "says_lost n SparkWallet = spark_refusal"
| "says_lost n CoreLightningRestWallet = first_says ''pays'' {''failed''}"
| "says_lost n CLNRestWallet = last_says ''pays'' {''failed''}"
| "says_lost n LndRestWallet = track_says (nc_loads n) (nc_lines n) ''FAILED''"
| "says_lost n VoidWallet = (\<lambda>r. False)"

interpretation void_payments: status_backend void_get_payment_status "\<lambda>q. True" "\<lambda>r. False" "\<lambda>r. False"
  by unfold_locales (simp add: void_get_payment_status_def wp_rule)

text \<open>Every class keeps the contract.\<close>

interpretation any_backend: paying_backend "backend_pay n c" "pays n c" "refuses n c" "confirms n c" for n c
  by (cases c)
    (simp_all add: lnbits.paying_backend_axioms alby.paying_backend_axioms zbd.paying_backend_axioms
      opennode.paying_backend_axioms lnpay.paying_backend_axioms lntips.paying_backend_axioms
      phoenixd.paying_backend_axioms eclair.paying_backend_axioms spark.paying_backend_axioms
      corelightningrest.paying_backend_axioms clnrest.paying_backend_axioms lndrest.paying_backend_axioms
      void.paying_backend_axioms)

interpretation any_query: status_backend "backend_payment_status n c" "pays n c" "says_made n c" "says_lost n c" for n c
  by (cases c)
    (simp_all add: lnbits_payments.status_backend_axioms alby_payments.status_backend_axioms
      zbd_payments.status_backend_axioms opennode_payments.status_backend_axioms
      lnpay_payments.status_backend_axioms lntips_payments.status_backend_axioms
      phoenixd_payments.status_backend_axioms eclair_payments.status_backend_axioms
      spark_payments.status_backend_axioms corelightningrest_payments.status_backend_axioms
      clnrest_payments.status_backend_axioms lndrest_payments.status_backend_axioms
      void_payments.status_backend_axioms)

end
