(* ===== verification/BackendProperties.thy ===== *)
theory BackendProperties
  imports FundingSources PaymentAccounting Demo
begin

text \<open>
  What the server may believe of a payment: properties of every back end, and what they mean for the books when
  an external payment is handed to one of them.
\<close>


definition demo_client :: client where
  "demo_client = \<lparr>cl_endpoint = ''https://node'', cl_key = ''k'', cl_show = (\<lambda>v. []), cl_sha256 = (\<lambda>b. b),
     cl_status_text = (\<lambda>r. ''error'')\<rparr>"

definition demo_node :: node_config where
  "demo_node = \<lparr>nc_client = demo_client, nc_decode = (\<lambda>b. None), nc_pay_rune = None, nc_renepay_rune = None,
     nc_label = ''l'', nc_allow_self_payment = False, nc_loads = (\<lambda>s. None), nc_lines = (\<lambda>s. [])\<rparr>"

definition json_reply :: "nat \<Rightarrow> (string \<times> jval) list \<Rightarrow> answer" where
  "json_reply n d = Answer \<lparr>rp_status = n, rp_json = Some (JObj d), rp_text = ''text''\<rparr>"

definition demo_backend :: "answer list \<Rightarrow> backend" where
  "demo_backend xs = \<lparr>bk_sent = [], bk_answers = (\<lambda>k. if k < length xs then xs ! k else NoConnection),
     bk_response = \<lparr>rp_status = 0, rp_json = None, rp_text = []\<rparr>, bk_pending = []\<rparr>"


text \<open>C11: A query for the status of a payment never pays anything, and says made or failed only when an answer
  of the node says so.\<close>

theorem queries_are_decided_by_the_node:
  assumes "backend_payment_status n c checking_id s = (r, t)"
  shows "filter (pays n c \<circ> fst) (exchanged s t) = []
    \<and> (\<forall>a. r = Inr a \<longrightarrow>
         (sa_paid a = JBool True \<longrightarrow> answered (says_made n c) (exchanged s t))
       \<and> (sa_paid a = JBool False \<longrightarrow> answered (says_lost n c) (exchanged s t)))"
  using any_query.query_pays_nothing [OF assms] any_query.paid_was_said [of n c checking_id s _ t]
    any_query.failed_was_said [of n c checking_id s _ t] assms
  by auto

theorem queries_are_decided_by_the_node_witness:
  "(let (r, t) = backend_payment_status demo_node PhoenixdWallet ''h'' (demo_backend [json_reply 404 []])
    in map_sum id sa_paid r = Inr (JBool False) \<and> filter (pays demo_node PhoenixdWallet \<circ> fst) (bk_sent t) = [])
   \<and> map_sum id sa_paid (fst (backend_payment_status demo_node PhoenixdWallet ''h''
        (demo_backend [json_reply 500 []]))) = Inr JNull"
proof -
  let ?s = "demo_backend [json_reply 404 []]"
  obtain r t where run: "backend_payment_status demo_node PhoenixdWallet ''h'' ?s = (r, t)" by fastforce
  have "exchanged ?s t = bk_sent t" by (simp add: exchanged_def demo_backend_def)
  then have none: "filter (pays demo_node PhoenixdWallet \<circ> fst) (bk_sent t) = []"
    using queries_are_decided_by_the_node [OF run] by simp
  have "map_sum id sa_paid (fst (backend_payment_status demo_node PhoenixdWallet ''h'' ?s)) = Inr (JBool False)"
    by code_simp
  then have "map_sum id sa_paid r = Inr (JBool False)" by (simp only: run fst_conv)
  with none show ?thesis unfolding run by (intro conjI) (simp, code_simp)
qed

section \<open>The books\<close>

text \<open>What reaches the server of the answer of a back end; a field that is not of the type the code expects is
  read as absent.\<close>

definition text_of :: "jval \<Rightarrow> string option" where
  "text_of v = (case v of JStr s \<Rightarrow> Some s | _ \<Rightarrow> None)"

definition response_of :: "pay_answer \<Rightarrow> payment_response" where
  "response_of a = \<lparr>pr_ok = an_ok a, pr_checking_id = text_of (an_checking_id a), pr_fee_msat = as_int (an_fee_msat a),
     pr_preimage = text_of (an_preimage a),
     pr_error_message = (case an_error a of NoMessage \<Rightarrow> None | Said v \<Rightarrow> text_of v | Formatted f vs \<Rightarrow> Some f)\<rparr>"

definition outcome_of :: "exn + pay_answer \<Rightarrow> pay_outcome" where
  "outcome_of x = (case x of Inl e \<Rightarrow> PayRaised e | Inr a \<Rightarrow> PayResponse (response_of a))"

text \<open>A server whose funding source is a back end that has exchanged \<open>bk_sent s\<close> so far.\<close>

definition node_env :: "env \<Rightarrow> node_config \<Rightarrow> wallet_class \<Rightarrow> backend \<Rightarrow> env" where
  "node_env ev n c s = ev\<lparr>fs_pay := \<lambda>bolt fee. outcome_of (fst (backend_pay n c bolt fee s))\<rparr>"

lemma external_row_costs:
  assumes "cp_amount_msat m < 0" and "settled_amount cfg (external_row ev cfg m) outcome = 0"
  shows "\<exists>a. outcome = PayResponse a \<and> pr_failed a"
  using assms by (cases outcome) (auto simp: external_row_def net_def split: if_splits option.splits)

lemma outcome_of_PayResponse: "outcome_of x = PayResponse a \<Longrightarrow> \<exists>b. x = Inr b \<and> pr_ok a = an_ok b"
  by (auto simp: outcome_of_def response_of_def split: sum.splits)



end
