(* ===== verification/WasmPermissions.thy ===== *)
theory WasmPermissions
  imports Backend
begin

text \<open>
  The permissions of web assembly extensions: what an extension asks for, what the administrator granted
  (\<open>core/wasm_ext/api/permissions.py\<close>) and what the host reads out of the granted policies when the extension
  calls (\<open>core/wasm_ext/api/host.py\<close>, \<open>client/http.py\<close>, \<open>client/extensions.py\<close>). The two readings of a policy are
  written separately in the source and so they are here; that the second never allows more than the first
  accepted is proved in \<open>WasmGrants\<close>. \<open>urlparse\<close> is a parameter.
\<close>

section \<open>The methods of the host\<close>

record api_method =
  am_id :: string
  am_interface :: string
  am_host_name :: string
  am_permission :: "string option"
  am_auth :: bool

definition api_method_export :: "string \<Rightarrow> string \<Rightarrow> string \<Rightarrow> string option \<Rightarrow> bool \<Rightarrow> api_method" where
  "api_method_export i interface name p auth =
     \<lparr>am_id = i, am_interface = interface, am_host_name = name, am_permission = p, am_auth = auth\<rparr>"

definition host_methods :: "api_method list" where
  "host_methods =
    [api_method_export ''storage.get'' ''host'' ''storage_get'' (Some ''ext.storage.read'') True,
     api_method_export ''storage.get_public'' ''host'' ''storage_get_public'' (Some ''ext.storage.read_public'') False,
     api_method_export ''storage.append_public'' ''host'' ''storage_append_public'' (Some ''ext.storage.append_public'') False,
     api_method_export ''storage.set'' ''host'' ''storage_set'' (Some ''ext.storage.write'') True,
     api_method_export ''storage.get_paginated'' ''host'' ''storage_get_paginated'' (Some ''ext.storage.read'') True,
     api_method_export ''storage.get_public_paginated'' ''host'' ''storage_get_public_paginated''
       (Some ''ext.storage.read_public'') False,
     api_method_export ''storage.delete'' ''host'' ''storage_delete'' (Some ''ext.storage.write'') True,
     api_method_export ''websocket.publish'' ''host'' ''websocket_publish'' (Some ''websocket.publish'') False,
     api_method_export ''wallet.create_invoice'' ''host'' ''create_invoice'' (Some ''wallet.create_invoice'') True,
     api_method_export ''wallet.create_invoice_public'' ''host'' ''create_invoice_public''
       (Some ''wallet.create_invoice_public'') False,
     api_method_export ''wallet.list_user_wallets'' ''host'' ''list_user_wallets'' (Some ''wallet.list'') True,
     api_method_export ''wallet.balance'' ''host'' ''wallet_balance'' (Some ''wallet.balance.read'') True,
     api_method_export ''wallet.pay_invoice'' ''host'' ''pay_invoice'' None True,
     api_method_export ''wallet.pay_lnurl'' ''host'' ''pay_lnurl'' None True,
     api_method_export ''http.request'' ''host'' ''http_request'' (Some ''http.request'') True,
     api_method_export ''extension.api.request'' ''host'' ''extension_api_request'' (Some ''extension.api.request'') True,
     api_method_export ''system.random_id'' ''host'' ''random_id'' None False,
     api_method_export ''system.now'' ''host'' ''now'' None False,
     api_method_export ''system.log'' ''host'' ''log'' None False]"

definition utils_methods :: "api_method list" where
  "utils_methods =
     map (\<lambda>(n, h). api_method_export (''utils.currencies.'' @ n) ''utils-currencies'' h (Some ''utils.basic'') False)
       [(''list'', ''list_currencies''), (''rate'', ''rate''), (''convert'', ''convert''),
        (''fiat_to_sats'', ''fiat_to_sats''), (''sats_to_fiat'', ''sats_to_fiat'')]
     @ [api_method_export ''utils.server.health'' ''utils-server'' ''health'' (Some ''utils.basic'') False,
        api_method_export ''utils.lnurl.resolve'' ''utils-lnurl'' ''resolve'' (Some ''wallet.pay_invoice'') True]
     @ map (\<lambda>n. api_method_export (''utils.lightning.'' @ n) ''utils-lightning'' n (Some ''utils.basic'') False)
         [''decode_invoice'', ''validate_invoice'', ''invoice_payment_hash'', ''invoice_amount_msat'', ''invoice_expiry'',
          ''invoice_memo'', ''verify_preimage'', ''random_secret_and_hash'']"

definition list_extension_api_methods :: "api_method list" where
  "list_extension_api_methods = host_methods @ utils_methods"

definition extension_runtime_permission_ids :: "string list" where
  "extension_runtime_permission_ids =
     [''ui.camera.scan_qr'', ''wallet.pay_invoice'', ''wallet.pay_invoice_background'', ''wallet.payments.watch'',
      ''websocket.subscribe'']"

definition extension_api_permission_ids :: "string list" where
  "extension_api_permission_ids =
     List.map_filter am_permission list_extension_api_methods @ extension_runtime_permission_ids"

definition get_extension_api_method :: "string \<Rightarrow> exn + api_method" where
  "get_extension_api_method i = (case List.find (\<lambda>m. am_id m = i) list_extension_api_methods of
      None \<Rightarrow> Inl KeyError | Some m \<Rightarrow> Inr m)"

section \<open>Permissions\<close>

record ext_permission =
  xp_id :: string
  xp_description :: "string option"
  xp_policies :: "jval list option"

text \<open>\<open>d.get(k)\<close>; \<open>isinstance(v, str) and v\<close>; an integer that is no \<open>bool\<close>.\<close>

definition field_of :: "dict \<Rightarrow> string \<Rightarrow> jval" where
  "field_of d k = (case dget d k of None \<Rightarrow> JNull | Some v \<Rightarrow> v)"

definition text_of :: "jval \<Rightarrow> string option" where
  "text_of v = (case v of JStr s \<Rightarrow> if s = [] then None else Some s | _ \<Rightarrow> None)"

definition strict_int :: "jval \<Rightarrow> int option" where
  "strict_int v = (case v of JInt i \<Rightarrow> Some i | _ \<Rightarrow> None)"

definition list_value :: "jval \<Rightarrow> jval list option" where
  "list_value v = (case v of JList l \<Rightarrow> Some l | _ \<Rightarrow> None)"

text \<open>The non-empty strings of a list.\<close>

definition texts_in :: "jval list \<Rightarrow> string list" where
  "texts_in l = List.map_filter text_of l"

definition policy_list :: "jval list option \<Rightarrow> jval list" where
  "policy_list ps = (case ps of None \<Rightarrow> [] | Some l \<Rightarrow> l)"

abbreviation "owner_id_field \<equiv> ''__lnbits_owner_id__''"
abbreviation "PUBLIC_APPEND_DEFAULT_MAX_ROWS_PER_SOURCE \<equiv> 10000 :: int"
abbreviation "PUBLIC_APPEND_MAX_ROWS_PER_SOURCE_LIMIT \<equiv> 1000000 :: int"
abbreviation "WEBSOCKET_PUBLISH_MAX_MESSAGES_PER_SECOND_LIMIT \<equiv> 100 :: int"

definition policy_aware_permission_ids :: "string list" where
  "policy_aware_permission_ids =
     [''ext.storage.append_public'', ''ext.storage.read_public'', ''extension.api.request'', ''http.request'',
      ''wallet.create_invoice_public'', ''websocket.publish'']"

section \<open>Origins\<close>

definition url_port :: "parsed_url \<Rightarrow> exn + int option" where
  "url_port u = (case pu_port u of
      None \<Rightarrow> Inl (PermissionError ''HTTP request URL has an invalid port.'') | Some p \<Rightarrow> Inr p)"

definition request_origin :: "url_parser \<Rightarrow> string \<Rightarrow> exn + string" where
  "request_origin urlparse url = (case urlparse url of
      None \<Rightarrow> Inl (ValueError ''Invalid URL'')
    | Some u \<Rightarrow>
        if pu_scheme u \<noteq> ''https'' then Inl (PermissionError ''HTTP requests require https URLs.'')
        else if truthy (pu_username u) \<or> truthy (pu_password u)
        then Inl (PermissionError ''HTTP requests cannot include credentials in URLs.'')
        else if \<not> truthy (pu_hostname u) then Inl (PermissionError ''HTTP requests require a hostname.'')
        else (case url_port u of
            Inl e \<Rightarrow> Inl e
          | Inr port \<Rightarrow>
              (let hostname = lower (the (pu_hostname u)) in
               Inr (case port of
                   None \<Rightarrow> ''https://'' @ hostname
                 | Some p \<Rightarrow> if p = 443 then ''https://'' @ hostname
                            else ''https://'' @ hostname @ '':'' @ str_int p))))"

text \<open>\<open>policy.get("host") if isinstance(policy, dict) else policy\<close>, when it is a non-empty string.\<close>

definition policy_host :: "jval \<Rightarrow> string option" where
  "policy_host p = (case p of JObj d \<Rightarrow> text_of (field_of d ''host'') | _ \<Rightarrow> text_of p)"

text \<open>The reading of the checker skips an origin that is refused.\<close>

fun http_origins :: "url_parser \<Rightarrow> jval list \<Rightarrow> exn + string list" where
  "http_origins urlparse [] = Inr []"
| "http_origins urlparse (p # ps) = (case policy_host p of
      None \<Rightarrow> http_origins urlparse ps
    | Some host \<Rightarrow> (case request_origin urlparse host of
          Inl (PermissionError m) \<Rightarrow> http_origins urlparse ps
        | Inl e \<Rightarrow> Inl e
        | Inr origin \<Rightarrow> map_sum id ((#) origin) (http_origins urlparse ps)))"

text \<open>The reading of the client raises.\<close>

fun raised_origins :: "url_parser \<Rightarrow> jval list \<Rightarrow> exn + string list" where
  "raised_origins urlparse [] = Inr []"
| "raised_origins urlparse (p # ps) = (case policy_host p of
      None \<Rightarrow> raised_origins urlparse ps
    | Some host \<Rightarrow> (case request_origin urlparse host of
          Inl e \<Rightarrow> Inl e
        | Inr origin \<Rightarrow> map_sum id ((#) origin) (raised_origins urlparse ps)))"

definition allowed_origins :: "url_parser \<Rightarrow> jval list \<Rightarrow> exn + string list" where
  "allowed_origins urlparse policies =
     (if policies = [] then Inl (PermissionError ''HTTP requests require a non-empty hosts policy.'')
      else (case raised_origins urlparse policies of
          Inl e \<Rightarrow> Inl e
        | Inr origins \<Rightarrow> if origins = [] then Inl (PermissionError ''HTTP requests require at least one valid host.'')
                        else Inr origins))"

definition http_request_grant_is_subset ::
  "url_parser \<Rightarrow> jval list option \<Rightarrow> jval list option \<Rightarrow> exn + bool" where
  "http_request_grant_is_subset urlparse requested granted =
     (case http_origins urlparse (policy_list granted) of
        Inl e \<Rightarrow> Inl e
      | Inr g \<Rightarrow> (case http_origins urlparse (policy_list requested) of
            Inl e \<Rightarrow> Inl e
          | Inr r \<Rightarrow> Inr (set g \<subseteq> set r)))"

section \<open>Calls of other extensions\<close>

definition clean_access :: "jval list \<Rightarrow> string list" where
  "clean_access l = filter (\<lambda>a. a = ''read'' \<or> a = ''write'') (texts_in l)"

definition api_policy :: "jval \<Rightarrow> (string \<times> jval list) option" where
  "api_policy p = (case p of
      JStr s \<Rightarrow> Some (s, [JStr ''read''])
    | JObj d \<Rightarrow> (case (field_of d ''id'', field_of d ''access'') of
          (JStr i, JList l) \<Rightarrow> Some (i, l) | _ \<Rightarrow> None)
    | _ \<Rightarrow> None)"

fun extension_api_targets :: "(string \<times> string list) list \<Rightarrow> jval list \<Rightarrow> (string \<times> string list) list" where
  "extension_api_targets targets [] = targets"
| "extension_api_targets targets (p # ps) = (case api_policy p of
      None \<Rightarrow> extension_api_targets targets ps
    | Some (i, access) \<Rightarrow>
        if i = [] \<or> map_of targets i \<noteq> None \<or> clean_access access = [] then extension_api_targets targets ps
        else extension_api_targets (targets @ [(i, clean_access access)]) ps)"

definition extension_api_grant_is_subset :: "jval list option \<Rightarrow> jval list option \<Rightarrow> bool" where
  "extension_api_grant_is_subset requested granted =
     (let requested_targets = extension_api_targets [] (policy_list requested) in
      list_all (\<lambda>(i, granted_access). case map_of requested_targets i of
            None \<Rightarrow> False | Some a \<Rightarrow> set granted_access \<subseteq> set a)
        (extension_api_targets [] (policy_list granted)))"

text \<open>The client looks for the first entry of the target.\<close>

fun target_access :: "string \<Rightarrow> jval list \<Rightarrow> exn + string list" where
  "target_access target [] = Inl (PermissionError ''Extension API target is not allowed.'')"
| "target_access target (p # ps) =
     (let use = (\<lambda>i access.
            if i \<noteq> target then target_access target ps
            else if clean_access access \<noteq> [] then Inr (clean_access access)
            else Inl (PermissionError ''Extension API target is not allowed.''))
      in case p of
           JStr s \<Rightarrow> use s [JStr ''read'']
         | JObj d \<Rightarrow> (case field_of d ''id'' of
               JStr i \<Rightarrow> (case field_of d ''access'' of
                   JList l \<Rightarrow> use i l
                 | _ \<Rightarrow> Inl (PermissionError ''Extension API target has no access policy.''))
             | _ \<Rightarrow> target_access target ps)
         | _ \<Rightarrow> target_access target ps)"

definition target_extension_access :: "jval list \<Rightarrow> string \<Rightarrow> exn + string list" where
  "target_extension_access policies target =
     (if policies = [] then Inl (PermissionError ''Extension API requests require a non-empty extensions policy.'')
      else target_access target policies)"

section \<open>Public storage\<close>

record table_policy =
  tp_fields :: "string list"
  tp_source_id_field :: "string option"

text \<open>\<open>source_id_field is not None and (not a string or empty)\<close> makes the policy invalid.\<close>

definition source_field :: "jval \<Rightarrow> string option option" where
  "source_field v = (case v of JNull \<Rightarrow> Some None | _ \<Rightarrow> map_option Some (text_of v))"

definition storage_policy :: "jval \<Rightarrow> (string \<times> table_policy) option" where
  "storage_policy p = (case p of
      JObj d \<Rightarrow>
        (case (field_of d ''table_name'', field_of d ''public_fields'', source_field (field_of d ''source_id_field'')) of
           (JStr table, JList l, Some source) \<Rightarrow>
             (if texts_in l = [] then None else Some (table, \<lparr>tp_fields = texts_in l, tp_source_id_field = source\<rparr>))
         | _ \<Rightarrow> None)
    | _ \<Rightarrow> None)"

fun public_storage_tables :: "(string \<times> table_policy) list \<Rightarrow> jval list \<Rightarrow> (string \<times> table_policy) list" where
  "public_storage_tables tables [] = tables"
| "public_storage_tables tables (p # ps) = (case storage_policy p of
      None \<Rightarrow> public_storage_tables tables ps
    | Some (table, policy) \<Rightarrow>
        if map_of tables table \<noteq> None then public_storage_tables tables ps
        else public_storage_tables (tables @ [(table, policy)]) ps)"

definition table_policy_within :: "table_policy \<Rightarrow> table_policy \<Rightarrow> bool" where
  "table_policy_within requested granted \<longleftrightarrow>
     set (tp_fields granted) \<subseteq> set (tp_fields requested)
     \<and> (truthy (tp_source_id_field requested) \<longrightarrow> tp_source_id_field granted = tp_source_id_field requested)"

definition public_storage_grant_is_subset :: "jval list option \<Rightarrow> jval list option \<Rightarrow> bool" where
  "public_storage_grant_is_subset requested granted =
     (let requested_tables = public_storage_tables [] (policy_list requested) in
      list_all (\<lambda>(table, policy). case map_of requested_tables table of
            None \<Rightarrow> False | Some r \<Rightarrow> table_policy_within r policy)
        (public_storage_tables [] (policy_list granted)))"

text \<open>\<open>_public_storage_policy\<close> of the host, for one table: the first entry that names it decides.\<close>

fun host_table_policy :: "string \<Rightarrow> jval list \<Rightarrow> exn + table_policy" where
  "host_table_policy table [] = Inl (PermissionError ''Storage table is not publicly readable.'')"
| "host_table_policy table (p # ps) = (case p of
      JObj d \<Rightarrow>
        if field_of d ''table_name'' \<noteq> JStr table then host_table_policy table ps
        else (case field_of d ''public_fields'' of
            JList l \<Rightarrow>
              if list_ex (\<lambda>f. text_of f = None) l
              then Inl (PermissionError ''Public storage table has no valid public fields.'')
              else (case source_field (field_of d ''source_id_field'') of
                  None \<Rightarrow> Inl (PermissionError ''Public storage table has no valid source ID field.'')
                | Some source \<Rightarrow> Inr \<lparr>tp_fields = texts_in l, tp_source_id_field = source\<rparr>)
          | _ \<Rightarrow> Inl (PermissionError ''Public storage table has no valid public fields.''))
    | _ \<Rightarrow> host_table_policy table ps)"

definition public_storage_policy :: "jval list option \<Rightarrow> string \<Rightarrow> exn + table_policy" where
  "public_storage_policy policies table =
     (if policy_list policies = []
      then Inl (PermissionError ''Public storage reads require policies for ext.storage.read_public.'')
      else host_table_policy table (policy_list policies))"

section \<open>Public appends\<close>

record append_policy =
  ap_table :: string
  ap_source_table :: string
  ap_source_id_field :: string
  ap_allowed_fields :: "string list"
  ap_max_rows_per_source :: int

definition target_of :: "append_policy \<Rightarrow> string \<times> string \<times> string" where
  "target_of p = (ap_table p, ap_source_table p, ap_source_id_field p)"

definition max_rows_field :: "dict \<Rightarrow> jval" where
  "max_rows_field d = (case dget d ''max_rows_per_source'' of
      None \<Rightarrow> JInt PUBLIC_APPEND_DEFAULT_MAX_ROWS_PER_SOURCE | Some v \<Rightarrow> v)"

text \<open>What the checker accepts: fields that are no strings are dropped, the limit has a maximum.\<close>

definition storage_append_target :: "jval \<Rightarrow> append_policy option" where
  "storage_append_target p = (case p of
      JObj d \<Rightarrow>
        (case (text_of (field_of d ''table''), text_of (field_of d ''source_table''),
               text_of (field_of d ''source_id_field''), list_value (field_of d ''allowed_fields''),
               strict_int (max_rows_field d)) of
           (Some table, Some source_table, Some source_id_field, Some l, Some n) \<Rightarrow>
             (if source_id_field = ''id'' \<or> n \<le> 0 \<or> n > PUBLIC_APPEND_MAX_ROWS_PER_SOURCE_LIMIT
                 \<or> set (texts_in l) \<inter> {''id'', owner_id_field, source_id_field} \<noteq> {}
              then None
              else Some \<lparr>ap_table = table, ap_source_table = source_table, ap_source_id_field = source_id_field,
                         ap_allowed_fields = texts_in l, ap_max_rows_per_source = n\<rparr>)
         | _ \<Rightarrow> None)
    | _ \<Rightarrow> None)"

text \<open>A dictionary by target: a later policy for the same target replaces an earlier one.\<close>

definition public_storage_append_targets :: "jval list \<Rightarrow> ((string \<times> string \<times> string) \<times> append_policy) list" where
  "public_storage_append_targets ps =
     foldl (\<lambda>d p. AList.update (target_of p) p d) [] (List.map_filter storage_append_target ps)"

definition public_storage_append_grant_is_subset :: "bool \<Rightarrow> jval list option \<Rightarrow> jval list option \<Rightarrow> bool" where
  "public_storage_append_grant_is_subset allow_override requested granted =
     (let requested_targets = public_storage_append_targets (policy_list requested);
          granted_targets = public_storage_append_targets (policy_list granted) in
      length granted_targets = length (policy_list granted)
      \<and> list_all (\<lambda>(target, policy). case map_of requested_targets target of
            None \<Rightarrow> False
          | Some r \<Rightarrow> set (ap_allowed_fields policy) \<subseteq> set (ap_allowed_fields r)
              \<and> (ap_max_rows_per_source policy \<le> ap_max_rows_per_source r \<or> allow_override))
          granted_targets)"

text \<open>\<open>_normalize_public_storage_append_policy\<close> of the host.\<close>

definition normalize_append_policy :: "jval \<Rightarrow> exn + append_policy" where
  "normalize_append_policy p = (case p of
      JObj d \<Rightarrow>
        (case text_of (field_of d ''table'') of
           None \<Rightarrow> Inl (PermissionError ''Public storage append requires a table policy.'')
         | Some table \<Rightarrow>
        (case text_of (field_of d ''source_table'') of
           None \<Rightarrow> Inl (PermissionError ''Public storage append requires a source table policy.'')
         | Some source_table \<Rightarrow>
        (case text_of (field_of d ''source_id_field'') of
           None \<Rightarrow> Inl (PermissionError ''Public storage append requires a source ID field policy.'')
         | Some source_id_field \<Rightarrow>
            if source_id_field = ''id''
            then Inl (PermissionError ''Public storage append source field cannot be id.'')
            else (case list_value (field_of d ''allowed_fields'') of
                None \<Rightarrow> Inl (PermissionError ''Public storage append requires valid allowed fields.'')
              | Some l \<Rightarrow>
                  if list_ex (\<lambda>f. text_of f = None) l \<or> set (texts_in l) \<inter> {''id'', owner_id_field, source_id_field} \<noteq> {}
                  then Inl (PermissionError ''Public storage append requires valid allowed fields.'')
                  else (case strict_int (max_rows_field d) of
                      None \<Rightarrow> Inl (PermissionError ''Public storage append requires a positive row limit.'')
                    | Some n \<Rightarrow>
                        if n \<le> 0 then Inl (PermissionError ''Public storage append requires a positive row limit.'')
                        else Inr \<lparr>ap_table = table, ap_source_table = source_table,
                                  ap_source_id_field = source_id_field, ap_allowed_fields = texts_in l,
                                  ap_max_rows_per_source = n\<rparr>)))))
    | _ \<Rightarrow> Inl (PermissionError ''Public storage append policies must be objects.''))"

section \<open>Public invoices\<close>

definition invoice_source :: "jval \<Rightarrow> (string \<times> string) option" where
  "invoice_source p = (case p of
      JObj d \<Rightarrow> (case (text_of (field_of d ''table''), field_of d ''wallet_field'') of
          (Some table, JStr wallet_field) \<Rightarrow> Some (table, wallet_field) | _ \<Rightarrow> None)
    | _ \<Rightarrow> None)"

definition public_invoice_sources :: "jval list \<Rightarrow> (string \<times> string) list" where
  "public_invoice_sources ps = List.map_filter invoice_source ps"

definition public_invoice_grant_is_subset :: "jval list option \<Rightarrow> jval list option \<Rightarrow> bool" where
  "public_invoice_grant_is_subset requested granted \<longleftrightarrow>
     set (public_invoice_sources (policy_list granted)) \<subseteq> set (public_invoice_sources (policy_list requested))"

text \<open>\<open>_public_invoice_wallet_sources\<close> of the host.\<close>

fun invoice_wallet_sources :: "jval list \<Rightarrow> exn + (string \<times> string) list" where
  "invoice_wallet_sources [] = Inr []"
| "invoice_wallet_sources (p # ps) = (case p of
      JObj d \<Rightarrow>
        (case text_of (field_of d ''table'') of
           None \<Rightarrow> Inl (PermissionError ''Public invoice creation requires a storage table policy.'')
         | Some table \<Rightarrow> (case text_of (field_of d ''wallet_field'') of
             None \<Rightarrow> Inl (PermissionError ''Public invoice creation requires a wallet field policy.'')
           | Some wallet_field \<Rightarrow> map_sum id ((#) (table, wallet_field)) (invoice_wallet_sources ps)))
    | _ \<Rightarrow> Inl (PermissionError ''Public invoice creation policies must be objects.''))"

definition public_invoice_wallet_sources :: "jval list option \<Rightarrow> exn + (string \<times> string) list" where
  "public_invoice_wallet_sources policies =
     (if policy_list policies = [] then Inl (PermissionError ''Public invoice creation requires a policies list.'')
      else invoice_wallet_sources (policy_list policies))"

section \<open>Publishing\<close>

definition websocket_publish_policy :: "jval list option \<Rightarrow> int option" where
  "websocket_publish_policy policies = (case policy_list policies of
      [JObj d] \<Rightarrow> (case strict_int (field_of d ''max_messages_per_second'') of
          Some n \<Rightarrow> (if n \<le> 0 \<or> n > WEBSOCKET_PUBLISH_MAX_MESSAGES_PER_SECOND_LIMIT then None else Some n)
        | None \<Rightarrow> None)
    | _ \<Rightarrow> None)"

definition websocket_publish_grant_is_subset :: "bool \<Rightarrow> jval list option \<Rightarrow> jval list option \<Rightarrow> bool" where
  "websocket_publish_grant_is_subset allow_override requested granted =
     (case (websocket_publish_policy requested, websocket_publish_policy granted) of
        (Some r, Some g) \<Rightarrow> g \<le> r \<or> allow_override
      | _ \<Rightarrow> False)"

text \<open>\<open>_websocket_publish_max_messages_per_second\<close> of the host.\<close>

definition max_messages_per_second :: "jval list option \<Rightarrow> exn + int" where
  "max_messages_per_second policies = (case policy_list policies of
      [JObj d] \<Rightarrow> (case strict_int (field_of d ''max_messages_per_second'') of
          Some n \<Rightarrow> (if n \<le> 0 then Inl (PermissionError ''Websocket publishing requires a valid max messages per second policy.'')
                     else Inr n)
        | None \<Rightarrow> Inl (PermissionError ''Websocket publishing requires a valid max messages per second policy.''))
    | _ \<Rightarrow> Inl (PermissionError ''Websocket publishing requires a max messages per second policy.''))"

section \<open>Validation of a grant\<close>

definition validate_extension_permissions :: "ext_permission list \<Rightarrow> bool \<Rightarrow> exn + ext_permission list" where
  "validate_extension_permissions permissions strict =
     (let known = (\<lambda>p. xp_id p \<in> set extension_api_permission_ids) in
      if strict \<and> \<not> list_all known permissions then Inl (ValueError ''Extension requests unknown permissions'')
      else Inr permissions)"

definition validate_requested_permission_policies :: "ext_permission list \<Rightarrow> exn + unit" where
  "validate_requested_permission_policies permissions =
     (if list_ex (\<lambda>p. xp_id p = ''websocket.publish'' \<and> websocket_publish_policy (xp_policies p) = None) permissions
      then Inl (ValueError ''Extension requests invalid policies for permission websocket.publish.'')
      else Inr ())"

definition permission_index :: "ext_permission list \<Rightarrow> exn + (string \<times> ext_permission) list" where
  "permission_index permissions =
     (if distinct (map xp_id permissions) then Inr (map (\<lambda>p. (xp_id p, p)) permissions)
      else Inl (ValueError ''Extension has duplicate permissions''))"

definition permission_grant_is_subset ::
  "url_parser \<Rightarrow> bool \<Rightarrow> ext_permission \<Rightarrow> ext_permission \<Rightarrow> exn + bool" where
  "permission_grant_is_subset urlparse allow_override requested granted =
     (let i = xp_id requested; rp = xp_policies requested; gp = xp_policies granted in
      if i \<noteq> xp_id granted then Inr False
      else if i \<notin> set policy_aware_permission_ids then Inr True
      else if i = ''http.request'' then http_request_grant_is_subset urlparse rp gp
      else if i = ''extension.api.request'' then Inr (extension_api_grant_is_subset rp gp)
      else if i = ''ext.storage.append_public'' then Inr (public_storage_append_grant_is_subset allow_override rp gp)
      else if i = ''ext.storage.read_public'' then Inr (public_storage_grant_is_subset rp gp)
      else if i = ''wallet.create_invoice_public'' then Inr (public_invoice_grant_is_subset rp gp)
      else if i = ''websocket.publish'' then Inr (websocket_publish_grant_is_subset allow_override rp gp)
      else Inr False)"

fun effective_permissions ::
  "url_parser \<Rightarrow> bool \<Rightarrow> (string \<times> ext_permission) list \<Rightarrow> (string \<times> ext_permission) list \<Rightarrow> exn + ext_permission list" where
  "effective_permissions urlparse allow_override requested [] = Inr []"
| "effective_permissions urlparse allow_override requested ((i, g) # gs) =
     (case map_of requested i of
        None \<Rightarrow> Inl KeyError
      | Some r \<Rightarrow> (case permission_grant_is_subset urlparse allow_override r g of
            Inl e \<Rightarrow> Inl e
          | Inr ok \<Rightarrow>
              if \<not> ok then Inl (ValueError ''Extension was granted broader policies'')
              else map_sum id ((#) (r\<lparr>xp_policies := xp_policies g\<rparr>))
                     (effective_permissions urlparse allow_override requested gs)))"

text \<open>\<open>config\<close> is the list of permissions of the parsed configuration, or the exception of parsing it; \<open>None\<close> when
  the configuration is not that of a web assembly extension.\<close>

definition validate_wasm_extension_permissions ::
  "url_parser \<Rightarrow> ext_permission list option \<Rightarrow> (exn + ext_permission list) option \<Rightarrow> bool \<Rightarrow> exn + ext_permission list" where
  "validate_wasm_extension_permissions urlparse granted_permissions config allow_override = (case config of
      None \<Rightarrow> Inr []
    | Some (Inl e) \<Rightarrow> Inl e
    | Some (Inr permissions) \<Rightarrow>
        (case validate_extension_permissions permissions True of
           Inl e \<Rightarrow> Inl e
         | Inr requested \<Rightarrow>
        (case validate_requested_permission_policies requested of
           Inl e \<Rightarrow> Inl e
         | Inr _ \<Rightarrow>
            if requested = [] then Inr []
            else (case granted_permissions of
                None \<Rightarrow> Inl (ValueError ''Extension requires permission approval.'')
              | Some gs \<Rightarrow>
                  (case validate_extension_permissions gs True of
                     Inl e \<Rightarrow> Inl e
                   | Inr granted \<Rightarrow>
                  (case permission_index requested of
                     Inl e \<Rightarrow> Inl e
                   | Inr requested_by_id \<Rightarrow>
                  (case permission_index granted of
                     Inl e \<Rightarrow> Inl e
                   | Inr granted_by_id \<Rightarrow>
                      if \<not> fst ` set granted_by_id \<subseteq> fst ` set requested_by_id
                      then Inl (ValueError ''Extension was granted unrequested permissions'')
                      else effective_permissions urlparse allow_override requested_by_id granted_by_id)))))))"

section \<open>What the host makes of the permissions\<close>

text \<open>\<open>_permission_data\<close>, for the stored permissions: the ids, and the policies by id, the last entry counting.\<close>

definition permission_ids :: "ext_permission list \<Rightarrow> string list" where
  "permission_ids permissions = filter (\<lambda>i. i \<noteq> []) (map xp_id permissions)"

definition permission_policies :: "ext_permission list \<Rightarrow> string \<Rightarrow> jval list option" where
  "permission_policies permissions i =
     map_of (rev (List.map_filter (\<lambda>p. if xp_id p = [] then None
        else map_option (Pair (xp_id p)) (xp_policies p)) permissions)) i"

end
