(* ===== verification/WasmSockets.thy ===== *)
theory WasmSockets
  imports WasmPermissions
begin

text \<open>
  \<open>core/wasm_ext/api/websockets.py\<close>: the hub through which an extension publishes to web sockets and the clients
  of a channel talk to each other. A socket is a number, its identity; what is sent to it and how it is closed
  is recorded. \<open>broken\<close> says which sockets raise when written to; the clock is an argument.
\<close>

section \<open>Channels\<close>

definition alnum :: "char \<Rightarrow> bool" where
  "alnum c \<longleftrightarrow> (let n = (of_char c :: nat) in (48 \<le> n \<and> n \<le> 57) \<or> (65 \<le> n \<and> n \<le> 90) \<or> (97 \<le> n \<and> n \<le> 122))"

definition id_char :: "char \<Rightarrow> bool" where
  "id_char c \<longleftrightarrow> alnum c \<or> c = CHR 0x5F \<or> c = CHR ''-''"

definition valid_namespace :: "string \<Rightarrow> bool" where
  "valid_namespace s \<longleftrightarrow> 1 \<le> length s \<and> length s \<le> 128 \<and> list_all id_char s"

definition valid_item_id :: "string \<Rightarrow> bool" where
  "valid_item_id s \<longleftrightarrow> (case s of
      [] \<Rightarrow> False | c # cs \<Rightarrow> alnum c \<and> length cs \<le> 127 \<and> list_all (\<lambda>x. id_char x \<or> x = CHR '':'') cs)"

definition scoped_websocket_item_id :: "string \<Rightarrow> string \<Rightarrow> exn + string" where
  "scoped_websocket_item_id ext chan =
     (if \<not> valid_namespace ext then Inl (ValueError ''Extension websocket namespace is invalid.'')
      else if \<not> valid_item_id chan then Inl (ValueError ''Extension websocket item ID is invalid.'')
      else Inr (''ext:'' @ ext @ '':'' @ chan))"

section \<open>The hub\<close>

record connection =
  cn_extension :: string
  cn_item :: string
  cn_socket :: nat

record hub =
  hb_connections :: "connection list"
  hb_publish :: "((string \<times> string) \<times> rat list) list"
  hb_client :: "(nat \<times> rat list) list"
  hb_sent :: "(connection \<times> string) list"
  hb_closed :: "(nat \<times> int) list"

definition empty_hub :: hub where
  "empty_hub = \<lparr>hb_connections = [], hb_publish = [], hb_client = [], hb_sent = [], hb_closed = []\<rparr>"

abbreviation "WEBSOCKET_CLIENT_MAX_MESSAGES_PER_SECOND \<equiv> 60 :: int"
abbreviation "WEBSOCKET_CLIENT_MAX_MESSAGE_BYTES \<equiv> 8192 :: nat"
abbreviation "RateLimitError \<equiv> PermissionError ''WASM websocket rate limit exceeded.''"

text \<open>\<open>setdefault(key, deque())\<close>, and popping what is a second old.\<close>

definition stamps :: "('k \<times> rat list) list \<Rightarrow> 'k \<Rightarrow> rat list" where
  "stamps d k = (case map_of d k of None \<Rightarrow> [] | Some ts \<Rightarrow> ts)"

definition recent :: "rat \<Rightarrow> rat list \<Rightarrow> rat list" where
  "recent now ts = dropWhile (\<lambda>t. 1 \<le> fsub now t) ts"

definition hub_connect :: "string \<Rightarrow> string \<Rightarrow> nat \<Rightarrow> (hub, connection) py" where
  "hub_connect ext chan socket =
     bindP (liftE (scoped_websocket_item_id ext chan)) (\<lambda>_.
     (let conn = \<lparr>cn_extension = ext, cn_item = chan, cn_socket = socket\<rparr> in
      thenP (modify (\<lambda>h. h\<lparr>hb_connections := hb_connections h @ [conn]\<rparr>)) (ret conn)))"

definition hub_disconnect :: "connection \<Rightarrow> (hub, unit) py" where
  "hub_disconnect conn =
     modify (\<lambda>h. h\<lparr>hb_connections := filter (\<lambda>c. cn_socket c \<noteq> cn_socket conn) (hb_connections h),
                   hb_client := AList.delete (cn_socket conn) (hb_client h)\<rparr>)"

definition get_connections :: "string \<Rightarrow> string \<Rightarrow> hub \<Rightarrow> connection list" where
  "get_connections ext chan h = filter (\<lambda>c. cn_extension c = ext \<and> cn_item c = chan) (hb_connections h)"

definition send_to_connection :: "(nat \<Rightarrow> bool) \<Rightarrow> connection \<Rightarrow> string \<Rightarrow> (hub, unit) py" where
  "send_to_connection broken conn data =
     (if broken (cn_socket conn) then hub_disconnect conn
      else modify (\<lambda>h. h\<lparr>hb_sent := hb_sent h @ [(conn, data)]\<rparr>))"

definition check_publish_rate :: "rat \<Rightarrow> string \<Rightarrow> string \<Rightarrow> int \<Rightarrow> (hub, unit) py" where
  "check_publish_rate now ext chan max_messages =
     thenP (failIf (max_messages \<le> 0 \<or> max_messages > WEBSOCKET_PUBLISH_MAX_MESSAGES_PER_SECOND_LIMIT)
              (ValueError ''Invalid websocket publish rate limit.''))
     (bindP (gets (\<lambda>h. recent now (stamps (hb_publish h) (ext, chan)))) (\<lambda>timestamps.
      thenP (modify (\<lambda>h. h\<lparr>hb_publish := AList.update (ext, chan) timestamps (hb_publish h)\<rparr>))
      (thenP (failIf (int (length timestamps) \<ge> max_messages) RateLimitError)
       (modify (\<lambda>h. h\<lparr>hb_publish := AList.update (ext, chan) (timestamps @ [now]) (hb_publish h)\<rparr>)))))"

definition hub_publish :: "(nat \<Rightarrow> bool) \<Rightarrow> rat \<Rightarrow> string \<Rightarrow> string \<Rightarrow> string \<Rightarrow> int \<Rightarrow> (hub, unit) py" where
  "hub_publish broken now ext chan data max_messages =
     bindP (liftE (scoped_websocket_item_id ext chan)) (\<lambda>_.
     thenP (check_publish_rate now ext chan max_messages)
     (bindP (gets (get_connections ext chan)) (\<lambda>conns.
        forP conns (\<lambda>conn. send_to_connection broken conn data))))"

section \<open>Clients\<close>

definition check_client_rate :: "rat \<Rightarrow> connection \<Rightarrow> (hub, unit) py" where
  "check_client_rate now conn =
     bindP (gets (\<lambda>h. recent now (stamps (hb_client h) (cn_socket conn)))) (\<lambda>timestamps.
     thenP (modify (\<lambda>h. h\<lparr>hb_client := AList.update (cn_socket conn) timestamps (hb_client h)\<rparr>))
     (thenP (failIf (int (length timestamps) \<ge> WEBSOCKET_CLIENT_MAX_MESSAGES_PER_SECOND) RateLimitError)
      (modify (\<lambda>h. h\<lparr>hb_client := AList.update (cn_socket conn) (timestamps @ [now]) (hb_client h)\<rparr>))))"

definition broadcast_client_message :: "(nat \<Rightarrow> bool) \<Rightarrow> connection \<Rightarrow> string \<Rightarrow> (hub, unit) py" where
  "broadcast_client_message broken conn data =
     bindP (gets (get_connections (cn_extension conn) (cn_item conn))) (\<lambda>conns.
     forP conns (\<lambda>active. if cn_socket active = cn_socket conn then ret () else send_to_connection broken active data))"

definition close_socket :: "connection \<Rightarrow> int \<Rightarrow> (hub, unit) py" where
  "close_socket conn code = modify (\<lambda>h. h\<lparr>hb_closed := hb_closed h @ [(cn_socket conn, code)]\<rparr>)"

text \<open>One round of \<open>listen\<close>: a text was received, or the client is gone; the result says whether the loop goes on.\<close>

definition hub_listen :: "(nat \<Rightarrow> bool) \<Rightarrow> rat \<Rightarrow> connection \<Rightarrow> string option \<Rightarrow> (hub, bool) py" where
  "hub_listen broken now conn received = (case received of
      None \<Rightarrow> thenP (hub_disconnect conn) (ret False)
    | Some data \<Rightarrow>
        if length (utf8_encode data) > WEBSOCKET_CLIENT_MAX_MESSAGE_BYTES
        then thenP (close_socket conn 1009) (thenP (hub_disconnect conn) (ret False))
        else tryP (thenP (check_client_rate now conn) (thenP (broadcast_client_message broken conn data) (ret True)))
               (\<lambda>e. thenP (close_socket conn 1008) (thenP (hub_disconnect conn) (ret False))))"

section \<open>Messages stay in their channel\<close>

text \<open>What an action sends goes to connections of one channel that are open when it starts.\<close>

definition speaks :: "(connection \<Rightarrow> bool) \<Rightarrow> hub \<Rightarrow> hub \<Rightarrow> bool" where
  "speaks P h k \<longleftrightarrow> (\<exists>ms. hb_sent k = hb_sent h @ ms \<and> (\<forall>m \<in> set ms. P (fst m)))"

lemma speaks_refl [simp]: "speaks P h h"
  by (simp add: speaks_def)

lemma keeps_speaks_disconnect [keeps_intro]: "keeps (speaks P h) (hub_disconnect c)"
  unfolding hub_disconnect_def by (intro keeps_intro) (simp add: speaks_def)

lemma keeps_speaks_close [keeps_intro]: "keeps (speaks P h) (close_socket c n)"
  unfolding close_socket_def by (intro keeps_intro) (simp add: speaks_def)

lemma keeps_speaks_send: "P c \<Longrightarrow> keeps (speaks P h) (send_to_connection broken c d)"
  unfolding send_to_connection_def by (intro keeps_intro) (auto simp: speaks_def)

lemma speaks_same: "hb_sent l = hb_sent k \<Longrightarrow> speaks P h l = speaks P h k"
  by (simp add: speaks_def)

lemma keeps_speaks_silent: "(\<And>s. hb_sent (f s) = hb_sent s) \<Longrightarrow> keeps (speaks P h) (modify f)"
  by (intro keeps_modify) (simp add: speaks_def)

lemma keeps_speaks_publish_rate [keeps_intro]: "keeps (speaks P h) (check_publish_rate now ext chan n)"
  unfolding check_publish_rate_def by (intro keeps_thenP keeps_bindP keeps_failIf keeps_gets keeps_speaks_silent) simp_all

lemma keeps_speaks_client_rate [keeps_intro]: "keeps (speaks P h) (check_client_rate now c)"
  unfolding check_client_rate_def by (intro keeps_thenP keeps_bindP keeps_failIf keeps_gets keeps_speaks_silent) simp_all

lemma keeps_forP_member: "(\<And>x. x \<in> set xs \<Longrightarrow> keeps P (f x)) \<Longrightarrow> keeps P (forP xs f)"
  by (induction xs) (auto intro: keeps_intro)

lemma publish_speaks:
  "speaks (\<lambda>c. cn_extension c = ext \<and> cn_item c = chan) h (snd (hub_publish broken now ext chan data n h))"
proof -
  let ?P = "\<lambda>c. cn_extension c = ext \<and> cn_item c = chan"
  have loop: "keeps (speaks ?P h) (forP (get_connections ext chan s) (\<lambda>c. send_to_connection broken c data))" for s
    by (intro keeps_forP_member keeps_speaks_send) (simp add: get_connections_def)
  have "keeps (speaks ?P h) (bindP (gets (get_connections ext chan)) (\<lambda>cs. forP cs (\<lambda>c. send_to_connection broken c data)))"
    using loop by (simp add: keeps_def)
  then have "keeps (speaks ?P h) (hub_publish broken now ext chan data n)"
    unfolding hub_publish_def
    by - (rule keeps_bindP [OF keeps_liftE], rule keeps_thenP [OF keeps_speaks_publish_rate], assumption)
  then show ?thesis by (rule keepsD) simp
qed

section \<open>Rates\<close>

text \<open>Runs of the hub: any sequence of publications, connections and client messages at times that do not go
  back, each extension with a fixed limit. The history holds the accepted publications.\<close>

inductive hub_run :: "(nat \<Rightarrow> bool) \<Rightarrow> (string \<Rightarrow> int) \<Rightarrow> rat \<Rightarrow> hub \<Rightarrow> (rat \<times> string \<times> string) list \<Rightarrow> bool"
  for broken limit where
  start: "hub_run broken limit now empty_hub []"
| wait: "hub_run broken limit now h hist \<Longrightarrow> now \<le> later \<Longrightarrow> hub_run broken limit later h hist"
| published: "hub_run broken limit now h hist \<Longrightarrow> hub_publish broken now ext chan data (limit ext) h = (Inr u, k)
    \<Longrightarrow> hub_run broken limit now k (hist @ [(now, ext, chan)])"
| refused: "hub_run broken limit now h hist \<Longrightarrow> hub_publish broken now ext chan data (limit ext) h = (Inl e, k)
    \<Longrightarrow> hub_run broken limit now k hist"
| connected: "hub_run broken limit now h hist \<Longrightarrow> hub_connect ext chan socket h = (r, k) \<Longrightarrow> hub_run broken limit now k hist"
| client: "hub_run broken limit now h hist \<Longrightarrow> hub_listen broken now conn received h = (b, k)
    \<Longrightarrow> hub_run broken limit now k hist"

definition publication_times :: "string \<Rightarrow> string \<Rightarrow> (rat \<times> string \<times> string) list \<Rightarrow> rat list" where
  "publication_times ext chan hist = map fst (filter (\<lambda>x. snd x = (ext, chan)) hist)"

text \<open>The remembered times are the last accepted ones; those forgotten are a second old.\<close>

definition remembers :: "rat \<Rightarrow> int \<Rightarrow> rat list \<Rightarrow> rat list \<Rightarrow> bool" where
  "remembers now n all ts \<longleftrightarrow>
     sorted all \<and> (\<forall>t \<in> set all. t \<le> now)
     \<and> (\<exists>old. all = old @ ts \<and> (\<forall>t \<in> set old. 1 \<le> fsub now t))
     \<and> (\<forall>i. i + nat n < length all \<longrightarrow> 1 \<le> fsub (all ! (i + nat n)) (all ! i))"

lemma fsub_mono: "now \<le> later \<Longrightarrow> fsub now t \<le> fsub later t"
  by (simp add: fsub_def fl_mono)

lemma fsub_antimono: "t \<le> u \<Longrightarrow> fsub now u \<le> fsub now t"
  by (simp add: fsub_def fl_mono)

lemma remembers_empty: "remembers now n [] []"
  by (simp add: remembers_def)

lemma remembers_later:
  assumes "remembers now n all ts" "now \<le> later"
  shows "remembers later n all ts"
proof -
  obtain old where "all = old @ ts" "\<forall>t \<in> set old. 1 \<le> fsub now t" using assms(1) by (auto simp: remembers_def)
  then have "\<exists>old. all = old @ ts \<and> (\<forall>t \<in> set old. 1 \<le> fsub later t)"
    using fsub_mono [OF assms(2)] order_trans by (intro exI [of _ old]) blast
  then show ?thesis using assms unfolding remembers_def by fastforce
qed

lemma remembers_recent: "remembers now n all ts \<Longrightarrow> remembers now n all (recent now ts)"
proof -
  assume r: "remembers now n all ts"
  then obtain old where o': "all = old @ ts" "\<forall>t \<in> set old. 1 \<le> fsub now t" by (auto simp: remembers_def)
  have "all = (old @ takeWhile (\<lambda>t. 1 \<le> fsub now t) ts) @ recent now ts" using o'(1) by (simp add: recent_def)
  moreover have "\<forall>t \<in> set (old @ takeWhile (\<lambda>t. 1 \<le> fsub now t) ts). 1 \<le> fsub now t"
    using o'(2) by (auto dest: set_takeWhileD)
  ultimately show ?thesis using r unfolding remembers_def by blast
qed

lemma remembers_accept:
  assumes r: "remembers now n all ts" and n: "0 < n" "int (length ts) < n"
  shows "remembers now n (all @ [now]) (ts @ [now])"
proof -
  from r obtain old where o': "all = old @ ts" "\<forall>t \<in> set old. 1 \<le> fsub now t" by (auto simp: remembers_def)
  have "1 \<le> fsub ((all @ [now]) ! (i + nat n)) ((all @ [now]) ! i)" if i: "i + nat n < length (all @ [now])" for i
  proof (cases "i + nat n = length all")
    case True
    then have "i < length old" using o'(1) n by simp
    then have "all ! i \<in> set old" by (simp add: o'(1) nth_append)
    then show ?thesis using True o'(2) n by (simp add: nth_append)
  next
    case False
    then have "i + nat n < length all" using i by simp
    then show ?thesis using r by (simp add: remembers_def nth_append)
  qed
  then show ?thesis using r o' by (auto simp: remembers_def sorted_append)
qed

lemma keeps_stamps_send [keeps_intro]: "keeps (\<lambda>k. hb_publish k = p) (send_to_connection broken c d)"
  unfolding send_to_connection_def hub_disconnect_def by (intro keeps_intro) simp_all

lemma rate_stamps:
  "check_publish_rate now ext chan n h = (r, k) \<Longrightarrow>
     (case r of
        Inr u \<Rightarrow> 0 < n \<and> int (length (recent now (stamps (hb_publish h) (ext, chan)))) < n
          \<and> map_of (hb_publish k) = (map_of (hb_publish h))((ext, chan) \<mapsto> recent now (stamps (hb_publish h) (ext, chan)) @ [now])
      | Inl e \<Rightarrow> hb_publish k = hb_publish h
          \<or> map_of (hb_publish k) = (map_of (hb_publish h))((ext, chan) \<mapsto> recent now (stamps (hb_publish h) (ext, chan))))"
  by (auto simp: check_publish_rate_def thenP_failIf py_unfold thenP_def bindP_def update_conv' split: if_splits)

lemma publish_stamps:
  assumes "hub_publish broken now ext chan data n h = (r, k)"
  shows "case r of
        Inr u \<Rightarrow> 0 < n \<and> int (length (recent now (stamps (hb_publish h) (ext, chan)))) < n
          \<and> map_of (hb_publish k) = (map_of (hb_publish h))((ext, chan) \<mapsto> recent now (stamps (hb_publish h) (ext, chan)) @ [now])
      | Inl e \<Rightarrow> hb_publish k = hb_publish h
          \<or> map_of (hb_publish k) = (map_of (hb_publish h))((ext, chan) \<mapsto> recent now (stamps (hb_publish h) (ext, chan)))"
proof (cases "scoped_websocket_item_id ext chan")
  case (Inl e)
  with assms show ?thesis by (auto simp: hub_publish_def py_unfold)
next
  case (Inr i)
  obtain q l where q: "check_publish_rate now ext chan n h = (q, l)" by fastforce
  note rate = rate_stamps [OF q]
  let ?loop = "forP (get_connections ext chan l) (\<lambda>conn. send_to_connection broken conn data)"
  have loop: "hb_publish (snd (?loop l)) = hb_publish l"
    by (rule keepsD [where P = "\<lambda>k. hb_publish k = hb_publish l"]) (intro keeps_intro, simp)
  have never: "fst (?loop l) \<noteq> Inl e" for e
  proof -
    have "fst (forP cs (\<lambda>conn. send_to_connection broken conn data) s) = Inr ()" for cs s
      by (induction cs arbitrary: s) (auto simp: send_to_connection_def hub_disconnect_def py_unfold bindP_def)
    then show ?thesis by simp
  qed
  show ?thesis
  proof (cases q)
    case (Inl e)
    then show ?thesis using assms rate Inr q by (auto simp: hub_publish_def thenP_eq_Inl)
  next
    case (Inr u)
    then have "?loop l = (r, k)" using assms q \<open>scoped_websocket_item_id ext chan = Inr i\<close>
      by (simp add: hub_publish_def thenP_eq_Inr)
    then show ?thesis using loop never rate Inr by (cases r) auto
  qed
qed

lemma keeps_stamps_client [keeps_intro]:
  "keeps (\<lambda>k. hb_publish k = p) (check_client_rate now c)" "keeps (\<lambda>k. hb_publish k = p) (close_socket c n)"
  "keeps (\<lambda>k. hb_publish k = p) (hub_disconnect c)" "keeps (\<lambda>k. hb_publish k = p) (hub_connect ext chan socket)"
  unfolding check_client_rate_def close_socket_def hub_disconnect_def hub_connect_def Let_def
  by (auto intro!: keeps_intro)

lemma listen_stamps: "hb_publish (snd (hub_listen broken now conn received h)) = hb_publish h"
proof -
  have "keeps (\<lambda>k. hb_publish k = hb_publish h) (hub_listen broken now conn received)"
    unfolding hub_listen_def broadcast_client_message_def by (intro keeps_intro)
  from keepsD [OF this refl] show ?thesis .
qed

lemma connect_stamps: "hb_publish (snd (hub_connect ext chan socket h)) = hb_publish h"
  using keepsD [OF keeps_stamps_client(4) refl] .

lemma run_remembers:
  "hub_run broken limit now h hist \<Longrightarrow>
     remembers now (limit ext) (publication_times ext chan hist) (stamps (hb_publish h) (ext, chan))"
proof (induction rule: hub_run.induct)
  case start
  then show ?case by (simp add: publication_times_def stamps_def empty_hub_def remembers_empty)
next
  case (wait now h hist later)
  then show ?case by (simp add: remembers_later)
next
  case (published now h hist e c data u k)
  from publish_stamps [OF published(2)] remembers_accept [OF remembers_recent [OF published.IH]] published.IH
  show ?case by (auto simp: publication_times_def stamps_def)
next
  case (refused now h hist e c data x k)
  from publish_stamps [OF refused(2)] remembers_recent [OF refused.IH] refused.IH
  show ?case by (auto simp: stamps_def)
next
  case (connected now h hist e c socket r k)
  with connect_stamps [of e c socket h] show ?case by simp
next
  case (client now h hist conn received b k)
  with listen_stamps [of broken now conn received h] show ?case by simp
qed

end
