(* ===== verification/WasmStorage.thy ===== *)
theory WasmStorage
  imports WasmSockets FiatBase
begin

text \<open>
  \<open>core/wasm_ext/storage/crud.py\<close>: the tables of web assembly extensions. Every row belongs to an owner, held in
  a column the extension cannot name. The schema of an extension is a JSON file, the columns of a table come from
  its migrations; both are values here. The database is SQLite: statements become their effect on the rows, texts
  are bound with \<open>rewrite_values\<close> of \<open>db.py\<close>, which removes what looks like a tag or an entity, a date is stored as
  whole seconds, and an integer must fit into 64 bits. \<open>LIKE\<close>, the order of a column and \<open>json.loads\<close> are
  parameters.
\<close>

section \<open>Bound values\<close>

text \<open>\<open>re.sub("<.*?>|&([a-z0-9]+|#[0-9]{1,6}|#x[0-9a-f]{1,6});", "", s)\<close>: the text after a tag, and after an entity.\<close>

fun after_tag :: "string \<Rightarrow> string option" where
  "after_tag [] = None"
| "after_tag (c # cs) = (if c = CHR ''>'' then Some cs else if c = CHR 0x0A then None else after_tag cs)"

definition run_then :: "(char \<Rightarrow> bool) \<Rightarrow> nat \<Rightarrow> string \<Rightarrow> string option" where
  "run_then P n s =
     (let k = length (takeWhile P s) in
      if 1 \<le> k \<and> k \<le> n then (case drop k s of [] \<Rightarrow> None | c # cs \<Rightarrow> if c = CHR '';'' then Some cs else None) else None)"

definition lower_alnum :: "char \<Rightarrow> bool" where
  "lower_alnum c \<longleftrightarrow> (let n = (of_char c :: nat) in (48 \<le> n \<and> n \<le> 57) \<or> (97 \<le> n \<and> n \<le> 122))"

definition lower_hex :: "char \<Rightarrow> bool" where
  "lower_hex c \<longleftrightarrow> (let n = (of_char c :: nat) in (48 \<le> n \<and> n \<le> 57) \<or> (97 \<le> n \<and> n \<le> 102))"

definition after_entity :: "string \<Rightarrow> string option" where
  "after_entity s = (case run_then lower_alnum (length s) s of
      Some r \<Rightarrow> Some r
    | None \<Rightarrow> (case s of
          c # cs \<Rightarrow> if c \<noteq> CHR ''#'' then None
            else (case run_then is_digit 6 cs of
                Some r \<Rightarrow> Some r
              | None \<Rightarrow> (case cs of
                    x # ds \<Rightarrow> if x = CHR ''x'' then run_then lower_hex 6 ds else None
                  | [] \<Rightarrow> None))
        | [] \<Rightarrow> None))"

lemma after_tag_shorter: "after_tag s = Some r \<Longrightarrow> length r < length s"
  by (induction s) (auto split: if_splits)

lemma run_then_shorter: "run_then P n s = Some r \<Longrightarrow> length r < length s"
proof -
  assume "run_then P n s = Some r"
  then have "\<exists>c. drop (length (takeWhile P s)) s = c # r"
    by (auto simp: run_then_def Let_def split: if_splits list.splits)
  then obtain c where "drop (length (takeWhile P s)) s = c # r" ..
  from arg_cong [OF this, of length] show ?thesis by simp
qed

lemma after_entity_shorter: "after_entity s = Some r \<Longrightarrow> length r < length s"
  by (auto simp: after_entity_def split: option.splits list.splits if_splits dest!: run_then_shorter)

function strip_html :: "string \<Rightarrow> string" where
  "strip_html s = (case s of
      [] \<Rightarrow> []
    | c # cs \<Rightarrow>
        (case (if c = CHR ''<'' then after_tag cs else if c = CHR ''&'' then after_entity cs else None) of
           Some r \<Rightarrow> strip_html r
         | None \<Rightarrow> c # strip_html cs))"
  by pat_completeness auto
termination
  by (relation "measure length")
    (auto split: if_splits dest: after_tag_shorter after_entity_shorter intro: less_SucI)

declare strip_html.simps [simp del]

text \<open>One value of \<open>rewrite_values\<close>, as the driver binds it.\<close>

definition bind_value :: "jval \<Rightarrow> exn + jval" where
  "bind_value v = (case v of
      JStr s \<Rightarrow> Inr (JStr (strip_html s))
    | JInt i \<Rightarrow> if - (2 ^ 63) \<le> i \<and> i < 2 ^ 63 then Inr v else Inl (OtherError ''OverflowError'')
    | _ \<Rightarrow> Inr v)"

fun bind_values :: "dict \<Rightarrow> exn + dict" where
  "bind_values [] = Inr []"
| "bind_values ((k, v) # d) = (case bind_value v of
      Inl e \<Rightarrow> Inl e | Inr w \<Rightarrow> map_sum id ((#) (k, w)) (bind_values d))"

definition bound_text :: "string \<Rightarrow> jval" where
  "bound_text s = JStr (strip_html s)"

text \<open>\<open>=\<close> of SQL: nothing equals \<open>NULL\<close>, numbers are compared by value and truth values are numbers.\<close>

definition sql_number :: "jval \<Rightarrow> rat option" where
  "sql_number v = (case v of JFloat r \<Rightarrow> Some r | JInt i \<Rightarrow> Some (of_int i) | JBool b \<Rightarrow> Some (if b then 1 else 0) | _ \<Rightarrow> None)"

definition sql_equal :: "jval \<Rightarrow> jval \<Rightarrow> bool" where
  "sql_equal v w \<longleftrightarrow> v \<noteq> JNull \<and> w \<noteq> JNull \<and> (v = w \<or> (sql_number v \<noteq> None \<and> sql_number v = sql_number w))"

section \<open>Tables\<close>

record column =
  co_name :: string
  co_nullable :: bool
  co_default :: "jval option"

record store_row =
  sr_owner :: string
  sr_data :: dict

record store_table =
  st_columns :: "column list"
  st_rows :: "store_row list"

record store =
  so_tables :: "((string \<times> string) \<times> store_table) list"
  so_versions :: "(string \<times> int) list"

record storage_env =
  se_schema :: "string \<Rightarrow> jval option"
  se_loads :: "string \<Rightarrow> jval option"
  se_like :: "jval \<Rightarrow> string \<Rightarrow> bool"
  se_order :: "string \<Rightarrow> bool \<Rightarrow> store_row list \<Rightarrow> store_row list"

abbreviation "OperationalError \<equiv> OtherError ''OperationalError''"
abbreviation "IntegrityError \<equiv> OtherError ''IntegrityError''"

definition find_table :: "string \<Rightarrow> string \<Rightarrow> (store, store_table) py" where
  "find_table ext table =
     bindP (gets (\<lambda>s. map_of (so_tables s) (ext, table))) (\<lambda>t.
     case t of None \<Rightarrow> throw OperationalError | Some x \<Rightarrow> ret x)"

definition write_rows :: "string \<Rightarrow> string \<Rightarrow> (store_row list \<Rightarrow> store_row list) \<Rightarrow> (store, unit) py" where
  "write_rows ext table f =
     bindP (find_table ext table) (\<lambda>t.
     modify (\<lambda>s. s\<lparr>so_tables := AList.update (ext, table) (t\<lparr>st_rows := f (st_rows t)\<rparr>) (so_tables s)\<rparr>))"

section \<open>Schemas\<close>

text \<open>\<open>^[A-Za-z_][A-Za-z0-9_]*$\<close>; the dollar sign also matches before a final line feed.\<close>

definition name_start :: "char \<Rightarrow> bool" where
  "name_start c \<longleftrightarrow> (alnum c \<and> \<not> is_digit c) \<or> c = CHR 0x5F"

definition sql_identifier :: "string \<Rightarrow> bool" where
  "sql_identifier s \<longleftrightarrow>
     (let t = (if s \<noteq> [] \<and> last s = CHR 0x0A then butlast s else s) in
      case t of [] \<Rightarrow> False | c # cs \<Rightarrow> name_start c \<and> list_all (\<lambda>x. alnum x \<or> x = CHR 0x5F) cs)"

definition require_identifier :: "jval \<Rightarrow> exn + string" where
  "require_identifier v = (case v of
      JStr s \<Rightarrow> if sql_identifier s then Inr s else Inl (ValueError ''Invalid WASM storage SQL identifier'')
    | _ \<Rightarrow> Inl (ValueError ''Invalid WASM storage SQL identifier''))"

fun schema_fields :: "jval list \<Rightarrow> exn + dict list" where
  "schema_fields [] = Inr []"
| "schema_fields (v # vs) = (case v of
      JObj f \<Rightarrow> (case require_identifier (field_of f ''name'') of
          Inl e \<Rightarrow> Inl e
        | Inr name \<Rightarrow>
            if name = owner_id_field then Inl (ValueError ''WASM storage table defines reserved field'')
            else map_sum id ((#) f) (schema_fields vs))
    | _ \<Rightarrow> Inl (ValueError ''WASM storage table has invalid field schema.''))"

definition field_name :: "dict \<Rightarrow> string" where
  "field_name f = (case field_of f ''name'' of JStr s \<Rightarrow> s | _ \<Rightarrow> [])"

definition fields_by_name :: "dict list \<Rightarrow> (string \<times> dict) list" where
  "fields_by_name fs = foldl (\<lambda>d f. AList.update (field_name f) f d) [] fs"

definition load_table_schema :: "storage_env \<Rightarrow> string \<Rightarrow> string \<Rightarrow> exn + (string \<times> dict) list" where
  "load_table_schema se ext table = (case se_schema se ext of
      None \<Rightarrow> Inl (ValueError ''WASM extension has no storage schema.'')
    | Some (JObj schema) \<Rightarrow> (case field_of schema ''tables'' of
          JObj tables \<Rightarrow>
            if \<not> sql_identifier table then Inl (ValueError ''Invalid WASM storage SQL identifier'')
            else (case field_of tables table of
                JObj t \<Rightarrow> (case field_of t ''fields'' of
                    JList vs \<Rightarrow>
                      if vs = [] then Inl (ValueError ''WASM storage table has no fields schema.'')
                      else map_sum id fields_by_name (schema_fields vs)
                  | _ \<Rightarrow> Inl (ValueError ''WASM storage table has no fields schema.''))
              | _ \<Rightarrow> Inl (ValueError ''WASM extension has no storage table.''))
        | _ \<Rightarrow> Inl (ValueError ''WASM extension has no storage tables schema.''))
    | _ \<Rightarrow> Inl (ValueError ''WASM storage migration must be a JSON object.''))"

text \<open>\<open>_load_table_schema\<close> followed by \<open>_table_ref_for_schema\<close>.\<close>

definition table_for :: "storage_env \<Rightarrow> string \<Rightarrow> string \<Rightarrow> exn + (string \<times> dict) list" where
  "table_for se ext table = (case load_table_schema se ext table of
      Inl e \<Rightarrow> Inl e
    | Inr fmap \<Rightarrow> if sql_identifier ext then Inr fmap else Inl (ValueError ''Invalid WASM storage SQL identifier''))"

section \<open>Values\<close>

text \<open>\<open>datetime.fromtimestamp\<close> in UTC: microseconds, rounded to even; the years 1 to 9999.\<close>

definition microseconds :: "rat \<Rightarrow> int" where
  "microseconds t = py_trunc t * 1000000 + rne (fmul (t - of_int (py_trunc t)) 1000000)"

definition datetime_of :: "rat \<Rightarrow> exn + int" where
  "datetime_of t =
     (let us = microseconds t in
      if - 62135596800 * 1000000 \<le> us \<and> us < 253402300800 * 1000000 then Inr us
      else Inl (ValueError ''year is out of range''))"

definition is_list_field :: "dict \<Rightarrow> bool" where
  "is_list_field f \<longleftrightarrow> field_of f ''list'' = JBool True"

definition value_to_db :: "dict \<Rightarrow> jval \<Rightarrow> exn + jval" where
  "value_to_db f v =
     (let bad = Inl (ValueError ''WASM storage field has a wrong type.'') in
      if v = JNull then (if truth (field_of f ''nullable'') then Inr JNull
                         else Inl (ValueError ''WASM storage field cannot be null.''))
      else if is_list_field f then (case v of JList l \<Rightarrow> Inr (JStr (json_dumps v)) | _ \<Rightarrow> bad)
      else (case field_of f ''type'' of
          JStr t \<Rightarrow>
            if t = ''string'' then (case v of JStr s \<Rightarrow> Inr v | _ \<Rightarrow> bad)
            else if t = ''integer'' then (case v of JInt i \<Rightarrow> Inr v | _ \<Rightarrow> bad)
            else if t = ''number'' then (case v of JInt i \<Rightarrow> Inr v | JFloat r \<Rightarrow> Inr v | _ \<Rightarrow> bad)
            else if t = ''boolean'' then (case v of JBool b \<Rightarrow> Inr v | _ \<Rightarrow> bad)
            else if t = ''datetime'' then (case as_float v of
                Some r \<Rightarrow> map_sum id (\<lambda>us. JInt (py_trunc (of_int us / 1000000))) (datetime_of r)
              | None \<Rightarrow> bad)
            else Inl (ValueError ''Unsupported WASM storage field type'')
        | _ \<Rightarrow> Inl (ValueError ''Unsupported WASM storage field type'')))"

definition value_from_db :: "storage_env \<Rightarrow> dict \<Rightarrow> jval \<Rightarrow> exn + jval" where
  "value_from_db se f v =
     (if v = JNull then Inr JNull
      else if is_list_field f then (case v of
          JStr s \<Rightarrow> (case se_loads se s of None \<Rightarrow> Inl JSONDecodeError | Some x \<Rightarrow> Inr x)
        | _ \<Rightarrow> Inr v)
      else if field_of f ''type'' = JStr ''boolean'' then Inr (JBool (truth v))
      else if field_of f ''type'' = JStr ''datetime'' then (case v of
          JFloat r \<Rightarrow> Inr (JInt (py_trunc r))
        | JBool b \<Rightarrow> Inr (JInt (if b then 1 else 0))
        | _ \<Rightarrow> Inr v)
      else Inr v)"

fun fields_to_db :: "(string \<times> dict) list \<Rightarrow> dict \<Rightarrow> exn + dict" where
  "fields_to_db fmap [] = Inr []"
| "fields_to_db fmap ((k, v) # d) = (case map_of fmap k of
      None \<Rightarrow> Inl KeyError
    | Some f \<Rightarrow> (case value_to_db f v of
        Inl e \<Rightarrow> Inl e | Inr w \<Rightarrow> map_sum id ((#) (k, w)) (fields_to_db fmap d)))"

definition data_to_db :: "(string \<times> dict) list \<Rightarrow> dict \<Rightarrow> exn + dict" where
  "data_to_db fmap data =
     (if \<not> jtrue (dget data ''id'') then Inl (ValueError ''WASM storage row data must include an id.'')
      else if dget data owner_id_field \<noteq> None then Inl (ValueError ''WASM storage row includes a reserved owner field.'')
      else if \<not> fst ` set data \<subseteq> fst ` set fmap then Inl (ValueError ''WASM storage row has unknown fields'')
      else fields_to_db fmap data)"

definition filters_to_db :: "(string \<times> dict) list \<Rightarrow> dict \<Rightarrow> exn + dict" where
  "filters_to_db fmap filters =
     (if dget filters owner_id_field \<noteq> None then Inl (ValueError ''WASM storage filters includes a reserved owner field.'')
      else if \<not> fst ` set filters \<subseteq> fst ` set fmap then Inl (ValueError ''WASM storage filters have unknown fields'')
      else fields_to_db fmap filters)"

fun row_from_db :: "storage_env \<Rightarrow> (string \<times> dict) list \<Rightarrow> dict \<Rightarrow> exn + dict" where
  "row_from_db se fmap [] = Inr []"
| "row_from_db se fmap ((k, v) # d) = (case map_of fmap k of
      None \<Rightarrow> row_from_db se fmap d
    | Some f \<Rightarrow> (case value_from_db se f v of
        Inl e \<Rightarrow> Inl e | Inr w \<Rightarrow> map_sum id ((#) (k, w)) (row_from_db se fmap d)))"

section \<open>Reading\<close>

definition column_value :: "store_row \<Rightarrow> string \<Rightarrow> jval" where
  "column_value r k = field_of (sr_data r) k"

definition has_id :: "jval \<Rightarrow> store_row \<Rightarrow> bool" where
  "has_id i r \<longleftrightarrow> sql_equal (column_value r ''id'') i"

definition owned_by :: "string \<Rightarrow> store_row \<Rightarrow> bool" where
  "owned_by owner r \<longleftrightarrow> sr_owner r = strip_html owner"

definition read_row :: "storage_env \<Rightarrow> string \<Rightarrow> string \<Rightarrow> (store_row \<Rightarrow> bool) \<Rightarrow> (store, dict option) py" where
  "read_row se ext table P =
     bindP (liftE (table_for se ext table)) (\<lambda>fmap.
     bindP (find_table ext table) (\<lambda>t.
     case List.find P (st_rows t) of
       None \<Rightarrow> ret None
     | Some r \<Rightarrow> bindP (liftE (row_from_db se fmap (sr_data r))) (\<lambda>row. ret (Some row))))"

definition storage_get_row :: "storage_env \<Rightarrow> string \<Rightarrow> string \<Rightarrow> string \<Rightarrow> string \<Rightarrow> (store, dict option) py" where
  "storage_get_row se ext table row_id owner =
     read_row se ext table (\<lambda>r. has_id (bound_text row_id) r \<and> owned_by owner r)"

definition storage_get_public_row :: "storage_env \<Rightarrow> string \<Rightarrow> string \<Rightarrow> string \<Rightarrow> (store, dict option) py" where
  "storage_get_public_row se ext table row_id = read_row se ext table (has_id (bound_text row_id))"

definition storage_get_row_owner_id :: "storage_env \<Rightarrow> string \<Rightarrow> string \<Rightarrow> string \<Rightarrow> (store, string option) py" where
  "storage_get_row_owner_id se ext table row_id =
     bindP (liftE (table_for se ext table)) (\<lambda>fmap.
     bindP (find_table ext table) (\<lambda>t.
     ret (case List.find (has_id (bound_text row_id)) (st_rows t) of
            None \<Rightarrow> None | Some r \<Rightarrow> if sr_owner r = [] then None else Some (sr_owner r))))"

text \<open>\<open>_where_sql\<close>: the rows that pass the filters and the search.\<close>

definition where_rows ::
  "storage_env \<Rightarrow> (string \<times> dict) list \<Rightarrow> dict \<Rightarrow> string option \<Rightarrow> string list \<Rightarrow> exn + (store_row \<Rightarrow> bool)" where
  "where_rows se fmap filters search search_fields = (case filters_to_db fmap filters of
      Inl e \<Rightarrow> Inl e
    | Inr clean \<Rightarrow> (case bind_values clean of
        Inl e \<Rightarrow> Inl e
      | Inr values \<Rightarrow>
          (let clean_search = (if truthy search then lower (strip (the search)) else []);
               matches = (\<lambda>r. list_all (\<lambda>(k, v). sql_equal (column_value r k) v) values) in
           if clean_search = [] then Inr matches
           else if \<not> set search_fields \<subseteq> fst ` set fmap
           then Inl (ValueError ''WASM storage search has unknown fields'')
           else if search_fields = [] then Inr matches
           else Inr (\<lambda>r. matches r
                  \<and> list_ex (\<lambda>k. se_like se (column_value r k) (strip_html (''%'' @ clean_search @ ''%''))) search_fields))))"

definition sort_rows ::
  "storage_env \<Rightarrow> (string \<times> dict) list \<Rightarrow> string option \<Rightarrow> bool \<Rightarrow> exn + (store_row list \<Rightarrow> store_row list)" where
  "sort_rows se fmap sort_by descending =
     (if \<not> truthy sort_by then Inr id
      else if the sort_by \<notin> fst ` set fmap then Inl (ValueError ''WASM storage sort field is unknown'')
      else Inr (se_order se (the sort_by) descending))"

record page_request =
  pq_filters :: dict
  pq_search :: "string option"
  pq_search_fields :: "string list"
  pq_sort_by :: "string option"
  pq_descending :: bool
  pq_limit :: nat
  pq_offset :: nat

fun rows_from_db :: "storage_env \<Rightarrow> (string \<times> dict) list \<Rightarrow> store_row list \<Rightarrow> exn + dict list" where
  "rows_from_db se fmap [] = Inr []"
| "rows_from_db se fmap (r # rs) = (case row_from_db se fmap (sr_data r) of
      Inl e \<Rightarrow> Inl e | Inr d \<Rightarrow> map_sum id ((#) d) (rows_from_db se fmap rs))"

definition read_page ::
  "storage_env \<Rightarrow> string \<Rightarrow> string \<Rightarrow> page_request \<Rightarrow> dict \<Rightarrow> (store_row \<Rightarrow> bool) \<Rightarrow> (store, dict list \<times> nat) py" where
  "read_page se ext table q filters P =
     bindP (liftE (table_for se ext table)) (\<lambda>fmap.
     bindP (liftE (where_rows se fmap filters (pq_search q) (pq_search_fields q))) (\<lambda>matches.
     bindP (liftE (sort_rows se fmap (pq_sort_by q) (pq_descending q))) (\<lambda>order.
     bindP (find_table ext table) (\<lambda>t.
     (let found = filter (\<lambda>r. matches r \<and> P r) (st_rows t) in
      bindP (liftE (rows_from_db se fmap (take (min (pq_limit q) 1000) (drop (pq_offset q) (order found))))) (\<lambda>rows.
      ret (rows, length found)))))))"

definition storage_get_paginated_rows ::
  "storage_env \<Rightarrow> string \<Rightarrow> string \<Rightarrow> page_request \<Rightarrow> string \<Rightarrow> (store, dict list \<times> nat) py" where
  "storage_get_paginated_rows se ext table q owner = read_page se ext table q (pq_filters q) (owned_by owner)"

definition storage_get_public_paginated_rows ::
  "storage_env \<Rightarrow> string \<Rightarrow> string \<Rightarrow> page_request \<Rightarrow> dict \<Rightarrow> (store, dict list \<times> nat) py" where
  "storage_get_public_paginated_rows se ext table q filters = read_page se ext table q filters (\<lambda>r. True)"

definition storage_count_rows :: "storage_env \<Rightarrow> string \<Rightarrow> string \<Rightarrow> dict \<Rightarrow> string \<Rightarrow> (store, nat) py" where
  "storage_count_rows se ext table filters owner =
     bindP (liftE (table_for se ext table)) (\<lambda>fmap.
     bindP (liftE (where_rows se fmap filters None [])) (\<lambda>matches.
     bindP (find_table ext table) (\<lambda>t.
     ret (length (filter (\<lambda>r. matches r \<and> owned_by owner r) (st_rows t))))))"

section \<open>Writing\<close>

text \<open>The row an \<open>INSERT\<close> of some columns makes.\<close>

definition insert_value :: "dict \<Rightarrow> column \<Rightarrow> jval" where
  "insert_value vals c = (case dget vals (co_name c) of
      Some v \<Rightarrow> v | None \<Rightarrow> (case co_default c of Some v \<Rightarrow> v | None \<Rightarrow> JNull))"

definition new_row :: "column list \<Rightarrow> dict \<Rightarrow> exn + dict" where
  "new_row cols vals =
     (if \<not> fst ` set vals \<subseteq> co_name ` set cols then Inl OperationalError
      else if list_ex (\<lambda>c. \<not> co_nullable c \<and> insert_value vals c = JNull) cols then Inl IntegrityError
      else Inr (map (\<lambda>c. (co_name c, insert_value vals c)) cols))"

text \<open>\<open>SET k = excluded.k\<close> for the given columns but the id.\<close>

definition overwrite :: "dict \<Rightarrow> dict \<Rightarrow> dict" where
  "overwrite vals d = map (\<lambda>(k, v). (k, if k = ''id'' then v else case dget vals k of Some w \<Rightarrow> w | None \<Rightarrow> v)) d"

definition upsert :: "dict \<Rightarrow> dict \<Rightarrow> string \<Rightarrow> store_row list \<Rightarrow> store_row list" where
  "upsert row vals owner rs =
     (if list_ex (has_id (field_of row ''id'')) rs then
        (if list_all (\<lambda>(k, v). k = ''id'') vals then rs
         else map (\<lambda>r. if has_id (field_of row ''id'') r \<and> owned_by owner r
                       then r\<lparr>sr_data := overwrite vals (sr_data r)\<rparr> else r) rs)
      else rs @ [\<lparr>sr_owner = strip_html owner, sr_data = row\<rparr>])"

definition storage_set_row :: "storage_env \<Rightarrow> string \<Rightarrow> string \<Rightarrow> dict \<Rightarrow> string \<Rightarrow> (store, unit) py" where
  "storage_set_row se ext table data owner =
     bindP (liftE (table_for se ext table)) (\<lambda>fmap.
     bindP (liftE (data_to_db fmap data)) (\<lambda>clean.
     bindP (liftE (bind_values clean)) (\<lambda>vals.
     bindP (find_table ext table) (\<lambda>t.
     bindP (liftE (new_row (st_columns t) vals)) (\<lambda>row.
     write_rows ext table (upsert row vals owner))))))"

definition storage_append_public_row ::
  "storage_env \<Rightarrow> string \<Rightarrow> string \<Rightarrow> string \<Rightarrow> dict \<Rightarrow> string \<Rightarrow> (store, string) py" where
  "storage_append_public_row se fresh ext table data owner =
     thenP (storage_set_row se ext table (dset data ''id'' (JStr fresh)) owner) (ret fresh)"

definition storage_delete_row :: "storage_env \<Rightarrow> string \<Rightarrow> string \<Rightarrow> string \<Rightarrow> string \<Rightarrow> (store, unit) py" where
  "storage_delete_row se ext table row_id owner =
     bindP (liftE (table_for se ext table)) (\<lambda>fmap.
     write_rows ext table (filter (\<lambda>r. \<not> (has_id (bound_text row_id) r \<and> owned_by owner r))))"

end
