(* ===== verification/WasmStorageFacts.thy ===== *)
theory WasmStorageFacts
  imports WasmStorage
begin

text \<open>
  What the storage operations keep: the rows of other owners, the shape of the rows, unique ids and the types of the
  schema; and that what is written is read back.
\<close>

section \<open>Rows\<close>

definition rows_of :: "store \<Rightarrow> string \<times> string \<Rightarrow> store_row list" where
  "rows_of s k = (case map_of (so_tables s) k of None \<Rightarrow> [] | Some t \<Rightarrow> st_rows t)"

definition columns_of :: "store \<Rightarrow> string \<times> string \<Rightarrow> column list option" where
  "columns_of s k = map_option st_columns (map_of (so_tables s) k)"

text \<open>How a write ends: nothing happened, or the rows of one table were replaced.\<close>

lemma write_rows_outcome:
  assumes "write_rows ext table g s = (r, s')"
  shows "(s' = s \<and> r = Inl OperationalError \<and> columns_of s (ext, table) = None)
    \<or> (r = Inr () \<and> (\<forall>k. columns_of s' k = columns_of s k)
       \<and> rows_of s' = (rows_of s)((ext, table) := g (rows_of s (ext, table))) \<and> columns_of s (ext, table) \<noteq> None)"
proof (cases "map_of (so_tables s) (ext, table)")
  case None
  then show ?thesis using assms by (simp add: write_rows_def find_table_def py_unfold bindP_def columns_of_def)
next
  case (Some t)
  then have "r = Inr ()" "s' = s\<lparr>so_tables := AList.update (ext, table) (t\<lparr>st_rows := g (st_rows t)\<rparr>) (so_tables s)\<rparr>"
    using assms by (simp_all add: write_rows_def find_table_def py_unfold bindP_def)
  then show ?thesis using Some by (auto simp: rows_of_def columns_of_def update_conv' fun_eq_iff)
qed

text \<open>A relation between states that every write of rows by \<open>owner\<close> stays within: the tables and columns are the
  same, and the rows of others in the same order.\<close>

definition others_rows :: "string \<Rightarrow> store \<Rightarrow> string \<times> string \<Rightarrow> store_row list" where
  "others_rows owner s k = filter (\<lambda>r. \<not> owned_by owner r) (rows_of s k)"

definition leaves_others :: "string \<Rightarrow> store \<Rightarrow> store \<Rightarrow> bool" where
  "leaves_others owner s s' \<longleftrightarrow> columns_of s' = columns_of s \<and> others_rows owner s' = others_rows owner s"

lemma leaves_refl [simp]: "leaves_others owner s s"
  by (simp add: leaves_others_def)

lemma keeps_write:
  assumes "\<And>rs. filter (\<lambda>r. \<not> owned_by owner r) (g rs) = filter (\<lambda>r. \<not> owned_by owner r) rs"
  shows "keeps (leaves_others owner s) (write_rows ext table g)"
  unfolding keeps_def
proof (intro allI impI)
  fix u assume u: "leaves_others owner s u"
  obtain r t where t: "write_rows ext table g u = (r, t)" by fastforce
  from write_rows_outcome [OF t] u assms show "leaves_others owner s (snd (write_rows ext table g u))"
    unfolding t by (auto simp: leaves_others_def others_rows_def fun_eq_iff)
qed

lemma keeps_find_table [keeps_intro]: "keeps P (find_table ext table)"
  unfolding find_table_def by (intro keeps_intro)

lemma map_keeps_others:
  "(\<And>r. \<not> owned_by owner r \<Longrightarrow> h r = r) \<Longrightarrow> (\<And>r. owned_by owner r \<Longrightarrow> owned_by owner (h r))
     \<Longrightarrow> filter (\<lambda>r. \<not> owned_by owner r) (map h rs) = filter (\<lambda>r. \<not> owned_by owner r) rs"
  by (induction rs) auto

lemma upsert_others:
  "filter (\<lambda>r. \<not> owned_by owner r) (upsert row vals owner rs) = filter (\<lambda>r. \<not> owned_by owner r) rs"
proof -
  let ?h = "\<lambda>r. if has_id (field_of row ''id'') r \<and> owned_by owner r
                 then r\<lparr>sr_data := overwrite vals (sr_data r)\<rparr> else r"
  have "filter (\<lambda>r. \<not> owned_by owner r) (map ?h rs) = filter (\<lambda>r. \<not> owned_by owner r) rs"
    by (rule map_keeps_others) (simp_all add: owned_by_def)
  then show ?thesis by (simp add: upsert_def owned_by_def)
qed

lemma set_leaves_others: "keeps (leaves_others owner s) (storage_set_row se ext table data owner)"
  unfolding storage_set_row_def by (intro keeps_intro keeps_write upsert_others)

lemma append_leaves_others: "keeps (leaves_others owner s) (storage_append_public_row se fresh ext table data owner)"
  unfolding storage_append_public_row_def by (intro keeps_intro set_leaves_others)

lemma delete_leaves_others: "keeps (leaves_others owner s) (storage_delete_row se ext table i owner)"
  unfolding storage_delete_row_def by (intro keeps_intro keeps_write) (auto intro: filter_cong)

section \<open>What an owner can see\<close>

definition own_rows :: "string \<Rightarrow> store \<Rightarrow> string \<times> string \<Rightarrow> store_row list" where
  "own_rows owner s k = filter (owned_by owner) (rows_of s k)"

definition looks_the_same :: "string \<Rightarrow> store \<Rightarrow> store \<Rightarrow> bool" where
  "looks_the_same owner s s' \<longleftrightarrow> columns_of s' = columns_of s \<and> own_rows owner s' = own_rows owner s"

lemma find_filter: "(\<And>r. P r \<Longrightarrow> Q r) \<Longrightarrow> List.find P rs = List.find P (filter Q rs)"
  by (induction rs) auto

definition same_own :: "string \<Rightarrow> store_table \<Rightarrow> store_table \<Rightarrow> bool" where
  "same_own owner t t' \<longleftrightarrow> filter (owned_by owner) (st_rows t) = filter (owned_by owner) (st_rows t')"

lemma same_own_find:
  assumes "same_own owner t t'"
  shows "List.find (\<lambda>r. P r \<and> owned_by owner r) (st_rows t) = List.find (\<lambda>r. P r \<and> owned_by owner r) (st_rows t')"
proof -
  have "List.find (\<lambda>r. P r \<and> owned_by owner r) rs
      = List.find (\<lambda>r. P r \<and> owned_by owner r) (filter (owned_by owner) rs)" for rs
    by (rule find_filter) simp
  then show ?thesis using assms unfolding same_own_def by metis
qed

lemma same_own_filter:
  assumes "same_own owner t t'"
  shows "filter (\<lambda>r. P r \<and> owned_by owner r) (st_rows t) = filter (\<lambda>r. P r \<and> owned_by owner r) (st_rows t')"
proof -
  have "filter (\<lambda>r. P r \<and> owned_by owner r) rs = filter P (filter (owned_by owner) rs)" for rs
    by (simp add: conj_commute)
  then show ?thesis using assms unfolding same_own_def by metis
qed

lemma same_table:
  assumes l: "looks_the_same owner s s'"
  obtains "find_table ext table s = (Inl OperationalError, s)" "find_table ext table s' = (Inl OperationalError, s')"
  | t t' where "find_table ext table s = (Inr t, s)" "find_table ext table s' = (Inr t', s')" "same_own owner t t'"
proof -
  have c: "map_option st_columns (map_of (so_tables s') (ext, table)) = map_option st_columns (map_of (so_tables s) (ext, table))"
    using l unfolding looks_the_same_def columns_of_def by meson
  have r: "filter (owned_by owner) (rows_of s' (ext, table)) = filter (owned_by owner) (rows_of s (ext, table))"
    using l unfolding looks_the_same_def own_rows_def by meson
  show thesis
    using c r that by (cases "map_of (so_tables s) (ext, table)"; cases "map_of (so_tables s') (ext, table)")
      (auto simp: find_table_def py_unfold bindP_def rows_of_def same_own_def)
qed

lemma through_table:
  assumes "looks_the_same owner s s'" "\<And>t t'. same_own owner t t' \<Longrightarrow> fst (k t s) = fst (k t' s')"
  shows "fst (bindP (find_table ext table) k s) = fst (bindP (find_table ext table) k s')"
  by (rule same_table [OF assms(1), of ext table]) (simp_all add: bindP_def assms(2))

lemma through_liftE: "(\<And>x. fst (k x s) = fst (k x s')) \<Longrightarrow> fst (bindP (liftE e) k s) = fst (bindP (liftE e) k s')"
  by (cases e) (simp_all add: py_unfold)

lemma get_row_own:
  assumes "looks_the_same owner s s'"
  shows "fst (storage_get_row se ext table i owner s) = fst (storage_get_row se ext table i owner s')"
  unfolding storage_get_row_def read_row_def
  by (intro through_liftE through_table [OF assms])
    (simp add: same_own_find py_unfold bindP_def split: option.split sum.split)

lemma page_own:
  assumes "looks_the_same owner s s'"
  shows "fst (storage_get_paginated_rows se ext table q owner s) = fst (storage_get_paginated_rows se ext table q owner s')"
  unfolding storage_get_paginated_rows_def read_page_def Let_def
  by (intro through_liftE through_table [OF assms])
    (simp add: same_own_filter py_unfold bindP_def split: option.split sum.split)

lemma count_own:
  assumes "looks_the_same owner s s'"
  shows "fst (storage_count_rows se ext table d owner s) = fst (storage_count_rows se ext table d owner s')"
  unfolding storage_count_rows_def
  by (intro through_liftE through_table [OF assms]) (simp add: same_own_filter py_unfold)

section \<open>Shape, ids and types\<close>

text \<open>What a column of the schema may hold.\<close>

definition fits :: "dict \<Rightarrow> jval \<Rightarrow> bool" where
  "fits f v \<longleftrightarrow>
     (case v of
        JNull \<Rightarrow> truth (field_of f ''nullable'')
      | JStr s \<Rightarrow> is_list_field f \<or> field_of f ''type'' = JStr ''string''
      | JInt i \<Rightarrow> \<not> is_list_field f \<and> field_of f ''type'' \<in> {JStr ''integer'', JStr ''number'', JStr ''datetime''}
      | JFloat r \<Rightarrow> \<not> is_list_field f \<and> field_of f ''type'' = JStr ''number''
      | JBool b \<Rightarrow> \<not> is_list_field f \<and> field_of f ''type'' = JStr ''boolean''
      | _ \<Rightarrow> False)"

lemma value_to_db_fits: "value_to_db f v = Inr w \<Longrightarrow> fits f w"
  by (cases v) (auto simp: value_to_db_def fits_def map_sum_def as_float_def as_int_def Let_def
      split: if_splits jval.splits option.splits sum.splits)

lemma bind_value_fits: "bind_value v = Inr w \<Longrightarrow> fits f v \<Longrightarrow> fits f w"
  by (auto simp: bind_value_def fits_def split: jval.splits if_splits)

lemma fields_to_db_keys: "fields_to_db fmap d = Inr d' \<Longrightarrow> map fst d' = map fst d"
  by (induction fmap d arbitrary: d' rule: fields_to_db.induct)
    (auto split: option.splits sum.splits simp: map_sum_def)

lemma bind_values_keys: "bind_values d = Inr d' \<Longrightarrow> map fst d' = map fst d"
  by (induction d arbitrary: d' rule: bind_values.induct) (auto split: sum.splits simp: map_sum_def)

lemma fields_to_db_get:
  "fields_to_db fmap d = Inr d' \<Longrightarrow> dget d' k = Some w
     \<Longrightarrow> \<exists>f v. map_of fmap k = Some f \<and> dget d k = Some v \<and> value_to_db f v = Inr w"
  by (induction fmap d arbitrary: d' rule: fields_to_db.induct)
    (auto split: option.splits sum.splits if_splits simp: map_sum_def dget_def)

lemma bind_values_get:
  "bind_values d = Inr d' \<Longrightarrow> dget d' k = Some w \<Longrightarrow> \<exists>v. dget d k = Some v \<and> bind_value v = Inr w"
  by (induction d arbitrary: d' rule: bind_values.induct)
    (auto split: sum.splits if_splits simp: map_sum_def dget_def)

text \<open>A row of a table with a schema: its columns are those of the table, and a column of the schema holds a value of
  its type, nothing, or the default of the column.\<close>

definition good_row :: "(string \<times> dict) list \<Rightarrow> column list \<Rightarrow> store_row \<Rightarrow> bool" where
  "good_row fmap cols r \<longleftrightarrow>
     map fst (sr_data r) = map co_name cols \<and> ''id'' \<in> co_name ` set cols
     \<and> (\<forall>k f v. map_of fmap k = Some f \<longrightarrow> dget (sr_data r) k = Some v \<longrightarrow>
          fits f v \<or> v = JNull \<or> (\<exists>c \<in> set cols. co_name c = k \<and> co_default c = Some v))"

text \<open>No two rows with the same id.\<close>

definition unique_ids :: "store_row list \<Rightarrow> bool" where
  "unique_ids rs \<longleftrightarrow> sorted_wrt (\<lambda>a b. \<not> has_id (column_value a ''id'') b) rs"

definition store_ok :: "storage_env \<Rightarrow> store \<Rightarrow> bool" where
  "store_ok se s \<longleftrightarrow> (\<forall>ext table cols fmap. columns_of s (ext, table) = Some cols \<longrightarrow> table_for se ext table = Inr fmap \<longrightarrow>
     (\<forall>r \<in> set (rows_of s (ext, table)). good_row fmap cols r) \<and> unique_ids (rows_of s (ext, table)))"

lemma dget_zip_columns: "dget (map (\<lambda>c. (co_name c, g c)) cols) k = Some v \<Longrightarrow> \<exists>c \<in> set cols. co_name c = k \<and> v = g c"
  by (induction cols) (auto simp: dget_def split: if_splits)

lemma new_row_good:
  assumes n: "new_row cols vals = Inr row" and i: "dget vals ''id'' \<noteq> None"
    and vals: "\<And>k w. dget vals k = Some w \<Longrightarrow> \<exists>f. map_of fmap k = Some f \<and> fits f w"
  shows "good_row fmap cols \<lparr>sr_owner = o', sr_data = row\<rparr>"
proof -
  have row: "row = map (\<lambda>c. (co_name c, insert_value vals c)) cols"
    using n by (simp add: new_row_def split: if_splits)
  have "fits f v \<or> v = JNull \<or> (\<exists>c \<in> set cols. co_name c = k \<and> co_default c = Some v)"
    if f: "map_of fmap k = Some f" and v: "dget row k = Some v" for k f v
  proof -
    from dget_zip_columns [OF v [unfolded row]] obtain c where c: "c \<in> set cols" "co_name c = k" "v = insert_value vals c"
      by blast
    then show ?thesis using vals [of k] f by (auto simp: insert_value_def split: option.splits)
  qed
  moreover have "''id'' \<in> co_name ` set cols"
    using n i by (auto simp: new_row_def dget_def split: if_splits dest!: map_of_SomeD)
  ultimately show ?thesis by (simp add: good_row_def row)
qed

lemma dget_overwrite:
  "dget (overwrite vals d) k = (case dget d k of None \<Rightarrow> None
     | Some v \<Rightarrow> Some (if k = ''id'' then v else case dget vals k of Some w \<Rightarrow> w | None \<Rightarrow> v))"
proof (induction d)
  case (Cons x d)
  then show ?case by (cases x) (auto simp: overwrite_def dget_def split: option.splits)
qed (simp add: overwrite_def dget_def)

lemma overwrite_good:
  assumes "good_row fmap cols r" and vals: "\<And>k w. dget vals k = Some w \<Longrightarrow> \<exists>f. map_of fmap k = Some f \<and> fits f w"
  shows "good_row fmap cols (r\<lparr>sr_data := overwrite vals (sr_data r)\<rparr>)"
proof -
  have "map fst (overwrite vals (sr_data r)) = map fst (sr_data r)"
    by (auto simp: overwrite_def)
  moreover have "fits f v \<or> v = JNull \<or> (\<exists>c \<in> set cols. co_name c = k \<and> co_default c = Some v)"
    if f: "map_of fmap k = Some f" and v: "dget (overwrite vals (sr_data r)) k = Some v" for k f v
  proof (cases "k = ''id'' \<or> dget vals k = None")
    case True
    then have "dget (sr_data r) k = Some v" using v by (auto simp: dget_overwrite split: option.splits)
    then show ?thesis using assms(1) f by (simp add: good_row_def)
  next
    case False
    then show ?thesis using v vals [of k] f by (auto simp: dget_overwrite split: option.splits)
  qed
  ultimately show ?thesis using assms(1) by (simp add: good_row_def)
qed

lemma overwrite_id [simp]: "column_value (r\<lparr>sr_data := overwrite vals (sr_data r)\<rparr>) ''id'' = column_value r ''id''"
  by (simp add: column_value_def field_of_def dget_overwrite split: option.split)

lemma has_id_overwrite [simp]: "has_id i (r\<lparr>sr_data := overwrite vals (sr_data r)\<rparr>) = has_id i r"
  by (simp add: has_id_def)

lemma sorted_wrt_map_same:
  "(\<And>r. f (h r) = f r) \<Longrightarrow> (\<And>i r. P i (h r) = P i r) \<Longrightarrow>
     sorted_wrt (\<lambda>a b. \<not> P (f a) b) (map h rs) = sorted_wrt (\<lambda>a b. \<not> P (f a) b) rs"
  by (simp add: sorted_wrt_map)

lemma sql_equal_sym: "sql_equal v w = sql_equal w v"
  by (cases "sql_number v"; cases "sql_number w") (auto simp: sql_equal_def)

lemma has_id_sym: "has_id (column_value a ''id'') b \<longleftrightarrow> has_id (column_value b ''id'') a"
  by (simp add: has_id_def sql_equal_sym)

lemma upsert_unique:
  assumes "unique_ids rs" shows "unique_ids (upsert row vals owner rs)"
proof -
  let ?h = "\<lambda>r. if has_id (field_of row ''id'') r \<and> owned_by owner r
                 then r\<lparr>sr_data := overwrite vals (sr_data r)\<rparr> else r"
  have "unique_ids (map ?h rs) = unique_ids rs"
    unfolding unique_ids_def by (rule sorted_wrt_map_same) simp_all
  moreover have "unique_ids (rs @ [\<lparr>sr_owner = o', sr_data = row\<rparr>])" if "\<not> list_ex (has_id (field_of row ''id'')) rs" for o'
  proof -
    have "\<not> has_id (column_value a ''id'') \<lparr>sr_owner = o', sr_data = row\<rparr>" if "a \<in> set rs" for a
      using \<open>\<not> list_ex _ rs\<close> that has_id_sym [of a "\<lparr>sr_owner = o', sr_data = row\<rparr>"]
      by (auto simp: list_ex_iff column_value_def)
    then show ?thesis using assms by (simp add: unique_ids_def sorted_wrt_append)
  qed
  ultimately show ?thesis using assms by (simp add: upsert_def)
qed

lemma upsert_good:
  assumes "new_row cols vals = Inr row" "dget vals ''id'' \<noteq> None" "\<And>k w. dget vals k = Some w \<Longrightarrow> \<exists>f. map_of fmap k = Some f \<and> fits f w"
    "\<forall>r \<in> set rs. good_row fmap cols r" "r \<in> set (upsert row vals owner rs)"
  shows "good_row fmap cols r"
  using assms(4,5) new_row_good [OF assms(1,2,3)] overwrite_good [OF _ assms(3)]
  by (auto simp: upsert_def split: if_splits)

section \<open>Writing\<close>

lemma find_table_Inr: "find_table ext table s = (Inr t, u) \<longleftrightarrow> u = s \<and> map_of (so_tables s) (ext, table) = Some t"
  by (auto simp: find_table_def py_unfold bindP_def split: option.splits)

lemma liftE_Inr: "liftE e s = (Inr x, u) \<longleftrightarrow> u = s \<and> e = Inr x"
  by (auto simp: py_unfold)

definition written ::
  "storage_env \<Rightarrow> string \<Rightarrow> string \<Rightarrow> dict \<Rightarrow> string \<Rightarrow> store \<Rightarrow> store \<Rightarrow> (string \<times> dict) list \<Rightarrow> column list \<Rightarrow> dict \<Rightarrow> dict \<Rightarrow> dict \<Rightarrow> bool" where
  "written se ext table data owner s s' fmap cols clean vals row \<longleftrightarrow>
     table_for se ext table = Inr fmap \<and> columns_of s (ext, table) = Some cols \<and> columns_of s' = columns_of s
     \<and> data_to_db fmap data = Inr clean \<and> bind_values clean = Inr vals \<and> new_row cols vals = Inr row
     \<and> rows_of s' = (rows_of s)((ext, table) := upsert row vals owner (rows_of s (ext, table)))"

lemma set_row_written:
  assumes "storage_set_row se ext table data owner s = (Inr u, s')"
  shows "\<exists>fmap cols clean vals row. written se ext table data owner s s' fmap cols clean vals row"
proof -
  from assms obtain fmap clean vals t row where x: "table_for se ext table = Inr fmap" "data_to_db fmap data = Inr clean"
    "bind_values clean = Inr vals" "map_of (so_tables s) (ext, table) = Some t" "new_row (st_columns t) vals = Inr row"
    "write_rows ext table (upsert row vals owner) s = (Inr u, s')"
    unfolding storage_set_row_def bindP_Inr_iff liftE_Inr find_table_Inr by auto
  from write_rows_outcome [OF x(6)] x(1-5) show ?thesis
    unfolding written_def by (intro exI [of _ fmap] exI [of _ "st_columns t"] exI) (auto simp: columns_of_def fun_eq_iff)
qed

lemma set_row_refused:
  assumes "storage_set_row se ext table data owner s = (Inl e, s')" shows "s' = s"
proof -
  have w: "write_rows ext table g s = (Inl e, s') \<Longrightarrow> s' = s" for g
    using write_rows_outcome [of ext table g s "Inl e" s'] by auto
  have f: "find_table ext table s = (Inl e, s') \<Longrightarrow> s' = s"
    by (auto simp: find_table_def py_unfold bindP_def split: option.splits)
  show ?thesis
    using assms w f unfolding storage_set_row_def bindP_Inl_iff liftE_Inr find_table_Inr
    by (auto simp: py_unfold)
qed

lemma written_values:
  assumes "written se ext table data owner s s' fmap cols clean vals row" "dget vals k = Some w"
  shows "\<exists>f v x. map_of fmap k = Some f \<and> dget data k = Some v \<and> value_to_db f v = Inr x \<and> bind_value x = Inr w"
proof -
  from assms(1) have w: "data_to_db fmap data = Inr clean" "bind_values clean = Inr vals" by (simp_all add: written_def)
  then have c: "fields_to_db fmap data = Inr clean" by (simp add: data_to_db_def split: if_splits)
  from bind_values_get [OF w(2) assms(2)] obtain x where x: "dget clean k = Some x" "bind_value x = Inr w" by blast
  from fields_to_db_get [OF c x(1)] x(2) show ?thesis by blast
qed

lemma written_fits:
  assumes "written se ext table data owner s s' fmap cols clean vals row" "dget vals k = Some w"
  shows "\<exists>f. map_of fmap k = Some f \<and> fits f w"
  using written_values [OF assms] value_to_db_fits bind_value_fits by blast

lemma written_keys:
  assumes "written se ext table data owner s s' fmap cols clean vals row"
  shows "fst ` set vals = fst ` set data" "dget vals ''id'' \<noteq> None"
proof -
  from assms have w: "data_to_db fmap data = Inr clean" "bind_values clean = Inr vals" by (simp_all add: written_def)
  then have "fields_to_db fmap data = Inr clean" "dget data ''id'' \<noteq> None"
    by (auto simp: data_to_db_def jtrue_def split: if_splits option.splits)
  then have m: "map fst vals = map fst data" using bind_values_keys [OF w(2)] fields_to_db_keys by metis
  then show k: "fst ` set vals = fst ` set data" by (metis image_set)
  show "dget vals ''id'' \<noteq> None" using \<open>dget data ''id'' \<noteq> None\<close> k by (simp add: dget_def map_of_eq_None_iff)
qed

lemma set_row_ok:
  assumes ok: "store_ok se s" and run: "storage_set_row se ext table data owner s = (r, s')"
  shows "store_ok se s'"
proof (cases r)
  case (Inl e)
  then show ?thesis using set_row_refused run ok by metis
next
  case (Inr u)
  with set_row_written run obtain fmap cols clean vals row
    where w: "written se ext table data owner s s' fmap cols clean vals row" by metis
  have old: "\<forall>q \<in> set (rows_of s (ext, table)). good_row fmap cols q" "unique_ids (rows_of s (ext, table))"
    using ok w by (auto simp: store_ok_def written_def)
  have "new_row cols vals = Inr row" using w by (simp add: written_def)
  note good = upsert_good [OF this written_keys(2) [OF w] written_fits [OF w] old(1)] and unique = upsert_unique [OF old(2)]
  show ?thesis
    unfolding store_ok_def
  proof (intro allI impI)
    fix x y cols' fmap' assume a: "columns_of s' (x, y) = Some cols'" "table_for se x y = Inr fmap'"
    show "(\<forall>q \<in> set (rows_of s' (x, y)). good_row fmap' cols' q) \<and> unique_ids (rows_of s' (x, y))"
    proof (cases "(x, y) = (ext, table)")
      case True
      then show ?thesis using w a good unique by (auto simp: written_def)
    next
      case False
      then show ?thesis using w a ok by (auto simp: written_def store_ok_def)
    qed
  qed
qed

lemma append_row_ok:
  assumes "store_ok se s" "storage_append_public_row se fresh ext table data owner s = (r, s')" shows "store_ok se s'"
proof -
  obtain q t where q: "storage_set_row se ext table (dset data ''id'' (JStr fresh)) owner s = (q, t)" by fastforce
  then have "s' = t" using assms(2) by (cases q) (auto simp: storage_append_public_row_def thenP_def bindP_def py_unfold)
  then show ?thesis using set_row_ok [OF assms(1) q] by simp
qed

lemma delete_row_ok:
  assumes ok: "store_ok se s" and run: "storage_delete_row se ext table i owner s = (r, s')" shows "store_ok se s'"
proof (cases "table_for se ext table")
  case (Inl e)
  then show ?thesis using run ok by (simp add: storage_delete_row_def py_unfold)
next
  case (Inr fmap)
  let ?g = "filter (\<lambda>r. \<not> (has_id (bound_text i) r \<and> owned_by owner r))"
  have "write_rows ext table ?g s = (r, s')" using run Inr by (simp add: storage_delete_row_def)
  from write_rows_outcome [OF this] have "s' = s \<or> columns_of s' = columns_of s
      \<and> rows_of s' = (rows_of s)((ext, table) := ?g (rows_of s (ext, table)))" by (auto simp: fun_eq_iff)
  then show ?thesis using ok by (auto simp: store_ok_def unique_ids_def sorted_wrt_filter split: if_splits)
qed

section \<open>What is written is read back\<close>

text \<open>What a value looks like when it is read again: a date is cut to whole seconds.\<close>

definition seen_as :: "dict \<Rightarrow> jval \<Rightarrow> jval" where
  "seen_as f v = (if v \<noteq> JNull \<and> \<not> is_list_field f \<and> field_of f ''type'' = JStr ''datetime''
     then (case as_float v of Some r \<Rightarrow> JInt (py_trunc (of_int (microseconds r) / 1000000)) | None \<Rightarrow> v) else v)"

lemma value_roundtrip:
  assumes "value_to_db f v = Inr w" "\<And>l. v = JList l \<Longrightarrow> se_loads se (json_dumps (JList l)) = Some (JList l)"
  shows "value_from_db se f w = Inr (seen_as f v)"
  using assms
  by (cases v) (auto simp: value_to_db_def value_from_db_def seen_as_def Let_def map_sum_def as_float_def as_int_def
      datetime_of_def jtrue_def split: if_splits jval.splits option.splits sum.splits)

lemma row_from_db_get:
  "(\<And>k v. (k, v) \<in> set d \<Longrightarrow> \<exists>f. map_of fmap k = Some f \<and> value_from_db se f v = Inr (g k))
     \<Longrightarrow> \<exists>row. row_from_db se fmap d = Inr row \<and> (\<forall>k. dget row k = map_option (\<lambda>_. g k) (dget d k))"
proof (induction d)
  case (Cons x d)
  obtain k v where x: "x = (k, v)" by (cases x)
  from Cons.prems [of k v] x obtain f where f: "map_of fmap k = Some f" "value_from_db se f v = Inr (g k)" by auto
  from Cons.IH Cons.prems obtain row where "row_from_db se fmap d = Inr row" "\<forall>k. dget row k = map_option (\<lambda>_. g k) (dget d k)"
    by auto
  then show ?case using f x by (auto simp: map_sum_def dget_def)
qed (simp add: dget_def)

lemma dget_new_row:
  assumes "new_row cols vals = Inr row" "k \<in> co_name ` set cols" "dget vals k = Some w"
  shows "dget row k = Some w"
proof -
  have "dget (map (\<lambda>c. (co_name c, insert_value vals c)) cols) k = Some w"
    using assms(2,3) by (induction cols) (auto simp: dget_def insert_value_def)
  then show ?thesis using assms(1) by (simp add: new_row_def split: if_splits)
qed

text \<open>The row with the id holds the written values in all columns.\<close>

lemma upsert_holds:
  assumes r: "r \<in> set (upsert row vals owner rs)" "has_id (JStr i) r"
    and own: "\<And>q. q \<in> set rs \<Longrightarrow> has_id (JStr i) q \<Longrightarrow> owned_by owner q"
    and row: "new_row cols vals = Inr row" "dget vals ''id'' = Some (JStr i)" "co_name ` set cols \<subseteq> fst ` set vals"
    and shape: "\<And>q. q \<in> set rs \<Longrightarrow> map fst (sr_data q) = map co_name cols"
    and k: "k \<in> co_name ` set cols"
  shows "dget (sr_data r) k = dget vals k"
proof -
  have id_col: "''id'' \<in> co_name ` set cols"
    using row(1,2) by (auto simp: new_row_def dget_def split: if_splits dest!: map_of_SomeD)
  have i: "field_of row ''id'' = JStr i" using dget_new_row [OF row(1) id_col row(2)] by (simp add: field_of_def)
  obtain w where w: "dget vals k = Some w" using row(3) k by (cases "dget vals k") (auto simp: dget_def map_of_eq_None_iff)
  have old: "dget (overwrite vals (sr_data q)) k = Some w" if q: "q \<in> set rs" "has_id (JStr i) q" for q
  proof -
    have "k \<in> fst ` set (sr_data q)" using shape [OF q(1)] k by (metis image_set)
    then obtain v where v: "dget (sr_data q) k = Some v" by (cases "dget (sr_data q) k") (auto simp: dget_def map_of_eq_None_iff)
    show ?thesis
    proof (cases "k = ''id''")
      case True
      then have "v = JStr i" using q(2) v by (cases v) (auto simp: has_id_def column_value_def field_of_def sql_equal_def sql_number_def)
      then show ?thesis using True v w row(2) by (simp add: dget_overwrite)
    next
      case False
      then show ?thesis using v w by (simp add: dget_overwrite)
    qed
  qed
  have only_id: "dget (sr_data q) k = Some w" if q: "q \<in> set rs" "has_id (JStr i) q" and "list_all (\<lambda>(k, v). k = ''id'') vals" for q
  proof -
    have "k = ''id''" using that(3) w by (auto simp: list_all_iff dget_def dest!: map_of_SomeD)
    then show ?thesis using old [OF q] by (simp add: dget_overwrite split: option.splits)
  qed
  show ?thesis
    using r own old only_id w i dget_new_row [OF row(1) k w] by (auto simp: upsert_def list_ex_iff split: if_splits)
qed

lemma upsert_has_id:
  assumes "field_of row ''id'' = JStr i"
  shows "\<exists>r \<in> set (upsert row vals owner rs). has_id (JStr i) r"
proof (cases "list_ex (has_id (JStr i)) rs")
  case True
  then obtain q where q: "q \<in> set rs" "has_id (JStr i) q" by (auto simp: list_ex_iff)
  let ?h = "\<lambda>r. if has_id (JStr i) r \<and> owned_by owner r then r\<lparr>sr_data := overwrite vals (sr_data r)\<rparr> else r"
  have "?h q \<in> set (map ?h rs)" using q(1) unfolding set_map by (rule imageI)
  moreover have "has_id (JStr i) (?h q)" using q(2) by simp
  ultimately have "\<exists>r \<in> set (map ?h rs). has_id (JStr i) r" by blast
  then show ?thesis using True q assms by (auto simp: upsert_def)
next
  case False
  then show ?thesis using assms
    by (auto simp: upsert_def has_id_def column_value_def sql_equal_def)
qed

lemma upsert_owned:
  assumes "r \<in> set (upsert row vals owner rs)" "has_id (JStr i) r"
    "\<And>q. q \<in> set rs \<Longrightarrow> has_id (JStr i) q \<Longrightarrow> owned_by owner q"
  shows "owned_by owner r"
  using assms by (auto simp: upsert_def owned_by_def split: if_splits)

lemma set_then_get:
  assumes set_row: "storage_set_row se ext table data owner s = (Inr u, s')"
    and ok: "store_ok se s" and i: "dget data ''id'' = Some (JStr i)"
    and table: "columns_of s (ext, table) = Some cols" "distinct (map co_name cols)" "co_name ` set cols \<subseteq> fst ` set data"
    and fmap: "table_for se ext table = Inr fmap"
    and plain: "\<And>k v f w. dget data k = Some v \<Longrightarrow> map_of fmap k = Some f \<Longrightarrow> value_to_db f v = Inr w
      \<Longrightarrow> bind_value w = Inr w"
    and loads: "\<And>k l. dget data k = Some (JList l) \<Longrightarrow> se_loads se (json_dumps (JList l)) = Some (JList l)"
    and own: "\<forall>q \<in> set (rows_of s (ext, table)). has_id (JStr i) q \<longrightarrow> owned_by owner q"
  shows "\<exists>row. storage_get_row se ext table i owner s' = (Inr (Some row), s')
     \<and> (\<forall>c \<in> set cols. \<exists>f v. map_of fmap (co_name c) = Some f \<and> dget data (co_name c) = Some v
           \<and> dget row (co_name c) = Some (seen_as f v))"
proof -
  from set_row_written [OF set_row] obtain fm cs clean vals row
    where w: "written se ext table data owner s s' fm cs clean vals row" by metis
  then have eqs: "fm = fmap" "cs = cols" using fmap table(1) by (simp_all add: written_def)
  note w = w [unfolded eqs]
  have n: "new_row cols vals = Inr row" using w by (simp add: written_def)
  note keys = written_keys(1) [OF w]
  have conv: "\<exists>f x. map_of fmap k = Some f \<and> value_to_db f v = Inr x \<and> dget vals k = Some x"
    if "dget data k = Some v" for k v
  proof -
    have "k \<in> fst ` set vals" using that keys by (auto simp: dget_def dest!: map_of_SomeD) (metis fst_conv image_eqI)
    then obtain y where y: "dget vals k = Some y" by (cases "dget vals k") (auto simp: dget_def map_of_eq_None_iff)
    from written_values [OF w y] obtain f v' x where x: "map_of fmap k = Some f" "dget data k = Some v'"
      "value_to_db f v' = Inr x" "bind_value x = Inr y" by blast
    with that plain [of k v f x] have "bind_value x = Inr x" by simp
    with x that y show ?thesis by auto
  qed
  from conv [OF i] obtain f x where fx: "value_to_db f (JStr i) = Inr x" "dget vals ''id'' = Some x" "map_of fmap ''id'' = Some f"
    by blast
  then have x: "x = JStr i" by (auto simp: value_to_db_def as_float_def as_int_def Let_def split: if_splits jval.splits)
  with plain [OF i fx(3,1)] have bound: "bound_text i = JStr i" by (simp add: bound_text_def bind_value_def)
  have "''id'' \<in> co_name ` set cols"
    using n fx(2) by (auto simp: new_row_def dget_def split: if_splits dest!: map_of_SomeD)
  then have rid: "field_of row ''id'' = JStr i"
    using dget_new_row [OF n _ fx(2)] x by (simp add: field_of_def)
  let ?rs = "upsert row vals owner (rows_of s (ext, table))" and ?P = "\<lambda>r. has_id (JStr i) r \<and> owned_by owner r"
  have own': "\<And>q. q \<in> set (rows_of s (ext, table)) \<Longrightarrow> has_id (JStr i) q \<Longrightarrow> owned_by owner q" using own by blast
  from upsert_has_id [OF rid] upsert_owned [OF _ _ own'] obtain q where "q \<in> set ?rs" "?P q" by blast
  then obtain r where r: "List.find ?P ?rs = Some r" by (cases "List.find ?P ?rs") (auto simp: find_None_iff)
  then have rm: "r \<in> set ?rs" "has_id (JStr i) r" by (auto simp: find_Some_iff dest: nth_mem)
  have good: "\<And>q. q \<in> set (rows_of s (ext, table)) \<Longrightarrow> good_row fmap cols q"
    using ok table(1) fmap by (simp add: store_ok_def)
  have shape: "map fst (sr_data r) = map co_name cols"
    using upsert_good [OF n written_keys(2) [OF w] written_fits [OF w] _ rm(1)] good by (simp add: good_row_def)
  have holds: "dget (sr_data r) k = dget vals k" if "k \<in> co_name ` set cols" for k
    using upsert_holds [OF rm own' n _ _ _ that] fx(2) x table(3) keys good by (simp add: good_row_def)
  let ?g = "\<lambda>k. seen_as (the (map_of fmap k)) (the (dget data k))"
  have row: "\<exists>d. row_from_db se fmap (sr_data r) = Inr d \<and> (\<forall>k. dget d k = map_option (\<lambda>_. ?g k) (dget (sr_data r) k))"
  proof (rule row_from_db_get)
    fix k v assume kv: "(k, v) \<in> set (sr_data r)"
    then have "dget (sr_data r) k = Some v" using shape table(2) by (simp add: dget_def map_of_is_SomeI)
    moreover have kc: "k \<in> co_name ` set cols" using kv shape by (metis fst_conv image_eqI image_set)
    ultimately have v: "dget vals k = Some v" using holds by simp
    obtain y where y: "dget data k = Some y" using kc table(3) by (cases "dget data k") (auto simp: dget_def map_of_eq_None_iff)
    from conv [OF y] obtain f x where "map_of fmap k = Some f" "value_to_db f y = Inr x" "dget vals k = Some x" by blast
    moreover have "value_from_db se f x = Inr (seen_as f y)" using y by (intro value_roundtrip [OF \<open>value_to_db f y = Inr x\<close>] loads) simp
    ultimately show "\<exists>f. map_of fmap k = Some f \<and> value_from_db se f v = Inr (?g k)" using v y by auto
  qed
  then obtain d where d: "row_from_db se fmap (sr_data r) = Inr d" "\<And>k. dget d k = map_option (\<lambda>_. ?g k) (dget (sr_data r) k)"
    by blast
  have "columns_of s' (ext, table) = Some cols" "rows_of s' (ext, table) = ?rs" using w by (simp_all add: written_def)
  then obtain t' where t': "map_of (so_tables s') (ext, table) = Some t'" "st_rows t' = ?rs"
    by (cases "map_of (so_tables s') (ext, table)") (simp_all add: columns_of_def rows_of_def)
  have "storage_get_row se ext table i owner s' = (Inr (Some d), s')"
    using fmap t' r d(1) by (simp add: storage_get_row_def read_row_def find_table_def py_unfold bindP_def bound)
  moreover have "\<exists>f v. map_of fmap (co_name c) = Some f \<and> dget data (co_name c) = Some v \<and> dget d (co_name c) = Some (seen_as f v)"
    if "c \<in> set cols" for c
  proof -
    have c: "co_name c \<in> co_name ` set cols" using that by simp
    then obtain v where v: "dget data (co_name c) = Some v"
      using table(3) by (cases "dget data (co_name c)") (auto simp: dget_def map_of_eq_None_iff)
    from conv [OF v] holds [OF c] v d(2) [of "co_name c"] show ?thesis by auto
  qed
  ultimately show ?thesis by blast
qed

end
