(* ===== verification/WasmMigrations.thy ===== *)
theory WasmMigrations
  imports WasmStorageFacts "HOL-Library.List_Lexorder" "HOL-Library.Char_ord"
begin

text \<open>
  The second half of \<open>core/wasm_ext/storage/crud.py\<close>: the migrations of an extension's storage. A migration is a
  JSON file with a list of operations; the statement an operation becomes is its effect on the tables. Migrations
  keep the rows well formed.
\<close>

section \<open>Columns\<close>

definition default_value :: "jval \<Rightarrow> jval" where
  "default_value v = (case v of JList l \<Rightarrow> JStr (json_dumps v) | JObj d \<Rightarrow> JStr (json_dumps v) | _ \<Rightarrow> v)"

definition field_type_supported :: "dict \<Rightarrow> bool" where
  "field_type_supported f \<longleftrightarrow> is_list_field f
     \<or> field_of f ''type'' \<in> {JStr ''string'', JStr ''integer'', JStr ''number'', JStr ''boolean'', JStr ''datetime''}"

definition column_sql :: "dict \<Rightarrow> bool \<Rightarrow> exn + column" where
  "column_sql f primary_key = (case require_identifier (field_of f ''name'') of
      Inl e \<Rightarrow> Inl e
    | Inr name \<Rightarrow>
        if \<not> field_type_supported f then Inl (ValueError ''Unsupported WASM storage field type'')
        else Inr \<lparr>co_name = name, co_nullable = (primary_key \<or> truth (field_of f ''nullable'')),
                  co_default = map_option default_value (dget f ''default'')\<rparr>)"

fun columns_sql :: "dict list \<Rightarrow> exn + column list" where
  "columns_sql [] = Inr []"
| "columns_sql (f # fs) = (case column_sql f (field_of f ''name'' = JStr ''id'') of
      Inl e \<Rightarrow> Inl e | Inr c \<Rightarrow> map_sum id ((#) c) (columns_sql fs))"

definition require_fields :: "dict \<Rightarrow> exn + dict list" where
  "require_fields operation = (case field_of operation ''fields'' of
      JList l \<Rightarrow>
        if l = [] then Inl (ValueError ''WASM storage create_table operation requires fields.'')
        else if list_ex (\<lambda>v. case v of JObj f \<Rightarrow> False | _ \<Rightarrow> True) l
        then Inl (ValueError ''WASM storage fields must be objects.'')
        else Inr (List.map_filter (\<lambda>v. case v of JObj f \<Rightarrow> Some f | _ \<Rightarrow> None) l)
    | _ \<Rightarrow> Inl (ValueError ''WASM storage create_table operation requires fields.''))"

section \<open>Operations\<close>

definition put_table :: "string \<Rightarrow> string \<Rightarrow> store_table \<Rightarrow> (store, unit) py" where
  "put_table ext table t = modify (\<lambda>s. s\<lparr>so_tables := AList.update (ext, table) t (so_tables s)\<rparr>)"

definition create_table :: "string \<Rightarrow> dict \<Rightarrow> (store, unit) py" where
  "create_table ext operation =
     bindP (liftE (require_identifier (field_of operation ''table''))) (\<lambda>table.
     bindP (liftE (require_fields operation)) (\<lambda>fs.
     thenP (failIf (\<not> list_ex (\<lambda>f. field_of f ''name'' = JStr ''id'') fs)
              (ValueError ''WASM storage table must define an id field.''))
     (thenP (failIf (list_ex (\<lambda>f. field_of f ''name'' = JStr owner_id_field) fs)
              (ValueError ''WASM storage table defines reserved field''))
     (bindP (liftE (columns_sql fs)) (\<lambda>cols.
      bindP (gets (\<lambda>s. map_of (so_tables s) (ext, table))) (\<lambda>old.
      if old \<noteq> None then ret ()
      else if \<not> distinct (map co_name cols) then throw OperationalError
      else put_table ext table \<lparr>st_columns = cols, st_rows = []\<rparr>))))))"

text \<open>\<open>_field_from_add_field_operation\<close>: the optional keys are taken over when they are there.\<close>

definition field_from_add_field_operation :: "dict \<Rightarrow> dict" where
  "field_from_add_field_operation operation =
     [(''name'', field_of operation ''field''), (''type'', field_of operation ''type'')]
     @ List.map_filter (\<lambda>k. map_option (Pair k) (dget operation k)) [''default'', ''list'', ''nullable'']"

text \<open>\<open>ALTER TABLE\<close> refuses a column that must not be null and has no default.\<close>

definition add_column :: "column \<Rightarrow> store_table \<Rightarrow> store_table" where
  "add_column c t = \<lparr>st_columns = st_columns t @ [c],
     st_rows = map (\<lambda>r. r\<lparr>sr_data := sr_data r @ [(co_name c, insert_value [] c)]\<rparr>) (st_rows t)\<rparr>"

definition add_field :: "string \<Rightarrow> dict \<Rightarrow> (store, unit) py" where
  "add_field ext operation =
     bindP (liftE (require_identifier (field_of operation ''table''))) (\<lambda>table.
     (let f = field_from_add_field_operation operation in
      thenP (failIf (field_of f ''name'' = JStr owner_id_field) (ValueError ''WASM storage table cannot add reserved field''))
      (bindP (liftE (column_sql f False)) (\<lambda>c.
       bindP (find_table ext table) (\<lambda>t.
       if co_name c \<in> co_name ` set (st_columns t) \<or> (\<not> co_nullable c \<and> insert_value [] c = JNull)
       then throw OperationalError
       else put_table ext table (add_column c t))))))"

definition create_index :: "string \<Rightarrow> dict \<Rightarrow> (store, unit) py" where
  "create_index ext operation =
     bindP (liftE (require_identifier (field_of operation ''table''))) (\<lambda>table.
     bindP (liftE (require_identifier (field_of operation ''name''))) (\<lambda>name.
     bindP (liftE (require_identifier (field_of operation ''field''))) (\<lambda>field.
     thenP (failIf (field = owner_id_field) (ValueError ''WASM storage table cannot index reserved field''))
     (bindP (find_table ext table) (\<lambda>t.
      failIf (field \<notin> co_name ` set (st_columns t)) OperationalError)))))"

definition run_operation :: "string \<Rightarrow> jval \<Rightarrow> (store, unit) py" where
  "run_operation ext v = (case v of
      JObj operation \<Rightarrow>
        (let op = field_of operation ''op'' in
         if op = JStr ''create_table'' then create_table ext operation
         else if op = JStr ''add_field'' then add_field ext operation
         else if op = JStr ''create_index'' then create_index ext operation
         else throw (ValueError ''Unsupported WASM storage migration operation''))
    | _ \<Rightarrow> throw (ValueError ''WASM storage migration has invalid operation.''))"

definition run_storage_migration :: "string \<Rightarrow> jval \<Rightarrow> (store, unit) py" where
  "run_storage_migration ext file = (case file of
      JObj migration \<Rightarrow> (case field_of migration ''operations'' of
          JList operations \<Rightarrow> forP operations (run_operation ext)
        | _ \<Rightarrow> throw (ValueError ''WASM storage migration has no operations list.''))
    | _ \<Rightarrow> throw (ValueError ''WASM storage migration must be a JSON object.''))"

section \<open>Files\<close>

text \<open>\<open>^([0-9]+)_.*[.]json$\<close>: the number in front of a file name. The argument lists the names and contents of the files
  that match \<open>*.json\<close>.\<close>

definition migration_number :: "string \<Rightarrow> int option" where
  "migration_number name =
     (let ds = takeWhile is_digit name; rest = drop (length ds) name in
      if ds \<noteq> [] \<and> startswith rest ''_'' \<and> endswith name ''.json'' \<and> CHR 0x0A \<notin> set name
      then map_option int (nat_of_digits 0 ds) else None)"

fun migration_files :: "(string \<times> jval) list \<Rightarrow> exn + (int \<times> string \<times> jval) list" where
  "migration_files [] = Inr []"
| "migration_files ((name, content) # fs) = (case migration_number name of
      None \<Rightarrow> Inl (ValueError ''Invalid WASM storage migration filename'')
    | Some n \<Rightarrow> map_sum id ((#) (n, name, content)) (migration_files fs))"

definition sorted_migrations :: "(int \<times> string \<times> jval) list \<Rightarrow> (int \<times> string \<times> jval) list" where
  "sorted_migrations fs = sort_key fst (sort_key (\<lambda>x. fst (snd x)) fs)"

definition migrate_wasm_extension_database ::
  "string \<Rightarrow> (string \<times> jval) list \<Rightarrow> int option \<Rightarrow> (store, unit) py" where
  "migrate_wasm_extension_database ext dir current_version =
     bindP (liftE (migration_files dir)) (\<lambda>fs.
     forP (sorted_migrations fs) (\<lambda>(version, name, content).
       if (case current_version of None \<Rightarrow> False | Some v \<Rightarrow> version \<le> v) then ret ()
       else thenP (run_storage_migration ext content)
              (modify (\<lambda>s. s\<lparr>so_versions := AList.update ext version (so_versions s)\<rparr>))))"

section \<open>Migrations keep the rows well formed\<close>

lemma put_empty_ok:
  "store_ok se s \<Longrightarrow> store_ok se (s\<lparr>so_tables := AList.update (ext, table) \<lparr>st_columns = cols, st_rows = []\<rparr> (so_tables s)\<rparr>)"
  by (auto simp: store_ok_def columns_of_def rows_of_def update_conv' unique_ids_def)

lemma create_table_ok: "keeps (store_ok se) (create_table ext operation)"
  unfolding create_table_def put_table_def by (intro keeps_intro) (rule put_empty_ok)

lemma dget_append: "dget (a @ b) k = (case dget a k of None \<Rightarrow> dget b k | Some v \<Rightarrow> Some v)"
  by (simp add: dget_def map_add_def split: option.split)

lemma add_column_good:
  assumes "good_row fmap cols r" "co_name c \<notin> co_name ` set cols"
  shows "good_row fmap (cols @ [c]) (r\<lparr>sr_data := sr_data r @ [(co_name c, insert_value [] c)]\<rparr>)"
proof -
  have "fst ` set (sr_data r) = co_name ` set cols" using assms(1) unfolding good_row_def by (metis image_set)
  then have none: "dget (sr_data r) (co_name c) = None" using assms(2) by (simp add: dget_def map_of_eq_None_iff)
  show ?thesis
    using assms none
    by (auto simp: good_row_def dget_append dget_def insert_value_def split: option.splits if_splits)
qed

lemma unique_same_ids:
  assumes "\<And>r. r \<in> set rs \<Longrightarrow> column_value (h r) ''id'' = column_value r ''id''" "unique_ids rs"
  shows "unique_ids (map h rs)"
  using assms
proof (induction rs)
  case (Cons r rs)
  then show ?case by (auto simp: unique_ids_def has_id_def)
qed (simp add: unique_ids_def)

lemma add_column_ok:
  assumes ok: "store_ok se s" and t: "map_of (so_tables s) (ext, table) = Some t" and c: "co_name c \<notin> co_name ` set (st_columns t)"
  shows "store_ok se (s\<lparr>so_tables := AList.update (ext, table) (add_column c t) (so_tables s)\<rparr>)"
proof -
  have good: "(\<forall>r \<in> set (st_rows (add_column c t)). good_row fmap (st_columns t @ [c]) r) \<and> unique_ids (st_rows (add_column c t))"
    if f: "table_for se ext table = Inr fmap" for fmap
  proof
    have old: "\<forall>r \<in> set (st_rows t). good_row fmap (st_columns t) r" "unique_ids (st_rows t)"
      using ok t f unfolding store_ok_def columns_of_def rows_of_def by fastforce+
    then show "\<forall>r \<in> set (st_rows (add_column c t)). good_row fmap (st_columns t @ [c]) r"
      using add_column_good c by (auto simp: add_column_def)
    have "column_value (r\<lparr>sr_data := sr_data r @ [(co_name c, insert_value [] c)]\<rparr>) ''id'' = column_value r ''id''"
      if r: "r \<in> set (st_rows t)" for r
    proof -
      have "''id'' \<in> fst ` set (sr_data r)" using old(1) r unfolding good_row_def by (metis image_set)
      then obtain v where "dget (sr_data r) ''id'' = Some v"
        by (cases "dget (sr_data r) ''id''") (auto simp: dget_def map_of_eq_None_iff)
      then show ?thesis by (simp add: column_value_def field_of_def dget_append)
    qed
    then show "unique_ids (st_rows (add_column c t))"
      using unique_same_ids [OF _ old(2)] by (simp add: add_column_def)
  qed
  show ?thesis
    unfolding store_ok_def
  proof (intro allI impI)
    fix x y cols fmap
    let ?s = "s\<lparr>so_tables := AList.update (ext, table) (add_column c t) (so_tables s)\<rparr>"
    assume a: "columns_of ?s (x, y) = Some cols" "table_for se x y = Inr fmap"
    show "(\<forall>r \<in> set (rows_of ?s (x, y)). good_row fmap cols r) \<and> unique_ids (rows_of ?s (x, y))"
    proof (cases "(x, y) = (ext, table)")
      case True
      with a good show ?thesis by (auto simp: columns_of_def rows_of_def update_conv' add_column_def)
    next
      case False
      then have "map_of (so_tables ?s) (x, y) = map_of (so_tables s) (x, y)" by (auto simp: update_conv')
      with a ok show ?thesis unfolding store_ok_def columns_of_def rows_of_def by auto
    qed
  qed
qed

lemma add_field_ok: "keeps (store_ok se) (add_field ext operation)"
proof -
  have step: "keeps (store_ok se) (bindP (find_table ext table) (\<lambda>t.
      if co_name c \<in> co_name ` set (st_columns t) \<or> b t then throw OperationalError
      else put_table ext table (add_column c t)))" for table c b
    unfolding keeps_def
    by (auto simp: find_table_def put_table_def py_unfold bindP_def add_column_ok split: option.split)
  show ?thesis unfolding add_field_def Let_def
    by (intro keeps_bindP keeps_liftE keeps_thenP keeps_failIf step)
qed

lemma run_operation_ok: "keeps (store_ok se) (run_operation ext v)"
  unfolding run_operation_def create_index_def Let_def
  by (auto split: jval.split intro!: keeps_intro create_table_ok add_field_ok)

lemma run_storage_migration_ok: "keeps (store_ok se) (run_storage_migration ext content)"
  unfolding run_storage_migration_def by (auto split: jval.split intro!: keeps_intro run_operation_ok)

lemma migrate_ok: "keeps (store_ok se) (migrate_wasm_extension_database ext dir v)"
  unfolding migrate_wasm_extension_database_def
  by (intro keeps_intro run_storage_migration_ok) (simp add: store_ok_def columns_of_def rows_of_def)

end
