(* ===== verification/WasmInvocations.thy ===== *)
theory WasmInvocations
  imports WasmPermissions
begin

text \<open>
  The runs of exported functions of web assembly extensions, as \<open>core/services/extensions.py\<close> monitors them: the
  limits of the run time, the handles of what is running, the counters of host calls, and the rows of the table
  \<open>wasm_invocations\<close> (\<open>core/crud/extensions.py\<close>). The clock, fresh ids and the redaction of error messages by
  regular expressions are arguments; a run of the engine can be interrupted once it is attached.
\<close>

section \<open>Limits\<close>

type_synonym limits = "(string \<times> int) list"

definition wasm_runtime_limit_fields :: "string list" where
  "wasm_runtime_limit_fields = map (\<lambda>x. ''wasm_runtime_'' @ x)
    [''max_memory_bytes'', ''max_execution_ms'', ''max_fuel'', ''max_response_bytes'', ''max_request_bytes'',
     ''max_wasm_stack_bytes'', ''max_table_elements'', ''max_instances'', ''max_tables'', ''max_memories'',
     ''max_concurrent_invocations'', ''max_concurrent_invocations_per_extension'',
     ''max_concurrent_invocations_per_user'', ''max_host_calls'', ''max_http_calls'', ''max_storage_calls'',
     ''max_wallet_calls'', ''http_timeout_ms'', ''max_http_response_bytes'']"

text \<open>\<open>settings\<close> is a function from the fields to their values.\<close>

definition wasm_runtime_limit_defaults :: "(string \<Rightarrow> int) \<Rightarrow> limits" where
  "wasm_runtime_limit_defaults settings = map (\<lambda>f. (f, settings f)) wasm_runtime_limit_fields"

definition limit_of :: "limits \<Rightarrow> string \<Rightarrow> int" where
  "limit_of l f = (case map_of l (''wasm_runtime_'' @ f) of None \<Rightarrow> 0 | Some n \<Rightarrow> n)"

definition invalid_wasm_runtime_limit :: "bool \<Rightarrow> string \<Rightarrow> exn + int option" where
  "invalid_wasm_runtime_limit strict msg = (if strict then Inl (ValueError msg) else Inr None)"

text \<open>\<open>s.isdecimal()\<close> on a stripped, non-empty text.\<close>

definition validate_wasm_runtime_limit_value :: "bool \<Rightarrow> jval \<Rightarrow> exn + int option" where
  "validate_wasm_runtime_limit_value strict raw =
     (let signed = (\<lambda>n. if n < 0 then invalid_wasm_runtime_limit strict ''WASM runtime limit cannot be negative.''
                        else Inr (Some n));
          bad = invalid_wasm_runtime_limit strict ''WASM runtime limit must be an integer.'' in
      case raw of
        JNull \<Rightarrow> Inr None
      | JBool b \<Rightarrow> bad
      | JStr s \<Rightarrow>
          (let t = strip s in
           if t = [] then Inr None
           else if list_all is_digit t then (case nat_of_digits 0 t of Some n \<Rightarrow> signed (int n) | None \<Rightarrow> bad)
           else bad)
      | JFloat r \<Rightarrow> if r = of_int (py_trunc r) then signed (py_trunc r) else bad
      | JInt i \<Rightarrow> signed i
      | _ \<Rightarrow> bad)"

fun validate_limit_items :: "bool \<Rightarrow> limits \<Rightarrow> (string \<times> jval) list \<Rightarrow> exn + limits" where
  "validate_limit_items strict acc [] = Inr acc"
| "validate_limit_items strict acc ((field, raw) # rest) =
     (if field \<notin> set wasm_runtime_limit_fields then
        (if strict then Inl (ValueError ''Unknown WASM runtime limit field.'') else validate_limit_items strict acc rest)
      else (case validate_wasm_runtime_limit_value strict raw of
          Inl e \<Rightarrow> Inl e
        | Inr None \<Rightarrow> validate_limit_items strict acc rest
        | Inr (Some n) \<Rightarrow> validate_limit_items strict (AList.update field n acc) rest))"

definition validate_wasm_runtime_limit_overrides :: "bool \<Rightarrow> dict \<Rightarrow> exn + limits" where
  "validate_wasm_runtime_limit_overrides strict overrides = validate_limit_items strict [] overrides"

text \<open>\<open>overrides\<close> is the stored field of an installed extension, \<open>None\<close> when there is none.\<close>

definition resolve_wasm_runtime_limits :: "(string \<Rightarrow> int) \<Rightarrow> dict option \<Rightarrow> limits" where
  "resolve_wasm_runtime_limits settings overrides = (case overrides of
      None \<Rightarrow> wasm_runtime_limit_defaults settings
    | Some d \<Rightarrow> (case validate_wasm_runtime_limit_overrides False d of
          Inl e \<Rightarrow> wasm_runtime_limit_defaults settings
        | Inr l \<Rightarrow> foldl (\<lambda>a (k, v). AList.update k v a) (wasm_runtime_limit_defaults settings) l))"

definition wasm_limit_exceeded :: "int \<Rightarrow> int \<Rightarrow> bool" where
  "wasm_limit_exceeded limit n \<longleftrightarrow> limit > 0 \<and> n > limit"

section \<open>Invocations\<close>

record invocation =
  iv_id :: string
  iv_extension :: string
  iv_export :: string
  iv_trigger :: string
  iv_status :: string
  iv_started :: rat
  iv_finished :: "rat option"
  iv_duration_ms :: "int option"
  iv_user :: "string option"
  iv_host_calls :: int
  iv_http_calls :: int
  iv_storage_calls :: int
  iv_wallet_calls :: int
  iv_response_bytes :: "int option"
  iv_error_type :: "string option"
  iv_error_message :: "string option"
  iv_stop_reason :: "string option"
  iv_context :: dict

record handle =
  hd_invocation :: invocation
  hd_attached :: bool
  hd_limits :: "limits option"
  hd_stop_requested :: bool
  hd_stop_reason :: "string option"

record monitor =
  mo_rows :: "invocation list"
  mo_handles :: "(string \<times> handle) list"
  mo_stale_marked :: bool
  mo_last_cleanup :: "rat option"
  mo_interrupted :: "string list"

definition find_invocation :: "string \<Rightarrow> monitor \<Rightarrow> invocation option" where
  "find_invocation i m = List.find (\<lambda>v. iv_id v = i) (mo_rows m)"

definition create_wasm_invocation :: "invocation \<Rightarrow> (monitor, unit) py" where
  "create_wasm_invocation v =
     bindP (gets (find_invocation (iv_id v))) (\<lambda>old.
     if old \<noteq> None then throw (OtherError ''IntegrityError'')
     else modify (\<lambda>m. m\<lparr>mo_rows := mo_rows m @ [v]\<rparr>))"

definition update_wasm_invocation :: "invocation \<Rightarrow> (monitor, unit) py" where
  "update_wasm_invocation v = modify (\<lambda>m. m\<lparr>mo_rows := map (\<lambda>x. if iv_id x = iv_id v then v else x) (mo_rows m)\<rparr>)"

definition delete_old_wasm_invocations :: "rat \<Rightarrow> int \<Rightarrow> (monitor, unit) py" where
  "delete_old_wasm_invocations now retention_days =
     (if retention_days \<le> 0 then ret ()
      else modify (\<lambda>m. m\<lparr>mo_rows :=
             filter (\<lambda>v. \<not> (iv_status v \<noteq> ''running'' \<and> iv_started v < now - of_int retention_days * 86400)) (mo_rows m)\<rparr>))"

definition mark_stale_wasm_invocations :: "rat \<Rightarrow> (monitor, unit) py" where
  "mark_stale_wasm_invocations now =
     modify (\<lambda>m. m\<lparr>mo_rows := map (\<lambda>v. if iv_status v = ''running''
        then v\<lparr>iv_status := ''abandoned'', iv_finished := Some now,
               iv_stop_reason := Some ''Server restarted before invocation finished.''\<rparr> else v) (mo_rows m)\<rparr>)"

text \<open>The newest first.\<close>

definition get_wasm_invocations :: "string option \<Rightarrow> string option \<Rightarrow> int \<Rightarrow> int \<Rightarrow> monitor \<Rightarrow> invocation list" where
  "get_wasm_invocations ext status n off m =
     take (nat (max 1 (min n 500))) (drop (nat (max off 0))
       (sort_key (\<lambda>v. - iv_started v)
         (filter (\<lambda>v. (truthy ext \<longrightarrow> iv_extension v = the ext) \<and> (truthy status \<longrightarrow> iv_status v = the status)) (mo_rows m))))"

section \<open>Running\<close>

definition ensure_wasm_invocation_monitoring_ready :: "rat \<Rightarrow> int \<Rightarrow> (monitor, unit) py" where
  "ensure_wasm_invocation_monitoring_ready now retention_days =
     bindP (gets mo_stale_marked) (\<lambda>marked.
     thenP (if marked then ret ()
            else thenP (mark_stale_wasm_invocations now) (modify (\<lambda>m. m\<lparr>mo_stale_marked := True\<rparr>)))
     (bindP (gets mo_last_cleanup) (\<lambda>done_at.
      if (case done_at of None \<Rightarrow> True | Some t \<Rightarrow> now - t \<ge> 3600)
      then thenP (modify (\<lambda>m. m\<lparr>mo_last_cleanup := Some now\<rparr>)) (delete_old_wasm_invocations now retention_days)
      else ret ())))"

definition count_handles :: "(invocation \<Rightarrow> bool) \<Rightarrow> monitor \<Rightarrow> int" where
  "count_handles P m = int (length (filter (\<lambda>h. P (hd_invocation (snd h))) (mo_handles m)))"

definition check_wasm_invocation_concurrency ::
  "string \<Rightarrow> string option \<Rightarrow> limits option \<Rightarrow> (monitor, unit) py" where
  "check_wasm_invocation_concurrency ext user limits = (case limits of
      None \<Rightarrow> ret ()
    | Some l \<Rightarrow> if l = [] then ret () else
        bindP (gets (count_handles (\<lambda>v. True))) (\<lambda>n.
        thenP (failIf (wasm_limit_exceeded (limit_of l ''max_concurrent_invocations'') (n + 1))
                 (ValueError ''WASM runtime has too many active invocations.''))
        (bindP (gets (count_handles (\<lambda>v. iv_extension v = ext))) (\<lambda>k.
         thenP (failIf (wasm_limit_exceeded (limit_of l ''max_concurrent_invocations_per_extension'') (k + 1))
                  (ValueError ''WASM extension has too many active invocations.''))
         (if \<not> truthy user then ret ()
          else bindP (gets (count_handles (\<lambda>v. iv_user v = user))) (\<lambda>u.
               failIf (wasm_limit_exceeded (limit_of l ''max_concurrent_invocations_per_user'') (u + 1))
                 (ValueError ''WASM user has too many active invocations.'')))))))"

definition safe_wasm_invocation_context :: "dict \<Rightarrow> dict" where
  "safe_wasm_invocation_context context =
     foldl (\<lambda>d (k, v). case v of
         JStr s \<Rightarrow> dset d (take 64 k) (JStr (take 256 s))
       | JList l \<Rightarrow> d
       | JObj o' \<Rightarrow> d
       | _ \<Rightarrow> dset d (take 64 k) v) [] context"

text \<open>\<open>start_wasm_invocation\<close> up to the insertion of the row, which is awaited; the handle is registered after it.\<close>

definition begin_wasm_invocation ::
  "rat \<Rightarrow> int \<Rightarrow> string \<Rightarrow> string \<Rightarrow> string \<Rightarrow> string \<Rightarrow> string option \<Rightarrow> dict \<Rightarrow> limits option \<Rightarrow> (monitor, invocation) py" where
  "begin_wasm_invocation now retention_days fresh ext export trigger user context limits =
     thenP (ensure_wasm_invocation_monitoring_ready now retention_days)
     (thenP (check_wasm_invocation_concurrency ext user limits)
     (let v = \<lparr>iv_id = fresh, iv_extension = ext, iv_export = export, iv_trigger = trigger, iv_status = ''running'',
               iv_started = now, iv_finished = None, iv_duration_ms = None, iv_user = user, iv_host_calls = 0,
               iv_http_calls = 0, iv_storage_calls = 0, iv_wallet_calls = 0, iv_response_bytes = None,
               iv_error_type = None, iv_error_message = None, iv_stop_reason = None,
               iv_context = safe_wasm_invocation_context context\<rparr>
      in thenP (create_wasm_invocation v) (ret v)))"

definition register_wasm_invocation :: "invocation \<Rightarrow> limits option \<Rightarrow> (monitor, unit) py" where
  "register_wasm_invocation v limits =
     modify (\<lambda>m. m\<lparr>mo_handles := AList.update (iv_id v)
        \<lparr>hd_invocation = v, hd_attached = False, hd_limits = limits, hd_stop_requested = False, hd_stop_reason = None\<rparr>
        (mo_handles m)\<rparr>)"

definition start_wasm_invocation ::
  "rat \<Rightarrow> int \<Rightarrow> string \<Rightarrow> string \<Rightarrow> string \<Rightarrow> string \<Rightarrow> string option \<Rightarrow> dict \<Rightarrow> limits option \<Rightarrow> (monitor, invocation) py" where
  "start_wasm_invocation now retention_days fresh ext export trigger user context limits =
     bindP (begin_wasm_invocation now retention_days fresh ext export trigger user context limits) (\<lambda>v.
     thenP (register_wasm_invocation v limits) (ret v))"

definition interrupt_wasm_invocation :: "handle \<Rightarrow> (monitor, bool) py" where
  "interrupt_wasm_invocation h =
     (if \<not> hd_attached h then ret False
      else thenP (modify (\<lambda>m. m\<lparr>mo_interrupted := mo_interrupted m @ [iv_id (hd_invocation h)]\<rparr>)) (ret True))"

definition put_handle :: "string \<Rightarrow> handle \<Rightarrow> (monitor, unit) py" where
  "put_handle i h = modify (\<lambda>m. m\<lparr>mo_handles := AList.update i h (mo_handles m)\<rparr>)"

definition attach_wasm_invocation_runtime :: "string \<Rightarrow> (monitor, unit) py" where
  "attach_wasm_invocation_runtime i =
     bindP (gets (\<lambda>m. map_of (mo_handles m) i)) (\<lambda>found. case found of
       None \<Rightarrow> ret ()
     | Some h \<Rightarrow>
         (let h' = h\<lparr>hd_attached := True\<rparr> in
          thenP (put_handle i h')
          (if hd_stop_requested h' then thenP (interrupt_wasm_invocation h') (ret ()) else ret ())))"

datatype host_call_category = HttpCall | StorageCall | WalletCall | HostCall

definition wasm_host_call_category :: "string \<Rightarrow> host_call_category" where
  "wasm_host_call_category method_id =
     (if startswith method_id ''http.'' \<or> startswith method_id ''extension.api.'' then HttpCall
      else if startswith method_id ''storage.'' then StorageCall
      else if startswith method_id ''wallet.'' then WalletCall
      else HostCall)"

definition count_call :: "host_call_category \<Rightarrow> invocation \<Rightarrow> invocation" where
  "count_call c v =
     (let v' = v\<lparr>iv_host_calls := iv_host_calls v + 1\<rparr> in
      case c of
        HttpCall \<Rightarrow> v'\<lparr>iv_http_calls := iv_http_calls v + 1\<rparr>
      | StorageCall \<Rightarrow> v'\<lparr>iv_storage_calls := iv_storage_calls v + 1\<rparr>
      | WalletCall \<Rightarrow> v'\<lparr>iv_wallet_calls := iv_wallet_calls v + 1\<rparr>
      | HostCall \<Rightarrow> v')"

definition check_wasm_host_call_limit :: "invocation \<Rightarrow> host_call_category \<Rightarrow> limits option \<Rightarrow> exn + unit" where
  "check_wasm_host_call_limit v c limits = (case limits of
      None \<Rightarrow> Inr ()
    | Some l \<Rightarrow>
        if l = [] then Inr ()
        else if wasm_limit_exceeded (limit_of l ''max_host_calls'') (iv_host_calls v)
        then Inl (ValueError ''WASM host call limit exceeded.'')
        else if (case c of
                   HttpCall \<Rightarrow> wasm_limit_exceeded (limit_of l ''max_http_calls'') (iv_http_calls v)
                 | StorageCall \<Rightarrow> wasm_limit_exceeded (limit_of l ''max_storage_calls'') (iv_storage_calls v)
                 | WalletCall \<Rightarrow> wasm_limit_exceeded (limit_of l ''max_wallet_calls'') (iv_wallet_calls v)
                 | HostCall \<Rightarrow> False)
        then Inl (ValueError ''WASM category host call limit exceeded.'')
        else Inr ())"

definition record_wasm_invocation_host_call :: "string option \<Rightarrow> string \<Rightarrow> (monitor, unit) py" where
  "record_wasm_invocation_host_call i method_id =
     (if \<not> truthy i then ret ()
      else bindP (gets (\<lambda>m. map_of (mo_handles m) (the i))) (\<lambda>found. case found of
        None \<Rightarrow> ret ()
      | Some h \<Rightarrow>
          (let c = wasm_host_call_category method_id; v = count_call c (hd_invocation h) in
           thenP (put_handle (the i) (h\<lparr>hd_invocation := v\<rparr>))
             (liftE (check_wasm_host_call_limit v c (hd_limits h))))))"

section \<open>Stopping and finishing\<close>

definition stop_wasm_invocation :: "string \<Rightarrow> string \<Rightarrow> (monitor, bool) py" where
  "stop_wasm_invocation i reason =
     bindP (gets (\<lambda>m. map_of (mo_handles m) i)) (\<lambda>found.
     bindP (case found of
         None \<Rightarrow> ret False
       | Some h \<Rightarrow>
           (let h' = h\<lparr>hd_stop_requested := True, hd_stop_reason := Some reason,
                       hd_invocation := (hd_invocation h)\<lparr>iv_stop_reason := Some reason\<rparr>\<rparr> in
            thenP (put_handle i h') (interrupt_wasm_invocation h'))) (\<lambda>interrupted.
     bindP (gets (find_invocation i)) (\<lambda>row. case row of
         None \<Rightarrow> ret interrupted
       | Some v \<Rightarrow>
           if iv_status v = ''running''
           then thenP (update_wasm_invocation (v\<lparr>iv_stop_reason := Some reason\<rparr>)) (ret interrupted)
           else ret interrupted)))"

definition stop_wasm_extension_invocations :: "string \<Rightarrow> string \<Rightarrow> (monitor, nat) py" where
  "stop_wasm_extension_invocations ext reason =
     bindP (gets (\<lambda>m. map fst (filter (\<lambda>h. iv_extension (hd_invocation (snd h)) = ext) (mo_handles m)))) (\<lambda>ids.
     thenP (forP ids (\<lambda>i. thenP (stop_wasm_invocation i reason) (ret ()))) (ret (length ids)))"

definition wasm_invocation_stop_requested :: "string \<Rightarrow> monitor \<Rightarrow> bool" where
  "wasm_invocation_stop_requested i m = (case map_of (mo_handles m) i of None \<Rightarrow> False | Some h \<Rightarrow> hd_stop_requested h)"

definition get_wasm_invocation_stop_reason :: "string \<Rightarrow> monitor \<Rightarrow> string option" where
  "get_wasm_invocation_stop_reason i m = (case map_of (mo_handles m) i of None \<Rightarrow> None | Some h \<Rightarrow> hd_stop_reason h)"

text \<open>\<open>redact\<close> stands for the substitutions in an error message.\<close>

definition safe_wasm_error_message :: "(string \<Rightarrow> string) \<Rightarrow> string option \<Rightarrow> string option" where
  "safe_wasm_error_message redact msg = (if truthy msg then Some (redact (take 500 (the msg))) else None)"

definition duration_ms :: "rat \<Rightarrow> rat \<Rightarrow> int" where
  "duration_ms start finish = max 0 (py_trunc (fmul (fl (finish - start)) 1000))"

definition finish_wasm_invocation ::
  "(string \<Rightarrow> string) \<Rightarrow> rat \<Rightarrow> string \<Rightarrow> string \<Rightarrow> int option \<Rightarrow> string option \<Rightarrow> string option \<Rightarrow> string option
   \<Rightarrow> (monitor, unit) py" where
  "finish_wasm_invocation redact now i status response_bytes error_type error_message stop_reason =
     bindP (gets (\<lambda>m. map_of (mo_handles m) i)) (\<lambda>popped.
     thenP (modify (\<lambda>m. m\<lparr>mo_handles := AList.delete i (mo_handles m)\<rparr>))
     (bindP (gets (\<lambda>m. case popped of Some h \<Rightarrow> Some (hd_invocation h) | None \<Rightarrow> find_invocation i m)) (\<lambda>found.
      case found of
        None \<Rightarrow> ret ()
      | Some v \<Rightarrow>
          (let reason = orElse stop_reason (case popped of None \<Rightarrow> None | Some h \<Rightarrow> hd_stop_reason h);
               stopped = (case popped of None \<Rightarrow> False | Some h \<Rightarrow> hd_stop_requested h \<and> status = ''failed'');
               status' = (if stopped then ''stopped'' else status);
               reason' = (if stopped then orElse reason (Some ''Stopped by admin.'') else reason)
           in update_wasm_invocation (v\<lparr>iv_status := status', iv_finished := Some now,
                iv_duration_ms := Some (duration_ms (iv_started v) now), iv_response_bytes := response_bytes,
                iv_error_type := error_type, iv_error_message := safe_wasm_error_message redact error_message,
                iv_stop_reason := reason'\<rparr>)))))"

definition get_current_wasm_invocations :: "string option \<Rightarrow> monitor \<Rightarrow> invocation list" where
  "get_current_wasm_invocations ext m =
     sort_key (\<lambda>v. - iv_started v)
       (map (\<lambda>(i, h). if hd_stop_requested h \<and> iv_status (hd_invocation h) = ''running''
                      then (hd_invocation h)\<lparr>iv_status := ''stopping'', iv_stop_reason := hd_stop_reason h\<rparr>
                      else hd_invocation h)
         (filter (\<lambda>(i, h). truthy ext \<longrightarrow> iv_extension (hd_invocation h) = the ext) (mo_handles m)))"

record invocation_stats =
  is_total :: int
  is_running :: int
  is_completed :: int
  is_failed :: int
  is_stopped :: int
  is_timeout :: int
  is_max_duration_ms :: int
  is_host_calls :: int
  is_http_calls :: int
  is_storage_calls :: int
  is_wallet_calls :: int

definition get_wasm_invocation_stats :: "string option \<Rightarrow> rat option \<Rightarrow> monitor \<Rightarrow> invocation_stats" where
  "get_wasm_invocation_stats ext since m =
     (let vs = filter (\<lambda>v. (truthy ext \<longrightarrow> iv_extension v = the ext)
                         \<and> (case since of None \<Rightarrow> True | Some t \<Rightarrow> t \<le> iv_started v)) (mo_rows m);
          with_status = (\<lambda>x. int (length (filter (\<lambda>v. iv_status v = x) vs))) in
      \<lparr>is_total = int (length vs), is_running = with_status ''running'', is_completed = with_status ''completed'',
       is_failed = with_status ''failed'', is_stopped = with_status ''stopped'', is_timeout = with_status ''timeout'',
       is_max_duration_ms = foldl max 0 (List.map_filter iv_duration_ms vs),
       is_host_calls = sum_list (map iv_host_calls vs), is_http_calls = sum_list (map iv_http_calls vs),
       is_storage_calls = sum_list (map iv_storage_calls vs), is_wallet_calls = sum_list (map iv_wallet_calls vs)\<rparr>)"

definition get_wasm_invocation_history ::
  "rat \<Rightarrow> int \<Rightarrow> string option \<Rightarrow> string option \<Rightarrow> int \<Rightarrow> int \<Rightarrow> (monitor, invocation list) py" where
  "get_wasm_invocation_history now retention_days ext status n off =
     thenP (ensure_wasm_invocation_monitoring_ready now retention_days) (gets (get_wasm_invocations ext status n off))"

definition get_wasm_invocation_summary :: "rat \<Rightarrow> int \<Rightarrow> string option \<Rightarrow> int \<Rightarrow> (monitor, invocation_stats) py" where
  "get_wasm_invocation_summary now retention_days ext hours =
     thenP (ensure_wasm_invocation_monitoring_ready now retention_days)
       (gets (get_wasm_invocation_stats ext (Some (now - of_int (max 1 (min hours (24 * 30)) * 3600)))))"

section \<open>Runs\<close>

text \<open>The monitor between its steps, as other requests come in between: a start is the two steps of
  \<open>start_wasm_invocation\<close> on either side of its \<open>await\<close>. \<open>calls\<close> counts the host calls that went through, by
  invocation and category. Ids are fresh.\<close>

definition no_monitor :: monitor where
  "no_monitor = \<lparr>mo_rows = [], mo_handles = [], mo_stale_marked = False, mo_last_cleanup = None, mo_interrupted = []\<rparr>"

inductive monitor_run :: "int \<Rightarrow> monitor \<Rightarrow> (string \<times> string) list \<Rightarrow> bool" for retention_days where
  init: "monitor_run retention_days no_monitor []"
| began: "monitor_run retention_days m calls \<Longrightarrow>
    begin_wasm_invocation now retention_days fresh ext export trigger user context limits m = (r, k)
    \<Longrightarrow> monitor_run retention_days k calls"
| registered: "monitor_run retention_days m calls \<Longrightarrow> iv_host_calls v = 0 \<Longrightarrow> iv_http_calls v = 0
    \<Longrightarrow> iv_storage_calls v = 0 \<Longrightarrow> iv_wallet_calls v = 0 \<Longrightarrow> iv_id v \<notin> fst ` set calls \<Longrightarrow> iv_id v \<noteq> []
    \<Longrightarrow> register_wasm_invocation v limits m = (r, k) \<Longrightarrow> monitor_run retention_days k calls"
| attached: "monitor_run retention_days m calls \<Longrightarrow> attach_wasm_invocation_runtime i m = (r, k)
    \<Longrightarrow> monitor_run retention_days k calls"
| called: "monitor_run retention_days m calls \<Longrightarrow> map_of (mo_handles m) i = Some h \<Longrightarrow>
    record_wasm_invocation_host_call (Some i) method_id m = (Inr u, k)
    \<Longrightarrow> monitor_run retention_days k (calls @ [(i, method_id)])"
| refused: "monitor_run retention_days m calls \<Longrightarrow>
    record_wasm_invocation_host_call (Some i) method_id m = (Inl e, k) \<Longrightarrow> monitor_run retention_days k calls"
| stopped: "monitor_run retention_days m calls \<Longrightarrow> stop_wasm_invocation i reason m = (r, k)
    \<Longrightarrow> monitor_run retention_days k calls"
| finished: "monitor_run retention_days m calls \<Longrightarrow>
    finish_wasm_invocation redact now i status bytes etype emsg reason m = (r, k) \<Longrightarrow> monitor_run retention_days k calls"

definition calls_of :: "string \<Rightarrow> (string \<Rightarrow> bool) \<Rightarrow> (string \<times> string) list \<Rightarrow> int" where
  "calls_of i P calls = int (length (filter (\<lambda>x. fst x = i \<and> P (snd x)) calls))"

abbreviation "is_http m \<equiv> wasm_host_call_category m = HttpCall"
abbreviation "is_storage m \<equiv> wasm_host_call_category m = StorageCall"
abbreviation "is_wallet m \<equiv> wasm_host_call_category m = WalletCall"

text \<open>Every handle has counted at least the calls that went through.\<close>

definition counts :: "monitor \<Rightarrow> (string \<times> string) list \<Rightarrow> bool" where
  "counts m calls \<longleftrightarrow> (\<forall>i h. map_of (mo_handles m) i = Some h \<longrightarrow>
     calls_of i (\<lambda>_. True) calls \<le> iv_host_calls (hd_invocation h)
     \<and> calls_of i is_http calls \<le> iv_http_calls (hd_invocation h)
     \<and> calls_of i is_storage calls \<le> iv_storage_calls (hd_invocation h)
     \<and> calls_of i is_wallet calls \<le> iv_wallet_calls (hd_invocation h))"

lemma counts_same_handles: "mo_handles k = mo_handles m \<Longrightarrow> counts k calls = counts m calls"
  by (simp add: counts_def)

lemma handles_kept [keeps_intro]:
  "keeps (\<lambda>m. mo_handles m = hs) (create_wasm_invocation v)" "keeps (\<lambda>m. mo_handles m = hs) (update_wasm_invocation v)"
  "keeps (\<lambda>m. mo_handles m = hs) (mark_stale_wasm_invocations now)"
  "keeps (\<lambda>m. mo_handles m = hs) (delete_old_wasm_invocations now days)"
  "keeps (\<lambda>m. mo_handles m = hs) (check_wasm_invocation_concurrency ext user limits)"
  "keeps (\<lambda>m. mo_handles m = hs) (interrupt_wasm_invocation h)"
  unfolding create_wasm_invocation_def update_wasm_invocation_def mark_stale_wasm_invocations_def
    delete_old_wasm_invocations_def check_wasm_invocation_concurrency_def interrupt_wasm_invocation_def
  by (auto intro!: keeps_intro)

lemma begin_handles: "mo_handles (snd (begin_wasm_invocation now days fresh ext export trigger user context limits m)) = mo_handles m"
proof -
  have "keeps (\<lambda>k. mo_handles k = mo_handles m)
      (begin_wasm_invocation now days fresh ext export trigger user context limits)"
    unfolding begin_wasm_invocation_def ensure_wasm_invocation_monitoring_ready_def Let_def
    by (auto intro!: keeps_intro)
  from keepsD [OF this refl] show ?thesis .
qed

lemma calls_of_none: "i \<notin> fst ` set calls \<Longrightarrow> calls_of i P calls = 0"
  by (auto simp: calls_of_def filter_empty_conv)

lemma calls_of_snoc:
  "calls_of i P (calls @ [(j, x)]) = calls_of i P calls + (if j = i \<and> P x then 1 else 0)"
  by (simp add: calls_of_def)

lemma counted_counts [simp]:
  "iv_host_calls (count_call c v) = iv_host_calls v + 1"
  "iv_http_calls (count_call c v) = iv_http_calls v + (if c = HttpCall then 1 else 0)"
  "iv_storage_calls (count_call c v) = iv_storage_calls v + (if c = StorageCall then 1 else 0)"
  "iv_wallet_calls (count_call c v) = iv_wallet_calls v + (if c = WalletCall then 1 else 0)"
  by (auto simp: count_call_def Let_def split: host_call_category.split)

text \<open>A handle that was put back with the same counters.\<close>

lemma counts_put:
  assumes "counts m calls" "map_of (mo_handles m) i = Some h"
    "iv_host_calls (hd_invocation h') = iv_host_calls (hd_invocation h)"
    "iv_http_calls (hd_invocation h') = iv_http_calls (hd_invocation h)"
    "iv_storage_calls (hd_invocation h') = iv_storage_calls (hd_invocation h)"
    "iv_wallet_calls (hd_invocation h') = iv_wallet_calls (hd_invocation h)"
    "mo_handles k = AList.update i h' (mo_handles m)"
  shows "counts k calls"
  using assms by (auto simp: counts_def update_conv')

lemma record_handle:
  assumes "map_of (mo_handles m) i = Some h" "i \<noteq> []"
  shows "record_wasm_invocation_host_call (Some i) mid m =
    (check_wasm_host_call_limit (count_call (wasm_host_call_category mid) (hd_invocation h)) (wasm_host_call_category mid) (hd_limits h),
     m\<lparr>mo_handles := AList.update i (h\<lparr>hd_invocation := count_call (wasm_host_call_category mid) (hd_invocation h)\<rparr>) (mo_handles m)\<rparr>)"
  using assms by (simp add: record_wasm_invocation_host_call_def put_handle_def Let_def py_unfold)

lemma record_without_handle:
  assumes "map_of (mo_handles m) i = None \<or> i = []"
  shows "record_wasm_invocation_host_call (Some i) mid m = (Inr (), m)"
  using assms by (auto simp: record_wasm_invocation_host_call_def py_unfold)

lemma record_counts:
  assumes "counts m calls" shows "counts (snd (record_wasm_invocation_host_call (Some i) mid m)) calls"
proof (cases "map_of (mo_handles m) i = None \<or> i = []")
  case True
  then show ?thesis using record_without_handle [OF True] assms by simp
next
  case False
  then obtain h where "map_of (mo_handles m) i = Some h" "i \<noteq> []" by auto
  from record_handle [OF this] have k: "mo_handles (snd (record_wasm_invocation_host_call (Some i) mid m))
      = AList.update i (h\<lparr>hd_invocation := count_call (wasm_host_call_category mid) (hd_invocation h)\<rparr>) (mo_handles m)" by simp
  have "calls_of i (\<lambda>_. True) calls \<le> iv_host_calls (hd_invocation h)" "calls_of i is_http calls \<le> iv_http_calls (hd_invocation h)"
    "calls_of i is_storage calls \<le> iv_storage_calls (hd_invocation h)" "calls_of i is_wallet calls \<le> iv_wallet_calls (hd_invocation h)"
    using assms \<open>map_of (mo_handles m) i = Some h\<close> by (simp_all add: counts_def)
  then show ?thesis using assms unfolding counts_def k update_conv' by (simp add: add_increasing2)
qed

lemma record_adds:
  assumes m: "counts m calls" and h: "map_of (mo_handles m) i = Some h" and i: "i \<noteq> []"
  shows "counts (snd (record_wasm_invocation_host_call (Some i) mid m)) (calls @ [(i, mid)])"
proof -
  from record_handle [OF h i] have k: "mo_handles (snd (record_wasm_invocation_host_call (Some i) mid m))
      = AList.update i (h\<lparr>hd_invocation := count_call (wasm_host_call_category mid) (hd_invocation h)\<rparr>) (mo_handles m)" by simp
  have "calls_of i (\<lambda>_. True) calls \<le> iv_host_calls (hd_invocation h)" "calls_of i is_http calls \<le> iv_http_calls (hd_invocation h)"
    "calls_of i is_storage calls \<le> iv_storage_calls (hd_invocation h)" "calls_of i is_wallet calls \<le> iv_wallet_calls (hd_invocation h)"
    using m h by (simp_all add: counts_def)
  then show ?thesis using m unfolding counts_def k update_conv' by (simp add: calls_of_snoc)
qed

text \<open>Handles have a name.\<close>

definition named_handles :: "monitor \<Rightarrow> bool" where
  "named_handles m \<longleftrightarrow> map_of (mo_handles m) [] = None"

text \<open>What a step does to the handles.\<close>

lemma handles_after:
  "mo_handles (snd (attach_wasm_invocation_runtime i m)) = (case map_of (mo_handles m) i of
     None \<Rightarrow> mo_handles m | Some h \<Rightarrow> AList.update i (h\<lparr>hd_attached := True\<rparr>) (mo_handles m))"
  "mo_handles (snd (stop_wasm_invocation i reason m)) = (case map_of (mo_handles m) i of
     None \<Rightarrow> mo_handles m
   | Some h \<Rightarrow> AList.update i (h\<lparr>hd_stop_requested := True, hd_stop_reason := Some reason,
         hd_invocation := (hd_invocation h)\<lparr>iv_stop_reason := Some reason\<rparr>\<rparr>) (mo_handles m))"
  "mo_handles (snd (finish_wasm_invocation redact now i st b et em re m)) = AList.delete i (mo_handles m)"
  by (auto simp: attach_wasm_invocation_runtime_def stop_wasm_invocation_def update_wasm_invocation_def put_handle_def
        finish_wasm_invocation_def interrupt_wasm_invocation_def Let_def py_unfold thenP_def bindP_def split: option.splits)

lemma attach_counts: "counts m calls \<Longrightarrow> counts (snd (attach_wasm_invocation_runtime i m)) calls"
  and stop_counts: "counts m calls \<Longrightarrow> counts (snd (stop_wasm_invocation i reason m)) calls"
  and finish_counts: "counts m calls \<Longrightarrow> counts (snd (finish_wasm_invocation redact now i st b et em re m)) calls"
  unfolding counts_def handles_after by (auto simp: update_conv' delete_conv' split: option.splits if_splits)

lemma named_after:
  assumes "named_handles m"
  shows "named_handles (snd (attach_wasm_invocation_runtime i m))" "named_handles (snd (stop_wasm_invocation i reason m))"
    "named_handles (snd (finish_wasm_invocation redact now i st b et em re m))"
    "named_handles (snd (record_wasm_invocation_host_call (Some i) mid m))"
proof -
  have "i \<noteq> []" if "map_of (mo_handles m) i = Some h" for h using that assms by (auto simp: named_handles_def)
  then show "named_handles (snd (attach_wasm_invocation_runtime i m))" "named_handles (snd (stop_wasm_invocation i reason m))"
    "named_handles (snd (finish_wasm_invocation redact now i st b et em re m))"
    using assms unfolding named_handles_def handles_after by (auto simp: update_conv' delete_conv' split: option.splits)
  show "named_handles (snd (record_wasm_invocation_host_call (Some i) mid m))"
    using assms record_handle [of m i _ mid] record_without_handle [of m i mid]
    by (cases "map_of (mo_handles m) i"; cases "i = []") (auto simp: named_handles_def update_conv')
qed

lemma run_counts: "monitor_run days m calls \<Longrightarrow> counts m calls \<and> named_handles m"
proof (induction rule: monitor_run.induct)
  case init
  show ?case by (simp add: counts_def named_handles_def no_monitor_def)
next
  case (began m calls now fresh ext xp tr user cx limits r k)
  with begin_handles [of now days fresh ext xp tr user cx limits m] show ?case
    by (auto simp: counts_def named_handles_def)
next
  case (registered m calls v limits r k)
  then show ?case
    by (auto simp: register_wasm_invocation_def py_unfold counts_def named_handles_def update_conv' calls_of_none split: if_splits)
next
  case (attached m calls i r k)
  with attach_counts [of m calls i] named_after(1) [of m i] show ?case by simp
next
  case (called m calls i h mid u k)
  then have "i \<noteq> []" by (auto simp: named_handles_def)
  with called record_adds [of m calls i h mid] named_after(4) [of m i mid] show ?case by simp
next
  case (refused m calls i mid e k)
  with record_counts [of m calls i mid] named_after(4) [of m i mid] show ?case by simp
next
  case (stopped m calls i reason r k)
  with stop_counts [of m calls i reason] named_after(2) [of m i reason] show ?case by simp
next
  case (finished m calls redact now i status bytes etype emsg reason r k)
  with finish_counts [of m calls redact now i status bytes etype emsg reason]
    named_after(3) [of m redact now i status bytes etype emsg reason] show ?case by simp
qed

text \<open>A call that goes through is within the limits.\<close>

lemma call_within_limits:
  assumes run: "monitor_run days m calls" and h: "map_of (mo_handles m) i = Some h" "hd_limits h = Some l" "l \<noteq> []"
    and ok: "record_wasm_invocation_host_call (Some i) mid m = (Inr u, k)"
  shows "\<And>n. limit_of l ''max_host_calls'' = n \<Longrightarrow> 0 < n \<Longrightarrow> calls_of i (\<lambda>_. True) (calls @ [(i, mid)]) \<le> n"
    "\<And>n. limit_of l ''max_wallet_calls'' = n \<Longrightarrow> 0 < n \<Longrightarrow> is_wallet mid \<Longrightarrow> calls_of i is_wallet (calls @ [(i, mid)]) \<le> n"
    "\<And>n. limit_of l ''max_http_calls'' = n \<Longrightarrow> 0 < n \<Longrightarrow> is_http mid \<Longrightarrow> calls_of i is_http (calls @ [(i, mid)]) \<le> n"
    "\<And>n. limit_of l ''max_storage_calls'' = n \<Longrightarrow> 0 < n \<Longrightarrow> is_storage mid \<Longrightarrow> calls_of i is_storage (calls @ [(i, mid)]) \<le> n"
proof -
  have c: "counts m calls" "i \<noteq> []" using run_counts [OF run] h(1) by (auto simp: named_handles_def)
  have chk: "check_wasm_host_call_limit (count_call (wasm_host_call_category mid) (hd_invocation h)) (wasm_host_call_category mid) (Some l) = Inr ()"
    using record_handle [OF h(1) c(2), of mid] ok h(2) by simp
  have n: "calls_of i (\<lambda>_. True) calls \<le> iv_host_calls (hd_invocation h)" "calls_of i is_http calls \<le> iv_http_calls (hd_invocation h)"
    "calls_of i is_storage calls \<le> iv_storage_calls (hd_invocation h)" "calls_of i is_wallet calls \<le> iv_wallet_calls (hd_invocation h)"
    using c(1) h(1) by (simp_all add: counts_def)
  show "calls_of i (\<lambda>_. True) (calls @ [(i, mid)]) \<le> n" if "limit_of l ''max_host_calls'' = n" "0 < n" for n
    using chk n(1) that h(3) by (auto simp: calls_of_snoc check_wasm_host_call_limit_def wasm_limit_exceeded_def split: if_splits)
  show "calls_of i is_wallet (calls @ [(i, mid)]) \<le> n" if "limit_of l ''max_wallet_calls'' = n" "0 < n" "is_wallet mid" for n
    using chk n(4) that h(3) by (auto simp: calls_of_snoc check_wasm_host_call_limit_def wasm_limit_exceeded_def split: if_splits)
  show "calls_of i is_http (calls @ [(i, mid)]) \<le> n" if "limit_of l ''max_http_calls'' = n" "0 < n" "is_http mid" for n
    using chk n(2) that h(3) by (auto simp: calls_of_snoc check_wasm_host_call_limit_def wasm_limit_exceeded_def split: if_splits)
  show "calls_of i is_storage (calls @ [(i, mid)]) \<le> n" if "limit_of l ''max_storage_calls'' = n" "0 < n" "is_storage mid" for n
    using chk n(3) that h(3) by (auto simp: calls_of_snoc check_wasm_host_call_limit_def wasm_limit_exceeded_def split: if_splits)
qed

end
