(* ===== verification/LnurlService.thy ===== *)
theory LnurlService
  imports Backend FiatBase InvoiceService
begin

text \<open>
  Talking to LNURL services (\<open>lnbits/core/services/lnurl.py\<close>) and the endpoints on it
  (\<open>lnbits/core/views/lnurl_api.py\<close>, \<open>api_payment_pay_with_nfc\<close> of \<open>payment_api.py\<close>). The addresses come from strangers,
  so a request is pinned to addresses that were checked, redirects are followed by hand and answers are bounded.
  The \<open>lnurl\<close> package (parsing codes and answers, deriving keys), \<open>httpx\<close>, \<open>urlparse\<close>, name resolution and JSON are
  parameters; every request that is sent is recorded in the state.
\<close>

section \<open>Requests and answers\<close>

text \<open>\<open>lq_ip\<close>: the address the connection is pinned to, \<open>None\<close> through the proxy.\<close>

record lnurl_request =
  lq_url :: string
  lq_ip :: "string option"
  lq_proxy :: "string option"
  lq_host :: string
  lq_sni :: "string option"

record lnurl_reply =
  lr_status :: nat
  lr_location :: "string option"
  lr_chunks :: "byte list list"

record pay_response =
  py_callback :: string
  py_min :: int
  py_max :: int
  py_comment :: int
  py_text :: string
  py_metadata :: "(string \<times> string) list"

record pay_action =
  pa_pr :: string
  pa_disposable :: "bool option"
  pa_success_action :: "string option"

record withdraw_response =
  wr_callback :: string
  wr_k1 :: string
  wr_min :: int
  wr_max :: int

record auth_challenge =
  ar_callback :: string
  ar_k1 :: string

datatype lnurl_answer =
    LPay pay_response
  | LAction pay_action
  | LWithdraw withdraw_response
  | LAuth auth_challenge
  | LError string
  | LSuccess
  | LOther

text \<open>What \<open>Lnurl(code)\<close> finds: its address, the parameters of a login, and the text it is stored under.\<close>

record parsed_lnurl =
  pl_url :: string
  pl_login :: "auth_challenge option"
  pl_stored :: string
  pl_lud17 :: "string option"

record lnurl_lib =
  ll_address :: "string \<Rightarrow> string option"
  ll_lnurl :: "string \<Rightarrow> parsed_lnurl option"
  ll_from_dict :: "dict \<Rightarrow> lnurl_answer option"
  ll_login :: "string \<Rightarrow> string \<Rightarrow> string \<Rightarrow> string \<times> string"
  ll_login_signed :: "string \<Rightarrow> string \<Rightarrow> string \<Rightarrow> string \<times> string"
  ll_url :: "string \<Rightarrow> string option"
  ll_merge :: "string \<Rightarrow> (string \<times> string) list \<Rightarrow> string"
  ll_with_host :: "string \<Rightarrow> string \<Rightarrow> string"
  ll_join :: "string \<Rightarrow> string \<Rightarrow> string"
  ll_urlparse :: url_parser
  ll_netloc :: "string \<Rightarrow> string"
  ll_literal :: "string \<Rightarrow> string option"
  ll_resolve :: "string \<Rightarrow> int option \<Rightarrow> string list option"
  ll_global :: "string \<Rightarrow> bool"
  ll_fetch :: "lnurl_request \<Rightarrow> lnurl_reply option"
  ll_loads :: "byte list \<Rightarrow> jval option"
  ll_fullmatch :: full_matcher
  ll_private_ips :: bool
  ll_redirect_rules :: "string list"
  ll_callback_rules :: "string list"

type_synonym lnurl_state = "world \<times> lnurl_request list"

definition on_world :: "(world, 'a) py \<Rightarrow> (lnurl_state, 'a) py" where
  "on_world m s = (case m (fst s) of (r, t) \<Rightarrow> (r, (t, snd s)))"

abbreviation LnurlResponseException :: "string \<Rightarrow> exn" where
  "LnurlResponseException m \<equiv> LnurlError ''LnurlResponseException'' m"

abbreviation "InvalidLnurl \<equiv> LnurlError ''InvalidLnurl'' []"
abbreviation "redirect_refused \<equiv> LnurlResponseException ''LNURL redirect was not allowed.''"

abbreviation "LNURL_MAX_REDIRECTS \<equiv> 3 :: nat"
abbreviation "LNURL_MAX_RESPONSE_BYTES \<equiv> 262144 :: nat"
abbreviation "LNURL_TOR_SOCKS \<equiv> ''socks5h://127.0.0.1:9050''"

section \<open>One request\<close>

text \<open>The target as \<open>urlparse\<close> reads it; \<open>httpx.URL\<close> normalised it, so that it parses.\<close>

definition rstrip_dots :: "string \<Rightarrow> string" where
  "rstrip_dots s = rev (dropWhile (\<lambda>c. c = CHR ''.'') (rev s))"

definition resolve_lnurl_host :: "lnurl_lib \<Rightarrow> string \<Rightarrow> int option \<Rightarrow> exn + string list" where
  "resolve_lnurl_host L host port = (case ll_resolve L host port of
      None \<Rightarrow> Inl (LnurlResponseException ''LNURL request target could not be resolved.'')
    | Some ips \<Rightarrow> Inr (remdups ips))"

definition target_addresses :: "lnurl_lib \<Rightarrow> string \<Rightarrow> string \<Rightarrow> int option \<Rightarrow> exn + string list" where
  "target_addresses L scheme host port =
     (case (case ll_literal L host of Some ip \<Rightarrow> Inr [ip] | None \<Rightarrow> resolve_lnurl_host L host port) of
        Inl e \<Rightarrow> Inl e
      | Inr ips \<Rightarrow>
          if ips = [] then Inl (LnurlResponseException ''LNURL request target could not be resolved.'')
          else if scheme \<noteq> ''https'' \<and> (\<not> ll_private_ips L \<or> list_ex (ll_global L) ips)
          then Inl (LnurlResponseException ''LNURL request target is not allowed over HTTP.'')
          else if \<not> ll_private_ips L \<and> list_ex (\<lambda>ip. \<not> ll_global L ip) ips
          then Inl (LnurlResponseException ''LNURL request target resolves to a private or non-global IP address.'')
          else Inr ips)"

definition validate_lnurl_request_url ::
  "lnurl_lib \<Rightarrow> string \<Rightarrow> string option \<Rightarrow> exn + string list \<times> string option" where
  "validate_lnurl_request_url L url tor_socks = (case ll_urlparse L url of
      None \<Rightarrow> Inl (ValueError ''Invalid URL'')
    | Some u \<Rightarrow>
        if truthy (pu_username u) \<or> truthy (pu_password u)
        then Inl (LnurlResponseException ''LNURL request URL must not include credentials.'')
        else if \<not> truthy (pu_hostname u)
        then Inl (LnurlResponseException ''LNURL request target hostname is missing.'')
        else (case pu_port u of
            None \<Rightarrow> Inl (LnurlResponseException ''LNURL request target port is invalid.'')
          | Some port \<Rightarrow>
              (let host = rstrip_dots (lower (the (pu_hostname u))) in
               if pu_scheme u \<notin> {''http'', ''https''}
               then Inl (LnurlResponseException ''LNURL request URL scheme must be HTTP or HTTPS.'')
               else if endswith host ''.onion'' then Inr ([], orElse tor_socks (Some LNURL_TOR_SOCKS))
               else map_sum id (\<lambda>ips. (ips, None)) (target_addresses L (pu_scheme u) host port))))"

fun read_limited_lnurl_response :: "byte list \<Rightarrow> byte list list \<Rightarrow> exn + byte list" where
  "read_limited_lnurl_response content [] = Inr content"
| "read_limited_lnurl_response content (c # cs) =
     (if length (content @ c) > LNURL_MAX_RESPONSE_BYTES
      then Inl (LnurlResponseException ''LNURL response is too large.'')
      else read_limited_lnurl_response (content @ c) cs)"

definition is_redirect :: "nat \<Rightarrow> bool" where
  "is_redirect status \<longleftrightarrow> status \<in> {301, 302, 303, 307, 308}"

definition lnurl_request_to :: "lnurl_lib \<Rightarrow> string \<Rightarrow> string option \<Rightarrow> string option \<Rightarrow> lnurl_request" where
  "lnurl_request_to L url ip proxy =
     \<lparr>lq_url = (case ip of None \<Rightarrow> url | Some a \<Rightarrow> ll_with_host L url a), lq_ip = ip, lq_proxy = proxy,
      lq_host = ll_netloc L url, lq_sni = Option.bind (ll_urlparse L url) pu_hostname\<rparr>"

text \<open>The addresses in turn, until one answers.\<close>

fun try_lnurl_requests :: "lnurl_lib \<Rightarrow> lnurl_request list \<Rightarrow> (lnurl_state, lnurl_reply \<times> byte list) py" where
  "try_lnurl_requests L [] = throw (LnurlResponseException ''LNURL request failed.'')"
| "try_lnurl_requests L (q # qs) =
     thenP (modify (map_prod id (\<lambda>sent. sent @ [q])))
     (case ll_fetch L q of
        None \<Rightarrow> try_lnurl_requests L qs
      | Some r \<Rightarrow>
          if is_redirect (lr_status r) then ret (r, [])
          else bindP (liftE (read_limited_lnurl_response [] (lr_chunks r))) (\<lambda>content. ret (r, content)))"

definition send_lnurl_request ::
  "lnurl_lib \<Rightarrow> string \<Rightarrow> string list \<Rightarrow> string option \<Rightarrow> (lnurl_state, lnurl_reply \<times> byte list) py" where
  "send_lnurl_request L url addresses proxy =
     try_lnurl_requests L
       (if truthy proxy then [lnurl_request_to L url None proxy]
        else map (\<lambda>ip. lnurl_request_to L url (Some ip) None) addresses)"

definition check_lnurl_redirect_rule :: "lnurl_lib \<Rightarrow> string \<Rightarrow> exn + unit" where
  "check_lnurl_redirect_rule L url = (case ll_urlparse L url of
      None \<Rightarrow> Inl (ValueError ''Invalid URL'')
    | Some u \<Rightarrow>
        if some_rule_matches (ll_fullmatch L) (ll_redirect_rules L) (pu_scheme u @ ''://'' @ ll_netloc L url)
        then Inr () else Inl redirect_refused)"

text \<open>The loop over redirects; the number is how many more may be followed.\<close>

fun follow_lnurl :: "lnurl_lib \<Rightarrow> string option \<Rightarrow> nat \<Rightarrow> string \<Rightarrow> (lnurl_state, dict) py" where
  "follow_lnurl L tor_socks more_redirects url =
     bindP (liftE (validate_lnurl_request_url L url tor_socks)) (\<lambda>(addresses, proxy).
     bindP (send_lnurl_request L url addresses proxy) (\<lambda>(r, content).
       if is_redirect (lr_status r) then
         (case more_redirects of
            0 \<Rightarrow> throw redirect_refused
          | Suc n \<Rightarrow>
              if \<not> truthy (lr_location r) then throw redirect_refused
              else (case ll_url L (ll_join L url (the (lr_location r))) of
                  None \<Rightarrow> throw redirect_refused
                | Some next_url \<Rightarrow>
                    bindP (liftE (check_lnurl_redirect_rule L next_url)) (\<lambda>_. follow_lnurl L tor_socks n next_url)))
       else if lr_status r \<ge> 400 then throw (LnurlResponseException ''LNURL request failed.'')
       else (case ll_loads L content of
           Some (JObj d) \<Rightarrow> ret d
         | _ \<Rightarrow> throw (LnurlResponseException ''Invalid LNURL response.''))))"

declare follow_lnurl.simps [simp del]

definition request_lnurl_json ::
  "lnurl_lib \<Rightarrow> string \<Rightarrow> string option \<Rightarrow> (string \<times> string) list \<Rightarrow> (lnurl_state, dict) py" where
  "request_lnurl_json L url tor_socks params = (case ll_url L url of
      None \<Rightarrow> throw (LnurlResponseException ''Invalid LNURL request URL.'')
    | Some u \<Rightarrow> follow_lnurl L tor_socks LNURL_MAX_REDIRECTS (if params = [] then u else ll_merge L u params))"

text \<open>\<open>_get\<close>, with the class the answer is read as, or \<open>LnurlResponse.from_dict\<close> when none is given.\<close>

definition lnurl_get ::
  "lnurl_lib \<Rightarrow> (dict \<Rightarrow> lnurl_answer option) option \<Rightarrow> string option \<Rightarrow> string \<Rightarrow> (string \<times> string) list
   \<Rightarrow> (lnurl_state, lnurl_answer) py" where
  "lnurl_get L response_class tor_socks url params =
     bindP (request_lnurl_json L url tor_socks params) (\<lambda>d.
     case (case response_class of Some parse \<Rightarrow> parse d | None \<Rightarrow> ll_from_dict L d) of
       None \<Rightarrow> throw (LnurlResponseException ''Invalid LNURL response.'')
     | Some r \<Rightarrow> ret r)"

section \<open>The protocol\<close>

text \<open>Inside the \<open>try\<close>, a \<open>ValueError\<close> of the request counts as an invalid address too.\<close>

definition invalid_lnurl :: "(lnurl_state, 'a) py \<Rightarrow> (lnurl_state, 'a) py" where
  "invalid_lnurl m = tryP m (\<lambda>e. case e of ValueError msg \<Rightarrow> throw InvalidLnurl | _ \<Rightarrow> throw e)"

definition lnurl_handle ::
  "lnurl_lib \<Rightarrow> (dict \<Rightarrow> lnurl_answer option) option \<Rightarrow> string option \<Rightarrow> string \<Rightarrow> (lnurl_state, lnurl_answer) py" where
  "lnurl_handle L response_class tor_socks code =
     (if CHR 0x40 \<in> set code then
        invalid_lnurl (case ll_address L code of
            None \<Rightarrow> throw InvalidLnurl
          | Some url \<Rightarrow> lnurl_get L response_class tor_socks url [])
      else (case ll_lnurl L code of
          None \<Rightarrow> throw InvalidLnurl
        | Some p \<Rightarrow> (case pl_login p of
              Some a \<Rightarrow> ret (LAuth a)
            | None \<Rightarrow> lnurl_get L response_class tor_socks (pl_url p) [])))"

text \<open>\<open>res.callback.host\<close> is the host the address names.\<close>

definition execute_login ::
  "lnurl_lib \<Rightarrow> string option \<Rightarrow> auth_challenge \<Rightarrow> string option \<Rightarrow> string option \<Rightarrow> (lnurl_state, lnurl_answer) py" where
  "execute_login L tor_socks res seed signed_message =
     (let host = Option.bind (ll_urlparse L (ar_callback res)) pu_hostname in
      if ar_callback res = [] then throw (LnurlResponseException ''LNURLauth callback does not exist'')
      else if \<not> truthy host then throw (LnurlResponseException ''Invalid host in LNURLauth callback'')
      else if \<not> truthy seed \<and> \<not> truthy signed_message
      then throw (LnurlResponseException ''Seed or signed_message is required for LNURLauth'')
      else
        (let (key, sig) = (if truthy seed then ll_login L (the seed) (the host) (ar_k1 res)
                           else ll_login_signed L (the signed_message) (the host) (ar_k1 res))
         in lnurl_get L None tor_socks (ar_callback res) [(''key'', key), (''sig'', sig)]))"

definition execute_withdraw ::
  "env \<Rightarrow> lnurl_lib \<Rightarrow> string option \<Rightarrow> withdraw_response \<Rightarrow> string \<Rightarrow> (lnurl_state, unit) py" where
  "execute_withdraw ev L tor_socks res pr = (case e_decode ev pr of
      None \<Rightarrow> throw (LnurlResponseException ''Invalid withdrawal invoice.'')
    | Some invoice \<Rightarrow>
        (let amount = (case di_amount_msat invoice of None \<Rightarrow> wr_min res | Some a \<Rightarrow> if a = 0 then wr_min res else a) in
         if \<not> (wr_min res \<le> amount \<and> amount \<le> wr_max res)
         then throw (LnurlResponseException ''Amount not in range'')
         else bindP (lnurl_get L None tor_socks (wr_callback res) [(''k1'', wr_k1 res), (''pr'', pr)]) (\<lambda>r.
           case r of LError reason \<Rightarrow> throw (LnurlResponseException reason)
           | LSuccess \<Rightarrow> ret ()
           | _ \<Rightarrow> throw (LnurlResponseException ''Invalid LNURL-withdraw response.''))))"

definition perform_withdraw :: "env \<Rightarrow> lnurl_lib \<Rightarrow> string \<Rightarrow> string \<Rightarrow> (lnurl_state, unit) py" where
  "perform_withdraw ev L code payment_request =
     bindP (lnurl_handle L None None code) (\<lambda>r. case r of
         LError reason \<Rightarrow> throw (LnurlResponseException reason)
       | LWithdraw res \<Rightarrow>
           (case check_callback_rules (ll_urlparse L) (ll_fullmatch L) (ll_callback_rules L) (wr_callback res) of
              Inl (ValueError m) \<Rightarrow> throw (LnurlResponseException (''Invalid callback URL: '' @ m))
            | Inl e \<Rightarrow> throw e
            | Inr _ \<Rightarrow> execute_withdraw ev L None res payment_request)
       | _ \<Rightarrow> throw (LnurlResponseException ''Invalid LNURL-withdraw response.''))"

definition execute_pay_request ::
  "env \<Rightarrow> lnurl_lib \<Rightarrow> string option \<Rightarrow> pay_response \<Rightarrow> int \<Rightarrow> string option \<Rightarrow> (lnurl_state, pay_action) py" where
  "execute_pay_request ev L tor_socks res msat comment =
     (let commented = py_comment res \<noteq> 0 \<and> truthy comment in
      if \<not> (py_min res \<le> msat \<and> msat \<le> py_max res) then throw (LnurlResponseException ''Amount not in range'')
      else if commented \<and> int (length (the comment)) > py_comment res
      then throw (LnurlResponseException ''Comment length exceeds allowed length'')
      else bindP (lnurl_get L None tor_socks (py_callback res)
              ((''amount'', str_int msat) # (if commented then [(''comment'', the comment)] else []))) (\<lambda>r.
        case r of
          LError reason \<Rightarrow> throw (LnurlResponseException reason)
        | LAction action \<Rightarrow>
            (case e_decode ev (pa_pr action) of
               None \<Rightarrow> throw (LnurlResponseException ''Invalid invoice in LNURL response.'')
             | Some invoice \<Rightarrow>
                 if di_amount_msat invoice \<noteq> Some msat
                 then throw (LnurlResponseException ''LNURL service returned an invalid invoice amount.'')
                 else ret action)
        | _ \<Rightarrow> throw (LnurlResponseException ''Invalid LNURL-pay response.'')))"

definition get_pr_from_lnurl :: "env \<Rightarrow> lnurl_lib \<Rightarrow> string \<Rightarrow> int \<Rightarrow> string option \<Rightarrow> (lnurl_state, string) py" where
  "get_pr_from_lnurl ev L code amount_msat comment =
     bindP (lnurl_handle L None None code) (\<lambda>r. case r of
         LError reason \<Rightarrow> throw (LnurlResponseException reason)
       | LPay res \<Rightarrow> bindP (execute_pay_request ev L None res amount_msat comment) (\<lambda>action. ret (pa_pr action))
       | _ \<Rightarrow> throw (LnurlResponseException ''Invalid LNURL response. Expected LnurlPayResponse.''))"

section \<open>Stored pay links\<close>

text \<open>The name a link is stored under: the code it came with, else the last address in the metadata.\<close>

definition stored_name :: "lnurl_lib \<Rightarrow> pay_response \<Rightarrow> string option \<Rightarrow> string option" where
  "stored_name L res code =
     (if truthy code then
        (case (if CHR 0x40 \<in> set (the code) then None else ll_lnurl L (the code)) of
           Some p \<Rightarrow> orElse (pl_lud17 p) (Some (pl_stored p))
         | None \<Rightarrow> code)
      else (case filter (\<lambda>(kind, _). kind = ''text/identifier'') (py_metadata res) of
          [] \<Rightarrow> None | ms \<Rightarrow> Some (snd (List.last ms))))"

definition pay_link :: "string \<Rightarrow> string \<Rightarrow> int \<Rightarrow> jval" where
  "pay_link name label now = JObj [(''lnurl'', JStr name), (''label'', JStr label), (''last_used'', JInt now)]"

definition link_name :: "jval \<Rightarrow> jval option" where
  "link_name l = (case l of JObj d \<Rightarrow> dget d ''lnurl'' | _ \<Rightarrow> None)"

definition touch_link :: "int \<Rightarrow> jval \<Rightarrow> jval" where
  "touch_link now l = (case l of JObj d \<Rightarrow> JObj (dset d ''last_used'' (JInt now)) | _ \<Rightarrow> l)"

fun touch_first :: "string \<Rightarrow> int \<Rightarrow> jval list \<Rightarrow> jval list" where
  "touch_first name now [] = []"
| "touch_first name now (l # ls) =
     (if link_name l = Some (JStr name) then touch_link now l # ls else l # touch_first name now ls)"

definition links_after :: "string \<Rightarrow> string \<Rightarrow> int \<Rightarrow> jval list \<Rightarrow> jval list" where
  "links_after name label now links =
     (if list_ex (\<lambda>l. link_name l = Some (JStr name)) links then touch_first name now links
      else links @ [pay_link name label now])"

definition store_paylink ::
  "env \<Rightarrow> lnurl_lib \<Rightarrow> pay_response \<Rightarrow> pay_action \<Rightarrow> wallet \<Rightarrow> string option \<Rightarrow> (world, unit) py" where
  "store_paylink ev L res action w code =
     (if pa_disposable action \<noteq> Some False then ret ()
      else (case stored_name L res code of
          None \<Rightarrow> ret ()
        | Some name \<Rightarrow>
            (case w_stored_paylinks w of
               JList links \<Rightarrow>
                 bindP (update_wallet ev (w\<lparr>w_stored_paylinks := JList (links_after name (py_text res) (e_now ev) links)\<rparr>))
                   (\<lambda>_. ret ())
             | _ \<Rightarrow> throw (OtherError ''AttributeError''))))"

section \<open>Fetching the invoice of a pay link\<close>

record create_lnurl_payment =
  cl_res :: "pay_response option"
  cl_lnurl :: "string option"
  cl_amount :: int
  cl_comment :: "string option"
  cl_unit :: "string option"

definition resolve_pay_link :: "lnurl_lib \<Rightarrow> create_lnurl_payment \<Rightarrow> (lnurl_state, pay_response) py" where
  "resolve_pay_link L d = (case cl_res d of
      Some res \<Rightarrow> ret res
    | None \<Rightarrow>
        if \<not> truthy (cl_lnurl d) then throw (LnurlResponseException ''No LNURL pay request provided.'')
        else bindP (lnurl_handle L None None (the (cl_lnurl d))) (\<lambda>r. case r of
            LError reason \<Rightarrow> throw (LnurlResponseException reason)
          | LPay res \<Rightarrow> ret res
          | _ \<Rightarrow> throw (LnurlResponseException ''Invalid LNURL response. Expected LnurlPayResponse.'')))"

definition pay_amount_msat :: "env \<Rightarrow> create_lnurl_payment \<Rightarrow> exn + int" where
  "pay_amount_msat ev d =
     (if truthy (cl_unit d) \<and> cl_unit d \<noteq> Some ''sat'' then
        (case fiat_amount_as_satoshis ev (py_round_digits (idiv_float (cl_amount d) 1000) 2) (the (cl_unit d)) of
           Inl e \<Rightarrow> Inl e | Inr sats \<Rightarrow> Inr (sats * 1000))
      else Inr (cl_amount d))"

definition fetch_lnurl_pay_request ::
  "env \<Rightarrow> lnurl_lib \<Rightarrow> create_lnurl_payment \<Rightarrow> wallet option \<Rightarrow> (lnurl_state, pay_response \<times> pay_action) py" where
  "fetch_lnurl_pay_request ev L d w =
     bindP (resolve_pay_link L d) (\<lambda>res.
     bindP (liftE (pay_amount_msat ev d)) (\<lambda>amount_msat.
     bindP (execute_pay_request ev L None res amount_msat (cl_comment d)) (\<lambda>action.
     thenP (case w of None \<Rightarrow> ret () | Some wal \<Rightarrow> on_world (store_paylink ev L res action wal (cl_lnurl d)))
       (ret (res, action)))))"

section \<open>Endpoints\<close>

text \<open>\<open>except LnurlException\<close> and \<open>except LnurlResponseException\<close>, which become a bad request.\<close>

definition lnurl_bad_request :: "string set \<Rightarrow> (lnurl_state, 'a) py \<Rightarrow> (lnurl_state, 'a) py" where
  "lnurl_bad_request classes m =
     tryP m (\<lambda>e. case e of LnurlError c msg \<Rightarrow> if c \<in> classes then throw (HTTPException 400 msg) else throw e
                 | _ \<Rightarrow> throw e)"

definition api_handle :: "lnurl_lib \<Rightarrow> string \<Rightarrow> (lnurl_state, lnurl_answer) py" where
  "api_handle L code =
     lnurl_bad_request {''LnurlResponseException'', ''InvalidLnurl''}
       (bindP (lnurl_handle L None None (if CHR 0x40 \<in> set code then lower code else code)) (\<lambda>r. case r of
          LError reason \<Rightarrow> throw (HTTPException 400 reason) | _ \<Rightarrow> ret r))"

definition response_callback :: "lnurl_answer \<Rightarrow> string option" where
  "response_callback r = (case r of
      LPay p \<Rightarrow> Some (py_callback p) | LWithdraw x \<Rightarrow> Some (wr_callback x) | LAuth a \<Rightarrow> Some (ar_callback a) | _ \<Rightarrow> None)"

definition api_lnurlscan :: "lnurl_lib \<Rightarrow> string \<Rightarrow> (lnurl_state, lnurl_answer) py" where
  "api_lnurlscan L code =
     bindP (api_handle L code) (\<lambda>r.
     thenP (case response_callback r of
         None \<Rightarrow> ret ()
       | Some url \<Rightarrow> liftE (check_callback_rules (ll_urlparse L) (ll_fullmatch L) (ll_callback_rules L) url))
       (ret r))"

definition api_perform_lnurlauth :: "lnurl_lib \<Rightarrow> auth_challenge \<Rightarrow> wallet \<Rightarrow> (lnurl_state, lnurl_answer) py" where
  "api_perform_lnurlauth L d w =
     thenP (liftE (check_callback_rules (ll_urlparse L) (ll_fullmatch L) (ll_callback_rules L) (ar_callback d)))
       (lnurl_bad_request {''LnurlResponseException''} (execute_login L None d (Some (w_adminkey w)) None))"

definition lnurl_extra :: "create_lnurl_payment \<Rightarrow> pay_action \<Rightarrow> dict" where
  "lnurl_extra d action =
     (if pa_disposable action = Some False then [(''stored'', JBool True)] else [])
     @ (case pa_success_action action of None \<Rightarrow> [] | Some a \<Rightarrow> [(''success_action'', JStr a)])
     @ (if truthy (cl_comment d) then [(''comment'', JStr (the (cl_comment d)))] else [])
     @ (if truthy (cl_unit d) \<and> cl_unit d \<noteq> Some ''sat''
        then [(''fiat_currency'', JStr (the (cl_unit d))), (''fiat_amount'', JFloat (idiv_float (cl_amount d) 1000))]
        else [])"

definition api_payments_pay_lnurl ::
  "env \<Rightarrow> settings \<Rightarrow> lnurl_lib \<Rightarrow> create_lnurl_payment \<Rightarrow> wallet \<Rightarrow> (lnurl_state, payment) py" where
  "api_payments_pay_lnurl ev cfg L d w =
     thenP (failIf (cl_res d = None \<and> \<not> truthy (cl_lnurl d))
              (HTTPException 400 ''Missing LNURL or LnurlPayResponse data.''))
     (bindP (lnurl_bad_request {''LnurlResponseException''} (fetch_lnurl_pay_request ev L d (Some w))) (\<lambda>(res, action).
      on_world (pay_invoice ev cfg (w_id w) (pa_pr action) None (lnurl_extra d action) (py_text res) [] [] None)))"

definition api_payment_pay_with_nfc ::
  "env \<Rightarrow> lnurl_lib \<Rightarrow> string \<Rightarrow> string option \<Rightarrow> (lnurl_state, unit) py" where
  "api_payment_pay_with_nfc ev L payment_request lud17 =
     thenP (failIf (\<not> truthy lud17) (HTTPException 400 ''LNURL-withdraw lud17 not provided.''))
       (tryP (perform_withdraw ev L (the lud17) payment_request) (\<lambda>e. throw (HTTPException 400 (exn_message e))))"

end
