(* ===== verification/WasmClients.thy ===== *)
theory WasmClients
  imports WasmMigrations WasmInvocations LnurlService Users
begin

text \<open>
  The state an extension's host functions work on, and the two clients through which an extension reaches out:
  \<open>core/wasm_ext/client/http.py\<close> (other servers) and \<open>client/extensions.py\<close> (other extensions of this server).
  Parsing of addresses, name resolution, unquoting and the answers of servers are parameters.
\<close>

section \<open>State\<close>

record installed_extension =
  ie_id :: string
  ie_active :: bool
  ie_permissions :: "ext_permission list"
  ie_limits :: dict

record outbound =
  ob_verb :: string
  ob_url :: string
  ob_headers :: "(string \<times> string) list"
  ob_body :: "byte list"

record wasm_world =
  wx_db :: world
  wx_installed :: "installed_extension list"
  wx_store :: store
  wx_hub :: hub
  wx_monitor :: monitor
  wx_sent :: "outbound list"
  wx_lnurl :: "lnurl_request list"
  wx_logged :: "(string \<times> string) list"

definition on_db :: "(world, 'a) py \<Rightarrow> (wasm_world, 'a) py" where
  "on_db m s = (case m (wx_db s) of (r, t) \<Rightarrow> (r, s\<lparr>wx_db := t\<rparr>))"

definition on_store :: "(store, 'a) py \<Rightarrow> (wasm_world, 'a) py" where
  "on_store m s = (case m (wx_store s) of (r, t) \<Rightarrow> (r, s\<lparr>wx_store := t\<rparr>))"

definition on_hub :: "(hub, 'a) py \<Rightarrow> (wasm_world, 'a) py" where
  "on_hub m s = (case m (wx_hub s) of (r, t) \<Rightarrow> (r, s\<lparr>wx_hub := t\<rparr>))"

definition on_monitor :: "(monitor, 'a) py \<Rightarrow> (wasm_world, 'a) py" where
  "on_monitor m s = (case m (wx_monitor s) of (r, t) \<Rightarrow> (r, s\<lparr>wx_monitor := t\<rparr>))"

definition on_lnurl :: "(lnurl_state, 'a) py \<Rightarrow> (wasm_world, 'a) py" where
  "on_lnurl m s = (case m (wx_db s, wx_lnurl s) of (r, t) \<Rightarrow> (r, s\<lparr>wx_db := fst t, wx_lnurl := snd t\<rparr>))"

definition get_installed_extension :: "string \<Rightarrow> wasm_world \<Rightarrow> installed_extension option" where
  "get_installed_extension i s = List.find (\<lambda>e. ie_id e = i) (wx_installed s)"

section \<open>Answers\<close>

record web_reply =
  hr_status :: nat
  hr_headers :: "(string \<times> string) list"
  hr_encoding :: "string option"
  hr_chunks :: "byte list list"

record http_answer =
  ha_status :: nat
  ha_headers :: "(string \<times> string) list"
  ha_body :: string

text \<open>What \<open>urlsplit\<close> finds.\<close>

record split_path =
  sp_scheme :: string
  sp_netloc :: string
  sp_path :: string
  sp_query :: string
  sp_fragment :: string

text \<open>\<open>wb_address\<close>: whether a host is a literal address and if so a global one; \<open>wb_resolve\<close>: for every address of a name
  whether it is global, or \<open>None\<close> when the name is unknown. \<open>wb_fetch\<close>: the answer, or \<open>None\<close> for a request error.\<close>

record web =
  wb_urlparse :: url_parser
  wb_address :: "string \<Rightarrow> bool option"
  wb_resolve :: "string \<Rightarrow> bool list option"
  wb_fetch :: "outbound \<Rightarrow> web_reply option"
  wb_decode :: "string \<Rightarrow> byte list \<Rightarrow> string"
  wb_urlsplit :: "string \<Rightarrow> split_path option"
  wb_unquote :: "string \<Rightarrow> string"
  wb_base :: string

fun read_limited :: "string \<Rightarrow> int \<Rightarrow> byte list \<Rightarrow> byte list list \<Rightarrow> exn + byte list" where
  "read_limited too_large limit content [] = Inr content"
| "read_limited too_large limit content (c # cs) =
     (if limit > 0 \<and> int (length content + length c) > limit then Inl (ValueError too_large)
      else read_limited too_large limit (content @ c) cs)"

definition forbidden_request_headers :: "string list" where
  "forbidden_request_headers =
     [''connection'', ''content-length'', ''cookie'', ''host'', ''proxy-authorization'', ''transfer-encoding'']"

definition forbidden_response_headers :: "string list" where
  "forbidden_response_headers = [''connection'', ''content-length'', ''set-cookie'', ''transfer-encoding'']"

definition response_headers :: "(string \<times> string) list \<Rightarrow> (string \<times> string) list" where
  "response_headers h = filter (\<lambda>(k, v). lower k \<notin> set forbidden_response_headers) h"

definition clean_request_headers :: "(string \<times> string) list \<Rightarrow> (string \<times> string) list" where
  "clean_request_headers h =
     foldl (\<lambda>d (k, v). let header = strip k in
        if header = [] \<or> lower header \<in> set forbidden_request_headers then d else AList.update header v d) [] h"

text \<open>Sending, reading and the answer, the same in both clients.\<close>

definition exchange_request :: "web \<Rightarrow> string \<Rightarrow> string \<Rightarrow> int option \<Rightarrow> outbound \<Rightarrow> (wasm_world, http_answer) py" where
  "exchange_request wb failed too_large max_response_bytes x =
     thenP (modify (\<lambda>s. s\<lparr>wx_sent := wx_sent s @ [x]\<rparr>))
     (case wb_fetch wb x of
        None \<Rightarrow> throw (ValueError failed)
      | Some r \<Rightarrow>
          bindP (liftE (read_limited too_large (case max_response_bytes of None \<Rightarrow> 262144 | Some n \<Rightarrow> n) [] (hr_chunks r))) (\<lambda>content.
          ret \<lparr>ha_status = hr_status r, ha_headers = response_headers (hr_headers r),
               ha_body = wb_decode wb (the (orElse (hr_encoding r) (Some ''utf-8''))) content\<rparr>))"

section \<open>Requests to other servers\<close>

record http_request =
  hq_method :: string
  hq_url :: string
  hq_headers :: "(string \<times> string) list"
  hq_body :: "string option"

definition reject_internal_host :: "web \<Rightarrow> string \<Rightarrow> exn + unit" where
  "reject_internal_host wb url = (case wb_urlparse wb url of
      None \<Rightarrow> Inl (ValueError ''Invalid URL'')
    | Some u \<Rightarrow> (case pu_hostname u of
        None \<Rightarrow> Inl (PermissionError ''HTTP requests require a hostname.'')
      | Some h \<Rightarrow>
          if h = [] then Inl (PermissionError ''HTTP requests require a hostname.'')
          else if h = ''localhost'' \<or> endswith h ''.localhost''
          then Inl (PermissionError ''HTTP requests cannot target localhost.'')
          else (case wb_address wb h of
              Some global \<Rightarrow>
                if global then Inr () else Inl (PermissionError ''HTTP requests cannot target internal network addresses.'')
            | None \<Rightarrow> (case wb_resolve wb h of
                None \<Rightarrow> Inl (PermissionError ''HTTP request host could not be resolved.'')
              | Some globals \<Rightarrow>
                  if list_all (\<lambda>g. g) globals then Inr ()
                  else Inl (PermissionError ''HTTP requests cannot target internal network addresses.'')))))"

definition body_bytes :: "string option \<Rightarrow> byte list" where
  "body_bytes b = (case b of None \<Rightarrow> [] | Some s \<Rightarrow> utf8_encode s)"

definition send_extension_http_request ::
  "web \<Rightarrow> jval list \<Rightarrow> http_request \<Rightarrow> int option \<Rightarrow> (wasm_world, http_answer) py" where
  "send_extension_http_request wb policies q max_response_bytes =
     bindP (liftE (allowed_origins (wb_urlparse wb) policies)) (\<lambda>origins.
     bindP (liftE (request_origin (wb_urlparse wb) (hq_url q))) (\<lambda>origin.
     thenP (failIf (origin \<notin> set origins) (PermissionError ''Extension is not allowed to request this origin.''))
     (thenP (liftE (reject_internal_host wb (hq_url q)))
      (let content = body_bytes (hq_body q) in
       thenP (failIf (length content > 65536) (ValueError ''HTTP request body is too large.''))
       (exchange_request wb ''HTTP request failed.'' ''HTTP response is too large.'' max_response_bytes
          \<lparr>ob_verb = hq_method q, ob_url = hq_url q, ob_headers = clean_request_headers (hq_headers q), ob_body = content\<rparr>)))))"

section \<open>Requests to other extensions\<close>

record extension_request =
  eq_extension_id :: string
  eq_method :: string
  eq_path :: string
  eq_body :: "string option"

definition target_extension_id :: "string \<Rightarrow> exn + string" where
  "target_extension_id extension_id =
     (let target = strip extension_id in
      if target \<noteq> [] \<and> list_all id_char target then Inr target
      else Inl (PermissionError ''Extension API request has an invalid target extension.''))"

definition require_method_access :: "string list \<Rightarrow> string \<Rightarrow> exn + unit" where
  "require_method_access access verb =
     (if verb \<in> {''GET'', ''HEAD''} then
        (if ''read'' \<in> set access then Inr () else Inl (PermissionError ''Extension cannot read extension.''))
      else if verb \<in> {''DELETE'', ''PATCH'', ''POST'', ''PUT''} then
        (if ''write'' \<in> set access then Inr () else Inl (PermissionError ''Extension cannot write extension.''))
      else Inl (PermissionError ''Extension API request method is not allowed.''))"

definition require_enabled_extension :: "string \<Rightarrow> string \<Rightarrow> (wasm_world, unit) py" where
  "require_enabled_extension target user_id =
     bindP (gets (get_installed_extension target)) (\<lambda>e.
     thenP (failIf (case e of None \<Rightarrow> True | Some x \<Rightarrow> \<not> ie_active x)
              (PermissionError ''Target extension is not installed or enabled.''))
     (bindP (gets (\<lambda>s. get_user_active_extensions_ids user_id (wx_db s))) (\<lambda>active.
      failIf (target \<notin> set active) (PermissionError ''Target extension is not active for this user.''))))"

text \<open>\<open>posixpath.normpath\<close>: the components so far, newest first.\<close>

fun norm_components :: "bool \<Rightarrow> string list \<Rightarrow> string list \<Rightarrow> string list" where
  "norm_components rooted acc [] = rev acc"
| "norm_components rooted acc (c # cs) =
     (if c = [] \<or> c = ''.'' then norm_components rooted acc cs
      else if c \<noteq> ''..'' \<or> (\<not> rooted \<and> acc = []) \<or> (acc \<noteq> [] \<and> hd acc = ''..'') then norm_components rooted (c # acc) cs
      else norm_components rooted (tl acc) cs)"

definition normpath :: "string \<Rightarrow> string" where
  "normpath p =
     (if p = [] then ''.''
      else
        (let slashes = (if \<not> startswith p ''/'' then 0
                        else if startswith p ''//'' \<and> \<not> startswith p ''///'' then 2 else 1);
             q = replicate slashes (CHR ''/'') @ join ''/'' (norm_components (slashes \<noteq> 0) [] (split_on CHR ''/'' p))
         in if q = [] then ''.'' else q))"

definition rstrip_slash :: "string \<Rightarrow> string" where
  "rstrip_slash s = rev (dropWhile (\<lambda>c. c = CHR ''/'') (rev s))"

definition extension_api_path :: "web \<Rightarrow> string \<Rightarrow> exn + string" where
  "extension_api_path wb dest = (case wb_urlsplit wb dest of
      None \<Rightarrow> Inl (ValueError ''Invalid URL'')
    | Some u \<Rightarrow>
        if sp_scheme u \<noteq> [] \<or> sp_netloc u \<noteq> [] then Inl (PermissionError ''Extension API request path must be relative.'')
        else if sp_fragment u \<noteq> [] then Inl (PermissionError ''Extension API request path cannot include a fragment.'')
        else if \<not> startswith (sp_path u) ''/api/''
        then Inl (PermissionError ''Extension API request path must start with /api/.'')
        else
          (let decoded = wb_unquote wb (sp_path u); normalized = normpath decoded in
           if ''..'' \<in> set (split_on CHR ''/'' decoded)
           then Inl (PermissionError ''Extension API request path cannot traverse directories.'')
           else if normalized \<noteq> rstrip_slash decoded \<or> \<not> startswith normalized ''/api/''
           then Inl (PermissionError ''Extension API request path is invalid.'')
           else Inr (sp_path u @ (if sp_query u = [] then [] else CHR ''?'' # sp_query u))))"

definition send_extension_api_request ::
  "web \<Rightarrow> jval list \<Rightarrow> string option \<Rightarrow> string option \<Rightarrow> extension_request \<Rightarrow> int option \<Rightarrow> (wasm_world, http_answer) py" where
  "send_extension_api_request wb policies user_id access_token q max_response_bytes =
     thenP (failIf (\<not> truthy user_id) (PermissionError ''Extension API requests require authentication.''))
     (thenP (failIf (\<not> truthy access_token) (PermissionError ''Extension API requests require an account access token.''))
     (bindP (liftE (target_extension_id (eq_extension_id q))) (\<lambda>target.
      bindP (liftE (target_extension_access policies target)) (\<lambda>access.
      thenP (liftE (require_method_access access (eq_method q)))
      (thenP (require_enabled_extension target (the user_id))
      (bindP (liftE (extension_api_path wb (eq_path q))) (\<lambda>dest.
       (let content = body_bytes (eq_body q) in
        thenP (failIf (length content > 65536) (ValueError ''Extension API request body is too large.''))
        (exchange_request wb ''Extension API request failed.'' ''Extension API response is too large.'' max_response_bytes
           \<lparr>ob_verb = eq_method q, ob_url = wb_base wb @ ''/'' @ target @ dest,
            ob_headers = [(''Authorization'', ''Bearer '' @ the access_token)], ob_body = content\<rparr>)))))))))"

end
