(* ===== verification/WasmHost.thy ===== *)
theory WasmHost
  imports WasmClients Webhooks Crypto
begin

text \<open>
  The functions the server offers a web assembly extension (\<open>core/wasm_ext/api/host.py\<close>, \<open>utils.py\<close>,
  \<open>background_payments.py\<close>, \<open>lnurl.py\<close>), one definition per method of \<open>ExtensionHostAPI\<close>, each behind the guard of its
  decorator (\<open>registry.py\<close>), which is looked up in the list of exported methods.
\<close>

section \<open>The host object of one invocation\<close>

record host_api =
  hx_extension :: string
  hx_permissions :: "ext_permission list"
  hx_user :: "string option"
  hx_token :: "string option"
  hx_context :: string
  hx_owner :: "string option"
  hx_invocation :: "string option"
  hx_limits :: limits

text \<open>What the methods get from outside: the server's environment and settings, the parameters of storage, of the two
  clients and of LNURL, the sockets that are broken, the clocks and fresh identifiers.\<close>

record host_env =
  he_ev :: env
  he_cfg :: settings
  he_storage :: storage_env
  he_web :: web
  he_lnurl :: lnurl_lib
  he_broken :: "nat \<Rightarrow> bool"
  he_monotonic :: rat
  he_fresh :: "wasm_world \<Rightarrow> string"
  he_token :: "wasm_world \<Rightarrow> string"
  he_random :: "nat \<Rightarrow> byte list"
  he_sha256 :: "byte list \<Rightarrow> byte list"
  he_currencies :: "string list"
  he_up_time :: string

definition new_host_api ::
  "env \<Rightarrow> string \<Rightarrow> ext_permission list \<Rightarrow> string option \<Rightarrow> string option \<Rightarrow> string \<Rightarrow> string option \<Rightarrow> string option
   \<Rightarrow> limits \<Rightarrow> host_api" where
  "new_host_api ev ext permissions user token context owner invocation limits =
     \<lparr>hx_extension = ext, hx_permissions = permissions, hx_user = user, hx_token = token, hx_context = context,
      hx_owner = (if truthy user then Some (e_sha256s ev (the user)) else owner),
      hx_invocation = invocation, hx_limits = limits\<rparr>"

definition has_authenticated_context :: "host_api \<Rightarrow> bool" where
  "has_authenticated_context h \<longleftrightarrow> truthy (hx_user h) \<or> hx_context h = ''event''"

definition require_permission :: "host_api \<Rightarrow> string option \<Rightarrow> (wasm_world, unit) py" where
  "require_permission h p =
     failIf (truthy p \<and> the p \<notin> set (permission_ids (hx_permissions h)))
       (PermissionError (''Extension is missing permission '' @ the p))"

definition require_owner_id :: "host_api \<Rightarrow> exn + string" where
  "require_owner_id h =
     (if truthy (hx_owner h) then Inr (the (hx_owner h))
      else Inl (PermissionError ''Extension API method requires an owner context.''))"

definition policies_of :: "host_api \<Rightarrow> string \<Rightarrow> jval list option" where
  "policies_of h = permission_policies (hx_permissions h)"

text \<open>The decorator \<open>extension_api_method\<close>.\<close>

definition guarded :: "host_api \<Rightarrow> string \<Rightarrow> (wasm_world, 'a) py \<Rightarrow> (wasm_world, 'a) py" where
  "guarded h method_id m =
     bindP (liftE (get_extension_api_method method_id)) (\<lambda>am.
     thenP (failIf (am_auth am \<and> \<not> has_authenticated_context h)
              (PermissionError (''Extension API method requires authentication: '' @ method_id)))
     (thenP (require_permission h (am_permission am)) m))"

section \<open>Storage\<close>

definition json_row :: "dict option \<Rightarrow> string option" where
  "json_row row = (case row of None \<Rightarrow> None | Some d \<Rightarrow> if d = [] then None else Some (json_dumps (JObj d)))"

definition public_part :: "string list \<Rightarrow> dict \<Rightarrow> dict" where
  "public_part public_fields row = filter (\<lambda>(k, v). k \<in> set public_fields) row"

definition storage_get :: "host_env \<Rightarrow> host_api \<Rightarrow> string \<Rightarrow> string \<Rightarrow> (wasm_world, string option) py" where
  "storage_get he h table i =
     guarded h ''storage.get''
       (bindP (liftE (require_owner_id h)) (\<lambda>owner.
        bindP (on_store (storage_get_row (he_storage he) (hx_extension h) table i owner)) (\<lambda>row. ret (json_row row))))"

definition storage_get_public :: "host_env \<Rightarrow> host_api \<Rightarrow> string \<Rightarrow> string \<Rightarrow> (wasm_world, string option) py" where
  "storage_get_public he h table i =
     guarded h ''storage.get_public''
       (bindP (liftE (public_storage_policy (policies_of h ''ext.storage.read_public'') table)) (\<lambda>policy.
        bindP (on_store (storage_get_public_row (he_storage he) (hx_extension h) table i)) (\<lambda>row.
        ret (case row of
            None \<Rightarrow> None
          | Some d \<Rightarrow> if d = [] then None else Some (json_dumps (JObj (public_part (tp_fields policy) d)))))))"

fun append_policy_for ::
  "storage_env \<Rightarrow> string \<Rightarrow> string \<Rightarrow> string \<Rightarrow> bool \<Rightarrow> jval list \<Rightarrow> (store, append_policy \<times> string) py" where
  "append_policy_for se ext table source_id source_not_found [] =
     throw (PermissionError (if source_not_found then ''Public storage append source was not found.''
                             else ''Storage table is not publicly appendable.''))"
| "append_policy_for se ext table source_id source_not_found (p # ps) =
     bindP (liftE (normalize_append_policy p)) (\<lambda>policy.
       if ap_table policy \<noteq> table then append_policy_for se ext table source_id source_not_found ps
       else bindP (storage_get_row_owner_id se ext (ap_source_table policy) source_id) (\<lambda>owner.
         if truthy owner then ret (policy, the owner)
         else append_policy_for se ext table source_id True ps))"

definition public_storage_append_policy ::
  "storage_env \<Rightarrow> host_api \<Rightarrow> string \<Rightarrow> string \<Rightarrow> (store, append_policy \<times> string) py" where
  "public_storage_append_policy se h table source_id =
     (let policies = policy_list (policies_of h ''ext.storage.append_public'') in
      if policies = [] then throw (PermissionError ''Public storage appends require policies for ext.storage.append_public.'')
      else append_policy_for se (hx_extension h) table source_id False policies)"

definition storage_append_public ::
  "host_env \<Rightarrow> host_api \<Rightarrow> string \<Rightarrow> string \<Rightarrow> dict \<Rightarrow> (wasm_world, string) py" where
  "storage_append_public he h table source_id data =
     guarded h ''storage.append_public''
       (bindP (gets (he_fresh he)) (\<lambda>fresh.
        on_store
         (bindP (public_storage_append_policy (he_storage he) h table source_id) (\<lambda>(policy, owner).
          thenP (failIf (\<not> fst ` set data \<subseteq> set (ap_allowed_fields policy))
                   (PermissionError ''Public storage append contains disallowed fields.''))
          (bindP (storage_count_rows (he_storage he) (hx_extension h) table
                    [(ap_source_id_field policy, JStr source_id)] owner) (\<lambda>current_rows.
           thenP (failIf (int current_rows \<ge> ap_max_rows_per_source policy) (PermissionError ''Public storage append limit reached.''))
            (storage_append_public_row (he_storage he) fresh (hx_extension h) table
               (dset data (ap_source_id_field policy) (JStr source_id)) owner)))))))"

definition storage_set :: "host_env \<Rightarrow> host_api \<Rightarrow> string \<Rightarrow> dict \<Rightarrow> (wasm_world, unit) py" where
  "storage_set he h table data =
     guarded h ''storage.set''
       (bindP (liftE (require_owner_id h)) (\<lambda>owner.
        on_store (storage_set_row (he_storage he) (hx_extension h) table data owner)))"

definition storage_get_paginated ::
  "host_env \<Rightarrow> host_api \<Rightarrow> string \<Rightarrow> page_request \<Rightarrow> (wasm_world, string \<times> nat) py" where
  "storage_get_paginated he h table q =
     guarded h ''storage.get_paginated''
       (bindP (liftE (require_owner_id h)) (\<lambda>owner.
        bindP (on_store (storage_get_paginated_rows (he_storage he) (hx_extension h) table q owner)) (\<lambda>(rows, n).
        ret (json_dumps (JList (map JObj rows)), n))))"

definition query_fields :: "page_request \<Rightarrow> string set" where
  "query_fields q =
     fst ` set (pq_filters q) \<union> set (pq_search_fields q) \<union> (if truthy (pq_sort_by q) then {the (pq_sort_by q)} else {})"

definition public_storage_paginated_filters ::
  "page_request \<Rightarrow> string \<Rightarrow> string list \<Rightarrow> string \<Rightarrow> exn + dict" where
  "public_storage_paginated_filters q source_id public_fields source_id_field =
     (if query_fields q - set public_fields - {source_id_field} \<noteq> {}
      then Inl (PermissionError ''Public storage query uses non-public fields'')
      else if field_of (pq_filters q) source_id_field \<notin> {JNull, JStr source_id}
      then Inl (PermissionError ''Public storage source filter does not match source_id.'')
      else Inr (dset (pq_filters q) source_id_field (JStr source_id)))"

definition storage_get_public_paginated ::
  "host_env \<Rightarrow> host_api \<Rightarrow> string \<Rightarrow> string \<Rightarrow> page_request \<Rightarrow> (wasm_world, string \<times> nat) py" where
  "storage_get_public_paginated he h table source_id q =
     guarded h ''storage.get_public_paginated''
       (bindP (liftE (public_storage_policy (policies_of h ''ext.storage.read_public'') table)) (\<lambda>policy.
        thenP (failIf (\<not> truthy (tp_source_id_field policy))
                 (PermissionError ''Public paginated storage reads require a source ID field policy.''))
        (bindP (liftE (public_storage_paginated_filters q source_id (tp_fields policy) (the (tp_source_id_field policy))))
          (\<lambda>filters.
         bindP (on_store (storage_get_public_paginated_rows (he_storage he) (hx_extension h) table q filters)) (\<lambda>(rows, n).
         ret (json_dumps (JList (map (\<lambda>r. JObj (public_part (tp_fields policy) r)) rows)), n))))))"

definition storage_delete :: "host_env \<Rightarrow> host_api \<Rightarrow> string \<Rightarrow> string \<Rightarrow> (wasm_world, unit) py" where
  "storage_delete he h table i =
     guarded h ''storage.delete''
       (bindP (liftE (require_owner_id h)) (\<lambda>owner.
        on_store (storage_delete_row (he_storage he) (hx_extension h) table i owner)))"

section \<open>Channels\<close>

definition websocket_publish :: "host_env \<Rightarrow> host_api \<Rightarrow> string \<Rightarrow> jval \<Rightarrow> (wasm_world, unit) py" where
  "websocket_publish he h chan data =
     guarded h ''websocket.publish''
       (bindP (liftE (scoped_websocket_item_id (hx_extension h) chan)) (\<lambda>_.
        bindP (liftE (max_messages_per_second (policies_of h ''websocket.publish''))) (\<lambda>n.
        on_hub (hub_publish (he_broken he) (he_monotonic he) (hx_extension h) chan (json_compact data) n))))"

section \<open>Invoices and wallets\<close>

definition extension_invoice ::
  "host_env \<Rightarrow> host_api \<Rightarrow> rat \<Rightarrow> string \<Rightarrow> string \<Rightarrow> dict \<Rightarrow> exn + create_invoice_data" where
  "extension_invoice he h amount currency memo extra =
     (if currency \<noteq> ''sat'' \<and> currency \<notin> set (allowed_currencies (he_currencies he)) then Inl ValidationError
      else if amount < 0 then Inl ValidationError
      else if length memo > 640 then Inl ValidationError
      else Inr \<lparr>ci_unit = currency, ci_internal = False, ci_amount = amount, ci_memo = Some memo,
                ci_description_hash = None, ci_unhashed_description = None, ci_payment_hash = None,
                ci_expiry = None, ci_extra = extra, ci_extension = Some (hx_extension h), ci_webhook = None,
                ci_lnurl_withdraw = None, ci_fiat_provider = None, ci_labels = [], ci_external_id = None\<rparr>)"

text \<open>\<open>CreateInvoiceResponse\<close>: payment hash, payment request and checking id.\<close>

definition wallet_invoice_answer :: "payment \<Rightarrow> string \<times> jval \<times> string" where
  "wallet_invoice_answer p = (p_payment_hash p, or_else (payment_request_attr p) (JStr (p_bolt11 p)), p_checking_id p)"

definition wallet_create_invoice ::
  "host_env \<Rightarrow> host_api \<Rightarrow> string \<Rightarrow> rat \<Rightarrow> string \<Rightarrow> string \<Rightarrow> dict \<Rightarrow> (wasm_world, string \<times> jval \<times> string) py" where
  "wallet_create_invoice he h wallet_id amount currency memo extra =
     guarded h ''wallet.create_invoice''
       (thenP (failIf (\<not> truthy (hx_user h))
                 (PermissionError ''Creating an invoice for this wallet requires an authenticated user context.''))
        (bindP (on_db (get_wallet (he_ev he) (he_cfg he) wallet_id (Some False))) (\<lambda>found.
         thenP (failIf (case found of None \<Rightarrow> True | Some w \<Rightarrow> Some (w_user w) \<noteq> hx_user h)
                  (PermissionError ''Not your wallet.''))
         (bindP (liftE (extension_invoice he h amount currency memo extra)) (\<lambda>d.
          bindP (on_db (create_payment_request (he_ev he) (he_cfg he) wallet_id d)) (\<lambda>p. ret (wallet_invoice_answer p)))))))"

fun public_invoice_row ::
  "storage_env \<Rightarrow> string \<Rightarrow> string \<Rightarrow> (string \<times> string) list \<Rightarrow> (store, (dict \<times> string) option) py" where
  "public_invoice_row se ext source_id [] = ret None"
| "public_invoice_row se ext source_id ((table, wallet_field) # sources) =
     bindP (storage_get_public_row se ext table source_id) (\<lambda>row. case row of
         Some (kv # d) \<Rightarrow> ret (Some (kv # d, wallet_field))
       | _ \<Rightarrow> public_invoice_row se ext source_id sources)"

definition wallet_create_invoice_public ::
  "host_env \<Rightarrow> host_api \<Rightarrow> string \<Rightarrow> rat \<Rightarrow> string \<Rightarrow> string \<Rightarrow> dict \<Rightarrow> (wasm_world, string \<times> jval \<times> string) py" where
  "wallet_create_invoice_public he h source_id amount currency memo extra =
     guarded h ''wallet.create_invoice_public''
       (bindP (liftE (public_invoice_wallet_sources (policies_of h ''wallet.create_invoice_public''))) (\<lambda>sources.
        bindP (on_store (public_invoice_row (he_storage he) (hx_extension h) source_id sources)) (\<lambda>found.
        case found of
          None \<Rightarrow> throw (PermissionError ''Public invoice source was not found.'')
        | Some (row, wallet_field) \<Rightarrow>
            (case text_of (field_of row wallet_field) of
               None \<Rightarrow> throw (PermissionError ''Public invoice source has no valid wallet.'')
             | Some wallet_id \<Rightarrow>
                 bindP (liftE (extension_invoice he h amount currency memo
                    (collect [(''tag'', JStr (hx_extension h)), (''source_id'', JStr source_id),
                              (''extra_'' @ hx_extension h, JObj extra)]))) (\<lambda>d.
                 bindP (on_db (create_payment_request (he_ev he) (he_cfg he) wallet_id d)) (\<lambda>p. ret (wallet_invoice_answer p)))))))"

definition wallet_list_user_wallets ::
  "host_env \<Rightarrow> host_api \<Rightarrow> (wasm_world, (string \<times> string \<times> string option) list) py" where
  "wallet_list_user_wallets he h =
     guarded h ''wallet.list_user_wallets''
       (thenP (failIf (\<not> truthy (hx_user h))
                 (PermissionError ''Listing user wallets requires an authenticated user context.''))
        (bindP (on_db (get_wallets (he_ev he) (he_cfg he) (the (hx_user h)) (Some False) None)) (\<lambda>ws.
         ret (map (\<lambda>w. (w_id w, w_name w, w_currency w)) ws))))"

record balance_answer =
  wb_id :: string
  wb_name :: string
  wb_currency :: "string option"
  wb_balance_msat :: int
  wb_balance_sat :: int
  wb_withdrawable_msat :: int
  wb_withdrawable_sat :: int
  wb_reserve_msat :: int
  wb_reserve_sat :: int
  wb_can_send :: bool

definition balance_answer_of :: "settings \<Rightarrow> wallet \<Rightarrow> balance_answer" where
  "balance_answer_of cfg w =
     (let withdrawable_msat = max (withdrawable_balance cfg w) 0;
          reserve_msat = max (w_balance_msat w - withdrawable_msat) 0
      in \<lparr>wb_id = w_id w, wb_name = w_name w, wb_currency = w_currency w, wb_balance_msat = w_balance_msat w,
          wb_balance_sat = WalletModel.wallet_balance w, wb_withdrawable_msat = withdrawable_msat,
          wb_withdrawable_sat = withdrawable_msat div 1000, wb_reserve_msat = reserve_msat,
          wb_reserve_sat = reserve_msat div 1000, wb_can_send = can_send_payments w\<rparr>)"

definition wallet_balance_read :: "host_env \<Rightarrow> host_api \<Rightarrow> string \<Rightarrow> (wasm_world, balance_answer) py" where
  "wallet_balance_read he h wallet_id =
     guarded h ''wallet.balance''
       (thenP (failIf (\<not> truthy (hx_user h))
                 (PermissionError ''Reading a wallet balance requires an authenticated user context.''))
        (bindP (on_db (get_wallet (he_ev he) (he_cfg he) wallet_id (Some False))) (\<lambda>found. case found of
           None \<Rightarrow> throw (PermissionError ''Reading this wallet balance is not allowed.'')
         | Some w \<Rightarrow>
             if Some (w_user w) \<noteq> hx_user h then throw (PermissionError ''Reading this wallet balance is not allowed.'')
             else ret (balance_answer_of (he_cfg he) w))))"

text \<open>
  Payments an extension makes: in the name of the user who called it, or in the background within a grant the owner of
  the wallet gave (\<open>background_payments.py\<close>, \<open>wallet_pay_invoice\<close> and \<open>wallet_pay_lnurl\<close> of \<open>host.py\<close>).
\<close>

section \<open>Grants for background payments\<close>

abbreviation "WALLET_PAY_INVOICE_BACKGROUND_PERMISSION \<equiv> ''wallet.pay_invoice_background''"

datatype destination_policy = OWN_WALLETS_ONLY | EXTERNAL_ALLOWED

fun destination_policy_value :: "destination_policy \<Rightarrow> string" where
  "destination_policy_value OWN_WALLETS_ONLY = ''own_wallets_only''"
| "destination_policy_value EXTERNAL_ALLOWED = ''external_allowed''"

record background_grant =
  bg_id :: string
  bg_wallet_id :: string
  bg_enabled :: bool
  bg_max_amount :: int
  bg_destination :: destination_policy

text \<open>\<open>str\<close>, \<open>bool\<close> and \<open>int\<close> fields accept what converts.\<close>

definition str_value :: "jval \<Rightarrow> string option" where
  "str_value v = (case v of
      JStr s \<Rightarrow> Some s | JBool b \<Rightarrow> Some (if b then ''True'' else ''False'') | JInt i \<Rightarrow> Some (str_int i)
    | JFloat r \<Rightarrow> Some (float_repr r) | _ \<Rightarrow> None)"

definition bool_value :: "jval \<Rightarrow> bool option" where
  "bool_value v = (case v of
      JBool b \<Rightarrow> Some b
    | JInt i \<Rightarrow> (if i = 1 then Some True else if i = 0 then Some False else None)
    | JFloat r \<Rightarrow> (if r = 1 then Some True else if r = 0 then Some False else None)
    | JStr s \<Rightarrow>
        if lower s \<in> {''1'', ''on'', ''t'', ''true'', ''y'', ''yes''} then Some True
        else if lower s \<in> {''0'', ''off'', ''f'', ''false'', ''n'', ''no''} then Some False else None
    | _ \<Rightarrow> None)"

definition int_value :: "jval \<Rightarrow> int option" where
  "int_value v = (case v of
      JInt i \<Rightarrow> Some i | JBool b \<Rightarrow> Some (if b then 1 else 0) | JFloat r \<Rightarrow> Some (py_trunc r)
    | JStr s \<Rightarrow> int_of_str s | _ \<Rightarrow> None)"

definition sized :: "nat \<Rightarrow> nat \<Rightarrow> string option \<Rightarrow> string option" where
  "sized low high s = (case s of None \<Rightarrow> None | Some x \<Rightarrow> if low \<le> length x \<and> length x \<le> high then Some x else None)"

definition destination_policy_of :: "jval \<Rightarrow> destination_policy option" where
  "destination_policy_of v =
     (if v = JStr ''own_wallets_only'' then Some OWN_WALLETS_ONLY
      else if v = JStr ''external_allowed'' then Some EXTERNAL_ALLOWED else None)"

text \<open>\<open>ExtensionBackgroundPaymentGrant.parse_obj\<close>; the id must be a string as it is.\<close>

definition parse_background_grant :: "dict \<Rightarrow> background_grant option" where
  "parse_background_grant d =
     (case (sized 1 128 (case field_of d ''id'' of JStr s \<Rightarrow> Some s | _ \<Rightarrow> None), sized 1 128 (str_value (field_of d ''wallet_id'')),
            (case dget d ''enabled'' of None \<Rightarrow> Some True | Some v \<Rightarrow> bool_value v),
            int_value (field_of d ''max_amount''), destination_policy_of (field_of d ''destination_policy'')) of
        (Some i, Some w, Some e, Some n, Some p) \<Rightarrow>
          if n > 0 then Some \<lparr>bg_id = i, bg_wallet_id = w, bg_enabled = e, bg_max_amount = n, bg_destination = p\<rparr> else None
      | _ \<Rightarrow> None)"

fun find_wallet_grant :: "jval list \<Rightarrow> string \<Rightarrow> background_grant option" where
  "find_wallet_grant [] wallet_id = None"
| "find_wallet_grant (g # gs) wallet_id =
     (case (case g of JObj d \<Rightarrow> parse_background_grant d | _ \<Rightarrow> None) of
        Some b \<Rightarrow> if bg_wallet_id b = wallet_id then Some b else find_wallet_grant gs wallet_id
      | None \<Rightarrow> find_wallet_grant gs wallet_id)"

definition background_payment_grant :: "string \<Rightarrow> wallet \<Rightarrow> int \<Rightarrow> (world, background_grant) py" where
  "background_payment_grant ext w amount_msat =
     thenP (failIf (is_lightning_shared_wallet w) (PermissionError ''shared wallet''))
     (thenP (failIf (\<not> can_send_payments w) (PermissionError ''wallet cannot send payments''))
     (bindP (gets (get_user_extension (w_user w) ext)) (\<lambda>ux.
      case ux of
        None \<Rightarrow> throw (PermissionError ''extension disabled for user'')
      | Some u \<Rightarrow>
          thenP (failIf (\<not> ux_active u) (PermissionError ''extension disabled for user''))
          (case dget (ux_permissions u) WALLET_PAY_INVOICE_BACKGROUND_PERMISSION of
             Some (JList grants) \<Rightarrow>
               (case find_wallet_grant grants (w_id w) of
                  None \<Rightarrow> throw (PermissionError ''missing wallet background grant'')
                | Some g \<Rightarrow>
                    thenP (failIf (\<not> bg_enabled g) (PermissionError ''background grant disabled''))
                    (thenP (failIf (amount_msat > bg_max_amount g * 1000) (PermissionError ''payment exceeds max amount''))
                      (ret g)))
           | _ \<Rightarrow> throw (PermissionError ''missing background payment grant'')))))"

definition decode_bolt11 :: "env \<Rightarrow> string \<Rightarrow> exn + decoded_invoice" where
  "decode_bolt11 ev pr = (case e_decode ev pr of None \<Rightarrow> Inl (OtherError ''Bolt11Exception'') | Some i \<Rightarrow> Inr i)"

definition check_destination_policy ::
  "env \<Rightarrow> settings \<Rightarrow> wallet \<Rightarrow> background_grant \<Rightarrow> string \<Rightarrow> (world, unit) py" where
  "check_destination_policy ev cfg w g payment_request =
     (if bg_destination g = EXTERNAL_ALLOWED then ret ()
      else bindP (liftE (decode_bolt11 ev payment_request)) (\<lambda>invoice.
           bindP (gets (check_internal (di_payment_hash invoice))) (\<lambda>internal. case internal of
             None \<Rightarrow> throw (PermissionError ''external destination not allowed'')
           | Some p \<Rightarrow>
               bindP (get_wallet ev cfg (p_wallet_id p) (Some False)) (\<lambda>destination.
                 failIf (case destination of None \<Rightarrow> True | Some d \<Rightarrow> w_user d \<noteq> w_user w)
                   (PermissionError ''destination wallet is not owned by user'')))))"

definition background_payment_extra ::
  "env \<Rightarrow> settings \<Rightarrow> string \<Rightarrow> wallet \<Rightarrow> string \<Rightarrow> int \<Rightarrow> (world, dict) py" where
  "background_payment_extra ev cfg ext w payment_request amount_msat =
     bindP (background_payment_grant ext w amount_msat) (\<lambda>g.
     thenP (check_destination_policy ev cfg w g payment_request)
       (ret [(''tag'', JStr ext), (''extension'', JStr ext), (''background_payment'', JBool True),
             (''background_permission'', JStr WALLET_PAY_INVOICE_BACKGROUND_PERMISSION),
             (''background_wallet_id'', JStr (source_wallet_id w)),
             (''background_destination_policy'', JStr (destination_policy_value (bg_destination g)))]))"

definition invoice_amount_msat :: "env \<Rightarrow> string \<Rightarrow> exn + int" where
  "invoice_amount_msat ev payment_request = (case decode_bolt11 ev payment_request of
      Inl e \<Rightarrow> Inl e
    | Inr i \<Rightarrow>
        (let amount_msat = (case di_amount_msat i of None \<Rightarrow> 0 | Some a \<Rightarrow> a) in
         if amount_msat \<le> 0 then Inl (PermissionError ''Background payments require an invoice amount.'')
         else Inr amount_msat))"

section \<open>Answers\<close>

record pay_reply =
  pw_ok :: bool
  pw_error :: "string option"
  pw_checking_id :: "string option"
  pw_payment_hash :: "string option"
  pw_status :: "payment_state option"
  pw_amount_msat :: int
  pw_fee_msat :: int
  pw_request :: "string option"

definition refused_reply :: "string \<Rightarrow> pay_reply" where
  "refused_reply msg =
     \<lparr>pw_ok = False, pw_error = Some msg, pw_checking_id = None, pw_payment_hash = None, pw_status = None,
      pw_amount_msat = 0, pw_fee_msat = 0, pw_request = None\<rparr>"

definition fetched_reply :: "string \<Rightarrow> pay_reply" where
  "fetched_reply pr =
     \<lparr>pw_ok = True, pw_error = None, pw_checking_id = None, pw_payment_hash = None, pw_status = None,
      pw_amount_msat = 0, pw_fee_msat = 0, pw_request = Some pr\<rparr>"

definition pay_invoice_response :: "payment \<Rightarrow> pay_reply" where
  "pay_invoice_response p =
     \<lparr>pw_ok = True, pw_error = None, pw_checking_id = Some (p_checking_id p), pw_payment_hash = Some (p_payment_hash p),
      pw_status = Some (p_status p), pw_amount_msat = \<bar>p_amount p\<bar>, pw_fee_msat = \<bar>p_fee p\<bar>, pw_request = None\<rparr>"

text \<open>The exceptions both methods turn into an answer.\<close>

fun payment_refused :: "bool \<Rightarrow> exn \<Rightarrow> bool" where
  "payment_refused with_lnurl (PaymentError m s) = True"
| "payment_refused with_lnurl (PermissionError m) = True"
| "payment_refused with_lnurl (ValueError m) = True"
| "payment_refused with_lnurl (LnurlError c m) = (with_lnurl \<and> c \<in> {''LnurlResponseException'', ''LnAddressError''})"
| "payment_refused with_lnurl e = False"

definition answering_refusals :: "bool \<Rightarrow> ('s, pay_reply) py \<Rightarrow> ('s, pay_reply) py" where
  "answering_refusals with_lnurl m =
     tryP m (\<lambda>e. if payment_refused with_lnurl e then ret (refused_reply (exn_message e)) else throw e)"

definition merge_dict :: "dict \<Rightarrow> dict \<Rightarrow> dict" where
  "merge_dict a b = foldl (\<lambda>d (k, v). dset d k v) a b"

section \<open>Paying an invoice\<close>

definition pay_for_user ::
  "host_env \<Rightarrow> host_api \<Rightarrow> wallet \<Rightarrow> string \<Rightarrow> string \<Rightarrow> int option \<Rightarrow> string \<Rightarrow> dict \<Rightarrow> (wasm_world, payment) py" where
  "pay_for_user he h w wallet_id payment_request max_sat description extra =
     thenP (require_permission h (Some ''wallet.pay_invoice''))
     (thenP (failIf (Some (w_user w) \<noteq> hx_user h) (PermissionError ''Paying invoices from this wallet is not allowed.''))
      (on_db (pay_invoice (he_ev he) (he_cfg he) wallet_id payment_request max_sat
         (merge_dict [(''tag'', JStr (hx_extension h))] extra) description (hx_extension h) [] None)))"

definition pay_in_background ::
  "host_env \<Rightarrow> host_api \<Rightarrow> wallet \<Rightarrow> string \<Rightarrow> string \<Rightarrow> int option \<Rightarrow> string \<Rightarrow> dict \<Rightarrow> (wasm_world, payment) py" where
  "pay_in_background he h w wallet_id payment_request max_sat description extra =
     thenP (require_permission h (Some WALLET_PAY_INVOICE_BACKGROUND_PERMISSION))
     (bindP (liftE (invoice_amount_msat (he_ev he) payment_request)) (\<lambda>amount_msat.
      bindP (on_db (background_payment_extra (he_ev he) (he_cfg he) (hx_extension h) w payment_request amount_msat)) (\<lambda>grant_extra.
      on_db (pay_invoice (he_ev he) (he_cfg he) wallet_id payment_request max_sat
         (merge_dict extra grant_extra) description (hx_extension h) [] None))))"

definition wallet_pay_invoice ::
  "host_env \<Rightarrow> host_api \<Rightarrow> string \<Rightarrow> string \<Rightarrow> int option \<Rightarrow> string \<Rightarrow> dict \<Rightarrow> (wasm_world, pay_reply) py" where
  "wallet_pay_invoice he h wallet_id payment_request max_sat description extra =
     guarded h ''wallet.pay_invoice''
       (bindP (on_db (get_wallet (he_ev he) (he_cfg he) wallet_id (Some False))) (\<lambda>found. case found of
          None \<Rightarrow> throw (PermissionError ''Paying invoices from this wallet is not allowed.'')
        | Some w \<Rightarrow>
            answering_refusals False
              (bindP ((if truthy (hx_user h) then pay_for_user else pay_in_background)
                        he h w wallet_id payment_request max_sat description extra) (\<lambda>p.
               ret (pay_invoice_response p)))))"

section \<open>Paying a pay link\<close>

text \<open>\<open>core/wasm_ext/api/lnurl.py\<close>; which strings are codes and addresses is the \<open>lnurl\<close> package's.\<close>

definition normalize_lnurl :: "string \<Rightarrow> exn + string" where
  "normalize_lnurl v =
     (let s = strip v;
          t = (if startswith (lower s) ''lightning:'' then drop (length ''lightning:'') s else s);
          n = (if CHR 0x40 \<in> set t then lower t else t)
      in if n = [] then Inl (ValueError ''LNURL is required.'') else Inr n)"

definition lnurl_for_core :: "lnurl_lib \<Rightarrow> string \<Rightarrow> exn + string" where
  "lnurl_for_core L v = (case normalize_lnurl v of
      Inl e \<Rightarrow> Inl e
    | Inr n \<Rightarrow>
        if CHR 0x40 \<in> set n then (if ll_address L n = None then Inl (LnurlError ''LnAddressError'' ''Invalid Lightning Address.'') else Inr n)
        else (if ll_lnurl L n = None then Inl InvalidLnurl else Inr n))"

definition lnurl_payment_amount_for_core :: "rat \<Rightarrow> exn + int" where
  "lnurl_payment_amount_for_core amount =
     (if amount \<le> 0 then Inl (ValueError ''Amount must be greater than zero.'') else Inr (py_round (fmul amount 1000)))"

definition lnurl_payment_unit_for_core :: "string \<Rightarrow> exn + string" where
  "lnurl_payment_unit_for_core currency =
     (let u = lower (strip currency) in
      if u = [] then Inl (ValueError ''Currency is required.'')
      else Inr (if u \<in> {''sat'', ''sats''} then ''sat'' else upper u))"

record pay_lnurl_request =
  lp_wallet_id :: string
  lp_lnurl :: string
  lp_amount :: rat
  lp_currency :: string
  lp_comment :: "string option"
  lp_description :: string
  lp_max_sat :: "int option"
  lp_extra :: dict
  lp_fetch_only :: bool

definition lnurl_request_extra :: "string \<Rightarrow> pay_lnurl_request \<Rightarrow> string \<Rightarrow> pay_action \<Rightarrow> dict" where
  "lnurl_request_extra ext q currency action =
     merge_dict (merge_dict [(''tag'', JStr ext)] (lp_extra q))
       ((case pa_success_action action of None \<Rightarrow> [] | Some a \<Rightarrow> [(''success_action'', JStr a)])
        @ (if truthy (lp_comment q) then [(''comment'', JStr (the (lp_comment q)))] else [])
        @ (if currency = ''sat'' then []
           else [(''fiat_currency'', JStr currency), (''fiat_amount'', JStr (float_repr (lp_amount q)))]))"

definition lnurl_permission :: "host_api \<Rightarrow> wallet \<Rightarrow> (wasm_world, unit) py" where
  "lnurl_permission h w =
     (if truthy (hx_user h) then
        thenP (require_permission h (Some ''wallet.pay_invoice''))
          (failIf (Some (w_user w) \<noteq> hx_user h) (PermissionError ''Paying from this wallet is not allowed.''))
      else require_permission h (Some WALLET_PAY_INVOICE_BACKGROUND_PERMISSION))"

definition fetch_for_core ::
  "host_env \<Rightarrow> pay_lnurl_request \<Rightarrow> string \<Rightarrow> (wasm_world, pay_response \<times> pay_action) py" where
  "fetch_for_core he q currency =
     bindP (liftE (lnurl_for_core (he_lnurl he) (lp_lnurl q))) (\<lambda>code.
     bindP (liftE (lnurl_payment_amount_for_core (lp_amount q))) (\<lambda>amount.
     on_lnurl (fetch_lnurl_pay_request (he_ev he) (he_lnurl he)
       \<lparr>cl_res = None, cl_lnurl = Some code, cl_amount = amount, cl_comment = lp_comment q, cl_unit = Some currency\<rparr> None)))"

definition background_lnurl_extra :: "host_env \<Rightarrow> host_api \<Rightarrow> wallet \<Rightarrow> string \<Rightarrow> dict \<Rightarrow> (wasm_world, dict) py" where
  "background_lnurl_extra he h w pr extra =
     (if truthy (hx_user h) then ret extra
      else bindP (liftE (invoice_amount_msat (he_ev he) pr)) (\<lambda>amount_msat.
           bindP (on_db (background_payment_extra (he_ev he) (he_cfg he) (hx_extension h) w pr amount_msat)) (\<lambda>grant_extra.
           ret (merge_dict extra grant_extra))))"

definition wallet_pay_lnurl :: "host_env \<Rightarrow> host_api \<Rightarrow> pay_lnurl_request \<Rightarrow> (wasm_world, pay_reply) py" where
  "wallet_pay_lnurl he h q =
     guarded h ''wallet.pay_lnurl''
       (bindP (on_db (get_wallet (he_ev he) (he_cfg he) (lp_wallet_id q) (Some False))) (\<lambda>found. case found of
          None \<Rightarrow> throw (PermissionError ''Paying from this wallet is not allowed.'')
        | Some w \<Rightarrow>
            answering_refusals True
              (thenP (lnurl_permission h w)
              (bindP (liftE (lnurl_payment_unit_for_core (lp_currency q))) (\<lambda>currency.
               bindP (fetch_for_core he q currency) (\<lambda>(res, action).
               bindP (background_lnurl_extra he h w (pa_pr action)
                        (lnurl_request_extra (hx_extension h) q currency action)) (\<lambda>extra.
               if lp_fetch_only q then ret (fetched_reply (pa_pr action))
               else bindP (on_db (pay_invoice (he_ev he) (he_cfg he) (lp_wallet_id q) (pa_pr action) (lp_max_sat q) extra
                              (if lp_description q = [] then py_text res else lp_description q) (hx_extension h) [] None))
                      (\<lambda>p. ret (pay_invoice_response p)))))))))"

end
