(* ===== verification/WasmRuntime.thy ===== *)
theory WasmRuntime
  imports WasmHost
begin

text \<open>
  The remaining functions of the host: requests to servers and to other extensions, the system functions
  (\<open>core/wasm_ext/api/host.py\<close>), and the helpers of \<open>core/wasm_ext/api/utils.py\<close> on currencies, LNURL and invoices.
\<close>

section \<open>Requests\<close>

definition host_http_request :: "host_env \<Rightarrow> host_api \<Rightarrow> http_request \<Rightarrow> (wasm_world, http_answer) py" where
  "host_http_request he h q =
     guarded h ''http.request''
       (send_extension_http_request (he_web he) (policy_list (policies_of h ''http.request'')) q
          (map_of (hx_limits h) ''wasm_runtime_max_http_response_bytes''))"

definition host_extension_api_request :: "host_env \<Rightarrow> host_api \<Rightarrow> extension_request \<Rightarrow> (wasm_world, http_answer) py" where
  "host_extension_api_request he h q =
     guarded h ''extension.api.request''
       (send_extension_api_request (he_web he) (policy_list (policies_of h ''extension.api.request''))
          (hx_user h) (hx_token h) q (map_of (hx_limits h) ''wasm_runtime_max_http_response_bytes''))"

section \<open>System\<close>

definition system_random_id :: "host_env \<Rightarrow> host_api \<Rightarrow> string \<Rightarrow> (wasm_world, string) py" where
  "system_random_id he h prefix =
     guarded h ''system.random_id''
       (gets (\<lambda>s. prefix @ ''_'' @ map (\<lambda>c. if c = CHR ''-'' then CHR ''_'' else c) (he_token he s)))"

definition system_now :: "host_env \<Rightarrow> host_api \<Rightarrow> (wasm_world, int) py" where
  "system_now he h = guarded h ''system.now'' (ret (e_now (he_ev he)))"

definition system_log :: "host_api \<Rightarrow> string \<Rightarrow> string \<Rightarrow> (wasm_world, unit) py" where
  "system_log h level message =
     guarded h ''system.log''
       (modify (\<lambda>s. s\<lparr>wx_logged := wx_logged s @ [(level, ''extension:'' @ hx_extension h @ '' '' @ message)]\<rparr>))"

section \<open>Currencies\<close>

definition utils_currencies_list :: "host_env \<Rightarrow> host_api \<Rightarrow> (wasm_world, string list) py" where
  "utils_currencies_list he h = guarded h ''utils.currencies.list'' (ret (allowed_currencies (he_currencies he)))"

definition utils_currencies_rate :: "host_env \<Rightarrow> host_api \<Rightarrow> string \<Rightarrow> (wasm_world, rat \<times> rat) py" where
  "utils_currencies_rate he h currency =
     guarded h ''utils.currencies.rate''
       (bindP (liftE (e_btc_price (he_ev he) currency)) (\<lambda>price.
        ret (if price > 0 then fdiv 100000000 price else 0, price)))"

fun convert_each :: "env \<Rightarrow> int \<Rightarrow> string list \<Rightarrow> exn + (string \<times> rat) list" where
  "convert_each ev sats [] = Inr []"
| "convert_each ev sats (c # cs) =
     (let currency = strip c in
      if currency = [] then convert_each ev sats cs
      else (case satoshis_amount_as_fiat ev sats currency of
          Inl e \<Rightarrow> Inl e
        | Inr v \<Rightarrow> (case convert_each ev sats cs of Inl e \<Rightarrow> Inl e | Inr vs \<Rightarrow> Inr ((upper currency, v) # vs))))"

definition utils_currencies_convert ::
  "host_env \<Rightarrow> host_api \<Rightarrow> rat \<Rightarrow> string \<Rightarrow> string \<Rightarrow> (wasm_world, (string \<times> rat) list) py" where
  "utils_currencies_convert he h amount from_currency to_currencies =
     guarded h ''utils.currencies.convert''
       (if from_currency = ''sats'' \<or> from_currency = ''sat'' then
          (let sats = py_trunc amount in
           bindP (liftE (convert_each (he_ev he) sats (split_on CHR '','' to_currencies))) (\<lambda>amounts.
           ret ((''BTC'', idiv_float sats 100000000) # (''sats'', to_float sats) # amounts)))
        else
          bindP (liftE (fiat_amount_as_satoshis (he_ev he) amount from_currency)) (\<lambda>sats.
          ret [(upper from_currency, amount), (''sats'', to_float sats), (''BTC'', idiv_float sats 100000000)]))"

definition utils_fiat_to_sats :: "host_env \<Rightarrow> host_api \<Rightarrow> rat \<Rightarrow> string \<Rightarrow> (wasm_world, int) py" where
  "utils_fiat_to_sats he h amount currency =
     guarded h ''utils.currencies.fiat_to_sats'' (liftE (fiat_amount_as_satoshis (he_ev he) amount currency))"

definition utils_sats_to_fiat :: "host_env \<Rightarrow> host_api \<Rightarrow> rat \<Rightarrow> string \<Rightarrow> (wasm_world, rat) py" where
  "utils_sats_to_fiat he h amount currency =
     guarded h ''utils.currencies.sats_to_fiat''
       (bindP (liftE (get_fiat_rate_satoshis (he_ev he) currency)) (\<lambda>rate.
        if rate > 0 then ret (fdiv amount rate)
        else throw (ValueError (''Could not get exchange rate for '' @ currency @ ''.''))))"

definition utils_server_health :: "host_env \<Rightarrow> host_api \<Rightarrow> (wasm_world, int \<times> string) py" where
  "utils_server_health he h = guarded h ''utils.server.health'' (ret (e_now (he_ev he), he_up_time he))"

section \<open>LNURL and invoices\<close>

record resolved_lnurl =
  rl_lnurl :: string
  rl_description :: string
  rl_min_msat :: int
  rl_max_msat :: int
  rl_comment_allowed :: int

definition utils_lnurl_resolve :: "host_env \<Rightarrow> host_api \<Rightarrow> string \<Rightarrow> (wasm_world, resolved_lnurl) py" where
  "utils_lnurl_resolve he h code =
     guarded h ''utils.lnurl.resolve''
       (bindP (liftE (normalize_lnurl code)) (\<lambda>n.
        bindP (on_lnurl (lnurl_handle (he_lnurl he) None None n)) (\<lambda>r. case r of
          LError reason \<Rightarrow> throw (LnurlResponseException reason)
        | LPay p \<Rightarrow> ret \<lparr>rl_lnurl = n, rl_description = py_text p, rl_min_msat = py_min p, rl_max_msat = py_max p,
                         rl_comment_allowed = py_comment p\<rparr>
        | _ \<Rightarrow> throw (LnurlResponseException ''Invalid LNURL response. Expected LnurlPayResponse.''))))"

definition utils_invoice :: "host_env \<Rightarrow> host_api \<Rightarrow> string \<Rightarrow> string \<Rightarrow> (decoded_invoice \<Rightarrow> 'a) \<Rightarrow> (wasm_world, 'a) py" where
  "utils_invoice he h method_id invoice f =
     guarded h method_id (bindP (liftE (decode_bolt11 (he_ev he) invoice)) (\<lambda>i. ret (f i)))"

text \<open>The answer of \<open>decode_invoice\<close>: payment hash, amount, end of validity and memo.\<close>

definition decoded_invoice_response ::
  "decoded_invoice \<Rightarrow> string option \<times> int option \<times> int option \<times> string option" where
  "decoded_invoice_response i =
     (if di_payment_hash i = [] then None else Some (di_payment_hash i),
      di_amount_msat i, di_expiry_date i, di_description i)"

definition utils_decode_invoice ::
  "host_env \<Rightarrow> host_api \<Rightarrow> string \<Rightarrow> (wasm_world, string option \<times> int option \<times> int option \<times> string option) py" where
  "utils_decode_invoice he h invoice =
     utils_invoice he h ''utils.lightning.decode_invoice'' invoice decoded_invoice_response"

definition utils_validate_invoice :: "host_env \<Rightarrow> host_api \<Rightarrow> string \<Rightarrow> (wasm_world, bool) py" where
  "utils_validate_invoice he h invoice =
     guarded h ''utils.lightning.validate_invoice''
       (ret (case decode_bolt11 (he_ev he) invoice of Inl e \<Rightarrow> False | Inr i \<Rightarrow> True))"

definition utils_invoice_payment_hash :: "host_env \<Rightarrow> host_api \<Rightarrow> string \<Rightarrow> (wasm_world, string) py" where
  "utils_invoice_payment_hash he h invoice =
     utils_invoice he h ''utils.lightning.invoice_payment_hash'' invoice di_payment_hash"

definition utils_invoice_amount_msat :: "host_env \<Rightarrow> host_api \<Rightarrow> string \<Rightarrow> (wasm_world, int option) py" where
  "utils_invoice_amount_msat he h invoice =
     utils_invoice he h ''utils.lightning.invoice_amount_msat'' invoice di_amount_msat"

definition utils_invoice_expiry :: "host_env \<Rightarrow> host_api \<Rightarrow> string \<Rightarrow> (wasm_world, int option) py" where
  "utils_invoice_expiry he h invoice =
     utils_invoice he h ''utils.lightning.invoice_expiry'' invoice di_expiry_date"

definition utils_invoice_memo :: "host_env \<Rightarrow> host_api \<Rightarrow> string \<Rightarrow> (wasm_world, string option) py" where
  "utils_invoice_memo he h invoice =
     utils_invoice he h ''utils.lightning.invoice_memo'' invoice di_description"

definition utils_verify_preimage :: "host_env \<Rightarrow> host_api \<Rightarrow> string \<Rightarrow> string \<Rightarrow> (wasm_world, bool) py" where
  "utils_verify_preimage he h preimage payment_hash =
     guarded h ''utils.lightning.verify_preimage'' (liftE (verify_preimage (he_ev he) preimage payment_hash))"

definition utils_random_secret_and_hash :: "host_env \<Rightarrow> host_api \<Rightarrow> nat \<Rightarrow> (wasm_world, string \<times> string) py" where
  "utils_random_secret_and_hash he h n =
     guarded h ''utils.lightning.random_secret_and_hash''
       (ret (random_secret_and_hash (he_random he) (he_sha256 he) n))"

text \<open>
  A call of the guest into the host: the request models of \<open>core/wasm_ext/api/models.py\<close>, and \<open>ExtensionAPIHost.invoke\<close>
  of \<open>core/wasm_ext/api/runtime.py\<close>, which counts the call, reads the request, runs the method behind its guard and makes
  the answer.
\<close>

section \<open>Names\<close>

text \<open>\<open>_to_snake\<close> and \<open>_snake_to_camel\<close>; the pattern \<open>([a-z0-9])([A-Z])\<close> matches two characters at a time.\<close>

definition is_upper :: "char \<Rightarrow> bool" where
  "is_upper c \<longleftrightarrow> CHR ''A'' \<le> c \<and> c \<le> CHR ''Z''"

fun split_words :: "string \<Rightarrow> string" where
  "split_words (a # b # s) =
     (if lower_alnum a \<and> is_upper b then a # CHR ''_'' # b # split_words s else a # split_words (b # s))"
| "split_words s = s"

definition to_snake :: "string \<Rightarrow> string" where
  "to_snake v = lower (split_words (map (\<lambda>c. if c = CHR ''-'' then CHR ''_'' else c) v))"

definition capitalize :: "string \<Rightarrow> string" where
  "capitalize s = (case s of [] \<Rightarrow> [] | c # cs \<Rightarrow> upper [c] @ lower cs)"

definition snake_to_camel :: "string \<Rightarrow> string" where
  "snake_to_camel v = (case split_on CHR ''_'' v of [] \<Rightarrow> [] | h # t \<Rightarrow> h @ concat (map capitalize t))"

definition kebab :: "string \<Rightarrow> string" where
  "kebab s = map (\<lambda>c. if c = CHR ''_'' then CHR ''-'' else c) s"

text \<open>\<open>_index_methods\<close>: the names a method answers to.\<close>

definition method_names :: "api_method \<Rightarrow> string list" where
  "method_names m =
     [am_id m, am_interface m @ '':'' @ am_host_name m, am_host_name m, snake_to_camel (am_host_name m), kebab (am_host_name m)]"

definition require_method :: "string \<Rightarrow> exn + api_method" where
  "require_method host_name = (case List.find (\<lambda>m. host_name \<in> set (method_names m)) list_extension_api_methods of
      None \<Rightarrow> Inl KeyError | Some m \<Rightarrow> Inr m)"

section \<open>Fields of the request models\<close>

definition valid :: "'a option \<Rightarrow> exn + 'a" where
  "valid x = (case x of None \<Rightarrow> Inl ValidationError | Some y \<Rightarrow> Inr y)"

definition text_req :: "dict \<Rightarrow> string \<Rightarrow> nat \<Rightarrow> nat \<Rightarrow> exn + string" where
  "text_req d k low high = valid (sized low high (Option.bind (dget d k) str_value))"

definition text_dflt :: "dict \<Rightarrow> string \<Rightarrow> string \<Rightarrow> nat \<Rightarrow> nat \<Rightarrow> exn + string" where
  "text_dflt d k dflt low high = (case dget d k of None \<Rightarrow> Inr dflt | Some v \<Rightarrow> valid (sized low high (str_value v)))"

definition text_optional :: "dict \<Rightarrow> string \<Rightarrow> nat \<Rightarrow> nat \<Rightarrow> exn + string option" where
  "text_optional d k low high = (case field_of d k of
      JNull \<Rightarrow> Inr None | v \<Rightarrow> map_sum id Some (valid (sized low high (str_value v))))"

definition float_value :: "jval \<Rightarrow> rat option" where
  "float_value v = (case float_of v of Inl e \<Rightarrow> None | Inr r \<Rightarrow> Some r)"

definition positive_amount :: "dict \<Rightarrow> exn + rat" where
  "positive_amount d = valid (case float_value (field_of d ''amount'') of
      None \<Rightarrow> None | Some r \<Rightarrow> if r > 0 then Some r else None)"

definition int_between :: "dict \<Rightarrow> string \<Rightarrow> int \<Rightarrow> int \<Rightarrow> int option \<Rightarrow> exn + int" where
  "int_between d k dflt low high = (case dget d k of
      None \<Rightarrow> Inr dflt
    | Some v \<Rightarrow> valid (case int_value v of
          None \<Rightarrow> None
        | Some i \<Rightarrow> if low \<le> i \<and> (case high of None \<Rightarrow> True | Some h \<Rightarrow> i \<le> h) then Some i else None))"

definition positive_optional :: "dict \<Rightarrow> string \<Rightarrow> exn + int option" where
  "positive_optional d k = (case field_of d k of
      JNull \<Rightarrow> Inr None
    | v \<Rightarrow> valid (case int_value v of None \<Rightarrow> None | Some i \<Rightarrow> if i > 0 then Some (Some i) else None))"

definition bool_dflt :: "dict \<Rightarrow> string \<Rightarrow> bool \<Rightarrow> exn + bool" where
  "bool_dflt d k dflt = (case dget d k of None \<Rightarrow> Inr dflt | Some v \<Rightarrow> valid (bool_value v))"

text \<open>\<open>dict[str, Any]\<close> and \<open>dict[str, str]\<close>, empty when missing; \<open>list[str]\<close>.\<close>

definition read_items :: "(jval \<Rightarrow> jval option) \<Rightarrow> (jval \<times> jval) list \<Rightarrow> dict option" where
  "read_items f ps =
     map_option collect (those (map (\<lambda>(k, v). case (str_value k, f v) of
        (Some k', Some v') \<Rightarrow> Some (k', v') | _ \<Rightarrow> None) ps))"

definition dict_dflt :: "(jval \<Rightarrow> jval option) \<Rightarrow> dict \<Rightarrow> string \<Rightarrow> exn + dict" where
  "dict_dflt f d k = (case dget d k of
      None \<Rightarrow> Inr [] | Some v \<Rightarrow> valid (Option.bind (dict_of v) (read_items f)))"

definition texts_dflt :: "dict \<Rightarrow> string \<Rightarrow> exn + string list" where
  "texts_dflt d k = (case dget d k of
      None \<Rightarrow> Inr [] | Some (JList l) \<Rightarrow> valid (those (map str_value l)) | Some v \<Rightarrow> Inl ValidationError)"

text \<open>A field given as JSON text under another name.\<close>

definition from_json :: "(string \<Rightarrow> jval option) \<Rightarrow> string \<Rightarrow> string \<Rightarrow> dict \<Rightarrow> exn + dict" where
  "from_json js k k_json d =
     (if field_of d k_json = JNull \<or> dget d k \<noteq> None then Inr d
      else valid (case field_of d k_json of JStr s \<Rightarrow> map_option (dset d k) (js s) | _ \<Rightarrow> None))"

definition http_verbs :: "string list" where
  "http_verbs = [''DELETE'', ''GET'', ''HEAD'', ''PATCH'', ''POST'', ''PUT'']"

definition verb_field :: "dict \<Rightarrow> exn + string" where
  "verb_field d = (case dget d ''method'' of
      None \<Rightarrow> Inr ''GET''
    | Some (JStr s) \<Rightarrow> if upper s \<in> set http_verbs then Inr (upper s) else Inl ValidationError
    | Some v \<Rightarrow> Inl ValidationError)"

section \<open>The request models\<close>

definition table_and_id :: "dict \<Rightarrow> exn + string \<times> string" where
  "table_and_id d =
     and_then (text_req d ''table'' 1 128) (\<lambda>table. and_then (text_req d ''id'' 1 512) (\<lambda>i. Inr (table, i)))"

definition storage_set_request :: "(string \<Rightarrow> jval option) \<Rightarrow> dict \<Rightarrow> exn + string \<times> dict" where
  "storage_set_request js d0 =
     and_then (from_json js ''data'' ''data_json'' d0) (\<lambda>d.
     and_then (text_req d ''table'' 1 128) (\<lambda>table.
     and_then (dict_dflt Some d ''data'') (\<lambda>data. Inr (table, data))))"

definition storage_append_public_request :: "(string \<Rightarrow> jval option) \<Rightarrow> dict \<Rightarrow> exn + string \<times> string \<times> dict" where
  "storage_append_public_request js d0 =
     and_then (from_json js ''data'' ''data_json'' d0) (\<lambda>d.
     and_then (text_req d ''table'' 1 128) (\<lambda>table.
     and_then (text_req d ''source_id'' 1 512) (\<lambda>source_id.
     and_then (dict_dflt Some d ''data'') (\<lambda>data. Inr (table, source_id, data)))))"

definition storage_paginated_request :: "(string \<Rightarrow> jval option) \<Rightarrow> dict \<Rightarrow> exn + string \<times> page_request" where
  "storage_paginated_request js d0 =
     and_then (and_then (from_json js ''filters'' ''filters_json'' d0)
                 (from_json js ''search_fields'' ''search_fields_json'')) (\<lambda>d1.
     let d = (if dget d1 ''sort_by'' = Some (JStr []) then dset d1 ''sort_by'' JNull else d1) in
     and_then (text_req d ''table'' 1 128) (\<lambda>table.
     and_then (dict_dflt Some d ''filters'') (\<lambda>filters.
     and_then (text_optional d ''search'' 0 256) (\<lambda>search.
     and_then (texts_dflt d ''search_fields'') (\<lambda>search_fields.
     and_then (text_optional d ''sort_by'' 1 128) (\<lambda>sort_by.
     and_then (bool_dflt d ''descending'' False) (\<lambda>descending.
     and_then (int_between d ''limit'' 25 1 (Some 1000)) (\<lambda>lim.
     and_then (int_between d ''offset'' 0 0 None) (\<lambda>off.
       Inr (table, \<lparr>pq_filters = filters, pq_search = search, pq_search_fields = search_fields, pq_sort_by = sort_by,
                    pq_descending = descending, pq_limit = nat lim, pq_offset = nat off\<rparr>))))))))))"

definition websocket_publish_request :: "(string \<Rightarrow> jval option) \<Rightarrow> dict \<Rightarrow> exn + string \<times> jval" where
  "websocket_publish_request js d0 =
     and_then (from_json js ''data'' ''data_json'' d0) (\<lambda>d.
     and_then (text_req d ''item_id'' 1 128) (\<lambda>chan.
     let data = (case dget d ''data'' of None \<Rightarrow> JObj [] | Some v \<Rightarrow> v) in
     if length (json_compact data) > 65536 then Inl ValidationError else Inr (chan, data)))"

definition create_invoice_request :: "dict \<Rightarrow> exn + string \<times> rat \<times> string \<times> string \<times> dict" where
  "create_invoice_request d =
     and_then (text_req d ''wallet_id'' 1 128) (\<lambda>wallet_id.
     and_then (positive_amount d) (\<lambda>amount.
     and_then (text_dflt d ''currency'' ''sat'' 1 8) (\<lambda>currency.
     and_then (text_req d ''memo'' 0 512) (\<lambda>memo.
     and_then (text_req d ''tag'' 1 64) (\<lambda>tag.
     and_then (dict_dflt (map_option JStr \<circ> str_value) d ''extra'') (\<lambda>extra.
       Inr (wallet_id, amount, currency, memo, extra)))))))"

definition create_invoice_public_request :: "dict \<Rightarrow> exn + string \<times> rat \<times> string \<times> string \<times> dict" where
  "create_invoice_public_request d =
     and_then (text_req d ''source_id'' 1 512) (\<lambda>source_id.
     and_then (positive_amount d) (\<lambda>amount.
     and_then (text_req d ''currency'' 1 8) (\<lambda>currency.
     and_then (text_dflt d ''memo'' [] 0 512) (\<lambda>memo.
     and_then (dict_dflt Some d ''extra'') (\<lambda>extra.
       if length (json_compact (JObj extra)) > 4096 then Inl ValidationError
       else Inr (source_id, amount, currency, memo, extra))))))"

definition pay_invoice_request :: "dict \<Rightarrow> exn + string \<times> string \<times> int option \<times> string \<times> dict" where
  "pay_invoice_request d =
     and_then (text_req d ''wallet_id'' 1 128) (\<lambda>wallet_id.
     and_then (text_req d ''payment_request'' 1 8192) (\<lambda>payment_request.
     and_then (positive_optional d ''max_sat'') (\<lambda>max_sat.
     and_then (text_dflt d ''description'' [] 0 512) (\<lambda>description.
     and_then (dict_dflt (map_option JStr \<circ> str_value) d ''extra'') (\<lambda>extra.
       Inr (wallet_id, payment_request, max_sat, description, extra))))))"

definition pay_lnurl_request_of :: "dict \<Rightarrow> exn + pay_lnurl_request" where
  "pay_lnurl_request_of d =
     and_then (text_req d ''wallet_id'' 1 128) (\<lambda>wallet_id.
     and_then (text_req d ''lnurl'' 1 2048) (\<lambda>code.
     and_then (positive_amount d) (\<lambda>amount.
     and_then (text_dflt d ''currency'' ''sat'' 1 8) (\<lambda>currency.
     and_then (text_optional d ''comment'' 0 512) (\<lambda>comment.
     and_then (text_dflt d ''description'' [] 0 512) (\<lambda>description.
     and_then (positive_optional d ''max_sat'') (\<lambda>max_sat.
     and_then (dict_dflt (map_option JStr \<circ> str_value) d ''extra'') (\<lambda>extra.
     and_then (bool_dflt d ''fetch_only'' False) (\<lambda>fetch_only.
       Inr \<lparr>lp_wallet_id = wallet_id, lp_lnurl = code, lp_amount = amount, lp_currency = currency, lp_comment = comment,
            lp_description = description, lp_max_sat = max_sat, lp_extra = extra, lp_fetch_only = fetch_only\<rparr>)))))))))"

definition text_pairs :: "dict \<Rightarrow> (string \<times> string) list" where
  "text_pairs d = map (\<lambda>(k, v). (k, case v of JStr s \<Rightarrow> s | _ \<Rightarrow> [])) d"

definition http_request_of :: "dict \<Rightarrow> exn + http_request" where
  "http_request_of d =
     and_then (verb_field d) (\<lambda>verb.
     and_then (text_req d ''url'' 1 2048) (\<lambda>url.
     and_then (dict_dflt (map_option JStr \<circ> str_value) d ''headers'') (\<lambda>hs.
     let headers = text_pairs hs in
     if length headers > 32 \<or> list_ex (\<lambda>(k, v). length k > 128 \<or> length v > 4096) headers then Inl ValidationError
     else and_then (text_optional d ''body'' 0 65536) (\<lambda>content.
       Inr \<lparr>hq_method = verb, hq_url = url, hq_headers = headers, hq_body = content\<rparr>))))"

definition extension_request_of :: "dict \<Rightarrow> exn + extension_request" where
  "extension_request_of d =
     and_then (text_req d ''extension_id'' 1 128) (\<lambda>ext.
     and_then (verb_field d) (\<lambda>verb.
     and_then (text_req d ''path'' 1 2048) (\<lambda>dest.
     and_then (text_optional d ''body'' 0 65536) (\<lambda>content.
       Inr \<lparr>eq_extension_id = ext, eq_method = verb, eq_path = dest, eq_body = content\<rparr>))))"

definition currency_request :: "dict \<Rightarrow> exn + rat \<times> string" where
  "currency_request d =
     and_then (positive_amount d) (\<lambda>amount. and_then (text_req d ''currency'' 1 8) (\<lambda>currency. Inr (amount, currency)))"

text \<open>The field \<open>from_currency\<close> has the alias \<open>from\<close>; either name is accepted, the alias first.\<close>

definition convert_request :: "dict \<Rightarrow> exn + rat \<times> string \<times> string" where
  "convert_request d =
     and_then (positive_amount d) (\<lambda>amount.
     and_then (text_req d (if dget d ''from'' = None then ''from_currency'' else ''from'') 1 8) (\<lambda>from_currency.
     and_then (text_req d ''to'' 1 256) (\<lambda>to_currencies. Inr (amount, from_currency, to_currencies))))"

definition verify_preimage_request :: "dict \<Rightarrow> exn + string \<times> string" where
  "verify_preimage_request d =
     and_then (text_req d ''preimage'' 64 64) (\<lambda>p. and_then (text_req d ''payment_hash'' 64 64) (\<lambda>x. Inr (p, x)))"

definition log_request :: "dict \<Rightarrow> exn + string \<times> string" where
  "log_request d =
     and_then (literal_field [''debug'', ''info'', ''warning'', ''error''] ''info'' d ''level'') (\<lambda>level.
     and_then (text_req d ''message'' 1 2048) (\<lambda>message. Inr (level, message)))"

section \<open>The answers\<close>

definition jopt_int :: "int option \<Rightarrow> jval" where
  "jopt_int x = (case x of None \<Rightarrow> JNull | Some i \<Rightarrow> JInt i)"

definition ok_answer :: dict where
  "ok_answer = [(''ok'', JBool True)]"

definition page_answer :: "string \<times> nat \<Rightarrow> dict" where
  "page_answer = (\<lambda>(rows, n). [(''rows_json'', JStr rows), (''total'', JInt (int n))])"

definition invoice_dict :: "string \<times> jval \<times> string \<Rightarrow> dict" where
  "invoice_dict = (\<lambda>(payment_hash, request, checking_id).
     [(''payment_hash'', JStr payment_hash), (''payment_request'', request), (''checking_id'', JStr checking_id)])"

definition pay_dict :: "pay_reply \<Rightarrow> dict" where
  "pay_dict r =
     [(''ok'', JBool (pw_ok r)), (''error'', jopt (pw_error r)), (''checking_id'', jopt (pw_checking_id r)),
      (''payment_hash'', jopt (pw_payment_hash r)), (''status'', jopt (map_option payment_state_value (pw_status r))),
      (''amount_msat'', JInt (pw_amount_msat r)), (''fee_msat'', JInt (pw_fee_msat r)),
      (''pending'', JBool (pw_status r = Some PENDING)), (''success'', JBool (pw_status r = Some SUCCESS)),
      (''payment_request'', jopt (pw_request r))]"

definition balance_dict :: "balance_answer \<Rightarrow> dict" where
  "balance_dict b =
     [(''wallet_id'', JStr (wb_id b)), (''name'', JStr (wb_name b)), (''currency'', jopt (wb_currency b)),
      (''balance_msat'', JInt (wb_balance_msat b)), (''balance_sat'', JInt (wb_balance_sat b)),
      (''withdrawable_msat'', JInt (wb_withdrawable_msat b)), (''withdrawable_sat'', JInt (wb_withdrawable_sat b)),
      (''fee_reserve_msat'', JInt (wb_reserve_msat b)), (''fee_reserve_sat'', JInt (wb_reserve_sat b)),
      (''can_send_payments'', JBool (wb_can_send b))]"

text \<open>The headers of an answer are passed as a list of pairs.\<close>

definition answer_dict :: "http_answer \<Rightarrow> dict" where
  "answer_dict a =
     [(''status_code'', JInt (int (ha_status a))),
      (''headers'', JList (map (\<lambda>(k, v). JList [JStr k, JStr v]) (ha_headers a))), (''body'', JStr (ha_body a))]"

definition wallet_summary :: "string \<times> string \<times> string option \<Rightarrow> jval" where
  "wallet_summary = (\<lambda>(i, name, currency). JObj [(''id'', JStr i), (''name'', JStr name), (''currency'', jopt currency)])"

definition resolved_dict :: "resolved_lnurl \<Rightarrow> dict" where
  "resolved_dict r =
     [(''lnurl'', JStr (rl_lnurl r)), (''description'', JStr (rl_description r)), (''min_sendable_msat'', JInt (rl_min_msat r)),
      (''max_sendable_msat'', JInt (rl_max_msat r)), (''comment_allowed'', JInt (rl_comment_allowed r))]"

definition decoded_dict :: "string option \<times> int option \<times> int option \<times> string option \<Rightarrow> dict" where
  "decoded_dict = (\<lambda>(payment_hash, amount_msat, expires_at, memo).
     [(''valid'', JBool True), (''payment_hash'', jopt payment_hash), (''amount_msat'', jopt_int amount_msat),
      (''expires_at'', jopt_int expires_at), (''memo'', jopt memo)])"

section \<open>The call\<close>

text \<open>Reading the request, running the method, making the answer.\<close>

definition call :: "exn + 'q \<Rightarrow> ('q \<Rightarrow> (wasm_world, 'a) py) \<Rightarrow> ('a \<Rightarrow> dict) \<Rightarrow> (wasm_world, dict) py" where
  "call q run answer = bindP (liftE q) (\<lambda>x. bindP (run x) (\<lambda>r. ret (answer r)))"

definition storage_call :: "host_env \<Rightarrow> host_api \<Rightarrow> string \<Rightarrow> dict \<Rightarrow> (wasm_world, dict) py option" where
  "storage_call he h i d =
     (let js = se_loads (he_storage he) in
      map_of
       [(''storage.get'', call (table_and_id d) (\<lambda>(t, k). storage_get he h t k) (\<lambda>r. [(''data_json'', jopt r)])),
        (''storage.get_public'', call (table_and_id d) (\<lambda>(t, k). storage_get_public he h t k) (\<lambda>r. [(''data_json'', jopt r)])),
        (''storage.append_public'',
          call (storage_append_public_request js d) (\<lambda>(t, src, x). storage_append_public he h t src x) (\<lambda>r. [(''id'', JStr r)])),
        (''storage.set'', call (storage_set_request js d) (\<lambda>(t, x). storage_set he h t x) (\<lambda>_. ok_answer)),
        (''storage.get_paginated'',
          call (storage_paginated_request js d) (\<lambda>(t, q). storage_get_paginated he h t q) page_answer),
        (''storage.get_public_paginated'',
          call (and_then (storage_paginated_request js d) (\<lambda>(t, q).
                  and_then (text_req d ''source_id'' 1 512) (\<lambda>src. Inr (t, src, q))))
               (\<lambda>(t, src, q). storage_get_public_paginated he h t src q) page_answer),
        (''storage.delete'', call (table_and_id d) (\<lambda>(t, k). storage_delete he h t k) (\<lambda>_. ok_answer))] i)"

definition wallet_call :: "host_env \<Rightarrow> host_api \<Rightarrow> string \<Rightarrow> dict \<Rightarrow> (wasm_world, dict) py option" where
  "wallet_call he h i d =
     map_of
       [(''wallet.create_invoice'',
          call (create_invoice_request d) (\<lambda>(w, a, c, m, x). wallet_create_invoice he h w a c m x) invoice_dict),
        (''wallet.create_invoice_public'',
          call (create_invoice_public_request d) (\<lambda>(s, a, c, m, x). wallet_create_invoice_public he h s a c m x) invoice_dict),
        (''wallet.list_user_wallets'',
          call (Inr ()) (\<lambda>_. wallet_list_user_wallets he h) (\<lambda>ws. [(''wallets'', JList (map wallet_summary ws))])),
        (''wallet.balance'', call (text_req d ''wallet_id'' 1 128) (wallet_balance_read he h) balance_dict),
        (''wallet.pay_invoice'',
          call (pay_invoice_request d) (\<lambda>(w, pr, m, t, x). wallet_pay_invoice he h w pr m t x) pay_dict),
        (''wallet.pay_lnurl'', call (pay_lnurl_request_of d) (wallet_pay_lnurl he h) pay_dict)] i"

definition other_call :: "host_env \<Rightarrow> host_api \<Rightarrow> string \<Rightarrow> dict \<Rightarrow> (wasm_world, dict) py option" where
  "other_call he h i d =
     map_of
       [(''websocket.publish'',
          call (websocket_publish_request (se_loads (he_storage he)) d) (\<lambda>(c, x). websocket_publish he h c x)
            (\<lambda>_. [(''sent'', JBool True)])),
        (''http.request'', call (http_request_of d) (host_http_request he h) answer_dict),
        (''extension.api.request'', call (extension_request_of d) (host_extension_api_request he h) answer_dict),
        (''system.random_id'', call (text_req d ''prefix'' 1 32) (system_random_id he h) (\<lambda>r. [(''id'', JStr r)])),
        (''system.now'', call (Inr ()) (\<lambda>_. system_now he h) (\<lambda>t. [(''timestamp'', JInt t)])),
        (''system.log'', call (log_request d) (\<lambda>(l, m). system_log h l m) (\<lambda>_. ok_answer))] i"

definition currency_call :: "host_env \<Rightarrow> host_api \<Rightarrow> string \<Rightarrow> dict \<Rightarrow> (wasm_world, dict) py option" where
  "currency_call he h i d =
     map_of
       [(''utils.currencies.list'',
          call (Inr ()) (\<lambda>_. utils_currencies_list he h) (\<lambda>cs. [(''currencies'', JList (map JStr cs))])),
        (''utils.currencies.rate'',
          call (text_req d ''currency'' 1 8) (utils_currencies_rate he h) (\<lambda>(r, p). [(''rate'', JFloat r), (''price'', JFloat p)])),
        (''utils.currencies.convert'',
          call (convert_request d) (\<lambda>(a, f, t). utils_currencies_convert he h a f t)
            (\<lambda>xs. [(''amounts'', JList (map (\<lambda>(c, x). JList [JStr c, JFloat x]) xs))])),
        (''utils.currencies.fiat_to_sats'',
          call (currency_request d) (\<lambda>(a, c). utils_fiat_to_sats he h a c) (\<lambda>n. [(''amount_sat'', JInt n)])),
        (''utils.currencies.sats_to_fiat'',
          call (currency_request d) (\<lambda>(a, c). utils_sats_to_fiat he h a c) (\<lambda>x. [(''amount'', JFloat x)])),
        (''utils.server.health'',
          call (Inr ()) (\<lambda>_. utils_server_health he h) (\<lambda>(t, up). [(''server_time'', JInt t), (''up_time'', JStr up)]))] i"

definition lightning_call :: "host_env \<Rightarrow> host_api \<Rightarrow> string \<Rightarrow> dict \<Rightarrow> (wasm_world, dict) py option" where
  "lightning_call he h i d =
     (let invoice = text_req d ''bolt11'' 1 8192 in
      map_of
       [(''utils.lnurl.resolve'', call (text_req d ''lnurl'' 1 2048) (utils_lnurl_resolve he h) resolved_dict),
        (''utils.lightning.decode_invoice'', call invoice (utils_decode_invoice he h) decoded_dict),
        (''utils.lightning.validate_invoice'', call invoice (utils_validate_invoice he h) (\<lambda>b. [(''valid'', JBool b)])),
        (''utils.lightning.invoice_payment_hash'',
          call invoice (utils_invoice_payment_hash he h) (\<lambda>x. [(''payment_hash'', JStr x)])),
        (''utils.lightning.invoice_amount_msat'',
          call invoice (utils_invoice_amount_msat he h) (\<lambda>x. [(''amount_msat'', jopt_int x)])),
        (''utils.lightning.invoice_expiry'', call invoice (utils_invoice_expiry he h) (\<lambda>x. [(''expires_at'', jopt_int x)])),
        (''utils.lightning.invoice_memo'', call invoice (utils_invoice_memo he h) (\<lambda>x. [(''memo'', jopt x)])),
        (''utils.lightning.verify_preimage'',
          call (verify_preimage_request d) (\<lambda>(p, x). utils_verify_preimage he h p x) (\<lambda>b. [(''valid'', JBool b)])),
        (''utils.lightning.random_secret_and_hash'',
          call (int_between d ''length'' 32 16 (Some 64)) (\<lambda>n. utils_random_secret_and_hash he h (nat n))
            (\<lambda>(s, x). [(''secret'', JStr s), (''hash'', JStr x)]))] i)"

fun first_some :: "'a option list \<Rightarrow> 'a option" where
  "first_some [] = None"
| "first_some (Some x # xs) = Some x"
| "first_some (None # xs) = first_some xs"

definition run_method :: "host_env \<Rightarrow> host_api \<Rightarrow> string \<Rightarrow> dict \<Rightarrow> (wasm_world, dict) py" where
  "run_method he h i d =
     (case first_some [storage_call he h i d, wallet_call he h i d, other_call he h i d, currency_call he h i d,
                       lightning_call he h i d] of
        None \<Rightarrow> throw KeyError | Some m \<Rightarrow> m)"

text \<open>\<open>_request_model\<close>: the keys in snake case, pairs in \<open>extra\<close> and \<open>headers\<close> made a dictionary.\<close>

definition pairs_to_dict :: "string \<Rightarrow> dict \<Rightarrow> exn + dict" where
  "pairs_to_dict k d = (case dget d k of
      Some (JList l) \<Rightarrow>
        (case dict_of (JList l) of
           None \<Rightarrow> Inl (ValueError ''dictionary update sequence'')
         | Some ps \<Rightarrow> (case those (map text_key ps) of
             None \<Rightarrow> Inl ValidationError | Some qs \<Rightarrow> Inr (dset d k (JObj (collect qs)))))
    | _ \<Rightarrow> Inr d)"

definition request_data :: "dict \<Rightarrow> exn + dict" where
  "request_data payload =
     and_then (pairs_to_dict ''extra'' (collect (map (\<lambda>(k, v). (to_snake k, v)) payload))) (pairs_to_dict ''headers'')"

definition response_payload :: "dict \<Rightarrow> dict" where
  "response_payload d = collect (map (\<lambda>(k, v). (snake_to_camel k, v)) d)"

definition host_invoke :: "host_env \<Rightarrow> host_api \<Rightarrow> string \<Rightarrow> dict \<Rightarrow> (wasm_world, dict) py" where
  "host_invoke he h host_name payload =
     bindP (liftE (require_method host_name)) (\<lambda>m.
     thenP (on_monitor (record_wasm_invocation_host_call (hx_invocation h) (am_id m)))
     (bindP (liftE (request_data payload)) (\<lambda>d.
      bindP (run_method he h (am_id m) d) (\<lambda>r. ret (response_payload r)))))"

end
