(* ===== verification/WasmHostFacts.thy ===== *)
theory WasmHostFacts
  imports WasmRuntime WasmStorageFacts
begin

text \<open>
  What the host functions guarantee together: a call without the permission or the authentication its method needs does
  nothing, storage of other extensions and other owners is out of reach, requests leave only for allowed targets, and a
  payment is made only by the user from an own wallet or within a grant.
\<close>

section \<open>Parts of the state\<close>

lemma keeps_on_db: "keeps P m \<Longrightarrow> keeps (\<lambda>s. P (wx_db s)) (on_db m)"
  by (force simp: keeps_def on_db_def split: prod.splits)

lemma keeps_on_store: "keeps P m \<Longrightarrow> keeps (\<lambda>s. P (wx_store s)) (on_store m)"
  by (force simp: keeps_def on_store_def split: prod.splits)

lemma store_untouched [keeps_intro]:
  "keeps (\<lambda>s. P (wx_store s)) (on_db m)" "keeps (\<lambda>s. P (wx_store s)) (on_hub n)"
  "keeps (\<lambda>s. P (wx_store s)) (on_monitor k)" "keeps (\<lambda>s. P (wx_store s)) (on_lnurl l)"
  by (auto simp: keeps_def on_db_def on_hub_def on_monitor_def on_lnurl_def split: prod.splits)

lemma keeps_map_of:
  "(\<And>k m. (k, m) \<in> set ms \<Longrightarrow> keeps P m) \<Longrightarrow> map_of ms i = Some m \<Longrightarrow> keeps P m"
  by (blast dest: map_of_SomeD)

section \<open>Guards\<close>

definition denied :: "host_api \<Rightarrow> string \<Rightarrow> bool" where
  "denied h i \<longleftrightarrow> (case get_extension_api_method i of
      Inl e \<Rightarrow> True
    | Inr am \<Rightarrow> (am_auth am \<and> \<not> has_authenticated_context h)
        \<or> (truthy (am_permission am) \<and> the (am_permission am) \<notin> set (permission_ids (hx_permissions h))))"

text \<open>An action that fails without a trace.\<close>

definition refuses :: "('s, 'a) py \<Rightarrow> bool" where
  "refuses m \<longleftrightarrow> (\<forall>s. \<exists>e. m s = (Inl e, s))"

lemma refuses_guarded: "denied h i \<Longrightarrow> refuses (guarded h i m)"
  by (auto simp: refuses_def denied_def guarded_def require_permission_def py_unfold bindP_def thenP_def split: sum.splits)

lemma refuses_call:
  assumes "\<And>x. refuses (run x)"
  shows "refuses (call q run answer)"
proof (cases q)
  case (Inr x)
  show ?thesis unfolding refuses_def
  proof
    fix s
    from assms [of x] obtain e where "run x s = (Inl e, s)" by (auto simp: refuses_def)
    then show "\<exists>e. call q run answer s = (Inl e, s)" using Inr by (simp add: call_def bindP_def liftE_def)
  qed
qed (simp add: refuses_def call_def py_unfold)

lemma refuses_case_prod: "(\<And>a b. refuses (f a b)) \<Longrightarrow> refuses (case x of (a, b) \<Rightarrow> f a b)"
  by (cases x) auto

lemmas host_method_defs =
  storage_get_def storage_get_public_def storage_append_public_def storage_set_def storage_get_paginated_def
  storage_get_public_paginated_def storage_delete_def websocket_publish_def wallet_create_invoice_def
  wallet_create_invoice_public_def wallet_list_user_wallets_def wallet_balance_read_def wallet_pay_invoice_def
  wallet_pay_lnurl_def host_http_request_def host_extension_api_request_def system_random_id_def system_now_def
  system_log_def utils_currencies_list_def utils_currencies_rate_def utils_currencies_convert_def utils_fiat_to_sats_def
  utils_sats_to_fiat_def utils_server_health_def utils_lnurl_resolve_def utils_invoice_def utils_decode_invoice_def
  utils_validate_invoice_def utils_invoice_payment_hash_def utils_invoice_amount_msat_def utils_invoice_expiry_def
  utils_invoice_memo_def utils_verify_preimage_def utils_random_secret_and_hash_def

lemma storage_call_refuses: "denied h i \<Longrightarrow> storage_call he h i d = Some m \<Longrightarrow> refuses m"
  by (auto simp: storage_call_def host_method_defs Let_def split: if_splits
      intro!: refuses_call refuses_case_prod refuses_guarded)

lemma wallet_call_refuses: "denied h i \<Longrightarrow> wallet_call he h i d = Some m \<Longrightarrow> refuses m"
  by (auto simp: wallet_call_def host_method_defs split: if_splits
      intro!: refuses_call refuses_case_prod refuses_guarded)

lemma other_call_refuses: "denied h i \<Longrightarrow> other_call he h i d = Some m \<Longrightarrow> refuses m"
  by (auto simp: other_call_def host_method_defs split: if_splits
      intro!: refuses_call refuses_case_prod refuses_guarded)

lemma currency_call_refuses: "denied h i \<Longrightarrow> currency_call he h i d = Some m \<Longrightarrow> refuses m"
  by (auto simp: currency_call_def host_method_defs split: if_splits
      intro!: refuses_call refuses_case_prod refuses_guarded)

lemma lightning_call_refuses: "denied h i \<Longrightarrow> lightning_call he h i d = Some m \<Longrightarrow> refuses m"
  by (auto simp: lightning_call_def host_method_defs Let_def split: if_splits
      intro!: refuses_call refuses_case_prod refuses_guarded)

lemma first_some_member: "first_some xs = Some m \<Longrightarrow> Some m \<in> set xs"
  by (induction xs rule: first_some.induct) auto

lemma run_method_cases:
  "run_method he h i d = throw KeyError \<or> storage_call he h i d = Some (run_method he h i d)
   \<or> wallet_call he h i d = Some (run_method he h i d) \<or> other_call he h i d = Some (run_method he h i d)
   \<or> currency_call he h i d = Some (run_method he h i d) \<or> lightning_call he h i d = Some (run_method he h i d)"
  unfolding run_method_def by (auto split: option.split dest!: first_some_member)

lemma run_method_refuses:
  assumes "denied h i"
  shows "refuses (run_method he h i d)"
proof -
  have "refuses (throw KeyError :: (wasm_world, dict) py)" by (simp add: refuses_def py_unfold)
  with run_method_cases [of he h i d] storage_call_refuses wallet_call_refuses other_call_refuses
    currency_call_refuses lightning_call_refuses assms show ?thesis by metis
qed

text \<open>Without permission only the counter of calls moves.\<close>

lemma refused_invoke:
  assumes m: "require_method host_name = Inr am" and d: "denied h (am_id am)"
  shows "\<exists>e. host_invoke he h host_name payload s
           = (Inl e, snd (on_monitor (record_wasm_invocation_host_call (hx_invocation h) (am_id am)) s))"
proof -
  obtain r t where c: "on_monitor (record_wasm_invocation_host_call (hx_invocation h) (am_id am)) s = (r, t)" by fastforce
  have "refuses (bindP (liftE (request_data payload)) (\<lambda>d. bindP (run_method he h (am_id am) d) (\<lambda>r. ret (response_payload r))))"
    using refuses_call [of "run_method he h (am_id am)" "request_data payload" response_payload] run_method_refuses [OF d]
    by (simp add: call_def)
  then show ?thesis using m c by (cases r) (auto simp: host_invoke_def thenP_def bindP_def liftE_def refuses_def)
qed

section \<open>Storage\<close>

text \<open>The tables of the other extensions.\<close>

definition other_tables :: "string \<Rightarrow> store \<Rightarrow> store \<Rightarrow> bool" where
  "other_tables ext s t \<longleftrightarrow> (\<forall>k. fst k \<noteq> ext \<longrightarrow> map_of (so_tables t) k = map_of (so_tables s) k)"

lemma other_tables_refl [simp]: "other_tables ext s s"
  by (simp add: other_tables_def)

lemma keeps_other_write: "keeps (other_tables ext s) (write_rows ext table g)"
  by (auto simp: keeps_def write_rows_def find_table_def py_unfold bindP_def other_tables_def update_conv' split: option.splits)

definition own_writes :: "string \<Rightarrow> string option \<Rightarrow> store \<Rightarrow> store \<Rightarrow> bool" where
  "own_writes ext owner s t \<longleftrightarrow> other_tables ext s t \<and> (case owner of None \<Rightarrow> True | Some x \<Rightarrow> leaves_others x s t)"

lemma own_writes_refl [simp]: "own_writes ext owner s s"
  by (simp add: own_writes_def split: option.split)

lemma keeps_both: "keeps P m \<Longrightarrow> keeps Q m \<Longrightarrow> keeps (\<lambda>s. P s \<and> Q s) m"
  by (simp add: keeps_def)

lemma keeps_other_set: "keeps (other_tables ext s) (storage_set_row se ext table data owner)"
  unfolding storage_set_row_def by (intro keeps_intro keeps_other_write)

lemma keeps_other_delete: "keeps (other_tables ext s) (storage_delete_row se ext table i owner)"
  unfolding storage_delete_row_def by (intro keeps_intro keeps_other_write)

lemma keeps_own_set [keeps_intro]: "keeps (own_writes ext (Some owner) s) (storage_set_row se ext table data owner)"
  unfolding own_writes_def option.case by (intro keeps_both keeps_other_set set_leaves_others)

lemma keeps_own_delete [keeps_intro]: "keeps (own_writes ext (Some owner) s) (storage_delete_row se ext table i owner)"
  unfolding own_writes_def option.case by (intro keeps_both keeps_other_delete delete_leaves_others)

lemma keeps_any_set [keeps_intro]: "keeps (own_writes ext None s) (storage_set_row se ext table data owner)"
  unfolding own_writes_def by (simp add: keeps_other_set)

lemma keeps_any_append [keeps_intro]: "keeps (own_writes ext None s) (storage_append_public_row se fresh ext table data owner)"
  unfolding storage_append_public_row_def by (intro keeps_intro)

lemma keeps_any_delete [keeps_intro]: "keeps (own_writes ext None s) (storage_delete_row se ext table i owner)"
  unfolding own_writes_def by (simp add: keeps_other_delete)

lemma keeps_reads [keeps_intro]:
  "keeps P (storage_get_row se ext table i owner)" "keeps P (storage_get_public_row se ext table i)"
  "keeps P (storage_get_row_owner_id se ext table i)" "keeps P (storage_get_paginated_rows se ext table q owner)"
  "keeps P (storage_get_public_paginated_rows se ext table q filters)" "keeps P (storage_count_rows se ext table fs owner)"
  unfolding storage_get_row_def storage_get_public_row_def storage_get_row_owner_id_def storage_get_paginated_rows_def
    storage_get_public_paginated_rows_def storage_count_rows_def read_row_def read_page_def Let_def
  by (intro keeps_intro keeps_find_table)+

section \<open>Storage through the host\<close>

lemma keeps_bindP_split: "keeps P m \<Longrightarrow> (\<And>a b. keeps P (k (a, b))) \<Longrightarrow> keeps P (bindP m k)"
  by (rule keeps_bindP) auto

lemma keeps_append_policy [keeps_intro]: "keeps P (append_policy_for se ext table source_id b ps)"
  by (induction ps arbitrary: b) (auto intro!: keeps_intro)

lemma keeps_invoice_row [keeps_intro]: "keeps P (public_invoice_row se ext source_id sources)"
proof (induction se ext source_id sources rule: public_invoice_row.induct)
  case (2 se ext source_id table wallet_field sources)
  then show ?case by (auto intro!: keeps_intro split: option.split list.split)
qed (simp add: keeps_intro)

lemma keeps_require [keeps_intro]: "keeps P (require_permission h p)"
  unfolding require_permission_def by (intro keeps_intro)

lemma keeps_guarded [keeps_intro]: "keeps P m \<Longrightarrow> keeps P (guarded h i m)"
  unfolding guarded_def by (intro keeps_intro)

lemma keeps_call: "(\<And>x. keeps P (run x)) \<Longrightarrow> keeps P (call q run answer)"
  unfolding call_def by (intro keeps_intro) auto

text \<open>Only the storage methods touch the store.\<close>

lemma keeps_sent_store [keeps_intro]: "keeps (\<lambda>s. P (wx_store s)) (exchange_request wb a b m x)"
  unfolding exchange_request_def Let_def by (auto intro!: keeps_intro)

lemma keeps_http_store [keeps_intro]: "keeps (\<lambda>s. P (wx_store s)) (send_extension_http_request wb ps q m)"
  unfolding send_extension_http_request_def Let_def by (intro keeps_intro)

lemma keeps_ext_store [keeps_intro]: "keeps (\<lambda>s. P (wx_store s)) (send_extension_api_request wb ps u t q m)"
  unfolding send_extension_api_request_def require_enabled_extension_def Let_def by (intro keeps_intro)

lemma keeps_refusals [keeps_intro]: "keeps P m \<Longrightarrow> keeps P (answering_refusals b m)"
  unfolding answering_refusals_def by (intro keeps_intro)

lemma keeps_store_pay [keeps_intro]:
  "keeps (\<lambda>s. P (wx_store s)) (wallet_pay_invoice he h w pr m t x)"
  "keeps (\<lambda>s. P (wx_store s)) (wallet_pay_lnurl he h q)"
  unfolding wallet_pay_invoice_def wallet_pay_lnurl_def pay_for_user_def pay_in_background_def lnurl_permission_def
    fetch_for_core_def background_lnurl_extra_def
  by (auto intro!: keeps_intro)

lemma keeps_store_wallets:
  "keeps (\<lambda>s. P (wx_store s)) (wallet_create_invoice he h w a c m x)"
  "keeps (\<lambda>s. P (wx_store s)) (wallet_list_user_wallets he h)"
  "keeps (\<lambda>s. P (wx_store s)) (wallet_balance_read he h w)"
  unfolding wallet_create_invoice_def wallet_list_user_wallets_def wallet_balance_read_def
  by (auto intro!: keeps_intro split: prod.split)

lemma keeps_store_public_invoice:
  "keeps (\<lambda>s. P (wx_store s)) (wallet_create_invoice_public he h w a c m x)"
  unfolding wallet_create_invoice_public_def
  by (auto intro!: keeps_intro keeps_on_store split: prod.split)

lemma wallet_call_store: "wallet_call he h i d = Some m \<Longrightarrow> keeps (\<lambda>s. P (wx_store s)) m"
  by (auto simp: wallet_call_def split: if_splits
      intro!: keeps_call keeps_case_prod keeps_store_pay keeps_store_wallets keeps_store_public_invoice)

lemma other_call_store: "other_call he h i d = Some m \<Longrightarrow> keeps (\<lambda>s. P (wx_store s)) m"
  by (auto simp: other_call_def host_method_defs split: if_splits
      intro!: keeps_call keeps_case_prod keeps_intro)

lemma currency_call_store: "currency_call he h i d = Some m \<Longrightarrow> keeps (\<lambda>s. P (wx_store s)) m"
  by (auto simp: currency_call_def host_method_defs Let_def split: if_splits
      intro!: keeps_call keeps_case_prod keeps_intro)

lemma lightning_call_store: "lightning_call he h i d = Some m \<Longrightarrow> keeps (\<lambda>s. P (wx_store s)) m"
  by (auto simp: lightning_call_def host_method_defs Let_def split: if_splits
      intro!: keeps_call keeps_case_prod keeps_intro split: lnurl_answer.split)

lemma storage_reads_store:
  "keeps (\<lambda>s. P (wx_store s)) (storage_get he h t i)"
  "keeps (\<lambda>s. P (wx_store s)) (storage_get_public he h t i)"
  "keeps (\<lambda>s. P (wx_store s)) (storage_get_paginated he h t q)"
  "keeps (\<lambda>s. P (wx_store s)) (storage_get_public_paginated he h t src q)"
  unfolding storage_get_def storage_get_public_def storage_get_paginated_def storage_get_public_paginated_def
  by (auto intro!: keeps_intro keeps_on_store split: prod.split)

lemma storage_append_store:
  "keeps (\<lambda>s. own_writes (hx_extension h) None u (wx_store s)) (storage_append_public he h t src x)"
  unfolding storage_append_public_def public_storage_append_policy_def Let_def
  by (intro keeps_guarded keeps_bindP keeps_gets keeps_on_store) (auto intro!: keeps_intro)

text \<open>The owner that a context without policies for the public acts for.\<close>

lemma storage_writes_store:
  "keeps (\<lambda>s. own_writes (hx_extension h) (hx_owner h) u (wx_store s)) (storage_set he h t x)"
  "keeps (\<lambda>s. own_writes (hx_extension h) (hx_owner h) u (wx_store s)) (storage_delete he h t i)"
  unfolding storage_set_def storage_delete_def
  by (intro keeps_guarded; cases "hx_owner h"; auto simp: require_owner_id_def intro!: keeps_on_store keeps_intro)+

lemma own_writes_weaken: "own_writes ext owner s t \<Longrightarrow> own_writes ext None s t"
  by (simp add: own_writes_def)

lemma storage_call_store:
  assumes "storage_call he h i d = Some m"
  shows "keeps (\<lambda>s. own_writes (hx_extension h) (if i = ''storage.append_public'' then None else hx_owner h) u (wx_store s)) m"
  using assms storage_writes_store(1) [of h u he]
  by (auto simp: storage_call_def Let_def split: if_splits
      intro!: keeps_call keeps_case_prod storage_reads_store storage_append_store storage_writes_store)

lemma run_method_store:
  "keeps (\<lambda>s. own_writes (hx_extension h) (if i = ''storage.append_public'' then None else hx_owner h) u (wx_store s))
     (run_method he h i d)"
  using run_method_cases [of he h i d] storage_call_store [of he h i d _ u] wallet_call_store [of he h i d]
    other_call_store [of he h i d] currency_call_store [of he h i d] lightning_call_store [of he h i d]
  by (metis keeps_throw)

lemma invoke_store:
  assumes "require_method host_name = Inr am"
  shows "own_writes (hx_extension h) (if am_id am = ''storage.append_public'' then None else hx_owner h) (wx_store s)
           (wx_store (snd (host_invoke he h host_name payload s)))"
proof -
  have "keeps (\<lambda>t. own_writes (hx_extension h) (if am_id am = ''storage.append_public'' then None else hx_owner h)
          (wx_store s) (wx_store t)) (host_invoke he h host_name payload)"
    unfolding host_invoke_def assms bindP_simps by (intro keeps_intro run_method_store)
  from keepsD [OF this, of s] show ?thesis by simp
qed

text \<open>
  Who pays: a payment an extension starts is made by the calling user from an own wallet, or in the background within the
  grant the owner of the wallet gave. Where requests go: only to granted origins and to the interfaces of granted extensions.
\<close>

section \<open>Reading a wallet\<close>

lemma mirror_keeps_user [simp]: "w_user (mirror_shared_wallet w v) = w_user w" "w_id (mirror_shared_wallet w v) = w_id w"
  by (simp_all add: mirror_shared_wallet_def Let_def)

lemma get_wallet_row:
  assumes g: "get_wallet ev cfg wid d db = (Inr (Some w), db')" and dist: "wallet_ids_distinct db"
  shows "\<exists>v \<in> set (wd_wallets db). w_id v = wid \<and> w_user v = w_user w"
proof -
  from g obtain w1 db1 where g1: "get_standalone_wallet ev cfg wid d db = (Inr (Some w1), db1)"
    and g2: "(if is_lightning_shared_wallet w1 then get_source_wallet ev cfg w1 else ret (Some w1)) db1 = (Inr (Some w), db')"
    by (auto simp: get_wallet_def bindP_Inr_iff ret_def split: option.splits)
  have "w_user w = w_user w1"
    using g2 by (auto simp: get_source_wallet_def bindP_Inr_iff ret_def split: if_splits option.splits)
  with standalone_cases [OF g1 dist] show ?thesis by (metis (no_types) wallet_core_sel(3))
qed

section \<open>Background payments\<close>

text \<open>What the owner of the wallet agreed to.\<close>

definition granted_payment :: "env \<Rightarrow> string \<Rightarrow> wallet \<Rightarrow> string \<Rightarrow> int \<Rightarrow> world \<Rightarrow> bool" where
  "granted_payment ev ext w payment_request amount_msat db \<longleftrightarrow>
     \<not> is_lightning_shared_wallet w \<and> can_send_payments w
     \<and> (\<exists>u grants g. get_user_extension (w_user w) ext db = Some u \<and> ux_active u
          \<and> dget (ux_permissions u) WALLET_PAY_INVOICE_BACKGROUND_PERMISSION = Some (JList grants)
          \<and> find_wallet_grant grants (w_id w) = Some g \<and> bg_enabled g \<and> amount_msat \<le> bg_max_amount g * 1000
          \<and> (bg_destination g = EXTERNAL_ALLOWED
             \<or> (\<exists>i p v. e_decode ev payment_request = Some i \<and> check_internal (di_payment_hash i) db = Some p
                  \<and> v \<in> set (wd_wallets db) \<and> w_id v = p_wallet_id p \<and> w_user v = w_user w)))"

lemma granted_same_books:
  assumes "same_books db db'" and "granted_payment ev ext w pr a db'"
  shows "granted_payment ev ext w pr a db"
proof -
  have rows: "\<exists>u \<in> set (wd_wallets db). w_id u = w_id v \<and> w_user u = w_user v" if "v \<in> set (wd_wallets db')" for v
  proof -
    have "(w_id v, w_user v) \<in> set (map (\<lambda>w. (w_id w, w_user w)) (wd_wallets db'))" using that by force
    then show ?thesis unfolding same_books_map [OF assms(1), of "\<lambda>w. (w_id w, w_user w)", simplified] by force
  qed
  have same: "get_user_extension i j db' = get_user_extension i j db" "check_internal x db' = check_internal x db" for i j x
    using same_books_sel [OF assms(1)] by (simp_all add: get_user_extension_def check_internal_def)
  show ?thesis using assms(2) rows unfolding granted_payment_def same by (metis (no_types, lifting))
qed

lemma reads_grant [reads_intro]: "reads (background_payment_grant ext w a)"
  unfolding background_payment_grant_def by (auto intro!: reads_intro split: option.split jval.split)

lemma reads_destination [reads_intro]: "reads (check_destination_policy ev cfg w g pr)"
  unfolding check_destination_policy_def by (intro reads_intro)

lemma reads_background [reads_intro]: "reads (background_payment_extra ev cfg ext w pr a)"
  unfolding background_payment_extra_def by (intro reads_intro)

lemma grant_found:
  assumes "background_payment_grant ext w a db = (Inr g, db')"
  shows "db' = db \<and> \<not> is_lightning_shared_wallet w \<and> can_send_payments w
     \<and> (\<exists>u grants. get_user_extension (w_user w) ext db = Some u \<and> ux_active u
          \<and> dget (ux_permissions u) WALLET_PAY_INVOICE_BACKGROUND_PERMISSION = Some (JList grants)
          \<and> find_wallet_grant grants (w_id w) = Some g \<and> bg_enabled g \<and> a \<le> bg_max_amount g * 1000)"
  using assms
  by (auto simp: background_payment_grant_def thenP_failIf py_unfold bindP_def split: if_splits option.splits jval.splits)

lemma destination_found:
  assumes d: "check_destination_policy ev cfg w g pr db = (Inr u, db')" and dist: "wallet_ids_distinct db"
  shows "bg_destination g = EXTERNAL_ALLOWED
     \<or> (\<exists>i p v. e_decode ev pr = Some i \<and> check_internal (di_payment_hash i) db = Some p
          \<and> v \<in> set (wd_wallets db) \<and> w_id v = p_wallet_id p \<and> w_user v = w_user w)"
proof (cases "bg_destination g = EXTERNAL_ALLOWED")
  case False
  with d obtain i p x db1 where "e_decode ev pr = Some i" "check_internal (di_payment_hash i) db = Some p"
    "get_wallet ev cfg (p_wallet_id p) (Some False) db = (Inr (Some x), db1)" "w_user x = w_user w"
    by (auto simp: check_destination_policy_def decode_bolt11_def bindP_Inr_iff py_unfold split: option.splits if_splits)
  with get_wallet_row [OF _ dist] show ?thesis by metis
qed simp

lemma background_granted:
  assumes b: "background_payment_extra ev cfg ext w pr a db = (Inr x, db')" and dist: "wallet_ids_distinct db"
  shows "granted_payment ev ext w pr a db"
proof -
  from b obtain g db1 u db2 where g: "background_payment_grant ext w a db = (Inr g, db1)"
    and d: "check_destination_policy ev cfg w g pr db1 = (Inr u, db2)"
    by (auto simp: background_payment_extra_def bindP_Inr_iff thenP_def)
  from grant_found [OF g] destination_found [OF d] dist show ?thesis unfolding granted_payment_def by auto
qed

section \<open>Every payment of an extension\<close>

text \<open>The two ways in which a payment from a wallet may be made.\<close>

definition payment_authorised :: "host_env \<Rightarrow> host_api \<Rightarrow> wallet \<Rightarrow> string \<Rightarrow> world \<Rightarrow> bool" where
  "payment_authorised he h w payment_request db \<longleftrightarrow>
     (if truthy (hx_user h) then
        ''wallet.pay_invoice'' \<in> set (permission_ids (hx_permissions h)) \<and> hx_user h = Some (w_user w)
      else
        hx_context h = ''event''
        \<and> WALLET_PAY_INVOICE_BACKGROUND_PERMISSION \<in> set (permission_ids (hx_permissions h))
        \<and> (\<exists>i a. e_decode (he_ev he) payment_request = Some i \<and> di_amount_msat i = Some a \<and> 0 < a
             \<and> granted_payment (he_ev he) (hx_extension h) w payment_request a db))"

definition same_payments :: "wasm_world \<Rightarrow> wasm_world \<Rightarrow> bool" where
  "same_payments s t \<longleftrightarrow> wd_payments (wx_db t) = wd_payments (wx_db s)"

lemma user_payment_authorised:
  assumes "truthy (hx_user h)" "pay_for_user he h w wid pr m t x s = (r, s')" "\<not> same_payments s s'"
  shows "payment_authorised he h w pr db"
  using assms
  by (auto simp: pay_for_user_def payment_authorised_def require_permission_def thenP_failIf same_payments_def
      split: if_splits)

lemma background_payment_authorised:
  assumes u: "\<not> truthy (hx_user h)" and auth: "has_authenticated_context h"
    and run: "pay_in_background he h w wid pr m t x s = (r, s')" and ch: "\<not> same_payments s s'"
    and dist: "wallet_ids_distinct (wx_db s)"
  shows "payment_authorised he h w pr (wx_db s)"
proof -
  have perm: "WALLET_PAY_INVOICE_BACKGROUND_PERMISSION \<in> set (permission_ids (hx_permissions h))"
    using run ch by (auto simp: pay_in_background_def require_permission_def thenP_failIf same_payments_def split: if_splits)
  obtain a where a: "invoice_amount_msat (he_ev he) pr = Inr a"
    using run ch by (cases "invoice_amount_msat (he_ev he) pr")
      (auto simp: pay_in_background_def require_permission_def thenP_failIf same_payments_def py_unfold split: if_splits)
  then obtain i where i: "e_decode (he_ev he) pr = Some i" "di_amount_msat i = Some a" "0 < a"
    by (auto simp: invoice_amount_msat_def decode_bolt11_def Let_def split: option.splits if_splits)
  obtain q db1 where b: "background_payment_extra (he_ev he) (he_cfg he) (hx_extension h) w pr a (wx_db s) = (q, db1)"
    by fastforce
  have "wd_payments db1 = wd_payments (wx_db s)"
    using readsD [OF reads_background dist] b same_books_sel(1) by (metis snd_conv)
  then obtain e where "q = Inr e"
    using run ch perm a b by (cases q)
      (auto simp: pay_in_background_def require_permission_def on_db_def bindP_def same_payments_def)
  with background_granted [OF _ dist] b i perm u auth show ?thesis
    by (auto simp: payment_authorised_def has_authenticated_context_def)
qed

lemma pay_invoice_authorised:
  assumes run: "wallet_pay_invoice he h wid pr m t x s = (r, s')" and ch: "\<not> same_payments s s'"
    and dist: "wallet_ids_distinct (wx_db s)"
  shows "\<exists>w. fst (get_wallet (he_ev he) (he_cfg he) wid (Some False) (wx_db s)) = Inr (Some w)
           \<and> payment_authorised he h w pr (wx_db s)"
proof -
  let ?g = "get_wallet (he_ev he) (he_cfg he) wid (Some False)"
  have meth: "get_extension_api_method ''wallet.pay_invoice''
      = Inr (api_method_export ''wallet.pay_invoice'' ''host'' ''pay_invoice'' None True)"
    by (simp add: get_extension_api_method_def list_extension_api_methods_def host_methods_def api_method_export_def)
  have auth: "has_authenticated_context h"
    using run ch by (auto simp: wallet_pay_invoice_def guarded_def meth api_method_export_def thenP_failIf same_payments_def
        split: if_splits)
  obtain q db1 where g: "?g (wx_db s) = (q, db1)" by fastforce
  from readsD [OF reads_get_wallet dist, of "he_ev he" "he_cfg he" wid "Some False"] g
  have sb: "same_books (wx_db s) db1" by simp
  let ?s1 = "s\<lparr>wx_db := db1\<rparr>"
  let ?pay = "(if truthy (hx_user h) then pay_for_user else pay_in_background) he h"
  have run': "bindP (on_db ?g) (\<lambda>found. case found of
          None \<Rightarrow> throw (PermissionError ''Paying invoices from this wallet is not allowed.'')
        | Some w \<Rightarrow> answering_refusals False (bindP (?pay w wid pr m t x) (\<lambda>p. ret (pay_invoice_response p)))) s = (r, s')"
    using run auth unfolding wallet_pay_invoice_def guarded_def meth
    by (simp add: api_method_export_def thenP_failIf require_permission_def)
  have "same_payments s ?s1" using same_books_sel(1) [OF sb] by (simp add: same_payments_def)
  then obtain w where w: "q = Inr (Some w)"
    using run' g ch by (cases q) (auto simp: on_db_def bindP_def py_unfold split: option.splits)
  obtain y s2 where p: "?pay w wid pr m t x ?s1 = (y, s2)" by fastforce
  have "s' = s2"
    using run' g w p by (cases y) (auto simp: on_db_def bindP_def answering_refusals_def tryP_def py_unfold split: if_splits)
  then have ch1: "\<not> same_payments ?s1 s2"
    using ch \<open>same_payments s ?s1\<close> by (simp add: same_payments_def)
  have "payment_authorised he h w pr db1"
  proof (cases "truthy (hx_user h)")
    case True
    with p show ?thesis by (intro user_payment_authorised [OF True _ ch1]) simp
  next
    case False
    with p auth dist sb show ?thesis
      using background_payment_authorised [OF False auth _ ch1] by (simp add: same_books_ids)
  qed
  then have "payment_authorised he h w pr (wx_db s)"
    using granted_same_books [OF sb] by (auto simp: payment_authorised_def)
  then show ?thesis using g w by auto
qed

section \<open>Where requests go\<close>

definition outbound_since :: "wasm_world \<Rightarrow> wasm_world \<Rightarrow> outbound list" where
  "outbound_since s t = drop (length (wx_sent s)) (wx_sent t)"

lemma exchange_sends: "wx_sent (snd (exchange_request wb a b m x s)) = wx_sent s @ [x]"
  by (auto simp: exchange_request_def thenP_def bindP_def py_unfold split: option.splits sum.splits)

text \<open>A method that is refused sends nothing.\<close>

lemma sent_guarded:
  assumes "x \<in> set (outbound_since s (snd (guarded h i m s)))"
  shows "x \<in> set (outbound_since s (snd (m s)))"
proof (cases "denied h i")
  case True
  then obtain e where "guarded h i m s = (Inl e, s)" using refuses_guarded unfolding refuses_def by blast
  with assms show ?thesis by (simp add: outbound_since_def)
next
  case False
  then show ?thesis
    using assms by (auto simp: denied_def guarded_def require_permission_def py_unfold bindP_def thenP_def split: sum.splits if_splits)
qed

text \<open>A request to another server: https to a granted origin, at an address that is not of an internal network.\<close>

definition granted_target :: "web \<Rightarrow> jval list \<Rightarrow> string \<Rightarrow> bool" where
  "granted_target wb policies url \<longleftrightarrow>
     (\<exists>origins origin u host. allowed_origins (wb_urlparse wb) policies = Inr origins
        \<and> request_origin (wb_urlparse wb) url = Inr origin \<and> origin \<in> set origins
        \<and> wb_urlparse wb url = Some u \<and> pu_scheme u = ''https'' \<and> pu_hostname u = Some host \<and> host \<noteq> ''localhost''
        \<and> (case wb_address wb host of
             Some global \<Rightarrow> global
           | None \<Rightarrow> (\<exists>globals. wb_resolve wb host = Some globals \<and> list_all (\<lambda>g. g) globals)))"

lemma http_request_target:
  assumes "x \<in> set (outbound_since s (snd (send_extension_http_request wb policies q m s)))"
  shows "ob_url x = hq_url q \<and> granted_target wb policies (hq_url q)
         \<and> length (ob_body x) \<le> 65536 \<and> (\<forall>k \<in> fst ` set (ob_headers x). lower k \<notin> set forbidden_request_headers)"
proof -
  have headers: "\<forall>k \<in> fst ` set (clean_request_headers hs). lower k \<notin> set forbidden_request_headers" for hs
  proof -
    let ?f = "\<lambda>d (k, v). let header = strip k in
        if header = [] \<or> lower header \<in> set forbidden_request_headers then d else AList.update header v d"
    have "(\<forall>k \<in> fst ` set d. lower k \<notin> set forbidden_request_headers)
        \<Longrightarrow> \<forall>k \<in> fst ` set (foldl ?f d hs). lower k \<notin> set forbidden_request_headers" for d :: "(string \<times> string) list"
    proof (induction hs arbitrary: d)
      case (Cons kv hs)
      obtain k v where kv: "kv = (k, v)" by fastforce
      have "\<forall>j \<in> fst ` set (?f d (k, v)). lower j \<notin> set forbidden_request_headers"
      proof
        fix j assume "j \<in> fst ` set (?f d (k, v))"
        then have "j \<in> fst ` set d \<or> (j = strip k \<and> lower j \<notin> set forbidden_request_headers)"
          by (simp add: Let_def dom_update split: if_splits) blast
        with Cons.prems show "lower j \<notin> set forbidden_request_headers" by blast
      qed
      from Cons.IH [OF this] show ?case by (simp add: kv)
    qed simp
    from this [of "[]"] show ?thesis by (simp add: clean_request_headers_def)
  qed
  obtain origins where o: "allowed_origins (wb_urlparse wb) policies = Inr origins"
    using assms by (cases "allowed_origins (wb_urlparse wb) policies")
      (auto simp: send_extension_http_request_def py_unfold outbound_since_def)
  obtain origin where r: "request_origin (wb_urlparse wb) (hq_url q) = Inr origin"
    using assms by (cases "request_origin (wb_urlparse wb) (hq_url q)")
      (auto simp: send_extension_http_request_def py_unfold outbound_since_def o)
  have in_o: "origin \<in> set origins"
    using assms by (auto simp: send_extension_http_request_def py_unfold outbound_since_def o r thenP_failIf split: if_splits)
  have i: "reject_internal_host wb (hq_url q) = Inr ()"
    using assms in_o by (cases "reject_internal_host wb (hq_url q)")
      (auto simp: send_extension_http_request_def py_unfold outbound_since_def o r thenP_failIf)
  have size: "length (body_bytes (hq_body q)) \<le> 65536"
    using assms in_o i
    by (auto simp: send_extension_http_request_def py_unfold outbound_since_def o r thenP_failIf Let_def split: if_splits)
  have x: "x = \<lparr>ob_verb = hq_method q, ob_url = hq_url q, ob_headers = clean_request_headers (hq_headers q),
                ob_body = body_bytes (hq_body q)\<rparr>"
    using assms in_o i size
    by (simp add: send_extension_http_request_def outbound_since_def o r thenP_failIf Let_def exchange_sends)
  have "granted_target wb policies (hq_url q)"
    using o r in_o i unfolding granted_target_def
    by (auto simp: reject_internal_host_def request_origin_def split: option.splits if_splits sum.splits)
  then show ?thesis using x headers size by simp
qed

text \<open>A request to another extension: below its interface, with the access the method needs, for a user of both.\<close>

definition granted_extension :: "jval list \<Rightarrow> string \<Rightarrow> string \<Rightarrow> bool" where
  "granted_extension policies target verb \<longleftrightarrow>
     (\<exists>access. target_extension_access policies target = Inr access
        \<and> (if verb \<in> {''GET'', ''HEAD''} then ''read'' \<in> set access
           else verb \<in> {''DELETE'', ''PATCH'', ''POST'', ''PUT''} \<and> ''write'' \<in> set access))"

lemma require_enabled_run:
  "\<exists>e. require_enabled_extension target user s =
     (if (\<exists>x. get_installed_extension target s = Some x \<and> ie_active x)
         \<and> target \<in> set (get_user_active_extensions_ids user (wx_db s)) then (Inr (), s) else (Inl e, s))"
  by (cases "get_installed_extension target s") (auto simp: require_enabled_extension_def thenP_failIf failIf_def py_unfold)

lemma extension_request_target:
  assumes "x \<in> set (outbound_since s (snd (send_extension_api_request wb policies user token q m s)))"
  shows "\<exists>target p r. ob_url x = wb_base wb @ ''/'' @ target @ p @ r
     \<and> startswith p ''/api/'' \<and> ''..'' \<notin> set (split_on CHR ''/'' (wb_unquote wb p)) \<and> (r = [] \<or> hd r = CHR ''?'')
     \<and> target \<noteq> [] \<and> list_all id_char target \<and> granted_extension policies target (eq_method q)
     \<and> (\<exists>e. get_installed_extension target s = Some e \<and> ie_active e)
     \<and> (\<exists>u. user = Some u \<and> target \<in> set (get_user_active_extensions_ids u (wx_db s)))
     \<and> ob_headers x = [(''Authorization'', ''Bearer '' @ the token)]"
proof -
  let ?run = "send_extension_api_request wb policies user token q m s"
  have no: "snd ?run \<noteq> s" using assms by (auto simp: outbound_since_def)
  then have u: "truthy user" by (auto simp: send_extension_api_request_def thenP_failIf split: if_splits)
  with no have tk: "truthy token" by (auto simp: send_extension_api_request_def thenP_failIf split: if_splits)
  obtain target where t: "target_extension_id (eq_extension_id q) = Inr target"
    using no u tk by (cases "target_extension_id (eq_extension_id q)")
      (auto simp: send_extension_api_request_def thenP_failIf py_unfold)
  obtain access where a: "target_extension_access policies target = Inr access"
    using no u tk t by (cases "target_extension_access policies target")
      (auto simp: send_extension_api_request_def thenP_failIf py_unfold)
  have v: "require_method_access access (eq_method q) = Inr ()"
    using no u tk t a by (cases "require_method_access access (eq_method q)")
      (auto simp: send_extension_api_request_def thenP_failIf py_unfold)
  have en: "(\<exists>e. get_installed_extension target s = Some e \<and> ie_active e)
      \<and> target \<in> set (get_user_active_extensions_ids (the user) (wx_db s))"
  proof (rule ccontr)
    assume neg: "\<not> ?thesis"
    then obtain e where "require_enabled_extension target (the user) s = (Inl e, s)"
      using require_enabled_run [of target "the user" s] by (auto split: if_splits)
    then show False using no u tk t a v
      by (simp add: send_extension_api_request_def thenP_failIf thenP_eq_Inl)
  qed
  then have en': "require_enabled_extension target (the user) s = (Inr (), s)"
    using require_enabled_run [of target "the user" s] by auto
  obtain dest where d: "extension_api_path wb (eq_path q) = Inr dest"
    using no u tk t a v en' by (cases "extension_api_path wb (eq_path q)")
      (auto simp: send_extension_api_request_def thenP_failIf thenP_eq_Inr [where m = "require_enabled_extension target (the user)", OF en'] py_unfold)
  have size: "length (body_bytes (eq_body q)) \<le> 65536"
    using no u tk t a v d
    by (auto simp: send_extension_api_request_def thenP_failIf thenP_eq_Inr [where m = "require_enabled_extension target (the user)", OF en'] Let_def split: if_splits)
  have x: "x = \<lparr>ob_verb = eq_method q, ob_url = wb_base wb @ ''/'' @ target @ dest,
                ob_headers = [(''Authorization'', ''Bearer '' @ the token)], ob_body = body_bytes (eq_body q)\<rparr>"
    using assms u tk t a v d size
    by (simp add: send_extension_api_request_def thenP_failIf thenP_eq_Inr [where m = "require_enabled_extension target (the user)", OF en'] Let_def outbound_since_def exchange_sends)
  obtain p r where "dest = p @ r" "startswith p ''/api/''" "''..'' \<notin> set (split_on CHR ''/'' (wb_unquote wb p))"
    "r = [] \<or> hd r = CHR ''?''"
    using d by (auto simp: extension_api_path_def Let_def split: option.splits if_splits)
  moreover have "target \<noteq> []" "list_all id_char target"
    using t by (auto simp: target_extension_id_def Let_def split: if_splits)
  moreover have "granted_extension policies target (eq_method q)"
    using a v by (auto simp: granted_extension_def require_method_access_def split: if_splits)
  moreover obtain usr where "user = Some usr" using u by (auto simp: truthy_def)
  ultimately show ?thesis using x en by auto
qed

end
