(* ===== verification/WasmGrants.thy ===== *)
theory WasmGrants
  imports WasmPermissions
begin

text \<open>
  Grants of permissions: what the host lets an extension do under the stored permissions is something the
  extension asked for. The host and the checker of a grant read a policy each in its own way; the lemmas below
  compare the two readings, one kind of permission at a time.
\<close>

section \<open>What a permission lets an extension do\<close>

datatype authority =
    Use string
  | Fetch string
  | CallExtension string string
  | ReadField string string
  | AppendField "string \<times> string \<times> string" string
  | AppendUpTo "string \<times> string \<times> string" int
  | InvoiceFrom "string \<times> string"
  | PublishUpTo int

definition outcome_has :: "exn + 'a \<Rightarrow> ('a \<Rightarrow> bool) \<Rightarrow> bool" where
  "outcome_has r P = (case r of Inl e \<Rightarrow> False | Inr x \<Rightarrow> P x)"

lemma outcome_has_simps [simp]: "outcome_has (Inr x) P = P x" "\<not> outcome_has (Inl e) P"
  by (simp_all add: outcome_has_def)

lemma outcome_has_iff: "outcome_has r P \<longleftrightarrow> (\<exists>x. r = Inr x \<and> P x)"
  by (cases r) auto

text \<open>The host's reading.\<close>

fun host_allows :: "url_parser \<Rightarrow> ext_permission list \<Rightarrow> authority \<Rightarrow> bool" where
  "host_allows urlparse ps (Use i) \<longleftrightarrow> i \<in> set (permission_ids ps)"
| "host_allows urlparse ps (Fetch origin) \<longleftrightarrow>
     outcome_has (allowed_origins urlparse (policy_list (permission_policies ps ''http.request''))) (\<lambda>os. origin \<in> set os)"
| "host_allows urlparse ps (CallExtension target access) \<longleftrightarrow> target \<noteq> [] \<and>
     outcome_has (target_extension_access (policy_list (permission_policies ps ''extension.api.request'')) target)
       (\<lambda>as. access \<in> set as)"
| "host_allows urlparse ps (ReadField table field) \<longleftrightarrow>
     outcome_has (public_storage_policy (permission_policies ps ''ext.storage.read_public'') table)
       (\<lambda>p. field \<in> set (tp_fields p))"
| "host_allows urlparse ps (AppendField target field) \<longleftrightarrow>
     list_ex (\<lambda>v. outcome_has (normalize_append_policy v) (\<lambda>p. target_of p = target \<and> field \<in> set (ap_allowed_fields p)))
       (policy_list (permission_policies ps ''ext.storage.append_public''))"
| "host_allows urlparse ps (AppendUpTo target n) \<longleftrightarrow>
     list_ex (\<lambda>v. outcome_has (normalize_append_policy v) (\<lambda>p. target_of p = target \<and> n \<le> ap_max_rows_per_source p))
       (policy_list (permission_policies ps ''ext.storage.append_public''))"
| "host_allows urlparse ps (InvoiceFrom source) \<longleftrightarrow>
     outcome_has (public_invoice_wallet_sources (permission_policies ps ''wallet.create_invoice_public''))
       (\<lambda>ss. source \<in> set ss)"
| "host_allows urlparse ps (PublishUpTo n) \<longleftrightarrow>
     outcome_has (max_messages_per_second (permission_policies ps ''websocket.publish'')) (\<lambda>m. n \<le> m)"

text \<open>What an extension asks for, as the checker reads it.\<close>

definition asked_policies :: "ext_permission list \<Rightarrow> string \<Rightarrow> jval list" where
  "asked_policies ps i = (case List.find (\<lambda>p. xp_id p = i) ps of None \<Rightarrow> [] | Some p \<Rightarrow> policy_list (xp_policies p))"

fun asks_for :: "url_parser \<Rightarrow> ext_permission list \<Rightarrow> authority \<Rightarrow> bool" where
  "asks_for urlparse ps (Use i) \<longleftrightarrow> i \<in> xp_id ` set ps"
| "asks_for urlparse ps (Fetch origin) \<longleftrightarrow>
     outcome_has (http_origins urlparse (asked_policies ps ''http.request'')) (\<lambda>os. origin \<in> set os)"
| "asks_for urlparse ps (CallExtension target access) \<longleftrightarrow>
     (case map_of (extension_api_targets [] (asked_policies ps ''extension.api.request'')) target of
        None \<Rightarrow> False | Some as \<Rightarrow> access \<in> set as)"
| "asks_for urlparse ps (ReadField table field) \<longleftrightarrow>
     (case map_of (public_storage_tables [] (asked_policies ps ''ext.storage.read_public'')) table of
        None \<Rightarrow> False | Some p \<Rightarrow> field \<in> set (tp_fields p))"
| "asks_for urlparse ps (AppendField target field) \<longleftrightarrow>
     (case map_of (public_storage_append_targets (asked_policies ps ''ext.storage.append_public'')) target of
        None \<Rightarrow> False | Some p \<Rightarrow> field \<in> set (ap_allowed_fields p))"
| "asks_for urlparse ps (AppendUpTo target n) \<longleftrightarrow>
     (case map_of (public_storage_append_targets (asked_policies ps ''ext.storage.append_public'')) target of
        None \<Rightarrow> False | Some p \<Rightarrow> n \<le> ap_max_rows_per_source p)"
| "asks_for urlparse ps (InvoiceFrom source) \<longleftrightarrow>
     source \<in> set (public_invoice_sources (asked_policies ps ''wallet.create_invoice_public''))"
| "asks_for urlparse ps (PublishUpTo n) \<longleftrightarrow>
     (case websocket_publish_policy (Some (asked_policies ps ''websocket.publish'')) of None \<Rightarrow> False | Some m \<Rightarrow> n \<le> m)"

section \<open>The two readings of a policy\<close>

lemma raised_origins_checked: "raised_origins urlparse ps = Inr os \<Longrightarrow> http_origins urlparse ps = Inr os"
proof (induction ps arbitrary: os)
  case (Cons p ps)
  then show ?case
    by (cases "policy_host p") (auto split: sum.splits simp: map_sum_def)
qed simp

lemma api_targets_stay: "map_of targets t = Some a \<Longrightarrow> map_of (extension_api_targets targets ps) t = Some a"
  by (induction targets ps rule: extension_api_targets.induct) (auto split: option.splits simp: map_add_def)

lemma target_access_checked:
  "target_access t ps = Inr a \<Longrightarrow> t \<noteq> [] \<Longrightarrow> map_of targets t = None
     \<Longrightarrow> map_of (extension_api_targets targets ps) t = Some a"
proof (induction ps arbitrary: targets)
  case (Cons p ps)
  show ?case
  proof (cases "api_policy p")
    case None
    with Cons show ?thesis
      by (auto simp: api_policy_def split: jval.splits)
  next
    case (Some x)
    obtain i l where x: "x = (i, l)" by (cases x)
    have step: "target_access t (p # ps) = (if i \<noteq> t then target_access t ps
        else if clean_access l \<noteq> [] then Inr (clean_access l)
        else Inl (PermissionError ''Extension API target is not allowed.''))"
      using Some x by (auto simp: api_policy_def Let_def split: jval.splits)
    show ?thesis
    proof (cases "i = t")
      case True
      with Cons.prems step Some x show ?thesis
        by (auto split: if_splits intro!: api_targets_stay simp: map_add_def)
    next
      case False
      with Cons step Some x show ?thesis by (auto simp: map_add_def)
    qed
  qed
qed simp

lemma storage_tables_stay: "map_of tables t = Some a \<Longrightarrow> map_of (public_storage_tables tables ps) t = Some a"
  by (induction tables ps rule: public_storage_tables.induct) (auto split: option.splits simp: map_add_def)

lemma host_policy_checked:
  "host_table_policy t ps = Inr a \<Longrightarrow> f \<in> set (tp_fields a) \<Longrightarrow> map_of tables t = None
     \<Longrightarrow> map_of (public_storage_tables tables ps) t = Some a"
proof (induction ps arbitrary: tables)
  case (Cons p ps)
  show ?case
  proof (cases p)
    case (JObj d)
    show ?thesis
    proof (cases "field_of d ''table_name'' = JStr t")
      case True
      then have "storage_policy p = Some (t, a)"
        using Cons.prems JObj by (auto simp: storage_policy_def split: jval.splits if_splits option.splits)
      then show ?thesis using Cons.prems by (auto intro!: storage_tables_stay simp: map_add_def)
    next
      case False
      then have other: "\<And>u q. storage_policy p = Some (u, q) \<Longrightarrow> u \<noteq> t"
        using JObj by (auto simp: storage_policy_def split: jval.splits if_splits option.splits)
      have rest: "host_table_policy t ps = Inr a" using Cons.prems False JObj by simp
      show ?thesis
      proof (cases "storage_policy p")
        case None then show ?thesis using Cons rest by simp
      next
        case (Some x)
        then show ?thesis using Cons rest other by (cases x) (auto simp: map_add_def)
      qed
    qed
  qed (use Cons in \<open>auto simp: storage_policy_def\<close>)
qed simp

lemma invoice_sources_checked: "invoice_wallet_sources ps = Inr ss \<Longrightarrow> set ss \<subseteq> set (public_invoice_sources ps)"
proof (induction ps arbitrary: ss)
  case (Cons p ps)
  show ?case
  proof (cases p)
    case (JObj d)
    with Cons.prems obtain t w rest where tw: "text_of (field_of d ''table'') = Some t"
      "text_of (field_of d ''wallet_field'') = Some w" "invoice_wallet_sources ps = Inr rest" "ss = (t, w) # rest"
      by (auto split: option.splits simp: map_sum_def split: sum.splits)
    then have "field_of d ''wallet_field'' = JStr w"
      by (cases "field_of d ''wallet_field''") (auto simp: text_of_def split: if_splits)
    then show ?thesis using Cons.IH [OF tw(3)] tw JObj
      by (auto simp: public_invoice_sources_def invoice_source_def map_filter_simps)
  qed (use Cons in auto)
qed simp

lemma append_target_checked:
  "normalize_append_policy v = Inr p \<Longrightarrow> storage_append_target v = Some q \<Longrightarrow> q = p"
  by (auto simp: normalize_append_policy_def storage_append_target_def split: jval.splits option.splits if_splits)

lemma publish_rate_checked:
  "max_messages_per_second ps = Inr m \<Longrightarrow> websocket_publish_policy ps = Some g \<Longrightarrow> m = g"
  by (auto simp: max_messages_per_second_def websocket_publish_policy_def
      split: list.splits jval.splits option.splits if_splits)

text \<open>A granted list with as many targets as policies has no invalid and no repeated policy.\<close>

lemma update_length: "length (AList.update k v d) \<le> Suc (length d)"
  "length (AList.update k v d) = Suc (length d) \<Longrightarrow> AList.update k v d = d @ [(k, v)]"
  by (induction d) (auto split: if_splits)

lemma collected:
  "length (foldl (\<lambda>d p. AList.update (k p) p d) d xs) \<le> length d + length xs"
  "length (foldl (\<lambda>d p. AList.update (k p) p d) d xs) = length d + length xs
     \<Longrightarrow> foldl (\<lambda>d p. AList.update (k p) p d) d xs = d @ map (\<lambda>p. (k p, p)) xs"
proof (induction xs arbitrary: d)
  case (Cons x xs)
  { case 1 show ?case using Cons.IH(1) [of "AList.update (k x) x d"] update_length(1) [of "k x" x d] by simp }
  { case 2
    then have "length (AList.update (k x) x d) = Suc (length d)"
      using Cons.IH(1) [of "AList.update (k x) x d"] update_length(1) [of "k x" x d] by simp
    from update_length(2) [OF this] show ?case using 2 Cons.IH(2) [of "d @ [(k x, x)]"] by simp }
qed simp_all

lemma map_filter_full: "length (List.map_filter f ps) \<le> length ps"
  "length (List.map_filter f ps) = length ps \<Longrightarrow> v \<in> set ps \<Longrightarrow> \<exists>y. f v = Some y \<and> y \<in> set (List.map_filter f ps)"
proof (induction ps)
  case (Cons p ps)
  { case 1 show ?case using Cons.IH(1) by (simp add: map_filter_simps split: option.split) }
  { case 2
    then show ?case using Cons by (cases "f p") (auto simp: map_filter_simps) }
qed (simp_all add: map_filter_simps)

lemma append_targets_complete:
  assumes "length (public_storage_append_targets ps) = length ps" "v \<in> set ps"
  shows "\<exists>p. storage_append_target v = Some p \<and> (target_of p, p) \<in> set (public_storage_append_targets ps)"
proof -
  let ?xs = "List.map_filter storage_append_target ps"
  have "length (public_storage_append_targets ps) \<le> length ?xs"
    using collected(1) [of target_of "[]" ?xs] by (simp add: public_storage_append_targets_def)
  then have full: "length ?xs = length ps" "length (public_storage_append_targets ps) = length ?xs"
    using assms(1) map_filter_full(1) [of storage_append_target ps] by simp_all
  then have "public_storage_append_targets ps = map (\<lambda>p. (target_of p, p)) ?xs"
    using collected(2) [of target_of "[]" ?xs] by (simp add: public_storage_append_targets_def)
  then show ?thesis using map_filter_full(2) [OF full(1) assms(2)] by force
qed

lemma append_grant_checked:
  assumes ok: "public_storage_append_grant_is_subset False requested granted"
    and v: "v \<in> set (policy_list granted)" "normalize_append_policy v = Inr p"
  shows "\<exists>r. map_of (public_storage_append_targets (policy_list requested)) (target_of p) = Some r
     \<and> set (ap_allowed_fields p) \<subseteq> set (ap_allowed_fields r) \<and> ap_max_rows_per_source p \<le> ap_max_rows_per_source r"
proof -
  let ?g = "public_storage_append_targets (policy_list granted)"
  have "length ?g = length (policy_list granted)"
    using ok by (simp add: public_storage_append_grant_is_subset_def Let_def)
  from append_targets_complete [OF this v(1)] obtain q where q: "storage_append_target v = Some q" "(target_of q, q) \<in> set ?g"
    by blast
  have "q = p" by (rule append_target_checked [OF v(2) q(1)])
  with q(2) ok show ?thesis
    by (auto simp: public_storage_append_grant_is_subset_def Let_def list_all_iff split: option.splits dest!: bspec)
qed

section \<open>The stored permissions\<close>

lemma effective_member:
  assumes "effective_permissions urlparse ov rs gs = Inr eff" "p \<in> set eff"
  shows "\<exists>i r g. (i, g) \<in> set gs \<and> map_of rs i = Some r \<and> permission_grant_is_subset urlparse ov r g = Inr True
     \<and> p = r\<lparr>xp_policies := xp_policies g\<rparr>"
  using assms
proof (induction urlparse ov rs gs arbitrary: eff rule: effective_permissions.induct)
  case (2 urlparse ov rs i g gs)
  from "2.prems" obtain r rest where r: "map_of rs i = Some r" "permission_grant_is_subset urlparse ov r g = Inr True"
    "effective_permissions urlparse ov rs gs = Inr rest" "eff = r\<lparr>xp_policies := xp_policies g\<rparr> # rest"
    by (auto split: option.splits sum.splits if_splits simp: map_sum_def)
  show ?case
  proof (cases "p \<in> set rest")
    case True
    have "\<not> \<not> True" by simp
    from "2.IH" [OF r(1) r(2) this r(3) True] obtain j q h where "(j, h) \<in> set gs \<and> map_of rs j = Some q
      \<and> permission_grant_is_subset urlparse ov q h = Inr True \<and> p = q\<lparr>xp_policies := xp_policies h\<rparr>" by blast
    then show ?thesis by (intro exI [of _ j] exI [of _ q] exI [of _ h]) simp
  next
    case False
    then show ?thesis using "2.prems"(2) r by auto
  qed
qed simp

lemma map_of_indexed:
  "distinct (map xp_id rs) \<Longrightarrow> map_of (map (\<lambda>p. (xp_id p, p)) rs) i = Some r
     \<longleftrightarrow> r \<in> set rs \<and> xp_id r = i"
  by (induction rs) (auto simp: image_iff)

lemma asked_policies_unique:
  "distinct (map xp_id rs) \<Longrightarrow> r \<in> set rs \<Longrightarrow> asked_policies rs (xp_id r) = policy_list (xp_policies r)"
proof (induction rs)
  case (Cons x xs)
  then show ?case by (auto simp: asked_policies_def image_iff)
qed simp

lemma stored_policies_from:
  assumes "permission_policies ps i = Some l"
  shows "\<exists>p \<in> set ps. xp_id p = i \<and> xp_policies p = Some l"
  using map_of_SomeD [OF assms [unfolded permission_policies_def]]
  by (auto simp: map_filter_def split: if_splits)

text \<open>What a successful validation says about one stored permission.\<close>

lemma validated:
  assumes v: "validate_wasm_extension_permissions urlparse granted (Some (Inr asked)) ov = Inr eff"
    and p: "p \<in> set eff"
  shows "\<exists>r. r \<in> set asked \<and> xp_id r = xp_id p \<and> asked_policies asked (xp_id p) = policy_list (xp_policies r)
     \<and> permission_grant_is_subset urlparse ov r p = Inr True"
proof -
  have "asked \<noteq> []" using v p by (auto simp: validate_wasm_extension_permissions_def validate_extension_permissions_def
      split: sum.splits if_splits)
  with v obtain gs where gs: "distinct (map xp_id asked)" "distinct (map xp_id gs)"
    "effective_permissions urlparse ov (map (\<lambda>p. (xp_id p, p)) asked) (map (\<lambda>p. (xp_id p, p)) gs) = Inr eff"
    by (auto simp: validate_wasm_extension_permissions_def validate_extension_permissions_def permission_index_def Let_def
        split: sum.splits if_splits option.splits)
  from effective_member [OF gs(3) p] obtain i r g where m: "(i, g) \<in> set (map (\<lambda>p. (xp_id p, p)) gs)"
    "map_of (map (\<lambda>p. (xp_id p, p)) asked) i = Some r" "permission_grant_is_subset urlparse ov r g = Inr True"
    "p = r\<lparr>xp_policies := xp_policies g\<rparr>" by blast
  then have r: "r \<in> set asked" "xp_id r = i" "xp_id g = i" using map_of_indexed [OF gs(1)] by auto
  then have "permission_grant_is_subset urlparse ov r p = Inr True"
    using m by (simp add: permission_grant_is_subset_def Let_def)
  then show ?thesis using r m asked_policies_unique [OF gs(1) r(1)] by auto
qed

text \<open>The policies the host reads were checked against those that were asked for.\<close>

lemma checked_policies:
  assumes v: "validate_wasm_extension_permissions urlparse granted (Some (Inr asked)) ov = Inr eff"
    and l: "policy_list (permission_policies eff i) \<noteq> []"
  obtains r p where "r \<in> set asked" "xp_id r = i" "xp_id p = i" "asked_policies asked i = policy_list (xp_policies r)"
    "xp_policies p = permission_policies eff i" "permission_grant_is_subset urlparse ov r p = Inr True"
proof -
  from l obtain ps where "permission_policies eff i = Some ps" by (cases "permission_policies eff i") (auto simp: policy_list_def)
  from stored_policies_from [OF this] obtain p where p: "p \<in> set eff" "xp_id p = i" "xp_policies p = Some ps" by blast
  from validated [OF v p(1)] obtain r where "r \<in> set asked" "xp_id r = xp_id p"
    "asked_policies asked (xp_id p) = policy_list (xp_policies r)" "permission_grant_is_subset urlparse ov r p = Inr True" by blast
  then show thesis using p \<open>permission_policies eff i = Some ps\<close> by (intro that [of r p]) auto
qed

section \<open>Kind by kind\<close>

lemma policies_nonempty:
  "outcome_has (allowed_origins urlparse ps) P \<Longrightarrow> ps \<noteq> []"
  "outcome_has (target_extension_access ps t) Q \<Longrightarrow> ps \<noteq> []"
  "outcome_has (public_storage_policy ol t) R \<Longrightarrow> policy_list ol \<noteq> []"
  "outcome_has (public_invoice_wallet_sources ol) S \<Longrightarrow> policy_list ol \<noteq> []"
  "outcome_has (max_messages_per_second ol) T \<Longrightarrow> policy_list ol \<noteq> []"
  by (auto simp: allowed_origins_def target_extension_access_def public_storage_policy_def
      public_invoice_wallet_sources_def max_messages_per_second_def)

abbreviation stored ::
  "url_parser \<Rightarrow> ext_permission list option \<Rightarrow> ext_permission list \<Rightarrow> ext_permission list \<Rightarrow> bool" where
  "stored urlparse granted asked eff \<equiv>
     validate_wasm_extension_permissions urlparse granted (Some (Inr asked)) False = Inr eff"

lemma fetch_asked:
  assumes v: "stored urlparse granted asked eff" and h: "host_allows urlparse eff (Fetch origin)"
  shows "asks_for urlparse asked (Fetch origin)"
proof -
  have h': "outcome_has (allowed_origins urlparse (policy_list (permission_policies eff ''http.request''))) (\<lambda>os. origin \<in> set os)"
    using h by simp
  from checked_policies [OF v policies_nonempty(1) [OF h']] obtain r p where rp: "xp_id r = ''http.request''"
    "xp_id p = ''http.request''" "asked_policies asked ''http.request'' = policy_list (xp_policies r)"
    "xp_policies p = permission_policies eff ''http.request''" "permission_grant_is_subset urlparse False r p = Inr True" .
  from h' obtain os where "raised_origins urlparse (policy_list (xp_policies p)) = Inr os" "origin \<in> set os"
    unfolding rp(4) by (auto simp: outcome_has_iff allowed_origins_def split: if_splits sum.splits)
  with rp show ?thesis
    by (auto simp: permission_grant_is_subset_def policy_aware_permission_ids_def http_request_grant_is_subset_def Let_def
        split: sum.splits dest!: raised_origins_checked)
qed

lemma call_asked:
  assumes v: "stored urlparse granted asked eff" and h: "host_allows urlparse eff (CallExtension target access)"
  shows "asks_for urlparse asked (CallExtension target access)"
proof -
  have h': "outcome_has (target_extension_access (policy_list (permission_policies eff ''extension.api.request'')) target)
      (\<lambda>as. access \<in> set as)" and t: "target \<noteq> []"
    using h by simp_all
  from checked_policies [OF v policies_nonempty(2) [OF h']] obtain r p where rp: "xp_id r = ''extension.api.request''"
    "xp_id p = ''extension.api.request''" "asked_policies asked ''extension.api.request'' = policy_list (xp_policies r)"
    "xp_policies p = permission_policies eff ''extension.api.request''"
    "permission_grant_is_subset urlparse False r p = Inr True" .
  from h' obtain as where "target_access target (policy_list (xp_policies p)) = Inr as" "access \<in> set as"
    unfolding rp(4) by (auto simp: outcome_has_iff target_extension_access_def split: if_splits)
  with t have "(target, as) \<in> set (extension_api_targets [] (policy_list (xp_policies p)))"
    using target_access_checked [of target "policy_list (xp_policies p)" as "[]"] by (simp add: map_of_SomeD)
  with rp \<open>access \<in> set as\<close> show ?thesis
    by (auto simp: permission_grant_is_subset_def policy_aware_permission_ids_def extension_api_grant_is_subset_def Let_def
        list_all_iff split: option.splits dest!: bspec)
qed

lemma read_asked:
  assumes v: "stored urlparse granted asked eff" and h: "host_allows urlparse eff (ReadField table field)"
  shows "asks_for urlparse asked (ReadField table field)"
proof -
  have h': "outcome_has (public_storage_policy (permission_policies eff ''ext.storage.read_public'') table)
      (\<lambda>p. field \<in> set (tp_fields p))"
    using h by simp
  from checked_policies [OF v policies_nonempty(3) [OF h']] obtain r p where rp: "xp_id r = ''ext.storage.read_public''"
    "xp_id p = ''ext.storage.read_public''" "asked_policies asked ''ext.storage.read_public'' = policy_list (xp_policies r)"
    "xp_policies p = permission_policies eff ''ext.storage.read_public''"
    "permission_grant_is_subset urlparse False r p = Inr True" .
  from h' obtain a where "host_table_policy table (policy_list (xp_policies p)) = Inr a" "field \<in> set (tp_fields a)"
    unfolding rp(4) by (auto simp: outcome_has_iff public_storage_policy_def split: if_splits)
  then have "(table, a) \<in> set (public_storage_tables [] (policy_list (xp_policies p)))"
    using host_policy_checked [of table "policy_list (xp_policies p)" a field "[]"] by (simp add: map_of_SomeD)
  with rp \<open>field \<in> set (tp_fields a)\<close> show ?thesis
    by (auto simp: permission_grant_is_subset_def policy_aware_permission_ids_def public_storage_grant_is_subset_def Let_def
        list_all_iff table_policy_within_def split: option.splits dest!: bspec)
qed

lemma append_asked:
  assumes v: "stored urlparse granted asked eff"
    and h: "outcome_has (normalize_append_policy w) (\<lambda>p. target_of p = target \<and> P p)"
      "w \<in> set (policy_list (permission_policies eff ''ext.storage.append_public''))"
  shows "\<exists>r q. map_of (public_storage_append_targets (asked_policies asked ''ext.storage.append_public'')) target = Some r
     \<and> P q \<and> set (ap_allowed_fields q) \<subseteq> set (ap_allowed_fields r) \<and> ap_max_rows_per_source q \<le> ap_max_rows_per_source r"
proof -
  have "policy_list (permission_policies eff ''ext.storage.append_public'') \<noteq> []" using h(2) by auto
  from checked_policies [OF v this] obtain r p where rp: "xp_id r = ''ext.storage.append_public''"
    "xp_id p = ''ext.storage.append_public''"
    "asked_policies asked ''ext.storage.append_public'' = policy_list (xp_policies r)"
    "xp_policies p = permission_policies eff ''ext.storage.append_public''"
    "permission_grant_is_subset urlparse False r p = Inr True" .
  then have ok: "public_storage_append_grant_is_subset False (xp_policies r) (xp_policies p)"
    by (simp add: permission_grant_is_subset_def policy_aware_permission_ids_def Let_def)
  from h(1) obtain q where q: "normalize_append_policy w = Inr q" "target_of q = target" "P q"
    by (auto simp: outcome_has_iff)
  show ?thesis using append_grant_checked [OF ok _ q(1)] h(2) q rp by auto
qed

lemma invoice_asked:
  assumes v: "stored urlparse granted asked eff" and h: "host_allows urlparse eff (InvoiceFrom source)"
  shows "asks_for urlparse asked (InvoiceFrom source)"
proof -
  have h': "outcome_has (public_invoice_wallet_sources (permission_policies eff ''wallet.create_invoice_public''))
      (\<lambda>ss. source \<in> set ss)"
    using h by simp
  from checked_policies [OF v policies_nonempty(4) [OF h']] obtain r p where rp: "xp_id r = ''wallet.create_invoice_public''"
    "xp_id p = ''wallet.create_invoice_public''"
    "asked_policies asked ''wallet.create_invoice_public'' = policy_list (xp_policies r)"
    "xp_policies p = permission_policies eff ''wallet.create_invoice_public''"
    "permission_grant_is_subset urlparse False r p = Inr True" .
  from h' obtain ss where "invoice_wallet_sources (policy_list (xp_policies p)) = Inr ss" "source \<in> set ss"
    unfolding rp(4) by (auto simp: outcome_has_iff public_invoice_wallet_sources_def split: if_splits)
  with rp show ?thesis
    by (auto simp: permission_grant_is_subset_def policy_aware_permission_ids_def public_invoice_grant_is_subset_def Let_def
        dest!: invoice_sources_checked)
qed

lemma publish_asked:
  assumes v: "stored urlparse granted asked eff" and h: "host_allows urlparse eff (PublishUpTo n)"
  shows "asks_for urlparse asked (PublishUpTo n)"
proof -
  have h': "outcome_has (max_messages_per_second (permission_policies eff ''websocket.publish'')) (\<lambda>m. n \<le> m)"
    using h by simp
  from checked_policies [OF v policies_nonempty(5) [OF h']] obtain r p where rp: "xp_id r = ''websocket.publish''"
    "xp_id p = ''websocket.publish''" "asked_policies asked ''websocket.publish'' = policy_list (xp_policies r)"
    "xp_policies p = permission_policies eff ''websocket.publish''"
    "permission_grant_is_subset urlparse False r p = Inr True" .
  from rp(5) rp(1,2) have ok: "websocket_publish_grant_is_subset False (xp_policies r) (xp_policies p)"
    by (simp add: permission_grant_is_subset_def policy_aware_permission_ids_def Let_def)
  from h' obtain m where m: "max_messages_per_second (xp_policies p) = Inr m" "n \<le> m"
    unfolding rp(4) by (auto simp: outcome_has_iff)
  have same: "websocket_publish_policy (Some (policy_list ps)) = websocket_publish_policy ps" for ps
    by (simp add: websocket_publish_policy_def policy_list_def split: option.split)
  from ok m publish_rate_checked [OF m(1)] show ?thesis
    by (auto simp: websocket_publish_grant_is_subset_def rp(3) same split: option.splits)
qed

end
