(* ===== verification/LnurlFacts.thy ===== *)
theory LnurlFacts
  imports LnurlService
begin

text \<open>
  Where requests to LNURL services go and how many there are, and what an invoice fetched for a pay link is worth.
\<close>

section \<open>The target of a request\<close>

text \<open>A request goes to an address that was checked, or through Tor to a name of the onion network.\<close>

definition target_allowed :: "lnurl_lib \<Rightarrow> lnurl_request \<Rightarrow> bool" where
  "target_allowed L q \<longleftrightarrow> (case lq_ip q of
      Some ip \<Rightarrow> lq_proxy q = None \<and> (ll_private_ips L \<or> ll_global L ip)
    | None \<Rightarrow> truthy (lq_proxy q) \<and> (\<exists>h. lq_sni q = Some h \<and> endswith (rstrip_dots (lower h)) ''.onion''))"

definition sent_within :: "lnurl_lib \<Rightarrow> lnurl_state \<Rightarrow> lnurl_state \<Rightarrow> bool" where
  "sent_within L s t \<longleftrightarrow> (\<exists>new. snd t = snd s @ new \<and> list_all (target_allowed L) new)"

lemma sent_within_refl [simp]: "sent_within L s s"
  by (simp add: sent_within_def)

lemma sent_within_add:
  "sent_within L s t \<Longrightarrow> target_allowed L q \<Longrightarrow> sent_within L s (map_prod id (\<lambda>sent. sent @ [q]) t)"
  by (auto simp: sent_within_def)

lemma keeps_on_world [keeps_intro]: "keeps (sent_within L s) (on_world m)"
  by (auto simp: keeps_def on_world_def sent_within_def split: prod.splits)

lemma keeps_try_requests:
  "list_all (target_allowed L) qs \<Longrightarrow> keeps (sent_within L s) (try_lnurl_requests L qs)"
  by (induction qs) (auto intro!: keeps_intro sent_within_add)

lemma target_addresses_checked:
  assumes "target_addresses L scheme host port = Inr ips" and "ip \<in> set ips"
  shows "ll_private_ips L \<or> ll_global L ip"
  using assms by (auto simp: target_addresses_def list_ex_iff split: sum.splits option.splits if_splits)

lemma validated_cases:
  assumes "validate_lnurl_request_url L url tor = Inr (ips, proxy)"
  obtains (onion) u h where "ll_urlparse L url = Some u" "pu_hostname u = Some h"
      "endswith (rstrip_dots (lower h)) ''.onion''" "ips = []" "truthy proxy"
  | (checked) scheme host port where "target_addresses L scheme host port = Inr ips" "proxy = None"
  using assms
  by (fastforce simp: validate_lnurl_request_url_def orElse_def Let_def map_sum_def truthy_def
      split: option.splits if_splits sum.splits)

lemma validated_targets:
  assumes "validate_lnurl_request_url L url tor = Inr (ips, proxy)"
  shows "list_all (target_allowed L)
           (if truthy proxy then [lnurl_request_to L url None proxy]
            else map (\<lambda>ip. lnurl_request_to L url (Some ip) None) ips)"
  using assms
proof (cases rule: validated_cases)
  case checked
  with target_addresses_checked show ?thesis by (auto simp: target_allowed_def lnurl_request_to_def list_all_iff)
qed (simp add: target_allowed_def lnurl_request_to_def)

lemma keeps_bind_liftE: "(\<And>x. e = Inr x \<Longrightarrow> keeps P (k x)) \<Longrightarrow> keeps P (bindP (liftE e) k)"
  by (cases e) (auto intro: keeps_intro)

lemma keeps_send: 
  "validate_lnurl_request_url L url tor = Inr (ips, proxy) \<Longrightarrow> keeps (sent_within L s) (send_lnurl_request L url ips proxy)"
  unfolding send_lnurl_request_def by (rule keeps_try_requests) (rule validated_targets)

lemma keeps_nat_case: "keeps P m \<Longrightarrow> (\<And>k. n = Suc k \<Longrightarrow> keeps P (f k)) \<Longrightarrow> keeps P (case n of 0 \<Rightarrow> m | Suc k \<Rightarrow> f k)"
  by (cases n) auto

lemma keeps_json_case:
  "(\<And>d. keeps P (f d)) \<Longrightarrow> keeps P m \<Longrightarrow> keeps P (case v of JObj d \<Rightarrow> f d | _ \<Rightarrow> m)"
  by (auto split: jval.splits)

lemma keeps_follow: "keeps (sent_within L s) (follow_lnurl L tor n url)"
proof (induction n arbitrary: url)
  case 0
  show ?case
    by (subst follow_lnurl.simps)
      (auto intro!: keeps_bind_liftE keeps_bindP keeps_json_case keeps_case_option keeps_if keeps_throw keeps_ret keeps_send split: prod.split)
next
  case (Suc n)
  show ?case
    by (subst follow_lnurl.simps)
      (auto intro!: keeps_bind_liftE keeps_bindP keeps_json_case keeps_if keeps_throw keeps_ret keeps_send
          keeps_case_option keeps_liftE Suc.IH split: prod.split)
qed

lemma keeps_get [keeps_intro]: "keeps (sent_within L s) (lnurl_get L cls tor url params)"
  unfolding lnurl_get_def request_lnurl_json_def by (auto intro!: keeps_intro keeps_follow)

lemma keeps_response_case [keeps_intro]:
  assumes "\<And>x. keeps P (a x)" "\<And>x. keeps P (b x)" "\<And>x. keeps P (c x)" "\<And>x. keeps P (d x)" "\<And>x. keeps P (e x)"
    "keeps P f" "keeps P g"
  shows "keeps P (case r of LPay x \<Rightarrow> a x | LAction x \<Rightarrow> b x | LWithdraw x \<Rightarrow> c x | LAuth x \<Rightarrow> d x | LError x \<Rightarrow> e x
                   | LSuccess \<Rightarrow> f | LOther \<Rightarrow> g)"
  using assms by (cases r) auto

lemma keeps_raise [keeps_intro]: "(\<And>e. \<exists>d. h e = throw d) \<Longrightarrow> keeps P m \<Longrightarrow> keeps P (tryP m h)"
  by (rule keeps_tryP) (metis keeps_throw)+

lemma keeps_handle [keeps_intro]: "keeps (sent_within L s) (lnurl_handle L cls tor code)"
  unfolding lnurl_handle_def invalid_lnurl_def
  by (auto intro!: keeps_intro split: exn.split option.split)

lemma keeps_execute_pay [keeps_intro]: "keeps (sent_within L s) (execute_pay_request ev L tor res msat comment)"
  unfolding execute_pay_request_def Let_def by (auto intro!: keeps_intro)

lemma keeps_execute_withdraw [keeps_intro]: "keeps (sent_within L s) (execute_withdraw ev L tor res pr)"
  unfolding execute_withdraw_def Let_def by (auto intro!: keeps_intro)

lemma keeps_login [keeps_intro]: "keeps (sent_within L s) (execute_login L tor res seed msg)"
  unfolding execute_login_def Let_def by (auto intro!: keeps_intro)

lemma keeps_perform_withdraw [keeps_intro]: "keeps (sent_within L s) (perform_withdraw ev L code pr)"
  unfolding perform_withdraw_def by (auto intro!: keeps_intro split: exn.split sum.split)

lemma keeps_get_pr [keeps_intro]: "keeps (sent_within L s) (get_pr_from_lnurl ev L code msat comment)"
  unfolding get_pr_from_lnurl_def by (auto intro!: keeps_intro)

lemma keeps_fetch [keeps_intro]: "keeps (sent_within L s) (fetch_lnurl_pay_request ev L d w)"
  unfolding fetch_lnurl_pay_request_def resolve_pay_link_def by (auto intro!: keeps_intro)

lemma keeps_bad_request [keeps_intro]: "keeps P m \<Longrightarrow> keeps P (lnurl_bad_request classes m)"
  unfolding lnurl_bad_request_def by (auto intro!: keeps_intro split: exn.split)

lemma keeps_pay_lnurl: "keeps (sent_within L s) (api_payments_pay_lnurl ev cfg L d w)"
  unfolding api_payments_pay_lnurl_def by (auto intro!: keeps_intro)

lemma keeps_scan: "keeps (sent_within L s) (api_lnurlscan L code)"
  unfolding api_lnurlscan_def api_handle_def by (auto intro!: keeps_intro)

lemma keeps_auth: "keeps (sent_within L s) (api_perform_lnurlauth L d w)"
  unfolding api_perform_lnurlauth_def by (auto intro!: keeps_intro)

lemma keeps_nfc: "keeps (sent_within L s) (api_payment_pay_with_nfc ev L pr lud17)"
  unfolding api_payment_pay_with_nfc_def by (auto intro!: keeps_intro)

section \<open>How many requests there are\<close>

definition adds :: "nat \<Rightarrow> (lnurl_state, 'a) py \<Rightarrow> bool" where
  "adds k m \<longleftrightarrow> (\<forall>s. length (snd (snd (m s))) \<le> length (snd s) + k)"

lemma addsD: "adds k m \<Longrightarrow> length (snd (snd (m s))) \<le> length (snd s) + k"
  unfolding adds_def by blast

lemma adds_pure: "adds k (ret x)" "adds k (throw e)"
  by (simp_all add: adds_def py_unfold)

lemma adds_liftE: "(\<And>x. e = Inr x \<Longrightarrow> adds k (f x)) \<Longrightarrow> adds k (bindP (liftE e) f)"
  by (cases e) (auto simp: adds_pure)

lemma adds_bind:
  assumes "adds a m" and "\<And>x. adds b (f x)"
  shows "adds (a + b) (bindP m f)"
proof (unfold adds_def, rule allI)
  fix s
  obtain r t where m: "m s = (r, t)" by (cases "m s")
  then have "length (snd t) \<le> length (snd s) + a" using addsD [OF assms(1), of s] by simp
  then show "length (snd (snd (bindP m f s))) \<le> length (snd s) + (a + b)"
    using m addsD [OF assms(2), of _ t] by (cases r) (fastforce simp: bindP_def intro: order.trans)+
qed

lemma adds_last: "adds k m \<Longrightarrow> (\<And>x. adds 0 (f x)) \<Longrightarrow> adds k (bindP m f)"
  using adds_bind [of k m 0 f] by simp

lemma adds_if: "adds k m \<Longrightarrow> adds k n \<Longrightarrow> adds k (if b then m else n)"
  by simp

lemma adds_option: "adds k m \<Longrightarrow> (\<And>x. adds k (f x)) \<Longrightarrow> adds k (case v of None \<Rightarrow> m | Some x \<Rightarrow> f x)"
  by (cases v) auto

lemma adds_json: "(\<And>d. adds k (f d)) \<Longrightarrow> adds k m \<Longrightarrow> adds k (case v of JObj d \<Rightarrow> f d | _ \<Rightarrow> m)"
  by (auto split: jval.splits)

lemma try_requests_count: "adds (length qs) (try_lnurl_requests L qs)"
proof (induction qs)
  case (Cons q qs)
  have "length (snd (snd (try_lnurl_requests L (q # qs) s))) \<le> length (snd s) + length (q # qs)" for s
    using addsD [OF Cons.IH, of "map_prod id (\<lambda>sent. sent @ [q]) s"]
    by (auto simp: py_unfold bindP_def split: option.splits sum.splits)
  then show ?case by (simp add: adds_def)
qed (simp add: adds_pure)

definition resolver_bound :: "lnurl_lib \<Rightarrow> nat \<Rightarrow> bool" where
  "resolver_bound L k \<longleftrightarrow> 0 < k \<and> (\<forall>host port ips. ll_resolve L host port = Some ips \<longrightarrow> length ips \<le> k)"

lemma target_addresses_bound:
  assumes bound: "resolver_bound L k" and found: "target_addresses L scheme host port = Inr ips"
  shows "length ips \<le> k"
proof (cases "ll_literal L host")
  case None
  with found obtain all where "ll_resolve L host port = Some all" "ips = remdups all"
    by (auto simp: target_addresses_def resolve_lnurl_host_def split: option.splits sum.splits if_splits)
  with bound length_remdups_leq [of all] show ?thesis unfolding resolver_bound_def by (blast intro: order.trans)
next
  case (Some ip)
  with found have "ips = [ip]" by (auto simp: target_addresses_def split: if_splits)
  with bound show ?thesis by (simp add: resolver_bound_def)
qed

lemma send_bound:
  assumes "resolver_bound L k" and "validate_lnurl_request_url L url tor = Inr (ips, proxy)"
  shows "adds k (send_lnurl_request L url ips proxy)"
proof -
  have "length (if truthy proxy then [lnurl_request_to L url None proxy]
                else map (\<lambda>ip. lnurl_request_to L url (Some ip) None) ips) \<le> k"
    using assms(2)
  proof (cases rule: validated_cases)
    case onion
    then show ?thesis using assms(1) by (simp add: resolver_bound_def)
  next
    case checked
    then show ?thesis using target_addresses_bound [OF assms(1)] by simp
  qed
  with try_requests_count show ?thesis
    unfolding send_lnurl_request_def adds_def by (meson add_left_mono order.trans)
qed

lemma follow_count:
  assumes "resolver_bound L k"
  shows "adds (k + n * k) (follow_lnurl L tor n url)"
proof (induction n arbitrary: url)
  case 0
  show ?case
    by (subst follow_lnurl.simps)
      (auto intro!: adds_liftE adds_last adds_json adds_option adds_if adds_pure send_bound [OF assms] split: prod.split)
next
  case (Suc n)
  show ?case
    by (subst follow_lnurl.simps)
      (auto intro!: adds_liftE adds_bind adds_json adds_option adds_if adds_pure send_bound [OF assms] Suc.IH
          split: prod.split)
qed

section \<open>What a fetched invoice is worth\<close>

lemma execute_pay_amount:
  assumes "execute_pay_request ev L tor res msat comment s = (Inr action, t)"
  shows "py_min res \<le> msat \<and> msat \<le> py_max res
         \<and> (\<exists>invoice. e_decode ev (pa_pr action) = Some invoice \<and> di_amount_msat invoice = Some msat)"
proof -
  have range: "py_min res \<le> msat" "msat \<le> py_max res"
    using assms by (auto simp: execute_pay_request_def Let_def py_unfold split: if_splits)
  obtain params r u where
    "(case r of LError reason \<Rightarrow> throw (LnurlResponseException reason)
      | LAction a \<Rightarrow> (case e_decode ev (pa_pr a) of
            None \<Rightarrow> throw (LnurlResponseException ''Invalid invoice in LNURL response.'')
          | Some invoice \<Rightarrow>
              if di_amount_msat invoice \<noteq> Some msat
              then throw (LnurlResponseException ''LNURL service returned an invalid invoice amount.'')
              else ret a)
      | _ \<Rightarrow> throw (LnurlResponseException ''Invalid LNURL-pay response.'')) u = (Inr action, t)"
    and "lnurl_get L None tor (py_callback res) params s = (Inr r, u)"
    using assms unfolding execute_pay_request_def Let_def
    by (simp only: bindP_Inr_iff py_unfold Pair_inject sum.distinct simp_thms split: if_split_asm) blast+
  then show ?thesis using range by (cases r) (auto simp: py_unfold split: option.splits if_splits)
qed

lemma fetch_amount:
  assumes "fetch_lnurl_pay_request ev L d w s = (Inr (res, action), t)"
  shows "\<exists>msat invoice. pay_amount_msat ev d = Inr msat \<and> py_min res \<le> msat \<and> msat \<le> py_max res
           \<and> e_decode ev (pa_pr action) = Some invoice \<and> di_amount_msat invoice = Some msat"
proof -
  from assms obtain msat s1 s2 where "pay_amount_msat ev d = Inr msat"
    and "execute_pay_request ev L None res msat (cl_comment d) s1 = (Inr action, s2)"
    by (auto simp: fetch_lnurl_pay_request_def bindP_Inr_iff thenP_def py_unfold)
  with execute_pay_amount show ?thesis by blast
qed

end
