(* ===== verification/WasmProperties.thy ===== *)
theory WasmProperties
  imports WasmHostFacts WasmGrants WasmMigrations LnurlFacts Demo
begin

text \<open>
  The properties of the web assembly extensions and of the LNURL client, each on a concrete extension or service.
\<close>

section \<open>A small extension and a small service\<close>

definition demo_urlparse :: url_parser where
  "demo_urlparse url =
     (if url \<in> {''https://api.example'', ''https://api.example/rate''}
      then Some \<lparr>pu_scheme = ''https'', pu_username = None, pu_password = None, pu_hostname = Some ''api.example'',
                 pu_port = Some None\<rparr>
      else None)"

definition demo_permissions :: "ext_permission list" where
  "demo_permissions =
     [\<lparr>xp_id = ''http.request'', xp_description = None, xp_policies = Some [JStr ''https://api.example'']\<rparr>,
      \<lparr>xp_id = ''extension.api.request'', xp_description = None,
       xp_policies = Some [JObj [(''id'', JStr ''shop''), (''access'', JList [JStr ''read''])]]\<rparr>,
      \<lparr>xp_id = ''ext.storage.write'', xp_description = None, xp_policies = None\<rparr>,
      \<lparr>xp_id = ''wallet.pay_invoice_background'', xp_description = None, xp_policies = None\<rparr>]"

definition demo_web :: web where
  "demo_web =
     \<lparr>wb_urlparse = demo_urlparse, wb_address = (\<lambda>h. None), wb_resolve = (\<lambda>h. Some [True]),
      wb_fetch = (\<lambda>x. Some \<lparr>hr_status = 200, hr_headers = [], hr_encoding = None, hr_chunks = []\<rparr>),
      wb_decode = (\<lambda>e b. []),
      wb_urlsplit = (\<lambda>p. Some \<lparr>sp_scheme = [], sp_netloc = [], sp_path = p, sp_query = [], sp_fragment = []\<rparr>),
      wb_unquote = (\<lambda>p. p), wb_base = ''http://127.0.0.1:5000''\<rparr>"

definition demo_field :: "string \<Rightarrow> string \<Rightarrow> jval" where
  "demo_field name t = JObj [(''name'', JStr name), (''type'', JStr t)]"

definition demo_schema :: jval where
  "demo_schema = JObj [(''tables'', JObj [(''votes'',
     JObj [(''fields'', JList [demo_field ''id'' ''string'', demo_field ''points'' ''integer''])])])]"

definition demo_storage :: storage_env where
  "demo_storage =
     \<lparr>se_schema = (\<lambda>ext. if ext = ''polls'' then Some demo_schema else None), se_loads = (\<lambda>s. None),
      se_like = (\<lambda>v p. False), se_order = (\<lambda>k d rs. rs)\<rparr>"

definition demo_store :: store where
  "demo_store =
     \<lparr>so_tables = [((''polls'', ''votes''),
        \<lparr>st_columns = [\<lparr>co_name = ''id'', co_nullable = False, co_default = None\<rparr>,
                       \<lparr>co_name = ''points'', co_nullable = False, co_default = None\<rparr>],
         st_rows = []\<rparr>)], so_versions = []\<rparr>"

definition demo_lnurl :: lnurl_lib where
  "demo_lnurl =
     \<lparr>ll_address = (\<lambda>c. None), ll_lnurl = (\<lambda>c. None),
      ll_from_dict = (\<lambda>d. Some (LAction \<lparr>pa_pr = ''lnh2'', pa_disposable = None, pa_success_action = None\<rparr>)),
      ll_login = (\<lambda>a b c. ([], [])), ll_login_signed = (\<lambda>a b c. ([], [])), ll_url = Some, ll_merge = (\<lambda>u ps. u),
      ll_with_host = (\<lambda>u h. u), ll_join = (\<lambda>u v. v), ll_urlparse = demo_urlparse, ll_netloc = (\<lambda>u. ''api.example''),
      ll_literal = (\<lambda>h. None), ll_resolve = (\<lambda>h p. Some [''93.184.216.34'']), ll_global = (\<lambda>ip. True),
      ll_fetch = (\<lambda>q. Some \<lparr>lr_status = 200, lr_location = None, lr_chunks = []\<rparr>),
      ll_loads = (\<lambda>b. Some (JObj [])), ll_fullmatch = (\<lambda>r s. Some False), ll_private_ips = False,
      ll_redirect_rules = [], ll_callback_rules = []\<rparr>"

definition demo_host :: host_env where
  "demo_host =
     \<lparr>he_ev = demo_env, he_cfg = demo_settings\<lparr>lnbits_service_fee_wallet := None\<rparr>, he_storage = demo_storage, he_web = demo_web, he_lnurl = demo_lnurl,
      he_broken = (\<lambda>n. False), he_monotonic = 0, he_fresh = (\<lambda>s. ''f''), he_token = (\<lambda>s. ''t''),
      he_random = (\<lambda>n. []), he_sha256 = (\<lambda>b. b), he_currencies = [], he_up_time = []\<rparr>"

definition demo_wasm :: wasm_world where
  "demo_wasm =
     \<lparr>wx_db = demo_world\<lparr>wd_user_extensions :=
        [\<lparr>ux_user = ''u'', ux_extension = ''polls'', ux_active = True, ux_extra = None,
          ux_permissions = [(''wallet.pay_invoice_background'', JList [JObj [(''id'', JStr ''g''), (''wallet_id'', JStr ''alice''),
             (''max_amount'', JInt 300), (''destination_policy'', JStr ''own_wallets_only'')]])]\<rparr>,
         \<lparr>ux_user = ''u'', ux_extension = ''shop'', ux_active = True, ux_extra = None, ux_permissions = []\<rparr>]\<rparr>,
      wx_installed = [\<lparr>ie_id = ''shop'', ie_active = True, ie_permissions = [], ie_limits = []\<rparr>],
      wx_store = demo_store, wx_hub = empty_hub, wx_monitor = no_monitor, wx_sent = [], wx_lnurl = [], wx_logged = []\<rparr>"

text \<open>The host of an event, without a user, and of a call by the user.\<close>

definition demo_event_api :: host_api where
  "demo_event_api = new_host_api demo_env ''polls'' demo_permissions None None ''event'' (Some ''u'') None []"

definition demo_user_api :: host_api where
  "demo_user_api = new_host_api demo_env ''polls'' demo_permissions (Some ''u'') (Some ''token'') ''user'' None None []"

definition demo_public_api :: host_api where
  "demo_public_api = new_host_api demo_env ''polls'' demo_permissions None None ''public'' None None []"

lemma with_result: "fst r = x \<Longrightarrow> r = (x, snd r)"
  by (cases r) simp

section \<open>Permissions\<close>



lemma listed_method: "am \<in> set list_extension_api_methods \<Longrightarrow> get_extension_api_method (am_id am) = Inr am"
proof -
  have "list_all (\<lambda>m. get_extension_api_method (am_id m) = Inr m) list_extension_api_methods" by code_simp
  then show "am \<in> set list_extension_api_methods \<Longrightarrow> ?thesis" by (simp add: list_all_iff)
qed

text \<open>C19: a host function does nothing for an extension that lacks what the function is registered with. If the method
  needs an authenticated context and the call has none, or needs a permission that was not granted, then the call fails,
  and apart from the count of calls the state of the server, its wallets, payments, tables, channels and the requests it
  sent, is as before, whatever the request says.\<close>

theorem host_call_needs_permission:
  assumes "require_method host_name = Inr am"
    and "(am_auth am \<and> \<not> has_authenticated_context h)
       \<or> (\<exists>p. am_permission am = Some p \<and> p \<noteq> [] \<and> p \<notin> set (permission_ids (hx_permissions h)))"
  shows "\<exists>e. host_invoke he h host_name payload s
     = (Inl e, s\<lparr>wx_monitor := snd (record_wasm_invocation_host_call (hx_invocation h) (am_id am) (wx_monitor s))\<rparr>)"
proof -
  have "am \<in> set list_extension_api_methods"
    using assms(1) by (auto simp: require_method_def split: option.splits dest!: find_SomeD)
  then have "denied h (am_id am)" using assms(2) by (auto simp: denied_def listed_method)
  from refused_invoke [OF assms(1) this, of he payload s] show ?thesis
    by (auto simp: on_monitor_def split: prod.splits)
qed

lemma host_call_needs_permission_witness:
  "\<exists>e. host_invoke demo_host demo_public_api ''storage-set'' [(''table'', JStr ''votes'')] demo_wasm
     = (Inl e, demo_wasm\<lparr>wx_monitor := snd (record_wasm_invocation_host_call None ''storage.set'' no_monitor)\<rparr>)"
proof -
  have "require_method ''storage-set'' = Inr (api_method_export ''storage.set'' ''host'' ''storage_set'' (Some ''ext.storage.write'') True)"
    by code_simp
  from host_call_needs_permission [OF this, where h = demo_public_api and he = demo_host
      and payload = "[(''table'', JStr ''votes'')]" and s = demo_wasm]
  show ?thesis
    by (simp add: demo_public_api_def new_host_api_def has_authenticated_context_def api_method_export_def demo_wasm_def)
qed

section \<open>Storage\<close>







section \<open>Limits\<close>

text \<open>C27: an extension never publishes faster than its limit. In every run of publications, connections and client messages,
  any accepted publication of an extension on a channel is at least one second, as a clock with floating point numbers
  measures it, after the one that came limit many publications before it on the same channel.\<close>

theorem publish_rate_is_bounded:
  assumes "hub_run broken limit now h hist" and "ts = publication_times ext chan hist" and "i + nat (limit ext) < length ts"
  shows "1 \<le> fsub (ts ! (i + nat (limit ext))) (ts ! i)"
  using run_remembers [OF assms(1), of ext chan] assms(2,3) by (simp add: remembers_def)

lemma publish_rate_is_bounded_witness: "1 \<le> fsub 1 0"
proof -
  let ?h1 = "snd (hub_publish (\<lambda>n. False) 0 ''polls'' ''c'' ''x'' 1 empty_hub)"
  let ?h2 = "snd (hub_publish (\<lambda>n. False) 1 ''polls'' ''c'' ''x'' 1 ?h1)"
  have a: "fst (hub_publish (\<lambda>n. False) 0 ''polls'' ''c'' ''x'' 1 empty_hub) = Inr ()"
    and b: "fst (hub_publish (\<lambda>n. False) 1 ''polls'' ''c'' ''x'' 1 ?h1) = Inr ()" by code_simp+
  have "hub_run (\<lambda>n. False) (\<lambda>e. 1) 0 ?h1 ([] @ [(0, ''polls'', ''c'')])"
    by (rule hub_run.published [OF hub_run.start with_result [OF a]])
  then have "hub_run (\<lambda>n. False) (\<lambda>e. 1) 1 ?h1 [(0, ''polls'', ''c'')]" by (auto intro: hub_run.wait)
  from this have "hub_run (\<lambda>n. False) (\<lambda>e. 1) 1 ?h2 ([(0, ''polls'', ''c'')] @ [(1, ''polls'', ''c'')])"
    by (rule hub_run.published [OF _ with_result [OF b]])
  from publish_rate_is_bounded [OF this refl, where i = 0 and ext = "''polls''" and chan = "''c''"]
  show ?thesis by (simp add: publication_times_def)
qed

text \<open>C26: host calls stay within the limits of their invocation. In every run of the monitor (invocations beginning, stopping
  and finishing in any order between calls), a call that is accepted for a registered invocation is, counted among all calls
  accepted for it, within the limit for calls, and for calls to wallets, to other servers and to the storage within theirs.\<close>

theorem host_calls_stay_within_limits:
  assumes "monitor_run days m calls"
    and "map_of (mo_handles m) i = Some h" "hd_limits h = Some l" "l \<noteq> []"
    and "record_wasm_invocation_host_call (Some i) mid m = (Inr u, k)"
  shows "(0 < limit_of l ''max_host_calls'' \<longrightarrow> calls_of i (\<lambda>_. True) (calls @ [(i, mid)]) \<le> limit_of l ''max_host_calls'')
       \<and> (0 < limit_of l ''max_wallet_calls'' \<and> is_wallet mid
            \<longrightarrow> calls_of i is_wallet (calls @ [(i, mid)]) \<le> limit_of l ''max_wallet_calls'')
       \<and> (0 < limit_of l ''max_http_calls'' \<and> is_http mid
            \<longrightarrow> calls_of i is_http (calls @ [(i, mid)]) \<le> limit_of l ''max_http_calls'')
       \<and> (0 < limit_of l ''max_storage_calls'' \<and> is_storage mid
            \<longrightarrow> calls_of i is_storage (calls @ [(i, mid)]) \<le> limit_of l ''max_storage_calls'')"
  using call_within_limits [OF assms] by blast

definition demo_invocation :: invocation where
  "demo_invocation = \<lparr>iv_id = ''i'', iv_extension = ''polls'', iv_export = ''vote'', iv_trigger = ''http'', iv_status = ''running'',
     iv_started = 0, iv_finished = None, iv_duration_ms = None, iv_user = None, iv_host_calls = 0, iv_http_calls = 0,
     iv_storage_calls = 0, iv_wallet_calls = 0, iv_response_bytes = None, iv_error_type = None, iv_error_message = None,
     iv_stop_reason = None, iv_context = []\<rparr>"

lemma host_calls_stay_within_limits_witness:
  "calls_of ''i'' is_wallet ([] @ [(''i'', ''wallet.pay_invoice'')]) \<le> 1"
proof -
  let ?l = "[(''wasm_runtime_max_wallet_calls'', 1)]"
  let ?m = "snd (register_wasm_invocation demo_invocation (Some ?l) no_monitor)"
  let ?h = "\<lparr>hd_invocation = demo_invocation, hd_attached = False, hd_limits = Some ?l, hd_stop_requested = False,
              hd_stop_reason = None\<rparr>"
  have run: "monitor_run 30 ?m []"
    by (rule monitor_run.registered [OF monitor_run.init _ _ _ _ _ _ prod.collapse [symmetric]])
      (simp_all add: demo_invocation_def)
  have h: "map_of (mo_handles ?m) ''i'' = Some ?h"
    by (simp add: register_wasm_invocation_def no_monitor_def demo_invocation_def py_unfold)
  have "fst (record_wasm_invocation_host_call (Some ''i'') ''wallet.pay_invoice'' ?m) = Inr ()" by code_simp
  then have ok: "record_wasm_invocation_host_call (Some ''i'') ''wallet.pay_invoice'' ?m
      = (Inr (), snd (record_wasm_invocation_host_call (Some ''i'') ''wallet.pay_invoice'' ?m))" by (metis prod.collapse)
  have "is_wallet ''wallet.pay_invoice''" "limit_of ?l ''max_wallet_calls'' = 1" by code_simp+
  with host_calls_stay_within_limits [OF run h _ _ ok] show ?thesis by simp
qed

section \<open>Payments and requests\<close>

lemma demo_pays: "length (wd_payments (wx_db (snd (wallet_pay_invoice demo_host demo_event_api ''alice'' ''lnh1'' None [] [] demo_wasm)))) = 3"
proof -
  let ?cfg = "demo_settings\<lparr>lnbits_service_fee_wallet := None\<rparr>" and ?d = "the (demo_decode ''lnh1'')"
  let ?db = "wx_db demo_wasm"
  let ?b = "background_payment_extra demo_env ?cfg ''polls'' alice ''lnh1'' 300000 ?db"
  have "is_ok ?b" "snd ?b = ?db" by code_simp+
  then obtain x where x: "?b = (Inr x, ?db)" using is_okD by fastforce
  have v: "\<not> lnbits_only_allow_incoming_payments ?cfg"
    "validate_payment_request demo_env ?cfg ''lnh1'' None = Inr ?d"
    "di_amount_msat ?d = Some 300000" "(0::int) < 300000"
    "check_wallet_for_payment demo_env ?cfg ''alice'' ''polls'' 300000 ?db = (Inr alice, ?db)"
    "can_send_payments alice" "\<not> is_internal_status_success (di_payment_hash ?d) ?db"
    "calculate_fiat_amounts demo_env ?cfg (idiv_float 300000 1000) alice None (merge_dict [] x) = Inr (300, merge_dict [] x)"
    "validate_external_id None = Inr None"
    by code_simp+
  have paid: "length (wd_payments (snd (pay_invoice demo_env ?cfg ''alice'' ''lnh1'' None (merge_dict [] x) [] ''polls'' [] None ?db))) = 3"
    unfolding pay_invoice_run [OF v] by code_simp
  have am: "get_extension_api_method ''wallet.pay_invoice'' = Inr (api_method_export ''wallet.pay_invoice'' ''host'' ''pay_invoice'' None True)"
    by code_simp
  have g: "get_wallet demo_env ?cfg ''alice'' (Some False) ?db = (Inr (Some alice), ?db)" by code_simp
  have p: "WALLET_PAY_INVOICE_BACKGROUND_PERMISSION \<in> set (permission_ids demo_permissions)"
    and a: "invoice_amount_msat demo_env ''lnh1'' = Inr 300000" by code_simp+
  obtain r db where r: "pay_invoice demo_env ?cfg ''alice'' ''lnh1'' None (merge_dict [] x) [] ''polls'' [] None ?db = (r, db)"
    by fastforce
  have pb: "pay_in_background demo_host demo_event_api alice ''alice'' ''lnh1'' None [] [] demo_wasm = (r, demo_wasm\<lparr>wx_db := db\<rparr>)"
    using p x r by (simp add: pay_in_background_def require_permission_def thenP_failIf on_db_def demo_event_api_def
        new_host_api_def demo_host_def bindP_def liftE_def a)
  have w: "wallet_pay_invoice demo_host demo_event_api ''alice'' ''lnh1'' None [] [] demo_wasm
      = answering_refusals False (bindP (pay_in_background demo_host demo_event_api alice ''alice'' ''lnh1'' None [] [])
          (\<lambda>p. ret (pay_invoice_response p))) demo_wasm"
    unfolding wallet_pay_invoice_def guarded_def am
    using g by (simp add: api_method_export_def require_permission_def thenP_failIf on_db_def demo_event_api_def
        new_host_api_def demo_host_def bindP_def liftE_def has_authenticated_context_def truthy_def)
  show ?thesis using paid unfolding w
    by (cases r) (simp_all add: answering_refusals_def tryP_def bindP_def pb r ret_def throw_def)
qed




definition demo_http_request :: http_request where
  "demo_http_request = \<lparr>hq_method = ''GET'', hq_url = ''https://api.example/rate'', hq_headers = [(''Host'', ''x'')], hq_body = None\<rparr>"

definition demo_extension_request :: extension_request where
  "demo_extension_request = \<lparr>eq_extension_id = ''shop'', eq_method = ''GET'', eq_path = ''/api/v1'', eq_body = None\<rparr>"

lemma demo_user_facts: "has_authenticated_context demo_user_api" "hx_permissions demo_user_api = demo_permissions" "hx_limits demo_user_api = []"
  "hx_user demo_user_api = Some ''u''" "hx_token demo_user_api = Some ''token''"
  by (simp_all add: demo_user_api_def new_host_api_def has_authenticated_context_def truthy_def)

lemma demo_http_sent: "outbound_since demo_wasm (snd (host_http_request demo_host demo_user_api demo_http_request demo_wasm))
  = [\<lparr>ob_verb = ''GET'', ob_url = ''https://api.example/rate'', ob_headers = [], ob_body = []\<rparr>]"
proof -
  have am: "get_extension_api_method ''http.request'' = Inr (api_method_export ''http.request'' ''host'' ''http_request'' (Some ''http.request'') True)"
    by code_simp
  have p: "wb_urlparse demo_web = demo_urlparse" "he_web demo_host = demo_web" by (simp_all add: demo_web_def demo_host_def)
  have f: "allowed_origins demo_urlparse (policy_list (policies_of demo_user_api ''http.request'')) = Inr [''https://api.example'']"
    "reject_internal_host demo_web ''https://api.example/rate'' = Inr ()"
    "request_origin demo_urlparse ''https://api.example/rate'' = Inr ''https://api.example''"
    "clean_request_headers [(''Host'', ''x'')] = []"
    "''http.request'' \<in> set (permission_ids demo_permissions)"
    by code_simp+
  show ?thesis
    unfolding host_http_request_def guarded_def am
    using f
    by (simp add: api_method_export_def require_permission_def thenP_failIf demo_user_facts p bindP_def liftE_def demo_http_request_def
        send_extension_http_request_def outbound_since_def exchange_sends body_bytes_def)
qed

lemma demo_extension_sent: "outbound_since demo_wasm (snd (host_extension_api_request demo_host demo_user_api demo_extension_request demo_wasm))
  = [\<lparr>ob_verb = ''GET'', ob_url = ''http://127.0.0.1:5000/shop/api/v1'', ob_headers = [(''Authorization'', ''Bearer token'')],
             ob_body = []\<rparr>]"
proof -
  have am: "get_extension_api_method ''extension.api.request'' = Inr (api_method_export ''extension.api.request'' ''host'' ''extension_api_request'' (Some ''extension.api.request'') True)"
    by code_simp
  have p: "wb_base demo_web = ''http://127.0.0.1:5000''" "he_web demo_host = demo_web" by (simp_all add: demo_web_def demo_host_def)
  have f: "target_extension_id ''shop'' = Inr ''shop''"
    "target_extension_access (policy_list (policies_of demo_user_api ''extension.api.request'')) ''shop'' = Inr [''read'']"
    "extension_api_path demo_web ''/api/v1'' = Inr ''/api/v1''"
    "require_method_access [''read''] ''GET'' = Inr ()"
    "''extension.api.request'' \<in> set (permission_ids demo_permissions)"
    by code_simp+
  have enabled: "fst (require_enabled_extension ''shop'' ''u'' demo_wasm) = Inr ()" by code_simp
  have en: "require_enabled_extension ''shop'' ''u'' demo_wasm = (Inr (), demo_wasm)"
    using enabled require_enabled_run [of "''shop''" "''u''" demo_wasm] by (auto split: if_splits)
  show ?thesis
    unfolding host_extension_api_request_def guarded_def am
    using f
    by (simp add: api_method_export_def require_permission_def thenP_failIf demo_user_facts p bindP_def liftE_def demo_extension_request_def
        send_extension_api_request_def outbound_since_def exchange_sends body_bytes_def truthy_def thenP_eq_Inr [where m = "require_enabled_extension ''shop'' ''u''", OF en])
qed


section \<open>LNURL services\<close>

text \<open>C22: the server cannot be made to call internal addresses over LNURL. Whatever a code, a callback or a redirect of a
  service says, each request that paying a link, scanning a code, logging in or paying over NFC sends goes either to an
  address that was checked to be global, when private addresses are not allowed, or through the proxy to an onion name.\<close>

theorem lnurl_targets_are_checked:
  "sent_within L s (snd (api_payments_pay_lnurl ev cfg L d w s))
   \<and> sent_within L s (snd (api_lnurlscan L code s))
   \<and> sent_within L s (snd (api_perform_lnurlauth L a w s))
   \<and> sent_within L s (snd (api_payment_pay_with_nfc ev L payment_request lud17 s))
   \<and> sent_within L s (snd (perform_withdraw ev L code payment_request s))"
  by (simp add: keepsD [OF keeps_pay_lnurl] keepsD [OF keeps_scan] keepsD [OF keeps_auth] keepsD [OF keeps_nfc]
      keepsD [OF keeps_perform_withdraw])

text \<open>C28: fetching from a service ends after at most three redirects, however the service answers: when a name resolves to at
  most k addresses, at most 4 k requests are sent.\<close>

theorem lnurl_requests_end:
  assumes "resolver_bound L k"
  shows "length (snd (snd (request_lnurl_json L url tor params s))) \<le> length (snd s) + 4 * k"
proof -
  have "adds (4 * k) (request_lnurl_json L url tor params)"
    using follow_count [OF assms, of 3 tor] by (auto simp: request_lnurl_json_def adds_pure split: option.split)
  from addsD [OF this] show ?thesis .
qed

lemma lnurl_requests_end_witness:
  "length (snd (snd (request_lnurl_json demo_lnurl ''https://api.example/rate'' None [] (demo_world, [])))) \<le> 4"
  using lnurl_requests_end [of demo_lnurl 1 "''https://api.example/rate''" None "[]" "(demo_world, [])"]
  by (simp add: resolver_bound_def demo_lnurl_def)

text \<open>C23: an invoice that is fetched for a pay link is the one that was asked for. It decodes to exactly the requested amount,
  converted when it was given in another currency, and that amount is within the limits of the link.\<close>

theorem fetched_invoice_has_asked_amount:
  assumes "fetch_lnurl_pay_request ev L d w s = (Inr (res, action), t)"
  shows "\<exists>msat invoice. pay_amount_msat ev d = Inr msat \<and> py_min res \<le> msat \<and> msat \<le> py_max res
     \<and> e_decode ev (pa_pr action) = Some invoice \<and> di_amount_msat invoice = Some msat"
  by (rule fetch_amount [OF assms])

definition demo_link :: create_lnurl_payment where
  "demo_link = \<lparr>cl_res = Some \<lparr>py_callback = ''https://api.example/rate'', py_min = 1, py_max = 1000000, py_comment = 0,
     py_text = ''tea'', py_metadata = []\<rparr>, cl_lnurl = None, cl_amount = 300000, cl_comment = None, cl_unit = None\<rparr>"

lemma demo_answer: "fst (request_lnurl_json demo_lnurl ''https://api.example/rate'' None ps (demo_world, [])) = Inr []"
proof -
  let ?q = "lnurl_request_to demo_lnurl ''https://api.example/rate'' (Some ''93.184.216.34'') None"
  have v: "validate_lnurl_request_url demo_lnurl ''https://api.example/rate'' None = Inr ([''93.184.216.34''], None)"
    by code_simp
  have l: "ll_url demo_lnurl u = Some u" "ll_merge demo_lnurl u ps = u" "ll_loads demo_lnurl c = Some (JObj [])"
    "ll_fetch demo_lnurl q = Some \<lparr>lr_status = 200, lr_location = None, lr_chunks = []\<rparr>" for u c q
    by (simp_all add: demo_lnurl_def)
  show ?thesis
    by (simp add: request_lnurl_json_def l follow_lnurl.simps v send_lnurl_request_def truthy_def is_redirect_def
        bindP_def thenP_def py_unfold)
qed

lemma fetched_invoice_has_asked_amount_witness:
  "\<exists>invoice. e_decode demo_env ''lnh2'' = Some invoice \<and> di_amount_msat invoice = Some 300000"
proof -
  let ?f = "fetch_lnurl_pay_request demo_env demo_lnurl demo_link None (demo_world, [])"
  let ?a = "\<lparr>pa_pr = ''lnh2'', pa_disposable = None, pa_success_action = None\<rparr>"
  have a: "pay_amount_msat demo_env demo_link = Inr 300000" "e_decode demo_env ''lnh2'' \<noteq> None"
    "di_amount_msat (the (e_decode demo_env ''lnh2'')) = Some 300000" by code_simp+
  obtain t where r: "request_lnurl_json demo_lnurl ''https://api.example/rate'' None [(''amount'', str_int 300000)] (demo_world, [])
      = (Inr [], t)"
    using with_result [OF demo_answer] by blast
  have "ll_from_dict demo_lnurl [] = Some (LAction ?a)" by (simp add: demo_lnurl_def)
  with a r have "fst ?f = Inr (the (cl_res demo_link), ?a)"
    by (auto simp: fetch_lnurl_pay_request_def resolve_pay_link_def demo_link_def execute_pay_request_def lnurl_get_def bindP_def
        thenP_def py_unfold)
  from fetched_invoice_has_asked_amount [OF with_result [OF this]] a show ?thesis by simp
qed

end
