(* ===== verification/Spec2Isabelle.thy ===== *)
theory Spec2Isabelle
  imports PaymentProperties InvoiceProperties SharingProperties AccessProperties KeyCacheProperties
    AccountProperties SettingsProperties PollingProperties PaymentApiProperties CallbackProperties
    TaskProperties ElectrumProperties Crypto BackendProperties WasmProperties
begin

text \<open>
  A verification library for LNbits, a multi-user wallet server on top of one Lightning node.

  \<^bold>\<open>The program.\<close> Users own wallets; a wallet has an administration key and an invoice key. A wallet
  has no stored balance: its balance is the sum of the rows of the payments table that count
  (\<open>core/models/payments.py\<close>, the view \<open>balances\<close> of \<open>core/migrations.py\<close>). The services
  (\<open>core/services/payments.py\<close>) create invoices, pay them internally by booking rows or externally through
  the funding source (\<open>wallets/base.py\<close> and one class per back end), and bring pending rows up to date from
  background tasks (\<open>task_manager.py\<close>). The web layer (\<open>core/views\<close>) identifies the caller by a key or a
  session (\<open>decorators.py\<close>), checks limits and calls the services. The settings (\<open>settings.py\<close>), the cache
  (\<open>utils/cache.py\<close>), exchange rates, lightning addresses, wallet sharing, a block explorer client
  (\<open>utils/electrum.py\<close>) and the fiat providers hang off these.

  \<^bold>\<open>How it is modelled.\<close> A Python function that may change state and may raise is a function of the state
  monad \<open>py\<close> of \<open>Prelude\<close>: it returns \<open>Inl\<close> an exception or \<open>Inr\<close> a result together with the new state, so
  that what ran before an exception stays done. The state of the server is the record \<open>world\<close> of \<open>Tables\<close>:
  the tables as lists of rows in table order, the funding source's record of requests, the caches and the
  notifications sent. Code that is not part of the repository (bolt11 and LNURL decoding, bcrypt, HMAC, AES,
  hash functions, regular expressions of the \<open>re\<close> module, JSON parsing, \<open>urlparse\<close>, name resolution, the \<open>lnurl\<close>
  package, the external node, fiat and exchange rate providers) is a field of the record \<open>env\<close> or a parameter. Amounts are Python integers and so are \<open>int\<close>;
  the floating point numbers that touch money are modelled as IEEE doubles in \<open>PyFloat\<close>; 32 bit fields are
  words. Times are integer seconds. Every raise is a branch.

  \<^bold>\<open>The theories.\<close>
  \<^item> \<open>Prelude\<close> (exceptions, the monad and its rules), \<open>PyStrings\<close>, \<open>PyBytes\<close> (hexadecimal, base64, UTF-8,
    \<open>struct\<close>), \<open>PyFloat\<close> (rounding, \<open>int\<close>, \<open>round\<close>, \<open>Decimal\<close>).
  \<^item> Data: \<open>Settings\<close>, \<open>WalletModel\<close>, \<open>PaymentModel\<close>, \<open>UserModel\<close>, \<open>FundingSource\<close>, \<open>Cache\<close>. The last also
    holds the locale for tables with a primary key, interpreted in \<open>Tables\<close> and \<open>PaymentTables\<close> for every table.
  \<^item> Storage: \<open>Tables\<close> (\<open>core/crud\<close> for wallets, users and user extensions), \<open>PaymentTables\<close>
    (\<open>core/crud/payments.py\<close>).
  \<^item> Services: \<open>PaymentFees\<close> (fees and exchange rates), \<open>PayService\<close> (paying), \<open>InvoiceService\<close> (invoices, pending
    checks), \<open>FiatService\<close>, \<open>LightningAddress\<close>, \<open>WalletSharing\<close>, \<open>Users\<close>, \<open>LnurlService\<close> with \<open>LnurlFacts\<close>
    (\<open>core/services/lnurl.py\<close>, \<open>core/views/lnurl_api.py\<close>).
  \<^item> Web layer: \<open>AccessControl\<close> (\<open>decorators.py\<close>), \<open>AuthApi\<close>, \<open>UserApi\<close> (users and wallets), \<open>PaymentApi\<close>.
  \<^item> Background: \<open>TaskManager\<close>, \<open>Electrum\<close>, and \<open>ServerSteps\<close> / \<open>ServerRuns\<close>, where every operation that
    writes payments is one step of the server and the runs are the reachable states.
  \<^item> Funding sources: \<open>Backend\<close> (the node behind a client, JSON answers, web addresses), \<open>BackendContract\<close> (the
    locale a client is proved against), \<open>LnbitsBackends\<close>, \<open>HostedBackends\<close>, \<open>AcinqBackends\<close>, \<open>SparkBackend\<close>,
    \<open>ClnRestBackends\<close>, \<open>LndRestBackend\<close> (one group of definitions per file of \<open>wallets\<close>) and \<open>FundingSources\<close>,
    which puts them together and interprets the locale.
  \<^item> Fiat: \<open>FiatBase\<close>, \<open>StripeProvider\<close>, \<open>PayPalProvider\<close>, \<open>SquareProvider\<close>, \<open>RevolutProvider\<close> (\<open>fiat\<close>),
    \<open>Webhooks\<close> and \<open>CallbackApi\<close> (\<open>core/views/callback_api.py\<close>), \<open>CallbackSafety\<close>.
  \<^item> Web assembly extensions (\<open>core/wasm_ext\<close>): \<open>WasmPermissions\<close> and \<open>WasmGrants\<close> (what is asked for, granted and
    used), \<open>WasmStorage\<close>, \<open>WasmStorageFacts\<close> and \<open>WasmMigrations\<close> (their tables), \<open>WasmSockets\<close> (the web socket
    hub), \<open>WasmInvocations\<close> (\<open>core/services/extensions.py\<close>: limits and monitoring), \<open>WasmClients\<close> (their requests),
    \<open>WasmHost\<close> and \<open>WasmRuntime\<close> (every function the host offers and the call that dispatches to them),
    \<open>WasmHostFacts\<close> (what all of them keep).
  \<^item> Others: \<open>Crypto\<close> (\<open>utils/crypto.py\<close> and macaroons).
  \<^item> \<open>Ledger\<close> is the abstract specification: the sums of the rows per wallet; \<open>PaymentAccounting\<close> proves what
    each service does to it. \<open>Demo\<close> holds a small concrete server on which the witnesses run.
  \<^item> The files named \<open>\<dots>Properties\<close> hold the properties, each a few steps over the lemmas of its component. Books,
    limits and the sending of payments are in \<open>PaymentProperties\<close> and \<open>InvoiceProperties\<close>, the decisions of funding
    sources in \<open>BackendProperties\<close>, web hooks in \<open>CallbackProperties\<close>, callers and keys in \<open>AccessProperties\<close>,
    \<open>KeyCacheProperties\<close>, \<open>AccountProperties\<close>, \<open>PaymentApiProperties\<close> and \<open>SharingProperties\<close>, queues in
    \<open>TaskProperties\<close>, \<open>PollingProperties\<close> and \<open>ElectrumProperties\<close>, extensions and LNURL in \<open>WasmProperties\<close>.

  \<^bold>\<open>Bounds and fuel.\<close> A fresh lightning address is tried as often as the source tries (a hundred times); the
  polling loop of \<open>wallets/base.py\<close> is one function per round and its liveness property gives the number of
  rounds; the loop of the key derivation runs by its own measure, \<open>_heart_beat\<close> by the distance of its iterator
  from the end of the list, an LNURL request by the three redirects the source allows. No result depends on a fuel that could run out.

  \<^bold>\<open>Not modelled.\<close> Rendering, HTTP plumbing, the extension manager's archives and imports, running a web assembly
  module and registering its routes, node management, generated code, funding sources over web sockets, gRPC and
  vendor packages, and the sockets under the clients. Stripping markup from bound values (\<open>db.py\<close>) is modelled for
  the storage of extensions only, which is that of SQLite. Operations that hold the wallet lock are atomic steps; interleavings are
  those of whole steps, with the funding source's answer chosen by the environment at each of them.
\<close>

end
